(* ===== verification/Prelude.thy ===== *)
theory Prelude
  imports
    Main
    "HOL-Library.Finite_Map"
    "HOL-Library.Char_ord"
    "HOL-Library.List_Lexorder"
    "HOL-Library.Multiset"
    "HOL-Library.Word"
begin

text \<open>
  Shared vocabulary of the development: the result type of fallible Rust functions, the
  listing of a hash map's values, the named collections of simplification rules and the
  generic lemmas about finite maps that the component theories rely on.
\<close>

section \<open>Named collections\<close>

named_theorems outcome_simps \<open>unfolding of the operations on outcomes\<close>
named_theorems str_len \<open>length bounds of the string operations\<close>
named_theorems store_ops \<open>definitions of the graph store's operations\<close>
named_theorems fs_ops \<open>definitions of the file system primitives\<close>

section \<open>Results of fallible code\<close>

text \<open>
  A Rust function that returns \<^verbatim>\<open>Result<T, E>\<close> either returns \<^verbatim>\<open>Ok\<close>, returns \<^verbatim>\<open>Err\<close>, or
  panics (a slice out of range, an index off a character boundary). All three are values of the
  model, so that a panic is never mistaken for an ordinary error.
\<close>

datatype ('a, 'e) outcome = Ok 'a | Err 'e | Panic

definition and_then :: "('a, 'e) outcome \<Rightarrow> ('a \<Rightarrow> ('b, 'e) outcome) \<Rightarrow> ('b, 'e) outcome" where
  "and_then m f = (case m of Ok x \<Rightarrow> f x | Err e \<Rightarrow> Err e | Panic \<Rightarrow> Panic)"

definition ok_or :: "'a option \<Rightarrow> 'e \<Rightarrow> ('a, 'e) outcome" where
  "ok_or x e = (case x of Some v \<Rightarrow> Ok v | None \<Rightarrow> Err e)"

definition map_ok :: "('a \<Rightarrow> 'b) \<Rightarrow> ('a, 'e) outcome \<Rightarrow> ('b, 'e) outcome" where
  "map_ok f m = and_then m (\<lambda>x. Ok (f x))"

definition map_err :: "('e \<Rightarrow> 'f) \<Rightarrow> ('a, 'e) outcome \<Rightarrow> ('a, 'f) outcome" where
  "map_err g r = (case r of Ok x \<Rightarrow> Ok x | Err e \<Rightarrow> Err (g e) | Panic \<Rightarrow> Panic)"

text \<open>\<^verbatim>\<open>iter().map(f).collect::<Result<Vec<_>, _>>()\<close>: stops at the first failure.\<close>

fun traverse :: "('a \<Rightarrow> ('b, 'e) outcome) \<Rightarrow> 'a list \<Rightarrow> ('b list, 'e) outcome" where
  "traverse f [] = Ok []"
| "traverse f (x # xs) = and_then (f x) (\<lambda>y. and_then (traverse f xs) (\<lambda>ys. Ok (y # ys)))"

lemma and_then_simps [simp]:
  "and_then (Ok x) f = f x"
  "and_then (Err e) f = Err e"
  "and_then Panic f = Panic"
  by (simp_all add: and_then_def)

lemma and_then_eq_Ok [simp]:
  "and_then m f = Ok y \<longleftrightarrow> (\<exists>x. m = Ok x \<and> f x = Ok y)"
  by (cases m) auto

lemma map_err_simps [simp]:
  "map_err g (Ok x) = Ok x" "map_err g (Err e) = Err (g e)" "map_err g Panic = Panic"
  by (simp_all add: map_err_def)

lemma and_then_cong [fundef_cong]:
  "m = m' \<Longrightarrow> (\<And>x. m' = Ok x \<Longrightarrow> f x = f' x) \<Longrightarrow> and_then m f = and_then m' f'"
  by (cases m') auto

lemma and_then_eq_Panic:
  "and_then m f = Panic \<longleftrightarrow> m = Panic \<or> (\<exists>x. m = Ok x \<and> f x = Panic)"
  by (cases m) auto

lemma ok_or_simps [simp]:
  "ok_or (Some v) e = Ok v"
  "ok_or None e = Err e"
  by (simp_all add: ok_or_def)

lemma ok_or_eq_Ok [simp]: "ok_or x e = Ok v \<longleftrightarrow> x = Some v"
  by (cases x) auto

lemma ok_or_not_Panic [simp]: "ok_or x e \<noteq> Panic"
  by (cases x) auto

lemma map_ok_eq_Ok [simp]: "map_ok f m = Ok y \<longleftrightarrow> (\<exists>x. m = Ok x \<and> y = f x)"
  by (auto simp: map_ok_def)

lemma traverse_not_Panic:
  "(\<And>x. x \<in> set xs \<Longrightarrow> f x \<noteq> Panic) \<Longrightarrow> traverse f xs \<noteq> Panic"
  by (induction xs) (auto simp: and_then_eq_Panic)

lemma traverse_length: "traverse f xs = Ok ys \<Longrightarrow> length ys = length xs"
  by (induction xs arbitrary: ys) auto

section \<open>Hash maps\<close>

text \<open>
  A \<^verbatim>\<open>HashMap<K, V>\<close> is a finite map. \<open>fmvalues\<close> lists its values in key order; code whose
  result depends on the iteration order of the hash map takes a reordering of that list as a
  parameter, constrained by \<open>iteration_order\<close> only.
\<close>

definition fmvalues :: "('k::linorder, 'v) fmap \<Rightarrow> 'v list" where
  "fmvalues m = map snd (sorted_list_of_fmap m)"

definition fmcount :: "('k, 'v) fmap \<Rightarrow> nat" where
  "fmcount m = fcard (fmdom m)"

definition iteration_order :: "('a list \<Rightarrow> 'a list) \<Rightarrow> bool" where
  "iteration_order it \<longleftrightarrow> (\<forall>xs. mset (it xs) = mset xs)"

lemma iteration_order_id: "iteration_order (\<lambda>xs. xs)"
  by (simp add: iteration_order_def)

lemma iteration_order_rev: "iteration_order rev"
  by (simp add: iteration_order_def)

lemma iteration_order_set [simp]: "iteration_order it \<Longrightarrow> set (it xs) = set xs"
  by (metis iteration_order_def mset_eq_setD)

lemma map_fst_sorted_list_of_fmap:
  "map fst (sorted_list_of_fmap m) = sorted_list_of_fset (fmdom m)"
  by (simp add: sorted_list_of_fmap_def comp_def)

lemma set_sorted_list_of_fmap:
  "(k, v) \<in> set (sorted_list_of_fmap m) \<longleftrightarrow> fmlookup m k = Some v"
  by (force simp: sorted_list_of_fmap_def fmlookup_dom_iff)

lemma set_fmvalues [simp]: "set (fmvalues m) = fmran' m"
proof -
  have "v \<in> set (fmvalues m) \<longleftrightarrow> (\<exists>k. (k, v) \<in> set (sorted_list_of_fmap m))" for v
    by (force simp: fmvalues_def image_iff)
  then show ?thesis by (auto simp: set_sorted_list_of_fmap fmlookup_ran'_iff)
qed

lemma ball_fmran': "(\<forall>v \<in> fmran' m. P v) \<longleftrightarrow> fmpred (\<lambda>_. P) m"
  by (auto simp: Ball_def fmlookup_ran'_iff fmpred_iff)

lemma length_fmvalues [simp]: "length (fmvalues m) = fmcount m"
  by (simp add: fmvalues_def sorted_list_of_fmap_def fmcount_def sorted_list_of_fset.rep_eq
      fcard.rep_eq)

lemma fmvalues_keyed:
  assumes "\<And>k v. fmlookup m k = Some v \<Longrightarrow> key v = k"
  shows "map key (fmvalues m) = sorted_list_of_fset (fmdom m)"
proof -
  have "map key (fmvalues m) = map fst (sorted_list_of_fmap m)"
    using assms by (auto simp: fmvalues_def set_sorted_list_of_fmap)
  then show ?thesis by (simp add: map_fst_sorted_list_of_fmap)
qed

lemma sorted_list_of_fset_strict: "sorted_wrt (<) (sorted_list_of_fset S)"
  by (simp add: sorted_list_of_fset.rep_eq strict_sorted_list_of_set)

lemma fmran'_upd_new:
  assumes "fmlookup m k = None"
  shows "fmran' (fmupd k v m) = insert v (fmran' m)"
proof (rule set_eqI)
  fix x
  have "x \<in> fmran' (fmupd k v m) \<longleftrightarrow> x = v \<or> (\<exists>i. i \<noteq> k \<and> fmlookup m i = Some x)"
    by (auto simp: fmlookup_ran'_iff)
  also have "(\<exists>i. i \<noteq> k \<and> fmlookup m i = Some x) \<longleftrightarrow> x \<in> fmran' m"
    using assms unfolding fmlookup_ran'_iff by (metis option.distinct(1))
  finally show "x \<in> fmran' (fmupd k v m) \<longleftrightarrow> x \<in> insert v (fmran' m)" by simp
qed

lemma fmcount_upd_new: "fmlookup m k = None \<Longrightarrow> fmcount (fmupd k v m) = Suc (fmcount m)"
  by (simp add: fmcount_def fmdom_notI fcard_finsert_disjoint)

lemma fmcount_upd_old: "fmlookup m k = Some w \<Longrightarrow> fmcount (fmupd k v m) = fmcount m"
  by (simp add: fmcount_def fmdomI finsert_absorb)

end
