(* ===== verification/Contracts.thy ===== *)
theory Contracts
  imports Rust_Str
begin

text \<open>
  The contract documents of \<^verbatim>\<open>contracts.rs\<close>: their record types, the documents that are
  compiled into the program (\<^verbatim>\<open>include_str!\<close> of files under \<^verbatim>\<open>spec/\<close>) as constants, and the
  resolution of TCK selectors.
\<close>

section \<open>Documents\<close>

definition TYPEMAP_SPEC_ID :: string where "TYPEMAP_SPEC_ID = ''AGDB-TYPEMAP-P0@1.0.0''"
definition CYPHER_SPEC_ID :: string where "CYPHER_SPEC_ID = ''AGDB-CYPHER-P0-GRAMMAR@1.0.0''"
definition ERROR_SPEC_ID :: string where "ERROR_SPEC_ID = ''AGDB-ERROR-CODES@1.0.0''"
definition OPENCYPHER9_SPEC_ID :: string where
  "OPENCYPHER9_SPEC_ID = ''AGDB-CYPHER-OPENCYPHER9@1.0.0''"
definition NEO4J_COMPAT_SPEC_ID :: string where
  "NEO4J_COMPAT_SPEC_ID = ''agdb-cypher-neo4j-compat.v1.0.0''"
definition APOC_MANIFEST_ID :: string where "APOC_MANIFEST_ID = ''apoc-procedure-manifest''"

record type_mapping =
  canonical :: string
  node_type :: string
  python_type :: string
  lossless :: bool

record type_map_spec =
  tm_spec_id :: string
  protocol_versions :: "string list"
  canonical_type_system_versions :: "string list"
  mappings :: "type_mapping list"

record cypher_p0_grammar_spec =
  cg_spec_id :: string
  read_only_clauses :: "string list"
  write_clauses :: "string list"
  unsupported_behavior :: string

record error_code_entry =
  ee_code :: string
  ee_category :: string
  ee_description :: string

record error_code_spec =
  es_spec_id :: string
  es_codes :: "error_code_entry list"

record tck_required_id =
  tck_id :: string
  upstream_file :: string
  upstream_scenario :: string

record tck_selector_entry =
  se_tck_id :: string
  selector :: string

record opencypher9_tck_required_spec =
  oc_version :: string
  oc_spec_id :: string
  snapshot_ref :: string
  required_tck_ids :: "tck_required_id list"
  tck_selector_map :: "tck_selector_entry list"

record apoc_procedure =
  ap_name :: string
  side_effect :: bool
  failure_codes :: "string list"

record apoc_procedure_manifest =
  am_version :: string
  am_id :: string
  am_status :: string
  id_semantics :: string
  allowed_procedures :: "apoc_procedure list"
  unlisted_procedure :: string
  partial_execution_forbidden :: bool

record neo4j_compat_feature_entry =
  feature_id :: string
  clause :: string
  status :: string
  covers_req :: "string list"
  covers_acceptance :: "string list"

record neo4j_compat_manifest_spec =
  manifest_id :: string
  baseline_mode :: string
  n4_snapshot_ref :: string
  required_feature_count :: nat
  classified_feature_count :: nat
  features :: "neo4j_compat_feature_entry list"

section \<open>The compiled-in documents\<close>

definition load_typemap_spec :: type_map_spec where
  "load_typemap_spec =
     \<lparr>tm_spec_id = ''AGDB-TYPEMAP-P0@1.0.0'',
      protocol_versions = [''protocol-p0@1.0.0''],
      canonical_type_system_versions = [''canonical-types@1.0.0''],
      mappings =
       [\<lparr>canonical = ''string'', node_type = ''string'', python_type = ''str'', lossless = True\<rparr>,
        \<lparr>canonical = ''int64'', node_type = ''bigint'', python_type = ''int'', lossless = True\<rparr>,
        \<lparr>canonical = ''float64'', node_type = ''number'', python_type = ''float'', lossless = False\<rparr>,
        \<lparr>canonical = ''boolean'', node_type = ''boolean'', python_type = ''bool'', lossless = True\<rparr>,
        \<lparr>canonical = ''bytes'', node_type = ''base64-string'', python_type = ''bytes'', lossless = False\<rparr>]\<rparr>"

definition load_cypher_p0_grammar_spec :: cypher_p0_grammar_spec where
  "load_cypher_p0_grammar_spec =
     \<lparr>cg_spec_id = ''AGDB-CYPHER-P0-GRAMMAR@1.0.0'',
      read_only_clauses = [''MATCH'', ''WHERE'', ''RETURN''],
      write_clauses = [''CREATE'', ''MERGE'', ''DELETE'', ''SET''],
      unsupported_behavior = ''UNSUPPORTED_FEATURE''\<rparr>"

definition load_error_code_spec :: error_code_spec where
  "load_error_code_spec =
     \<lparr>es_spec_id = ''AGDB-ERROR-CODES@1.0.0'',
      es_codes =
       [\<lparr>ee_code = ''PROTOCOL_VERSION_MISMATCH'', ee_category = ''protocol'',
         ee_description = ''Client protocol/canonical type version does not match supported contract.''\<rparr>,
        \<lparr>ee_code = ''UNSUPPORTED_FEATURE'', ee_category = ''query'',
         ee_description = ''Query contains clause outside AGDB-CYPHER-P0-GRAMMAR@1.0.0.''\<rparr>,
        \<lparr>ee_code = ''RETRYABLE_CONFLICT'', ee_category = ''transaction'',
         ee_description = ''Transaction conflict detected under serializable isolation.''\<rparr>,
        \<lparr>ee_code = ''WRITE_LOCK_CONFLICT'', ee_category = ''storage'',
         ee_description = ''Write lock already held by another process for the same DB file.''\<rparr>,
        \<lparr>ee_code = ''INCOMPATIBLE_FORMAT'', ee_category = ''storage'',
         ee_description = ''Database file format version is not compatible with current runtime.''\<rparr>,
        \<lparr>ee_code = ''AUTH_REQUIRED'', ee_category = ''auth'',
         ee_description = ''Authentication is required before executing requests.''\<rparr>,
        \<lparr>ee_code = ''AUTH_FAILED'', ee_category = ''auth'',
         ee_description = ''Authentication failed due to signature/claims/policy validation.''\<rparr>,
        \<lparr>ee_code = ''REFERENTIAL_INTEGRITY_VIOLATION'', ee_category = ''integrity'',
         ee_description = ''Node delete/update violates edge referential integrity constraints.''\<rparr>,
        \<lparr>ee_code = ''INVALID_ARGUMENT'', ee_category = ''validation'',
         ee_description = ''One or more request arguments are invalid.''\<rparr>,
        \<lparr>ee_code = ''INVALID_TOP_K'', ee_category = ''validation'',
         ee_description = ''topK must be an integer greater than 0.''\<rparr>,
        \<lparr>ee_code = ''INVALID_THRESHOLD'', ee_category = ''validation'',
         ee_description = ''threshold must be within [0.0, 1.0].''\<rparr>,
        \<lparr>ee_code = ''INVALID_CORPUS_ID'', ee_category = ''validation'',
         ee_description = ''corpusId is missing or malformed.''\<rparr>,
        \<lparr>ee_code = ''INVALID_NAMESPACE'', ee_category = ''validation'',
         ee_description = ''namespace is missing or malformed.''\<rparr>]\<rparr>"

definition load_apoc_procedure_manifest :: apoc_procedure_manifest where
  "load_apoc_procedure_manifest =
     \<lparr>am_version = ''1.0.0'',
      am_id = ''apoc-procedure-manifest'',
      am_status = ''stable'',
      id_semantics = ''procedure_id_equals_name'',
      allowed_procedures =
       [\<lparr>ap_name = ''apoc.meta.schema'', side_effect = False,
         failure_codes = [''REQUEST_EXECUTION_FAILED'', ''UNSUPPORTED_FEATURE'']\<rparr>,
        \<lparr>ap_name = ''apoc.coll.toSet'', side_effect = False,
         failure_codes = [''REQUEST_EXECUTION_FAILED'', ''UNSUPPORTED_FEATURE'']\<rparr>,
        \<lparr>ap_name = ''apoc.text.join'', side_effect = False,
         failure_codes = [''REQUEST_EXECUTION_FAILED'', ''UNSUPPORTED_FEATURE'']\<rparr>,
        \<lparr>ap_name = ''apoc.refactor.rename.label'', side_effect = True,
         failure_codes = [''REQUEST_EXECUTION_FAILED'', ''UNSUPPORTED_FEATURE'', ''RETRYABLE_CONFLICT'']\<rparr>],
      unlisted_procedure = ''UNSUPPORTED_FEATURE'',
      partial_execution_forbidden = True\<rparr>"

definition load_neo4j_compat_manifest :: neo4j_compat_manifest_spec where
  "load_neo4j_compat_manifest =
     \<lparr>manifest_id = ''agdb-cypher-neo4j-compat.v1.0.0'',
      baseline_mode = ''closed_world'',
      n4_snapshot_ref = ''4f9c2d6a7b8e1f0c2a4d6e7f8b9c0d1e2f3a4b5c'',
      required_feature_count = 21,
      classified_feature_count = 26,
      features =
       [\<lparr>feature_id = ''MATCH'', clause = ''MATCH'', status = ''required'',
         covers_req = [''REQ-AGDB-024''], covers_acceptance = [''CYPHER-NEO4J-001'']\<rparr>,
        \<lparr>feature_id = ''OPTIONAL_MATCH'', clause = ''OPTIONAL MATCH'', status = ''required'',
         covers_req = [''REQ-AGDB-024''], covers_acceptance = [''CYPHER-NEO4J-002'']\<rparr>,
        \<lparr>feature_id = ''WHERE'', clause = ''WHERE'', status = ''required'',
         covers_req = [''REQ-AGDB-024''], covers_acceptance = [''CYPHER-NEO4J-003'']\<rparr>,
        \<lparr>feature_id = ''WITH'', clause = ''WITH'', status = ''required'',
         covers_req = [''REQ-AGDB-024''], covers_acceptance = [''CYPHER-NEO4J-004'']\<rparr>,
        \<lparr>feature_id = ''RETURN'', clause = ''RETURN'', status = ''required'',
         covers_req = [''REQ-AGDB-024''], covers_acceptance = [''CYPHER-NEO4J-005'']\<rparr>,
        \<lparr>feature_id = ''CREATE'', clause = ''CREATE'', status = ''required'',
         covers_req = [''REQ-AGDB-024''], covers_acceptance = [''CYPHER-NEO4J-006'']\<rparr>,
        \<lparr>feature_id = ''MERGE'', clause = ''MERGE'', status = ''required'',
         covers_req = [''REQ-AGDB-024''], covers_acceptance = [''CYPHER-NEO4J-007'']\<rparr>,
        \<lparr>feature_id = ''DELETE'', clause = ''DELETE'', status = ''required'',
         covers_req = [''REQ-AGDB-024''], covers_acceptance = [''CYPHER-NEO4J-008'']\<rparr>,
        \<lparr>feature_id = ''DETACH_DELETE'', clause = ''DETACH DELETE'', status = ''required'',
         covers_req = [''REQ-AGDB-024''], covers_acceptance = [''CYPHER-NEO4J-009'']\<rparr>,
        \<lparr>feature_id = ''SET'', clause = ''SET'', status = ''required'',
         covers_req = [''REQ-AGDB-024''], covers_acceptance = [''CYPHER-NEO4J-010'']\<rparr>,
        \<lparr>feature_id = ''REMOVE'', clause = ''REMOVE'', status = ''required'',
         covers_req = [''REQ-AGDB-024''], covers_acceptance = [''CYPHER-NEO4J-011'']\<rparr>,
        \<lparr>feature_id = ''UNWIND'', clause = ''UNWIND'', status = ''required'',
         covers_req = [''REQ-AGDB-024''], covers_acceptance = [''CYPHER-NEO4J-012'']\<rparr>,
        \<lparr>feature_id = ''CALL_APOC'', clause = ''CALL apoc.*'', status = ''required'',
         covers_req = [''REQ-AGDB-024'', ''REQ-AGDB-025''], covers_acceptance = [''CYPHER-NEO4J-013'']\<rparr>,
        \<lparr>feature_id = ''APOC_META'', clause = ''CALL apoc.meta.schema'', status = ''required'',
         covers_req = [''REQ-AGDB-024''], covers_acceptance = [''CYPHER-NEO4J-014'']\<rparr>,
        \<lparr>feature_id = ''APOC_COLL'', clause = ''CALL apoc.coll.*'', status = ''required'',
         covers_req = [''REQ-AGDB-024''], covers_acceptance = [''CYPHER-NEO4J-015'']\<rparr>,
        \<lparr>feature_id = ''APOC_TEXT'', clause = ''CALL apoc.text.*'', status = ''required'',
         covers_req = [''REQ-AGDB-024''], covers_acceptance = [''CYPHER-NEO4J-016'']\<rparr>,
        \<lparr>feature_id = ''UNION'', clause = ''UNION'', status = ''required'',
         covers_req = [''REQ-AGDB-024''], covers_acceptance = [''CYPHER-NEO4J-017'']\<rparr>,
        \<lparr>feature_id = ''UNION_ALL'', clause = ''UNION ALL'', status = ''required'',
         covers_req = [''REQ-AGDB-024''], covers_acceptance = [''CYPHER-NEO4J-018'']\<rparr>,
        \<lparr>feature_id = ''CASE'', clause = ''CASE'', status = ''required'',
         covers_req = [''REQ-AGDB-024''], covers_acceptance = [''CYPHER-NEO4J-019'']\<rparr>,
        \<lparr>feature_id = ''FOREACH'', clause = ''FOREACH'', status = ''unsupported'',
         covers_req = [''REQ-AGDB-025''], covers_acceptance = [''CYPHER-NEO4J-NEG-001'']\<rparr>,
        \<lparr>feature_id = ''EXISTS'', clause = ''EXISTS'', status = ''required'',
         covers_req = [''REQ-AGDB-024''], covers_acceptance = [''CYPHER-NEO4J-020'']\<rparr>,
        \<lparr>feature_id = ''CALL_SUBQUERY'', clause = ''CALL {'', status = ''required'',
         covers_req = [''REQ-AGDB-024''], covers_acceptance = [''CYPHER-NEO4J-021'']\<rparr>,
        \<lparr>feature_id = ''SHORTEST_PATH'', clause = ''shortestPath'', status = ''unsupported'',
         covers_req = [''REQ-AGDB-025''], covers_acceptance = [''CYPHER-NEO4J-NEG-004'']\<rparr>,
        \<lparr>feature_id = ''VARIABLE_LENGTH_PATH'', clause = ''variable-length path'', status = ''unsupported'',
         covers_req = [''REQ-AGDB-025''], covers_acceptance = [''CYPHER-NEO4J-NEG-005'']\<rparr>,
        \<lparr>feature_id = ''PATTERN_COMPREHENSION'', clause = ''pattern comprehension'', status = ''unsupported'',
         covers_req = [''REQ-AGDB-025''], covers_acceptance = [''CYPHER-NEO4J-NEG-006'']\<rparr>,
        \<lparr>feature_id = ''LOAD_CSV'', clause = ''LOAD CSV'', status = ''unsupported'',
         covers_req = [''REQ-AGDB-025''], covers_acceptance = [''CYPHER-NEO4J-NEG-007'']\<rparr>]\<rparr>"

section \<open>TCK selectors\<close>

text \<open>
  \<^verbatim>\<open>build_tck_selector_map\<close>: first the selector entries, rejecting a duplicate id, then the
  required ids, rejecting a duplicate and an id with no selector.
\<close>

fun insert_selectors ::
  "(string, string) fmap \<Rightarrow> tck_selector_entry list \<Rightarrow> ((string, string) fmap, string) outcome"
where
  "insert_selectors m [] = Ok m"
| "insert_selectors m (e # es) =
     (case fmlookup m (se_tck_id e) of
        Some _ \<Rightarrow> Err (''duplicate selector mapping for tck_id='' @ se_tck_id e)
      | None \<Rightarrow> insert_selectors (fmupd (se_tck_id e) (selector e) m) es)"

fun check_required ::
  "(string, string) fmap \<Rightarrow> string list \<Rightarrow> tck_required_id list \<Rightarrow> (unit, string) outcome"
where
  "check_required m seen [] = Ok ()"
| "check_required m seen (r # rs) =
     (if tck_id r \<in> set seen then Err (''duplicate required_tck_id='' @ tck_id r)
      else if fmlookup m (tck_id r) = None then Err (''unresolved tck_id='' @ tck_id r)
      else check_required m (tck_id r # seen) rs)"

definition build_tck_selector_map ::
  "opencypher9_tck_required_spec \<Rightarrow> ((string, string) fmap, string) outcome"
where
  "build_tck_selector_map spec =
     and_then (insert_selectors fmempty (tck_selector_map spec)) (\<lambda>m.
     and_then (check_required m [] (required_tck_ids spec)) (\<lambda>_. Ok m))"

definition resolve_tck_selector ::
  "opencypher9_tck_required_spec \<Rightarrow> string \<Rightarrow> (string, string) outcome"
where
  "resolve_tck_selector spec tid =
     and_then (build_tck_selector_map spec) (\<lambda>m.
       ok_or (fmlookup m tid) (''unresolved tck_id='' @ tid))"

lemma insert_selectors_Ok:
  "insert_selectors m es = Ok m' \<Longrightarrow>
     distinct (map se_tck_id es) \<and> set (map se_tck_id es) \<inter> fmdom' m = {} \<and>
     (\<forall>k. fmlookup m' k =
        (case map_of (map (\<lambda>e. (se_tck_id e, selector e)) es) k of
           Some v \<Rightarrow> Some v | None \<Rightarrow> fmlookup m k))"
proof (induction m es rule: insert_selectors.induct)
  case (2 m e es)
  from "2.prems" have new: "fmlookup m (se_tck_id e) = None"
    and rest: "insert_selectors (fmupd (se_tck_id e) (selector e) m) es = Ok m'"
    by (auto split: option.splits)
  from new have "se_tck_id e \<notin> fmdom' m" by (simp add: fmdom'_notI)
  moreover from "2.IH" [OF new rest]
  have "se_tck_id e \<notin> set (map se_tck_id es)" by auto
  moreover from this have "map_of (map (\<lambda>e. (se_tck_id e, selector e)) es) (se_tck_id e) = None"
    by (auto simp: map_of_eq_None_iff image_image)
  ultimately show ?case using "2.IH" [OF new rest] by (auto split: option.splits)
qed simp

lemma check_required_Ok:
  "check_required m seen rs = Ok () \<longleftrightarrow>
     distinct (map tck_id rs) \<and> set (map tck_id rs) \<inter> set seen = {} \<and>
     set (map tck_id rs) \<subseteq> fmdom' m"
  by (induction rs arbitrary: seen) (auto simp: fmdom'_notI fmlookup_dom'_iff)

end
