(* ===== verification/Errors.thy ===== *)
theory Errors
  imports Contracts
begin

text \<open>
  The error vocabulary of \<^verbatim>\<open>errors.rs\<close>: codes, categories, the error value carried by every
  fallible operation, and the registry built from the error code contract.
\<close>

section \<open>Codes and categories\<close>

datatype error_code =
    ProtocolVersionMismatch
  | UnsupportedFeature
  | RetryableConflict
  | WriteLockConflict
  | IncompatibleFormat
  | AuthRequired
  | AuthFailed
  | ReferentialIntegrityViolation
  | InvalidArgument
  | InvalidTopK
  | InvalidThreshold
  | InvalidCorpusId
  | InvalidNamespace

datatype error_category =
    CatProtocol | CatQuery | CatTransaction | CatStorage | CatAuth | CatIntegrity | CatValidation

fun as_str :: "error_code \<Rightarrow> string" where
  "as_str ProtocolVersionMismatch = ''PROTOCOL_VERSION_MISMATCH''"
| "as_str UnsupportedFeature = ''UNSUPPORTED_FEATURE''"
| "as_str RetryableConflict = ''RETRYABLE_CONFLICT''"
| "as_str WriteLockConflict = ''WRITE_LOCK_CONFLICT''"
| "as_str IncompatibleFormat = ''INCOMPATIBLE_FORMAT''"
| "as_str AuthRequired = ''AUTH_REQUIRED''"
| "as_str AuthFailed = ''AUTH_FAILED''"
| "as_str ReferentialIntegrityViolation = ''REFERENTIAL_INTEGRITY_VIOLATION''"
| "as_str InvalidArgument = ''INVALID_ARGUMENT''"
| "as_str InvalidTopK = ''INVALID_TOP_K''"
| "as_str InvalidThreshold = ''INVALID_THRESHOLD''"
| "as_str InvalidCorpusId = ''INVALID_CORPUS_ID''"
| "as_str InvalidNamespace = ''INVALID_NAMESPACE''"

definition code_from_str :: "string \<Rightarrow> error_code option" where
  "code_from_str value =
     (if value = ''PROTOCOL_VERSION_MISMATCH'' then Some ProtocolVersionMismatch
      else if value = ''UNSUPPORTED_FEATURE'' then Some UnsupportedFeature
      else if value = ''RETRYABLE_CONFLICT'' then Some RetryableConflict
      else if value = ''WRITE_LOCK_CONFLICT'' then Some WriteLockConflict
      else if value = ''INCOMPATIBLE_FORMAT'' then Some IncompatibleFormat
      else if value = ''AUTH_REQUIRED'' then Some AuthRequired
      else if value = ''AUTH_FAILED'' then Some AuthFailed
      else if value = ''REFERENTIAL_INTEGRITY_VIOLATION'' then Some ReferentialIntegrityViolation
      else if value = ''INVALID_ARGUMENT'' then Some InvalidArgument
      else if value = ''INVALID_TOP_K'' then Some InvalidTopK
      else if value = ''INVALID_THRESHOLD'' then Some InvalidThreshold
      else if value = ''INVALID_CORPUS_ID'' then Some InvalidCorpusId
      else if value = ''INVALID_NAMESPACE'' then Some InvalidNamespace
      else None)"

fun category :: "error_code \<Rightarrow> error_category" where
  "category ProtocolVersionMismatch = CatProtocol"
| "category UnsupportedFeature = CatQuery"
| "category RetryableConflict = CatTransaction"
| "category WriteLockConflict = CatStorage"
| "category IncompatibleFormat = CatStorage"
| "category AuthRequired = CatAuth"
| "category AuthFailed = CatAuth"
| "category ReferentialIntegrityViolation = CatIntegrity"
| "category InvalidArgument = CatValidation"
| "category InvalidTopK = CatValidation"
| "category InvalidThreshold = CatValidation"
| "category InvalidCorpusId = CatValidation"
| "category InvalidNamespace = CatValidation"

definition category_from_str :: "string \<Rightarrow> error_category option" where
  "category_from_str value =
     (if value = ''protocol'' then Some CatProtocol
      else if value = ''query'' then Some CatQuery
      else if value = ''transaction'' then Some CatTransaction
      else if value = ''storage'' then Some CatStorage
      else if value = ''auth'' then Some CatAuth
      else if value = ''integrity'' then Some CatIntegrity
      else if value = ''validation'' then Some CatValidation
      else None)"

section \<open>The error value\<close>

record graph_db_error =
  err_code :: error_code
  err_message :: string
  err_details :: "(string, string) fmap option"

definition new_error :: "error_code \<Rightarrow> string \<Rightarrow> graph_db_error" where
  "new_error c msg = \<lparr>err_code = c, err_message = msg, err_details = None\<rparr>"

definition with_detail :: "graph_db_error \<Rightarrow> string \<Rightarrow> string \<Rightarrow> graph_db_error" where
  "with_detail e k v =
     (let details = (case err_details e of Some d \<Rightarrow> d | None \<Rightarrow> fmempty)
      in e\<lparr>err_details := Some (fmupd k v details)\<rparr>)"

type_synonym 'a db_result = "('a, graph_db_error) outcome"

lemma err_code_new [simp]: "err_code (new_error c m) = c"
  by (simp add: new_error_def)

lemma err_code_with_detail [simp]: "err_code (with_detail e k v) = err_code e"
  by (simp add: with_detail_def Let_def)

lemma err_message_with_detail [simp]: "err_message (with_detail e k v) = err_message e"
  by (simp add: with_detail_def Let_def)

section \<open>The registry\<close>

record error_definition =
  ed_code :: error_code
  ed_category :: error_category
  ed_description :: string

datatype registry_error =
    SpecIdMismatch string string
  | UnknownCode string
  | UnknownCategory string
  | DuplicateCode string

text \<open>Codes are the keys of a hash map; their declaration order makes them listable.\<close>

definition all_codes :: "error_code list" where
  "all_codes =
     [ProtocolVersionMismatch, UnsupportedFeature, RetryableConflict, WriteLockConflict,
      IncompatibleFormat, AuthRequired, AuthFailed, ReferentialIntegrityViolation,
      InvalidArgument, InvalidTopK, InvalidThreshold, InvalidCorpusId, InvalidNamespace]"

fun code_rank :: "error_code \<Rightarrow> nat" where
  "code_rank ProtocolVersionMismatch = 0"
| "code_rank UnsupportedFeature = 1"
| "code_rank RetryableConflict = 2"
| "code_rank WriteLockConflict = 3"
| "code_rank IncompatibleFormat = 4"
| "code_rank AuthRequired = 5"
| "code_rank AuthFailed = 6"
| "code_rank ReferentialIntegrityViolation = 7"
| "code_rank InvalidArgument = 8"
| "code_rank InvalidTopK = 9"
| "code_rank InvalidThreshold = 10"
| "code_rank InvalidCorpusId = 11"
| "code_rank InvalidNamespace = 12"

lemma code_rank_inject: "code_rank a = code_rank b \<Longrightarrow> a = b"
  by (cases a; cases b) simp_all

instantiation error_code :: linorder
begin

definition less_eq_error_code :: "error_code \<Rightarrow> error_code \<Rightarrow> bool" where
  "less_eq_error_code a b \<longleftrightarrow> code_rank a \<le> code_rank b"

definition less_error_code :: "error_code \<Rightarrow> error_code \<Rightarrow> bool" where
  "less_error_code a b \<longleftrightarrow> code_rank a < code_rank b"

instance
  by standard (auto simp: less_eq_error_code_def less_error_code_def intro: code_rank_inject)

end

type_synonym error_registry = "(error_code, error_definition) fmap"

fun register_codes ::
  "error_registry \<Rightarrow> error_code_entry list \<Rightarrow> (error_registry, registry_error) outcome"
where
  "register_codes defs [] = Ok defs"
| "register_codes defs (entry # rest) =
     and_then (ok_or (code_from_str (ee_code entry)) (UnknownCode (ee_code entry))) (\<lambda>c.
     and_then (ok_or (category_from_str (ee_category entry)) (UnknownCategory (ee_category entry)))
       (\<lambda>cat.
     if fmlookup defs c \<noteq> None then Err (DuplicateCode (ee_code entry))
     else register_codes
       (fmupd c \<lparr>ed_code = c, ed_category = cat, ed_description = ee_description entry\<rparr> defs)
       rest))"

definition from_spec :: "error_code_spec \<Rightarrow> (error_registry, registry_error) outcome" where
  "from_spec spec =
     (if es_spec_id spec \<noteq> ERROR_SPEC_ID then Err (SpecIdMismatch ERROR_SPEC_ID (es_spec_id spec))
      else register_codes fmempty (es_codes spec))"

definition load_registry :: "(error_registry, registry_error) outcome" where
  "load_registry = from_spec load_error_code_spec"

definition definition_of :: "error_registry \<Rightarrow> error_code \<Rightarrow> error_definition option" where
  "definition_of reg c = fmlookup reg c"

definition definitions_by_category ::
  "(error_definition list \<Rightarrow> error_definition list) \<Rightarrow> error_registry \<Rightarrow> error_category
     \<Rightarrow> error_definition list"
where
  "definitions_by_category it reg cat = filter (\<lambda>d. ed_category d = cat) (it (fmvalues reg))"

definition is_known_code_str :: "error_registry \<Rightarrow> string \<Rightarrow> bool" where
  "is_known_code_str reg s =
     (case code_from_str s of None \<Rightarrow> False | Some c \<Rightarrow> fmlookup reg c \<noteq> None)"

section \<open>Facts\<close>

lemma code_from_str_as_str: "code_from_str (as_str c) = Some c"
  by (cases c) (simp_all add: code_from_str_def)

lemma as_str_code_from_str: "code_from_str s = Some c \<Longrightarrow> as_str c = s"
  by (auto simp: code_from_str_def split: if_splits)

lemma as_str_inject [simp]: "as_str a = as_str b \<longleftrightarrow> a = b"
  by (metis code_from_str_as_str option.inject)

text \<open>What registering one entry into \<open>defs\<close> leaves in \<open>defs'\<close>.\<close>

definition registered ::
  "error_registry \<Rightarrow> error_registry \<Rightarrow> error_code_entry \<Rightarrow> bool"
where
  "registered defs defs' e \<longleftrightarrow>
     (\<exists>c cat. code_from_str (ee_code e) = Some c \<and> category_from_str (ee_category e) = Some cat \<and>
        fmlookup defs c = None \<and>
        fmlookup defs' c = Some \<lparr>ed_code = c, ed_category = cat,
                                 ed_description = ee_description e\<rparr>)"

lemma registered_weaken:
  "registered (fmupd c d defs) defs' e \<Longrightarrow>
     registered defs defs' e \<and> code_from_str (ee_code e) \<noteq> Some c"
  unfolding registered_def by (auto split: if_splits)

lemma register_codes_Ok:
  "register_codes defs es = Ok defs' \<Longrightarrow>
     distinct (map ee_code es) \<and> (\<forall>e \<in> set es. registered defs defs' e) \<and>
     (\<forall>c d. fmlookup defs c = Some d \<longrightarrow> fmlookup defs' c = Some d)"
proof (induction defs es rule: register_codes.induct)
  case (2 defs entry rest)
  from "2.prems" obtain c cat where
    c: "code_from_str (ee_code entry) = Some c" and
    cat: "category_from_str (ee_category entry) = Some cat" and
    new: "fmlookup defs c = None" and
    rest: "register_codes
       (fmupd c \<lparr>ed_code = c, ed_category = cat, ed_description = ee_description entry\<rparr> defs)
       rest = Ok defs'" (is "register_codes ?defs1 rest = _")
    by (auto split: if_splits)
  from "2.IH" [of c cat] c cat new rest
  have dist: "distinct (map ee_code rest)"
    and reg: "\<And>e. e \<in> set rest \<Longrightarrow> registered ?defs1 defs' e"
    and keep: "\<And>k d. fmlookup ?defs1 k = Some d \<Longrightarrow> fmlookup defs' k = Some d"
    by simp_all
  have "registered defs defs' entry"
    unfolding registered_def using c cat new keep by auto
  moreover have "ee_code entry \<notin> set (map ee_code rest)"
    using registered_weaken [OF reg] c by force
  moreover have "fmlookup defs' k = Some d" if "fmlookup defs k = Some d" for k d
    using that new keep [of k d] by (cases "k = c") simp_all
  ultimately show ?case using dist registered_weaken [OF reg] by simp
qed simp

end
