(* ===== verification/F64.thy ===== *)
theory F64
  imports Rust_Str
begin

text \<open>
  Rust's \<^verbatim>\<open>f64\<close> as the program uses it: IEEE 754 binary64 numbers with one NaN, signed zeros and
  infinities, rounding to nearest with ties to even, the comparisons of \<^verbatim>\<open>PartialOrd\<close> and
  \<^verbatim>\<open>PartialEq\<close>, addition, division, conversion from \<^verbatim>\<open>i64\<close>, \<^verbatim>\<open>str::parse::<f64>\<close> and the
  shortest round-trip output of \<^verbatim>\<open>Display\<close>.
\<close>

section \<open>Numbers and rounding\<close>

text \<open>
  \<open>F64_Fin neg m e\<close> is \<open>m * 2 ^ e\<close>, negated if \<open>neg\<close>; \<open>m < 2 ^ 53\<close> and \<open>-1074 \<le> e \<le> 971\<close>.
\<close>

datatype f64 = F64_NaN | F64_Inf bool | F64_Fin bool nat int

abbreviation f64_zero :: "bool \<Rightarrow> f64" where
  "f64_zero neg \<equiv> F64_Fin neg 0 (-1074)"

fun bit_length :: "nat \<Rightarrow> nat" where
  "bit_length n = (if n = 0 then 0 else Suc (bit_length (n div 2)))"

declare bit_length.simps [simp del]

text \<open>\<open>scale b num den e\<close> is the fraction \<open>num / den / b ^ e\<close>.\<close>

definition scale :: "nat \<Rightarrow> nat \<Rightarrow> nat \<Rightarrow> int \<Rightarrow> nat \<times> nat" where
  "scale b num den e =
     (if 0 \<le> e then (num, den * b ^ nat e) else (num * b ^ nat (- e), den))"

definition floor_log2 :: "nat \<Rightarrow> nat \<Rightarrow> int" where
  "floor_log2 num den =
     (let e = int (bit_length num) - int (bit_length den);
          (n, d) = scale 2 num den e
      in if d \<le> n then e else e - 1)"

definition round_half_even :: "nat \<Rightarrow> nat \<Rightarrow> nat" where
  "round_half_even n d =
     (let q = n div d; r = n mod d
      in if 2 * r < d \<or> (2 * r = d \<and> even q) then q else Suc q)"

definition f64_round :: "bool \<Rightarrow> nat \<Rightarrow> nat \<Rightarrow> f64" where
  "f64_round neg num den =
     (if num = 0 then f64_zero neg
      else let e = max (floor_log2 num den - 52) (-1074);
               (n, d) = scale 2 num den e;
               m = round_half_even n d;
               (m', e') = (if m = 2 ^ 53 then (2 ^ 52, e + 1) else (m, e))
           in if 971 < e' then F64_Inf neg else F64_Fin neg m' e')"

text \<open>The signed numerator and the denominator of a finite number.\<close>

definition f64_num :: "bool \<Rightarrow> nat \<Rightarrow> int \<Rightarrow> int" where
  "f64_num neg m e = (if neg then -1 else 1) * int (m * 2 ^ nat e)"

definition f64_den :: "int \<Rightarrow> int" where
  "f64_den e = 2 ^ nat (- e)"

section \<open>Comparison and arithmetic\<close>

fun f64_le :: "f64 \<Rightarrow> f64 \<Rightarrow> bool" where
  "f64_le F64_NaN y = False"
| "f64_le x F64_NaN = False"
| "f64_le (F64_Inf s) (F64_Inf t) = (s \<or> \<not> t)"
| "f64_le (F64_Inf s) (F64_Fin _ _ _) = s"
| "f64_le (F64_Fin _ _ _) (F64_Inf t) = (\<not> t)"
| "f64_le (F64_Fin s m e) (F64_Fin t n f) =
     (f64_num s m e * f64_den f \<le> f64_num t n f * f64_den e)"

definition f64_eq :: "f64 \<Rightarrow> f64 \<Rightarrow> bool" where
  "f64_eq x y = (f64_le x y \<and> f64_le y x)"

definition f64_lt :: "f64 \<Rightarrow> f64 \<Rightarrow> bool" where
  "f64_lt x y = (f64_le x y \<and> \<not> f64_le y x)"

definition f64_is_finite :: "f64 \<Rightarrow> bool" where
  "f64_is_finite x = (case x of F64_Fin _ _ _ \<Rightarrow> True | _ \<Rightarrow> False)"

definition f64_of_int :: "int \<Rightarrow> f64" where
  "f64_of_int i = f64_round (i < 0) (nat \<bar>i\<bar>) 1"

fun f64_add :: "f64 \<Rightarrow> f64 \<Rightarrow> f64" where
  "f64_add F64_NaN y = F64_NaN"
| "f64_add x F64_NaN = F64_NaN"
| "f64_add (F64_Inf s) (F64_Inf t) = (if s = t then F64_Inf s else F64_NaN)"
| "f64_add (F64_Inf s) (F64_Fin _ _ _) = F64_Inf s"
| "f64_add (F64_Fin _ _ _) (F64_Inf t) = F64_Inf t"
| "f64_add (F64_Fin s m e) (F64_Fin t n f) =
     (let num = f64_num s m e * f64_den f + f64_num t n f * f64_den e
      in if num = 0 then f64_zero (s \<and> t)
         else f64_round (num < 0) (nat \<bar>num\<bar>) (nat (f64_den e * f64_den f)))"

fun f64_div :: "f64 \<Rightarrow> f64 \<Rightarrow> f64" where
  "f64_div F64_NaN y = F64_NaN"
| "f64_div x F64_NaN = F64_NaN"
| "f64_div (F64_Inf s) (F64_Inf t) = F64_NaN"
| "f64_div (F64_Inf s) (F64_Fin t _ _) = F64_Inf (s \<noteq> t)"
| "f64_div (F64_Fin s _ _) (F64_Inf t) = f64_zero (s \<noteq> t)"
| "f64_div (F64_Fin s m e) (F64_Fin t n f) =
     (if n = 0 then (if m = 0 then F64_NaN else F64_Inf (s \<noteq> t))
      else f64_round (s \<noteq> t) (nat (f64_num False m e * f64_den f))
             (nat (f64_num False n f * f64_den e)))"

fun f64_mul :: "f64 \<Rightarrow> f64 \<Rightarrow> f64" where
  "f64_mul F64_NaN y = F64_NaN"
| "f64_mul x F64_NaN = F64_NaN"
| "f64_mul (F64_Inf s) (F64_Inf t) = F64_Inf (s \<noteq> t)"
| "f64_mul (F64_Inf s) (F64_Fin t n _) = (if n = 0 then F64_NaN else F64_Inf (s \<noteq> t))"
| "f64_mul (F64_Fin s m _) (F64_Inf t) = (if m = 0 then F64_NaN else F64_Inf (s \<noteq> t))"
| "f64_mul (F64_Fin s m e) (F64_Fin t n f) =
     f64_round (s \<noteq> t) (nat (f64_num False m e * f64_num False n f)) (nat (f64_den e * f64_den f))"

text \<open>\<^verbatim>\<open>x.fract() == 0.0\<close> on a finite number, and the saturating \<^verbatim>\<open>x as usize\<close>.\<close>

definition f64_is_integral :: "f64 \<Rightarrow> bool" where
  "f64_is_integral x = (case x of F64_Fin s m e \<Rightarrow> f64_num s m e mod f64_den e = 0 | _ \<Rightarrow> False)"

definition f64_to_usize :: "f64 \<Rightarrow> nat" where
  "f64_to_usize x =
     (case x of
        F64_NaN \<Rightarrow> 0
      | F64_Inf s \<Rightarrow> if s then 0 else 2 ^ 64 - 1
      | F64_Fin s m e \<Rightarrow> if s then 0 else min (nat (f64_num False m e div f64_den e)) (2 ^ 64 - 1))"

text \<open>
  \<^verbatim>\<open>f64::min\<close> and \<^verbatim>\<open>f64::max\<close> ignore a NaN argument. The sign of the result on two zeros of
  different sign is not specified by Rust; the model returns the first argument.
\<close>

definition f64_min :: "f64 \<Rightarrow> f64 \<Rightarrow> f64" where
  "f64_min x y = (if x = F64_NaN then y else if f64_lt y x then y else x)"

definition f64_max :: "f64 \<Rightarrow> f64 \<Rightarrow> f64" where
  "f64_max x y = (if x = F64_NaN then y else if f64_lt x y then y else x)"

text \<open>\<^verbatim>\<open>Iterator::sum\<close> on \<^verbatim>\<open>f64\<close> starts at negative zero, the neutral element of addition.\<close>

definition f64_sum :: "f64 list \<Rightarrow> f64" where
  "f64_sum xs = foldl f64_add (f64_zero True) xs"

section \<open>Parsing\<close>

text \<open>
  An optional sign, then \<^verbatim>\<open>inf\<close>, \<^verbatim>\<open>infinity\<close> or \<^verbatim>\<open>nan\<close> in any case, or decimal digits with an
  optional point and exponent; there must be a digit before or after the point.
\<close>

definition split_sign :: "string \<Rightarrow> bool \<times> string" where
  "split_sign s =
     (case s of [] \<Rightarrow> (False, [])
      | c # r \<Rightarrow> if c = CHR ''-'' then (True, r) else if c = CHR ''+'' then (False, r) else (False, s))"

definition parse_exponent :: "string \<Rightarrow> int option" where
  "parse_exponent s =
     (case s of [] \<Rightarrow> Some 0
      | c # r \<Rightarrow>
          if c = CHR ''e'' \<or> c = CHR ''E'' then
            (let (neg, ds) = split_sign r
             in map_option (\<lambda>n. if neg then - int n else int n) (parse_nat ds))
          else None)"

definition f64_of_decimal :: "bool \<Rightarrow> nat \<Rightarrow> int \<Rightarrow> f64" where
  "f64_of_decimal neg d p = (let (n, q) = scale 10 d 1 (- p) in f64_round neg n q)"

definition parse_decimal :: "bool \<Rightarrow> string \<Rightarrow> f64 option" where
  "parse_decimal neg s =
     (let ip = takeWhile is_digit s;
          r1 = dropWhile is_digit s;
          (fp, r2) = (case r1 of
                        c # r \<Rightarrow> if c = CHR ''.'' then (takeWhile is_digit r, dropWhile is_digit r)
                                else ([], r1)
                      | [] \<Rightarrow> ([], []))
      in if ip = [] \<and> fp = [] then None
         else map_option (\<lambda>x. f64_of_decimal neg (digits_val (ip @ fp)) (x - int (length fp)))
                (parse_exponent r2))"

definition parse_f64 :: "string \<Rightarrow> f64 option" where
  "parse_f64 s =
     (let (neg, r) = split_sign s
      in if eq_ignore_ascii_case r ''inf'' \<or> eq_ignore_ascii_case r ''infinity''
         then Some (F64_Inf neg)
         else if eq_ignore_ascii_case r ''nan'' then Some F64_NaN
         else parse_decimal neg r)"

section \<open>Output\<close>

text \<open>
  \<^verbatim>\<open>Display\<close> writes the shortest decimal that parses back to the number, the closest one where
  several have that length, without an exponent. \<open>shortest\<close> tries 1 to 17 digits.
\<close>

definition floor_log10 :: "nat \<Rightarrow> nat \<Rightarrow> int" where
  "floor_log10 num den =
     (if den \<le> num then int (length (show_nat (num div den))) - 1
      else let q = (den + num - 1) div num; l = length (show_nat q)
           in - int (if q = 10 ^ (l - 1) then l - 1 else l))"

definition shortest_at :: "nat \<Rightarrow> int \<Rightarrow> nat \<Rightarrow> (nat \<times> int) option" where
  "shortest_at m e n =
     (let num = m * 2 ^ nat e; den = 2 ^ nat (- e);
          p = floor_log10 num den - int n + 1;
          (a, b) = scale 10 num den p;
          lo = a div b; r = a mod b;
          good = (\<lambda>d. f64_of_decimal False d p = F64_Fin False m e)
      in if good lo \<and> (r = 0 \<or> 2 * r \<le> b \<or> \<not> good (Suc lo)) then Some (lo, p)
         else if good (Suc lo) then Some (Suc lo, p) else None)"

fun first_some :: "('a \<Rightarrow> 'b option) \<Rightarrow> 'a list \<Rightarrow> 'b option" where
  "first_some f [] = None"
| "first_some f (x # xs) = (case f x of Some y \<Rightarrow> Some y | None \<Rightarrow> first_some f xs)"

definition shortest :: "nat \<Rightarrow> int \<Rightarrow> nat \<times> int" where
  "shortest m e = (case first_some (shortest_at m e) [1..<18] of Some r \<Rightarrow> r | None \<Rightarrow> (m, 0))"

definition show_decimal :: "nat \<times> int \<Rightarrow> string" where
  "show_decimal dp =
     (let ds0 = show_nat (fst dp);
          ds = rev (dropWhile (\<lambda>c. c = CHR ''0'') (rev ds0));
          e = int (length ds0) + snd dp;
          l = int (length ds)
      in if e \<le> 0 then ''0.'' @ replicate (nat (- e)) (CHR ''0'') @ ds
         else if l \<le> e then ds @ replicate (nat (e - l)) (CHR ''0'')
         else take (nat e) ds @ ''.'' @ drop (nat e) ds)"

definition show_f64 :: "f64 \<Rightarrow> string" where
  "show_f64 x =
     (case x of
        F64_NaN \<Rightarrow> ''NaN''
      | F64_Inf neg \<Rightarrow> if neg then ''-inf'' else ''inf''
      | F64_Fin neg m e \<Rightarrow>
          (if neg then ''-'' else '''') @ (if m = 0 then ''0'' else show_decimal (shortest m e)))"

section \<open>Facts\<close>

lemma f64_eq_refl: "f64_eq x x \<longleftrightarrow> x \<noteq> F64_NaN"
  by (cases x) (auto simp: f64_eq_def)

lemma f64_eq_sym: "f64_eq x y \<longleftrightarrow> f64_eq y x"
  by (auto simp: f64_eq_def)

lemma f64_le_NaN [simp]: "f64_le x F64_NaN = False"
  by (cases x) auto

lemma f64_lt_irrefl [simp]: "\<not> f64_lt x x"
  by (simp add: f64_lt_def)

end
