(* ===== verification/Graph.thy ===== *)
theory Graph
  imports Errors F64
begin

text \<open>
  The in-memory graph store of \<^verbatim>\<open>graph.rs\<close>: property values, nodes, edges, every operation of
  \<^verbatim>\<open>InMemoryGraphStore\<close>, the consistency invariant, and the contract \<open>graph_contract\<close> through
  which the query layer relies on the store.
\<close>

section \<open>Data\<close>

datatype val =
    VString string
  | VInt64 int
  | VFloat64 f64
  | VBool bool
  | VBytes "8 word list"

text \<open>The derived \<^verbatim>\<open>PartialEq\<close> of \<^verbatim>\<open>Value\<close>: floats compare as floats, so NaN equals nothing.\<close>

fun val_eq :: "val \<Rightarrow> val \<Rightarrow> bool" where
  "val_eq (VString a) (VString b) = (a = b)"
| "val_eq (VInt64 a) (VInt64 b) = (a = b)"
| "val_eq (VFloat64 a) (VFloat64 b) = f64_eq a b"
| "val_eq (VBool a) (VBool b) = (a = b)"
| "val_eq (VBytes a) (VBytes b) = (a = b)"
| "val_eq _ _ = False"

type_synonym props = "(string, val) fmap"

record graph_node =
  node_id :: string
  node_labels :: "string list"
  node_props :: props

record graph_edge =
  edge_id :: string
  edge_from :: string
  edge_to :: string
  edge_type :: string
  edge_props :: props

record store =
  nodes :: "(string, graph_node) fmap"
  edges :: "(string, graph_edge) fmap"
  next_node_seq :: "64 word"
  next_edge_seq :: "64 word"

definition new_store :: store where
  "new_store = \<lparr>nodes = fmempty, edges = fmempty, next_node_seq = 0, next_edge_seq = 0\<rparr>"

section \<open>Operations\<close>

text \<open>The sequence counters wrap around, as \<^verbatim>\<open>u64\<close> addition does in a release build.\<close>

definition node_name :: "64 word \<Rightarrow> string" where
  "node_name w = ''n'' @ show_nat (unat w)"

definition edge_name :: "64 word \<Rightarrow> string" where
  "edge_name w = ''e'' @ show_nat (unat w)"

definition create_node :: "store \<Rightarrow> string list \<Rightarrow> props \<Rightarrow> store \<times> graph_node" where
  "create_node s ls ps =
     (let seq = next_node_seq s + 1;
          nid = node_name seq;
          node = \<lparr>node_id = nid, node_labels = ls, node_props = ps\<rparr>
      in (s\<lparr>next_node_seq := seq, nodes := fmupd nid node (nodes s)\<rparr>, node))"

definition get_node :: "store \<Rightarrow> string \<Rightarrow> graph_node option" where
  "get_node s nid = fmlookup (nodes s) nid"

text \<open>
  \<^verbatim>\<open>get_node_mut\<close> hands out a mutable reference; the model applies the caller's update of the
  node behind it.
\<close>

definition get_node_mut ::
  "store \<Rightarrow> string \<Rightarrow> (graph_node \<Rightarrow> graph_node) \<Rightarrow> store option"
where
  "get_node_mut s nid f =
     (case fmlookup (nodes s) nid of
        None \<Rightarrow> None
      | Some n \<Rightarrow> Some (s\<lparr>nodes := fmupd nid (f n) (nodes s)\<rparr>))"

definition update_node ::
  "store \<Rightarrow> string \<Rightarrow> string list \<Rightarrow> props \<Rightarrow> store \<times> graph_node option"
where
  "update_node s nid ls ps =
     (case fmlookup (nodes s) nid of
        None \<Rightarrow> (s, None)
      | Some n \<Rightarrow>
          (let n' = n\<lparr>node_labels := ls, node_props := ps\<rparr>
           in (s\<lparr>nodes := fmupd nid n' (nodes s)\<rparr>, Some n')))"

definition delete_node :: "store \<Rightarrow> string \<Rightarrow> store \<times> bool" where
  "delete_node s nid = (s\<lparr>nodes := fmdrop nid (nodes s)\<rparr>, fmlookup (nodes s) nid \<noteq> None)"

definition create_edge ::
  "store \<Rightarrow> string \<Rightarrow> string \<Rightarrow> string \<Rightarrow> props \<Rightarrow> store \<times> graph_edge option"
where
  "create_edge s src tgt ty ps =
     (if fmlookup (nodes s) src = None \<or> fmlookup (nodes s) tgt = None then (s, None)
      else let seq = next_edge_seq s + 1;
               eid = edge_name seq;
               edge = \<lparr>edge_id = eid, edge_from = src, edge_to = tgt, edge_type = ty,
                       edge_props = ps\<rparr>
           in (s\<lparr>next_edge_seq := seq, edges := fmupd eid edge (edges s)\<rparr>, Some edge))"

definition get_edge :: "store \<Rightarrow> string \<Rightarrow> graph_edge option" where
  "get_edge s eid = fmlookup (edges s) eid"

definition update_edge ::
  "store \<Rightarrow> string \<Rightarrow> string \<Rightarrow> props \<Rightarrow> store \<times> graph_edge option"
where
  "update_edge s eid ty ps =
     (case fmlookup (edges s) eid of
        None \<Rightarrow> (s, None)
      | Some e \<Rightarrow>
          (let e' = e\<lparr>edge_type := ty, edge_props := ps\<rparr>
           in (s\<lparr>edges := fmupd eid e' (edges s)\<rparr>, Some e')))"

definition delete_edge :: "store \<Rightarrow> string \<Rightarrow> store \<times> bool" where
  "delete_edge s eid = (s\<lparr>edges := fmdrop eid (edges s)\<rparr>, fmlookup (edges s) eid \<noteq> None)"

definition has_node :: "store \<Rightarrow> string \<Rightarrow> bool" where
  "has_node s nid = (fmlookup (nodes s) nid \<noteq> None)"

definition list_nodes :: "store \<Rightarrow> graph_node list" where
  "list_nodes s = sort_key node_id (fmvalues (nodes s))"

definition list_edges :: "store \<Rightarrow> graph_edge list" where
  "list_edges s = sort_key edge_id (fmvalues (edges s))"

definition props_match :: "props \<Rightarrow> graph_node \<Rightarrow> bool" where
  "props_match ps node \<longleftrightarrow>
     list_all (\<lambda>(k, v). case fmlookup (node_props node) k of
                          Some w \<Rightarrow> val_eq w v | None \<Rightarrow> False) (sorted_list_of_fmap ps)"

definition node_matches :: "string option \<Rightarrow> props \<Rightarrow> graph_node \<Rightarrow> bool" where
  "node_matches lbl ps node \<longleftrightarrow>
     (case lbl of None \<Rightarrow> True | Some l \<Rightarrow> l \<in> set (node_labels node)) \<and> props_match ps node"

definition find_node_by_label_and_props ::
  "(graph_node list \<Rightarrow> graph_node list) \<Rightarrow> store \<Rightarrow> string option \<Rightarrow> props \<Rightarrow> graph_node option"
where
  "find_node_by_label_and_props it s lbl ps = find (node_matches lbl ps) (it (fmvalues (nodes s)))"

definition edges_touching_node :: "store \<Rightarrow> string \<Rightarrow> string list" where
  "edges_touching_node s nid =
     map edge_id (filter (\<lambda>e. edge_from e = nid \<or> edge_to e = nid) (fmvalues (edges s)))"

definition delete_node_detach :: "store \<Rightarrow> string \<Rightarrow> store \<times> bool" where
  "delete_node_detach s nid =
     delete_node (s\<lparr>edges := fold fmdrop (edges_touching_node s nid) (edges s)\<rparr>) nid"

definition node_count :: "store \<Rightarrow> nat" where
  "node_count s = fmcount (nodes s)"

definition edge_count :: "store \<Rightarrow> nat" where
  "edge_count s = fmcount (edges s)"

definition rename_in_node :: "string \<Rightarrow> string \<Rightarrow> graph_node \<Rightarrow> graph_node" where
  "rename_in_node a b n = n\<lparr>node_labels := map (\<lambda>l. if l = a then b else l) (node_labels n)\<rparr>"

definition rename_label :: "store \<Rightarrow> string \<Rightarrow> string \<Rightarrow> store \<times> nat" where
  "rename_label s a b =
     (s\<lparr>nodes := fmmap (rename_in_node a b) (nodes s)\<rparr>,
      length (filter (\<lambda>n. a \<in> set (node_labels n)) (fmvalues (nodes s))))"

declare
  create_node_def [store_ops] get_node_def [store_ops] get_node_mut_def [store_ops]
  update_node_def [store_ops] delete_node_def [store_ops] create_edge_def [store_ops]
  get_edge_def [store_ops] update_edge_def [store_ops] delete_edge_def [store_ops]
  has_node_def [store_ops] rename_label_def [store_ops] Let_def [store_ops]

section \<open>Invariants\<close>

text \<open>Every node and edge is stored under its own id; every edge joins existing nodes.\<close>

definition keyed :: "store \<Rightarrow> bool" where
  "keyed s \<longleftrightarrow> fmpred (\<lambda>k n. node_id n = k) (nodes s) \<and> fmpred (\<lambda>k e. edge_id e = k) (edges s)"

definition referential :: "store \<Rightarrow> bool" where
  "referential s \<longleftrightarrow>
     fmpred (\<lambda>_ e. has_node s (edge_from e) \<and> has_node s (edge_to e)) (edges s)"

definition consistent :: "store \<Rightarrow> bool" where
  "consistent s \<longleftrightarrow> keyed s \<and> referential s"

text \<open>The ids handed out so far are \<^verbatim>\<open>n1\<close> up to the counter's current value.\<close>

definition ids_issued :: "store \<Rightarrow> bool" where
  "ids_issued s \<longleftrightarrow>
     (\<forall>k \<in> fmdom' (nodes s). \<exists>i. 1 \<le> i \<and> i \<le> unat (next_node_seq s) \<and> k = ''n'' @ show_nat i) \<and>
     (\<forall>k \<in> fmdom' (edges s). \<exists>i. 1 \<le> i \<and> i \<le> unat (next_edge_seq s) \<and> k = ''e'' @ show_nat i)"

section \<open>Facts about single operations\<close>

lemma get_node_create_node:
  "get_node (fst (create_node s ls ps)) k =
     (if k = node_id (snd (create_node s ls ps)) then Some (snd (create_node s ls ps))
      else get_node s k)"
  by (auto simp: store_ops)

lemma edges_create_node [simp]: "edges (fst (create_node s ls ps)) = edges s"
  by (simp add: store_ops)

lemma unat_succ_no_wrap: "unat w + 1 < 2 ^ 64 \<Longrightarrow> unat (w + 1 :: 64 word) = unat w + 1"
  by (simp add: unat_word_ariths)

lemma create_node_id_fresh:
  assumes "ids_issued s" "unat (next_node_seq s) + 1 < 2 ^ 64"
  shows "get_node s (node_id (snd (create_node s ls ps))) = None"
proof (rule ccontr)
  assume "get_node s (node_id (snd (create_node s ls ps))) \<noteq> None"
  then have "node_name (next_node_seq s + 1) \<in> fmdom' (nodes s)"
    by (auto simp: store_ops intro: fmdom'I)
  with assms(1) obtain i where "i \<le> unat (next_node_seq s)"
    "node_name (next_node_seq s + 1) = ''n'' @ show_nat i"
    by (auto simp: ids_issued_def)
  with unat_succ_no_wrap [OF assms(2)] show False by (simp add: node_name_def)
qed

lemma ids_issued_create_node:
  assumes "ids_issued s" "unat (next_node_seq s) + 1 < 2 ^ 64"
  shows "ids_issued (fst (create_node s ls ps))"
  using assms unat_succ_no_wrap [OF assms(2)]
  by (fastforce simp: ids_issued_def store_ops node_name_def)

lemma keyed_ids_sorted:
  assumes "keyed s"
  shows "map node_id (fmvalues (nodes s)) = sorted_list_of_fset (fmdom (nodes s))"
    and "map edge_id (fmvalues (edges s)) = sorted_list_of_fset (fmdom (edges s))"
  using assms by (auto simp: keyed_def intro!: fmvalues_keyed)

lemma list_nodes_keyed: "keyed s \<Longrightarrow> list_nodes s = fmvalues (nodes s)"
  unfolding list_nodes_def
  by (rule sort_key_id_if_sorted)
    (simp add: keyed_ids_sorted sorted_list_of_fset.rep_eq)

lemma list_edges_keyed: "keyed s \<Longrightarrow> list_edges s = fmvalues (edges s)"
  unfolding list_edges_def
  by (rule sort_key_id_if_sorted)
    (simp add: keyed_ids_sorted sorted_list_of_fset.rep_eq)

lemma set_list_nodes [simp]: "set (list_nodes s) = fmran' (nodes s)"
  by (simp add: list_nodes_def)

lemma set_list_edges [simp]: "set (list_edges s) = fmran' (edges s)"
  by (simp add: list_edges_def)

lemma fmlookup_fold_fmdrop: "fmlookup (fold fmdrop ks m) k = (if k \<in> set ks then None else fmlookup m k)"
  by (induction ks arbitrary: m) auto

lemma fmdom'_fold_fmdrop: "fmdom' (fold fmdrop ks m) = fmdom' m - set ks"
  by (induction ks arbitrary: m) auto

lemma edges_delete_node_detach:
  assumes "keyed s"
  shows "fmlookup (edges (fst (delete_node_detach s nid))) k =
    (case fmlookup (edges s) k of
       Some e \<Rightarrow> if edge_from e = nid \<or> edge_to e = nid then None else Some e
     | None \<Rightarrow> None)"
proof -
  have "k \<in> set (edges_touching_node s nid) \<longleftrightarrow>
    (\<exists>e. fmlookup (edges s) k = Some e \<and> (edge_from e = nid \<or> edge_to e = nid))"
    using assms by (force simp: edges_touching_node_def keyed_def fmlookup_ran'_iff image_iff)
  then show ?thesis
    by (auto simp: delete_node_detach_def delete_node_def fmlookup_fold_fmdrop split: option.splits)
qed

lemma edges_touching_node_Nil:
  "edges_touching_node s nid = [] \<longleftrightarrow>
     fmpred (\<lambda>_ e. edge_from e \<noteq> nid \<and> edge_to e \<noteq> nid) (edges s)"
proof -
  have "edges_touching_node s nid = [] \<longleftrightarrow>
    (\<forall>e \<in> fmran' (edges s). \<not> (edge_from e = nid \<or> edge_to e = nid))"
    by (simp add: edges_touching_node_def filter_empty_conv)
  then show ?thesis by (simp add: ball_fmran')
qed

section \<open>The contract of the store\<close>

text \<open>
  What the query layer needs of an invariant of the store: each operation it calls keeps it.
  A node is deleted without its edges only where no edge touches it.
\<close>

locale graph_contract =
  fixes inv :: "store \<Rightarrow> bool"
  assumes inv_create_node: "inv s \<Longrightarrow> inv (fst (create_node s ls ps))"
    and inv_get_node_mut: "inv s \<Longrightarrow> (\<And>n. node_id (f n) = node_id n) \<Longrightarrow>
          get_node_mut s k f = Some s' \<Longrightarrow> inv s'"
    and inv_delete_node: "inv s \<Longrightarrow> edges_touching_node s k = [] \<Longrightarrow> inv (fst (delete_node s k))"
    and inv_delete_node_detach: "inv s \<Longrightarrow> inv (fst (delete_node_detach s k))"
    and inv_rename_label: "inv s \<Longrightarrow> inv (fst (rename_label s a b))"

lemma keyed_delete_node_detach: "keyed s \<Longrightarrow> keyed (fst (delete_node_detach s k))"
  by (auto simp: keyed_def delete_node_detach_def delete_node_def fmpred_iff fmlookup_fold_fmdrop
      split: if_splits)

lemma consistent_get_node_mut:
  assumes "consistent s" "\<And>n. node_id (f n) = node_id n" "get_node_mut s k f = Some s'"
  shows "consistent s'"
proof -
  from assms(3) obtain n where n: "fmlookup (nodes s) k = Some n"
    and s': "s' = s\<lparr>nodes := fmupd k (f n) (nodes s)\<rparr>"
    by (auto simp: get_node_mut_def split: option.splits)
  have "keyed s'" using assms(1,2) n by (auto simp: consistent_def keyed_def s' fmpred_iff)
  moreover have "referential s'"
    using assms(1) by (auto simp: consistent_def referential_def s' fmpred_iff has_node_def)
  ultimately show ?thesis by (simp add: consistent_def)
qed

interpretation cons: graph_contract consistent
proof
  fix s ls ps
  assume "consistent s"
  then show "consistent (fst (create_node s ls ps))"
    by (auto simp: consistent_def keyed_def referential_def store_ops fmpred_iff split: if_splits)
next
  fix s f k s'
  assume "consistent s" "\<And>n. node_id (f n) = node_id n" "get_node_mut s k f = Some s'"
  then show "consistent s'" by (rule consistent_get_node_mut)
next
  fix s k
  assume "consistent s" "edges_touching_node s k = []"
  then show "consistent (fst (delete_node s k))"
    by (auto simp: consistent_def keyed_def referential_def store_ops edges_touching_node_Nil
        fmpred_iff)
next
  fix s k
  assume "consistent s"
  then show "consistent (fst (delete_node_detach s k))"
    using keyed_delete_node_detach [of s k] edges_delete_node_detach [of s k]
    by (auto simp: consistent_def referential_def fmpred_iff delete_node_detach_def store_ops
        split: option.splits if_splits)
next
  fix s a b
  assume "consistent s"
  then show "consistent (fst (rename_label s a b))"
    by (auto simp: consistent_def keyed_def referential_def store_ops rename_in_node_def fmpred_iff)
qed

text \<open>Edges are never added, nor changed, by the operations of the contract.\<close>

interpretation no_new_edges: graph_contract "\<lambda>s. fmsubset (edges s) E" for E
proof
  fix s :: store and k
  assume "fmsubset (edges s) E"
  then show "fmsubset (edges (fst (delete_node_detach s k))) E"
    by (auto simp: delete_node_detach_def delete_node_def fmsubset_alt_def fmpred_iff
        fmlookup_fold_fmdrop split: if_splits)
qed (auto simp: store_ops split: option.splits)

end
