(* ===== verification/Query_Syntax.thy ===== *)
theory Query_Syntax
  imports Graph
begin

text \<open>
  The textual layer of \<^verbatim>\<open>query.rs\<close>: dialects, results, the scanners that cut a Cypher string into
  parts, and the parsers of literals, assignments, patterns, filters and result modifiers.
  Slicing a string at positions out of order, or off a character boundary, panics.
\<close>

section \<open>Dialects, results and errors\<close>

datatype cypher_dialect = OpenCypher9 | Neo4jCompat

datatype query_result =
    QNodes "graph_node list"
  | QTable "string list" "val list list"
  | QAck

datatype row_comparison_strategy = Ordered | Multiset

datatype union_mode = Distinct | UnionAll

definition resolve_row_comparison_strategy :: "string \<Rightarrow> row_comparison_strategy" where
  "resolve_row_comparison_strategy query =
     (if contains query ''ORDER BY'' then Ordered else Multiset)"

abbreviation quote :: char where
  "quote \<equiv> CHR 0x27"

definition syntax_error :: "string \<Rightarrow> graph_db_error" where
  "syntax_error msg =
     with_detail (new_error UnsupportedFeature msg) ''unsupported_clause'' ''SYNTAX''"

definition unsupported :: "string \<Rightarrow> string \<Rightarrow> graph_db_error" where
  "unsupported msg cl = with_detail (new_error UnsupportedFeature msg) ''unsupported_clause'' cl"

definition slice :: "string \<Rightarrow> nat \<Rightarrow> nat \<Rightarrow> string db_result" where
  "slice s a b = (if a \<le> b \<and> b \<le> length s then Ok (take (b - a) (drop a s)) else Panic)"

definition resolve_cypher_dialect ::
  "string \<Rightarrow> cypher_dialect option \<Rightarrow> cypher_dialect \<times> string"
where
  "resolve_cypher_dialect query requested =
     (case requested of
        Some d \<Rightarrow> (d, trim query)
      | None \<Rightarrow>
          let trimmed = trim query in
          case strip_prefix trimmed ''CYPHER neo4j-compat '' of
            Some rest \<Rightarrow> (Neo4jCompat, trim rest)
          | None \<Rightarrow>
              (case strip_prefix trimmed ''CYPHER NEO4J_COMPAT '' of
                 Some rest \<Rightarrow> (Neo4jCompat, trim rest)
               | None \<Rightarrow> (OpenCypher9, trimmed)))"

section \<open>The Neo4j compatibility gate\<close>

definition feature_matches_query :: "string \<Rightarrow> string \<Rightarrow> bool" where
  "feature_matches_query query cl =
     (let compact = to_ascii_uppercase query in
      if cl = ''UNION'' then
        contains compact '' UNION '' \<or> ends_with compact '' UNION'' \<or> starts_with compact ''UNION ''
      else if cl = ''UNION ALL'' then contains compact '' UNION ALL ''
      else if cl = ''FOREACH'' then contains compact ''FOREACH ''
      else if cl = ''CASE'' then contains compact '' CASE ''
      else if cl = ''EXISTS'' then contains compact ''EXISTS('' \<or> contains compact ''EXISTS {''
      else if cl = ''CALL {'' then contains compact ''CALL {''
      else if cl = ''shortestPath'' then contains compact ''SHORTESTPATH(''
      else if cl = ''variable-length path'' then
        (contains compact ''-[*'' \<or> contains compact ''[*'') \<and> \<not> contains compact ''SHORTESTPATH(''
      else if cl = ''pattern comprehension'' then
        (contains compact ''RETURN ['' \<or> contains compact ''WITH ['' \<or> contains compact ''= ['') \<and>
        contains compact ''|'' \<and> contains compact '']''
      else if cl = ''LOAD CSV'' then contains compact ''LOAD CSV''
      else False)"

definition unsupported_features :: "neo4j_compat_feature_entry list" where
  "unsupported_features =
     sort_key (\<lambda>f. - int (length (clause f)))
       (filter (\<lambda>f. status f = ''unsupported'') (features load_neo4j_compat_manifest))"

definition reject_neo4j_compat_extension :: "string \<Rightarrow> graph_db_error option" where
  "reject_neo4j_compat_extension query =
     (case find (\<lambda>f. feature_matches_query query (clause f)) unsupported_features of
        None \<Rightarrow> None
      | Some f \<Rightarrow>
          Some (unsupported
            (''unsupported cypher extension for Neo4j compat baseline: '' @ clause f) (clause f)))"

section \<open>Splitting at top-level UNION\<close>

definition is_union_boundary :: "string \<Rightarrow> nat \<Rightarrow> nat \<Rightarrow> bool" where
  "is_union_boundary src a b \<longleftrightarrow>
     (a = 0 \<or> 0 < ws_len_rev (rev (take a src))) \<and>
     (length src \<le> b \<or> 0 < ws_len (drop b src))"

function skip_ws_forward :: "string \<Rightarrow> nat \<Rightarrow> nat" where
  "skip_ws_forward src idx =
     (if idx < length src then
        (case ws_len (drop idx src) of 0 \<Rightarrow> idx | Suc k \<Rightarrow> skip_ws_forward src (idx + Suc k))
      else idx)"
  by pat_completeness auto
termination
  by (relation "measure (\<lambda>(src, idx). length src - idx)") auto

declare skip_ws_forward.simps [simp del]

lemma skip_ws_forward_ge: "idx \<le> skip_ws_forward src idx"
proof (induction src idx rule: skip_ws_forward.induct)
  case (1 src idx)
  then show ?case by (subst skip_ws_forward.simps) (fastforce split: nat.splits)
qed

definition next_depth :: "char \<Rightarrow> nat \<Rightarrow> nat" where
  "next_depth ch depth =
     (if ch = CHR ''('' \<or> ch = CHR ''['' \<or> ch = CHR ''{'' then Suc depth
      else if ch = CHR '')'' \<or> ch = CHR '']'' \<or> ch = CHR ''}'' then depth - 1
      else depth)"

text \<open>
  The scanning loop of \<^verbatim>\<open>split_top_level_union\<close>, one step per iteration: \<open>idx\<close> walks over the
  bytes, \<open>start\<close> is where the current branch begins. At depth 0 the code slices \<^verbatim>\<open>upper[idx..]\<close>,
  which panics when \<open>idx\<close> is inside a multi-byte character.
\<close>

function union_scan ::
  "string \<Rightarrow> string \<Rightarrow> nat \<Rightarrow> nat \<Rightarrow> bool \<Rightarrow> nat \<Rightarrow> string list \<Rightarrow> union_mode option
     \<Rightarrow> ((string list \<times> union_mode) option) db_result"
where
  "union_scan query upper idx depth in_quote start branches mode =
     (if length upper \<le> idx then
        (if branches = [] then Ok None
         else let tail = trim (drop start query)
              in if tail = [] then Ok None
                 else Ok (map_option (\<lambda>m. (branches @ [tail], m)) mode))
      else
        let ch = upper ! idx in
        if ch = quote then
          union_scan query upper (Suc idx) depth (\<not> in_quote) start branches mode
        else if in_quote then
          union_scan query upper (Suc idx) depth in_quote start branches mode
        else
          let depth' = next_depth ch depth;
              branch = trim (take (idx - start) (drop start query)) in
          if depth' \<noteq> 0 then
            union_scan query upper (Suc idx) depth' in_quote start branches mode
          else if is_continuation ch then Panic
          else if starts_with (drop idx upper) ''UNION ALL'' \<and>
                  is_union_boundary upper idx (idx + 9) then
            (if branch = [] \<or> mode = Some Distinct then Ok None
             else let start' = skip_ws_forward query (idx + 9)
                  in union_scan query upper start' depth' in_quote start' (branches @ [branch])
                       (Some UnionAll))
          else if starts_with (drop idx upper) ''UNION'' \<and>
                  is_union_boundary upper idx (idx + 5) then
            (if branch = [] \<or> mode = Some UnionAll then Ok None
             else let start' = skip_ws_forward query (idx + 5)
                  in union_scan query upper start' depth' in_quote start' (branches @ [branch])
                       (Some Distinct))
          else union_scan query upper (Suc idx) depth' in_quote start branches mode)"
  by pat_completeness auto
termination
proof (relation "measure (\<lambda>(query, upper, idx, rest). length upper - idx)", goal_cases)
  case (5 query upper idx depth in_quote start branches mode)
  then show ?case using skip_ws_forward_ge [of "idx + 9" query] by auto
next
  case (6 query upper idx depth in_quote start branches mode)
  then show ?case using skip_ws_forward_ge [of "idx + 5" query] by auto
qed auto

declare union_scan.simps [simp del]

definition split_top_level_union ::
  "string \<Rightarrow> ((string list \<times> union_mode) option) db_result"
where
  "split_top_level_union query =
     union_scan query (to_ascii_uppercase query) 0 0 False 0 [] None"

section \<open>Bracketed parts\<close>

text \<open>\<^verbatim>\<open>split_subquery_body\<close>: the offset of the brace that closes the subquery.\<close>

fun close_brace :: "nat \<Rightarrow> bool \<Rightarrow> nat \<Rightarrow> string \<Rightarrow> nat option" where
  "close_brace depth in_quote idx [] = None"
| "close_brace depth in_quote idx (ch # rest) =
     (if ch = quote then close_brace depth (\<not> in_quote) (Suc idx) rest
      else if in_quote then close_brace depth in_quote (Suc idx) rest
      else if ch = CHR ''{'' then close_brace (Suc depth) in_quote (Suc idx) rest
      else if ch = CHR ''}'' then
        (if depth - 1 = 0 then Some idx else close_brace (depth - 1) in_quote (Suc idx) rest)
      else close_brace depth in_quote (Suc idx) rest)"

definition split_subquery_body :: "string \<Rightarrow> (string \<times> string) db_result" where
  "split_subquery_body body =
     (case close_brace 1 False 0 body of
        Some idx \<Rightarrow> Ok (take idx body, drop (Suc idx) body)
      | None \<Rightarrow> Err (syntax_error ''invalid subquery body''))"

text \<open>\<^verbatim>\<open>split_pattern_and_tail\<close>: the node pattern ends at the matching parenthesis.\<close>

fun close_paren :: "nat \<Rightarrow> nat \<Rightarrow> string \<Rightarrow> nat option" where
  "close_paren depth idx [] = None"
| "close_paren depth idx (ch # rest) =
     (if ch = CHR ''('' then close_paren (Suc depth) (Suc idx) rest
      else if ch = CHR '')'' then
        (if depth - 1 = 0 then Some idx else close_paren (depth - 1) (Suc idx) rest)
      else close_paren depth (Suc idx) rest)"

definition split_pattern_and_tail :: "string \<Rightarrow> string \<Rightarrow> (string \<times> string) db_result" where
  "split_pattern_and_tail query pre =
     (let trimmed = trim query in
      and_then (ok_or (strip_prefix trimmed pre) (new_error UnsupportedFeature ''missing clause prefix''))
        (\<lambda>body.
      case close_paren 0 0 body of
        Some idx \<Rightarrow>
          (let e = length pre + idx + 1 in Ok (take e trimmed, drop e trimmed))
      | None \<Rightarrow> Err (syntax_error ''invalid node pattern'')))"

text \<open>\<^verbatim>\<open>split_call_args\<close>: arguments separated by commas outside of square brackets.\<close>

fun call_args_scan :: "int \<Rightarrow> string \<Rightarrow> string \<Rightarrow> string list" where
  "call_args_scan depth cur [] = (if cur = [] then [] else [trim (rev cur)])"
| "call_args_scan depth cur (ch # rest) =
     (if ch = CHR ''['' then call_args_scan (depth + 1) (ch # cur) rest
      else if ch = CHR '']'' then call_args_scan (depth - 1) (ch # cur) rest
      else if ch = CHR '','' \<and> depth = 0 then trim (rev cur) # call_args_scan depth [] rest
      else call_args_scan depth (ch # cur) rest)"

definition split_call_args :: "string \<Rightarrow> string list" where
  "split_call_args raw = filter (\<lambda>s. s \<noteq> []) (call_args_scan 0 [] raw)"

section \<open>Literals and assignments\<close>

definition parse_value :: "string \<Rightarrow> val db_result" where
  "parse_value raw =
     (if starts_with raw [quote] \<and> ends_with raw [quote] \<and> 2 \<le> length raw then
        Ok (VString (butlast (tl raw)))
      else if eq_ignore_ascii_case raw ''true'' then Ok (VBool True)
      else if eq_ignore_ascii_case raw ''false'' then Ok (VBool False)
      else case parse_i64 raw of
        Some v \<Rightarrow> Ok (VInt64 v)
      | None \<Rightarrow>
          (case parse_f64 raw of
             Some v \<Rightarrow> Ok (VFloat64 v)
           | None \<Rightarrow> Err (syntax_error ''unsupported literal value'')))"

definition value_as_f64 :: "val \<Rightarrow> f64 db_result" where
  "value_as_f64 v =
     (case v of
        VInt64 i \<Rightarrow> Ok (f64_of_int i)
      | VFloat64 x \<Rightarrow> Ok x
      | _ \<Rightarrow> Err (unsupported ''aggregation requires numeric values'' ''UNWIND''))"

definition strip_delims :: "char \<Rightarrow> char \<Rightarrow> string \<Rightarrow> string option" where
  "strip_delims a b s = Option.bind (strip_prefix s [a]) (\<lambda>v. strip_suffix v [b])"

definition parse_list_values :: "string \<Rightarrow> (val list) db_result" where
  "parse_list_values raw =
     and_then (ok_or (strip_delims (CHR ''['') (CHR '']'') (trim raw))
                 (syntax_error ''invalid UNWIND list'')) (\<lambda>inner.
     if trim inner = [] then Ok []
     else traverse (\<lambda>part. parse_value (trim part)) (split_char (CHR '','') inner))"

definition parse_assignment :: "string \<Rightarrow> (string \<times> val) db_result" where
  "parse_assignment a =
     (let sides = (case split_once (CHR ''='') a of
                     Some lr \<Rightarrow> Some lr | None \<Rightarrow> split_once (CHR '':'') a) in
      case sides of
        None \<Rightarrow> Err (syntax_error ''assignment must be key=value or key:value'')
      | Some (left, right) \<Rightarrow>
          let key = (case strip_prefix (trim left) ''n.'' of Some k \<Rightarrow> k | None \<Rightarrow> trim left)
          in and_then (parse_value (trim right)) (\<lambda>v. Ok (key, v)))"

fun insert_assignments :: "props \<Rightarrow> string list \<Rightarrow> props db_result" where
  "insert_assignments ps [] = Ok ps"
| "insert_assignments ps (entry # rest) =
     and_then (parse_assignment (trim entry)) (\<lambda>(k, v). insert_assignments (fmupd k v ps) rest)"

definition parse_properties :: "string \<Rightarrow> props db_result" where
  "parse_properties part =
     and_then (ok_or (strip_delims (CHR ''{'') (CHR ''}'') part)
                 (syntax_error ''invalid properties object'')) (\<lambda>raw.
     if trim raw = [] then Ok fmempty
     else insert_assignments fmempty (split_char (CHR '','') raw))"

definition parse_create_or_merge_payload :: "string \<Rightarrow> string \<Rightarrow> (string \<times> props) db_result" where
  "parse_create_or_merge_payload query pre =
     and_then (ok_or (strip_delims (CHR ''('') (CHR '')'') (trim (trim_start_matches query pre)))
                 (syntax_error ''invalid node pattern'')) (\<lambda>inner.
     and_then (ok_or (str_find inner '':'')
                 (new_error UnsupportedFeature ''label is required in node pattern'')) (\<lambda>colon.
     let after_colon = drop (Suc colon) inner in
     case str_find after_colon ''{'' of
       Some brace \<Rightarrow>
         and_then (parse_properties (trim (drop brace after_colon))) (\<lambda>ps.
           Ok (trim (take brace after_colon), ps))
     | None \<Rightarrow> Ok (trim after_colon, fmempty)))"

definition parse_merge_set_clause :: "string \<Rightarrow> string \<Rightarrow> ((string \<times> val) option) db_result" where
  "parse_merge_set_clause tail marker =
     (let trimmed = trim tail in
      if trimmed = [] then Ok None
      else case str_find trimmed marker of
        None \<Rightarrow> Ok None
      | Some pos \<Rightarrow>
          let after = trim (drop (pos + length marker) trimmed);
              until_next = (case str_find after '' ON '' of Some n \<Rightarrow> take n after | None \<Rightarrow> after)
          in map_ok Some (parse_assignment until_next))"

section \<open>WITH, filters and modifiers\<close>

definition parse_with_projection :: "string \<Rightarrow> (string \<times> string) db_result" where
  "parse_with_projection projection =
     (case str_find projection '' AS '' of
        Some as_idx \<Rightarrow>
          (let source = trim (take as_idx projection); alias = trim (drop (as_idx + 4) projection)
           in if source = [] \<or> alias = [] then Err (syntax_error ''invalid WITH alias syntax'')
              else Ok (source, alias))
      | None \<Rightarrow>
          if projection = [] then Err (syntax_error ''WITH projection is empty'')
          else Ok (projection, projection))"

definition normalize_with_query :: "string \<Rightarrow> string db_result" where
  "normalize_with_query query =
     and_then (ok_or (str_find query '' WITH '')
                 (new_error UnsupportedFeature ''WITH clause missing'')) (\<lambda>with_idx.
     let left = trim (take with_idx query); right = trim (drop (with_idx + 6) query) in
     and_then (ok_or (str_find right '' RETURN '')
                 (new_error UnsupportedFeature ''WITH requires RETURN'')) (\<lambda>return_idx.
     let projection_ctx = trim (take return_idx right);
         return_expr = trim (drop (return_idx + 8) right) in
     and_then (parse_with_projection projection_ctx) (\<lambda>(source_var, projected_var).
     if source_var \<noteq> ''n'' then Err (unsupported ''WITH source variable out of scope'' ''WITH'')
     else if return_expr = source_var \<and> projected_var \<noteq> source_var then
       Err (unsupported ''WITH alias scope violation'' ''WITH'')
     else if starts_with return_expr projected_var then
       Ok (left @ '' RETURN '' @ replacen1 return_expr projected_var ''n'')
     else Err (unsupported ''RETURN expression not available in WITH scope'' ''WITH''))))"

text \<open>The number after \<^verbatim>\<open>SKIP\<close> or \<^verbatim>\<open>LIMIT\<close>, if the keyword occurs.\<close>

definition parse_count :: "string \<Rightarrow> string \<Rightarrow> (nat option) db_result" where
  "parse_count kw query =
     (case str_find query (kw @ '' '') of
        None \<Rightarrow> Ok None
      | Some idx \<Rightarrow>
          (case split_whitespace (drop (idx + length kw + 1) query) of
             [] \<Rightarrow> Err (syntax_error (kw @ '' requires number''))
           | num # _ \<Rightarrow>
               map_ok Some (ok_or (parse_usize num) (syntax_error (''invalid '' @ kw @ '' number'')))))"

definition parse_return_modifiers :: "string \<Rightarrow> (bool \<times> nat option \<times> nat option) db_result" where
  "parse_return_modifiers query =
     and_then
       (case str_find query ''ORDER BY'' of
          None \<Rightarrow> Ok False
        | Some idx \<Rightarrow>
            if starts_with (trim (drop idx query)) ''ORDER BY n.id'' then Ok True
            else Err (unsupported ''only ORDER BY n.id is supported'' ''ORDER BY'')) (\<lambda>order_by.
     and_then (parse_count ''SKIP'' query) (\<lambda>sk.
     and_then (parse_count ''LIMIT'' query) (\<lambda>lim.
     Ok (order_by, sk, lim))))"

text \<open>\<^verbatim>\<open>SKIP\<close> then \<^verbatim>\<open>LIMIT\<close> on a result list.\<close>

definition skip_limit :: "nat option \<Rightarrow> nat option \<Rightarrow> 'a list \<Rightarrow> 'a list" where
  "skip_limit sk lim xs =
     (let ys = (case sk of None \<Rightarrow> xs | Some n \<Rightarrow> if length xs \<le> n then [] else drop n xs)
      in case lim of None \<Rightarrow> ys | Some n \<Rightarrow> take n ys)"

definition parse_match_filters :: "string \<Rightarrow> (string option \<times> string option) db_result" where
  "parse_match_filters query =
     (let after_match = trim (trim_start_matches query ''MATCH '') in
      and_then (ok_or (str_find after_match '')'') (syntax_error ''invalid MATCH pattern''))
        (\<lambda>pattern_end.
      let pattern = take (Suc pattern_end) after_match;
          remainder = trim (drop (Suc pattern_end) after_match);
          lbl = (case str_find pattern '':'' of
                   Some colon \<Rightarrow> Some (trim (butlast (drop (Suc colon) pattern)))
                 | None \<Rightarrow> None) in
      if \<not> starts_with remainder ''RETURN '' \<and> \<not> starts_with remainder ''WHERE '' then
        Err (new_error UnsupportedFeature ''unsupported MATCH remainder'')
      else if starts_with remainder ''RETURN '' then
        (if length (split_whitespace remainder) < 2 then
           Err (syntax_error ''RETURN requires a projection variable'')
         else Ok (lbl, None))
      else
        let where_part = trim (trim_start_matches remainder ''WHERE '') in
        and_then (ok_or (str_find where_part ''RETURN '') (syntax_error ''WHERE must end with RETURN''))
          (\<lambda>return_idx.
        case split_once (CHR ''='') (trim (take return_idx where_part)) of
          None \<Rightarrow> Err (new_error UnsupportedFeature ''WHERE supports only equality'')
        | Some (left, right) \<Rightarrow>
            if trim left \<noteq> ''n.id'' then
              Err (new_error UnsupportedFeature ''WHERE currently supports n.id equality only'')
            else
              and_then (parse_value (trim right)) (\<lambda>parsed.
              case parsed of
                VString nid \<Rightarrow> Ok (lbl, Some nid)
              | _ \<Rightarrow> Err (new_error UnsupportedFeature ''n.id filter must be string'')))))"

definition parse_relationship_weight_filter :: "string \<Rightarrow> (f64 option) db_result" where
  "parse_relationship_weight_filter query =
     (case str_find query ''WHERE '' of
        None \<Rightarrow> Ok None
      | Some where_idx \<Rightarrow>
          let before_return = trim (split_first (drop (where_idx + 6) query) ''RETURN'') in
          if before_return = [] then Ok None
          else if \<not> starts_with before_return ''r.weight >'' then
            Err (unsupported ''WHERE in relationship query supports only r.weight > <num>'' ''WHERE'')
          else
            map_ok Some (ok_or (parse_f64 (trim (drop 10 before_return)))
              (syntax_error ''invalid r.weight numeric value'')))"

section \<open>Facts about the scanners\<close>

lemma slice_panics: "slice s a b = Panic \<longleftrightarrow> b < a \<or> length s < b"
  by (auto simp: slice_def)

lemma close_brace_bound: "close_brace d q i s = Some j \<Longrightarrow> i \<le> j \<and> j < i + length s"
proof (induction s arbitrary: d q i)
  case (Cons c s)
  from Cons.prems have "j = i \<or> (\<exists>d' q'. close_brace d' q' (Suc i) s = Some j)"
    by (auto split: if_splits)
  with Cons.IH [of _ _ "Suc i"] show ?case by fastforce
qed simp

lemma split_subquery_body_length:
  "split_subquery_body body = Ok (inner, tail) \<Longrightarrow> length inner < length body"
  using close_brace_bound [of 1 False 0 body]
  by (auto simp: split_subquery_body_def split: option.splits)

text \<open>
  One iteration of the scan: it moves on with the same branches, or starts a new branch after
  the one that ends here.
\<close>

lemma union_scan_step:
  assumes "idx < length upper"
    and "union_scan query upper idx depth iq start branches mode = Ok (Some r)"
  shows "\<exists>idx' depth' iq' start' branches' mode'.
    union_scan query upper idx' depth' iq' start' branches' mode' = Ok (Some r) \<and> idx < idx' \<and>
    (start' = start \<and> branches' = branches \<or>
     idx < start' \<and> branches' = branches @ [trim (take (idx - start) (drop start query))])"
proof -
  have "idx < Suc idx" by simp
  moreover have "idx < skip_ws_forward query (idx + 9)" "idx < skip_ws_forward query (idx + 5)"
    using skip_ws_forward_ge [of "idx + 9" query] skip_ws_forward_ge [of "idx + 5" query] by auto
  ultimately show ?thesis
    using assms by (subst (asm) union_scan.simps) (simp add: Let_def split: if_splits; blast)
qed

text \<open>Every branch that the scan collects is shorter than the query.\<close>

lemma union_scan_shorter:
  assumes "union_scan query upper idx depth iq start branches mode = Ok (Some (bs, m))"
    and "length upper = length query"
    and "\<forall>b \<in> set branches. length b < length query"
    and "branches \<noteq> [] \<longrightarrow> 0 < start"
  shows "\<forall>b \<in> set bs. length b < length query"
  using assms
proof (induction "length upper - idx" arbitrary: idx depth iq start branches mode rule: less_induct)
  case less
  show ?case
  proof (cases "idx < length upper")
    case False
    have "length (trim (drop start query)) < length query"
      if "0 < start" "trim (drop start query) \<noteq> []"
      using that length_trim [of "drop start query"] by (cases "trim (drop start query)") simp_all
    with False less.prems show ?thesis
      by (auto simp: union_scan.simps [of query upper idx] Let_def split: if_splits)
  next
    case True
    have b: "length (trim (take (idx - start) (drop start query))) < length query"
      using length_trim [of "take (idx - start) (drop start query)"] True less.prems(2) by simp
    from union_scan_step [OF True less.prems(1)] obtain idx' depth' iq' start' branches' mode'
      where step: "union_scan query upper idx' depth' iq' start' branches' mode' = Ok (Some (bs, m))"
        and idx': "idx < idx'"
        and br: "start' = start \<and> branches' = branches \<or>
          idx < start' \<and> branches' = branches @ [trim (take (idx - start) (drop start query))]"
      by blast
    from br less.prems(3,4) b
    have "\<forall>b \<in> set branches'. length b < length query" "branches' \<noteq> [] \<longrightarrow> 0 < start'" by auto
    with less.hyps [OF _ step less.prems(2)] True idx' show ?thesis by simp
  qed
qed

lemma split_top_level_union_shorter:
  "split_top_level_union query = Ok (Some (bs, m)) \<Longrightarrow> b \<in> set bs \<Longrightarrow> length b < length query"
  using union_scan_shorter [of query "to_ascii_uppercase query"]
  by (simp add: split_top_level_union_def)

text \<open>Rewriting \<^verbatim>\<open>WITH\<close> never makes a query longer.\<close>

lemma normalize_with_query_length:
  assumes "normalize_with_query q = Ok q'"
  shows "length q' \<le> length q"
proof -
  from assms obtain wi where wi: "str_find q '' WITH '' = Some wi"
    by (auto simp: normalize_with_query_def)
  let ?right = "trim (drop (wi + 6) q)"
  from assms wi obtain ri where ri: "str_find ?right '' RETURN '' = Some ri"
    by (auto simp: normalize_with_query_def Let_def)
  let ?expr = "trim (drop (ri + 8) ?right)"
  from assms wi ri obtain src pv where
    pv: "parse_with_projection (trim (take ri ?right)) = Ok (src, pv)" and
    q': "q' = trim (take wi q) @ '' RETURN '' @ replacen1 ?expr pv ''n''"
    by (auto simp: normalize_with_query_def Let_def split: if_splits prod.splits)
  from pv have "pv \<noteq> []"
    by (auto simp: parse_with_projection_def Let_def split: option.splits if_splits)
  then have "length (replacen1 ?expr pv ''n'') \<le> length ?expr"
    by (intro length_replacen1) (cases pv, auto)
  moreover have "length ?expr + 8 \<le> length ?right"
    using length_trim [of "drop (ri + 8) ?right"] str_find_length [OF ri] by simp
  moreover have "length ?right \<le> length q - (wi + 6)" "wi + 6 \<le> length q"
    using length_trim [of "drop (wi + 6) q"] str_find_length [OF wi] by simp_all
  moreover have "length (trim (take wi q)) \<le> wi"
    using length_trim [of "take wi q"] by simp
  ultimately show ?thesis unfolding q' by simp
qed

section \<open>Panics of the scanners\<close>

text \<open>The UNION scan of a query in ASCII never panics.\<close>

definition is_ascii :: "string \<Rightarrow> bool" where
  "is_ascii s \<longleftrightarrow> list_all (\<lambda>c. c < CHR 0x80) s"

lemma union_scan_no_panic:
  assumes "\<forall>c \<in> set upper. \<not> is_continuation c"
  shows "union_scan query upper idx depth iq start branches mode \<noteq> Panic"
proof (induction "length upper - idx" arbitrary: idx depth iq start branches mode rule: less_induct)
  case less
  show ?case
  proof (cases "idx < length upper")
    case True
    have rec: "union_scan query upper j d q st bs m \<noteq> Panic" if "idx < j" for j d q st bs m
      using that True by (intro less.hyps) simp
    have "idx < skip_ws_forward query (idx + 9)" "idx < skip_ws_forward query (idx + 5)"
      using skip_ws_forward_ge [of "idx + 9" query] skip_ws_forward_ge [of "idx + 5" query] by auto
    with True assms show ?thesis
      by (subst union_scan.simps) (simp add: Let_def rec)
  next
    case False
    then show ?thesis by (subst union_scan.simps) (simp add: Let_def)
  qed
qed

lemma ascii_upper_not_continuation: "c < CHR 0x80 \<Longrightarrow> \<not> is_continuation (ascii_upper c)"
  by (auto simp: ascii_upper_def is_continuation_def less_eq_char_def less_char_def)

lemma split_top_level_union_ascii: "is_ascii q \<Longrightarrow> split_top_level_union q \<noteq> Panic"
  unfolding split_top_level_union_def
  by (rule union_scan_no_panic)
    (auto simp: to_ascii_uppercase_def is_ascii_def list_all_iff ascii_upper_not_continuation)

end
