(* ===== verification/Query_Exec.thy ===== *)
theory Query_Exec
  imports Query_Syntax
begin

text \<open>
  The clause executors of \<^verbatim>\<open>query.rs\<close> that do not evaluate nested queries: MATCH (nodes and
  relationships), CALL of APOC procedures, CREATE, MERGE, SET, REMOVE, DELETE, UNWIND and
  RETURN CASE. An executor that writes returns the store it leaves behind next to its result,
  on the error paths too.
\<close>

section \<open>Reading\<close>

definition apply_return_modifiers :: "graph_node list \<Rightarrow> string \<Rightarrow> (graph_node list) db_result" where
  "apply_return_modifiers ns query =
     and_then (parse_return_modifiers query) (\<lambda>(order_by, sk, lm). Ok (skip_limit sk lm ns))"

definition row_key :: "val list \<Rightarrow> string" where
  "row_key row = (case row of VString v # _ \<Rightarrow> v | _ \<Rightarrow> '''')"

definition apply_table_modifiers :: "val list list \<Rightarrow> string \<Rightarrow> (val list list) db_result" where
  "apply_table_modifiers rows query =
     and_then (parse_return_modifiers query) (\<lambda>(order_by, sk, lm).
       Ok (skip_limit sk lm (if order_by then sort_key row_key rows else rows)))"

definition execute_match :: "store \<Rightarrow> string \<Rightarrow> query_result db_result" where
  "execute_match s query =
     (let compact = trim query in
      if \<not> starts_with compact ''MATCH '' \<or> \<not> contains compact ''RETURN '' then
        Err (unsupported ''unsupported MATCH form'' ''MATCH'')
      else
        and_then (parse_match_filters compact) (\<lambda>(label_filter, id_filter).
        let ns = list_nodes s;
            ns1 = (case label_filter of
                     Some l \<Rightarrow> filter (\<lambda>n. l \<in> set (node_labels n)) ns | None \<Rightarrow> ns);
            ns2 = (case id_filter of
                     Some i \<Rightarrow> filter (\<lambda>n. node_id n = i) ns1 | None \<Rightarrow> ns1)
        in and_then (apply_return_modifiers ns2 compact) (\<lambda>ns3. Ok (QNodes ns3))))"

definition execute_optional_match :: "store \<Rightarrow> string \<Rightarrow> query_result db_result" where
  "execute_optional_match s query = execute_match s (replacen1 query ''OPTIONAL MATCH'' ''MATCH'')"

definition edge_weight :: "graph_edge \<Rightarrow> f64" where
  "edge_weight e =
     (case fmlookup (edge_props e) ''weight'' of
        Some (VInt64 n) \<Rightarrow> f64_of_int n
      | Some (VFloat64 x) \<Rightarrow> x
      | _ \<Rightarrow> f64_zero False)"

text \<open>
  The loop over the edges: the rows, the ids matched as a source and the ids matched at either
  end. An edge at or below the weight bound is skipped before its end points are looked up.
\<close>

fun relationship_rows ::
  "store \<Rightarrow> bool \<Rightarrow> f64 option \<Rightarrow> graph_edge list
     \<Rightarrow> (val list list \<times> string list \<times> string list) db_result"
where
  "relationship_rows s directed weight [] = Ok ([], [], [])"
| "relationship_rows s directed weight (e # es) =
     (if (case weight of Some w \<Rightarrow> f64_le (edge_weight e) w | None \<Rightarrow> False) then
        relationship_rows s directed weight es
      else
        and_then (ok_or (get_node s (edge_from e))
          (new_error ReferentialIntegrityViolation ''missing edge source node'')) (\<lambda>src.
        and_then (ok_or (get_node s (edge_to e))
          (new_error ReferentialIntegrityViolation ''missing edge target node'')) (\<lambda>tgt.
        and_then (relationship_rows s directed weight es) (\<lambda>(rows, srcs, anys).
          Ok ([VString (node_id src), VString (edge_id e), VString (node_id tgt)] #
              (if directed then []
               else [[VString (node_id tgt), VString (edge_id e), VString (node_id src)]]) @ rows,
              node_id src # srcs, node_id src # node_id tgt # anys)))))"

definition build_relationship_rows ::
  "store \<Rightarrow> bool \<Rightarrow> bool \<Rightarrow> f64 option \<Rightarrow> (val list list) db_result"
where
  "build_relationship_rows s directed optional weight =
     and_then (relationship_rows s directed weight (list_edges s)) (\<lambda>(rows, srcs, anys).
       Ok (rows @
         (if optional then
            map (\<lambda>n. [VString (node_id n), VString ''NULL'', VString ''NULL''])
              (filter (\<lambda>n. node_id n \<notin> set (if directed then srcs else anys)) (list_nodes s))
          else [])))"

definition execute_match_relationship :: "store \<Rightarrow> string \<Rightarrow> bool \<Rightarrow> query_result db_result" where
  "execute_match_relationship s query optional =
     (if \<not> contains query ''RETURN n,r,m'' then
        Err (unsupported ''relationship query must return n,r,m'' ''MATCH'')
      else if \<not> contains query ''-[r]->('' \<and> \<not> contains query ''-[r]-('' then
        Err (unsupported ''unsupported relationship pattern'' ''MATCH'')
      else
        let directed = contains query ''-[r]->('' in
        and_then (parse_relationship_weight_filter query) (\<lambda>weight.
        and_then (build_relationship_rows s directed optional weight) (\<lambda>rows.
        and_then (apply_table_modifiers rows query) (\<lambda>rows'.
        Ok (QTable [''n'', ''r'', ''m''] rows')))))"

section \<open>Procedures\<close>

definition show_value :: "val \<Rightarrow> string" where
  "show_value v =
     (case v of
        VString s \<Rightarrow> s
      | VInt64 n \<Rightarrow> show_int n
      | VFloat64 x \<Rightarrow> show_f64 x
      | VBool b \<Rightarrow> if b then ''true'' else ''false''
      | VBytes _ \<Rightarrow> ''<bytes>'')"

fun join :: "string \<Rightarrow> string list \<Rightarrow> string" where
  "join d [] = []"
| "join d [x] = x"
| "join d (x # y # ys) = x @ d @ join d (y # ys)"

text \<open>
  \<^verbatim>\<open>apoc.coll.toSet\<close> keeps the first value of each \<^verbatim>\<open>Debug\<close> rendering. The rendering names the
  variant and prints its content exactly, so two values share it iff they are the same value
  of the model, where NaN is one value and the two zeros differ.
\<close>

fun to_set :: "val list \<Rightarrow> val list \<Rightarrow> val list" where
  "to_set seen [] = []"
| "to_set seen (v # vs) = (if v \<in> set seen then to_set seen vs else v # to_set (v # seen) vs)"

definition string_arg :: "string \<Rightarrow> string \<Rightarrow> string db_result" where
  "string_arg msg raw =
     and_then (parse_value raw) (\<lambda>v.
       case v of VString x \<Rightarrow> Ok x | _ \<Rightarrow> Err (new_error InvalidArgument msg))"

definition call_text_join :: "string \<Rightarrow> query_result db_result" where
  "call_text_join args_raw =
     (case split_call_args args_raw of
        [a, b] \<Rightarrow>
          and_then (parse_list_values a) (\<lambda>values.
          and_then (string_arg ''delimiter must be string'' b) (\<lambda>delim.
          Ok (QTable [''value''] [[VString (join delim (map show_value values))]])))
      | _ \<Rightarrow> Err (new_error InvalidArgument ''apoc.text.join requires values, delimiter''))"

definition call_rename_label :: "store \<Rightarrow> string \<Rightarrow> store \<times> query_result db_result" where
  "call_rename_label s args_raw =
     (case split_call_args args_raw of
        [a, b] \<Rightarrow>
          (case and_then (string_arg ''from must be string'' a) (\<lambda>x.
                and_then (string_arg ''to must be string'' b) (\<lambda>y. Ok (x, y))) of
             Ok (x, y) \<Rightarrow>
               if trim x = [] \<or> trim y = [] then
                 (s, Err (new_error InvalidArgument ''from/to must not be empty''))
               else
                 let (s', updated) = rename_label s x y
                 in (s', Ok (QTable [''updatedNodeCount''] [[VInt64 (int updated)]]))
           | Err e \<Rightarrow> (s, Err e)
           | Panic \<Rightarrow> (s, Panic))
      | _ \<Rightarrow> (s, Err (new_error InvalidArgument ''apoc.refactor.rename.label requires from,to'')))"

text \<open>\<^verbatim>\<open>CALL name(args)\<close>: the name and the argument text.\<close>

definition parse_call :: "string \<Rightarrow> (string \<times> string) db_result" where
  "parse_call query =
     and_then (ok_or (strip_prefix query ''CALL '') (syntax_error ''invalid CALL syntax'')) (\<lambda>c.
     let call = trim c in
     and_then (ok_or (str_find call ''('') (syntax_error ''CALL requires ('')) (\<lambda>open.
     and_then (ok_or (str_rfind call '')'') (syntax_error ''CALL requires )'')) (\<lambda>close.
     if close \<le> open then Err (syntax_error ''invalid CALL argument list'')
     else Ok (trim (take open call), trim (take (close - Suc open) (drop (Suc open) call))))))"

definition execute_call :: "store \<Rightarrow> string \<Rightarrow> store \<times> query_result db_result" where
  "execute_call s query =
     (case parse_call query of
        Err e \<Rightarrow> (s, Err e)
      | Panic \<Rightarrow> (s, Panic)
      | Ok (name, args_raw) \<Rightarrow>
          if name \<notin> set (map ap_name (allowed_procedures load_apoc_procedure_manifest)) then
            (s, Err (unsupported (''unsupported procedure: '' @ name) ''CALL''))
          else if name = ''apoc.meta.schema'' then
            (s, Ok (QTable [''nodes'', ''relationships'']
                   [[VInt64 (int (node_count s)), VInt64 (int (edge_count s))]]))
          else if name = ''apoc.coll.toSet'' then
            (s, and_then (parse_list_values args_raw) (\<lambda>values.
                  Ok (QTable [''values''] [to_set [] values])))
          else if name = ''apoc.text.join'' then (s, call_text_join args_raw)
          else if name = ''apoc.refactor.rename.label'' then call_rename_label s args_raw
          else (s, Err (unsupported (''unsupported procedure: '' @ name) ''CALL'')))"

section \<open>Writing\<close>

definition execute_create :: "store \<Rightarrow> string \<Rightarrow> store \<times> query_result db_result" where
  "execute_create s query =
     (if \<not> starts_with query ''CREATE ('' \<or> \<not> ends_with query '')'' then
        (s, Err (syntax_error ''invalid CREATE syntax''))
      else case parse_create_or_merge_payload query ''CREATE '' of
        Ok (lbl, ps) \<Rightarrow> (fst (create_node s [lbl] ps), Ok QAck)
      | Err e \<Rightarrow> (s, Err e)
      | Panic \<Rightarrow> (s, Panic))"

definition set_prop :: "string \<Rightarrow> val \<Rightarrow> graph_node \<Rightarrow> graph_node" where
  "set_prop k v n = n\<lparr>node_props := fmupd k v (node_props n)\<rparr>"

definition remove_prop :: "string \<Rightarrow> graph_node \<Rightarrow> graph_node" where
  "remove_prop k n = n\<lparr>node_props := fmdrop k (node_props n)\<rparr>"

text \<open>Apply an update to the node behind \<^verbatim>\<open>get_node_mut\<close>, or fail with the given message.\<close>

definition mutate_node ::
  "store \<Rightarrow> string \<Rightarrow> (graph_node \<Rightarrow> graph_node) \<Rightarrow> string \<Rightarrow> store \<times> query_result db_result"
where
  "mutate_node s nid f msg =
     (case get_node_mut s nid f of
        Some s' \<Rightarrow> (s', Ok QAck)
      | None \<Rightarrow> (s, Err (new_error ReferentialIntegrityViolation msg)))"

text \<open>The \<^verbatim>\<open>ON MATCH SET\<close> or \<^verbatim>\<open>ON CREATE SET\<close> part of MERGE, applied to a node that is there.\<close>

definition apply_merge_set ::
  "store \<Rightarrow> string \<Rightarrow> string \<Rightarrow> string \<Rightarrow> string \<Rightarrow> store \<times> query_result db_result"
where
  "apply_merge_set s nid tail marker msg =
     (case parse_merge_set_clause tail marker of
        Ok None \<Rightarrow> (s, Ok QAck)
      | Ok (Some (k, v)) \<Rightarrow> mutate_node s nid (set_prop k v) msg
      | Err e \<Rightarrow> (s, Err e)
      | Panic \<Rightarrow> (s, Panic))"

definition execute_merge ::
  "(graph_node list \<Rightarrow> graph_node list) \<Rightarrow> store \<Rightarrow> string \<Rightarrow> store \<times> query_result db_result"
where
  "execute_merge it s query =
     (if \<not> starts_with query ''MERGE ('' then
        (s, Err (unsupported ''unsupported MERGE form'' ''MERGE''))
      else case and_then (split_pattern_and_tail query ''MERGE '') (\<lambda>(pattern, tail).
                and_then (parse_create_or_merge_payload pattern ''MERGE '') (\<lambda>(lbl, ps).
                Ok (lbl, ps, tail))) of
        Err e \<Rightarrow> (s, Err e)
      | Panic \<Rightarrow> (s, Panic)
      | Ok (lbl, ps, tail) \<Rightarrow>
          (case find_node_by_label_and_props it s (Some lbl) ps of
             Some existing \<Rightarrow>
               apply_merge_set s (node_id existing) tail ''ON MATCH SET'' ''MERGE target missing''
           | None \<Rightarrow>
               let (s', created) = create_node s [lbl] ps
               in apply_merge_set s' (node_id created) tail ''ON CREATE SET''
                    ''MERGE create target missing''))"

definition execute_set :: "store \<Rightarrow> string \<Rightarrow> store \<times> query_result db_result" where
  "execute_set s query =
     (let content = trim (trim_start_matches query ''SET '') in
      if \<not> starts_with content ''NODE '' then (s, Err (unsupported ''unsupported SET form'' ''SET''))
      else case splitn 3 (CHR '' '') content of
        _ # nid # rest \<Rightarrow>
          (case rest of
             [] \<Rightarrow> (s, Err (new_error UnsupportedFeature ''SET NODE requires key=value assignment''))
           | assignment # _ \<Rightarrow>
               (case parse_assignment assignment of
                  Ok (k, v) \<Rightarrow> mutate_node s nid (set_prop k v) ''SET NODE target does not exist''
                | Err e \<Rightarrow> (s, Err e)
                | Panic \<Rightarrow> (s, Panic)))
      | _ \<Rightarrow> (s, Err (new_error UnsupportedFeature ''SET NODE requires node id'')))"

definition execute_remove :: "store \<Rightarrow> string \<Rightarrow> store \<times> query_result db_result" where
  "execute_remove s query =
     (let content = trim (trim_start_matches query ''REMOVE '') in
      if \<not> starts_with content ''NODE '' then
        (s, Err (unsupported ''unsupported REMOVE form'' ''REMOVE''))
      else case splitn 3 (CHR '' '') content of
        _ # nid # rest \<Rightarrow>
          (case rest of
             [] \<Rightarrow> (s, Err (new_error UnsupportedFeature ''REMOVE NODE requires property key''))
           | key # _ \<Rightarrow>
               (let k = (case strip_prefix (trim key) ''n.'' of Some x \<Rightarrow> x | None \<Rightarrow> key)
                in mutate_node s nid (remove_prop k) ''REMOVE NODE target does not exist''))
      | _ \<Rightarrow> (s, Err (new_error UnsupportedFeature ''REMOVE NODE requires node id'')))"

definition execute_delete :: "store \<Rightarrow> string \<Rightarrow> store \<times> query_result db_result" where
  "execute_delete s query =
     (case split_whitespace query of
        a # b # nid # rest \<Rightarrow>
          if a \<noteq> ''DELETE'' \<or> b \<noteq> ''NODE'' then
            (s, Err (unsupported ''unsupported DELETE form'' ''DELETE''))
          else
            let detach = (case rest of v # _ \<Rightarrow> v = ''DETACH'' | [] \<Rightarrow> False) in
            if \<not> has_node s nid then (s, Ok QAck)
            else if edges_touching_node s nid \<noteq> [] \<and> \<not> detach then
              (s, Err (new_error ReferentialIntegrityViolation
                         ''node is still referenced by edges; use DETACH''))
            else if detach then (fst (delete_node_detach s nid), Ok QAck)
            else (fst (delete_node s nid), Ok QAck)
      | _ \<Rightarrow> (s, Err (unsupported ''unsupported DELETE form'' ''DELETE'')))"

section \<open>Expressions\<close>

definition finite_or_zero :: "f64 \<Rightarrow> f64" where
  "finite_or_zero x = (if f64_is_finite x then x else f64_zero False)"

definition one_cell :: "string \<Rightarrow> val \<Rightarrow> query_result" where
  "one_cell col v = QTable [col] [[v]]"

definition execute_unwind :: "string \<Rightarrow> query_result db_result" where
  "execute_unwind query =
     and_then (ok_or (strip_prefix (trim query) ''UNWIND '')
                 (new_error UnsupportedFeature ''unsupported UNWIND form'')) (\<lambda>content.
     and_then (ok_or (str_find content '' AS '')
                 (new_error UnsupportedFeature ''UNWIND requires AS variable'')) (\<lambda>as_idx.
     let list_part = trim (take as_idx content); rest = trim (drop (as_idx + 4) content) in
     and_then (ok_or (str_find rest '' RETURN '')
                 (new_error UnsupportedFeature ''UNWIND requires RETURN'')) (\<lambda>return_idx.
     let var = trim (take return_idx rest); projection = trim (drop (return_idx + 8) rest) in
     and_then (parse_list_values list_part) (\<lambda>values.
     if projection = ''count('' @ var @ '')'' then
       Ok (one_cell ''count'' (VInt64 (int (length values))))
     else if projection = ''collect('' @ var @ '')'' then Ok (QTable [''collect''] [values])
     else
       and_then (traverse value_as_f64 values) (\<lambda>numeric.
       if projection = ''sum('' @ var @ '')'' then Ok (one_cell ''sum'' (VFloat64 (f64_sum numeric)))
       else if projection = ''avg('' @ var @ '')'' then
         Ok (one_cell ''avg'' (VFloat64
           (if numeric = [] then f64_zero False
            else f64_div (f64_sum numeric) (f64_of_int (int (length numeric))))))
       else if projection = ''min('' @ var @ '')'' then
         Ok (one_cell ''min'' (VFloat64 (finite_or_zero (foldl f64_min (F64_Inf False) numeric))))
       else if projection = ''max('' @ var @ '')'' then
         Ok (one_cell ''max'' (VFloat64 (finite_or_zero (foldl f64_max (F64_Inf True) numeric))))
       else if projection = var then Ok (QTable [var] (map (\<lambda>v. [v]) values))
       else Err (unsupported ''unsupported UNWIND projection'' ''UNWIND''))))))"

definition evaluate_case_condition :: "string \<Rightarrow> bool db_result" where
  "evaluate_case_condition condition =
     (case split_once (CHR ''='') condition of
        None \<Rightarrow> Err (syntax_error ''CASE condition must be equality'')
      | Some (left, right) \<Rightarrow>
          and_then (parse_value (trim left)) (\<lambda>l.
          and_then (parse_value (trim right)) (\<lambda>r. Ok (val_eq l r))))"

definition execute_case_expression :: "string \<Rightarrow> query_result db_result" where
  "execute_case_expression expr =
     and_then (ok_or (strip_prefix expr ''WHEN '') (syntax_error ''CASE requires WHEN'')) (\<lambda>e.
     and_then (ok_or (str_find e '' THEN '') (syntax_error ''CASE requires THEN'')) (\<lambda>then_idx.
     and_then (ok_or (str_find e '' ELSE '') (syntax_error ''CASE requires ELSE'')) (\<lambda>else_idx.
     and_then (ok_or (str_rfind e '' END'') (syntax_error ''CASE requires END'')) (\<lambda>end_idx.
     if else_idx \<le> then_idx \<or> end_idx \<le> else_idx then
       Err (syntax_error ''invalid CASE expression order'')
     else
       and_then (slice e 0 then_idx) (\<lambda>condition.
       and_then (slice e (then_idx + 6) else_idx) (\<lambda>then_expr.
       and_then (slice e (else_idx + 6) end_idx) (\<lambda>else_expr.
       and_then (evaluate_case_condition (trim condition)) (\<lambda>c.
       and_then (parse_value (trim (if c then then_expr else else_expr))) (\<lambda>v.
       Ok (one_cell ''case'' v))))))))))"

definition execute_return_expression :: "string \<Rightarrow> query_result db_result" where
  "execute_return_expression query =
     (case strip_prefix (trim (trim_start_matches query ''RETURN '')) ''CASE '' of
        Some case_expr \<Rightarrow> execute_case_expression case_expr
      | None \<Rightarrow> Err (unsupported ''unsupported RETURN expression'' ''RETURN''))"

end
