(* ===== verification/Query.thy ===== *)
theory Query
  imports Query_Exec
begin

text \<open>
  The query evaluator of \<^verbatim>\<open>query.rs\<close>: \<^verbatim>\<open>execute_query_with_dialect\<close> with the nested evaluation of
  UNION branches, CALL subqueries and EXISTS subqueries, its termination, and the facts every
  query satisfies.
\<close>

section \<open>UNION results\<close>

datatype result_kind = KindNodes | KindTable

record union_acc =
  node_rows :: "graph_node list"
  table_columns :: "string list option"
  table_rows :: "val list list"
  kind_of :: "result_kind option"

definition empty_acc :: union_acc where
  "empty_acc = \<lparr>node_rows = [], table_columns = None, table_rows = [], kind_of = None\<rparr>"

text \<open>The body of the loop over the branches, after a branch has returned its result.\<close>

fun union_step :: "union_acc \<Rightarrow> query_result \<Rightarrow> union_acc db_result" where
  "union_step acc (QNodes ns) =
     (if kind_of acc = Some KindTable then
        Err (unsupported ''UNION branch result kinds must match'' ''UNION'')
      else Ok (acc\<lparr>kind_of := Some KindNodes, node_rows := node_rows acc @ ns\<rparr>))"
| "union_step acc (QTable cols rows) =
     (if kind_of acc = Some KindNodes then
        Err (unsupported ''UNION branch result kinds must match'' ''UNION'')
      else if table_columns acc \<noteq> None \<and> table_columns acc \<noteq> Some cols then
        Err (unsupported ''UNION branch columns must match'' ''UNION'')
      else Ok (acc\<lparr>table_columns := Some cols, kind_of := Some KindTable,
                   table_rows := table_rows acc @ rows\<rparr>))"
| "union_step acc QAck = Err (unsupported ''UNION does not support ACK branches'' ''UNION'')"

text \<open>\<^verbatim>\<open>retain\<close> with a set of seen ids, and with a list of seen rows compared by \<^verbatim>\<open>PartialEq\<close>.\<close>

fun dedup_nodes :: "string list \<Rightarrow> graph_node list \<Rightarrow> graph_node list" where
  "dedup_nodes seen [] = []"
| "dedup_nodes seen (n # ns) =
     (if node_id n \<in> set seen then dedup_nodes seen ns
      else n # dedup_nodes (node_id n # seen) ns)"

definition row_eq :: "val list \<Rightarrow> val list \<Rightarrow> bool" where
  "row_eq a b = list_all2 val_eq a b"

fun dedup_rows :: "val list list \<Rightarrow> val list list \<Rightarrow> val list list" where
  "dedup_rows seen [] = []"
| "dedup_rows seen (r # rs) =
     (if list_ex (\<lambda>x. row_eq x r) seen then dedup_rows seen rs
      else r # dedup_rows (seen @ [r]) rs)"

definition finish_union :: "union_mode \<Rightarrow> union_acc \<Rightarrow> query_result db_result" where
  "finish_union mode acc =
     (case kind_of acc of
        Some KindNodes \<Rightarrow>
          Ok (QNodes (if mode = Distinct then dedup_nodes [] (node_rows acc) else node_rows acc))
      | Some KindTable \<Rightarrow>
          Ok (QTable (case table_columns acc of Some c \<Rightarrow> c | None \<Rightarrow> [])
                (if mode = Distinct then dedup_rows [] (table_rows acc) else table_rows acc))
      | None \<Rightarrow> Err (unsupported ''UNION requires at least one branch'' ''UNION''))"

section \<open>Single clauses\<close>

definition is_match :: "string \<Rightarrow> bool" where
  "is_match q \<longleftrightarrow> starts_with q ''MATCH '' \<or> starts_with q ''OPTIONAL MATCH ''"

definition rewrite_with :: "string \<Rightarrow> string db_result" where
  "rewrite_with q =
     (let q1 = (if is_match q \<and> contains q '' WITH n,r,m RETURN n,r,m''
                then replacen1 q '' WITH n,r,m RETURN n,r,m'' '' RETURN n,r,m'' else q)
      in if is_match q1 \<and> contains q1 '' WITH '' then normalize_with_query q1 else Ok q1)"

definition is_relationship :: "string \<Rightarrow> bool" where
  "is_relationship q \<longleftrightarrow> contains q ''-[r]->('' \<or> contains q ''-[r]-(''"

definition execute_clause ::
  "(graph_node list \<Rightarrow> graph_node list) \<Rightarrow> store \<Rightarrow> string \<Rightarrow> store \<times> query_result db_result"
where
  "execute_clause it s q =
     (if starts_with q ''MATCH '' then
        (s, if is_relationship q then execute_match_relationship s q False else execute_match s q)
      else if starts_with q ''OPTIONAL MATCH '' then
        (s, if is_relationship q then execute_match_relationship s q True
            else execute_optional_match s q)
      else if starts_with q ''UNWIND '' then (s, execute_unwind q)
      else if starts_with q ''CREATE '' then execute_create s q
      else if starts_with q ''MERGE '' then execute_merge it s q
      else if starts_with q ''DELETE '' then execute_delete s q
      else if starts_with q ''SET '' then execute_set s q
      else if starts_with q ''REMOVE '' then execute_remove s q
      else if starts_with q ''CALL '' then execute_call s q
      else
        (s, Err (unsupported ''unsupported cypher clause for openCypher 9 profile''
                   (case split_whitespace q of w # _ \<Rightarrow> w | [] \<Rightarrow> ''UNKNOWN''))))"

definition subquery_row_count :: "query_result \<Rightarrow> nat db_result" where
  "subquery_row_count r =
     (case r of
        QNodes ns \<Rightarrow> Ok (length ns)
      | QTable _ rows \<Rightarrow> Ok (length rows)
      | QAck \<Rightarrow> Err (unsupported ''subquery must produce rows'' ''CALL {''))"

text \<open>The projection after a CALL subquery.\<close>

definition project_subquery :: "string \<Rightarrow> query_result \<Rightarrow> query_result db_result" where
  "project_subquery projection r =
     (if trim projection = ''count(*)'' then
        and_then (subquery_row_count r) (\<lambda>n. Ok (one_cell ''count'' (VInt64 (int n))))
      else if trim projection = ''*'' then Ok r
      else Err (unsupported ''unsupported CALL subquery projection'' ''CALL {''))"

text \<open>The subquery and the projection of \<^verbatim>\<open>CALL { inner } RETURN projection\<close>.\<close>

definition parse_call_subquery :: "string \<Rightarrow> (string \<times> string) db_result" where
  "parse_call_subquery query =
     and_then (ok_or (strip_prefix query ''CALL {'') (syntax_error ''invalid CALL subquery syntax''))
       (\<lambda>call.
     and_then (split_subquery_body call) (\<lambda>(inner, tail).
     and_then (ok_or (strip_prefix (trim_start tail) ''RETURN '')
                 (unsupported ''CALL subquery requires RETURN'' ''CALL {'')) (\<lambda>projection.
     Ok (trim inner, projection))))"

text \<open>The outer match, the subquery and the rest of \<^verbatim>\<open>MATCH .. WHERE EXISTS { inner } rest\<close>.\<close>

definition parse_exists_subquery :: "string \<Rightarrow> (string \<times> string \<times> string) db_result" where
  "parse_exists_subquery query =
     and_then (ok_or (str_find query '' WHERE EXISTS {'')
                 (syntax_error ''invalid EXISTS subquery syntax'')) (\<lambda>i.
     and_then (split_subquery_body (drop (i + 15) query)) (\<lambda>(inner, tail).
     Ok (trim (take i query), trim inner, tail)))"

lemma parse_call_subquery_shorter:
  "parse_call_subquery q = Ok (inner, p) \<Longrightarrow> length inner < length q"
proof -
  assume "parse_call_subquery q = Ok (inner, p)"
  then obtain call inner0 tail where "q = ''CALL {'' @ call"
    "split_subquery_body call = Ok (inner0, tail)" "inner = trim inner0"
    by (auto simp: parse_call_subquery_def split: prod.splits)
  with split_subquery_body_length [of call inner0 tail] length_trim [of inner0]
  show ?thesis by simp
qed

lemma parse_exists_subquery_shorter:
  "parse_exists_subquery q = Ok (outer, inner, tail) \<Longrightarrow> length inner < length q"
proof -
  assume "parse_exists_subquery q = Ok (outer, inner, tail)"
  then obtain i inner0 where
    "split_subquery_body (drop (i + 15) q) = Ok (inner0, tail)" "inner = trim inner0"
    by (auto simp: parse_exists_subquery_def split: prod.splits)
  with split_subquery_body_length [of "drop (i + 15) q" inner0 tail] length_trim [of inner0]
  show ?thesis by simp
qed

lemma rewrite_with_length: "rewrite_with q = Ok q' \<Longrightarrow> length q' \<le> length q"
proof -
  assume r: "rewrite_with q = Ok q'"
  let ?q1 = "if is_match q \<and> contains q '' WITH n,r,m RETURN n,r,m''
    then replacen1 q '' WITH n,r,m RETURN n,r,m'' '' RETURN n,r,m'' else q"
  have "length ?q1 \<le> length q" by (simp add: length_replacen1)
  moreover have "length q' \<le> length ?q1"
    using r normalize_with_query_length [of ?q1 q']
    by (auto simp: rewrite_with_def Let_def split: if_splits)
  ultimately show ?thesis by simp
qed

section \<open>The evaluator\<close>

definition max_length :: "string list \<Rightarrow> nat" where
  "max_length bs = foldr max (map length bs) 0"

lemma max_length_simps [simp]:
  "max_length [] = 0" "max_length (b # bs) = max (length b) (max_length bs)"
  by (simp_all add: max_length_def)

lemma max_length_less: "0 < n \<Longrightarrow> (\<And>b. b \<in> set bs \<Longrightarrow> length b < n) \<Longrightarrow> max_length bs < n"
  by (induction bs) auto

lemma split_union_max_length:
  assumes "split_top_level_union q = Ok (Some (bs, m))"
  shows "max_length bs < length q"
proof (rule max_length_less)
  have "split_top_level_union [] = Ok None"
    by (simp add: split_top_level_union_def to_ascii_uppercase_def union_scan.simps)
  with assms show "0 < length q" by (cases q) auto
qed (use split_top_level_union_shorter [OF assms] in auto)

text \<open>
  The nested evaluations recurse on strictly shorter strings. \<open>union_branches\<close> is the loop of
  \<^verbatim>\<open>execute_union_query\<close>; a failing branch ends it and keeps what earlier branches wrote. The
  EXISTS subquery runs on a copy of the store, which is dropped.
\<close>

function execute_query_with_dialect ::
  "(graph_node list \<Rightarrow> graph_node list) \<Rightarrow> store \<Rightarrow> string \<Rightarrow> cypher_dialect
     \<Rightarrow> store \<times> query_result db_result"
and union_branches ::
  "(graph_node list \<Rightarrow> graph_node list) \<Rightarrow> store \<Rightarrow> string list \<Rightarrow> union_acc \<Rightarrow> cypher_dialect
     \<Rightarrow> store \<times> union_acc db_result"
and execute_call_subquery ::
  "(graph_node list \<Rightarrow> graph_node list) \<Rightarrow> store \<Rightarrow> string \<Rightarrow> cypher_dialect
     \<Rightarrow> store \<times> query_result db_result"
and execute_exists_subquery_match ::
  "(graph_node list \<Rightarrow> graph_node list) \<Rightarrow> store \<Rightarrow> string \<Rightarrow> cypher_dialect
     \<Rightarrow> query_result db_result"
where
  "execute_query_with_dialect it s query dialect =
     (let q = trim query in
      case (if dialect = Neo4jCompat then reject_neo4j_compat_extension q else None) of
        Some e \<Rightarrow> (s, Err e)
      | None \<Rightarrow>
          (case split_top_level_union q of
             Panic \<Rightarrow> (s, Panic)
           | Err e \<Rightarrow> (s, Err e)
           | Ok (Some (branches, mode)) \<Rightarrow>
               (case union_branches it s branches empty_acc dialect of
                  (s', Ok acc) \<Rightarrow> (s', finish_union mode acc)
                | (s', Err e) \<Rightarrow> (s', Err e)
                | (s', Panic) \<Rightarrow> (s', Panic))
           | Ok None \<Rightarrow>
               if starts_with q ''RETURN '' then (s, execute_return_expression q)
               else if starts_with q ''CALL {'' then execute_call_subquery it s q dialect
               else
                 (case rewrite_with q of
                    Err e \<Rightarrow> (s, Err e)
                  | Panic \<Rightarrow> (s, Panic)
                  | Ok q2 \<Rightarrow>
                      if starts_with q2 ''MATCH '' \<and> contains q2 '' WHERE EXISTS {'' then
                        (s, execute_exists_subquery_match it s q2 dialect)
                      else execute_clause it s q2)))"
| "union_branches it s [] acc dialect = (s, Ok acc)"
| "union_branches it s (b # bs) acc dialect =
     (case execute_query_with_dialect it s b dialect of
        (s', Ok r) \<Rightarrow>
          (case union_step acc r of
             Ok acc' \<Rightarrow> union_branches it s' bs acc' dialect
           | Err e \<Rightarrow> (s', Err e)
           | Panic \<Rightarrow> (s', Panic))
      | (s', Err e) \<Rightarrow> (s', Err e)
      | (s', Panic) \<Rightarrow> (s', Panic))"
| "execute_call_subquery it s query dialect =
     (case parse_call_subquery query of
        Err e \<Rightarrow> (s, Err e)
      | Panic \<Rightarrow> (s, Panic)
      | Ok (inner, projection) \<Rightarrow>
          (case execute_query_with_dialect it s inner dialect of
             (s', r) \<Rightarrow> (s', and_then r (project_subquery projection))))"
| "execute_exists_subquery_match it s query dialect =
     (case parse_exists_subquery query of
        Err e \<Rightarrow> Err e
      | Panic \<Rightarrow> Panic
      | Ok (outer, inner, tail) \<Rightarrow>
          and_then (snd (execute_query_with_dialect it s inner dialect)) (\<lambda>r.
          and_then (subquery_row_count r) (\<lambda>n.
          if n = 0 then Ok (QNodes [])
          else execute_match s (outer @ '' '' @ trim_start tail))))"
  by pat_completeness auto
termination
proof (relation "inv_image (less_than <*lex*> less_than)
    (\<lambda>x. case x of
       Inl (Inl (it, s, q, d)) \<Rightarrow> (length q, 1)
     | Inl (Inr (it, s, bs, acc, d)) \<Rightarrow> (max_length bs, 2 + length bs)
     | Inr (Inl (it, s, q, d)) \<Rightarrow> (length q, 0)
     | Inr (Inr (it, s, q, d)) \<Rightarrow> (length q, 0))", goal_cases)
  case (2 it s query)
  then show ?case using length_trim [of query] by (auto simp: le_less)
next
  case (3 it s query dialect q r q2)
  then have "length q2 \<le> length query"
    using rewrite_with_length [of "trim query" q2] length_trim [of query] by simp
  then show ?case by (auto simp: le_less)
next
  case (4 it s query dialect q r r2 branches)
  then show ?case
    using split_union_max_length [of "trim query" branches] length_trim [of query] by fastforce
qed (auto dest: parse_call_subquery_shorter parse_exists_subquery_shorter)

declare execute_query_with_dialect.simps [simp del]
declare execute_call_subquery.simps [simp del]
declare execute_exists_subquery_match.simps [simp del]

definition execute_query ::
  "(graph_node list \<Rightarrow> graph_node list) \<Rightarrow> store \<Rightarrow> string \<Rightarrow> store \<times> query_result db_result"
where
  "execute_query it s query = execute_query_with_dialect it s query OpenCypher9"

end
