(* ===== verification/Str_Facts.thy ===== *)
theory Str_Facts
  imports Rust_Str
begin

text \<open>
  Facts about Rust's string operations on strings built from known parts: search across a
  separator, trimming of text that starts and ends with visible ASCII, and the parts of a
  string that searching and trimming return.
\<close>

section \<open>Parts of a string\<close>

lemma contains_refl [simp]: "contains s s"
  by (auto simp: contains_iff intro: exI [of _ "[]"])

lemma contains_trans: "contains s t \<Longrightarrow> contains t u \<Longrightarrow> contains s u"
  by (metis append_assoc contains_iff)

lemma contains_take [simp]: "contains s (take n s)"
  by (metis append_Nil append_take_drop_id contains_iff)

lemma contains_drop [simp]: "contains s (drop n s)"
  by (metis append_Nil2 append_take_drop_id contains_iff)

lemma contains_set: "contains s t \<Longrightarrow> set t \<subseteq> set s"
  by (auto simp: contains_iff)

lemma trim_end_rev_suffix: "\<exists>a. s = a @ trim_end_rev s"
proof (induction s rule: trim_end_rev.induct)
  case (2 c cs)
  show ?case
  proof (cases "ws_len_rev (c # cs)")
    case (Suc k)
    with 2 obtain a where "drop k cs = a @ trim_end_rev (drop k cs)" by auto
    then have "c # cs = (c # take k cs @ a) @ trim_end_rev (drop k cs)"
      by (metis append_Cons append_assoc append_take_drop_id)
    with Suc show ?thesis by (metis nat.simps(5) trim_end_rev.simps(2))
  qed simp
qed simp

lemma contains_trim_start [simp]: "contains s (trim_start s)"
  using trim_start_suffix [of s] by (metis append_Nil2 contains_iff)

lemma contains_trim_end [simp]: "contains s (trim_end s)"
proof -
  obtain a where "rev s = a @ trim_end_rev (rev s)" using trim_end_rev_suffix by blast
  then have "s = trim_end s @ rev a" by (metis rev_append rev_rev_ident trim_end_def)
  then show ?thesis by (metis append_Nil contains_iff)
qed

lemma contains_trim [simp]: "contains s (trim s)"
  unfolding trim_def by (rule contains_trans [OF contains_trim_start contains_trim_end])

lemma contains_trim_start_matches [simp]: "contains s (trim_start_matches s p)"
proof (induction s p rule: trim_start_matches.induct)
  case (1 s p)
  then show ?case
    by (subst trim_start_matches.simps) (auto intro: contains_trans [OF contains_drop])
qed

lemma contains_strip_prefix: "strip_prefix s p = Some r \<Longrightarrow> contains s r \<and> contains s p"
  by (auto simp: contains_iff intro: exI [of _ "[]"] exI [of _ p])

lemma starts_with_contains: "starts_with s p \<Longrightarrow> contains s p"
  by (auto simp: starts_with_iff contains_iff intro: exI [of _ "[]"])

lemma starts_with_shorter: "starts_with s (p @ q) \<Longrightarrow> starts_with s p"
  by (auto simp: starts_with_iff)

lemma trim_end_prefix: "\<exists>b. s = trim_end s @ b"
  using trim_end_rev_suffix [of "rev s"] by (metis rev_append rev_rev_ident trim_end_def)

section \<open>Search across a separator\<close>

lemma contains_Cons: "contains (c # s) p \<longleftrightarrow> starts_with (c # s) p \<or> contains s p"
  by (auto simp: contains_def)

lemma contains_Nil: "contains [] p \<longleftrightarrow> p = []"
  by (simp add: contains_def)

lemma starts_with_sep:
  "d \<notin> set p \<Longrightarrow> starts_with (l @ d # b) p \<longleftrightarrow> starts_with l p"
  by (induction l p rule: starts_with.induct) (auto elim: starts_with.elims)

lemma contains_sep:
  assumes "d \<notin> set p" "p \<noteq> []"
  shows "contains (l @ d # b) p \<longleftrightarrow> contains l p \<or> contains b p"
proof (induction l)
  case Nil
  have "\<not> starts_with (d # b) p" using assms by (cases p) auto
  with assms(2) show ?case by (simp add: contains_Cons contains_Nil)
next
  case (Cons c l)
  then show ?case using starts_with_sep [of d p "c # l" b] assms(1) by (auto simp: contains_Cons)
qed

lemma contains_missing: "c \<in> set p \<Longrightarrow> c \<notin> set s \<Longrightarrow> \<not> contains s p"
  using contains_set by blast

lemma str_find_char: "c \<notin> set a \<Longrightarrow> str_find (a @ c # b) [c] = Some (length a)"
  by (induction a) auto

lemma str_find_None: "str_find s p = None \<longleftrightarrow> \<not> contains s p"
  by (simp add: contains_def)

section \<open>Visible ASCII\<close>

definition visible :: "char \<Rightarrow> bool" where
  "visible c \<longleftrightarrow> CHR 0x21 \<le> c \<and> c \<le> CHR 0x7E"

lemma visible_ws [simp]:
  assumes "visible c"
  shows "ws_len (c # s) = 0" "ws_len_rev (c # s) = 0"
proof -
  have neq: "c \<noteq> d" if "\<not> visible d" for d using that assms by auto
  have a: "\<not> is_ascii_ws c" unfolding is_ascii_ws_def
    by (intro conjI notI; elim disjE; use neq in \<open>simp add: visible_def less_eq_char_def\<close>)
  have b: "\<not> is_ws2 c x" for x using neq [of "CHR 0xC2"]
    by (simp add: is_ws2_def visible_def less_eq_char_def)
  have b': "\<not> is_ws2 x c" for x using neq [of "CHR 0x85"] neq [of "CHR 0xA0"]
    by (auto simp add: is_ws2_def visible_def less_eq_char_def)
  have d: "\<not> is_ws3 c x y" for x y
    using neq [of "CHR 0xE1"] neq [of "CHR 0xE2"] neq [of "CHR 0xE3"]
    by (auto simp add: is_ws3_def visible_def less_eq_char_def)
  have d': "\<not> is_ws3 x y c" for x y
    using assms by (auto simp: is_ws3_def visible_def less_eq_char_def)
  show "ws_len (c # s) = 0" using a b d
    by (cases "c # s" rule: ws_len.cases) auto
  show "ws_len_rev (c # s) = 0" using a b' d'
    by (cases "c # s" rule: ws_len_rev.cases) auto
qed

lemma trim_start_visible: "visible c \<Longrightarrow> trim_start (c # s) = c # s"
  by simp

lemma trim_end_visible: "visible c \<Longrightarrow> trim_end (s @ [c]) = s @ [c]"
  by (simp add: trim_end_def)

lemma trim_visible:
  assumes "s \<noteq> []" "visible (hd s)" "visible (last s)"
  shows "trim s = s"
  using trim_start_visible [of "hd s" "tl s"] trim_end_visible [of "last s" "butlast s"] assms
  by (simp add: trim_def)

lemma ws_len_rev_append_visible:
  "visible c \<Longrightarrow> t \<noteq> [] \<Longrightarrow> ws_len_rev (t @ c # r) = ws_len_rev t"
proof -
  assume c: "visible c" and t: "t \<noteq> []"
  have "\<not> is_ws2 c x" "\<not> is_ws3 c x y" "\<not> is_ws3 x c y" for x y
    using c by (auto simp: is_ws2_def is_ws3_def visible_def less_eq_char_def)
  then show ?thesis using t by (cases t rule: ws_len_rev.cases; cases r) auto
qed

lemma trim_end_rev_append_visible:
  assumes "visible c"
  shows "trim_end_rev (t @ c # r) = trim_end_rev t @ c # r"
proof (induction t rule: trim_end_rev.induct)
  case 1
  with assms show ?case by simp
next
  case (2 x xs)
  have w: "ws_len_rev (x # xs @ c # r) = ws_len_rev (x # xs)"
    using ws_len_rev_append_visible [OF assms, of "x # xs" r] by simp
  show ?case
  proof (cases "ws_len_rev (x # xs)")
    case (Suc k)
    have "k \<le> length xs"
      using Suc by (cases "x # xs" rule: ws_len_rev.cases) (auto split: if_splits)
    with 2 Suc w show ?thesis by simp
  qed (simp add: w)
qed

lemma trim_end_append_visible: "visible c \<Longrightarrow> trim_end (a @ c # s) = a @ c # trim_end s"
  using trim_end_rev_append_visible [of c "rev s" "rev a"] by (simp add: trim_end_def)

lemma trim_Nil [simp]: "trim [] = []"
  by (simp add: trim_def trim_end_def)

lemma trim_space [simp]: "trim (CHR '' '' # s) = trim s"
proof -
  have "ws_len (CHR '' '' # s) = 1"
    by (cases "CHR '' '' # s" rule: ws_len.cases) (auto simp: is_ascii_ws_def)
  then show ?thesis by (simp add: trim_def)
qed

section \<open>Identifiers\<close>

definition ident_char :: "char \<Rightarrow> bool" where
  "ident_char c \<longleftrightarrow>
     (CHR ''a'' \<le> c \<and> c \<le> CHR ''z'') \<or> (CHR ''A'' \<le> c \<and> c \<le> CHR ''Z'') \<or> is_digit c \<or> c = CHR ''_''"

definition ident :: "string \<Rightarrow> bool" where
  "ident s \<longleftrightarrow> s \<noteq> [] \<and> list_all ident_char s"

lemma ident_char_visible: "ident_char c \<Longrightarrow> visible c"
  by (auto simp: ident_char_def visible_def is_digit_def less_eq_char_def)

lemma ident_not_mem: "ident s \<Longrightarrow> \<not> ident_char c \<Longrightarrow> c \<notin> set s"
  by (auto simp: ident_def list_all_iff)

lemma not_ident_char [simp]:
  "\<not> ident_char CHR '' ''" "\<not> ident_char CHR ''('' " "\<not> ident_char CHR '')''"
  "\<not> ident_char CHR '':''" "\<not> ident_char CHR ''{''" "\<not> ident_char CHR ''}''"
  "\<not> ident_char CHR ''-''" "\<not> ident_char CHR ''[''" "\<not> ident_char CHR '']''"
  "\<not> ident_char CHR 0x27" "\<not> ident_char CHR ''.''" "\<not> ident_char CHR ''=''"
  by (simp_all add: ident_char_def is_digit_def less_eq_char_def)

lemma trim_ident: "ident s \<Longrightarrow> trim s = s"
  by (rule trim_visible) (auto simp: ident_def list_all_iff intro: ident_char_visible)

end
