(* ===== verification/Query_Correct.thy ===== *)
theory Query_Correct
  imports Query Str_Facts
begin

text \<open>
  What every query satisfies, whatever it returns: it keeps each invariant that satisfies the
  contract of the store (consistency, no new edges), reading clauses leave the store as it is,
  and the behaviour of the single clauses.
\<close>

section \<open>Where the final store comes from\<close>

text \<open>A query leaves the store alone, or leaves the one its branches, subquery or clause left.\<close>

definition dialect_ok :: "cypher_dialect \<Rightarrow> string \<Rightarrow> bool" where
  "dialect_ok d q \<longleftrightarrow> d \<noteq> Neo4jCompat \<or> reject_neo4j_compat_extension q = None"

lemma dialect_ok_iff:
  "(if d = Neo4jCompat then reject_neo4j_compat_extension q else None) = None \<longleftrightarrow> dialect_ok d q"
  by (auto simp: dialect_ok_def)

lemma execute_query_rejected:
  "\<not> dialect_ok d (trim query) \<Longrightarrow>
     \<exists>e. execute_query_with_dialect it s query d = (s, Err e)"
  by (subst execute_query_with_dialect.simps) (auto simp: dialect_ok_def)

lemma execute_query_union:
  "dialect_ok d (trim query) \<Longrightarrow> split_top_level_union (trim query) = Ok (Some (bs, m)) \<Longrightarrow>
     execute_query_with_dialect it s query d =
       (fst (union_branches it s bs empty_acc d),
        and_then (snd (union_branches it s bs empty_acc d)) (finish_union m))"
  by (subst execute_query_with_dialect.simps)
    (cases "union_branches it s bs empty_acc d"; cases "snd (union_branches it s bs empty_acc d)";
     auto simp: dialect_ok_def Let_def)

lemma execute_query_no_union:
  "dialect_ok d (trim query) \<Longrightarrow> split_top_level_union (trim query) = Ok None \<Longrightarrow>
     execute_query_with_dialect it s query d =
       (if starts_with (trim query) ''RETURN '' then (s, execute_return_expression (trim query))
        else if starts_with (trim query) ''CALL {'' then execute_call_subquery it s (trim query) d
        else case rewrite_with (trim query) of
          Err e \<Rightarrow> (s, Err e)
        | Panic \<Rightarrow> (s, Panic)
        | Ok q2 \<Rightarrow>
            if starts_with q2 ''MATCH '' \<and> contains q2 '' WHERE EXISTS {'' then
              (s, execute_exists_subquery_match it s q2 d)
            else execute_clause it s q2)"
  by (subst execute_query_with_dialect.simps) (simp add: dialect_ok_def Let_def)

lemma execute_query_split_fails:
  "dialect_ok d (trim query) \<Longrightarrow> split_top_level_union (trim query) = Panic \<Longrightarrow>
     execute_query_with_dialect it s query d = (s, Panic)"
  "dialect_ok d (trim query) \<Longrightarrow> split_top_level_union (trim query) = Err e \<Longrightarrow>
     execute_query_with_dialect it s query d = (s, Err e)"
  by (subst execute_query_with_dialect.simps; simp add: dialect_ok_def Let_def)+

lemma store_after_query:
  obtains
    (unchanged) "fst (execute_query_with_dialect it s query d) = s"
  | (union) bs m where "dialect_ok d (trim query)"
      "split_top_level_union (trim query) = Ok (Some (bs, m))"
      "fst (execute_query_with_dialect it s query d) = fst (union_branches it s bs empty_acc d)"
  | (subquery) "dialect_ok d (trim query)" "split_top_level_union (trim query) = Ok None"
      "\<not> starts_with (trim query) ''RETURN ''" "starts_with (trim query) ''CALL {''"
      "fst (execute_query_with_dialect it s query d) =
         fst (execute_call_subquery it s (trim query) d)"
  | (clause) q2 where "rewrite_with (trim query) = Ok q2"
      "fst (execute_query_with_dialect it s query d) = fst (execute_clause it s q2)"
proof (cases "dialect_ok d (trim query)")
  case False
  with unchanged show ?thesis using execute_query_rejected [of d query it s] by auto
next
  case ok: True
  show ?thesis
  proof (cases "split_top_level_union (trim query)")
    case (Ok x)
    show ?thesis
    proof (cases x)
      case None
      with Ok ok execute_query_no_union [of d query it s] that show ?thesis
        by (cases "rewrite_with (trim query)") (auto split: if_splits)
    next
      case (Some y)
      with Ok ok execute_query_union [of d query "fst y" "snd y" it s] union show ?thesis
        by (cases y) simp
    qed
  qed (use ok execute_query_split_fails [of d query] unchanged in auto)
qed

lemmas query_induct =
  execute_query_with_dialect_union_branches_execute_call_subquery_execute_exists_subquery_match.induct

section \<open>Invariants through the contract of the store\<close>

context graph_contract
begin

lemma inv_mutate_node:
  "inv s \<Longrightarrow> (\<And>n. node_id (f n) = node_id n) \<Longrightarrow> inv (fst (mutate_node s k f msg))"
  by (auto simp: mutate_node_def split: option.splits intro: inv_get_node_mut)

lemma inv_set_prop: "inv s \<Longrightarrow> inv (fst (mutate_node s k (set_prop p v) msg))"
  by (rule inv_mutate_node) (simp_all add: set_prop_def)

lemma inv_remove_prop: "inv s \<Longrightarrow> inv (fst (mutate_node s k (remove_prop p) msg))"
  by (rule inv_mutate_node) (simp_all add: remove_prop_def)

lemma inv_apply_merge_set: "inv s \<Longrightarrow> inv (fst (apply_merge_set s k tail marker msg))"
  by (auto simp: apply_merge_set_def inv_set_prop split: outcome.splits option.splits)

lemma inv_execute_create: "inv s \<Longrightarrow> inv (fst (execute_create s q))"
  by (auto simp: execute_create_def inv_create_node split: outcome.splits)

lemma inv_execute_merge: "inv s \<Longrightarrow> inv (fst (execute_merge it s q))"
  by (auto simp: execute_merge_def Let_def split_beta inv_create_node inv_apply_merge_set
      split: outcome.splits option.splits)

lemma inv_execute_set: "inv s \<Longrightarrow> inv (fst (execute_set s q))"
  by (auto simp: execute_set_def Let_def inv_set_prop split: outcome.splits list.splits)

lemma inv_execute_remove: "inv s \<Longrightarrow> inv (fst (execute_remove s q))"
  by (auto simp: execute_remove_def Let_def inv_remove_prop split: list.splits)

lemma inv_execute_delete: "inv s \<Longrightarrow> inv (fst (execute_delete s q))"
  by (auto simp: execute_delete_def Let_def inv_delete_node inv_delete_node_detach
      split: list.splits)

lemma inv_call_rename_label: "inv s \<Longrightarrow> inv (fst (call_rename_label s args))"
  by (auto simp: call_rename_label_def Let_def split_beta inv_rename_label
      split: list.splits outcome.splits)

lemma inv_execute_call: "inv s \<Longrightarrow> inv (fst (execute_call s q))"
  by (auto simp: execute_call_def inv_call_rename_label split: outcome.splits)

lemmas inv_executors =
  inv_execute_create inv_execute_merge inv_execute_set inv_execute_remove inv_execute_delete
  inv_execute_call

lemma inv_execute_clause: "inv s \<Longrightarrow> inv (fst (execute_clause it s q))"
  by (simp add: execute_clause_def inv_executors)

lemma inv_query_all:
  "inv s1 \<Longrightarrow> inv (fst (execute_query_with_dialect it1 s1 q1 d1))"
  "inv s2 \<Longrightarrow> inv (fst (union_branches it2 s2 bs acc d2))"
  "inv s3 \<Longrightarrow> inv (fst (execute_call_subquery it3 s3 q3 d3))"
  "\<exists>r. execute_exists_subquery_match it4 s4 q4 d4 = r"
proof (induction it1 s1 q1 d1 and it2 s2 bs acc d2 and it3 s3 q3 d3 and it4 s4 q4 d4
    rule: query_induct)
  case (1 it s query dialect)
  note IH = "1.IH"
  show ?case
  proof (cases rule: store_after_query [of it s query dialect])
    case unchanged
    with "1.prems" show ?thesis by simp
  next
    case (union bs m)
    with IH "1.prems" show ?thesis by (simp add: dialect_ok_iff)
  next
    case subquery
    with IH "1.prems" show ?thesis by (simp add: dialect_ok_iff)
  next
    case (clause q2)
    with "1.prems" show ?thesis by (simp add: inv_execute_clause)
  qed
next
  case (3 it s b bs acc dialect)
  then show ?case by (auto split: prod.splits outcome.splits)
next
  case (4 it s query dialect)
  then show ?case
    by (subst execute_call_subquery.simps)
      (cases "parse_call_subquery query"; fastforce split: prod.splits)
qed auto

lemma inv_execute_query_with_dialect:
  "inv s \<Longrightarrow> inv (fst (execute_query_with_dialect it s q d))"
  by (rule inv_query_all(1))

end

section \<open>Parts that nested evaluation runs on\<close>

lemma union_scan_parts:
  assumes "union_scan query upper idx depth iq start branches mode = Ok (Some (bs, m))"
    and "\<forall>b \<in> set branches. contains query b"
  shows "\<forall>b \<in> set bs. contains query b"
  using assms
proof (induction "length upper - idx" arbitrary: idx depth iq start branches mode rule: less_induct)
  case less
  show ?case
  proof (cases "idx < length upper")
    case False
    moreover have "contains query (trim (drop start query))"
      by (meson contains_drop contains_trans contains_trim)
    ultimately show ?thesis using less.prems
      by (auto simp: union_scan.simps [of query upper idx] Let_def split: if_splits)
  next
    case True
    have b: "contains query (trim (take (idx - start) (drop start query)))"
      by (meson contains_drop contains_take contains_trans contains_trim)
    from union_scan_step [OF True less.prems(1)] obtain idx' depth' iq' start' branches' mode'
      where step: "union_scan query upper idx' depth' iq' start' branches' mode' = Ok (Some (bs, m))"
        and idx': "idx < idx'"
        and br: "branches' = branches \<or>
          branches' = branches @ [trim (take (idx - start) (drop start query))]"
      by blast
    from br less.prems(2) b have "\<forall>b \<in> set branches'. contains query b" by auto
    with less.hyps [OF _ step] True idx' show ?thesis by simp
  qed
qed

lemma split_union_parts:
  "split_top_level_union q = Ok (Some (bs, m)) \<Longrightarrow> b \<in> set bs \<Longrightarrow> contains q b"
  using union_scan_parts [of q "to_ascii_uppercase q"] by (simp add: split_top_level_union_def)

lemma call_subquery_part: "parse_call_subquery q = Ok (inner, p) \<Longrightarrow> contains q inner"
proof -
  assume "parse_call_subquery q = Ok (inner, p)"
  then obtain call inner0 tail where "q = ''CALL {'' @ call"
    "split_subquery_body call = Ok (inner0, tail)" "inner = trim inner0"
    by (auto simp: parse_call_subquery_def split: prod.splits)
  moreover then obtain i where "inner0 = take i call"
    by (auto simp: split_subquery_body_def split: option.splits)
  moreover have "contains (''CALL {'' @ call) call" by (simp add: contains_Cons)
  ultimately show ?thesis by (meson contains_take contains_trans contains_trim)
qed

lemma exists_subquery_part:
  "parse_exists_subquery q = Ok (outer, inner, tail) \<Longrightarrow> contains q inner"
proof -
  assume "parse_exists_subquery q = Ok (outer, inner, tail)"
  then obtain i inner0 where
    "split_subquery_body (drop (i + 15) q) = Ok (inner0, tail)" "inner = trim inner0"
    by (auto simp: parse_exists_subquery_def split: prod.splits)
  moreover then obtain j where "inner0 = take j (drop (i + 15) q)"
    by (auto simp: split_subquery_body_def split: option.splits)
  ultimately show ?thesis by (meson contains_drop contains_take contains_trans contains_trim)
qed

text \<open>A rewritten MATCH is still a MATCH.\<close>

lemma is_match_prefix: "is_match q \<longleftrightarrow> (\<exists>kw r. kw \<in> {''MATCH'', ''OPTIONAL MATCH''} \<and> q = kw @ CHR '' '' # r)"
  by (auto simp: is_match_def starts_with_iff)

lemma cut_after_keyword:
  assumes "kw \<in> {''MATCH'', ''OPTIONAL MATCH''}" "q = kw @ CHR '' '' # r"
    and "str_find q (CHR '' '' # p) = Some i" "p = CHR ''W'' # p'"
  shows "take i q = kw @ take (i - length kw) (CHR '' '' # r)"
proof -
  from str_find_Some [OF assms(3)] have s: "starts_with (drop i q) (CHR '' '' # p)"
    by (metis append_take_drop_id same_append_eq starts_with_append)
  have "length kw \<le> i"
  proof (rule ccontr)
    assume "\<not> length kw \<le> i"
    then have "i < length kw" by simp
    then have "starts_with (drop i kw @ CHR '' '' # r) '' W''"
      using s assms(2,4) starts_with_shorter [of "drop i q" "'' W''" p'] by simp
    moreover have "i < 14" using \<open>i < length kw\<close> assms(1) by auto
    ultimately show False using \<open>i < length kw\<close> assms(1)
      by (auto simp: less_Suc_eq numeral_eq_Suc)
  qed
  then show ?thesis using assms(2) by simp
qed

lemma trim_keyword:
  assumes "kw \<in> {''MATCH'', ''OPTIONAL MATCH''}"
  shows "trim (kw @ x) = kw @ trim_end x"
proof -
  have v: "visible CHR ''H''" "visible CHR ''M''" "visible CHR ''O''"
    by (simp_all add: visible_def less_eq_char_def)
  from assms obtain a where kw: "kw = a @ [CHR ''H'']" and hd: "visible (hd kw)" using v by force
  then have "trim_start (kw @ x) = kw @ x" by (cases a) auto
  with kw trim_end_append_visible [OF v(1), of a x] show ?thesis by (simp add: trim_def)
qed

lemma take_Cons_prefix: "take k (c # r) = y @ b \<Longrightarrow> y = [] \<or> hd y = c"
  by (cases y; cases k) auto

lemma is_match_normalize:
  assumes "is_match q" "normalize_with_query q = Ok q'"
  shows "is_match q'"
proof -
  from assms(1) obtain kw r where kw: "kw \<in> {''MATCH'', ''OPTIONAL MATCH''}"
    and q: "q = kw @ CHR '' '' # r" by (auto simp: is_match_prefix)
  from assms(2) obtain i e where i: "str_find q '' WITH '' = Some i"
    and q': "q' = trim (take i q) @ '' RETURN '' @ e"
    by (auto simp: normalize_with_query_def Let_def split: if_splits prod.splits)
  let ?x = "take (i - length kw) (CHR '' '' # r)"
  have e: "q' = kw @ trim_end ?x @ '' RETURN '' @ e"
    using q' cut_after_keyword [OF kw q i refl] trim_keyword [OF kw, of ?x] by simp
  obtain b where "?x = trim_end ?x @ b" using trim_end_prefix by blast
  then have "trim_end ?x = [] \<or> hd (trim_end ?x) = CHR '' ''" by (rule take_Cons_prefix)
  then have "\<exists>z. trim_end ?x @ '' RETURN '' @ e = CHR '' '' # z"
    by (cases "trim_end ?x") auto
  with e kw show ?thesis unfolding is_match_prefix by auto
qed

lemma is_match_replacen1:
  assumes "is_match q" "p = CHR ''W'' # p'"
  shows "is_match (replacen1 q (CHR '' '' # p) (CHR '' '' # t))"
proof (cases "str_find q (CHR '' '' # p)")
  case None
  with assms(1) show ?thesis by (simp add: replacen1_def)
next
  case (Some i)
  from assms(1) obtain kw r where kw: "kw \<in> {''MATCH'', ''OPTIONAL MATCH''}"
    and q: "q = kw @ CHR '' '' # r" by (auto simp: is_match_prefix)
  let ?d = "drop (i + length (CHR '' '' # p)) q"
  have "replacen1 q (CHR '' '' # p) (CHR '' '' # t) =
    kw @ take (i - length kw) (CHR '' '' # r) @ CHR '' '' # t @ ?d"
    using Some cut_after_keyword [OF kw q Some assms(2)] by (simp add: replacen1_def)
  moreover have "\<exists>z. take (i - length kw) (CHR '' '' # r) @ CHR '' '' # t @ ?d = CHR '' '' # z"
    by (cases "i - length kw") simp_all
  ultimately show ?thesis unfolding is_match_prefix using kw by metis
qed

lemma is_match_rewrite:
  assumes "is_match q" "rewrite_with q = Ok q'"
  shows "is_match q'"
proof -
  define q1 where "q1 = (if is_match q \<and> contains q '' WITH n,r,m RETURN n,r,m''
    then replacen1 q '' WITH n,r,m RETURN n,r,m'' '' RETURN n,r,m'' else q)"
  have r: "rewrite_with q =
    (if is_match q1 \<and> contains q1 '' WITH '' then normalize_with_query q1 else Ok q1)"
    by (simp only: rewrite_with_def Let_def q1_def)
  have "is_match q1"
    using assms(1) is_match_replacen1 [OF assms(1) refl, of "''ITH n,r,m RETURN n,r,m''" "''RETURN n,r,m''"]
    by (simp add: q1_def)
  with r assms(2) is_match_normalize [of q1 q'] show ?thesis by (simp split: if_splits)
qed

lemma rewrite_not_match: "\<not> is_match q \<Longrightarrow> rewrite_with q = Ok q"
  by (simp add: rewrite_with_def)

lemma match_clause_keeps_store: "is_match q \<Longrightarrow> fst (execute_clause it s q) = s"
  by (auto simp: is_match_def execute_clause_def)

definition write_keywords :: "string list" where
  "write_keywords = [''CREATE '', ''MERGE '', ''DELETE '', ''SET '', ''REMOVE '', ''CALL '']"

definition reads_only :: "string \<Rightarrow> bool" where
  "reads_only q \<longleftrightarrow> list_all (\<lambda>kw. \<not> contains q kw) write_keywords"

lemma reads_only_part: "reads_only q \<Longrightarrow> contains q p \<Longrightarrow> reads_only p"
  by (auto simp: reads_only_def list_all_iff dest: contains_trans)

lemma reads_only_clause: "reads_only q \<Longrightarrow> fst (execute_clause it s q) = s"
  by (auto simp: reads_only_def write_keywords_def execute_clause_def dest: starts_with_contains)

lemma reads_only_all:
  "reads_only q1 \<Longrightarrow> fst (execute_query_with_dialect it1 s1 q1 d1) = s1"
  "list_all reads_only bs \<Longrightarrow> fst (union_branches it2 s2 bs acc d2) = s2"
  "reads_only q3 \<Longrightarrow> fst (execute_call_subquery it3 s3 q3 d3) = s3"
  "\<exists>r. execute_exists_subquery_match it4 s4 q4 d4 = r"
proof (induction it1 s1 q1 d1 and it2 s2 bs acc d2 and it3 s3 q3 d3 and it4 s4 q4 d4
    rule: query_induct)
  case (1 it s query dialect)
  have r: "reads_only (trim query)" using "1.prems" reads_only_part contains_trim by blast
  show ?case
  proof (cases rule: store_after_query [of it s query dialect])
    case (union bs m)
    then have "list_all reads_only bs"
      using r split_union_parts [of "trim query"] reads_only_part by (auto simp: list_all_iff)
    with union "1.IH" show ?thesis by (simp add: dialect_ok_iff)
  next
    case subquery
    with "1.IH" r show ?thesis by (simp add: dialect_ok_iff)
  next
    case (clause q2)
    with r show ?thesis
      by (cases "is_match (trim query)")
        (auto simp: rewrite_not_match reads_only_clause match_clause_keeps_store
          dest: is_match_rewrite)
  qed simp
next
  case (3 it s b bs acc dialect)
  then show ?case
    by (cases "execute_query_with_dialect it s b dialect") (auto split: outcome.splits)
next
  case (4 it s query dialect)
  then show ?case
    by (subst execute_call_subquery.simps)
      (cases "parse_call_subquery query"; fastforce split: prod.splits
        dest: call_subquery_part reads_only_part)
qed auto

section \<open>Panics\<close>

lemma parse_value_no_panic [simp]: "parse_value v \<noteq> Panic"
  by (simp add: parse_value_def split: option.splits)

lemma map_ok_Panic [simp]: "map_ok f m = Panic \<longleftrightarrow> m = Panic"
  by (cases m) (auto simp: map_ok_def)

lemma parse_assignment_no_panic [simp]: "parse_assignment a \<noteq> Panic"
  by (auto simp: parse_assignment_def Let_def and_then_eq_Panic split: option.splits)

lemma insert_assignments_no_panic [simp]: "insert_assignments ps es \<noteq> Panic"
  by (induction ps es rule: insert_assignments.induct) (auto simp: and_then_eq_Panic)

lemma parse_list_values_no_panic [simp]: "parse_list_values l \<noteq> Panic"
  by (auto simp: parse_list_values_def and_then_eq_Panic traverse_not_Panic)

lemma payload_no_panic [simp]: "parse_create_or_merge_payload q p \<noteq> Panic"
  by (auto simp: parse_create_or_merge_payload_def parse_properties_def Let_def and_then_eq_Panic
      split: option.splits)

lemma modifiers_no_panic [simp]: "parse_return_modifiers q \<noteq> Panic"
  by (auto simp: parse_return_modifiers_def parse_count_def and_then_eq_Panic
      split: option.splits list.splits if_splits)

lemma filters_no_panic [simp]: "parse_match_filters q \<noteq> Panic"
  by (auto simp: parse_match_filters_def Let_def and_then_eq_Panic
      split: option.splits val.splits)

lemma relationship_rows_no_panic [simp]: "relationship_rows s d w es \<noteq> Panic"
  by (induction s d w es rule: relationship_rows.induct) (auto simp: and_then_eq_Panic)

lemma match_no_panic [simp]: "execute_match s q \<noteq> Panic" "execute_optional_match s q \<noteq> Panic"
  by (auto simp: execute_match_def execute_optional_match_def apply_return_modifiers_def Let_def
      and_then_eq_Panic)

lemma match_relationship_no_panic [simp]: "execute_match_relationship s q b \<noteq> Panic"
  by (auto simp: execute_match_relationship_def parse_relationship_weight_filter_def
      build_relationship_rows_def apply_table_modifiers_def Let_def and_then_eq_Panic
      split: option.splits)

lemma unwind_no_panic [simp]: "execute_unwind q \<noteq> Panic"
proof -
  have "traverse value_as_f64 vs \<noteq> Panic" for vs
    by (rule traverse_not_Panic) (simp add: value_as_f64_def split: val.splits)
  then show ?thesis by (auto simp: execute_unwind_def Let_def and_then_eq_Panic)
qed

lemma string_arg_no_panic [simp]: "string_arg m r \<noteq> Panic"
  by (auto simp: string_arg_def and_then_eq_Panic split: val.splits)

lemma call_no_panic [simp]: "snd (execute_call s q) \<noteq> Panic"
proof -
  have "parse_call q \<noteq> Panic" by (auto simp: parse_call_def Let_def and_then_eq_Panic)
  moreover have "call_text_join a \<noteq> Panic" for a
    by (auto simp: call_text_join_def and_then_eq_Panic split: list.splits)
  moreover have "snd (call_rename_label s a) \<noteq> Panic" for a
    by (auto simp: call_rename_label_def Let_def split_beta and_then_eq_Panic
        split: list.splits outcome.splits)
  ultimately show ?thesis by (auto simp: execute_call_def and_then_eq_Panic split: outcome.splits)
qed

lemma mutate_node_no_panic [simp]: "snd (mutate_node s k f m) \<noteq> Panic"
  by (simp add: mutate_node_def split: option.splits)

lemma merge_no_panic [simp]: "snd (execute_merge it s q) \<noteq> Panic"
proof -
  have "snd (apply_merge_set s k t m msg) \<noteq> Panic" for s k t m msg
    by (auto simp: apply_merge_set_def parse_merge_set_clause_def Let_def
        split: outcome.splits option.splits if_splits)
  then show ?thesis
    by (auto simp: execute_merge_def split_pattern_and_tail_def Let_def split_beta and_then_eq_Panic
        split: outcome.splits option.splits)
qed

lemma execute_clause_no_panic: "snd (execute_clause it s q) \<noteq> Panic"
proof -
  have "snd (execute_create s q) \<noteq> Panic"
    by (auto simp: execute_create_def split: outcome.splits)
  moreover have "snd (execute_set s q) \<noteq> Panic" "snd (execute_remove s q) \<noteq> Panic"
    by (auto simp: execute_set_def execute_remove_def Let_def split: list.splits outcome.splits)
  moreover have "snd (execute_delete s q) \<noteq> Panic"
    by (auto simp: execute_delete_def Let_def split: list.splits)
  ultimately show ?thesis by (simp add: execute_clause_def)
qed

section \<open>Queries that cannot panic\<close>

definition panic_free :: "string \<Rightarrow> bool" where
  "panic_free q \<longleftrightarrow> is_ascii q \<and> \<not> contains q ''CASE '' \<and> \<not> contains q '' WITH ''"

lemma panic_free_part: "panic_free q \<Longrightarrow> contains q p \<Longrightarrow> panic_free p"
  using contains_set [of q p] by (auto simp: panic_free_def is_ascii_def list_all_iff dest: contains_trans)

lemma return_no_panic:
  assumes "panic_free q"
  shows "execute_return_expression q \<noteq> Panic"
proof -
  have "strip_prefix (trim (trim_start_matches q ''RETURN '')) ''CASE '' = None"
  proof (rule ccontr)
    assume "strip_prefix (trim (trim_start_matches q ''RETURN '')) ''CASE '' \<noteq> None"
    then have "contains (trim (trim_start_matches q ''RETURN '')) ''CASE ''"
      using contains_strip_prefix by blast
    then have "contains q ''CASE ''"
      by (meson contains_trans contains_trim contains_trim_start_matches)
    with assms show False by (simp add: panic_free_def)
  qed
  then show ?thesis by (simp add: execute_return_expression_def)
qed

lemma rewrite_panic_free: "panic_free q \<Longrightarrow> rewrite_with q = Ok q"
proof -
  assume "panic_free q"
  then have w: "\<not> contains q '' WITH ''" by (simp add: panic_free_def)
  have "contains '' WITH n,r,m RETURN n,r,m'' '' WITH ''" by (simp add: contains_Cons)
  with w have "\<not> contains q '' WITH n,r,m RETURN n,r,m''" using contains_trans by blast
  with w show ?thesis by (simp add: rewrite_with_def)
qed

lemma union_results_no_panic [simp]: "union_step acc r \<noteq> Panic" "finish_union m acc \<noteq> Panic"
  by (cases "(acc, r)" rule: union_step.cases;
      simp add: finish_union_def split: option.splits result_kind.splits)+

lemma subquery_no_panic [simp]:
  "subquery_row_count r \<noteq> Panic" "project_subquery p r \<noteq> Panic"
  "parse_call_subquery q \<noteq> Panic" "parse_exists_subquery q \<noteq> Panic"
  by (auto simp: subquery_row_count_def project_subquery_def parse_call_subquery_def
      parse_exists_subquery_def split_subquery_body_def and_then_eq_Panic
      split: query_result.splits option.splits)

lemma no_panic_all:
  "panic_free q1 \<Longrightarrow> snd (execute_query_with_dialect it1 s1 q1 d1) \<noteq> Panic"
  "list_all panic_free bs \<Longrightarrow> snd (union_branches it2 s2 bs acc d2) \<noteq> Panic"
  "panic_free q3 \<Longrightarrow> snd (execute_call_subquery it3 s3 q3 d3) \<noteq> Panic"
  "panic_free q4 \<Longrightarrow> execute_exists_subquery_match it4 s4 q4 d4 \<noteq> Panic"
proof (induction it1 s1 q1 d1 and it2 s2 bs acc d2 and it3 s3 q3 d3 and it4 s4 q4 d4
    rule: query_induct)
  case (1 it s query dialect)
  have p: "panic_free (trim query)" using "1.prems" panic_free_part contains_trim by blast
  then have a: "split_top_level_union (trim query) \<noteq> Panic"
    by (auto simp: panic_free_def dest: split_top_level_union_ascii)
  show ?case
  proof (cases "dialect_ok dialect (trim query)")
    case False
    then show ?thesis using execute_query_rejected [of dialect query it s] by auto
  next
    case ok: True
    note IH = "1.IH" [OF refl, unfolded dialect_ok_iff, OF ok]
    show ?thesis
    proof (cases "split_top_level_union (trim query)")
      case (Ok x)
      show ?thesis
      proof (cases x)
        case None
        with Ok have sp: "split_top_level_union (trim query) = Ok None" by simp
        from IH(1,2) [OF sp refl] p show ?thesis
          unfolding execute_query_no_union [OF ok sp]
          by (simp add: return_no_panic rewrite_panic_free execute_clause_no_panic)
      next
        case (Some y)
        with Ok obtain bs m where sp: "split_top_level_union (trim query) = Ok (Some (bs, m))"
          by (cases y) simp
        have "list_all panic_free bs"
          using p split_union_parts [OF sp] panic_free_part by (auto simp: list_all_iff)
        with "1.IH" sp ok show ?thesis
          by (simp add: execute_query_union dialect_ok_iff and_then_eq_Panic)
      qed
    qed (use a ok execute_query_split_fails(2) [of dialect query _ it s] in auto)
  qed
next
  case (3 it s b bs acc dialect)
  then show ?case
    by (cases "execute_query_with_dialect it s b dialect") (auto split: outcome.splits)
next
  case (4 it s query dialect)
  then show ?case
    by (subst execute_call_subquery.simps)
      (cases "parse_call_subquery query"; fastforce split: prod.splits simp: and_then_eq_Panic
        dest: call_subquery_part panic_free_part)
next
  case (5 it s query dialect)
  show ?case
  proof (cases "parse_exists_subquery query")
    case (Ok x)
    obtain outer inner tail where x: "x = (outer, inner, tail)" by (cases x)
    then have "panic_free inner" using Ok "5.prems" exists_subquery_part panic_free_part by blast
    with "5.IH" [OF Ok x [symmetric] refl] have "snd (execute_query_with_dialect it s inner dialect) \<noteq> Panic"
      by blast
    with Ok x show ?thesis
      by (subst execute_exists_subquery_match.simps) (simp add: and_then_eq_Panic)
  qed (subst execute_exists_subquery_match.simps; use subquery_no_panic(4) in simp)+
qed auto

lemma consistent_new_store: "consistent new_store"
  by (simp add: consistent_def keyed_def referential_def new_store_def)

end
