(* ===== verification/Query_Clauses.thy ===== *)
theory Query_Clauses
  imports Query_Correct
begin

text \<open>
  The clauses end to end, from the query text to the store and the result: MATCH by label,
  CREATE, MERGE and DELETE on texts with an arbitrary label or node number, the relationship
  join, and the combination of UNION branches.
\<close>

section \<open>Text without UNION\<close>

text \<open>Text in which the scan meets no \<^verbatim>\<open>UNION\<close> outside of quotes and brackets.\<close>

fun plain_text :: "nat \<Rightarrow> bool \<Rightarrow> string \<Rightarrow> bool" where
  "plain_text d iq [] = True"
| "plain_text d iq (c # r) =
     (if c = quote then plain_text d (\<not> iq) r
      else if iq then plain_text d iq r
      else let d' = next_depth c d in
        (d' \<noteq> 0 \<or> \<not> is_continuation c \<and> \<not> starts_with (c # r) ''UNION'') \<and> plain_text d' iq r)"

lemma union_scan_plain:
  assumes "plain_text d iq (drop idx upper)"
  shows "union_scan q upper idx d iq st [] m = Ok None"
  using assms
proof (induction "length upper - idx" arbitrary: idx d iq st m rule: less_induct)
  case less
  show ?case
  proof (cases "idx < length upper")
    case False
    then show ?thesis by (subst union_scan.simps) simp
  next
    case True
    have rec: "union_scan q upper (Suc idx) d' iq' st [] m = Ok None"
      if "plain_text d' iq' (drop (Suc idx) upper)" for d' iq'
      using less.hyps [OF _ that] True by simp
    have d: "drop idx upper = upper ! idx # drop (Suc idx) upper"
      using True by (simp add: Cons_nth_drop_Suc)
    have u: "\<not> starts_with (drop idx upper) ''UNION ALL''"
      if "\<not> starts_with (drop idx upper) ''UNION''"
      using that starts_with_shorter [of _ "''UNION''" "'' ALL''"] by auto
    let ?c = "upper ! idx"
    consider "?c = quote" | "?c \<noteq> quote" iq | "?c \<noteq> quote" "\<not> iq" by blast
    then show ?thesis
    proof cases
      case 3
      with less.prems have p: "plain_text (next_depth ?c d) False (drop (Suc idx) upper)"
        and n: "next_depth ?c d \<noteq> 0 \<or>
          \<not> is_continuation ?c \<and> \<not> starts_with (drop idx upper) ''UNION''"
        unfolding d by (auto simp: Let_def)
      from 3 True rec [OF p] n u show ?thesis by (subst union_scan.simps) (auto simp: Let_def)
    qed (use less.prems True rec in \<open>subst union_scan.simps, simp add: d Let_def\<close>)+
  qed
qed

lemma split_plain:
  "plain_text 0 False (to_ascii_uppercase q) \<Longrightarrow> split_top_level_union q = Ok None"
  by (simp add: split_top_level_union_def union_scan_plain)

lemma next_depth_ident: "ident_char c \<Longrightarrow> next_depth c d = d"
  by (auto simp: next_depth_def)

lemma ascii_upper_ident: "ident_char c \<Longrightarrow> ident_char (ascii_upper c)"
  by (auto simp: ident_char_def ascii_upper_def is_digit_def less_eq_char_def)

lemma plain_text_ident:
  assumes "list_all ident_char l"
  shows "plain_text (Suc d) False (l @ r) \<longleftrightarrow> plain_text (Suc d) False r"
  using assms by (induction l) (auto simp: next_depth_ident)

lemma plain_text_upper_ident:
  "list_all ident_char l \<Longrightarrow>
     plain_text (Suc d) False (map ascii_upper l @ r) \<longleftrightarrow> plain_text (Suc d) False r"
  by (rule plain_text_ident) (auto simp: list_all_iff intro: ascii_upper_ident)

section \<open>Node patterns end to end\<close>

definition match_label_query :: "string \<Rightarrow> string" where
  "match_label_query l = ''MATCH (n:'' @ l @ '') RETURN n''"

definition create_query :: "string \<Rightarrow> string" where
  "create_query l = ''CREATE (n:'' @ l @ '')''"

lemma ident_mem [simp]:
  assumes "ident l"
  shows "CHR '' '' \<notin> set l" "CHR '')'' \<notin> set l" "CHR ''('' \<notin> set l" "CHR '':'' \<notin> set l"
    "CHR ''{'' \<notin> set l" "CHR ''-'' \<notin> set l"
  by (simp_all add: ident_not_mem [OF assms])

lemma match_label_parts: "match_label_query l = ''MATCH (n'' @ CHR '':'' # l @ CHR '')'' # '' RETURN n''"
  by (simp add: match_label_query_def)

lemma contains_match_label:
  assumes "CHR '':'' \<notin> set p" "CHR '')'' \<notin> set p" "p \<noteq> []"
  shows "contains (match_label_query l) p \<longleftrightarrow>
    contains ''MATCH (n'' p \<or> contains l p \<or> contains '' RETURN n'' p"
  unfolding match_label_parts contains_sep [OF assms(1,3)] contains_sep [OF assms(2,3)] ..

lemma contains_ident: "ident l \<Longrightarrow> \<not> list_all ident_char p \<Longrightarrow> \<not> contains l p"
  using contains_set [of l p] by (auto simp: ident_def list_all_iff)

lemma visible_letters [simp]:
  "visible CHR ''M''" "visible CHR ''C''" "visible CHR ''n''" "visible CHR '')''" "visible CHR ''(''"
  "visible CHR ''R''"
  by (simp_all add: visible_def less_eq_char_def)

lemma ascii_upper_simps [simp]:
  "ascii_upper CHR ''n'' = CHR ''N''" "ascii_upper CHR '' '' = CHR '' ''"
  "ascii_upper CHR ''('' = CHR ''(''" "ascii_upper CHR '')'' = CHR '')''"
  "ascii_upper CHR '':'' = CHR '':''" "ascii_upper CHR ''M'' = CHR ''M''"
  "ascii_upper CHR ''A'' = CHR ''A''" "ascii_upper CHR ''T'' = CHR ''T''"
  "ascii_upper CHR ''C'' = CHR ''C''" "ascii_upper CHR ''H'' = CHR ''H''"
  "ascii_upper CHR ''R'' = CHR ''R''" "ascii_upper CHR ''E'' = CHR ''E''"
  "ascii_upper CHR ''U'' = CHR ''U''" "ascii_upper CHR ''N'' = CHR ''N''"
  by code_simp+

lemma trim_match_label: "trim (match_label_query l) = match_label_query l"
  by (rule trim_visible) (simp_all add: match_label_query_def)

lemma split_match_label:
  assumes "ident l"
  shows "split_top_level_union (match_label_query l) = Ok None"
proof (rule split_plain)
  have "list_all ident_char l" using assms by (simp add: ident_def)
  then show "plain_text 0 False (to_ascii_uppercase (match_label_query l))"
    by (simp add: match_label_query_def to_ascii_uppercase_def less_eq_char_def next_depth_def
        Let_def plain_text_upper_ident is_continuation_def)
qed

lemma rewrite_match_label:
  assumes "ident l"
  shows "rewrite_with (match_label_query l) = Ok (match_label_query l)"
proof -
  have "\<not> contains (match_label_query l) '' WITH ''"
    "\<not> contains (match_label_query l) '' WITH n,r,m RETURN n,r,m''"
    using assms by (simp_all add: contains_match_label contains_ident contains_Cons contains_Nil)
  then show ?thesis by (simp add: rewrite_with_def)
qed

lemma trim_start_matches_once:
  "p \<noteq> [] \<Longrightarrow> \<not> starts_with s p \<Longrightarrow> trim_start_matches (p @ s) p = s"
  by (subst trim_start_matches.simps) (simp, subst trim_start_matches.simps, simp)

lemma filters_match_label:
  assumes "ident l"
  shows "parse_match_filters (match_label_query l) = Ok (Some l, None)"
proof -
  have m: "trim_start_matches (match_label_query l) ''MATCH '' = ''(n:'' @ l @ '') RETURN n''"
    using trim_start_matches_once [of "''MATCH ''" "''(n:'' @ l @ '') RETURN n''"]
    by (simp add: match_label_query_def)
  have t: "trim (''(n:'' @ l @ '') RETURN n'') = ''(n:'' @ l @ '') RETURN n''"
    by (rule trim_visible) simp_all
  have f: "str_find (''(n:'' @ l @ '') RETURN n'') '')'' = Some (3 + length l)"
    using str_find_char [of "CHR '')''" "''(n:'' @ l" "'' RETURN n''"] assms by simp
  have d: "drop (Suc (3 + length l)) (''(n:'' @ l @ '') RETURN n'') = '' RETURN n''"
    and k: "take (Suc (3 + length l)) (''(n:'' @ l @ '') RETURN n'') = ''(n:'' @ l @ '')''"
    by (simp_all add: numeral_eq_Suc)
  have r: "trim ''RETURN n'' = ''RETURN n''" by code_simp
  have w: "length (split_whitespace ''RETURN n'') = 2" by code_simp
  show ?thesis
    unfolding parse_match_filters_def Let_def m t f ok_or_simps and_then_simps d k
    using assms by (simp add: r w trim_ident butlast_append)
qed

lemma modifiers_match_label:
  assumes "ident l"
  shows "parse_return_modifiers (match_label_query l) = Ok (False, None, None)"
proof -
  have "str_find (match_label_query l) p = None"
    if "p = ''ORDER BY'' \<or> p = ''SKIP '' \<or> p = ''LIMIT ''" for p
    using that assms unfolding str_find_None
    by (auto simp: contains_match_label contains_ident contains_Cons contains_Nil)
  then show ?thesis by (simp add: parse_return_modifiers_def parse_count_def)
qed

lemma execute_match_label:
  assumes "ident l"
  shows "execute_clause it s (match_label_query l) =
    (s, Ok (QNodes (filter (\<lambda>n. l \<in> set (node_labels n)) (list_nodes s))))"
proof -
  have "starts_with (match_label_query l) ''MATCH ''"
    unfolding match_label_query_def by simp
  moreover have "contains (match_label_query l) ''RETURN ''"
    by (simp add: contains_match_label contains_Cons)
  moreover have "\<not> contains (match_label_query l) ''-[r]->(''" "\<not> contains (match_label_query l) ''-[r]-(''"
    using assms by (auto simp: contains_match_label contains_Cons contains_Nil contains_ident)
  ultimately show ?thesis
    using assms
    by (simp add: execute_clause_def is_relationship_def execute_match_def trim_match_label
        filters_match_label apply_return_modifiers_def modifiers_match_label skip_limit_def Let_def)
qed

lemma execute_query_match_label:
  assumes "ident l"
  shows "execute_query it s (match_label_query l) =
    (s, Ok (QNodes (filter (\<lambda>n. l \<in> set (node_labels n)) (list_nodes s))))"
proof -
  have "\<not> starts_with (match_label_query l) ''RETURN ''" "\<not> starts_with (match_label_query l) ''CALL {''"
    by (simp_all add: match_label_query_def)
  moreover have "\<not> contains (match_label_query l) '' WHERE EXISTS {''"
    using assms by (auto simp: contains_match_label contains_Cons contains_Nil contains_ident)
  ultimately show ?thesis
    using assms
    by (simp add: execute_query_def execute_query_no_union dialect_ok_def trim_match_label
        split_match_label rewrite_match_label execute_match_label)
qed

lemma trim_create: "trim (create_query l) = create_query l"
  by (rule trim_visible) (simp_all add: create_query_def)

lemma split_create:
  assumes "ident l"
  shows "split_top_level_union (create_query l) = Ok None"
proof (rule split_plain)
  have "list_all ident_char l" using assms by (simp add: ident_def)
  then show "plain_text 0 False (to_ascii_uppercase (create_query l))"
    by (simp add: create_query_def to_ascii_uppercase_def less_eq_char_def next_depth_def
        Let_def plain_text_upper_ident is_continuation_def)
qed

lemma payload_create:
  assumes "ident l"
  shows "parse_create_or_merge_payload (create_query l) ''CREATE '' = Ok (l, fmempty)"
proof -
  have m: "trim_start_matches (create_query l) ''CREATE '' = ''(n:'' @ l @ '')''"
    using trim_start_matches_once [of "''CREATE ''" "''(n:'' @ l @ '')''"]
    by (simp add: create_query_def)
  have t: "trim (''(n:'' @ l @ '')'') = ''(n:'' @ l @ '')''" by (rule trim_visible) simp_all
  have b: "strip_delims (CHR ''('') (CHR '')'') (''(n:'' @ l @ '')'') = Some (''n:'' @ l)"
    by (simp add: strip_delims_def bind_eq_Some_conv)
  have "str_find l ''{'' = None" using assms by (simp add: str_find_None contains_ident)
  with assms show ?thesis
    unfolding parse_create_or_merge_payload_def Let_def m t b ok_or_simps and_then_simps
    by (simp add: trim_ident)
qed

lemma execute_query_create:
  assumes "ident l"
  shows "execute_query it s (create_query l) = (fst (create_node s [l] fmempty), Ok QAck)"
proof -
  have "rewrite_with (create_query l) = Ok (create_query l)"
    by (simp add: rewrite_with_def is_match_def create_query_def)
  moreover have "execute_create s (create_query l) = (fst (create_node s [l] fmempty), Ok QAck)"
    using payload_create [OF assms]
    by (simp add: execute_create_def ends_with_def create_query_def)
  moreover have "starts_with (create_query l) ''CREATE ''"
    "\<not> starts_with (create_query l) ''RETURN ''" "\<not> starts_with (create_query l) ''CALL {''"
    "\<not> starts_with (create_query l) ''MATCH ''" "\<not> starts_with (create_query l) ''OPTIONAL MATCH ''"
    "\<not> starts_with (create_query l) ''UNWIND ''"
    by (simp_all add: create_query_def)
  ultimately show ?thesis
    using assms
    by (simp add: execute_query_def execute_query_no_union dialect_ok_def trim_create split_create
        execute_clause_def)
qed

section \<open>MERGE end to end\<close>

definition merge_query :: "string \<Rightarrow> string" where
  "merge_query l = ''MERGE (n:'' @ l @ '')''"

lemma close_paren_ident:
  "list_all ident_char l \<Longrightarrow> close_paren d i (l @ r) = close_paren d (i + length l) r"
  by (induction l arbitrary: i) auto

lemma trim_merge: "trim (merge_query l) = merge_query l"
  by (rule trim_visible) (simp_all add: merge_query_def)

lemma ascii_upper_G [simp]: "ascii_upper CHR ''G'' = CHR ''G''"
  by code_simp

lemma split_merge:
  assumes "ident l"
  shows "split_top_level_union (merge_query l) = Ok None"
proof (rule split_plain)
  have "list_all ident_char l" using assms by (simp add: ident_def)
  then show "plain_text 0 False (to_ascii_uppercase (merge_query l))"
    by (simp add: merge_query_def to_ascii_uppercase_def less_eq_char_def next_depth_def
        Let_def plain_text_upper_ident is_continuation_def)
qed

lemma pattern_merge:
  assumes "ident l"
  shows "split_pattern_and_tail (merge_query l) ''MERGE '' = Ok (merge_query l, [])"
proof -
  have p: "strip_prefix (merge_query l) ''MERGE '' = Some (''(n:'' @ l @ '')'')"
    by (simp add: merge_query_def)
  have c: "close_paren 0 0 (''(n:'' @ l @ '')'') = Some (3 + length l)"
    using assms by (simp add: close_paren_ident ident_def)
  have "length (merge_query l) = length ''MERGE '' + (3 + length l) + 1"
    by (simp add: merge_query_def)
  then show ?thesis
    by (simp only: split_pattern_and_tail_def trim_merge Let_def p c ok_or_simps and_then_simps
        option.case take_all drop_all order_refl)
qed

lemma payload_merge:
  assumes "ident l"
  shows "parse_create_or_merge_payload (merge_query l) ''MERGE '' = Ok (l, fmempty)"
proof -
  have m: "trim_start_matches (merge_query l) ''MERGE '' = ''(n:'' @ l @ '')''"
    using trim_start_matches_once [of "''MERGE ''" "''(n:'' @ l @ '')''"]
    by (simp add: merge_query_def)
  have t: "trim (''(n:'' @ l @ '')'') = ''(n:'' @ l @ '')''" by (rule trim_visible) simp_all
  have b: "strip_delims (CHR ''('') (CHR '')'') (''(n:'' @ l @ '')'') = Some (''n:'' @ l)"
    by (simp add: strip_delims_def bind_eq_Some_conv)
  have "str_find l ''{'' = None" using assms by (simp add: str_find_None contains_ident)
  with assms show ?thesis
    unfolding parse_create_or_merge_payload_def Let_def m t b ok_or_simps and_then_simps
    by (simp add: trim_ident)
qed

lemma node_matches_label: "node_matches (Some l) fmempty n \<longleftrightarrow> l \<in> set (node_labels n)"
  by (simp add: node_matches_def props_match_def sorted_list_of_fmap_def
      sorted_list_of_fset.rep_eq)

lemma find_label:
  assumes "iteration_order it"
  shows "find_node_by_label_and_props it s (Some l) fmempty = None \<longleftrightarrow>
    (\<forall>n \<in> fmran' (nodes s). l \<notin> set (node_labels n))"
  using assms by (auto simp: find_node_by_label_and_props_def find_None_iff node_matches_label)

lemma execute_query_merge:
  assumes "ident l" "iteration_order it"
  shows "execute_query it s (merge_query l) =
    (if \<exists>n \<in> fmran' (nodes s). l \<in> set (node_labels n) then s
     else fst (create_node s [l] fmempty), Ok QAck)"
proof -
  have "rewrite_with (merge_query l) = Ok (merge_query l)"
    by (simp add: rewrite_with_def is_match_def merge_query_def)
  moreover have "starts_with (merge_query l) ''MERGE (''" "starts_with (merge_query l) ''MERGE ''"
    "\<not> starts_with (merge_query l) ''RETURN ''" "\<not> starts_with (merge_query l) ''CALL {''"
    "\<not> starts_with (merge_query l) ''MATCH ''" "\<not> starts_with (merge_query l) ''OPTIONAL MATCH ''"
    "\<not> starts_with (merge_query l) ''UNWIND ''" "\<not> starts_with (merge_query l) ''CREATE ''"
    by (simp_all add: merge_query_def)
  moreover have "execute_merge it s (merge_query l) =
    (if \<exists>n \<in> fmran' (nodes s). l \<in> set (node_labels n) then s
     else fst (create_node s [l] fmempty), Ok QAck)"
    using calculation(2) assms find_label [OF assms(2), of s l]
    by (auto simp: execute_merge_def pattern_merge payload_merge apply_merge_set_def
        parse_merge_set_clause_def split: option.splits prod.splits)
  ultimately show ?thesis
    using assms
    by (simp add: execute_query_def execute_query_no_union dialect_ok_def trim_merge split_merge
        execute_clause_def)
qed

lemma labels_create_node: "snd (create_node s ls ps) \<in> fmran' (nodes (fst (create_node s ls ps))) \<and>
   node_labels (snd (create_node s ls ps)) = ls"
  by (auto simp: create_node_def Let_def fmlookup_ran'_iff)

section \<open>DELETE end to end\<close>

definition delete_query :: "nat \<Rightarrow> bool \<Rightarrow> string" where
  "delete_query k detach = ''DELETE NODE n'' @ show_nat k @ (if detach then '' DETACH'' else [])"

lemma digit_upper: "is_digit c \<Longrightarrow> ascii_upper c = c"
  by (auto simp: is_digit_def ascii_upper_def less_eq_char_def)

lemma digit_ident: "is_digit c \<Longrightarrow> ident_char c"
  by (simp add: ident_char_def)

lemma digits_plain:
  assumes "list_all is_digit ds"
  shows "plain_text 0 False (ds @ r) \<longleftrightarrow> plain_text 0 False r"
  using assms
proof (induction ds)
  case (Cons c ds)
  then have c: "is_digit c" by simp
  then have "c \<noteq> quote" "c \<noteq> CHR ''U''" "\<not> is_continuation c" "next_depth c 0 = 0"
    by (auto simp: is_digit_def less_eq_char_def is_continuation_def next_depth_def)
  with Cons show ?case by (simp add: Let_def)
qed simp

lemma split_ws_ident:
  "list_all ident_char w \<Longrightarrow> split_ws cur (w @ r) = split_ws (rev w @ cur) r"
proof (induction w arbitrary: cur)
  case (Cons c w)
  then have "ws_len (c # w @ r) = 0" by (simp add: ident_char_visible)
  with Cons show ?case by simp
qed simp

lemma digits_ident_chars: "list_all ident_char (show_nat k)"
  using show_nat_digits [of k] by (auto simp: list_all_iff digit_ident)

lemma split_ws_word:
  assumes "list_all ident_char w"
  shows "split_ws [] (w @ CHR '' '' # r) = w # split_ws [] r" "split_ws [] w = [w]"
proof -
  have sp: "ws_len (CHR '' '' # r) = 1" for r
    by (cases "CHR '' '' # r" rule: ws_len.cases) (auto simp: is_ascii_ws_def)
  show "split_ws [] (w @ CHR '' '' # r) = w # split_ws [] r"
    using split_ws_ident [OF assms, of "[]" "CHR '' '' # r"] sp [of r] by simp
  show "split_ws [] w = [w]" using split_ws_ident [OF assms, of "[]" "[]"] by simp
qed

lemma delete_query_parts:
  "delete_query k detach = ''DELETE'' @ CHR '' '' # ''NODE'' @ CHR '' '' # (''n'' @ show_nat k) @
     (if detach then CHR '' '' # ''DETACH'' else [])"
  by (simp add: delete_query_def)

lemma words_delete:
  "split_whitespace (delete_query k detach) =
     [''DELETE'', ''NODE'', ''n'' @ show_nat k] @ (if detach then [''DETACH''] else [])"
proof -
  have id: "list_all ident_char ''DELETE''" "list_all ident_char ''NODE''" "list_all ident_char ''DETACH''"
    "ident_char CHR ''n''"
    by code_simp+
  then have n: "list_all ident_char (''n'' @ show_nat k)" using digits_ident_chars [of k] by simp
  have "split_ws [] ((''n'' @ show_nat k) @ (if detach then CHR '' '' # ''DETACH'' else [])) =
    (''n'' @ show_nat k) # (if detach then [''DETACH''] else [])"
    using split_ws_word(1) [OF n, of "''DETACH''"] split_ws_word(2) [OF n] split_ws_word(2) [OF id(3)]
    by simp
  then show ?thesis
    unfolding split_whitespace_def delete_query_parts split_ws_word(1) [OF id(1)]
      split_ws_word(1) [OF id(2)] by simp
qed

lemma trim_delete: "trim (delete_query k detach) = delete_query k detach"
proof (rule trim_visible)
  have "visible (last (show_nat k))"
    using show_nat_digits [of k] by (simp add: list_all_iff ident_char_visible digit_ident)
  moreover have "visible CHR ''H''" "visible CHR ''D''" by (simp_all add: visible_def less_eq_char_def)
  moreover have "show_nat k \<noteq> []" using show_nat_digits by blast
  ultimately show "visible (hd (delete_query k detach))" "visible (last (delete_query k detach))"
    by (simp_all add: delete_query_def)
qed (simp add: delete_query_def)

lemma split_delete: "split_top_level_union (delete_query k detach) = Ok None"
proof (rule split_plain)
  have "map ascii_upper (show_nat k) = show_nat k"
    using show_nat_digits [of k] by (auto simp: list_all_iff digit_upper intro: map_idI)
  moreover have "ascii_upper CHR ''D'' = CHR ''D''" "ascii_upper CHR ''L'' = CHR ''L''"
    "ascii_upper CHR ''O'' = CHR ''O''" by code_simp+
  ultimately show "plain_text 0 False (to_ascii_uppercase (delete_query k detach))"
    using digits_plain [of "show_nat k" "'' DETACH''"] digits_plain [of "show_nat k" "[]"]
      show_nat_digits [of k]
    by (simp add: delete_query_def to_ascii_uppercase_def less_eq_char_def next_depth_def
        Let_def is_continuation_def)
qed

lemma execute_query_delete:
  "execute_query it s (delete_query k detach) =
     (let nid = ''n'' @ show_nat k in
      if \<not> has_node s nid then (s, Ok QAck)
      else if detach then (fst (delete_node_detach s nid), Ok QAck)
      else if edges_touching_node s nid = [] then (fst (delete_node s nid), Ok QAck)
      else (s, Err (new_error ReferentialIntegrityViolation
                      ''node is still referenced by edges; use DETACH'')))"
proof -
  have "rewrite_with (delete_query k detach) = Ok (delete_query k detach)"
    by (simp add: rewrite_with_def is_match_def delete_query_def)
  moreover have "starts_with (delete_query k detach) ''DELETE ''"
    "\<not> starts_with (delete_query k detach) ''RETURN ''" "\<not> starts_with (delete_query k detach) ''CALL {''"
    "\<not> starts_with (delete_query k detach) ''MATCH ''"
    "\<not> starts_with (delete_query k detach) ''OPTIONAL MATCH ''"
    "\<not> starts_with (delete_query k detach) ''UNWIND ''" "\<not> starts_with (delete_query k detach) ''CREATE ''"
    "\<not> starts_with (delete_query k detach) ''MERGE ''"
    by (simp_all add: delete_query_def)
  ultimately show ?thesis
    by (simp add: execute_query_def execute_query_no_union dialect_ok_def trim_delete split_delete
        execute_clause_def execute_delete_def words_delete Let_def)
qed

section \<open>UNION\<close>

lemma dedup_nodes_ids:
  "set (map node_id (dedup_nodes seen ns)) = set (map node_id ns) - set seen \<and>
   distinct (map node_id (dedup_nodes seen ns))"
  by (induction seen ns rule: dedup_nodes.induct) auto

lemma dedup_nodes_subset: "set (dedup_nodes seen ns) \<subseteq> set ns"
  by (induction seen ns rule: dedup_nodes.induct) auto

lemma dedup_rows_unseen:
  "x \<in> set seen \<Longrightarrow> r \<in> set (dedup_rows seen rs) \<Longrightarrow> \<not> row_eq x r"
proof (induction rs arbitrary: seen)
  case (Cons a rs)
  show ?case
  proof (cases "list_ex (\<lambda>y. row_eq y a) seen")
    case True
    with Cons show ?thesis by simp
  next
    case False
    with Cons.prems(2) consider "r = a" | "r \<in> set (dedup_rows (seen @ [a]) rs)" by auto
    then show ?thesis
    proof cases
      case 1
      with False Cons.prems(1) show ?thesis unfolding list_ex_iff by blast
    next
      case 2
      with Cons.IH [of "seen @ [a]"] Cons.prems(1) show ?thesis by simp
    qed
  qed
qed simp

lemma dedup_rows_pairwise: "sorted_wrt (\<lambda>a b. \<not> row_eq a b) (dedup_rows seen rs)"
proof (induction rs arbitrary: seen)
  case (Cons a rs)
  have "\<forall>r \<in> set (dedup_rows (seen @ [a]) rs). \<not> row_eq a r"
    using dedup_rows_unseen [of a "seen @ [a]"] by simp
  with Cons.IH show ?case by simp
qed simp

lemma dedup_rows_subset: "set (dedup_rows seen rs) \<subseteq> set rs"
  by (induction rs arbitrary: seen) auto

lemma dedup_rows_covers:
  "r \<in> set rs \<Longrightarrow> r \<in> set (dedup_rows seen rs) \<or> (\<exists>x \<in> set seen \<union> set (dedup_rows seen rs). row_eq x r)"
proof (induction rs arbitrary: seen)
  case (Cons a rs)
  show ?case
  proof (cases "list_ex (\<lambda>y. row_eq y a) seen")
    case True
    then obtain y where "y \<in> set seen" "row_eq y a" by (auto simp: list_ex_iff)
    moreover have "dedup_rows seen (a # rs) = dedup_rows seen rs" using True by simp
    ultimately show ?thesis using Cons.prems Cons.IH [of seen] by auto
  next
    case False
    then show ?thesis using Cons.prems Cons.IH [of "seen @ [a]"] by auto
  qed
qed simp

lemma union_step_kind:
  "union_step acc r = Ok acc' \<Longrightarrow> kind_of acc = Some k \<Longrightarrow> kind_of acc' = Some k"
  by (cases "(acc, r)" rule: union_step.cases; cases k) (auto split: if_splits)

lemma union_branches_kind:
  "union_branches it s bs acc d = (s', Ok acc') \<Longrightarrow> kind_of acc = Some k \<Longrightarrow>
     kind_of acc' = Some k"
  by (induction bs arbitrary: s acc)
    (auto split: prod.splits outcome.splits dest: union_step_kind)

lemma union_branches_nodes:
  assumes "union_branches it s bs acc d = (s', Ok acc')" "list_all reads_only bs"
    and "kind_of acc' = Some KindNodes"
  shows "\<exists>rs. list_all2 (\<lambda>b r. snd (execute_query_with_dialect it s b d) = Ok (QNodes r)) bs rs \<and>
    node_rows acc' = node_rows acc @ concat rs"
  using assms
proof (induction bs arbitrary: acc)
  case Nil
  then show ?case by simp
next
  case (Cons b bs)
  from Cons.prems(2) reads_only_all(1) [of b it s d] have st: "fst (execute_query_with_dialect it s b d) = s"
    by simp
  with Cons.prems(1) obtain r acc1 where r: "execute_query_with_dialect it s b d = (s, Ok r)"
    and step: "union_step acc r = Ok acc1"
    and rest: "union_branches it s bs acc1 d = (s', Ok acc')"
    by (cases "execute_query_with_dialect it s b d") (auto split: outcome.splits)
  from step Cons.prems(3) union_branches_kind [OF rest]
  obtain ns where ns: "r = QNodes ns" "node_rows acc1 = node_rows acc @ ns"
    by (cases "(acc, r)" rule: union_step.cases) (auto split: if_splits)
  from Cons.IH [OF rest] Cons.prems obtain rs where
    "list_all2 (\<lambda>b r. snd (execute_query_with_dialect it s b d) = Ok (QNodes r)) bs rs"
    "node_rows acc' = node_rows acc1 @ concat rs" by auto
  with r ns show ?case by (intro exI [of _ "ns # rs"]) simp
qed

lemma union_nodes_result:
  assumes "reads_only q" "split_top_level_union (trim q) = Ok (Some (bs, m))"
    and "execute_query_with_dialect it s q d = (s', Ok (QNodes ns))"
  shows "\<exists>rs. list_all2 (\<lambda>b r. snd (execute_query_with_dialect it s b d) = Ok (QNodes r)) bs rs \<and>
    ns = (if m = Distinct then dedup_nodes [] (concat rs) else concat rs)"
proof -
  have ok: "dialect_ok d (trim q)"
    using assms(3) execute_query_rejected [of d q it s] by auto
  from execute_query_union [OF ok assms(2)] assms(3) obtain acc where
    ub: "union_branches it s bs empty_acc d = (s', Ok acc)"
    and f: "finish_union m acc = Ok (QNodes ns)"
    by (cases "union_branches it s bs empty_acc d"; cases "snd (union_branches it s bs empty_acc d)") auto
  from f have k: "kind_of acc = Some KindNodes"
    and ns: "ns = (if m = Distinct then dedup_nodes [] (node_rows acc) else node_rows acc)"
    by (auto simp: finish_union_def split: option.splits result_kind.splits)
  have "list_all reads_only bs"
    using split_union_parts [OF assms(2)] reads_only_part [OF reads_only_part [OF assms(1) contains_trim]]
    by (auto simp: list_all_iff)
  from union_branches_nodes [OF ub this k] ns show ?thesis by (auto simp: empty_acc_def)
qed

section \<open>Relationships\<close>

definition edge_passes :: "f64 option \<Rightarrow> graph_edge \<Rightarrow> bool" where
  "edge_passes w e \<longleftrightarrow> (case w of Some x \<Rightarrow> \<not> f64_le (edge_weight e) x | None \<Rightarrow> True)"

definition edge_row :: "graph_edge \<Rightarrow> val list" where
  "edge_row e = [VString (edge_from e), VString (edge_id e), VString (edge_to e)]"

definition edge_row_rev :: "graph_edge \<Rightarrow> val list" where
  "edge_row_rev e = [VString (edge_to e), VString (edge_id e), VString (edge_from e)]"

lemma consistent_edge_ends:
  assumes "consistent s" "e \<in> fmran' (edges s)"
  shows "\<exists>a b. get_node s (edge_from e) = Some a \<and> node_id a = edge_from e \<and>
               get_node s (edge_to e) = Some b \<and> node_id b = edge_to e"
  using assms
  by (force simp: consistent_def referential_def keyed_def has_node_def get_node_def fmlookup_ran'_iff
      fmpred_iff)

lemma relationship_rows_consistent:
  assumes "consistent s" "set es \<subseteq> fmran' (edges s)"
  shows "relationship_rows s directed w es =
    Ok (concat (map (\<lambda>e. if directed then [edge_row e] else [edge_row e, edge_row_rev e])
          (filter (edge_passes w) es)),
        map edge_from (filter (edge_passes w) es),
        concat (map (\<lambda>e. [edge_from e, edge_to e]) (filter (edge_passes w) es)))"
  using assms(2)
proof (induction es)
  case (Cons e es)
  then have "e \<in> fmran' (edges s)" by simp
  with consistent_edge_ends [OF assms(1)] obtain a b where
    "get_node s (edge_from e) = Some a" "node_id a = edge_from e"
    "get_node s (edge_to e) = Some b" "node_id b = edge_to e" by blast
  with Cons show ?case
    by (simp add: edge_passes_def edge_row_def edge_row_rev_def split: option.splits)
qed simp

lemma optional_relationship_query:
  assumes "consistent s"
  shows "execute_query it s ''OPTIONAL MATCH (n)-[r]->(m) RETURN n,r,m'' =
    (s, Ok (QTable [''n'', ''r'', ''m'']
       (map edge_row (list_edges s) @
        map (\<lambda>n. [VString (node_id n), VString ''NULL'', VString ''NULL''])
          (filter (\<lambda>n. node_id n \<notin> edge_from ` fmran' (edges s)) (list_nodes s)))))"
proof -
  let ?q = "''OPTIONAL MATCH (n)-[r]->(m) RETURN n,r,m''"
  have t: "trim ?q = ?q" and u: "split_top_level_union ?q = Ok None"
    and r: "rewrite_with ?q = Ok ?q" and m: "parse_return_modifiers ?q = Ok (False, None, None)"
    and w: "parse_relationship_weight_filter ?q = Ok None"
    and c: "contains ?q ''RETURN n,r,m'' \<and> contains ?q ''-[r]->('' \<and> \<not> starts_with ?q ''MATCH '' \<and>
      starts_with ?q ''OPTIONAL MATCH '' \<and> \<not> starts_with ?q ''RETURN '' \<and> \<not> starts_with ?q ''CALL {''"
    by code_simp+
  have p: "edge_passes None = (\<lambda>_. True)" by (simp add: edge_passes_def fun_eq_iff)
  have "build_relationship_rows s True True None =
    Ok (map edge_row (list_edges s) @
        map (\<lambda>n. [VString (node_id n), VString ''NULL'', VString ''NULL''])
          (filter (\<lambda>n. node_id n \<notin> edge_from ` fmran' (edges s)) (list_nodes s)))"
    using assms by (simp add: build_relationship_rows_def relationship_rows_consistent p)
  then have "execute_match_relationship s ?q True = Ok (QTable [''n'', ''r'', ''m'']
       (map edge_row (list_edges s) @
        map (\<lambda>n. [VString (node_id n), VString ''NULL'', VString ''NULL''])
          (filter (\<lambda>n. node_id n \<notin> edge_from ` fmran' (edges s)) (list_nodes s))))"
    unfolding execute_match_relationship_def apply_table_modifiers_def w m Let_def using c
    by (simp only: simp_thms if_False if_True and_then_simps split_conv skip_limit_def option.case Let_def)
  then show ?thesis
    unfolding execute_query_def
    by (subst execute_query_no_union)
      (use c in \<open>simp_all only: t u r dialect_ok_def execute_clause_def is_relationship_def
         simp_thms if_False if_True outcome.case cypher_dialect.distinct\<close>)
qed

end
