(* ===== verification/Query_Properties.thy ===== *)
theory Query_Properties
  imports Query_Clauses
begin

text \<open>
  The properties of the query layer and of the store beneath it, each with a concrete
  instance, and the behaviours in which the evaluator departs from its documentation.
\<close>

section \<open>A small graph for the instances\<close>

definition demo_store :: store where
  "demo_store =
     fst (create_edge
       (fst (create_node (fst (create_node new_store [''A''] fmempty)) [''B''] fmempty))
       ''n1'' ''n2'' ''KNOWS'' fmempty)"

lemma consistent_create_edge: "consistent s \<Longrightarrow> consistent (fst (create_edge s a b ty ps))"
  by (auto simp: consistent_def keyed_def referential_def store_ops fmpred_iff split: if_splits)

lemma consistent_demo: "consistent demo_store"
  unfolding demo_store_def
  by (intro consistent_create_edge cons.inv_create_node consistent_new_store)

lemma ids_issued_new_store: "ids_issued new_store"
  by (simp add: ids_issued_def new_store_def)

section \<open>Every query\<close>

text \<open>C2: whatever query runs, and whatever it returns (a result, an error or a panic), the store
  it leaves is consistent: ids are keys and every edge joins existing nodes.\<close>

theorem query_keeps_consistent:
  "consistent s \<Longrightarrow> consistent (fst (execute_query_with_dialect it s q d))"
  by (rule cons.inv_execute_query_with_dialect)

theorem query_keeps_consistent_witness:
  "consistent (fst (execute_query_with_dialect rev demo_store ''DELETE NODE n1 DETACH'' Neo4jCompat))"
  by (rule query_keeps_consistent [OF consistent_demo])

text \<open>No query adds an edge or changes one; the edges after it are among the edges before.\<close>

theorem query_edges_subset:
  "fmsubset (edges (fst (execute_query_with_dialect it s q d))) (edges s)"
  by (rule no_new_edges.inv_execute_query_with_dialect) (simp add: fmsubset_alt_def fmpred_iff)

text \<open>C32: a query in whose text no writing keyword occurs (CREATE, MERGE, DELETE, SET, REMOVE,
  CALL) leaves the store as it was, with all its UNION branches and EXISTS subqueries.\<close>

theorem read_query_keeps_store:
  "reads_only q \<Longrightarrow> fst (execute_query_with_dialect it s q d) = s"
  by (rule reads_only_all(1))

theorem read_query_keeps_store_witness:
  "fst (execute_query_with_dialect rev demo_store
     ''MATCH (n) WHERE EXISTS { MATCH (m:B) RETURN m } RETURN n UNION MATCH (n:A) RETURN n''
     OpenCypher9) = demo_store"
  by (rule read_query_keeps_store) code_simp

text \<open>C33: a query in ASCII without CASE and WITH never panics, however deep its subqueries are.\<close>

theorem query_never_panics:
  "panic_free q \<Longrightarrow> snd (execute_query_with_dialect it s q d) \<noteq> Panic"
  by (rule no_panic_all(1))

theorem query_never_panics_witness:
  "snd (execute_query_with_dialect rev demo_store
     ''CALL { MATCH (n) RETURN n UNION MATCH (n:A) RETURN n } RETURN count(*)'' OpenCypher9) \<noteq> Panic"
  by (rule query_never_panics) code_simp

text \<open>A single clause (MATCH, UNWIND, CREATE, MERGE, DELETE, SET, REMOVE, CALL, or an unknown
  one) never panics, on any bytes at all: the panics of the evaluator come from the UNION scan
  and from CASE only.\<close>

theorem clause_never_panics: "snd (execute_clause it s q) \<noteq> Panic"
  by (rule execute_clause_no_panic)

section \<open>Clauses\<close>

text \<open>For every label made of letters, digits and underscores, \<^verbatim>\<open>MATCH (n:label) RETURN n\<close>
  leaves the store alone and returns exactly the nodes that carry the label, in strictly
  increasing order of their ids.\<close>

theorem match_by_label:
  assumes "ident l" "keyed s"
  shows "\<exists>ns. execute_query it s (match_label_query l) = (s, Ok (QNodes ns)) \<and>
    set ns = {n \<in> fmran' (nodes s). l \<in> set (node_labels n)} \<and>
    sorted_wrt (<) (map node_id ns)"
proof -
  let ?ns = "filter (\<lambda>n. l \<in> set (node_labels n)) (list_nodes s)"
  have "sorted_wrt (<) (map node_id (list_nodes s))"
    using assms(2) by (simp add: list_nodes_keyed keyed_ids_sorted sorted_list_of_fset_strict)
  then have "sorted_wrt (<) (map node_id ?ns)"
    by (simp add: sorted_wrt_map sorted_wrt_filter)
  then show ?thesis
    using execute_query_match_label [OF assms(1), of it s] by (intro exI [of _ ?ns]) auto
qed

theorem match_by_label_witness:
  "\<exists>ns. execute_query rev demo_store (match_label_query ''A'') = (demo_store, Ok (QNodes ns)) \<and>
    set ns = {n \<in> fmran' (nodes demo_store). ''A'' \<in> set (node_labels n)} \<and>
    sorted_wrt (<) (map node_id ns)"
proof (rule match_by_label)
  show "ident ''A''" by code_simp
  show "keyed demo_store" using consistent_demo by (simp add: consistent_def)
qed

text \<open>C9: after \<^verbatim>\<open>CREATE (n:label)\<close>, \<^verbatim>\<open>MATCH (n:label) RETURN n\<close> returns the nodes it returned
  before and one more, whose id was not in use, as long as the 64-bit counter does not wrap.\<close>

theorem create_then_match:
  assumes "ident l" "ids_issued s" "unat (next_node_seq s) + 1 < 2 ^ 64"
  shows "\<exists>n ns. get_node s (node_id n) = None \<and> node_labels n = [l] \<and> node_props n = fmempty \<and>
    snd (execute_query it (fst (execute_query it s (create_query l))) (match_label_query l)) =
      Ok (QNodes ns) \<and>
    set ns = insert n {m \<in> fmran' (nodes s). l \<in> set (node_labels m)}"
proof -
  let ?n = "snd (create_node s [l] fmempty)" and ?s = "fst (create_node s [l] fmempty)"
  let ?ns = "filter (\<lambda>m. l \<in> set (node_labels m)) (list_nodes ?s)"
  have new: "get_node s (node_id ?n) = None" by (rule create_node_id_fresh [OF assms(2,3)])
  then have "fmran' (nodes ?s) = insert ?n (fmran' (nodes s))"
    by (simp add: create_node_def get_node_def Let_def fmran'_upd_new)
  then have "set ?ns = insert ?n {m \<in> fmran' (nodes s). l \<in> set (node_labels m)}"
    using labels_create_node [of s "[l]" fmempty] by auto
  moreover have "node_labels ?n = [l] \<and> node_props ?n = fmempty"
    by (simp add: create_node_def Let_def)
  moreover have "snd (execute_query it (fst (execute_query it s (create_query l))) (match_label_query l)) =
      Ok (QNodes ?ns)"
    by (simp add: execute_query_create [OF assms(1)] execute_query_match_label [OF assms(1)])
  ultimately show ?thesis using new by blast
qed

theorem create_then_match_witness:
  "\<exists>n ns. get_node new_store (node_id n) = None \<and> node_labels n = [''Doc_1''] \<and> node_props n = fmempty \<and>
    snd (execute_query rev (fst (execute_query rev new_store (create_query ''Doc_1'')))
      (match_label_query ''Doc_1'')) = Ok (QNodes ns) \<and>
    set ns = insert n {m \<in> fmran' (nodes new_store). ''Doc_1'' \<in> set (node_labels m)}"
proof (rule create_then_match)
  show "ident ''Doc_1''" by code_simp
  show "unat (next_node_seq new_store) + 1 < 2 ^ 64" by (simp add: new_store_def)
qed (rule ids_issued_new_store)

text \<open>C29: \<^verbatim>\<open>MERGE (n:label)\<close> matches or creates: afterwards a node with the label exists, the store
  only changed if there was none, and running it again changes nothing, under any iteration
  order of the node map.\<close>

theorem merge_idempotent:
  assumes "ident l" "iteration_order it" "iteration_order it'"
  shows "\<exists>s'. execute_query it s (merge_query l) = (s', Ok QAck) \<and>
    (\<exists>n \<in> fmran' (nodes s'). l \<in> set (node_labels n)) \<and>
    ((\<exists>n \<in> fmran' (nodes s). l \<in> set (node_labels n)) \<longrightarrow> s' = s) \<and>
    execute_query it' s' (merge_query l) = (s', Ok QAck)"
  using labels_create_node [of s "[l]" fmempty]
  by (auto simp: execute_query_merge [OF assms(1,2)] execute_query_merge [OF assms(1,3)] Bex_def)

theorem merge_idempotent_witness:
  "\<exists>s'. execute_query rev demo_store (merge_query ''C'') = (s', Ok QAck) \<and>
    (\<exists>n \<in> fmran' (nodes s'). ''C'' \<in> set (node_labels n)) \<and>
    ((\<exists>n \<in> fmran' (nodes demo_store). ''C'' \<in> set (node_labels n)) \<longrightarrow> s' = demo_store) \<and>
    execute_query (\<lambda>xs. xs) s' (merge_query ''C'') = (s', Ok QAck)"
proof (rule merge_idempotent)
  show "ident ''C''" by code_simp
qed (rule iteration_order_rev iteration_order_id)+

text \<open>C30: \<^verbatim>\<open>DELETE NODE nk\<close> refuses, without any change, to delete a node that an edge touches;
  otherwise, and always with \<^verbatim>\<open>DETACH\<close>, the node is gone afterwards together with exactly the
  edges at it, and everything else is as before.\<close>

theorem delete_node_query:
  assumes "consistent s" "has_node s nid" "nid = ''n'' @ show_nat k"
  shows "if \<not> detach \<and> edges_touching_node s nid \<noteq> [] then
      execute_query it s (delete_query k detach) =
        (s, Err (new_error ReferentialIntegrityViolation
                   ''node is still referenced by edges; use DETACH''))
    else \<exists>s'. execute_query it s (delete_query k detach) = (s', Ok QAck) \<and>
      (\<forall>x. get_node s' x = (if x = nid then None else get_node s x)) \<and>
      (\<forall>x. get_edge s' x = (case get_edge s x of
         Some e \<Rightarrow> if edge_from e = nid \<or> edge_to e = nid then None else Some e | None \<Rightarrow> None))"
proof -
  have keyed: "keyed s" using assms by (simp add: consistent_def)
  note q = execute_query_delete [of it s k detach, folded assms(3)]
  consider (refuse) "\<not> detach" "edges_touching_node s nid \<noteq> []" | (detach) detach
    | (plain) "\<not> detach" "edges_touching_node s nid = []" by blast
  then show ?thesis
  proof cases
    case refuse
    with q assms(2) show ?thesis by (simp add: Let_def)
  next
    case detach
    have n: "nodes (fst (delete_node_detach s nid)) = fmdrop nid (nodes s)"
      by (simp add: delete_node_detach_def delete_node_def)
    show ?thesis
      using detach q assms(2) edges_delete_node_detach [OF keyed, of nid]
      by (simp add: Let_def get_node_def get_edge_def n)
  next
    case plain
    then have "fmpred (\<lambda>_ e. edge_from e \<noteq> nid \<and> edge_to e \<noteq> nid) (edges s)"
      by (simp add: edges_touching_node_Nil)
    with plain q assms(2) show ?thesis
      by (auto simp: Let_def delete_node_def get_node_def get_edge_def fmpred_iff
          split: option.splits)
  qed
qed

theorem delete_node_query_witness:
  "\<exists>s'. execute_query rev demo_store (delete_query 1 True) = (s', Ok QAck) \<and>
      (\<forall>x. get_node s' x = (if x = ''n1'' then None else get_node demo_store x)) \<and>
      (\<forall>x. get_edge s' x = (case get_edge demo_store x of
         Some e \<Rightarrow> if edge_from e = ''n1'' \<or> edge_to e = ''n1'' then None else Some e | None \<Rightarrow> None))"
proof -
  have h: "has_node demo_store ''n1''" "''n1'' = ''n'' @ show_nat 1" by code_simp+
  from delete_node_query [OF consistent_demo h, of True rev] show ?thesis by simp
qed

text \<open>For reading queries, the nodes a UNION returns are made of the nodes its branches return
  on the same store: all of them in order for UNION ALL, and for UNION each id once, no id
  lost.\<close>

theorem union_of_branches:
  assumes "reads_only q" "split_top_level_union (trim q) = Ok (Some (bs, m))"
    and "execute_query_with_dialect it s q d = (s', Ok (QNodes ns))"
  shows "\<exists>rs. list_all2 (\<lambda>b r. snd (execute_query_with_dialect it s b d) = Ok (QNodes r)) bs rs \<and>
    (m = UnionAll \<longrightarrow> ns = concat rs) \<and>
    (m = Distinct \<longrightarrow> distinct (map node_id ns) \<and> set ns \<subseteq> set (concat rs) \<and>
       set (map node_id ns) = set (map node_id (concat rs)))"
proof -
  from union_nodes_result [OF assms] obtain rs where
    rs: "list_all2 (\<lambda>b r. snd (execute_query_with_dialect it s b d) = Ok (QNodes r)) bs rs"
    and ns: "ns = (if m = Distinct then dedup_nodes [] (concat rs) else concat rs)" by blast
  show ?thesis
    using rs ns dedup_nodes_ids [of "[]" "concat rs"] dedup_nodes_subset [of "[]" "concat rs"]
    by (intro exI [of _ rs]) simp
qed

theorem union_of_branches_witness:
  "\<exists>rs. list_all2 (\<lambda>b r. snd (execute_query_with_dialect rev demo_store b OpenCypher9) = Ok (QNodes r))
      [''MATCH (n) RETURN n'', ''MATCH (n:A) RETURN n''] rs \<and>
    (Distinct = UnionAll \<longrightarrow> list_nodes demo_store = concat rs) \<and>
    (Distinct = Distinct \<longrightarrow> distinct (map node_id (list_nodes demo_store)) \<and>
       set (list_nodes demo_store) \<subseteq> set (concat rs) \<and>
       set (map node_id (list_nodes demo_store)) = set (map node_id (concat rs)))"
proof (rule union_of_branches)
  let ?q = "''MATCH (n) RETURN n UNION MATCH (n:A) RETURN n''"
  show "reads_only ?q" by code_simp
  show "split_top_level_union (trim ?q) = Ok (Some ([''MATCH (n) RETURN n'', ''MATCH (n:A) RETURN n''], Distinct))"
    by code_simp
  show "execute_query_with_dialect rev demo_store ?q OpenCypher9 =
    (demo_store, Ok (QNodes (list_nodes demo_store)))"
    by code_simp
qed

text \<open>The rows a UNION of tables keeps are pairwise different, and every row of the branches is
  kept or equal to a row that is.\<close>

theorem union_rows_distinct:
  "sorted_wrt (\<lambda>a b. \<not> row_eq a b) (dedup_rows [] rows) \<and> set (dedup_rows [] rows) \<subseteq> set rows \<and>
   set rows \<subseteq> {r. r \<in> set (dedup_rows [] rows) \<or> (\<exists>x \<in> set (dedup_rows [] rows). row_eq x r)}"
  using dedup_rows_pairwise [of "[]" rows] dedup_rows_covers [of _ rows "[]"]
    dedup_rows_subset [of "[]" rows] by auto

text \<open>C31: on a consistent store \<^verbatim>\<open>OPTIONAL MATCH (n)-[r]->(m) RETURN n,r,m\<close> is the left join of the
  nodes with the edges: one row per edge in the order of the edge ids, then one row with
  NULLs for each node from which no edge starts; it never reports a missing end point.\<close>

theorem optional_match_left_join:
  assumes "consistent s"
  shows "execute_query it s ''OPTIONAL MATCH (n)-[r]->(m) RETURN n,r,m'' =
    (s, Ok (QTable [''n'', ''r'', ''m'']
       (map edge_row (list_edges s) @
        map (\<lambda>n. [VString (node_id n), VString ''NULL'', VString ''NULL''])
          (filter (\<lambda>n. node_id n \<notin> edge_from ` fmran' (edges s)) (list_nodes s)))))"
  by (rule optional_relationship_query [OF assms])

theorem optional_match_left_join_witness:
  "execute_query rev demo_store ''OPTIONAL MATCH (n)-[r]->(m) RETURN n,r,m'' =
    (demo_store, Ok (QTable [''n'', ''r'', ''m'']
       (map edge_row (list_edges demo_store) @
        map (\<lambda>n. [VString (node_id n), VString ''NULL'', VString ''NULL''])
          (filter (\<lambda>n. node_id n \<notin> edge_from ` fmran' (edges demo_store)) (list_nodes demo_store)))))"
  by (rule optional_match_left_join [OF consistent_demo])

section \<open>Departures from the documentation\<close>

text \<open>A multi-byte character outside of quotes and brackets panics the UNION scan.\<close>

lemma multibyte_query_panics:
  "execute_query (\<lambda>xs. xs) new_store (''MATCH (n) RETURN caf'' @ [CHR 0xC3, CHR 0xA9]) =
     (new_store, Panic)"
  by code_simp

text \<open>Keywords that share a blank pass the order check of CASE and slice backwards.\<close>

lemma case_without_value_panics:
  "execute_query (\<lambda>xs. xs) new_store ''RETURN CASE WHEN 1=1 THEN ELSE 3 END'' = (new_store, Panic)"
  by code_simp

text \<open>A MERGE that fails in its ON CREATE SET part has created its node already.\<close>

lemma failed_merge_leaves_node:
  "(case execute_query (\<lambda>xs. xs) new_store ''MERGE (n:A) ON CREATE SET n.x=zzz'' of
      (s, Err _) \<Rightarrow> node_count s = 1 | _ \<Rightarrow> False)"
  by code_simp

text \<open>A UNION whose branch writes is refused after the write has happened.\<close>

lemma failed_union_leaves_node:
  "(case execute_query (\<lambda>xs. xs) new_store ''CREATE (n:A) UNION MATCH (n) RETURN n'' of
      (s, Err _) \<Rightarrow> node_count s = 1 | _ \<Rightarrow> False)"
  by code_simp

text \<open>The node that MERGE .. ON MATCH SET changes depends on the iteration order of the node map.\<close>

lemma merge_depends_on_order:
  "(let s = fst (create_node (fst (create_node new_store [''A''] fmempty)) [''A''] fmempty);
        q = ''MERGE (n:A) ON MATCH SET n.x=1''
    in map_option (\<lambda>n. fmlookup (node_props n) ''x'' = None) (get_node (fst (execute_query (\<lambda>xs. xs) s q)) ''n1'') =
         Some False \<and>
       map_option (\<lambda>n. fmlookup (node_props n) ''x'' = None) (get_node (fst (execute_query rev s q)) ''n1'') =
         Some True)"
  by code_simp

text \<open>A descending order is accepted and ignored.\<close>

lemma descending_order_ignored:
  "snd (execute_query (\<lambda>xs. xs) demo_store ''MATCH (n) RETURN n ORDER BY n.id DESC'') =
   snd (execute_query (\<lambda>xs. xs) demo_store ''MATCH (n) RETURN n'')"
  by code_simp

text \<open>A MERGE whose pattern carries NaN matches nothing, so each run adds a node.\<close>

lemma merge_nan_duplicates:
  "node_count (fst (execute_query (\<lambda>xs. xs)
     (fst (execute_query (\<lambda>xs. xs) new_store ''MERGE (n:A {x:NaN})'')) ''MERGE (n:A {x:NaN})'')) = 2"
  by code_simp

end
