(* ===== verification/Files.thy ===== *)
theory Files
  imports Errors Str_Facts
begin

text \<open>
  What the program sees of the operating system's file system: paths, whole-file reads and
  writes, and the failures each call may meet. Every call that performs input or output takes
  the next entry of a list of faults, so a theorem about an arbitrary list covers every way in
  which the calls of an operation can fail, a write that stops after any number of bytes
  included. Also here: UTF-8 validation and the splitting of a text into lines.
\<close>

section \<open>The file system\<close>

text \<open>
  \<open>FailOpen\<close> fails a call before it has any effect, \<open>FailWrite k\<close> after \<open>k\<close> bytes were
  written; both carry the text of the operating system's error.
\<close>

datatype fault = NoFault | FailOpen string | FailWrite nat string

text \<open>\<open>ticks\<close> are the successive readings of the system clock in milliseconds since the epoch, \<open>None\<close>
  for a clock set before it; a clock without further readings stands at the epoch.\<close>

record fs =
  files :: "(string, string) fmap"
  faults :: "fault list"
  ticks :: "nat option list"

type_synonym ('a, 'e) fs_op = "fs \<Rightarrow> fs \<times> ('a, 'e) outcome"

definition next_fault :: "fs \<Rightarrow> fault" where
  "next_fault d = (case faults d of [] \<Rightarrow> NoFault | f # _ \<Rightarrow> f)"

definition used_fault :: "fs \<Rightarrow> fs" where
  "used_fault d = d\<lparr>faults := tl (faults d)\<rparr>"

definition set_file :: "string \<Rightarrow> string \<Rightarrow> fs \<Rightarrow> fs" where
  "set_file p bs d = d\<lparr>files := fmupd p bs (files d)\<rparr>"

definition file_exists :: "string \<Rightarrow> fs \<Rightarrow> bool" where
  "file_exists p d = (fmlookup (files d) p \<noteq> None)"

text \<open>\<^verbatim>\<open>fs::read\<close>.\<close>

definition read_file :: "string \<Rightarrow> (string, string) fs_op" where
  "read_file p d =
     (used_fault d,
      case next_fault d of
        FailOpen e \<Rightarrow> Err e
      | FailWrite _ e \<Rightarrow> Err e
      | NoFault \<Rightarrow> ok_or (fmlookup (files d) p) ''No such file or directory (os error 2)'')"

text \<open>\<^verbatim>\<open>fs::write\<close>: creates or truncates the file, then writes all of the bytes.\<close>

definition write_file :: "string \<Rightarrow> string \<Rightarrow> (unit, string) fs_op" where
  "write_file p bs d =
     (case next_fault d of
        FailOpen e \<Rightarrow> (used_fault d, Err e)
      | FailWrite k e \<Rightarrow> (set_file p (take k bs) (used_fault d), Err e)
      | NoFault \<Rightarrow> (set_file p bs (used_fault d), Ok ()))"

text \<open>\<^verbatim>\<open>OpenOptions\<close> with \<^verbatim>\<open>create, truncate, write\<close>; with \<^verbatim>\<open>create, append\<close>; with \<^verbatim>\<open>create_new\<close>.\<close>

definition open_truncate :: "string \<Rightarrow> (unit, string) fs_op" where
  "open_truncate p d =
     (case next_fault d of
        FailOpen e \<Rightarrow> (used_fault d, Err e)
      | FailWrite _ e \<Rightarrow> (used_fault d, Err e)
      | NoFault \<Rightarrow> (set_file p [] (used_fault d), Ok ()))"

definition open_append :: "string \<Rightarrow> (unit, string) fs_op" where
  "open_append p d =
     (case next_fault d of
        FailOpen e \<Rightarrow> (used_fault d, Err e)
      | FailWrite _ e \<Rightarrow> (used_fault d, Err e)
      | NoFault \<Rightarrow>
          (if file_exists p d then used_fault d else set_file p [] (used_fault d), Ok ()))"

definition open_create_new :: "string \<Rightarrow> (unit, string) fs_op" where
  "open_create_new p d =
     (case next_fault d of
        FailOpen e \<Rightarrow> (used_fault d, Err e)
      | FailWrite _ e \<Rightarrow> (used_fault d, Err e)
      | NoFault \<Rightarrow>
          if file_exists p d then (used_fault d, Err ''File exists (os error 17)'')
          else (set_file p [] (used_fault d), Ok ()))"

text \<open>\<^verbatim>\<open>write_all\<close> at the end of an open file.\<close>

definition write_all :: "string \<Rightarrow> string \<Rightarrow> (unit, string) fs_op" where
  "write_all p bs d =
     (let old = (case fmlookup (files d) p of Some x \<Rightarrow> x | None \<Rightarrow> []) in
      case next_fault d of
        FailOpen e \<Rightarrow> (used_fault d, Err e)
      | FailWrite k e \<Rightarrow> (set_file p (old @ take k bs) (used_fault d), Err e)
      | NoFault \<Rightarrow> (set_file p (old @ bs) (used_fault d), Ok ()))"

definition remove_file :: "string \<Rightarrow> (unit, string) fs_op" where
  "remove_file p d =
     (case next_fault d of
        FailOpen e \<Rightarrow> (used_fault d, Err e)
      | FailWrite _ e \<Rightarrow> (used_fault d, Err e)
      | NoFault \<Rightarrow>
          if file_exists p d then ((used_fault d)\<lparr>files := fmdrop p (files d)\<rparr>, Ok ())
          else (used_fault d, Err ''No such file or directory (os error 2)''))"

text \<open>\<^verbatim>\<open>SystemTime::now().duration_since(UNIX_EPOCH).expect(..)\<close>, in milliseconds.\<close>

definition read_clock :: "(nat, 'e) fs_op" where
  "read_clock d =
     (d\<lparr>ticks := tl (ticks d)\<rparr>,
      case ticks d of [] \<Rightarrow> Ok 0 | None # _ \<Rightarrow> Panic | Some t # _ \<Rightarrow> Ok t)"

text \<open>\<open>op_then\<close> is the \<^verbatim>\<open>?\<close> operator (and \<^verbatim>\<open>and_then\<close>), \<open>map_err\<close> rewrites the error, \<open>lift_op\<close> runs pure code.\<close>

definition op_then :: "('a, 'e) fs_op \<Rightarrow> ('a \<Rightarrow> ('b, 'e) fs_op) \<Rightarrow> ('b, 'e) fs_op" where
  "op_then m f d =
     (case m d of
        (d', Ok x) \<Rightarrow> f x d'
      | (d', Err e) \<Rightarrow> (d', Err e)
      | (d', Panic) \<Rightarrow> (d', Panic))"

definition op_err :: "('e \<Rightarrow> 'f) \<Rightarrow> ('a, 'e) fs_op \<Rightarrow> ('a, 'f) fs_op" where
  "op_err g m d = (case m d of (d', r) \<Rightarrow> (d', map_err g r))"

text \<open>\<^verbatim>\<open>let _ = ..\<close>: the result is dropped, a panic is not.\<close>

definition op_ignore :: "('a, 'e) fs_op \<Rightarrow> (unit, 'f) fs_op" where
  "op_ignore m d = (case m d of (d', Panic) \<Rightarrow> (d', Panic) | (d', _) \<Rightarrow> (d', Ok ()))"

definition lift_op :: "('a, 'e) outcome \<Rightarrow> ('a, 'e) fs_op" where
  "lift_op r d = (d, r)"

declare
  next_fault_def [fs_ops] used_fault_def [fs_ops] set_file_def [fs_ops] file_exists_def [fs_ops]
  read_file_def [fs_ops] write_file_def [fs_ops] open_truncate_def [fs_ops]
  open_append_def [fs_ops] open_create_new_def [fs_ops] write_all_def [fs_ops]
  remove_file_def [fs_ops] op_then_def [fs_ops] map_err_def [fs_ops] op_err_def [fs_ops]
  lift_op_def [fs_ops] read_clock_def [fs_ops] op_ignore_def [fs_ops] Let_def [fs_ops]

section \<open>Paths\<close>

text \<open>
  \<^verbatim>\<open>Path::with_extension\<close>: a path is cut after its file stem (trailing \<^verbatim>\<open>/\<close> and \<^verbatim>\<open>/.\<close> do not count) and
  gets the new extension; a path without a file name is returned as it is.
\<close>

fun strip_trailing :: "string \<Rightarrow> string" where
  "strip_trailing [] = []"
| "strip_trailing (c # r) =
     (if c = CHR ''/'' then strip_trailing r
      else if c = CHR ''.'' \<and> (case r of x # _ \<Rightarrow> x = CHR ''/'' | [] \<Rightarrow> False) then strip_trailing r
      else c # r)"

definition file_name :: "string \<Rightarrow> string" where
  "file_name p = rev (takeWhile (\<lambda>c. c \<noteq> CHR ''/'') (strip_trailing (rev p)))"

definition file_dir :: "string \<Rightarrow> string" where
  "file_dir p = rev (dropWhile (\<lambda>c. c \<noteq> CHR ''/'') (strip_trailing (rev p)))"

definition file_stem :: "string \<Rightarrow> string" where
  "file_stem n =
     (case str_rfind n ''.'' of
        None \<Rightarrow> n
      | Some i \<Rightarrow> if i = 0 then n else take i n)"

definition with_extension :: "string \<Rightarrow> string \<Rightarrow> string" where
  "with_extension p ext =
     (let n = file_name p in
      if n = [] \<or> n = ''.'' \<or> n = ''..'' then p
      else file_dir p @ file_stem n @ ''.'' @ ext)"

section \<open>Texts\<close>

text \<open>\<^verbatim>\<open>str::lines\<close>: lines end at a line feed, a carriage return before it is dropped, and an empty
  last line does not count.\<close>

definition strip_cr :: "string \<Rightarrow> string" where
  "strip_cr l = (case strip_suffix l [CHR 0x0D] of Some x \<Rightarrow> x | None \<Rightarrow> l)"

definition str_lines :: "string \<Rightarrow> string list" where
  "str_lines s =
     (let parts = split_char (CHR 0x0A) s
      in map strip_cr (butlast parts) @ (if last parts = [] then [] else [last parts]))"

text \<open>
  Validation of UTF-8: the number of bytes of the well-formed character at the front, or the
  number of bytes of the maximal ill-formed part (none when the input ends too early).
\<close>

datatype utf8_step = Good nat | Bad nat | Incomplete

definition in_range :: "char \<Rightarrow> char \<Rightarrow> char \<Rightarrow> bool" where
  "in_range a b c \<longleftrightarrow> a \<le> c \<and> c \<le> b"

definition second_range :: "char \<Rightarrow> char \<times> char" where
  "second_range a =
     (if a = CHR 0xE0 then (CHR 0xA0, CHR 0xBF)
      else if a = CHR 0xED then (CHR 0x80, CHR 0x9F)
      else if a = CHR 0xF0 then (CHR 0x90, CHR 0xBF)
      else if a = CHR 0xF4 then (CHR 0x80, CHR 0x8F)
      else (CHR 0x80, CHR 0xBF))"

definition utf8_width :: "char \<Rightarrow> nat" where
  "utf8_width a =
     (if a < CHR 0x80 then 1
      else if in_range (CHR 0xC2) (CHR 0xDF) a then 2
      else if in_range (CHR 0xE0) (CHR 0xEF) a then 3
      else if in_range (CHR 0xF0) (CHR 0xF4) a then 4
      else 0)"

fun utf8_tail :: "nat \<Rightarrow> nat \<Rightarrow> string \<Rightarrow> utf8_step" where
  "utf8_tail have 0 r = Good have"
| "utf8_tail have (Suc n) [] = Incomplete"
| "utf8_tail have (Suc n) (c # r) =
     (if is_continuation c then utf8_tail (Suc have) n r else Bad have)"

definition utf8_front :: "char \<Rightarrow> string \<Rightarrow> utf8_step" where
  "utf8_front a r =
     (case utf8_width a of
        0 \<Rightarrow> Bad 1
      | Suc 0 \<Rightarrow> Good 1
      | Suc (Suc n) \<Rightarrow>
          (case r of
             [] \<Rightarrow> Incomplete
           | b # r' \<Rightarrow>
               if in_range (fst (second_range a)) (snd (second_range a)) b then utf8_tail 2 n r'
               else Bad 1))"

text \<open>\<^verbatim>\<open>String::from_utf8\<close>: the text of the error, if the bytes are not well-formed.\<close>

function utf8_error :: "nat \<Rightarrow> string \<Rightarrow> string option" where
  "utf8_error i [] = None"
| "utf8_error i (a # r) =
     (case utf8_front a r of
        Good n \<Rightarrow> utf8_error (i + n) (drop (n - 1) r)
      | Bad n \<Rightarrow>
          Some (''invalid utf-8 sequence of '' @ show_nat n @ '' bytes from index '' @ show_nat i)
      | Incomplete \<Rightarrow> Some (''incomplete utf-8 byte sequence from index '' @ show_nat i))"
  by pat_completeness auto
termination
  by (relation "measure (\<lambda>(i, s). length s)") auto

definition from_utf8 :: "string \<Rightarrow> (string, string) outcome" where
  "from_utf8 bs = (case utf8_error 0 bs of None \<Rightarrow> Ok bs | Some e \<Rightarrow> Err e)"

section \<open>Facts\<close>

lemma utf8_error_ascii: "list_all (\<lambda>c. c < CHR 0x80) s \<Longrightarrow> utf8_error i s = None"
proof (induction s arbitrary: i)
  case (Cons a s)
  then have "utf8_front a s = Good 1" by (simp add: utf8_front_def utf8_width_def)
  with Cons show ?case by simp
qed simp

lemma utf8_tail_append:
  "utf8_tail h n r = Good m \<Longrightarrow> m = h + n \<and> n \<le> length r \<and> utf8_tail h n (r @ t) = Good m"
  by (induction h n r rule: utf8_tail.induct) (auto split: if_splits)

lemma utf8_front_append:
  assumes "utf8_front a r = Good m"
  shows "0 < m \<and> m \<le> Suc (length r) \<and> utf8_front a (r @ t) = Good m"
proof (cases r)
  case Nil
  with assms show ?thesis by (auto simp: utf8_front_def split: nat.splits)
next
  case (Cons b r')
  with assms utf8_tail_append [of 2 _ r' m t] show ?thesis
    by (fastforce simp: utf8_front_def split: nat.splits if_splits)
qed

lemma utf8_error_shift: "utf8_error i s = None \<longleftrightarrow> utf8_error j s = None"
proof (induction i s arbitrary: j rule: utf8_error.induct)
  case (2 i a r)
  show ?case
  proof (cases "utf8_front a r")
    case (Good n)
    from 2 [OF Good, of "j + n"] Good show ?thesis by simp
  qed simp_all
qed simp

lemma utf8_error_append:
  "utf8_error i s = None \<Longrightarrow> utf8_error j (s @ t) = None \<longleftrightarrow> utf8_error k t = None"
proof (induction i s arbitrary: j rule: utf8_error.induct)
  case (1 i)
  show ?case using utf8_error_shift [of j t k] by simp
next
  case (2 i a r)
  from 2(2) obtain n where n: "utf8_front a r = Good n" "utf8_error (i + n) (drop (n - 1) r) = None"
    by (auto split: utf8_step.splits)
  note f = utf8_front_append [OF n(1), of t]
  have "drop (n - 1) (r @ t) = drop (n - 1) r @ t" using f by simp
  with f 2(1) [OF n, of "j + n"] show ?case by simp
qed
lemma from_utf8_ascii: "list_all (\<lambda>c. c < CHR 0x80) s \<Longrightarrow> from_utf8 s = Ok s"
  by (simp add: from_utf8_def utf8_error_ascii)

lemma op_then_simps [simp]:
  "m d = (d', Ok x) \<Longrightarrow> op_then m f d = f x d'"
  "m d = (d', Err e) \<Longrightarrow> op_then m f d = (d', Err e)"
  "m d = (d', Panic) \<Longrightarrow> op_then m f d = (d', Panic)"
  by (simp_all add: op_then_def)

lemma op_then_Ok:
  "op_then m f d = (d', Ok y) \<longleftrightarrow> (\<exists>d1 x. m d = (d1, Ok x) \<and> f x d1 = (d', Ok y))"
  by (auto simp: op_then_def split: prod.splits outcome.splits)

lemma op_err_Ok: "op_err g m d = (d', Ok y) \<longleftrightarrow> m d = (d', Ok y)"
  by (auto simp: op_err_def map_err_def split: prod.splits outcome.splits)

lemma lift_op_simp [simp]: "lift_op r d = (d, r)"
  by (simp add: lift_op_def)

lemma files_used_fault [simp]: "files (used_fault d) = files d"
  by (simp add: used_fault_def)

lemma files_set_file [simp]: "files (set_file p bs d) = fmupd p bs (files d)"
  by (simp add: set_file_def)

lemma faults_used_fault [simp]: "faults d = [] \<Longrightarrow> faults (used_fault d) = []"
  by (simp add: used_fault_def)

lemma faults_set_file [simp]: "faults (set_file p bs d) = faults d"
  by (simp add: set_file_def)

lemma next_fault_none [simp]: "faults d = [] \<Longrightarrow> next_fault d = NoFault"
  by (simp add: next_fault_def)

end
