(* ===== verification/Le_Bytes.thy ===== *)
theory Le_Bytes
  imports Prelude
begin

text \<open>Integers in little-endian bytes (\<^verbatim>\<open>to_le_bytes\<close>, \<^verbatim>\<open>from_le_bytes\<close>).\<close>

fun to_le :: "nat \<Rightarrow> int \<Rightarrow> string" where
  "to_le 0 i = []"
| "to_le (Suc n) i = char_of (i mod 256) # to_le n (i div 256)"

fun from_le :: "string \<Rightarrow> int" where
  "from_le [] = 0"
| "from_le (c # r) = of_char c + 256 * from_le r"

lemma length_to_le [simp]: "length (to_le n i) = n"
  by (induction n arbitrary: i) auto

lemma from_le_to_le: "0 \<le> i \<Longrightarrow> i < 256 ^ n \<Longrightarrow> from_le (to_le n i) = i"
proof (induction n arbitrary: i)
  case (Suc n)
  have "i div 256 < 256 ^ n" using Suc.prems by simp
  with Suc have "from_le (to_le n (i div 256)) = i div 256" by (simp add: pos_imp_zdiv_nonneg_iff)
  then show ?case by simp
qed simp

lemma from_le_range: "0 \<le> from_le s \<and> from_le s < 256 ^ length s"
proof (induction s)
  case (Cons c s)
  have "(of_char c :: int) < 256" "0 \<le> (of_char c :: int)"
    by (simp_all add: of_char_def)
  with Cons show ?case by simp
qed simp

end
