(* ===== verification/Storage.thy ===== *)
theory Storage
  imports Files Graph Le_Bytes
begin

text \<open>
  The storage engine of \<^verbatim>\<open>storage.rs\<close>: snapshot and write-ahead-log formats, commit, recovery, the
  cluster catalog and the audit log, over the file system model. The serializers (\<^verbatim>\<open>bincode\<close> and
  \<^verbatim>\<open>serde_json\<close>) are not part of the program; they are the parameter \<open>codec\<close>, and the facts the
  proofs use of them are the named hypotheses collected in \<open>codec_ok\<close>.
\<close>

section \<open>Data\<close>

definition CURRENT_CATALOG_VERSION :: nat where "CURRENT_CATALOG_VERSION = 1"
definition SNAPSHOT_MAGIC :: string where "SNAPSHOT_MAGIC = ''AGSN''"
definition WAL_MAGIC :: string where "WAL_MAGIC = ''AGWL''"
definition STORAGE_FORMAT_VERSION :: int where "STORAGE_FORMAT_VERSION = 1"

record storage_engine =
  db_file :: string
  wal_file :: string
  audit_file :: string

record partition_metadata =
  pm_id :: string
  pm_range :: string

record replica_metadata =
  rm_partition_id :: string
  rm_replicas :: "string list"

record cluster_metadata_catalog =
  catalog_schema_version :: string
  partitions :: "partition_metadata list"
  replicas :: "replica_metadata list"

record persisted_snapshot =
  catalog_version :: nat
  cluster_metadata :: cluster_metadata_catalog
  graph :: store

record wal_commit_record =
  wal_tx_id :: string
  wal_snapshot :: persisted_snapshot

record audit_event =
  event_type :: string
  ae_code :: "string option"
  ae_message :: string
  ae_tx_id :: "string option"
  payload :: "(string, string) fmap"
  timestamp_epoch_ms :: nat

text \<open>The serializers: each returns the value or the text of its error.\<close>

record codec =
  bincode_ser_snapshot :: "persisted_snapshot \<Rightarrow> (string, string) outcome"
  bincode_de_snapshot :: "string \<Rightarrow> (persisted_snapshot, string) outcome"
  bincode_ser_record :: "wal_commit_record \<Rightarrow> (string, string) outcome"
  bincode_de_record :: "string \<Rightarrow> (wal_commit_record, string) outcome"
  json_de_snapshot :: "string \<Rightarrow> (persisted_snapshot, string) outcome"
  json_de_record :: "string \<Rightarrow> (wal_commit_record, string) outcome"
  json_ser_event :: "audit_event \<Rightarrow> (string, string) outcome"
  json_de_event :: "string \<Rightarrow> (audit_event, string) outcome"

type_synonym 'a io = "('a, graph_db_error) fs_op"

definition format_error :: "string \<Rightarrow> string \<Rightarrow> graph_db_error" where
  "format_error msg e = new_error IncompatibleFormat (msg @ '': '' @ e)"

section \<open>Encoding\<close>

definition encode_snapshot :: "codec \<Rightarrow> persisted_snapshot \<Rightarrow> string db_result" where
  "encode_snapshot c sn =
     and_then (map_err (format_error ''serialize snapshot failed'') (bincode_ser_snapshot c sn)) (\<lambda>pl.
     Ok (SNAPSHOT_MAGIC @ to_le 2 STORAGE_FORMAT_VERSION @ pl))"

definition decode_snapshot :: "codec \<Rightarrow> string \<Rightarrow> (persisted_snapshot \<times> bool) db_result" where
  "decode_snapshot c raw =
     (if starts_with raw SNAPSHOT_MAGIC then
        if length raw < 6 then Err (new_error IncompatibleFormat ''snapshot file is truncated'')
        else let version = from_le (take 2 (drop 4 raw)) in
          if version \<noteq> STORAGE_FORMAT_VERSION then
            Err (new_error IncompatibleFormat
              (''snapshot format version mismatch: expected '' @ show_int STORAGE_FORMAT_VERSION @
               '', got '' @ show_int version))
          else map_ok (\<lambda>sn. (sn, False))
                 (map_err (format_error ''cannot parse db snapshot'')
                   (bincode_de_snapshot c (drop 6 raw)))
      else map_ok (\<lambda>sn. (sn, True))
             (map_err (format_error ''cannot parse db snapshot'') (json_de_snapshot c raw)))"

text \<open>
  The loop over the log's entries. A length of \<open>2 ^ 63\<close> or more panics in the allocation of the
  buffer; a shorter tail than a length field ends the loop.
\<close>

function wal_entries ::
  "codec \<Rightarrow> persisted_snapshot option \<Rightarrow> string \<Rightarrow> (persisted_snapshot option) db_result"
where
  "wal_entries c latest rest =
     (if length rest < 8 then Ok latest
      else let len = from_le (take 8 rest); body = drop 8 rest in
        if 2 ^ 63 \<le> len then Panic
        else if int (length body) < len then
          Err (format_error ''truncated wal entry payload'' ''failed to fill whole buffer'')
        else
          and_then (map_err (format_error ''invalid wal entry'')
                     (bincode_de_record c (take (nat len) body))) (\<lambda>r.
          wal_entries c (Some (wal_snapshot r)) (drop (nat len) body)))"
  by pat_completeness auto
termination
  by (relation "measure (\<lambda>(c, latest, rest). length rest)") auto

declare wal_entries.simps [simp del]

definition decode_binary_wal :: "codec \<Rightarrow> string \<Rightarrow> (persisted_snapshot option) db_result" where
  "decode_binary_wal c raw =
     (if length raw < 6 then Err (new_error IncompatibleFormat ''wal file is truncated'')
      else let version = from_le (take 2 (drop 4 raw)) in
        if version \<noteq> STORAGE_FORMAT_VERSION then
          Err (new_error IncompatibleFormat
            (''wal format version mismatch: expected '' @ show_int STORAGE_FORMAT_VERSION @
             '', got '' @ show_int version))
        else wal_entries c None (drop 6 raw))"

text \<open>The log of an older release: one JSON record per line, blank lines skipped.\<close>

fun json_wal_lines ::
  "codec \<Rightarrow> persisted_snapshot option \<Rightarrow> string list \<Rightarrow> (persisted_snapshot option) db_result"
where
  "json_wal_lines c latest [] = Ok latest"
| "json_wal_lines c latest (l # ls) =
     (if trim l = [] then json_wal_lines c latest ls
      else and_then (map_err (format_error ''invalid wal entry'') (json_de_record c l)) (\<lambda>r.
             json_wal_lines c (Some (wal_snapshot r)) ls))"

definition decode_wal :: "codec \<Rightarrow> string \<Rightarrow> (persisted_snapshot option) db_result" where
  "decode_wal c raw =
     (if starts_with raw WAL_MAGIC then decode_binary_wal c raw
      else and_then (map_err (format_error ''invalid wal encoding'') (from_utf8 raw)) (\<lambda>text.
             json_wal_lines c None (str_lines text)))"

section \<open>The engine\<close>

definition new_engine :: "string \<Rightarrow> storage_engine" where
  "new_engine p = \<lparr>db_file = p, wal_file = with_extension p ''wal'',
                   audit_file = with_extension p ''audit.log''\<rparr>"

definition empty_catalog :: cluster_metadata_catalog where
  "empty_catalog = \<lparr>catalog_schema_version = ''v1'', partitions = [], replicas = []\<rparr>"

definition snapshot_of :: "store \<Rightarrow> persisted_snapshot" where
  "snapshot_of g = \<lparr>catalog_version = CURRENT_CATALOG_VERSION, cluster_metadata = empty_catalog,
                    graph = g\<rparr>"

definition persist_snapshot_from_struct ::
  "codec \<Rightarrow> storage_engine \<Rightarrow> persisted_snapshot \<Rightarrow> unit io"
where
  "persist_snapshot_from_struct c e sn =
     op_then (lift_op (encode_snapshot c sn)) (\<lambda>bs.
     op_err (format_error ''write snapshot failed'') (write_file (db_file e) bs))"

definition persist_snapshot :: "codec \<Rightarrow> storage_engine \<Rightarrow> store \<Rightarrow> unit io" where
  "persist_snapshot c e g = persist_snapshot_from_struct c e (snapshot_of g)"

definition load_graph :: "codec \<Rightarrow> storage_engine \<Rightarrow> store io" where
  "load_graph c e =
     op_then (op_err (format_error ''cannot read db file'') (read_file (db_file e))) (\<lambda>raw.
     op_then (lift_op (decode_snapshot c raw)) (\<lambda>(sn, migrated).
     if catalog_version sn \<noteq> CURRENT_CATALOG_VERSION then
       lift_op (Err (new_error IncompatibleFormat
         (''catalog version mismatch: expected '' @ show_nat CURRENT_CATALOG_VERSION @ '', got '' @
          show_nat (catalog_version sn))))
     else
       op_then (if migrated then persist_snapshot_from_struct c e sn else lift_op (Ok ())) (\<lambda>_.
       lift_op (Ok (graph sn)))))"

definition load_or_init :: "codec \<Rightarrow> storage_engine \<Rightarrow> store io" where
  "load_or_init c e d =
     op_then (if file_exists (db_file e) d then lift_op (Ok ()) else persist_snapshot c e new_store)
       (\<lambda>_. load_graph c e) d"

definition load_cluster_metadata :: "codec \<Rightarrow> storage_engine \<Rightarrow> cluster_metadata_catalog io" where
  "load_cluster_metadata c e =
     op_then (op_err (format_error ''cannot read db file'') (read_file (db_file e))) (\<lambda>raw.
     op_then (lift_op (decode_snapshot c raw)) (\<lambda>(sn, migrated).
     op_then (if migrated then persist_snapshot_from_struct c e sn else lift_op (Ok ())) (\<lambda>_.
     lift_op (Ok (cluster_metadata sn)))))"

definition persist_cluster_metadata ::
  "codec \<Rightarrow> storage_engine \<Rightarrow> cluster_metadata_catalog \<Rightarrow> unit io"
where
  "persist_cluster_metadata c e md d =
     op_then (if file_exists (db_file e) d then load_graph c e else lift_op (Ok new_store)) (\<lambda>g.
     persist_snapshot_from_struct c e
       \<lparr>catalog_version = CURRENT_CATALOG_VERSION, cluster_metadata = md, graph = g\<rparr>) d"

text \<open>\<^verbatim>\<open>append_wal\<close> opens the log with truncation: it holds the last commit only.\<close>

definition append_wal :: "codec \<Rightarrow> storage_engine \<Rightarrow> string \<Rightarrow> persisted_snapshot \<Rightarrow> unit io" where
  "append_wal c e tx sn =
     op_then (op_err (format_error ''open wal failed'') (open_truncate (wal_file e))) (\<lambda>_.
     op_then (op_err (format_error ''write wal header failed'')
       (op_then (write_all (wal_file e) WAL_MAGIC) (\<lambda>_.
          write_all (wal_file e) (to_le 2 STORAGE_FORMAT_VERSION)))) (\<lambda>_.
     op_then (lift_op (map_err (format_error ''serialize wal failed'')
       (bincode_ser_record c \<lparr>wal_tx_id = tx, wal_snapshot = sn\<rparr>))) (\<lambda>pl.
     op_err (format_error ''append wal failed'')
       (op_then (write_all (wal_file e) (to_le 8 (int (length pl)))) (\<lambda>_.
          write_all (wal_file e) pl)))))"

definition persist_after_wal :: "codec \<Rightarrow> storage_engine \<Rightarrow> string \<Rightarrow> store \<Rightarrow> unit io" where
  "persist_after_wal c e tx g =
     op_then (append_wal c e tx (snapshot_of g)) (\<lambda>_.
     persist_snapshot_from_struct c e (snapshot_of g))"

definition recover :: "codec \<Rightarrow> storage_engine \<Rightarrow> store io" where
  "recover c e d =
     (if \<not> file_exists (wal_file e) d then load_or_init c e d
      else
        op_then (op_err (format_error ''cannot read wal file'') (read_file (wal_file e))) (\<lambda>raw.
        op_then (lift_op (decode_wal c raw)) (\<lambda>latest.
        case latest of
          Some sn \<Rightarrow>
            op_then (persist_snapshot_from_struct c e sn) (\<lambda>_. lift_op (Ok (graph sn)))
        | None \<Rightarrow> load_or_init c e)) d)"

definition append_audit_event :: "codec \<Rightarrow> storage_engine \<Rightarrow> audit_event \<Rightarrow> unit io" where
  "append_audit_event c e ev =
     op_then (op_err (format_error ''open audit failed'') (open_append (audit_file e))) (\<lambda>_.
     op_then (lift_op (map_err (format_error ''serialize audit failed'') (json_ser_event c ev))) (\<lambda>pl.
     op_err (format_error ''append audit failed'')
       (op_then (write_all (audit_file e) pl) (\<lambda>_. write_all (audit_file e) [CHR 0x0A]))))"

fun audit_lines :: "codec \<Rightarrow> string list \<Rightarrow> (audit_event list) db_result" where
  "audit_lines c [] = Ok []"
| "audit_lines c (l # ls) =
     (if trim l = [] then audit_lines c ls
      else and_then (map_err (format_error ''invalid audit entry'') (json_de_event c l)) (\<lambda>ev.
           and_then (audit_lines c ls) (\<lambda>evs. Ok (ev # evs))))"

text \<open>\<^verbatim>\<open>fs::read_to_string\<close> fails on bytes that are not UTF-8.\<close>

definition load_audit_events :: "codec \<Rightarrow> storage_engine \<Rightarrow> (audit_event list) io" where
  "load_audit_events c e d =
     (if \<not> file_exists (audit_file e) d then (d, Ok [])
      else
        op_then (op_err (format_error ''cannot read audit file'') (read_file (audit_file e))) (\<lambda>bs.
        op_then (lift_op
          (if utf8_error 0 bs = None then Ok bs
           else Err (format_error ''cannot read audit file'' ''stream did not contain valid UTF-8'')))
          (\<lambda>raw. lift_op (audit_lines c (str_lines raw)))) d)"

end
