(* ===== verification/Storage_Correct.thy ===== *)
theory Storage_Correct
  imports Storage
begin

text \<open>
  What the storage engine guarantees: the formats decode what they encode, a commit is
  recovered after it succeeded, a commit interrupted at any point leaves the old graph, the new
  graph or a detected error, and the contract \<open>durable_store\<close> on which the transaction manager
  relies.
\<close>

section \<open>What is assumed of the serializers\<close>

text \<open>
  Serializing returns a result or an error and deserializing undoes it, a buffer is shorter than \<open>2 ^ 63\<close> bytes, no JSON document
  starts with the letter A, and a serialized event is one line of valid UTF-8 in braces.
\<close>

definition snapshot_codec_ok :: "codec \<Rightarrow> bool" where
  "snapshot_codec_ok c \<longleftrightarrow>
     (\<forall>sn. bincode_ser_snapshot c sn \<noteq> Panic) \<and>
     (\<forall>sn bs. bincode_ser_snapshot c sn = Ok bs \<longrightarrow> bincode_de_snapshot c bs = Ok sn)"

definition record_codec_ok :: "codec \<Rightarrow> bool" where
  "record_codec_ok c \<longleftrightarrow>
     (\<forall>r. bincode_ser_record c r \<noteq> Panic) \<and>
     (\<forall>r bs. bincode_ser_record c r = Ok bs \<longrightarrow>
        bincode_de_record c bs = Ok r \<and> int (length bs) < 2 ^ 63)"

definition json_codec_ok :: "codec \<Rightarrow> bool" where
  "json_codec_ok c \<longleftrightarrow>
     (\<forall>s. starts_with s ''A'' \<longrightarrow> (\<exists>e. json_de_record c s = Err e)) \<and>
     (\<forall>ev. json_ser_event c ev \<noteq> Panic) \<and>
     (\<forall>ev bs. json_ser_event c ev = Ok bs \<longrightarrow>
        json_de_event c bs = Ok ev \<and> CHR 0x0A \<notin> set bs \<and> utf8_error 0 bs = None \<and>
        hd bs = CHR ''{'' \<and> last bs = CHR ''}'' \<and> bs \<noteq> [])"

definition codec_ok :: "codec \<Rightarrow> bool" where
  "codec_ok c \<longleftrightarrow> snapshot_codec_ok c \<and> record_codec_ok c \<and> json_codec_ok c"

definition distinct_paths :: "storage_engine \<Rightarrow> bool" where
  "distinct_paths e \<longleftrightarrow> distinct [db_file e, wal_file e, audit_file e]"

section \<open>The snapshot format\<close>

lemma decode_encode_snapshot:
  assumes "snapshot_codec_ok c" "encode_snapshot c sn = Ok bs"
  shows "decode_snapshot c bs = Ok (sn, False)"
proof -
  from assms(2) obtain pl where pl: "bincode_ser_snapshot c sn = Ok pl"
    and bs: "bs = SNAPSHOT_MAGIC @ to_le 2 STORAGE_FORMAT_VERSION @ pl"
    by (cases "bincode_ser_snapshot c sn") (auto simp: encode_snapshot_def)
  have "bincode_de_snapshot c pl = Ok sn" using assms(1) pl by (simp add: snapshot_codec_ok_def)
  moreover have "from_le (to_le 2 STORAGE_FORMAT_VERSION) = STORAGE_FORMAT_VERSION"
    by (simp add: from_le_to_le STORAGE_FORMAT_VERSION_def)
  ultimately show ?thesis
    by (simp add: decode_snapshot_def bs SNAPSHOT_MAGIC_def)
qed

section \<open>The log format\<close>

definition wal_header :: string where
  "wal_header = WAL_MAGIC @ to_le 2 STORAGE_FORMAT_VERSION"

definition wal_image :: "string \<Rightarrow> string" where
  "wal_image pl = wal_header @ to_le 8 (int (length pl)) @ pl"

lemma wal_header_facts:
  "length wal_header = 6" "starts_with (wal_header @ r) WAL_MAGIC"
  "from_le (take 2 (drop 4 (wal_header @ r))) = STORAGE_FORMAT_VERSION"
  by (simp_all add: wal_header_def WAL_MAGIC_def from_le_to_le STORAGE_FORMAT_VERSION_def)

lemma decode_wal_header:
  "decode_wal c (wal_header @ r) = wal_entries c None r"
  by (simp add: decode_wal_def decode_binary_wal_def wal_header_facts(2))
    (simp add: wal_header_def WAL_MAGIC_def from_le_to_le STORAGE_FORMAT_VERSION_def)

lemma wal_entries_short: "length r < 8 \<Longrightarrow> wal_entries c l r = Ok l"
  by (subst wal_entries.simps) simp

lemma decode_wal_image:
  assumes "record_codec_ok c" "bincode_ser_record c \<lparr>wal_tx_id = tx, wal_snapshot = sn\<rparr> = Ok pl"
  shows "decode_wal c (wal_image pl) = Ok (Some sn)"
proof -
  have len: "int (length pl) < 2 ^ 63" and de: "bincode_de_record c pl = Ok \<lparr>wal_tx_id = tx, wal_snapshot = sn\<rparr>"
    using assms by (auto simp: record_codec_ok_def)
  have "from_le (to_le 8 (int (length pl))) = int (length pl)"
    using len by (intro from_le_to_le) auto
  with len de show ?thesis unfolding wal_image_def decode_wal_header
    by (subst wal_entries.simps) (simp add: wal_entries_short)
qed

lemma decode_wal_part_of_magic:
  assumes "json_codec_ok c" "s \<in> {''A'', ''AG'', ''AGW''}"
  shows "\<exists>err. decode_wal c s = Err err"
proof -
  have a: "list_all (\<lambda>b. b < CHR 0x80) s" and l: "str_lines s = [s]" and t: "trim s \<noteq> []"
    and m: "\<not> starts_with s WAL_MAGIC" and j: "starts_with s ''A''"
    using assms(2) by (elim insertE; simp; code_simp)+
  from assms(1) j obtain e where "json_de_record c s = Err e" by (auto simp: json_codec_ok_def)
  with a l t m show ?thesis by (simp add: decode_wal_def from_utf8_ascii)
qed

text \<open>A log cut short anywhere yields no snapshot: it reads as empty or as damaged.\<close>

lemma decode_wal_torn:
  assumes "json_codec_ok c" "int (length pl) < 2 ^ 63" "k < length (wal_image pl)"
  shows "decode_wal c (take k (wal_image pl)) = Ok None \<or>
         (\<exists>err. decode_wal c (take k (wal_image pl)) = Err err)"
proof -
  consider "k = 0" | "k \<in> {1, 2, 3}" | "k \<in> {4, 5}" | "6 \<le> k" by force
  then show ?thesis
  proof cases
    case 1
    then show ?thesis
      by (simp add: decode_wal_def WAL_MAGIC_def from_utf8_def str_lines_def Let_def)
  next
    case 2
    then have "take k (wal_image pl) \<in> {''A'', ''AG'', ''AGW''}"
      by (auto simp: wal_image_def wal_header_def WAL_MAGIC_def)
    then show ?thesis using decode_wal_part_of_magic [OF assms(1)] by blast
  next
    case 3
    then show ?thesis
      by (auto simp: wal_image_def wal_header_def WAL_MAGIC_def decode_wal_def decode_binary_wal_def)
  next
    case 4
    have "take k (wal_image pl) = wal_header @ take (k - 6) (to_le 8 (int (length pl)) @ pl)"
      using 4 wal_header_facts(1) by (simp add: wal_image_def)
    then have e: "decode_wal c (take k (wal_image pl)) =
      wal_entries c None (take (k - 6) (to_le 8 (int (length pl)) @ pl))"
      by (simp add: decode_wal_header)
    show ?thesis
    proof (cases "k - 6 < 8")
      case True
      then show ?thesis unfolding e by (simp add: wal_entries_short)
    next
      case False
      have "from_le (to_le 8 (int (length pl))) = int (length pl)"
        using assms(2) by (intro from_le_to_le) auto
      moreover have "int (k - 14) < int (length pl)"
        using False assms(3) wal_header_facts(1) by (simp add: wal_image_def)
      ultimately show ?thesis unfolding e using assms(2) False
        by (subst wal_entries.simps) (auto simp: Let_def min_def)
    qed
  qed
qed

section \<open>Frames\<close>

text \<open>Which file an operation may change.\<close>

definition only_changes :: "string \<Rightarrow> ('a, 'e) fs_op \<Rightarrow> bool" where
  "only_changes p m \<longleftrightarrow> (\<forall>d q. q \<noteq> p \<longrightarrow> fmlookup (files (fst (m d))) q = fmlookup (files d) q)"

lemma only_changes_prims:
  "only_changes p (read_file q)" "only_changes p (write_file p bs)" "only_changes p (open_truncate p)"
  "only_changes p (open_append p)" "only_changes p (write_all p bs)" "only_changes p (lift_op r)"
  by (auto simp: only_changes_def fs_ops split: list.splits fault.splits)

lemma only_changes_then:
  "only_changes p m \<Longrightarrow> (\<And>x. only_changes p (f x)) \<Longrightarrow> only_changes p (op_then m f)"
  by (auto simp: only_changes_def op_then_def split: prod.splits outcome.splits) (metis fst_conv)+

lemma only_changes_err: "only_changes p m \<Longrightarrow> only_changes p (op_err g m)"
  by (auto simp: only_changes_def op_err_def split: prod.splits) (metis fst_conv)

lemmas only_changes_intros = only_changes_prims only_changes_then only_changes_err

lemma only_changes_persist: "only_changes (db_file e) (persist_snapshot_from_struct c e sn)"
  unfolding persist_snapshot_from_struct_def by (intro only_changes_intros)

lemma only_changes_audit: "only_changes (audit_file e) (append_audit_event c e ev)"
  unfolding append_audit_event_def by (intro only_changes_intros)

lemma only_changes_wal: "only_changes (wal_file e) (append_wal c e tx sn)"
  unfolding append_wal_def by (intro only_changes_intros)

lemma only_changesD:
  "only_changes p m \<Longrightarrow> m d = (d', r) \<Longrightarrow> q \<noteq> p \<Longrightarrow> fmlookup (files d') q = fmlookup (files d) q"
  unfolding only_changes_def by (metis fst_conv)

section \<open>Error codes\<close>

text \<open>An operation all of whose errors are INCOMPATIBLE_FORMAT.\<close>

definition format_errors_only :: "'a io \<Rightarrow> bool" where
  "format_errors_only m \<longleftrightarrow> (\<forall>d d' x. m d = (d', Err x) \<longrightarrow> err_code x = IncompatibleFormat)"

lemma code_format_error [simp]: "err_code (format_error m x) = IncompatibleFormat"
  by (simp add: format_error_def new_error_def)

lemma format_errors_prims:
  "format_errors_only (op_err (format_error msg) m)" "format_errors_only (lift_op (Ok x))"
  "format_errors_only (lift_op (map_err (format_error msg) r))"
  by (auto simp: format_errors_only_def op_err_def map_err_def split: prod.splits outcome.splits)

lemma format_errors_then:
  "format_errors_only m \<Longrightarrow> (\<And>x. format_errors_only (f x)) \<Longrightarrow> format_errors_only (op_then m f)"
  unfolding format_errors_only_def op_then_def by (auto split: prod.splits outcome.splits)

lemma format_errors_encode: "format_errors_only (lift_op (encode_snapshot c sn))"
  by (cases "bincode_ser_snapshot c sn") (auto simp: format_errors_only_def encode_snapshot_def)

lemmas format_errors_intros = format_errors_prims format_errors_then format_errors_encode

lemma format_errors_persist: "format_errors_only (persist_snapshot_from_struct c e sn)"
  unfolding persist_snapshot_from_struct_def by (intro format_errors_intros)

lemma format_errors_persist_after_wal: "format_errors_only (persist_after_wal c e tx g)"
  unfolding persist_after_wal_def append_wal_def
  by (intro format_errors_intros format_errors_persist)

section \<open>What the disk holds\<close>

text \<open>The graph a recovery reads: the snapshot of the log if it has one, else the database file.\<close>

definition wal_content :: "codec \<Rightarrow> storage_engine \<Rightarrow> fs \<Rightarrow> (persisted_snapshot option) db_result" where
  "wal_content c e d =
     (case fmlookup (files d) (wal_file e) of None \<Rightarrow> Ok None | Some w \<Rightarrow> decode_wal c w)"

definition db_content :: "codec \<Rightarrow> storage_engine \<Rightarrow> fs \<Rightarrow> store option" where
  "db_content c e d =
     (case fmlookup (files d) (db_file e) of
        None \<Rightarrow> None
      | Some raw \<Rightarrow>
          (case decode_snapshot c raw of
             Ok (sn, False) \<Rightarrow>
               if catalog_version sn = CURRENT_CATALOG_VERSION then Some (graph sn) else None
           | _ \<Rightarrow> None))"

definition storable :: "codec \<Rightarrow> persisted_snapshot \<Rightarrow> bool" where
  "storable c sn \<longleftrightarrow>
     catalog_version sn = CURRENT_CATALOG_VERSION \<and> (\<exists>bs. encode_snapshot c sn = Ok bs)"

definition recoverable :: "codec \<Rightarrow> storage_engine \<Rightarrow> fs \<Rightarrow> store \<Rightarrow> bool" where
  "recoverable c e d g \<longleftrightarrow>
     (case wal_content c e d of
        Ok (Some sn) \<Rightarrow> graph sn = g \<and> storable c sn
      | Ok None \<Rightarrow> db_content c e d = Some g
      | _ \<Rightarrow> False)"

lemma recoverable_frame:
  assumes "recoverable c e d g"
    and "fmlookup (files d') (wal_file e) = fmlookup (files d) (wal_file e)"
    and "fmlookup (files d') (db_file e) = fmlookup (files d) (db_file e)"
  shows "recoverable c e d' g"
proof -
  have eq: "wal_content c e d' = wal_content c e d" "db_content c e d' = db_content c e d"
    using assms(2,3) by (simp_all add: wal_content_def db_content_def)
  from assms(1) show ?thesis unfolding recoverable_def eq .
qed

lemma load_graph_db_content:
  assumes "db_content c e d = Some g"
  shows "\<exists>d' r. load_graph c e d = (d', r) \<and> files d' = files d \<and> (r = Ok g \<or> (\<exists>err. r = Err err)) \<and>
    (faults d = [] \<longrightarrow> r = Ok g \<and> faults d' = [])"
proof -
  from assms obtain raw sn where raw: "fmlookup (files d) (db_file e) = Some raw"
    and sn: "decode_snapshot c raw = Ok (sn, False)" "catalog_version sn = CURRENT_CATALOG_VERSION"
      "graph sn = g"
    by (auto simp: db_content_def split: option.splits outcome.splits prod.splits bool.splits if_splits)
  show ?thesis
    by (cases "next_fault d")
      (auto simp: load_graph_def read_file_def op_then_def op_err_def raw sn)
qed

lemma load_or_init_db_content:
  assumes "db_content c e d = Some g"
  shows "load_or_init c e d = load_graph c e d"
proof -
  have "file_exists (db_file e) d" using assms by (auto simp: db_content_def file_exists_def split: option.splits)
  then show ?thesis by (simp add: load_or_init_def op_then_def)
qed

lemma persist_snapshot_effect:
  assumes "snapshot_codec_ok c" "storable c sn"
  shows "\<exists>d' r. persist_snapshot_from_struct c e sn d = (d', r) \<and> (r = Ok () \<or> (\<exists>err. r = Err err)) \<and>
    (r = Ok () \<longrightarrow> db_content c e d' = Some (graph sn)) \<and> (faults d = [] \<longrightarrow> r = Ok () \<and> faults d' = [])"
proof -
  from assms(2) obtain bs where bs: "encode_snapshot c sn = Ok bs"
    and v: "catalog_version sn = CURRENT_CATALOG_VERSION" by (auto simp: storable_def)
  show ?thesis
    by (cases "next_fault d")
      (auto simp: persist_snapshot_from_struct_def bs op_err_def write_file_def db_content_def
        decode_encode_snapshot [OF assms(1) bs] v op_then_def)
qed

section \<open>Writing the log\<close>

text \<open>
  An operation that extends a file from the first \<open>n\<close> to the first \<open>m\<close> bytes of an image, or
  fails somewhere in between.
\<close>

definition extends :: "string \<Rightarrow> string \<Rightarrow> nat \<Rightarrow> nat \<Rightarrow> (unit, 'e) fs_op \<Rightarrow> bool" where
  "extends p img n m f \<longleftrightarrow>
     (\<forall>d d' r. fmlookup (files d) p = Some (take n img) \<longrightarrow> f d = (d', r) \<longrightarrow>
        (\<exists>k \<le> m. fmlookup (files d') p = Some (take k img) \<and>
           (r = Ok () \<and> k = m \<or> (\<exists>err. r = Err err))))"

lemma extendsD:
  "extends p img n m f \<Longrightarrow> fmlookup (files d) p = Some (take n img) \<Longrightarrow> f d = (d', r) \<Longrightarrow>
     \<exists>k. k \<le> m \<and> fmlookup (files d') p = Some (take k img) \<and>
       (r = Ok () \<and> k = m \<or> (\<exists>err. r = Err err))"
  unfolding extends_def by blast

lemma extends_write_all:
  assumes "n + length bs \<le> length img" "take (length bs) (drop n img) = bs"
  shows "extends p img n (n + length bs) (write_all p bs)"
  unfolding extends_def
proof (intro allI impI)
  fix d d' r
  assume l: "fmlookup (files d) p = Some (take n img)" and w: "write_all p bs d = (d', r)"
  have t: "take n img @ take j bs = take (n + min j (length bs)) img" for j
    using assms(2) take_add [of n "min j (length bs)" img]
    by (metis min.commute take_all_iff take_take linorder_linear min_def)
  show "\<exists>k \<le> n + length bs. fmlookup (files d') p = Some (take k img) \<and>
      (r = Ok () \<and> k = n + length bs \<or> (\<exists>err. r = Err err))"
  proof (cases "next_fault d")
    case NoFault
    with l w t [of "length bs"] show ?thesis by (auto simp: write_all_def Let_def)
  next
    case (FailOpen err)
    with l w show ?thesis by (intro exI [of _ n]) (auto simp: write_all_def Let_def)
  next
    case (FailWrite j err)
    with l w t [of j] show ?thesis
      by (intro exI [of _ "n + min j (length bs)"]) (auto simp: write_all_def Let_def)
  qed
qed

lemma extends_then:
  assumes "extends p img n m f" "\<And>x. extends p img m l (h x)" "m \<le> l"
  shows "extends p img n l (op_then f h)"
  unfolding extends_def
proof (intro allI impI)
  fix d d' r
  assume n: "fmlookup (files d) p = Some (take n img)" and r: "op_then f h d = (d', r)"
  obtain d1 r1 where f: "f d = (d1, r1)" by fastforce
  with assms(1) n obtain k where k: "k \<le> m" "fmlookup (files d1) p = Some (take k img)"
    and c: "r1 = Ok () \<and> k = m \<or> (\<exists>err. r1 = Err err)" unfolding extends_def by blast
  from c show "\<exists>k \<le> l. fmlookup (files d') p = Some (take k img) \<and>
      (r = Ok () \<and> k = l \<or> (\<exists>err. r = Err err))"
  proof
    assume "r1 = Ok () \<and> k = m"
    with f r k assms(2) [of "()"] show ?thesis unfolding extends_def by auto
  next
    assume "\<exists>err. r1 = Err err"
    with f r k assms(3) show ?thesis by (intro exI [of _ k]) (auto simp: op_then_def)
  qed
qed

lemma extends_err: "extends p img n m f \<Longrightarrow> extends p img n m (op_err g f)"
  unfolding extends_def op_err_def by (auto split: prod.splits) (metis map_err_simps)+

lemma extends_fails: "n \<le> m \<Longrightarrow> extends p img n m (lift_op (Err x))"
  by (auto simp: extends_def)

lemma op_then_lift:
  "op_then (lift_op (Ok x)) f = f x" "op_then (lift_op (Err y)) f = lift_op (Err y)"
  by (simp_all add: op_then_def fun_eq_iff)

lemma extends_header:
  "extends p (wal_image pl) 0 6
     (op_err g (op_then (write_all p WAL_MAGIC) (\<lambda>_. write_all p (to_le 2 STORAGE_FORMAT_VERSION))))"
proof -
  have m: "length WAL_MAGIC = 4" by (simp add: WAL_MAGIC_def)
  have a: "extends p (wal_image pl) 0 4 (write_all p WAL_MAGIC)"
    using extends_write_all [of 0 WAL_MAGIC "wal_image pl" p]
    by (simp add: wal_image_def wal_header_def m)
  have b: "extends p (wal_image pl) 4 6 (write_all p (to_le 2 STORAGE_FORMAT_VERSION))"
    using extends_write_all [of 4 "to_le 2 STORAGE_FORMAT_VERSION" "wal_image pl" p]
    by (simp add: wal_image_def wal_header_def m)
  show ?thesis by (intro extends_err extends_then [OF a b]) simp
qed

lemma extends_entry:
  "extends p (wal_image pl) 6 (length (wal_image pl))
     (op_err g (op_then (write_all p (to_le 8 (int (length pl)))) (\<lambda>_. write_all p pl)))"
proof -
  have a: "extends p (wal_image pl) 6 14 (write_all p (to_le 8 (int (length pl))))"
    using extends_write_all [of 6 "to_le 8 (int (length pl))" "wal_image pl" p]
    by (simp add: wal_image_def wal_header_facts(1))
  have b: "extends p (wal_image pl) 14 (length (wal_image pl)) (write_all p pl)"
    using extends_write_all [of 14 pl "wal_image pl" p]
    by (simp add: wal_image_def wal_header_facts(1))
  have "14 \<le> length (wal_image pl)" by (simp add: wal_image_def wal_header_facts(1))
  then show ?thesis by (intro extends_err extends_then [OF a b])
qed

text \<open>
  Whatever faults occur, the log is untouched, or holds a beginning of the image of the record;
  it holds all of it if the operation succeeds.
\<close>

lemma append_wal_effect:
  assumes app: "append_wal c e tx sn d = (d', r)"
    and pl: "bincode_ser_record c \<lparr>wal_tx_id = tx, wal_snapshot = sn\<rparr> =
      (if ok then Ok pl else Err x)"
  shows "(\<exists>err. r = Err err) \<and> files d' = files d \<or>
    (\<exists>k. fmlookup (files d') (wal_file e) = Some (take k (wal_image pl)) \<and>
      (if ok then k \<le> length (wal_image pl) else k \<le> 6) \<and>
      (r = Ok () \<and> ok \<and> k = length (wal_image pl) \<or> (\<exists>err. r = Err err)))"
proof -
  let ?w = "wal_file e" and ?n = "if ok then length (wal_image pl) else 6"
  let ?body = "op_then (op_err (format_error ''write wal header failed'')
       (op_then (write_all ?w WAL_MAGIC) (\<lambda>_. write_all ?w (to_le 2 STORAGE_FORMAT_VERSION))))
     (\<lambda>_. op_then (lift_op (map_err (format_error ''serialize wal failed'')
       (bincode_ser_record c \<lparr>wal_tx_id = tx, wal_snapshot = sn\<rparr>))) (\<lambda>pl.
     op_err (format_error ''append wal failed'')
       (op_then (write_all ?w (to_le 8 (int (length pl)))) (\<lambda>_. write_all ?w pl))))"
  have len: "6 \<le> ?n" by (simp add: wal_image_def wal_header_facts(1))
  have "extends ?w (wal_image pl) 6 ?n
    (op_then (lift_op (map_err (format_error ''serialize wal failed'')
       (bincode_ser_record c \<lparr>wal_tx_id = tx, wal_snapshot = sn\<rparr>))) (\<lambda>pl.
     op_err (format_error ''append wal failed'')
       (op_then (write_all ?w (to_le 8 (int (length pl)))) (\<lambda>_. write_all ?w pl))))"
    unfolding pl using extends_entry [of ?w pl "format_error ''append wal failed''"]
    by (simp add: op_then_lift extends_fails)
  then have body: "extends ?w (wal_image pl) 0 ?n ?body"
    using len by (intro extends_then [OF extends_header]) simp_all
  obtain d0 r0 where o: "open_truncate ?w d = (d0, r0)" by fastforce
  show ?thesis
  proof (cases r0)
    case (Ok u)
    then have l: "fmlookup (files d0) ?w = Some (take 0 (wal_image pl))"
      using o by (auto simp: open_truncate_def split: fault.splits)
    have b: "?body d0 = (d', r)"
      using app o Ok unfolding append_wal_def by (simp add: op_err_def)
    have nok: "ok" if "r = Ok ()"
      using app that by (cases ok) (auto simp: append_wal_def op_then_Ok op_err_Ok pl)
    obtain k where "k \<le> ?n" "fmlookup (files d') ?w = Some (take k (wal_image pl))"
      "r = Ok () \<and> k = ?n \<or> (\<exists>err. r = Err err)"
      using extendsD [OF body l b] by (elim exE conjE)
    with nok show ?thesis by (intro disjI2 exI [of _ k]) (cases ok; auto)
  next
    case (Err y)
    with o app show ?thesis
      by (auto simp: append_wal_def op_err_def op_then_def open_truncate_def split: fault.splits)
  qed (use o in \<open>auto simp: open_truncate_def split: fault.splits\<close>)
qed

section \<open>Recovery\<close>

lemma recoverable_wal:
  "wal_content c e d = Ok (Some sn) \<Longrightarrow> recoverable c e d g \<longleftrightarrow> graph sn = g \<and> storable c sn"
  "wal_content c e d = Ok None \<Longrightarrow> recoverable c e d g \<longleftrightarrow> db_content c e d = Some g"
  by (simp_all add: recoverable_def)

text \<open>Recovery as a function of what the log holds, once the log was read.\<close>

lemma recover_no_wal: "fmlookup (files d) (wal_file e) = None \<Longrightarrow> recover c e d = load_or_init c e d"
  by (simp add: recover_def file_exists_def)

lemma recover_reads_wal:
  assumes "fmlookup (files d) (wal_file e) = Some w" "next_fault d = NoFault"
  shows "recover c e d =
    (case decode_wal c w of
       Ok (Some sn) \<Rightarrow>
         op_then (persist_snapshot_from_struct c e sn) (\<lambda>_. lift_op (Ok (graph sn))) (used_fault d)
     | Ok None \<Rightarrow> load_or_init c e (used_fault d)
     | Err err \<Rightarrow> (used_fault d, Err err)
     | Panic \<Rightarrow> (used_fault d, Panic))"
  using assms
  by (simp add: recover_def file_exists_def read_file_def op_then_def [of "op_err _ _"]
      op_then_def [of "lift_op _"] op_err_def split: outcome.splits option.splits)

lemma recover_read_fails:
  assumes "fmlookup (files d) (wal_file e) = Some w" "next_fault d \<noteq> NoFault"
  shows "\<exists>err. recover c e d = (used_fault d, Err err)"
  using assms by (cases "next_fault d")
    (auto simp: recover_def file_exists_def read_file_def op_then_def op_err_def)

lemma load_or_init_recoverable:
  assumes "db_content c e d = Some g" "recoverable c e d g"
  shows "\<exists>d' r. load_or_init c e d = (d', r) \<and> recoverable c e d' g \<and>
    (r = Ok g \<or> (\<exists>err. r = Err err)) \<and> (faults d = [] \<longrightarrow> r = Ok g \<and> db_content c e d' = Some g)"
proof -
  from load_graph_db_content [OF assms(1)] load_or_init_db_content [OF assms(1)] obtain d' r where
    d': "load_or_init c e d = (d', r)" "files d' = files d" "r = Ok g \<or> (\<exists>err. r = Err err)"
      "faults d = [] \<longrightarrow> r = Ok g" by auto
  moreover have "recoverable c e d' g" by (rule recoverable_frame [OF assms(2)]) (simp_all add: d'(2))
  moreover have "db_content c e d' = Some g" using assms(1) d'(2) by (simp add: db_content_def)
  ultimately show ?thesis by auto
qed

lemma recover_recoverable:
  assumes "snapshot_codec_ok c" "distinct_paths e" "recoverable c e d g"
  shows "\<exists>d' r. recover c e d = (d', r) \<and> recoverable c e d' g \<and> (r = Ok g \<or> (\<exists>err. r = Err err)) \<and>
    (faults d = [] \<longrightarrow> r = Ok g \<and> db_content c e d' = Some g)"
proof -
  note init = load_or_init_recoverable [of c e _ g]
  show ?thesis
  proof (cases "fmlookup (files d) (wal_file e)")
    case None
    then have "wal_content c e d = Ok None" by (simp add: wal_content_def)
    with assms(3) have "db_content c e d = Some g" by (simp add: recoverable_wal)
    from init [OF this assms(3)] recover_no_wal [OF None] show ?thesis by simp
  next
    case (Some w)
    have ru: "recoverable c e (used_fault d) g" by (rule recoverable_frame [OF assms(3)]) simp_all
    show ?thesis
    proof (cases "next_fault d = NoFault")
      case False
      then have "faults d \<noteq> []" by auto
      with recover_read_fails [OF Some False] ru show ?thesis by force
    next
      case True
      note rec = recover_reads_wal [OF Some True, of c]
      from assms(3) Some consider (snap) sn where "decode_wal c w = Ok (Some sn)" "graph sn = g" "storable c sn"
        | (none) "decode_wal c w = Ok None" "db_content c e d = Some g"
        by (auto simp: recoverable_def wal_content_def split: outcome.splits option.splits)
      then show ?thesis
      proof cases
        case none
        then have "db_content c e (used_fault d) = Some g" by (simp add: db_content_def)
        from init [OF this ru] none rec show ?thesis by auto
      next
        case snap
        from persist_snapshot_effect [OF assms(1) snap(3), of e "used_fault d"] obtain d' r where
          p: "persist_snapshot_from_struct c e sn (used_fault d) = (d', r)" "r = Ok () \<or> (\<exists>err. r = Err err)"
            "r = Ok () \<longrightarrow> db_content c e d' = Some (graph sn)" "faults (used_fault d) = [] \<longrightarrow> r = Ok ()"
          by blast
        have "fmlookup (files d') (wal_file e) = Some w"
          using only_changesD [OF only_changes_persist p(1), of "wal_file e"] assms(2) Some
          by (auto simp: distinct_paths_def)
        then have "recoverable c e d' g" using snap by (simp add: recoverable_def wal_content_def)
        with p snap rec show ?thesis by (auto simp: op_then_def)
      qed
    qed
  qed
qed

section \<open>Interrupted commits\<close>


lemma persist_unstorable:
  assumes "snapshot_codec_ok c" "\<not> storable c sn" "catalog_version sn = CURRENT_CATALOG_VERSION"
  shows "\<exists>err. persist_snapshot_from_struct c e sn d = (d, Err err)"
proof -
  from assms obtain x where "bincode_ser_snapshot c sn = Err x"
    by (cases "bincode_ser_snapshot c sn") (auto simp: storable_def encode_snapshot_def snapshot_codec_ok_def)
  then show ?thesis by (simp add: persist_snapshot_from_struct_def encode_snapshot_def op_then_lift)
qed

lemma append_wal_outcome:
  assumes ok: "codec_ok c" and app: "append_wal c e tx sn d = (d', r)"
  shows "(\<exists>err. r = Err err) \<and>
      (wal_content c e d' = wal_content c e d \<or> wal_content c e d' = Ok None \<or>
       (\<exists>err. wal_content c e d' = Err err)) \<or>
    wal_content c e d' = Ok (Some sn) \<and> (r = Ok () \<or> (\<exists>err. r = Err err))"
proof -
  let ?rec = "\<lparr>wal_tx_id = tx, wal_snapshot = sn\<rparr>"
  have sc: "record_codec_ok c" "json_codec_ok c" using ok by (auto simp: codec_ok_def)
  have same: "wal_content c e d' = wal_content c e d" if "files d' = files d"
    using that by (simp add: wal_content_def)
  have torn: "wal_content c e d' = Ok None \<or> (\<exists>err. wal_content c e d' = Err err)"
    if "fmlookup (files d') (wal_file e) = Some (take k (wal_image pl))" "int (length pl) < 2 ^ 63"
      "k < length (wal_image pl)" for k pl
    using decode_wal_torn [OF sc(2) that(2,3)] that(1) by (simp add: wal_content_def)
  show ?thesis
  proof (cases "bincode_ser_record c ?rec")
    case (Ok pl)
    then have len: "int (length pl) < 2 ^ 63" using sc(1) by (auto simp: record_codec_ok_def)
    have full: "wal_content c e d' = Ok (Some sn)"
      if "fmlookup (files d') (wal_file e) = Some (take k (wal_image pl))" "k = length (wal_image pl)" for k
      using decode_wal_image [OF sc(1) Ok] that by (simp add: wal_content_def)
    from append_wal_effect [OF app, of True pl] Ok show ?thesis
      using same torn [OF _ len] full by (auto simp: le_less)
  next
    case (Err x)
    have "(6::nat) < length (wal_image [])" by (simp add: wal_image_def wal_header_facts(1))
    with append_wal_effect [OF app, of False "[]" x] Err show ?thesis
      using same torn [of _ "[]"] by fastforce
  qed (use sc(1) in \<open>auto simp: record_codec_ok_def\<close>)
qed

lemma storable_snapshot_of: "persist_snapshot_from_struct c e (snapshot_of g) d = (d', Ok ()) \<Longrightarrow> storable c (snapshot_of g)"
  by (auto simp: storable_def snapshot_of_def persist_snapshot_from_struct_def op_then_Ok)

text \<open>
  After a commit that was interrupted anywhere: the log is damaged and the database file still
  holds the old graph, or the disk holds the old graph, or it holds the new one.
\<close>

lemma persist_after_wal_outcomes:
  assumes ok: "codec_ok c" "distinct_paths e"
    and old: "recoverable c e d g0" "db_content c e d = Some g0"
    and run: "persist_after_wal c e tx g d = (d', r)"
  shows "(r = Ok () \<longrightarrow> recoverable c e d' g \<and> db_content c e d' = Some g) \<and>
    (recoverable c e d' g \<or> recoverable c e d' g0 \<or>
     db_content c e d' = Some g0 \<and>
       ((\<exists>err. wal_content c e d' = Err err) \<or>
        (wal_content c e d' = Ok (Some (snapshot_of g)) \<and> \<not> storable c (snapshot_of g))))"
proof -
  let ?sn = "snapshot_of g"
  have sc: "snapshot_codec_ok c" using ok(1) by (auto simp: codec_ok_def)
  have dw: "db_file e \<noteq> wal_file e" using ok(2) by (auto simp: distinct_paths_def)
  obtain d1 r1 where app: "append_wal c e tx ?sn d = (d1, r1)" by fastforce
  have dbc1: "db_content c e d1 = Some g0"
    using only_changesD [OF only_changes_wal app dw] old(2) by (simp add: db_content_def)
  consider (fail) err where "r1 = Err err" "d' = d1" "r = Err err" | (wrote) "r1 = Ok ()"
      "persist_snapshot_from_struct c e ?sn d1 = (d', r)"
    using run append_wal_outcome [OF ok(1) app] by (auto simp: persist_after_wal_def op_then_def app)
  then show ?thesis
  proof cases
    case fail
    from append_wal_outcome [OF ok(1) app] show ?thesis
    proof (elim disjE conjE)
      assume "wal_content c e d1 = wal_content c e d"
      then have "recoverable c e d1 g0" using old dbc1 unfolding recoverable_def by metis
      with fail show ?thesis by simp
    next
      assume "wal_content c e d1 = Ok None"
      with dbc1 have "recoverable c e d1 g0" by (simp add: recoverable_wal)
      with fail show ?thesis by simp
    next
      assume "\<exists>err. wal_content c e d1 = Err err"
      with fail dbc1 show ?thesis by auto
    next
      assume "wal_content c e d1 = Ok (Some ?sn)"
      with fail dbc1 show ?thesis by (auto simp: recoverable_wal snapshot_of_def)
    qed (use fail dbc1 in \<open>auto simp: recoverable_wal snapshot_of_def\<close>)
  next
    case wrote
    then have w: "wal_content c e d1 = Ok (Some ?sn)" using append_wal_outcome [OF ok(1) app] by auto
    have w': "wal_content c e d' = Ok (Some ?sn)"
      using only_changesD [OF only_changes_persist wrote(2), of "wal_file e"] dw w
      by (auto simp: wal_content_def)
    show ?thesis
    proof (cases "storable c ?sn")
      case True
      from persist_snapshot_effect [OF sc True, of e d1] wrote(2) w' True show ?thesis
        by (auto simp: recoverable_wal snapshot_of_def)
    next
      case False
      from persist_unstorable [OF sc False, of e d1] wrote(2) dbc1 w' False show ?thesis
        by (auto simp: snapshot_of_def)
    qed
  qed
qed
section \<open>The audit log\<close>

text \<open>The text of the log after the given lines were appended, each with its line feed.\<close>

definition log_text :: "string list \<Rightarrow> string" where
  "log_text ls = concat (map (\<lambda>l. l @ [CHR 0x0A]) ls)"

lemma split_char_log_text:
  "list_all (\<lambda>l. CHR 0x0A \<notin> set l) ls \<Longrightarrow> split_char (CHR 0x0A) (log_text ls) = ls @ [[]]"
  by (induction ls) (auto simp: log_text_def split_char_first)

definition is_event_line :: "string \<Rightarrow> bool" where
  "is_event_line l \<longleftrightarrow> CHR 0x0A \<notin> set l \<and> utf8_error 0 l = None \<and>
     l \<noteq> [] \<and> hd l = CHR ''{'' \<and> last l = CHR ''}''"

lemma strip_cr_event: "is_event_line l \<Longrightarrow> strip_cr l = l"
  by (auto simp: strip_cr_def is_event_line_def split: option.splits)

lemma trim_event: "is_event_line l \<Longrightarrow> trim l = l"
proof (rule trim_visible)
  have "visible CHR ''{''" "visible CHR ''}''" by (simp_all add: visible_def less_eq_char_def)
  then show "is_event_line l \<Longrightarrow> visible (hd l)" "is_event_line l \<Longrightarrow> visible (last l)"
    by (simp_all add: is_event_line_def)
qed (simp add: is_event_line_def)

lemma lines_log_text: "list_all is_event_line ls \<Longrightarrow> str_lines (log_text ls) = ls"
proof -
  assume ls: "list_all is_event_line ls"
  then have "split_char (CHR 0x0A) (log_text ls) = ls @ [[]]"
    by (intro split_char_log_text) (auto simp: list_all_iff is_event_line_def)
  moreover have "map strip_cr ls = ls"
    using ls by (auto simp: list_all_iff strip_cr_event intro: map_idI)
  ultimately show ?thesis by (simp add: str_lines_def Let_def)
qed

lemma utf8_log_text: "list_all is_event_line ls \<Longrightarrow> utf8_error 0 (log_text ls) = None"
proof (induction ls)
  case (Cons l ls)
  then have l: "utf8_error 0 l = None" and ih: "utf8_error 0 (log_text ls) = None"
    by (simp_all add: is_event_line_def)
  have "utf8_error 0 ([CHR 0x0A] @ log_text ls) = None \<longleftrightarrow> utf8_error 0 (log_text ls) = None"
    by (rule utf8_error_append [of 0]) (rule utf8_error_ascii, simp add: less_char_def)
  with ih utf8_error_append [OF l, of 0 "CHR 0x0A # log_text ls" 0] show ?case
    by (simp add: log_text_def)
qed (simp add: log_text_def)

definition audit_log_holds :: "codec \<Rightarrow> storage_engine \<Rightarrow> fs \<Rightarrow> audit_event list \<Rightarrow> bool" where
  "audit_log_holds c e d evs \<longleftrightarrow>
     (\<exists>ls. list_all2 (\<lambda>ev l. json_ser_event c ev = Ok l) evs ls \<and>
        (case fmlookup (files d) (audit_file e) of None \<Rightarrow> ls = [] | Some x \<Rightarrow> x = log_text ls))"

lemma audit_lines_events:
  assumes "json_codec_ok c" "list_all2 (\<lambda>ev l. json_ser_event c ev = Ok l) evs ls"
  shows "audit_lines c ls = Ok evs \<and> list_all is_event_line ls"
  using assms(2)
proof (induction rule: list_all2_induct)
  case (Cons ev evs l ls)
  then have "json_de_event c l = Ok ev" "is_event_line l"
    using assms(1) by (auto simp: json_codec_ok_def is_event_line_def)
  moreover then have "trim l \<noteq> []" by (simp add: trim_event) (simp add: is_event_line_def)
  ultimately show ?case using Cons by simp
qed simp

lemma load_audit_holds:
  assumes "json_codec_ok c" "audit_log_holds c e d evs" "faults d = []"
  shows "\<exists>d'. load_audit_events c e d = (d', Ok evs)"
proof -
  from assms(2) obtain ls where ls: "list_all2 (\<lambda>ev l. json_ser_event c ev = Ok l) evs ls"
    and f: "case fmlookup (files d) (audit_file e) of None \<Rightarrow> ls = [] | Some x \<Rightarrow> x = log_text ls"
    by (auto simp: audit_log_holds_def)
  note a = audit_lines_events [OF assms(1) ls]
  show ?thesis
  proof (cases "fmlookup (files d) (audit_file e)")
    case None
    with f ls show ?thesis by (simp add: load_audit_events_def file_exists_def)
  next
    case (Some x)
    with f a assms(3) show ?thesis
      by (simp add: load_audit_events_def file_exists_def read_file_def op_then_def op_err_def
          utf8_log_text lines_log_text)
  qed
qed

lemma append_audit_holds:
  assumes "json_codec_ok c" "audit_log_holds c e d evs" "append_audit_event c e ev d = (d', Ok ())"
  shows "audit_log_holds c e d' (evs @ [ev])"
proof -
  from assms(2) obtain ls where ls: "list_all2 (\<lambda>ev l. json_ser_event c ev = Ok l) evs ls"
    and f: "case fmlookup (files d) (audit_file e) of None \<Rightarrow> ls = [] | Some x \<Rightarrow> x = log_text ls"
    by (auto simp: audit_log_holds_def)
  from assms(3) obtain d1 pl d2 where o: "open_append (audit_file e) d = (d1, Ok ())"
    and pl: "json_ser_event c ev = Ok pl" and w: "write_all (audit_file e) pl d1 = (d2, Ok ())"
    "write_all (audit_file e) [CHR 0x0A] d2 = (d', Ok ())"
    by (auto simp: append_audit_event_def op_then_Ok op_err_Ok map_err_def split: outcome.splits)
  have "fmlookup (files d1) (audit_file e) = Some (log_text ls)"
    using o f by (auto simp: open_append_def file_exists_def log_text_def split: fault.splits option.splits if_splits)
  then have "fmlookup (files d') (audit_file e) = Some (log_text (ls @ [pl]))"
    using w by (auto simp: write_all_def Let_def log_text_def split: fault.splits)
  moreover have "list_all2 (\<lambda>ev l. json_ser_event c ev = Ok l) (evs @ [ev]) (ls @ [pl])"
    using ls pl by (simp add: list_all2_appendI)
  ultimately show ?thesis by (auto simp: audit_log_holds_def)
qed

section \<open>The contract with the transaction manager\<close>

text \<open>Any sequence of audit records and recoveries, with any faults.\<close>

definition upkeep ::
  "(audit_event \<Rightarrow> unit io) \<Rightarrow> store io \<Rightarrow> audit_event option list \<Rightarrow> fs \<Rightarrow> fs"
where
  "upkeep audit rec acts d =
     foldl (\<lambda>d a. case a of Some ev \<Rightarrow> fst (audit ev d) | None \<Rightarrow> fst (rec d)) d acts"

text \<open>
  What a client may rely on: a graph that was made durable is held, a held graph survives audit
  records and attempts to recover, whatever faults they meet, and recovery returns what is held.
\<close>

locale durable_store =
  fixes good :: bool
    and holds :: "fs \<Rightarrow> store \<Rightarrow> bool"
    and persist :: "string \<Rightarrow> store \<Rightarrow> unit io"
    and audit :: "audit_event \<Rightarrow> unit io"
    and rec :: "store io"
  assumes holds_faults: "holds d g \<Longrightarrow> holds (d\<lparr>faults := fl\<rparr>) g"
    and persist_holds: "good \<Longrightarrow> persist tx g d = (d', Ok ()) \<Longrightarrow> holds d' g"
    and audit_holds: "good \<Longrightarrow> holds d g \<Longrightarrow> holds (fst (audit ev d)) g"
    and rec_holds: "good \<Longrightarrow> holds d g \<Longrightarrow> holds (fst (rec d)) g"
    and rec_sound: "good \<Longrightarrow> holds d g \<Longrightarrow> rec d = (d', Ok g') \<Longrightarrow> g' = g"
    and rec_total: "good \<Longrightarrow> holds d g \<Longrightarrow> faults d = [] \<Longrightarrow> snd (rec d) = Ok g"
begin

lemma upkeep_holds: "good \<Longrightarrow> holds d g \<Longrightarrow> holds (upkeep audit rec acts d) g"
proof (induction acts arbitrary: d)
  case (Cons a acts)
  then show ?case
    by (cases a) (auto simp: upkeep_def intro: audit_holds rec_holds)
qed (simp add: upkeep_def)

lemma persist_upkeep_rec:
  assumes good "persist tx g d = (d', Ok ())"
  shows "snd (rec ((upkeep audit rec acts d')\<lparr>faults := []\<rparr>)) = Ok g"
  by (rule rec_total [OF assms(1)])
    (simp_all add: holds_faults upkeep_holds [OF assms(1)] persist_holds [OF assms])

end

lemma recoverable_faults: "recoverable c e (d\<lparr>faults := fl\<rparr>) g \<longleftrightarrow> recoverable c e d g"
  using recoverable_frame [of c e d g "d\<lparr>faults := fl\<rparr>"] recoverable_frame [of c e "d\<lparr>faults := fl\<rparr>" g d]
  by auto

lemma persist_after_wal_recoverable:
  assumes "codec_ok c" "distinct_paths e" "persist_after_wal c e tx g d = (d', Ok ())"
  shows "recoverable c e d' g" "db_content c e d' = Some g"
proof -
  from assms(3) obtain d1 where app: "append_wal c e tx (snapshot_of g) d = (d1, Ok ())"
    and p: "persist_snapshot_from_struct c e (snapshot_of g) d1 = (d', Ok ())"
    by (auto simp: persist_after_wal_def op_then_Ok)
  have w: "wal_content c e d1 = Ok (Some (snapshot_of g))"
    using append_wal_outcome [OF assms(1) app] by auto
  have "wal_content c e d' = Ok (Some (snapshot_of g))"
    using only_changesD [OF only_changes_persist p, of "wal_file e"] assms(2) w
    by (auto simp: wal_content_def distinct_paths_def)
  then show "recoverable c e d' g"
    using storable_snapshot_of [OF p] by (simp add: recoverable_wal snapshot_of_def)
  show "db_content c e d' = Some g"
    using persist_snapshot_effect [OF _ storable_snapshot_of [OF p], of e d1] assms(1) p
    by (auto simp: codec_ok_def snapshot_of_def)
qed

interpretation disk: durable_store
  "codec_ok c \<and> distinct_paths e" "recoverable c e" "persist_after_wal c e"
  "append_audit_event c e" "recover c e" for c e
proof
  fix d g fl
  assume "recoverable c e d g"
  then show "recoverable c e (d\<lparr>faults := fl\<rparr>) g" by (simp add: recoverable_faults)
next
  fix tx g d d'
  assume "codec_ok c \<and> distinct_paths e" "persist_after_wal c e tx g d = (d', Ok ())"
  then show "recoverable c e d' g" using persist_after_wal_recoverable by blast
next
  fix d g ev
  assume g: "codec_ok c \<and> distinct_paths e" and h: "recoverable c e d g"
  obtain d' r where a: "append_audit_event c e ev d = (d', r)" by fastforce
  have "recoverable c e d' g"
    using g only_changesD [OF only_changes_audit a] recoverable_frame [OF h, of d']
    by (auto simp: distinct_paths_def)
  with a show "recoverable c e (fst (append_audit_event c e ev d)) g" by simp
next
  fix d g
  assume "codec_ok c \<and> distinct_paths e" "recoverable c e d g"
  then show "recoverable c e (fst (recover c e d)) g"
    using recover_recoverable [of c e d g] by (auto simp: codec_ok_def)
next
  fix d g d' g'
  assume "codec_ok c \<and> distinct_paths e" "recoverable c e d g" "recover c e d = (d', Ok g')"
  then show "g' = g" using recover_recoverable [of c e d g] by (auto simp: codec_ok_def)
next
  fix d :: fs and g
  assume "codec_ok c \<and> distinct_paths e" "recoverable c e d g" "faults d = []"
  then show "snd (recover c e d) = Ok g"
    using recover_recoverable [of c e d g] by (auto simp: codec_ok_def)
qed

section \<open>Paths of an engine\<close>

lemma with_extension_ends:
  assumes "file_name p \<noteq> []" "file_name p \<noteq> ''.''" "file_name p \<noteq> ''..''"
  shows "ends_with (with_extension p ext) (CHR ''.'' # ext)"
  using assms by (auto simp: with_extension_def Let_def ends_with_iff)

lemma new_engine_distinct:
  assumes "file_name p \<noteq> []" "file_name p \<noteq> ''.''" "file_name p \<noteq> ''..''"
    and "\<not> ends_with p ''.wal''" "\<not> ends_with p ''.audit.log''"
  shows "distinct_paths (new_engine p)"
proof -
  have w: "ends_with (with_extension p ''wal'') ''.wal''"
    and a: "ends_with (with_extension p ''audit.log'') ''.audit.log''"
    using with_extension_ends [OF assms(1-3)] by auto
  have "\<not> ends_with s ''.wal'' \<or> \<not> ends_with s ''.audit.log''" for s
    by (auto simp: ends_with_def starts_with_iff)
  with w a assms(4,5) show ?thesis
    by (auto simp: distinct_paths_def new_engine_def)
qed

end
