(* ===== verification/Tx.thy ===== *)
theory Tx
  imports Storage_Correct Query_Syntax
begin

text \<open>
  The transaction manager of \<^verbatim>\<open>tx.rs\<close>: sessions on private copies of the committed graph,
  optimistic commit by version, rollback, recovery and the audit records they leave.
\<close>

section \<open>State\<close>

record tx_session =
  tx_graph :: store
  base_version :: "64 word"

record tx_manager =
  storage :: storage_engine
  base_graph :: store
  sessions :: "(string, tx_session) fmap"
  tx_seq :: "64 word"
  graph_version :: "64 word"

section \<open>Operations\<close>

text \<open>Each operation works on the manager and the file system and returns both with its result.\<close>

definition new_manager :: "codec \<Rightarrow> storage_engine \<Rightarrow> tx_manager io" where
  "new_manager c e =
     op_then (load_or_init c e) (\<lambda>g. lift_op (Ok
       \<lparr>storage = e, base_graph = g, sessions = fmempty, tx_seq = 0, graph_version = 0\<rparr>))"

definition begin_tx :: "tx_manager \<Rightarrow> tx_manager \<times> string" where
  "begin_tx m =
     (let seq = tx_seq m + 1; tx = ''tx-'' @ show_nat (unat seq) in
      (m\<lparr>tx_seq := seq,
         sessions := fmupd tx \<lparr>tx_graph = base_graph m, base_version = graph_version m\<rparr> (sessions m)\<rparr>,
       tx))"

definition unknown_tx :: "string \<Rightarrow> graph_db_error" where
  "unknown_tx tx = new_error RetryableConflict (''unknown transaction: '' @ tx)"

definition conflict_tx :: "string \<Rightarrow> graph_db_error" where
  "conflict_tx tx = new_error RetryableConflict (''deterministic conflict for tx_id='' @ tx)"

text \<open>\<^verbatim>\<open>graph_mut\<close> hands out the session's graph; the caller's function works on it.\<close>

definition graph_mut ::
  "tx_manager \<Rightarrow> string \<Rightarrow> (store \<Rightarrow> store \<times> 'a db_result) \<Rightarrow> tx_manager \<times> 'a db_result"
where
  "graph_mut m tx f =
     (case fmlookup (sessions m) tx of
        None \<Rightarrow> (m, Err (unknown_tx tx))
      | Some s \<Rightarrow>
          (let (g, r) = f (tx_graph s)
           in (m\<lparr>sessions := fmupd tx (s\<lparr>tx_graph := g\<rparr>) (sessions m)\<rparr>, r)))"

definition record_audit_event ::
  "codec \<Rightarrow> tx_manager \<Rightarrow> string \<Rightarrow> string option \<Rightarrow> string \<Rightarrow> string option \<Rightarrow>
     (string, string) fmap \<Rightarrow> unit io"
where
  "record_audit_event c m ty code msg tx pl =
     op_then read_clock (\<lambda>t. append_audit_event c (storage m)
       \<lparr>event_type = ty, ae_code = code, ae_message = msg, ae_tx_id = tx, payload = pl,
        timestamp_epoch_ms = t\<rparr>)"

text \<open>An audit record whose failure is ignored, then the given error.\<close>

definition audit_then_fail ::
  "codec \<Rightarrow> tx_manager \<Rightarrow> string \<Rightarrow> graph_db_error \<Rightarrow> string \<Rightarrow> unit io"
where
  "audit_then_fail c m ty err tx =
     op_then (op_ignore (record_audit_event c m ty (Some (as_str (err_code err))) (err_message err)
       (Some tx) fmempty)) (\<lambda>_. lift_op (Err err))"

definition commit :: "codec \<Rightarrow> tx_manager \<Rightarrow> string \<Rightarrow> fs \<Rightarrow> tx_manager \<times> fs \<times> unit db_result" where
  "commit c m tx d =
     (case fmlookup (sessions m) tx of
        None \<Rightarrow> (m, audit_then_fail c m ''DETERMINISTIC_CONFLICT'' (unknown_tx tx) tx d)
      | Some s \<Rightarrow>
          (let m1 = m\<lparr>sessions := fmdrop tx (sessions m)\<rparr> in
           if base_version s \<noteq> graph_version m then
             (m1, audit_then_fail c m1 ''DETERMINISTIC_CONFLICT'' (conflict_tx tx) tx d)
           else
             (case persist_after_wal c (storage m) tx (tx_graph s) d of
                (d', Ok _) \<Rightarrow>
                  (m1\<lparr>base_graph := tx_graph s, graph_version := graph_version m + 1\<rparr>, d', Ok ())
              | (d', Err e) \<Rightarrow> (m1, d', Err e)
              | (d', Panic) \<Rightarrow> (m1, d', Panic))))"

definition rollback :: "codec \<Rightarrow> tx_manager \<Rightarrow> string \<Rightarrow> fs \<Rightarrow> tx_manager \<times> fs \<times> unit db_result" where
  "rollback c m tx d =
     (case fmlookup (sessions m) tx of
        None \<Rightarrow> (m, d, Err (unknown_tx tx))
      | Some s \<Rightarrow>
          (let m1 = m\<lparr>sessions := fmdrop tx (sessions m)\<rparr>
           in (m1, op_ignore (record_audit_event c m1 ''ROLLBACK_EXECUTED'' None
                  ''transaction rollback executed'' (Some tx) fmempty) d)))"

definition current_graph :: "tx_manager \<Rightarrow> store" where
  "current_graph m = base_graph m"

definition recover_manager :: "codec \<Rightarrow> tx_manager \<Rightarrow> fs \<Rightarrow> tx_manager \<times> fs \<times> unit db_result" where
  "recover_manager c m d =
     (case recover c (storage m) d of
        (d', Ok g) \<Rightarrow>
          (m\<lparr>base_graph := g, sessions := fmempty, graph_version := graph_version m + 1\<rparr>, d', Ok ())
      | (d', Err e) \<Rightarrow> (m, d', Err e)
      | (d', Panic) \<Rightarrow> (m, d', Panic))"

definition audit_events :: "codec \<Rightarrow> tx_manager \<Rightarrow> (audit_event list) io" where
  "audit_events c m = load_audit_events c (storage m)"

section \<open>Facts about single operations\<close>

lemma audit_then_fail_result:
  "\<exists>d'. audit_then_fail c m ty err tx d = (d', Err err) \<or> audit_then_fail c m ty err tx d = (d', Panic)"
  by (auto simp: audit_then_fail_def op_then_def op_ignore_def split: prod.splits outcome.splits)

lemma commit_Ok:
  "commit c m tx d = (m', d', Ok ()) \<longleftrightarrow>
     (\<exists>s. fmlookup (sessions m) tx = Some s \<and> base_version s = graph_version m \<and>
        persist_after_wal c (storage m) tx (tx_graph s) d = (d', Ok ()) \<and>
        m' = m\<lparr>sessions := fmdrop tx (sessions m), base_graph := tx_graph s,
               graph_version := graph_version m + 1\<rparr>)"
  using audit_then_fail_result [of c m "''DETERMINISTIC_CONFLICT''" "unknown_tx tx" tx d]
    audit_then_fail_result [of c "m\<lparr>sessions := fmdrop tx (sessions m)\<rparr>" "''DETERMINISTIC_CONFLICT''"
      "conflict_tx tx" tx d]
  by (auto simp: commit_def Let_def split: option.splits prod.splits outcome.splits if_splits)

lemma commit_not_Ok:
  assumes "commit c m tx d = (m', d', r)" "r \<noteq> Ok ()"
  shows "m' = m\<lparr>sessions := fmdrop tx (sessions m)\<rparr>"
proof -
  have "fmdrop tx (sessions m) = sessions m" if "fmlookup (sessions m) tx = None"
    using that by (auto intro: fmap_ext)
  with assms show ?thesis
    by (auto simp: commit_def Let_def split: option.splits prod.splits outcome.splits if_splits)
qed

lemma rollback_manager:
  assumes "rollback c m tx d = (m', d', r)"
  shows "m' = m\<lparr>sessions := fmdrop tx (sessions m)\<rparr>"
proof -
  have "fmdrop tx (sessions m) = sessions m" if "fmlookup (sessions m) tx = None"
    using that by (auto intro: fmap_ext)
  with assms show ?thesis by (auto simp: rollback_def Let_def split: option.splits)
qed

section \<open>Executions\<close>

text \<open>
  Executions of the manager, with a record of the updates each open transaction has made and of
  the updates committed so far, in commit order. A commit needs a version counter that does not
  wrap. The clock may be read or set by others at any time.
\<close>

type_synonym updates = "(store \<Rightarrow> store) list"

definition run_updates :: "updates \<Rightarrow> store \<Rightarrow> store" where
  "run_updates us g = foldl (\<lambda>g u. u g) g us"

record tx_state =
  mgr :: tx_manager
  disk_of :: fs
  pending :: "string \<Rightarrow> updates"
  committed :: updates

inductive tx_step :: "codec \<Rightarrow> tx_state \<Rightarrow> tx_state \<Rightarrow> bool" for c :: codec where
  begin_step: "begin_tx (mgr st) = (m', tx) \<Longrightarrow>
     tx_step c st (st\<lparr>mgr := m', pending := (pending st)(tx := [])\<rparr>)"
| update_step: "fmlookup (sessions (mgr st)) tx = Some s \<Longrightarrow>
     graph_mut (mgr st) tx f = (m', r :: query_result db_result) \<Longrightarrow>
     tx_step c st (st\<lparr>mgr := m', pending := (pending st)(tx := pending st tx @ [\<lambda>g. fst (f g)])\<rparr>)"
| commit_step: "commit c (mgr st) tx (disk_of st) = (m', d', Ok ()) \<Longrightarrow>
     graph_version (mgr st) + 1 \<noteq> 0 \<Longrightarrow>
     tx_step c st (st\<lparr>mgr := m', disk_of := d', committed := committed st @ pending st tx\<rparr>)"
| conflict_step: "commit c (mgr st) tx (disk_of st) = (m', d', Err e) \<Longrightarrow>
     err_code e = RetryableConflict \<Longrightarrow>
     tx_step c st (st\<lparr>mgr := m', disk_of := d'\<rparr>)"
| rollback_step: "rollback c (mgr st) tx (disk_of st) = (m', d', r) \<Longrightarrow>
     tx_step c st (st\<lparr>mgr := m', disk_of := d'\<rparr>)"
| audit_step: "record_audit_event c (mgr st) ty code msg tx pl (disk_of st) = (d', r) \<Longrightarrow>
     tx_step c st (st\<lparr>disk_of := d'\<rparr>)"
| time_step: "tx_step c st (st\<lparr>disk_of := (disk_of st)\<lparr>ticks := ts\<rparr>\<rparr>)"

abbreviation tx_reachable :: "codec \<Rightarrow> tx_state \<Rightarrow> tx_state \<Rightarrow> bool" where
  "tx_reachable c \<equiv> (tx_step c)\<^sup>*\<^sup>*"

text \<open>
  Sessions of the current version have been computed from the committed graph, and no session
  is of a later version.
\<close>

definition tx_inv :: "store \<Rightarrow> tx_state \<Rightarrow> bool" where
  "tx_inv g0 st \<longleftrightarrow>
     base_graph (mgr st) = run_updates (committed st) g0 \<and>
     (\<forall>tx s. fmlookup (sessions (mgr st)) tx = Some s \<longrightarrow>
        unat (base_version s) \<le> unat (graph_version (mgr st)) \<and>
        (base_version s = graph_version (mgr st) \<longrightarrow>
           tx_graph s = run_updates (pending st tx) (base_graph (mgr st))))"

lemma run_updates_simps [simp]:
  "run_updates [] g = g" "run_updates (us @ vs) g = run_updates vs (run_updates us g)"
  "run_updates [u] g = u g"
  by (simp_all add: run_updates_def)

lemma unat_succ: "(w::64 word) + 1 \<noteq> 0 \<Longrightarrow> unat (w + 1) = unat w + 1"
  by (metis Suc_eq_plus1 add.commute unatSuc)

lemma tx_inv_drop:
  "tx_inv g0 st \<Longrightarrow> m' = (mgr st)\<lparr>sessions := fmdrop tx (sessions (mgr st))\<rparr> \<Longrightarrow>
     tx_inv g0 (st\<lparr>mgr := m', disk_of := d'\<rparr>)"
  by (auto simp: tx_inv_def split: if_splits)

lemma tx_step_inv:
  assumes "tx_step c st st'" "tx_inv g0 st"
  shows "tx_inv g0 st'"
  using assms(1)
proof cases
  case (begin_step m' tx)
  then show ?thesis using assms(2) by (auto simp: tx_inv_def begin_tx_def Let_def)
next
  case (update_step tx s f m' r)
  then show ?thesis using assms(2)
    by (auto simp: tx_inv_def graph_mut_def split: prod.splits)
next
  case (commit_step tx m' d')
  then obtain s where s: "fmlookup (sessions (mgr st)) tx = Some s"
    "base_version s = graph_version (mgr st)"
    "m' = (mgr st)\<lparr>sessions := fmdrop tx (sessions (mgr st)), base_graph := tx_graph s,
               graph_version := graph_version (mgr st) + 1\<rparr>" by (auto simp: commit_Ok)
  have later: "base_version s' \<noteq> graph_version (mgr st) + 1 \<and>
      unat (base_version s') \<le> unat (graph_version (mgr st) + 1)"
    if "fmlookup (sessions (mgr st)) tx' = Some s'" for tx' s'
    using assms(2) that unat_succ [OF commit_step(3)] by (fastforce simp: tx_inv_def)
  have base: "base_graph m' = run_updates (committed st @ pending st tx) g0"
    using assms(2) s by (simp add: tx_inv_def)
  have "fmlookup (sessions (mgr st)) tx' = Some s'" if "fmlookup (sessions m') tx' = Some s'" for tx' s'
    using that s(3) by (simp split: if_splits)
  moreover have "graph_version m' = graph_version (mgr st) + 1" using s(3) by simp
  ultimately have "\<forall>tx' s'. fmlookup (sessions m') tx' = Some s' \<longrightarrow>
      unat (base_version s') \<le> unat (graph_version m') \<and> base_version s' \<noteq> graph_version m'"
    using later by metis
  with base commit_step(1) show ?thesis by (simp add: tx_inv_def)
next
  case (conflict_step tx m' d' e)
  have "m' = (mgr st)\<lparr>sessions := fmdrop tx (sessions (mgr st))\<rparr>"
    by (rule commit_not_Ok [OF conflict_step(2)]) simp
  then show ?thesis unfolding conflict_step(1) by (rule tx_inv_drop [OF assms(2)])
next
  case (rollback_step tx m' d' r)
  show ?thesis unfolding rollback_step(1)
    by (rule tx_inv_drop [OF assms(2) rollback_manager [OF rollback_step(2)]])
next
  case (audit_step ty code msg tx pl d' r)
  with assms(2) show ?thesis by (simp add: tx_inv_def)
next
  case (time_step ts)
  with assms(2) show ?thesis by (simp add: tx_inv_def)
qed

lemma tx_reachable_inv: "tx_reachable c st st' \<Longrightarrow> tx_inv g0 st \<Longrightarrow> tx_inv g0 st'"
  by (induction rule: rtranclp_induct) (auto intro: tx_step_inv)

text \<open>
  The executions with everything that can go wrong: a commit may fail for any reason or panic, and the file
  system may begin or cease to fail at any time.
\<close>

inductive tx_exec :: "codec \<Rightarrow> tx_state \<Rightarrow> tx_state \<Rightarrow> bool" for c :: codec where
  exec_step: "tx_step c st st' \<Longrightarrow> tx_exec c st st'"
| exec_failed: "commit c (mgr st) tx (disk_of st) = (m', d', r) \<Longrightarrow> r \<noteq> Ok () \<Longrightarrow>
     tx_exec c st (st\<lparr>mgr := m', disk_of := d'\<rparr>)"
| exec_faults: "tx_exec c st (st\<lparr>disk_of := (disk_of st)\<lparr>faults := fl\<rparr>\<rparr>)"

abbreviation tx_runs :: "codec \<Rightarrow> tx_state \<Rightarrow> tx_state \<Rightarrow> bool" where
  "tx_runs c \<equiv> (tx_exec c)\<^sup>*\<^sup>*"

lemma tx_exec_inv: "tx_exec c st st' \<Longrightarrow> tx_inv g0 st \<Longrightarrow> tx_inv g0 st'"
proof (induction rule: tx_exec.induct)
  case (exec_failed st tx m' d' r)
  from commit_not_Ok [OF exec_failed.hyps] show ?case by (rule tx_inv_drop [OF exec_failed.prems])
next
  case (exec_faults st fl)
  then show ?case by (simp add: tx_inv_def)
qed (rule tx_step_inv)

lemma tx_runs_inv: "tx_runs c st st' \<Longrightarrow> tx_inv g0 st \<Longrightarrow> tx_inv g0 st'"
  by (induction rule: rtranclp_induct) (auto intro: tx_exec_inv)

text \<open>The version never decreases, and the engine stays.\<close>

lemma tx_step_version:
  "tx_step c st st' \<Longrightarrow> unat (graph_version (mgr st)) \<le> unat (graph_version (mgr st')) \<and> storage (mgr st') = storage (mgr st)"
proof (induction rule: tx_step.induct)
  case (commit_step st tx m' d')
  then show ?case by (auto simp: commit_Ok unat_succ)
next
  case (conflict_step st tx m' d' e)
  from commit_not_Ok [OF conflict_step(1)] show ?case by simp
next
  case (rollback_step st tx m' d' r)
  from rollback_manager [OF this] show ?case by simp
qed (auto simp: begin_tx_def graph_mut_def Let_def split: option.splits prod.splits)

lemma tx_runs_version:
  "tx_runs c st st' \<Longrightarrow> unat (graph_version (mgr st)) \<le> unat (graph_version (mgr st')) \<and> storage (mgr st') = storage (mgr st)"
proof (induction rule: rtranclp_induct)
  case (step st1 st2)
  have "unat (graph_version (mgr st1)) \<le> unat (graph_version (mgr st2)) \<and> storage (mgr st2) = storage (mgr st1)"
    using step.hyps(2)
  proof cases
    case (exec_failed tx m' d' r)
    from commit_not_Ok [OF exec_failed(2,3)] exec_failed(1) show ?thesis by simp
  qed (auto dest: tx_step_version)
  with step.IH show ?case by simp
qed simp

end
