(* ===== verification/Storage_Properties.thy ===== *)
theory Storage_Properties
  imports Storage_Correct
begin

text \<open>
  The properties of the storage engine, with a codec that satisfies the hypotheses about the
  serializers.
\<close>

section \<open>A codec\<close>

text \<open>
  A codec for two snapshots, of the empty graph and of a graph with one node, and for one audit
  event; it refuses everything else.
\<close>

definition sample_graph :: store where
  "sample_graph = fst (create_node new_store [''A''] fmempty)"

definition sample_event :: audit_event where
  "sample_event = \<lparr>event_type = ''ROLLBACK_EXECUTED'', ae_code = None, ae_message = [],
     ae_tx_id = Some ''tx-1'', payload = fmempty, timestamp_epoch_ms = 0\<rparr>"

definition sample_ser :: "persisted_snapshot \<Rightarrow> (string, string) outcome" where
  "sample_ser sn =
     (if sn = snapshot_of new_store then Ok ''0''
      else if sn = snapshot_of sample_graph then Ok ''1''
      else Err ''unsupported'')"

definition sample_de :: "string \<Rightarrow> (persisted_snapshot, string) outcome" where
  "sample_de bs =
     (if bs = ''0'' then Ok (snapshot_of new_store)
      else if bs = ''1'' then Ok (snapshot_of sample_graph)
      else Err ''unexpected end of file'')"

definition sample_codec :: codec where
  "sample_codec = \<lparr>
     bincode_ser_snapshot = sample_ser, bincode_de_snapshot = sample_de,
     bincode_ser_record = (\<lambda>r. if length (wal_tx_id r) < 64
        then map_ok (\<lambda>b. b @ wal_tx_id r) (sample_ser (wal_snapshot r)) else Err ''too long''),
     bincode_de_record = (\<lambda>bs. map_ok (\<lambda>sn. \<lparr>wal_tx_id = drop 1 bs, wal_snapshot = sn\<rparr>)
        (sample_de (take 1 bs))),
     json_de_snapshot = (\<lambda>_. Err ''expected value at line 1 column 1''),
     json_de_record = (\<lambda>_. Err ''expected value at line 1 column 1''),
     json_ser_event = (\<lambda>ev. if ev = sample_event then Ok ''{}'' else Err ''unsupported''),
     json_de_event = (\<lambda>s. if s = ''{}'' then Ok sample_event else Err ''unsupported'')\<rparr>"

lemma sample_graph_differs: "snapshot_of sample_graph \<noteq> snapshot_of new_store"
proof
  assume "snapshot_of sample_graph = snapshot_of new_store"
  then have "sample_graph = new_store" by (simp add: snapshot_of_def)
  then have "fmlookup (nodes sample_graph) ''n1'' = fmlookup (nodes new_store) ''n1''" by simp
  moreover have "node_name 1 = ''n1''" by code_simp
  ultimately show False
    by (simp add: sample_graph_def create_node_def new_store_def Let_def)
qed

lemma sample_ser_cases:
  "sample_ser sn = Ok bs \<longleftrightarrow> sn = snapshot_of new_store \<and> bs = ''0'' \<or>
     sn = snapshot_of sample_graph \<and> bs = ''1''"
  using sample_graph_differs by (auto simp: sample_ser_def)

lemma sample_codec_ok: "codec_ok sample_codec"
proof -
  have "snapshot_codec_ok sample_codec"
    by (auto simp: snapshot_codec_ok_def sample_codec_def sample_ser_cases sample_de_def)
      (simp add: sample_ser_def split: if_splits)
  moreover have "record_codec_ok sample_codec"
    unfolding record_codec_ok_def sample_codec_def
    by (auto simp: sample_ser_cases sample_de_def map_ok_def split: if_splits)
      (simp add: sample_ser_def split: if_splits)
  moreover have "utf8_error 0 ''{}'' = None" by code_simp
  then have "json_codec_ok sample_codec"
    by (auto simp: json_codec_ok_def sample_codec_def simp del: utf8_error.simps)
  ultimately show ?thesis by (simp add: codec_ok_def)
qed

definition sample_engine :: storage_engine where
  "sample_engine = new_engine ''data/graph.db''"

lemma sample_engine_paths: "distinct_paths sample_engine"
  unfolding sample_engine_def by (rule new_engine_distinct; code_simp)

definition empty_disk :: fs where
  "empty_disk = \<lparr>files = fmempty, faults = [], ticks = []\<rparr>"

text \<open>The disk after the empty graph was committed.\<close>

definition sample_disk :: fs where
  "sample_disk = fst (persist_after_wal sample_codec sample_engine ''tx-0'' new_store empty_disk)"

lemma sample_ser_simps [simp]:
  "sample_ser (snapshot_of new_store) = Ok ''0''" "sample_ser (snapshot_of sample_graph) = Ok ''1''"
  using sample_graph_differs by (simp_all add: sample_ser_def)

lemma sample_persist:
  assumes "faults d = []" "g = new_store \<or> g = sample_graph" "length tx < 64"
  shows "snd (persist_after_wal sample_codec sample_engine tx g d) = Ok ()"
    and "faults (fst (persist_after_wal sample_codec sample_engine tx g d)) = []"
proof -
  obtain b where b: "sample_ser (snapshot_of g) = Ok b" using assms(2) by auto
  show "snd (persist_after_wal sample_codec sample_engine tx g d) = Ok ()"
    "faults (fst (persist_after_wal sample_codec sample_engine tx g d)) = []"
    using assms(1,3) b
    by (simp_all add: persist_after_wal_def append_wal_def persist_snapshot_from_struct_def
        encode_snapshot_def sample_codec_def map_ok_def fs_ops)
qed

lemma sample_disk_run:
  "persist_after_wal sample_codec sample_engine ''tx-0'' new_store empty_disk = (sample_disk, Ok ())"
  using sample_persist(1) [of empty_disk new_store "''tx-0''"]
  by (simp add: sample_disk_def empty_disk_def prod_eq_iff)

lemma sample_disk_holds:
  "recoverable sample_codec sample_engine sample_disk new_store"
  "db_content sample_codec sample_engine sample_disk = Some new_store"
  using persist_after_wal_recoverable [OF sample_codec_ok sample_engine_paths sample_disk_run] .

lemma sample_disk_faults: "faults sample_disk = []"
  using sample_persist(2) [of empty_disk new_store "''tx-0''"]
  by (simp add: sample_disk_def empty_disk_def)

lemma persist_snapshot_written:
  assumes "persist_snapshot_from_struct c e sn d = (d', Ok ())"
  shows "\<exists>bs. encode_snapshot c sn = Ok bs \<and> fmlookup (files d') (db_file e) = Some bs"
proof -
  from assms obtain bs where "encode_snapshot c sn = Ok bs" "write_file (db_file e) bs d = (d', Ok ())"
    by (auto simp: persist_snapshot_from_struct_def op_then_Ok op_err_Ok)
  then show ?thesis by (cases "next_fault d") (auto simp: write_file_def)
qed

section \<open>Commit and recovery\<close>

text \<open>C20: once a commit has returned success, recovery returns the committed graph, after any
  number of audit records and earlier recoveries that failed in any way.\<close>

theorem commit_is_durable:
  assumes "codec_ok c" "distinct_paths e" "persist_after_wal c e tx g d = (d', Ok ())"
  shows "snd (recover c e
    ((upkeep (append_audit_event c e) (recover c e) acts d')\<lparr>faults := []\<rparr>)) = Ok g"
  using assms by (intro disk.persist_upkeep_rec) auto

theorem commit_is_durable_witness:
  "snd (recover sample_codec sample_engine
    ((upkeep (append_audit_event sample_codec sample_engine) (recover sample_codec sample_engine)
       [Some sample_event, None] sample_disk)\<lparr>faults := []\<rparr>)) = Ok new_store"
  by (rule commit_is_durable [OF sample_codec_ok sample_engine_paths sample_disk_run])

text \<open>C4: a commit may fail or be cut off at any of its file operations, after any number of bytes.
  A recovery afterwards returns the new graph, the old graph, or an error, and in the last case
  the old graph is still in the database file; after a success it returns the new graph.\<close>

theorem commit_crash_safe:
  assumes "codec_ok c" "distinct_paths e"
    and "recoverable c e d g0" "db_content c e d = Some g0"
    and "persist_after_wal c e tx g d = (d', r)" "d2 = d'\<lparr>faults := []\<rparr>"
  shows "(r = Ok () \<longrightarrow> snd (recover c e d2) = Ok g) \<and>
    (snd (recover c e d2) = Ok g \<or> snd (recover c e d2) = Ok g0 \<or>
     (\<exists>err. snd (recover c e d2) = Err err) \<and> snd (load_graph c e d2) = Ok g0)"
proof -
  have sc: "snapshot_codec_ok c" using assms(1) by (simp add: codec_ok_def)
  have rec: "snd (recover c e d2) = Ok h" if "recoverable c e d' h" for h
    using that recover_recoverable [OF sc assms(2), of d2 h] assms(6) by (auto simp: recoverable_faults)
  have load: "snd (load_graph c e d2) = Ok g0" if "db_content c e d' = Some g0"
    using that load_graph_db_content [of c e d2 g0] assms(6) by (auto simp: db_content_def)
  have bad: "\<exists>err. snd (recover c e d2) = Err err"
    if "(\<exists>err. wal_content c e d' = Err err) \<or>
        (wal_content c e d' = Ok (Some (snapshot_of g)) \<and> \<not> storable c (snapshot_of g))"
  proof -
    from that obtain w where w: "fmlookup (files d2) (wal_file e) = Some w"
      "decode_wal c w = wal_content c e d'"
      using assms(6) by (auto simp: wal_content_def split: option.splits)
    have nf: "next_fault d2 = NoFault" using assms(6) by simp
    from that show ?thesis
      using recover_reads_wal [OF w(1) nf, of c] w(2)
        persist_unstorable [OF sc, of "snapshot_of g" e "used_fault d2"]
      by (auto simp: snapshot_of_def)
  qed
  from persist_after_wal_outcomes [OF assms(1-5)] rec load bad show ?thesis by blast
qed

theorem commit_crash_safe_witness:
  "\<exists>d' r. persist_after_wal sample_codec sample_engine ''tx-1'' sample_graph
       (sample_disk\<lparr>faults := [NoFault, NoFault, FailWrite 1 ''disk full'']\<rparr>) = (d', r) \<and>
    (snd (recover sample_codec sample_engine (d'\<lparr>faults := []\<rparr>)) = Ok sample_graph \<or>
     snd (recover sample_codec sample_engine (d'\<lparr>faults := []\<rparr>)) = Ok new_store \<or>
     (\<exists>err. snd (recover sample_codec sample_engine (d'\<lparr>faults := []\<rparr>)) = Err err) \<and>
     snd (load_graph sample_codec sample_engine (d'\<lparr>faults := []\<rparr>)) = Ok new_store)"
proof -
  let ?d = "sample_disk\<lparr>faults := [NoFault, NoFault, FailWrite 1 ''disk full'']\<rparr>"
  obtain d' r where run: "persist_after_wal sample_codec sample_engine ''tx-1'' sample_graph ?d = (d', r)"
    by fastforce
  have "recoverable sample_codec sample_engine ?d new_store"
    "db_content sample_codec sample_engine ?d = Some new_store"
    using sample_disk_holds by (simp_all add: recoverable_faults db_content_def)
  from commit_crash_safe [OF sample_codec_ok sample_engine_paths this run refl] run show ?thesis
    by blast
qed

section \<open>Formats\<close>

text \<open>Of the image of a log record, exactly the complete one yields the record's snapshot; every
  shorter beginning reads as an empty log or as a detected error.\<close>

theorem wal_needs_every_byte:
  assumes "codec_ok c" "bincode_ser_record c \<lparr>wal_tx_id = tx, wal_snapshot = sn\<rparr> = Ok pl"
  shows "(decode_wal c (take k (wal_image pl)) = Ok (Some sn) \<longleftrightarrow> length (wal_image pl) \<le> k) \<and>
    decode_wal c (take k (wal_image pl)) \<noteq> Panic"
proof -
  have sc: "record_codec_ok c" "json_codec_ok c" using assms(1) by (auto simp: codec_ok_def)
  then have "int (length pl) < 2 ^ 63" using assms(2) by (auto simp: record_codec_ok_def)
  with decode_wal_torn [OF sc(2), of pl k] decode_wal_image [OF sc(1) assms(2)] show ?thesis
    by (cases "length (wal_image pl) \<le> k") auto
qed

theorem wal_needs_every_byte_witness:
  "(decode_wal sample_codec (take 15 (wal_image ''1tx-1'')) = Ok (Some (snapshot_of sample_graph)) \<longleftrightarrow>
      length (wal_image ''1tx-1'') \<le> 15) \<and>
   decode_wal sample_codec (take 15 (wal_image ''1tx-1'')) \<noteq> Panic"
  by (rule wal_needs_every_byte [OF sample_codec_ok, of "''tx-1''"])
    (simp add: sample_codec_def map_ok_def)

lemma decode_snapshot_code: "decode_snapshot c raw = Err x \<Longrightarrow> err_code x = IncompatibleFormat"
  by (auto simp: decode_snapshot_def new_error_def map_ok_def map_err_def Let_def and_then_def
      split: if_splits outcome.splits)

lemma persist_snapshot_code:
  "persist_snapshot_from_struct c e sn d = (d', Err x) \<Longrightarrow> err_code x = IncompatibleFormat"
  using format_errors_persist unfolding format_errors_only_def by blast

text \<open>Opening a database file of another format or catalog version fails with
  INCOMPATIBLE_FORMAT, and no failure of \<^verbatim>\<open>load_graph\<close> changes any file, except while a legacy JSON file of
  the current catalog version is being rewritten.\<close>

theorem load_failure_keeps_files:
  assumes "load_graph c e d = (d', Err err)"
  shows "err_code err = IncompatibleFormat \<and>
    (files d' = files d \<or>
     (\<exists>raw sn. fmlookup (files d) (db_file e) = Some raw \<and> decode_snapshot c raw = Ok (sn, True) \<and>
        catalog_version sn = CURRENT_CATALOG_VERSION))"
proof -
  obtain d1 r1 where rd: "read_file (db_file e) d = (d1, r1)" by fastforce
  then have f1: "files d1 = files d" and r1: "\<And>raw. r1 = Ok raw \<Longrightarrow> fmlookup (files d) (db_file e) = Some raw"
    by (auto simp: read_file_def split: fault.splits)
  show ?thesis
  proof (cases r1)
    case (Ok raw)
    show ?thesis
    proof (cases "decode_snapshot c raw")
      case dok: (Ok x)
      obtain sn m where x: "x = (sn, m)" by fastforce
      from assms(1) rd Ok dok x have run: "(if catalog_version sn \<noteq> CURRENT_CATALOG_VERSION then
          lift_op (Err (new_error IncompatibleFormat
            (''catalog version mismatch: expected '' @ show_nat CURRENT_CATALOG_VERSION @ '', got '' @
             show_nat (catalog_version sn))))
        else op_then (if m then persist_snapshot_from_struct c e sn else lift_op (Ok ()))
          (\<lambda>_. lift_op (Ok (graph sn)))) d1 = (d', Err err)"
        by (simp add: load_graph_def op_err_def)
      then show ?thesis
        using f1 r1 [OF Ok] dok x persist_snapshot_code [of c e sn d1]
        by (auto simp: new_error_def op_then_def split: if_splits prod.splits outcome.splits)
    next
      case (Err x)
      with assms(1) rd Ok f1 show ?thesis
        by (auto simp: load_graph_def op_err_def op_then_def decode_snapshot_code)
    next
      case Panic
      with assms(1) rd Ok show ?thesis by (auto simp: load_graph_def op_err_def op_then_def)
    qed
  next
    case (Err x)
    with assms(1) rd f1 show ?thesis by (auto simp: load_graph_def op_err_def op_then_def)
  next
    case Panic
    with assms(1) rd show ?thesis by (auto simp: load_graph_def op_err_def op_then_def)
  qed
qed

theorem load_failure_keeps_files_witness:
  "err_code (format_error ''cannot read db file'' ''No such file or directory (os error 2)'') =
     IncompatibleFormat \<and>
   (files (used_fault empty_disk) = files empty_disk \<or>
     (\<exists>raw sn. fmlookup (files empty_disk) (db_file sample_engine) = Some raw \<and>
        decode_snapshot sample_codec raw = Ok (sn, True) \<and>
        catalog_version sn = CURRENT_CATALOG_VERSION))"
proof (rule load_failure_keeps_files)
  show "load_graph sample_codec sample_engine empty_disk =
    (used_fault empty_disk, Err (format_error ''cannot read db file'' ''No such file or directory (os error 2)''))"
    by (simp add: load_graph_def op_then_def op_err_def read_file_def empty_disk_def)
qed

text \<open>The cluster catalog that was stored is the one that is loaded, and storing it keeps the
  graph.\<close>

theorem cluster_metadata_roundtrip:
  assumes "snapshot_codec_ok c" "db_content c e d = Some g"
    and "persist_cluster_metadata c e md d = (d', Ok ())"
  shows "snd (load_cluster_metadata c e (d'\<lparr>faults := []\<rparr>)) = Ok md \<and> db_content c e d' = Some g"
proof -
  have "file_exists (db_file e) d" using assms(2) by (auto simp: db_content_def file_exists_def split: option.splits)
  with assms(3) obtain d1 g1 where l: "load_graph c e d = (d1, Ok g1)"
    and p: "persist_snapshot_from_struct c e
       \<lparr>catalog_version = CURRENT_CATALOG_VERSION, cluster_metadata = md, graph = g1\<rparr> d1 = (d', Ok ())"
    by (auto simp: persist_cluster_metadata_def op_then_Ok)
  have g: "g1 = g" using load_graph_db_content [OF assms(2)] l by auto
  let ?sn = "\<lparr>catalog_version = CURRENT_CATALOG_VERSION, cluster_metadata = md, graph = g\<rparr>"
  from p g obtain bs where bs: "encode_snapshot c ?sn = Ok bs"
    and f: "fmlookup (files d') (db_file e) = Some bs"
    using persist_snapshot_written by blast
  from decode_encode_snapshot [OF assms(1) bs] f show ?thesis
    by (simp add: load_cluster_metadata_def read_file_def op_then_def op_err_def db_content_def)
qed

theorem cluster_metadata_roundtrip_witness:
  "snd (load_cluster_metadata sample_codec sample_engine
     ((fst (persist_cluster_metadata sample_codec sample_engine empty_catalog sample_disk))
        \<lparr>faults := []\<rparr>)) = Ok empty_catalog \<and>
   db_content sample_codec sample_engine
     (fst (persist_cluster_metadata sample_codec sample_engine empty_catalog sample_disk)) = Some new_store"
proof (rule cluster_metadata_roundtrip [OF _ sample_disk_holds(2)])
  show "snapshot_codec_ok sample_codec" using sample_codec_ok by (simp add: codec_ok_def)
  from load_graph_db_content [OF sample_disk_holds(2)] sample_disk_faults obtain d1 where
    l: "load_graph sample_codec sample_engine sample_disk = (d1, Ok new_store)" "faults d1 = []" by auto
  have ex: "file_exists (db_file sample_engine) sample_disk"
    using sample_disk_holds(2) by (auto simp: db_content_def file_exists_def split: option.splits)
  have "\<lparr>catalog_version = CURRENT_CATALOG_VERSION, cluster_metadata = empty_catalog, graph = new_store\<rparr> =
    snapshot_of new_store" by (simp add: snapshot_of_def)
  with l ex have "snd (persist_cluster_metadata sample_codec sample_engine empty_catalog sample_disk) = Ok ()"
    by (simp add: persist_cluster_metadata_def persist_snapshot_from_struct_def encode_snapshot_def
        sample_codec_def op_err_def write_file_def)
  then show "persist_cluster_metadata sample_codec sample_engine empty_catalog sample_disk =
    (fst (persist_cluster_metadata sample_codec sample_engine empty_catalog sample_disk), Ok ())"
    by (simp add: prod_eq_iff)
qed

text \<open>A commit replaces the cluster catalog by the empty one: after it, loading the catalog
  returns no partitions and no replicas, whatever was stored before.\<close>

theorem commit_resets_cluster_metadata:
  assumes "codec_ok c" "persist_after_wal c e tx g d = (d', Ok ())"
  shows "snd (load_cluster_metadata c e (d'\<lparr>faults := []\<rparr>)) = Ok empty_catalog"
proof -
  from assms(2) obtain bs where "encode_snapshot c (snapshot_of g) = Ok bs"
    "fmlookup (files d') (db_file e) = Some bs"
    by (auto simp: persist_after_wal_def op_then_Ok dest!: persist_snapshot_written)
  with decode_encode_snapshot [of c "snapshot_of g" bs] assms(1) show ?thesis
    by (simp add: load_cluster_metadata_def read_file_def op_then_def op_err_def codec_ok_def snapshot_of_def)
qed

theorem commit_resets_cluster_metadata_witness:
  "snd (load_cluster_metadata sample_codec sample_engine (sample_disk\<lparr>faults := []\<rparr>)) = Ok empty_catalog"
  by (rule commit_resets_cluster_metadata [OF sample_codec_ok sample_disk_run])

text \<open>A log whose length field is \<open>2 ^ 63\<close> or more makes recovery panic instead of returning an
  error.\<close>

theorem oversized_wal_entry_panics:
  "decode_wal c (wal_header @ replicate 8 (CHR 0xFF) @ rest) = Panic"
proof -
  have "from_le (replicate 8 (CHR 0xFF)) = 18446744073709551615" by code_simp
  then show ?thesis unfolding decode_wal_header
    by (subst wal_entries.simps) (simp add: Let_def)
qed

section \<open>The audit log\<close>

fun append_audit_events :: "codec \<Rightarrow> storage_engine \<Rightarrow> audit_event list \<Rightarrow> unit io" where
  "append_audit_events c e [] = lift_op (Ok ())"
| "append_audit_events c e (ev # evs) =
     op_then (append_audit_event c e ev) (\<lambda>_. append_audit_events c e evs)"

text \<open>The audit events that were appended are the events that are loaded, all of them and in the
  order of appending.\<close>

theorem audit_log_roundtrip:
  assumes "codec_ok c" "fmlookup (files d) (audit_file e) = None"
    and "append_audit_events c e evs d = (d', Ok ())"
  shows "snd (load_audit_events c e (d'\<lparr>faults := []\<rparr>)) = Ok evs"
proof -
  have jc: "json_codec_ok c" using assms(1) by (simp add: codec_ok_def)
  have step: "audit_log_holds c e d2 (old @ todo)"
    if "audit_log_holds c e d1 old" "append_audit_events c e todo d1 = (d2, Ok ())" for old todo d1 d2
    using that
  proof (induction todo arbitrary: old d1)
    case (Cons ev todo)
    from Cons.prems(2) obtain d3 where "append_audit_event c e ev d1 = (d3, Ok ())"
      "append_audit_events c e todo d3 = (d2, Ok ())" by (auto simp: op_then_Ok)
    with Cons.IH [of d3 "old @ [ev]"] append_audit_holds [OF jc Cons.prems(1)] show ?case by simp
  qed simp
  have "audit_log_holds c e d []" using assms(2) by (simp add: audit_log_holds_def)
  from step [OF this assms(3)] have "audit_log_holds c e (d'\<lparr>faults := []\<rparr>) evs"
    by (simp add: audit_log_holds_def)
  then show ?thesis using load_audit_holds [OF jc] by force
qed

theorem audit_log_roundtrip_witness:
  "snd (load_audit_events sample_codec sample_engine
     ((fst (append_audit_events sample_codec sample_engine [sample_event, sample_event] empty_disk))
        \<lparr>faults := []\<rparr>)) = Ok [sample_event, sample_event]"
proof (rule audit_log_roundtrip [OF sample_codec_ok])
  show "fmlookup (files empty_disk) (audit_file sample_engine) = None" by (simp add: empty_disk_def)
  have "snd (append_audit_events sample_codec sample_engine [sample_event, sample_event] empty_disk) = Ok ()"
    by (simp add: append_audit_event_def sample_codec_def empty_disk_def fs_ops)
  then show "append_audit_events sample_codec sample_engine [sample_event, sample_event] empty_disk =
    (fst (append_audit_events sample_codec sample_engine [sample_event, sample_event] empty_disk), Ok ())"
    by (simp add: prod_eq_iff)
qed

end
