(* ===== verification/Tx_Properties.thy ===== *)
theory Tx_Properties
  imports Tx Storage_Properties
begin

text \<open>
  The properties of the transaction manager: commits are serializable, the committed graph is
  the one on disk, the first committer wins.
\<close>

section \<open>Audit records keep the disk\<close>

lemma only_changes_clock: "only_changes p (read_clock :: (nat, 'e) fs_op)"
  by (simp add: only_changes_def read_clock_def)

lemma only_changes_ignore:
  fixes m :: "('a, 'e) fs_op"
  assumes "only_changes p m"
  shows "only_changes p (op_ignore m :: (unit, 'f) fs_op)"
proof -
  have "fst ((op_ignore m :: (unit, 'f) fs_op) d) = fst (m d)" for d
    by (auto simp: op_ignore_def split: prod.splits outcome.splits)
  with assms show ?thesis by (simp add: only_changes_def)
qed

lemma only_changes_record_audit:
  "only_changes (audit_file (storage m)) (record_audit_event c m ty code msg tx pl)"
  unfolding record_audit_event_def
  by (intro only_changes_then only_changes_clock only_changes_audit)

lemma only_changes_audit_then_fail:
  "only_changes (audit_file (storage m)) (audit_then_fail c m ty err tx)"
  unfolding audit_then_fail_def
  by (intro only_changes_then only_changes_ignore only_changes_record_audit only_changes_prims)

definition never_panics :: "('a, 'e) fs_op \<Rightarrow> bool" where
  "never_panics m \<longleftrightarrow> (\<forall>d. snd (m d) \<noteq> Panic)"

lemma never_panics_prims:
  "never_panics (write_all p bs)" "never_panics (open_append p)" "r \<noteq> Panic \<Longrightarrow> never_panics (lift_op r)"
  by (auto simp: never_panics_def write_all_def open_append_def Let_def split: fault.splits)

lemma never_panics_then:
  "never_panics m \<Longrightarrow> (\<And>x. never_panics (f x)) \<Longrightarrow> never_panics (op_then m f)"
  unfolding never_panics_def op_then_def by (auto split: prod.splits outcome.splits) (metis snd_conv)+

lemma never_panics_err: "never_panics m \<Longrightarrow> never_panics (op_err g m)"
  unfolding never_panics_def op_err_def map_err_def
  by (auto split: prod.splits outcome.splits) (metis snd_conv)

lemma append_audit_no_panic: "json_codec_ok c \<Longrightarrow> never_panics (append_audit_event c e ev)"
  unfolding append_audit_event_def
  by (intro never_panics_prims never_panics_then never_panics_err)
    (auto simp: json_codec_ok_def map_err_def split: outcome.splits)

text \<open>The clock does not stand before the epoch at its next reading.\<close>

definition after_epoch :: "fs \<Rightarrow> bool" where
  "after_epoch d \<longleftrightarrow> (case ticks d of None # _ \<Rightarrow> False | _ \<Rightarrow> True)"

lemma record_audit_no_panic:
  assumes "json_codec_ok c" "after_epoch d"
  shows "snd (record_audit_event c m ty code msg tx pl d) \<noteq> Panic"
  using append_audit_no_panic [OF assms(1)] assms(2)
  by (auto simp: record_audit_event_def op_then_def read_clock_def never_panics_def after_epoch_def split: list.splits option.splits)

lemma audit_then_fail_Err:
  assumes "json_codec_ok c" "after_epoch d"
  shows "\<exists>d'. audit_then_fail c m ty err tx d = (d', Err err)"
  using record_audit_no_panic [OF assms, of m ty "Some (as_str (err_code err))" "err_message err" "Some tx" fmempty]
  by (auto simp: audit_then_fail_def op_then_def op_ignore_def split: prod.splits outcome.splits)

lemma persist_after_wal_code:
  "persist_after_wal c e tx g d = (d', Err x) \<Longrightarrow> err_code x = IncompatibleFormat"
  using format_errors_persist_after_wal unfolding format_errors_only_def by blast

lemma commit_conflict_files:
  assumes "commit c m tx d = (m', d', Err e)" "err_code e = RetryableConflict"
    and "q \<noteq> audit_file (storage m)"
  shows "fmlookup (files d') q = fmlookup (files d) q"
proof -
  note a = only_changesD [OF only_changes_audit_then_fail _ assms(3)]
  show ?thesis
  proof (cases "fmlookup (sessions m) tx")
    case None
    with assms(1) show ?thesis by (auto simp: commit_def intro: a)
  next
    case (Some s)
    have b: "fmlookup (files d1) q = fmlookup (files d) q"
      if "audit_then_fail c (m\<lparr>sessions := fmdrop tx (sessions m)\<rparr>) ty err tx d = (d1, r)" for ty err d1 r
      by (rule only_changesD [OF only_changes_audit_then_fail that]) (use assms(3) in simp)
    from Some assms(1,2) show ?thesis
      by (auto simp: commit_def Let_def split: prod.splits outcome.splits if_splits
          dest: persist_after_wal_code intro: b)
  qed
qed

lemma rollback_files:
  assumes "rollback c m tx d = (m', d', r)" "q \<noteq> audit_file (storage m)"
  shows "fmlookup (files d') q = fmlookup (files d) q"
proof (cases "fmlookup (sessions m) tx")
  case None
  with assms show ?thesis by (simp add: rollback_def)
next
  case (Some s)
  let ?m = "m\<lparr>sessions := fmdrop tx (sessions m)\<rparr>"
  let ?a = "record_audit_event c ?m ''ROLLBACK_EXECUTED'' None ''transaction rollback executed''
    (Some tx) fmempty"
  have "rollback c m tx d = (?m, op_ignore ?a d)" using Some by (simp add: rollback_def Let_def)
  then have o: "op_ignore ?a d = (d', r)" using assms(1) by (metis Pair_inject)
  show ?thesis
    by (rule only_changesD [OF only_changes_ignore [OF only_changes_record_audit] o]) (use assms(2) in simp)
qed

section \<open>Views of the disk\<close>

text \<open>
  A view relates an engine's files to the graph they hold: it does not depend on the audit log,
  and a successful commit moves it to the new graph. Such a view is kept by every execution of the manager.
\<close>

locale disk_view =
  fixes c :: codec
    and holds :: "storage_engine \<Rightarrow> fs \<Rightarrow> store \<Rightarrow> bool"
  assumes holds_frame: "distinct_paths e \<Longrightarrow> holds e d g \<Longrightarrow>
      (\<And>q. q \<noteq> audit_file e \<Longrightarrow> fmlookup (files d') q = fmlookup (files d) q) \<Longrightarrow> holds e d' g"
    and persist_holds: "codec_ok c \<Longrightarrow> distinct_paths e \<Longrightarrow> holds e d g0 \<Longrightarrow>
      persist_after_wal c e tx g d = (d', Ok ()) \<Longrightarrow> holds e d' g"
begin

definition held :: "storage_engine \<Rightarrow> tx_state \<Rightarrow> bool" where
  "held e st \<longleftrightarrow> storage (mgr st) = e \<and> holds e (disk_of st) (base_graph (mgr st))"

lemma step_held:
  assumes "codec_ok c" "distinct_paths e" "tx_step c st st'" "held e st"
  shows "held e st'"
  using assms(3)
proof cases
  case (begin_step m' tx)
  then show ?thesis using assms(4) by (auto simp: held_def begin_tx_def Let_def)
next
  case (update_step tx s f m' r)
  then show ?thesis using assms(4) by (auto simp: held_def graph_mut_def split: prod.splits)
next
  case (commit_step tx m' d')
  then show ?thesis using assms by (auto simp: held_def commit_Ok intro: persist_holds)
next
  case (conflict_step tx m' d' err)
  have m: "m' = (mgr st)\<lparr>sessions := fmdrop tx (sessions (mgr st))\<rparr>"
    by (rule commit_not_Ok [OF conflict_step(2)]) simp
  have "holds e d' (base_graph (mgr st))"
    by (rule holds_frame [OF assms(2)])
      (use assms(4) commit_conflict_files [OF conflict_step(2,3)] in \<open>auto simp: held_def\<close>)
  with m conflict_step(1) assms(4) show ?thesis by (simp add: held_def)
next
  case (rollback_step tx m' d' r)
  have "holds e d' (base_graph (mgr st))"
    by (rule holds_frame [OF assms(2)])
      (use assms(4) rollback_files [OF rollback_step(2)] in \<open>auto simp: held_def\<close>)
  with rollback_manager [OF rollback_step(2)] rollback_step(1) assms(4) show ?thesis
    by (simp add: held_def)
next
  case (audit_step ty code msg tx pl d' r)
  have "holds e d' (base_graph (mgr st))"
    by (rule holds_frame [OF assms(2)])
      (use assms(4) only_changesD [OF only_changes_record_audit audit_step(2)] in \<open>auto simp: held_def\<close>)
  with audit_step(1) assms(4) show ?thesis by (simp add: held_def)
next
  case (time_step ts)
  have "holds e ((disk_of st)\<lparr>ticks := ts\<rparr>) (base_graph (mgr st))"
    by (rule holds_frame [OF assms(2)]) (use assms(4) in \<open>auto simp: held_def\<close>)
  with time_step assms(4) show ?thesis by (simp add: held_def)
qed

lemma reachable_held:
  assumes "codec_ok c" "distinct_paths e"
  shows "tx_reachable c st st' \<Longrightarrow> held e st \<Longrightarrow> held e st'"
  by (induction rule: rtranclp_induct) (auto intro: step_held [OF assms])

end

text \<open>What recovery would read, and what opening the database file would read.\<close>

interpretation wal_view: disk_view c "recoverable c" for c
proof
  fix e :: storage_engine and d d' :: fs and g
  assume "distinct_paths e" "recoverable c e d g"
    and "\<And>q. q \<noteq> audit_file e \<Longrightarrow> fmlookup (files d') q = fmlookup (files d) q"
  then show "recoverable c e d' g" by (auto intro: recoverable_frame simp: distinct_paths_def)
qed (auto intro: persist_after_wal_recoverable(1))

interpretation db_view: disk_view c "\<lambda>e d g. db_content c e d = Some g" for c
  by unfold_locales
    (auto simp: db_content_def distinct_paths_def dest: persist_after_wal_recoverable(2) [unfolded db_content_def])

text \<open>A file that is none of the engine's stays where it is.\<close>

lemma only_changes_persist_after_wal:
  assumes "persist_after_wal c e tx g d = (d', r)" "q \<noteq> db_file e" "q \<noteq> wal_file e"
  shows "fmlookup (files d') q = fmlookup (files d) q"
proof -
  obtain d1 r1 where w: "append_wal c e tx (snapshot_of g) d = (d1, r1)" by fastforce
  note f = only_changesD [OF only_changes_wal w assms(3)]
  show ?thesis
  proof (cases r1)
    case (Ok u)
    with assms(1) w have "persist_snapshot_from_struct c e (snapshot_of g) d1 = (d', r)"
      by (simp add: persist_after_wal_def)
    from only_changesD [OF only_changes_persist this assms(2)] f show ?thesis by simp
  qed (use assms(1) w f in \<open>auto simp: persist_after_wal_def\<close>)
qed

interpretation other_view: disk_view c
    "\<lambda>e d g. file_exists q d \<and> q \<notin> {db_file e, wal_file e, audit_file e}" for c q
  by unfold_locales (auto simp: file_exists_def only_changes_persist_after_wal)

section \<open>Properties\<close>

text \<open>The state of a manager that was just opened on a graph.\<close>

definition opened :: "storage_engine \<Rightarrow> store \<Rightarrow> fs \<Rightarrow> tx_state" where
  "opened e g d =
     \<lparr>mgr = \<lparr>storage = e, base_graph = g, sessions = fmempty, tx_seq = 0, graph_version = 0\<rparr>,
      disk_of = d, pending = (\<lambda>_. []), committed = []\<rparr>"

text \<open>C3: in every interleaving of begin, update, commit, conflict, rollback and audit records of any
  number of transactions, under any faults of the file system and with commits that fail in storage or panic,
  the committed graph is the result of running the updates of the committed
  transactions one after the other in commit order: commits are serializable and no update is
  lost. The version counter must not wrap.\<close>

theorem commits_serializable:
  assumes "tx_runs c (opened e g d) st"
  shows "current_graph (mgr st) = run_updates (committed st) g"
proof -
  have "tx_inv g (opened e g d)" by (simp add: tx_inv_def opened_def)
  from tx_runs_inv [OF assms this] show ?thesis by (simp add: tx_inv_def current_graph_def)
qed

text \<open>C21: after a successful commit, whatever happened before it (commits that failed in storage included),
  and after any further steps that are not commits failing in storage, recovery from a file system that works
  again returns exactly the committed graph and drops the open sessions. A commit that fails
  in storage may instead bring its own graph back, see below.\<close>

theorem committed_graph_on_disk:
  assumes "tx_runs c (opened e g d) st0" "commit c (mgr st0) tx (disk_of st0) = (m1, d1, Ok ())"
    and "tx_reachable c (st0\<lparr>mgr := m1, disk_of := d1\<rparr>) st"
    and "codec_ok c" "distinct_paths e"
  shows "\<exists>m' d'. recover_manager c (mgr st) ((disk_of st)\<lparr>faults := []\<rparr>) = (m', d', Ok ()) \<and>
    current_graph m' = current_graph (mgr st) \<and> sessions m' = fmempty"
proof -
  have e: "storage (mgr st0) = e" using tx_runs_version [OF assms(1)] by (simp add: opened_def)
  from assms(2) [unfolded commit_Ok] obtain s :: tx_session where p: "persist_after_wal c e tx (tx_graph s) (disk_of st0) = (d1, Ok ())"
    and m1: "m1 = (mgr st0)\<lparr>sessions := fmdrop tx (sessions (mgr st0)), base_graph := tx_graph s,
               graph_version := graph_version (mgr st0) + 1\<rparr>" unfolding e by blast
  have "wal_view.held c e (st0\<lparr>mgr := m1, disk_of := d1\<rparr>)"
    using persist_after_wal_recoverable(1) [OF assms(4,5) p] e by (simp add: wal_view.held_def m1)
  from wal_view.reachable_held [OF assms(4,5,3) this]
  have "snd (recover c (storage (mgr st)) ((disk_of st)\<lparr>faults := []\<rparr>)) = Ok (base_graph (mgr st))"
    using disk.rec_total [of c e] assms(4,5) by (simp add: wal_view.held_def recoverable_faults)
  then show ?thesis
    by (cases "recover c (storage (mgr st)) ((disk_of st)\<lparr>faults := []\<rparr>)") (simp add: recover_manager_def current_graph_def)
qed

text \<open>C7: of two transactions begun on the same committed graph the first to commit wins: whatever happens after
  its commit, whenever the other one is committed that commit fails with RETRYABLE_CONFLICT. It closes the session, leaves the
  rest of the manager as it is and writes to no file but the audit log. The version counter must
  not wrap, and the clock must not stand before the epoch, since the audit record would panic.\<close>

theorem first_committer_wins:
  assumes "fmlookup (sessions (mgr st)) tx2 = Some s2" "base_version s2 = graph_version (mgr st)"
    and "commit c (mgr st) tx1 (disk_of st) = (m1, d1, Ok ())" "graph_version (mgr st) + 1 \<noteq> 0"
    and "tx_runs c (st\<lparr>mgr := m1, disk_of := d1\<rparr>) st'"
    and "fmlookup (sessions (mgr st')) tx2 = Some s2'" "base_version s2' = base_version s2"
    and "json_codec_ok c" "after_epoch (disk_of st')"
  shows "\<exists>d2. commit c (mgr st') tx2 (disk_of st') =
      ((mgr st')\<lparr>sessions := fmdrop tx2 (sessions (mgr st'))\<rparr>, d2, Err (conflict_tx tx2)) \<and>
    (\<forall>q. q \<noteq> audit_file (storage (mgr st')) \<longrightarrow> fmlookup (files d2) q = fmlookup (files (disk_of st')) q)"
proof -
  let ?m = "(mgr st')\<lparr>sessions := fmdrop tx2 (sessions (mgr st'))\<rparr>"
  have "graph_version m1 = graph_version (mgr st) + 1" using assms(3) by (auto simp: commit_Ok)
  with tx_runs_version [OF assms(5)] unat_succ [OF assms(4)]
  have "unat (base_version s2') < unat (graph_version (mgr st'))" using assms(2,7) by simp
  then have "base_version s2' \<noteq> graph_version (mgr st')" by auto
  with assms(6) have "commit c (mgr st') tx2 (disk_of st') =
      (?m, audit_then_fail c ?m ''DETERMINISTIC_CONFLICT'' (conflict_tx tx2) tx2 (disk_of st'))"
    by (simp add: commit_def Let_def)
  moreover obtain d2 where "audit_then_fail c ?m ''DETERMINISTIC_CONFLICT'' (conflict_tx tx2) tx2 (disk_of st') = (d2, Err (conflict_tx tx2))"
    using audit_then_fail_Err [OF assms(8,9)] by blast
  ultimately have c: "commit c (mgr st') tx2 (disk_of st') = (?m, d2, Err (conflict_tx tx2))" by simp
  have "err_code (conflict_tx tx2) = RetryableConflict" by (simp add: conflict_tx_def new_error_def)
  from commit_conflict_files [OF c this] c show ?thesis by blast
qed

section \<open>Instances\<close>

text \<open>
  A run: a first transaction fails because the database file cannot be written, a second one changes the graph
  and commits.
\<close>

definition disk_full :: "fault list" where
  "disk_full = replicate 5 NoFault @ [FailOpen ''disk full'']"

lemma sample_commit_fails:
  assumes "storage m = sample_engine" "fmlookup (sessions m) tx = Some \<lparr>tx_graph = new_store, base_version = graph_version m\<rparr>"
    "length tx < 64" "faults d = disk_full"
  shows "\<exists>d' err. commit sample_codec m tx d = (m\<lparr>sessions := fmdrop tx (sessions m)\<rparr>, d', Err err)"
proof -
  have "\<exists>err. snd (persist_after_wal sample_codec sample_engine tx new_store d) = Err err"
    using assms(3,4)
    by (simp add: disk_full_def persist_after_wal_def append_wal_def persist_snapshot_from_struct_def numeral_eq_Suc
        encode_snapshot_def sample_codec_def map_ok_def fs_ops del: to_le.simps)
  then show ?thesis using assms(1,2)
    by (cases "persist_after_wal sample_codec sample_engine tx new_store d") (auto simp: commit_def Let_def)
qed

lemma sample_commit:
  assumes "storage m = sample_engine" "fmlookup (sessions m) tx = Some \<lparr>tx_graph = sample_graph, base_version = graph_version m\<rparr>"
    "length tx < 64" "faults d = []"
  shows "\<exists>d'. commit sample_codec m tx d = (m\<lparr>sessions := fmdrop tx (sessions m), base_graph := sample_graph,
      graph_version := graph_version m + 1\<rparr>, d', Ok ())"
  using sample_persist(1) [OF assms(4) _ assms(3), of sample_graph] assms(1,2)
  by (cases "persist_after_wal sample_codec sample_engine tx sample_graph d") (auto simp: commit_def Let_def)

definition sample_manager :: "(string, tx_session) fmap \<Rightarrow> 64 word \<Rightarrow> tx_manager" where
  "sample_manager ss n = \<lparr>storage = sample_engine, base_graph = new_store, sessions = ss, tx_seq = n, graph_version = 0\<rparr>"

lemma sample_tx_ids: "''tx-'' @ show_nat (unat (1 :: 64 word)) = ''tx-1''" "''tx-'' @ show_nat (unat (2 :: 64 word)) = ''tx-2''"
  by code_simp+

lemma sample_begin:
  "begin_tx (sample_manager ss 0) = (sample_manager (fmupd ''tx-1'' \<lparr>tx_graph = new_store, base_version = 0\<rparr> ss) 1, ''tx-1'')"
  "begin_tx (sample_manager ss 1) = (sample_manager (fmupd ''tx-2'' \<lparr>tx_graph = new_store, base_version = 0\<rparr> ss) 2, ''tx-2'')"
  using sample_tx_ids by (simp_all add: begin_tx_def sample_manager_def Let_def)

abbreviation to_sample :: "store \<Rightarrow> store \<times> query_result db_result" where
  "to_sample \<equiv> (\<lambda>_. (sample_graph, Ok QAck))"

lemma sample_run:
  "\<exists>st0. tx_runs sample_codec (opened sample_engine new_store sample_disk) st0 \<and> faults (disk_of st0) = [] \<and>
     mgr st0 = sample_manager (fmupd ''tx-2'' \<lparr>tx_graph = sample_graph, base_version = 0\<rparr> fmempty) 2 \<and>
     committed st0 = [] \<and> pending st0 ''tx-2'' = [\<lambda>_. sample_graph]"
proof -
  let ?s0 = "opened sample_engine new_store sample_disk" and ?t = "\<lparr>tx_graph = new_store, base_version = 0\<rparr>"
  have m0: "mgr ?s0 = sample_manager fmempty 0" by (simp add: opened_def sample_manager_def)
  let ?s1 = "?s0\<lparr>mgr := sample_manager (fmupd ''tx-1'' ?t fmempty) 1, pending := (pending ?s0)(''tx-1'' := [])\<rparr>"
  let ?s2 = "?s1\<lparr>disk_of := (disk_of ?s1)\<lparr>faults := disk_full\<rparr>\<rparr>"
  have r1: "tx_exec sample_codec ?s0 ?s1"
    by (rule exec_step, rule begin_step) (simp only: m0 sample_begin)
  have r2: "tx_exec sample_codec ?s1 ?s2" by (rule exec_faults)
  obtain d0 err where fail: "commit sample_codec (mgr ?s2) ''tx-1'' (disk_of ?s2) =
      (mgr ?s2\<lparr>sessions := fmdrop ''tx-1'' (sessions (mgr ?s2))\<rparr>, d0, Err err)"
    using sample_commit_fails [of "mgr ?s2" "''tx-1''" "disk_of ?s2"] by (auto simp: sample_manager_def)
  have gone: "fmdrop ''tx-1'' (sessions (mgr ?s2)) = fmempty" by (intro fmap_ext) (simp add: sample_manager_def)
  let ?s3 = "?s2\<lparr>mgr := sample_manager fmempty 1, disk_of := d0\<rparr>"
  have "mgr ?s2\<lparr>sessions := fmdrop ''tx-1'' (sessions (mgr ?s2))\<rparr> = sample_manager fmempty 1"
    unfolding gone by (simp add: sample_manager_def)
  then have r3: "tx_exec sample_codec ?s2 ?s3" using exec_failed [OF fail] by simp
  let ?s4 = "?s3\<lparr>mgr := sample_manager (fmupd ''tx-2'' ?t fmempty) 2, pending := (pending ?s3)(''tx-2'' := [])\<rparr>"
  have r4: "tx_exec sample_codec ?s3 ?s4"
    by (rule exec_step, rule begin_step) (simp add: sample_begin)
  let ?s5 = "?s4\<lparr>mgr := sample_manager (fmupd ''tx-2'' (?t\<lparr>tx_graph := sample_graph\<rparr>) (fmupd ''tx-2'' ?t fmempty)) 2,
      pending := (pending ?s4)(''tx-2'' := pending ?s4 ''tx-2'' @ [\<lambda>g. fst (to_sample g)])\<rparr>"
  have r5: "tx_exec sample_codec ?s4 ?s5"
    by (rule exec_step, rule update_step [where tx = "''tx-2''" and f = to_sample])
      (simp_all add: graph_mut_def sample_manager_def)
  let ?s6 = "?s5\<lparr>disk_of := (disk_of ?s5)\<lparr>faults := []\<rparr>\<rparr>"
  have r6: "tx_exec sample_codec ?s5 ?s6" by (rule exec_faults)
  have u: "fmupd ''tx-2'' x (fmupd ''tx-2'' y fmempty) = fmupd ''tx-2'' x fmempty" for x y :: tx_session
    by (intro fmap_ext) simp
  note more = rtranclp.rtrancl_into_rtrancl [where r = "tx_exec sample_codec"]
  have run2: "tx_runs sample_codec ?s0 ?s2" by (rule more [OF more [OF rtranclp.rtrancl_refl [where r = "tx_exec sample_codec"] r1] r2])
  have run6: "tx_runs sample_codec ?s0 ?s6" by (rule more [OF more [OF more [OF more [OF run2 r3] r4] r5] r6])
  show ?thesis
  proof (intro exI conjI)
    show "tx_runs sample_codec ?s0 ?s6" by (fact run6)
  qed (simp_all add: u opened_def)
qed

theorem commits_serializable_witness:
  "\<exists>st. tx_runs sample_codec (opened sample_engine new_store sample_disk) st \<and> committed st = [\<lambda>_. sample_graph] \<and>
    current_graph (mgr st) = run_updates (committed st) new_store"
proof -
  obtain st0 where st0: "tx_runs sample_codec (opened sample_engine new_store sample_disk) st0" "faults (disk_of st0) = []"
    "mgr st0 = sample_manager (fmupd ''tx-2'' \<lparr>tx_graph = sample_graph, base_version = 0\<rparr> fmempty) 2"
    "committed st0 = []" "pending st0 ''tx-2'' = [\<lambda>_. sample_graph]"
    using sample_run by blast
  obtain m1 d1 where c: "commit sample_codec (mgr st0) ''tx-2'' (disk_of st0) = (m1, d1, Ok ())"
    using sample_commit [of "mgr st0" "''tx-2''" "disk_of st0"] st0(2,3) by (auto simp: sample_manager_def)
  let ?st = "st0\<lparr>mgr := m1, disk_of := d1, committed := committed st0 @ pending st0 ''tx-2''\<rparr>"
  have "tx_exec sample_codec st0 ?st"
    by (rule exec_step, rule commit_step [OF c]) (simp add: st0(3) sample_manager_def)
  with st0(1) have "tx_runs sample_codec (opened sample_engine new_store sample_disk) ?st"
    by (rule rtranclp.rtrancl_into_rtrancl)
  from commits_serializable [OF this] this show ?thesis using st0(4,5) by (intro exI [of _ ?st]) simp
qed

theorem committed_graph_on_disk_witness:
  "\<exists>st0 m1 d1. tx_runs sample_codec (opened sample_engine new_store sample_disk) st0 \<and>
    commit sample_codec (mgr st0) ''tx-2'' (disk_of st0) = (m1, d1, Ok ()) \<and>
    (\<exists>m' d'. recover_manager sample_codec m1 (d1\<lparr>faults := []\<rparr>) = (m', d', Ok ()) \<and> current_graph m' = sample_graph \<and> sessions m' = fmempty)"
proof -
  obtain st0 where st0: "tx_runs sample_codec (opened sample_engine new_store sample_disk) st0" "faults (disk_of st0) = []"
    "mgr st0 = sample_manager (fmupd ''tx-2'' \<lparr>tx_graph = sample_graph, base_version = 0\<rparr> fmempty) 2"
    using sample_run by blast
  obtain m1 d1 where c: "commit sample_codec (mgr st0) ''tx-2'' (disk_of st0) = (m1, d1, Ok ())" and g: "current_graph m1 = sample_graph"
    using sample_commit [of "mgr st0" "''tx-2''" "disk_of st0"] st0(2,3) by (auto simp: sample_manager_def current_graph_def)
  from committed_graph_on_disk [OF st0(1) c rtranclp.rtrancl_refl sample_codec_ok sample_engine_paths] st0(1) c g
  show ?thesis by (intro exI [of _ st0] exI [of _ m1] exI [of _ d1]) simp
qed

text \<open>Two sessions on the empty graph.\<close>

definition two_sessions :: tx_manager where
  "two_sessions = \<lparr>storage = sample_engine, base_graph = new_store,
     sessions = fmupd ''tx-2'' \<lparr>tx_graph = new_store, base_version = 0\<rparr>
       (fmupd ''tx-1'' \<lparr>tx_graph = sample_graph, base_version = 0\<rparr> fmempty),
     tx_seq = 2, graph_version = 0\<rparr>"

text \<open>The first session commits, the clock shows a later time, then the second one tries.\<close>

theorem first_committer_wins_witness:
  "\<exists>m1 d1 d2. commit sample_codec two_sessions ''tx-1'' sample_disk = (m1, d1, Ok ()) \<and> current_graph m1 = sample_graph \<and>
    commit sample_codec m1 ''tx-2'' (d1\<lparr>ticks := [Some 1700000000000]\<rparr>) =
      (m1\<lparr>sessions := fmdrop ''tx-2'' (sessions m1)\<rparr>, d2, Err (conflict_tx ''tx-2''))"
proof -
  let ?s2 = "\<lparr>tx_graph = new_store, base_version = 0\<rparr>"
  let ?st = "\<lparr>mgr = two_sessions, disk_of = sample_disk, pending = (\<lambda>_. []), committed = []\<rparr>"
  obtain m1 d1 where c: "commit sample_codec two_sessions ''tx-1'' sample_disk = (m1, d1, Ok ())" and g: "current_graph m1 = sample_graph"
    and s: "fmlookup (sessions m1) ''tx-2'' = Some ?s2"
    using sample_commit [of two_sessions "''tx-1''" sample_disk] sample_disk_faults by (auto simp: two_sessions_def current_graph_def)
  let ?st1 = "?st\<lparr>mgr := m1, disk_of := d1\<rparr>"
  let ?st2 = "?st1\<lparr>disk_of := (disk_of ?st1)\<lparr>ticks := [Some 1700000000000]\<rparr>\<rparr>"
  have run: "tx_runs sample_codec ?st1 ?st2" by (intro r_into_rtranclp exec_step time_step)
  have j: "json_codec_ok sample_codec" using sample_codec_ok by (simp add: codec_ok_def)
  have c': "commit sample_codec (mgr ?st) ''tx-1'' (disk_of ?st) = (m1, d1, Ok ())" using c by simp
  from first_committer_wins [OF _ _ c' _ run, of "''tx-2''" ?s2 ?s2] j c g s show ?thesis
    by (auto simp: two_sessions_def after_epoch_def)
qed

text \<open>A commit that fails because the database file could not be written has written the log: it
  returns an error and the manager keeps the old graph, but a recovery brings the transaction
  back.\<close>

theorem failed_commit_reappears:
  "\<exists>d' m' err m2 d2.
     commit sample_codec two_sessions ''tx-1''
       (sample_disk\<lparr>faults := replicate 5 NoFault @ [FailOpen ''disk full'']\<rparr>) = (m', d', Err err) \<and>
     current_graph m' = new_store \<and>
     recover_manager sample_codec m' (d'\<lparr>faults := []\<rparr>) = (m2, d2, Ok ()) \<and>
     current_graph m2 = sample_graph"
proof -
  let ?d = "sample_disk\<lparr>faults := replicate 5 NoFault @ [FailOpen ''disk full'']\<rparr>"
  let ?p = "persist_after_wal sample_codec sample_engine ''tx-1'' sample_graph ?d"
  obtain d' r where p: "?p = (d', r)" by fastforce
  have r: "\<exists>err. snd ?p = Err err"
    and w: "fmlookup (files (fst ?p)) (wal_file sample_engine) = Some (wal_image ''1tx-1'')"
    by (simp_all add: persist_after_wal_def append_wal_def persist_snapshot_from_struct_def numeral_eq_Suc
        encode_snapshot_def sample_codec_def map_ok_def fs_ops wal_image_def wal_header_def del: to_le.simps)
  have storable_sample: "storable sample_codec (snapshot_of sample_graph)"
    by (simp add: storable_def encode_snapshot_def sample_codec_def) (simp add: snapshot_of_def)
  from r p obtain err where err: "r = Err err" by auto
  have "decode_wal sample_codec (wal_image ''1tx-1'') = Ok (Some (snapshot_of sample_graph))"
    by (rule decode_wal_image [where tx = "''tx-1''"])
      (use sample_codec_ok in \<open>simp_all add: codec_ok_def sample_codec_def map_ok_def\<close>)
  with w p have "recoverable sample_codec sample_engine (d'\<lparr>faults := []\<rparr>) sample_graph"
    by (simp add: recoverable_def wal_content_def storable_sample) (simp add: snapshot_of_def)
  then have rec: "snd (recover sample_codec sample_engine (d'\<lparr>faults := []\<rparr>)) = Ok sample_graph"
    using disk.rec_total [of sample_codec sample_engine] sample_codec_ok sample_engine_paths by simp
  have "commit sample_codec two_sessions ''tx-1'' ?d =
      (two_sessions\<lparr>sessions := fmdrop ''tx-1'' (sessions two_sessions)\<rparr>, d', Err err)"
    using p err by (simp add: commit_def two_sessions_def Let_def)
  with rec show ?thesis
    by (cases "recover sample_codec sample_engine (d'\<lparr>faults := []\<rparr>)")
      (auto simp: recover_manager_def current_graph_def two_sessions_def)
qed

end
