(* ===== verification/Lock.thy ===== *)
theory Lock
  imports Files
begin

text \<open>
  The write lock of \<^verbatim>\<open>lock.rs\<close>: a lock file created exclusively and removed when the guard is
  dropped, and its mutual exclusion as an invariant of all interleavings of opening and closing.
\<close>

section \<open>Operations\<close>

record write_lock_guard =
  lock_path :: string

definition acquire_write_lock :: "string \<Rightarrow> (write_lock_guard, graph_db_error) fs_op" where
  "acquire_write_lock db d =
     (let p = with_extension db ''write.lock'' in
      case open_create_new p d of
        (d', Ok _) \<Rightarrow> (d', Ok \<lparr>lock_path = p\<rparr>)
      | (d', Err e) \<Rightarrow> (d', Err (new_error WriteLockConflict (''write lock conflict: '' @ e)))
      | (d', Panic) \<Rightarrow> (d', Panic))"

text \<open>\<^verbatim>\<open>Drop\<close> of the guard ignores the result of the removal.\<close>

definition drop_guard :: "write_lock_guard \<Rightarrow> fs \<Rightarrow> fs" where
  "drop_guard g d = fst (remove_file (lock_path g) d)"

section \<open>Exclusion\<close>

text \<open>
  The holders of the lock of one database file while processes open and close it in any order;
  each operation may meet any fault.
\<close>

inductive lock_step ::
  "string \<Rightarrow> fs \<times> write_lock_guard list \<Rightarrow> fs \<times> write_lock_guard list \<Rightarrow> bool"
  for db :: string
where
  acquire: "acquire_write_lock db (d\<lparr>faults := fl\<rparr>) = (d', Ok g) \<Longrightarrow> lock_step db (d, gs) (d', g # gs)"
| refuse: "acquire_write_lock db (d\<lparr>faults := fl\<rparr>) = (d', Err e) \<Longrightarrow> lock_step db (d, gs) (d', gs)"
| release: "g \<in> set gs \<Longrightarrow> lock_step db (d, gs) (drop_guard g (d\<lparr>faults := fl\<rparr>), remove1 g gs)"

inductive_cases lock_stepE: "lock_step db (d, gs) st'"

abbreviation lock_reachable ::
  "string \<Rightarrow> fs \<times> write_lock_guard list \<Rightarrow> fs \<times> write_lock_guard list \<Rightarrow> bool"
where
  "lock_reachable db \<equiv> (lock_step db)\<^sup>*\<^sup>*"

definition lock_inv :: "string \<Rightarrow> fs \<times> write_lock_guard list \<Rightarrow> bool" where
  "lock_inv db st \<longleftrightarrow>
     length (snd st) \<le> 1 \<and>
     (\<forall>g \<in> set (snd st). lock_path g = with_extension db ''write.lock'' \<and> file_exists (lock_path g) (fst st))"

lemma acquire_Ok:
  "acquire_write_lock db d = (d', Ok g) \<longleftrightarrow>
     next_fault d = NoFault \<and> \<not> file_exists (with_extension db ''write.lock'') d \<and>
     g = \<lparr>lock_path = with_extension db ''write.lock''\<rparr> \<and>
     d' = set_file (with_extension db ''write.lock'') [] (used_fault d)"
  by (auto simp: acquire_write_lock_def open_create_new_def Let_def split: fault.splits if_splits)

lemma acquire_Err:
  "acquire_write_lock db d = (d', Err e) \<Longrightarrow> files d' = files d \<and> err_code e = WriteLockConflict"
  by (auto simp: acquire_write_lock_def open_create_new_def Let_def new_error_def
      split: fault.splits if_splits)

lemma lock_step_inv:
  assumes "lock_inv db (d, gs)" "lock_step db (d, gs) st'"
  shows "lock_inv db st'"
  using assms(2)
proof (rule lock_stepE, goal_cases)
  case (1 fl d' g)
  then have "gs = []" using assms(1) by (cases gs) (auto simp: lock_inv_def acquire_Ok file_exists_def)
  with 1 show ?thesis by (auto simp: lock_inv_def acquire_Ok file_exists_def)
next
  case (2 fl d' e)
  from acquire_Err [OF this(2)] have "files d' = files d" by simp
  with 2 assms(1) show ?thesis by (auto simp: lock_inv_def file_exists_def)
next
  case (3 g fl)
  with assms(1) have "remove1 g gs = []" by (cases gs) (auto simp: lock_inv_def)
  with 3 show ?thesis by (simp add: lock_inv_def)
qed

lemma acquire_refused:
  assumes "file_exists (with_extension db ''write.lock'') d"
  shows "\<exists>d' e. acquire_write_lock db d = (d', Err e) \<and> err_code e = WriteLockConflict \<and> files d' = files d"
proof -
  obtain d' r where r: "acquire_write_lock db d = (d', r)" by fastforce
  have "\<exists>e. r = Err e"
    using r assms by (cases r) (auto simp: acquire_Ok acquire_write_lock_def open_create_new_def Let_def split: fault.splits if_splits)
  with r acquire_Err show ?thesis by blast
qed

lemma lock_reachable_inv: "lock_reachable db (d, []) (d', gs) \<Longrightarrow> lock_inv db (d', gs)"
proof (induction rule: rtranclp_induct2)
  case refl
  show ?case by (simp add: lock_inv_def)
next
  case (step d1 gs1 d2 gs2)
  then show ?case using lock_step_inv by blast
qed

text \<open>C8: whatever the interleaving of opening and closing, and whatever faults occur, at most one
  guard for a database file exists at any time; while it exists its lock file is there, and every other attempt
  to take the lock, under any faults, fails with WRITE_LOCK_CONFLICT and changes no file.\<close>

theorem lock_exclusive:
  assumes "lock_reachable db (d, []) (d', gs)"
  shows "length gs \<le> 1 \<and>
    (\<forall>g \<in> set gs. lock_path g = with_extension db ''write.lock'' \<and> file_exists (lock_path g) d') \<and>
    (gs \<noteq> [] \<longrightarrow> (\<forall>fl. \<exists>d2 e. acquire_write_lock db (d'\<lparr>faults := fl\<rparr>) = (d2, Err e) \<and>
       err_code e = WriteLockConflict \<and> files d2 = files d'))"
proof -
  have inv: "length gs \<le> 1" "\<forall>g \<in> set gs. lock_path g = with_extension db ''write.lock'' \<and> file_exists (lock_path g) d'"
    using lock_reachable_inv [OF assms] by (auto simp: lock_inv_def)
  have "\<exists>d2 e. acquire_write_lock db (d'\<lparr>faults := fl\<rparr>) = (d2, Err e) \<and> err_code e = WriteLockConflict \<and> files d2 = files d'"
    if "gs \<noteq> []" for fl
  proof -
    have "hd gs \<in> set gs" using that by simp
    with inv(2) have "file_exists (with_extension db ''write.lock'') (d'\<lparr>faults := fl\<rparr>)" by (auto simp: file_exists_def)
    from acquire_refused [OF this] show ?thesis by simp
  qed
  with inv show ?thesis by blast
qed

theorem lock_exclusive_witness:
  "\<exists>d1 g. acquire_write_lock ''g.db'' \<lparr>files = fmempty, faults = [], ticks = []\<rparr> = (d1, Ok g) \<and> file_exists (lock_path g) d1 \<and>
    (\<exists>d2 e. acquire_write_lock ''g.db'' d1 = (d2, Err e) \<and> err_code e = WriteLockConflict \<and> files d2 = files d1)"
proof -
  let ?d = "\<lparr>files = fmempty, faults = [], ticks = []\<rparr>" and ?p = "with_extension ''g.db'' ''write.lock''"
  let ?d1 = "set_file ?p [] (used_fault ?d)"
  have a: "acquire_write_lock ''g.db'' ?d = (?d1, Ok \<lparr>lock_path = ?p\<rparr>)" by (simp add: acquire_Ok file_exists_def)
  then have "lock_reachable ''g.db'' (?d, []) (?d1, [\<lparr>lock_path = ?p\<rparr>])"
    by (intro r_into_rtranclp lock_step.acquire [where fl = "[]"]) simp
  from lock_exclusive [OF this] have ex: "file_exists ?p ?d1"
    and "\<exists>d2 e. acquire_write_lock ''g.db'' (?d1\<lparr>faults := []\<rparr>) = (d2, Err e) \<and> err_code e = WriteLockConflict \<and> files d2 = files ?d1"
    by auto
  moreover have "?d1\<lparr>faults := []\<rparr> = ?d1" by (simp add: set_file_def used_fault_def)
  ultimately show ?thesis using a by auto
qed

text \<open>The second opener of a database gets WRITE_LOCK_CONFLICT, and after the first has closed it
  the database can be opened again.\<close>

theorem lock_conflict_then_reopen:
  assumes "acquire_write_lock db d = (d1, Ok g)" "faults d1 = []"
  shows "(\<exists>d2 e. acquire_write_lock db d1 = (d2, Err e) \<and> err_code e = WriteLockConflict \<and>
            files d2 = files d1) \<and>
    (\<exists>d3. acquire_write_lock db (drop_guard g d1) = (d3, Ok g))"
proof -
  let ?p = "with_extension db ''write.lock''"
  from assms have g: "g = \<lparr>lock_path = ?p\<rparr>" and d1: "d1 = set_file ?p [] (used_fault d)"
    by (auto simp: acquire_Ok)
  then have ex: "file_exists ?p d1" by (simp add: file_exists_def)
  have "\<exists>d3. acquire_write_lock db (drop_guard g d1) = (d3, Ok g)"
    using assms(2) ex g by (simp add: acquire_Ok drop_guard_def remove_file_def file_exists_def)
  with acquire_refused [OF ex] show ?thesis by blast
qed

theorem lock_conflict_then_reopen_witness:
  "\<exists>d1 g. acquire_write_lock ''g.db'' \<lparr>files = fmempty, faults = [], ticks = []\<rparr> = (d1, Ok g) \<and>
    (\<exists>d2 e. acquire_write_lock ''g.db'' d1 = (d2, Err e) \<and> err_code e = WriteLockConflict \<and>
       files d2 = files d1) \<and>
    (\<exists>d3. acquire_write_lock ''g.db'' (drop_guard g d1) = (d3, Ok g))"
proof -
  let ?d = "\<lparr>files = fmempty, faults = [], ticks = []\<rparr>" and ?p = "with_extension ''g.db'' ''write.lock''"
  have a: "acquire_write_lock ''g.db'' ?d = (set_file ?p [] (used_fault ?d), Ok \<lparr>lock_path = ?p\<rparr>)"
    by (simp add: acquire_Ok file_exists_def)
  have "faults (set_file ?p [] (used_fault ?d)) = []" by simp
  from lock_conflict_then_reopen [OF a this] a show ?thesis by blast
qed

end
