(* ===== verification/Auth.thy ===== *)
theory Auth
  imports Errors
begin

text \<open>
  Bearer token validation of \<^verbatim>\<open>auth.rs\<close>. Base64 and JSON decoding are library code and the clock is
  the machine's: they are parameters (\<open>token_codec\<close>, \<open>now\<close>). A clock before the epoch panics.
\<close>

section \<open>Data\<close>

record auth_config =
  allowed_algorithms :: "string list"
  expected_issuer :: string
  expected_audience :: string
  known_kids :: "string list"

record jwt_header =
  alg :: string
  kid :: "string option"

record jwt_claims =
  iss :: string
  aud :: string
  exp_at :: nat
  nbf :: "nat option"

record token_codec =
  url_safe_decode :: "string \<Rightarrow> string option"
  json_header :: "string \<Rightarrow> jwt_header option"
  json_claims :: "string \<Rightarrow> jwt_claims option"

section \<open>Validation\<close>

definition auth_error :: "string \<Rightarrow> string \<Rightarrow> graph_db_error" where
  "auth_error msg reason = with_detail (new_error AuthFailed msg) ''auth_reason'' reason"

definition decode_segment ::
  "(string \<Rightarrow> string option) \<Rightarrow> (string \<Rightarrow> 'a option) \<Rightarrow> string \<Rightarrow> 'a db_result"
where
  "decode_segment b64 json segment =
     and_then (ok_or (b64 segment) (auth_error ''base64 decode failed'' ''base64_decode_failed''))
       (\<lambda>bytes. ok_or (json bytes) (auth_error ''json decode failed'' ''json_decode_failed''))"

definition check_header :: "auth_config \<Rightarrow> jwt_header \<Rightarrow> unit db_result" where
  "check_header config header =
     (if alg header = ''none'' \<or> \<not> list_ex (\<lambda>a. a = alg header) (allowed_algorithms config) then
        Err (auth_error ''token algorithm not allowed'' ''algorithm_not_allowed'')
      else
        and_then (ok_or (kid header) (new_error AuthFailed ''missing kid'')) (\<lambda>k.
        if length (filter (\<lambda>known. known = k) (known_kids config)) \<noteq> 1 then
          Err (auth_error ''kid unresolved or non-unique'' ''kid_unresolved'')
        else Ok ()))"

definition check_claims :: "nat option \<Rightarrow> auth_config \<Rightarrow> jwt_claims \<Rightarrow> unit db_result" where
  "check_claims clock config claims =
     (if iss claims \<noteq> expected_issuer config then Err (auth_error ''issuer mismatch'' ''issuer_mismatch'')
      else if aud claims \<noteq> expected_audience config then
        Err (auth_error ''audience mismatch'' ''audience_mismatch'')
      else case clock of
        None \<Rightarrow> Panic
      | Some now \<Rightarrow>
          if exp_at claims \<le> now then Err (auth_error ''token expired'' ''token_expired'')
          else if (case nbf claims of Some t \<Rightarrow> now < t | None \<Rightarrow> False) then
            Err (auth_error ''token not yet valid'' ''token_not_yet_valid'')
          else Ok ())"

definition validate_bearer_token ::
  "token_codec \<Rightarrow> nat option \<Rightarrow> auth_config \<Rightarrow> string \<Rightarrow> unit db_result"
where
  "validate_bearer_token tc clock config token =
     (case split_char (CHR ''.'') token of
        [h, p, sig] \<Rightarrow>
          if sig = [] then Err (auth_error ''empty signature'' ''empty_signature'')
          else
            and_then (decode_segment (url_safe_decode tc) (json_header tc) h) (\<lambda>header.
            and_then (decode_segment (url_safe_decode tc) (json_claims tc) p) (\<lambda>claims.
            and_then (check_header config header) (\<lambda>_. check_claims clock config claims)))
      | _ \<Rightarrow> Err (auth_error ''token must have 3 segments'' ''token_segments''))"

section \<open>Properties\<close>

lemma filter_eq_count: "length (filter (\<lambda>y. y = x) xs) = count_list xs x"
  by (induction xs) auto

lemma check_header_Ok:
  "check_header config header = Ok () \<longleftrightarrow>
     alg header \<noteq> ''none'' \<and> alg header \<in> set (allowed_algorithms config) \<and>
     (\<exists>k. kid header = Some k \<and> count_list (known_kids config) k = 1)"
  by (auto simp: check_header_def list_ex_iff filter_eq_count)

lemma check_claims_Ok:
  "check_claims clock config claims = Ok () \<longleftrightarrow>
     iss claims = expected_issuer config \<and> aud claims = expected_audience config \<and>
     (\<exists>now. clock = Some now \<and> now < exp_at claims \<and>
        (case nbf claims of Some t \<Rightarrow> t \<le> now | None \<Rightarrow> True))"
  by (auto simp: check_claims_def split: option.splits)

lemma decode_segment_Ok:
  "decode_segment b64 json s = Ok x \<longleftrightarrow> (\<exists>bs. b64 s = Some bs \<and> json bs = Some x)"
  by (auto simp: decode_segment_def)

text \<open>A token is accepted exactly if it has three segments, the last one not empty, whose first
  two decode to a header and claims that name an allowed algorithm other than none, a key id
  known exactly once, the expected issuer and audience, and a validity interval around now.\<close>

theorem token_accepted_iff:
  "validate_bearer_token tc (Some now) config token = Ok () \<longleftrightarrow>
     (\<exists>h p sig hb pb header claims k.
        split_char (CHR ''.'') token = [h, p, sig] \<and> sig \<noteq> [] \<and>
        url_safe_decode tc h = Some hb \<and> json_header tc hb = Some header \<and>
        url_safe_decode tc p = Some pb \<and> json_claims tc pb = Some claims \<and>
        alg header \<noteq> ''none'' \<and> alg header \<in> set (allowed_algorithms config) \<and>
        kid header = Some k \<and> count_list (known_kids config) k = 1 \<and>
        iss claims = expected_issuer config \<and> aud claims = expected_audience config \<and>
        now < exp_at claims \<and> (case nbf claims of Some t \<Rightarrow> t \<le> now | None \<Rightarrow> True))"
  unfolding validate_bearer_token_def
  by (auto simp: decode_segment_Ok check_header_Ok check_claims_Ok split: list.splits)

text \<open>The signature is never examined: a token that is accepted is accepted with any other
  non-empty text in the place of its signature.\<close>

theorem token_signature_unchecked:
  assumes "validate_bearer_token tc clock config (h @ ''.'' @ p @ ''.'' @ sig) = Ok ()"
    and "CHR ''.'' \<notin> set h" "CHR ''.'' \<notin> set p" "CHR ''.'' \<notin> set sig'" "sig' \<noteq> []"
  shows "validate_bearer_token tc clock config (h @ ''.'' @ p @ ''.'' @ sig') = Ok ()"
proof -
  have s: "split_char (CHR ''.'') (h @ ''.'' @ p @ ''.'' @ x) = h # p # split_char (CHR ''.'') x" for x
    using assms(2,3) by (simp add: split_char_first)
  from assms(1) have "\<exists>x. split_char (CHR ''.'') sig = [x]"
    unfolding validate_bearer_token_def s by (auto split: list.splits)
  with assms(1,4,5) show ?thesis
    unfolding validate_bearer_token_def s by (auto simp: split_char_none split: if_splits)
qed

definition sample_auth :: auth_config where
  "sample_auth = \<lparr>allowed_algorithms = [''RS256''], expected_issuer = ''i'', expected_audience = ''a'',
                  known_kids = [''k'']\<rparr>"

definition sample_tokens :: token_codec where
  "sample_tokens = \<lparr>url_safe_decode = Some,
     json_header = (\<lambda>s. if s = ''H'' then Some \<lparr>alg = ''RS256'', kid = Some ''k''\<rparr> else None),
     json_claims = (\<lambda>s. if s = ''C'' then Some \<lparr>iss = ''i'', aud = ''a'', exp_at = 9, nbf = None\<rparr> else None)\<rparr>"

theorem token_signature_unchecked_witness:
  "validate_bearer_token sample_tokens (Some 5) sample_auth (''H'' @ ''.'' @ ''C'' @ ''.'' @ ''forged'') = Ok ()"
  by (rule token_signature_unchecked [of _ _ _ _ _ "''genuine''"]; code_simp)

end
