(* ===== verification/Protocol.thy ===== *)
theory Protocol
  imports Contracts Errors
begin

text \<open>The version handshake of \<^verbatim>\<open>protocol.rs\<close>.\<close>

record handshake_request =
  hr_protocol_version :: string
  hr_canonical_type_system_version :: string

record handshake_response =
  accepted :: bool
  hp_protocol_version :: "string option"
  hp_canonical_type_system_version :: "string option"

definition negotiate :: "handshake_request \<Rightarrow> handshake_response db_result" where
  "negotiate request =
     (let spec = load_typemap_spec;
          protocol_ok = list_ex (\<lambda>v. v = hr_protocol_version request) (protocol_versions spec);
          canonical_ok = list_ex (\<lambda>v. v = hr_canonical_type_system_version request)
            (canonical_type_system_versions spec)
      in if \<not> protocol_ok \<or> \<not> canonical_ok then
           Err (new_error ProtocolVersionMismatch ''protocol or canonical type system version mismatch'')
         else Ok \<lparr>accepted = True, hp_protocol_version = Some (hr_protocol_version request),
                  hp_canonical_type_system_version = Some (hr_canonical_type_system_version request)\<rparr>)"

text \<open>A handshake succeeds for protocol \<^verbatim>\<open>protocol-p0@1.0.0\<close> with types \<^verbatim>\<open>canonical-types@1.0.0\<close>, as the
  shipped type map lists them, and then echoes both versions; every other pair is refused
  with PROTOCOL_VERSION_MISMATCH.\<close>

theorem negotiate_accepts:
  "negotiate r =
     (if r = \<lparr>hr_protocol_version = ''protocol-p0@1.0.0'',
              hr_canonical_type_system_version = ''canonical-types@1.0.0''\<rparr>
      then Ok \<lparr>accepted = True, hp_protocol_version = Some ''protocol-p0@1.0.0'',
               hp_canonical_type_system_version = Some ''canonical-types@1.0.0''\<rparr>
      else Err (new_error ProtocolVersionMismatch
                  ''protocol or canonical type system version mismatch''))"
  by (cases r) (auto simp: negotiate_def Let_def load_typemap_spec_def)

end
