(* ===== verification/Runtime.thy ===== *)
theory Runtime
  imports Tx_Properties Lock Auth Protocol
begin

text \<open>
  The runtimes of \<^verbatim>\<open>runtime.rs\<close>: opening a database under its write lock, embedded or as a server,
  the handshake and the authorization of the server.
\<close>

section \<open>Data\<close>

datatype deployment_mode = Embedded | Server

record runtime_config =
  mode :: deployment_mode
  config_db_file :: string
  port :: "16 word option"
  concurrency_profile :: "string option"

record embedded_runtime =
  er_lock :: write_lock_guard
  er_tx_manager :: tx_manager

record server_runtime =
  sr_lock :: write_lock_guard
  sr_tx_manager :: tx_manager
  sr_config :: runtime_config
  sr_auth :: auth_config

section \<open>Operations\<close>

text \<open>
  Both runtimes take the lock and then open the manager. The guard is a local variable until the
  runtime is complete: when the manager cannot be opened it is dropped, and the lock file with
  it.
\<close>

definition open_locked :: "codec \<Rightarrow> string \<Rightarrow> (write_lock_guard \<times> tx_manager) io" where
  "open_locked c p =
     op_then (acquire_write_lock p) (\<lambda>lock d.
       case new_manager c (new_engine p) d of
         (d', Ok m) \<Rightarrow> (d', Ok (lock, m))
       | (d', Err e) \<Rightarrow> (drop_guard lock d', Err e)
       | (d', Panic) \<Rightarrow> (drop_guard lock d', Panic))"

definition embedded_open :: "codec \<Rightarrow> string \<Rightarrow> embedded_runtime io" where
  "embedded_open c p =
     op_then (open_locked c p) (\<lambda>(lock, m). lift_op (Ok \<lparr>er_lock = lock, er_tx_manager = m\<rparr>))"

definition validate_server_profile :: "string option \<Rightarrow> nat \<Rightarrow> unit db_result" where
  "validate_server_profile profile active_connections =
     (if profile = Some ''P0-SERVER-CONCURRENCY'' \<and> active_connections < 32 then
        Err (new_error UnsupportedFeature
          ''P0-SERVER-CONCURRENCY requires at least 32 concurrent connections'')
      else Ok ())"

definition server_start :: "codec \<Rightarrow> runtime_config \<Rightarrow> auth_config \<Rightarrow> server_runtime io" where
  "server_start c config auth =
     (if mode config \<noteq> Server then
        lift_op (Err (new_error UnsupportedFeature ''server runtime requires SERVER mode''))
      else
        op_then (lift_op (validate_server_profile (concurrency_profile config) 32)) (\<lambda>_.
        op_then (open_locked c (config_db_file config)) (\<lambda>(lock, m).
        lift_op (Ok \<lparr>sr_lock = lock, sr_tx_manager = m, sr_config = config, sr_auth = auth\<rparr>))))"

definition handshake :: "server_runtime \<Rightarrow> handshake_request \<Rightarrow> unit db_result" where
  "handshake rt request = and_then (negotiate request) (\<lambda>_. Ok ())"

text \<open>
  The clock is read in the middle of the validation, after the checks of header, issuer and
  audience; a validation that would not panic on a missing clock does not read it.
\<close>

definition authorize :: "token_codec \<Rightarrow> server_runtime \<Rightarrow> string option \<Rightarrow> unit io" where
  "authorize tc rt bearer_token =
     (case bearer_token of
        None \<Rightarrow> lift_op (Err (new_error AuthRequired ''authentication required before query execution''))
      | Some token \<Rightarrow>
          (case validate_bearer_token tc None (sr_auth rt) token of
             Panic \<Rightarrow> op_then read_clock (\<lambda>ms.
               lift_op (validate_bearer_token tc (Some (ms div 1000)) (sr_auth rt) token))
           | r \<Rightarrow> lift_op r))"

text \<open>The end of a runtime's life.\<close>

definition close_embedded :: "embedded_runtime \<Rightarrow> fs \<Rightarrow> fs" where
  "close_embedded rt = drop_guard (er_lock rt)"

section \<open>Opening\<close>

definition runtime_paths :: "string \<Rightarrow> bool" where
  "runtime_paths p \<longleftrightarrow>
     distinct [p, with_extension p ''wal'', with_extension p ''audit.log'', with_extension p ''write.lock'']"

lemma runtime_paths_engine: "runtime_paths p \<Longrightarrow> distinct_paths (new_engine p)"
  by (auto simp: runtime_paths_def distinct_paths_def new_engine_def)

lemma persist_snapshot_db_content:
  assumes "snapshot_codec_ok c" "persist_snapshot_from_struct c e sn d = (d', Ok ())"
    and "catalog_version sn = CURRENT_CATALOG_VERSION"
  shows "db_content c e d' = Some (graph sn)"
proof -
  from persist_snapshot_written [OF assms(2)] obtain bs where
    "encode_snapshot c sn = Ok bs" "fmlookup (files d') (db_file e) = Some bs" by blast
  with decode_encode_snapshot [OF assms(1)] assms(3) show ?thesis by (simp add: db_content_def)
qed

lemma load_graph_Ok:
  assumes "snapshot_codec_ok c" "load_graph c e d = (d', Ok g)"
  shows "db_content c e d' = Some g"
proof -
  from assms(2) obtain d1 raw sn mig where rd: "read_file (db_file e) d = (d1, Ok raw)"
    and dec: "decode_snapshot c raw = Ok (sn, mig)" and cv: "catalog_version sn = CURRENT_CATALOG_VERSION"
    and p: "(if mig then persist_snapshot_from_struct c e sn else lift_op (Ok ())) d1 = (d', Ok ())"
    and g: "g = graph sn"
    by (auto simp: load_graph_def op_then_Ok op_err_Ok split: if_splits)
  show ?thesis
  proof (cases mig)
    case True
    with p persist_snapshot_db_content [OF assms(1) _ cv] g show ?thesis by simp
  next
    case False
    with p rd dec cv g show ?thesis
      by (auto simp: db_content_def read_file_def split: fault.splits)
  qed
qed

lemma load_or_init_Ok:
  "snapshot_codec_ok c \<Longrightarrow> load_or_init c e d = (d', Ok g) \<Longrightarrow> db_content c e d' = Some g"
  by (auto simp: load_or_init_def op_then_Ok intro: load_graph_Ok)

lemma only_changes_load_or_init: "only_changes (db_file e) (load_or_init c e)"
proof -
  have "only_changes (db_file e) (load_graph c e)"
    unfolding load_graph_def by (auto intro!: only_changes_intros only_changes_persist split: prod.splits)
  then have "only_changes (db_file e)
      (op_then (if b then lift_op (Ok ()) else persist_snapshot c e new_store) (\<lambda>_. load_graph c e))" for b
    by (auto intro!: only_changes_then only_changes_prims simp: persist_snapshot_def only_changes_persist)
  then show ?thesis by (simp add: only_changes_def load_or_init_def)
qed

text \<open>Operations that leave an empty list of faults empty.\<close>

definition no_new_faults :: "('a, 'e) fs_op \<Rightarrow> bool" where
  "no_new_faults m \<longleftrightarrow> (\<forall>d. faults d = [] \<longrightarrow> faults (fst (m d)) = [])"

lemma no_new_faults_prims:
  "no_new_faults (read_file p)" "no_new_faults (write_file p bs)" "no_new_faults (lift_op r)"
  by (auto simp: no_new_faults_def read_file_def write_file_def)

lemma no_new_faults_then:
  "no_new_faults m \<Longrightarrow> (\<And>x. no_new_faults (f x)) \<Longrightarrow> no_new_faults (op_then m f)"
  unfolding no_new_faults_def op_then_def by (auto split: prod.splits outcome.splits)

lemma no_new_faults_err: "no_new_faults m \<Longrightarrow> no_new_faults (op_err g m)"
  unfolding no_new_faults_def op_err_def by (auto split: prod.splits)

lemma no_new_faultsD: "no_new_faults m \<Longrightarrow> m d = (d', r) \<Longrightarrow> faults d = [] \<Longrightarrow> faults d' = []"
  unfolding no_new_faults_def by (metis fst_conv)

lemma no_new_faults_persist: "no_new_faults (persist_snapshot_from_struct c e sn)"
  unfolding persist_snapshot_from_struct_def
  by (intro no_new_faults_then no_new_faults_err no_new_faults_prims)

lemma no_new_faults_load_or_init: "no_new_faults (load_or_init c e)"
proof -
  have "no_new_faults (load_graph c e)"
    unfolding load_graph_def
    by (auto intro!: no_new_faults_then no_new_faults_err no_new_faults_prims no_new_faults_persist split: prod.splits)
  then have "no_new_faults
      (op_then (if b then lift_op (Ok ()) else persist_snapshot c e new_store) (\<lambda>_. load_graph c e))" for b
    by (auto intro!: no_new_faults_then no_new_faults_prims simp: persist_snapshot_def no_new_faults_persist)
  then show ?thesis by (simp add: no_new_faults_def load_or_init_def)
qed

lemma new_manager_Ok:
  "new_manager c e d = (d', Ok m) \<longleftrightarrow>
     (\<exists>g. load_or_init c e d = (d', Ok g) \<and> m = mgr (opened e g d'))"
  by (auto simp: new_manager_def op_then_Ok opened_def)

lemma open_locked_Ok:
  "open_locked c p d = (d', Ok (lock, m)) \<longleftrightarrow>
     (\<exists>d1 g. acquire_write_lock p d = (d1, Ok lock) \<and> load_or_init c (new_engine p) d1 = (d', Ok g) \<and>
        m = mgr (opened (new_engine p) g d'))"
proof -
  have "(case new_manager c e d1 of
           (d', Ok m) \<Rightarrow> (d', Ok (l, m)) | (d', Err e) \<Rightarrow> (drop_guard l d', Err e)
         | (d', Panic) \<Rightarrow> (drop_guard l d', Panic)) = (d', Ok (lock, m)) \<longleftrightarrow>
      new_manager c e d1 = (d', Ok m) \<and> l = lock" for e d1 l
    by (auto split: prod.splits outcome.splits)
  then show ?thesis by (auto simp: open_locked_def op_then_Ok new_manager_Ok)
qed

lemma embedded_open_Ok:
  "embedded_open c p d = (d', Ok rt) \<longleftrightarrow>
     (\<exists>lock m. open_locked c p d = (d', Ok (lock, m)) \<and> rt = \<lparr>er_lock = lock, er_tx_manager = m\<rparr>)"
  by (auto simp: embedded_open_def op_then_Ok)

lemma files_drop_guard:
  "fmlookup (files (drop_guard g d)) q =
     (if q = lock_path g \<and> next_fault d = NoFault then None else fmlookup (files d) q)"
  by (auto simp: drop_guard_def remove_file_def file_exists_def split: fault.splits)

lemma faults_drop_guard: "faults d = [] \<Longrightarrow> faults (drop_guard g d) = []"
  by (auto simp: drop_guard_def remove_file_def)

lemma open_locked_held:
  assumes "runtime_paths p" "db_content c (new_engine p) d = Some g" "faults d = []"
    and "\<not> file_exists (with_extension p ''write.lock'') d"
  shows "\<exists>d' lock m. open_locked c p d = (d', Ok (lock, m)) \<and> base_graph m = g"
proof -
  let ?l = "with_extension p ''write.lock''"
  let ?d = "set_file ?l [] (used_fault d)"
  have a: "acquire_write_lock p d = (?d, Ok \<lparr>lock_path = ?l\<rparr>)"
    using assms(3,4) by (simp add: acquire_Ok)
  have "?l \<noteq> p" using assms(1) by (auto simp: runtime_paths_def)
  with assms(2) have "db_content c (new_engine p) ?d = Some g"
    by (simp add: db_content_def new_engine_def)
  moreover have "faults ?d = []" using assms(3) by simp
  ultimately obtain d' where "load_or_init c (new_engine p) ?d = (d', Ok g)"
    using load_or_init_db_content load_graph_db_content by metis
  with a show ?thesis by (fastforce simp: open_locked_Ok opened_def)
qed

text \<open>After a manager was opened and used, its lock dropped: what the next open finds.\<close>

lemma reopen_after_close:
  assumes "codec_ok c" "runtime_paths p" "load_or_init c (new_engine p) d0 = (d1, Ok g)"
    and "tx_reachable c (opened (new_engine p) g d1) st"
    and "lock_path lock = with_extension p ''write.lock''"
  shows "\<exists>d2 rt2. embedded_open c p (drop_guard lock ((disk_of st)\<lparr>faults := []\<rparr>)) = (d2, Ok rt2) \<and>
    current_graph (er_tx_manager rt2) = current_graph (mgr st)"
proof -
  let ?e = "new_engine p" and ?d = "drop_guard lock ((disk_of st)\<lparr>faults := []\<rparr>)"
  have sc: "snapshot_codec_ok c" using assms(1) by (simp add: codec_ok_def)
  have "db_view.held c ?e (opened ?e g d1)"
    using load_or_init_Ok [OF sc assms(3)] by (simp add: db_view.held_def opened_def)
  then have "db_view.held c ?e st"
    by (rule db_view.reachable_held [OF assms(1) runtime_paths_engine [OF assms(2)] assms(4), rotated])
  then have "db_content c ?e (disk_of st) = Some (base_graph (mgr st))" by (simp add: db_view.held_def)
  moreover have "p \<noteq> with_extension p ''write.lock''" using assms(2) by (auto simp: runtime_paths_def)
  ultimately have "db_content c ?e ?d = Some (base_graph (mgr st))"
    using assms(5) by (simp add: db_content_def files_drop_guard new_engine_def)
  moreover have "\<not> file_exists (with_extension p ''write.lock'') ?d"
    using assms(5) by (simp add: file_exists_def files_drop_guard)
  moreover have "faults ?d = []" by (simp add: faults_drop_guard)
  ultimately obtain d2 l m where "open_locked c p ?d = (d2, Ok (l, m))" "base_graph m = base_graph (mgr st)"
    using open_locked_held [OF assms(2)] by blast
  then show ?thesis by (auto simp: embedded_open_Ok current_graph_def)
qed

section \<open>Properties\<close>

text \<open>A database is opened, any interleaving of transactions runs on it, and it is closed: the
  next open of the same file succeeds and starts from the graph that was committed.\<close>

theorem reopen_returns_committed:
  assumes "codec_ok c" "runtime_paths p"
    and "embedded_open c p d = (d1, Ok rt)"
    and "tx_reachable c (opened (new_engine p) (current_graph (er_tx_manager rt)) d1) st"
  shows "er_tx_manager rt = mgr (opened (new_engine p) (current_graph (er_tx_manager rt)) d1) \<and>
    (\<exists>d2 rt2. embedded_open c p (close_embedded rt ((disk_of st)\<lparr>faults := []\<rparr>)) = (d2, Ok rt2) \<and>
    current_graph (er_tx_manager rt2) = current_graph (mgr st))"
proof -
  from assms(3) obtain d0 g where acq: "acquire_write_lock p d = (d0, Ok (er_lock rt))"
    and g: "load_or_init c (new_engine p) d0 = (d1, Ok g)" "er_tx_manager rt = mgr (opened (new_engine p) g d1)"
    by (auto simp: embedded_open_Ok open_locked_Ok)
  from acq have lp: "lock_path (er_lock rt) = with_extension p ''write.lock''" by (auto simp: acquire_Ok)
  from g have cg: "g = current_graph (er_tx_manager rt)" by (simp add: current_graph_def opened_def)
  from reopen_after_close [OF assms(1,2) g(1) assms(4) [folded cg] lp] g(2) cg show ?thesis
    by (simp add: close_embedded_def)
qed

text \<open>An open that fails without input or output errors, because the lock is held or the database
  cannot be loaded, leaves every file but the database file as it was: in particular the lock
  file that it created is gone again, so that the next open does not meet it.\<close>

theorem failed_open_releases_lock:
  assumes "open_locked c p d = (d', Err e)" "faults d = []" "q \<noteq> p"
  shows "fmlookup (files d') q = fmlookup (files d) q"
proof (cases "acquire_write_lock p d")
  case (Pair d0 r)
  show ?thesis
  proof (cases r)
    case (Ok lock)
    have l: "lock_path lock = with_extension p ''write.lock''" "\<not> file_exists (lock_path lock) d"
      "d0 = set_file (lock_path lock) [] (used_fault d)"
      using Pair Ok by (auto simp: acquire_Ok)
    obtain d1 r1 where lo: "load_or_init c (new_engine p) d0 = (d1, r1)" by fastforce
    with assms(1) Pair Ok have "d' = drop_guard lock d1"
      by (cases r1) (auto simp: open_locked_def new_manager_def)
    moreover have "faults d1 = []"
      using no_new_faultsD [OF no_new_faults_load_or_init lo] l(3) assms(2) by simp
    moreover have "fmlookup (files d1) q = fmlookup (files d0) q"
      by (rule only_changesD [OF only_changes_load_or_init lo]) (use assms(3) in \<open>simp add: new_engine_def\<close>)
    ultimately show ?thesis using l by (auto simp: files_drop_guard file_exists_def)
  next
    case (Err x)
    with Pair assms(1) show ?thesis by (auto simp: open_locked_def dest: acquire_Err)
  next
    case Panic
    with Pair assms(1) show ?thesis by (auto simp: open_locked_def)
  qed
qed

text \<open>While a database is open, and whatever transactions run on it, every other attempt to open
  it, embedded or as a server, fails with WRITE_LOCK_CONFLICT and changes no file.\<close>

theorem open_excludes_open:
  assumes "codec_ok c" "runtime_paths p" "embedded_open c p d = (d1, Ok rt)"
    and "tx_reachable c (opened (new_engine p) (current_graph (er_tx_manager rt)) d1) st"
    and "mode config = Server" "config_db_file config = p"
  shows "(\<exists>d2 e. embedded_open c p (disk_of st) = (d2, Err e) \<and> err_code e = WriteLockConflict \<and>
            files d2 = files (disk_of st)) \<and>
    (\<exists>d2 e. server_start c config auth (disk_of st) = (d2, Err e) \<and> err_code e = WriteLockConflict \<and>
       files d2 = files (disk_of st))"
proof -
  let ?l = "with_extension p ''write.lock''" and ?e = "new_engine p"
  from assms(3) obtain d0 g where a: "acquire_write_lock p d = (d0, Ok (er_lock rt))"
    and lo: "load_or_init c ?e d0 = (d1, Ok g)" by (auto simp: embedded_open_Ok open_locked_Ok)
  have l: "?l \<notin> {db_file ?e, wal_file ?e, audit_file ?e}"
    using assms(2) by (auto simp: runtime_paths_def new_engine_def)
  have "file_exists ?l d0" using a by (auto simp: acquire_Ok file_exists_def)
  then have "file_exists ?l d1"
    using only_changesD [OF only_changes_load_or_init lo, of ?l] l by (simp add: file_exists_def)
  with l have "other_view.held ?l ?e (opened ?e (current_graph (er_tx_manager rt)) d1)"
    unfolding other_view.held_def by (simp add: opened_def)
  from other_view.reachable_held [OF assms(1) runtime_paths_engine [OF assms(2)] assms(4) this]
  have ex: "file_exists ?l (disk_of st)" unfolding other_view.held_def by simp
  obtain d2 r where r: "acquire_write_lock p (disk_of st) = (d2, r)" by fastforce
  have "\<exists>err. r = Err err"
    using r ex by (auto simp: acquire_write_lock_def open_create_new_def Let_def split: fault.splits)
  then obtain err where err: "r = Err err" by blast
  then have "open_locked c p (disk_of st) = (d2, Err err)" using r by (simp add: open_locked_def)
  with acquire_Err [of p "disk_of st" d2 err] r err assms(5,6) show ?thesis
    by (simp add: embedded_open_def server_start_def validate_server_profile_def)
qed

section \<open>Instances\<close>

lemma sample_runtime_paths: "runtime_paths ''data/graph.db''"
  by code_simp

lemma sample_open:
  "\<exists>d1 rt. embedded_open sample_codec ''data/graph.db'' sample_disk = (d1, Ok rt)"
proof -
  have ne: "with_extension ''data/graph.db'' ''write.lock'' \<noteq> db_file sample_engine"
    "with_extension ''data/graph.db'' ''write.lock'' \<noteq> wal_file sample_engine"
    by (code_simp)+
  have "\<not> file_exists (with_extension ''data/graph.db'' ''write.lock'') sample_disk"
    using only_changes_persist_after_wal [OF sample_disk_run ne] by (simp add: file_exists_def empty_disk_def)
  from open_locked_held [OF sample_runtime_paths sample_disk_holds(2) [unfolded sample_engine_def] sample_disk_faults this]
  show ?thesis by (fastforce simp: embedded_open_Ok)
qed

theorem reopen_returns_committed_witness:
  "\<exists>d1 rt. embedded_open sample_codec ''data/graph.db'' sample_disk = (d1, Ok rt) \<and>
    (\<exists>d2 rt2. embedded_open sample_codec ''data/graph.db''
        (close_embedded rt ((disk_of (opened (new_engine ''data/graph.db'')
          (current_graph (er_tx_manager rt)) d1))\<lparr>faults := []\<rparr>)) = (d2, Ok rt2) \<and>
      current_graph (er_tx_manager rt2) = current_graph (er_tx_manager rt))"
proof -
  from sample_open obtain d1 rt where
    o: "embedded_open sample_codec ''data/graph.db'' sample_disk = (d1, Ok rt)" by blast
  from reopen_returns_committed [OF sample_codec_ok sample_runtime_paths o rtranclp.rtrancl_refl] o
  show ?thesis by (auto simp: opened_def current_graph_def)
qed

theorem open_excludes_open_witness:
  "\<exists>d1 rt. embedded_open sample_codec ''data/graph.db'' sample_disk = (d1, Ok rt) \<and>
    (\<exists>d2 e. embedded_open sample_codec ''data/graph.db'' d1 = (d2, Err e) \<and>
       err_code e = WriteLockConflict \<and> files d2 = files d1)"
proof -
  from sample_open obtain d1 rt where
    o: "embedded_open sample_codec ''data/graph.db'' sample_disk = (d1, Ok rt)" by blast
  let ?config = "\<lparr>mode = Server, config_db_file = ''data/graph.db'', port = None, concurrency_profile = None\<rparr>"
  from open_excludes_open [OF sample_codec_ok sample_runtime_paths o rtranclp.rtrancl_refl, of ?config] o
  show ?thesis by (auto simp: opened_def)
qed

text \<open>A database file that is not one.\<close>

definition broken_disk :: fs where
  "broken_disk = \<lparr>files = fmupd ''data/graph.db'' ''AGSN'' fmempty, faults = [], ticks = []\<rparr>"

lemma broken_open:
  "\<exists>d' e. open_locked sample_codec ''data/graph.db'' broken_disk = (d', Err e)"
proof -
  let ?l = "with_extension ''data/graph.db'' ''write.lock''"
  let ?d = "set_file ?l [] (used_fault broken_disk)"
  have ne: "?l \<noteq> ''data/graph.db''" by code_simp
  have a: "acquire_write_lock ''data/graph.db'' broken_disk = (?d, Ok \<lparr>lock_path = ?l\<rparr>)"
    using ne by (simp add: acquire_Ok broken_disk_def file_exists_def)
  have dec: "decode_snapshot sample_codec ''AGSN'' = Err (new_error IncompatibleFormat ''snapshot file is truncated'')"
    by (simp add: decode_snapshot_def SNAPSHOT_MAGIC_def)
  have "\<exists>d1 e. load_or_init sample_codec (new_engine ''data/graph.db'') ?d = (d1, Err e)"
    using ne dec
    by (simp add: load_or_init_def load_graph_def new_engine_def broken_disk_def file_exists_def
        read_file_def op_then_def op_err_def)
  with a show ?thesis by (auto simp: open_locked_def new_manager_def)
qed

theorem failed_open_releases_lock_witness:
  "\<exists>d' e. open_locked sample_codec ''data/graph.db'' broken_disk = (d', Err e) \<and>
    fmlookup (files d') ''data/graph.write.lock'' = None"
proof -
  from broken_open obtain d' e where
    o: "open_locked sample_codec ''data/graph.db'' broken_disk = (d', Err e)" by blast
  from failed_open_releases_lock [OF o, of "''data/graph.write.lock''"] o show ?thesis
    by (simp add: broken_disk_def)
qed

end
