(* ===== verification/Server.thy ===== *)
theory Server
  imports Runtime Query_Correct
begin

text \<open>
  The server of \<^verbatim>\<open>server.rs\<close>: requests and responses, the session state of a connection, the
  handler of every request under the mutex of the runtime, the loop of a connection and the
  interleaving of the connections. JSON is library code: \<open>wire_codec\<close> is a parameter.
\<close>

section \<open>Data\<close>

datatype server_request =
    Ping
  | Handshake string string
  | Auth string
  | BeginTx
  | Query string string "cypher_dialect option"
  | CommitTx string
  | RollbackTx string

datatype server_response =
    Pong
  | HandshakeOk string string
  | AuthOk
  | TxBegun string
  | QueryResult query_result
  | TxCommitted string
  | TxRolledBack string
  | Error string string "(string, string) fmap option"

datatype session_state = Connected | TlsOk | AuthPassed | AppReady

text \<open>
  The shared \<^verbatim>\<open>Arc<Mutex<ServerRuntime>>\<close> with the file system it works on. A panic of a thread that
  holds the mutex poisons it. A handler returns \<open>None\<close> when its thread panics.
\<close>

record server_state =
  sv_runtime :: server_runtime
  sv_disk :: fs
  sv_poisoned :: bool

type_synonym iter_order = "graph_node list \<Rightarrow> graph_node list"

abbreviation sv_manager :: "server_state \<Rightarrow> tx_manager" where
  "sv_manager sv \<equiv> sr_tx_manager (sv_runtime sv)"

section \<open>Responses\<close>

definition to_error_response :: "graph_db_error \<Rightarrow> server_response" where
  "to_error_response e = Error (as_str (err_code e)) (err_message e) (err_details e)"

definition lock_poisoned_error :: server_response where
  "lock_poisoned_error = Error ''UNSUPPORTED_FEATURE'' ''runtime lock poisoned'' None"

section \<open>The mutex\<close>

text \<open>The critical section of a handler: it works on the runtime and the file system.\<close>

definition with_lock ::
  "(server_runtime \<Rightarrow> fs \<Rightarrow> server_runtime \<times> fs \<times> server_response option) \<Rightarrow> server_state
     \<Rightarrow> server_state \<times> server_response option"
where
  "with_lock f sv =
     (if sv_poisoned sv then (sv, Some lock_poisoned_error)
      else case f (sv_runtime sv) (sv_disk sv) of
        (rt, d, r) \<Rightarrow> (\<lparr>sv_runtime = rt, sv_disk = d, sv_poisoned = (r = None)\<rparr>, r))"

text \<open>\<^verbatim>\<open>record_audit\<close> does nothing on a poisoned mutex; its result is whether the thread survives.\<close>

definition record_audit ::
  "codec \<Rightarrow> string \<Rightarrow> string option \<Rightarrow> string \<Rightarrow> string option \<Rightarrow> (string, string) fmap
     \<Rightarrow> server_state \<Rightarrow> server_state \<times> bool"
where
  "record_audit c ty code msg tx pl sv =
     (if sv_poisoned sv then (sv, True)
      else case record_audit_event c (sv_manager sv) ty code msg tx pl (sv_disk sv) of
        (d, Panic) \<Rightarrow> (sv\<lparr>sv_disk := d, sv_poisoned := True\<rparr>, False)
      | (d, _) \<Rightarrow> (sv\<lparr>sv_disk := d\<rparr>, True))"

definition error_event :: "error_code \<Rightarrow> string option" where
  "error_event code =
     (case code of
        AuthFailed \<Rightarrow> Some ''AUTH_FAILED''
      | AuthRequired \<Rightarrow> Some ''AUTH_REQUIRED_REJECTED''
      | ReferentialIntegrityViolation \<Rightarrow> Some ''REFERENTIAL_INTEGRITY_VIOLATION''
      | RetryableConflict \<Rightarrow> Some ''DETERMINISTIC_CONFLICT''
      | _ \<Rightarrow> None)"

definition audit_on_error_with_guard ::
  "codec \<Rightarrow> tx_manager \<Rightarrow> graph_db_error \<Rightarrow> string option \<Rightarrow> unit io"
where
  "audit_on_error_with_guard c m e tx =
     (case error_event (err_code e) of
        Some ty \<Rightarrow> op_ignore (record_audit_event c m ty (Some (as_str (err_code e))) (err_message e) tx fmempty)
      | None \<Rightarrow> lift_op (Ok ()))"

text \<open>The end of a handler: the response, after the audit record of an error.\<close>

definition conclude ::
  "codec \<Rightarrow> string \<Rightarrow> ('a \<Rightarrow> server_response) \<Rightarrow> server_runtime \<times> fs \<times> 'a db_result
     \<Rightarrow> server_runtime \<times> fs \<times> server_response option"
where
  "conclude c tx ok x =
     (case x of
        (rt, d, Ok y) \<Rightarrow> (rt, d, Some (ok y))
      | (rt, d, Err e) \<Rightarrow>
          (case audit_on_error_with_guard c (sr_tx_manager rt) e (Some tx) d of
             (d', Panic) \<Rightarrow> (rt, d', None)
           | (d', _) \<Rightarrow> (rt, d', Some (to_error_response e)))
      | (rt, d, Panic) \<Rightarrow> (rt, d, None))"

section \<open>Handlers\<close>

text \<open>A request that comes too early is audited and refused.\<close>

definition reject_unready ::
  "codec \<Rightarrow> string \<Rightarrow> string \<Rightarrow> server_state \<Rightarrow> server_state \<times> server_response option"
where
  "reject_unready c msg req sv =
     (case record_audit c ''AUTH_REQUIRED_REJECTED'' (Some ''AUTH_REQUIRED'') msg None
             (fmupd ''request'' req fmempty) sv of
        (sv', alive) \<Rightarrow> (sv', if alive then Some (Error ''AUTH_REQUIRED'' msg None) else None))"

definition on_handshake ::
  "string \<Rightarrow> string \<Rightarrow> session_state \<Rightarrow> server_state
     \<Rightarrow> server_state \<times> session_state \<times> server_response option"
where
  "on_handshake pv cv st sv =
     (case with_lock (\<lambda>rt d. (rt, d,
             case handshake rt \<lparr>hr_protocol_version = pv, hr_canonical_type_system_version = cv\<rparr> of
               Ok _ \<Rightarrow> Some (HandshakeOk pv cv)
             | Err e \<Rightarrow> Some (to_error_response e)
             | Panic \<Rightarrow> None)) sv of
        (sv', r) \<Rightarrow> (sv', if r = Some (HandshakeOk pv cv) then TlsOk else st, r))"

definition on_auth ::
  "codec \<Rightarrow> token_codec \<Rightarrow> string \<Rightarrow> session_state \<Rightarrow> server_state
     \<Rightarrow> server_state \<times> session_state \<times> server_response option"
where
  "on_auth c tc token st sv =
     (if st \<noteq> TlsOk then
        (case reject_unready c ''handshake required before auth'' ''auth'' sv of (sv', r) \<Rightarrow> (sv', st, r))
      else
        (case with_lock (\<lambda>rt d.
            case authorize tc rt (Some token) d of
              (d', Ok _) \<Rightarrow> (rt, d', Some AuthOk)
            | (d', Err e) \<Rightarrow>
                (case op_ignore (record_audit_event c (sr_tx_manager rt) ''AUTH_FAILED''
                        (Some (as_str (err_code e))) (err_message e) None fmempty) d'
                      :: fs \<times> unit db_result of
                   (d'', Panic) \<Rightarrow> (rt, d'', None)
                 | (d'', _) \<Rightarrow> (rt, d'', Some (to_error_response e)))
            | (d', Panic) \<Rightarrow> (rt, d', None)) sv of
           (sv', r) \<Rightarrow> (sv', if r = Some AuthOk then AppReady else st, r)))"

definition on_begin ::
  "codec \<Rightarrow> session_state \<Rightarrow> server_state \<Rightarrow> server_state \<times> server_response option"
where
  "on_begin c st sv =
     (if st \<noteq> AppReady then reject_unready c ''APP_READY required before begin_tx'' ''begin_tx'' sv
      else with_lock (\<lambda>rt d.
        case begin_tx (sr_tx_manager rt) of
          (m, tx) \<Rightarrow> (rt\<lparr>sr_tx_manager := m\<rparr>, d, Some (TxBegun tx))) sv)"

definition on_query ::
  "codec \<Rightarrow> iter_order \<Rightarrow> string \<Rightarrow> string \<Rightarrow> cypher_dialect option \<Rightarrow> session_state \<Rightarrow> server_state
     \<Rightarrow> server_state \<times> server_response option"
where
  "on_query c it tx query dialect st sv =
     (if st \<noteq> AppReady then reject_unready c ''APP_READY required before query'' ''query'' sv
      else with_lock (\<lambda>rt d.
        case resolve_cypher_dialect query dialect of
          (resolved_dialect, resolved_query) \<Rightarrow>
            (case graph_mut (sr_tx_manager rt) tx
                    (\<lambda>g. execute_query_with_dialect it g resolved_query resolved_dialect) of
               (m, r) \<Rightarrow> conclude c tx QueryResult (rt\<lparr>sr_tx_manager := m\<rparr>, d, r))) sv)"

definition on_commit ::
  "codec \<Rightarrow> string \<Rightarrow> session_state \<Rightarrow> server_state \<Rightarrow> server_state \<times> server_response option"
where
  "on_commit c tx st sv =
     (if st \<noteq> AppReady then reject_unready c ''APP_READY required before commit'' ''commit_tx'' sv
      else with_lock (\<lambda>rt d.
        case commit c (sr_tx_manager rt) tx d of
          (m, d', r) \<Rightarrow> conclude c tx (\<lambda>_. TxCommitted tx) (rt\<lparr>sr_tx_manager := m\<rparr>, d', r)) sv)"

definition on_rollback ::
  "codec \<Rightarrow> string \<Rightarrow> session_state \<Rightarrow> server_state \<Rightarrow> server_state \<times> server_response option"
where
  "on_rollback c tx st sv =
     (if st \<noteq> AppReady then reject_unready c ''APP_READY required before rollback'' ''rollback_tx'' sv
      else with_lock (\<lambda>rt d.
        case rollback c (sr_tx_manager rt) tx d of
          (m, d', r) \<Rightarrow> conclude c tx (\<lambda>_. TxRolledBack tx) (rt\<lparr>sr_tx_manager := m\<rparr>, d', r)) sv)"

definition process_request ::
  "codec \<Rightarrow> token_codec \<Rightarrow> iter_order \<Rightarrow> server_request \<Rightarrow> session_state \<Rightarrow> server_state
     \<Rightarrow> server_state \<times> session_state \<times> server_response option"
where
  "process_request c tc it request st sv =
     (case request of
        Ping \<Rightarrow> (sv, st, Some Pong)
      | Handshake pv cv \<Rightarrow> on_handshake pv cv st sv
      | Auth token \<Rightarrow> on_auth c tc token st sv
      | BeginTx \<Rightarrow> (case on_begin c st sv of (sv', r) \<Rightarrow> (sv', st, r))
      | Query tx query dialect \<Rightarrow> (case on_query c it tx query dialect st sv of (sv', r) \<Rightarrow> (sv', st, r))
      | CommitTx tx \<Rightarrow> (case on_commit c tx st sv of (sv', r) \<Rightarrow> (sv', st, r))
      | RollbackTx tx \<Rightarrow> (case on_rollback c tx st sv of (sv', r) \<Rightarrow> (sv', st, r)))"

section \<open>Connections\<close>

record wire_codec =
  json_de_request :: "string \<Rightarrow> (server_request, string) outcome"
  json_ser_response :: "server_response \<Rightarrow> (string, string) outcome"

text \<open>What \<^verbatim>\<open>read_line\<close> and \<^verbatim>\<open>write_all\<close> of a connection may return.\<close>

datatype read_result = Line string | Eof | ReadError string

datatype write_result = Written | WriteError nat string

datatype thread_end = Returned "(unit, string) outcome" | Panicked

record connection =
  cn_state :: session_state
  cn_trace :: "(server_request \<times> server_response) list"
  cn_sent :: string
  cn_end :: "thread_end option"

definition new_connection :: connection where
  "new_connection = \<lparr>cn_state = Connected, cn_trace = [], cn_sent = [], cn_end = None\<rparr>"

definition write_response :: "wire_codec \<Rightarrow> write_result \<Rightarrow> server_response \<Rightarrow> connection \<Rightarrow> connection" where
  "write_response wc w response cn =
     (case json_ser_response wc response of
        Ok body \<Rightarrow>
          (case w of
             Written \<Rightarrow> cn\<lparr>cn_sent := cn_sent cn @ body @ [CHR 0x0A]\<rparr>
           | WriteError k e \<Rightarrow>
               cn\<lparr>cn_sent := cn_sent cn @ take k (body @ [CHR 0x0A]), cn_end := Some (Returned (Err e))\<rparr>)
      | Err e \<Rightarrow> cn\<lparr>cn_end := Some (Returned (Err (''failed to serialize response: '' @ e)))\<rparr>
      | Panic \<Rightarrow> cn\<lparr>cn_end := Some Panicked\<rparr>)"

text \<open>One turn of the loop of \<^verbatim>\<open>handle_connection\<close>; the trace records requests with their responses.\<close>

definition connection_turn ::
  "codec \<Rightarrow> token_codec \<Rightarrow> wire_codec \<Rightarrow> iter_order \<Rightarrow> read_result \<Rightarrow> write_result
     \<Rightarrow> server_state \<Rightarrow> connection \<Rightarrow> server_state \<times> connection"
where
  "connection_turn c tc wc it input w sv cn =
     (case input of
        Eof \<Rightarrow> (sv, cn\<lparr>cn_end := Some (Returned (Ok ()))\<rparr>)
      | ReadError e \<Rightarrow> (sv, cn\<lparr>cn_end := Some (Returned (Err e))\<rparr>)
      | Line l \<Rightarrow>
          (let trimmed = trim l in
           if trimmed = [] then (sv, cn)
           else case json_de_request wc trimmed of
             Ok req \<Rightarrow>
               (case process_request c tc it req (cn_state cn) sv of
                  (sv', st, Some r) \<Rightarrow>
                    (sv', write_response wc w r (cn\<lparr>cn_state := st, cn_trace := cn_trace cn @ [(req, r)]\<rparr>))
                | (sv', st, None) \<Rightarrow> (sv', cn\<lparr>cn_state := st, cn_end := Some Panicked\<rparr>))
           | Err e \<Rightarrow>
               (sv, write_response wc w
                  (Error ''UNSUPPORTED_FEATURE'' (''invalid request payload: '' @ e) None) cn)
           | Panic \<Rightarrow> (sv, cn\<lparr>cn_end := Some Panicked\<rparr>)))"

text \<open>
  \<^verbatim>\<open>ServerTransport::run\<close>: connections are accepted up to the limit and served by their threads,
  which interleave at whole requests because a handler locks the mutex once.
\<close>

definition may_accept :: "nat option \<Rightarrow> nat \<Rightarrow> bool" where
  "may_accept max_connections n = (case max_connections of Some k \<Rightarrow> n < k | None \<Rightarrow> True)"

inductive server_step ::
  "codec \<Rightarrow> token_codec \<Rightarrow> wire_codec \<Rightarrow> nat option
     \<Rightarrow> server_state \<times> connection list \<Rightarrow> server_state \<times> connection list \<Rightarrow> bool"
  for c :: codec and tc :: token_codec and wc :: wire_codec and max_connections :: "nat option"
where
  accept: "may_accept max_connections (length cs) \<Longrightarrow>
     server_step c tc wc max_connections (sv, cs) (sv, cs @ [new_connection])"
| serve: "i < length cs \<Longrightarrow> cn_end (cs ! i) = None \<Longrightarrow>
     connection_turn c tc wc it input w sv (cs ! i) = (sv', cn') \<Longrightarrow>
     server_step c tc wc max_connections (sv, cs) (sv', cs[i := cn'])"

inductive_cases server_stepE: "server_step c tc wc mx st st'"

abbreviation server_reachable where
  "server_reachable c tc wc mx \<equiv> (server_step c tc wc mx)\<^sup>*\<^sup>*"

definition server_init :: "server_runtime \<Rightarrow> fs \<Rightarrow> server_state \<times> connection list" where
  "server_init rt d = (\<lparr>sv_runtime = rt, sv_disk = d, sv_poisoned = False\<rparr>, [])"

text \<open>The joins at the end of \<^verbatim>\<open>run\<close>: the first failure is returned.\<close>

fun join_threads :: "thread_end list \<Rightarrow> (unit, string) outcome" where
  "join_threads [] = Ok ()"
| "join_threads (Panicked # ts) = Err ''server thread panic''"
| "join_threads (Returned (Ok _) # ts) = join_threads ts"
| "join_threads (Returned (Err e) # ts) = Err e"
| "join_threads (Returned Panic # ts) = Err ''server thread panic''"

end
