(* ===== verification/Server_Correct.thy ===== *)
theory Server_Correct
  imports Server
begin

text \<open>
  What a request may do, as a relation on the transaction manager and the disk, and the proof
  that every handler stays within it. The invariants of the server follow from this relation.
\<close>

section \<open>The effect of a request\<close>

text \<open>Audit records and readings of the clock.\<close>

inductive quiet :: "codec \<Rightarrow> tx_manager \<Rightarrow> fs \<Rightarrow> fs \<Rightarrow> bool" for c m d where
  quiet_refl: "quiet c m d d"
| quiet_audit: "quiet c m d d1 \<Longrightarrow> record_audit_event c m ty code msg tx pl d1 = (d2, r) \<Longrightarrow> quiet c m d d2"
| quiet_clock: "quiet c m d d1 \<Longrightarrow> quiet c m d (d1\<lparr>ticks := ts\<rparr>)"

fun app_response :: "server_response \<Rightarrow> bool" where
  "app_response (TxBegun _) = True"
| "app_response (QueryResult _) = True"
| "app_response (TxCommitted _) = True"
| "app_response (TxRolledBack _) = True"
| "app_response _ = False"

text \<open>At most one operation of the manager, and the response that reports it.\<close>

definition reports :: "('a \<Rightarrow> server_response) \<Rightarrow> 'a db_result \<Rightarrow> server_response option \<Rightarrow> bool" where
  "reports ok x r \<longleftrightarrow>
     (case x of
        Ok y \<Rightarrow> r = Some (ok y)
      | Err e \<Rightarrow> r = Some (to_error_response e) \<or> r = None
      | Panic \<Rightarrow> r = None)"

inductive effect ::
  "codec \<Rightarrow> server_request \<Rightarrow> tx_manager \<Rightarrow> fs \<Rightarrow> tx_manager \<Rightarrow> fs \<Rightarrow> server_response option \<Rightarrow> bool"
  for c req m d
where
  no_op: "quiet c m d d' \<Longrightarrow> (\<forall>x. r = Some x \<longrightarrow> \<not> app_response x) \<Longrightarrow> effect c req m d m d' r"
| begin_op: "req = BeginTx \<Longrightarrow> begin_tx m = (m', tx) \<Longrightarrow> effect c req m d m' d (Some (TxBegun tx))"
| query_op: "req = Query tx query dialect \<Longrightarrow> resolve_cypher_dialect query dialect = (dl, q) \<Longrightarrow>
     graph_mut m tx (\<lambda>g. execute_query_with_dialect it g q dl) = (m', x) \<Longrightarrow>
     quiet c m' d d' \<Longrightarrow> reports QueryResult x r \<Longrightarrow> effect c req m d m' d' r"
| commit_op: "req = CommitTx tx \<Longrightarrow> commit c m tx d = (m', d1, x) \<Longrightarrow>
     quiet c m' d1 d' \<Longrightarrow> reports (\<lambda>_. TxCommitted tx) x r \<Longrightarrow> effect c req m d m' d' r"
| rollback_op: "req = RollbackTx tx \<Longrightarrow> rollback c m tx d = (m', d1, x) \<Longrightarrow>
     quiet c m' d1 d' \<Longrightarrow> reports (\<lambda>_. TxRolledBack tx) x r \<Longrightarrow> effect c req m d m' d' r"

section \<open>Every handler stays within it\<close>

lemma quiet_ignore:
  assumes "quiet c m d d0"
    and "(op_ignore (record_audit_event c m ty code msg tx pl) d0 :: fs \<times> unit db_result) = (d', x)"
  shows "quiet c m d d'"
proof -
  obtain d1 y where "record_audit_event c m ty code msg tx pl d0 = (d1, y)" by fastforce
  moreover with assms have "d' = d1" by (auto simp: op_ignore_def split: outcome.splits)
  ultimately show ?thesis using assms(1) by (auto intro: quiet_audit)
qed

lemma audit_on_error_quiet:
  "audit_on_error_with_guard c m e tx d = (d', x) \<Longrightarrow> quiet c m d d'"
  by (auto simp: audit_on_error_with_guard_def intro: quiet_refl quiet_ignore [OF quiet_refl] split: option.splits)

lemma conclude_effect:
  assumes "conclude c tx ok (rt, d, x) = (rt', d', r)"
  shows "rt' = rt \<and> quiet c (sr_tx_manager rt) d d' \<and> reports ok x r"
  using assms audit_on_error_quiet
  by (fastforce simp: conclude_def reports_def intro: quiet_refl split: outcome.splits prod.splits)

lemma reject_unready_effect:
  assumes "reject_unready c msg req sv = (sv', r)"
  shows "sv_runtime sv' = sv_runtime sv \<and> quiet c (sv_manager sv) (sv_disk sv) (sv_disk sv') \<and>
    (r = Some (Error ''AUTH_REQUIRED'' msg None) \<or> r = None) \<and> (sv_poisoned sv' \<longleftrightarrow> sv_poisoned sv \<or> r = None)"
  using assms
  by (auto simp: reject_unready_def record_audit_def split: if_splits prod.splits outcome.splits
      intro: quiet.intros)

lemma authorize_effect:
  assumes "authorize tc rt t d = (d', x)"
  shows "quiet c m d d'"
proof -
  have "d' = d \<or> (\<exists>ts. d' = d\<lparr>ticks := ts\<rparr>)"
    using assms by (auto simp: authorize_def op_then_def read_clock_def split: option.splits outcome.splits list.splits prod.splits)
  then show ?thesis by (auto intro: quiet.intros)
qed

lemma with_lock_cases:
  assumes "with_lock f sv = (sv', r)"
  obtains (poisoned) "sv_poisoned sv" "sv' = sv" "r = Some lock_poisoned_error"
  | (run) rt d where "\<not> sv_poisoned sv" "f (sv_runtime sv) (sv_disk sv) = (rt, d, r)"
      "sv' = \<lparr>sv_runtime = rt, sv_disk = d, sv_poisoned = (r = None)\<rparr>"
  using assms by (cases "f (sv_runtime sv) (sv_disk sv)") (auto simp: with_lock_def split: if_splits)

lemma poisoned_effect [simp]: "effect c req m d m d (Some lock_poisoned_error)"
  by (auto intro!: no_op quiet_refl simp: lock_poisoned_error_def)

lemma reject_effect:
  assumes "reject_unready c msg k sv = (sv', r)"
  shows "effect c req (sv_manager sv) (sv_disk sv) (sv_manager sv') (sv_disk sv') r"
  using reject_unready_effect [OF assms] by (auto intro!: no_op)

lemma on_handshake_effect:
  assumes "on_handshake pv cv st sv = (sv', st', r)"
  shows "effect c req (sv_manager sv) (sv_disk sv) (sv_manager sv') (sv_disk sv') r"
proof -
  from assms obtain x where "with_lock (\<lambda>rt d. (rt, d,
             case handshake rt \<lparr>hr_protocol_version = pv, hr_canonical_type_system_version = cv\<rparr> of
               Ok _ \<Rightarrow> Some (HandshakeOk pv cv)
             | Err e \<Rightarrow> Some (to_error_response e)
             | Panic \<Rightarrow> None)) sv = (sv', r)"
    by (auto simp: on_handshake_def split: prod.splits)
  then show ?thesis
  proof (cases rule: with_lock_cases)
    case (run rt d)
    then show ?thesis
      by (auto intro!: no_op quiet_refl simp: to_error_response_def split: outcome.splits)
  qed simp
qed

lemma on_auth_effect:
  assumes "on_auth c tc t st sv = (sv', st', r)"
  shows "effect c req (sv_manager sv) (sv_disk sv) (sv_manager sv') (sv_disk sv') r"
proof (cases "st = TlsOk")
  case False
  with assms show ?thesis by (auto simp: on_auth_def intro: reject_effect split: prod.splits)
next
  case True
  let ?f = "\<lambda>rt d. case authorize tc rt (Some t) d of
      (d', Ok _) \<Rightarrow> (rt, d', Some AuthOk)
    | (d', Err e) \<Rightarrow>
        (case op_ignore (record_audit_event c (sr_tx_manager rt) ''AUTH_FAILED''
                (Some (as_str (err_code e))) (err_message e) None fmempty) d' :: fs \<times> unit db_result of
           (d'', Panic) \<Rightarrow> (rt, d'', None)
         | (d'', _) \<Rightarrow> (rt, d'', Some (to_error_response e)))
    | (d', Panic) \<Rightarrow> (rt, d', None)"
  have "with_lock ?f sv = (sv', r)" using assms True by (auto simp: on_auth_def split: prod.splits)
  then show ?thesis
  proof (cases rule: with_lock_cases)
    case (run rt d)
    obtain d1 x where a: "authorize tc (sv_runtime sv) (Some t) (sv_disk sv) = (d1, x)" by fastforce
    note q = authorize_effect [OF a, of c "sv_manager sv"]
    have "rt = sv_runtime sv \<and> quiet c (sv_manager sv) (sv_disk sv) d \<and> (\<forall>y. r = Some y \<longrightarrow> \<not> app_response y)"
    proof (cases x)
      case (Err e)
      obtain d2 y where i: "(op_ignore (record_audit_event c (sv_manager sv) ''AUTH_FAILED''
        (Some (as_str (err_code e))) (err_message e) None fmempty) d1 :: fs \<times> unit db_result) = (d2, y)"
        by fastforce
      from quiet_ignore [OF q i] run(2) a Err i show ?thesis
        by (cases y) (auto simp: to_error_response_def)
    qed (use run(2) a q in auto)
    with run(3) show ?thesis by (auto intro!: no_op)
  qed simp
qed

lemma on_begin_effect:
  assumes "on_begin c st sv = (sv', r)"
  shows "effect c BeginTx (sv_manager sv) (sv_disk sv) (sv_manager sv') (sv_disk sv') r"
proof (cases "st = AppReady")
  case True
  with assms have "with_lock (\<lambda>rt d. case begin_tx (sr_tx_manager rt) of
      (m, tx) \<Rightarrow> (rt\<lparr>sr_tx_manager := m\<rparr>, d, Some (TxBegun tx))) sv = (sv', r)"
    by (simp add: on_begin_def)
  then show ?thesis
  proof (cases rule: with_lock_cases)
    case (run rt d)
    then show ?thesis by (auto split: prod.splits intro: begin_op)
  qed simp
qed (use assms in \<open>auto simp: on_begin_def intro: reject_effect\<close>)

lemma on_query_effect:
  assumes "on_query c it tx query dialect st sv = (sv', r)"
  shows "effect c (Query tx query dialect) (sv_manager sv) (sv_disk sv) (sv_manager sv') (sv_disk sv') r"
proof (cases "st = AppReady")
  case True
  obtain dl q where res: "resolve_cypher_dialect query dialect = (dl, q)" by fastforce
  let ?u = "\<lambda>g. execute_query_with_dialect it g q dl"
  have "with_lock (\<lambda>rt d. case graph_mut (sr_tx_manager rt) tx ?u of
      (m, r) \<Rightarrow> conclude c tx QueryResult (rt\<lparr>sr_tx_manager := m\<rparr>, d, r)) sv = (sv', r)"
    using True assms res by (simp add: on_query_def)
  then show ?thesis
  proof (cases rule: with_lock_cases)
    case (run rt d)
    obtain m x where gm: "graph_mut (sv_manager sv) tx ?u = (m, x)" by fastforce
    with run(2) have "conclude c tx QueryResult ((sv_runtime sv)\<lparr>sr_tx_manager := m\<rparr>, sv_disk sv, x) = (rt, d, r)"
      by simp
    from conclude_effect [OF this] run(3) query_op [OF refl res gm] show ?thesis by auto
  qed simp
qed (use assms in \<open>auto simp: on_query_def intro: reject_effect\<close>)

lemma on_commit_effect:
  assumes "on_commit c tx st sv = (sv', r)"
  shows "effect c (CommitTx tx) (sv_manager sv) (sv_disk sv) (sv_manager sv') (sv_disk sv') r"
proof (cases "st = AppReady")
  case True
  have "with_lock (\<lambda>rt d. case commit c (sr_tx_manager rt) tx d of
      (m, d', r) \<Rightarrow> conclude c tx (\<lambda>_. TxCommitted tx) (rt\<lparr>sr_tx_manager := m\<rparr>, d', r)) sv = (sv', r)"
    using assms True by (simp only: on_commit_def simp_thms if_False)
  then show ?thesis
  proof (cases rule: with_lock_cases)
    case (run rt d)
    obtain m d1 x where cm: "commit c (sv_manager sv) tx (sv_disk sv) = (m, d1, x)" by (metis prod_cases3)
    with run(2) have "conclude c tx (\<lambda>_. TxCommitted tx) ((sv_runtime sv)\<lparr>sr_tx_manager := m\<rparr>, d1, x) = (rt, d, r)"
      by simp
    from conclude_effect [OF this] run(3) commit_op [OF refl cm] show ?thesis by auto
  qed simp
qed (use assms in \<open>auto simp: on_commit_def intro: reject_effect\<close>)

lemma on_rollback_effect:
  assumes "on_rollback c tx st sv = (sv', r)"
  shows "effect c (RollbackTx tx) (sv_manager sv) (sv_disk sv) (sv_manager sv') (sv_disk sv') r"
proof (cases "st = AppReady")
  case True
  have "with_lock (\<lambda>rt d. case rollback c (sr_tx_manager rt) tx d of
      (m, d', r) \<Rightarrow> conclude c tx (\<lambda>_. TxRolledBack tx) (rt\<lparr>sr_tx_manager := m\<rparr>, d', r)) sv = (sv', r)"
    using assms True by (simp only: on_rollback_def simp_thms if_False)
  then show ?thesis
  proof (cases rule: with_lock_cases)
    case (run rt d)
    obtain m d1 x where rb: "rollback c (sv_manager sv) tx (sv_disk sv) = (m, d1, x)" by (metis prod_cases3)
    with run(2) have "conclude c tx (\<lambda>_. TxRolledBack tx) ((sv_runtime sv)\<lparr>sr_tx_manager := m\<rparr>, d1, x) = (rt, d, r)"
      by simp
    from conclude_effect [OF this] run(3) rollback_op [OF refl rb] show ?thesis by auto
  qed simp
qed (use assms in \<open>auto simp: on_rollback_def intro: reject_effect\<close>)

lemma process_request_effect:
  assumes "process_request c tc it req st sv = (sv', st', r)"
  shows "effect c req (sv_manager sv) (sv_disk sv) (sv_manager sv') (sv_disk sv') r"
proof (cases req)
  case Ping
  with assms show ?thesis by (auto simp: process_request_def intro!: no_op quiet_refl)
qed (use assms in \<open>auto simp: process_request_def split: prod.splits
    intro: on_handshake_effect on_auth_effect on_begin_effect on_query_effect on_commit_effect on_rollback_effect\<close>)

section \<open>What a handler does to the session, the mutex and the configuration\<close>

lemmas handler_defs =
  on_handshake_def on_auth_def on_begin_def on_query_def on_commit_def on_rollback_def

lemma conclude_config: "conclude c tx ok (rt, d, x) = (rt', d', r) \<Longrightarrow> rt' = rt"
  using conclude_effect by blast

lemma with_lock_config:
  assumes "with_lock f sv = (sv', r)"
    and "\<And>rt d rt' d' r. f rt d = (rt', d', r) \<Longrightarrow> sr_auth rt' = sr_auth rt \<and> sr_lock rt' = sr_lock rt"
  shows "sr_auth (sv_runtime sv') = sr_auth (sv_runtime sv) \<and> sr_lock (sv_runtime sv') = sr_lock (sv_runtime sv)"
  using assms(1) by (cases rule: with_lock_cases) (auto dest: assms(2))

lemma process_request_config:
  assumes "process_request c tc it req st sv = (sv', st', r)"
  shows "sr_auth (sv_runtime sv') = sr_auth (sv_runtime sv) \<and> sr_lock (sv_runtime sv') = sr_lock (sv_runtime sv)"
proof -
  have rj: "sv_runtime sv2 = sv_runtime sv" if "reject_unready c msg k sv = (sv2, x)" for msg k sv2 x
    using reject_unready_effect [OF that] by simp
  have cc: "sr_auth rt2 = sr_auth rt1 \<and> sr_lock rt2 = sr_lock rt1"
    if "conclude c tx ok (rt1\<lparr>sr_tx_manager := m\<rparr>, d1, x) = (rt2, d2, y)" for tx rt1 m d1 x rt2 d2 y
      and ok :: "'z \<Rightarrow> server_response"
    using conclude_config [OF that] by simp
  show ?thesis
    using assms
    by (cases req)
      (auto simp: process_request_def handler_defs split: prod.splits if_splits outcome.splits
        dest!: rj elim!: with_lock_config dest: cc)
qed

text \<open>The responses that open a session.\<close>

definition handshake_entry :: "server_request \<times> server_response \<Rightarrow> bool" where
  "handshake_entry x \<longleftrightarrow>
     (\<exists>pv cv y. x = (Handshake pv cv, HandshakeOk pv cv) \<and>
        negotiate \<lparr>hr_protocol_version = pv, hr_canonical_type_system_version = cv\<rparr> = Ok y)"

definition auth_entry :: "token_codec \<Rightarrow> auth_config \<Rightarrow> server_request \<times> server_response \<Rightarrow> bool" where
  "auth_entry tc cfg x \<longleftrightarrow>
     (\<exists>t now. x = (Auth t, AuthOk) \<and> validate_bearer_token tc (Some now) cfg t = Ok ())"

lemma validate_needs_clock: "validate_bearer_token tc None cfg t \<noteq> Ok ()"
  by (auto simp: validate_bearer_token_def check_claims_Ok split: list.splits)

lemma authorize_Ok:
  assumes "authorize tc rt (Some t) d = (d', Ok ())"
  shows "\<exists>now. validate_bearer_token tc (Some now) (sr_auth rt) t = Ok ()"
  using assms validate_needs_clock [of tc "sr_auth rt" t]
  by (auto simp: authorize_def op_then_Ok split: outcome.splits)

lemma with_lock_Some:
  assumes "with_lock f sv = (sv', Some x)" "x \<noteq> lock_poisoned_error"
  shows "\<exists>rt d. f (sv_runtime sv) (sv_disk sv) = (rt, d, Some x)"
  using assms by (cases rule: with_lock_cases) auto

lemma on_handshake_session:
  assumes "on_handshake pv cv st sv = (sv', st', Some r)"
  shows "\<not> app_response r \<and>
    (if handshake_entry (Handshake pv cv, r) then st' = TlsOk else st' = st)"
proof -
  let ?req = "\<lparr>hr_protocol_version = pv, hr_canonical_type_system_version = cv\<rparr>"
  have w: "with_lock (\<lambda>rt d. (rt, d, case handshake rt ?req of
        Ok _ \<Rightarrow> Some (HandshakeOk pv cv) | Err e \<Rightarrow> Some (to_error_response e) | Panic \<Rightarrow> None)) sv = (sv', Some r)"
    and st': "st' = (if r = HandshakeOk pv cv then TlsOk else st)"
    using assms by (auto simp: on_handshake_def split: prod.splits)
  from w show ?thesis
  proof (cases rule: with_lock_cases)
    case poisoned
    with st' show ?thesis by (auto simp: handshake_entry_def lock_poisoned_error_def)
  next
    case (run rt d)
    with st' show ?thesis
      by (auto simp: handshake_entry_def handshake_def to_error_response_def split: outcome.splits)
  qed
qed

lemma on_auth_session:
  assumes "on_auth c tc t st sv = (sv', st', Some r)"
  shows "\<not> app_response r \<and>
    (st' = AppReady \<and> st = TlsOk \<and> auth_entry tc (sr_auth (sv_runtime sv)) (Auth t, r) \<or> st' = st \<and> r \<noteq> AuthOk)"
proof (cases "st = TlsOk")
  case False
  with assms show ?thesis by (auto simp: on_auth_def dest: reject_unready_effect split: prod.splits)
next
  case True
  let ?f = "\<lambda>rt d. case authorize tc rt (Some t) d of
      (d', Ok _) \<Rightarrow> (rt, d', Some AuthOk)
    | (d', Err e) \<Rightarrow>
        (case op_ignore (record_audit_event c (sr_tx_manager rt) ''AUTH_FAILED''
                (Some (as_str (err_code e))) (err_message e) None fmempty) d' :: fs \<times> unit db_result of
           (d'', Panic) \<Rightarrow> (rt, d'', None)
         | (d'', _) \<Rightarrow> (rt, d'', Some (to_error_response e)))
    | (d', Panic) \<Rightarrow> (rt, d', None)"
  have w: "with_lock ?f sv = (sv', Some r)" and st': "st' = (if r = AuthOk then AppReady else st)"
    using assms True by (auto simp: on_auth_def split: prod.splits)
  from w show ?thesis
  proof (cases rule: with_lock_cases)
    case poisoned
    with st' show ?thesis by (auto simp: lock_poisoned_error_def)
  next
    case (run rt d)
    obtain d1 x where a: "authorize tc (sv_runtime sv) (Some t) (sv_disk sv) = (d1, x)" by fastforce
    show ?thesis
    proof (cases x)
      case (Ok u)
      with a authorize_Ok [of tc "sv_runtime sv" t "sv_disk sv" d1] run(2) st' True show ?thesis
        by (auto simp: auth_entry_def)
    qed (use run(2) a st' in \<open>auto simp: to_error_response_def split: prod.splits outcome.splits\<close>)
  qed
qed

lemma process_request_session:
  assumes "process_request c tc it req st sv = (sv', st', Some r)"
  shows "(app_response r \<longrightarrow> st = AppReady \<and> st' = AppReady) \<and>
    (st' = AppReady \<longrightarrow> st = AppReady \<and> \<not> handshake_entry (req, r) \<or>
       st = TlsOk \<and> auth_entry tc (sr_auth (sv_runtime sv)) (req, r)) \<and>
    (st' = TlsOk \<longrightarrow> st = TlsOk \<or> handshake_entry (req, r)) \<and>
    (st' = AuthPassed \<longrightarrow> st = AuthPassed)"
proof (cases req)
  case (Handshake pv cv)
  with assms on_handshake_session [of pv cv st sv sv' st' r] show ?thesis
    by (auto simp: process_request_def split: if_splits)
next
  case (Auth t)
  with assms on_auth_session [of c tc t st sv sv' st' r] show ?thesis
    by (auto simp: process_request_def handshake_entry_def auth_entry_def)
qed (use assms in \<open>auto simp: process_request_def handler_defs handshake_entry_def auth_entry_def
    dest: reject_unready_effect split: prod.splits if_splits\<close>)

end
