(* ===== verification/Server_Properties.thy ===== *)
theory Server_Properties
  imports Server_Correct
begin

text \<open>
  The properties of the server: the session protocol, the consistency of the graphs, the mutex
  after a panic, and the refinement of the transaction manager by the concurrent server.
\<close>

section \<open>Turns of a connection\<close>

lemma write_response_keeps [simp]:
  "cn_state (write_response wc w r cn) = cn_state cn" "cn_trace (write_response wc w r cn) = cn_trace cn"
  by (auto simp: write_response_def split: outcome.splits write_result.splits)

lemma process_request_panic_session:
  "process_request c tc it req st sv = (sv', st', None) \<Longrightarrow> st' = st"
  by (auto simp: process_request_def on_handshake_def on_auth_def split: server_request.splits prod.splits if_splits)

lemma connection_turn_cases:
  assumes "connection_turn c tc wc it input w sv cn = (sv', cn')"
  obtains (idle) "sv' = sv" "cn_state cn' = cn_state cn" "cn_trace cn' = cn_trace cn"
  | (request) req r where "process_request c tc it req (cn_state cn) sv = (sv', cn_state cn', Some r)"
      "cn_trace cn' = cn_trace cn @ [(req, r)]"
  | (panic) req where "process_request c tc it req (cn_state cn) sv = (sv', cn_state cn', None)"
      "cn_trace cn' = cn_trace cn" "cn_state cn' = cn_state cn"
proof (cases input)
  case (Line l)
  show thesis
  proof (cases "trim l = []")
    case True
    with Line assms idle show thesis by (simp add: connection_turn_def)
  next
    case ne: False
    show thesis
    proof (cases "json_de_request wc (trim l)")
      case (Ok req)
      obtain sv1 st1 x where p: "process_request c tc it req (cn_state cn) sv = (sv1, st1, x)"
        by (metis prod_cases3)
      show thesis
      proof (cases x)
        case None
        with Line ne Ok p assms show thesis
          using panic process_request_panic_session [of c tc it req "cn_state cn" sv sv1 st1]
          by (auto simp: connection_turn_def Let_def)
      next
        case (Some r)
        with Line ne Ok p assms show thesis using request by (auto simp: connection_turn_def Let_def)
      qed
    qed (use Line ne assms idle in \<open>auto simp: connection_turn_def Let_def\<close>)
  qed
qed (use assms idle in \<open>auto simp: connection_turn_def\<close>)

section \<open>The session protocol\<close>

text \<open>Before entry \<open>k\<close> there was a handshake, then an accepted token, and no handshake since.\<close>

definition session_opened ::
  "token_codec \<Rightarrow> auth_config \<Rightarrow> (server_request \<times> server_response) list \<Rightarrow> nat \<Rightarrow> bool"
where
  "session_opened tc cfg tr k \<longleftrightarrow>
     (\<exists>i j. i < j \<and> j < k \<and> handshake_entry (tr ! i) \<and> auth_entry tc cfg (tr ! j) \<and>
        (\<forall>m. j < m \<and> m < k \<longrightarrow> \<not> handshake_entry (tr ! m)))"

definition session_ok :: "token_codec \<Rightarrow> auth_config \<Rightarrow> connection \<Rightarrow> bool" where
  "session_ok tc cfg cn \<longleftrightarrow>
     (\<forall>k < length (cn_trace cn). app_response (snd (cn_trace cn ! k)) \<longrightarrow> session_opened tc cfg (cn_trace cn) k) \<and>
     (cn_state cn = TlsOk \<longrightarrow> (\<exists>i < length (cn_trace cn). handshake_entry (cn_trace cn ! i))) \<and>
     (cn_state cn = AppReady \<longrightarrow> session_opened tc cfg (cn_trace cn) (length (cn_trace cn)))"

lemma session_opened_cong:
  assumes "session_opened tc cfg tr k" "\<And>m. m < k \<Longrightarrow> tr' ! m = tr ! m"
  shows "session_opened tc cfg tr' k"
proof -
  from assms(1) obtain i j where ij: "i < j" "j < k" "handshake_entry (tr ! i)" "auth_entry tc cfg (tr ! j)"
    "\<forall>m. j < m \<and> m < k \<longrightarrow> \<not> handshake_entry (tr ! m)" by (auto simp: session_opened_def)
  then show ?thesis unfolding session_opened_def using assms(2)
    by (intro exI [of _ i] exI [of _ j]) simp
qed

lemma session_opened_append:
  assumes "k \<le> length tr"
  shows "session_opened tc cfg (tr @ ys) k \<longleftrightarrow> session_opened tc cfg tr k"
  using assms by (auto elim!: session_opened_cong simp: nth_append)

lemma session_opened_extend:
  assumes "session_opened tc cfg tr (length tr)" "\<not> handshake_entry x"
  shows "session_opened tc cfg (tr @ [x]) (Suc (length tr))"
proof -
  from assms(1) obtain i j where ij: "i < j" "j < length tr" "handshake_entry (tr ! i)" "auth_entry tc cfg (tr ! j)"
    "\<forall>m. j < m \<and> m < length tr \<longrightarrow> \<not> handshake_entry (tr ! m)" by (auto simp: session_opened_def)
  then show ?thesis unfolding session_opened_def using assms(2)
    by (intro exI [of _ i] exI [of _ j]) (auto simp: nth_append less_Suc_eq)
qed

lemma session_opened_auth:
  assumes "i < length tr" "handshake_entry (tr ! i)" "auth_entry tc cfg x"
  shows "session_opened tc cfg (tr @ [x]) (Suc (length tr))"
  unfolding session_opened_def
  by (intro exI [of _ i] exI [of _ "length tr"]) (use assms in \<open>auto simp: nth_append\<close>)

lemma session_ok_request:
  assumes "session_ok tc (sr_auth (sv_runtime sv)) cn"
    and "process_request c tc it req (cn_state cn) sv = (sv', cn_state cn', Some r)"
    and "cn_trace cn' = cn_trace cn @ [(req, r)]"
  shows "session_ok tc (sr_auth (sv_runtime sv)) cn'"
proof -
  let ?tr = "cn_trace cn" and ?cfg = "sr_auth (sv_runtime sv)"
  note p = process_request_session [OF assms(2)]
  have app: "session_opened tc ?cfg (?tr @ [(req, r)]) k"
    if "k < Suc (length ?tr)" "app_response (snd ((?tr @ [(req, r)]) ! k))" for k
    using that assms(1) p by (cases "k = length ?tr")
      (auto simp: session_ok_def session_opened_append nth_append)
  have ready: "session_opened tc ?cfg (?tr @ [(req, r)]) (Suc (length ?tr))" if "cn_state cn' = AppReady"
    using p that assms(1) by (auto simp: session_ok_def intro: session_opened_extend session_opened_auth)
  have tls: "\<exists>i < Suc (length ?tr). handshake_entry ((?tr @ [(req, r)]) ! i)" if t: "cn_state cn' = TlsOk"
  proof (cases "handshake_entry (req, r)")
    case True
    then show ?thesis by (intro exI [of _ "length ?tr"]) simp
  next
    case False
    with p t assms(1) obtain i where "i < length ?tr" "handshake_entry (?tr ! i)" by (auto simp: session_ok_def)
    then show ?thesis by (intro exI [of _ i]) (simp add: nth_append)
  qed
  show ?thesis using app ready tls by (simp add: session_ok_def assms(3))
qed

lemma session_ok_turn:
  assumes "session_ok tc (sr_auth (sv_runtime sv)) cn"
    and "connection_turn c tc wc it input w sv cn = (sv', cn')"
  shows "session_ok tc (sr_auth (sv_runtime sv)) cn' \<and> sr_auth (sv_runtime sv') = sr_auth (sv_runtime sv)"
  using assms(2)
proof (cases rule: connection_turn_cases)
  case (request req r)
  with session_ok_request [OF assms(1)] process_request_config show ?thesis by blast
qed (use assms(1) process_request_config in \<open>auto simp: session_ok_def\<close>)

lemma server_step_sessions:
  assumes "server_step c tc wc mx (sv, cs) (sv', cs')"
    and "\<forall>cn \<in> set cs. session_ok tc (sr_auth (sv_runtime sv)) cn"
  shows "(\<forall>cn \<in> set cs'. session_ok tc (sr_auth (sv_runtime sv)) cn) \<and>
    sr_auth (sv_runtime sv') = sr_auth (sv_runtime sv)"
  using assms(1)
proof (cases rule: server_step.cases)
  case accept
  have "session_ok tc (sr_auth (sv_runtime sv)) new_connection" by (simp add: session_ok_def new_connection_def)
  with accept assms(2) show ?thesis by auto
next
  case (serve i it input w cn')
  with session_ok_turn [of tc sv "cs ! i"] assms(2) show ?thesis
    by (auto dest!: subsetD [OF set_update_subset_insert])
qed

lemma server_sessions:
  assumes "server_reachable c tc wc mx (sv, cs) (sv', cs')"
    and "\<forall>cn \<in> set cs. session_ok tc (sr_auth (sv_runtime sv)) cn"
  shows "(\<forall>cn \<in> set cs'. session_ok tc (sr_auth (sv_runtime sv)) cn) \<and>
    sr_auth (sv_runtime sv') = sr_auth (sv_runtime sv)"
  using assms(1)
proof (induction rule: rtranclp_induct2)
  case (step sv1 cs1 sv2 cs2)
  with server_step_sessions [OF step(2)] show ?case by metis
qed (use assms(2) in simp)

text \<open>C5: whatever clients connect and send, in any interleaving, a connection that is answered with a
  begun, committed or rolled back transaction or with a query result has before that completed
  a handshake with supported versions, then presented a token that was accepted, and made no
  handshake since.\<close>

theorem app_responses_need_auth:
  assumes "server_reachable c tc wc mx (server_init rt d) (sv, cs)"
    and "cn \<in> set cs" "k < length (cn_trace cn)" "app_response (snd (cn_trace cn ! k))"
  shows "session_opened tc (sr_auth rt) (cn_trace cn) k"
proof -
  have "\<forall>cn \<in> set cs. session_ok tc (sr_auth rt) cn"
    using server_sessions [OF assms(1) [unfolded server_init_def]] by simp
  with assms(2-4) show ?thesis by (simp add: session_ok_def)
qed

section \<open>Consistency\<close>

definition manager_consistent :: "tx_manager \<Rightarrow> bool" where
  "manager_consistent m \<longleftrightarrow>
     consistent (base_graph m) \<and> (\<forall>tx s. fmlookup (sessions m) tx = Some s \<longrightarrow> consistent (tx_graph s))"

lemma manager_consistent_drop:
  "manager_consistent m \<Longrightarrow> manager_consistent (m\<lparr>sessions := fmdrop tx (sessions m)\<rparr>)"
  by (auto simp: manager_consistent_def split: if_splits)

lemma commit_consistent:
  assumes "manager_consistent m" "commit c m tx d = (m', d', x)"
  shows "manager_consistent m'"
proof (cases "x = Ok ()")
  case True
  with assms show ?thesis by (auto simp: commit_Ok manager_consistent_def split: if_splits)
next
  case False
  with commit_not_Ok [OF assms(2)] manager_consistent_drop [OF assms(1)] show ?thesis by simp
qed

lemma effect_consistent:
  assumes "effect c req m d m' d' r" "manager_consistent m"
  shows "manager_consistent m'"
  using assms(1)
proof cases
  case (begin_op tx)
  then show ?thesis using assms(2) by (auto simp: begin_tx_def Let_def manager_consistent_def split: if_splits)
next
  case (query_op tx query dialect dl q it x)
  then show ?thesis using assms(2) cons.inv_execute_query_with_dialect
    by (auto simp: graph_mut_def manager_consistent_def split: option.splits prod.splits if_splits)
      (metis fst_conv)
next
  case (commit_op tx d1 x)
  then show ?thesis using commit_consistent [OF assms(2)] by blast
next
  case (rollback_op tx d1 x)
  then show ?thesis using rollback_manager manager_consistent_drop [OF assms(2)] by blast
qed (use assms(2) in simp)

lemma server_step_consistent:
  assumes "server_step c tc wc mx (sv, cs) (sv', cs')" "manager_consistent (sv_manager sv)"
  shows "manager_consistent (sv_manager sv')"
  using assms(1)
proof (cases rule: server_step.cases)
  case (serve i it input w cn')
  from serve(4) show ?thesis
    by (cases rule: connection_turn_cases)
      (use assms(2) in \<open>auto dest!: process_request_effect intro: effect_consistent\<close>)
qed (use assms(2) in simp)

text \<open>C22: whatever the clients send, in any interleaving, through failures of requests, of the disk and
  of threads, the committed graph and the graph of every open transaction stay consistent: every
  relationship joins existing nodes and every entry is stored under its own id.\<close>

theorem server_graphs_consistent:
  assumes "server_reachable c tc wc mx (server_init rt d) (sv, cs)"
    and "manager_consistent (sr_tx_manager rt)"
  shows "manager_consistent (sv_manager sv)"
proof -
  have "server_reachable c tc wc mx (sv0, cs0) (sv, cs) \<Longrightarrow> manager_consistent (sv_manager sv0) \<Longrightarrow>
    manager_consistent (sv_manager sv)" for sv0 cs0
    by (induction rule: rtranclp_induct2) (auto intro: server_step_consistent)
  with assms show ?thesis by (simp add: server_init_def)
qed

section \<open>After a panic\<close>

lemma poisoned_with_lock: "sv_poisoned sv \<Longrightarrow> with_lock f sv = (sv, Some lock_poisoned_error)"
  by (simp add: with_lock_def)

lemma poisoned_reject:
  "sv_poisoned sv \<Longrightarrow> reject_unready c msg k sv = (sv, Some (Error ''AUTH_REQUIRED'' msg None))"
  by (simp add: reject_unready_def record_audit_def)

lemma poisoned_request:
  assumes "sv_poisoned sv" "req \<noteq> Ping"
  shows "\<exists>code msg. process_request c tc it req st sv = (sv, st, Some (Error code msg None))"
  using assms
  by (cases req)
    (auto simp: process_request_def handler_defs poisoned_with_lock poisoned_reject lock_poisoned_error_def)

lemma poisoned_turn:
  assumes "sv_poisoned sv" "connection_turn c tc wc it input w sv cn = (sv', cn')"
  shows "sv' = sv"
  using assms(2)
proof (cases rule: connection_turn_cases)
  case (request req r)
  with poisoned_request [OF assms(1), of req c tc it "cn_state cn"] show ?thesis
    by (cases "req = Ping") (auto simp: process_request_def)
next
  case (panic req)
  with poisoned_request [OF assms(1), of req c tc it "cn_state cn"] show ?thesis
    by (cases "req = Ping") (auto simp: process_request_def)
qed simp

lemma poisoned_forever:
  "server_reachable c tc wc mx (sv, cs) (sv', cs') \<Longrightarrow> sv_poisoned sv \<Longrightarrow> sv' = sv"
proof (induction rule: rtranclp_induct2)
  case (step sv1 cs1 sv2 cs2)
  then have "sv1 = sv" by simp
  with step(2,4) show ?case by (auto elim!: server_stepE dest: poisoned_turn)
qed simp

text \<open>C40: a query that panics takes the whole server down for good: from then on, on every connection
  and for ever, every request but a ping is answered with an error and changes nothing.\<close>

theorem query_panic_disables_server:
  assumes "\<not> sv_poisoned sv" "fmlookup (sessions (sv_manager sv)) tx = Some s"
    and "resolve_cypher_dialect query dialect = (dl, q)"
    and "snd (execute_query_with_dialect it (tx_graph s) q dl) = Panic"
    and "process_request c tc it (Query tx query dialect) AppReady sv = (sv1, st1, r)"
    and "server_reachable c tc wc mx (sv1, cs1) (sv2, cs2)" "req \<noteq> Ping"
  shows "r = None \<and>
    (\<exists>code msg. process_request c tc it' req st sv2 = (sv2, st, Some (Error code msg None)))"
proof -
  obtain g where g: "execute_query_with_dialect it (tx_graph s) q dl = (g, Panic)"
    using assms(4) by (metis prod.collapse)
  then have "r = None \<and> sv_poisoned sv1"
    using assms(1-3,5) by (auto simp: process_request_def on_query_def with_lock_def graph_mut_def conclude_def)
  with poisoned_forever [OF assms(6)] poisoned_request [OF _ assms(7)] show ?thesis by blast
qed

section \<open>Refinement of the transaction manager\<close>

text \<open>Every update that reaches a graph is the run of a query.\<close>

definition is_query_update :: "(store \<Rightarrow> store) \<Rightarrow> bool" where
  "is_query_update u \<longleftrightarrow> (\<exists>it q dl. u = (\<lambda>g. fst (execute_query_with_dialect it g q dl)))"

definition query_updates_only :: "tx_state \<Rightarrow> bool" where
  "query_updates_only st \<longleftrightarrow>
     list_all is_query_update (committed st) \<and> (\<forall>tx. list_all is_query_update (pending st tx))"

definition simulated :: "codec \<Rightarrow> tx_state \<Rightarrow> tx_manager \<Rightarrow> fs \<Rightarrow> bool" where
  "simulated c st0 m d \<longleftrightarrow>
     (\<exists>st. tx_reachable c st0 st \<and> mgr st = m \<and> disk_of st = d \<and> query_updates_only st)"

lemma simulated_step:
  assumes "simulated c st0 m d"
    and "\<And>st. mgr st = m \<Longrightarrow> disk_of st = d \<Longrightarrow> query_updates_only st \<Longrightarrow>
      \<exists>st'. tx_step c st st' \<and> mgr st' = m' \<and> disk_of st' = d' \<and> query_updates_only st'"
  shows "simulated c st0 m' d'"
proof -
  from assms(1) obtain st where st: "tx_reachable c st0 st" "mgr st = m" "disk_of st = d" "query_updates_only st"
    by (auto simp: simulated_def)
  from assms(2) [OF st(2-4)] obtain st' where
    "tx_step c st st'" "mgr st' = m'" "disk_of st' = d'" "query_updates_only st'" by blast
  with st(1) show ?thesis unfolding simulated_def by (blast intro: rtranclp.rtrancl_into_rtrancl)
qed

lemma simulated_quiet: "quiet c m d d' \<Longrightarrow> simulated c st0 m d \<Longrightarrow> simulated c st0 m d'"
proof (induction rule: quiet.induct)
  case (quiet_audit d1 ty code msg tx pl d2 r)
  show ?case
  proof (rule simulated_step [OF quiet_audit(3) [OF quiet_audit(4)]])
    fix st assume "mgr st = m" "disk_of st = d1" "query_updates_only st"
    with quiet_audit(2) show "\<exists>st'. tx_step c st st' \<and> mgr st' = m \<and> disk_of st' = d2 \<and> query_updates_only st'"
      by (intro exI [of _ "st\<lparr>disk_of := d2\<rparr>"]) (auto intro: tx_step.audit_step simp: query_updates_only_def)
  qed
next
  case (quiet_clock d1 ts)
  show ?case
  proof (rule simulated_step [OF quiet_clock(2) [OF quiet_clock(3)]])
    fix st assume "mgr st = m" "disk_of st = d1" "query_updates_only st"
    then show "\<exists>st'. tx_step c st st' \<and> mgr st' = m \<and> disk_of st' = d1\<lparr>ticks := ts\<rparr> \<and> query_updates_only st'"
      using tx_step.time_step [of c st ts]
      by (intro exI [of _ "st\<lparr>disk_of := d1\<lparr>ticks := ts\<rparr>\<rparr>"]) (auto simp: query_updates_only_def)
  qed
qed

lemma commit_code:
  "commit c m tx d = (m', d', Err e) \<Longrightarrow> err_code e = RetryableConflict \<or> err_code e = IncompatibleFormat"
  using audit_then_fail_result [of c m "''DETERMINISTIC_CONFLICT''" "unknown_tx tx" tx d]
    audit_then_fail_result [of c "m\<lparr>sessions := fmdrop tx (sessions m)\<rparr>" "''DETERMINISTIC_CONFLICT''"
      "conflict_tx tx" tx d]
  by (auto simp: commit_def Let_def unknown_tx_def conflict_tx_def new_error_def dest: persist_after_wal_code
      split: option.splits prod.splits outcome.splits if_splits)

text \<open>A commit that was answered with a storage error.\<close>

definition failed_commit :: "server_request \<times> server_response \<Rightarrow> bool" where
  "failed_commit x \<longleftrightarrow> (\<exists>tx msg det. x = (CommitTx tx, Error ''INCOMPATIBLE_FORMAT'' msg det))"

lemma simulated_begin:
  assumes "simulated c st0 m d" "begin_tx m = (m', tx)"
  shows "simulated c st0 m' d"
proof (rule simulated_step [OF assms(1)])
  fix st assume "mgr st = m" "disk_of st = d" "query_updates_only st"
  with assms(2) show "\<exists>st'. tx_step c st st' \<and> mgr st' = m' \<and> disk_of st' = d \<and> query_updates_only st'"
    by (intro exI [of _ "st\<lparr>mgr := m', pending := (pending st)(tx := [])\<rparr>"])
      (auto intro: tx_step.begin_step simp: query_updates_only_def)
qed

lemma simulated_query:
  assumes "simulated c st0 m d" "graph_mut m tx (\<lambda>g. execute_query_with_dialect it g q dl) = (m', x)"
  shows "simulated c st0 m' d"
proof (cases "fmlookup (sessions m) tx")
  case None
  with assms show ?thesis by (simp add: graph_mut_def)
next
  case (Some s)
  let ?u = "\<lambda>g. fst (execute_query_with_dialect it g q dl)"
  show ?thesis
  proof (rule simulated_step [OF assms(1)])
    fix st assume "mgr st = m" "disk_of st = d" "query_updates_only st"
    with Some assms(2) show "\<exists>st'. tx_step c st st' \<and> mgr st' = m' \<and> disk_of st' = d \<and> query_updates_only st'"
      by (intro exI [of _ "st\<lparr>mgr := m', pending := (pending st)(tx := pending st tx @ [?u])\<rparr>"])
        (auto intro!: tx_step.update_step simp: query_updates_only_def is_query_update_def)
  qed
qed

lemma simulated_commit:
  assumes "simulated c st0 m d" "commit c m tx d = (m', d', x)" "graph_version m + 1 \<noteq> 0"
    and "x = Ok () \<or> (\<exists>e. x = Err e \<and> err_code e = RetryableConflict)"
  shows "simulated c st0 m' d'"
proof (rule simulated_step [OF assms(1)])
  fix st assume st: "mgr st = m" "disk_of st = d" "query_updates_only st"
  from assms(4) show "\<exists>st'. tx_step c st st' \<and> mgr st' = m' \<and> disk_of st' = d' \<and> query_updates_only st'"
  proof
    assume "x = Ok ()"
    with st assms(2,3) show ?thesis
      by (intro exI [of _ "st\<lparr>mgr := m', disk_of := d', committed := committed st @ pending st tx\<rparr>"])
        (auto intro: tx_step.commit_step simp: query_updates_only_def)
  next
    assume "\<exists>e. x = Err e \<and> err_code e = RetryableConflict"
    with st assms(2) show ?thesis
      by (intro exI [of _ "st\<lparr>mgr := m', disk_of := d'\<rparr>"])
        (auto intro: tx_step.conflict_step simp: query_updates_only_def)
  qed
qed

lemma simulated_rollback:
  assumes "simulated c st0 m d" "rollback c m tx d = (m', d', x)"
  shows "simulated c st0 m' d'"
proof (rule simulated_step [OF assms(1)])
  fix st assume "mgr st = m" "disk_of st = d" "query_updates_only st"
  with assms(2) show "\<exists>st'. tx_step c st st' \<and> mgr st' = m' \<and> disk_of st' = d' \<and> query_updates_only st'"
    by (intro exI [of _ "st\<lparr>mgr := m', disk_of := d'\<rparr>"])
      (auto intro: tx_step.rollback_step simp: query_updates_only_def)
qed

lemma effect_simulated:
  assumes "effect c req m d m' d' (Some r)" "simulated c st0 m d"
    and "graph_version m + 1 \<noteq> 0" "\<not> failed_commit (req, r)"
  shows "simulated c st0 m' d'"
  using assms(1)
proof cases
  case (commit_op tx d1 x)
  have "x = Ok () \<or> (\<exists>e. x = Err e \<and> err_code e = RetryableConflict)"
    using commit_op assms(4) commit_code [of c m tx d m' d1]
    by (cases x) (auto simp: reports_def failed_commit_def to_error_response_def)
  from simulated_commit [OF assms(2) commit_op(2) assms(3) this] commit_op(3) show ?thesis
    by (rule simulated_quiet [rotated])
qed (use assms(2) in \<open>auto intro: simulated_quiet simulated_begin simulated_query simulated_rollback\<close>)

lemma begin_version: "begin_tx m = (m', tx) \<Longrightarrow> graph_version m' = graph_version m"
  by (auto simp: begin_tx_def Let_def)

lemma effect_version:
  assumes "effect c req m d m' d' r"
  shows "graph_version m' = graph_version m \<or> graph_version m' = graph_version m + 1"
  using assms
proof cases
  case (query_op tx query dialect dl q it x)
  then show ?thesis by (auto simp: graph_mut_def split: option.splits prod.splits)
next
  case (commit_op tx d1 x)
  then show ?thesis using commit_not_Ok [OF commit_op(2)] by (cases "x = Ok ()") (auto simp: commit_Ok)
next
  case (rollback_op tx d1 x)
  then show ?thesis using rollback_manager [OF rollback_op(2)] by simp
qed (auto dest: begin_version)

lemma panic_poisons:
  assumes "process_request c tc it req st sv = (sv', st', None)"
  shows "sv_poisoned sv'"
proof -
  have l: "sv_poisoned sv1" if "with_lock f sv = (sv1, None)" for f sv1
    using that by (cases rule: with_lock_cases) auto
  have r: "sv_poisoned sv1" if "reject_unready c msg k sv = (sv1, None)" for msg k sv1
    using reject_unready_effect [OF that] by simp
  from assms show ?thesis
    by (cases req)
      (auto simp: process_request_def handler_defs split: prod.splits if_splits dest: l r)
qed

definition responses :: "connection list \<Rightarrow> nat" where
  "responses cs = sum_list (map (\<lambda>cn. length (cn_trace cn)) cs)"

definition no_failed_commit :: "connection list \<Rightarrow> bool" where
  "no_failed_commit cs \<longleftrightarrow> (\<forall>cn \<in> set cs. \<forall>x \<in> set (cn_trace cn). \<not> failed_commit x)"

lemma responses_update:
  assumes "i < length cs" "length (cn_trace cn') = length (cn_trace (cs ! i)) + k"
  shows "responses (cs[i := cn']) = responses cs + k"
proof -
  have "length (cn_trace (cs ! i)) \<le> responses cs"
    unfolding responses_def using assms(1) by (intro member_le_sum_list) auto
  with assms show ?thesis by (simp add: responses_def map_update sum_list_update)
qed

lemma no_failed_commit_update:
  assumes "no_failed_commit (cs[i := cn'])" "i < length cs" "set (cn_trace (cs ! i)) \<subseteq> set (cn_trace cn')"
  shows "no_failed_commit cs \<and> (\<forall>x \<in> set (cn_trace cn'). \<not> failed_commit x)"
proof -
  have new: "\<forall>x \<in> set (cn_trace cn'). \<not> failed_commit x"
    using assms(1,2) by (auto simp: no_failed_commit_def dest: bspec [OF _ set_update_memI])
  have "\<forall>x \<in> set (cn_trace cn). \<not> failed_commit x" if "cn \<in> set cs" for cn
  proof -
    from that obtain j where j: "j < length cs" "cs ! j = cn" by (auto simp: in_set_conv_nth)
    show ?thesis
    proof (cases "j = i")
      case True
      with j assms(3) new show ?thesis by auto
    next
      case False
      with j have "cn \<in> set (cs[i := cn'])" by (metis length_list_update nth_list_update_neq nth_mem)
      with assms(1) show ?thesis by (simp add: no_failed_commit_def)
    qed
  qed
  with new show ?thesis by (simp add: no_failed_commit_def)
qed

definition refines :: "codec \<Rightarrow> tx_state \<Rightarrow> server_state \<times> connection list \<Rightarrow> bool" where
  "refines c st0 x \<longleftrightarrow>
     simulated c st0 (sv_manager (fst x)) (sv_disk (fst x)) \<and>
     unat (graph_version (sv_manager (fst x))) \<le> responses (snd x)"

lemma request_refines:
  assumes "process_request c tc it req st sv = (sv', st', Some r)" "\<not> failed_commit (req, r)"
    and "simulated c st0 (sv_manager sv) (sv_disk sv)" "unat (graph_version (sv_manager sv)) \<le> n" "n + 1 < 2 ^ 64"
  shows "simulated c st0 (sv_manager sv') (sv_disk sv') \<and> unat (graph_version (sv_manager sv')) \<le> n + 1"
proof -
  note e = process_request_effect [OF assms(1)]
  have v: "graph_version (sv_manager sv) + 1 \<noteq> 0"
  proof
    assume "graph_version (sv_manager sv) + 1 = 0"
    then have "graph_version (sv_manager sv) = - 1" by (simp add: eq_neg_iff_add_eq_0)
    then have "unat (graph_version (sv_manager sv)) = 2 ^ 64 - 1" by (simp add: unsigned_minus_1_eq_mask mask_eq_exp_minus_1)
    with assms(4,5) show False by simp
  qed
  then have "unat (graph_version (sv_manager sv')) \<le> n + 1"
    using effect_version [OF e] unat_succ [OF v] assms(4) by auto
  with effect_simulated [OF e assms(3) v assms(2)] show ?thesis by simp
qed

lemma server_step_refines:
  assumes "server_step c tc wc mx (sv, cs) (sv', cs')" "\<not> sv_poisoned sv'" "no_failed_commit cs'"
    and "responses cs' < 2 ^ 64"
    and "no_failed_commit cs \<Longrightarrow> responses cs < 2 ^ 64 \<Longrightarrow> refines c st0 (sv, cs)"
  shows "refines c st0 (sv', cs')"
  using assms(1)
proof (cases rule: server_step.cases)
  case accept
  then have "no_failed_commit cs" "responses cs' = responses cs" using assms(3)
    by (auto simp: no_failed_commit_def responses_def new_connection_def)
  with assms(4,5) accept show ?thesis by (simp add: refines_def)
next
  case (serve i it input w cn')
  from serve(4) show ?thesis
  proof (cases rule: connection_turn_cases)
    case idle
    then have "responses cs' = responses cs" "no_failed_commit cs"
      using serve responses_update [of i cs cn' 0] no_failed_commit_update [of cs i cn'] assms(3) by auto
    with assms(4,5) idle show ?thesis by (simp add: refines_def)
  next
    case (request req r)
    then have r: "responses cs' = responses cs + 1" and n: "no_failed_commit cs" "\<not> failed_commit (req, r)"
      using serve responses_update [of i cs cn' 1] no_failed_commit_update [of cs i cn'] assms(3) by auto
    from assms(4,5) r n have "refines c st0 (sv, cs)" by simp
    with request_refines [OF request(1) n(2), of st0 "responses cs"] assms(4) r show ?thesis
      by (simp add: refines_def)
  next
    case (panic req)
    with panic_poisons [OF panic(1)] assms(2) show ?thesis by simp
  qed
qed

lemma poisoned_step: "server_step c tc wc mx (sv, cs) (sv', cs') \<Longrightarrow> sv_poisoned sv \<Longrightarrow> sv_poisoned sv'"
  by (auto elim!: server_stepE dest: poisoned_turn)

lemma server_refines:
  assumes "server_reachable c tc wc mx (sv0, cs0) (sv, cs)" "refines c st0 (sv0, cs0)"
  shows "\<not> sv_poisoned sv \<Longrightarrow> no_failed_commit cs \<Longrightarrow> responses cs < 2 ^ 64 \<Longrightarrow> refines c st0 (sv, cs)"
  using assms(1)
proof (induction rule: rtranclp_induct2)
  case (step sv1 cs1 sv2 cs2)
  then show ?case using server_step_refines [OF step(2)] poisoned_step [OF step(2)] by blast
qed (use assms(2) in simp)

lemma server_lock:
  "server_reachable c tc wc mx (sv0, cs0) (sv, cs) \<Longrightarrow> sr_lock (sv_runtime sv) = sr_lock (sv_runtime sv0)"
proof (induction rule: rtranclp_induct2)
  case (step sv1 cs1 sv2 cs2)
  have "sr_lock (sv_runtime sv2) = sr_lock (sv_runtime sv1)" using step(2)
    by (auto elim!: server_stepE elim: connection_turn_cases dest: process_request_config)
  with step(3) show ?case by simp
qed simp

lemma server_refinement:
  assumes "server_reachable c tc wc mx (server_init rt d) (sv, cs)"
    and "sr_tx_manager rt = mgr (opened e g d)"
    and "\<not> sv_poisoned sv" "no_failed_commit cs" "responses cs < 2 ^ 64"
  shows "\<exists>st. tx_reachable c (opened e g d) st \<and> mgr st = sv_manager sv \<and> disk_of st = sv_disk sv \<and>
    list_all is_query_update (committed st)"
proof -
  let ?st = "opened e g d"
  have "query_updates_only ?st" by (simp add: query_updates_only_def opened_def)
  moreover have "mgr ?st = sr_tx_manager rt" "disk_of ?st = d" using assms(2) by (simp_all add: opened_def)
  ultimately have "simulated c ?st (sr_tx_manager rt) d" unfolding simulated_def by blast
  moreover have "graph_version (sr_tx_manager rt) = 0" using assms(2) by (simp add: opened_def)
  ultimately have "refines c ?st (server_init rt d)" by (simp add: refines_def server_init_def)
  from server_refines [OF assms(1) [unfolded server_init_def] this [unfolded server_init_def] assms(3-5)]
  show ?thesis by (auto simp: refines_def simulated_def query_updates_only_def)
qed

text \<open>C6: the concurrent server refines the transaction manager: every state it reaches without a
  panic and without a commit that was answered with a storage error is reached by a sequential
  execution of the manager whose updates are runs of queries.\<close>

theorem server_refines_manager:
  assumes "server_reachable c tc wc mx (server_init rt d) (sv, cs)"
    and "sr_tx_manager rt = mgr (opened e g d)"
    and "\<not> sv_poisoned sv" "no_failed_commit cs" "responses cs < 2 ^ 64"
  shows "\<exists>st. tx_reachable c (opened e g d) st \<and> mgr st = sv_manager sv \<and> disk_of st = sv_disk sv \<and>
    list_all is_query_update (committed st)"
  using assms by (rule server_refinement)

section \<open>Instances\<close>

definition sample_runtime :: server_runtime where
  "sample_runtime =
     \<lparr>sr_lock = \<lparr>lock_path = ''data/graph.write.lock''\<rparr>,
      sr_tx_manager = mgr (opened sample_engine new_store sample_disk),
      sr_config = \<lparr>mode = Server, config_db_file = ''data/graph.db'', port = None, concurrency_profile = None\<rparr>,
      sr_auth = sample_auth\<rparr>"

definition sample_wire :: wire_codec where
  "sample_wire = \<lparr>
     json_de_request = (\<lambda>s.
       if s = ''h'' then Ok (Handshake ''protocol-p0@1.0.0'' ''canonical-types@1.0.0'')
       else if s = ''a'' then Ok (Auth ''H.C.s'')
       else if s = ''b'' then Ok BeginTx
       else Err ''expected value at line 1 column 1''),
     json_ser_response = (\<lambda>_. Ok ''{}'')\<rparr>"

definition greeting :: "(server_request \<times> server_response) list" where
  "greeting =
     [(Handshake ''protocol-p0@1.0.0'' ''canonical-types@1.0.0'',
       HandshakeOk ''protocol-p0@1.0.0'' ''canonical-types@1.0.0''),
      (Auth ''H.C.s'', AuthOk), (BeginTx, TxBegun ''tx-1'')]"

lemma sample_negotiate:
  "\<exists>y. negotiate \<lparr>hr_protocol_version = ''protocol-p0@1.0.0'',
     hr_canonical_type_system_version = ''canonical-types@1.0.0''\<rparr> = Ok y"
  by (simp add: negotiate_def Let_def load_typemap_spec_def)

lemma sample_authorize:
  assumes "sr_auth rt = sample_auth" "ticks d = []"
  shows "authorize sample_tokens rt (Some ''H.C.s'') d = (d, Ok ())"
proof -
  have "validate_bearer_token sample_tokens None sample_auth ''H.C.s'' = Panic"
    "validate_bearer_token sample_tokens (Some (0 div 1000)) sample_auth ''H.C.s'' = Ok ()"
    by code_simp+
  with assms show ?thesis by (simp add: authorize_def read_clock_def op_then_def)
qed

lemma turn_line:
  assumes "trim l = l" "l \<noteq> []" "json_de_request sample_wire l = Ok req"
    and "process_request c tc it req (cn_state cn) sv = (sv', st, Some r)"
  shows "connection_turn c tc sample_wire it (Line l) Written sv cn =
    (sv', cn\<lparr>cn_state := st, cn_trace := cn_trace cn @ [(req, r)], cn_sent := cn_sent cn @ [CHR ''{'', CHR ''}'', CHR 0x0A]\<rparr>)"
  using assms by (simp add: connection_turn_def Let_def write_response_def sample_wire_def)

definition greeted :: connection where
  "greeted = \<lparr>cn_state = AppReady, cn_trace = greeting,
     cn_sent = concat (replicate 3 [CHR ''{'', CHR ''}'', CHR 0x0A]), cn_end = None\<rparr>"

lemma sample_session:
  "begin_tx (mgr (opened sample_engine new_store sample_disk)) =
     ((mgr (opened sample_engine new_store sample_disk))
        \<lparr>tx_seq := 1, sessions := fmupd ''tx-1'' \<lparr>tx_graph = new_store, base_version = 0\<rparr> fmempty\<rparr>, ''tx-1'')"
proof -
  have "''tx-'' @ show_nat (unat (1::64 word)) = ''tx-1''" by code_simp
  then show ?thesis by (simp add: begin_tx_def opened_def Let_def)
qed

definition sample_state :: tx_state where
  "sample_state = (opened sample_engine new_store sample_disk)
     \<lparr>mgr := fst (begin_tx (mgr (opened sample_engine new_store sample_disk)))\<rparr>"

definition greeted_state :: server_state where
  "greeted_state = \<lparr>sv_runtime = sample_runtime\<lparr>sr_tx_manager := mgr sample_state\<rparr>,
     sv_disk = sample_disk, sv_poisoned = False\<rparr>"

lemma sample_disk_ticks: "ticks sample_disk = []"
  by (simp add: sample_disk_def empty_disk_def persist_after_wal_def append_wal_def
      persist_snapshot_from_struct_def encode_snapshot_def sample_codec_def map_ok_def fs_ops)

lemma greeted_reachable:
  "server_reachable c sample_tokens sample_wire None (server_init sample_runtime sample_disk)
     (greeted_state, [greeted])"
proof -
  let ?sv = "\<lparr>sv_runtime = sample_runtime, sv_disk = sample_disk, sv_poisoned = False\<rparr>"
  let ?nl = "[CHR ''{'', CHR ''}'', CHR 0x0A]"
  let ?c1 = "new_connection\<lparr>cn_state := TlsOk, cn_trace := take 1 greeting, cn_sent := ?nl\<rparr>"
  let ?c2 = "new_connection\<lparr>cn_state := AppReady, cn_trace := take 2 greeting, cn_sent := ?nl @ ?nl\<rparr>"
  let ?step = "server_step c sample_tokens sample_wire None"
  have t: "trim l = l" if "l \<in> {''h'', ''a'', ''b''}" for l using that by (auto; code_simp)
  have "?step (server_init sample_runtime sample_disk) (?sv, [new_connection])"
    using server_step.accept [of None "[]"] by (simp add: server_init_def may_accept_def)
  moreover have "?step (?sv, [new_connection]) (?sv, [?c1])"
  proof -
    have "process_request c sample_tokens id (fst (greeting ! 0)) Connected ?sv = (?sv, TlsOk, Some (snd (greeting ! 0)))"
      using sample_negotiate
      by (auto simp: greeting_def process_request_def on_handshake_def with_lock_def handshake_def)
    then have "connection_turn c sample_tokens sample_wire id (Line ''h'') Written ?sv new_connection = (?sv, ?c1)"
      by (subst turn_line [where l = "''h''" and req = "fst (greeting ! 0)"])
        (simp_all add: t sample_wire_def greeting_def new_connection_def)
    with server_step.serve [of 0 "[new_connection]" c sample_tokens sample_wire id "Line ''h''" Written ?sv ?sv ?c1]
    show ?thesis by (simp add: new_connection_def)
  qed
  moreover have "?step (?sv, [?c1]) (?sv, [?c2])"
  proof -
    have "process_request c sample_tokens id (fst (greeting ! 1)) TlsOk ?sv = (?sv, AppReady, Some (snd (greeting ! 1)))"
      by (simp add: greeting_def process_request_def on_auth_def with_lock_def sample_authorize sample_runtime_def
          sample_disk_ticks)
    then have "connection_turn c sample_tokens sample_wire id (Line ''a'') Written ?sv ?c1 = (?sv, ?c2)"
      by (subst turn_line [where l = "''a''" and req = "fst (greeting ! 1)"])
        (simp_all add: t sample_wire_def greeting_def new_connection_def)
    with server_step.serve [of 0 "[?c1]" c sample_tokens sample_wire id "Line ''a''" Written ?sv ?sv ?c2]
    show ?thesis by (simp add: new_connection_def)
  qed
  moreover have "?step (?sv, [?c2]) (greeted_state, [greeted])"
  proof -
    have "process_request c sample_tokens id BeginTx AppReady ?sv = (greeted_state, AppReady, Some (TxBegun ''tx-1''))"
      by (simp add: process_request_def on_begin_def with_lock_def sample_runtime_def sample_session
          greeted_state_def sample_state_def)
    then have "connection_turn c sample_tokens sample_wire id (Line ''b'') Written ?sv ?c2 = (greeted_state, greeted)"
      by (subst turn_line [where l = "''b''" and req = BeginTx])
        (simp_all add: t sample_wire_def greeting_def new_connection_def greeted_def numeral_eq_Suc)
    with server_step.serve [of 0 "[?c2]" c sample_tokens sample_wire id "Line ''b''" Written ?sv greeted_state greeted]
    show ?thesis by (simp add: new_connection_def)
  qed
  ultimately show ?thesis by (meson converse_rtranclp_into_rtranclp rtranclp.rtrancl_refl)
qed

theorem app_responses_need_auth_witness:
  "session_opened sample_tokens sample_auth greeting 2"
proof -
  have "session_opened sample_tokens (sr_auth sample_runtime) (cn_trace greeted) 2"
    by (rule app_responses_need_auth [OF greeted_reachable]) (simp_all add: greeted_def greeting_def)
  then show ?thesis by (simp add: greeted_def sample_runtime_def)
qed

theorem server_graphs_consistent_witness: "manager_consistent (sv_manager greeted_state)"
  by (rule server_graphs_consistent [OF greeted_reachable])
    (simp add: sample_runtime_def opened_def manager_consistent_def consistent_new_store)

theorem server_refines_manager_witness:
  "\<exists>st. tx_reachable sample_codec (opened sample_engine new_store sample_disk) st \<and>
     mgr st = sv_manager greeted_state \<and> disk_of st = sv_disk greeted_state \<and>
     list_all is_query_update (committed st)"
  by (rule server_refines_manager [OF greeted_reachable])
    (simp_all add: sample_runtime_def greeted_state_def greeted_def greeting_def no_failed_commit_def
      failed_commit_def responses_def)

text \<open>A query with an accented letter outside of quotes.\<close>

definition accented_query :: string where
  "accented_query = ''MATCH (n) RETURN caf'' @ [CHR 0xC3, CHR 0xA9]"

theorem query_panic_disables_server_witness:
  "\<exists>sv1 st1. process_request sample_codec sample_tokens (\<lambda>xs. xs)
       (Query ''tx-1'' accented_query None) AppReady greeted_state = (sv1, st1, None) \<and>
     (\<exists>code msg. process_request sample_codec sample_tokens (\<lambda>xs. xs) BeginTx AppReady sv1 =
       (sv1, AppReady, Some (Error code msg None)))"
proof -
  obtain sv1 st1 r where p: "process_request sample_codec sample_tokens (\<lambda>xs. xs)
       (Query ''tx-1'' accented_query None) AppReady greeted_state = (sv1, st1, r)" by (metis prod_cases3)
  have s: "fmlookup (sessions (sv_manager greeted_state)) ''tx-1'' = Some \<lparr>tx_graph = new_store, base_version = 0\<rparr>"
    by (simp add: greeted_state_def sample_state_def sample_session)
  have q: "resolve_cypher_dialect accented_query None = (OpenCypher9, accented_query)" by code_simp
  have x: "snd (execute_query_with_dialect (\<lambda>xs. xs) new_store accented_query OpenCypher9) = Panic" by code_simp
  have "\<not> sv_poisoned greeted_state" by (simp add: greeted_state_def)
  from query_panic_disables_server [OF this s q _ p, of sample_wire None "[]" sv1 "[]" BeginTx] x p
  show ?thesis by simp
qed

end
