(* ===== verification/Native_Audit.thy ===== *)
theory Native_Audit
  imports Rust_Str
begin

text \<open>
  The audit records of the native process (\<^verbatim>\<open>audit.rs\<close>): the failure classes and the checks of the
  required fields. The clock is a parameter of \<open>now_epoch_ms_string\<close>.
\<close>

definition ALLOWED_FAILURE_CLASSES :: "string list" where
  "ALLOWED_FAILURE_CLASSES = [''INTERNAL_BUG'', ''IO_FAILURE'', ''OOM'', ''TIMEOUT'', ''CLIENT_INPUT'']"

definition INTERNAL_FAILURE_CLASSES :: "string list" where
  "INTERNAL_FAILURE_CLASSES = [''INTERNAL_BUG'', ''IO_FAILURE'', ''OOM'', ''TIMEOUT'']"

record native_request_audit_event =
  ra_error_code :: string
  ra_failure_class :: string
  ra_request_id :: string
  ra_timestamp :: string

record native_crash_audit_event =
  ca_error_code :: string
  ca_timestamp :: string
  ca_process_exit_code :: "int option"
  ca_signal :: "string option"
  ca_last_request_id :: "string option"
  ca_uptime_sec :: nat
  ca_cause :: "string option"

definition now_epoch_ms_string :: "nat option \<Rightarrow> (string, string) outcome" where
  "now_epoch_ms_string clock_ms = (case clock_ms of Some ms \<Rightarrow> Ok (show_nat ms) | None \<Rightarrow> Panic)"

definition is_allowed_failure_class :: "string \<Rightarrow> bool" where
  "is_allowed_failure_class c = List.member ALLOWED_FAILURE_CLASSES c"

definition is_internal_failure_class :: "string \<Rightarrow> bool" where
  "is_internal_failure_class c = List.member INTERNAL_FAILURE_CLASSES c"

text \<open>The \<^verbatim>\<open>Debug\<close> rendering of the list of allowed classes.\<close>

definition debug_classes :: string where
  "debug_classes = ''[\"INTERNAL_BUG\", \"IO_FAILURE\", \"OOM\", \"TIMEOUT\", \"CLIENT_INPUT\"]''"

definition validate_request_event_required_fields ::
  "native_request_audit_event \<Rightarrow> (unit, string) outcome"
where
  "validate_request_event_required_fields ev =
     (if trim (ra_error_code ev) = [] then Err ''errorCode is required''
      else if \<not> is_allowed_failure_class (ra_failure_class ev) then
        Err (''failureClass must be one of '' @ debug_classes)
      else if trim (ra_request_id ev) = [] then Err ''requestId is required''
      else if trim (ra_timestamp ev) = [] then Err ''timestamp is required''
      else Ok ())"

definition validate_crash_event_required_fields ::
  "native_crash_audit_event \<Rightarrow> (unit, string) outcome"
where
  "validate_crash_event_required_fields ev =
     (if ca_error_code ev \<noteq> ''PROCESS_CRASH'' then Err ''errorCode must be PROCESS_CRASH''
      else if trim (ca_timestamp ev) = [] then Err ''timestamp is required''
      else if trim (case ca_last_request_id ev of Some r \<Rightarrow> r | None \<Rightarrow> []) = [] then
        Err ''lastRequestId is required''
      else Ok ())"

lemma internal_class_allowed: "is_internal_failure_class c \<Longrightarrow> is_allowed_failure_class c"
  by (auto simp: is_internal_failure_class_def is_allowed_failure_class_def
      INTERNAL_FAILURE_CLASSES_def ALLOWED_FAILURE_CLASSES_def)

end
