(* ===== verification/U64.thy ===== *)
theory U64
  imports Str_Facts
begin

text \<open>Rust's \<^verbatim>\<open>u64\<close>: decimal text, checked and saturating arithmetic, and their meaning on natural numbers.\<close>

type_synonym u64 = "64 word"

definition show_u64 :: "u64 \<Rightarrow> string" where
  "show_u64 w = show_nat (unat w)"

definition checked_add :: "u64 \<Rightarrow> u64 \<Rightarrow> u64 option" where
  "checked_add a b = (if unat a + unat b < 2 ^ 64 then Some (a + b) else None)"

definition checked_mul :: "u64 \<Rightarrow> u64 \<Rightarrow> u64 option" where
  "checked_mul a b = (if unat a * unat b < 2 ^ 64 then Some (a * b) else None)"

definition saturating_sub :: "u64 \<Rightarrow> u64 \<Rightarrow> u64" where
  "saturating_sub a b = (if a < b then 0 else a - b)"

text \<open>\<^verbatim>\<open>len() as u64\<close>; a length in memory is below \<open>2 ^ 64\<close>.\<close>

definition len_u64 :: "'a list \<Rightarrow> u64" where
  "len_u64 xs = word_of_nat (length xs)"

lemma unat_bound: "unat (w :: u64) < 2 ^ 64"
  using unsigned_less [of w] by simp

lemma checked_add_Some: "checked_add a b = Some r \<longleftrightarrow> unat r = unat a + unat b"
proof -
  have "unat a + unat b < 2 ^ 64 \<Longrightarrow> unat (a + b) = unat a + unat b"
    by (simp add: unat_word_ariths(1))
  with unat_bound [of r] show ?thesis using word_unat_eq_iff [of "a + b" r] by (auto simp: checked_add_def)
qed

lemma checked_mul_Some: "checked_mul a b = Some r \<longleftrightarrow> unat r = unat a * unat b"
proof -
  have "unat a * unat b < 2 ^ 64 \<Longrightarrow> unat (a * b) = unat a * unat b"
    by (simp add: unat_word_ariths(2))
  with unat_bound [of r] show ?thesis using word_unat_eq_iff [of "a * b" r] by (auto simp: checked_mul_def)
qed

lemma checked_None:
  "checked_add a b = None \<longleftrightarrow> 2 ^ 64 \<le> unat a + unat b" "checked_mul a b = None \<longleftrightarrow> 2 ^ 64 \<le> unat a * unat b"
  by (auto simp: checked_add_def checked_mul_def not_less)

lemma unat_saturating_sub: "unat (saturating_sub a b) = unat a - unat b"
  by (auto simp: saturating_sub_def word_less_nat_alt unat_sub word_le_nat_alt)

lemma unat_of_nat_u64: "n < 2 ^ 64 \<Longrightarrow> unat (word_of_nat n :: u64) = n"
  by (simp add: unat_of_nat take_bit_eq_mod)

lemma unat_len_u64: "length xs < 2 ^ 64 \<Longrightarrow> unat (len_u64 xs) = length xs"
  by (simp add: len_u64_def unat_of_nat_u64)

lemma show_u64_inject [simp]: "show_u64 v = show_u64 w \<longleftrightarrow> v = w"
  by (simp add: show_u64_def word_unat_eq_iff)

lemma show_u64_chars: "x \<in> set (show_u64 w) \<Longrightarrow> is_digit x"
  using show_nat_digits [of "unat w"] by (auto simp: show_u64_def list_all_iff)

lemma show_u64_delims [simp]: "CHR '','' \<notin> set (show_u64 w)" "CHR ''}'' \<notin> set (show_u64 w)"
  using show_u64_chars [of "CHR '',''" w] show_u64_chars [of "CHR ''}''" w]
  by (auto simp: is_digit_def less_eq_char_def)

text \<open>The number of decimal digits grows with the number.\<close>

lemma length_show_nat_mono: "m \<le> n \<Longrightarrow> length (show_nat m) \<le> length (show_nat n)"
proof (induction n arbitrary: m rule: less_induct)
  case (less n)
  show ?case
  proof (cases "m < 10")
    case True
    then have "length (show_nat m) = 1" by (simp add: show_nat.simps)
    moreover have "show_nat n \<noteq> []" using show_nat_digits by simp
    ultimately show ?thesis by (simp add: Suc_leI)
  next
    case False
    with less.prems have "n div 10 < n" "m div 10 \<le> n div 10" by (auto simp: div_le_mono)
    from less.IH [OF this] False less.prems show ?thesis
      by (simp add: show_nat.simps [of m] show_nat.simps [of n])
  qed
qed

lemma length_show_nat_less: "n < 10 ^ k \<Longrightarrow> 0 < k \<Longrightarrow> length (show_nat n) \<le> k"
proof (induction k arbitrary: n)
  case (Suc k)
  show ?case
  proof (cases "n < 10")
    case True
    then show ?thesis by (simp add: show_nat.simps)
  next
    case False
    then have "0 < k" using Suc.prems by (cases k) auto
    moreover have "n div 10 < 10 ^ k" using Suc.prems(1) by (simp add: less_mult_imp_div_less mult.commute)
    ultimately show ?thesis using Suc.IH False by (simp add: show_nat.simps [of n])
  qed
qed simp

end
