(* ===== verification/Native_Persistence.thy ===== *)
theory Native_Persistence
  imports U64
begin

text \<open>
  The persistence contract of the native process (\<^verbatim>\<open>native_persistence_contract.rs\<close>): commit evidence,
  progress policies and progress frames, their validation and their canonical bytes. JSON, base64
  and SHA-256 are library code and parameters (\<open>persistence_codec\<close>).
\<close>

section \<open>Data\<close>

definition JSON_SAFE_INTEGER_MAX :: u64 where "JSON_SAFE_INTEGER_MAX = 9007199254740991"
definition PREPARED_COMMIT_EVIDENCE_SCHEMA :: string where
  "PREPARED_COMMIT_EVIDENCE_SCHEMA = ''PreparedCommitEvidence@1''"
definition COMMIT_EVIDENCE_SCHEMA :: string where "COMMIT_EVIDENCE_SCHEMA = ''CommitEvidence@1''"
definition NATIVE_PROGRESS_POLICY_SCHEMA :: string where
  "NATIVE_PROGRESS_POLICY_SCHEMA = ''NativeProgressPolicy@1''"
definition NATIVE_PROGRESS_FRAME_SCHEMA :: string where
  "NATIVE_PROGRESS_FRAME_SCHEMA = ''NativeProgressFrame@1''"
definition NATIVE_PROGRESS_PROTOCOL_VERSION :: u64 where "NATIVE_PROGRESS_PROTOCOL_VERSION = 1"

definition BATCH_COMMIT_PHASES :: "string list" where
  "BATCH_COMMIT_PHASES =
     [''admitted'', ''wal_verify'', ''prepare_refs'', ''vector_write'', ''vector_sync'', ''vector_publish'',
      ''vector_dir_sync'', ''json_write'', ''json_sync'', ''json_publish'', ''json_dir_sync'', ''wal_zero'',
      ''wal_sync'', ''complete'']"

record commit_evidence_payload =
  transaction_nonce :: string
  base_generation :: u64
  generation :: u64
  wal_sha256 :: string
  wal_bytes :: u64
  wal_record_count :: u64

datatype prepared_commit_evidence = PreparedCommitEvidence commit_evidence_payload

datatype commit_evidence = CommitEvidence commit_evidence_payload

record raw_commit_evidence = commit_evidence_payload +
  evidence_schema :: string

record phase_hard_deadline =
  deadline_phase :: string
  deadline_ms :: u64

record native_progress_method_policy =
  initial_frame_deadline_ms :: u64
  inactivity_deadline_ms :: u64
  phase_hard_deadline_ms :: "phase_hard_deadline list"
  absolute_deadline_ms :: u64
  min_frame_interval_ms :: u64
  heartbeat_interval_ms :: u64
  early_byte_delta :: u64
  early_unit_delta :: u64
  max_frames :: u64
  max_frame_bytes :: u64

record native_progress_policy =
  policy_method :: native_progress_method_policy

record raw_native_progress_method_policy = native_progress_method_policy +
  raw_method :: string
  raw_phases :: "string list"

record raw_native_progress_policy =
  policy_schema :: string
  policy_protocol_version :: u64
  raw_methods :: "raw_native_progress_method_policy list"

record native_persistence_fixture =
  fixture_name :: string
  canonical_base64 :: string
  fixture_sha256 :: string

record native_persistence_fixture_manifest =
  manifest_schema :: string
  policy_purpose :: string
  fixtures :: "native_persistence_fixture list"

record progress_counters =
  completed_units :: u64
  total_units :: "u64 option"
  completed_bytes :: u64
  total_bytes :: "u64 option"

record native_progress_frame = progress_counters +
  frame_id :: u64
  sequence :: u64
  phase :: string

record raw_native_progress_frame = native_progress_frame +
  frame_schema :: string
  frame_kind :: string
  frame_protocol_version :: u64
  frame_method :: string

record persistence_codec =
  json_evidence :: "string \<Rightarrow> (raw_commit_evidence, string) outcome"
  json_policy :: "string \<Rightarrow> (raw_native_progress_policy, string) outcome"
  json_frame :: "string \<Rightarrow> (raw_native_progress_frame, string) outcome"
  json_manifest :: "string \<Rightarrow> (native_persistence_fixture_manifest, string) outcome"
  standard_decode :: "string \<Rightarrow> (string, string) outcome"
  sha256_hex :: "string \<Rightarrow> string"

section \<open>Validators\<close>

definition validate_safe_integer :: "string \<Rightarrow> u64 \<Rightarrow> bool \<Rightarrow> (unit, string) outcome" where
  "validate_safe_integer name v allow_zero =
     (if v > JSON_SAFE_INTEGER_MAX \<or> (\<not> allow_zero \<and> v = 0) then
        Err (name @ '' is outside the canonical safe-integer range'')
      else Ok ())"

definition is_lower_hex :: "char \<Rightarrow> bool" where
  "is_lower_hex b \<longleftrightarrow> is_digit b \<or> (CHR ''a'' \<le> b \<and> b \<le> CHR ''f'')"

definition validate_lower_hex :: "string \<Rightarrow> string \<Rightarrow> nat \<Rightarrow> (unit, string) outcome" where
  "validate_lower_hex name v bytes =
     (if length v \<noteq> bytes * 2 \<or> \<not> list_all is_lower_hex v then
        Err (name @ '' must be '' @ show_nat (bytes * 2) @ '' lowercase hex characters'')
      else Ok ())"

section \<open>Commit evidence\<close>

definition new_payload ::
  "string \<Rightarrow> u64 \<Rightarrow> u64 \<Rightarrow> string \<Rightarrow> u64 \<Rightarrow> u64 \<Rightarrow> (commit_evidence_payload, string) outcome"
where
  "new_payload nonce base gen sha bytes cnt =
     and_then (validate_lower_hex ''transactionNonce'' nonce 32) (\<lambda>_.
     and_then (validate_lower_hex ''walSha256'' sha 32) (\<lambda>_.
     and_then (validate_safe_integer ''baseGeneration'' base True) (\<lambda>_.
     and_then (validate_safe_integer ''generation'' gen False) (\<lambda>_.
     and_then (validate_safe_integer ''walBytes'' bytes False) (\<lambda>_.
     and_then (validate_safe_integer ''walRecordCount'' cnt False) (\<lambda>_.
     if checked_add base 1 \<noteq> Some gen then Err ''generation must equal baseGeneration + 1''
     else Ok \<lparr>transaction_nonce = nonce, base_generation = base, generation = gen, wal_sha256 = sha,
              wal_bytes = bytes, wal_record_count = cnt\<rparr>))))))"

definition payload_canonical_bytes :: "string \<Rightarrow> commit_evidence_payload \<Rightarrow> string" where
  "payload_canonical_bytes schema p =
     ''{\"schema\":\"'' @ schema @ ''\",\"transactionNonce\":\"'' @ transaction_nonce p @
     ''\",\"baseGeneration\":'' @ show_u64 (base_generation p) @ '',\"generation\":'' @ show_u64 (generation p) @
     '',\"walSha256\":\"'' @ wal_sha256 p @ ''\",\"walBytes\":'' @ show_u64 (wal_bytes p) @
     '',\"walRecordCount\":'' @ show_u64 (wal_record_count p) @ ''}''"

definition new_prepared ::
  "string \<Rightarrow> u64 \<Rightarrow> u64 \<Rightarrow> string \<Rightarrow> u64 \<Rightarrow> u64 \<Rightarrow> (prepared_commit_evidence, string) outcome"
where
  "new_prepared nonce base gen sha bytes cnt =
     map_ok PreparedCommitEvidence (new_payload nonce base gen sha bytes cnt)"

fun prepared_canonical_bytes :: "prepared_commit_evidence \<Rightarrow> string" where
  "prepared_canonical_bytes (PreparedCommitEvidence p) = payload_canonical_bytes PREPARED_COMMIT_EVIDENCE_SCHEMA p"

fun commit_evidence_of :: "prepared_commit_evidence \<Rightarrow> commit_evidence" where
  "commit_evidence_of (PreparedCommitEvidence p) = CommitEvidence p"

fun commit_canonical_bytes :: "commit_evidence \<Rightarrow> string" where
  "commit_canonical_bytes (CommitEvidence p) = payload_canonical_bytes COMMIT_EVIDENCE_SCHEMA p"

definition prepared_of_raw :: "raw_commit_evidence \<Rightarrow> (prepared_commit_evidence, string) outcome" where
  "prepared_of_raw r =
     new_prepared (transaction_nonce r) (base_generation r) (generation r) (wal_sha256 r) (wal_bytes r)
       (wal_record_count r)"

definition prepared_from_canonical_bytes ::
  "persistence_codec \<Rightarrow> string \<Rightarrow> (prepared_commit_evidence, string) outcome"
where
  "prepared_from_canonical_bytes pc raw =
     and_then (json_evidence pc raw) (\<lambda>parsed.
     if evidence_schema parsed \<noteq> PREPARED_COMMIT_EVIDENCE_SCHEMA then
       Err (''expected schema '' @ PREPARED_COMMIT_EVIDENCE_SCHEMA)
     else and_then (prepared_of_raw parsed) (\<lambda>validated.
       if prepared_canonical_bytes validated \<noteq> raw then Err ''prepared evidence is not canonical JSON''
       else Ok validated))"

definition commit_from_canonical_bytes ::
  "persistence_codec \<Rightarrow> string \<Rightarrow> (commit_evidence, string) outcome"
where
  "commit_from_canonical_bytes pc raw =
     and_then (json_evidence pc raw) (\<lambda>parsed.
     if evidence_schema parsed \<noteq> COMMIT_EVIDENCE_SCHEMA then
       Err (''expected schema '' @ COMMIT_EVIDENCE_SCHEMA)
     else and_then (prepared_of_raw parsed) (\<lambda>prepared.
       let validated = commit_evidence_of prepared in
       if commit_canonical_bytes validated \<noteq> raw then Err ''commit evidence is not canonical JSON''
       else Ok validated))"

section \<open>Progress policy\<close>

fun check_phase_deadlines ::
  "phase_hard_deadline list \<Rightarrow> string list \<Rightarrow> (phase_hard_deadline list, string) outcome"
where
  "check_phase_deadlines (d # ds) (p # ps) =
     (if deadline_phase d \<noteq> p then Err ''phase deadline order does not match phase inventory''
      else and_then (validate_safe_integer ''phaseHardDeadlineMs.deadlineMs'' (deadline_ms d) False) (\<lambda>_.
           map_ok ((#) d) (check_phase_deadlines ds ps)))"
| "check_phase_deadlines _ _ = Ok []"

fun check_safe_integers :: "(string \<times> u64) list \<Rightarrow> (unit, string) outcome" where
  "check_safe_integers [] = Ok ()"
| "check_safe_integers ((name, v) # r) =
     and_then (validate_safe_integer name v False) (\<lambda>_. check_safe_integers r)"

text \<open>The frames a run must be able to send: one per phase and one per heartbeat.\<close>

definition mandatory_frames :: "u64 \<Rightarrow> u64 \<Rightarrow> (u64, string) outcome" where
  "mandatory_frames absolute heartbeat =
     and_then (ok_or (case checked_add absolute (heartbeat - 1) of
         None \<Rightarrow> None
       | Some v \<Rightarrow> if heartbeat = 0 then None else Some (v div heartbeat))
       ''progress frame budget arithmetic overflow'') (\<lambda>heartbeat_frames.
     ok_or (checked_add (word_of_nat (length BATCH_COMMIT_PHASES)) heartbeat_frames)
       ''progress frame budget arithmetic overflow'')"

definition policy_try_from :: "raw_native_progress_policy \<Rightarrow> (native_progress_policy, string) outcome" where
  "policy_try_from raw =
     (if policy_schema raw \<noteq> NATIVE_PROGRESS_POLICY_SCHEMA \<or>
         policy_protocol_version raw \<noteq> NATIVE_PROGRESS_PROTOCOL_VERSION \<or> length (raw_methods raw) \<noteq> 1 then
        Err ''progress policy schema, version, or method set is invalid''
      else let m = hd (raw_methods raw) in
        if raw_method m \<noteq> ''batch_commit'' \<or> raw_phases m \<noteq> BATCH_COMMIT_PHASES \<or>
           length (phase_hard_deadline_ms m) \<noteq> length BATCH_COMMIT_PHASES then
          Err ''batch_commit progress inventory is invalid''
        else
          and_then (check_phase_deadlines (phase_hard_deadline_ms m) BATCH_COMMIT_PHASES) (\<lambda>deadlines.
          and_then (check_safe_integers
             [(''initialFrameDeadlineMs'', initial_frame_deadline_ms m),
              (''inactivityDeadlineMs'', inactivity_deadline_ms m),
              (''absoluteDeadlineMs'', absolute_deadline_ms m),
              (''minFrameIntervalMs'', min_frame_interval_ms m),
              (''heartbeatIntervalMs'', heartbeat_interval_ms m),
              (''earlyByteDelta'', early_byte_delta m),
              (''earlyUnitDelta'', early_unit_delta m),
              (''maxFrames'', max_frames m),
              (''maxFrameBytes'', max_frame_bytes m)]) (\<lambda>_.
          if heartbeat_interval_ms m < min_frame_interval_ms m then
            Err ''heartbeat interval cannot be below the frame interval''
          else
            and_then (mandatory_frames (absolute_deadline_ms m) (heartbeat_interval_ms m)) (\<lambda>frames.
            if frames > max_frames m then Err ''progress policy cannot reserve all mandatory frames''
            else Ok \<lparr>policy_method =
              \<lparr>initial_frame_deadline_ms = initial_frame_deadline_ms m,
               inactivity_deadline_ms = inactivity_deadline_ms m,
               phase_hard_deadline_ms = deadlines,
               absolute_deadline_ms = absolute_deadline_ms m,
               min_frame_interval_ms = min_frame_interval_ms m,
               heartbeat_interval_ms = heartbeat_interval_ms m,
               early_byte_delta = early_byte_delta m,
               early_unit_delta = early_unit_delta m,
               max_frames = max_frames m,
               max_frame_bytes = max_frame_bytes m\<rparr>\<rparr>))))"

text \<open>Items joined by commas.\<close>

fun join_commas :: "string list \<Rightarrow> string" where
  "join_commas [] = []"
| "join_commas [x] = x"
| "join_commas (x # y # r) = x @ '','' @ join_commas (y # r)"

definition policy_canonical_bytes :: "native_progress_policy \<Rightarrow> string" where
  "policy_canonical_bytes p =
     (let m = policy_method p in
      ''{\"schema\":\"'' @ NATIVE_PROGRESS_POLICY_SCHEMA @ ''\",\"protocolVersion\":'' @
      show_u64 NATIVE_PROGRESS_PROTOCOL_VERSION @ '',\"methods\":[{\"method\":\"batch_commit\",\"phases\":['' @
      join_commas (map (\<lambda>ph. ''\"'' @ ph @ ''\"'') BATCH_COMMIT_PHASES) @
      ''],\"initialFrameDeadlineMs\":'' @ show_u64 (initial_frame_deadline_ms m) @
      '',\"inactivityDeadlineMs\":'' @ show_u64 (inactivity_deadline_ms m) @ '',\"phaseHardDeadlineMs\":['' @
      join_commas (map (\<lambda>d. ''{\"phase\":\"'' @ deadline_phase d @ ''\",\"deadlineMs\":'' @
        show_u64 (deadline_ms d) @ ''}'') (phase_hard_deadline_ms m)) @
      ''],\"absoluteDeadlineMs\":'' @ show_u64 (absolute_deadline_ms m) @
      '',\"minFrameIntervalMs\":'' @ show_u64 (min_frame_interval_ms m) @
      '',\"heartbeatIntervalMs\":'' @ show_u64 (heartbeat_interval_ms m) @
      '',\"earlyByteDelta\":'' @ show_u64 (early_byte_delta m) @
      '',\"earlyUnitDelta\":'' @ show_u64 (early_unit_delta m) @
      '',\"maxFrames\":'' @ show_u64 (max_frames m) @
      '',\"maxFrameBytes\":'' @ show_u64 (max_frame_bytes m) @ ''}]}'')"

definition policy_from_canonical_bytes ::
  "persistence_codec \<Rightarrow> string \<Rightarrow> (native_progress_policy, string) outcome"
where
  "policy_from_canonical_bytes pc raw =
     and_then (json_policy pc raw) (\<lambda>parsed.
     and_then (policy_try_from parsed) (\<lambda>validated.
     if policy_canonical_bytes validated \<noteq> raw then Err ''progress policy is not canonical JSON''
     else Ok validated))"

definition policy_sha256 :: "persistence_codec \<Rightarrow> native_progress_policy \<Rightarrow> string" where
  "policy_sha256 pc p = sha256_hex pc (policy_canonical_bytes p)"

text \<open>The fixture file that ships with the repository is the argument \<open>fixture_bytes\<close>.\<close>

definition checked_in_candidate ::
  "persistence_codec \<Rightarrow> string \<Rightarrow> (native_progress_policy, string) outcome"
where
  "checked_in_candidate pc fixture_bytes =
     and_then (json_manifest pc fixture_bytes) (\<lambda>manifest.
     if manifest_schema manifest \<noteq> ''NativePersistenceCanonicalFixtures@1'' \<or>
        policy_purpose manifest \<noteq> ''contract-only-unmeasured-not-production-policy'' then
       Err ''native progress candidate manifest purpose is invalid''
     else
       and_then (ok_or (List.find (\<lambda>f. fixture_name f = ''nativeProgressPolicy'') (fixtures manifest))
         ''native progress candidate fixture is missing'') (\<lambda>fixture.
       and_then (standard_decode pc (canonical_base64 fixture)) (\<lambda>raw.
       if sha256_hex pc raw \<noteq> fixture_sha256 fixture then
         Err ''native progress candidate digest is invalid''
       else policy_from_canonical_bytes pc raw)))"

section \<open>Progress frames\<close>

definition check_total :: "string \<Rightarrow> u64 \<Rightarrow> u64 option \<Rightarrow> (unit, string) outcome" where
  "check_total name completed tot =
     (case tot of
        None \<Rightarrow> Ok ()
      | Some t \<Rightarrow>
          and_then (validate_safe_integer name t True) (\<lambda>_.
          if completed > t then Err (name @ '' is below its completed counter'') else Ok ()))"

definition new_counters ::
  "u64 \<Rightarrow> u64 option \<Rightarrow> u64 \<Rightarrow> u64 option \<Rightarrow> (progress_counters, string) outcome"
where
  "new_counters cu tu cb tb =
     and_then (validate_safe_integer ''completedUnits'' cu True) (\<lambda>_.
     and_then (validate_safe_integer ''completedBytes'' cb True) (\<lambda>_.
     and_then (check_total ''totalUnits'' cu tu) (\<lambda>_.
     and_then (check_total ''totalBytes'' cb tb) (\<lambda>_.
     Ok \<lparr>completed_units = cu, total_units = tu, completed_bytes = cb, total_bytes = tb\<rparr>))))"

definition frame_admitted :: "u64 \<Rightarrow> (native_progress_frame, string) outcome" where
  "frame_admitted i =
     and_then (validate_safe_integer ''id'' i True) (\<lambda>_.
     Ok \<lparr>completed_units = 0, total_units = None, completed_bytes = 0, total_bytes = None,
         frame_id = i, sequence = 1, phase = ''admitted''\<rparr>)"

definition frame_progress ::
  "u64 \<Rightarrow> u64 \<Rightarrow> string \<Rightarrow> progress_counters \<Rightarrow> (native_progress_frame, string) outcome"
where
  "frame_progress i sq ph counters =
     (if ph = ''admitted'' \<or> \<not> List.member BATCH_COMMIT_PHASES ph then
        Err ''subsequent progress phase is invalid''
      else
        and_then (validate_safe_integer ''id'' i True) (\<lambda>_.
        and_then (validate_safe_integer ''sequence'' sq False) (\<lambda>_.
        if sq = 1 then Err ''sequence 1 is reserved for the admitted frame''
        else Ok \<lparr>completed_units = completed_units counters, total_units = total_units counters,
                 completed_bytes = completed_bytes counters, total_bytes = total_bytes counters,
                 frame_id = i, sequence = sq, phase = ph\<rparr>)))"

definition show_total :: "u64 option \<Rightarrow> string" where
  "show_total t = (case t of None \<Rightarrow> ''null'' | Some v \<Rightarrow> show_u64 v)"

definition frame_canonical_bytes :: "native_progress_frame \<Rightarrow> string" where
  "frame_canonical_bytes f =
     ''{\"schema\":\"'' @ NATIVE_PROGRESS_FRAME_SCHEMA @ ''\",\"kind\":\"progress\",\"protocolVersion\":'' @
     show_u64 NATIVE_PROGRESS_PROTOCOL_VERSION @ '',\"id\":'' @ show_u64 (frame_id f) @ '',\"sequence\":'' @
     show_u64 (sequence f) @ '',\"method\":\"batch_commit\",\"phase\":\"'' @ phase f @ ''\",\"completedUnits\":'' @
     show_u64 (completed_units f) @ '',\"totalUnits\":'' @ show_total (total_units f) @ '',\"completedBytes\":'' @
     show_u64 (completed_bytes f) @ '',\"totalBytes\":'' @ show_total (total_bytes f) @ ''}''"

definition frame_of_raw :: "raw_native_progress_frame \<Rightarrow> (native_progress_frame, string) outcome" where
  "frame_of_raw r =
     (if frame_schema r \<noteq> NATIVE_PROGRESS_FRAME_SCHEMA \<or> frame_kind r \<noteq> ''progress'' \<or>
         frame_protocol_version r \<noteq> NATIVE_PROGRESS_PROTOCOL_VERSION \<or> frame_method r \<noteq> ''batch_commit'' then
        Err ''progress frame schema or inventory is invalid''
      else if phase r = ''admitted'' then
        if sequence r \<noteq> 1 \<or> completed_units r \<noteq> 0 \<or> total_units r \<noteq> None \<or> completed_bytes r \<noteq> 0 \<or>
           total_bytes r \<noteq> None then
          Err ''the admitted frame must be sequence 1 with zero counters''
        else frame_admitted (frame_id r)
      else
        and_then (new_counters (completed_units r) (total_units r) (completed_bytes r) (total_bytes r))
          (frame_progress (frame_id r) (sequence r) (phase r)))"

definition frame_from_canonical_bytes ::
  "persistence_codec \<Rightarrow> string \<Rightarrow> (native_progress_frame, string) outcome"
where
  "frame_from_canonical_bytes pc raw =
     and_then (json_frame pc raw) (\<lambda>parsed.
     and_then (frame_of_raw parsed) (\<lambda>validated.
     if frame_canonical_bytes validated \<noteq> raw then Err ''progress frame is not canonical JSON''
     else Ok validated))"

section \<open>Facts\<close>

lemma delimited_inject:
  assumes "c \<notin> set x" "c \<notin> set y"
  shows "x @ c # r = y @ c # s \<longleftrightarrow> x = y \<and> r = s"
  using assms
proof (induction x arbitrary: y)
  case Nil
  then show ?case by (cases y) auto
next
  case (Cons a x)
  then show ?case by (cases y) auto
qed

lemma hex_no_quote [simp]: "list_all is_lower_hex s \<Longrightarrow> CHR 0x22 \<notin> set s"
  by (auto simp: list_all_iff is_lower_hex_def is_digit_def less_eq_char_def)

lemma validate_safe_integer_Ok:
  "validate_safe_integer name v z = Ok () \<longleftrightarrow> v \<le> JSON_SAFE_INTEGER_MAX \<and> (z \<or> v \<noteq> 0)"
  by (auto simp: validate_safe_integer_def not_less)

lemma validate_lower_hex_Ok:
  "validate_lower_hex name v n = Ok () \<longleftrightarrow> length v = n * 2 \<and> list_all is_lower_hex v"
  by (auto simp: validate_lower_hex_def)

definition valid_payload :: "commit_evidence_payload \<Rightarrow> bool" where
  "valid_payload p \<longleftrightarrow>
     length (transaction_nonce p) = 64 \<and> list_all is_lower_hex (transaction_nonce p) \<and>
     length (wal_sha256 p) = 64 \<and> list_all is_lower_hex (wal_sha256 p) \<and>
     unat (generation p) = unat (base_generation p) + 1 \<and>
     generation p \<le> JSON_SAFE_INTEGER_MAX \<and>
     wal_bytes p \<noteq> 0 \<and> wal_bytes p \<le> JSON_SAFE_INTEGER_MAX \<and>
     wal_record_count p \<noteq> 0 \<and> wal_record_count p \<le> JSON_SAFE_INTEGER_MAX"

lemma new_payload_Ok:
  "new_payload nonce b g sha n k = Ok p \<longleftrightarrow>
     p = \<lparr>transaction_nonce = nonce, base_generation = b, generation = g, wal_sha256 = sha,
          wal_bytes = n, wal_record_count = k\<rparr> \<and> valid_payload p"
proof -
  have "b \<le> JSON_SAFE_INTEGER_MAX \<and> g \<noteq> 0" if "unat g = unat b + 1" "g \<le> JSON_SAFE_INTEGER_MAX"
  proof -
    have "b \<le> g" "g \<noteq> 0" using that(1) by (auto simp: word_le_nat_alt)
    with that(2) show ?thesis by auto
  qed
  then show ?thesis
    by (auto simp: new_payload_def valid_payload_def validate_safe_integer_Ok validate_lower_hex_Ok
        checked_add_Some)
qed

lemma payload_bytes_inject:
  assumes "valid_payload p" "valid_payload q" "payload_canonical_bytes s p = payload_canonical_bytes s q"
  shows "p = q"
  using assms by (auto simp: payload_canonical_bytes_def valid_payload_def delimited_inject)

lemma schema_no_quote [simp]:
  "CHR 0x22 \<notin> set PREPARED_COMMIT_EVIDENCE_SCHEMA" "CHR 0x22 \<notin> set COMMIT_EVIDENCE_SCHEMA"
  "PREPARED_COMMIT_EVIDENCE_SCHEMA \<noteq> COMMIT_EVIDENCE_SCHEMA"
  by (simp_all add: PREPARED_COMMIT_EVIDENCE_SCHEMA_def COMMIT_EVIDENCE_SCHEMA_def)

lemma payload_bytes_schema:
  "CHR 0x22 \<notin> set s \<Longrightarrow> CHR 0x22 \<notin> set t \<Longrightarrow> s \<noteq> t \<Longrightarrow> payload_canonical_bytes s p \<noteq> payload_canonical_bytes t q"
  by (simp add: payload_canonical_bytes_def delimited_inject)

lemma new_prepared_Ok:
  "new_prepared nonce b g sha n k = Ok e \<longleftrightarrow>
     (\<exists>p. e = PreparedCommitEvidence p \<and> valid_payload p \<and>
        p = \<lparr>transaction_nonce = nonce, base_generation = b, generation = g, wal_sha256 = sha,
             wal_bytes = n, wal_record_count = k\<rparr>)"
  by (auto simp: new_prepared_def new_payload_Ok)

text \<open>What is used of the JSON parser: it reads the fields back from the canonical text.\<close>

definition raw_of :: "string \<Rightarrow> commit_evidence_payload \<Rightarrow> raw_commit_evidence" where
  "raw_of s p = \<lparr>transaction_nonce = transaction_nonce p, base_generation = base_generation p,
     generation = generation p, wal_sha256 = wal_sha256 p, wal_bytes = wal_bytes p,
     wal_record_count = wal_record_count p, evidence_schema = s\<rparr>"

lemma schema_raw_of [simp]: "evidence_schema (raw_of s p) = s"
  by (simp add: raw_of_def)

definition reads_evidence :: "persistence_codec \<Rightarrow> commit_evidence_payload \<Rightarrow> bool" where
  "reads_evidence pc p \<longleftrightarrow>
     list_all (\<lambda>s. json_evidence pc (payload_canonical_bytes s p) = Ok (raw_of s p))
       [PREPARED_COMMIT_EVIDENCE_SCHEMA, COMMIT_EVIDENCE_SCHEMA]"

lemma prepared_of_raw_of:
  "valid_payload p \<Longrightarrow> prepared_of_raw (raw_of s p) = Ok (PreparedCommitEvidence p)"
  by (cases p) (simp add: prepared_of_raw_def raw_of_def new_prepared_Ok)

lemma prepared_of_raw_Ok:
  "prepared_of_raw r = Ok e \<Longrightarrow> \<exists>p. e = PreparedCommitEvidence p \<and> valid_payload p"
  by (auto simp: prepared_of_raw_def new_prepared_Ok)

section \<open>Properties\<close>

text \<open>The canonical bytes identify evidence: two validated evidences have the same bytes only if
  they are equal, and no bytes are those of a prepared and of a committed evidence.\<close>

theorem evidence_bytes_unique:
  assumes "new_prepared nonce b g sha n k = Ok e" "new_prepared nonce' b' g' sha' n' k' = Ok e'"
  shows "(prepared_canonical_bytes e = prepared_canonical_bytes e' \<longleftrightarrow> e = e') \<and>
    (commit_canonical_bytes (commit_evidence_of e) = commit_canonical_bytes (commit_evidence_of e') \<longleftrightarrow> e = e') \<and>
    prepared_canonical_bytes e \<noteq> commit_canonical_bytes (commit_evidence_of e')"
proof -
  from assms obtain p q where "e = PreparedCommitEvidence p" "e' = PreparedCommitEvidence q"
    "valid_payload p" "valid_payload q" by (auto simp: new_prepared_Ok)
  then show ?thesis
    using payload_bytes_inject [of p q] payload_bytes_schema [of PREPARED_COMMIT_EVIDENCE_SCHEMA COMMIT_EVIDENCE_SCHEMA p q]
    by auto
qed

text \<open>C39: the parsers of evidence accept exactly the canonical bytes of validated evidence, and return
  that evidence; validated means hexadecimal digests, integers that JSON can represent, a
  non-empty log, and a generation that follows its base generation.\<close>

theorem evidence_parsers_exact:
  assumes "reads_evidence pc p"
  shows "(prepared_from_canonical_bytes pc raw = Ok (PreparedCommitEvidence p) \<longleftrightarrow>
      valid_payload p \<and> raw = prepared_canonical_bytes (PreparedCommitEvidence p)) \<and>
    (commit_from_canonical_bytes pc raw = Ok (CommitEvidence p) \<longleftrightarrow>
      valid_payload p \<and> raw = commit_canonical_bytes (CommitEvidence p))"
proof (rule conjI; rule iffI)
  assume "prepared_from_canonical_bytes pc raw = Ok (PreparedCommitEvidence p)"
  then show "valid_payload p \<and> raw = prepared_canonical_bytes (PreparedCommitEvidence p)"
    by (auto simp: prepared_from_canonical_bytes_def dest: prepared_of_raw_Ok split: if_splits)
next
  assume "valid_payload p \<and> raw = prepared_canonical_bytes (PreparedCommitEvidence p)"
  then show "prepared_from_canonical_bytes pc raw = Ok (PreparedCommitEvidence p)"
    using assms by (simp add: prepared_from_canonical_bytes_def reads_evidence_def prepared_of_raw_of)
next
  assume "commit_from_canonical_bytes pc raw = Ok (CommitEvidence p)"
  then show "valid_payload p \<and> raw = commit_canonical_bytes (CommitEvidence p)"
    by (auto simp: commit_from_canonical_bytes_def Let_def dest!: prepared_of_raw_Ok split: if_splits)
next
  assume "valid_payload p \<and> raw = commit_canonical_bytes (CommitEvidence p)"
  then show "commit_from_canonical_bytes pc raw = Ok (CommitEvidence p)"
    using assms by (simp add: commit_from_canonical_bytes_def Let_def reads_evidence_def prepared_of_raw_of)
qed

lemma check_phase_deadlines_Ok:
  "check_phase_deadlines ds ps = Ok r \<Longrightarrow> length ds = length ps \<Longrightarrow>
     r = ds \<and> map deadline_phase ds = ps \<and>
     list_all (\<lambda>d. deadline_ms d \<noteq> 0 \<and> deadline_ms d \<le> JSON_SAFE_INTEGER_MAX) ds"
  by (induction ds ps arbitrary: r rule: check_phase_deadlines.induct)
    (auto simp: validate_safe_integer_Ok split: if_splits)

lemma mandatory_frames_Ok:
  assumes "mandatory_frames a h = Ok f" "h \<noteq> 0"
  shows "unat f = 14 + (unat a + unat h - 1) div unat h"
proof -
  have h: "unat (h - 1) = unat h - 1" using assms(2) by (simp add: unat_minus_one)
  have "0 < unat h" using assms(2) by (simp add: unat_gt_0)
  with assms h show ?thesis
    by (auto simp: mandatory_frames_def BATCH_COMMIT_PHASES_def checked_add_Some unat_div
        split: option.splits)
qed

text \<open>A progress policy that was accepted can be honoured: the frames for all fourteen phases and
  for a heartbeat in every interval up to the absolute deadline fit into its frame limit, the
  heartbeat is not faster than the frame interval, and every phase has a positive deadline.\<close>

theorem policy_reserves_mandatory_frames:
  assumes "policy_from_canonical_bytes pc raw = Ok p"
  shows "14 + (unat (absolute_deadline_ms (policy_method p)) + unat (heartbeat_interval_ms (policy_method p)) - 1)
        div unat (heartbeat_interval_ms (policy_method p)) \<le> unat (max_frames (policy_method p)) \<and>
    0 < unat (min_frame_interval_ms (policy_method p)) \<and>
    min_frame_interval_ms (policy_method p) \<le> heartbeat_interval_ms (policy_method p) \<and>
    map deadline_phase (phase_hard_deadline_ms (policy_method p)) = BATCH_COMMIT_PHASES \<and>
    list_all (\<lambda>d. deadline_ms d \<noteq> 0) (phase_hard_deadline_ms (policy_method p))"
proof -
  from assms obtain r where "policy_try_from r = Ok p"
    by (auto simp: policy_from_canonical_bytes_def split: if_splits)
  then obtain m :: raw_native_progress_method_policy and ds f where c: "check_phase_deadlines (phase_hard_deadline_ms m) BATCH_COMMIT_PHASES = Ok ds"
      "length (phase_hard_deadline_ms m) = length BATCH_COMMIT_PHASES"
    and hb: "heartbeat_interval_ms m \<noteq> 0" "min_frame_interval_ms m \<noteq> 0" "\<not> heartbeat_interval_ms m < min_frame_interval_ms m"
    and f: "mandatory_frames (absolute_deadline_ms m) (heartbeat_interval_ms m) = Ok f" "\<not> f > max_frames m"
    and p: "phase_hard_deadline_ms (policy_method p) = ds"
      "absolute_deadline_ms (policy_method p) = absolute_deadline_ms m"
      "heartbeat_interval_ms (policy_method p) = heartbeat_interval_ms m"
      "min_frame_interval_ms (policy_method p) = min_frame_interval_ms m"
      "max_frames (policy_method p) = max_frames m"
    by (auto simp: policy_try_from_def Let_def validate_safe_integer_Ok split: if_splits)
  from check_phase_deadlines_Ok [OF c] have "map deadline_phase ds = BATCH_COMMIT_PHASES"
    "list_all (\<lambda>d. deadline_ms d \<noteq> 0) ds" by (auto simp: list_all_iff)
  with mandatory_frames_Ok [OF f(1) hb(1)] f(2) hb(2,3) p show ?thesis
    by (simp add: not_less word_le_nat_alt unat_gt_0)
qed

definition valid_frame :: "native_progress_frame \<Rightarrow> bool" where
  "valid_frame f \<longleftrightarrow>
     phase f \<in> set BATCH_COMMIT_PHASES \<and> (phase f = ''admitted'' \<longleftrightarrow> sequence f = 1) \<and> sequence f \<noteq> 0 \<and>
     (\<forall>t. total_units f = Some t \<longrightarrow> completed_units f \<le> t) \<and>
     (\<forall>t. total_bytes f = Some t \<longrightarrow> completed_bytes f \<le> t)"

lemma phases_no_quote: "ph \<in> set BATCH_COMMIT_PHASES \<Longrightarrow> CHR 0x22 \<notin> set ph"
  by (auto simp: BATCH_COMMIT_PHASES_def)

lemma show_total_inject [simp]: "show_total s = show_total t \<longleftrightarrow> s = t"
proof -
  have "show_u64 v \<noteq> ''null''" for v
    using show_u64_chars [of "CHR ''n''" v] by (auto simp: is_digit_def less_eq_char_def)
  then show ?thesis by (auto simp: show_total_def split: option.splits) (metis)+
qed

lemma show_total_delims [simp]: "CHR '','' \<notin> set (show_total t)" "CHR ''}'' \<notin> set (show_total t)"
  by (auto simp: show_total_def split: option.splits)

lemma new_counters_Ok:
  assumes "new_counters cu tu cb tb = Ok k"
  shows "k = \<lparr>completed_units = cu, total_units = tu, completed_bytes = cb, total_bytes = tb\<rparr> \<and>
    (\<forall>t. tu = Some t \<longrightarrow> cu \<le> t) \<and> (\<forall>t. tb = Some t \<longrightarrow> cb \<le> t)"
  using assms by (cases tu; cases tb) (auto simp: new_counters_def check_total_def not_less split: if_splits)

lemma frame_progress_Ok:
  assumes "frame_progress i sq ph k = Ok f"
  shows "f = \<lparr>completed_units = completed_units k, total_units = total_units k,
      completed_bytes = completed_bytes k, total_bytes = total_bytes k, frame_id = i, sequence = sq, phase = ph\<rparr> \<and>
    ph \<noteq> ''admitted'' \<and> ph \<in> set BATCH_COMMIT_PHASES \<and> sq \<noteq> 0 \<and> sq \<noteq> 1"
  using assms by (simp add: frame_progress_def validate_safe_integer_Ok split: if_splits)

lemma frame_of_raw_valid:
  assumes "frame_of_raw r = Ok f"
  shows "valid_frame f"
proof (cases "phase r = ''admitted''")
  case True
  have "''admitted'' \<in> set BATCH_COMMIT_PHASES" by (simp add: BATCH_COMMIT_PHASES_def)
  moreover have "frame_admitted (frame_id r) = Ok f" using assms True by (simp add: frame_of_raw_def split: if_splits)
  ultimately show ?thesis by (auto simp: frame_admitted_def valid_frame_def)
next
  case False
  then obtain k where "new_counters (completed_units r) (total_units r) (completed_bytes r) (total_bytes r) = Ok k"
    "frame_progress (frame_id r) (sequence r) (phase r) k = Ok f"
    using assms by (auto simp: frame_of_raw_def split: if_splits)
  from new_counters_Ok [OF this(1)] frame_progress_Ok [OF this(2)] show ?thesis
    by (simp add: valid_frame_def)
qed

text \<open>A progress frame that was accepted names a known phase, is the first of its sequence exactly
  if it is the admission, never reports more than its totals, and is determined by its bytes.\<close>

theorem accepted_frames:
  assumes "frame_from_canonical_bytes pc raw = Ok f" "frame_from_canonical_bytes pc raw' = Ok f'"
  shows "valid_frame f \<and> (frame_canonical_bytes f = frame_canonical_bytes f' \<longleftrightarrow> f = f') \<and>
    raw = frame_canonical_bytes f"
proof -
  have v: "valid_frame f" "valid_frame f'" "raw = frame_canonical_bytes f"
    using assms by (auto simp: frame_from_canonical_bytes_def dest: frame_of_raw_valid split: if_splits)
  have "f = f'" if "frame_canonical_bytes f = frame_canonical_bytes f'"
    using that v(1,2) phases_no_quote by (auto simp: frame_canonical_bytes_def valid_frame_def delimited_inject)
  with v show ?thesis by blast
qed

section \<open>Instances\<close>

definition sample_payload :: commit_evidence_payload where
  "sample_payload = \<lparr>transaction_nonce = replicate 64 (CHR ''a''), base_generation = 4, generation = 5,
     wal_sha256 = replicate 64 (CHR ''0''), wal_bytes = 10, wal_record_count = 1\<rparr>"

definition sample_raw_policy :: raw_native_progress_policy where
  "sample_raw_policy = \<lparr>policy_schema = NATIVE_PROGRESS_POLICY_SCHEMA, policy_protocol_version = 1,
     raw_methods = [\<lparr>initial_frame_deadline_ms = 1, inactivity_deadline_ms = 1,
       phase_hard_deadline_ms = map (\<lambda>ph. \<lparr>deadline_phase = ph, deadline_ms = 9\<rparr>) BATCH_COMMIT_PHASES,
       absolute_deadline_ms = 100, min_frame_interval_ms = 5, heartbeat_interval_ms = 30,
       early_byte_delta = 1, early_unit_delta = 1, max_frames = 18, max_frame_bytes = 1000,
       raw_method = ''batch_commit'', raw_phases = BATCH_COMMIT_PHASES\<rparr>]\<rparr>"

definition sample_policy :: native_progress_policy where
  "sample_policy = \<lparr>policy_method = \<lparr>initial_frame_deadline_ms = 1, inactivity_deadline_ms = 1,
       phase_hard_deadline_ms = map (\<lambda>ph. \<lparr>deadline_phase = ph, deadline_ms = 9\<rparr>) BATCH_COMMIT_PHASES,
       absolute_deadline_ms = 100, min_frame_interval_ms = 5, heartbeat_interval_ms = 30,
       early_byte_delta = 1, early_unit_delta = 1, max_frames = 18, max_frame_bytes = 1000\<rparr>\<rparr>"

definition sample_frame :: native_progress_frame where
  "sample_frame = \<lparr>completed_units = 2, total_units = Some 3, completed_bytes = 7, total_bytes = None,
     frame_id = 1, sequence = 2, phase = ''wal_sync''\<rparr>"

definition sample_persistence_codec :: persistence_codec where
  "sample_persistence_codec = \<lparr>
     json_evidence = (\<lambda>s.
       if s = payload_canonical_bytes PREPARED_COMMIT_EVIDENCE_SCHEMA sample_payload then
         Ok (raw_of PREPARED_COMMIT_EVIDENCE_SCHEMA sample_payload)
       else if s = payload_canonical_bytes COMMIT_EVIDENCE_SCHEMA sample_payload then
         Ok (raw_of COMMIT_EVIDENCE_SCHEMA sample_payload)
       else Err ''expected value''),
     json_policy = (\<lambda>_. Ok sample_raw_policy),
     json_frame = (\<lambda>_. Ok \<lparr>completed_units = 2, total_units = Some 3, completed_bytes = 7, total_bytes = None,
       frame_id = 1, sequence = 2, phase = ''wal_sync'', frame_schema = NATIVE_PROGRESS_FRAME_SCHEMA,
       frame_kind = ''progress'', frame_protocol_version = 1, frame_method = ''batch_commit''\<rparr>),
     json_manifest = (\<lambda>_. Err ''expected value''),
     standard_decode = (\<lambda>s. Ok s), sha256_hex = (\<lambda>s. s)\<rparr>"

lemma sample_payload_valid: "valid_payload sample_payload"
  by (simp add: valid_payload_def sample_payload_def JSON_SAFE_INTEGER_MAX_def list_all_iff is_lower_hex_def
      is_digit_def less_eq_char_def)

lemma sample_policy_accepted: "policy_try_from sample_raw_policy = Ok sample_policy"
  by (simp add: policy_try_from_def sample_raw_policy_def sample_policy_def BATCH_COMMIT_PHASES_def
      NATIVE_PROGRESS_PROTOCOL_VERSION_def validate_safe_integer_def JSON_SAFE_INTEGER_MAX_def
      mandatory_frames_def checked_add_def map_ok_def)

lemma sample_frame_accepted:
  "frame_from_canonical_bytes sample_persistence_codec (frame_canonical_bytes sample_frame) = Ok sample_frame"
  by (simp add: frame_from_canonical_bytes_def sample_persistence_codec_def frame_of_raw_def
      NATIVE_PROGRESS_PROTOCOL_VERSION_def new_counters_def check_total_def frame_progress_def
      BATCH_COMMIT_PHASES_def validate_safe_integer_def JSON_SAFE_INTEGER_MAX_def sample_frame_def)

theorem evidence_bytes_unique_witness:
  "prepared_canonical_bytes (PreparedCommitEvidence sample_payload) \<noteq>
     commit_canonical_bytes (commit_evidence_of (PreparedCommitEvidence sample_payload))"
proof -
  have "new_prepared (replicate 64 (CHR ''a'')) 4 5 (replicate 64 (CHR ''0'')) 10 1 =
    Ok (PreparedCommitEvidence sample_payload)"
    using sample_payload_valid by (simp add: new_prepared_Ok sample_payload_def)
  from evidence_bytes_unique [OF this this] show ?thesis by blast
qed

theorem evidence_parsers_exact_witness:
  "prepared_from_canonical_bytes sample_persistence_codec
      (prepared_canonical_bytes (PreparedCommitEvidence sample_payload)) =
     Ok (PreparedCommitEvidence sample_payload)"
proof -
  have "reads_evidence sample_persistence_codec sample_payload"
    using payload_bytes_schema [of PREPARED_COMMIT_EVIDENCE_SCHEMA COMMIT_EVIDENCE_SCHEMA sample_payload sample_payload]
    by (simp add: reads_evidence_def sample_persistence_codec_def)
  with sample_payload_valid show ?thesis using evidence_parsers_exact [of sample_persistence_codec sample_payload] by blast
qed

theorem policy_reserves_mandatory_frames_witness:
  "14 + (100 + 30 - 1) div (30::nat) \<le> 18 \<and>
   min_frame_interval_ms (policy_method sample_policy) \<le> heartbeat_interval_ms (policy_method sample_policy)"
proof -
  have "policy_from_canonical_bytes sample_persistence_codec (policy_canonical_bytes sample_policy) = Ok sample_policy"
    by (simp add: policy_from_canonical_bytes_def sample_persistence_codec_def sample_policy_accepted)
  from policy_reserves_mandatory_frames [OF this] show ?thesis by (simp add: sample_policy_def)
qed

theorem accepted_frames_witness: "valid_frame sample_frame"
  using accepted_frames [OF sample_frame_accepted sample_frame_accepted] by blast

end
