(* ===== verification/Json.thy ===== *)
theory Json
  imports U64 F64
begin

text \<open>
  \<^verbatim>\<open>serde_json::Value\<close>. An object is a \<^verbatim>\<open>BTreeMap\<close>: its entries in the order of their keys.
\<close>

datatype json_number = PosInt u64 | NegInt int | Float f64

datatype json =
    JNull
  | JBool bool
  | JNumber json_number
  | JString string
  | JArray "json list"
  | JObject "(string \<times> json) list"

definition json_get :: "string \<Rightarrow> json \<Rightarrow> json option" where
  "json_get k v = (case v of JObject m \<Rightarrow> map_of m k | _ \<Rightarrow> None)"

definition as_array :: "json \<Rightarrow> json list option" where
  "as_array v = (case v of JArray xs \<Rightarrow> Some xs | _ \<Rightarrow> None)"

definition as_object :: "json \<Rightarrow> (string \<times> json) list option" where
  "as_object v = (case v of JObject m \<Rightarrow> Some m | _ \<Rightarrow> None)"

definition json_str :: "json \<Rightarrow> string option" where
  "json_str v = (case v of JString s \<Rightarrow> Some s | _ \<Rightarrow> None)"

definition as_u64 :: "json \<Rightarrow> u64 option" where
  "as_u64 v = (case v of JNumber (PosInt n) \<Rightarrow> Some n | _ \<Rightarrow> None)"

definition as_bool :: "json \<Rightarrow> bool option" where
  "as_bool v = (case v of JBool b \<Rightarrow> Some b | _ \<Rightarrow> None)"

text \<open>\<^verbatim>\<open>as_f64\<close> converts integers, rounding to nearest.\<close>

definition as_f64 :: "json \<Rightarrow> f64 option" where
  "as_f64 v =
     (case v of
        JNumber (PosInt n) \<Rightarrow> Some (f64_of_int (uint n))
      | JNumber (NegInt i) \<Rightarrow> Some (f64_of_int i)
      | JNumber (Float x) \<Rightarrow> Some x
      | _ \<Rightarrow> None)"

definition is_json_string :: "json \<Rightarrow> bool" where
  "is_json_string v \<longleftrightarrow> json_str v \<noteq> None"

text \<open>
  \<^verbatim>\<open>PartialEq\<close> of values: numbers are equal only within one representation (\<^verbatim>\<open>1\<close> differs from
  \<^verbatim>\<open>1.0\<close>), floats by their comparison (the two zeros are equal), arrays and objects entry by entry.
\<close>

fun number_eq :: "json_number \<Rightarrow> json_number \<Rightarrow> bool" where
  "number_eq (PosInt a) (PosInt b) = (a = b)"
| "number_eq (NegInt a) (NegInt b) = (a = b)"
| "number_eq (Float a) (Float b) = f64_eq a b"
| "number_eq _ _ = False"

fun json_eq :: "json \<Rightarrow> json \<Rightarrow> bool"
  and jsons_eq :: "json list \<Rightarrow> json list \<Rightarrow> bool"
  and entries_eq :: "(string \<times> json) list \<Rightarrow> (string \<times> json) list \<Rightarrow> bool" where
  "json_eq JNull JNull = True"
| "json_eq (JBool a) (JBool b) = (a = b)"
| "json_eq (JNumber a) (JNumber b) = number_eq a b"
| "json_eq (JString a) (JString b) = (a = b)"
| "json_eq (JArray xs) (JArray ys) = jsons_eq xs ys"
| "json_eq (JObject m) (JObject n) = entries_eq m n"
| "json_eq _ _ = False"
| "jsons_eq [] [] = True"
| "jsons_eq (x # xs) (y # ys) = (json_eq x y \<and> jsons_eq xs ys)"
| "jsons_eq _ _ = False"
| "entries_eq [] [] = True"
| "entries_eq ((k, x) # m) ((l, y) # n) = (k = l \<and> json_eq x y \<and> entries_eq m n)"
| "entries_eq _ _ = False"

text \<open>The entries of every object are in the order of their keys, as in a \<^verbatim>\<open>BTreeMap\<close>.\<close>

fun json_wf :: "json \<Rightarrow> bool" where
  "json_wf (JArray vs) = list_all json_wf vs"
| "json_wf (JObject es) = (sorted_wrt (<) (map fst es) \<and> list_all (\<lambda>(_, v). json_wf v) es)"
| "json_wf _ = True"

section \<open>Parts of a value\<close>

lemma size_entry: "p \<in> set m \<Longrightarrow> size (snd p) < Suc (size_list (size_prod (\<lambda>_. 0) size) m)"
  by (induction m) auto

lemma size_map_of [termination_simp]:
  "map_of m k = Some v \<Longrightarrow> size v < Suc (size_list (size_prod (\<lambda>_. 0) size) m)"
  using size_entry [of "(k, v)" m] by (auto dest: map_of_SomeD)

lemma size_json_get [termination_simp]: "json_get k v = Some w \<Longrightarrow> size w < size v"
  by (auto simp: json_get_def split: json.splits dest: size_map_of)

lemma as_array_Some [simp]: "as_array v = Some xs \<longleftrightarrow> v = JArray xs"
  by (auto simp: as_array_def split: json.splits)

lemma as_object_Some [simp]: "as_object v = Some m \<longleftrightarrow> v = JObject m"
  by (auto simp: as_object_def split: json.splits)

lemma json_str_Some [simp]: "json_str v = Some s \<longleftrightarrow> v = JString s"
  by (auto simp: json_str_def split: json.splits)

lemma accessor_simps [simp]:
  "as_array (JArray xs) = Some xs" "as_object (JObject m) = Some m" "json_str (JString s) = Some s"
  "json_get k (JObject m) = map_of m k"
  by (simp_all add: as_array_def as_object_def json_str_def json_get_def)

end
