(* ===== verification/Bounded_Limits.thy ===== *)
theory Bounded_Limits
  imports Json
begin

text \<open>
  The accounting of bounded retrieval (\<^verbatim>\<open>bounded_retrieval_contract.rs\<close>): caps on resources, outputs,
  work and transient memory, the session remainder and the monotonic deadline, request frames and
  the encoding of responses. The serializer and the allocator are parameters (\<open>frame_codec\<close>): a
  serializer is the list of byte chunks it writes.
\<close>

section \<open>Caps\<close>

definition CANDIDATE_SEARCH :: string where "CANDIDATE_SEARCH = ''candidate_search_bounded@1''"
definition FACT_EXPAND :: string where "FACT_EXPAND = ''fact_expand_bounded@1''"
definition PPR_MATERIALIZE :: string where "PPR_MATERIALIZE = ''ppr_materialize_bounded@1''"

definition MAX_SAFE_GENERATION :: u64 where "MAX_SAFE_GENERATION = 9007199254740991"
definition MAX_VECTOR_DIMENSIONS :: u64 where "MAX_VECTOR_DIMENSIONS = 4096"
definition MAX_VECTOR_COMPARISONS :: u64 where "MAX_VECTOR_COMPARISONS = 1500000"
definition MAX_SEARCH_SLOTS :: u64 where "MAX_SEARCH_SLOTS = 8"
definition MAX_FACTS_INSPECTED :: u64 where "MAX_FACTS_INSPECTED = 1500000"
definition MAX_GRAPH_NODES :: u64 where "MAX_GRAPH_NODES = 1500000"
definition MAX_GRAPH_EDGES :: u64 where "MAX_GRAPH_EDGES = 4000000"
definition MAX_ITERATIONS :: u64 where "MAX_ITERATIONS = 128"
definition MAX_GRAPH_SCAN_UNITS :: u64 where
  "MAX_GRAPH_SCAN_UNITS = 57 * MAX_GRAPH_NODES + 50 * MAX_GRAPH_EDGES +
     MAX_ITERATIONS * (4 * MAX_GRAPH_NODES + MAX_GRAPH_EDGES) + 1"
definition MAX_SEARCH_RESULT_LIMIT :: u64 where "MAX_SEARCH_RESULT_LIMIT = 100"
definition MAX_EXPANSION_RESULTS :: u64 where "MAX_EXPANSION_RESULTS = 64"
definition MAX_SEEDS :: u64 where "MAX_SEEDS = 512"
definition MAX_RETURNED_PASSAGES :: u64 where "MAX_RETURNED_PASSAGES = 100"
definition MAX_RETURNED_FACTS :: u64 where "MAX_RETURNED_FACTS = 100"
definition MAX_COMBINED_OBJECTS :: u64 where "MAX_COMBINED_OBJECTS = 128"
definition MAX_INPUT_FRAME_BYTES :: u64 where "MAX_INPUT_FRAME_BYTES = 256 * 1024"
definition MAX_OBJECT_BYTES :: u64 where "MAX_OBJECT_BYTES = 256 * 1024"
definition MAX_RESPONSE_FRAME_BYTES :: u64 where "MAX_RESPONSE_FRAME_BYTES = 2 * 1024 * 1024"
definition MAX_TRANSIENT_BYTES :: u64 where "MAX_TRANSIENT_BYTES = 512 * 1024 * 1024"
definition MAX_OPERATION_DEADLINE_MS :: u64 where "MAX_OPERATION_DEADLINE_MS = 60000"
definition DEADLINE_CHECK_INTERVAL_UNITS :: u64 where "DEADLINE_CHECK_INTERVAL_UNITS = 1024"

lemmas caps =
  MAX_SAFE_GENERATION_def MAX_VECTOR_DIMENSIONS_def MAX_VECTOR_COMPARISONS_def MAX_SEARCH_SLOTS_def
  MAX_FACTS_INSPECTED_def MAX_GRAPH_NODES_def MAX_GRAPH_EDGES_def MAX_ITERATIONS_def
  MAX_GRAPH_SCAN_UNITS_def MAX_SEARCH_RESULT_LIMIT_def MAX_EXPANSION_RESULTS_def MAX_SEEDS_def
  MAX_RETURNED_PASSAGES_def MAX_RETURNED_FACTS_def MAX_COMBINED_OBJECTS_def MAX_INPUT_FRAME_BYTES_def
  MAX_OBJECT_BYTES_def MAX_RESPONSE_FRAME_BYTES_def MAX_TRANSIENT_BYTES_def
  MAX_OPERATION_DEADLINE_MS_def DEADLINE_CHECK_INTERVAL_UNITS_def

text \<open>A \<^verbatim>\<open>ContractError\<close> is its message.\<close>

type_synonym 'a contract_result = "('a, string) outcome"

section \<open>Resource usage\<close>

record resource_usage =
  vector_dimensions :: u64
  vector_comparisons :: u64
  search_slots :: u64
  facts_inspected :: u64
  graph_nodes :: u64
  graph_edges :: u64
  iterations :: u64
  search_result_limit :: u64
  expansion_results :: u64
  seeds :: u64
  returned_passages :: u64
  returned_facts :: u64
  combined_objects :: u64

definition usage_default :: resource_usage where
  "usage_default = \<lparr>vector_dimensions = 0, vector_comparisons = 0, search_slots = 0, facts_inspected = 0,
     graph_nodes = 0, graph_edges = 0, iterations = 0, search_result_limit = 0, expansion_results = 0,
     seeds = 0, returned_passages = 0, returned_facts = 0, combined_objects = 0\<rparr>"

fun check_limits :: "(string \<times> u64 \<times> u64) list \<Rightarrow> unit contract_result" where
  "check_limits [] = Ok ()"
| "check_limits ((name, actual, maximum) # r) =
     (if actual > maximum then Err (name @ '' exceeds native hard cap'') else check_limits r)"

definition usage_limits :: "resource_usage \<Rightarrow> (string \<times> u64 \<times> u64) list" where
  "usage_limits u =
     [(''vector dimensions'', vector_dimensions u, MAX_VECTOR_DIMENSIONS),
      (''vector comparisons'', vector_comparisons u, MAX_VECTOR_COMPARISONS),
      (''search slots'', search_slots u, MAX_SEARCH_SLOTS),
      (''facts inspected'', facts_inspected u, MAX_FACTS_INSPECTED),
      (''graph nodes'', graph_nodes u, MAX_GRAPH_NODES),
      (''graph edges'', graph_edges u, MAX_GRAPH_EDGES),
      (''iterations'', iterations u, MAX_ITERATIONS),
      (''search result limit'', search_result_limit u, MAX_SEARCH_RESULT_LIMIT),
      (''expansion results'', expansion_results u, MAX_EXPANSION_RESULTS),
      (''seeds'', seeds u, MAX_SEEDS),
      (''returned passages'', returned_passages u, MAX_RETURNED_PASSAGES),
      (''returned facts'', returned_facts u, MAX_RETURNED_FACTS),
      (''combined objects'', combined_objects u, MAX_COMBINED_OBJECTS)]"

definition usage_check :: "resource_usage \<Rightarrow> unit contract_result" where
  "usage_check u = check_limits (usage_limits u)"

text \<open>\<^verbatim>\<open>iter().max().unwrap_or(0)\<close>.\<close>

definition max_or_zero :: "u64 list \<Rightarrow> u64" where
  "max_or_zero xs = foldr max xs 0"

definition slot_dimensions :: "json \<Rightarrow> u64 contract_result" where
  "slot_dimensions slot =
     ok_or (map_option len_u64 (Option.bind (json_get ''queryVector'' slot) as_array))
       ''candidate queryVector is missing''"

definition slot_limit :: "json \<Rightarrow> u64 contract_result" where
  "slot_limit slot =
     ok_or (Option.bind (json_get ''limit'' slot) as_u64) ''candidate limit is not a safe integer''"

fun sum_limits :: "u64 \<Rightarrow> json list \<Rightarrow> u64 contract_result" where
  "sum_limits t [] = Ok t"
| "sum_limits t (slot # r) =
     and_then (slot_limit slot) (\<lambda>limit.
     and_then (ok_or (checked_add t limit) ''candidate aggregate result count overflow'') (\<lambda>t'.
     sum_limits t' r))"

definition usage_candidate :: "json \<Rightarrow> resource_usage contract_result" where
  "usage_candidate params =
     and_then (ok_or (Option.bind (json_get ''slots'' params) as_array) ''candidate slots are missing'') (\<lambda>slots.
     and_then (traverse slot_dimensions slots) (\<lambda>dims.
     and_then (traverse slot_limit slots) (\<lambda>limits.
     and_then (sum_limits 0 slots) (\<lambda>t.
     Ok (usage_default\<lparr>search_slots := len_u64 slots, vector_dimensions := max_or_zero dims,
       search_result_limit := max_or_zero limits, combined_objects := t\<rparr>)))))"

definition plan_array :: "json \<Rightarrow> string \<Rightarrow> string \<Rightarrow> json list contract_result" where
  "plan_array plan k msg = ok_or (Option.bind (json_get k plan) as_array) msg"

definition plan_u64 :: "json \<Rightarrow> string \<Rightarrow> string \<Rightarrow> u64 contract_result" where
  "plan_u64 plan k msg = ok_or (Option.bind (json_get k plan) as_u64) msg"

definition get_plan :: "json \<Rightarrow> string \<Rightarrow> json contract_result" where
  "get_plan params msg = ok_or (map_option JObject (Option.bind (json_get ''plan'' params) as_object)) msg"

definition usage_fact_expand :: "json \<Rightarrow> resource_usage contract_result" where
  "usage_fact_expand params =
     and_then (get_plan params ''fact plan is missing'') (\<lambda>plan.
     and_then (plan_array plan ''seedEntities'' ''fact seedEntities is missing'') (\<lambda>sd.
     and_then (plan_u64 plan ''limit'' ''fact limit is not a safe integer'') (\<lambda>limit.
     Ok (usage_default\<lparr>seeds := len_u64 sd, expansion_results := limit\<rparr>))))"

definition usage_ppr :: "json \<Rightarrow> resource_usage contract_result" where
  "usage_ppr params =
     and_then (get_plan params ''PPR plan is missing'') (\<lambda>plan.
     and_then (plan_array plan ''seeds'' ''PPR seeds are missing'') (\<lambda>sd.
     and_then (plan_u64 plan ''maxIterations'' ''PPR maxIterations is not a safe integer'') (\<lambda>its.
     and_then (plan_u64 plan ''passageLimit'' ''PPR passageLimit is not a safe integer'') (\<lambda>passages.
     and_then (plan_u64 plan ''entityLimit'' ''PPR entityLimit is not a safe integer'') (\<lambda>entities.
     and_then (ok_or (checked_add passages entities) ''PPR aggregate result count overflow'') (\<lambda>t.
     Ok (usage_default\<lparr>seeds := len_u64 sd, iterations := its, returned_passages := passages,
       returned_facts := entities, combined_objects := t\<rparr>)))))))"

definition usage_for_request :: "string \<Rightarrow> json \<Rightarrow> resource_usage contract_result" where
  "usage_for_request method params =
     and_then
       (if method = CANDIDATE_SEARCH then usage_candidate params
        else if method = FACT_EXPAND then usage_fact_expand params
        else if method = PPR_MATERIALIZE then usage_ppr params
        else Err (''unsupported bounded operation '' @ method))
       (\<lambda>usage. and_then (usage_check usage) (\<lambda>_. Ok usage))"

section \<open>Outputs and work\<close>

record output_counts =
  out_passages :: u64
  out_facts :: u64
  out_combined :: u64

definition with_output_counts :: "resource_usage \<Rightarrow> output_counts \<Rightarrow> resource_usage contract_result" where
  "with_output_counts u out =
     (let u' = u\<lparr>returned_passages := out_passages out, returned_facts := out_facts out,
                 combined_objects := out_combined out\<rparr>
      in and_then (usage_check u') (\<lambda>_. Ok u'))"

definition checked_combined_objects :: "u64 \<Rightarrow> u64 \<Rightarrow> u64 contract_result" where
  "checked_combined_objects passages facts = ok_or (checked_add passages facts) ''combined object count overflow''"

definition output_check :: "output_counts \<Rightarrow> unit contract_result" where
  "output_check out =
     (if out_passages out > MAX_RETURNED_PASSAGES \<or> out_facts out > MAX_RETURNED_FACTS \<or>
         out_combined out > MAX_COMBINED_OBJECTS then
        Err ''returned object count exceeds native hard cap''
      else
        and_then (ok_or (checked_add (out_passages out) (out_facts out)) ''combined object count overflow'') (\<lambda>t.
        if out_combined out < t then Err ''combined object count is below returned objects'' else Ok ()))"

record work_counts =
  wc_vector_comparisons :: u64
  wc_facts_inspected :: u64
  wc_iterations :: u64
  nodes_initialized :: u64
  edges_visited :: u64
  graph_scan_units :: u64
  objects_considered_for_encoding :: u64

definition work_default :: work_counts where
  "work_default = \<lparr>wc_vector_comparisons = 0, wc_facts_inspected = 0, wc_iterations = 0, nodes_initialized = 0,
     edges_visited = 0, graph_scan_units = 0, objects_considered_for_encoding = 0\<rparr>"

definition checked_work_units :: "work_counts \<Rightarrow> u64 contract_result" where
  "checked_work_units w =
     ok_or
       (Option.bind (checked_add (wc_vector_comparisons w) (wc_facts_inspected w)) (\<lambda>v.
        Option.bind (checked_add v (graph_scan_units w)) (\<lambda>v.
        checked_add v (objects_considered_for_encoding w))))
       ''aggregate work addition overflow''"

definition work_check :: "work_counts \<Rightarrow> u64 contract_result" where
  "work_check w =
     (if wc_vector_comparisons w > MAX_VECTOR_COMPARISONS \<or> wc_facts_inspected w > MAX_FACTS_INSPECTED \<or>
         wc_iterations w > MAX_ITERATIONS \<or> nodes_initialized w > MAX_GRAPH_NODES \<or>
         edges_visited w > MAX_GRAPH_EDGES \<or> graph_scan_units w > MAX_GRAPH_SCAN_UNITS \<or>
         objects_considered_for_encoding w > MAX_COMBINED_OBJECTS then
        Err ''work count exceeds native hard cap''
      else checked_work_units w)"

section \<open>Transient memory\<close>

record allocation_input =
  vector_values :: u64
  seed_entries :: u64
  result_entries :: u64
  ppr_score_entries :: u64
  ppr_node_entries :: u64
  ppr_edge_entries :: u64
  heap_entries :: u64
  retained_object_entries :: u64
  scratch_bytes :: u64
  response_buffer_bytes :: u64

definition VECTOR_VALUE_BYTES :: u64 where "VECTOR_VALUE_BYTES = 8"
definition SEED_ENTRY_BYTES :: u64 where "SEED_ENTRY_BYTES = 64"
definition RESULT_ENTRY_BYTES :: u64 where "RESULT_ENTRY_BYTES = 64"
definition SCORE_VALUE_BYTES :: u64 where "SCORE_VALUE_BYTES = 8"
definition PPR_SCORE_ARRAYS :: u64 where "PPR_SCORE_ARRAYS = 3"
definition PPR_NODE_ENTRY_BYTES :: u64 where "PPR_NODE_ENTRY_BYTES = 192"
definition PPR_EDGE_ENTRY_BYTES :: u64 where "PPR_EDGE_ENTRY_BYTES = 64"
definition HEAP_ENTRY_BYTES :: u64 where "HEAP_ENTRY_BYTES = 64"

lemmas entry_bytes =
  VECTOR_VALUE_BYTES_def SEED_ENTRY_BYTES_def RESULT_ENTRY_BYTES_def SCORE_VALUE_BYTES_def
  PPR_SCORE_ARRAYS_def PPR_NODE_ENTRY_BYTES_def PPR_EDGE_ENTRY_BYTES_def HEAP_ENTRY_BYTES_def

text \<open>A chain of \<^verbatim>\<open>and_then(|value| value.checked_add(..))\<close>.\<close>

fun checked_sum :: "u64 \<Rightarrow> u64 list \<Rightarrow> u64 option" where
  "checked_sum v [] = Some v"
| "checked_sum v (x # xs) = Option.bind (checked_add v x) (\<lambda>v'. checked_sum v' xs)"

definition checked_capacity_bytes :: "allocation_input \<Rightarrow> u64 contract_result" where
  "checked_capacity_bytes a =
     and_then (ok_or (checked_mul (vector_values a) VECTOR_VALUE_BYTES)
       ''vector allocation multiplication overflow'') (\<lambda>vector.
     and_then (ok_or (checked_mul (seed_entries a) SEED_ENTRY_BYTES)
       ''seed allocation multiplication overflow'') (\<lambda>sd.
     and_then (ok_or (checked_mul (result_entries a) RESULT_ENTRY_BYTES)
       ''result allocation multiplication overflow'') (\<lambda>results.
     and_then (ok_or (Option.bind (checked_mul (ppr_score_entries a) PPR_SCORE_ARRAYS)
         (\<lambda>v. checked_mul v SCORE_VALUE_BYTES))
       ''PPR score allocation multiplication overflow'') (\<lambda>scores.
     and_then (ok_or (checked_mul (ppr_node_entries a) PPR_NODE_ENTRY_BYTES)
       ''PPR node allocation multiplication overflow'') (\<lambda>ppr_nodes.
     and_then (ok_or (checked_mul (ppr_edge_entries a) PPR_EDGE_ENTRY_BYTES)
       ''PPR edge allocation multiplication overflow'') (\<lambda>ppr_edges.
     and_then (ok_or (checked_mul (heap_entries a) HEAP_ENTRY_BYTES)
       ''heap allocation multiplication overflow'') (\<lambda>heaps.
     and_then (ok_or (checked_mul (retained_object_entries a) MAX_OBJECT_BYTES)
       ''retained object allocation multiplication overflow'') (\<lambda>retained_objects.
     ok_or (checked_sum vector [sd, results, scores, ppr_nodes, ppr_edges, heaps, retained_objects,
         scratch_bytes a, response_buffer_bytes a])
       ''transient allocation addition overflow''))))))))"

definition allocation_check :: "allocation_input \<Rightarrow> u64 contract_result" where
  "allocation_check a =
     (if response_buffer_bytes a > MAX_RESPONSE_FRAME_BYTES then
        Err ''response buffer exceeds response frame cap''
      else and_then (checked_capacity_bytes a) (\<lambda>bytes.
        if bytes > MAX_TRANSIENT_BYTES then Err ''transient allocation exceeds native hard cap''
        else Ok bytes))"

section \<open>Time\<close>

record session_remainder =
  sr_remaining_ms :: u64

definition new_remainder :: "u64 \<Rightarrow> session_remainder" where
  "new_remainder owner = \<lparr>sr_remaining_ms = min owner MAX_OPERATION_DEADLINE_MS\<rparr>"

definition accept_decreasing :: "session_remainder \<Rightarrow> u64 \<Rightarrow> session_remainder \<times> u64 contract_result" where
  "accept_decreasing r owner =
     (let candidate = min owner MAX_OPERATION_DEADLINE_MS in
      if candidate > sr_remaining_ms r then (r, Err ''session remainder cannot increase'')
      else (r\<lparr>sr_remaining_ms := candidate\<rparr>, Ok candidate))"

record monotonic_deadline =
  md_deadline_ms :: u64
  last_now_ms :: u64
  md_completed_units :: u64

datatype deadline_error =
  ClockRegression | DeadlineExceeded | CheckpointGap | WorkRegression | ArithmeticOverflow

definition new_deadline :: "u64 \<Rightarrow> u64 \<Rightarrow> (monotonic_deadline, deadline_error) outcome" where
  "new_deadline now owner =
     and_then (ok_or (checked_add now (min owner MAX_OPERATION_DEADLINE_MS)) ArithmeticOverflow) (\<lambda>t.
     Ok \<lparr>md_deadline_ms = t, last_now_ms = now, md_completed_units = 0\<rparr>)"

definition observe_clock ::
  "monotonic_deadline \<Rightarrow> u64 \<Rightarrow> monotonic_deadline \<times> (unit, deadline_error) outcome"
where
  "observe_clock d now =
     (if now < last_now_ms d then (d, Err ClockRegression) else (d\<lparr>last_now_ms := now\<rparr>, Ok ()))"

definition deadline_remaining_ms ::
  "monotonic_deadline \<Rightarrow> u64 \<Rightarrow> monotonic_deadline \<times> (u64, deadline_error) outcome"
where
  "deadline_remaining_ms d now =
     (case observe_clock d now of
        (d', Ok _) \<Rightarrow> (d', Ok (saturating_sub (md_deadline_ms d') now))
      | (d', Err e) \<Rightarrow> (d', Err e)
      | (d', Panic) \<Rightarrow> (d', Panic))"

definition checkpoint ::
  "monotonic_deadline \<Rightarrow> u64 \<Rightarrow> u64 \<Rightarrow> monotonic_deadline \<times> (unit, deadline_error) outcome"
where
  "checkpoint d now units =
     (case observe_clock d now of
        (d1, Ok _) \<Rightarrow>
          if units < md_completed_units d1 then (d1, Err WorkRegression)
          else if units - md_completed_units d1 > DEADLINE_CHECK_INTERVAL_UNITS then (d1, Err CheckpointGap)
          else (let d2 = d1\<lparr>md_completed_units := units\<rparr>
                in (d2, if now \<ge> md_deadline_ms d2 then Err DeadlineExceeded else Ok ()))
      | (d1, Err e) \<Rightarrow> (d1, Err e)
      | (d1, Panic) \<Rightarrow> (d1, Panic))"

definition before_allocation ::
  "monotonic_deadline \<Rightarrow> u64 \<Rightarrow> u64 \<Rightarrow> monotonic_deadline \<times> (unit, deadline_error) outcome"
where
  "before_allocation d now units = checkpoint d now units"

definition before_materialization ::
  "monotonic_deadline \<Rightarrow> u64 \<Rightarrow> u64 \<Rightarrow> monotonic_deadline \<times> (unit, deadline_error) outcome"
where
  "before_materialization d now units = checkpoint d now units"

section \<open>Frames\<close>

record work_counters = work_counts +
  work_units :: u64
  response_bytes :: u64

definition counters_from_work :: "work_counts \<Rightarrow> u64 \<Rightarrow> work_counters contract_result" where
  "counters_from_work w bytes =
     and_then (work_check w) (\<lambda>units.
     if bytes > MAX_RESPONSE_FRAME_BYTES then Err ''response bytes exceed native hard cap''
     else Ok (work_counts.extend w \<lparr>work_units = units, response_bytes = bytes\<rparr>))"

record bounded_request =
  br_id :: u64
  br_method :: string
  expected_generation :: u64
  remaining_budget_ms :: u64
  br_params :: json

definition parse_request_frame ::
  "(string \<Rightarrow> bounded_request contract_result) \<Rightarrow> string \<Rightarrow> bounded_request contract_result"
where
  "parse_request_frame parse_json frame =
     (if len_u64 frame > MAX_INPUT_FRAME_BYTES then Err ''bounded request frame exceeds 256KiB''
      else if frame = [] \<or> last frame \<noteq> CHR 0x0A \<or> CHR 0x0A \<in> set (butlast frame) then
        Err ''bounded request is not one complete JSON-RPC line''
      else if length frame = 1 then Err ''bounded request JSON is empty''
      else parse_json (butlast frame))"

record success_envelope =
  se_id :: u64
  se_ok :: bool
  se_generation :: u64
  se_result :: json
  se_counters :: work_counters

definition REQUEST_EXECUTION_FAILED :: string where "REQUEST_EXECUTION_FAILED = ''REQUEST_EXECUTION_FAILED''"

record structured_error =
  st_code :: string
  st_failure_class :: string
  st_reason :: string

record error_envelope =
  ee_id :: u64
  ee_ok :: bool
  ee_generation :: u64
  ee_error :: structured_error
  ee_counters :: work_counters

record frame_codec =
  success_chunks :: "success_envelope \<Rightarrow> string list"
  error_chunks :: "error_envelope \<Rightarrow> string list"
  value_chunks :: "json \<Rightarrow> string list"
  can_reserve :: "nat \<Rightarrow> bool"

text \<open>\<^verbatim>\<open>LimitedWriter::write\<close> and its use by the serializer.\<close>

definition limited_write :: "u64 \<Rightarrow> string \<Rightarrow> string \<Rightarrow> string contract_result" where
  "limited_write limit buf bs =
     and_then (ok_or (checked_add (len_u64 buf) (len_u64 bs)) ''bounded writer byte count overflow'') (\<lambda>n.
     if n > limit then Err ''bounded writer limit exceeded'' else Ok (buf @ bs))"

fun write_chunks :: "u64 \<Rightarrow> string \<Rightarrow> string list \<Rightarrow> string contract_result" where
  "write_chunks limit buf [] = Ok buf"
| "write_chunks limit buf (b # bs) = and_then (limited_write limit buf b) (\<lambda>buf'. write_chunks limit buf' bs)"

definition serialize_limited :: "frame_codec \<Rightarrow> string list \<Rightarrow> u64 \<Rightarrow> string contract_result" where
  "serialize_limited fc chunks limit =
     (if \<not> can_reserve fc (unat limit) then Err ''bounded writer allocation failed''
      else case write_chunks limit [] chunks of
        Ok bytes \<Rightarrow> Ok bytes
      | Err e \<Rightarrow> Err (''bounded serialization failed: '' @ e)
      | Panic \<Rightarrow> Panic)"

definition encode_frame :: "frame_codec \<Rightarrow> string list \<Rightarrow> string contract_result" where
  "encode_frame fc chunks =
     map_ok (\<lambda>bytes. bytes @ [CHR 0x0A]) (serialize_limited fc chunks (MAX_RESPONSE_FRAME_BYTES - 1))"

text \<open>The frame advertises its own length: it is encoded until the advertised length is right.\<close>

fun encode_attempts ::
  "nat \<Rightarrow> (u64 \<Rightarrow> string contract_result) \<Rightarrow> string \<Rightarrow> u64 \<Rightarrow> string contract_result"
where
  "encode_attempts 0 enc msg advertised = Err msg"
| "encode_attempts (Suc n) enc msg advertised =
     and_then (enc advertised) (\<lambda>bytes.
     let actual = len_u64 bytes in
     if actual = advertised then Ok bytes else encode_attempts n enc msg actual)"

definition encode_success ::
  "frame_codec \<Rightarrow> u64 \<Rightarrow> u64 \<Rightarrow> json \<Rightarrow> work_counts \<Rightarrow> string contract_result"
where
  "encode_success fc i gen result work =
     (if gen > MAX_SAFE_GENERATION then Err ''response generation exceeds JSON-safe integer range''
      else encode_attempts 8 (\<lambda>advertised.
        and_then (counters_from_work work advertised) (\<lambda>counters.
        encode_frame fc (success_chunks fc
          \<lparr>se_id = i, se_ok = True, se_generation = gen, se_result = result, se_counters = counters\<rparr>)))
        ''response counter did not reach a fixed point'' 0)"

definition encode_error ::
  "frame_codec \<Rightarrow> u64 \<Rightarrow> u64 \<Rightarrow> work_counts \<Rightarrow> string \<Rightarrow> string \<Rightarrow> string contract_result"
where
  "encode_error fc i gen work failure_class reason =
     (if gen > MAX_SAFE_GENERATION then Err ''response generation exceeds JSON-safe integer range''
      else encode_attempts 8 (\<lambda>advertised.
        and_then (counters_from_work work advertised) (\<lambda>counters.
        encode_frame fc (error_chunks fc
          \<lparr>ee_id = i, ee_ok = False, ee_generation = gen,
           ee_error = \<lparr>st_code = REQUEST_EXECUTION_FAILED, st_failure_class = failure_class, st_reason = reason\<rparr>,
           ee_counters = counters\<rparr>)))
        ''error response counter did not reach a fixed point'' 0)"

definition encode_object :: "frame_codec \<Rightarrow> json \<Rightarrow> string contract_result" where
  "encode_object fc v = serialize_limited fc (value_chunks fc v) MAX_OBJECT_BYTES"

end
