(* ===== verification/Stateful.thy ===== *)
theory Stateful
  imports Prelude
begin

text \<open>
  Fallible code that changes a state: a failure keeps the changes made before it, and ends the code.
\<close>

type_synonym ('s, 'a, 'e) stateful = "'s \<Rightarrow> 's \<times> ('a, 'e) outcome"

definition st_ret :: "'a \<Rightarrow> ('s, 'a, 'e) stateful" where
  "st_ret x s = (s, Ok x)"

definition st_fail :: "'e \<Rightarrow> ('s, 'a, 'e) stateful" where
  "st_fail e s = (s, Err e)"

definition st_panic :: "('s, 'a, 'e) stateful" where
  "st_panic s = (s, Panic)"

definition st_then :: "('s, 'a, 'e) stateful \<Rightarrow> ('a \<Rightarrow> ('s, 'b, 'e) stateful) \<Rightarrow> ('s, 'b, 'e) stateful" where
  "st_then m f s = (case m s of (s', Ok x) \<Rightarrow> f x s' | (s', Err e) \<Rightarrow> (s', Err e) | (s', Panic) \<Rightarrow> (s', Panic))"

lemma st_then_simps [simp]:
  "st_then (st_ret x) f = f x"
  "st_then (st_fail e) f = st_fail e"
  "st_then st_panic f = st_panic"
  "st_then m st_ret = m"
  by (auto simp: fun_eq_iff st_then_def st_ret_def st_fail_def st_panic_def split: prod.splits outcome.splits)

lemma st_then_assoc [simp]: "st_then (st_then m f) g = st_then m (\<lambda>x. st_then (f x) g)"
  by (auto simp: fun_eq_iff st_then_def split: prod.splits outcome.splits)

lemma st_then_Ok: "st_then m f s = (s', Ok y) \<longleftrightarrow> (\<exists>x s1. m s = (s1, Ok x) \<and> f x s1 = (s', Ok y))"
  by (auto simp: st_then_def split: prod.splits outcome.splits)

end
