(* ===== verification/Utf8.thy ===== *)
theory Utf8
  imports Files
begin

text \<open>
  The characters of a \<^verbatim>\<open>str\<close>, their UTF-8 and their UTF-16, and that neither loses information.
\<close>

section \<open>Encodings\<close>

text \<open>The characters of a \<^verbatim>\<open>str\<close>, which is well-formed UTF-8.\<close>

definition lead_bits :: "char \<Rightarrow> nat" where
  "lead_bits a =
     (if utf8_width a = 2 then of_char a mod 32 else if utf8_width a = 3 then of_char a mod 16
      else if utf8_width a = 4 then of_char a mod 8 else of_char a)"

definition scalar_of :: "char \<Rightarrow> string \<Rightarrow> nat" where
  "scalar_of a r = foldl (\<lambda>n c. n * 64 + of_char c mod 64) (lead_bits a) r"

function str_chars :: "string \<Rightarrow> nat list" where
  "str_chars [] = []"
| "str_chars (a # r) = scalar_of a (take (utf8_width a - 1) r) # str_chars (drop (utf8_width a - 1) r)"
  by pat_completeness auto
termination
  by (relation "measure length") auto

definition utf16_units :: "nat \<Rightarrow> nat list" where
  "utf16_units c =
     (if c < 0x10000 then [c] else [0xD800 + (c - 0x10000) div 1024, 0xDC00 + (c - 0x10000) mod 1024])"

definition encode_utf16 :: "string \<Rightarrow> nat list" where
  "encode_utf16 s = concat (map utf16_units (str_chars s))"

text \<open>\<^verbatim>\<open>String::push\<close> and \<^verbatim>\<open>char::from_u32\<close>.\<close>

definition encode_char :: "nat \<Rightarrow> string" where
  "encode_char c =
     (if c < 0x80 then [char_of c]
      else if c < 0x800 then [char_of (0xC0 + c div 64), char_of (0x80 + c mod 64)]
      else if c < 0x10000 then
        [char_of (0xE0 + c div 4096), char_of (0x80 + c div 64 mod 64), char_of (0x80 + c mod 64)]
      else
        [char_of (0xF0 + c div 262144), char_of (0x80 + c div 4096 mod 64), char_of (0x80 + c div 64 mod 64),
         char_of (0x80 + c mod 64)])"

definition is_scalar :: "nat \<Rightarrow> bool" where
  "is_scalar c \<longleftrightarrow> c < 0xD800 \<or> 0xE000 \<le> c \<and> c < 0x110000"

definition len_utf8 :: "nat \<Rightarrow> nat" where
  "len_utf8 c = (if c < 0x80 then 1 else if c < 0x800 then 2 else if c < 0x10000 then 3 else 4)"

declare str_chars.simps [simp del] utf8_error.simps [simp del]

lemma str_chars_Nil [simp]: "str_chars [] = []"
  by (simp add: str_chars.simps)

lemma length_encode_char [simp]: "length (encode_char c) = len_utf8 c"
  by (simp add: encode_char_def len_utf8_def)

section \<open>Decoding well-formed text\<close>

lemma char_le: "c \<le> d \<longleftrightarrow> (of_char c :: nat) \<le> of_char d" "c < d \<longleftrightarrow> (of_char c :: nat) < of_char d"
  by (simp_all add: less_eq_char_def less_char_def)

lemma char_of_eq: "n < 256 \<Longrightarrow> char_of n = c \<longleftrightarrow> n = (of_char c :: nat)"
  by (auto simp: of_char_eq_iff)

lemma six_bits: "y < 64 \<Longrightarrow> (k * 64 + y) div 64 = k" "y < 64 \<Longrightarrow> (k * 64 + y) mod 64 = (y :: nat)"
  by simp_all

lemma div_groups: "n div 4096 = n div 64 div 64" "n div 262144 = n div 64 div 64 div (64 :: nat)"
  by (simp_all add: div_mult2_eq [symmetric])

text \<open>The encoding of a scalar given by its groups of six bits.\<close>

lemma encode_groups:
  "2 \<le> x \<Longrightarrow> x < 32 \<Longrightarrow> y < 64 \<Longrightarrow> encode_char (x * 64 + y) = [char_of (0xC0 + x), char_of (0x80 + y)]"
  "x < 16 \<Longrightarrow> y < 64 \<Longrightarrow> z < 64 \<Longrightarrow> 32 \<le> x * 64 + y \<Longrightarrow>
     encode_char ((x * 64 + y) * 64 + z) = [char_of (0xE0 + x), char_of (0x80 + y), char_of (0x80 + z)]"
  "x < 8 \<Longrightarrow> y < 64 \<Longrightarrow> z < 64 \<Longrightarrow> u < 64 \<Longrightarrow> 16 \<le> x * 64 + y \<Longrightarrow>
     encode_char (((x * 64 + y) * 64 + z) * 64 + u) =
       [char_of (0xF0 + x), char_of (0x80 + y), char_of (0x80 + z), char_of (0x80 + u)]"
proof -
  assume "2 \<le> x" "x < 32" "y < 64"
  then show "encode_char (x * 64 + y) = [char_of (0xC0 + x), char_of (0x80 + y)]"
    by (simp add: encode_char_def)
next
  assume a: "x < 16" "y < 64" "z < 64" "32 \<le> x * 64 + y"
  then show "encode_char ((x * 64 + y) * 64 + z) = [char_of (0xE0 + x), char_of (0x80 + y), char_of (0x80 + z)]"
    unfolding encode_char_def div_groups six_bits [OF a(2)] six_bits [OF a(3)] by auto
next
  assume a: "x < 8" "y < 64" "z < 64" "u < 64" "16 \<le> x * 64 + y"
  then show "encode_char (((x * 64 + y) * 64 + z) * 64 + u) =
      [char_of (0xF0 + x), char_of (0x80 + y), char_of (0x80 + z), char_of (0x80 + u)]"
    unfolding encode_char_def div_groups six_bits [OF a(2)] six_bits [OF a(3)] six_bits [OF a(4)] by auto
qed

lemma byte_group: "b \<le> n \<Longrightarrow> n < b + m \<Longrightarrow> m dvd b \<Longrightarrow> b + n mod m = (n :: nat)"
  using mod_nat_eqI [of "n - b" m n] by simp

lemma char_of_groups:
  "0xC0 \<le> (of_char c :: nat) \<Longrightarrow> (of_char c :: nat) < 0xE0 \<Longrightarrow> char_of (0xC0 + of_char c mod 32 :: nat) = c"
  "0xE0 \<le> (of_char c :: nat) \<Longrightarrow> (of_char c :: nat) < 0xF0 \<Longrightarrow> char_of (0xE0 + of_char c mod 16 :: nat) = c"
  "0xF0 \<le> (of_char c :: nat) \<Longrightarrow> (of_char c :: nat) < 0xF8 \<Longrightarrow> char_of (0xF0 + of_char c mod 8 :: nat) = c"
  "0x80 \<le> (of_char c :: nat) \<Longrightarrow> (of_char c :: nat) < 0xC0 \<Longrightarrow> char_of (0x80 + of_char c mod 64 :: nat) = c"
  using byte_group [of "0xC0" "of_char c" 32] byte_group [of "0xE0" "of_char c" 16] byte_group [of "0xF0" "of_char c" 8]
    byte_group [of "0x80" "of_char c" 64]
  by simp_all

text \<open>The bytes of one well-formed character.\<close>

definition front_ok :: "char \<Rightarrow> string \<Rightarrow> nat \<Rightarrow> bool" where
  "front_ok a r n \<longleftrightarrow> n = utf8_width a \<and> 0 < n \<and> n \<le> Suc (length r) \<and>
     is_scalar (scalar_of a (take (n - 1) r)) \<and> encode_char (scalar_of a (take (n - 1) r)) = a # take (n - 1) r"

abbreviation (input) code :: "char \<Rightarrow> nat" where
  "code \<equiv> of_char"

lemma second_range_code:
  "second_range a =
     (if code a = 0xE0 then (CHR 0xA0, CHR 0xBF) else if code a = 0xED then (CHR 0x80, CHR 0x9F)
      else if code a = 0xF0 then (CHR 0x90, CHR 0xBF) else if code a = 0xF4 then (CHR 0x80, CHR 0x8F)
      else (CHR 0x80, CHR 0xBF))"
proof -
  have "a = c \<longleftrightarrow> code a = code c" for c by simp
  from this [of "CHR 0xE0"] this [of "CHR 0xED"] this [of "CHR 0xF0"] this [of "CHR 0xF4"]
  show ?thesis by (simp add: second_range_def)
qed

lemmas front_simps = utf8_front_def second_range_code in_range_def is_continuation_def char_le

lemma front_one:
  assumes "utf8_front a r = Good n" "utf8_width a = 1"
  shows "front_ok a r n"
proof -
  have "code a < 128" using assms(2) by (auto simp: utf8_width_def char_le split: if_splits)
  with assms show ?thesis
    by (auto simp: front_ok_def utf8_front_def scalar_of_def lead_bits_def encode_char_def is_scalar_def)
qed

lemma front_two:
  assumes "utf8_front a r = Good n" "utf8_width a = 2"
  shows "front_ok a r n"
proof -
  have a: "0xC2 \<le> code a" "code a \<le> 0xDF"
    using assms(2) by (auto simp: utf8_width_def in_range_def char_le split: if_splits)
  with assms obtain b r' where r: "r = b # r'" "n = 2" "0x80 \<le> code b" "code b \<le> 0xBF"
    by (auto simp: front_simps numeral_2_eq_2 split: list.splits if_splits)
  have "2 \<le> code a mod 32" using byte_group [of "0xC0" "code a" 32] a by simp
  with encode_groups(1) [of "code a mod 32" "code b mod 64"] char_of_groups(1) [of a] char_of_groups(4) [of b]
    assms(2) r a show ?thesis
    by (auto simp: front_ok_def scalar_of_def lead_bits_def is_scalar_def)
qed

lemma front_three:
  assumes "utf8_front a r = Good n" "utf8_width a = 3"
  shows "front_ok a r n"
proof -
  have a: "0xE0 \<le> code a" "code a \<le> 0xEF"
    using assms(2) by (auto simp: utf8_width_def in_range_def char_le split: if_splits)
  obtain b r1 where r1: "r = b # r1" "in_range (fst (second_range a)) (snd (second_range a)) b" "utf8_tail 2 1 r1 = Good n"
    using assms by (auto simp: utf8_front_def numeral_3_eq_3 split: list.splits if_splits)
  then obtain c r' where r: "r = b # c # r'" "n = 3" "0x80 \<le> code c" "code c \<le> 0xBF"
    by (cases r1) (auto simp: is_continuation_def char_le split: if_splits)
  have b: "0x80 \<le> code b" "code b \<le> 0xBF" "code a = 0xE0 \<Longrightarrow> 0xA0 \<le> code b" "code a = 0xED \<Longrightarrow> code b \<le> 0x9F"
    using r1(2) by (auto simp: front_simps split: if_splits)
  have g: "0xE0 + code a mod 16 = code a" "0x80 + code b mod 64 = code b"
    using byte_group [of "0xE0" "code a" 16] byte_group [of "0x80" "code b" 64] a b(1,2) by simp_all
  have "32 \<le> code a mod 16 * 64 + code b mod 64" using g a b by (cases "code a mod 16 = 0") auto
  moreover have "is_scalar ((code a mod 16 * 64 + code b mod 64) * 64 + code c mod 64)"
  proof -
    have "code c mod 64 < 64" "code b mod 64 < 64" "code a mod 16 = 13 \<Longrightarrow> code b mod 64 < 32" "code a mod 16 < 16"
      using g b(4) by auto
    then show ?thesis by (cases "code a mod 16" "13 :: nat" rule: linorder_cases) (auto simp: is_scalar_def)
  qed
  ultimately show ?thesis
    using encode_groups(2) [of "code a mod 16" "code b mod 64" "code c mod 64"] char_of_groups(2) [of a]
      char_of_groups(4) [of b] char_of_groups(4) [of c] assms(2) r a b(1,2)
    by (auto simp: front_ok_def scalar_of_def lead_bits_def numeral_3_eq_3)
qed

lemma front_four:
  assumes "utf8_front a r = Good n" "utf8_width a = 4"
  shows "front_ok a r n"
proof -
  have a: "0xF0 \<le> code a" "code a \<le> 0xF4"
    using assms(2) by (auto simp: utf8_width_def in_range_def char_le split: if_splits)
  obtain b r1 where r1: "r = b # r1" "in_range (fst (second_range a)) (snd (second_range a)) b" "utf8_tail 2 2 r1 = Good n"
    using assms by (auto simp: utf8_front_def eval_nat_numeral split: list.splits if_splits)
  then obtain c d r' where r: "r = b # c # d # r'" "n = 4" "0x80 \<le> code c" "code c \<le> 0xBF" "0x80 \<le> code d" "code d \<le> 0xBF"
    by (cases r1; cases "tl r1") (auto simp: is_continuation_def char_le eval_nat_numeral split: if_splits)
  have b: "0x80 \<le> code b" "code b \<le> 0xBF" "code a = 0xF0 \<Longrightarrow> 0x90 \<le> code b" "code a = 0xF4 \<Longrightarrow> code b \<le> 0x8F"
    using r1(2) by (auto simp: front_simps split: if_splits)
  have g: "0xF0 + code a mod 8 = code a" "0x80 + code b mod 64 = code b"
    using byte_group [of "0xF0" "code a" 8] byte_group [of "0x80" "code b" 64] a b(1,2) by simp_all
  have "16 \<le> code a mod 8 * 64 + code b mod 64" using g a b by (cases "code a mod 8 = 0") auto
  moreover have "code a mod 8 * 64 + code b mod 64 < 272" using g a b by (cases "code a mod 8 = 4") auto
  moreover have "is_scalar (((code a mod 8 * 64 + code b mod 64) * 64 + code c mod 64) * 64 + code d mod 64)"
  proof -
    have *: "16 \<le> k \<Longrightarrow> k < 272 \<Longrightarrow> z < 64 \<Longrightarrow> u < 64 \<Longrightarrow> is_scalar ((k * 64 + z) * 64 + u)" for k z u :: nat
      by (simp add: is_scalar_def)
    show ?thesis by (rule *) (use calculation in simp_all)
  qed
  moreover have "code a < 0xF8" "code b < 0xC0" "code c < 0xC0" "code d < 0xC0" using a b(1,2) r by simp_all
  ultimately have enc: "encode_char (((code a mod 8 * 64 + code b mod 64) * 64 + code c mod 64) * 64 + code d mod 64) = [a, b, c, d]"
    using encode_groups(3) [of "code a mod 8" "code b mod 64" "code c mod 64" "code d mod 64"] char_of_groups(3) [of a]
      char_of_groups(4) [of b] char_of_groups(4) [of c] char_of_groups(4) [of d] a(1) b(1) r(3,5)
    by (simp only: mod_less_divisor zero_less_numeral)
  have t: "take (n - 1) r = [b, c, d]" using r by (simp add: eval_nat_numeral)
  have "scalar_of a [b, c, d] = ((code a mod 8 * 64 + code b mod 64) * 64 + code c mod 64) * 64 + code d mod 64"
    using assms(2) by (simp only: scalar_of_def lead_bits_def) simp
  with enc t \<open>is_scalar _\<close> assms(2) r show ?thesis by (simp only: front_ok_def) simp
qed

lemma utf8_front_ok: "utf8_front a r = Good n \<Longrightarrow> front_ok a r n"
proof -
  assume g: "utf8_front a r = Good n"
  then consider "utf8_width a = 1" | "utf8_width a = 2" | "utf8_width a = 3" | "utf8_width a = 4"
    by (auto simp: utf8_front_def utf8_width_def split: if_splits)
  then show ?thesis using g front_one front_two front_three front_four by cases blast+
qed

section \<open>No information is lost\<close>

definition encode_str :: "nat list \<Rightarrow> string" where
  "encode_str cs = concat (map encode_char cs)"

lemma str_chars_ok:
  "utf8_error i s = None \<Longrightarrow> list_all is_scalar (str_chars s) \<and> encode_str (str_chars s) = s"
proof (induction i s rule: utf8_error.induct)
  case (2 i a r)
  from 2(2) obtain n where n: "utf8_front a r = Good n" "utf8_error (i + n) (drop (n - 1) r) = None"
    by (auto simp: utf8_error.simps split: utf8_step.splits)
  from utf8_front_ok [OF n(1)] 2(1) [OF n] show ?case
    by (auto simp: front_ok_def str_chars.simps encode_str_def)
qed (simp add: encode_str_def)

lemma str_chars_inject:
  "utf8_error i s = None \<Longrightarrow> utf8_error j t = None \<Longrightarrow> str_chars s = str_chars t \<longleftrightarrow> s = t"
  using str_chars_ok [of i s] str_chars_ok [of j t] by metis

lemma utf16_units_inject:
  assumes "is_scalar c" "is_scalar d" "utf16_units c @ us = utf16_units d @ vs"
  shows "c = d \<and> us = vs"
proof -
  have "m div 1024 = n div 1024 \<Longrightarrow> m mod 1024 = n mod 1024 \<Longrightarrow> m = n" for m n :: nat
    by (metis div_mult_mod_eq)
  from this [of "c - 65536" "d - 65536"] assms show ?thesis
    by (auto simp: utf16_units_def is_scalar_def split: if_splits)
qed

lemma utf16_inject:
  "list_all is_scalar cs \<Longrightarrow> list_all is_scalar ds \<Longrightarrow>
     concat (map utf16_units cs) = concat (map utf16_units ds) \<Longrightarrow> cs = ds"
proof (induction cs arbitrary: ds)
  case Nil
  then show ?case by (cases ds) (auto simp: utf16_units_def split: if_splits)
next
  case (Cons c cs)
  then obtain d ds' where "ds = d # ds'" by (cases ds) (auto simp: utf16_units_def split: if_splits)
  with utf16_units_inject [of c d "concat (map utf16_units cs)" "concat (map utf16_units ds')"] Cons.prems Cons.IH [of ds']
  show ?case by simp
qed

lemma encode_utf16_inject:
  "utf8_error i s = None \<Longrightarrow> utf8_error j t = None \<Longrightarrow> encode_utf16 s = encode_utf16 t \<longleftrightarrow> s = t"
  using utf16_inject [of "str_chars s" "str_chars t"] str_chars_ok [of i s] str_chars_ok [of j t]
    str_chars_inject [of i s j t]
  by (auto simp: encode_utf16_def)

end
