(* ===== verification/Ordering.thy ===== *)
theory Ordering
  imports Main
begin

text \<open>\<^verbatim>\<open>std::cmp::Ordering\<close> and \<^verbatim>\<open>binary_search_by\<close> of slices.\<close>

datatype ordering = Less | Equal | Greater

definition cmp :: "'a::linorder \<Rightarrow> 'a \<Rightarrow> ordering" where
  "cmp a b = (if a < b then Less else if a = b then Equal else Greater)"

definition then_with :: "ordering \<Rightarrow> ordering \<Rightarrow> ordering" where
  "then_with a b = (case a of Equal \<Rightarrow> b | _ \<Rightarrow> a)"

lemma cmp_simps [simp]:
  "cmp a b = Greater \<longleftrightarrow> b < a" "cmp a b = Less \<longleftrightarrow> a < b" "cmp a b = Equal \<longleftrightarrow> a = b"
  by (auto simp: cmp_def)

section \<open>Binary search\<close>

function search_base :: "(nat \<Rightarrow> ordering) \<Rightarrow> nat \<Rightarrow> nat \<Rightarrow> nat" where
  "search_base f sz base =
     (if 1 < sz then
        let half = sz div 2; mid = base + half
        in search_base f (sz - half) (if f mid = Greater then base else mid)
      else base)"
  by pat_completeness auto
termination
  by (relation "measure (\<lambda>(_, sz, _). sz)") auto

declare search_base.simps [simp del]

definition binary_search_by :: "('a \<Rightarrow> ordering) \<Rightarrow> 'a list \<Rightarrow> nat option" where
  "binary_search_by f xs =
     (if xs = [] then None
      else let b = search_base (\<lambda>i. f (xs ! i)) (length xs) 0
           in if f (xs ! b) = Equal then Some b else None)"

text \<open>The slice is ordered for the search: first smaller, then equal, then greater elements.\<close>

definition search_ordered :: "('a \<Rightarrow> ordering) \<Rightarrow> 'a list \<Rightarrow> bool" where
  "search_ordered f xs \<longleftrightarrow>
     sorted_wrt (\<lambda>x y. (f x = Greater \<longrightarrow> f y = Greater) \<and> (f x = Equal \<longrightarrow> f y \<noteq> Less)) xs"

lemma search_base_bounds:
  "0 < sz \<Longrightarrow> base + sz \<le> n \<Longrightarrow> base = 0 \<or> f base \<noteq> Greater \<Longrightarrow>
   (\<And>i j. i \<le> j \<Longrightarrow> j < n \<Longrightarrow> f i = Greater \<Longrightarrow> f j = Greater) \<Longrightarrow>
   (\<And>i. base + sz \<le> i \<Longrightarrow> i < n \<Longrightarrow> f i = Greater) \<Longrightarrow>
   search_base f sz base < n \<and> (search_base f sz base = 0 \<or> f (search_base f sz base) \<noteq> Greater) \<and>
   (\<forall>i. search_base f sz base < i \<longrightarrow> i < n \<longrightarrow> f i = Greater)"
proof (induction f sz base rule: search_base.induct)
  case (1 f sz base)
  show ?case
  proof (cases "1 < sz")
    case False
    with "1.prems" show ?thesis by (auto simp: search_base.simps [of f sz base])
  next
    case True
    define mid where "mid = base + sz div 2"
    let ?base = "if f mid = Greater then base else mid"
    have m: "mid < n" "mid < base + sz" "base < mid" using True "1.prems"(2) by (auto simp: mid_def)
    have rest: "?base + (sz - sz div 2) \<le> i \<Longrightarrow> i < n \<Longrightarrow> f i = Greater" for i
    proof (cases "f mid = Greater")
      case g: True
      assume i: "i < n" "?base + (sz - sz div 2) \<le> i"
      then have "mid \<le> i" using g by (simp add: mid_def)
      with g "1.prems"(4) i show "f i = Greater" by blast
    next
      case False
      assume "i < n" "?base + (sz - sz div 2) \<le> i"
      then show "f i = Greater" using False "1.prems"(5) [of i] True by (simp add: mid_def)
    qed
    have ih: "search_base f (sz - sz div 2) ?base < n \<and>
        (search_base f (sz - sz div 2) ?base = 0 \<or> f (search_base f (sz - sz div 2) ?base) \<noteq> Greater) \<and>
        (\<forall>i. search_base f (sz - sz div 2) ?base < i \<longrightarrow> i < n \<longrightarrow> f i = Greater)"
    proof (rule "1.IH" [OF True refl mid_def])
      show "0 < sz - sz div 2" using True by simp
      show "?base + (sz - sz div 2) \<le> n" using "1.prems"(2) by (auto simp: mid_def)
      show "?base = 0 \<or> f ?base \<noteq> Greater" using "1.prems"(3) by auto
      show "f j = Greater" if "i \<le> j" "j < n" "f i = Greater" for i j using "1.prems"(4) that by blast
      show "f i = Greater" if "?base + (sz - sz div 2) \<le> i" "i < n" for i using rest that by blast
    qed
    have step: "search_base f sz base = search_base f (sz - sz div 2) ?base"
      by (subst search_base.simps) (simp only: True if_True Let_def mid_def)
    show ?thesis unfolding step by (rule ih)
  qed
qed

lemma search_ordered_nth:
  "search_ordered f xs \<Longrightarrow> i \<le> j \<Longrightarrow> j < length xs \<Longrightarrow>
     (f (xs ! i) = Greater \<longrightarrow> f (xs ! j) = Greater) \<and> (f (xs ! i) = Equal \<longrightarrow> f (xs ! j) \<noteq> Less)"
  by (cases i j rule: linorder_cases) (auto simp: search_ordered_def sorted_wrt_iff_nth_less)

lemma binary_search_by_iff:
  assumes "search_ordered f xs"
  shows "case binary_search_by f xs of
      Some b \<Rightarrow> b < length xs \<and> f (xs ! b) = Equal
    | None \<Rightarrow> \<forall>x \<in> set xs. f x \<noteq> Equal"
proof (cases "xs = []")
  case False
  define b where "b = search_base (\<lambda>i. f (xs ! i)) (length xs) 0"
  have "b < length xs \<and> (b = 0 \<or> f (xs ! b) \<noteq> Greater) \<and> (\<forall>i. b < i \<longrightarrow> i < length xs \<longrightarrow> f (xs ! i) = Greater)"
    unfolding b_def using False search_ordered_nth [OF assms] by (intro search_base_bounds) auto
  then have b: "b < length xs" "b = 0 \<or> f (xs ! b) \<noteq> Greater" "\<And>i. b < i \<Longrightarrow> i < length xs \<Longrightarrow> f (xs ! i) = Greater"
    by auto
  have "f (xs ! b) = Equal" if "i < length xs" "f (xs ! i) = Equal" for i
  proof -
    have "i \<le> b" using b(3) [of i] that by (cases "b < i") auto
    moreover have "f (xs ! b) \<noteq> Less" using search_ordered_nth [OF assms \<open>i \<le> b\<close> b(1)] that by blast
    ultimately show ?thesis using b(2) that by (cases "f (xs ! b)") auto
  qed
  then have "x \<in> set xs \<Longrightarrow> f x = Equal \<Longrightarrow> f (xs ! b) = Equal" for x by (auto simp: in_set_conv_nth)
  with False b(1) show ?thesis by (auto simp: binary_search_by_def b_def [symmetric] Let_def)
qed (simp add: binary_search_by_def)

end
