(* ===== verification/Retrieval_Ranking.thy ===== *)
theory Retrieval_Ranking
  imports Bounded_Limits Stateful Utf8 Ordering "HOL-Library.Product_Lexorder"
begin

text \<open>
  The support code of the bounded retrieval runtime (\<^verbatim>\<open>bounded_retrieval_runtime.rs\<close>): failures, the
  deadline of an execution, ranking with a bounded heap, and the counted merge sort. The clock is
  the sequence of its readings; whether an allocation succeeds is a parameter.
\<close>

section \<open>Failures\<close>

definition FAILURE_CLIENT :: string where "FAILURE_CLIENT = ''CLIENT_INPUT''"
definition FAILURE_INTEGRITY :: string where "FAILURE_INTEGRITY = ''INTEGRITY''"
definition FAILURE_DEADLINE :: string where "FAILURE_DEADLINE = ''DEADLINE''"
definition FAILURE_RESOURCE :: string where "FAILURE_RESOURCE = ''RESOURCE_LIMIT''"
definition REASON_VALIDATION :: string where "REASON_VALIDATION = ''bounded request validation failed''"
definition REASON_INTEGRITY :: string where "REASON_INTEGRITY = ''bounded read integrity validation failed''"
definition REASON_DEADLINE :: string where "REASON_DEADLINE = ''bounded operation deadline exceeded''"
definition REASON_RESOURCE :: string where "REASON_RESOURCE = ''bounded operation resource limit exceeded''"

record execution_failure =
  ef_class :: string
  ef_reason :: string
  ef_work :: work_counts

definition client_failure :: "work_counts \<Rightarrow> execution_failure" where
  "client_failure w = \<lparr>ef_class = FAILURE_CLIENT, ef_reason = REASON_VALIDATION, ef_work = w\<rparr>"

definition integrity_failure :: "work_counts \<Rightarrow> execution_failure" where
  "integrity_failure w = \<lparr>ef_class = FAILURE_INTEGRITY, ef_reason = REASON_INTEGRITY, ef_work = w\<rparr>"

definition deadline_failure :: "work_counts \<Rightarrow> execution_failure" where
  "deadline_failure w = \<lparr>ef_class = FAILURE_DEADLINE, ef_reason = REASON_DEADLINE, ef_work = w\<rparr>"

definition resource_failure :: "work_counts \<Rightarrow> execution_failure" where
  "resource_failure w = \<lparr>ef_class = FAILURE_RESOURCE, ef_reason = REASON_RESOURCE, ef_work = w\<rparr>"

section \<open>The deadline of an execution\<close>

text \<open>\<open>ed_clock\<close> gives the successive readings of the elapsed milliseconds.\<close>

record execution_deadline =
  ed_clock :: "nat \<Rightarrow> u64"
  ed_reads :: nat
  ed_deadline :: monotonic_deadline
  ed_completed_units :: u64
  last_checkpoint_units :: u64

type_synonym 'a timed = "(execution_deadline, 'a, execution_failure) stateful"

definition new_execution_deadline :: "(nat \<Rightarrow> u64) \<Rightarrow> u64 \<Rightarrow> (execution_deadline, execution_failure) outcome" where
  "new_execution_deadline clk remaining =
     (case new_deadline 0 remaining of
        Ok d \<Rightarrow> Ok \<lparr>ed_clock = clk, ed_reads = 0, ed_deadline = d, ed_completed_units = 0, last_checkpoint_units = 0\<rparr>
      | Err _ \<Rightarrow> Err (deadline_failure work_default)
      | Panic \<Rightarrow> Panic)"

definition now_ms :: "u64 timed" where
  "now_ms d = (d\<lparr>ed_reads := Suc (ed_reads d)\<rparr>, Ok (ed_clock d (ed_reads d)))"

text \<open>The common body of \<^verbatim>\<open>checkpoint\<close>, \<^verbatim>\<open>before_allocation\<close> and \<^verbatim>\<open>before_materialization_at\<close>.\<close>

definition pass_deadline ::
  "(monotonic_deadline \<Rightarrow> u64 \<Rightarrow> u64 \<Rightarrow> monotonic_deadline \<times> (unit, deadline_error) outcome) \<Rightarrow>
   u64 \<Rightarrow> work_counts \<Rightarrow> unit timed"
where
  "pass_deadline check now w d =
     (case check (ed_deadline d) now (ed_completed_units d) of
        (md, Ok _) \<Rightarrow> (d\<lparr>ed_deadline := md, last_checkpoint_units := ed_completed_units d\<rparr>, Ok ())
      | (md, Err _) \<Rightarrow> (d\<lparr>ed_deadline := md\<rparr>, Err (deadline_failure w))
      | (md, Panic) \<Rightarrow> (d\<lparr>ed_deadline := md\<rparr>, Panic))"

definition execution_checkpoint :: "work_counts \<Rightarrow> unit timed" where
  "execution_checkpoint w = st_then now_ms (\<lambda>now. pass_deadline checkpoint now w)"

definition execution_before_allocation :: "work_counts \<Rightarrow> unit timed" where
  "execution_before_allocation w = st_then now_ms (\<lambda>now. pass_deadline before_allocation now w)"

definition before_materialization_at :: "u64 \<Rightarrow> work_counts \<Rightarrow> unit timed" where
  "before_materialization_at now w = pass_deadline before_materialization now w"

definition execution_before_materialization :: "work_counts \<Rightarrow> unit timed" where
  "execution_before_materialization w = st_then now_ms (\<lambda>now. before_materialization_at now w)"

definition advance :: "u64 \<Rightarrow> work_counts \<Rightarrow> unit timed" where
  "advance units w d =
     (case checked_add (ed_completed_units d) units of
        None \<Rightarrow> (d, Err (client_failure w))
      | Some c \<Rightarrow>
          let d' = d\<lparr>ed_completed_units := c\<rparr> in
          if c - last_checkpoint_units d' \<ge> DEADLINE_CHECK_INTERVAL_UNITS then execution_checkpoint w d'
          else (d', Ok ()))"

section \<open>Ranking\<close>

definition utf16_cmp :: "string \<Rightarrow> string \<Rightarrow> ordering" where
  "utf16_cmp l r = cmp (encode_utf16 l) (encode_utf16 r)"

text \<open>\<^verbatim>\<open>f64::total_cmp\<close>: the order of the bit patterns; the one NaN of the model counts as positive.\<close>

definition total_key :: "f64 \<Rightarrow> int" where
  "total_key x =
     (case x of
        F64_NaN \<Rightarrow> 2 ^ 2200
      | F64_Inf neg \<Rightarrow> if neg then - (2 ^ 2100) else 2 ^ 2100
      | F64_Fin neg m e \<Rightarrow> (let v = int m * 2 ^ nat (e + 1074) in if neg then - v - 1 else v))"

definition total_cmp :: "f64 \<Rightarrow> f64 \<Rightarrow> ordering" where
  "total_cmp a b = cmp (total_key a) (total_key b)"

definition ranked_cmp :: "f64 \<Rightarrow> string \<Rightarrow> f64 \<Rightarrow> string \<Rightarrow> ordering" where
  "ranked_cmp left_score left_id right_score right_id =
     then_with (total_cmp right_score left_score) (utf16_cmp left_id right_id)"

record 'a ranked_item =
  ri_id :: string
  ri_score :: f64
  ri_payload :: 'a

definition item_cmp :: "'a ranked_item \<Rightarrow> 'a ranked_item \<Rightarrow> ordering" where
  "item_cmp a b = ranked_cmp (ri_score a) (ri_id a) (ri_score b) (ri_id b)"

text \<open>The operations of \<^verbatim>\<open>BinaryHeap\<close>. Which of several greatest items is on top is not specified.\<close>

record ('h, 'a) heap_ops =
  heap_new :: 'h
  heap_push :: "'a \<Rightarrow> 'h \<Rightarrow> 'h"
  heap_pop :: "'h \<Rightarrow> 'h"
  heap_peek :: "'h \<Rightarrow> 'a option"
  heap_len :: "'h \<Rightarrow> nat"
  into_vec :: "'h \<Rightarrow> 'a list"

definition bounded_rank_heap ::
  "(nat \<Rightarrow> bool) \<Rightarrow> ('h, 'a) heap_ops \<Rightarrow> nat \<Rightarrow> work_counts \<Rightarrow> 'h timed"
where
  "bounded_rank_heap can_alloc H limit w =
     st_then (execution_before_allocation w) (\<lambda>_.
     if \<not> can_alloc limit then st_fail (resource_failure w)
     else st_then (execution_before_allocation w) (\<lambda>_. st_ret (heap_new H)))"

definition retain_bounded_ranked ::
  "('h, 'a ranked_item) heap_ops \<Rightarrow> nat \<Rightarrow> 'a ranked_item \<Rightarrow> 'h \<Rightarrow> ('h, unit) outcome"
where
  "retain_bounded_ranked H limit x h =
     (let insert = (let h' = heap_push H x h in Ok (if heap_len H h' > limit then heap_pop H h' else h')) in
      if limit = 0 then Ok h
      else if heap_len H h = limit then
        (case heap_peek H h of
           None \<Rightarrow> Panic
         | Some worst \<Rightarrow> if item_cmp x worst \<noteq> Less then Ok h else insert)
      else insert)"

text \<open>\<^verbatim>\<open>sort_by\<close> is a stable sort by insertion or merging; equal items keep their order.\<close>

fun insert_by :: "('a \<Rightarrow> 'a \<Rightarrow> ordering) \<Rightarrow> 'a \<Rightarrow> 'a list \<Rightarrow> 'a list" where
  "insert_by c x [] = [x]"
| "insert_by c x (y # ys) = (if c x y = Greater then y # insert_by c x ys else x # y # ys)"

definition sort_by :: "('a \<Rightarrow> 'a \<Rightarrow> ordering) \<Rightarrow> 'a list \<Rightarrow> 'a list" where
  "sort_by c xs = foldr (insert_by c) xs []"

definition finish_bounded_ranking :: "('h, 'a ranked_item) heap_ops \<Rightarrow> 'h \<Rightarrow> 'a ranked_item list" where
  "finish_bounded_ranking H h = sort_by item_cmp (into_vec H h)"

section \<open>The counted merge sort\<close>

type_synonym 'a counted = "(work_counts \<times> execution_deadline, 'a, execution_failure) stateful"

definition timed :: "(work_counts \<Rightarrow> 'a timed) \<Rightarrow> 'a counted" where
  "timed f = (\<lambda>(w, d). case f w d of (d', r) \<Rightarrow> ((w, d'), r))"

definition account_graph_scan_unit :: "unit counted" where
  "account_graph_scan_unit = (\<lambda>(w, d).
     case checked_add (graph_scan_units w) 1 of
       None \<Rightarrow> ((w, d), Err (resource_failure w))
     | Some n \<Rightarrow> timed (advance 1) (w\<lparr>graph_scan_units := n\<rparr>, d))"

fun push_built :: "(nat \<Rightarrow> 'a counted) \<Rightarrow> nat \<Rightarrow> nat \<Rightarrow> 'a list \<Rightarrow> 'a list counted" where
  "push_built build i 0 values = st_ret values"
| "push_built build i (Suc n) values =
     st_then (build i) (\<lambda>v. st_then account_graph_scan_unit (\<lambda>_. push_built build (Suc i) n (values @ [v])))"

definition build_counted_graph_vec :: "(nat \<Rightarrow> bool) \<Rightarrow> nat \<Rightarrow> (nat \<Rightarrow> 'a counted) \<Rightarrow> 'a list counted" where
  "build_counted_graph_vec can_alloc len build =
     st_then (timed execution_before_allocation) (\<lambda>_. \<lambda>s.
     if \<not> can_alloc len then st_fail (resource_failure (fst s)) s
     else st_then (timed execution_before_allocation) (\<lambda>_. push_built build 0 len []) s)"

text \<open>Indexing panics out of range.\<close>

definition index :: "'a list \<Rightarrow> nat \<Rightarrow> 'a counted" where
  "index xs i = (if i < length xs then st_ret (xs ! i) else st_panic)"

definition assign :: "'a list \<Rightarrow> nat \<Rightarrow> 'a \<Rightarrow> 'a list counted" where
  "assign xs i v = (if i < length xs then st_ret (xs[i := v]) else st_panic)"

text \<open>The loop over one pair of runs; the counter is the number of outputs left.\<close>

fun merge_runs ::
  "('a \<Rightarrow> 'a \<Rightarrow> ordering) \<Rightarrow> 'a list \<Rightarrow> nat \<Rightarrow> nat \<Rightarrow> nat \<Rightarrow> nat \<Rightarrow> nat \<Rightarrow> nat \<Rightarrow> 'a list \<Rightarrow> 'a list counted"
where
  "merge_runs c src middle en 0 out left right dst = st_ret dst"
| "merge_runs c src middle en (Suc n) out left right dst =
     st_then account_graph_scan_unit (\<lambda>_.
     st_then
       (if left < middle \<and> right < en then
          st_then (index src left) (\<lambda>a. st_then (index src right) (\<lambda>b. st_ret (c a b \<noteq> Greater)))
        else st_ret (left < middle)) (\<lambda>take_left.
     st_then (if take_left then index src left else index src right) (\<lambda>v.
     st_then (assign dst out v) (\<lambda>dst'.
     st_then account_graph_scan_unit (\<lambda>_.
     merge_runs c src middle en n (Suc out) (if take_left then Suc left else left)
       (if take_left then right else Suc right) dst')))))"

text \<open>One pass; \<open>width\<close> is never zero.\<close>

function merge_pass :: "('a \<Rightarrow> 'a \<Rightarrow> ordering) \<Rightarrow> nat \<Rightarrow> 'a list \<Rightarrow> nat \<Rightarrow> 'a list \<Rightarrow> 'a list counted" where
  "merge_pass c width src start dst =
     (if start < length src \<and> 0 < width then
        let middle = min (start + width) (length src); en = min (middle + width) (length src) in
        st_then (merge_runs c src middle en (en - start) start start middle dst) (\<lambda>dst'.
        merge_pass c width src en dst')
      else st_ret dst)"
  by pat_completeness auto
termination
  by (relation "measure (\<lambda>(_, _, src, start, _). length src - start)") auto

text \<open>The passes; a vector keeps its length \<open>len\<close>. The result is which buffer is the source, and both buffers.\<close>

function merge_passes ::
  "('a \<Rightarrow> 'a \<Rightarrow> ordering) \<Rightarrow> nat \<Rightarrow> nat \<Rightarrow> bool \<Rightarrow> 'a list \<Rightarrow> 'a list \<Rightarrow> (bool \<times> 'a list \<times> 'a list) counted"
where
  "merge_passes c len width source_is_values values scratch =
     (if width < len \<and> 0 < width then
        st_then
          (if source_is_values then
             st_then (merge_pass c width values 0 scratch) (\<lambda>scratch'. st_ret (values, scratch'))
           else st_then (merge_pass c width scratch 0 values) (\<lambda>values'. st_ret (values', scratch)))
          (\<lambda>(values', scratch'). \<lambda>s.
             if width * 2 < 2 ^ 64 then merge_passes c len (width * 2) (\<not> source_is_values) values' scratch' s
             else st_fail (resource_failure (fst s)) s)
      else st_ret (source_is_values, values, scratch))"
  by pat_completeness auto
termination
  by (relation "measure (\<lambda>(_, len, width, _). len - width)") auto

fun copy_back :: "'a list \<Rightarrow> 'a list \<Rightarrow> 'a list counted" where
  "copy_back (v # values) (s # scratch) =
     st_then account_graph_scan_unit (\<lambda>_. st_then (copy_back values scratch) (\<lambda>r. st_ret (s # r)))"
| "copy_back values scratch = st_ret values"

definition canonical_counted_sort ::
  "(nat \<Rightarrow> bool) \<Rightarrow> ('a \<Rightarrow> 'a \<Rightarrow> ordering) \<Rightarrow> 'a list \<Rightarrow> 'a list counted"
where
  "canonical_counted_sort can_alloc c values =
     (if length values < 2 then st_ret values
      else
        st_then (build_counted_graph_vec can_alloc (length values) (index values)) (\<lambda>scratch.
        st_then (merge_passes c (length values) 1 True values scratch) (\<lambda>(source_is_values, values', scratch').
        if source_is_values then st_ret values' else copy_back values' scratch')))"

definition canonical_sort_ids :: "(nat \<Rightarrow> bool) \<Rightarrow> string list \<Rightarrow> string list counted" where
  "canonical_sort_ids can_alloc = canonical_counted_sort can_alloc utf16_cmp"

record graph_edge =
  ge_edge_id :: string
  ge_corpus_id :: string
  source_node_id :: string
  target_node_id :: string
  ge_relation :: string
  ge_weight :: f64
  bridge_kind :: "string option"

definition edge_cmp :: "graph_edge \<Rightarrow> graph_edge \<Rightarrow> ordering" where
  "edge_cmp l r =
     then_with (then_with (utf16_cmp (source_node_id l) (source_node_id r))
         (utf16_cmp (target_node_id l) (target_node_id r)))
       (total_cmp (ge_weight l) (ge_weight r))"

definition canonical_sort_edges :: "(nat \<Rightarrow> bool) \<Rightarrow> graph_edge list \<Rightarrow> graph_edge list counted" where
  "canonical_sort_edges can_alloc = canonical_counted_sort can_alloc edge_cmp"

end
