(* ===== verification/Bounded_Limits_Correct.thy ===== *)
theory Bounded_Limits_Correct
  imports Bounded_Limits
begin

text \<open>
  Bounded retrieval keeps its accounts: sums and products are exact or refused, deadlines are
  enforced, and every response frame states its own length and stays below the frame cap.
\<close>

section \<open>Exact arithmetic\<close>

lemma checked_sum_Some:
  "checked_sum v xs = Some r \<longleftrightarrow> unat r = unat v + sum_list (map unat xs)"
proof (induction xs arbitrary: v)
  case Nil
  then show ?case using word_unat_eq_iff [of v r] by auto
next
  case (Cons x xs)
  show ?case
  proof (cases "checked_add v x")
    case None
    then have "2 ^ 64 \<le> unat v + unat x" by (simp only: checked_None)
    with None unat_bound [of r] show ?thesis by simp
  next
    case (Some w)
    then have "unat w = unat v + unat x" by (simp only: checked_add_Some)
    with Some show ?thesis by (simp add: Cons.IH add.assoc)
  qed
qed

definition capacity :: "allocation_input \<Rightarrow> nat" where
  "capacity a =
     8 * unat (vector_values a) + 64 * unat (seed_entries a) + 64 * unat (result_entries a) +
     24 * unat (ppr_score_entries a) + 192 * unat (ppr_node_entries a) + 64 * unat (ppr_edge_entries a) +
     64 * unat (heap_entries a) + 262144 * unat (retained_object_entries a) +
     unat (scratch_bytes a) + unat (response_buffer_bytes a)"

lemma capacity_Ok: "checked_capacity_bytes a = Ok b \<Longrightarrow> unat b = capacity a"
  by (auto simp: checked_capacity_bytes_def checked_sum_Some checked_add_Some checked_mul_Some capacity_def entry_bytes
      MAX_OBJECT_BYTES_def bind_eq_Some_conv)

lemma checked_mul_fits: "unat a * unat b < 2 ^ 64 \<Longrightarrow> \<exists>r. checked_mul a b = Some r \<and> unat r = unat a * unat b"
  by (cases "checked_mul a b") (auto simp: checked_None checked_mul_Some)

lemma checked_sum_fits:
  assumes "unat v + sum_list (map unat xs) < 2 ^ 64"
  shows "\<exists>r. checked_sum v xs = Some r"
proof -
  have "unat (word_of_nat (unat v + sum_list (map unat xs)) :: u64) = unat v + sum_list (map unat xs)"
    using assms by (rule unat_of_nat_u64)
  then show ?thesis using checked_sum_Some by blast
qed

lemma capacity_fits:
  assumes "capacity a < 2 ^ 64"
  shows "\<exists>b. checked_capacity_bytes a = Ok b"
proof -
  have m: "\<exists>r. checked_mul x y = Some r \<and> unat r = unat x * unat y" if "unat x * unat y \<le> capacity a" for x y
    using that assms by (intro checked_mul_fits) simp
  obtain v where v: "checked_mul (vector_values a) VECTOR_VALUE_BYTES = Some v" "unat v = unat (vector_values a) * 8"
    using m [of "vector_values a" VECTOR_VALUE_BYTES] by (auto simp: entry_bytes capacity_def)
  obtain sd where sd: "checked_mul (seed_entries a) SEED_ENTRY_BYTES = Some sd" "unat sd = unat (seed_entries a) * 64"
    using m [of "seed_entries a" SEED_ENTRY_BYTES] by (auto simp: entry_bytes capacity_def)
  obtain rs where rs: "checked_mul (result_entries a) RESULT_ENTRY_BYTES = Some rs" "unat rs = unat (result_entries a) * 64"
    using m [of "result_entries a" RESULT_ENTRY_BYTES] by (auto simp: entry_bytes capacity_def)
  obtain s3 where s3: "checked_mul (ppr_score_entries a) PPR_SCORE_ARRAYS = Some s3" "unat s3 = unat (ppr_score_entries a) * 3"
    using m [of "ppr_score_entries a" PPR_SCORE_ARRAYS] by (auto simp: entry_bytes capacity_def)
  obtain sc where sc: "checked_mul s3 SCORE_VALUE_BYTES = Some sc" "unat sc = unat (ppr_score_entries a) * 24"
    using m [of s3 SCORE_VALUE_BYTES] s3(2) by (auto simp: entry_bytes capacity_def)
  obtain pn where pn: "checked_mul (ppr_node_entries a) PPR_NODE_ENTRY_BYTES = Some pn" "unat pn = unat (ppr_node_entries a) * 192"
    using m [of "ppr_node_entries a" PPR_NODE_ENTRY_BYTES] by (auto simp: entry_bytes capacity_def)
  obtain pe where pe: "checked_mul (ppr_edge_entries a) PPR_EDGE_ENTRY_BYTES = Some pe" "unat pe = unat (ppr_edge_entries a) * 64"
    using m [of "ppr_edge_entries a" PPR_EDGE_ENTRY_BYTES] by (auto simp: entry_bytes capacity_def)
  obtain h where h: "checked_mul (heap_entries a) HEAP_ENTRY_BYTES = Some h" "unat h = unat (heap_entries a) * 64"
    using m [of "heap_entries a" HEAP_ENTRY_BYTES] by (auto simp: entry_bytes capacity_def)
  obtain ro where ro: "checked_mul (retained_object_entries a) MAX_OBJECT_BYTES = Some ro"
    "unat ro = unat (retained_object_entries a) * 262144"
    using m [of "retained_object_entries a" MAX_OBJECT_BYTES] by (auto simp: MAX_OBJECT_BYTES_def capacity_def)
  have "\<exists>r. checked_sum v [sd, rs, sc, pn, pe, h, ro, scratch_bytes a, response_buffer_bytes a] = Some r"
    by (rule checked_sum_fits)
      (use assms v sd rs sc pn pe h ro in \<open>simp add: capacity_def\<close>)
  with v sd rs s3 sc pn pe h ro show ?thesis by (auto simp: checked_capacity_bytes_def)
qed

text \<open>The memory estimate of an operation is the exact sum of its parts, computed without overflow:
  it is accepted exactly if the response buffer and the exact sum are within their caps.\<close>

theorem allocation_check_exact:
  "allocation_check a = Ok b \<longleftrightarrow>
     unat b = capacity a \<and> capacity a \<le> 512 * 1024 * 1024 \<and> unat (response_buffer_bytes a) \<le> 2 * 1024 * 1024"
proof (cases "checked_capacity_bytes a")
  case (Ok c)
  note u = capacity_Ok [OF Ok]
  have "(c = b) = (unat b = capacity a)" using u word_unat_eq_iff [of c b] by auto
  with Ok u show ?thesis
    by (auto simp: allocation_check_def MAX_TRANSIENT_BYTES_def MAX_RESPONSE_FRAME_BYTES_def
        word_less_nat_alt not_less)
next
  case (Err x)
  with capacity_fits [of a] have "\<not> capacity a < 2 ^ 64" by auto
  with Err show ?thesis by (auto simp: allocation_check_def)
next
  case Panic
  with capacity_fits [of a] have "\<not> capacity a < 2 ^ 64" by auto
  with Panic show ?thesis by (auto simp: allocation_check_def)
qed

section \<open>Usage\<close>

lemma max_or_zero_le: "max_or_zero xs \<le> m \<longleftrightarrow> list_all (\<lambda>x. x \<le> m) xs"
  by (induction xs) (auto simp: max_or_zero_def)

lemma check_limits_Ok: "check_limits ls = Ok () \<longleftrightarrow> list_all (\<lambda>(_, actual, maximum). actual \<le> maximum) ls"
  by (induction ls rule: check_limits.induct) (auto simp: not_less)

lemma check_limits_cases: "check_limits ls = Ok () \<or> (\<exists>e. check_limits ls = Err e)"
  by (induction ls rule: check_limits.induct) auto

lemma sum_limits_Ok:
  "sum_limits t slots = Ok r \<Longrightarrow>
     \<exists>limits. traverse slot_limit slots = Ok limits \<and> unat r = unat t + sum_list (map unat limits)"
proof (induction slots arbitrary: t)
  case (Cons slot slots)
  then obtain l t' where l: "slot_limit slot = Ok l" "checked_add t l = Some t'" "sum_limits t' slots = Ok r"
    by auto
  from Cons.IH [OF l(3)] l show ?case by (auto simp: checked_add_Some)
qed simp

lemma usage_for_request_check: "usage_for_request method params = Ok u \<Longrightarrow> usage_check u = Ok ()"
  by (auto simp: usage_for_request_def)

text \<open>The usage of an accepted candidate search is what its slots say: at most eight slots, each
  vector and each limit within its cap, and the combined limit, computed without overflow, is at most 128.\<close>

theorem candidate_usage_exact:
  assumes "usage_for_request CANDIDATE_SEARCH params = Ok u"
    and "json_get ''slots'' params = Some (JArray slots)" "length slots < 2 ^ 64"
  shows "\<exists>dims limits. traverse slot_dimensions slots = Ok dims \<and> traverse slot_limit slots = Ok limits \<and>
    length slots \<le> 8 \<and> list_all (\<lambda>d. d \<le> 4096) dims \<and> list_all (\<lambda>l. l \<le> 100) limits \<and>
    unat (combined_objects u) = sum_list (map unat limits) \<and> sum_list (map unat limits) \<le> 128"
proof -
  from assms(1,2) obtain dims limits t where *:
    "traverse slot_dimensions slots = Ok dims" "traverse slot_limit slots = Ok limits" "sum_limits 0 slots = Ok t"
    "u = usage_default\<lparr>search_slots := len_u64 slots, vector_dimensions := max_or_zero dims,
       search_result_limit := max_or_zero limits, combined_objects := t\<rparr>" "usage_check u = Ok ()"
    by (auto simp: usage_for_request_def usage_candidate_def as_array_def)
  from *(5) have "list_all (\<lambda>(_, actual, maximum). actual \<le> maximum) (usage_limits u)"
    by (simp only: usage_check_def check_limits_Ok)
  then have "len_u64 slots \<le> 8" "list_all (\<lambda>d. d \<le> 4096) dims" "list_all (\<lambda>l. l \<le> 100) limits" "t \<le> 128"
    by (simp_all add: *(4) usage_limits_def caps max_or_zero_le)
  moreover have "unat t = sum_list (map unat limits)" using sum_limits_Ok [OF *(3)] *(2) by simp
  ultimately show ?thesis
    using *(1,2,4) unat_len_u64 [OF assms(3)] word_le_nat_alt [of "len_u64 slots" 8] word_le_nat_alt [of t 128]
    by auto
qed

definition sample_search_params :: json where
  "sample_search_params = JObject [(''slots'', JArray [JObject
     [(''limit'', JNumber (PosInt 5)), (''queryVector'', JArray [JNumber (PosInt 1)])]])]"

theorem candidate_usage_exact_witness:
  "\<exists>u dims limits. usage_for_request CANDIDATE_SEARCH sample_search_params = Ok u \<and>
    traverse slot_limit [JObject [(''limit'', JNumber (PosInt 5)), (''queryVector'', JArray [JNumber (PosInt 1)])]] = Ok limits \<and>
    unat (combined_objects u) = sum_list (map unat limits)"
proof -
  let ?u = "usage_default\<lparr>search_slots := 1, vector_dimensions := 1, search_result_limit := 5, combined_objects := 5\<rparr>"
  have "usage_for_request CANDIDATE_SEARCH sample_search_params = Ok ?u"
    by (simp add: usage_for_request_def usage_candidate_def sample_search_params_def json_get_def as_array_def as_u64_def
        slot_dimensions_def slot_limit_def max_or_zero_def len_u64_def checked_add_def usage_check_def
        usage_limits_def usage_default_def caps)
  with candidate_usage_exact [OF this, of "[JObject [(''limit'', JNumber (PosInt 5)), (''queryVector'', JArray [JNumber (PosInt 1)])]]"]
  show ?thesis by (auto simp: sample_search_params_def json_get_def)
qed

section \<open>Work\<close>

text \<open>Counters within their caps always add up: the check of the work counters never meets an
  overflow, and returns the exact sum of comparisons, facts, scan units and encoded objects.\<close>

theorem work_check_exact:
  "work_check w =
     (if wc_vector_comparisons w \<le> MAX_VECTOR_COMPARISONS \<and> wc_facts_inspected w \<le> MAX_FACTS_INSPECTED \<and>
         wc_iterations w \<le> MAX_ITERATIONS \<and> nodes_initialized w \<le> MAX_GRAPH_NODES \<and>
         edges_visited w \<le> MAX_GRAPH_EDGES \<and> graph_scan_units w \<le> MAX_GRAPH_SCAN_UNITS \<and>
         objects_considered_for_encoding w \<le> MAX_COMBINED_OBJECTS
      then Ok (word_of_nat (unat (wc_vector_comparisons w) + unat (wc_facts_inspected w) +
                 unat (graph_scan_units w) + unat (objects_considered_for_encoding w)))
      else Err ''work count exceeds native hard cap'')"
proof -
  let ?t = "unat (wc_vector_comparisons w) + unat (wc_facts_inspected w) +
    unat (graph_scan_units w) + unat (objects_considered_for_encoding w)"
  have "checked_work_units w = Ok (word_of_nat ?t)"
    if "wc_vector_comparisons w \<le> MAX_VECTOR_COMPARISONS" "wc_facts_inspected w \<le> MAX_FACTS_INSPECTED"
      "graph_scan_units w \<le> MAX_GRAPH_SCAN_UNITS" "objects_considered_for_encoding w \<le> MAX_COMBINED_OBJECTS"
  proof -
    have "?t < 2 ^ 64" using that by (simp add: caps word_le_nat_alt)
    then have u: "unat (word_of_nat ?t :: u64) = ?t" by (rule unat_of_nat_u64)
    have "checked_sum (wc_vector_comparisons w) [wc_facts_inspected w, graph_scan_units w,
        objects_considered_for_encoding w] = Some (word_of_nat ?t)"
      by (simp only: checked_sum_Some u) simp
    then show ?thesis by (simp add: checked_work_units_def)
  qed
  then show ?thesis by (auto simp: work_check_def not_less)
qed

section \<open>Time\<close>

text \<open>The checkpoints of an operation, each a clock reading and the work done so far; the first
  refusal ends the operation.\<close>

fun run_checkpoints ::
  "monotonic_deadline \<Rightarrow> (u64 \<times> u64) list \<Rightarrow> (monotonic_deadline, deadline_error) outcome"
where
  "run_checkpoints d [] = Ok d"
| "run_checkpoints d ((now, units) # r) =
     (case checkpoint d now units of
        (d', Ok _) \<Rightarrow> run_checkpoints d' r
      | (_, Err e) \<Rightarrow> Err e
      | (_, Panic) \<Rightarrow> Panic)"

lemma checkpoint_Ok:
  "checkpoint d now units = (d', Ok x) \<longleftrightarrow>
     d' = d\<lparr>last_now_ms := now, md_completed_units := units\<rparr> \<and> last_now_ms d \<le> now \<and>
     md_completed_units d \<le> units \<and> unat units \<le> unat (md_completed_units d) + 1024 \<and> now < md_deadline_ms d"
  by (auto simp: checkpoint_def observe_clock_def Let_def not_less not_le DEADLINE_CHECK_INTERVAL_UNITS_def
      word_le_nat_alt word_less_nat_alt unat_sub split: if_splits)

lemma checkpoint_accepts:
  "(\<exists>d'. run_checkpoints d ((now, units) # cs) = Ok d') \<longleftrightarrow>
     last_now_ms d \<le> now \<and> md_completed_units d \<le> units \<and>
     unat units \<le> unat (md_completed_units d) + 1024 \<and> now < md_deadline_ms d \<and>
     (\<exists>d'. run_checkpoints (d\<lparr>last_now_ms := now, md_completed_units := units\<rparr>) cs = Ok d')"
  (is "_ \<longleftrightarrow> ?rhs")
proof (cases "checkpoint d now units")
  case (Pair d1 res)
  then show ?thesis
    using checkpoint_Ok [of d now units d1] checkpoint_Ok [of d now units "d\<lparr>last_now_ms := now, md_completed_units := units\<rparr>"]
    by (cases res) auto
qed

lemma run_checkpoints_Ok:
  "(\<exists>d'. run_checkpoints d cs = Ok d') \<longleftrightarrow>
     sorted (last_now_ms d # map fst cs) \<and>
     successively (\<lambda>u v. u \<le> v \<and> unat v \<le> unat u + 1024) (md_completed_units d # map snd cs) \<and>
     list_all (\<lambda>(now, _). now < md_deadline_ms d) cs"
proof (induction cs arbitrary: d)
  case (Cons c cs)
  obtain now units where c: "c = (now, units)" by (cases c)
  show ?case unfolding c checkpoint_accepts Cons.IH by (auto dest: order_trans)
qed simp

text \<open>C38: an operation passes all its checkpoints exactly if its clock readings never decrease, its
  work never decreases and grows by at most 1024 units between checkpoints, and every reading is
  before the start plus the budget, the budget being cut to 60 seconds.\<close>

theorem deadline_enforced:
  assumes "new_deadline start budget = Ok d"
  shows "(\<exists>d'. run_checkpoints d cs = Ok d') \<longleftrightarrow>
     sorted (start # map fst cs) \<and>
     successively (\<lambda>u v. u \<le> v \<and> unat v \<le> unat u + 1024) (0 # map snd cs) \<and>
     (\<forall>(now, _)\<in>set cs. unat now < unat start + min (unat budget) 60000)"
proof -
  from assms have d: "unat (md_deadline_ms d) = unat start + unat (min budget MAX_OPERATION_DEADLINE_MS)"
    "last_now_ms d = start" "md_completed_units d = 0"
    by (auto simp: new_deadline_def checked_add_Some)
  moreover have "unat (min budget MAX_OPERATION_DEADLINE_MS) = min (unat budget) 60000"
    by (simp add: min_def word_le_nat_alt MAX_OPERATION_DEADLINE_MS_def)
  ultimately show ?thesis by (simp add: run_checkpoints_Ok list_all_iff word_less_nat_alt)
qed

theorem deadline_enforced_witness:
  "(\<exists>d'. run_checkpoints \<lparr>md_deadline_ms = 60005, last_now_ms = 5, md_completed_units = 0\<rparr>
      [(7, 1000), (7, 2024), (60004, 2024)] = Ok d') \<and>
   \<not> (\<exists>d'. run_checkpoints \<lparr>md_deadline_ms = 60005, last_now_ms = 5, md_completed_units = 0\<rparr>
      [(7, 1025)] = Ok d')"
proof -
  have "new_deadline 5 70000 = Ok \<lparr>md_deadline_ms = 60005, last_now_ms = 5, md_completed_units = 0\<rparr>"
    by (simp add: new_deadline_def checked_add_def MAX_OPERATION_DEADLINE_MS_def min_def)
  from deadline_enforced [OF this, of "[(7, 1000), (7, 2024), (60004, 2024)]"]
    deadline_enforced [OF this, of "[(7, 1025)]"]
  show ?thesis by simp
qed

section \<open>Frames\<close>

lemma write_chunks_Ok:
  assumes "length buf + length (concat chunks) < 2 ^ 64" "length buf \<le> unat limit"
  shows "write_chunks limit buf chunks =
    (if length buf + length (concat chunks) \<le> unat limit then Ok (buf @ concat chunks)
     else Err ''bounded writer limit exceeded'')"
  using assms
proof (induction chunks arbitrary: buf)
  case (Cons b bs)
  have l: "unat (len_u64 buf) = length buf" "unat (len_u64 b) = length b"
    using Cons.prems by (auto intro!: unat_len_u64)
  have "length buf + length b < 2 ^ 64" using Cons.prems by simp
  then obtain n where n: "checked_add (len_u64 buf) (len_u64 b) = Some n" "unat n = length buf + length b"
    using l by (cases "checked_add (len_u64 buf) (len_u64 b)") (auto simp: checked_None checked_add_Some)
  show ?case
    using Cons.IH [of "buf @ b"] Cons.prems n
    by (auto simp: limited_write_def word_less_nat_alt)
qed simp

lemma encode_frame_Ok:
  assumes "length (concat chunks) < 2 ^ 64" "can_reserve fc 2097151"
  shows "encode_frame fc chunks =
    (if length (concat chunks) < 2 * 1024 * 1024 then Ok (concat chunks @ [CHR 0x0A])
     else Err ''bounded serialization failed: bounded writer limit exceeded'')"
proof -
  have u: "unat (MAX_RESPONSE_FRAME_BYTES - 1) = 2097151" by (simp add: MAX_RESPONSE_FRAME_BYTES_def)
  show ?thesis
    using assms write_chunks_Ok [of "[]" chunks "MAX_RESPONSE_FRAME_BYTES - 1"]
    by (auto simp: encode_frame_def serialize_limited_def u less_Suc_eq_le map_ok_def)
qed

text \<open>Encoding to a fixed point. The length of a frame depends on the number it advertises only
  through the number of its digits, at most seven: eight attempts are enough.\<close>

lemma encode_attempts_fixed_point:
  assumes enc: "\<And>a. unat a \<le> 2097152 \<Longrightarrow> \<exists>bytes. enc a = Ok bytes \<and> length bytes = k + length (show_u64 a)"
    and k: "k + 7 \<le> 2097152"
  shows "unat a \<le> k + length (show_u64 a) \<Longrightarrow> unat a \<le> 2097152 \<Longrightarrow> 9 \<le> n + length (show_u64 a) \<Longrightarrow>
    \<exists>b bytes. encode_attempts n enc msg a = Ok bytes \<and> enc b = Ok bytes \<and> unat b = length bytes \<and> unat b \<le> 2097152"
proof (induction n arbitrary: a)
  case 0
  then show ?case using length_show_nat_less [of "unat a" 7] by (simp add: show_u64_def)
next
  case (Suc n)
  have digits: "length (show_u64 x) \<le> 7" if "unat x \<le> 2097152" for x
    using length_show_nat_less [of "unat x" 7] that by (simp add: show_u64_def)
  obtain bytes where b: "enc a = Ok bytes" "length bytes = k + length (show_u64 a)" using enc Suc.prems(2) by blast
  define a' where "a' = len_u64 bytes"
  have a': "unat a' = length bytes" "unat a' \<le> 2097152"
    using b(2) k digits [OF Suc.prems(2)] by (auto simp: a'_def unat_len_u64)
  show ?case
  proof (cases "a' = a")
    case True
    with b a' Suc.prems(2) show ?thesis by (auto simp: a'_def)
  next
    case False
    have le: "length (show_u64 a) \<le> length (show_u64 a')"
      using length_show_nat_mono [of "unat a" "unat a'"] a'(1) b(2) Suc.prems(1) by (simp add: show_u64_def)
    have step: "encode_attempts (Suc n) enc msg a = encode_attempts n enc msg a'"
      using b(1) False by (simp add: a'_def)
    show ?thesis
    proof (cases "length (show_u64 a') = length (show_u64 a)")
      case True
      obtain bytes' where b': "enc a' = Ok bytes'" "length bytes' = k + length (show_u64 a')" using enc a'(2) by blast
      have "unat (len_u64 bytes') = unat a'" using b' b True a' by (simp add: unat_len_u64)
      then have "len_u64 bytes' = a'" by (simp add: word_unat_eq_iff)
      moreover obtain m where "n = Suc m" using Suc.prems(3) digits [OF Suc.prems(2)] by (cases n) auto
      ultimately have "encode_attempts n enc msg a' = Ok bytes'" using b' by simp
      with step b' b a' True show ?thesis by auto
    next
      case False
      with le Suc.prems(3) a' b have "9 \<le> n + length (show_u64 a')" "unat a' \<le> k + length (show_u64 a')" by auto
      from Suc.IH [OF this(2) a'(2) this(1)] show ?thesis unfolding step .
    qed
  qed
qed

definition success_frame ::
  "u64 \<Rightarrow> u64 \<Rightarrow> json \<Rightarrow> work_counts \<Rightarrow> u64 \<Rightarrow> u64 \<Rightarrow> success_envelope"
where
  "success_frame i gen result work units advertised =
     \<lparr>se_id = i, se_ok = True, se_generation = gen, se_result = result,
      se_counters = work_counts.extend work \<lparr>work_units = units, response_bytes = advertised\<rparr>\<rparr>"

lemma encode_success_Ok:
  assumes "gen \<le> MAX_SAFE_GENERATION" "work_check work = Ok units" "can_reserve fc 2097151"
    and len: "\<And>n. length (concat (success_chunks fc (success_frame i gen result work units n))) = k + length (show_u64 n)"
    and "k + 8 \<le> 2 * 1024 * 1024"
  shows "\<exists>n bytes. encode_success fc i gen result work = Ok bytes \<and>
    bytes = concat (success_chunks fc (success_frame i gen result work units n)) @ [CHR 0x0A] \<and>
    length bytes = unat n \<and> unat n \<le> 2 * 1024 * 1024"
proof -
  let ?enc = "\<lambda>a. and_then (counters_from_work work a) (\<lambda>counters. encode_frame fc (success_chunks fc
    \<lparr>se_id = i, se_ok = True, se_generation = gen, se_result = result, se_counters = counters\<rparr>))"
  let ?msg = "''response counter did not reach a fixed point''"
  have e: "?enc a = Ok (concat (success_chunks fc (success_frame i gen result work units a)) @ [CHR 0x0A])"
    if "unat a \<le> 2097152" for a
  proof -
    have "length (show_u64 a) \<le> 7" using length_show_nat_less [of "unat a" 7] that by (simp add: show_u64_def)
    moreover have "counters_from_work work a = Ok (work_counts.extend work \<lparr>work_units = units, response_bytes = a\<rparr>)"
      using assms(2) that by (simp add: counters_from_work_def word_less_nat_alt MAX_RESPONSE_FRAME_BYTES_def)
    ultimately show ?thesis
      using len [of a] assms(3,5)
      by (simp add: encode_frame_Ok success_frame_def [symmetric])
  qed
  have "\<exists>b bytes. encode_attempts 8 ?enc ?msg 0 = Ok bytes \<and> ?enc b = Ok bytes \<and> unat b = length bytes \<and> unat b \<le> 2097152"
  proof (rule encode_attempts_fixed_point [where k = "Suc k"])
    show "\<exists>bytes. ?enc a = Ok bytes \<and> length bytes = Suc k + length (show_u64 a)" if "unat a \<le> 2097152" for a
      by (rule exI, rule conjI, rule e [OF that]) (simp add: len)
  qed (use assms(5) in \<open>simp_all add: show_u64_def show_nat.simps\<close>)
  then obtain b bytes where "encode_attempts 8 ?enc ?msg 0 = Ok bytes" "?enc b = Ok bytes" "unat b = length bytes"
    "unat b \<le> 2097152" by blast
  with e [of b] assms(1) show ?thesis by (intro exI [of _ b] exI [of _ bytes]) (simp add: encode_success_def)
qed

text \<open>C24: a result within the frame cap is always sent, in at most eight encodings: the frame is one
  serialized envelope and a newline, and the length the envelope advertises is the length of the frame.\<close>

theorem response_states_its_length:
  assumes "gen \<le> MAX_SAFE_GENERATION" "work_check work = Ok units" "can_reserve fc 2097151"
    and len: "\<And>n. length (concat (success_chunks fc (success_frame i gen result work units n))) = k + length (show_u64 n)"
    and "k + 8 \<le> 2 * 1024 * 1024"
  shows "\<exists>n bytes. encode_success fc i gen result work = Ok bytes \<and>
    bytes = concat (success_chunks fc (success_frame i gen result work units n)) @ [CHR 0x0A] \<and>
    length bytes = unat n \<and> unat n \<le> 2 * 1024 * 1024"
  using assms by (rule encode_success_Ok)

definition sample_frame_codec :: frame_codec where
  "sample_frame_codec = \<lparr>success_chunks = (\<lambda>e. [''{bytes:'', show_u64 (response_bytes (se_counters e)), ''}'']),
     error_chunks = (\<lambda>_. []), value_chunks = (\<lambda>_. []), can_reserve = (\<lambda>_. True)\<rparr>"

lemma sample_work_check: "work_check work_default = Ok 0"
  by (simp add: work_check_def work_default_def checked_work_units_def checked_add_def)

lemma sample_frame_length:
  "length (concat (success_chunks sample_frame_codec (success_frame i gen v work_default 0 n))) = 8 + length (show_u64 n)"
  by (simp add: sample_frame_codec_def success_frame_def work_counts.defs)

theorem response_states_its_length_witness:
  "\<exists>n bytes. encode_success sample_frame_codec 1 7 JNull work_default = Ok bytes \<and>
    bytes = concat (success_chunks sample_frame_codec (success_frame 1 7 JNull work_default 0 n)) @ [CHR 0x0A] \<and>
    length bytes = unat n \<and> unat n \<le> 2 * 1024 * 1024"
  by (rule response_states_its_length [OF _ sample_work_check _ sample_frame_length])
    (simp_all add: sample_frame_codec_def MAX_SAFE_GENERATION_def)

end
