(* ===== verification/Retrieval_Ranking_Correct.thy ===== *)
theory Retrieval_Ranking_Correct
  imports Retrieval_Ranking Bounded_Limits_Correct
begin

text \<open>
  The counted merge sort is the stable sort, and charges an amount that depends on the length
  alone; bounded ranking keeps the best entries.
\<close>

section \<open>Charging\<close>

fun charge :: "nat \<Rightarrow> unit counted" where
  "charge 0 = st_ret ()"
| "charge (Suc n) = st_then account_graph_scan_unit (\<lambda>_. charge n)"

lemma charge_add: "st_then (charge m) (\<lambda>_. st_then (charge n) f) = st_then (charge (m + n)) f"
  by (induction m) simp_all

lemma charge_plus: "st_then (charge m) (\<lambda>_. charge n) = charge (m + n)"
  by (induction m) simp_all

section \<open>Merging\<close>

definition by_key :: "('a \<Rightarrow> 'a \<Rightarrow> ordering) \<Rightarrow> ('a \<Rightarrow> 'k::linorder) \<Rightarrow> bool" where
  "by_key c f \<longleftrightarrow> (\<forall>a b. c a b = cmp (f a) (f b))"

fun merge_by :: "('a \<Rightarrow> 'k::linorder) \<Rightarrow> 'a list \<Rightarrow> 'a list \<Rightarrow> 'a list" where
  "merge_by f (x # xs) (y # ys) = (if f x \<le> f y then x # merge_by f xs (y # ys) else y # merge_by f (x # xs) ys)"
| "merge_by f [] ys = ys"
| "merge_by f xs [] = xs"

lemma mset_merge_by [simp]: "mset (merge_by f xs ys) = mset xs + mset ys"
  by (induction f xs ys rule: merge_by.induct) auto

lemma set_merge_by [simp]: "set (merge_by f xs ys) = set xs \<union> set ys"
  by (metis mset_merge_by set_mset_mset set_mset_union)

lemma length_merge_by [simp]: "length (merge_by f xs ys) = length xs + length ys"
  by (induction f xs ys rule: merge_by.induct) auto

lemma sorted_merge_by: "sorted (map f xs) \<Longrightarrow> sorted (map f ys) \<Longrightarrow> sorted (map f (merge_by f xs ys))"
  by (induction f xs ys rule: merge_by.induct) auto

lemma merge_by_Nil: "merge_by f xs [] = xs"
  by (cases xs) simp_all

lemma filter_merge_by:
  "sorted (map f xs) \<Longrightarrow> filter (\<lambda>x. k = f x) (merge_by f xs ys) =
     filter (\<lambda>x. k = f x) xs @ filter (\<lambda>x. k = f x) ys"
proof (induction f xs ys rule: merge_by.induct)
  case (1 f x xs y ys)
  have "k = f y \<Longrightarrow> f y < f x \<Longrightarrow> filter (\<lambda>x. k = f x) (x # xs) = []"
    using 1(3) by (auto simp: filter_empty_conv)
  with 1 show ?case by auto
qed auto

lemma merge_by_sort:
  assumes "sorted (map f xs)" "sorted (map f ys)"
  shows "merge_by f xs ys = sort_key f (xs @ ys)"
  by (rule properties_for_sort_key [symmetric]) (simp_all add: assms sorted_merge_by filter_merge_by)

lemma filter_sort_key: "filter (\<lambda>x. k = f x) (sort_key f xs) = filter (\<lambda>x. k = f x) xs"
proof -
  have "(\<lambda>x. k = f x) = (\<lambda>x. f x = k)" by auto
  then show ?thesis by (simp only: sort_key_stable)
qed

lemma sort_key_append: "sort_key f (sort_key f xs @ sort_key f ys) = sort_key f (xs @ ys)"
  by (rule properties_for_sort_key) (simp_all add: filter_sort_key)

definition run_of :: "nat \<Rightarrow> nat \<Rightarrow> 'a list \<Rightarrow> 'a list" where
  "run_of i j xs = take (j - i) (drop i xs)"

lemma run_of_Cons: "i < j \<Longrightarrow> j \<le> length xs \<Longrightarrow> run_of i j xs = xs ! i # run_of (Suc i) j xs"
  by (simp add: run_of_def Cons_nth_drop_Suc [symmetric] Suc_diff_Suc [symmetric] del: Suc_diff_Suc)

lemma run_of_Nil: "j \<le> i \<Longrightarrow> run_of i j xs = []"
  by (simp add: run_of_def)

lemma merge_runs_eq:
  assumes "by_key c f" "middle \<le> length src" "en \<le> length src"
  shows "left \<le> middle \<Longrightarrow> right \<le> en \<Longrightarrow> n = (middle - left) + (en - right) \<Longrightarrow> out + n \<le> length dst \<Longrightarrow>
    merge_runs c src middle en n out left right dst =
      st_then (charge (2 * n)) (\<lambda>_. st_ret (take out dst @ merge_by f (run_of left middle src) (run_of right en src) @
        drop (out + n) dst))"
proof (induction n arbitrary: out left right dst)
  case 0
  then show ?case by (simp add: run_of_Nil)
next
  case (Suc n)
  note c = assms(1) [unfolded by_key_def, rule_format]
  define tl where "tl = (if left < middle \<and> right < en then f (src ! left) \<le> f (src ! right) else left < middle)"
  define v where "v = (if tl then src ! left else src ! right)"
  have tl: "tl \<Longrightarrow> left < middle" "\<not> tl \<Longrightarrow> right < en"
    using Suc.prems by (auto simp: tl_def split: if_splits)
  let ?l = "if tl then Suc left else left" let ?r = "if tl then right else Suc right"
  have m: "merge_by f (run_of left middle src) (run_of right en src) =
      v # merge_by f (run_of ?l middle src) (run_of ?r en src)"
  proof (cases "left < middle \<and> right < en")
    case True
    with assms(2,3) show ?thesis by (simp add: run_of_Cons [of left] run_of_Cons [of right] tl_def v_def)
  next
    case False
    with tl assms(2,3) show ?thesis
      by (cases tl) (auto simp: run_of_Cons [of left] run_of_Cons [of right] run_of_Nil v_def not_less merge_by_Nil)
  qed
  have "(if left < middle \<and> right < en then
        st_then (index src left) (\<lambda>a. st_then (index src right) (\<lambda>b. st_ret (c a b \<noteq> Greater)))
      else st_ret (left < middle)) = st_ret tl"
    using assms(2,3) by (auto simp: index_def c tl_def not_less)
  moreover have "(if tl then index src left else index src right) = st_ret v"
    using tl assms(2,3) by (auto simp: index_def v_def)
  moreover have "assign dst out v = st_ret (dst[out := v])" using Suc.prems(4) by (simp add: assign_def)
  ultimately have "merge_runs c src middle en (Suc n) out left right dst =
      st_then account_graph_scan_unit (\<lambda>_. st_then account_graph_scan_unit (\<lambda>_.
      merge_runs c src middle en n (Suc out) ?l ?r (dst[out := v])))"
    by (simp only: merge_runs.simps st_then_simps)
  also have "merge_runs c src middle en n (Suc out) ?l ?r (dst[out := v]) =
      st_then (charge (2 * n)) (\<lambda>_. st_ret (take (Suc out) (dst[out := v]) @
        merge_by f (run_of ?l middle src) (run_of ?r en src) @ drop (Suc out + n) (dst[out := v])))"
    using Suc.prems tl by (intro Suc.IH) auto
  finally show ?case using Suc.prems(4) by (simp add: m take_Suc_conv_app_nth)
qed

section \<open>Passes\<close>

declare merge_passes.simps [simp del] merge_pass.simps [simp del]

function pass_of :: "('a \<Rightarrow> 'k::linorder) \<Rightarrow> nat \<Rightarrow> 'a list \<Rightarrow> 'a list" where
  "pass_of f w ys =
     (if ys = [] \<or> w = 0 then []
      else merge_by f (take w ys) (take w (drop w ys)) @ pass_of f w (drop (2 * w) ys))"
  by pat_completeness auto
termination
  by (relation "measure (\<lambda>(_, _, ys). length ys)") auto

declare pass_of.simps [simp del]

function sorted_runs :: "('a \<Rightarrow> 'k::linorder) \<Rightarrow> nat \<Rightarrow> 'a list \<Rightarrow> 'a list" where
  "sorted_runs f w xs =
     (if xs = [] \<or> w = 0 then [] else sort_key f (take w xs) @ sorted_runs f w (drop w xs))"
  by pat_completeness auto
termination
  by (relation "measure (\<lambda>(_, _, xs). length xs)") auto

declare sorted_runs.simps [simp del]

lemma take_sorted_runs: "0 < w \<Longrightarrow> take w (sorted_runs f w xs) = sort_key f (take w xs)"
  by (cases "length xs < w") (simp_all add: sorted_runs.simps [of f w xs] sorted_runs.simps [of f w "[]"])

lemma drop_sorted_runs: "0 < w \<Longrightarrow> drop w (sorted_runs f w xs) = sorted_runs f w (drop w xs)"
  by (cases "length xs < w") (auto simp: sorted_runs.simps [of f w xs] sorted_runs.simps [of f w "[]"])

lemma length_sorted_runs: "0 < w \<Longrightarrow> length (sorted_runs f w xs) = length xs"
  by (induction f w xs rule: sorted_runs.induct) (subst sorted_runs.simps, auto)

lemma pass_of_sorted_runs: "0 < w \<Longrightarrow> pass_of f w (sorted_runs f w xs) = sorted_runs f (2 * w) xs"
proof (induction xs rule: length_induct)
  case (1 xs)
  show ?case
  proof (cases "xs = []")
    case True
    then show ?thesis by (simp add: sorted_runs.simps pass_of.simps)
  next
    case False
    then have "sorted_runs f w xs \<noteq> []" using length_sorted_runs [OF "1.prems", of f xs] by auto
    then have "pass_of f w (sorted_runs f w xs) =
        merge_by f (sort_key f (take w xs)) (sort_key f (take w (drop w xs))) @ pass_of f w (sorted_runs f w (drop (2 * w) xs))"
      using "1.prems" drop_sorted_runs [OF "1.prems", of f "drop w xs"]
      by (simp add: pass_of.simps [of f w "sorted_runs f w xs"] take_sorted_runs drop_sorted_runs mult_2
          flip: drop_drop)
    also have "pass_of f w (sorted_runs f w (drop (2 * w) xs)) = sorted_runs f (2 * w) (drop (2 * w) xs)"
      using 1 False by simp
    also have "merge_by f (sort_key f (take w xs)) (sort_key f (take w (drop w xs))) = sort_key f (take (2 * w) xs)"
      by (simp add: merge_by_sort sort_key_append mult_2 take_add)
    finally show ?thesis using False "1.prems" by (simp add: sorted_runs.simps [of f "2 * w" xs])
  qed
qed

lemma sorted_runs_one: "sorted_runs f 1 xs = xs"
  by (induction xs) (simp_all add: sorted_runs.simps)

lemma sorted_runs_all: "0 < w \<Longrightarrow> length xs \<le> w \<Longrightarrow> sorted_runs f w xs = sort_key f xs"
  by (simp add: sorted_runs.simps)

lemma merge_pass_eq:
  assumes "by_key c f" "0 < w"
  shows "start \<le> length src \<Longrightarrow> length dst = length src \<Longrightarrow>
    merge_pass c w src start dst =
      st_then (charge (2 * (length src - start))) (\<lambda>_. st_ret (take start dst @ pass_of f w (drop start src)))"
proof (induction "length src - start" arbitrary: start dst rule: less_induct)
  case less
  show ?case
  proof (cases "start < length src")
    case False
    with less.prems show ?thesis by (simp add: pass_of.simps merge_pass.simps [of c w src])
  next
    case True
    define middle where "middle = min (start + w) (length src)"
    define en where "en = min (middle + w) (length src)"
    define M where "M = merge_by f (run_of start middle src) (run_of middle en src)"
    have b: "start < middle" "middle \<le> en" "en \<le> length src" using True assms(2) by (auto simp: middle_def en_def)
    have len: "length M = en - start" using b by (simp add: M_def run_of_def)
    have M: "M = merge_by f (take w (drop start src)) (take w (drop w (drop start src)))"
      by (auto simp: M_def run_of_def middle_def en_def min_def add.commute)
    have r: "drop en src = drop (2 * w) (drop start src)" unfolding mult_2 by (auto simp: en_def middle_def min_def ac_simps)
    have step: "merge_pass c w src start dst =
        st_then (merge_runs c src middle en (en - start) start start middle dst) (merge_pass c w src en)"
      using True assms(2) by (simp add: merge_pass.simps [of c w src start] middle_def en_def Let_def)
    have runs: "merge_runs c src middle en (en - start) start start middle dst =
        st_then (charge (2 * (en - start))) (\<lambda>_. st_ret (take start dst @ M @ drop en dst))"
      using merge_runs_eq [OF assms(1), of middle src en start middle "en - start" start dst] b less.prems
      by (simp add: M_def)
    have "merge_pass c w src en (take start dst @ M @ drop en dst) =
        st_then (charge (2 * (length src - en)))
          (\<lambda>_. st_ret (take en (take start dst @ M @ drop en dst) @ pass_of f w (drop en src)))"
      using b len less.prems by (intro less.hyps) auto
    moreover have "take en (take start dst @ M @ drop en dst) = take start dst @ M"
      using b len less.prems by simp
    ultimately have rest: "merge_pass c w src en (take start dst @ M @ drop en dst) =
        st_then (charge (2 * (length src - en))) (\<lambda>_. st_ret (take start dst @ M @ pass_of f w (drop en src)))"
      by (simp only: append_assoc)
    have "M @ pass_of f w (drop en src) = pass_of f w (drop start src)"
      using True assms(2) unfolding M r by (subst (2) pass_of.simps) simp
    moreover have "2 * (en - start) + 2 * (length src - en) = 2 * (length src - start)" using b by simp
    ultimately show ?thesis by (simp only: step runs st_then_assoc st_then_simps rest charge_add)
  qed
qed

section \<open>The counted sort\<close>

function passes :: "nat \<Rightarrow> nat \<Rightarrow> nat" where
  "passes n w = (if w < n \<and> 0 < w then Suc (passes n (w * 2)) else 0)"
  by pat_completeness auto
termination
  by (relation "measure (\<lambda>(n, w). n - w)") auto

declare passes.simps [simp del]

definition sort_units :: "nat \<Rightarrow> nat" where
  "sort_units n = n + 2 * n * passes n 1 + (if even (passes n 1) then 0 else n)"

lemma merge_passes_eq:
  assumes "by_key c f" "length xs < 2 ^ 63"
  shows "0 < w \<Longrightarrow> length vals = length xs \<Longrightarrow> length scratch = length xs \<Longrightarrow>
    (if siv then vals else scratch) = sorted_runs f w xs \<Longrightarrow>
    \<exists>v s. merge_passes c (length xs) w siv vals scratch =
        st_then (charge (2 * length xs * passes (length xs) w))
          (\<lambda>_. st_ret (siv = even (passes (length xs) w), v, s)) \<and>
      length v = length xs \<and> length s = length xs \<and>
      (if siv = even (passes (length xs) w) then v else s) = sort_key f xs"
proof (induction "length xs - w" arbitrary: w siv vals scratch rule: less_induct)
  case less
  show ?case
  proof (cases "w < length xs")
    case False
    with less.prems sorted_runs_all [of w xs f] show ?thesis
      by (auto simp: merge_passes.simps [of c "length xs" w] passes.simps [of "length xs" w] split: if_splits)
  next
    case True
    define src where "src = (if siv then vals else scratch)"
    define dst where "dst = sorted_runs f (w * 2) xs"
    let ?v = "if siv then vals else dst" let ?s = "if siv then dst else scratch"
    have dst: "length dst = length xs" using less.prems(1) by (simp add: dst_def length_sorted_runs)
    have "merge_pass c w src 0 d = st_then (charge (2 * length xs)) (\<lambda>_. st_ret dst)" if "length d = length xs" for d
      using merge_pass_eq [OF assms(1) less.prems(1), of 0 src d] that less.prems
      by (simp add: src_def dst_def pass_of_sorted_runs length_sorted_runs mult.commute)
    then have "merge_passes c (length xs) w siv vals scratch =
        st_then (charge (2 * length xs)) (\<lambda>_. merge_passes c (length xs) (w * 2) (\<not> siv) ?v ?s)"
      using True less.prems assms(2)
      by (cases siv) (simp_all add: merge_passes.simps [of c "length xs" w] src_def)
    moreover have "\<exists>v s. merge_passes c (length xs) (w * 2) (\<not> siv) ?v ?s =
        st_then (charge (2 * length xs * passes (length xs) (w * 2)))
          (\<lambda>_. st_ret ((\<not> siv) = even (passes (length xs) (w * 2)), v, s)) \<and>
      length v = length xs \<and> length s = length xs \<and>
      (if (\<not> siv) = even (passes (length xs) (w * 2)) then v else s) = sort_key f xs"
      by (rule less.hyps) (use True less.prems dst in \<open>auto simp: dst_def\<close>)
    moreover have "passes (length xs) w = Suc (passes (length xs) (w * 2))"
      using True less.prems(1) by (simp add: passes.simps [of "length xs" w])
    ultimately show ?thesis by (elim exE) (intro exI, auto simp: charge_add)
  qed
qed

lemma push_built_eq:
  "i + n \<le> length xs \<Longrightarrow>
     push_built (index xs) i n ys = st_then (charge n) (\<lambda>_. st_ret (ys @ take n (drop i xs)))"
proof (induction n arbitrary: i ys)
  case (Suc n)
  then show ?case by (simp add: index_def Cons_nth_drop_Suc [symmetric])
qed simp

lemma copy_back_eq: "length v = length s \<Longrightarrow> copy_back v s = st_then (charge (length s)) (\<lambda>_. st_ret s)"
  by (induction v s rule: list_induct2) simp_all

lemma counted_sort_eq:
  assumes "\<And>a b. c a b = cmp (f a) (f b)" "length xs < 2 ^ 63"
  shows "canonical_counted_sort can_alloc c xs =
    (if length xs < 2 then st_ret xs
     else st_then (timed execution_before_allocation) (\<lambda>_. \<lambda>s.
       if \<not> can_alloc (length xs) then st_fail (resource_failure (fst s)) s
       else st_then (timed execution_before_allocation) (\<lambda>_.
         st_then (charge (sort_units (length xs))) (\<lambda>_. st_ret (sort_key f xs))) s))"
proof -
  have k: "by_key c f" using assms(1) by (simp add: by_key_def)
  obtain v s where p: "merge_passes c (length xs) 1 True xs xs =
      st_then (charge (2 * length xs * passes (length xs) 1)) (\<lambda>_. st_ret (even (passes (length xs) 1), v, s))"
    "length v = length xs" "length s = length xs" "(if even (passes (length xs) 1) then v else s) = sort_key f xs"
    using merge_passes_eq [OF k assms(2), of 1 xs xs True] by (auto simp: sorted_runs_one [unfolded One_nat_def])
  have m: "st_then (push_built (index xs) 0 (length xs) []) (\<lambda>scratch.
        st_then (merge_passes c (length xs) 1 True xs scratch) (\<lambda>(source_is_values, values', scratch').
        if source_is_values then st_ret values' else copy_back values' scratch')) =
      st_then (charge (sort_units (length xs))) (\<lambda>_. st_ret (sort_key f xs))"
    using p by (auto simp: push_built_eq copy_back_eq charge_add sort_units_def add.assoc)
  show ?thesis
    by (auto simp: canonical_counted_sort_def build_counted_graph_vec_def m [symmetric] st_then_def fun_eq_iff
        st_fail_def split: prod.splits outcome.splits)
qed

text \<open>C10: the counted merge sort is the stable sort, and the work it charges, one unit for each of its
  moves and merge slots, depends on the length of the vector alone, whatever the order of the input;
  it never panics, and fails only while allocating or while charging.\<close>

theorem counted_sort_is_stable_sort:
  assumes "\<And>a b. c a b = cmp (f a) (f b)" "length xs < 2 ^ 63"
  shows "canonical_counted_sort can_alloc c xs =
    (if length xs < 2 then st_ret xs
     else st_then (timed execution_before_allocation) (\<lambda>_. \<lambda>s.
       if \<not> can_alloc (length xs) then st_fail (resource_failure (fst s)) s
       else st_then (timed execution_before_allocation) (\<lambda>_.
         st_then (charge (sort_units (length xs))) (\<lambda>_. st_ret (sort_key f xs))) s))"
  using assms by (rule counted_sort_eq)

theorem counted_sort_is_stable_sort_witness:
  "canonical_counted_sort (\<lambda>_. True) utf16_cmp [''b'', ''a'', ''b''] =
    st_then (timed execution_before_allocation) (\<lambda>_.
      st_then (timed execution_before_allocation) (\<lambda>_.
        st_then (charge 15) (\<lambda>_. st_ret [''a'', ''b'', ''b''])))"
proof -
  have "sort_units (Suc (Suc (Suc 0))) = 15" by (simp add: sort_units_def passes.simps)
  moreover have "sort_key encode_utf16 [''b'', ''a'', ''b''] = [''a'', ''b'', ''b'']"
    by (simp add: encode_utf16_def str_chars.simps utf16_units_def scalar_of_def lead_bits_def utf8_width_def in_range_def less_char_def)
  ultimately show ?thesis
    using counted_sort_is_stable_sort [of utf16_cmp encode_utf16 "[''b'', ''a'', ''b'']" "\<lambda>_. True"]
    by (simp add: utf16_cmp_def)
qed

lemma passes_le: "0 < w \<Longrightarrow> n \<le> w * 2 ^ k \<Longrightarrow> passes n w \<le> k"
proof (induction k arbitrary: w)
  case 0
  then show ?case by (simp add: passes.simps)
next
  case (Suc k)
  then have "passes n (w * 2) \<le> k" by (intro Suc.IH) (simp_all add: mult.assoc)
  then show ?case by (subst passes.simps) simp
qed

text \<open>The budget of graph scans reserves enough for its sorts: sorting the nodes of a graph charges at
  most 44 units per node and sorting its edges at most 45 per edge, within the 57 and 50 passes
  that the budget counts.\<close>

theorem sort_fits_scan_budget:
  assumes "nodes \<le> unat MAX_GRAPH_NODES" "edges \<le> unat MAX_GRAPH_EDGES"
  shows "sort_units nodes \<le> 44 * nodes \<and> sort_units edges \<le> 45 * edges \<and>
    sort_units nodes + sort_units edges < unat MAX_GRAPH_SCAN_UNITS"
proof -
  have *: "sort_units n \<le> 44 * n" if "passes n 1 \<le> 21" for n
  proof (cases "passes n 1 = 21")
    case False
    with that have "passes n 1 \<le> 20" by simp
    then show ?thesis by (auto simp: sort_units_def)
  qed (simp add: sort_units_def)
  have **: "sort_units n \<le> 45 * n" if "passes n 1 \<le> 22" for n
    using * [of n] that by (cases "passes n 1 = 22") (auto simp: sort_units_def)
  have "passes nodes 1 \<le> 21" using assms(1) by (intro passes_le) (simp_all add: MAX_GRAPH_NODES_def)
  moreover have "passes edges 1 \<le> 22" using assms(2) by (intro passes_le) (simp_all add: MAX_GRAPH_EDGES_def)
  ultimately have "sort_units nodes \<le> 44 * nodes" "sort_units edges \<le> 45 * edges" using * ** by blast+
  with assms show ?thesis by (simp add: caps)
qed

theorem sort_fits_scan_budget_witness: "sort_units 1500000 \<le> 44 * 1500000 \<and> sort_units 4000000 \<le> 45 * 4000000"
  using sort_fits_scan_budget [of 1500000 4000000] by (simp add: MAX_GRAPH_NODES_def MAX_GRAPH_EDGES_def)

section \<open>Bounded ranking\<close>

text \<open>The loops of the callers.\<close>

fun retain_all :: "('h, 'a ranked_item) heap_ops \<Rightarrow> nat \<Rightarrow> 'a ranked_item list \<Rightarrow> 'h \<Rightarrow> ('h, unit) outcome" where
  "retain_all H limit [] h = Ok h"
| "retain_all H limit (x # xs) h = and_then (retain_bounded_ranked H limit x h) (retain_all H limit xs)"

definition rank_key :: "'a ranked_item \<Rightarrow> int \<times> nat list" where
  "rank_key x = (- total_key (ri_score x), encode_utf16 (ri_id x))"

lemma item_cmp_key: "by_key item_cmp rank_key"
  by (auto simp: by_key_def item_cmp_def ranked_cmp_def rank_key_def total_cmp_def utf16_cmp_def then_with_def cmp_def
      less_prod_def split: ordering.splits if_splits)

lemma insert_by_key: "by_key c f \<Longrightarrow> insert_by c x ys = insort_key f x ys"
  by (induction ys) (auto simp: by_key_def not_less)

lemma sort_by_key: "by_key c f \<Longrightarrow> sort_by c xs = sort_key f xs"
proof -
  assume "by_key c f"
  then have "insert_by c = insort_key f" by (intro ext insert_by_key)
  then show ?thesis by (simp add: sort_by_def sort_key_def)
qed

lemma take_insort: "take n (insort x (take n xs)) = take n (insort x xs)"
proof (induction n arbitrary: xs)
  case (Suc n)
  then show ?case by (cases xs) (auto simp: take_Suc_conv_app_nth take_Cons')
qed simp

lemma take_foldl_insort:
  "take n (foldl (\<lambda>ks x. insort (f x) ks) (take n ks) xs) = take n (foldl (\<lambda>ks x. insort (f x) ks) ks xs)"
proof (induction xs arbitrary: ks)
  case (Cons x xs)
  have "take n (foldl (\<lambda>ks x. insort (f x) ks) (insort (f x) (take n ks)) xs) =
      take n (foldl (\<lambda>ks x. insort (f x) ks) (take n (insort (f x) (take n ks))) xs)"
    by (rule Cons.IH [symmetric])
  also have "\<dots> = take n (foldl (\<lambda>ks x. insort (f x) ks) (insort (f x) ks) xs)"
    by (simp only: take_insort Cons.IH)
  finally show ?case by simp
qed simp

lemma foldl_insort: "sorted ks \<Longrightarrow> foldl (\<lambda>ks x. insort (f x) ks) ks xs = sort (ks @ map f xs)"
  by (rule properties_for_sort [symmetric]) (induction xs arbitrary: ks; simp add: sorted_insort)+

lemma sorted_last: "sorted (ks :: 'k::linorder list) \<Longrightarrow> x \<in> set ks \<Longrightarrow> x \<le> last ks"
  by (cases ks rule: rev_cases) (auto simp: sorted_append)

lemma take_insort_last:
  "sorted ks \<Longrightarrow> ks \<noteq> [] \<Longrightarrow> last ks \<le> k \<Longrightarrow> length ks = n \<Longrightarrow> take n (insort k ks) = ks"
proof -
  assume ks: "sorted ks" "ks \<noteq> []" "last ks \<le> k" "length ks = n"
  have "x \<le> k" if "x \<in> set ks" for x using sorted_last [OF ks(1) that] ks(3) by simp
  then have "sort (k # ks) = ks @ [k]" using ks(1) by (intro properties_for_sort) (auto simp: sorted_append)
  with ks(1,4) show ?thesis by (simp add: sorted_sort_id)
qed

lemma map_sort_key: "map f (sort_key f xs) = sort (map f xs)"
  by (rule properties_for_sort [symmetric]) simp_all

lemma sort_map_insort: "mset (map f ys) = add_mset (f x) (mset (map f xs)) \<Longrightarrow> sort (map f ys) = insort (f x) (sort (map f xs))"
  by (rule properties_for_sort) (simp_all add: sorted_insort)

lemma sort_remove_last:
  assumes "sorted xs" "mset zs = mset xs - {#last xs#}" "xs \<noteq> []"
  shows "sort zs = butlast xs"
proof (rule properties_for_sort)
  show "mset (butlast xs) = mset zs"
    using assms(2,3) by (cases xs rule: rev_cases) auto
qed (use assms(1,3) in \<open>simp add: sorted_butlast\<close>)

definition heap_keys :: "('h, 'a ranked_item) heap_ops \<Rightarrow> 'h \<Rightarrow> (int \<times> nat list) list" where
  "heap_keys H h = sort (map rank_key (into_vec H h))"

lemma length_heap_keys [simp]: "length (heap_keys H h) = length (into_vec H h)"
  by (simp add: heap_keys_def)

lemma sorted_heap_keys [simp]: "sorted (heap_keys H h)"
  by (simp add: heap_keys_def)

lemma heap_keys_Nil [simp]: "heap_keys H h = [] \<longleftrightarrow> into_vec H h = []"
  using length_heap_keys [of H h] by (metis length_0_conv)

text \<open>What \<^verbatim>\<open>BinaryHeap\<close> promises for items ordered by \<^verbatim>\<open>cmp\<close>.\<close>

locale rank_heap =
  fixes H :: "('h, 'a ranked_item) heap_ops"
  assumes new: "into_vec H (heap_new H) = []"
    and len: "heap_len H h = length (into_vec H h)"
    and push: "mset (into_vec H (heap_push H x h)) = add_mset x (mset (into_vec H h))"
    and peek: "into_vec H h \<noteq> [] \<Longrightarrow> \<exists>x. heap_peek H h = Some x \<and> x \<in> set (into_vec H h) \<and>
          (\<forall>y \<in> set (into_vec H h). item_cmp y x \<noteq> Greater)"
    and pop: "heap_peek H h = Some x \<Longrightarrow> into_vec H h \<noteq> [] \<Longrightarrow>
          mset (into_vec H (heap_pop H h)) = mset (into_vec H h) - {#x#}"
begin

lemma heap_keys_push: "heap_keys H (heap_push H x h) = insort (rank_key x) (heap_keys H h)"
  unfolding heap_keys_def by (rule sort_map_insort) (simp add: push)

lemma peek_last:
  assumes "into_vec H h \<noteq> []"
  shows "\<exists>x. heap_peek H h = Some x \<and> x \<in> set (into_vec H h) \<and> rank_key x = last (heap_keys H h)"
proof -
  from peek [OF assms] obtain x where x: "heap_peek H h = Some x" "x \<in> set (into_vec H h)"
    and le: "\<forall>y \<in> set (into_vec H h). item_cmp y x \<noteq> Greater" by blast
  have x3: "rank_key y \<le> rank_key x" if "y \<in> set (into_vec H h)" for y
    using bspec [OF le that] item_cmp_key [unfolded by_key_def, rule_format, of y x] by (simp add: not_less)
  have "last (heap_keys H h) \<in> set (heap_keys H h)" using assms by (intro last_in_set) simp
  then have "last (heap_keys H h) \<le> rank_key x" using x3 by (auto simp: heap_keys_def)
  moreover have "rank_key x \<le> last (heap_keys H h)"
    using x(2) by (intro sorted_last) (simp_all add: heap_keys_def)
  ultimately show ?thesis using x by auto
qed

lemma heap_keys_pop:
  assumes "into_vec H h \<noteq> []"
  shows "heap_keys H (heap_pop H h) = butlast (heap_keys H h)"
proof -
  from peek_last [OF assms] obtain x where x: "heap_peek H h = Some x" "x \<in> set (into_vec H h)"
    "rank_key x = last (heap_keys H h)" by blast
  show ?thesis
    unfolding heap_keys_def [of H "heap_pop H h"]
  proof (rule sort_remove_last)
    show "mset (map rank_key (into_vec H (heap_pop H h))) = mset (heap_keys H h) - {#last (heap_keys H h)#}"
      using pop [OF x(1) assms] x(2) x(3) by (simp add: image_mset_Diff heap_keys_def)
  qed (use assms in simp_all)
qed

lemma insert_keys:
  fixes x :: "'a ranked_item" and h :: 'h and limit :: nat
  assumes "length (into_vec H h) \<le> limit" "0 < limit"
  defines "h' \<equiv> heap_push H x h"
  defines "h'' \<equiv> if heap_len H h' > limit then heap_pop H h' else h'"
  shows "heap_keys H h'' = take limit (insort (rank_key x) (heap_keys H h)) \<and>
    mset (into_vec H h'') \<subseteq># add_mset x (mset (into_vec H h))"
proof -
  have v: "mset (into_vec H h') = add_mset x (mset (into_vec H h))" by (simp add: h'_def push)
  then have l: "length (into_vec H h') = Suc (length (into_vec H h))" by (metis size_add_mset size_mset)
  have k: "heap_keys H h' = insort (rank_key x) (heap_keys H h)" by (simp add: h'_def heap_keys_push)
  show ?thesis
  proof (cases "heap_len H h' > limit")
    case True
    then have n: "length (into_vec H h) = limit" "into_vec H h' \<noteq> []" using l assms(1) len by auto
    from peek_last [OF n(2)] obtain y where y: "heap_peek H h' = Some y" by blast
    have "heap_keys H h'' = butlast (insort (rank_key x) (heap_keys H h))"
      using True heap_keys_pop [OF n(2)] by (simp add: h''_def k)
    also have "\<dots> = take limit (insort (rank_key x) (heap_keys H h))" using n(1) by (simp add: butlast_conv_take)
    finally show ?thesis using True pop [OF y n(2)] v by (simp add: h''_def diff_subset_eq_self)
  next
    case False
    then have "length (insort (rank_key x) (heap_keys H h)) \<le> limit" using l len by simp
    with False k v show ?thesis by (simp add: h''_def)
  qed
qed

lemma retain_keys:
  assumes "length (into_vec H h) \<le> limit"
  shows "\<exists>h'. retain_bounded_ranked H limit x h = Ok h' \<and>
    heap_keys H h' = take limit (insort (rank_key x) (heap_keys H h)) \<and>
    mset (into_vec H h') \<subseteq># add_mset x (mset (into_vec H h))"
proof (cases "limit = 0")
  case True
  with assms show ?thesis by (simp add: retain_bounded_ranked_def)
next
  case False
  note ins = insert_keys [OF assms, of x] False
  show ?thesis
  proof (cases "heap_len H h = limit")
    case len_limit: True
    then have n: "into_vec H h \<noteq> []" "length (into_vec H h) = limit" using False len [of h] by auto
    from peek_last [OF n(1)] obtain worst where w: "heap_peek H h = Some worst" "rank_key worst = last (heap_keys H h)"
      by blast
    show ?thesis
    proof (cases "item_cmp x worst = Less")
      case True
      with ins w len_limit show ?thesis by (auto simp: retain_bounded_ranked_def Let_def)
    next
      case worse: False
      then have "last (heap_keys H h) \<le> rank_key x"
        using item_cmp_key [unfolded by_key_def, rule_format, of x worst] w(2) by (simp add: not_less)
      then have "take limit (insort (rank_key x) (heap_keys H h)) = heap_keys H h"
        using n by (intro take_insort_last) auto
      with worse w len_limit False show ?thesis by (auto simp: retain_bounded_ranked_def Let_def)
    qed
  next
    case len_less: False
    with ins show ?thesis by (auto simp: retain_bounded_ranked_def Let_def)
  qed
qed

lemma retain_all_keys:
  "length (into_vec H h) \<le> limit \<Longrightarrow>
   \<exists>h'. retain_all H limit items h = Ok h' \<and>
     heap_keys H h' = take limit (foldl (\<lambda>ks x. insort (rank_key x) ks) (heap_keys H h) items) \<and>
     mset (into_vec H h') \<subseteq># mset (into_vec H h) + mset items"
proof (induction items arbitrary: h)
  case Nil
  then show ?case by simp
next
  case (Cons x items)
  from retain_keys [OF Cons.prems, of x] obtain h1 where h1: "retain_bounded_ranked H limit x h = Ok h1"
    "heap_keys H h1 = take limit (insort (rank_key x) (heap_keys H h))"
    "mset (into_vec H h1) \<subseteq># add_mset x (mset (into_vec H h))" by blast
  then have "length (into_vec H h1) \<le> limit" by (metis length_heap_keys length_take min.cobounded2)
  from Cons.IH [OF this] obtain h' where h': "retain_all H limit items h1 = Ok h'"
    "heap_keys H h' = take limit (foldl (\<lambda>ks x. insort (rank_key x) ks) (heap_keys H h1) items)"
    "mset (into_vec H h') \<subseteq># mset (into_vec H h1) + mset items" by blast
  have "mset (into_vec H h') \<subseteq># mset (into_vec H h) + mset (x # items)"
    using h'(3) h1(3) by (auto intro: subset_mset.order_trans subset_mset.add_mono)
  with h1 h' show ?case by (simp add: take_foldl_insort)
qed

lemma finish_ranking:
  "\<exists>h. retain_all H limit items (heap_new H) = Ok h \<and>
     map rank_key (finish_bounded_ranking H h) = take limit (sort (map rank_key items)) \<and>
     mset (finish_bounded_ranking H h) \<subseteq># mset items"
proof -
  from retain_all_keys [of "heap_new H" limit items] new obtain h where h: "retain_all H limit items (heap_new H) = Ok h"
    "heap_keys H h = take limit (foldl (\<lambda>ks x. insort (rank_key x) ks) (heap_keys H (heap_new H)) items)"
    "mset (into_vec H h) \<subseteq># mset items" by auto
  have "map rank_key (finish_bounded_ranking H h) = heap_keys H h"
    by (simp add: finish_bounded_ranking_def sort_by_key [OF item_cmp_key] heap_keys_def map_sort_key)
  moreover have "heap_keys H h = take limit (sort (map rank_key items))"
    unfolding h(2) by (simp add: foldl_insort heap_keys_def [of H "heap_new H"] new)
  ultimately show ?thesis
    using h by (auto simp: finish_bounded_ranking_def sort_by_key [OF item_cmp_key])
qed

end

text \<open>A heap as a list, the greatest item found by a scan.\<close>

fun greatest :: "'a ranked_item \<Rightarrow> 'a ranked_item list \<Rightarrow> 'a ranked_item" where
  "greatest x [] = x"
| "greatest x (y # ys) = greatest (if item_cmp x y = Less then y else x) ys"

definition list_heap :: "('a ranked_item list, 'a ranked_item) heap_ops" where
  "list_heap = \<lparr>heap_new = [], heap_push = (#), heap_pop = (\<lambda>h. case h of [] \<Rightarrow> [] | x # xs \<Rightarrow> remove1 (greatest x xs) h),
     heap_peek = (\<lambda>h. case h of [] \<Rightarrow> None | x # xs \<Rightarrow> Some (greatest x xs)), heap_len = length, into_vec = (\<lambda>h. h)\<rparr>"

lemma greatest_max:
  "greatest x ys \<in> set (x # ys) \<and> (\<forall>y \<in> set (x # ys). rank_key y \<le> rank_key (greatest x ys))"
proof (induction ys arbitrary: x)
  case (Cons y ys)
  have "item_cmp x y = Less \<longleftrightarrow> rank_key x < rank_key y"
    using item_cmp_key [unfolded by_key_def, rule_format, of x y] by simp
  with Cons.IH [of "if item_cmp x y = Less then y else x"] show ?case
    by (auto split: if_splits dest: less_imp_le intro: order_trans)
qed simp

interpretation list_heap: rank_heap list_heap
proof
  fix h :: "'a ranked_item list" and x :: "'a ranked_item"
  assume "into_vec list_heap h \<noteq> []"
  then obtain y ys where h: "h = y # ys" by (cases h) (auto simp: list_heap_def)
  have "item_cmp z (greatest y ys) \<noteq> Greater" if "z \<in> set (y # ys)" for z
    using greatest_max [of y ys] that item_cmp_key [unfolded by_key_def, rule_format, of z "greatest y ys"]
    by (auto simp: not_less)
  then show "\<exists>x. heap_peek list_heap h = Some x \<and> x \<in> set (into_vec list_heap h) \<and>
      (\<forall>y \<in> set (into_vec list_heap h). item_cmp y x \<noteq> Greater)"
    using greatest_max [of y ys] by (auto simp: h list_heap_def)
qed (auto simp: list_heap_def split: list.splits)

text \<open>C14: bounded ranking returns the best \<open>limit\<close> of all entries, best first: the ranks of its result are
  the first \<open>limit\<close> of the sorted ranks of the entries; if no two entries have the same rank, the
  result is exactly the beginning of the sorted entries. It never panics. This holds for every
  heap with the laws of \<^verbatim>\<open>BinaryHeap\<close>.\<close>

theorem bounded_ranking_is_top_k:
  assumes "rank_heap H"
  shows "\<exists>h. retain_all H limit items (heap_new H) = Ok h \<and>
    map rank_key (finish_bounded_ranking H h) = take limit (sort (map rank_key items)) \<and>
    mset (finish_bounded_ranking H h) \<subseteq># mset items \<and>
    (distinct (map rank_key items) \<longrightarrow> finish_bounded_ranking H h = take limit (sort_key rank_key items))"
proof -
  from rank_heap.finish_ranking [OF assms, of limit items] obtain h where
    h: "retain_all H limit items (heap_new H) = Ok h"
    "map rank_key (finish_bounded_ranking H h) = take limit (sort (map rank_key items))"
    "mset (finish_bounded_ranking H h) \<subseteq># mset items" by blast
  have "finish_bounded_ranking H h = take limit (sort_key rank_key items)" if "distinct (map rank_key items)"
  proof (rule map_inj_on)
    show "map rank_key (finish_bounded_ranking H h) = map rank_key (take limit (sort_key rank_key items))"
      by (simp add: h(2) take_map [symmetric] map_sort_key)
    have "set (finish_bounded_ranking H h) \<union> set (take limit (sort_key rank_key items)) \<subseteq> set items"
      using set_mset_mono [OF h(3)] set_take_subset [of limit "sort_key rank_key items"] by auto
    then show "inj_on rank_key (set (finish_bounded_ranking H h) \<union> set (take limit (sort_key rank_key items)))"
      using that by (auto simp: distinct_map intro: inj_on_subset)
  qed
  with h show ?thesis by blast
qed

definition sample_items :: "unit ranked_item list" where
  "sample_items = [\<lparr>ri_id = ''b'', ri_score = f64_zero False, ri_payload = ()\<rparr>,
     \<lparr>ri_id = ''c'', ri_score = F64_Fin False 1 0, ri_payload = ()\<rparr>, \<lparr>ri_id = ''a'', ri_score = f64_zero False, ri_payload = ()\<rparr>]"

theorem bounded_ranking_is_top_k_witness:
  "\<exists>h. retain_all list_heap 2 sample_items (heap_new list_heap) = Ok h \<and>
    map rank_key (finish_bounded_ranking list_heap h) = take 2 (sort (map rank_key sample_items)) \<and>
    mset (finish_bounded_ranking list_heap h) \<subseteq># mset sample_items"
  using bounded_ranking_is_top_k [OF list_heap.rank_heap_axioms, of 2 sample_items] by blast

text \<open>The canonical order of identifiers is total: two identifiers, any well-formed UTF-8, compare as
  equal only if they are equal, and one of two different identifiers is the smaller.\<close>

theorem canonical_order_total:
  assumes "utf8_error 0 l = None" "utf8_error 0 r = None"
  shows "(utf16_cmp l r = Equal \<longleftrightarrow> l = r) \<and> (utf16_cmp l r = Less \<longleftrightarrow> utf16_cmp r l = Greater)"
  using encode_utf16_inject [OF assms] by (auto simp: utf16_cmp_def)

theorem canonical_order_total_witness: "utf16_cmp ''a'' ''b'' \<noteq> Equal"
  using canonical_order_total [of "''a''" "''b''"] by (simp add: utf8_error_ascii less_char_def)

section \<open>Charging in time\<close>

text \<open>A clock that never goes back and stays before the deadline, and a charge that is up to date.\<close>

definition on_time :: "execution_deadline \<Rightarrow> bool" where
  "on_time d \<longleftrightarrow>
     (\<forall>i. ed_clock d i \<le> ed_clock d (Suc i) \<and> ed_clock d i < md_deadline_ms (ed_deadline d)) \<and>
     last_now_ms (ed_deadline d) \<le> ed_clock d (ed_reads d) \<and>
     md_completed_units (ed_deadline d) = last_checkpoint_units d \<and>
     unat (last_checkpoint_units d) \<le> unat (ed_completed_units d) \<and>
     unat (ed_completed_units d) < unat (last_checkpoint_units d) + 1024"

lemma unat_add_u64: "unat a + unat b < 2 ^ 64 \<Longrightarrow> unat (a + b :: u64) = unat a + unat b"
  by (simp add: unat_word_ariths(1))

lemma pass_deadline_on_time:
  assumes "on_time (d\<lparr>ed_completed_units := c\<rparr>) \<or> on_time d \<and> unat c = unat (ed_completed_units d) + 1"
  shows "\<exists>d'. execution_checkpoint w (d\<lparr>ed_completed_units := c\<rparr>) = (d', Ok ()) \<and> on_time d' \<and> ed_completed_units d' = c"
proof -
  let ?n = "ed_clock d (ed_reads d)"
  let ?md = "(ed_deadline d)\<lparr>last_now_ms := ?n, md_completed_units := c\<rparr>"
  let ?d' = "d\<lparr>ed_completed_units := c, ed_reads := Suc (ed_reads d), ed_deadline := ?md, last_checkpoint_units := c\<rparr>"
  have "checkpoint (ed_deadline d) ?n c = (?md, Ok ())"
    using assms by (subst checkpoint_Ok) (auto simp: on_time_def word_le_nat_alt)
  then have "execution_checkpoint w (d\<lparr>ed_completed_units := c\<rparr>) = (?d', Ok ())"
    by (simp add: execution_checkpoint_def st_then_def now_ms_def pass_deadline_def)
  moreover have "on_time ?d'" using assms by (auto simp: on_time_def)
  ultimately show ?thesis by auto
qed

lemma before_allocation_on_time:
  assumes "on_time d"
  shows "\<exists>d'. timed execution_before_allocation (w, d) = ((w, d'), Ok ()) \<and> on_time d' \<and>
    ed_completed_units d' = ed_completed_units d"
proof -
  have "execution_before_allocation w d = execution_checkpoint w d"
    by (simp add: execution_before_allocation_def execution_checkpoint_def before_allocation_def [abs_def])
  with pass_deadline_on_time [where d = d and c = "ed_completed_units d" and w = w] assms show ?thesis by (auto simp: timed_def)
qed

lemma account_on_time:
  assumes "on_time d" "unat (ed_completed_units d) + 1 < 2 ^ 64" "unat (graph_scan_units w) + 1 < 2 ^ 64"
  shows "\<exists>d'. account_graph_scan_unit (w, d) = ((w\<lparr>graph_scan_units := graph_scan_units w + 1\<rparr>, d'), Ok ()) \<and>
    on_time d' \<and> unat (ed_completed_units d') = unat (ed_completed_units d) + 1"
proof -
  let ?w = "w\<lparr>graph_scan_units := graph_scan_units w + 1\<rparr>"
  let ?c = "ed_completed_units d + 1"
  have add: "checked_add (graph_scan_units w) 1 = Some (graph_scan_units w + 1)" "checked_add (ed_completed_units d) 1 = Some ?c"
    using assms(2,3) by (simp_all add: checked_add_def)
  then have c: "unat ?c = unat (ed_completed_units d) + 1" by (simp add: checked_add_Some)
  show ?thesis
  proof (cases "?c - last_checkpoint_units d \<ge> DEADLINE_CHECK_INTERVAL_UNITS")
    case True
    with pass_deadline_on_time [where d = d and c = ?c and w = ?w] assms(1) c add show ?thesis
      by (auto simp: account_graph_scan_unit_def timed_def advance_def Let_def)
  next
    case False
    have "unat (?c - last_checkpoint_units d) = unat ?c - unat (last_checkpoint_units d)"
      using assms(1) c by (intro unat_sub) (simp add: on_time_def word_le_nat_alt)
    with False c assms(1) have "on_time (d\<lparr>ed_completed_units := ?c\<rparr>)"
      by (auto simp: on_time_def DEADLINE_CHECK_INTERVAL_UNITS_def word_le_nat_alt)
    with False c add show ?thesis
      by (auto simp: account_graph_scan_unit_def timed_def advance_def Let_def)
  qed
qed

lemma charge_on_time:
  "on_time d \<Longrightarrow> unat (ed_completed_units d) + n < 2 ^ 64 \<Longrightarrow> unat (graph_scan_units w) + n < 2 ^ 64 \<Longrightarrow>
   \<exists>d'. charge n (w, d) = ((w\<lparr>graph_scan_units := graph_scan_units w + word_of_nat n\<rparr>, d'), Ok ()) \<and>
     on_time d' \<and> unat (ed_completed_units d') = unat (ed_completed_units d) + n"
proof (induction n arbitrary: w d)
  case 0
  then show ?case by (simp add: st_ret_def)
next
  case (Suc n)
  let ?w = "w\<lparr>graph_scan_units := graph_scan_units w + 1\<rparr>"
  from account_on_time [of d w] Suc.prems obtain d1 where d1:
    "account_graph_scan_unit (w, d) = ((?w, d1), Ok ())" "on_time d1"
    "unat (ed_completed_units d1) = unat (ed_completed_units d) + 1" by auto
  have "unat (graph_scan_units w + 1) = unat (graph_scan_units w) + 1"
    using Suc.prems(3) by (simp add: unat_add_u64)
  with Suc.IH [of d1 ?w] d1 Suc.prems show ?case by (auto simp: st_then_def add.assoc)
qed

text \<open>C37: with a clock that stays before the deadline, enough memory and room in the counters, the
  counted sort returns: it never runs into its own checkpoint limit of 1024 units, and charges
  exactly \<open>sort_units\<close>.\<close>

theorem counted_sort_returns:
  assumes "\<And>a b. c a b = cmp (f a) (f b)" "length xs < 2 ^ 63" "can_alloc (length xs)" "on_time d"
    and "unat (ed_completed_units d) + sort_units (length xs) < 2 ^ 64"
    and "unat (graph_scan_units w) + sort_units (length xs) < 2 ^ 64"
  shows "\<exists>w' d'. canonical_counted_sort can_alloc c xs (w, d) = ((w', d'), Ok (sort_key f xs)) \<and> on_time d' \<and>
    unat (graph_scan_units w') = unat (graph_scan_units w) + (if length xs < 2 then 0 else sort_units (length xs))"
proof (cases "length xs < 2")
  case True
  then have "sort_key f xs = xs" by (cases xs) auto
  with True assms(4) show ?thesis by (simp add: canonical_counted_sort_def st_ret_def)
next
  case False
  from before_allocation_on_time [OF assms(4), of w] obtain d1 where d1:
    "timed execution_before_allocation (w, d) = ((w, d1), Ok ())" "on_time d1"
    "ed_completed_units d1 = ed_completed_units d" by blast
  from before_allocation_on_time [OF d1(2), of w] obtain d2 where d2:
    "timed execution_before_allocation (w, d1) = ((w, d2), Ok ())" "on_time d2"
    "ed_completed_units d2 = ed_completed_units d" by (auto simp: d1(3))
  from charge_on_time [OF d2(2), of "sort_units (length xs)" w] assms(5,6) d2(3) obtain d3 where
    d3: "charge (sort_units (length xs)) (w, d2) =
      ((w\<lparr>graph_scan_units := graph_scan_units w + word_of_nat (sort_units (length xs))\<rparr>, d3), Ok ())" "on_time d3" by auto
  have "unat (graph_scan_units w + word_of_nat (sort_units (length xs))) = unat (graph_scan_units w) + sort_units (length xs)"
    using assms(6) by (simp add: unat_add_u64 unat_of_nat_u64)
  with False d1 d2 d3 assms(3) show ?thesis
    by (auto simp: counted_sort_eq [of c f, OF assms(1,2)] st_then_def st_ret_def)
qed

definition sample_deadline :: execution_deadline where
  "sample_deadline = \<lparr>ed_clock = (\<lambda>_. 3), ed_reads = 0,
     ed_deadline = \<lparr>md_deadline_ms = 10, last_now_ms = 0, md_completed_units = 0\<rparr>,
     ed_completed_units = 0, last_checkpoint_units = 0\<rparr>"

lemma sample_on_time: "on_time sample_deadline"
  by (simp add: on_time_def sample_deadline_def)

theorem counted_sort_returns_witness:
  "\<exists>w' d'. canonical_counted_sort (\<lambda>_. True) utf16_cmp [''b'', ''a'', ''b''] (work_default, sample_deadline) =
     ((w', d'), Ok (sort_key encode_utf16 [''b'', ''a'', ''b''])) \<and> unat (graph_scan_units w') = 15"
proof -
  let ?xs = "[''b'', ''a'', ''b'']"
  have u: "sort_units (length ?xs) = 15" by (simp add: sort_units_def passes.simps)
  have c: "unat (ed_completed_units sample_deadline) + sort_units (length ?xs) < 2 ^ 64"
    "unat (graph_scan_units work_default) + sort_units (length ?xs) < 2 ^ 64"
    unfolding u by (simp_all add: sample_deadline_def work_default_def)
  have "graph_scan_units work_default = 0" by (simp add: work_default_def)
  with counted_sort_returns [of utf16_cmp encode_utf16 ?xs "\<lambda>_. True", OF utf16_cmp_def _ _ sample_on_time c] show ?thesis
    unfolding u by auto
qed

end
