(* ===== verification/Unicode16_Table.thy ===== *)
theory Unicode16_Table
  imports Main
begin

text \<open>
  The generated Unicode 16 table (\<^verbatim>\<open>generated/unicode16_lowercase_lookup.rs\<close>), row by row, in blocks: the
  lowercase mappings (source, number of scalars, scalars), the cased and the case-ignorable ranges.
\<close>

definition lowercase_mappings_1 :: "(nat \<times> nat \<times> nat list) list" where
  "lowercase_mappings_1 =
     [(0x41, 1, [0x61, 0x0, 0x0]), (0x42, 1, [0x62, 0x0, 0x0]), (0x43, 1, [0x63, 0x0, 0x0]),
      (0x44, 1, [0x64, 0x0, 0x0]), (0x45, 1, [0x65, 0x0, 0x0]), (0x46, 1, [0x66, 0x0, 0x0]),
      (0x47, 1, [0x67, 0x0, 0x0]), (0x48, 1, [0x68, 0x0, 0x0]), (0x49, 1, [0x69, 0x0, 0x0]),
      (0x4A, 1, [0x6A, 0x0, 0x0]), (0x4B, 1, [0x6B, 0x0, 0x0]), (0x4C, 1, [0x6C, 0x0, 0x0]),
      (0x4D, 1, [0x6D, 0x0, 0x0]), (0x4E, 1, [0x6E, 0x0, 0x0]), (0x4F, 1, [0x6F, 0x0, 0x0]),
      (0x50, 1, [0x70, 0x0, 0x0]), (0x51, 1, [0x71, 0x0, 0x0]), (0x52, 1, [0x72, 0x0, 0x0]),
      (0x53, 1, [0x73, 0x0, 0x0]), (0x54, 1, [0x74, 0x0, 0x0]), (0x55, 1, [0x75, 0x0, 0x0]),
      (0x56, 1, [0x76, 0x0, 0x0]), (0x57, 1, [0x77, 0x0, 0x0]), (0x58, 1, [0x78, 0x0, 0x0]),
      (0x59, 1, [0x79, 0x0, 0x0]), (0x5A, 1, [0x7A, 0x0, 0x0]), (0xC0, 1, [0xE0, 0x0, 0x0]),
      (0xC1, 1, [0xE1, 0x0, 0x0]), (0xC2, 1, [0xE2, 0x0, 0x0]), (0xC3, 1, [0xE3, 0x0, 0x0]),
      (0xC4, 1, [0xE4, 0x0, 0x0]), (0xC5, 1, [0xE5, 0x0, 0x0]), (0xC6, 1, [0xE6, 0x0, 0x0]),
      (0xC7, 1, [0xE7, 0x0, 0x0]), (0xC8, 1, [0xE8, 0x0, 0x0]), (0xC9, 1, [0xE9, 0x0, 0x0]),
      (0xCA, 1, [0xEA, 0x0, 0x0]), (0xCB, 1, [0xEB, 0x0, 0x0]), (0xCC, 1, [0xEC, 0x0, 0x0]),
      (0xCD, 1, [0xED, 0x0, 0x0]), (0xCE, 1, [0xEE, 0x0, 0x0]), (0xCF, 1, [0xEF, 0x0, 0x0]),
      (0xD0, 1, [0xF0, 0x0, 0x0]), (0xD1, 1, [0xF1, 0x0, 0x0]), (0xD2, 1, [0xF2, 0x0, 0x0]),
      (0xD3, 1, [0xF3, 0x0, 0x0]), (0xD4, 1, [0xF4, 0x0, 0x0]), (0xD5, 1, [0xF5, 0x0, 0x0]),
      (0xD6, 1, [0xF6, 0x0, 0x0]), (0xD8, 1, [0xF8, 0x0, 0x0]), (0xD9, 1, [0xF9, 0x0, 0x0]),
      (0xDA, 1, [0xFA, 0x0, 0x0]), (0xDB, 1, [0xFB, 0x0, 0x0]), (0xDC, 1, [0xFC, 0x0, 0x0]),
      (0xDD, 1, [0xFD, 0x0, 0x0]), (0xDE, 1, [0xFE, 0x0, 0x0]), (0x100, 1, [0x101, 0x0, 0x0]),
      (0x102, 1, [0x103, 0x0, 0x0]), (0x104, 1, [0x105, 0x0, 0x0]), (0x106, 1, [0x107, 0x0, 0x0]),
      (0x108, 1, [0x109, 0x0, 0x0]), (0x10A, 1, [0x10B, 0x0, 0x0]), (0x10C, 1, [0x10D, 0x0, 0x0]),
      (0x10E, 1, [0x10F, 0x0, 0x0]), (0x110, 1, [0x111, 0x0, 0x0]), (0x112, 1, [0x113, 0x0, 0x0]),
      (0x114, 1, [0x115, 0x0, 0x0]), (0x116, 1, [0x117, 0x0, 0x0]), (0x118, 1, [0x119, 0x0, 0x0]),
      (0x11A, 1, [0x11B, 0x0, 0x0]), (0x11C, 1, [0x11D, 0x0, 0x0]), (0x11E, 1, [0x11F, 0x0, 0x0]),
      (0x120, 1, [0x121, 0x0, 0x0]), (0x122, 1, [0x123, 0x0, 0x0]), (0x124, 1, [0x125, 0x0, 0x0]),
      (0x126, 1, [0x127, 0x0, 0x0]), (0x128, 1, [0x129, 0x0, 0x0]), (0x12A, 1, [0x12B, 0x0, 0x0]),
      (0x12C, 1, [0x12D, 0x0, 0x0]), (0x12E, 1, [0x12F, 0x0, 0x0]), (0x130, 2, [0x69, 0x307, 0x0]),
      (0x132, 1, [0x133, 0x0, 0x0]), (0x134, 1, [0x135, 0x0, 0x0]), (0x136, 1, [0x137, 0x0, 0x0]),
      (0x139, 1, [0x13A, 0x0, 0x0]), (0x13B, 1, [0x13C, 0x0, 0x0]), (0x13D, 1, [0x13E, 0x0, 0x0]),
      (0x13F, 1, [0x140, 0x0, 0x0]), (0x141, 1, [0x142, 0x0, 0x0]), (0x143, 1, [0x144, 0x0, 0x0]),
      (0x145, 1, [0x146, 0x0, 0x0]), (0x147, 1, [0x148, 0x0, 0x0]), (0x14A, 1, [0x14B, 0x0, 0x0]),
      (0x14C, 1, [0x14D, 0x0, 0x0]), (0x14E, 1, [0x14F, 0x0, 0x0]), (0x150, 1, [0x151, 0x0, 0x0]),
      (0x152, 1, [0x153, 0x0, 0x0]), (0x154, 1, [0x155, 0x0, 0x0]), (0x156, 1, [0x157, 0x0, 0x0]),
      (0x158, 1, [0x159, 0x0, 0x0]), (0x15A, 1, [0x15B, 0x0, 0x0]), (0x15C, 1, [0x15D, 0x0, 0x0]),
      (0x15E, 1, [0x15F, 0x0, 0x0]), (0x160, 1, [0x161, 0x0, 0x0]), (0x162, 1, [0x163, 0x0, 0x0]),
      (0x164, 1, [0x165, 0x0, 0x0]), (0x166, 1, [0x167, 0x0, 0x0]), (0x168, 1, [0x169, 0x0, 0x0]),
      (0x16A, 1, [0x16B, 0x0, 0x0]), (0x16C, 1, [0x16D, 0x0, 0x0]), (0x16E, 1, [0x16F, 0x0, 0x0]),
      (0x170, 1, [0x171, 0x0, 0x0]), (0x172, 1, [0x173, 0x0, 0x0]), (0x174, 1, [0x175, 0x0, 0x0]),
      (0x176, 1, [0x177, 0x0, 0x0]), (0x178, 1, [0xFF, 0x0, 0x0]), (0x179, 1, [0x17A, 0x0, 0x0]),
      (0x17B, 1, [0x17C, 0x0, 0x0]), (0x17D, 1, [0x17E, 0x0, 0x0]), (0x181, 1, [0x253, 0x0, 0x0]),
      (0x182, 1, [0x183, 0x0, 0x0]), (0x184, 1, [0x185, 0x0, 0x0]), (0x186, 1, [0x254, 0x0, 0x0]),
      (0x187, 1, [0x188, 0x0, 0x0]), (0x189, 1, [0x256, 0x0, 0x0]), (0x18A, 1, [0x257, 0x0, 0x0]),
      (0x18B, 1, [0x18C, 0x0, 0x0]), (0x18E, 1, [0x1DD, 0x0, 0x0]), (0x18F, 1, [0x259, 0x0, 0x0]),
      (0x190, 1, [0x25B, 0x0, 0x0]), (0x191, 1, [0x192, 0x0, 0x0]), (0x193, 1, [0x260, 0x0, 0x0]),
      (0x194, 1, [0x263, 0x0, 0x0]), (0x196, 1, [0x269, 0x0, 0x0]), (0x197, 1, [0x268, 0x0, 0x0]),
      (0x198, 1, [0x199, 0x0, 0x0]), (0x19C, 1, [0x26F, 0x0, 0x0]), (0x19D, 1, [0x272, 0x0, 0x0]),
      (0x19F, 1, [0x275, 0x0, 0x0]), (0x1A0, 1, [0x1A1, 0x0, 0x0]), (0x1A2, 1, [0x1A3, 0x0, 0x0]),
      (0x1A4, 1, [0x1A5, 0x0, 0x0]), (0x1A6, 1, [0x280, 0x0, 0x0]), (0x1A7, 1, [0x1A8, 0x0, 0x0]),
      (0x1A9, 1, [0x283, 0x0, 0x0]), (0x1AC, 1, [0x1AD, 0x0, 0x0])]"

definition lowercase_mappings_2 :: "(nat \<times> nat \<times> nat list) list" where
  "lowercase_mappings_2 =
     [(0x1AE, 1, [0x288, 0x0, 0x0]), (0x1AF, 1, [0x1B0, 0x0, 0x0]), (0x1B1, 1, [0x28A, 0x0, 0x0]),
      (0x1B2, 1, [0x28B, 0x0, 0x0]), (0x1B3, 1, [0x1B4, 0x0, 0x0]), (0x1B5, 1, [0x1B6, 0x0, 0x0]),
      (0x1B7, 1, [0x292, 0x0, 0x0]), (0x1B8, 1, [0x1B9, 0x0, 0x0]), (0x1BC, 1, [0x1BD, 0x0, 0x0]),
      (0x1C4, 1, [0x1C6, 0x0, 0x0]), (0x1C5, 1, [0x1C6, 0x0, 0x0]), (0x1C7, 1, [0x1C9, 0x0, 0x0]),
      (0x1C8, 1, [0x1C9, 0x0, 0x0]), (0x1CA, 1, [0x1CC, 0x0, 0x0]), (0x1CB, 1, [0x1CC, 0x0, 0x0]),
      (0x1CD, 1, [0x1CE, 0x0, 0x0]), (0x1CF, 1, [0x1D0, 0x0, 0x0]), (0x1D1, 1, [0x1D2, 0x0, 0x0]),
      (0x1D3, 1, [0x1D4, 0x0, 0x0]), (0x1D5, 1, [0x1D6, 0x0, 0x0]), (0x1D7, 1, [0x1D8, 0x0, 0x0]),
      (0x1D9, 1, [0x1DA, 0x0, 0x0]), (0x1DB, 1, [0x1DC, 0x0, 0x0]), (0x1DE, 1, [0x1DF, 0x0, 0x0]),
      (0x1E0, 1, [0x1E1, 0x0, 0x0]), (0x1E2, 1, [0x1E3, 0x0, 0x0]), (0x1E4, 1, [0x1E5, 0x0, 0x0]),
      (0x1E6, 1, [0x1E7, 0x0, 0x0]), (0x1E8, 1, [0x1E9, 0x0, 0x0]), (0x1EA, 1, [0x1EB, 0x0, 0x0]),
      (0x1EC, 1, [0x1ED, 0x0, 0x0]), (0x1EE, 1, [0x1EF, 0x0, 0x0]), (0x1F1, 1, [0x1F3, 0x0, 0x0]),
      (0x1F2, 1, [0x1F3, 0x0, 0x0]), (0x1F4, 1, [0x1F5, 0x0, 0x0]), (0x1F6, 1, [0x195, 0x0, 0x0]),
      (0x1F7, 1, [0x1BF, 0x0, 0x0]), (0x1F8, 1, [0x1F9, 0x0, 0x0]), (0x1FA, 1, [0x1FB, 0x0, 0x0]),
      (0x1FC, 1, [0x1FD, 0x0, 0x0]), (0x1FE, 1, [0x1FF, 0x0, 0x0]), (0x200, 1, [0x201, 0x0, 0x0]),
      (0x202, 1, [0x203, 0x0, 0x0]), (0x204, 1, [0x205, 0x0, 0x0]), (0x206, 1, [0x207, 0x0, 0x0]),
      (0x208, 1, [0x209, 0x0, 0x0]), (0x20A, 1, [0x20B, 0x0, 0x0]), (0x20C, 1, [0x20D, 0x0, 0x0]),
      (0x20E, 1, [0x20F, 0x0, 0x0]), (0x210, 1, [0x211, 0x0, 0x0]), (0x212, 1, [0x213, 0x0, 0x0]),
      (0x214, 1, [0x215, 0x0, 0x0]), (0x216, 1, [0x217, 0x0, 0x0]), (0x218, 1, [0x219, 0x0, 0x0]),
      (0x21A, 1, [0x21B, 0x0, 0x0]), (0x21C, 1, [0x21D, 0x0, 0x0]), (0x21E, 1, [0x21F, 0x0, 0x0]),
      (0x220, 1, [0x19E, 0x0, 0x0]), (0x222, 1, [0x223, 0x0, 0x0]), (0x224, 1, [0x225, 0x0, 0x0]),
      (0x226, 1, [0x227, 0x0, 0x0]), (0x228, 1, [0x229, 0x0, 0x0]), (0x22A, 1, [0x22B, 0x0, 0x0]),
      (0x22C, 1, [0x22D, 0x0, 0x0]), (0x22E, 1, [0x22F, 0x0, 0x0]), (0x230, 1, [0x231, 0x0, 0x0]),
      (0x232, 1, [0x233, 0x0, 0x0]), (0x23A, 1, [0x2C65, 0x0, 0x0]), (0x23B, 1, [0x23C, 0x0, 0x0]),
      (0x23D, 1, [0x19A, 0x0, 0x0]), (0x23E, 1, [0x2C66, 0x0, 0x0]), (0x241, 1, [0x242, 0x0, 0x0]),
      (0x243, 1, [0x180, 0x0, 0x0]), (0x244, 1, [0x289, 0x0, 0x0]), (0x245, 1, [0x28C, 0x0, 0x0]),
      (0x246, 1, [0x247, 0x0, 0x0]), (0x248, 1, [0x249, 0x0, 0x0]), (0x24A, 1, [0x24B, 0x0, 0x0]),
      (0x24C, 1, [0x24D, 0x0, 0x0]), (0x24E, 1, [0x24F, 0x0, 0x0]), (0x370, 1, [0x371, 0x0, 0x0]),
      (0x372, 1, [0x373, 0x0, 0x0]), (0x376, 1, [0x377, 0x0, 0x0]), (0x37F, 1, [0x3F3, 0x0, 0x0]),
      (0x386, 1, [0x3AC, 0x0, 0x0]), (0x388, 1, [0x3AD, 0x0, 0x0]), (0x389, 1, [0x3AE, 0x0, 0x0]),
      (0x38A, 1, [0x3AF, 0x0, 0x0]), (0x38C, 1, [0x3CC, 0x0, 0x0]), (0x38E, 1, [0x3CD, 0x0, 0x0]),
      (0x38F, 1, [0x3CE, 0x0, 0x0]), (0x391, 1, [0x3B1, 0x0, 0x0]), (0x392, 1, [0x3B2, 0x0, 0x0]),
      (0x393, 1, [0x3B3, 0x0, 0x0]), (0x394, 1, [0x3B4, 0x0, 0x0]), (0x395, 1, [0x3B5, 0x0, 0x0]),
      (0x396, 1, [0x3B6, 0x0, 0x0]), (0x397, 1, [0x3B7, 0x0, 0x0]), (0x398, 1, [0x3B8, 0x0, 0x0]),
      (0x399, 1, [0x3B9, 0x0, 0x0]), (0x39A, 1, [0x3BA, 0x0, 0x0]), (0x39B, 1, [0x3BB, 0x0, 0x0]),
      (0x39C, 1, [0x3BC, 0x0, 0x0]), (0x39D, 1, [0x3BD, 0x0, 0x0]), (0x39E, 1, [0x3BE, 0x0, 0x0]),
      (0x39F, 1, [0x3BF, 0x0, 0x0]), (0x3A0, 1, [0x3C0, 0x0, 0x0]), (0x3A1, 1, [0x3C1, 0x0, 0x0]),
      (0x3A3, 1, [0x3C3, 0x0, 0x0]), (0x3A4, 1, [0x3C4, 0x0, 0x0]), (0x3A5, 1, [0x3C5, 0x0, 0x0]),
      (0x3A6, 1, [0x3C6, 0x0, 0x0]), (0x3A7, 1, [0x3C7, 0x0, 0x0]), (0x3A8, 1, [0x3C8, 0x0, 0x0]),
      (0x3A9, 1, [0x3C9, 0x0, 0x0]), (0x3AA, 1, [0x3CA, 0x0, 0x0]), (0x3AB, 1, [0x3CB, 0x0, 0x0]),
      (0x3CF, 1, [0x3D7, 0x0, 0x0]), (0x3D8, 1, [0x3D9, 0x0, 0x0]), (0x3DA, 1, [0x3DB, 0x0, 0x0]),
      (0x3DC, 1, [0x3DD, 0x0, 0x0]), (0x3DE, 1, [0x3DF, 0x0, 0x0]), (0x3E0, 1, [0x3E1, 0x0, 0x0]),
      (0x3E2, 1, [0x3E3, 0x0, 0x0]), (0x3E4, 1, [0x3E5, 0x0, 0x0]), (0x3E6, 1, [0x3E7, 0x0, 0x0]),
      (0x3E8, 1, [0x3E9, 0x0, 0x0]), (0x3EA, 1, [0x3EB, 0x0, 0x0]), (0x3EC, 1, [0x3ED, 0x0, 0x0]),
      (0x3EE, 1, [0x3EF, 0x0, 0x0]), (0x3F4, 1, [0x3B8, 0x0, 0x0]), (0x3F7, 1, [0x3F8, 0x0, 0x0]),
      (0x3F9, 1, [0x3F2, 0x0, 0x0]), (0x3FA, 1, [0x3FB, 0x0, 0x0]), (0x3FD, 1, [0x37B, 0x0, 0x0]),
      (0x3FE, 1, [0x37C, 0x0, 0x0]), (0x3FF, 1, [0x37D, 0x0, 0x0]), (0x400, 1, [0x450, 0x0, 0x0]),
      (0x401, 1, [0x451, 0x0, 0x0]), (0x402, 1, [0x452, 0x0, 0x0]), (0x403, 1, [0x453, 0x0, 0x0]),
      (0x404, 1, [0x454, 0x0, 0x0]), (0x405, 1, [0x455, 0x0, 0x0]), (0x406, 1, [0x456, 0x0, 0x0]),
      (0x407, 1, [0x457, 0x0, 0x0]), (0x408, 1, [0x458, 0x0, 0x0])]"

definition lowercase_mappings_3 :: "(nat \<times> nat \<times> nat list) list" where
  "lowercase_mappings_3 =
     [(0x409, 1, [0x459, 0x0, 0x0]), (0x40A, 1, [0x45A, 0x0, 0x0]), (0x40B, 1, [0x45B, 0x0, 0x0]),
      (0x40C, 1, [0x45C, 0x0, 0x0]), (0x40D, 1, [0x45D, 0x0, 0x0]), (0x40E, 1, [0x45E, 0x0, 0x0]),
      (0x40F, 1, [0x45F, 0x0, 0x0]), (0x410, 1, [0x430, 0x0, 0x0]), (0x411, 1, [0x431, 0x0, 0x0]),
      (0x412, 1, [0x432, 0x0, 0x0]), (0x413, 1, [0x433, 0x0, 0x0]), (0x414, 1, [0x434, 0x0, 0x0]),
      (0x415, 1, [0x435, 0x0, 0x0]), (0x416, 1, [0x436, 0x0, 0x0]), (0x417, 1, [0x437, 0x0, 0x0]),
      (0x418, 1, [0x438, 0x0, 0x0]), (0x419, 1, [0x439, 0x0, 0x0]), (0x41A, 1, [0x43A, 0x0, 0x0]),
      (0x41B, 1, [0x43B, 0x0, 0x0]), (0x41C, 1, [0x43C, 0x0, 0x0]), (0x41D, 1, [0x43D, 0x0, 0x0]),
      (0x41E, 1, [0x43E, 0x0, 0x0]), (0x41F, 1, [0x43F, 0x0, 0x0]), (0x420, 1, [0x440, 0x0, 0x0]),
      (0x421, 1, [0x441, 0x0, 0x0]), (0x422, 1, [0x442, 0x0, 0x0]), (0x423, 1, [0x443, 0x0, 0x0]),
      (0x424, 1, [0x444, 0x0, 0x0]), (0x425, 1, [0x445, 0x0, 0x0]), (0x426, 1, [0x446, 0x0, 0x0]),
      (0x427, 1, [0x447, 0x0, 0x0]), (0x428, 1, [0x448, 0x0, 0x0]), (0x429, 1, [0x449, 0x0, 0x0]),
      (0x42A, 1, [0x44A, 0x0, 0x0]), (0x42B, 1, [0x44B, 0x0, 0x0]), (0x42C, 1, [0x44C, 0x0, 0x0]),
      (0x42D, 1, [0x44D, 0x0, 0x0]), (0x42E, 1, [0x44E, 0x0, 0x0]), (0x42F, 1, [0x44F, 0x0, 0x0]),
      (0x460, 1, [0x461, 0x0, 0x0]), (0x462, 1, [0x463, 0x0, 0x0]), (0x464, 1, [0x465, 0x0, 0x0]),
      (0x466, 1, [0x467, 0x0, 0x0]), (0x468, 1, [0x469, 0x0, 0x0]), (0x46A, 1, [0x46B, 0x0, 0x0]),
      (0x46C, 1, [0x46D, 0x0, 0x0]), (0x46E, 1, [0x46F, 0x0, 0x0]), (0x470, 1, [0x471, 0x0, 0x0]),
      (0x472, 1, [0x473, 0x0, 0x0]), (0x474, 1, [0x475, 0x0, 0x0]), (0x476, 1, [0x477, 0x0, 0x0]),
      (0x478, 1, [0x479, 0x0, 0x0]), (0x47A, 1, [0x47B, 0x0, 0x0]), (0x47C, 1, [0x47D, 0x0, 0x0]),
      (0x47E, 1, [0x47F, 0x0, 0x0]), (0x480, 1, [0x481, 0x0, 0x0]), (0x48A, 1, [0x48B, 0x0, 0x0]),
      (0x48C, 1, [0x48D, 0x0, 0x0]), (0x48E, 1, [0x48F, 0x0, 0x0]), (0x490, 1, [0x491, 0x0, 0x0]),
      (0x492, 1, [0x493, 0x0, 0x0]), (0x494, 1, [0x495, 0x0, 0x0]), (0x496, 1, [0x497, 0x0, 0x0]),
      (0x498, 1, [0x499, 0x0, 0x0]), (0x49A, 1, [0x49B, 0x0, 0x0]), (0x49C, 1, [0x49D, 0x0, 0x0]),
      (0x49E, 1, [0x49F, 0x0, 0x0]), (0x4A0, 1, [0x4A1, 0x0, 0x0]), (0x4A2, 1, [0x4A3, 0x0, 0x0]),
      (0x4A4, 1, [0x4A5, 0x0, 0x0]), (0x4A6, 1, [0x4A7, 0x0, 0x0]), (0x4A8, 1, [0x4A9, 0x0, 0x0]),
      (0x4AA, 1, [0x4AB, 0x0, 0x0]), (0x4AC, 1, [0x4AD, 0x0, 0x0]), (0x4AE, 1, [0x4AF, 0x0, 0x0]),
      (0x4B0, 1, [0x4B1, 0x0, 0x0]), (0x4B2, 1, [0x4B3, 0x0, 0x0]), (0x4B4, 1, [0x4B5, 0x0, 0x0]),
      (0x4B6, 1, [0x4B7, 0x0, 0x0]), (0x4B8, 1, [0x4B9, 0x0, 0x0]), (0x4BA, 1, [0x4BB, 0x0, 0x0]),
      (0x4BC, 1, [0x4BD, 0x0, 0x0]), (0x4BE, 1, [0x4BF, 0x0, 0x0]), (0x4C0, 1, [0x4CF, 0x0, 0x0]),
      (0x4C1, 1, [0x4C2, 0x0, 0x0]), (0x4C3, 1, [0x4C4, 0x0, 0x0]), (0x4C5, 1, [0x4C6, 0x0, 0x0]),
      (0x4C7, 1, [0x4C8, 0x0, 0x0]), (0x4C9, 1, [0x4CA, 0x0, 0x0]), (0x4CB, 1, [0x4CC, 0x0, 0x0]),
      (0x4CD, 1, [0x4CE, 0x0, 0x0]), (0x4D0, 1, [0x4D1, 0x0, 0x0]), (0x4D2, 1, [0x4D3, 0x0, 0x0]),
      (0x4D4, 1, [0x4D5, 0x0, 0x0]), (0x4D6, 1, [0x4D7, 0x0, 0x0]), (0x4D8, 1, [0x4D9, 0x0, 0x0]),
      (0x4DA, 1, [0x4DB, 0x0, 0x0]), (0x4DC, 1, [0x4DD, 0x0, 0x0]), (0x4DE, 1, [0x4DF, 0x0, 0x0]),
      (0x4E0, 1, [0x4E1, 0x0, 0x0]), (0x4E2, 1, [0x4E3, 0x0, 0x0]), (0x4E4, 1, [0x4E5, 0x0, 0x0]),
      (0x4E6, 1, [0x4E7, 0x0, 0x0]), (0x4E8, 1, [0x4E9, 0x0, 0x0]), (0x4EA, 1, [0x4EB, 0x0, 0x0]),
      (0x4EC, 1, [0x4ED, 0x0, 0x0]), (0x4EE, 1, [0x4EF, 0x0, 0x0]), (0x4F0, 1, [0x4F1, 0x0, 0x0]),
      (0x4F2, 1, [0x4F3, 0x0, 0x0]), (0x4F4, 1, [0x4F5, 0x0, 0x0]), (0x4F6, 1, [0x4F7, 0x0, 0x0]),
      (0x4F8, 1, [0x4F9, 0x0, 0x0]), (0x4FA, 1, [0x4FB, 0x0, 0x0]), (0x4FC, 1, [0x4FD, 0x0, 0x0]),
      (0x4FE, 1, [0x4FF, 0x0, 0x0]), (0x500, 1, [0x501, 0x0, 0x0]), (0x502, 1, [0x503, 0x0, 0x0]),
      (0x504, 1, [0x505, 0x0, 0x0]), (0x506, 1, [0x507, 0x0, 0x0]), (0x508, 1, [0x509, 0x0, 0x0]),
      (0x50A, 1, [0x50B, 0x0, 0x0]), (0x50C, 1, [0x50D, 0x0, 0x0]), (0x50E, 1, [0x50F, 0x0, 0x0]),
      (0x510, 1, [0x511, 0x0, 0x0]), (0x512, 1, [0x513, 0x0, 0x0]), (0x514, 1, [0x515, 0x0, 0x0]),
      (0x516, 1, [0x517, 0x0, 0x0]), (0x518, 1, [0x519, 0x0, 0x0]), (0x51A, 1, [0x51B, 0x0, 0x0]),
      (0x51C, 1, [0x51D, 0x0, 0x0]), (0x51E, 1, [0x51F, 0x0, 0x0]), (0x520, 1, [0x521, 0x0, 0x0]),
      (0x522, 1, [0x523, 0x0, 0x0]), (0x524, 1, [0x525, 0x0, 0x0]), (0x526, 1, [0x527, 0x0, 0x0]),
      (0x528, 1, [0x529, 0x0, 0x0]), (0x52A, 1, [0x52B, 0x0, 0x0]), (0x52C, 1, [0x52D, 0x0, 0x0]),
      (0x52E, 1, [0x52F, 0x0, 0x0]), (0x531, 1, [0x561, 0x0, 0x0]), (0x532, 1, [0x562, 0x0, 0x0]),
      (0x533, 1, [0x563, 0x0, 0x0]), (0x534, 1, [0x564, 0x0, 0x0]), (0x535, 1, [0x565, 0x0, 0x0]),
      (0x536, 1, [0x566, 0x0, 0x0]), (0x537, 1, [0x567, 0x0, 0x0])]"

definition lowercase_mappings_4 :: "(nat \<times> nat \<times> nat list) list" where
  "lowercase_mappings_4 =
     [(0x538, 1, [0x568, 0x0, 0x0]), (0x539, 1, [0x569, 0x0, 0x0]), (0x53A, 1, [0x56A, 0x0, 0x0]),
      (0x53B, 1, [0x56B, 0x0, 0x0]), (0x53C, 1, [0x56C, 0x0, 0x0]), (0x53D, 1, [0x56D, 0x0, 0x0]),
      (0x53E, 1, [0x56E, 0x0, 0x0]), (0x53F, 1, [0x56F, 0x0, 0x0]), (0x540, 1, [0x570, 0x0, 0x0]),
      (0x541, 1, [0x571, 0x0, 0x0]), (0x542, 1, [0x572, 0x0, 0x0]), (0x543, 1, [0x573, 0x0, 0x0]),
      (0x544, 1, [0x574, 0x0, 0x0]), (0x545, 1, [0x575, 0x0, 0x0]), (0x546, 1, [0x576, 0x0, 0x0]),
      (0x547, 1, [0x577, 0x0, 0x0]), (0x548, 1, [0x578, 0x0, 0x0]), (0x549, 1, [0x579, 0x0, 0x0]),
      (0x54A, 1, [0x57A, 0x0, 0x0]), (0x54B, 1, [0x57B, 0x0, 0x0]), (0x54C, 1, [0x57C, 0x0, 0x0]),
      (0x54D, 1, [0x57D, 0x0, 0x0]), (0x54E, 1, [0x57E, 0x0, 0x0]), (0x54F, 1, [0x57F, 0x0, 0x0]),
      (0x550, 1, [0x580, 0x0, 0x0]), (0x551, 1, [0x581, 0x0, 0x0]), (0x552, 1, [0x582, 0x0, 0x0]),
      (0x553, 1, [0x583, 0x0, 0x0]), (0x554, 1, [0x584, 0x0, 0x0]), (0x555, 1, [0x585, 0x0, 0x0]),
      (0x556, 1, [0x586, 0x0, 0x0]), (0x10A0, 1, [0x2D00, 0x0, 0x0]), (0x10A1, 1, [0x2D01, 0x0, 0x0]),
      (0x10A2, 1, [0x2D02, 0x0, 0x0]), (0x10A3, 1, [0x2D03, 0x0, 0x0]), (0x10A4, 1, [0x2D04, 0x0, 0x0]),
      (0x10A5, 1, [0x2D05, 0x0, 0x0]), (0x10A6, 1, [0x2D06, 0x0, 0x0]), (0x10A7, 1, [0x2D07, 0x0, 0x0]),
      (0x10A8, 1, [0x2D08, 0x0, 0x0]), (0x10A9, 1, [0x2D09, 0x0, 0x0]), (0x10AA, 1, [0x2D0A, 0x0, 0x0]),
      (0x10AB, 1, [0x2D0B, 0x0, 0x0]), (0x10AC, 1, [0x2D0C, 0x0, 0x0]), (0x10AD, 1, [0x2D0D, 0x0, 0x0]),
      (0x10AE, 1, [0x2D0E, 0x0, 0x0]), (0x10AF, 1, [0x2D0F, 0x0, 0x0]), (0x10B0, 1, [0x2D10, 0x0, 0x0]),
      (0x10B1, 1, [0x2D11, 0x0, 0x0]), (0x10B2, 1, [0x2D12, 0x0, 0x0]), (0x10B3, 1, [0x2D13, 0x0, 0x0]),
      (0x10B4, 1, [0x2D14, 0x0, 0x0]), (0x10B5, 1, [0x2D15, 0x0, 0x0]), (0x10B6, 1, [0x2D16, 0x0, 0x0]),
      (0x10B7, 1, [0x2D17, 0x0, 0x0]), (0x10B8, 1, [0x2D18, 0x0, 0x0]), (0x10B9, 1, [0x2D19, 0x0, 0x0]),
      (0x10BA, 1, [0x2D1A, 0x0, 0x0]), (0x10BB, 1, [0x2D1B, 0x0, 0x0]), (0x10BC, 1, [0x2D1C, 0x0, 0x0]),
      (0x10BD, 1, [0x2D1D, 0x0, 0x0]), (0x10BE, 1, [0x2D1E, 0x0, 0x0]), (0x10BF, 1, [0x2D1F, 0x0, 0x0]),
      (0x10C0, 1, [0x2D20, 0x0, 0x0]), (0x10C1, 1, [0x2D21, 0x0, 0x0]), (0x10C2, 1, [0x2D22, 0x0, 0x0]),
      (0x10C3, 1, [0x2D23, 0x0, 0x0]), (0x10C4, 1, [0x2D24, 0x0, 0x0]), (0x10C5, 1, [0x2D25, 0x0, 0x0]),
      (0x10C7, 1, [0x2D27, 0x0, 0x0]), (0x10CD, 1, [0x2D2D, 0x0, 0x0]), (0x13A0, 1, [0xAB70, 0x0, 0x0]),
      (0x13A1, 1, [0xAB71, 0x0, 0x0]), (0x13A2, 1, [0xAB72, 0x0, 0x0]), (0x13A3, 1, [0xAB73, 0x0, 0x0]),
      (0x13A4, 1, [0xAB74, 0x0, 0x0]), (0x13A5, 1, [0xAB75, 0x0, 0x0]), (0x13A6, 1, [0xAB76, 0x0, 0x0]),
      (0x13A7, 1, [0xAB77, 0x0, 0x0]), (0x13A8, 1, [0xAB78, 0x0, 0x0]), (0x13A9, 1, [0xAB79, 0x0, 0x0]),
      (0x13AA, 1, [0xAB7A, 0x0, 0x0]), (0x13AB, 1, [0xAB7B, 0x0, 0x0]), (0x13AC, 1, [0xAB7C, 0x0, 0x0]),
      (0x13AD, 1, [0xAB7D, 0x0, 0x0]), (0x13AE, 1, [0xAB7E, 0x0, 0x0]), (0x13AF, 1, [0xAB7F, 0x0, 0x0]),
      (0x13B0, 1, [0xAB80, 0x0, 0x0]), (0x13B1, 1, [0xAB81, 0x0, 0x0]), (0x13B2, 1, [0xAB82, 0x0, 0x0]),
      (0x13B3, 1, [0xAB83, 0x0, 0x0]), (0x13B4, 1, [0xAB84, 0x0, 0x0]), (0x13B5, 1, [0xAB85, 0x0, 0x0]),
      (0x13B6, 1, [0xAB86, 0x0, 0x0]), (0x13B7, 1, [0xAB87, 0x0, 0x0]), (0x13B8, 1, [0xAB88, 0x0, 0x0]),
      (0x13B9, 1, [0xAB89, 0x0, 0x0]), (0x13BA, 1, [0xAB8A, 0x0, 0x0]), (0x13BB, 1, [0xAB8B, 0x0, 0x0]),
      (0x13BC, 1, [0xAB8C, 0x0, 0x0]), (0x13BD, 1, [0xAB8D, 0x0, 0x0]), (0x13BE, 1, [0xAB8E, 0x0, 0x0]),
      (0x13BF, 1, [0xAB8F, 0x0, 0x0]), (0x13C0, 1, [0xAB90, 0x0, 0x0]), (0x13C1, 1, [0xAB91, 0x0, 0x0]),
      (0x13C2, 1, [0xAB92, 0x0, 0x0]), (0x13C3, 1, [0xAB93, 0x0, 0x0]), (0x13C4, 1, [0xAB94, 0x0, 0x0]),
      (0x13C5, 1, [0xAB95, 0x0, 0x0]), (0x13C6, 1, [0xAB96, 0x0, 0x0]), (0x13C7, 1, [0xAB97, 0x0, 0x0]),
      (0x13C8, 1, [0xAB98, 0x0, 0x0]), (0x13C9, 1, [0xAB99, 0x0, 0x0]), (0x13CA, 1, [0xAB9A, 0x0, 0x0]),
      (0x13CB, 1, [0xAB9B, 0x0, 0x0]), (0x13CC, 1, [0xAB9C, 0x0, 0x0]), (0x13CD, 1, [0xAB9D, 0x0, 0x0]),
      (0x13CE, 1, [0xAB9E, 0x0, 0x0]), (0x13CF, 1, [0xAB9F, 0x0, 0x0]), (0x13D0, 1, [0xABA0, 0x0, 0x0]),
      (0x13D1, 1, [0xABA1, 0x0, 0x0]), (0x13D2, 1, [0xABA2, 0x0, 0x0]), (0x13D3, 1, [0xABA3, 0x0, 0x0]),
      (0x13D4, 1, [0xABA4, 0x0, 0x0]), (0x13D5, 1, [0xABA5, 0x0, 0x0]), (0x13D6, 1, [0xABA6, 0x0, 0x0]),
      (0x13D7, 1, [0xABA7, 0x0, 0x0]), (0x13D8, 1, [0xABA8, 0x0, 0x0]), (0x13D9, 1, [0xABA9, 0x0, 0x0]),
      (0x13DA, 1, [0xABAA, 0x0, 0x0]), (0x13DB, 1, [0xABAB, 0x0, 0x0]), (0x13DC, 1, [0xABAC, 0x0, 0x0]),
      (0x13DD, 1, [0xABAD, 0x0, 0x0]), (0x13DE, 1, [0xABAE, 0x0, 0x0]), (0x13DF, 1, [0xABAF, 0x0, 0x0]),
      (0x13E0, 1, [0xABB0, 0x0, 0x0]), (0x13E1, 1, [0xABB1, 0x0, 0x0]), (0x13E2, 1, [0xABB2, 0x0, 0x0]),
      (0x13E3, 1, [0xABB3, 0x0, 0x0]), (0x13E4, 1, [0xABB4, 0x0, 0x0]), (0x13E5, 1, [0xABB5, 0x0, 0x0]),
      (0x13E6, 1, [0xABB6, 0x0, 0x0]), (0x13E7, 1, [0xABB7, 0x0, 0x0]), (0x13E8, 1, [0xABB8, 0x0, 0x0]),
      (0x13E9, 1, [0xABB9, 0x0, 0x0]), (0x13EA, 1, [0xABBA, 0x0, 0x0])]"

definition lowercase_mappings_5 :: "(nat \<times> nat \<times> nat list) list" where
  "lowercase_mappings_5 =
     [(0x13EB, 1, [0xABBB, 0x0, 0x0]), (0x13EC, 1, [0xABBC, 0x0, 0x0]), (0x13ED, 1, [0xABBD, 0x0, 0x0]),
      (0x13EE, 1, [0xABBE, 0x0, 0x0]), (0x13EF, 1, [0xABBF, 0x0, 0x0]), (0x13F0, 1, [0x13F8, 0x0, 0x0]),
      (0x13F1, 1, [0x13F9, 0x0, 0x0]), (0x13F2, 1, [0x13FA, 0x0, 0x0]), (0x13F3, 1, [0x13FB, 0x0, 0x0]),
      (0x13F4, 1, [0x13FC, 0x0, 0x0]), (0x13F5, 1, [0x13FD, 0x0, 0x0]), (0x1C89, 1, [0x1C8A, 0x0, 0x0]),
      (0x1C90, 1, [0x10D0, 0x0, 0x0]), (0x1C91, 1, [0x10D1, 0x0, 0x0]), (0x1C92, 1, [0x10D2, 0x0, 0x0]),
      (0x1C93, 1, [0x10D3, 0x0, 0x0]), (0x1C94, 1, [0x10D4, 0x0, 0x0]), (0x1C95, 1, [0x10D5, 0x0, 0x0]),
      (0x1C96, 1, [0x10D6, 0x0, 0x0]), (0x1C97, 1, [0x10D7, 0x0, 0x0]), (0x1C98, 1, [0x10D8, 0x0, 0x0]),
      (0x1C99, 1, [0x10D9, 0x0, 0x0]), (0x1C9A, 1, [0x10DA, 0x0, 0x0]), (0x1C9B, 1, [0x10DB, 0x0, 0x0]),
      (0x1C9C, 1, [0x10DC, 0x0, 0x0]), (0x1C9D, 1, [0x10DD, 0x0, 0x0]), (0x1C9E, 1, [0x10DE, 0x0, 0x0]),
      (0x1C9F, 1, [0x10DF, 0x0, 0x0]), (0x1CA0, 1, [0x10E0, 0x0, 0x0]), (0x1CA1, 1, [0x10E1, 0x0, 0x0]),
      (0x1CA2, 1, [0x10E2, 0x0, 0x0]), (0x1CA3, 1, [0x10E3, 0x0, 0x0]), (0x1CA4, 1, [0x10E4, 0x0, 0x0]),
      (0x1CA5, 1, [0x10E5, 0x0, 0x0]), (0x1CA6, 1, [0x10E6, 0x0, 0x0]), (0x1CA7, 1, [0x10E7, 0x0, 0x0]),
      (0x1CA8, 1, [0x10E8, 0x0, 0x0]), (0x1CA9, 1, [0x10E9, 0x0, 0x0]), (0x1CAA, 1, [0x10EA, 0x0, 0x0]),
      (0x1CAB, 1, [0x10EB, 0x0, 0x0]), (0x1CAC, 1, [0x10EC, 0x0, 0x0]), (0x1CAD, 1, [0x10ED, 0x0, 0x0]),
      (0x1CAE, 1, [0x10EE, 0x0, 0x0]), (0x1CAF, 1, [0x10EF, 0x0, 0x0]), (0x1CB0, 1, [0x10F0, 0x0, 0x0]),
      (0x1CB1, 1, [0x10F1, 0x0, 0x0]), (0x1CB2, 1, [0x10F2, 0x0, 0x0]), (0x1CB3, 1, [0x10F3, 0x0, 0x0]),
      (0x1CB4, 1, [0x10F4, 0x0, 0x0]), (0x1CB5, 1, [0x10F5, 0x0, 0x0]), (0x1CB6, 1, [0x10F6, 0x0, 0x0]),
      (0x1CB7, 1, [0x10F7, 0x0, 0x0]), (0x1CB8, 1, [0x10F8, 0x0, 0x0]), (0x1CB9, 1, [0x10F9, 0x0, 0x0]),
      (0x1CBA, 1, [0x10FA, 0x0, 0x0]), (0x1CBD, 1, [0x10FD, 0x0, 0x0]), (0x1CBE, 1, [0x10FE, 0x0, 0x0]),
      (0x1CBF, 1, [0x10FF, 0x0, 0x0]), (0x1E00, 1, [0x1E01, 0x0, 0x0]), (0x1E02, 1, [0x1E03, 0x0, 0x0]),
      (0x1E04, 1, [0x1E05, 0x0, 0x0]), (0x1E06, 1, [0x1E07, 0x0, 0x0]), (0x1E08, 1, [0x1E09, 0x0, 0x0]),
      (0x1E0A, 1, [0x1E0B, 0x0, 0x0]), (0x1E0C, 1, [0x1E0D, 0x0, 0x0]), (0x1E0E, 1, [0x1E0F, 0x0, 0x0]),
      (0x1E10, 1, [0x1E11, 0x0, 0x0]), (0x1E12, 1, [0x1E13, 0x0, 0x0]), (0x1E14, 1, [0x1E15, 0x0, 0x0]),
      (0x1E16, 1, [0x1E17, 0x0, 0x0]), (0x1E18, 1, [0x1E19, 0x0, 0x0]), (0x1E1A, 1, [0x1E1B, 0x0, 0x0]),
      (0x1E1C, 1, [0x1E1D, 0x0, 0x0]), (0x1E1E, 1, [0x1E1F, 0x0, 0x0]), (0x1E20, 1, [0x1E21, 0x0, 0x0]),
      (0x1E22, 1, [0x1E23, 0x0, 0x0]), (0x1E24, 1, [0x1E25, 0x0, 0x0]), (0x1E26, 1, [0x1E27, 0x0, 0x0]),
      (0x1E28, 1, [0x1E29, 0x0, 0x0]), (0x1E2A, 1, [0x1E2B, 0x0, 0x0]), (0x1E2C, 1, [0x1E2D, 0x0, 0x0]),
      (0x1E2E, 1, [0x1E2F, 0x0, 0x0]), (0x1E30, 1, [0x1E31, 0x0, 0x0]), (0x1E32, 1, [0x1E33, 0x0, 0x0]),
      (0x1E34, 1, [0x1E35, 0x0, 0x0]), (0x1E36, 1, [0x1E37, 0x0, 0x0]), (0x1E38, 1, [0x1E39, 0x0, 0x0]),
      (0x1E3A, 1, [0x1E3B, 0x0, 0x0]), (0x1E3C, 1, [0x1E3D, 0x0, 0x0]), (0x1E3E, 1, [0x1E3F, 0x0, 0x0]),
      (0x1E40, 1, [0x1E41, 0x0, 0x0]), (0x1E42, 1, [0x1E43, 0x0, 0x0]), (0x1E44, 1, [0x1E45, 0x0, 0x0]),
      (0x1E46, 1, [0x1E47, 0x0, 0x0]), (0x1E48, 1, [0x1E49, 0x0, 0x0]), (0x1E4A, 1, [0x1E4B, 0x0, 0x0]),
      (0x1E4C, 1, [0x1E4D, 0x0, 0x0]), (0x1E4E, 1, [0x1E4F, 0x0, 0x0]), (0x1E50, 1, [0x1E51, 0x0, 0x0]),
      (0x1E52, 1, [0x1E53, 0x0, 0x0]), (0x1E54, 1, [0x1E55, 0x0, 0x0]), (0x1E56, 1, [0x1E57, 0x0, 0x0]),
      (0x1E58, 1, [0x1E59, 0x0, 0x0]), (0x1E5A, 1, [0x1E5B, 0x0, 0x0]), (0x1E5C, 1, [0x1E5D, 0x0, 0x0]),
      (0x1E5E, 1, [0x1E5F, 0x0, 0x0]), (0x1E60, 1, [0x1E61, 0x0, 0x0]), (0x1E62, 1, [0x1E63, 0x0, 0x0]),
      (0x1E64, 1, [0x1E65, 0x0, 0x0]), (0x1E66, 1, [0x1E67, 0x0, 0x0]), (0x1E68, 1, [0x1E69, 0x0, 0x0]),
      (0x1E6A, 1, [0x1E6B, 0x0, 0x0]), (0x1E6C, 1, [0x1E6D, 0x0, 0x0]), (0x1E6E, 1, [0x1E6F, 0x0, 0x0]),
      (0x1E70, 1, [0x1E71, 0x0, 0x0]), (0x1E72, 1, [0x1E73, 0x0, 0x0]), (0x1E74, 1, [0x1E75, 0x0, 0x0]),
      (0x1E76, 1, [0x1E77, 0x0, 0x0]), (0x1E78, 1, [0x1E79, 0x0, 0x0]), (0x1E7A, 1, [0x1E7B, 0x0, 0x0]),
      (0x1E7C, 1, [0x1E7D, 0x0, 0x0]), (0x1E7E, 1, [0x1E7F, 0x0, 0x0]), (0x1E80, 1, [0x1E81, 0x0, 0x0]),
      (0x1E82, 1, [0x1E83, 0x0, 0x0]), (0x1E84, 1, [0x1E85, 0x0, 0x0]), (0x1E86, 1, [0x1E87, 0x0, 0x0]),
      (0x1E88, 1, [0x1E89, 0x0, 0x0]), (0x1E8A, 1, [0x1E8B, 0x0, 0x0]), (0x1E8C, 1, [0x1E8D, 0x0, 0x0]),
      (0x1E8E, 1, [0x1E8F, 0x0, 0x0]), (0x1E90, 1, [0x1E91, 0x0, 0x0]), (0x1E92, 1, [0x1E93, 0x0, 0x0]),
      (0x1E94, 1, [0x1E95, 0x0, 0x0]), (0x1E9E, 1, [0xDF, 0x0, 0x0]), (0x1EA0, 1, [0x1EA1, 0x0, 0x0]),
      (0x1EA2, 1, [0x1EA3, 0x0, 0x0]), (0x1EA4, 1, [0x1EA5, 0x0, 0x0]), (0x1EA6, 1, [0x1EA7, 0x0, 0x0]),
      (0x1EA8, 1, [0x1EA9, 0x0, 0x0]), (0x1EAA, 1, [0x1EAB, 0x0, 0x0]), (0x1EAC, 1, [0x1EAD, 0x0, 0x0]),
      (0x1EAE, 1, [0x1EAF, 0x0, 0x0]), (0x1EB0, 1, [0x1EB1, 0x0, 0x0]), (0x1EB2, 1, [0x1EB3, 0x0, 0x0]),
      (0x1EB4, 1, [0x1EB5, 0x0, 0x0]), (0x1EB6, 1, [0x1EB7, 0x0, 0x0])]"

definition lowercase_mappings_6 :: "(nat \<times> nat \<times> nat list) list" where
  "lowercase_mappings_6 =
     [(0x1EB8, 1, [0x1EB9, 0x0, 0x0]), (0x1EBA, 1, [0x1EBB, 0x0, 0x0]), (0x1EBC, 1, [0x1EBD, 0x0, 0x0]),
      (0x1EBE, 1, [0x1EBF, 0x0, 0x0]), (0x1EC0, 1, [0x1EC1, 0x0, 0x0]), (0x1EC2, 1, [0x1EC3, 0x0, 0x0]),
      (0x1EC4, 1, [0x1EC5, 0x0, 0x0]), (0x1EC6, 1, [0x1EC7, 0x0, 0x0]), (0x1EC8, 1, [0x1EC9, 0x0, 0x0]),
      (0x1ECA, 1, [0x1ECB, 0x0, 0x0]), (0x1ECC, 1, [0x1ECD, 0x0, 0x0]), (0x1ECE, 1, [0x1ECF, 0x0, 0x0]),
      (0x1ED0, 1, [0x1ED1, 0x0, 0x0]), (0x1ED2, 1, [0x1ED3, 0x0, 0x0]), (0x1ED4, 1, [0x1ED5, 0x0, 0x0]),
      (0x1ED6, 1, [0x1ED7, 0x0, 0x0]), (0x1ED8, 1, [0x1ED9, 0x0, 0x0]), (0x1EDA, 1, [0x1EDB, 0x0, 0x0]),
      (0x1EDC, 1, [0x1EDD, 0x0, 0x0]), (0x1EDE, 1, [0x1EDF, 0x0, 0x0]), (0x1EE0, 1, [0x1EE1, 0x0, 0x0]),
      (0x1EE2, 1, [0x1EE3, 0x0, 0x0]), (0x1EE4, 1, [0x1EE5, 0x0, 0x0]), (0x1EE6, 1, [0x1EE7, 0x0, 0x0]),
      (0x1EE8, 1, [0x1EE9, 0x0, 0x0]), (0x1EEA, 1, [0x1EEB, 0x0, 0x0]), (0x1EEC, 1, [0x1EED, 0x0, 0x0]),
      (0x1EEE, 1, [0x1EEF, 0x0, 0x0]), (0x1EF0, 1, [0x1EF1, 0x0, 0x0]), (0x1EF2, 1, [0x1EF3, 0x0, 0x0]),
      (0x1EF4, 1, [0x1EF5, 0x0, 0x0]), (0x1EF6, 1, [0x1EF7, 0x0, 0x0]), (0x1EF8, 1, [0x1EF9, 0x0, 0x0]),
      (0x1EFA, 1, [0x1EFB, 0x0, 0x0]), (0x1EFC, 1, [0x1EFD, 0x0, 0x0]), (0x1EFE, 1, [0x1EFF, 0x0, 0x0]),
      (0x1F08, 1, [0x1F00, 0x0, 0x0]), (0x1F09, 1, [0x1F01, 0x0, 0x0]), (0x1F0A, 1, [0x1F02, 0x0, 0x0]),
      (0x1F0B, 1, [0x1F03, 0x0, 0x0]), (0x1F0C, 1, [0x1F04, 0x0, 0x0]), (0x1F0D, 1, [0x1F05, 0x0, 0x0]),
      (0x1F0E, 1, [0x1F06, 0x0, 0x0]), (0x1F0F, 1, [0x1F07, 0x0, 0x0]), (0x1F18, 1, [0x1F10, 0x0, 0x0]),
      (0x1F19, 1, [0x1F11, 0x0, 0x0]), (0x1F1A, 1, [0x1F12, 0x0, 0x0]), (0x1F1B, 1, [0x1F13, 0x0, 0x0]),
      (0x1F1C, 1, [0x1F14, 0x0, 0x0]), (0x1F1D, 1, [0x1F15, 0x0, 0x0]), (0x1F28, 1, [0x1F20, 0x0, 0x0]),
      (0x1F29, 1, [0x1F21, 0x0, 0x0]), (0x1F2A, 1, [0x1F22, 0x0, 0x0]), (0x1F2B, 1, [0x1F23, 0x0, 0x0]),
      (0x1F2C, 1, [0x1F24, 0x0, 0x0]), (0x1F2D, 1, [0x1F25, 0x0, 0x0]), (0x1F2E, 1, [0x1F26, 0x0, 0x0]),
      (0x1F2F, 1, [0x1F27, 0x0, 0x0]), (0x1F38, 1, [0x1F30, 0x0, 0x0]), (0x1F39, 1, [0x1F31, 0x0, 0x0]),
      (0x1F3A, 1, [0x1F32, 0x0, 0x0]), (0x1F3B, 1, [0x1F33, 0x0, 0x0]), (0x1F3C, 1, [0x1F34, 0x0, 0x0]),
      (0x1F3D, 1, [0x1F35, 0x0, 0x0]), (0x1F3E, 1, [0x1F36, 0x0, 0x0]), (0x1F3F, 1, [0x1F37, 0x0, 0x0]),
      (0x1F48, 1, [0x1F40, 0x0, 0x0]), (0x1F49, 1, [0x1F41, 0x0, 0x0]), (0x1F4A, 1, [0x1F42, 0x0, 0x0]),
      (0x1F4B, 1, [0x1F43, 0x0, 0x0]), (0x1F4C, 1, [0x1F44, 0x0, 0x0]), (0x1F4D, 1, [0x1F45, 0x0, 0x0]),
      (0x1F59, 1, [0x1F51, 0x0, 0x0]), (0x1F5B, 1, [0x1F53, 0x0, 0x0]), (0x1F5D, 1, [0x1F55, 0x0, 0x0]),
      (0x1F5F, 1, [0x1F57, 0x0, 0x0]), (0x1F68, 1, [0x1F60, 0x0, 0x0]), (0x1F69, 1, [0x1F61, 0x0, 0x0]),
      (0x1F6A, 1, [0x1F62, 0x0, 0x0]), (0x1F6B, 1, [0x1F63, 0x0, 0x0]), (0x1F6C, 1, [0x1F64, 0x0, 0x0]),
      (0x1F6D, 1, [0x1F65, 0x0, 0x0]), (0x1F6E, 1, [0x1F66, 0x0, 0x0]), (0x1F6F, 1, [0x1F67, 0x0, 0x0]),
      (0x1F88, 1, [0x1F80, 0x0, 0x0]), (0x1F89, 1, [0x1F81, 0x0, 0x0]), (0x1F8A, 1, [0x1F82, 0x0, 0x0]),
      (0x1F8B, 1, [0x1F83, 0x0, 0x0]), (0x1F8C, 1, [0x1F84, 0x0, 0x0]), (0x1F8D, 1, [0x1F85, 0x0, 0x0]),
      (0x1F8E, 1, [0x1F86, 0x0, 0x0]), (0x1F8F, 1, [0x1F87, 0x0, 0x0]), (0x1F98, 1, [0x1F90, 0x0, 0x0]),
      (0x1F99, 1, [0x1F91, 0x0, 0x0]), (0x1F9A, 1, [0x1F92, 0x0, 0x0]), (0x1F9B, 1, [0x1F93, 0x0, 0x0]),
      (0x1F9C, 1, [0x1F94, 0x0, 0x0]), (0x1F9D, 1, [0x1F95, 0x0, 0x0]), (0x1F9E, 1, [0x1F96, 0x0, 0x0]),
      (0x1F9F, 1, [0x1F97, 0x0, 0x0]), (0x1FA8, 1, [0x1FA0, 0x0, 0x0]), (0x1FA9, 1, [0x1FA1, 0x0, 0x0]),
      (0x1FAA, 1, [0x1FA2, 0x0, 0x0]), (0x1FAB, 1, [0x1FA3, 0x0, 0x0]), (0x1FAC, 1, [0x1FA4, 0x0, 0x0]),
      (0x1FAD, 1, [0x1FA5, 0x0, 0x0]), (0x1FAE, 1, [0x1FA6, 0x0, 0x0]), (0x1FAF, 1, [0x1FA7, 0x0, 0x0]),
      (0x1FB8, 1, [0x1FB0, 0x0, 0x0]), (0x1FB9, 1, [0x1FB1, 0x0, 0x0]), (0x1FBA, 1, [0x1F70, 0x0, 0x0]),
      (0x1FBB, 1, [0x1F71, 0x0, 0x0]), (0x1FBC, 1, [0x1FB3, 0x0, 0x0]), (0x1FC8, 1, [0x1F72, 0x0, 0x0]),
      (0x1FC9, 1, [0x1F73, 0x0, 0x0]), (0x1FCA, 1, [0x1F74, 0x0, 0x0]), (0x1FCB, 1, [0x1F75, 0x0, 0x0]),
      (0x1FCC, 1, [0x1FC3, 0x0, 0x0]), (0x1FD8, 1, [0x1FD0, 0x0, 0x0]), (0x1FD9, 1, [0x1FD1, 0x0, 0x0]),
      (0x1FDA, 1, [0x1F76, 0x0, 0x0]), (0x1FDB, 1, [0x1F77, 0x0, 0x0]), (0x1FE8, 1, [0x1FE0, 0x0, 0x0]),
      (0x1FE9, 1, [0x1FE1, 0x0, 0x0]), (0x1FEA, 1, [0x1F7A, 0x0, 0x0]), (0x1FEB, 1, [0x1F7B, 0x0, 0x0]),
      (0x1FEC, 1, [0x1FE5, 0x0, 0x0]), (0x1FF8, 1, [0x1F78, 0x0, 0x0]), (0x1FF9, 1, [0x1F79, 0x0, 0x0]),
      (0x1FFA, 1, [0x1F7C, 0x0, 0x0]), (0x1FFB, 1, [0x1F7D, 0x0, 0x0]), (0x1FFC, 1, [0x1FF3, 0x0, 0x0]),
      (0x2126, 1, [0x3C9, 0x0, 0x0]), (0x212A, 1, [0x6B, 0x0, 0x0]), (0x212B, 1, [0xE5, 0x0, 0x0]),
      (0x2132, 1, [0x214E, 0x0, 0x0]), (0x2160, 1, [0x2170, 0x0, 0x0]), (0x2161, 1, [0x2171, 0x0, 0x0]),
      (0x2162, 1, [0x2172, 0x0, 0x0]), (0x2163, 1, [0x2173, 0x0, 0x0]), (0x2164, 1, [0x2174, 0x0, 0x0]),
      (0x2165, 1, [0x2175, 0x0, 0x0]), (0x2166, 1, [0x2176, 0x0, 0x0]), (0x2167, 1, [0x2177, 0x0, 0x0]),
      (0x2168, 1, [0x2178, 0x0, 0x0]), (0x2169, 1, [0x2179, 0x0, 0x0])]"

definition lowercase_mappings_7 :: "(nat \<times> nat \<times> nat list) list" where
  "lowercase_mappings_7 =
     [(0x216A, 1, [0x217A, 0x0, 0x0]), (0x216B, 1, [0x217B, 0x0, 0x0]), (0x216C, 1, [0x217C, 0x0, 0x0]),
      (0x216D, 1, [0x217D, 0x0, 0x0]), (0x216E, 1, [0x217E, 0x0, 0x0]), (0x216F, 1, [0x217F, 0x0, 0x0]),
      (0x2183, 1, [0x2184, 0x0, 0x0]), (0x24B6, 1, [0x24D0, 0x0, 0x0]), (0x24B7, 1, [0x24D1, 0x0, 0x0]),
      (0x24B8, 1, [0x24D2, 0x0, 0x0]), (0x24B9, 1, [0x24D3, 0x0, 0x0]), (0x24BA, 1, [0x24D4, 0x0, 0x0]),
      (0x24BB, 1, [0x24D5, 0x0, 0x0]), (0x24BC, 1, [0x24D6, 0x0, 0x0]), (0x24BD, 1, [0x24D7, 0x0, 0x0]),
      (0x24BE, 1, [0x24D8, 0x0, 0x0]), (0x24BF, 1, [0x24D9, 0x0, 0x0]), (0x24C0, 1, [0x24DA, 0x0, 0x0]),
      (0x24C1, 1, [0x24DB, 0x0, 0x0]), (0x24C2, 1, [0x24DC, 0x0, 0x0]), (0x24C3, 1, [0x24DD, 0x0, 0x0]),
      (0x24C4, 1, [0x24DE, 0x0, 0x0]), (0x24C5, 1, [0x24DF, 0x0, 0x0]), (0x24C6, 1, [0x24E0, 0x0, 0x0]),
      (0x24C7, 1, [0x24E1, 0x0, 0x0]), (0x24C8, 1, [0x24E2, 0x0, 0x0]), (0x24C9, 1, [0x24E3, 0x0, 0x0]),
      (0x24CA, 1, [0x24E4, 0x0, 0x0]), (0x24CB, 1, [0x24E5, 0x0, 0x0]), (0x24CC, 1, [0x24E6, 0x0, 0x0]),
      (0x24CD, 1, [0x24E7, 0x0, 0x0]), (0x24CE, 1, [0x24E8, 0x0, 0x0]), (0x24CF, 1, [0x24E9, 0x0, 0x0]),
      (0x2C00, 1, [0x2C30, 0x0, 0x0]), (0x2C01, 1, [0x2C31, 0x0, 0x0]), (0x2C02, 1, [0x2C32, 0x0, 0x0]),
      (0x2C03, 1, [0x2C33, 0x0, 0x0]), (0x2C04, 1, [0x2C34, 0x0, 0x0]), (0x2C05, 1, [0x2C35, 0x0, 0x0]),
      (0x2C06, 1, [0x2C36, 0x0, 0x0]), (0x2C07, 1, [0x2C37, 0x0, 0x0]), (0x2C08, 1, [0x2C38, 0x0, 0x0]),
      (0x2C09, 1, [0x2C39, 0x0, 0x0]), (0x2C0A, 1, [0x2C3A, 0x0, 0x0]), (0x2C0B, 1, [0x2C3B, 0x0, 0x0]),
      (0x2C0C, 1, [0x2C3C, 0x0, 0x0]), (0x2C0D, 1, [0x2C3D, 0x0, 0x0]), (0x2C0E, 1, [0x2C3E, 0x0, 0x0]),
      (0x2C0F, 1, [0x2C3F, 0x0, 0x0]), (0x2C10, 1, [0x2C40, 0x0, 0x0]), (0x2C11, 1, [0x2C41, 0x0, 0x0]),
      (0x2C12, 1, [0x2C42, 0x0, 0x0]), (0x2C13, 1, [0x2C43, 0x0, 0x0]), (0x2C14, 1, [0x2C44, 0x0, 0x0]),
      (0x2C15, 1, [0x2C45, 0x0, 0x0]), (0x2C16, 1, [0x2C46, 0x0, 0x0]), (0x2C17, 1, [0x2C47, 0x0, 0x0]),
      (0x2C18, 1, [0x2C48, 0x0, 0x0]), (0x2C19, 1, [0x2C49, 0x0, 0x0]), (0x2C1A, 1, [0x2C4A, 0x0, 0x0]),
      (0x2C1B, 1, [0x2C4B, 0x0, 0x0]), (0x2C1C, 1, [0x2C4C, 0x0, 0x0]), (0x2C1D, 1, [0x2C4D, 0x0, 0x0]),
      (0x2C1E, 1, [0x2C4E, 0x0, 0x0]), (0x2C1F, 1, [0x2C4F, 0x0, 0x0]), (0x2C20, 1, [0x2C50, 0x0, 0x0]),
      (0x2C21, 1, [0x2C51, 0x0, 0x0]), (0x2C22, 1, [0x2C52, 0x0, 0x0]), (0x2C23, 1, [0x2C53, 0x0, 0x0]),
      (0x2C24, 1, [0x2C54, 0x0, 0x0]), (0x2C25, 1, [0x2C55, 0x0, 0x0]), (0x2C26, 1, [0x2C56, 0x0, 0x0]),
      (0x2C27, 1, [0x2C57, 0x0, 0x0]), (0x2C28, 1, [0x2C58, 0x0, 0x0]), (0x2C29, 1, [0x2C59, 0x0, 0x0]),
      (0x2C2A, 1, [0x2C5A, 0x0, 0x0]), (0x2C2B, 1, [0x2C5B, 0x0, 0x0]), (0x2C2C, 1, [0x2C5C, 0x0, 0x0]),
      (0x2C2D, 1, [0x2C5D, 0x0, 0x0]), (0x2C2E, 1, [0x2C5E, 0x0, 0x0]), (0x2C2F, 1, [0x2C5F, 0x0, 0x0]),
      (0x2C60, 1, [0x2C61, 0x0, 0x0]), (0x2C62, 1, [0x26B, 0x0, 0x0]), (0x2C63, 1, [0x1D7D, 0x0, 0x0]),
      (0x2C64, 1, [0x27D, 0x0, 0x0]), (0x2C67, 1, [0x2C68, 0x0, 0x0]), (0x2C69, 1, [0x2C6A, 0x0, 0x0]),
      (0x2C6B, 1, [0x2C6C, 0x0, 0x0]), (0x2C6D, 1, [0x251, 0x0, 0x0]), (0x2C6E, 1, [0x271, 0x0, 0x0]),
      (0x2C6F, 1, [0x250, 0x0, 0x0]), (0x2C70, 1, [0x252, 0x0, 0x0]), (0x2C72, 1, [0x2C73, 0x0, 0x0]),
      (0x2C75, 1, [0x2C76, 0x0, 0x0]), (0x2C7E, 1, [0x23F, 0x0, 0x0]), (0x2C7F, 1, [0x240, 0x0, 0x0]),
      (0x2C80, 1, [0x2C81, 0x0, 0x0]), (0x2C82, 1, [0x2C83, 0x0, 0x0]), (0x2C84, 1, [0x2C85, 0x0, 0x0]),
      (0x2C86, 1, [0x2C87, 0x0, 0x0]), (0x2C88, 1, [0x2C89, 0x0, 0x0]), (0x2C8A, 1, [0x2C8B, 0x0, 0x0]),
      (0x2C8C, 1, [0x2C8D, 0x0, 0x0]), (0x2C8E, 1, [0x2C8F, 0x0, 0x0]), (0x2C90, 1, [0x2C91, 0x0, 0x0]),
      (0x2C92, 1, [0x2C93, 0x0, 0x0]), (0x2C94, 1, [0x2C95, 0x0, 0x0]), (0x2C96, 1, [0x2C97, 0x0, 0x0]),
      (0x2C98, 1, [0x2C99, 0x0, 0x0]), (0x2C9A, 1, [0x2C9B, 0x0, 0x0]), (0x2C9C, 1, [0x2C9D, 0x0, 0x0]),
      (0x2C9E, 1, [0x2C9F, 0x0, 0x0]), (0x2CA0, 1, [0x2CA1, 0x0, 0x0]), (0x2CA2, 1, [0x2CA3, 0x0, 0x0]),
      (0x2CA4, 1, [0x2CA5, 0x0, 0x0]), (0x2CA6, 1, [0x2CA7, 0x0, 0x0]), (0x2CA8, 1, [0x2CA9, 0x0, 0x0]),
      (0x2CAA, 1, [0x2CAB, 0x0, 0x0]), (0x2CAC, 1, [0x2CAD, 0x0, 0x0]), (0x2CAE, 1, [0x2CAF, 0x0, 0x0]),
      (0x2CB0, 1, [0x2CB1, 0x0, 0x0]), (0x2CB2, 1, [0x2CB3, 0x0, 0x0]), (0x2CB4, 1, [0x2CB5, 0x0, 0x0]),
      (0x2CB6, 1, [0x2CB7, 0x0, 0x0]), (0x2CB8, 1, [0x2CB9, 0x0, 0x0]), (0x2CBA, 1, [0x2CBB, 0x0, 0x0]),
      (0x2CBC, 1, [0x2CBD, 0x0, 0x0]), (0x2CBE, 1, [0x2CBF, 0x0, 0x0]), (0x2CC0, 1, [0x2CC1, 0x0, 0x0]),
      (0x2CC2, 1, [0x2CC3, 0x0, 0x0]), (0x2CC4, 1, [0x2CC5, 0x0, 0x0]), (0x2CC6, 1, [0x2CC7, 0x0, 0x0]),
      (0x2CC8, 1, [0x2CC9, 0x0, 0x0]), (0x2CCA, 1, [0x2CCB, 0x0, 0x0]), (0x2CCC, 1, [0x2CCD, 0x0, 0x0]),
      (0x2CCE, 1, [0x2CCF, 0x0, 0x0]), (0x2CD0, 1, [0x2CD1, 0x0, 0x0]), (0x2CD2, 1, [0x2CD3, 0x0, 0x0]),
      (0x2CD4, 1, [0x2CD5, 0x0, 0x0]), (0x2CD6, 1, [0x2CD7, 0x0, 0x0]), (0x2CD8, 1, [0x2CD9, 0x0, 0x0]),
      (0x2CDA, 1, [0x2CDB, 0x0, 0x0]), (0x2CDC, 1, [0x2CDD, 0x0, 0x0]), (0x2CDE, 1, [0x2CDF, 0x0, 0x0]),
      (0x2CE0, 1, [0x2CE1, 0x0, 0x0]), (0x2CE2, 1, [0x2CE3, 0x0, 0x0])]"

definition lowercase_mappings_8 :: "(nat \<times> nat \<times> nat list) list" where
  "lowercase_mappings_8 =
     [(0x2CEB, 1, [0x2CEC, 0x0, 0x0]), (0x2CED, 1, [0x2CEE, 0x0, 0x0]), (0x2CF2, 1, [0x2CF3, 0x0, 0x0]),
      (0xA640, 1, [0xA641, 0x0, 0x0]), (0xA642, 1, [0xA643, 0x0, 0x0]), (0xA644, 1, [0xA645, 0x0, 0x0]),
      (0xA646, 1, [0xA647, 0x0, 0x0]), (0xA648, 1, [0xA649, 0x0, 0x0]), (0xA64A, 1, [0xA64B, 0x0, 0x0]),
      (0xA64C, 1, [0xA64D, 0x0, 0x0]), (0xA64E, 1, [0xA64F, 0x0, 0x0]), (0xA650, 1, [0xA651, 0x0, 0x0]),
      (0xA652, 1, [0xA653, 0x0, 0x0]), (0xA654, 1, [0xA655, 0x0, 0x0]), (0xA656, 1, [0xA657, 0x0, 0x0]),
      (0xA658, 1, [0xA659, 0x0, 0x0]), (0xA65A, 1, [0xA65B, 0x0, 0x0]), (0xA65C, 1, [0xA65D, 0x0, 0x0]),
      (0xA65E, 1, [0xA65F, 0x0, 0x0]), (0xA660, 1, [0xA661, 0x0, 0x0]), (0xA662, 1, [0xA663, 0x0, 0x0]),
      (0xA664, 1, [0xA665, 0x0, 0x0]), (0xA666, 1, [0xA667, 0x0, 0x0]), (0xA668, 1, [0xA669, 0x0, 0x0]),
      (0xA66A, 1, [0xA66B, 0x0, 0x0]), (0xA66C, 1, [0xA66D, 0x0, 0x0]), (0xA680, 1, [0xA681, 0x0, 0x0]),
      (0xA682, 1, [0xA683, 0x0, 0x0]), (0xA684, 1, [0xA685, 0x0, 0x0]), (0xA686, 1, [0xA687, 0x0, 0x0]),
      (0xA688, 1, [0xA689, 0x0, 0x0]), (0xA68A, 1, [0xA68B, 0x0, 0x0]), (0xA68C, 1, [0xA68D, 0x0, 0x0]),
      (0xA68E, 1, [0xA68F, 0x0, 0x0]), (0xA690, 1, [0xA691, 0x0, 0x0]), (0xA692, 1, [0xA693, 0x0, 0x0]),
      (0xA694, 1, [0xA695, 0x0, 0x0]), (0xA696, 1, [0xA697, 0x0, 0x0]), (0xA698, 1, [0xA699, 0x0, 0x0]),
      (0xA69A, 1, [0xA69B, 0x0, 0x0]), (0xA722, 1, [0xA723, 0x0, 0x0]), (0xA724, 1, [0xA725, 0x0, 0x0]),
      (0xA726, 1, [0xA727, 0x0, 0x0]), (0xA728, 1, [0xA729, 0x0, 0x0]), (0xA72A, 1, [0xA72B, 0x0, 0x0]),
      (0xA72C, 1, [0xA72D, 0x0, 0x0]), (0xA72E, 1, [0xA72F, 0x0, 0x0]), (0xA732, 1, [0xA733, 0x0, 0x0]),
      (0xA734, 1, [0xA735, 0x0, 0x0]), (0xA736, 1, [0xA737, 0x0, 0x0]), (0xA738, 1, [0xA739, 0x0, 0x0]),
      (0xA73A, 1, [0xA73B, 0x0, 0x0]), (0xA73C, 1, [0xA73D, 0x0, 0x0]), (0xA73E, 1, [0xA73F, 0x0, 0x0]),
      (0xA740, 1, [0xA741, 0x0, 0x0]), (0xA742, 1, [0xA743, 0x0, 0x0]), (0xA744, 1, [0xA745, 0x0, 0x0]),
      (0xA746, 1, [0xA747, 0x0, 0x0]), (0xA748, 1, [0xA749, 0x0, 0x0]), (0xA74A, 1, [0xA74B, 0x0, 0x0]),
      (0xA74C, 1, [0xA74D, 0x0, 0x0]), (0xA74E, 1, [0xA74F, 0x0, 0x0]), (0xA750, 1, [0xA751, 0x0, 0x0]),
      (0xA752, 1, [0xA753, 0x0, 0x0]), (0xA754, 1, [0xA755, 0x0, 0x0]), (0xA756, 1, [0xA757, 0x0, 0x0]),
      (0xA758, 1, [0xA759, 0x0, 0x0]), (0xA75A, 1, [0xA75B, 0x0, 0x0]), (0xA75C, 1, [0xA75D, 0x0, 0x0]),
      (0xA75E, 1, [0xA75F, 0x0, 0x0]), (0xA760, 1, [0xA761, 0x0, 0x0]), (0xA762, 1, [0xA763, 0x0, 0x0]),
      (0xA764, 1, [0xA765, 0x0, 0x0]), (0xA766, 1, [0xA767, 0x0, 0x0]), (0xA768, 1, [0xA769, 0x0, 0x0]),
      (0xA76A, 1, [0xA76B, 0x0, 0x0]), (0xA76C, 1, [0xA76D, 0x0, 0x0]), (0xA76E, 1, [0xA76F, 0x0, 0x0]),
      (0xA779, 1, [0xA77A, 0x0, 0x0]), (0xA77B, 1, [0xA77C, 0x0, 0x0]), (0xA77D, 1, [0x1D79, 0x0, 0x0]),
      (0xA77E, 1, [0xA77F, 0x0, 0x0]), (0xA780, 1, [0xA781, 0x0, 0x0]), (0xA782, 1, [0xA783, 0x0, 0x0]),
      (0xA784, 1, [0xA785, 0x0, 0x0]), (0xA786, 1, [0xA787, 0x0, 0x0]), (0xA78B, 1, [0xA78C, 0x0, 0x0]),
      (0xA78D, 1, [0x265, 0x0, 0x0]), (0xA790, 1, [0xA791, 0x0, 0x0]), (0xA792, 1, [0xA793, 0x0, 0x0]),
      (0xA796, 1, [0xA797, 0x0, 0x0]), (0xA798, 1, [0xA799, 0x0, 0x0]), (0xA79A, 1, [0xA79B, 0x0, 0x0]),
      (0xA79C, 1, [0xA79D, 0x0, 0x0]), (0xA79E, 1, [0xA79F, 0x0, 0x0]), (0xA7A0, 1, [0xA7A1, 0x0, 0x0]),
      (0xA7A2, 1, [0xA7A3, 0x0, 0x0]), (0xA7A4, 1, [0xA7A5, 0x0, 0x0]), (0xA7A6, 1, [0xA7A7, 0x0, 0x0]),
      (0xA7A8, 1, [0xA7A9, 0x0, 0x0]), (0xA7AA, 1, [0x266, 0x0, 0x0]), (0xA7AB, 1, [0x25C, 0x0, 0x0]),
      (0xA7AC, 1, [0x261, 0x0, 0x0]), (0xA7AD, 1, [0x26C, 0x0, 0x0]), (0xA7AE, 1, [0x26A, 0x0, 0x0]),
      (0xA7B0, 1, [0x29E, 0x0, 0x0]), (0xA7B1, 1, [0x287, 0x0, 0x0]), (0xA7B2, 1, [0x29D, 0x0, 0x0]),
      (0xA7B3, 1, [0xAB53, 0x0, 0x0]), (0xA7B4, 1, [0xA7B5, 0x0, 0x0]), (0xA7B6, 1, [0xA7B7, 0x0, 0x0]),
      (0xA7B8, 1, [0xA7B9, 0x0, 0x0]), (0xA7BA, 1, [0xA7BB, 0x0, 0x0]), (0xA7BC, 1, [0xA7BD, 0x0, 0x0]),
      (0xA7BE, 1, [0xA7BF, 0x0, 0x0]), (0xA7C0, 1, [0xA7C1, 0x0, 0x0]), (0xA7C2, 1, [0xA7C3, 0x0, 0x0]),
      (0xA7C4, 1, [0xA794, 0x0, 0x0]), (0xA7C5, 1, [0x282, 0x0, 0x0]), (0xA7C6, 1, [0x1D8E, 0x0, 0x0]),
      (0xA7C7, 1, [0xA7C8, 0x0, 0x0]), (0xA7C9, 1, [0xA7CA, 0x0, 0x0]), (0xA7CB, 1, [0x264, 0x0, 0x0]),
      (0xA7CC, 1, [0xA7CD, 0x0, 0x0]), (0xA7D0, 1, [0xA7D1, 0x0, 0x0]), (0xA7D6, 1, [0xA7D7, 0x0, 0x0]),
      (0xA7D8, 1, [0xA7D9, 0x0, 0x0]), (0xA7DA, 1, [0xA7DB, 0x0, 0x0]), (0xA7DC, 1, [0x19B, 0x0, 0x0]),
      (0xA7F5, 1, [0xA7F6, 0x0, 0x0]), (0xFF21, 1, [0xFF41, 0x0, 0x0]), (0xFF22, 1, [0xFF42, 0x0, 0x0]),
      (0xFF23, 1, [0xFF43, 0x0, 0x0]), (0xFF24, 1, [0xFF44, 0x0, 0x0]), (0xFF25, 1, [0xFF45, 0x0, 0x0]),
      (0xFF26, 1, [0xFF46, 0x0, 0x0]), (0xFF27, 1, [0xFF47, 0x0, 0x0]), (0xFF28, 1, [0xFF48, 0x0, 0x0]),
      (0xFF29, 1, [0xFF49, 0x0, 0x0]), (0xFF2A, 1, [0xFF4A, 0x0, 0x0]), (0xFF2B, 1, [0xFF4B, 0x0, 0x0]),
      (0xFF2C, 1, [0xFF4C, 0x0, 0x0]), (0xFF2D, 1, [0xFF4D, 0x0, 0x0]), (0xFF2E, 1, [0xFF4E, 0x0, 0x0]),
      (0xFF2F, 1, [0xFF4F, 0x0, 0x0]), (0xFF30, 1, [0xFF50, 0x0, 0x0])]"

definition lowercase_mappings_9 :: "(nat \<times> nat \<times> nat list) list" where
  "lowercase_mappings_9 =
     [(0xFF31, 1, [0xFF51, 0x0, 0x0]), (0xFF32, 1, [0xFF52, 0x0, 0x0]), (0xFF33, 1, [0xFF53, 0x0, 0x0]),
      (0xFF34, 1, [0xFF54, 0x0, 0x0]), (0xFF35, 1, [0xFF55, 0x0, 0x0]), (0xFF36, 1, [0xFF56, 0x0, 0x0]),
      (0xFF37, 1, [0xFF57, 0x0, 0x0]), (0xFF38, 1, [0xFF58, 0x0, 0x0]), (0xFF39, 1, [0xFF59, 0x0, 0x0]),
      (0xFF3A, 1, [0xFF5A, 0x0, 0x0]), (0x10400, 1, [0x10428, 0x0, 0x0]), (0x10401, 1, [0x10429, 0x0, 0x0]),
      (0x10402, 1, [0x1042A, 0x0, 0x0]), (0x10403, 1, [0x1042B, 0x0, 0x0]), (0x10404, 1, [0x1042C, 0x0, 0x0]),
      (0x10405, 1, [0x1042D, 0x0, 0x0]), (0x10406, 1, [0x1042E, 0x0, 0x0]), (0x10407, 1, [0x1042F, 0x0, 0x0]),
      (0x10408, 1, [0x10430, 0x0, 0x0]), (0x10409, 1, [0x10431, 0x0, 0x0]), (0x1040A, 1, [0x10432, 0x0, 0x0]),
      (0x1040B, 1, [0x10433, 0x0, 0x0]), (0x1040C, 1, [0x10434, 0x0, 0x0]), (0x1040D, 1, [0x10435, 0x0, 0x0]),
      (0x1040E, 1, [0x10436, 0x0, 0x0]), (0x1040F, 1, [0x10437, 0x0, 0x0]), (0x10410, 1, [0x10438, 0x0, 0x0]),
      (0x10411, 1, [0x10439, 0x0, 0x0]), (0x10412, 1, [0x1043A, 0x0, 0x0]), (0x10413, 1, [0x1043B, 0x0, 0x0]),
      (0x10414, 1, [0x1043C, 0x0, 0x0]), (0x10415, 1, [0x1043D, 0x0, 0x0]), (0x10416, 1, [0x1043E, 0x0, 0x0]),
      (0x10417, 1, [0x1043F, 0x0, 0x0]), (0x10418, 1, [0x10440, 0x0, 0x0]), (0x10419, 1, [0x10441, 0x0, 0x0]),
      (0x1041A, 1, [0x10442, 0x0, 0x0]), (0x1041B, 1, [0x10443, 0x0, 0x0]), (0x1041C, 1, [0x10444, 0x0, 0x0]),
      (0x1041D, 1, [0x10445, 0x0, 0x0]), (0x1041E, 1, [0x10446, 0x0, 0x0]), (0x1041F, 1, [0x10447, 0x0, 0x0]),
      (0x10420, 1, [0x10448, 0x0, 0x0]), (0x10421, 1, [0x10449, 0x0, 0x0]), (0x10422, 1, [0x1044A, 0x0, 0x0]),
      (0x10423, 1, [0x1044B, 0x0, 0x0]), (0x10424, 1, [0x1044C, 0x0, 0x0]), (0x10425, 1, [0x1044D, 0x0, 0x0]),
      (0x10426, 1, [0x1044E, 0x0, 0x0]), (0x10427, 1, [0x1044F, 0x0, 0x0]), (0x104B0, 1, [0x104D8, 0x0, 0x0]),
      (0x104B1, 1, [0x104D9, 0x0, 0x0]), (0x104B2, 1, [0x104DA, 0x0, 0x0]), (0x104B3, 1, [0x104DB, 0x0, 0x0]),
      (0x104B4, 1, [0x104DC, 0x0, 0x0]), (0x104B5, 1, [0x104DD, 0x0, 0x0]), (0x104B6, 1, [0x104DE, 0x0, 0x0]),
      (0x104B7, 1, [0x104DF, 0x0, 0x0]), (0x104B8, 1, [0x104E0, 0x0, 0x0]), (0x104B9, 1, [0x104E1, 0x0, 0x0]),
      (0x104BA, 1, [0x104E2, 0x0, 0x0]), (0x104BB, 1, [0x104E3, 0x0, 0x0]), (0x104BC, 1, [0x104E4, 0x0, 0x0]),
      (0x104BD, 1, [0x104E5, 0x0, 0x0]), (0x104BE, 1, [0x104E6, 0x0, 0x0]), (0x104BF, 1, [0x104E7, 0x0, 0x0]),
      (0x104C0, 1, [0x104E8, 0x0, 0x0]), (0x104C1, 1, [0x104E9, 0x0, 0x0]), (0x104C2, 1, [0x104EA, 0x0, 0x0]),
      (0x104C3, 1, [0x104EB, 0x0, 0x0]), (0x104C4, 1, [0x104EC, 0x0, 0x0]), (0x104C5, 1, [0x104ED, 0x0, 0x0]),
      (0x104C6, 1, [0x104EE, 0x0, 0x0]), (0x104C7, 1, [0x104EF, 0x0, 0x0]), (0x104C8, 1, [0x104F0, 0x0, 0x0]),
      (0x104C9, 1, [0x104F1, 0x0, 0x0]), (0x104CA, 1, [0x104F2, 0x0, 0x0]), (0x104CB, 1, [0x104F3, 0x0, 0x0]),
      (0x104CC, 1, [0x104F4, 0x0, 0x0]), (0x104CD, 1, [0x104F5, 0x0, 0x0]), (0x104CE, 1, [0x104F6, 0x0, 0x0]),
      (0x104CF, 1, [0x104F7, 0x0, 0x0]), (0x104D0, 1, [0x104F8, 0x0, 0x0]), (0x104D1, 1, [0x104F9, 0x0, 0x0]),
      (0x104D2, 1, [0x104FA, 0x0, 0x0]), (0x104D3, 1, [0x104FB, 0x0, 0x0]), (0x10570, 1, [0x10597, 0x0, 0x0]),
      (0x10571, 1, [0x10598, 0x0, 0x0]), (0x10572, 1, [0x10599, 0x0, 0x0]), (0x10573, 1, [0x1059A, 0x0, 0x0]),
      (0x10574, 1, [0x1059B, 0x0, 0x0]), (0x10575, 1, [0x1059C, 0x0, 0x0]), (0x10576, 1, [0x1059D, 0x0, 0x0]),
      (0x10577, 1, [0x1059E, 0x0, 0x0]), (0x10578, 1, [0x1059F, 0x0, 0x0]), (0x10579, 1, [0x105A0, 0x0, 0x0]),
      (0x1057A, 1, [0x105A1, 0x0, 0x0]), (0x1057C, 1, [0x105A3, 0x0, 0x0]), (0x1057D, 1, [0x105A4, 0x0, 0x0]),
      (0x1057E, 1, [0x105A5, 0x0, 0x0]), (0x1057F, 1, [0x105A6, 0x0, 0x0]), (0x10580, 1, [0x105A7, 0x0, 0x0]),
      (0x10581, 1, [0x105A8, 0x0, 0x0]), (0x10582, 1, [0x105A9, 0x0, 0x0]), (0x10583, 1, [0x105AA, 0x0, 0x0]),
      (0x10584, 1, [0x105AB, 0x0, 0x0]), (0x10585, 1, [0x105AC, 0x0, 0x0]), (0x10586, 1, [0x105AD, 0x0, 0x0]),
      (0x10587, 1, [0x105AE, 0x0, 0x0]), (0x10588, 1, [0x105AF, 0x0, 0x0]), (0x10589, 1, [0x105B0, 0x0, 0x0]),
      (0x1058A, 1, [0x105B1, 0x0, 0x0]), (0x1058C, 1, [0x105B3, 0x0, 0x0]), (0x1058D, 1, [0x105B4, 0x0, 0x0]),
      (0x1058E, 1, [0x105B5, 0x0, 0x0]), (0x1058F, 1, [0x105B6, 0x0, 0x0]), (0x10590, 1, [0x105B7, 0x0, 0x0]),
      (0x10591, 1, [0x105B8, 0x0, 0x0]), (0x10592, 1, [0x105B9, 0x0, 0x0]), (0x10594, 1, [0x105BB, 0x0, 0x0]),
      (0x10595, 1, [0x105BC, 0x0, 0x0]), (0x10C80, 1, [0x10CC0, 0x0, 0x0]), (0x10C81, 1, [0x10CC1, 0x0, 0x0]),
      (0x10C82, 1, [0x10CC2, 0x0, 0x0]), (0x10C83, 1, [0x10CC3, 0x0, 0x0]), (0x10C84, 1, [0x10CC4, 0x0, 0x0]),
      (0x10C85, 1, [0x10CC5, 0x0, 0x0]), (0x10C86, 1, [0x10CC6, 0x0, 0x0]), (0x10C87, 1, [0x10CC7, 0x0, 0x0]),
      (0x10C88, 1, [0x10CC8, 0x0, 0x0]), (0x10C89, 1, [0x10CC9, 0x0, 0x0]), (0x10C8A, 1, [0x10CCA, 0x0, 0x0]),
      (0x10C8B, 1, [0x10CCB, 0x0, 0x0]), (0x10C8C, 1, [0x10CCC, 0x0, 0x0]), (0x10C8D, 1, [0x10CCD, 0x0, 0x0]),
      (0x10C8E, 1, [0x10CCE, 0x0, 0x0]), (0x10C8F, 1, [0x10CCF, 0x0, 0x0]), (0x10C90, 1, [0x10CD0, 0x0, 0x0]),
      (0x10C91, 1, [0x10CD1, 0x0, 0x0]), (0x10C92, 1, [0x10CD2, 0x0, 0x0]), (0x10C93, 1, [0x10CD3, 0x0, 0x0]),
      (0x10C94, 1, [0x10CD4, 0x0, 0x0]), (0x10C95, 1, [0x10CD5, 0x0, 0x0]), (0x10C96, 1, [0x10CD6, 0x0, 0x0]),
      (0x10C97, 1, [0x10CD7, 0x0, 0x0]), (0x10C98, 1, [0x10CD8, 0x0, 0x0])]"

definition lowercase_mappings_10 :: "(nat \<times> nat \<times> nat list) list" where
  "lowercase_mappings_10 =
     [(0x10C99, 1, [0x10CD9, 0x0, 0x0]), (0x10C9A, 1, [0x10CDA, 0x0, 0x0]), (0x10C9B, 1, [0x10CDB, 0x0, 0x0]),
      (0x10C9C, 1, [0x10CDC, 0x0, 0x0]), (0x10C9D, 1, [0x10CDD, 0x0, 0x0]), (0x10C9E, 1, [0x10CDE, 0x0, 0x0]),
      (0x10C9F, 1, [0x10CDF, 0x0, 0x0]), (0x10CA0, 1, [0x10CE0, 0x0, 0x0]), (0x10CA1, 1, [0x10CE1, 0x0, 0x0]),
      (0x10CA2, 1, [0x10CE2, 0x0, 0x0]), (0x10CA3, 1, [0x10CE3, 0x0, 0x0]), (0x10CA4, 1, [0x10CE4, 0x0, 0x0]),
      (0x10CA5, 1, [0x10CE5, 0x0, 0x0]), (0x10CA6, 1, [0x10CE6, 0x0, 0x0]), (0x10CA7, 1, [0x10CE7, 0x0, 0x0]),
      (0x10CA8, 1, [0x10CE8, 0x0, 0x0]), (0x10CA9, 1, [0x10CE9, 0x0, 0x0]), (0x10CAA, 1, [0x10CEA, 0x0, 0x0]),
      (0x10CAB, 1, [0x10CEB, 0x0, 0x0]), (0x10CAC, 1, [0x10CEC, 0x0, 0x0]), (0x10CAD, 1, [0x10CED, 0x0, 0x0]),
      (0x10CAE, 1, [0x10CEE, 0x0, 0x0]), (0x10CAF, 1, [0x10CEF, 0x0, 0x0]), (0x10CB0, 1, [0x10CF0, 0x0, 0x0]),
      (0x10CB1, 1, [0x10CF1, 0x0, 0x0]), (0x10CB2, 1, [0x10CF2, 0x0, 0x0]), (0x10D50, 1, [0x10D70, 0x0, 0x0]),
      (0x10D51, 1, [0x10D71, 0x0, 0x0]), (0x10D52, 1, [0x10D72, 0x0, 0x0]), (0x10D53, 1, [0x10D73, 0x0, 0x0]),
      (0x10D54, 1, [0x10D74, 0x0, 0x0]), (0x10D55, 1, [0x10D75, 0x0, 0x0]), (0x10D56, 1, [0x10D76, 0x0, 0x0]),
      (0x10D57, 1, [0x10D77, 0x0, 0x0]), (0x10D58, 1, [0x10D78, 0x0, 0x0]), (0x10D59, 1, [0x10D79, 0x0, 0x0]),
      (0x10D5A, 1, [0x10D7A, 0x0, 0x0]), (0x10D5B, 1, [0x10D7B, 0x0, 0x0]), (0x10D5C, 1, [0x10D7C, 0x0, 0x0]),
      (0x10D5D, 1, [0x10D7D, 0x0, 0x0]), (0x10D5E, 1, [0x10D7E, 0x0, 0x0]), (0x10D5F, 1, [0x10D7F, 0x0, 0x0]),
      (0x10D60, 1, [0x10D80, 0x0, 0x0]), (0x10D61, 1, [0x10D81, 0x0, 0x0]), (0x10D62, 1, [0x10D82, 0x0, 0x0]),
      (0x10D63, 1, [0x10D83, 0x0, 0x0]), (0x10D64, 1, [0x10D84, 0x0, 0x0]), (0x10D65, 1, [0x10D85, 0x0, 0x0]),
      (0x118A0, 1, [0x118C0, 0x0, 0x0]), (0x118A1, 1, [0x118C1, 0x0, 0x0]), (0x118A2, 1, [0x118C2, 0x0, 0x0]),
      (0x118A3, 1, [0x118C3, 0x0, 0x0]), (0x118A4, 1, [0x118C4, 0x0, 0x0]), (0x118A5, 1, [0x118C5, 0x0, 0x0]),
      (0x118A6, 1, [0x118C6, 0x0, 0x0]), (0x118A7, 1, [0x118C7, 0x0, 0x0]), (0x118A8, 1, [0x118C8, 0x0, 0x0]),
      (0x118A9, 1, [0x118C9, 0x0, 0x0]), (0x118AA, 1, [0x118CA, 0x0, 0x0]), (0x118AB, 1, [0x118CB, 0x0, 0x0]),
      (0x118AC, 1, [0x118CC, 0x0, 0x0]), (0x118AD, 1, [0x118CD, 0x0, 0x0]), (0x118AE, 1, [0x118CE, 0x0, 0x0]),
      (0x118AF, 1, [0x118CF, 0x0, 0x0]), (0x118B0, 1, [0x118D0, 0x0, 0x0]), (0x118B1, 1, [0x118D1, 0x0, 0x0]),
      (0x118B2, 1, [0x118D2, 0x0, 0x0]), (0x118B3, 1, [0x118D3, 0x0, 0x0]), (0x118B4, 1, [0x118D4, 0x0, 0x0]),
      (0x118B5, 1, [0x118D5, 0x0, 0x0]), (0x118B6, 1, [0x118D6, 0x0, 0x0]), (0x118B7, 1, [0x118D7, 0x0, 0x0]),
      (0x118B8, 1, [0x118D8, 0x0, 0x0]), (0x118B9, 1, [0x118D9, 0x0, 0x0]), (0x118BA, 1, [0x118DA, 0x0, 0x0]),
      (0x118BB, 1, [0x118DB, 0x0, 0x0]), (0x118BC, 1, [0x118DC, 0x0, 0x0]), (0x118BD, 1, [0x118DD, 0x0, 0x0]),
      (0x118BE, 1, [0x118DE, 0x0, 0x0]), (0x118BF, 1, [0x118DF, 0x0, 0x0]), (0x16E40, 1, [0x16E60, 0x0, 0x0]),
      (0x16E41, 1, [0x16E61, 0x0, 0x0]), (0x16E42, 1, [0x16E62, 0x0, 0x0]), (0x16E43, 1, [0x16E63, 0x0, 0x0]),
      (0x16E44, 1, [0x16E64, 0x0, 0x0]), (0x16E45, 1, [0x16E65, 0x0, 0x0]), (0x16E46, 1, [0x16E66, 0x0, 0x0]),
      (0x16E47, 1, [0x16E67, 0x0, 0x0]), (0x16E48, 1, [0x16E68, 0x0, 0x0]), (0x16E49, 1, [0x16E69, 0x0, 0x0]),
      (0x16E4A, 1, [0x16E6A, 0x0, 0x0]), (0x16E4B, 1, [0x16E6B, 0x0, 0x0]), (0x16E4C, 1, [0x16E6C, 0x0, 0x0]),
      (0x16E4D, 1, [0x16E6D, 0x0, 0x0]), (0x16E4E, 1, [0x16E6E, 0x0, 0x0]), (0x16E4F, 1, [0x16E6F, 0x0, 0x0]),
      (0x16E50, 1, [0x16E70, 0x0, 0x0]), (0x16E51, 1, [0x16E71, 0x0, 0x0]), (0x16E52, 1, [0x16E72, 0x0, 0x0]),
      (0x16E53, 1, [0x16E73, 0x0, 0x0]), (0x16E54, 1, [0x16E74, 0x0, 0x0]), (0x16E55, 1, [0x16E75, 0x0, 0x0]),
      (0x16E56, 1, [0x16E76, 0x0, 0x0]), (0x16E57, 1, [0x16E77, 0x0, 0x0]), (0x16E58, 1, [0x16E78, 0x0, 0x0]),
      (0x16E59, 1, [0x16E79, 0x0, 0x0]), (0x16E5A, 1, [0x16E7A, 0x0, 0x0]), (0x16E5B, 1, [0x16E7B, 0x0, 0x0]),
      (0x16E5C, 1, [0x16E7C, 0x0, 0x0]), (0x16E5D, 1, [0x16E7D, 0x0, 0x0]), (0x16E5E, 1, [0x16E7E, 0x0, 0x0]),
      (0x16E5F, 1, [0x16E7F, 0x0, 0x0]), (0x1E900, 1, [0x1E922, 0x0, 0x0]), (0x1E901, 1, [0x1E923, 0x0, 0x0]),
      (0x1E902, 1, [0x1E924, 0x0, 0x0]), (0x1E903, 1, [0x1E925, 0x0, 0x0]), (0x1E904, 1, [0x1E926, 0x0, 0x0]),
      (0x1E905, 1, [0x1E927, 0x0, 0x0]), (0x1E906, 1, [0x1E928, 0x0, 0x0]), (0x1E907, 1, [0x1E929, 0x0, 0x0]),
      (0x1E908, 1, [0x1E92A, 0x0, 0x0]), (0x1E909, 1, [0x1E92B, 0x0, 0x0]), (0x1E90A, 1, [0x1E92C, 0x0, 0x0]),
      (0x1E90B, 1, [0x1E92D, 0x0, 0x0]), (0x1E90C, 1, [0x1E92E, 0x0, 0x0]), (0x1E90D, 1, [0x1E92F, 0x0, 0x0]),
      (0x1E90E, 1, [0x1E930, 0x0, 0x0]), (0x1E90F, 1, [0x1E931, 0x0, 0x0]), (0x1E910, 1, [0x1E932, 0x0, 0x0]),
      (0x1E911, 1, [0x1E933, 0x0, 0x0]), (0x1E912, 1, [0x1E934, 0x0, 0x0]), (0x1E913, 1, [0x1E935, 0x0, 0x0]),
      (0x1E914, 1, [0x1E936, 0x0, 0x0]), (0x1E915, 1, [0x1E937, 0x0, 0x0]), (0x1E916, 1, [0x1E938, 0x0, 0x0]),
      (0x1E917, 1, [0x1E939, 0x0, 0x0]), (0x1E918, 1, [0x1E93A, 0x0, 0x0]), (0x1E919, 1, [0x1E93B, 0x0, 0x0]),
      (0x1E91A, 1, [0x1E93C, 0x0, 0x0]), (0x1E91B, 1, [0x1E93D, 0x0, 0x0]), (0x1E91C, 1, [0x1E93E, 0x0, 0x0]),
      (0x1E91D, 1, [0x1E93F, 0x0, 0x0]), (0x1E91E, 1, [0x1E940, 0x0, 0x0]), (0x1E91F, 1, [0x1E941, 0x0, 0x0]),
      (0x1E920, 1, [0x1E942, 0x0, 0x0]), (0x1E921, 1, [0x1E943, 0x0, 0x0])]"

definition cased_ranges_1 :: "(nat \<times> nat) list" where
  "cased_ranges_1 =
     [(0x41, 0x5A), (0x61, 0x7A), (0xAA, 0xAA), (0xB5, 0xB5), (0xBA, 0xBA), (0xC0, 0xD6),
      (0xD8, 0xF6), (0xF8, 0x1BA), (0x1BC, 0x1BF), (0x1C4, 0x293), (0x295, 0x2AF), (0x2B0, 0x2B8),
      (0x2C0, 0x2C1), (0x2E0, 0x2E4), (0x345, 0x345), (0x370, 0x373), (0x376, 0x377), (0x37A, 0x37A),
      (0x37B, 0x37D), (0x37F, 0x37F), (0x386, 0x386), (0x388, 0x38A), (0x38C, 0x38C), (0x38E, 0x3A1),
      (0x3A3, 0x3F5), (0x3F7, 0x481), (0x48A, 0x52F), (0x531, 0x556), (0x560, 0x588), (0x10A0, 0x10C5),
      (0x10C7, 0x10C7), (0x10CD, 0x10CD), (0x10D0, 0x10FA), (0x10FC, 0x10FC), (0x10FD, 0x10FF), (0x13A0, 0x13F5),
      (0x13F8, 0x13FD), (0x1C80, 0x1C8A), (0x1C90, 0x1CBA), (0x1CBD, 0x1CBF), (0x1D00, 0x1D2B), (0x1D2C, 0x1D6A),
      (0x1D6B, 0x1D77), (0x1D78, 0x1D78), (0x1D79, 0x1D9A), (0x1D9B, 0x1DBF), (0x1E00, 0x1F15), (0x1F18, 0x1F1D),
      (0x1F20, 0x1F45), (0x1F48, 0x1F4D), (0x1F50, 0x1F57), (0x1F59, 0x1F59), (0x1F5B, 0x1F5B), (0x1F5D, 0x1F5D),
      (0x1F5F, 0x1F7D), (0x1F80, 0x1FB4), (0x1FB6, 0x1FBC), (0x1FBE, 0x1FBE), (0x1FC2, 0x1FC4), (0x1FC6, 0x1FCC),
      (0x1FD0, 0x1FD3), (0x1FD6, 0x1FDB), (0x1FE0, 0x1FEC), (0x1FF2, 0x1FF4), (0x1FF6, 0x1FFC), (0x2071, 0x2071),
      (0x207F, 0x207F), (0x2090, 0x209C), (0x2102, 0x2102), (0x2107, 0x2107), (0x210A, 0x2113), (0x2115, 0x2115),
      (0x2119, 0x211D), (0x2124, 0x2124), (0x2126, 0x2126), (0x2128, 0x2128), (0x212A, 0x212D), (0x212F, 0x2134),
      (0x2139, 0x2139), (0x213C, 0x213F), (0x2145, 0x2149), (0x214E, 0x214E), (0x2160, 0x217F), (0x2183, 0x2184),
      (0x24B6, 0x24E9), (0x2C00, 0x2C7B), (0x2C7C, 0x2C7D), (0x2C7E, 0x2CE4)]"

definition cased_ranges_2 :: "(nat \<times> nat) list" where
  "cased_ranges_2 =
     [(0x2CEB, 0x2CEE), (0x2CF2, 0x2CF3), (0x2D00, 0x2D25), (0x2D27, 0x2D27), (0x2D2D, 0x2D2D), (0xA640, 0xA66D),
      (0xA680, 0xA69B), (0xA69C, 0xA69D), (0xA722, 0xA76F), (0xA770, 0xA770), (0xA771, 0xA787), (0xA78B, 0xA78E),
      (0xA790, 0xA7CD), (0xA7D0, 0xA7D1), (0xA7D3, 0xA7D3), (0xA7D5, 0xA7DC), (0xA7F2, 0xA7F4), (0xA7F5, 0xA7F6),
      (0xA7F8, 0xA7F9), (0xA7FA, 0xA7FA), (0xAB30, 0xAB5A), (0xAB5C, 0xAB5F), (0xAB60, 0xAB68), (0xAB69, 0xAB69),
      (0xAB70, 0xABBF), (0xFB00, 0xFB06), (0xFB13, 0xFB17), (0xFF21, 0xFF3A), (0xFF41, 0xFF5A), (0x10400, 0x1044F),
      (0x104B0, 0x104D3), (0x104D8, 0x104FB), (0x10570, 0x1057A), (0x1057C, 0x1058A), (0x1058C, 0x10592), (0x10594, 0x10595),
      (0x10597, 0x105A1), (0x105A3, 0x105B1), (0x105B3, 0x105B9), (0x105BB, 0x105BC), (0x10780, 0x10780), (0x10783, 0x10785),
      (0x10787, 0x107B0), (0x107B2, 0x107BA), (0x10C80, 0x10CB2), (0x10CC0, 0x10CF2), (0x10D50, 0x10D65), (0x10D70, 0x10D85),
      (0x118A0, 0x118DF), (0x16E40, 0x16E7F), (0x1D400, 0x1D454), (0x1D456, 0x1D49C), (0x1D49E, 0x1D49F), (0x1D4A2, 0x1D4A2),
      (0x1D4A5, 0x1D4A6), (0x1D4A9, 0x1D4AC), (0x1D4AE, 0x1D4B9), (0x1D4BB, 0x1D4BB), (0x1D4BD, 0x1D4C3), (0x1D4C5, 0x1D505),
      (0x1D507, 0x1D50A), (0x1D50D, 0x1D514), (0x1D516, 0x1D51C), (0x1D51E, 0x1D539), (0x1D53B, 0x1D53E), (0x1D540, 0x1D544),
      (0x1D546, 0x1D546), (0x1D54A, 0x1D550), (0x1D552, 0x1D6A5), (0x1D6A8, 0x1D6C0), (0x1D6C2, 0x1D6DA), (0x1D6DC, 0x1D6FA),
      (0x1D6FC, 0x1D714), (0x1D716, 0x1D734), (0x1D736, 0x1D74E), (0x1D750, 0x1D76E), (0x1D770, 0x1D788), (0x1D78A, 0x1D7A8),
      (0x1D7AA, 0x1D7C2), (0x1D7C4, 0x1D7CB), (0x1DF00, 0x1DF09), (0x1DF0B, 0x1DF1E), (0x1DF25, 0x1DF2A), (0x1E030, 0x1E06D),
      (0x1E900, 0x1E943), (0x1F130, 0x1F149), (0x1F150, 0x1F169), (0x1F170, 0x1F189)]"

definition case_ignorable_ranges_1 :: "(nat \<times> nat) list" where
  "case_ignorable_ranges_1 =
     [(0x27, 0x27), (0x2E, 0x2E), (0x3A, 0x3A), (0x5E, 0x5E), (0x60, 0x60), (0xA8, 0xA8),
      (0xAD, 0xAD), (0xAF, 0xAF), (0xB4, 0xB4), (0xB7, 0xB7), (0xB8, 0xB8), (0x2B0, 0x2C1),
      (0x2C2, 0x2C5), (0x2C6, 0x2D1), (0x2D2, 0x2DF), (0x2E0, 0x2E4), (0x2E5, 0x2EB), (0x2EC, 0x2EC),
      (0x2ED, 0x2ED), (0x2EE, 0x2EE), (0x2EF, 0x2FF), (0x300, 0x36F), (0x374, 0x374), (0x375, 0x375),
      (0x37A, 0x37A), (0x384, 0x385), (0x387, 0x387), (0x483, 0x487), (0x488, 0x489), (0x559, 0x559),
      (0x55F, 0x55F), (0x591, 0x5BD), (0x5BF, 0x5BF), (0x5C1, 0x5C2), (0x5C4, 0x5C5), (0x5C7, 0x5C7),
      (0x5F4, 0x5F4), (0x600, 0x605), (0x610, 0x61A), (0x61C, 0x61C), (0x640, 0x640), (0x64B, 0x65F),
      (0x670, 0x670), (0x6D6, 0x6DC), (0x6DD, 0x6DD), (0x6DF, 0x6E4), (0x6E5, 0x6E6), (0x6E7, 0x6E8),
      (0x6EA, 0x6ED), (0x70F, 0x70F), (0x711, 0x711), (0x730, 0x74A), (0x7A6, 0x7B0), (0x7EB, 0x7F3),
      (0x7F4, 0x7F5), (0x7FA, 0x7FA), (0x7FD, 0x7FD), (0x816, 0x819), (0x81A, 0x81A), (0x81B, 0x823),
      (0x824, 0x824), (0x825, 0x827), (0x828, 0x828), (0x829, 0x82D), (0x859, 0x85B), (0x888, 0x888),
      (0x890, 0x891), (0x897, 0x89F), (0x8C9, 0x8C9), (0x8CA, 0x8E1), (0x8E2, 0x8E2), (0x8E3, 0x902),
      (0x93A, 0x93A), (0x93C, 0x93C), (0x941, 0x948), (0x94D, 0x94D), (0x951, 0x957), (0x962, 0x963),
      (0x971, 0x971), (0x981, 0x981), (0x9BC, 0x9BC), (0x9C1, 0x9C4), (0x9CD, 0x9CD), (0x9E2, 0x9E3),
      (0x9FE, 0x9FE), (0xA01, 0xA02), (0xA3C, 0xA3C), (0xA41, 0xA42), (0xA47, 0xA48), (0xA4B, 0xA4D),
      (0xA51, 0xA51), (0xA70, 0xA71), (0xA75, 0xA75), (0xA81, 0xA82), (0xABC, 0xABC), (0xAC1, 0xAC5),
      (0xAC7, 0xAC8), (0xACD, 0xACD), (0xAE2, 0xAE3), (0xAFA, 0xAFF), (0xB01, 0xB01), (0xB3C, 0xB3C),
      (0xB3F, 0xB3F), (0xB41, 0xB44), (0xB4D, 0xB4D), (0xB55, 0xB56), (0xB62, 0xB63), (0xB82, 0xB82),
      (0xBC0, 0xBC0), (0xBCD, 0xBCD), (0xC00, 0xC00), (0xC04, 0xC04), (0xC3C, 0xC3C), (0xC3E, 0xC40),
      (0xC46, 0xC48), (0xC4A, 0xC4D), (0xC55, 0xC56), (0xC62, 0xC63), (0xC81, 0xC81), (0xCBC, 0xCBC),
      (0xCBF, 0xCBF), (0xCC6, 0xCC6), (0xCCC, 0xCCD), (0xCE2, 0xCE3), (0xD00, 0xD01), (0xD3B, 0xD3C),
      (0xD41, 0xD44)]"

definition case_ignorable_ranges_2 :: "(nat \<times> nat) list" where
  "case_ignorable_ranges_2 =
     [(0xD4D, 0xD4D), (0xD62, 0xD63), (0xD81, 0xD81), (0xDCA, 0xDCA), (0xDD2, 0xDD4), (0xDD6, 0xDD6),
      (0xE31, 0xE31), (0xE34, 0xE3A), (0xE46, 0xE46), (0xE47, 0xE4E), (0xEB1, 0xEB1), (0xEB4, 0xEBC),
      (0xEC6, 0xEC6), (0xEC8, 0xECE), (0xF18, 0xF19), (0xF35, 0xF35), (0xF37, 0xF37), (0xF39, 0xF39),
      (0xF71, 0xF7E), (0xF80, 0xF84), (0xF86, 0xF87), (0xF8D, 0xF97), (0xF99, 0xFBC), (0xFC6, 0xFC6),
      (0x102D, 0x1030), (0x1032, 0x1037), (0x1039, 0x103A), (0x103D, 0x103E), (0x1058, 0x1059), (0x105E, 0x1060),
      (0x1071, 0x1074), (0x1082, 0x1082), (0x1085, 0x1086), (0x108D, 0x108D), (0x109D, 0x109D), (0x10FC, 0x10FC),
      (0x135D, 0x135F), (0x1712, 0x1714), (0x1732, 0x1733), (0x1752, 0x1753), (0x1772, 0x1773), (0x17B4, 0x17B5),
      (0x17B7, 0x17BD), (0x17C6, 0x17C6), (0x17C9, 0x17D3), (0x17D7, 0x17D7), (0x17DD, 0x17DD), (0x180B, 0x180D),
      (0x180E, 0x180E), (0x180F, 0x180F), (0x1843, 0x1843), (0x1885, 0x1886), (0x18A9, 0x18A9), (0x1920, 0x1922),
      (0x1927, 0x1928), (0x1932, 0x1932), (0x1939, 0x193B), (0x1A17, 0x1A18), (0x1A1B, 0x1A1B), (0x1A56, 0x1A56),
      (0x1A58, 0x1A5E), (0x1A60, 0x1A60), (0x1A62, 0x1A62), (0x1A65, 0x1A6C), (0x1A73, 0x1A7C), (0x1A7F, 0x1A7F),
      (0x1AA7, 0x1AA7), (0x1AB0, 0x1ABD), (0x1ABE, 0x1ABE), (0x1ABF, 0x1ACE), (0x1B00, 0x1B03), (0x1B34, 0x1B34),
      (0x1B36, 0x1B3A), (0x1B3C, 0x1B3C), (0x1B42, 0x1B42), (0x1B6B, 0x1B73), (0x1B80, 0x1B81), (0x1BA2, 0x1BA5),
      (0x1BA8, 0x1BA9), (0x1BAB, 0x1BAD), (0x1BE6, 0x1BE6), (0x1BE8, 0x1BE9), (0x1BED, 0x1BED), (0x1BEF, 0x1BF1),
      (0x1C2C, 0x1C33), (0x1C36, 0x1C37), (0x1C78, 0x1C7D), (0x1CD0, 0x1CD2), (0x1CD4, 0x1CE0), (0x1CE2, 0x1CE8),
      (0x1CED, 0x1CED), (0x1CF4, 0x1CF4), (0x1CF8, 0x1CF9), (0x1D2C, 0x1D6A), (0x1D78, 0x1D78), (0x1D9B, 0x1DBF),
      (0x1DC0, 0x1DFF), (0x1FBD, 0x1FBD), (0x1FBF, 0x1FC1), (0x1FCD, 0x1FCF), (0x1FDD, 0x1FDF), (0x1FED, 0x1FEF),
      (0x1FFD, 0x1FFE), (0x200B, 0x200F), (0x2018, 0x2018), (0x2019, 0x2019), (0x2024, 0x2024), (0x2027, 0x2027),
      (0x202A, 0x202E), (0x2060, 0x2064), (0x2066, 0x206F), (0x2071, 0x2071), (0x207F, 0x207F), (0x2090, 0x209C),
      (0x20D0, 0x20DC), (0x20DD, 0x20E0), (0x20E1, 0x20E1), (0x20E2, 0x20E4), (0x20E5, 0x20F0), (0x2C7C, 0x2C7D),
      (0x2CEF, 0x2CF1), (0x2D6F, 0x2D6F), (0x2D7F, 0x2D7F), (0x2DE0, 0x2DFF), (0x2E2F, 0x2E2F), (0x3005, 0x3005),
      (0x302A, 0x302D)]"

definition case_ignorable_ranges_3 :: "(nat \<times> nat) list" where
  "case_ignorable_ranges_3 =
     [(0x3031, 0x3035), (0x303B, 0x303B), (0x3099, 0x309A), (0x309B, 0x309C), (0x309D, 0x309E), (0x30FC, 0x30FE),
      (0xA015, 0xA015), (0xA4F8, 0xA4FD), (0xA60C, 0xA60C), (0xA66F, 0xA66F), (0xA670, 0xA672), (0xA674, 0xA67D),
      (0xA67F, 0xA67F), (0xA69C, 0xA69D), (0xA69E, 0xA69F), (0xA6F0, 0xA6F1), (0xA700, 0xA716), (0xA717, 0xA71F),
      (0xA720, 0xA721), (0xA770, 0xA770), (0xA788, 0xA788), (0xA789, 0xA78A), (0xA7F2, 0xA7F4), (0xA7F8, 0xA7F9),
      (0xA802, 0xA802), (0xA806, 0xA806), (0xA80B, 0xA80B), (0xA825, 0xA826), (0xA82C, 0xA82C), (0xA8C4, 0xA8C5),
      (0xA8E0, 0xA8F1), (0xA8FF, 0xA8FF), (0xA926, 0xA92D), (0xA947, 0xA951), (0xA980, 0xA982), (0xA9B3, 0xA9B3),
      (0xA9B6, 0xA9B9), (0xA9BC, 0xA9BD), (0xA9CF, 0xA9CF), (0xA9E5, 0xA9E5), (0xA9E6, 0xA9E6), (0xAA29, 0xAA2E),
      (0xAA31, 0xAA32), (0xAA35, 0xAA36), (0xAA43, 0xAA43), (0xAA4C, 0xAA4C), (0xAA70, 0xAA70), (0xAA7C, 0xAA7C),
      (0xAAB0, 0xAAB0), (0xAAB2, 0xAAB4), (0xAAB7, 0xAAB8), (0xAABE, 0xAABF), (0xAAC1, 0xAAC1), (0xAADD, 0xAADD),
      (0xAAEC, 0xAAED), (0xAAF3, 0xAAF4), (0xAAF6, 0xAAF6), (0xAB5B, 0xAB5B), (0xAB5C, 0xAB5F), (0xAB69, 0xAB69),
      (0xAB6A, 0xAB6B), (0xABE5, 0xABE5), (0xABE8, 0xABE8), (0xABED, 0xABED), (0xFB1E, 0xFB1E), (0xFBB2, 0xFBC2),
      (0xFE00, 0xFE0F), (0xFE13, 0xFE13), (0xFE20, 0xFE2F), (0xFE52, 0xFE52), (0xFE55, 0xFE55), (0xFEFF, 0xFEFF),
      (0xFF07, 0xFF07), (0xFF0E, 0xFF0E), (0xFF1A, 0xFF1A), (0xFF3E, 0xFF3E), (0xFF40, 0xFF40), (0xFF70, 0xFF70),
      (0xFF9E, 0xFF9F), (0xFFE3, 0xFFE3), (0xFFF9, 0xFFFB), (0x101FD, 0x101FD), (0x102E0, 0x102E0), (0x10376, 0x1037A),
      (0x10780, 0x10785), (0x10787, 0x107B0), (0x107B2, 0x107BA), (0x10A01, 0x10A03), (0x10A05, 0x10A06), (0x10A0C, 0x10A0F),
      (0x10A38, 0x10A3A), (0x10A3F, 0x10A3F), (0x10AE5, 0x10AE6), (0x10D24, 0x10D27), (0x10D4E, 0x10D4E), (0x10D69, 0x10D6D),
      (0x10D6F, 0x10D6F), (0x10EAB, 0x10EAC), (0x10EFC, 0x10EFF), (0x10F46, 0x10F50), (0x10F82, 0x10F85), (0x11001, 0x11001),
      (0x11038, 0x11046), (0x11070, 0x11070), (0x11073, 0x11074), (0x1107F, 0x11081), (0x110B3, 0x110B6), (0x110B9, 0x110BA),
      (0x110BD, 0x110BD), (0x110C2, 0x110C2), (0x110CD, 0x110CD), (0x11100, 0x11102), (0x11127, 0x1112B), (0x1112D, 0x11134),
      (0x11173, 0x11173), (0x11180, 0x11181), (0x111B6, 0x111BE), (0x111C9, 0x111CC), (0x111CF, 0x111CF), (0x1122F, 0x11231),
      (0x11234, 0x11234), (0x11236, 0x11237), (0x1123E, 0x1123E), (0x11241, 0x11241), (0x112DF, 0x112DF), (0x112E3, 0x112EA),
      (0x11300, 0x11301)]"

definition case_ignorable_ranges_4 :: "(nat \<times> nat) list" where
  "case_ignorable_ranges_4 =
     [(0x1133B, 0x1133C), (0x11340, 0x11340), (0x11366, 0x1136C), (0x11370, 0x11374), (0x113BB, 0x113C0), (0x113CE, 0x113CE),
      (0x113D0, 0x113D0), (0x113D2, 0x113D2), (0x113E1, 0x113E2), (0x11438, 0x1143F), (0x11442, 0x11444), (0x11446, 0x11446),
      (0x1145E, 0x1145E), (0x114B3, 0x114B8), (0x114BA, 0x114BA), (0x114BF, 0x114C0), (0x114C2, 0x114C3), (0x115B2, 0x115B5),
      (0x115BC, 0x115BD), (0x115BF, 0x115C0), (0x115DC, 0x115DD), (0x11633, 0x1163A), (0x1163D, 0x1163D), (0x1163F, 0x11640),
      (0x116AB, 0x116AB), (0x116AD, 0x116AD), (0x116B0, 0x116B5), (0x116B7, 0x116B7), (0x1171D, 0x1171D), (0x1171F, 0x1171F),
      (0x11722, 0x11725), (0x11727, 0x1172B), (0x1182F, 0x11837), (0x11839, 0x1183A), (0x1193B, 0x1193C), (0x1193E, 0x1193E),
      (0x11943, 0x11943), (0x119D4, 0x119D7), (0x119DA, 0x119DB), (0x119E0, 0x119E0), (0x11A01, 0x11A0A), (0x11A33, 0x11A38),
      (0x11A3B, 0x11A3E), (0x11A47, 0x11A47), (0x11A51, 0x11A56), (0x11A59, 0x11A5B), (0x11A8A, 0x11A96), (0x11A98, 0x11A99),
      (0x11C30, 0x11C36), (0x11C38, 0x11C3D), (0x11C3F, 0x11C3F), (0x11C92, 0x11CA7), (0x11CAA, 0x11CB0), (0x11CB2, 0x11CB3),
      (0x11CB5, 0x11CB6), (0x11D31, 0x11D36), (0x11D3A, 0x11D3A), (0x11D3C, 0x11D3D), (0x11D3F, 0x11D45), (0x11D47, 0x11D47),
      (0x11D90, 0x11D91), (0x11D95, 0x11D95), (0x11D97, 0x11D97), (0x11EF3, 0x11EF4), (0x11F00, 0x11F01), (0x11F36, 0x11F3A),
      (0x11F40, 0x11F40), (0x11F42, 0x11F42), (0x11F5A, 0x11F5A), (0x13430, 0x1343F), (0x13440, 0x13440), (0x13447, 0x13455),
      (0x1611E, 0x16129), (0x1612D, 0x1612F), (0x16AF0, 0x16AF4), (0x16B30, 0x16B36), (0x16B40, 0x16B43), (0x16D40, 0x16D42),
      (0x16D6B, 0x16D6C), (0x16F4F, 0x16F4F), (0x16F8F, 0x16F92), (0x16F93, 0x16F9F), (0x16FE0, 0x16FE1), (0x16FE3, 0x16FE3),
      (0x16FE4, 0x16FE4), (0x1AFF0, 0x1AFF3), (0x1AFF5, 0x1AFFB), (0x1AFFD, 0x1AFFE), (0x1BC9D, 0x1BC9E), (0x1BCA0, 0x1BCA3),
      (0x1CF00, 0x1CF2D), (0x1CF30, 0x1CF46), (0x1D167, 0x1D169), (0x1D173, 0x1D17A), (0x1D17B, 0x1D182), (0x1D185, 0x1D18B),
      (0x1D1AA, 0x1D1AD), (0x1D242, 0x1D244), (0x1DA00, 0x1DA36), (0x1DA3B, 0x1DA6C), (0x1DA75, 0x1DA75), (0x1DA84, 0x1DA84),
      (0x1DA9B, 0x1DA9F), (0x1DAA1, 0x1DAAF), (0x1E000, 0x1E006), (0x1E008, 0x1E018), (0x1E01B, 0x1E021), (0x1E023, 0x1E024),
      (0x1E026, 0x1E02A), (0x1E030, 0x1E06D), (0x1E08F, 0x1E08F), (0x1E130, 0x1E136), (0x1E137, 0x1E13D), (0x1E2AE, 0x1E2AE),
      (0x1E2EC, 0x1E2EF), (0x1E4EB, 0x1E4EB), (0x1E4EC, 0x1E4EF), (0x1E5EE, 0x1E5EF), (0x1E8D0, 0x1E8D6), (0x1E944, 0x1E94A),
      (0x1E94B, 0x1E94B), (0x1F3FB, 0x1F3FF), (0xE0001, 0xE0001), (0xE0020, 0xE007F), (0xE0100, 0xE01EF)]"

definition LOWERCASE_MAPPINGS :: "(nat \<times> nat \<times> nat list) list" where
  "LOWERCASE_MAPPINGS =
     lowercase_mappings_1 @ lowercase_mappings_2 @ lowercase_mappings_3 @ lowercase_mappings_4 @ lowercase_mappings_5 @ lowercase_mappings_6 @ lowercase_mappings_7 @ lowercase_mappings_8 @ lowercase_mappings_9 @ lowercase_mappings_10"

definition CASED_RANGES :: "(nat \<times> nat) list" where
  "CASED_RANGES = cased_ranges_1 @ cased_ranges_2"

definition CASE_IGNORABLE_RANGES :: "(nat \<times> nat) list" where
  "CASE_IGNORABLE_RANGES = case_ignorable_ranges_1 @ case_ignorable_ranges_2 @ case_ignorable_ranges_3 @ case_ignorable_ranges_4"

end
