(* ===== verification/Unicode16.thy ===== *)
theory Unicode16
  imports Unicode16_Table Stateful Utf8 Ordering
begin

text \<open>
  Lowercasing with the Unicode 16 table (\<^verbatim>\<open>unicode16_lowercase.rs\<close>). The checkpoint of the caller and
  whether an allocation succeeds are parameters.
\<close>

definition in_ranges :: "nat \<Rightarrow> (nat \<times> nat) list \<Rightarrow> bool" where
  "in_ranges v ranges \<longleftrightarrow>
     binary_search_by (\<lambda>(s, e). if v < s then Greater else if v > e then Less else Equal) ranges \<noteq> None"

fun cased_before :: "('s, unit, 'e) stateful \<Rightarrow> nat list \<Rightarrow> ('s, bool, 'e) stateful" where
  "cased_before cp [] = st_ret False"
| "cased_before cp (v # r) =
     st_then cp (\<lambda>_.
     if \<not> in_ranges v CASE_IGNORABLE_RANGES then st_ret (in_ranges v CASED_RANGES) else cased_before cp r)"

fun no_cased_after :: "('s, unit, 'e) stateful \<Rightarrow> nat list \<Rightarrow> ('s, bool, 'e) stateful" where
  "no_cased_after cp [] = st_ret True"
| "no_cased_after cp (v # r) =
     st_then cp (\<lambda>_.
     if \<not> in_ranges v CASE_IGNORABLE_RANGES then st_ret (\<not> in_ranges v CASED_RANGES) else no_cased_after cp r)"

definition is_final_sigma_checked :: "('s, unit, 'e) stateful \<Rightarrow> nat list \<Rightarrow> nat \<Rightarrow> ('s, bool, 'e) stateful" where
  "is_final_sigma_checked cp scalars i =
     st_then (cased_before cp (rev (take i scalars))) (\<lambda>has_cased_before.
     if \<not> has_cased_before then st_ret False else no_cased_after cp (drop (Suc i) scalars))"

datatype 'e lowercase_error = Checkpoint 'e | Resource

definition st_map_err :: "('e \<Rightarrow> 'f) \<Rightarrow> ('s, 'a, 'e) stateful \<Rightarrow> ('s, 'a, 'f) stateful" where
  "st_map_err g m s = (case m s of (s', Ok x) \<Rightarrow> (s', Ok x) | (s', Err e) \<Rightarrow> (s', Err (g e)) | (s', Panic) \<Rightarrow> (s', Panic))"

definition table_lookup :: "nat \<Rightarrow> nat list" where
  "table_lookup c =
     (case binary_search_by (\<lambda>(source, _, _). cmp source c) LOWERCASE_MAPPINGS of
        Some k \<Rightarrow> (case LOWERCASE_MAPPINGS ! k of (_, n, vs) \<Rightarrow> take n vs)
      | None \<Rightarrow> [c])"

definition map_scalar ::
  "('s, unit, 'e) stateful \<Rightarrow> nat list \<Rightarrow> nat \<Rightarrow> nat \<Rightarrow> ('s, nat list, 'e lowercase_error) stateful"
where
  "map_scalar cp scalars i c =
     (if c = 0x03A3 then
        st_then (st_map_err Checkpoint (is_final_sigma_checked cp scalars i)) (\<lambda>b.
        st_ret (if b then [0x03C2] else table_lookup c))
      else st_ret (table_lookup c))"

fun push_scalars ::
  "(nat \<Rightarrow> bool) \<Rightarrow> nat \<Rightarrow> nat list \<Rightarrow> string \<Rightarrow> ('s, string, 'e lowercase_error) stateful"
where
  "push_scalars can_alloc limit [] out = st_ret out"
| "push_scalars can_alloc limit (v # r) out =
     (if \<not> is_scalar v then st_panic
      else if 2 ^ 64 \<le> length out + len_utf8 v then st_fail Resource
      else if length out + len_utf8 v > limit then st_fail Resource
      else if \<not> can_alloc (length out + len_utf8 v) then st_fail Resource
      else push_scalars can_alloc limit r (out @ encode_char v))"

fun collect_scalars :: "('s, unit, 'e) stateful \<Rightarrow> nat list \<Rightarrow> nat list \<Rightarrow> ('s, nat list, 'e lowercase_error) stateful" where
  "collect_scalars cp [] scalars = st_ret scalars"
| "collect_scalars cp (c # r) scalars =
     st_then (st_map_err Checkpoint cp) (\<lambda>_. collect_scalars cp r (scalars @ [c]))"

fun lower_from ::
  "(nat \<Rightarrow> bool) \<Rightarrow> ('s, unit, 'e) stateful \<Rightarrow> nat \<Rightarrow> nat list \<Rightarrow> nat \<Rightarrow> nat list \<Rightarrow> string \<Rightarrow>
   ('s, string, 'e lowercase_error) stateful"
where
  "lower_from can_alloc cp limit scalars i [] out = st_ret out"
| "lower_from can_alloc cp limit scalars i (c # r) out =
     st_then (st_map_err Checkpoint cp) (\<lambda>_.
     st_then (map_scalar cp scalars i c) (\<lambda>mapped.
     st_then (push_scalars can_alloc limit mapped out) (\<lambda>out'.
     lower_from can_alloc cp limit scalars (Suc i) r out')))"

definition lowercase_bounded ::
  "(nat \<Rightarrow> bool) \<Rightarrow> ('s, unit, 'e) stateful \<Rightarrow> string \<Rightarrow> nat \<Rightarrow> ('s, string, 'e lowercase_error) stateful"
where
  "lowercase_bounded can_alloc cp s limit =
     (if \<not> can_alloc (length s) then st_fail Resource
      else
        st_then (collect_scalars cp (str_chars s) []) (\<lambda>scalars.
        if \<not> can_alloc (min (length s) limit) then st_fail Resource
        else lower_from can_alloc cp limit scalars 0 scalars []))"

text \<open>\<^verbatim>\<open>lowercase\<close>: a checkpoint that never fails; a failure is a panic.\<close>

definition lowercase :: "(nat \<Rightarrow> bool) \<Rightarrow> string \<Rightarrow> (string, unit) outcome" where
  "lowercase can_alloc s =
     (case lowercase_bounded can_alloc (st_ret () :: (unit, unit, unit) stateful) s (2 ^ 64 - 1) () of
        (_, Ok out) \<Rightarrow> Ok out
      | _ \<Rightarrow> Panic)"

end
