(* ===== verification/Unicode16_Table_Facts.thy ===== *)
theory Unicode16_Table_Facts
  imports Unicode16
begin

text \<open>The generated table is strictly increasing and holds scalar values.\<close>

text \<open>The last entry, if the entries are strictly increasing and well formed.\<close>

fun mappings_from :: "nat \<Rightarrow> (nat \<times> nat \<times> nat list) list \<Rightarrow> nat option" where
  "mappings_from lo [] = Some lo"
| "mappings_from lo ((s, n, vs) # r) =
     (if lo < s \<and> n \<le> 2 \<and> list_all is_scalar (take n vs) then mappings_from s r else None)"

fun ranges_from :: "nat \<Rightarrow> (nat \<times> nat) list \<Rightarrow> nat option" where
  "ranges_from lo [] = Some lo"
| "ranges_from lo ((s, e) # r) = (if lo < s \<and> s \<le> e then ranges_from e r else None)"

lemma mappings_from_append: "mappings_from lo (xs @ ys) = Option.bind (mappings_from lo xs) (\<lambda>m. mappings_from m ys)"
  by (induction lo xs rule: mappings_from.induct) auto

lemma ranges_from_append: "ranges_from lo (xs @ ys) = Option.bind (ranges_from lo xs) (\<lambda>m. ranges_from m ys)"
  by (induction lo xs rule: ranges_from.induct) auto

lemma lowercase_mappings_1_ok: "mappings_from 0 lowercase_mappings_1 = Some 0x1AC"
  by (simp add: lowercase_mappings_1_def is_scalar_def)

lemma lowercase_mappings_2_ok: "mappings_from 0x1AC lowercase_mappings_2 = Some 0x408"
  by (simp add: lowercase_mappings_2_def is_scalar_def)

lemma lowercase_mappings_3_ok: "mappings_from 0x408 lowercase_mappings_3 = Some 0x537"
  by (simp add: lowercase_mappings_3_def is_scalar_def)

lemma lowercase_mappings_4_ok: "mappings_from 0x537 lowercase_mappings_4 = Some 0x13EA"
  by (simp add: lowercase_mappings_4_def is_scalar_def)

lemma lowercase_mappings_5_ok: "mappings_from 0x13EA lowercase_mappings_5 = Some 0x1EB6"
  by (simp add: lowercase_mappings_5_def is_scalar_def)

lemma lowercase_mappings_6_ok: "mappings_from 0x1EB6 lowercase_mappings_6 = Some 0x2169"
  by (simp add: lowercase_mappings_6_def is_scalar_def)

lemma lowercase_mappings_7_ok: "mappings_from 0x2169 lowercase_mappings_7 = Some 0x2CE2"
  by (simp add: lowercase_mappings_7_def is_scalar_def)

lemma lowercase_mappings_8_ok: "mappings_from 0x2CE2 lowercase_mappings_8 = Some 0xFF30"
  by (simp add: lowercase_mappings_8_def is_scalar_def)

lemma lowercase_mappings_9_ok: "mappings_from 0xFF30 lowercase_mappings_9 = Some 0x10C98"
  by (simp add: lowercase_mappings_9_def is_scalar_def)

lemma lowercase_mappings_10_ok: "mappings_from 0x10C98 lowercase_mappings_10 = Some 0x1E921"
  by (simp add: lowercase_mappings_10_def is_scalar_def)

lemma cased_ranges_1_ok: "ranges_from 0 cased_ranges_1 = Some 0x2CE4"
  by (simp add: cased_ranges_1_def)

lemma cased_ranges_2_ok: "ranges_from 0x2CE4 cased_ranges_2 = Some 0x1F189"
  by (simp add: cased_ranges_2_def)

lemma case_ignorable_ranges_1_ok: "ranges_from 0 case_ignorable_ranges_1 = Some 0xD44"
  by (simp add: case_ignorable_ranges_1_def)

lemma case_ignorable_ranges_2_ok: "ranges_from 0xD44 case_ignorable_ranges_2 = Some 0x302D"
  by (simp add: case_ignorable_ranges_2_def)

lemma case_ignorable_ranges_3_ok: "ranges_from 0x302D case_ignorable_ranges_3 = Some 0x11301"
  by (simp add: case_ignorable_ranges_3_def)

lemma case_ignorable_ranges_4_ok: "ranges_from 0x11301 case_ignorable_ranges_4 = Some 0xE01EF"
  by (simp add: case_ignorable_ranges_4_def)

lemma LOWERCASE_MAPPINGS_ok: "mappings_from 0 LOWERCASE_MAPPINGS = Some 0x1E921"
  by (simp add: LOWERCASE_MAPPINGS_def mappings_from_append lowercase_mappings_1_ok lowercase_mappings_2_ok lowercase_mappings_3_ok lowercase_mappings_4_ok lowercase_mappings_5_ok lowercase_mappings_6_ok lowercase_mappings_7_ok lowercase_mappings_8_ok lowercase_mappings_9_ok lowercase_mappings_10_ok)

lemma CASED_RANGES_ok: "ranges_from 0 CASED_RANGES = Some 0x1F189"
  by (simp add: CASED_RANGES_def ranges_from_append cased_ranges_1_ok cased_ranges_2_ok)

lemma CASE_IGNORABLE_RANGES_ok: "ranges_from 0 CASE_IGNORABLE_RANGES = Some 0xE01EF"
  by (simp add: CASE_IGNORABLE_RANGES_def ranges_from_append case_ignorable_ranges_1_ok case_ignorable_ranges_2_ok case_ignorable_ranges_3_ok case_ignorable_ranges_4_ok)

end
