(* ===== verification/Unicode16_Correct.thy ===== *)
theory Unicode16_Correct
  imports Unicode16_Table_Facts
begin

text \<open>
  Binary search in the table finds what a scan would find, and lowercasing is the mapping of the
  table with the final sigma rule, cut off at the output limit.
\<close>

section \<open>Lookups\<close>

lemma mappings_from_sorted:
  "mappings_from lo xs = Some hi \<Longrightarrow>
     sorted_wrt (\<lambda>x y. fst x < fst y) xs \<and>
     (\<forall>(s, n, vs) \<in> set xs. lo < s \<and> n \<le> 2 \<and> list_all is_scalar (take n vs))"
  by (induction lo xs rule: mappings_from.induct) (fastforce split: if_splits)+

lemma ranges_from_sorted:
  "ranges_from lo xs = Some hi \<Longrightarrow>
     sorted_wrt (\<lambda>x y. snd x < fst y) xs \<and> (\<forall>(s, e) \<in> set xs. lo < s \<and> s \<le> e)"
  by (induction lo xs rule: ranges_from.induct) (fastforce split: if_splits)+

definition covered :: "(nat \<times> nat) list \<Rightarrow> nat \<Rightarrow> bool" where
  "covered ranges v \<longleftrightarrow> (\<exists>(s, e) \<in> set ranges. s \<le> v \<and> v \<le> e)"

lemma in_ranges_covered:
  assumes "ranges_from 0 ranges = Some hi"
  shows "in_ranges v ranges = covered ranges v"
proof -
  let ?f = "\<lambda>(s, e). if v < s then Greater else if v > e then Less else Equal"
  note r = ranges_from_sorted [OF assms]
  have "search_ordered ?f ranges"
    unfolding search_ordered_def
  proof (rule sorted_wrt_mono_rel [OF _ conjunct1 [OF r]])
    fix x y assume xy: "x \<in> set ranges" "y \<in> set ranges" "snd x < fst y"
    from xy(1,2) conjunct2 [OF r] have "fst x \<le> snd x" "fst y \<le> snd y" by auto
    with xy(3) show "(?f x = Greater \<longrightarrow> ?f y = Greater) \<and> (?f x = Equal \<longrightarrow> ?f y \<noteq> Less)"
      by (cases x; cases y) auto
  qed
  note b = binary_search_by_iff [OF this]
  have eq: "?f x = Equal \<longleftrightarrow> fst x \<le> v \<and> v \<le> snd x" for x by (cases x) auto
  have c: "covered ranges v \<longleftrightarrow> (\<exists>x \<in> set ranges. ?f x = Equal)"
    unfolding eq covered_def by (simp add: case_prod_beta)
  show ?thesis
  proof (cases "binary_search_by ?f ranges")
    case None
    with b c show ?thesis by (simp add: in_ranges_def)
  next
    case (Some k)
    with b have "ranges ! k \<in> set ranges" "?f (ranges ! k) = Equal" by auto
    with c Some show ?thesis unfolding in_ranges_def by blast
  qed
qed

lemma table_lookup_map_of:
  "table_lookup c = (case map_of LOWERCASE_MAPPINGS c of Some (n, vs) \<Rightarrow> take n vs | None \<Rightarrow> [c])"
proof -
  let ?f = "\<lambda>(source, _, _). cmp source c"
  note m = mappings_from_sorted [OF LOWERCASE_MAPPINGS_ok]
  have "search_ordered ?f LOWERCASE_MAPPINGS"
    unfolding search_ordered_def by (rule sorted_wrt_mono_rel [OF _ conjunct1 [OF m]]) auto
  note b = binary_search_by_iff [OF this]
  have d: "distinct (map fst LOWERCASE_MAPPINGS)"
    using m sorted_wrt_map [of "(<)" fst LOWERCASE_MAPPINGS] by (simp add: strict_sorted_iff)
  show ?thesis
  proof (cases "binary_search_by ?f LOWERCASE_MAPPINGS")
    case None
    with b have "map_of LOWERCASE_MAPPINGS c = None" by (force simp: map_of_eq_None_iff)
    with None show ?thesis by (simp add: table_lookup_def)
  next
    case (Some k)
    with b have "LOWERCASE_MAPPINGS ! k \<in> set LOWERCASE_MAPPINGS" "fst (LOWERCASE_MAPPINGS ! k) = c"
      by (auto split: prod.splits)
    then have "map_of LOWERCASE_MAPPINGS c = Some (snd (LOWERCASE_MAPPINGS ! k))"
      using d by (metis map_of_eq_Some_iff prod.collapse)
    with Some show ?thesis by (simp add: table_lookup_def split: prod.splits)
  qed
qed

lemma table_lookup_scalars: "is_scalar c \<Longrightarrow> list_all is_scalar (table_lookup c) \<and> length (table_lookup c) \<le> 2"
  using conjunct2 [OF mappings_from_sorted [OF LOWERCASE_MAPPINGS_ok]]
  by (auto simp: table_lookup_map_of split: option.splits dest!: map_of_SomeD)

section \<open>The specification\<close>

definition cased :: "nat \<Rightarrow> bool" where
  "cased = covered CASED_RANGES"

definition ignorable :: "nat \<Rightarrow> bool" where
  "ignorable = covered CASE_IGNORABLE_RANGES"

text \<open>A sigma is final if the nearest character before it that is not ignorable is cased, and the
  nearest one after it is not.\<close>

definition next_cased :: "nat list \<Rightarrow> bool" where
  "next_cased cs \<longleftrightarrow> (case dropWhile ignorable cs of [] \<Rightarrow> False | c # _ \<Rightarrow> cased c)"

definition final_sigma :: "nat list \<Rightarrow> nat \<Rightarrow> bool" where
  "final_sigma cs i \<longleftrightarrow> next_cased (rev (take i cs)) \<and> \<not> next_cased (drop (Suc i) cs)"

definition lower_scalar :: "nat list \<Rightarrow> nat \<Rightarrow> nat list" where
  "lower_scalar cs i =
     (if cs ! i = 0x03A3 \<and> final_sigma cs i then [0x03C2]
      else case map_of LOWERCASE_MAPPINGS (cs ! i) of Some (n, vs) \<Rightarrow> take n vs | None \<Rightarrow> [cs ! i])"

definition lower_spec :: "string \<Rightarrow> string" where
  "lower_spec s = (let cs = str_chars s in encode_str (concat (map (lower_scalar cs) [0..<length cs])))"

section \<open>Results up to checkpoints\<close>

text \<open>The result is \<open>r\<close>, unless a checkpoint that may fail has failed.\<close>

definition gives :: "bool \<Rightarrow> ('s, 'a, 'e lowercase_error) stateful \<Rightarrow> ('a, 'e lowercase_error) outcome \<Rightarrow> bool" where
  "gives may m r \<longleftrightarrow> (\<forall>s. snd (m s) = r \<or> may \<and> (\<exists>e. snd (m s) = Err (Checkpoint e)))"

lemma gives_ret [simp]: "gives may (st_ret x) (Ok x)" "gives may (st_fail e) (Err e)"
  by (auto simp: gives_def st_ret_def st_fail_def)

lemma gives_then:
  assumes "gives may m (Ok x)" "gives may (f x) r"
  shows "gives may (st_then m f) r"
  unfolding gives_def
proof
  fix s
  show "snd (st_then m f s) = r \<or> may \<and> (\<exists>e. snd (st_then m f s) = Err (Checkpoint e))"
  proof (cases "m s")
    case (Pair s' q)
    with assms(1) have "q = Ok x \<or> may \<and> (\<exists>e. q = Err (Checkpoint e))" unfolding gives_def by (metis snd_conv)
    with Pair assms(2) show ?thesis by (auto simp: st_then_def gives_def)
  qed
qed

lemma gives_then_Err:
  assumes "gives may m (Err e)"
  shows "gives may (st_then m f) (Err e)"
  unfolding gives_def
proof
  fix s
  show "snd (st_then m f s) = Err e \<or> may \<and> (\<exists>e. snd (st_then m f s) = Err (Checkpoint e))"
  proof (cases "m s")
    case (Pair s' q)
    with assms have "q = Err e \<or> may \<and> (\<exists>e. q = Err (Checkpoint e))" unfolding gives_def by (metis snd_conv)
    with Pair show ?thesis by (auto simp: st_then_def)
  qed
qed

lemma gives_map_err:
  assumes "\<And>s. snd (cp s) = Ok x \<or> may \<and> (\<exists>e. snd (cp s) = Err e)"
  shows "gives may (st_map_err Checkpoint cp) (Ok x)"
  unfolding gives_def
proof
  fix s
  show "snd (st_map_err Checkpoint cp s) = Ok x \<or> may \<and> (\<exists>e. snd (st_map_err Checkpoint cp s) = Err (Checkpoint e))"
    using assms [of s] by (cases "cp s") (auto simp: st_map_err_def)
qed

section \<open>Lowercasing\<close>

text \<open>A checkpoint never panics; whether it may fail is \<open>may\<close>.\<close>

definition checkpoint_ok :: "bool \<Rightarrow> ('s, unit, 'e) stateful \<Rightarrow> bool" where
  "checkpoint_ok may cp \<longleftrightarrow> (\<forall>s. snd (cp s) = Ok () \<or> may \<and> (\<exists>e. snd (cp s) = Err e))"

lemma st_map_err_then: "st_map_err g (st_then m f) = st_then (st_map_err g m) (\<lambda>x. st_map_err g (f x))"
  by (auto simp: fun_eq_iff st_map_err_def st_then_def split: prod.splits outcome.splits)

lemma st_map_err_ret [simp]: "st_map_err g (st_ret x) = st_ret x"
  by (simp add: fun_eq_iff st_map_err_def st_ret_def)

lemma gives_checkpoint: "checkpoint_ok may cp \<Longrightarrow> gives may (st_map_err Checkpoint cp) (Ok ())"
  by (rule gives_map_err) (simp add: checkpoint_ok_def)

lemmas table_scans = in_ranges_covered [OF CASED_RANGES_ok] in_ranges_covered [OF CASE_IGNORABLE_RANGES_ok]

lemma gives_cased_before:
  assumes "checkpoint_ok may cp"
  shows "gives may (st_map_err Checkpoint (cased_before cp cs)) (Ok (next_cased cs))"
proof (induction cs)
  case (Cons c cs)
  then show ?case
    by (auto simp: st_map_err_then table_scans next_cased_def cased_def ignorable_def
        intro!: gives_then [OF gives_checkpoint [OF assms]])
qed (simp add: next_cased_def)

lemma gives_no_cased_after:
  assumes "checkpoint_ok may cp"
  shows "gives may (st_map_err Checkpoint (no_cased_after cp cs)) (Ok (\<not> next_cased cs))"
proof (induction cs)
  case (Cons c cs)
  then show ?case
    by (auto simp: st_map_err_then table_scans next_cased_def cased_def ignorable_def
        intro!: gives_then [OF gives_checkpoint [OF assms]])
qed (simp add: next_cased_def)

lemma gives_map_scalar:
  assumes "checkpoint_ok may cp"
  shows "gives may (map_scalar cp cs i (cs ! i)) (Ok (lower_scalar cs i))"
proof (cases "cs ! i = 0x03A3")
  case True
  have "gives may (st_map_err Checkpoint (is_final_sigma_checked cp cs i)) (Ok (final_sigma cs i))"
    unfolding is_final_sigma_checked_def st_map_err_then final_sigma_def
    by (rule gives_then [OF gives_cased_before [OF assms]])
      (use gives_no_cased_after [OF assms, of "drop (Suc i) cs"] in auto)
  then show ?thesis
    unfolding map_scalar_def True lower_scalar_def table_lookup_map_of
    by (simp only: simp_thms if_True) (rule gives_then, assumption, auto)
next
  case False
  then show ?thesis by (simp add: map_scalar_def lower_scalar_def table_lookup_map_of)
qed

lemma encode_str_simps [simp]:
  "encode_str [] = []" "encode_str (v # vs) = encode_char v @ encode_str vs"
  "encode_str (vs @ us) = encode_str vs @ encode_str us"
  by (simp_all add: encode_str_def)

abbreviation always :: "nat \<Rightarrow> bool" where
  "always \<equiv> \<lambda>_. True"

text \<open>The output so far and what is to be appended, if it fits.\<close>

definition within :: "nat \<Rightarrow> string \<Rightarrow> string \<Rightarrow> (string, 'e lowercase_error) outcome" where
  "within limit out app = (if length out + length app \<le> limit then Ok (out @ app) else Err Resource)"

lemma within_simps:
  "within limit (out @ a) b = within limit out (a @ b)"
  "within limit [] a = (if length a \<le> limit then Ok a else Err Resource)"
  "limit < length out + length a \<Longrightarrow> within limit out (a @ b) = Err Resource"
  "limit < length out + length a \<Longrightarrow> within limit out a = Err Resource"
  by (simp_all add: within_def add.assoc)

lemma gives_push_scalars:
  "list_all is_scalar vs \<Longrightarrow> limit < 2 ^ 64 \<Longrightarrow> length out \<le> limit \<Longrightarrow>
   gives may (push_scalars always limit vs out) (within limit out (encode_str vs))"
proof (induction vs arbitrary: out)
  case (Cons v vs)
  show ?case
  proof (cases "length out + len_utf8 v \<le> limit")
    case True
    with Cons.IH [of "out @ encode_char v"] Cons.prems show ?thesis by (simp add: within_simps(1))
  next
    case False
    with Cons.prems show ?thesis by (simp add: within_def)
  qed
qed (simp add: within_def)

lemma lower_scalar_scalars: "list_all is_scalar cs \<Longrightarrow> i < length cs \<Longrightarrow> list_all is_scalar (lower_scalar cs i)"
  using table_lookup_scalars [of "cs ! i"]
  by (auto simp: lower_scalar_def table_lookup_map_of is_scalar_def list_all_length)

lemma gives_lower_from:
  fixes cp :: "('s, unit, 'e) stateful"
  assumes "checkpoint_ok may cp" "list_all is_scalar cs" "limit < 2 ^ 64"
  shows "i \<le> length cs \<Longrightarrow> length out \<le> limit \<Longrightarrow>
    gives may (lower_from always cp limit cs i (drop i cs) out)
      (within limit out (encode_str (concat (map (lower_scalar cs) [i..<length cs]))))"
proof (induction "length cs - i" arbitrary: i out)
  case 0
  then show ?case by (simp add: within_def)
next
  case (Suc k)
  let ?more = "encode_str (concat (map (lower_scalar cs) [Suc i..<length cs]))"
  have i: "i < length cs" using Suc by simp
  have d: "drop i cs = cs ! i # drop (Suc i) cs" using i by (rule Cons_nth_drop_Suc [symmetric])
  have m: "encode_str (concat (map (lower_scalar cs) [i..<length cs])) = encode_str (lower_scalar cs i) @ ?more"
    using i by (simp add: upt_conv_Cons)
  have p: "gives may (push_scalars always limit (lower_scalar cs i) out :: ('s, string, 'e lowercase_error) stateful)
      (within limit out (encode_str (lower_scalar cs i)))"
    by (rule gives_push_scalars [OF lower_scalar_scalars [OF assms(2) i] assms(3) Suc.prems(2)])
  show ?case unfolding d lower_from.simps m
  proof (intro gives_then [OF gives_checkpoint [OF assms(1)]] gives_then [OF gives_map_scalar [OF assms(1)]])
    show "gives may (st_then (push_scalars always limit (lower_scalar cs i) out)
        (lower_from always cp limit cs (Suc i) (drop (Suc i) cs))) (within limit out (encode_str (lower_scalar cs i) @ ?more))"
    proof (cases "length out + length (encode_str (lower_scalar cs i)) \<le> limit")
      case True
      with p have "gives may (push_scalars always limit (lower_scalar cs i) out :: ('s, string, 'e lowercase_error) stateful)
          (Ok (out @ encode_str (lower_scalar cs i)))"
        by (simp add: within_def)
      moreover have "gives may (lower_from always cp limit cs (Suc i) (drop (Suc i) cs) (out @ encode_str (lower_scalar cs i)))
          (within limit (out @ encode_str (lower_scalar cs i)) ?more)"
        using Suc i True by (intro Suc.hyps(1)) auto
      moreover have "within limit (out @ encode_str (lower_scalar cs i)) ?more =
          within limit out (encode_str (lower_scalar cs i) @ ?more)" by (simp add: within_def add.assoc)
      ultimately show ?thesis by (metis gives_then)
    next
      case False
      then have l: "limit < length out + length (encode_str (lower_scalar cs i))" by simp
      show ?thesis
        unfolding within_simps(3) [OF l]
        by (rule gives_then_Err) (use p in \<open>simp add: within_simps(4) [OF l]\<close>)
    qed
  qed
qed

lemma gives_collect: "checkpoint_ok may cp \<Longrightarrow> gives may (collect_scalars cp cs acc) (Ok (acc @ cs))"
proof (induction cs arbitrary: acc)
  case (Cons c cs)
  then show ?case using gives_then [OF gives_checkpoint [OF Cons.prems] Cons.IH [OF Cons.prems, of "acc @ [c]"]] by simp
qed simp

lemma lowercase_bounded_gives:
  assumes "checkpoint_ok may cp" "utf8_error 0 s = None" "limit < 2 ^ 64"
  shows "gives may (lowercase_bounded always cp s limit)
    (if length (lower_spec s) \<le> limit then Ok (lower_spec s) else Err Resource)"
proof -
  have "list_all is_scalar (str_chars s)" using str_chars_ok [OF assms(2)] by simp
  from gives_lower_from [OF assms(1) this assms(3), of 0 "[]"] have
    "gives may (lower_from always cp limit (str_chars s) 0 (str_chars s) []) (within limit [] (lower_spec s))"
    by (simp add: lower_spec_def Let_def)
  then show ?thesis
    unfolding within_simps(2) [symmetric] lowercase_bounded_def
    using gives_then [OF gives_collect [OF assms(1), of "str_chars s" "[]"]] by simp
qed

text \<open>C23: lowercasing never panics, and returns what the table and the final sigma rule say, in UTF-8:
  for every well-formed text whose lowercase has less than \<open>2 ^ 64\<close> bytes, if allocations succeed.\<close>

theorem lowercase_is_specified:
  assumes "utf8_error 0 s = None" "length (lower_spec s) < 2 ^ 64"
  shows "lowercase always s = Ok (lower_spec s)"
proof -
  have "checkpoint_ok False (st_ret () :: (unit, unit, unit) stateful)" by (simp add: checkpoint_ok_def st_ret_def)
  from lowercase_bounded_gives [OF this assms(1), of "2 ^ 64 - 1"] assms(2)
  have "snd (lowercase_bounded always (st_ret () :: (unit, unit, unit) stateful) s (2 ^ 64 - 1) ()) = Ok (lower_spec s)"
    by (simp add: gives_def)
  then show ?thesis
    by (cases "lowercase_bounded always (st_ret () :: (unit, unit, unit) stateful) s (2 ^ 64 - 1) ()")
      (simp add: lowercase_def)
qed

lemma lower_spec_A: "lower_spec ''A'' = ''a''"
proof -
  have "map_of LOWERCASE_MAPPINGS 65 = Some (1, [0x61, 0, 0])"
    by (simp add: LOWERCASE_MAPPINGS_def map_add_def lowercase_mappings_1_def)
  moreover have "str_chars ''A'' = [65]"
    by (simp add: str_chars.simps scalar_of_def lead_bits_def utf8_width_def in_range_def less_char_def)
  ultimately show ?thesis by (simp add: lower_spec_def lower_scalar_def encode_char_def char_of_eq)
qed

theorem lowercase_is_specified_witness: "lowercase always ''A'' = Ok ''a''"
  using lowercase_is_specified [of "''A''"] by (simp add: lower_spec_A utf8_error_ascii less_char_def)

text \<open>Bounded lowercasing, whatever its checkpoint does short of panicking, either stops with a
  failure of the checkpoint, or returns the lowercase text if it has at most \<open>limit\<close> bytes, or
  fails with \<^verbatim>\<open>Resource\<close> if it is longer.\<close>

theorem lowercase_bounded_exact:
  assumes "\<And>st. snd (cp st) \<noteq> Panic" "utf8_error 0 s = None" "limit < 2 ^ 64"
  shows "(\<exists>e. snd (lowercase_bounded always cp s limit st) = Err (Checkpoint e)) \<or>
    snd (lowercase_bounded always cp s limit st) =
      (if length (lower_spec s) \<le> limit then Ok (lower_spec s) else Err Resource)"
proof -
  have "checkpoint_ok True cp"
    unfolding checkpoint_ok_def
  proof
    fix st show "snd (cp st) = Ok () \<or> True \<and> (\<exists>e. snd (cp st) = Err e)"
      using assms(1) [of st] by (cases "snd (cp st)") auto
  qed
  from lowercase_bounded_gives [OF this assms(2,3)] show ?thesis by (auto simp: gives_def)
qed

theorem lowercase_bounded_exact_witness:
  "snd (lowercase_bounded always (st_ret () :: (unit, unit, unit) stateful) ''A'' 0 ()) = Err Resource \<or>
   (\<exists>e. snd (lowercase_bounded always (st_ret () :: (unit, unit, unit) stateful) ''A'' 0 ()) = Err (Checkpoint e))"
  using lowercase_bounded_exact [of "st_ret () :: (unit, unit, unit) stateful" "''A''" 0 "()"]
  by (auto simp: st_ret_def lower_spec_A utf8_error_ascii less_char_def)

end
