(* ===== verification/Retrieval_Objects.thy ===== *)
theory Retrieval_Objects
  imports Retrieval_Ranking_Correct Unicode16_Correct
begin

text \<open>
  Reading, normalizing and copying stored objects in the bounded retrieval runtime
  (\<^verbatim>\<open>bounded_retrieval_runtime.rs\<close>), and the encoding of a response before its deadline.
\<close>

section \<open>Fields\<close>

definition required_str :: "json \<Rightarrow> string \<Rightarrow> (string, execution_failure) outcome" where
  "required_str v name = ok_or (Option.bind (json_get name v) json_str) (client_failure work_default)"

definition required_u64 :: "json \<Rightarrow> string \<Rightarrow> (u64, execution_failure) outcome" where
  "required_u64 v name = ok_or (Option.bind (json_get name v) as_u64) (client_failure work_default)"

definition required_f64 :: "json \<Rightarrow> string \<Rightarrow> (f64, execution_failure) outcome" where
  "required_f64 v name =
     ok_or (Option.bind (Option.bind (json_get name v) as_f64) (\<lambda>x. if f64_is_finite x then Some x else None))
       (client_failure work_default)"

definition stored_str :: "json \<Rightarrow> string \<Rightarrow> work_counts \<Rightarrow> (string, execution_failure) outcome" where
  "stored_str v name w = ok_or (Option.bind (json_get name v) json_str) (integrity_failure w)"

definition MAX_INDEXING_DOMAIN_ID_BYTES :: nat where "MAX_INDEXING_DOMAIN_ID_BYTES = 4096"

definition bounded_stored_domain_id :: "string \<Rightarrow> work_counts \<Rightarrow> (string, execution_failure) outcome" where
  "bounded_stored_domain_id v w =
     (if v = [] \<or> length v > MAX_INDEXING_DOMAIN_ID_BYTES then Err (integrity_failure w) else Ok v)"

definition stored_snapshot_section_or_empty :: "json \<Rightarrow> string \<Rightarrow> (json list, execution_failure) outcome" where
  "stored_snapshot_section_or_empty snapshot section =
     (case json_get section snapshot of
        None \<Rightarrow> Ok []
      | Some (JArray items) \<Rightarrow> Ok items
      | Some _ \<Rightarrow> Err (integrity_failure work_default))"

section \<open>Normalization\<close>

text \<open>The checkpoint counts the scalars and looks at the clock every 1024 of them.\<close>

definition count_scalar :: "work_counts \<Rightarrow> (u64 \<times> execution_deadline, unit, execution_failure) stateful" where
  "count_scalar w = (\<lambda>(steps, d).
     case checked_add steps 1 of
       None \<Rightarrow> ((steps, d), Err (resource_failure w))
     | Some steps' \<Rightarrow>
         if steps' mod DEADLINE_CHECK_INTERVAL_UNITS = 0 then
           (case execution_before_materialization w d of (d', r) \<Rightarrow> ((steps', d'), r))
         else ((steps', d), Ok ()))"

definition normalize_fact_entity :: "(nat \<Rightarrow> bool) \<Rightarrow> string \<Rightarrow> work_counts \<Rightarrow> string timed" where
  "normalize_fact_entity can_alloc v w =
     (if length v > unat MAX_OBJECT_BYTES then st_fail (resource_failure w)
      else
        st_then (execution_before_allocation w) (\<lambda>_. \<lambda>d.
        case lowercase_bounded can_alloc (count_scalar w) v (unat MAX_OBJECT_BYTES) (0, d) of
          ((_, d'), Ok normalized) \<Rightarrow> st_then (execution_before_materialization w) (\<lambda>_. st_ret normalized) d'
        | ((_, d'), Err (Checkpoint failure)) \<Rightarrow> (d', Err failure)
        | ((_, d'), Err Resource) \<Rightarrow> (d', Err (resource_failure w))
        | ((_, d'), Panic) \<Rightarrow> (d', Panic)))"

section \<open>Copies\<close>

definition try_clone_json_string :: "(nat \<Rightarrow> bool) \<Rightarrow> string \<Rightarrow> work_counts \<Rightarrow> string timed" where
  "try_clone_json_string can_alloc v w =
     st_then (execution_before_allocation w) (\<lambda>_.
     if \<not> can_alloc (length v) then st_fail (resource_failure w)
     else st_then (execution_before_materialization w) (\<lambda>_. st_ret v))"

text \<open>\<^verbatim>\<open>serde_json::Map::insert\<close>: the entries stay in the order of their keys.\<close>

fun object_insert :: "string \<Rightarrow> json \<Rightarrow> (string \<times> json) list \<Rightarrow> (string \<times> json) list" where
  "object_insert k v [] = [(k, v)]"
| "object_insert k v ((k', v') # r) =
     (if k < k' then (k, v) # (k', v') # r else if k = k' then (k, v) # r else (k', v') # object_insert k v r)"

fun try_clone_json_value :: "(nat \<Rightarrow> bool) \<Rightarrow> work_counts \<Rightarrow> json \<Rightarrow> json timed"
and clone_items :: "(nat \<Rightarrow> bool) \<Rightarrow> work_counts \<Rightarrow> json list \<Rightarrow> json list \<Rightarrow> json list timed"
and clone_entries ::
  "(nat \<Rightarrow> bool) \<Rightarrow> work_counts \<Rightarrow> (string \<times> json) list \<Rightarrow> (string \<times> json) list \<Rightarrow> (string \<times> json) list timed"
where
  "try_clone_json_value ca w JNull = st_ret JNull"
| "try_clone_json_value ca w (JBool b) = st_ret (JBool b)"
| "try_clone_json_value ca w (JNumber n) = st_ret (JNumber n)"
| "try_clone_json_value ca w (JString s) = st_then (try_clone_json_string ca s w) (\<lambda>s'. st_ret (JString s'))"
| "try_clone_json_value ca w (JArray vs) =
     st_then (execution_before_allocation w) (\<lambda>_.
     if \<not> ca (length vs) then st_fail (resource_failure w)
     else st_then (clone_items ca w vs []) (\<lambda>cloned.
          st_then (execution_before_materialization w) (\<lambda>_. st_ret (JArray cloned))))"
| "try_clone_json_value ca w (JObject es) =
     st_then (clone_entries ca w es []) (\<lambda>cloned.
     st_then (execution_before_materialization w) (\<lambda>_. st_ret (JObject cloned)))"
| "clone_items ca w [] cloned = st_ret cloned"
| "clone_items ca w (v # vs) cloned =
     st_then (try_clone_json_value ca w v) (\<lambda>v'. clone_items ca w vs (cloned @ [v']))"
| "clone_entries ca w [] cloned = st_ret cloned"
| "clone_entries ca w ((k, v) # es) cloned =
     st_then (try_clone_json_string ca k w) (\<lambda>k'.
     st_then (try_clone_json_value ca w v) (\<lambda>v'. clone_entries ca w es (object_insert k' v' cloned)))"

definition materialize_domain_object :: "frame_codec \<Rightarrow> json \<Rightarrow> json counted" where
  "materialize_domain_object fc v = (\<lambda>(w, d).
     case checked_add (objects_considered_for_encoding w) 1 of
       None \<Rightarrow> ((w, d), Err (resource_failure w))
     | Some n \<Rightarrow>
         let w' = w\<lparr>objects_considered_for_encoding := n\<rparr> in
         (case work_check w' of
            Ok _ \<Rightarrow>
              st_then (timed execution_before_materialization) (\<lambda>_.
                case encode_object fc v of
                  Ok _ \<Rightarrow> timed (\<lambda>w. try_clone_json_value (can_reserve fc) w v)
                | Err _ \<Rightarrow> st_fail (resource_failure w')
                | Panic \<Rightarrow> st_panic) (w', d)
          | Err _ \<Rightarrow> ((w', d), Err (resource_failure w'))
          | Panic \<Rightarrow> ((w', d), Panic)))"

text \<open>The two readings of the clock are the parameters \<open>e1\<close> and \<open>e2\<close>.\<close>

definition encode_success_before_deadline ::
  "frame_codec \<Rightarrow> u64 \<Rightarrow> u64 \<Rightarrow> json \<Rightarrow> work_counts \<Rightarrow> u64 \<Rightarrow> u64 \<Rightarrow> string timed"
where
  "encode_success_before_deadline fc i gen v w e1 e2 =
     st_then (before_materialization_at e1 w) (\<lambda>_.
     case encode_success fc i gen v w of
       Ok frame \<Rightarrow> st_then (before_materialization_at e2 w) (\<lambda>_. st_ret frame)
     | Err _ \<Rightarrow> st_fail (resource_failure w)
     | Panic \<Rightarrow> st_panic)"

end
