(* ===== verification/Retrieval_Objects_Correct.thy ===== *)
theory Retrieval_Objects_Correct
  imports Retrieval_Objects
begin

text \<open>
  Copies of stored objects are equal to the objects, normalized entities are lowercase and bounded,
  and no response leaves after its deadline.
\<close>

section \<open>Results of timed code\<close>

text \<open>The code returns \<open>x\<close> or fails; in time, and if \<open>P\<close> holds, it returns.\<close>

definition yields :: "bool \<Rightarrow> 'a timed \<Rightarrow> 'a \<Rightarrow> bool" where
  "yields P m x \<longleftrightarrow> (\<forall>d.
     ((\<exists>d'. m d = (d', Ok x)) \<or> (\<exists>d' e. m d = (d', Err e))) \<and>
     (P \<longrightarrow> on_time d \<longrightarrow> (\<exists>d'. m d = (d', Ok x) \<and> on_time d')))"

lemma yields_ret [simp]: "yields P (st_ret x) x"
  by (simp add: yields_def st_ret_def)

lemma yields_fail: "\<not> P \<Longrightarrow> yields P (st_fail e) x"
  by (simp add: yields_def st_fail_def)

lemma yields_then:
  assumes "yields P m x" "yields P (f x) y"
  shows "yields P (st_then m f) y"
  unfolding yields_def
proof (intro allI conjI impI)
  fix d
  from assms(1) consider d' where "m d = (d', Ok x)" | d' e where "m d = (d', Err e)" unfolding yields_def by blast
  then show "(\<exists>d'. st_then m f d = (d', Ok y)) \<or> (\<exists>d' e. st_then m f d = (d', Err e))"
  proof cases
    case (1 d')
    then have "st_then m f d = f x d'" by (simp add: st_then_def)
    with assms(2) show ?thesis unfolding yields_def by metis
  qed (simp add: st_then_def)
  assume "P" "on_time d"
  with assms(1) obtain d' where "m d = (d', Ok x)" "on_time d'" unfolding yields_def by blast
  with assms(2) \<open>P\<close> show "\<exists>d'. st_then m f d = (d', Ok y) \<and> on_time d'"
    unfolding yields_def by (simp add: st_then_def)
qed

lemma checkpoint_cases: "(\<exists>d'. checkpoint d now u = (d', Ok ())) \<or> (\<exists>d' e. checkpoint d now u = (d', Err e))"
  by (auto simp: checkpoint_def observe_clock_def Let_def)

lemma yields_checkpoint: "yields P (execution_checkpoint w) ()"
  unfolding yields_def
proof (intro allI conjI impI)
  fix d :: execution_deadline
  show "(\<exists>d'. execution_checkpoint w d = (d', Ok ())) \<or> (\<exists>d' e. execution_checkpoint w d = (d', Err e))"
    using checkpoint_cases [of "ed_deadline d" "ed_clock d (ed_reads d)" "ed_completed_units d"]
    by (auto simp: execution_checkpoint_def st_then_def now_ms_def pass_deadline_def)
  assume "on_time d"
  then show "\<exists>d'. execution_checkpoint w d = (d', Ok ()) \<and> on_time d'"
    using pass_deadline_on_time [where d = d and c = "ed_completed_units d" and w = w] by auto
qed

lemma yields_before: "yields P (execution_before_allocation w) ()" "yields P (execution_before_materialization w) ()"
  using yields_checkpoint [of P w]
  by (simp_all add: execution_before_allocation_def execution_before_materialization_def execution_checkpoint_def
      before_allocation_def [abs_def] before_materialization_def [abs_def] before_materialization_at_def)

section \<open>Copies\<close>

lemma object_insert_last: "\<forall>k' \<in> fst ` set es. k' < k \<Longrightarrow> object_insert k v es = es @ [(k, v)]"
  by (induction k v es rule: object_insert.induct) auto

lemma yields_clone_string: "yields (\<forall>n. ca n) (try_clone_json_string ca s w) s"
  unfolding try_clone_json_string_def
  by (rule yields_then [OF yields_before(1)]) (auto intro: yields_fail yields_then [OF yields_before(2)])

lemma yields_clone:
  "json_wf v \<Longrightarrow> yields (\<forall>n. ca n) (try_clone_json_value ca w v) v"
  "list_all json_wf vs \<Longrightarrow> yields (\<forall>n. ca n) (clone_items ca w vs cloned) (cloned @ vs)"
  "list_all (\<lambda>(_, v). json_wf v) es \<Longrightarrow> sorted_wrt (<) (map fst (ecloned @ es)) \<Longrightarrow>
     yields (\<forall>n. ca n) (clone_entries ca w es ecloned) (ecloned @ es)"
proof (induction ca w v and ca w vs cloned and ca w es ecloned
    rule: try_clone_json_value_clone_items_clone_entries.induct)
  case (4 ca w s)
  then show ?case by (auto intro: yields_then [OF yields_clone_string])
next
  case (5 ca w vs)
  then show ?case
    by (auto intro!: yields_then [OF yields_before(1)] yields_then [OF yields_before(2)] yields_then yields_fail)
next
  case (6 ca w es)
  then show ?case by (auto intro!: yields_then yields_before(2))
next
  case (8 ca w v vs cloned)
  then show ?case by (auto intro!: yields_then)
next
  case (10 ca w k v es cloned)
  have ins: "object_insert k v cloned = cloned @ [(k, v)]"
    using "10.prems"(2) by (intro object_insert_last) (auto simp: sorted_wrt_append)
  have "yields (\<forall>n. ca n) (clone_entries ca w es (object_insert k v cloned)) (cloned @ (k, v) # es)"
    using "10.IH"(2) [of k v] "10.prems" by (simp add: ins)
  with "10.IH"(1) "10.prems"(1) show ?case
    by (auto intro!: yields_then [OF yields_clone_string] yields_then)
qed auto

text \<open>The copy of a stored object is the object: whenever copying returns, it returns an equal value,
  with keys in the same order; it never panics, and returns in time if memory suffices.\<close>

theorem clone_is_identity:
  assumes "json_wf v"
  shows "((\<exists>d'. try_clone_json_value ca w v d = (d', Ok v)) \<or> (\<exists>d' e. try_clone_json_value ca w v d = (d', Err e))) \<and>
    ((\<forall>n. ca n) \<longrightarrow> on_time d \<longrightarrow> (\<exists>d'. try_clone_json_value ca w v d = (d', Ok v) \<and> on_time d'))"
  using yields_clone(1) [OF assms, of ca w] by (auto simp: yields_def)

section \<open>Entities\<close>

lemma count_scalar_not_Panic: "snd (count_scalar w st) \<noteq> Panic"
proof -
  have "snd (execution_before_materialization w d) \<noteq> Panic" for d
    using yields_before(2) [of True w] unfolding yields_def by (metis outcome.distinct(4,6) snd_conv)
  then show ?thesis
    by (auto simp: count_scalar_def split: prod.splits option.splits) (metis snd_conv)
qed

text \<open>A normalized entity is the lowercase of the stored one and has at most 256 KiB.\<close>

theorem normalized_entity_is_lowercase:
  assumes "utf8_error 0 v = None" "normalize_fact_entity always v w d = (d', Ok out)"
  shows "out = lower_spec v \<and> length out \<le> 256 * 1024"
proof -
  let ?low = "\<lambda>d1. lowercase_bounded always (count_scalar w) v (unat MAX_OBJECT_BYTES) (0, d1)"
  from assms(2) obtain d1 where c:
    "(case ?low d1 of
       ((_, d'), Ok normalized) \<Rightarrow> st_then (execution_before_materialization w) (\<lambda>_. st_ret normalized) d'
     | ((_, d'), Err (Checkpoint failure)) \<Rightarrow> (d', Err failure)
     | ((_, d'), Err Resource) \<Rightarrow> (d', Err (resource_failure w))
     | ((_, d'), Panic) \<Rightarrow> (d', Panic)) = (d', Ok out)"
    by (auto simp: normalize_fact_entity_def st_then_Ok st_fail_def split: if_splits)
  obtain s2 d2 res where l: "?low d1 = ((s2, d2), res)" by (metis prod.exhaust)
  with c have "?low d1 = ((s2, d2), Ok out)"
    by (auto simp: st_then_Ok st_ret_def split: outcome.splits lowercase_error.splits)
  moreover have "checkpoint_ok True (count_scalar w)"
    unfolding checkpoint_ok_def
  proof
    fix st show "snd (count_scalar w st) = Ok () \<or> True \<and> (\<exists>e. snd (count_scalar w st) = Err e)"
      using count_scalar_not_Panic [of w st] by (cases "snd (count_scalar w st)") auto
  qed
  from lowercase_bounded_gives [OF this assms(1), of "unat MAX_OBJECT_BYTES"]
  have "gives True (lowercase_bounded always (count_scalar w) v (unat MAX_OBJECT_BYTES))
      (if length (lower_spec v) \<le> 256 * 1024 then Ok (lower_spec v) else Err Resource)"
    by (simp add: MAX_OBJECT_BYTES_def)
  ultimately show ?thesis unfolding gives_def by (metis outcome.distinct(1) outcome.inject(1) snd_conv)
qed

section \<open>Responses\<close>

text \<open>A success response is sent only if the clock, read after encoding, is still before the
  deadline, and it is the encoded frame.\<close>

theorem response_before_deadline:
  assumes "encode_success_before_deadline fc i gen v w e1 e2 d = (d', Ok frame)"
  shows "encode_success fc i gen v w = Ok frame \<and> e1 \<le> e2 \<and> e2 < md_deadline_ms (ed_deadline d)"
proof -
  have p: "before_materialization_at e w d = (d2, Ok ()) \<Longrightarrow>
      md_deadline_ms (ed_deadline d2) = md_deadline_ms (ed_deadline d) \<and> last_now_ms (ed_deadline d2) = e \<and>
      last_now_ms (ed_deadline d) \<le> e \<and> e < md_deadline_ms (ed_deadline d)" for e d d2
    by (auto simp: before_materialization_at_def pass_deadline_def before_materialization_def checkpoint_Ok
        split: prod.splits outcome.splits)
  from assms obtain d1 d2 where "before_materialization_at e1 w d = (d1, Ok ())"
    "encode_success fc i gen v w = Ok frame" "before_materialization_at e2 w d1 = (d2, Ok ())"
    by (auto simp: encode_success_before_deadline_def st_then_Ok st_ret_def st_fail_def st_panic_def
        split: outcome.splits)
  with p [of e1 d d1] p [of e2 d1 d2] show ?thesis by auto
qed

definition sample_object :: json where
  "sample_object = JObject [(''a'', JArray [JNull, JString ''x'']), (''b'', JBool True)]"

theorem clone_is_identity_witness:
  "\<exists>d'. try_clone_json_value always work_default sample_object sample_deadline = (d', Ok sample_object)"
proof -
  have w: "json_wf sample_object" by (simp add: sample_object_def less_char_def)
  from clone_is_identity [OF w, of always work_default sample_deadline] sample_on_time show ?thesis by blast
qed

lemma sample_before_materialization:
  "\<exists>d'. before_materialization_at 3 work_default sample_deadline = (d', Ok ()) \<and>
     ed_deadline d' = \<lparr>md_deadline_ms = 10, last_now_ms = 3, md_completed_units = 0\<rparr> \<and> ed_completed_units d' = 0"
  by (simp add: before_materialization_at_def pass_deadline_def before_materialization_def checkpoint_def
      observe_clock_def sample_deadline_def)

theorem response_before_deadline_witness:
  "\<exists>frame. encode_success sample_frame_codec 1 7 JNull work_default = Ok frame \<and>
     (3 :: u64) < md_deadline_ms (ed_deadline sample_deadline)"
proof -
  obtain frame where f: "encode_success sample_frame_codec 1 7 JNull work_default = Ok frame"
    using encode_success_Ok [OF _ sample_work_check _ sample_frame_length, of 7 1 JNull]
    by (auto simp: sample_frame_codec_def MAX_SAFE_GENERATION_def)
  from sample_before_materialization obtain d1 where d1:
    "before_materialization_at 3 work_default sample_deadline = (d1, Ok ())"
    "ed_deadline d1 = \<lparr>md_deadline_ms = 10, last_now_ms = 3, md_completed_units = 0\<rparr>" "ed_completed_units d1 = 0" by blast
  then have "\<exists>d2. before_materialization_at 3 work_default d1 = (d2, Ok ())"
    by (simp add: before_materialization_at_def pass_deadline_def before_materialization_def checkpoint_def observe_clock_def)
  with f d1(1) have "\<exists>d2. encode_success_before_deadline sample_frame_codec 1 7 JNull work_default 3 3 sample_deadline = (d2, Ok frame)"
    by (auto simp: encode_success_before_deadline_def st_then_def st_ret_def)
  with response_before_deadline show ?thesis by blast
qed

lemma sample_normalized:
  "\<exists>d'. normalize_fact_entity always ''A'' work_default sample_deadline = (d', Ok ''a'')"
proof -
  have s: "str_chars ''A'' = [65]"
    by (simp add: str_chars.simps scalar_of_def lead_bits_def utf8_width_def in_range_def less_char_def)
  have t: "table_lookup 65 = [97]"
    by (simp add: table_lookup_map_of LOWERCASE_MAPPINGS_def map_add_def lowercase_mappings_1_def)
  have e: "encode_char 97 = ''a''" by (simp add: encode_char_def char_of_eq)
  have low: "\<exists>s'. lowercase_bounded always (count_scalar work_default) ''A'' (unat MAX_OBJECT_BYTES) (0, d) = ((s', d), Ok ''a'')" for d
    by (simp add: lowercase_bounded_def s st_then_def st_map_err_def count_scalar_def checked_add_def
        DEADLINE_CHECK_INTERVAL_UNITS_def map_scalar_def t e is_scalar_def len_utf8_def st_ret_def MAX_OBJECT_BYTES_def)
  obtain d1 where d1: "execution_before_allocation work_default sample_deadline = (d1, Ok ())" "on_time d1"
    using yields_before(1) [of True work_default] sample_on_time unfolding yields_def by blast
  obtain d2 where d2: "execution_before_materialization work_default d1 = (d2, Ok ())"
    using yields_before(2) [of True work_default] d1(2) unfolding yields_def by blast
  from low [of d1] obtain s' where
    "lowercase_bounded always (count_scalar work_default) ''A'' (unat MAX_OBJECT_BYTES) (0, d1) = ((s', d1), Ok ''a'')" by blast
  with d1 d2 show ?thesis by (simp add: normalize_fact_entity_def st_then_def st_ret_def MAX_OBJECT_BYTES_def)
qed

theorem normalized_entity_is_lowercase_witness:
  "\<exists>d' out. normalize_fact_entity always ''A'' work_default sample_deadline = (d', Ok out) \<and> out = lower_spec ''A''"
proof -
  from sample_normalized obtain d' where "normalize_fact_entity always ''A'' work_default sample_deadline = (d', Ok ''a'')" by blast
  with normalized_entity_is_lowercase [OF _ this] show ?thesis by (auto simp: utf8_error_ascii less_char_def)
qed

end
