(* ===== verification/Iteration.thy ===== *)
theory Iteration
  imports Prelude
begin

text \<open>
  Loops whose body may return early with \<^verbatim>\<open>?\<close>, with the congruence rules that let a recursive function
  call itself from the body on the elements of the list.
\<close>

text \<open>\<^verbatim>\<open>for (index, x) in xs.iter().enumerate() { body?; }\<close>.\<close>

fun each :: "(nat \<Rightarrow> 'a \<Rightarrow> (unit, 'e) outcome) \<Rightarrow> nat \<Rightarrow> 'a list \<Rightarrow> (unit, 'e) outcome" where
  "each f i [] = Ok ()"
| "each f i (x # xs) = and_then (f i x) (\<lambda>_. each f (Suc i) xs)"

text \<open>\<^verbatim>\<open>xs.iter().enumerate().map(f).collect::<Result<Vec<_>, _>>()\<close>.\<close>

fun traverse_from :: "(nat \<Rightarrow> 'a \<Rightarrow> ('b, 'e) outcome) \<Rightarrow> nat \<Rightarrow> 'a list \<Rightarrow> ('b list, 'e) outcome" where
  "traverse_from f i [] = Ok []"
| "traverse_from f i (x # xs) =
     and_then (f i x) (\<lambda>y. and_then (traverse_from f (Suc i) xs) (\<lambda>ys. Ok (y # ys)))"

text \<open>\<^verbatim>\<open>for x in xs { if test(x)? { return Ok(true); } } Ok(false)\<close>.\<close>

fun any_ok :: "('a \<Rightarrow> (bool, 'e) outcome) \<Rightarrow> 'a list \<Rightarrow> (bool, 'e) outcome" where
  "any_ok f [] = Ok False"
| "any_ok f (x # xs) = and_then (f x) (\<lambda>b. if b then Ok True else any_ok f xs)"

text \<open>A loop that carries a variable: \<^verbatim>\<open>for x in xs { acc = body(acc, x)?; }\<close>.\<close>

fun fold_ok :: "('b \<Rightarrow> 'a \<Rightarrow> ('b, 'e) outcome) \<Rightarrow> 'b \<Rightarrow> 'a list \<Rightarrow> ('b, 'e) outcome" where
  "fold_ok f acc [] = Ok acc"
| "fold_ok f acc (x # xs) = and_then (f acc x) (\<lambda>acc'. fold_ok f acc' xs)"

text \<open>\<^verbatim>\<open>option.expect(..)\<close>.\<close>

definition expect :: "'a option \<Rightarrow> ('a, 'e) outcome" where
  "expect x = (case x of Some v \<Rightarrow> Ok v | None \<Rightarrow> Panic)"

lemma expect_Ok [simp]: "expect x = Ok v \<longleftrightarrow> x = Some v"
  by (auto simp: expect_def split: option.splits)

lemma expect_simps [simp]: "expect (Some v) = Ok v" "expect None = Panic" "expect x \<noteq> Err e"
  by (auto simp: expect_def split: option.splits)

lemma expect_Panic [simp]: "expect x = Panic \<longleftrightarrow> x = None"
  by (auto simp: expect_def split: option.splits)

lemma each_cong [fundef_cong]:
  assumes "xs = ys" "i = j" "\<And>k x. x \<in> set ys \<Longrightarrow> f k x = g k x"
  shows "each f i xs = each g j ys"
  unfolding assms(1,2) using assms(3) by (induction ys arbitrary: j) (simp_all cong: and_then_cong)

lemma traverse_from_cong [fundef_cong]:
  assumes "xs = ys" "i = j" "\<And>k x. x \<in> set ys \<Longrightarrow> f k x = g k x"
  shows "traverse_from f i xs = traverse_from g j ys"
  unfolding assms(1,2) using assms(3) by (induction ys arbitrary: j) (simp_all cong: and_then_cong)

lemma traverse_cong [fundef_cong]:
  assumes "xs = ys" "\<And>x. x \<in> set ys \<Longrightarrow> f x = g x"
  shows "traverse f xs = traverse g ys"
  unfolding assms(1) using assms(2) by (induction ys) (simp_all cong: and_then_cong)

lemma any_ok_cong [fundef_cong]:
  assumes "xs = ys" "\<And>x. x \<in> set ys \<Longrightarrow> f x = g x"
  shows "any_ok f xs = any_ok g ys"
  unfolding assms(1) using assms(2) by (induction ys) (simp_all cong: if_cong)

lemma any_ok_False: "any_ok f xs = Ok False \<longleftrightarrow> (\<forall>x \<in> set xs. f x = Ok False)"
  by (induction xs) auto

lemma any_ok_True: "any_ok f xs = Ok True \<Longrightarrow> \<exists>x \<in> set xs. f x = Ok True"
  by (induction xs) (auto split: if_splits)

lemma any_ok_not_Panic: "(\<And>x. x \<in> set xs \<Longrightarrow> f x \<noteq> Panic) \<Longrightarrow> any_ok f xs \<noteq> Panic"
  by (induction xs) (auto simp: and_then_def split: outcome.splits)

lemma size_elem: "x \<in> set xs \<Longrightarrow> size x < Suc (size_list size xs)"
  by (induction xs) auto

lemma each_Ok_iff:
  "(\<And>k x. x \<in> set xs \<Longrightarrow> f k x = Ok () \<longleftrightarrow> P x) \<Longrightarrow> each f i xs = Ok () \<longleftrightarrow> (\<forall>x \<in> set xs. P x)"
  by (induction xs arbitrary: i) auto

lemma each_OkD: "each f i xs = Ok () \<Longrightarrow> x \<in> set xs \<Longrightarrow> \<exists>k. f k x = Ok ()"
  by (induction xs arbitrary: i) auto

lemma each_not_Panic: "(\<And>k x. x \<in> set xs \<Longrightarrow> f k x \<noteq> Panic) \<Longrightarrow> each f i xs \<noteq> Panic"
  by (induction xs arbitrary: i) (auto simp: and_then_def split: outcome.splits)

lemma traverse_from_not_Panic:
  "(\<And>k x. x \<in> set xs \<Longrightarrow> f k x \<noteq> Panic) \<Longrightarrow> traverse_from f i xs \<noteq> Panic"
  by (induction xs arbitrary: i) (auto simp: and_then_def split: outcome.splits)

lemma traverse_from_Ok:
  "traverse_from f i xs = Ok ys \<longleftrightarrow>
     length ys = length xs \<and> (\<forall>k < length xs. f (i + k) (xs ! k) = Ok (ys ! k))"
proof (induction xs arbitrary: i ys)
  case (Cons x xs)
  then show ?case by (cases ys) (auto simp: less_Suc_eq_0_disj)
qed auto

lemma each_Ok: "each f i xs = Ok () \<longleftrightarrow> (\<forall>k < length xs. f (i + k) (xs ! k) = Ok ())"
  by (induction xs arbitrary: i) (auto simp: less_Suc_eq_0_disj)

section \<open>Inverting a successful run\<close>

lemma and_then_OkE: "and_then m f = Ok y \<Longrightarrow> (\<And>x. m = Ok x \<Longrightarrow> f x = Ok y \<Longrightarrow> P) \<Longrightarrow> P"
  by auto

lemma guard_OkE: "(if c then Err e else x) = Ok y \<Longrightarrow> (\<not> c \<Longrightarrow> x = Ok y \<Longrightarrow> P) \<Longrightarrow> P"
  by (auto split: if_splits)

lemma Ok_inj: "Ok x = Ok y \<Longrightarrow> x = y"
  by simp

lemmas ok_elims = and_then_OkE guard_OkE

lemma fold_ok_member: "fold_ok f a xs = Ok r \<Longrightarrow> x \<in> set xs \<Longrightarrow> \<exists>b b'. f b x = Ok b'"
  by (induction xs arbitrary: a) auto

end
