(* ===== verification/Contract_Schema.thy ===== *)
theory Contract_Schema
  imports Bounded_Limits Iteration
begin

text \<open>
  The schema language of the bounded retrieval contract (\<^verbatim>\<open>bounded_retrieval_contract.rs\<close>): its nodes,
  their reading from JSON, the validation of a value and the resolution of a JSON pointer in a schema.
  A reference to the delegated domain contract is followed by recursion; \<open>depth\<close> is the number of
  references the stack can hold, beyond which the process overflows it and aborts (\<open>Panic\<close>).
\<close>

section \<open>Nodes\<close>

datatype contract_node =
    NString
  | NNumber
  | NBoolean
  | NLiteral "json list"
  | NArray contract_node
  | NTuple "contract_node list"
  | NOptional contract_node
  | NObject "(string \<times> contract_node) list"
  | NExternalRef string string

type_synonym domain = "(string \<times> contract_node) list"

definition object :: "json \<Rightarrow> string \<Rightarrow> (string \<times> json) list contract_result" where
  "object v label = ok_or (as_object v) (label @ '' must be an object'')"

definition exact_keys :: "(string \<times> json) list \<Rightarrow> string list \<Rightarrow> string \<Rightarrow> unit contract_result" where
  "exact_keys m expected label =
     (if set (map fst m) = set expected then Ok () else Err (label @ '' has unknown or missing field''))"

definition is_json_scalar :: "json \<Rightarrow> bool" where
  "is_json_scalar v = (case v of JArray _ \<Rightarrow> False | JObject _ \<Rightarrow> False | _ \<Rightarrow> True)"

definition str_field :: "(string \<times> json) list \<Rightarrow> string \<Rightarrow> string option" where
  "str_field m k = Option.bind (map_of m k) json_str"

lemma object_Ok [simp, termination_simp]: "object v label = Ok m \<longleftrightarrow> v = JObject m"
  by (cases v) (auto simp: object_def ok_or_def as_object_def)

lemma object_simps [simp]: "object (JObject m) label = Ok m" "object v label \<noteq> Panic"
  by (simp_all add: object_def ok_or_def as_object_def split: option.splits)

lemma exact_keys_Ok [simp]: "exact_keys m ks label = Ok () \<longleftrightarrow> fst ` set m = set ks"
  by (simp add: exact_keys_def)

lemma exact_keys_not_Panic [simp]: "exact_keys m ks label \<noteq> Panic"
  by (simp add: exact_keys_def)

section \<open>Reading a schema\<close>

function parse_contract_node :: "json \<Rightarrow> string \<Rightarrow> contract_node contract_result" where
  "parse_contract_node v label =
     and_then (object v label) (\<lambda>m.
     and_then (ok_or (str_field m ''kind'') (label @ ''.kind must be a string'')) (\<lambda>kind.
     if kind = ''string'' then and_then (exact_keys m [''kind''] label) (\<lambda>_. Ok NString)
     else if kind = ''number'' then and_then (exact_keys m [''kind''] label) (\<lambda>_. Ok NNumber)
     else if kind = ''boolean'' then and_then (exact_keys m [''kind''] label) (\<lambda>_. Ok NBoolean)
     else if kind = ''literal'' then
       and_then (exact_keys m [''kind'', ''values''] label) (\<lambda>_.
       and_then (ok_or (Option.bind (map_of m ''values'') as_array) (label @ ''.values must be an array'')) (\<lambda>vs.
       if vs = [] \<or> list_ex (\<lambda>w. \<not> is_json_scalar w) vs then Err (label @ ''.values must be nonempty scalars'')
       else Ok (NLiteral vs)))
     else if kind = ''array'' then
       and_then (exact_keys m [''kind'', ''items''] label) (\<lambda>_.
       and_then (expect (map_of m ''items'')) (\<lambda>items.
       and_then (parse_contract_node items (label @ ''.items'')) (\<lambda>n. Ok (NArray n))))
     else if kind = ''tuple'' then
       and_then (exact_keys m [''kind'', ''items''] label) (\<lambda>_.
       and_then (ok_or (Option.bind (map_of m ''items'') as_array) (label @ ''.items must be an array'')) (\<lambda>items.
       if items = [] then Err (label @ ''.items must be nonempty'')
       else and_then (traverse_from (\<lambda>index item. parse_contract_node item (label @ ''.items['' @ show_nat index @ '']''))
              0 items) (\<lambda>ns. Ok (NTuple ns))))
     else if kind = ''optional'' then
       and_then (exact_keys m [''kind'', ''value''] label) (\<lambda>_.
       and_then (expect (map_of m ''value'')) (\<lambda>item.
       and_then (parse_contract_node item (label @ ''.value'')) (\<lambda>n. Ok (NOptional n))))
     else if kind = ''object'' then
       and_then (exact_keys m [''kind'', ''fields''] label) (\<lambda>_.
       and_then (expect (map_of m ''fields'')) (\<lambda>fv.
       and_then (object fv (label @ ''.fields'')) (\<lambda>fields.
       and_then (traverse (\<lambda>p. and_then (parse_contract_node (snd p) (label @ ''.'' @ fst p)) (\<lambda>n. Ok (fst p, n)))
              fields) (\<lambda>ns. Ok (NObject ns)))))
     else if kind = ''externalRef'' then
       and_then (exact_keys m [''dependency'', ''kind'', ''referenceKind''] label) (\<lambda>_.
       and_then (ok_or (str_field m ''dependency'') (label @ ''.dependency must be a string'')) (\<lambda>dependency.
       and_then (ok_or (str_field m ''referenceKind'') (label @ ''.referenceKind must be a string'')) (\<lambda>reference_kind.
       Ok (NExternalRef dependency reference_kind))))
     else Err (''unsupported contract schema kind '' @ kind)))"
  by pat_completeness auto

lemma child_size: "object v l = Ok m \<Longrightarrow> expect (map_of m k) = Ok x \<Longrightarrow> size x < size v"
  by (auto dest: size_map_of)

lemma child_elem_size:
  assumes "object v l = Ok m" "ok_or (Option.bind (map_of m k) as_array) e = Ok xs" "x \<in> set xs"
  shows "size x < size v"
proof -
  have "size (JArray xs) < size v" using assms(1,2) by (auto simp: bind_eq_Some_conv dest: size_map_of)
  moreover have "size x < size (JArray xs)" using assms(3) by (induction xs) auto
  ultimately show ?thesis by simp
qed

lemma child_entry_size:
  assumes "object v l = Ok m" "expect (map_of m k) = Ok w" "object w l' = Ok ps" "p \<in> set ps"
  shows "size (snd p) < size v"
  using child_size [OF assms(1,2)] size_entry [OF assms(4)] assms(3) by simp

termination parse_contract_node
proof (relation "measure (\<lambda>(v, _). size v)", goal_cases)
  case (2 v label m kind u items)
  show ?case by (simp only: in_measure prod.case) (rule child_size; rule 2)
next
  case (3 v label m kind u items i x)
  show ?case by (simp only: in_measure prod.case) (rule child_elem_size; rule 3)
next
  case (4 v label m kind u item)
  show ?case by (simp only: in_measure prod.case) (rule child_size; rule 4)
next
  case (5 v label m kind u fv fields p)
  show ?case by (simp only: in_measure prod.case) (rule child_entry_size; rule 5)
qed simp

declare parse_contract_node.simps [simp del]

section \<open>Validating a value\<close>

definition is_optional :: "contract_node \<Rightarrow> bool" where
  "is_optional n = (case n of NOptional _ \<Rightarrow> True | _ \<Rightarrow> False)"

definition DOMAIN_DEPENDENCY :: string where
  "DOMAIN_DEPENDENCY = ''aira-synapse-domain-contract@1''"

definition finite_number :: "json \<Rightarrow> bool" where
  "finite_number v = (case as_f64 v of Some x \<Rightarrow> f64_is_finite x | None \<Rightarrow> False)"

function validate_schema :: "nat \<Rightarrow> contract_node \<Rightarrow> json \<Rightarrow> domain \<Rightarrow> string \<Rightarrow> unit contract_result" where
  "validate_schema depth NString v domain path =
     (if is_json_string v then Ok () else Err (path @ '' must be a string''))"
| "validate_schema depth NNumber v domain path =
     (if finite_number v then Ok () else Err (path @ '' must be a finite number''))"
| "validate_schema depth NBoolean v domain path =
     (if as_bool v \<noteq> None then Ok () else Err (path @ '' must be a boolean''))"
| "validate_schema depth (NLiteral vs) v domain path =
     (if list_ex (\<lambda>w. json_eq w v) vs then Ok () else Err (path @ '' is not an allowed literal''))"
| "validate_schema depth (NArray item) v domain path =
     and_then (ok_or (as_array v) (path @ '' must be an array'')) (\<lambda>vs.
     each (\<lambda>index w. validate_schema depth item w domain (path @ ''['' @ show_nat index @ '']'')) 0 vs)"
| "validate_schema depth (NTuple items) v domain path =
     and_then (ok_or (as_array v) (path @ '' must be a tuple'')) (\<lambda>vs.
     if length vs \<noteq> length items then Err (path @ '' tuple cardinality mismatch'')
     else each (\<lambda>index p. validate_schema depth (fst p) (snd p) domain (path @ ''['' @ show_nat index @ '']''))
            0 (zip items vs))"
| "validate_schema depth (NOptional item) v domain path =
     (if v = JNull then Err (path @ '' optional value cannot be null'')
      else validate_schema depth item v domain path)"
| "validate_schema depth (NObject fs) v domain path =
     and_then (object v path) (\<lambda>m.
     if list_ex (\<lambda>field. field \<notin> set (map fst fs)) (map fst m) then Err (path @ '' contains an unknown field'')
     else each (\<lambda>_ p.
            (case map_of m (fst p) of
               Some w \<Rightarrow> validate_schema depth (snd p) w domain (path @ ''.'' @ fst p)
             | None \<Rightarrow> if is_optional (snd p) then Ok () else Err (path @ ''.'' @ fst p @ '' is missing'')))
            0 fs)"
| "validate_schema depth (NExternalRef dependency reference_kind) v domain path =
     (if dependency \<noteq> DOMAIN_DEPENDENCY then Err (''unknown contract dependency '' @ dependency)
      else and_then (ok_or (map_of domain reference_kind) (''unknown delegated domain reference '' @ reference_kind)) (\<lambda>child.
        (case depth of 0 \<Rightarrow> Panic | Suc d \<Rightarrow> validate_schema d child v domain path)))"
  by pat_completeness auto

lemma size_node_entry [termination_simp]: "p \<in> set fs \<Longrightarrow> size (snd p) < Suc (size_list (size_prod (\<lambda>_. 0) size) fs)"
  by (induction fs) auto

lemma size_zip_fst: "p \<in> set (zip xs ys) \<Longrightarrow> size (fst p) < Suc (size_list size xs)"
  by (induction xs ys rule: list_induct2') auto

termination validate_schema
  by (relation "measures [\<lambda>(d, _). d, \<lambda>(_, n, _). size n]") (auto dest: size_zip_fst size_node_entry)

fun validate_external_dependencies :: "contract_node \<Rightarrow> domain \<Rightarrow> unit contract_result" where
  "validate_external_dependencies (NExternalRef dependency reference_kind) domain =
     (if dependency \<noteq> DOMAIN_DEPENDENCY then Err (''unknown contract dependency '' @ dependency)
      else if reference_kind \<notin> set (map fst domain) then
        Err (''unknown delegated domain reference '' @ reference_kind)
      else Ok ())"
| "validate_external_dependencies (NArray item) domain = validate_external_dependencies item domain"
| "validate_external_dependencies (NOptional item) domain = validate_external_dependencies item domain"
| "validate_external_dependencies (NTuple items) domain =
     each (\<lambda>_ item. validate_external_dependencies item domain) 0 items"
| "validate_external_dependencies (NObject fs) domain =
     each (\<lambda>_ p. validate_external_dependencies (snd p) domain) 0 fs"
| "validate_external_dependencies _ domain = Ok ()"

section \<open>Rendering a schema\<close>

fun contract_node_json :: "contract_node \<Rightarrow> json" where
  "contract_node_json NString = JObject [(''kind'', JString ''string'')]"
| "contract_node_json NNumber = JObject [(''kind'', JString ''number'')]"
| "contract_node_json NBoolean = JObject [(''kind'', JString ''boolean'')]"
| "contract_node_json (NLiteral vs) = JObject [(''kind'', JString ''literal''), (''values'', JArray vs)]"
| "contract_node_json (NArray n) = JObject [(''items'', contract_node_json n), (''kind'', JString ''array'')]"
| "contract_node_json (NTuple ns) = JObject [(''items'', JArray (map contract_node_json ns)), (''kind'', JString ''tuple'')]"
| "contract_node_json (NOptional n) = JObject [(''kind'', JString ''optional''), (''value'', contract_node_json n)]"
| "contract_node_json (NObject fs) =
     JObject [(''fields'', JObject (map (\<lambda>p. (fst p, contract_node_json (snd p))) fs)), (''kind'', JString ''object'')]"
| "contract_node_json (NExternalRef d k) =
     JObject [(''dependency'', JString d), (''kind'', JString ''externalRef''), (''referenceKind'', JString k)]"

end
