(* ===== verification/Json_Pointer.thy ===== *)
theory Json_Pointer
  imports Bounded_Limits Iteration
begin

text \<open>
  JSON pointers as the bounded retrieval contract uses them (\<^verbatim>\<open>bounded_retrieval_contract.rs\<close>): their
  syntax, the decoding of a segment, the selection of values with the wildcard segment \<^verbatim>\<open>*\<close>, and the
  replacement of the value a pointer names.
\<close>

section \<open>Syntax\<close>

text \<open>Every \<^verbatim>\<open>~\<close> is followed by \<^verbatim>\<open>0\<close> or \<^verbatim>\<open>1\<close>.\<close>

fun valid_escapes :: "string \<Rightarrow> bool" where
  "valid_escapes [] = True"
| "valid_escapes (c # r) =
     (if c = CHR ''~'' then
        (case r of [] \<Rightarrow> False | d # r' \<Rightarrow> (d = CHR ''0'' \<or> d = CHR ''1'') \<and> valid_escapes r')
      else valid_escapes r)"

definition validate_json_pointer :: "string \<Rightarrow> string \<Rightarrow> unit contract_result" where
  "validate_json_pointer path label =
     (if path = [] then Ok ()
      else if \<not> starts_with path ''/'' then Err (label @ '' must be an RFC 6901 pointer'')
      else each (\<lambda>_ segment. if valid_escapes segment then Ok () else Err (label @ '' contains an invalid escape''))
             0 (split_char CHR ''/'' (tl path)))"

fun json_pointer_segment :: "string \<Rightarrow> string contract_result" where
  "json_pointer_segment [] = Ok []"
| "json_pointer_segment (c # r) =
     (if c = CHR ''~'' then
        (case r of
           [] \<Rightarrow> Err ''invalid JSON pointer escape''
         | d # r' \<Rightarrow>
             if d = CHR ''0'' then and_then (json_pointer_segment r') (\<lambda>s. Ok (CHR ''~'' # s))
             else if d = CHR ''1'' then and_then (json_pointer_segment r') (\<lambda>s. Ok (CHR ''/'' # s))
             else Err ''invalid JSON pointer escape'')
      else and_then (json_pointer_segment r) (\<lambda>s. Ok (c # s)))"

definition is_canonical_array_index :: "string \<Rightarrow> bool" where
  "is_canonical_array_index segment \<longleftrightarrow>
     segment = ''0'' \<or>
     (case segment of [] \<Rightarrow> False | c # rest \<Rightarrow> CHR ''1'' \<le> c \<and> c \<le> CHR ''9'' \<and> list_all is_digit rest)"

text \<open>
  \<^verbatim>\<open>&path[1..]\<close>: offset 1 of a string is a character boundary when its first character is ASCII.
\<close>

definition slice_from_1 :: "string \<Rightarrow> string contract_result" where
  "slice_from_1 path = (case path of [] \<Rightarrow> Panic | c # r \<Rightarrow> if c < CHR 0x80 then Ok r else Panic)"

text \<open>\<^verbatim>\<open>values.get(index)\<close>.\<close>

definition get_at :: "'a list \<Rightarrow> nat \<Rightarrow> 'a option" where
  "get_at xs i = (if i < length xs then Some (xs ! i) else None)"

section \<open>Selection\<close>

definition select_values :: "string \<Rightarrow> json \<Rightarrow> json list contract_result" where
  "select_values segment v =
     (if segment = ''*'' then
        (case v of
           JArray vs \<Rightarrow> Ok vs
         | JObject m \<Rightarrow> Ok (map snd m)
         | _ \<Rightarrow> Err ''JSON pointer wildcard requires a collection'')
      else
        (case v of
           JObject m \<Rightarrow>
             and_then (ok_or (map_of m segment) (''JSON pointer field '' @ segment @ '' is missing'')) (\<lambda>w. Ok [w])
         | JArray vs \<Rightarrow>
             and_then (ok_or (parse_usize segment) ''JSON pointer array index is invalid'') (\<lambda>index.
             and_then (ok_or (get_at vs index) ''JSON pointer array index is missing'') (\<lambda>w. Ok [w]))
         | _ \<Rightarrow> Err ''JSON pointer traversed a scalar''))"

fun select_path :: "string list \<Rightarrow> json list \<Rightarrow> json list contract_result" where
  "select_path [] current = Ok current"
| "select_path (raw # segments) current =
     and_then (json_pointer_segment raw) (\<lambda>segment.
     and_then (traverse (select_values segment) current) (\<lambda>parts.
     if concat parts = [] \<and> segment \<noteq> ''*'' \<and> current \<noteq> [] then Err ''JSON pointer selected no values''
     else select_path segments (concat parts)))"

definition pointer_values :: "json \<Rightarrow> string \<Rightarrow> json list contract_result" where
  "pointer_values root path =
     (if path = [] then Ok [root]
      else and_then (slice_from_1 path) (\<lambda>rest. select_path (split_char CHR ''/'' rest) [root]))"

datatype eval_value = Ref json | Refs "json list" | Owned json

definition pointer_value :: "json \<Rightarrow> string \<Rightarrow> eval_value contract_result" where
  "pointer_value root path =
     and_then (pointer_values root path) (\<lambda>vs.
     if list_ex (\<lambda>segment. segment = ''*'') (split_char CHR ''/'' path) then Ok (Refs vs)
     else (case vs of [] \<Rightarrow> Panic | v # _ \<Rightarrow> Ok (Ref v)))"

section \<open>Replacement\<close>

definition canonical_index :: "string \<Rightarrow> json list \<Rightarrow> nat contract_result" where
  "canonical_index segment vs =
     (if \<not> is_canonical_array_index segment then Err ''witness patch array index is non-canonical''
      else and_then (ok_or (parse_usize segment) ''witness patch array index exceeds usize'') (\<lambda>index.
        if index < length vs then Ok index else Err ''witness patch array index is missing''))"

fun set_entry :: "string \<Rightarrow> json \<Rightarrow> (string \<times> json) list \<Rightarrow> (string \<times> json) list" where
  "set_entry k v [] = []"
| "set_entry k v ((l, w) # m) = (if l = k then (l, v) # m else (l, w) # set_entry k v m)"

fun replace_at :: "string list \<Rightarrow> string \<Rightarrow> json \<Rightarrow> json \<Rightarrow> json contract_result" where
  "replace_at [] final replacement target =
     (case target of
        JObject m \<Rightarrow>
          and_then (ok_or (map_of m final) (''witness patch field '' @ final @ '' is missing'')) (\<lambda>_.
          Ok (JObject (set_entry final replacement m)))
      | JArray vs \<Rightarrow> and_then (canonical_index final vs) (\<lambda>index. Ok (JArray (vs[index := replacement])))
      | _ \<Rightarrow> Err ''witness patch target parent is a scalar'')"
| "replace_at (segment # parents) final replacement target =
     (case target of
        JObject m \<Rightarrow>
          and_then (ok_or (map_of m segment) (''witness patch field '' @ segment @ '' is missing'')) (\<lambda>child.
          and_then (replace_at parents final replacement child) (\<lambda>child'.
          Ok (JObject (set_entry segment child' m))))
      | JArray vs \<Rightarrow>
          and_then (canonical_index segment vs) (\<lambda>index.
          and_then (replace_at parents final replacement (vs ! index)) (\<lambda>child'.
          Ok (JArray (vs[index := child']))))
      | _ \<Rightarrow> Err ''witness patch traversed a scalar'')"

definition replace_json_pointer :: "json \<Rightarrow> string \<Rightarrow> json \<Rightarrow> json contract_result" where
  "replace_json_pointer root path replacement =
     and_then (validate_json_pointer path ''witness patch path'') (\<lambda>_.
     if path = [] then Ok replacement
     else and_then (slice_from_1 path) (\<lambda>rest.
       and_then (traverse json_pointer_segment (split_char CHR ''/'' rest)) (\<lambda>segments.
       if segments = [] then Err ''witness patch path has no target''
       else replace_at (butlast segments) (last segments) replacement root)))"

end
