(* ===== verification/Contract_Pointers.thy ===== *)
theory Contract_Pointers
  imports Contract_Schema Json_Pointer
begin

text \<open>
  The contract of the value a JSON pointer names (\<^verbatim>\<open>bounded_retrieval_contract.rs\<close>): references and
  optional nodes are looked through, each segment selects a child contract. The derived \<^verbatim>\<open>Debug\<close> text
  of a node, which one error message quotes, is the parameter \<open>debug\<close>.
\<close>

fun unwrap_structural_node :: "nat \<Rightarrow> contract_node \<Rightarrow> domain \<Rightarrow> contract_node contract_result" where
  "unwrap_structural_node depth (NOptional item) domain = unwrap_structural_node depth item domain"
| "unwrap_structural_node depth (NExternalRef dependency reference_kind) domain =
     and_then (ok_or (map_of domain reference_kind) (''unresolved external contract '' @ reference_kind)) (\<lambda>child.
     (case depth of 0 \<Rightarrow> Panic | Suc d \<Rightarrow> unwrap_structural_node d child domain))"
| "unwrap_structural_node depth node domain = Ok node"

text \<open>\<^verbatim>\<open>PartialEq\<close> of nodes, which compares literals as JSON values.\<close>

fun node_eq :: "contract_node \<Rightarrow> contract_node \<Rightarrow> bool"
and nodes_eq :: "contract_node list \<Rightarrow> contract_node list \<Rightarrow> bool"
and fields_eq :: "(string \<times> contract_node) list \<Rightarrow> (string \<times> contract_node) list \<Rightarrow> bool" where
  "node_eq NString n = (n = NString)"
| "node_eq NNumber n = (n = NNumber)"
| "node_eq NBoolean n = (n = NBoolean)"
| "node_eq (NLiteral xs) n = (case n of NLiteral ys \<Rightarrow> jsons_eq xs ys | _ \<Rightarrow> False)"
| "node_eq (NArray m) n = (case n of NArray n' \<Rightarrow> node_eq m n' | _ \<Rightarrow> False)"
| "node_eq (NTuple ms) n = (case n of NTuple ns \<Rightarrow> nodes_eq ms ns | _ \<Rightarrow> False)"
| "node_eq (NOptional m) n = (case n of NOptional n' \<Rightarrow> node_eq m n' | _ \<Rightarrow> False)"
| "node_eq (NObject fs) n = (case n of NObject gs \<Rightarrow> fields_eq fs gs | _ \<Rightarrow> False)"
| "node_eq (NExternalRef d k) n = (n = NExternalRef d k)"
| "nodes_eq [] ns = (ns = [])"
| "nodes_eq (m # ms) ns = (case ns of [] \<Rightarrow> False | n # ns' \<Rightarrow> node_eq m n \<and> nodes_eq ms ns')"
| "fields_eq [] gs = (gs = [])"
| "fields_eq ((k, m) # fs) gs =
     (case gs of [] \<Rightarrow> False | (l, n) # gs' \<Rightarrow> k = l \<and> node_eq m n \<and> fields_eq fs gs')"

definition structural_child ::
  "(contract_node \<Rightarrow> string) \<Rightarrow> nat \<Rightarrow> contract_node \<Rightarrow> string \<Rightarrow> domain \<Rightarrow> contract_node contract_result" where
  "structural_child debug depth node segment domain =
     and_then (unwrap_structural_node depth node domain) (\<lambda>n.
     (case n of
        NArray item \<Rightarrow>
          if segment \<noteq> ''*'' \<and> \<not> is_canonical_array_index segment
          then Err (''array segment '' @ segment @ '' is invalid'') else Ok item
      | NTuple items \<Rightarrow>
          if segment = ''*'' then
            (case items of
               [] \<Rightarrow> Err ''tuple wildcard has no item contract''
             | first # rest \<Rightarrow>
                 if list_ex (\<lambda>item. \<not> node_eq item first) rest
                 then Err ''tuple wildcard crosses non-identical item contracts'' else Ok first)
          else if \<not> is_canonical_array_index segment then Err (''tuple segment '' @ segment @ '' is invalid'')
          else and_then (ok_or (parse_usize segment) (''tuple segment '' @ segment @ '' is invalid'')) (\<lambda>index.
            ok_or (get_at items index) (''tuple index '' @ segment @ '' is absent''))
      | NObject fs \<Rightarrow> ok_or (map_of fs segment) (''field '' @ segment @ '' is absent'')
      | _ \<Rightarrow> Err (''cannot traverse structural node '' @ debug n @ '' through '' @ segment)))"

fun structural_walk ::
  "(contract_node \<Rightarrow> string) \<Rightarrow> nat \<Rightarrow> string list \<Rightarrow> contract_node \<Rightarrow> domain \<Rightarrow> contract_node contract_result" where
  "structural_walk debug depth [] current domain = Ok current"
| "structural_walk debug depth (raw # segments) current domain =
     and_then (json_pointer_segment raw) (\<lambda>segment.
     and_then (structural_child debug depth current segment domain) (\<lambda>child.
     structural_walk debug depth segments child domain))"

definition structural_contract_at ::
  "(contract_node \<Rightarrow> string) \<Rightarrow> nat \<Rightarrow> contract_node \<Rightarrow> string \<Rightarrow> domain \<Rightarrow> contract_node contract_result" where
  "structural_contract_at debug depth root path domain =
     and_then (validate_json_pointer path ''refinement structural pointer'') (\<lambda>_.
     if path = [] then Ok root
     else and_then (slice_from_1 path) (\<lambda>rest.
       structural_walk debug depth (split_char CHR ''/'' rest) root domain))"

end
