(* ===== verification/Refinement_IR.thy ===== *)
theory Refinement_IR
  imports Contract_Pointers
begin

text \<open>
  The refinement expressions of the bounded retrieval contract (\<^verbatim>\<open>bounded_retrieval_contract.rs\<close>): the
  opcodes native handles, the markers of their fields, the shape of an expression against the declared
  nodes, the contracts of the values its pointers name, and the assertions of an operation.
\<close>

section \<open>Inventories\<close>

datatype native_handler =
    H_All | H_Any | H_ArrayAt | H_ArrayLength | H_Coalesce | H_Concat | H_CorpusEqRef | H_Eq | H_FieldEqRef
  | H_FiniteRange | H_ForEach | H_IterationPointer | H_LengthEq | H_LengthLteRef | H_Literal | H_Lt | H_Lte
  | H_MapLookup | H_Max | H_Multiply | H_NormalizeRef | H_Not | H_OrderedScoreDescIdAsc | H_Pointer
  | H_PrefixedIdentity | H_RankIsIndexPlusOne | H_SafeIntegerRange | H_SetContains | H_TupleTags | H_UniqueBy

definition handler_inventory :: "(string \<times> native_handler) list" where
  "handler_inventory =
     [(''all'', H_All), (''any'', H_Any), (''array_at'', H_ArrayAt), (''array_length'', H_ArrayLength),
      (''coalesce'', H_Coalesce), (''concat'', H_Concat), (''corpus_eq_ref'', H_CorpusEqRef), (''eq'', H_Eq),
      (''field_eq_ref'', H_FieldEqRef), (''finite_range'', H_FiniteRange), (''for_each'', H_ForEach),
      (''iteration_pointer'', H_IterationPointer), (''length_eq'', H_LengthEq), (''length_lte_ref'', H_LengthLteRef),
      (''literal'', H_Literal), (''lt'', H_Lt), (''lte'', H_Lte), (''map_lookup'', H_MapLookup), (''max'', H_Max),
      (''multiply'', H_Multiply), (''normalize_ref'', H_NormalizeRef), (''not'', H_Not),
      (''ordered_score_desc_id_asc'', H_OrderedScoreDescIdAsc), (''pointer'', H_Pointer),
      (''prefixed_identity'', H_PrefixedIdentity), (''rank_is_index_plus_one'', H_RankIsIndexPlusOne),
      (''safe_integer_range'', H_SafeIntegerRange), (''set_contains'', H_SetContains), (''tuple_tags'', H_TupleTags),
      (''unique_by'', H_UniqueBy)]"

definition HANDLER_OPCODES :: "string list" where
  "HANDLER_OPCODES = map fst handler_inventory"

definition refinement_handler :: "string \<Rightarrow> native_handler option" where
  "refinement_handler opcode = map_of handler_inventory opcode"

datatype field_marker =
  M_Expression | M_ExpressionArrayNonempty | M_Number | M_Scalar | M_String | M_JsonPointer | M_Root | M_IdOrder
| M_StringArray

definition marker_inventory :: "(string \<times> field_marker) list" where
  "marker_inventory =
     [(''expression'', M_Expression), (''expression_array_nonempty'', M_ExpressionArrayNonempty),
      (''number'', M_Number), (''scalar'', M_Scalar), (''string'', M_String), (''json_pointer'', M_JsonPointer),
      (''root'', M_Root), (''id_order'', M_IdOrder), (''string_array'', M_StringArray)]"

definition SUPPORTED_FIELD_MARKERS :: "string list" where
  "SUPPORTED_FIELD_MARKERS = map fst marker_inventory"

definition refinement_field_marker :: "string \<Rightarrow> field_marker option" where
  "refinement_field_marker name = map_of marker_inventory name"

definition SUPPORTED_REFINEMENT_ROLES :: "string list" where
  "SUPPORTED_REFINEMENT_ROLES = [''assertion'', ''expression'']"

record refinement_node_spec =
  spec_role :: string
  spec_fields :: "(string \<times> string) list"

type_synonym nodes = "(string \<times> refinement_node_spec) list"

definition validate_handler_inventory :: "nodes \<Rightarrow> unit contract_result" where
  "validate_handler_inventory ns =
     (if \<not> distinct HANDLER_OPCODES then Err ''native refinement handler inventory contains duplicates''
      else if set (map fst ns) \<noteq> set HANDLER_OPCODES
      then Err ''pinned refinement opcode set does not exactly match native handlers''
      else each (\<lambda>_ opcode. if refinement_handler opcode = None
                  then Err (''pinned refinement opcode '' @ opcode @ '' has no native handler'') else Ok ())
             0 (map fst ns))"

definition validate_field_marker_inventory :: "unit contract_result" where
  "validate_field_marker_inventory =
     (if \<not> distinct SUPPORTED_FIELD_MARKERS then Err ''native refinement field-marker inventory contains duplicates''
      else if \<not> distinct SUPPORTED_REFINEMENT_ROLES then Err ''native refinement role inventory contains duplicates''
      else Ok ())"

definition refinement_handler_count :: "string \<Rightarrow> nat" where
  "refinement_handler_count opcode = (if refinement_handler opcode \<noteq> None then 1 else 0)"

definition NORMALIZATION_DIGEST :: string where
  "NORMALIZATION_DIGEST = ''v15-entity-normalization-ecmascript-tolowercase-unicode16.0.0@1''"

section \<open>The shape of an expression\<close>

text \<open>The opcode of an expression and its declaration.\<close>

definition str_or :: "(string \<times> json) list \<Rightarrow> string \<Rightarrow> string \<Rightarrow> string contract_result" where
  "str_or m k message = ok_or (str_field m k) message"

function validate_ir_field :: "json \<Rightarrow> string \<Rightarrow> nodes \<Rightarrow> string \<Rightarrow> unit contract_result"
and validate_ir_expression :: "json \<Rightarrow> string \<Rightarrow> nodes \<Rightarrow> string \<Rightarrow> unit contract_result" where
  "validate_ir_field v marker ns label =
     (case refinement_field_marker marker of
        None \<Rightarrow> Err (''unknown refinement field marker '' @ marker)
      | Some M_Expression \<Rightarrow> validate_ir_expression v ''expression'' ns label
      | Some M_ExpressionArrayNonempty \<Rightarrow>
          and_then (ok_or (as_array v) (label @ '' must be an expression array'')) (\<lambda>vs.
          if vs = [] then Err (label @ '' must be nonempty'')
          else each (\<lambda>index w. validate_ir_expression w ''expression'' ns (label @ ''['' @ show_nat index @ '']'')) 0 vs)
      | Some M_Number \<Rightarrow> if finite_number v then Ok () else Err (label @ '' must be a finite JSON number'')
      | Some M_Scalar \<Rightarrow> if is_json_scalar v then Ok () else Err (label @ '' must be a scalar'')
      | Some M_String \<Rightarrow> if is_json_string v then Ok () else Err (label @ '' must be a string'')
      | Some M_JsonPointer \<Rightarrow>
          and_then (ok_or (json_str v) (label @ '' must be a string'')) (\<lambda>path. validate_json_pointer path label)
      | Some M_Root \<Rightarrow>
          if json_str v = Some ''request'' \<or> json_str v = Some ''result'' then Ok ()
          else Err (label @ '' must select request or result'')
      | Some M_IdOrder \<Rightarrow>
          if json_str v = Some ''unicode_utf16_code_unit_asc'' then Ok ()
          else Err (label @ '' has an unsupported id order'')
      | Some M_StringArray \<Rightarrow>
          and_then (ok_or (as_array v) (label @ '' must be a string array'')) (\<lambda>vs.
          if vs = [] \<or> list_ex (\<lambda>w. \<not> is_json_string w) vs
          then Err (label @ '' must be a nonempty string array'') else Ok ()))"
| "validate_ir_expression v expected_role ns label =
     and_then (object v label) (\<lambda>m.
     and_then (str_or m ''op'' (label @ ''.op must be a string'')) (\<lambda>op.
     and_then (ok_or (map_of ns op) (''unknown refinement opcode '' @ op)) (\<lambda>spec.
     and_then (ok_or (refinement_handler op) (''unsupported refinement opcode '' @ op)) (\<lambda>handler.
     if spec_role spec \<noteq> expected_role
     then Err (''refinement opcode '' @ op @ '' has role '' @ spec_role spec @ '', expected '' @ expected_role)
     else
       and_then (exact_keys m (''op'' # map fst (spec_fields spec)) label) (\<lambda>_.
       and_then (each (\<lambda>_ f.
           and_then (expect (map_of m (fst f))) (\<lambda>w. validate_ir_field w (snd f) ns (label @ ''.'' @ fst f)))
           0 (spec_fields spec)) (\<lambda>_.
       if handler = H_NormalizeRef \<and> str_field m ''dependency'' \<noteq> Some NORMALIZATION_DIGEST
       then Err ''normalize_ref names an unpinned dependency'' else Ok ()))))))"
  by pat_completeness auto

termination
proof (relation "measures [\<lambda>p. case p of Inl (v, _) \<Rightarrow> size v | Inr (v, _) \<Rightarrow> size v,
    \<lambda>p. case p of Inl _ \<Rightarrow> 1 | Inr _ \<Rightarrow> 0]", goal_cases)
  case (3 v marker ns label mk vs i x)
  then show ?case by (auto dest!: size_elem)
next
  case (4 v role ns label m op spec handler u i f w)
  then show ?case using child_size by simp
qed auto

declare validate_ir_field.simps [simp del] validate_ir_expression.simps [simp del]

section \<open>The declared nodes\<close>

definition parse_field_marker :: "string \<Rightarrow> string \<times> json \<Rightarrow> (string \<times> string) contract_result" where
  "parse_field_marker name p =
     and_then (ok_or (json_str (snd p)) (''refinement node '' @ name @ '' field marker must be a string'')) (\<lambda>marker.
     if refinement_field_marker marker = None
     then Err (''refinement node '' @ name @ '' has unsupported field marker '' @ marker)
     else Ok (fst p, marker))"

definition parse_refinement_node :: "string \<times> json \<Rightarrow> (string \<times> refinement_node_spec) contract_result" where
  "parse_refinement_node p =
     (let name = fst p; label = ''refinementNodes.'' @ name in
      and_then (object (snd p) label) (\<lambda>declaration.
      and_then (exact_keys declaration [''fields'', ''role''] label) (\<lambda>_.
      and_then (str_or declaration ''role'' (label @ ''.role must be a string'')) (\<lambda>role.
      if role \<notin> set SUPPORTED_REFINEMENT_ROLES
      then Err (''refinement node '' @ name @ '' has unsupported role '' @ role)
      else
        and_then (expect (map_of declaration ''fields'')) (\<lambda>fv.
        and_then (object fv (label @ ''.fields'')) (\<lambda>fs.
        and_then (traverse (parse_field_marker name) fs) (\<lambda>fs'.
        Ok (name, \<lparr>spec_role = role, spec_fields = fs'\<rparr>))))))))"

definition parse_refinement_nodes :: "json \<Rightarrow> nodes contract_result" where
  "parse_refinement_nodes v =
     and_then (object v ''refinementNodes'') (\<lambda>m.
     and_then validate_field_marker_inventory (\<lambda>_.
     and_then (traverse parse_refinement_node m) (\<lambda>ns.
     and_then (validate_handler_inventory ns) (\<lambda>_. Ok ns))))"

section \<open>Contracts of expressions\<close>

type_synonym scopes = "(string \<times> contract_node) list"

function expression_contract ::
  "(contract_node \<Rightarrow> string) \<Rightarrow> nat \<Rightarrow> json \<Rightarrow> contract_node \<Rightarrow> contract_node \<Rightarrow> domain \<Rightarrow> scopes
     \<Rightarrow> contract_node option contract_result" where
  "expression_contract debug depth e request result domain sc =
     and_then (object e ''refinement expression'') (\<lambda>m.
     and_then (str_or m ''op'' ''refinement expression op is missing'') (\<lambda>opcode.
     and_then (ok_or (refinement_handler opcode) (''unsupported refinement opcode '' @ opcode)) (\<lambda>handler.
     (case handler of
        H_Pointer \<Rightarrow>
          and_then (if str_field m ''root'' = Some ''request'' then Ok request
                    else if str_field m ''root'' = Some ''result'' then Ok result
                    else Err ''pointer root is invalid'') (\<lambda>root.
          and_then (str_or m ''path'' ''pointer path is not a string'') (\<lambda>path.
          and_then (structural_contract_at debug depth root path domain) (\<lambda>n. Ok (Some n))))
      | H_IterationPointer \<Rightarrow>
          and_then (str_or m ''scope'' ''iteration pointer scope is not a string'') (\<lambda>scope.
          and_then (ok_or (map_of sc scope) (''iteration scope '' @ scope @ '' is absent'')) (\<lambda>root.
          and_then (str_or m ''path'' ''iteration pointer path is not a string'') (\<lambda>path.
          and_then (structural_contract_at debug depth root path domain) (\<lambda>n. Ok (Some n)))))
      | H_ArrayAt \<Rightarrow>
          and_then (ok_or (map_of m ''array'') ''array_at.array is missing'') (\<lambda>array.
          and_then (expression_contract debug depth array request result domain sc) (\<lambda>c.
          and_then (ok_or c ''array_at source has no structural contract'') (\<lambda>source.
          and_then (unwrap_structural_node depth source domain) (\<lambda>n.
          (case n of
             NArray item \<Rightarrow> Ok (Some item)
           | NTuple items \<Rightarrow>
               and_then (ok_or (map_of m ''index'') ''array_at.index is missing'') (\<lambda>iv.
               and_then (object iv ''array_at.index'') (\<lambda>index.
               if str_field index ''op'' \<noteq> Some ''literal'' then Err ''tuple array_at index must be a literal''
               else
                 and_then (ok_or (Option.bind (map_of index ''value'') as_u64)
                     ''tuple array_at index must be a safe nonnegative integer'') (\<lambda>i.
                 and_then (ok_or (get_at items (unat i)) (''tuple array_at index '' @ show_u64 i @ '' is absent'')) (\<lambda>item.
                 Ok (Some item)))))
           | _ \<Rightarrow> Err ''array_at source must resolve to an array or tuple'')))))
      | _ \<Rightarrow> Ok None))))"
  by pat_completeness auto

termination expression_contract
  by (relation "measure (\<lambda>(_, _, e, _). size e)") (auto dest: size_map_of)

declare expression_contract.simps [simp del]

text \<open>
  The expressions in a field of a node, by its marker: one expression, an array of them, or none.
  The shape has been validated before, so a field of another shape is a panic.
\<close>

definition child_expressions :: "(string \<times> json) list \<Rightarrow> string \<times> string \<Rightarrow> json list contract_result" where
  "child_expressions m f =
     (case refinement_field_marker (snd f) of
        Some M_Expression \<Rightarrow> and_then (expect (map_of m (fst f))) (\<lambda>w. Ok [w])
      | Some M_ExpressionArrayNonempty \<Rightarrow> expect (Option.bind (map_of m (fst f)) as_array)
      | _ \<Rightarrow> Ok [])"

lemma child_expressions_size:
  assumes "child_expressions m f = Ok cs" "c \<in> set cs"
  shows "size c < size (JObject m)"
proof (cases "map_of m (fst f)")
  case (Some w)
  have "size w < size (JObject m)" using size_map_of [OF Some] by simp
  moreover have "w = JArray cs \<Longrightarrow> size c < size w" using size_elem [OF assms(2)] by simp
  ultimately show ?thesis using assms Some
    by (auto simp: child_expressions_def split: option.splits field_marker.splits)
qed (use assms in \<open>auto simp: child_expressions_def split: option.splits field_marker.splits\<close>)

function walk_refinement_expression ::
  "(contract_node \<Rightarrow> string) \<Rightarrow> nat \<Rightarrow> json \<Rightarrow> contract_node \<Rightarrow> contract_node \<Rightarrow> domain \<Rightarrow> nodes \<Rightarrow> scopes
     \<Rightarrow> unit contract_result" where
  "walk_refinement_expression debug depth e request result domain ns sc =
     and_then (expression_contract debug depth e request result domain sc) (\<lambda>_.
     and_then (object e ''refinement expression'') (\<lambda>m.
     and_then (str_or m ''op'' ''refinement expression op is missing'') (\<lambda>opcode.
     and_then (ok_or (map_of ns opcode) (''unknown refinement opcode '' @ opcode)) (\<lambda>declaration.
     each (\<lambda>_ f. and_then (child_expressions m f) (\<lambda>cs.
         each (\<lambda>_ c. walk_refinement_expression debug depth c request result domain ns sc) 0 cs))
       0 (spec_fields declaration)))))"
  by pat_completeness auto

termination walk_refinement_expression
  by (relation "measure (\<lambda>(_, _, e, _). size e)") (auto dest: child_expressions_size)

declare walk_refinement_expression.simps [simp del]

function contains_result_pointer :: "json \<Rightarrow> nodes \<Rightarrow> bool contract_result" where
  "contains_result_pointer e ns =
     and_then (object e ''refinement expression'') (\<lambda>m.
     and_then (str_or m ''op'' ''refinement expression op is missing'') (\<lambda>opcode.
     if opcode = ''pointer'' \<and> str_field m ''root'' = Some ''result'' then Ok True
     else
       and_then (ok_or (map_of ns opcode) (''unknown refinement opcode '' @ opcode)) (\<lambda>declaration.
       any_ok (\<lambda>f. and_then (child_expressions m f) (\<lambda>cs. any_ok (\<lambda>c. contains_result_pointer c ns) cs))
         (spec_fields declaration))))"
  by pat_completeness auto

termination contains_result_pointer
  by (relation "measure (\<lambda>(e, _). size e)") (auto dest: child_expressions_size)

declare contains_result_pointer.simps [simp del]

section \<open>Assertions\<close>

text \<open>An assertion that declares a scope binds it to the item contract of its collection.\<close>

definition assertion_scopes ::
  "(contract_node \<Rightarrow> string) \<Rightarrow> nat \<Rightarrow> (string \<times> json) list \<Rightarrow> string \<Rightarrow> refinement_node_spec \<Rightarrow> contract_node
     \<Rightarrow> contract_node \<Rightarrow> domain \<Rightarrow> nodes \<Rightarrow> scopes contract_result" where
  "assertion_scopes debug depth m opcode declaration request result domain ns =
     (if ''scope'' \<notin> set (map fst (spec_fields declaration)) then Ok []
      else
        and_then (ok_or (map_of m ''collection'') (opcode @ ''.collection is missing'')) (\<lambda>collection.
        and_then (walk_refinement_expression debug depth collection request result domain ns []) (\<lambda>_.
        and_then (expression_contract debug depth collection request result domain []) (\<lambda>c.
        and_then (ok_or c (opcode @ '' collection has no structural pointer'')) (\<lambda>collection_contract.
        and_then (unwrap_structural_node depth collection_contract domain) (\<lambda>n.
        and_then (case n of NArray item \<Rightarrow> Ok item | _ \<Rightarrow> Err (opcode @ '' collection must resolve to an array'')) (\<lambda>item.
        and_then (str_or m ''scope'' (opcode @ ''.scope must be a string'')) (\<lambda>scope.
        Ok [(scope, item)]))))))))"

definition validate_assertion_pointer ::
  "(contract_node \<Rightarrow> string) \<Rightarrow> nat \<Rightarrow> json \<Rightarrow> contract_node \<Rightarrow> contract_node \<Rightarrow> domain \<Rightarrow> nodes
     \<Rightarrow> unit contract_result" where
  "validate_assertion_pointer debug depth assertion request result domain ns =
     and_then (object assertion ''refinement assertion'') (\<lambda>m.
     and_then (str_or m ''op'' ''refinement assertion op is missing'') (\<lambda>opcode.
     and_then (ok_or (map_of ns opcode) (''unknown refinement opcode '' @ opcode)) (\<lambda>declaration.
     and_then (assertion_scopes debug depth m opcode declaration request result domain ns) (\<lambda>sc.
     each (\<lambda>_ f.
         if fst f = ''collection'' \<and> sc \<noteq> [] then Ok ()
         else and_then (child_expressions m f) (\<lambda>cs.
           each (\<lambda>_ c. walk_refinement_expression debug depth c request result domain ns sc) 0 cs))
       0 (spec_fields declaration)))))"

definition validate_assertion_pointers ::
  "(contract_node \<Rightarrow> string) \<Rightarrow> nat \<Rightarrow> json list \<Rightarrow> bool \<Rightarrow> contract_node \<Rightarrow> contract_node \<Rightarrow> domain \<Rightarrow> nodes \<Rightarrow> string
     \<Rightarrow> unit contract_result" where
  "validate_assertion_pointers debug depth assertions request_partition request result domain ns label =
     each (\<lambda>index assertion.
       and_then (contains_result_pointer assertion ns) (\<lambda>has_result.
       if request_partition \<and> has_result
       then Err (label @ ''['' @ show_nat index @ ''] request assertion references result'')
       else if \<not> request_partition \<and> \<not> has_result
       then Err (label @ ''['' @ show_nat index @ ''] exchange assertion has no result dependency'')
       else map_err (\<lambda>cause. label @ ''['' @ show_nat index @ ''] pointer validation failed: '' @ cause)
              (validate_assertion_pointer debug depth assertion request result domain ns)))
     0 assertions"

definition parse_assertions :: "json \<Rightarrow> nodes \<Rightarrow> string \<Rightarrow> json list contract_result" where
  "parse_assertions v ns label =
     and_then (ok_or (as_array v) (label @ '' must be an array'')) (\<lambda>assertions.
     if assertions = [] then Err (label @ '' must be nonempty'')
     else and_then (each (\<lambda>index assertion.
         validate_ir_expression assertion ''assertion'' ns (label @ ''['' @ show_nat index @ '']'')) 0 assertions) (\<lambda>_.
       Ok assertions))"

end
