(* ===== verification/Refinement_Eval.thy ===== *)
theory Refinement_Eval
  imports Refinement_IR Utf8 Ordering
begin

text \<open>
  The evaluation of refinement expressions (\<^verbatim>\<open>bounded_retrieval_contract.rs\<close>). Each handler is a
  definition over the evaluator of its sub-expressions; evaluating has no effect, so a loop over
  expressions is a loop over their results.
\<close>

section \<open>Values\<close>

definition refs :: "eval_value \<Rightarrow> json list" where
  "refs v = (case v of Ref w \<Rightarrow> [w] | Refs ws \<Rightarrow> ws | Owned w \<Rightarrow> [w])"

definition one :: "eval_value \<Rightarrow> string \<Rightarrow> json contract_result" where
  "one v label =
     (case v of
        Ref w \<Rightarrow> Ok w
      | Owned w \<Rightarrow> Ok w
      | Refs ws \<Rightarrow> (case ws of [w] \<Rightarrow> Ok w | _ \<Rightarrow> Err (label @ '' expected one value'')))"

definition values_equal :: "eval_value \<Rightarrow> eval_value \<Rightarrow> bool contract_result" where
  "values_equal l r =
     (case (l, r) of
        (Refs _, _) \<Rightarrow> Err ''array of values cannot be compared as a scalar''
      | (_, Refs _) \<Rightarrow> Err ''array of values cannot be compared as a scalar''
      | (Ref a, Ref b) \<Rightarrow> Ok (json_eq a b)
      | (Ref a, Owned b) \<Rightarrow> Ok (json_eq a b)
      | (Owned b, Ref a) \<Rightarrow> Ok (json_eq a b)
      | (Owned a, Owned b) \<Rightarrow> Ok (json_eq a b))"

definition bool_value :: "eval_value \<Rightarrow> string \<Rightarrow> bool contract_result" where
  "bool_value v label =
     and_then (one v label) (\<lambda>w. ok_or (as_bool w) (label @ '' must evaluate to boolean''))"

definition number_value :: "eval_value \<Rightarrow> string \<Rightarrow> f64 contract_result" where
  "number_value v label =
     and_then (one v label) (\<lambda>w.
     and_then (ok_or (as_f64 w) (label @ '' must evaluate to number'')) (\<lambda>x.
     if f64_is_finite x then Ok x else Err (label @ '' must be finite'')))"

definition string_value :: "eval_value \<Rightarrow> string \<Rightarrow> string contract_result" where
  "string_value v label =
     and_then (one v label) (\<lambda>w. ok_or (json_str w) (label @ '' must evaluate to string''))"

definition array_values :: "eval_value \<Rightarrow> string \<Rightarrow> json list contract_result" where
  "array_values v label =
     (case v of
        Ref w \<Rightarrow> ok_or (as_array w) (label @ '' must evaluate to array'')
      | _ \<Rightarrow> Err (label @ '' must evaluate to a borrowed array''))"

definition array_of :: "eval_value \<Rightarrow> string \<Rightarrow> string \<Rightarrow> json list contract_result" where
  "array_of v label message = and_then (one v label) (\<lambda>w. ok_or (as_array w) message)"

definition scalar_number :: "f64 \<Rightarrow> string \<Rightarrow> eval_value contract_result" where
  "scalar_number x label =
     (if f64_is_finite x then Ok (Owned (JNumber (Float x))) else Err (label @ '' produced a non-finite number''))"

definition scalar_u64 :: "u64 \<Rightarrow> eval_value" where
  "scalar_u64 n = Owned (JNumber (PosInt n))"

abbreviation owned_bool :: "bool \<Rightarrow> eval_value" where
  "owned_bool b \<equiv> Owned (JBool b)"

section \<open>Context\<close>

record eval_context =
  ctx_request :: json
  ctx_result :: "json option"
  ctx_normalizer :: "string \<Rightarrow> string \<Rightarrow> string option"

type_synonym current = "(string \<times> json) option"
type_synonym evaluated = "eval_value contract_result"
type_synonym evaluator = "json \<Rightarrow> current \<Rightarrow> evaluated"

definition current_pointer :: "current \<Rightarrow> string \<Rightarrow> string \<Rightarrow> evaluated" where
  "current_pointer cur scope path =
     and_then (ok_or cur ''iteration pointer has no scope'') (\<lambda>p.
     if fst p \<noteq> scope then Err (''iteration scope mismatch: '' @ scope) else pointer_value (snd p) path)"

definition expr_field :: "string \<Rightarrow> (string \<times> json) list \<Rightarrow> string \<Rightarrow> json contract_result" where
  "expr_field op m name =
     ok_or (map_of m name) (''refinement opcode '' @ op @ '' field '' @ name @ '' is missing'')"

definition expr_str :: "string \<Rightarrow> (string \<times> json) list \<Rightarrow> string \<Rightarrow> string \<Rightarrow> string contract_result" where
  "expr_str op m name message = and_then (expr_field op m name) (\<lambda>v. ok_or (json_str v) message)"

definition expr_array :: "string \<Rightarrow> (string \<times> json) list \<Rightarrow> string \<Rightarrow> string \<Rightarrow> json list contract_result" where
  "expr_array op m name message = and_then (expr_field op m name) (\<lambda>v. ok_or (as_array v) message)"

definition expr_f64 :: "string \<Rightarrow> (string \<times> json) list \<Rightarrow> string \<Rightarrow> string \<Rightarrow> f64 contract_result" where
  "expr_f64 op m name message = and_then (expr_field op m name) (\<lambda>v. ok_or (as_f64 v) message)"

text \<open>\<^verbatim>\<open>eval(field(name)?, context, current)?\<close>, and the results of the expressions in an array field.\<close>

definition sub_eval :: "evaluator \<Rightarrow> string \<Rightarrow> (string \<times> json) list \<Rightarrow> string \<Rightarrow> current \<Rightarrow> evaluated" where
  "sub_eval ev op m name cur = and_then (expr_field op m name) (\<lambda>e. ev e cur)"

definition sub_evals ::
  "evaluator \<Rightarrow> string \<Rightarrow> (string \<times> json) list \<Rightarrow> string \<Rightarrow> string \<Rightarrow> current \<Rightarrow> evaluated list contract_result" where
  "sub_evals ev op m name message cur =
     and_then (expr_array op m name message) (\<lambda>es. Ok (map (\<lambda>e. ev e cur) es))"

text \<open>
  A scoped expression of an assertion over a collection: the field is read once, before the loop, and
  evaluated with each item as the current value.
\<close>

definition sub_scoped ::
  "evaluator \<Rightarrow> string \<Rightarrow> (string \<times> json) list \<Rightarrow> string \<Rightarrow> string \<Rightarrow> (json \<Rightarrow> evaluated) contract_result" where
  "sub_scoped ev op m name scope = and_then (expr_field op m name) (\<lambda>e. Ok (\<lambda>item. ev e (Some (scope, item))))"

section \<open>Handlers of expressions\<close>

definition eval_pointer :: "eval_context \<Rightarrow> string \<Rightarrow> (string \<times> json) list \<Rightarrow> evaluated" where
  "eval_pointer ctx op m =
     and_then (expr_str op m ''path'' ''pointer path is not a string'') (\<lambda>path.
     and_then (expr_field op m ''root'') (\<lambda>rv.
     and_then (if json_str rv = Some ''request'' then Ok (ctx_request ctx)
               else if json_str rv = Some ''result''
               then ok_or (ctx_result ctx) ''result pointer used without a result''
               else Err ''pointer root is invalid'') (\<lambda>root.
     pointer_value root path)))"

definition eval_iteration_pointer :: "string \<Rightarrow> (string \<times> json) list \<Rightarrow> current \<Rightarrow> evaluated" where
  "eval_iteration_pointer op m cur =
     and_then (expr_str op m ''path'' ''iteration pointer path is not a string'') (\<lambda>path.
     and_then (expr_str op m ''scope'' ''iteration pointer scope is not a string'') (\<lambda>scope.
     current_pointer cur scope path))"

definition eval_array_length :: "evaluator \<Rightarrow> string \<Rightarrow> (string \<times> json) list \<Rightarrow> current \<Rightarrow> evaluated" where
  "eval_array_length ev op m cur =
     and_then (sub_eval ev op m ''value'' cur) (\<lambda>v.
     (case v of
        Refs ws \<Rightarrow> Ok (scalar_u64 (len_u64 ws))
      | _ \<Rightarrow> and_then (array_of v ''array_length'' ''array_length requires an array'') (\<lambda>ws.
               Ok (scalar_u64 (len_u64 ws)))))"

definition eval_array_at :: "evaluator \<Rightarrow> string \<Rightarrow> (string \<times> json) list \<Rightarrow> current \<Rightarrow> evaluated" where
  "eval_array_at ev op m cur =
     and_then (sub_eval ev op m ''array'' cur) (\<lambda>array.
     and_then (sub_eval ev op m ''index'' cur) (\<lambda>iv.
     and_then (number_value iv ''array index'') (\<lambda>index.
     if f64_lt index (f64_zero False) \<or> \<not> f64_is_integral index \<or> f64_lt (f64_of_int (2 ^ 64 - 1)) index
     then Err ''array index is not a safe integer''
     else
       and_then (array_values array ''array_at'') (\<lambda>ws.
       and_then (ok_or (get_at ws (f64_to_usize index)) ''array_at index is missing'') (\<lambda>w. Ok (Ref w))))))"

fun all_any_loop :: "bool \<Rightarrow> string \<Rightarrow> bool \<Rightarrow> evaluated list \<Rightarrow> evaluated" where
  "all_any_loop is_all op acc [] = Ok (owned_bool acc)"
| "all_any_loop is_all op acc (r # rs) =
     and_then r (\<lambda>v.
     and_then (bool_value v op) (\<lambda>next.
     let acc' = (if is_all then acc \<and> next else acc \<or> next)
     in if acc' \<noteq> is_all then Ok (owned_bool acc') else all_any_loop is_all op acc' rs))"

definition eval_all_any :: "evaluator \<Rightarrow> bool \<Rightarrow> string \<Rightarrow> (string \<times> json) list \<Rightarrow> current \<Rightarrow> evaluated" where
  "eval_all_any ev is_all op m cur =
     and_then (sub_evals ev op m ''values'' (op @ ''.values is not an array'') cur) (\<lambda>rs.
     all_any_loop is_all op is_all rs)"

fun coalesce_loop :: "evaluated list \<Rightarrow> evaluated" where
  "coalesce_loop [] = Ok (Owned JNull)"
| "coalesce_loop (r # rs) =
     and_then r (\<lambda>v. and_then (one v ''coalesce'') (\<lambda>w. if w \<noteq> JNull then Ok v else coalesce_loop rs))"

definition eval_coalesce :: "evaluator \<Rightarrow> string \<Rightarrow> (string \<times> json) list \<Rightarrow> current \<Rightarrow> evaluated" where
  "eval_coalesce ev op m cur =
     and_then (sub_evals ev op m ''values'' ''coalesce.values is not an array'' cur) coalesce_loop"

fun concat_loop :: "string \<Rightarrow> evaluated list \<Rightarrow> evaluated" where
  "concat_loop acc [] = Ok (Owned (JString acc))"
| "concat_loop acc (r # rs) =
     and_then r (\<lambda>v. and_then (string_value v ''concat'') (\<lambda>s. concat_loop (acc @ s) rs))"

definition eval_concat :: "evaluator \<Rightarrow> string \<Rightarrow> (string \<times> json) list \<Rightarrow> current \<Rightarrow> evaluated" where
  "eval_concat ev op m cur =
     and_then (sub_evals ev op m ''values'' ''concat.values is not an array'' cur) (concat_loop '''')"

text \<open>\<^verbatim>\<open>eq\<close>, \<^verbatim>\<open>field_eq_ref\<close> and \<^verbatim>\<open>corpus_eq_ref\<close> compare two fields.\<close>

definition eval_equal ::
  "evaluator \<Rightarrow> string \<Rightarrow> string \<Rightarrow> string \<Rightarrow> (string \<times> json) list \<Rightarrow> current \<Rightarrow> evaluated" where
  "eval_equal ev l r op m cur =
     and_then (sub_eval ev op m l cur) (\<lambda>a.
     and_then (sub_eval ev op m r cur) (\<lambda>b.
     and_then (values_equal a b) (\<lambda>eq. Ok (owned_bool eq))))"

definition eval_less :: "evaluator \<Rightarrow> bool \<Rightarrow> string \<Rightarrow> (string \<times> json) list \<Rightarrow> current \<Rightarrow> evaluated" where
  "eval_less ev is_lt op m cur =
     and_then (sub_eval ev op m ''left'' cur) (\<lambda>a.
     and_then (number_value a op) (\<lambda>x.
     and_then (sub_eval ev op m ''right'' cur) (\<lambda>b.
     and_then (number_value b op) (\<lambda>y.
     Ok (owned_bool (if is_lt then f64_lt x y else f64_le x y))))))"

definition eval_multiply :: "evaluator \<Rightarrow> string \<Rightarrow> (string \<times> json) list \<Rightarrow> current \<Rightarrow> evaluated" where
  "eval_multiply ev op m cur =
     and_then (sub_eval ev op m ''left'' cur) (\<lambda>a.
     and_then (number_value a ''multiply'') (\<lambda>x.
     and_then (sub_eval ev op m ''right'' cur) (\<lambda>b.
     and_then (number_value b ''multiply'') (\<lambda>y. scalar_number (f64_mul x y) ''multiply''))))"

fun max_loop :: "f64 \<Rightarrow> evaluated list \<Rightarrow> evaluated" where
  "max_loop acc [] = scalar_number acc ''max''"
| "max_loop acc (r # rs) =
     and_then r (\<lambda>v. and_then (number_value v ''max'') (\<lambda>x. max_loop (f64_max acc x) rs))"

definition eval_max :: "evaluator \<Rightarrow> string \<Rightarrow> (string \<times> json) list \<Rightarrow> current \<Rightarrow> evaluated" where
  "eval_max ev op m cur =
     and_then (sub_evals ev op m ''values'' ''max.values is not an array'' cur) (max_loop (F64_Inf True))"

definition eval_not :: "evaluator \<Rightarrow> string \<Rightarrow> (string \<times> json) list \<Rightarrow> current \<Rightarrow> evaluated" where
  "eval_not ev op m cur =
     and_then (sub_eval ev op m ''value'' cur) (\<lambda>v.
     and_then (bool_value v ''not'') (\<lambda>b. Ok (owned_bool (\<not> b))))"

definition eval_normalize_ref ::
  "evaluator \<Rightarrow> eval_context \<Rightarrow> string \<Rightarrow> (string \<times> json) list \<Rightarrow> current \<Rightarrow> evaluated" where
  "eval_normalize_ref ev ctx op m cur =
     and_then (expr_str op m ''dependency'' ''normalize_ref dependency is not a string'') (\<lambda>dependency.
     and_then (sub_eval ev op m ''value'' cur) (\<lambda>v.
     and_then (string_value v ''normalize_ref'') (\<lambda>s.
     and_then (ok_or (ctx_normalizer ctx dependency s)
         (''normalization dependency '' @ dependency @ '' unavailable'')) (\<lambda>normalized.
     Ok (Owned (JString normalized))))))"

fun lookup_loop :: "eval_value \<Rightarrow> string \<Rightarrow> string \<Rightarrow> json list \<Rightarrow> evaluated" where
  "lookup_loop key key_field value_field [] = Ok (Owned JNull)"
| "lookup_loop key key_field value_field (entry # entries) =
     and_then (ok_or (as_object entry) ''map_lookup entry is not an object'') (\<lambda>em.
     and_then (case map_of em key_field of Some candidate \<Rightarrow> values_equal (Ref candidate) key | None \<Rightarrow> Ok False) (\<lambda>found.
     if found
     then and_then (ok_or (map_of em value_field) ''map_lookup value field is missing'') (\<lambda>w. Ok (Ref w))
     else lookup_loop key key_field value_field entries))"

definition eval_map_lookup :: "evaluator \<Rightarrow> string \<Rightarrow> (string \<times> json) list \<Rightarrow> current \<Rightarrow> evaluated" where
  "eval_map_lookup ev op m cur =
     and_then (sub_eval ev op m ''key'' cur) (\<lambda>key.
     and_then (expr_str op m ''keyField'' ''map_lookup keyField is not a string'') (\<lambda>key_field.
     and_then (expr_str op m ''valueField'' ''map_lookup valueField is not a string'') (\<lambda>value_field.
     and_then (sub_eval ev op m ''map'' cur) (\<lambda>mv.
     and_then (array_values mv ''map_lookup'') (\<lambda>entries.
     lookup_loop key key_field value_field entries)))))"

definition eval_set_contains :: "evaluator \<Rightarrow> string \<Rightarrow> (string \<times> json) list \<Rightarrow> current \<Rightarrow> evaluated" where
  "eval_set_contains ev op m cur =
     and_then (sub_eval ev op m ''set'' cur) (\<lambda>sv.
     and_then (array_values sv ''set_contains'') (\<lambda>ws.
     and_then (sub_eval ev op m ''value'' cur) (\<lambda>v.
     and_then (any_ok (\<lambda>candidate. values_equal (Ref candidate) v) ws) (\<lambda>b. Ok (owned_bool b)))))"

section \<open>Handlers of assertions\<close>

definition eval_finite_range :: "evaluator \<Rightarrow> string \<Rightarrow> (string \<times> json) list \<Rightarrow> current \<Rightarrow> evaluated" where
  "eval_finite_range ev op m cur =
     and_then (expr_f64 op m ''minimum'' ''finite_range minimum is not a number'') (\<lambda>minimum.
     and_then (expr_f64 op m ''maximum'' ''finite_range maximum is not a number'') (\<lambda>maximum.
     and_then (sub_eval ev op m ''value'' cur) (\<lambda>v.
     Ok (owned_bool (list_all (\<lambda>w.
       (case as_f64 w of
          Some x \<Rightarrow> f64_is_finite x \<and> f64_le minimum x \<and> f64_le x maximum
        | None \<Rightarrow> False)) (refs v))))))"

definition eval_safe_integer_range :: "evaluator \<Rightarrow> string \<Rightarrow> (string \<times> json) list \<Rightarrow> current \<Rightarrow> evaluated" where
  "eval_safe_integer_range ev op m cur =
     and_then (expr_f64 op m ''minimum'' ''safe_integer_range minimum is not a number'') (\<lambda>minimum.
     and_then (sub_eval ev op m ''maximum'' cur) (\<lambda>mv.
     and_then (number_value mv ''safe_integer_range maximum'') (\<lambda>maximum.
     and_then (sub_eval ev op m ''value'' cur) (\<lambda>v.
     Ok (owned_bool (list_all (\<lambda>w.
       (case as_u64 w of
          Some n \<Rightarrow>
            (let x = f64_of_int (uint n)
             in f64_le minimum x \<and> f64_le x maximum \<and> f64_le x (f64_of_int (uint MAX_SAFE_GENERATION)))
        | None \<Rightarrow> False)) (refs v)))))))"

definition eval_tuple_tags :: "evaluator \<Rightarrow> string \<Rightarrow> (string \<times> json) list \<Rightarrow> current \<Rightarrow> evaluated" where
  "eval_tuple_tags ev op m cur =
     and_then (expr_array op m ''expected'' ''tuple_tags expected is not an array'') (\<lambda>expected.
     and_then (expr_str op m ''field'' ''tuple_tags field is not a string'') (\<lambda>field_name.
     and_then (sub_eval ev op m ''actual'' cur) (\<lambda>av.
     and_then (array_of av ''tuple_tags'' ''tuple_tags actual is not an array'') (\<lambda>actual.
     Ok (owned_bool (length actual = length expected \<and>
       list_all (\<lambda>(a, e).
         (case (json_get field_name a, json_str e) of
            (Some w, Some t) \<Rightarrow> json_eq w (JString t)
          | _ \<Rightarrow> False)) (zip actual expected)))))))"

definition eval_length :: "evaluator \<Rightarrow> bool \<Rightarrow> string \<Rightarrow> (string \<times> json) list \<Rightarrow> current \<Rightarrow> evaluated" where
  "eval_length ev is_eq op m cur =
     and_then (sub_eval ev op m ''actual'' cur) (\<lambda>av.
     and_then (sub_eval ev op m (if is_eq then ''expected'' else ''limit'') cur) (\<lambda>xv.
     and_then (array_of av ''length assertion'' ''length assertion actual is not an array'') (\<lambda>actual.
     and_then (number_value xv ''length assertion expected'') (\<lambda>expected.
     let n = f64_of_int (uint (len_u64 actual))
     in Ok (owned_bool (if is_eq then f64_eq n expected else f64_le n expected))))))"

fun unique_loop :: "(json \<Rightarrow> evaluated) \<Rightarrow> eval_value list \<Rightarrow> json list \<Rightarrow> evaluated" where
  "unique_loop key_of seen [] = Ok (owned_bool True)"
| "unique_loop key_of seen (item # items) =
     and_then (key_of item) (\<lambda>key.
     if list_ex (\<lambda>k. values_equal k key = Ok True) seen then Ok (owned_bool False)
     else unique_loop key_of (seen @ [key]) items)"

definition eval_unique_by :: "evaluator \<Rightarrow> string \<Rightarrow> (string \<times> json) list \<Rightarrow> current \<Rightarrow> evaluated" where
  "eval_unique_by ev op m cur =
     and_then (sub_eval ev op m ''collection'' cur) (\<lambda>cv.
     and_then (array_of cv ''unique_by'' ''unique_by collection is not an array'') (\<lambda>collection.
     and_then (expr_str op m ''scope'' ''unique_by scope is not a string'') (\<lambda>scope.
     and_then (sub_scoped ev op m ''key'' scope) (\<lambda>key_of.
     unique_loop key_of [] collection))))"

fun ordered_loop ::
  "(json \<Rightarrow> evaluated) \<Rightarrow> (json \<Rightarrow> evaluated) \<Rightarrow> (f64 \<times> string) option \<Rightarrow> json list \<Rightarrow> evaluated" where
  "ordered_loop score_of id_of prev [] = Ok (owned_bool True)"
| "ordered_loop score_of id_of prev (item # items) =
     and_then (score_of item) (\<lambda>sv.
     and_then (number_value sv ''ordered score'') (\<lambda>score.
     and_then (id_of item) (\<lambda>iv.
     and_then (string_value iv ''ordered id'') (\<lambda>id.
     if (case prev of
           None \<Rightarrow> False
         | Some (previous_score, previous_id) \<Rightarrow>
             f64_lt previous_score score \<or>
             (f64_eq score previous_score \<and> cmp (encode_utf16 id) (encode_utf16 previous_id) = Less))
     then Ok (owned_bool False)
     else ordered_loop score_of id_of (Some (score, id)) items))))"

definition eval_ordered :: "evaluator \<Rightarrow> string \<Rightarrow> (string \<times> json) list \<Rightarrow> current \<Rightarrow> evaluated" where
  "eval_ordered ev op m cur =
     and_then (sub_eval ev op m ''collection'' cur) (\<lambda>cv.
     and_then (array_of cv ''ordered_score_desc_id_asc'' ''ordered collection is not an array'') (\<lambda>collection.
     and_then (expr_str op m ''scope'' ''ordered scope is not a string'') (\<lambda>scope.
     and_then (sub_scoped ev op m ''score'' scope) (\<lambda>score_of.
     and_then (sub_scoped ev op m ''id'' scope) (\<lambda>id_of.
     ordered_loop score_of id_of None collection)))))"

fun for_each_loop :: "(json \<Rightarrow> evaluated) \<Rightarrow> json list \<Rightarrow> evaluated" where
  "for_each_loop pred_of [] = Ok (owned_bool True)"
| "for_each_loop pred_of (item # items) =
     and_then (pred_of item) (\<lambda>v.
     and_then (bool_value v ''for_each predicate'') (\<lambda>b.
     if \<not> b then Ok (owned_bool False) else for_each_loop pred_of items))"

definition eval_for_each :: "evaluator \<Rightarrow> string \<Rightarrow> (string \<times> json) list \<Rightarrow> current \<Rightarrow> evaluated" where
  "eval_for_each ev op m cur =
     and_then (sub_eval ev op m ''collection'' cur) (\<lambda>cv.
     and_then (array_of cv ''for_each'' ''for_each collection is not an array'') (\<lambda>collection.
     and_then (expr_str op m ''scope'' ''for_each scope is not a string'') (\<lambda>scope.
     and_then (sub_scoped ev op m ''predicate'' scope) (\<lambda>pred_of.
     for_each_loop pred_of collection))))"

fun rank_loop :: "(json \<Rightarrow> evaluated) \<Rightarrow> nat \<Rightarrow> json list \<Rightarrow> evaluated" where
  "rank_loop rank_of index [] = Ok (owned_bool True)"
| "rank_loop rank_of index (item # items) =
     and_then (rank_of item) (\<lambda>rank.
     and_then (ok_or (checked_add (word_of_nat index) 1) ''rank counter overflow'') (\<lambda>expected.
     and_then (one rank ''rank'') (\<lambda>w.
     if as_u64 w \<noteq> Some expected then Ok (owned_bool False)
     else rank_loop rank_of (Suc index) items)))"

definition eval_rank :: "evaluator \<Rightarrow> string \<Rightarrow> (string \<times> json) list \<Rightarrow> current \<Rightarrow> evaluated" where
  "eval_rank ev op m cur =
     and_then (sub_eval ev op m ''collection'' cur) (\<lambda>cv.
     and_then (array_of cv ''rank_is_index_plus_one'' ''rank collection is not an array'') (\<lambda>collection.
     and_then (expr_str op m ''scope'' ''rank scope is not a string'') (\<lambda>scope.
     and_then (sub_scoped ev op m ''rank'' scope) (\<lambda>rank_of.
     rank_loop rank_of 0 collection))))"

definition eval_prefixed_identity :: "evaluator \<Rightarrow> string \<Rightarrow> (string \<times> json) list \<Rightarrow> current \<Rightarrow> evaluated" where
  "eval_prefixed_identity ev op m cur =
     and_then (sub_eval ev op m ''identity'' cur) (\<lambda>iv.
     and_then (string_value iv ''identity'') (\<lambda>identity.
     and_then (expr_str op m ''prefix'' ''prefix is not a string'') (\<lambda>prefix.
     and_then (sub_eval ev op m ''value'' cur) (\<lambda>vv.
     and_then (string_value vv ''value'') (\<lambda>v.
     Ok (owned_bool (v = prefix @ identity)))))))"

section \<open>Evaluation\<close>

definition eval_handler ::
  "evaluator \<Rightarrow> eval_context \<Rightarrow> native_handler \<Rightarrow> string \<Rightarrow> (string \<times> json) list \<Rightarrow> current \<Rightarrow> evaluated" where
  "eval_handler ev ctx handler op m cur =
     (case handler of
        H_Literal \<Rightarrow> and_then (expr_field op m ''value'') (\<lambda>v. Ok (Owned v))
      | H_Pointer \<Rightarrow> eval_pointer ctx op m
      | H_IterationPointer \<Rightarrow> eval_iteration_pointer op m cur
      | H_ArrayLength \<Rightarrow> eval_array_length ev op m cur
      | H_ArrayAt \<Rightarrow> eval_array_at ev op m cur
      | H_All \<Rightarrow> eval_all_any ev True op m cur
      | H_Any \<Rightarrow> eval_all_any ev False op m cur
      | H_Coalesce \<Rightarrow> eval_coalesce ev op m cur
      | H_Concat \<Rightarrow> eval_concat ev op m cur
      | H_Eq \<Rightarrow> eval_equal ev ''left'' ''right'' op m cur
      | H_Lt \<Rightarrow> eval_less ev True op m cur
      | H_Lte \<Rightarrow> eval_less ev False op m cur
      | H_Multiply \<Rightarrow> eval_multiply ev op m cur
      | H_Max \<Rightarrow> eval_max ev op m cur
      | H_Not \<Rightarrow> eval_not ev op m cur
      | H_NormalizeRef \<Rightarrow> eval_normalize_ref ev ctx op m cur
      | H_MapLookup \<Rightarrow> eval_map_lookup ev op m cur
      | H_SetContains \<Rightarrow> eval_set_contains ev op m cur
      | H_FieldEqRef \<Rightarrow> eval_equal ev ''value'' ''expected'' op m cur
      | H_FiniteRange \<Rightarrow> eval_finite_range ev op m cur
      | H_SafeIntegerRange \<Rightarrow> eval_safe_integer_range ev op m cur
      | H_TupleTags \<Rightarrow> eval_tuple_tags ev op m cur
      | H_LengthEq \<Rightarrow> eval_length ev True op m cur
      | H_LengthLteRef \<Rightarrow> eval_length ev False op m cur
      | H_UniqueBy \<Rightarrow> eval_unique_by ev op m cur
      | H_OrderedScoreDescIdAsc \<Rightarrow> eval_ordered ev op m cur
      | H_ForEach \<Rightarrow> eval_for_each ev op m cur
      | H_RankIsIndexPlusOne \<Rightarrow> eval_rank ev op m cur
      | H_PrefixedIdentity \<Rightarrow> eval_prefixed_identity ev op m cur
      | H_CorpusEqRef \<Rightarrow> eval_equal ev ''corpus'' ''expected'' op m cur)"

text \<open>The values from which a handler takes its sub-expressions: its fields and the elements of its array fields.\<close>

definition parts :: "(string \<times> json) list \<Rightarrow> json set" where
  "parts m = {x. \<exists>k. map_of m k = Some x} \<union> {x. \<exists>k xs. map_of m k = Some (JArray xs) \<and> x \<in> set xs}"

lemma parts_size: "x \<in> parts m \<Longrightarrow> size x < size (JObject m)"
  by (fastforce simp: parts_def dest: size_map_of size_elem)

named_theorems eval_defs \<open>definitions of the handlers\<close>

lemmas handler_defs [eval_defs] =
  eval_array_length_def eval_array_at_def eval_all_any_def eval_coalesce_def eval_concat_def eval_equal_def
  eval_less_def eval_multiply_def eval_max_def eval_not_def eval_normalize_ref_def eval_map_lookup_def
  eval_set_contains_def eval_finite_range_def eval_safe_integer_range_def eval_tuple_tags_def eval_length_def
  eval_unique_by_def eval_ordered_def eval_for_each_def eval_rank_def eval_prefixed_identity_def

lemma sub_eval_agree:
  assumes "\<And>x c. x \<in> parts m \<Longrightarrow> r x c = r' x c"
  shows "sub_eval r op m name cur = sub_eval r' op m name cur"
  unfolding sub_eval_def using assms by (intro and_then_cong) (auto simp: expr_field_def parts_def)

lemma sub_evals_agree:
  assumes "\<And>x c. x \<in> parts m \<Longrightarrow> r x c = r' x c"
  shows "sub_evals r op m name msg cur = sub_evals r' op m name msg cur"
proof -
  have "expr_array op m name msg = Ok es \<Longrightarrow> e \<in> set es \<Longrightarrow> e \<in> parts m" for es e
    by (auto simp: expr_array_def expr_field_def parts_def)
  with assms show ?thesis unfolding sub_evals_def by (intro and_then_cong) auto
qed

lemma sub_scoped_agree:
  assumes "\<And>x c. x \<in> parts m \<Longrightarrow> r x c = r' x c"
  shows "sub_scoped r op m name scope = sub_scoped r' op m name scope"
  unfolding sub_scoped_def using assms by (intro and_then_cong) (auto simp: expr_field_def parts_def)

lemma eval_handler_cong [fundef_cong]:
  assumes "m = m'" "\<And>x c. x \<in> parts m' \<Longrightarrow> r x c = r' x c"
  shows "eval_handler r ctx h op m cur = eval_handler r' ctx h op m' cur"
proof -
  note agree = sub_eval_agree [OF assms(2)] sub_evals_agree [OF assms(2)] sub_scoped_agree [OF assms(2)]
  show ?thesis unfolding assms(1)
    by (cases h) (simp_all only: eval_handler_def eval_defs agree native_handler.case)
qed

function eval :: "eval_context \<Rightarrow> json \<Rightarrow> current \<Rightarrow> evaluated" where
  "eval ctx e cur =
     and_then (object e ''refinement expression'') (\<lambda>m.
     and_then (str_or m ''op'' ''refinement expression op is missing'') (\<lambda>op.
     and_then (ok_or (refinement_handler op) (''unsupported refinement opcode '' @ op)) (\<lambda>handler.
     eval_handler (\<lambda>x c. eval ctx x c) ctx handler op m cur)))"
  by pat_completeness auto

termination eval
  by (relation "measure (\<lambda>(_, e, _). size e)") (auto dest: parts_size)

declare eval.simps [simp del]

section \<open>Assertions\<close>

fun failed_from :: "eval_context \<Rightarrow> nat \<Rightarrow> json list \<Rightarrow> nat option contract_result" where
  "failed_from ctx index [] = Ok None"
| "failed_from ctx index (assertion # assertions) =
     and_then (eval ctx assertion None) (\<lambda>v.
     and_then (bool_value v ''assertion'') (\<lambda>b.
     if \<not> b then Ok (Some index) else failed_from ctx (Suc index) assertions))"

definition first_failed_assertion ::
  "json list \<Rightarrow> json \<Rightarrow> json option \<Rightarrow> (string \<Rightarrow> string \<Rightarrow> string option) \<Rightarrow> nat option contract_result" where
  "first_failed_assertion assertions request result normalizer =
     failed_from \<lparr>ctx_request = request, ctx_result = result, ctx_normalizer = normalizer\<rparr> 0 assertions"

definition evaluate_assertions ::
  "json list \<Rightarrow> json \<Rightarrow> json option \<Rightarrow> (string \<Rightarrow> string \<Rightarrow> string option) \<Rightarrow> unit contract_result" where
  "evaluate_assertions assertions request result normalizer =
     and_then (first_failed_assertion assertions request result normalizer) (\<lambda>failed.
     (case failed of
        Some index \<Rightarrow> Err (''producer refinement assertion '' @ show_nat index @ '' failed'')
      | None \<Rightarrow> Ok ()))"

end
