(* ===== verification/Producer_Contract.thy ===== *)
theory Producer_Contract
  imports Refinement_Eval
begin

text \<open>
  The producer contract of bounded retrieval (\<^verbatim>\<open>bounded_retrieval_contract.rs\<close>): the pins of its
  artifacts, its parsing and binding, the verification of its fixture and its manifest, and the
  validation and admission of requests against it. The JSON decoders, SHA-256, the serializer, the
  derived \<^verbatim>\<open>Debug\<close> text, the embedded files and the stack are parameters (\<open>contract_env\<close>).
\<close>

section \<open>Pins\<close>

definition BOUNDED_OPERATIONS :: "string list" where
  "BOUNDED_OPERATIONS = [CANDIDATE_SEARCH, FACT_EXPAND, PPR_MATERIALIZE]"

definition CONTRACT_VERSION :: string where "CONTRACT_VERSION = ''aira-synapse-bounded-retrieval-contract@1''"
definition REFINEMENT_IR_VERSION :: string where "REFINEMENT_IR_VERSION = ''aira-synapse-refinement-ir@1''"
definition CONTRACT_SHA256 :: string where
  "CONTRACT_SHA256 = ''dd5386c8718d71c6a2588bb095d99789115272dbe66ceda3ee232753d72cada7''"
definition RETRIEVAL_MANIFEST_SHA256 :: string where
  "RETRIEVAL_MANIFEST_SHA256 = ''66452c6f10209f9640c981ddf9b2e750d66b12c64fa349c8fd70968cdd40e526''"
definition SOURCE_REPOSITORY :: string where "SOURCE_REPOSITORY = ''https://github.com/Ryuhei-So/aira-synapse''"
definition SOURCE_BRANCH :: string where "SOURCE_BRANCH = ''production-runtime''"
definition SOURCE_COMMIT :: string where "SOURCE_COMMIT = ''c8199660d5cdac12b617825e4a3e111ee3daa4c7''"
definition PIN_FILE :: string where "PIN_FILE = ''bounded-retrieval-pin.json''"
definition CONTRACT_FILE :: string where "CONTRACT_FILE = ''bounded-retrieval-contract.json''"
definition FIXTURE_FILE :: string where "FIXTURE_FILE = ''bounded-retrieval-fixture.json''"
definition MANIFEST_FILE :: string where "MANIFEST_FILE = ''bounded-retrieval-fixture.manifest.json''"
definition EXPECTED_PIN_VERSION :: string where "EXPECTED_PIN_VERSION = ''aira-graphdb-bounded-retrieval-pin@1''"
definition EXPECTED_MANIFEST_VERSION :: string where
  "EXPECTED_MANIFEST_VERSION = ''aira-synapse-bounded-retrieval-manifest@2''"
definition EXPECTED_FIXTURE_VERSION :: string where
  "EXPECTED_FIXTURE_VERSION = ''aira-synapse-bounded-retrieval-fixture@2''"
definition EXPECTED_WITNESS_VERSION :: string where
  "EXPECTED_WITNESS_VERSION = ''aira-synapse-bounded-retrieval-witness@1''"
definition MAX_ARTIFACT_BYTES :: u64 where "MAX_ARTIFACT_BYTES = 128 * 1024"
definition MAX_TOTAL_ARTIFACT_BYTES :: u64 where "MAX_TOTAL_ARTIFACT_BYTES = 256 * 1024"

record pinned_artifact =
  pa_bytes :: u64
  pa_local_file :: string
  pa_sha256 :: string
  pa_source_path :: string

record manifest_dependency =
  md_bytes :: u64
  md_contract_version :: "string option"
  md_id :: string
  md_manifest_version :: "string option"
  md_normalization_digest :: "string option"
  md_path :: string
  md_sha256 :: string
  md_unicode_version :: "string option"
  md_format_version :: "string option"

record operation_digest =
  od_bytes :: u64
  od_sha256 :: string

record retrieval_pin =
  rp_artifacts :: "pinned_artifact list"
  rp_dependencies :: "manifest_dependency list"
  rp_fixture_manifest_file :: string
  rp_fixture_manifest_sha256 :: string
  rp_operation_semantic_digests :: "(string \<times> operation_digest) list"
  rp_pin_version :: string
  rp_source_branch :: string
  rp_source_commit :: string
  rp_source_repository :: string

record witness_coverage =
  wc_exchange :: u64
  wc_request :: u64

record retrieval_manifest =
  rm_contract_bytes :: u64
  rm_contract_file :: string
  rm_contract_sha256 :: string
  rm_contract_version :: string
  rm_dependencies :: "manifest_dependency list"
  rm_fixture_bytes :: u64
  rm_fixture_file :: string
  rm_fixture_sha256 :: string
  rm_fixture_version :: string
  rm_manifest_version :: string
  rm_operation_semantic_digests :: "(string \<times> operation_digest) list"
  rm_witness_coverage :: "(string \<times> witness_coverage) list"
  rm_witness_version :: string

definition expected_artifacts :: "pinned_artifact list" where
  "expected_artifacts =
     [\<lparr>pa_bytes = 60556, pa_local_file = CONTRACT_FILE, pa_sha256 = CONTRACT_SHA256,
       pa_source_path = ''packages/memgraphrag/tests/fixtures/bounded-retrieval/bounded-retrieval-contract.json''\<rparr>,
      \<lparr>pa_bytes = 79681, pa_local_file = FIXTURE_FILE,
       pa_sha256 = ''a003939ca7bac27da2f390b5e5eef7f9c43e0291516e1a55e05a93b151d36f5c'',
       pa_source_path = ''packages/memgraphrag/tests/fixtures/bounded-retrieval/bounded-retrieval-fixture.json''\<rparr>,
      \<lparr>pa_bytes = 3384, pa_local_file = MANIFEST_FILE, pa_sha256 = RETRIEVAL_MANIFEST_SHA256,
       pa_source_path =
         ''packages/memgraphrag/tests/fixtures/bounded-retrieval/bounded-retrieval-fixture.manifest.json''\<rparr>]"

definition expected_dependencies :: "manifest_dependency list" where
  "expected_dependencies =
     [\<lparr>md_bytes = 6211, md_contract_version = Some ''aira-synapse-domain-contract@1'',
       md_id = ''aira-synapse-domain-contract@1'', md_manifest_version = None, md_normalization_digest = None,
       md_path = ''packages/memgraphrag/tests/fixtures/bounded-domain-contract.json'',
       md_sha256 = ''2d05969a93037c6c22f46b77e068d5d5d2fa5f85988eb923e7f7d7d78ab46ef1'',
       md_unicode_version = None, md_format_version = None\<rparr>,
      \<lparr>md_bytes = 455, md_contract_version = Some ''aira-synapse-domain-contract@1'',
       md_id = ''aira-synapse-bounded-domain-manifest@1'',
       md_manifest_version = Some ''aira-synapse-bounded-domain-manifest@1'', md_normalization_digest = None,
       md_path = ''packages/memgraphrag/tests/fixtures/bounded-domain-fixture.manifest.json'',
       md_sha256 = ''b50a00b5a87f91305b41d97b6f91cd19741e4bbc8ea1b4e4e976c83f40b4e821'',
       md_unicode_version = None, md_format_version = None\<rparr>,
      \<lparr>md_bytes = 2018, md_contract_version = None, md_id = ''V15UnicodeLowercaseManifest@1'',
       md_manifest_version = Some ''V15UnicodeLowercaseManifest@1'',
       md_normalization_digest = Some NORMALIZATION_DIGEST,
       md_path = ''packages/memgraphrag/tests/fixtures/unicode16-lowercase.manifest.json'',
       md_sha256 = ''4f323ec6366aba4f497d4de5eec26759a898242b3e26e46d23a232881ca28960'',
       md_unicode_version = Some ''16.0.0'', md_format_version = None\<rparr>,
      \<lparr>md_bytes = 68942, md_contract_version = None,
       md_id = ''v15-entity-normalization-ecmascript-tolowercase-unicode16.0.0@1:native-rust-lookup'',
       md_manifest_version = None, md_normalization_digest = Some NORMALIZATION_DIGEST,
       md_path = ''packages/memgraphrag/tests/fixtures/unicode16-lowercase.lookup.rs'',
       md_sha256 = ''4637b1b21285887f291ab36c19edb5bb94d1660364eb948159117c0d493d8f59'',
       md_unicode_version = Some ''16.0.0'', md_format_version = None\<rparr>,
      \<lparr>md_bytes = 5560651, md_contract_version = None,
       md_id = ''v15-entity-normalization-ecmascript-tolowercase-unicode16.0.0@1:conformance'',
       md_manifest_version = None, md_normalization_digest = Some NORMALIZATION_DIGEST,
       md_path = ''packages/memgraphrag/tests/fixtures/unicode16-lowercase.conformance.bin'',
       md_sha256 = ''c89cc745f040ba8518473fb8b1511596a34e48616e2f3f3609237fdd74e4ae8a'',
       md_unicode_version = Some ''16.0.0'', md_format_version = Some ''U16LOW1''\<rparr>]"

definition expected_operation_digests :: "(string \<times> operation_digest) list" where
  "expected_operation_digests =
     [(CANDIDATE_SEARCH, \<lparr>od_bytes = 19371,
        od_sha256 = ''adf3daa1cdf472097e76dae153a6c855ccefe378398e82f8d83a9b39f5917928''\<rparr>),
      (FACT_EXPAND, \<lparr>od_bytes = 12273,
        od_sha256 = ''4b13eebe0bed3620e91df122c2a4deb01fa1de2520c41a92fbb2f2f131b21e22''\<rparr>),
      (PPR_MATERIALIZE, \<lparr>od_bytes = 16204,
        od_sha256 = ''8ca961650d6ffe6ef656ce236f8630b879fd956d7774e7229e9a720e75120bdb''\<rparr>)]"

definition expected_pin :: retrieval_pin where
  "expected_pin =
     \<lparr>rp_artifacts = expected_artifacts, rp_dependencies = expected_dependencies,
      rp_fixture_manifest_file = MANIFEST_FILE, rp_fixture_manifest_sha256 = RETRIEVAL_MANIFEST_SHA256,
      rp_operation_semantic_digests = expected_operation_digests, rp_pin_version = EXPECTED_PIN_VERSION,
      rp_source_branch = SOURCE_BRANCH, rp_source_commit = SOURCE_COMMIT, rp_source_repository = SOURCE_REPOSITORY\<rparr>"

section \<open>Parameters\<close>

text \<open>The embedded baseline exchanges and the witnesses of the assertions.\<close>

record fixture_exchange =
  fx_request :: json
  fx_result :: json

datatype assertion_partition = PartRequest | PartExchange

datatype replacement_root = RootRequest | RootResult

record replacement_patch =
  patch_root :: replacement_root
  patch_path :: string
  patch_value :: json

record assertion_witness =
  aw_operation :: string
  aw_partition :: assertion_partition
  aw_assertion_index :: u64
  aw_patch :: replacement_patch

record retrieval_fixture =
  rf_fixture_version :: string
  rf_witness_version :: string
  rf_exchanges :: "(string \<times> fixture_exchange) list"
  rf_witnesses :: "assertion_witness list"

record contract_env =
  from_slice_value :: "string \<Rightarrow> (json, string) outcome"
  from_slice_pin :: "string \<Rightarrow> (retrieval_pin, string) outcome"
  from_slice_manifest :: "string \<Rightarrow> (retrieval_manifest, string) outcome"
  from_slice_fixture :: "string \<Rightarrow> (retrieval_fixture, string) outcome"
  sha256_hex :: "string \<Rightarrow> string"
  json_to_vec :: "json \<Rightarrow> string"
  debug_node :: "contract_node \<Rightarrow> string"
  stack_refs :: nat
  PIN_BYTES :: string
  CONTRACT_BYTES :: string
  FIXTURE_BYTES :: string
  MANIFEST_BYTES :: string
  DOMAIN_BYTES :: string
  DOMAIN_MANIFEST_BYTES :: string

definition parse_json :: "(string \<Rightarrow> ('a, string) outcome) \<Rightarrow> string \<Rightarrow> string \<Rightarrow> 'a contract_result" where
  "parse_json from_slice bytes label = map_err (\<lambda>e. ''invalid '' @ label @ '': '' @ e) (from_slice bytes)"

section \<open>Parsing and binding\<close>

definition parse_domain_contract :: "contract_env \<Rightarrow> domain contract_result" where
  "parse_domain_contract env =
     (if len_u64 (DOMAIN_BYTES env) \<noteq> 6211
         \<or> sha256_hex env (DOMAIN_BYTES env) \<noteq> ''2d05969a93037c6c22f46b77e068d5d5d2fa5f85988eb923e7f7d7d78ab46ef1''
         \<or> len_u64 (DOMAIN_MANIFEST_BYTES env) \<noteq> 455
         \<or> sha256_hex env (DOMAIN_MANIFEST_BYTES env) \<noteq> ''b50a00b5a87f91305b41d97b6f91cd19741e4bbc8ea1b4e4e976c83f40b4e821''
      then Err ''delegated dependency bytes or SHA-256 mismatch''
      else
        and_then (parse_json (from_slice_value env) (DOMAIN_BYTES env) ''delegated domain contract'') (\<lambda>v.
        and_then (object v ''delegated domain contract'') (\<lambda>m.
        and_then (exact_keys m [''contractVersion'', ''contracts''] ''delegated domain contract'') (\<lambda>_.
        if str_field m ''contractVersion'' \<noteq> Some ''aira-synapse-domain-contract@1''
        then Err ''delegated domain contract version mismatch''
        else
          and_then (expect (map_of m ''contracts'')) (\<lambda>cv.
          and_then (object cv ''delegated domain contract.contracts'') (\<lambda>contracts.
          traverse (\<lambda>p. and_then (parse_contract_node (snd p) (''domain contract '' @ fst p)) (\<lambda>n. Ok (fst p, n)))
            contracts))))))"

record operation_contract =
  oc_request :: contract_node
  oc_result :: contract_node
  oc_request_assertions :: "json list"
  oc_exchange_assertions :: "json list"

record producer_contract =
  pc_contract_version :: string
  pc_refinement_ir_version :: string
  pc_operations :: "(string \<times> operation_contract) list"
  pc_refinement_nodes :: nodes
  pc_domain_contract :: domain

definition parse_operation ::
  "contract_env \<Rightarrow> nodes \<Rightarrow> domain \<Rightarrow> (string \<times> json) list \<Rightarrow> string \<Rightarrow> (string \<times> operation_contract) contract_result" where
  "parse_operation env ns domain ops method =
     (let label = ''operation '' @ method in
      and_then (expect (map_of ops method)) (\<lambda>ov.
      and_then (object ov label) (\<lambda>operation.
      and_then (exact_keys operation [''refinement'', ''request'', ''result''] label) (\<lambda>_.
      and_then (expect (map_of operation ''request'')) (\<lambda>qv.
      and_then (parse_contract_node qv (label @ ''.request'')) (\<lambda>request.
      and_then (expect (map_of operation ''result'')) (\<lambda>rv.
      and_then (parse_contract_node rv (label @ ''.result'')) (\<lambda>result.
      and_then (validate_external_dependencies request domain) (\<lambda>_.
      and_then (validate_external_dependencies result domain) (\<lambda>_.
      and_then (expect (map_of operation ''refinement'')) (\<lambda>fv.
      and_then (object fv (label @ ''.refinement'')) (\<lambda>refinement.
      and_then (exact_keys refinement [''exchangeAssertions'', ''requestAssertions'', ''version''] (label @ ''.refinement'')) (\<lambda>_.
      if str_field refinement ''version'' \<noteq> Some REFINEMENT_IR_VERSION
      then Err (label @ '' refinement version mismatch'')
      else
        and_then (expect (map_of refinement ''requestAssertions'')) (\<lambda>qa.
        and_then (parse_assertions qa ns (label @ ''.requestAssertions'')) (\<lambda>request_assertions.
        and_then (expect (map_of refinement ''exchangeAssertions'')) (\<lambda>xa.
        and_then (parse_assertions xa ns (label @ ''.exchangeAssertions'')) (\<lambda>exchange_assertions.
        and_then (validate_assertion_pointers (debug_node env) (stack_refs env) request_assertions True request result
            domain ns (label @ ''.requestAssertions'')) (\<lambda>_.
        and_then (validate_assertion_pointers (debug_node env) (stack_refs env) exchange_assertions False request result
            domain ns (label @ ''.exchangeAssertions'')) (\<lambda>_.
        Ok (method, \<lparr>oc_request = request, oc_result = result, oc_request_assertions = request_assertions,
          oc_exchange_assertions = exchange_assertions\<rparr>))))))))))))))))))))"

definition parse_producer_contract :: "contract_env \<Rightarrow> string \<Rightarrow> producer_contract contract_result" where
  "parse_producer_contract env bytes =
     and_then (parse_json (from_slice_value env) bytes ''bounded retrieval contract'') (\<lambda>v.
     and_then (object v ''bounded retrieval contract'') (\<lambda>m.
     and_then (exact_keys m [''contractVersion'', ''operations'', ''refinementIrVersion'', ''refinementNodes'']
         ''bounded retrieval contract'') (\<lambda>_.
     and_then (str_or m ''contractVersion'' ''contractVersion must be a string'') (\<lambda>contract_version.
     if contract_version \<noteq> CONTRACT_VERSION then Err ''bounded retrieval contract version mismatch''
     else
       and_then (str_or m ''refinementIrVersion'' ''refinementIrVersion must be a string'') (\<lambda>refinement_ir_version.
       if refinement_ir_version \<noteq> REFINEMENT_IR_VERSION then Err ''refinement IR version mismatch''
       else
         and_then (expect (map_of m ''refinementNodes'')) (\<lambda>nv.
         and_then (parse_refinement_nodes nv) (\<lambda>ns.
         and_then (parse_domain_contract env) (\<lambda>domain.
         and_then (expect (map_of m ''operations'')) (\<lambda>ov.
         and_then (object ov ''bounded retrieval contract.operations'') (\<lambda>ops.
         if set (map fst ops) \<noteq> set BOUNDED_OPERATIONS then Err ''bounded retrieval operation set mismatch''
         else
           and_then (traverse (parse_operation env ns domain ops) BOUNDED_OPERATIONS) (\<lambda>operations.
           Ok \<lparr>pc_contract_version = contract_version, pc_refinement_ir_version = refinement_ir_version,
             pc_operations = operations, pc_refinement_nodes = ns, pc_domain_contract = domain\<rparr>)))))))))))"

section \<open>The fixture\<close>

text \<open>\<^verbatim>\<open>str::to_ascii_lowercase\<close>.\<close>

definition ascii_lower :: "char \<Rightarrow> char" where
  "ascii_lower c = (if CHR ''A'' \<le> c \<and> c \<le> CHR ''Z'' then char_of (of_char c + (32::nat)) else c)"

definition fixture_normalizer :: "string \<Rightarrow> string \<Rightarrow> string option" where
  "fixture_normalizer dependency v = (if dependency = NORMALIZATION_DIGEST then Some (map ascii_lower v) else None)"

definition check_baseline :: "contract_env \<Rightarrow> producer_contract \<Rightarrow> retrieval_fixture \<Rightarrow> string \<Rightarrow> unit contract_result" where
  "check_baseline env contract fixture method =
     and_then (ok_or (map_of (pc_operations contract) method) ''pinned fixture operation is absent from contract'') (\<lambda>operation.
     and_then (ok_or (map_of (rf_exchanges fixture) method) ''pinned fixture exchange is missing'') (\<lambda>exchange.
     and_then (validate_schema (stack_refs env) (oc_request operation) (fx_request exchange) (pc_domain_contract contract)
         ''fixture request'') (\<lambda>_.
     and_then (validate_schema (stack_refs env) (oc_result operation) (fx_result exchange) (pc_domain_contract contract)
         ''fixture result'') (\<lambda>_.
     and_then (first_failed_assertion (oc_request_assertions operation) (fx_request exchange) None fixture_normalizer) (\<lambda>f.
     if f \<noteq> None then Err (''fixture baseline for '' @ method @ '' is invalid'')
     else
       and_then (first_failed_assertion (oc_exchange_assertions operation) (fx_request exchange)
           (Some (fx_result exchange)) fixture_normalizer) (\<lambda>g.
       if g \<noteq> None then Err (''fixture baseline for '' @ method @ '' is invalid'') else Ok ()))))))"

text \<open>One witness: the patched baseline must conform to both schemas and fail exactly its assertion.\<close>

definition check_witness ::
  "contract_env \<Rightarrow> producer_contract \<Rightarrow> retrieval_fixture \<Rightarrow> operation_contract \<Rightarrow> fixture_exchange \<Rightarrow> string
     \<Rightarrow> assertion_partition \<Rightarrow> nat \<Rightarrow> nat \<Rightarrow> nat contract_result" where
  "check_witness env contract fixture operation baseline method part cursor assertion_index =
     and_then (ok_or (get_at (rf_witnesses fixture) cursor) ''bounded retrieval witness is missing'') (\<lambda>witness.
     if aw_operation witness \<noteq> method \<or> aw_partition witness \<noteq> part \<or>
        aw_assertion_index witness \<noteq> word_of_nat assertion_index
     then Err ''bounded retrieval witness identity/order mismatch''
     else if part = PartRequest \<and> patch_root (aw_patch witness) \<noteq> RootRequest
     then Err ''request witness must patch the request root''
     else
       and_then
         (case patch_root (aw_patch witness) of
            RootRequest \<Rightarrow>
              and_then (replace_json_pointer (fx_request baseline) (patch_path (aw_patch witness)) (patch_value (aw_patch witness)))
                (\<lambda>request. Ok (request, fx_result baseline))
          | RootResult \<Rightarrow>
              and_then (replace_json_pointer (fx_result baseline) (patch_path (aw_patch witness)) (patch_value (aw_patch witness)))
                (\<lambda>result. Ok (fx_request baseline, result))) (\<lambda>(request, result).
       and_then (validate_schema (stack_refs env) (oc_request operation) request (pc_domain_contract contract)
           ''witness request'') (\<lambda>_.
       and_then (validate_schema (stack_refs env) (oc_result operation) result (pc_domain_contract contract)
           ''witness result'') (\<lambda>_.
       and_then (first_failed_assertion (oc_request_assertions operation) request None fixture_normalizer) (\<lambda>request_failure.
       (case part of
          PartRequest \<Rightarrow>
            if request_failure \<noteq> Some assertion_index then Err ''request witness does not fail its exact assertion''
            else Ok (Suc cursor)
        | PartExchange \<Rightarrow>
            if request_failure \<noteq> None then Err ''exchange witness fails a request assertion''
            else
              and_then (first_failed_assertion (oc_exchange_assertions operation) request (Some result) fixture_normalizer)
                (\<lambda>exchange_failure.
                 if exchange_failure \<noteq> Some assertion_index
                 then Err ''exchange witness does not fail its exact assertion''
                 else Ok (Suc cursor))))))))"

definition check_witnesses_of ::
  "contract_env \<Rightarrow> producer_contract \<Rightarrow> retrieval_fixture \<Rightarrow> nat \<Rightarrow> string \<Rightarrow> nat contract_result" where
  "check_witnesses_of env contract fixture cursor method =
     and_then (ok_or (map_of (pc_operations contract) method) ''pinned witness operation is absent from contract'') (\<lambda>operation.
     and_then (ok_or (map_of (rf_exchanges fixture) method) ''pinned witness baseline is missing'') (\<lambda>baseline.
     fold_ok (\<lambda>cur pa.
         fold_ok (check_witness env contract fixture operation baseline method (fst pa)) cur [0..<length (snd pa)])
       cursor
       [(PartRequest, oc_request_assertions operation), (PartExchange, oc_exchange_assertions operation)]))"

definition verify_fixture_bytes :: "contract_env \<Rightarrow> string \<Rightarrow> unit contract_result" where
  "verify_fixture_bytes env bytes =
     and_then (parse_json (from_slice_fixture env) bytes ''bounded retrieval fixture'') (\<lambda>fixture.
     if rf_fixture_version fixture \<noteq> EXPECTED_FIXTURE_VERSION then Err ''bounded retrieval fixture version mismatch''
     else if rf_witness_version fixture \<noteq> EXPECTED_WITNESS_VERSION then Err ''bounded retrieval witness version mismatch''
     else if set (map fst (rf_exchanges fixture)) \<noteq> set BOUNDED_OPERATIONS
     then Err ''bounded retrieval fixture operation set mismatch''
     else
       and_then (parse_producer_contract env (CONTRACT_BYTES env)) (\<lambda>contract.
       and_then (each (\<lambda>_ method. check_baseline env contract fixture method) 0 BOUNDED_OPERATIONS) (\<lambda>_.
       let expected_witnesses = sum_list (map (\<lambda>p. length (oc_request_assertions (snd p)) +
             length (oc_exchange_assertions (snd p))) (pc_operations contract))
       in if length (rf_witnesses fixture) \<noteq> expected_witnesses then Err ''bounded retrieval witness count mismatch''
          else
            and_then (fold_ok (check_witnesses_of env contract fixture) 0 BOUNDED_OPERATIONS) (\<lambda>_. Ok ()))))"

section \<open>The manifest and the embedded artifacts\<close>

definition expected_manifest :: "contract_env \<Rightarrow> retrieval_manifest contract_result" where
  "expected_manifest env =
     and_then (parse_producer_contract env (CONTRACT_BYTES env)) (\<lambda>contract.
     Ok \<lparr>rm_contract_bytes = 60556, rm_contract_file = CONTRACT_FILE, rm_contract_sha256 = CONTRACT_SHA256,
       rm_contract_version = CONTRACT_VERSION, rm_dependencies = expected_dependencies, rm_fixture_bytes = 79681,
       rm_fixture_file = FIXTURE_FILE,
       rm_fixture_sha256 = ''a003939ca7bac27da2f390b5e5eef7f9c43e0291516e1a55e05a93b151d36f5c'',
       rm_fixture_version = EXPECTED_FIXTURE_VERSION, rm_manifest_version = EXPECTED_MANIFEST_VERSION,
       rm_operation_semantic_digests = expected_operation_digests,
       rm_witness_coverage = map (\<lambda>p. (fst p,
         \<lparr>wc_exchange = len_u64 (oc_exchange_assertions (snd p)), wc_request = len_u64 (oc_request_assertions (snd p))\<rparr>))
         (pc_operations contract),
       rm_witness_version = EXPECTED_WITNESS_VERSION\<rparr>)"

definition verify_manifest_bytes :: "contract_env \<Rightarrow> string \<Rightarrow> unit contract_result" where
  "verify_manifest_bytes env bytes =
     and_then (parse_json (from_slice_manifest env) bytes ''bounded retrieval manifest'') (\<lambda>manifest.
     and_then (expected_manifest env) (\<lambda>expected.
     if manifest \<noteq> expected then Err ''retrieval manifest cross-link mismatch'' else Ok ()))"

definition embedded_bytes :: "contract_env \<Rightarrow> string \<Rightarrow> string contract_result" where
  "embedded_bytes env local_file =
     (if local_file = CONTRACT_FILE then Ok (CONTRACT_BYTES env)
      else if local_file = FIXTURE_FILE then Ok (FIXTURE_BYTES env)
      else if local_file = MANIFEST_FILE then Ok (MANIFEST_BYTES env)
      else Err ''embedded retrieval artifact set mismatch'')"

definition verify_embedded_artifacts :: "contract_env \<Rightarrow> unit contract_result" where
  "verify_embedded_artifacts env =
     and_then (parse_json (from_slice_pin env) (PIN_BYTES env) ''embedded retrieval pin'') (\<lambda>pin.
     if pin \<noteq> expected_pin then Err ''embedded retrieval pin metadata mismatch''
     else
       and_then (each (\<lambda>_ artifact.
           and_then (embedded_bytes env (pa_local_file artifact)) (\<lambda>bytes.
           if len_u64 bytes \<noteq> pa_bytes artifact \<or> sha256_hex env bytes \<noteq> pa_sha256 artifact
           then Err (''embedded SHA-256 mismatch for '' @ pa_local_file artifact) else Ok ()))
         0 (rp_artifacts expected_pin)) (\<lambda>_.
       and_then (verify_manifest_bytes env (MANIFEST_BYTES env)) (\<lambda>_.
       and_then (parse_producer_contract env (CONTRACT_BYTES env)) (\<lambda>_.
       verify_fixture_bytes env (FIXTURE_BYTES env)))))"

text \<open>\<^verbatim>\<open>OnceLock::get_or_init\<close>: every call returns the outcome of the one initialization.\<close>

definition pinned_contract :: "contract_env \<Rightarrow> producer_contract contract_result" where
  "pinned_contract env =
     and_then (verify_embedded_artifacts env) (\<lambda>_. parse_producer_contract env (CONTRACT_BYTES env))"

definition operation_names :: "contract_env \<Rightarrow> string list contract_result" where
  "operation_names env =
     and_then (pinned_contract env) (\<lambda>contract.
     let names = filter (\<lambda>name. name \<in> set (map fst (pc_operations contract))) BOUNDED_OPERATIONS
     in if length names \<noteq> length BOUNDED_OPERATIONS then Err ''pinned contract operation inventory is incomplete''
        else Ok names)"

section \<open>Validation and admission\<close>

type_synonym normalizer = "string \<Rightarrow> string \<Rightarrow> string option"

definition validate_semantic_request_with_normalizer ::
  "contract_env \<Rightarrow> string \<Rightarrow> json \<Rightarrow> normalizer \<Rightarrow> unit contract_result" where
  "validate_semantic_request_with_normalizer env method request normalizer =
     and_then (pinned_contract env) (\<lambda>contract.
     and_then (ok_or (map_of (pc_operations contract) method) (''unsupported bounded retrieval operation '' @ method)) (\<lambda>operation.
     and_then (validate_schema (stack_refs env) (oc_request operation) request (pc_domain_contract contract) ''request'') (\<lambda>_.
     evaluate_assertions (oc_request_assertions operation) request None normalizer)))"

definition validate_semantic_request :: "contract_env \<Rightarrow> string \<Rightarrow> json \<Rightarrow> unit contract_result" where
  "validate_semantic_request env method request =
     validate_semantic_request_with_normalizer env method request (\<lambda>_ _. None)"

definition validate_semantic_exchange ::
  "contract_env \<Rightarrow> string \<Rightarrow> json \<Rightarrow> json \<Rightarrow> normalizer \<Rightarrow> unit contract_result" where
  "validate_semantic_exchange env method request result normalizer =
     and_then (pinned_contract env) (\<lambda>contract.
     and_then (ok_or (map_of (pc_operations contract) method) (''unsupported bounded retrieval operation '' @ method)) (\<lambda>operation.
     and_then (validate_schema (stack_refs env) (oc_request operation) request (pc_domain_contract contract) ''request'') (\<lambda>_.
     and_then (validate_schema (stack_refs env) (oc_result operation) result (pc_domain_contract contract) ''result'') (\<lambda>_.
     and_then (evaluate_assertions (oc_request_assertions operation) request None normalizer) (\<lambda>_.
     evaluate_assertions (oc_exchange_assertions operation) request (Some result) normalizer)))))"

datatype reader_state = ReaderIdle | ReaderRecoveryPending | ReaderBusy

record request_admission =
  native_remainder_ms :: u64
  admitted_usage :: resource_usage

definition admit_request :: "contract_env \<Rightarrow> bounded_request \<Rightarrow> u64 \<Rightarrow> reader_state \<Rightarrow> request_admission contract_result" where
  "admit_request env request committed_generation state =
     (if expected_generation request > MAX_SAFE_GENERATION \<or> committed_generation > MAX_SAFE_GENERATION
      then Err ''generation exceeds JSON-safe integer range''
      else if expected_generation request \<noteq> committed_generation then Err ''requested generation is stale''
      else if state \<noteq> ReaderIdle then Err ''descriptor reader is not idle''
      else
        and_then (pinned_contract env) (\<lambda>contract.
        if br_method request \<notin> set (map fst (pc_operations contract)) then Err ''unsupported bounded retrieval method''
        else
          and_then (validate_semantic_request env (br_method request) (br_params request)) (\<lambda>_.
          and_then (usage_for_request (br_method request) (br_params request)) (\<lambda>usage.
          Ok \<lparr>native_remainder_ms = min (remaining_budget_ms request) MAX_OPERATION_DEADLINE_MS, admitted_usage = usage\<rparr>))))"

end
