(* ===== verification/Contract_Artifacts.thy ===== *)
theory Contract_Artifacts
  imports Producer_Contract
begin

text \<open>
  The artifact directory of the contract and the protocol metadata native publishes
  (\<^verbatim>\<open>bounded_retrieval_contract.rs\<close>). The file system is a parameter (\<open>dir_view\<close>): what the calls
  \<^verbatim>\<open>symlink_metadata\<close>, \<^verbatim>\<open>read_dir\<close> and \<^verbatim>\<open>read\<close> return.
\<close>

section \<open>Paths\<close>

datatype path_component = RootDir | CurDir | ParentDir | NormalPart string

definition part_components :: "string list \<Rightarrow> path_component list" where
  "part_components segs =
     map (\<lambda>p. if p = ''..'' then ParentDir else NormalPart p) (filter (\<lambda>p. p \<noteq> [] \<and> p \<noteq> ''.'') segs)"

text \<open>\<^verbatim>\<open>Path::components\<close> on Unix: a dot counts only at the start of a relative path.\<close>

definition path_components :: "string \<Rightarrow> path_component list" where
  "path_components path =
     (if starts_with path ''/'' then RootDir # part_components (split_char CHR ''/'' path)
      else (case split_char CHR ''/'' path of
              [] \<Rightarrow> []
            | p # segs \<Rightarrow> if p = ''.'' then CurDir # part_components segs else part_components (p # segs)))"

text \<open>\<^verbatim>\<open>PathBuf::push\<close> and \<^verbatim>\<open>Path::join\<close>.\<close>

definition path_push :: "string \<Rightarrow> string \<Rightarrow> string" where
  "path_push current name =
     (if starts_with name ''/'' then name
      else if current = [] \<or> last current = CHR ''/'' then current @ name
      else current @ ''/'' @ name)"

datatype file_kind = RegularFile | Directory | Symlink | OtherFile

record dir_view =
  symlink_metadata :: "string \<Rightarrow> (file_kind \<times> u64, string) outcome"
  read_dir :: "string \<Rightarrow> ((string, string) outcome list, string) outcome"
  read_bytes :: "string \<Rightarrow> (string, string) outcome"

section \<open>The artifact directory\<close>

definition regular_file_size :: "dir_view \<Rightarrow> string \<Rightarrow> u64 contract_result" where
  "regular_file_size view path =
     and_then (map_err (\<lambda>e. path @ '': '' @ e) (symlink_metadata view path)) (\<lambda>(kind, bytes).
     if kind \<noteq> RegularFile then Err (path @ '' is not a regular non-symlink file'')
     else if bytes > MAX_ARTIFACT_BYTES then Err (path @ '' exceeds per-file byte cap'')
     else Ok bytes)"

definition read_regular_file :: "dir_view \<Rightarrow> string \<Rightarrow> string contract_result" where
  "read_regular_file view path =
     and_then (regular_file_size view path) (\<lambda>_. map_err (\<lambda>e. path @ '': '' @ e) (read_bytes view path))"

definition verify_artifact_bytes :: "contract_env \<Rightarrow> dir_view \<Rightarrow> string \<Rightarrow> pinned_artifact \<Rightarrow> unit contract_result" where
  "verify_artifact_bytes env view root artifact =
     (let file = pa_local_file artifact in
      if (case path_components file of [NormalPart _] \<Rightarrow> False | _ \<Rightarrow> True) then Err (''invalid localFile '' @ file)
      else
        and_then (read_regular_file view (path_push root file)) (\<lambda>bytes.
        if len_u64 bytes \<noteq> pa_bytes artifact then Err (''byte length mismatch for '' @ file)
        else if sha256_hex env bytes \<noteq> pa_sha256 artifact then Err (''SHA-256 mismatch for '' @ file)
        else Ok ()))"

fun check_components :: "dir_view \<Rightarrow> string \<Rightarrow> string \<Rightarrow> path_component list \<Rightarrow> unit contract_result" where
  "check_components view label current [] = Ok ()"
| "check_components view label current (component # components) =
     (case component of
        CurDir \<Rightarrow> check_components view label current components
      | ParentDir \<Rightarrow> Err (label @ '' contains a parent directory component'')
      | _ \<Rightarrow>
          (let current' = path_push current (case component of NormalPart name \<Rightarrow> name | _ \<Rightarrow> ''/'') in
           and_then (map_err (\<lambda>e. label @ '' component '' @ current' @ '': '' @ e) (symlink_metadata view current')) (\<lambda>(kind, _).
           if kind = Symlink then Err (label @ '' component '' @ current' @ '' must not be a symlink'')
           else check_components view label current' components)))"

definition verify_no_symlink_components :: "dir_view \<Rightarrow> string \<Rightarrow> string \<Rightarrow> unit contract_result" where
  "verify_no_symlink_components view path label =
     (if path = [] then Err (label @ '' is empty'')
      else
        and_then (check_components view label [] (path_components path)) (\<lambda>_.
        and_then (map_err (\<lambda>e. label @ '' '' @ path @ '': '' @ e) (symlink_metadata view path)) (\<lambda>(kind, _).
        if kind \<noteq> Directory then Err (label @ '' '' @ path @ '' is not a regular non-symlink directory'') else Ok ())))"

definition verify_artifact_dir :: "contract_env \<Rightarrow> dir_view \<Rightarrow> string \<Rightarrow> unit contract_result" where
  "verify_artifact_dir env view root =
     and_then (verify_no_symlink_components view root ''bounded retrieval artifact root'') (\<lambda>_.
     and_then (map_err (\<lambda>e. ''read retrieval contract directory: '' @ e) (read_dir view root)) (\<lambda>entries.
     and_then (traverse (\<lambda>entry. map_err (\<lambda>e. ''read retrieval contract entry: '' @ e) entry) entries) (\<lambda>actual_files.
     if set actual_files \<noteq> insert PIN_FILE (set (map pa_local_file (rp_artifacts expected_pin)))
     then Err ''bounded retrieval directory file set mismatch''
     else
       and_then (read_regular_file view (path_push root PIN_FILE)) (\<lambda>pin_bytes.
       and_then (parse_json (from_slice_pin env) pin_bytes ''bounded retrieval pin'') (\<lambda>pin.
       if pin \<noteq> expected_pin then Err ''bounded retrieval pin metadata mismatch''
       else
         and_then (fold_ok (\<lambda>total artifact.
             and_then (regular_file_size view (path_push root (pa_local_file artifact))) (\<lambda>size.
             and_then (ok_or (checked_add total size) ''bounded retrieval aggregate byte count overflow'') (\<lambda>total'.
             if total' > MAX_TOTAL_ARTIFACT_BYTES then Err ''bounded retrieval aggregate byte cap exceeded''
             else and_then (verify_artifact_bytes env view root artifact) (\<lambda>_. Ok total')))) 0 (rp_artifacts pin)) (\<lambda>total.
         if total \<noteq> sum_list (map pa_bytes (rp_artifacts expected_pin))
         then Err ''bounded retrieval aggregate byte count mismatch''
         else
           and_then (read_regular_file view (path_push root MANIFEST_FILE)) (\<lambda>manifest_bytes.
           if sha256_hex env manifest_bytes \<noteq> RETRIEVAL_MANIFEST_SHA256 then Err ''retrieval manifest SHA-256 mismatch''
           else
             and_then (verify_manifest_bytes env manifest_bytes) (\<lambda>_.
             and_then (read_regular_file view (path_push root CONTRACT_FILE)) (\<lambda>contract_bytes.
             and_then (parse_producer_contract env contract_bytes) (\<lambda>_.
             and_then (read_regular_file view (path_push root FIXTURE_FILE)) (\<lambda>fixture_bytes.
             verify_fixture_bytes env fixture_bytes)))))))))))"

section \<open>Protocol metadata\<close>

definition schema_digest :: "contract_env \<Rightarrow> contract_node \<Rightarrow> string" where
  "schema_digest env node = sha256_hex env (json_to_vec env (contract_node_json node))"

record protocol_method =
  pm_name :: string
  pm_classification :: string
  pm_wal :: bool
  pm_semantic_bytes :: u64
  pm_semantic_digest :: string
  pm_request_schema_sha256 :: string
  pm_result_schema_sha256 :: string

record unavailable_protocol_method =
  um_name :: string
  um_availability :: string
  um_reason :: string
  um_semantic_bytes :: u64
  um_semantic_digest :: string
  um_request_schema_sha256 :: string
  um_result_schema_sha256 :: string

record bounded_checkpoint_info =
  ci_status :: string
  ci_availability :: string
  ci_executable :: bool
  ci_unavailable_methods :: "unavailable_protocol_method list"

record bounded_protocol_info =
  pi_protocol_version :: string
  pi_contract_version :: string
  pi_refinement_ir_version :: string
  pi_contract_sha256 :: string
  pi_manifest_sha256 :: string
  pi_source_repository :: string
  pi_source_branch :: string
  pi_source_commit :: string
  pi_classification :: string
  pi_wal :: bool
  pi_methods :: "protocol_method list"
  pi_checkpoint :: bounded_checkpoint_info
  pi_limits :: "(string \<times> u64) list"
  pi_method_inventory_sha256 :: string

definition protocol_methods :: "contract_env \<Rightarrow> protocol_method list contract_result" where
  "protocol_methods env = and_then (pinned_contract env) (\<lambda>_. Ok [])"

definition executable_protocol_method ::
  "contract_env \<Rightarrow> producer_contract \<Rightarrow> string \<Rightarrow> protocol_method contract_result" where
  "executable_protocol_method env contract method =
     and_then (ok_or (map_of (pc_operations contract) method) ''pinned operation inventory is incomplete'') (\<lambda>operation.
     and_then (ok_or (map_of expected_operation_digests method) ''pinned operation digest is missing'') (\<lambda>digest.
     Ok \<lparr>pm_name = method, pm_classification = ''read'', pm_wal = False, pm_semantic_bytes = od_bytes digest,
       pm_semantic_digest = od_sha256 digest, pm_request_schema_sha256 = schema_digest env (oc_request operation),
       pm_result_schema_sha256 = schema_digest env (oc_result operation)\<rparr>))"

definition executable_protocol_methods :: "contract_env \<Rightarrow> protocol_method list contract_result" where
  "executable_protocol_methods env =
     and_then (pinned_contract env) (\<lambda>contract. traverse (executable_protocol_method env contract) BOUNDED_OPERATIONS)"

definition unavailable_method :: "protocol_method \<Rightarrow> unavailable_protocol_method" where
  "unavailable_method m =
     \<lparr>um_name = pm_name m, um_availability = ''unavailable'', um_reason = ''descriptor_read_required'',
      um_semantic_bytes = pm_semantic_bytes m, um_semantic_digest = pm_semantic_digest m,
      um_request_schema_sha256 = pm_request_schema_sha256 m, um_result_schema_sha256 = pm_result_schema_sha256 m\<rparr>"

definition unavailable_protocol_methods :: "contract_env \<Rightarrow> unavailable_protocol_method list contract_result" where
  "unavailable_protocol_methods env =
     and_then (executable_protocol_methods env) (\<lambda>ms. Ok (map unavailable_method ms))"

definition inventory_line :: "protocol_method \<Rightarrow> string" where
  "inventory_line m =
     pm_name m @ [CHR 0x09] @ pm_classification m @ [CHR 0x09] @ (if pm_wal m then ''true'' else ''false'') @ [CHR 0x09] @
     pm_semantic_digest m @ [CHR 0x09] @ pm_request_schema_sha256 m @ [CHR 0x0A]"

definition method_inventory_lines :: "contract_env \<Rightarrow> string contract_result" where
  "method_inventory_lines env = and_then (protocol_methods env) (\<lambda>ms. Ok (concat (map inventory_line ms)))"

definition method_inventory_sha256 :: "contract_env \<Rightarrow> string contract_result" where
  "method_inventory_sha256 env = and_then (method_inventory_lines env) (\<lambda>lines. Ok (sha256_hex env lines))"

definition protocol_limits :: "(string \<times> u64) list" where
  "protocol_limits =
     [(''max_vector_dimensions'', MAX_VECTOR_DIMENSIONS), (''max_vector_comparisons'', MAX_VECTOR_COMPARISONS),
      (''max_search_slots'', MAX_SEARCH_SLOTS), (''max_facts_inspected'', MAX_FACTS_INSPECTED),
      (''max_graph_nodes'', MAX_GRAPH_NODES), (''max_graph_edges'', MAX_GRAPH_EDGES),
      (''max_graph_scan_units'', MAX_GRAPH_SCAN_UNITS), (''max_iterations'', MAX_ITERATIONS),
      (''max_search_result_limit'', MAX_SEARCH_RESULT_LIMIT), (''max_expansion_results'', MAX_EXPANSION_RESULTS),
      (''max_seeds'', MAX_SEEDS), (''max_returned_passages'', MAX_RETURNED_PASSAGES),
      (''max_returned_facts'', MAX_RETURNED_FACTS), (''max_combined_objects'', MAX_COMBINED_OBJECTS),
      (''max_input_frame_bytes'', MAX_INPUT_FRAME_BYTES), (''max_object_bytes'', MAX_OBJECT_BYTES),
      (''max_response_frame_bytes'', MAX_RESPONSE_FRAME_BYTES), (''max_transient_bytes'', MAX_TRANSIENT_BYTES),
      (''max_operation_deadline_ms'', MAX_OPERATION_DEADLINE_MS),
      (''deadline_check_interval_units'', DEADLINE_CHECK_INTERVAL_UNITS)]"

definition protocol_info :: "contract_env \<Rightarrow> bounded_protocol_info contract_result" where
  "protocol_info env =
     and_then (protocol_methods env) (\<lambda>ms.
     and_then (unavailable_protocol_methods env) (\<lambda>us.
     and_then (method_inventory_sha256 env) (\<lambda>inventory.
     Ok \<lparr>pi_protocol_version = ''aira-graphdb-bounded-retrieval@1'', pi_contract_version = CONTRACT_VERSION,
       pi_refinement_ir_version = REFINEMENT_IR_VERSION, pi_contract_sha256 = CONTRACT_SHA256,
       pi_manifest_sha256 = RETRIEVAL_MANIFEST_SHA256, pi_source_repository = SOURCE_REPOSITORY,
       pi_source_branch = SOURCE_BRANCH, pi_source_commit = SOURCE_COMMIT, pi_classification = ''read'', pi_wal = False,
       pi_methods = ms,
       pi_checkpoint = \<lparr>ci_status = ''checkpoint'', ci_availability = ''unavailable'', ci_executable = False,
         ci_unavailable_methods = us\<rparr>,
       pi_limits = protocol_limits, pi_method_inventory_sha256 = inventory\<rparr>)))"

definition executable_protocol_info :: "contract_env \<Rightarrow> bounded_protocol_info contract_result" where
  "executable_protocol_info env =
     and_then (protocol_info env) (\<lambda>info.
     and_then (executable_protocol_methods env) (\<lambda>ms.
     Ok (info\<lparr>pi_methods := ms,
       pi_checkpoint := \<lparr>ci_status = ''ready'', ci_availability = ''available'', ci_executable = True,
         ci_unavailable_methods = []\<rparr>,
       pi_method_inventory_sha256 := sha256_hex env (concat (map inventory_line ms))\<rparr>)))"

end
