(* ===== verification/Contract_Schema_Correct.thy ===== *)
theory Contract_Schema_Correct
  imports Contract_Schema
begin

text \<open>
  What a schema accepts: conformance as an inductive relation, which validation decides once the
  references of the domain contract are ordered; and the schemas the parser reads, exactly the
  renderings of well-formed nodes.
\<close>

section \<open>Conformance\<close>

inductive conforms :: "domain \<Rightarrow> contract_node \<Rightarrow> json \<Rightarrow> bool" for domain where
  string: "conforms domain NString (JString s)"
| number: "finite_number v \<Longrightarrow> conforms domain NNumber v"
| boolean: "conforms domain NBoolean (JBool b)"
| literal: "w \<in> set ws \<Longrightarrow> json_eq w v \<Longrightarrow> conforms domain (NLiteral ws) v"
| array: "(\<And>v. v \<in> set vs \<Longrightarrow> conforms domain item v) \<Longrightarrow> conforms domain (NArray item) (JArray vs)"
| tuple: "list_all2 (conforms domain) items vs \<Longrightarrow> conforms domain (NTuple items) (JArray vs)"
| optional: "v \<noteq> JNull \<Longrightarrow> conforms domain item v \<Longrightarrow> conforms domain (NOptional item) v"
| obj: "fst ` set m \<subseteq> fst ` set fs \<Longrightarrow>
    (\<And>k n. (k, n) \<in> set fs \<Longrightarrow>
       (\<exists>v. map_of m k = Some v \<and> conforms domain n v) \<or> (map_of m k = None \<and> is_optional n)) \<Longrightarrow>
    conforms domain (NObject fs) (JObject m)"
| ref: "map_of domain k = Some n \<Longrightarrow> conforms domain n v \<Longrightarrow> conforms domain (NExternalRef DOMAIN_DEPENDENCY k) v"

inductive_cases conforms_cases:
  "conforms domain NString v" "conforms domain NNumber v" "conforms domain NBoolean v"
  "conforms domain (NLiteral ws) v" "conforms domain (NArray n) v" "conforms domain (NTuple ns) v"
  "conforms domain (NOptional n) v" "conforms domain (NObject fs) v" "conforms domain (NExternalRef d k) v"

inductive_simps conforms_simps:
  "conforms domain NString v" "conforms domain NNumber v" "conforms domain NBoolean v"
  "conforms domain (NLiteral ws) v" "conforms domain (NArray n) v" "conforms domain (NTuple ns) v"
  "conforms domain (NOptional n) v" "conforms domain (NObject fs) v" "conforms domain (NExternalRef d k) v"

lemma each_zip_Ok:
  "length vs = length items \<Longrightarrow> each f i (zip items vs) = Ok () \<Longrightarrow>
     (\<And>k p. p \<in> set (zip items vs) \<Longrightarrow> f k p = Ok () \<Longrightarrow> P (fst p) (snd p)) \<Longrightarrow> list_all2 P items vs"
  by (fastforce simp: list_all2_iff dest: each_OkD)

lemma is_json_string_iff: "is_json_string v \<longleftrightarrow> (\<exists>s. v = JString s)"
  by (cases v) (auto simp: is_json_string_def json_str_def)

lemma as_bool_iff: "as_bool v = Some b \<longleftrightarrow> v = JBool b"
  by (cases v) (auto simp: as_bool_def)

lemma validate_schema_sound: "validate_schema depth n v domain path = Ok () \<Longrightarrow> conforms domain n v"
proof (induction depth n v domain path rule: validate_schema.induct)
  case (5 depth item v domain path)
  then show ?case by (fastforce intro: conforms.array dest: each_OkD)
next
  case (6 depth items v domain path)
  then obtain vs where vs: "v = JArray vs" "length vs = length items"
    "each (\<lambda>index p. validate_schema depth (fst p) (snd p) domain (path @ ''['' @ show_nat index @ '']'')) 0 (zip items vs) = Ok ()"
    by (auto split: if_splits)
  have "list_all2 (conforms domain) items vs"
    by (rule each_zip_Ok [OF vs(2,3)]) (use 6(1) vs in auto)
  with vs(1) show ?case by (simp add: conforms.tuple)
next
  case (8 depth fs v domain path)
  then obtain m where m: "v = JObject m" "fst ` set m \<subseteq> fst ` set fs"
    "each (\<lambda>_ p. (case map_of m (fst p) of
               Some w \<Rightarrow> validate_schema depth (snd p) w domain (path @ ''.'' @ fst p)
             | None \<Rightarrow> if is_optional (snd p) then Ok () else Err (path @ ''.'' @ fst p @ '' is missing''))) 0 fs = Ok ()"
    by (auto simp: list_ex_iff image_subset_iff split: if_splits)
  have "(\<exists>w. map_of m k = Some w \<and> conforms domain n w) \<or> (map_of m k = None \<and> is_optional n)"
    if "(k, n) \<in> set fs" for k n
    using each_OkD [OF m(3) that] 8(1) [of m "(k, n)"] m(1,2) that
    by (auto simp: list_ex_iff image_subset_iff split: option.splits if_splits)
  then show ?case unfolding m(1) by (rule conforms.obj [OF m(2)])
next
  case (9 depth d k v domain path)
  then show ?case by (cases depth) (auto intro: conforms.ref split: if_splits)
qed (auto simp: is_json_string_iff as_bool_iff list_ex_iff split: if_splits intro: conforms.intros)

text \<open>A larger stack changes no result: only an overflow can turn into an answer.\<close>

lemma each_mono:
  assumes "each f i xs \<noteq> Panic" "\<And>k x. x \<in> set xs \<Longrightarrow> f k x \<noteq> Panic \<Longrightarrow> g k x = f k x"
  shows "each g i xs = each f i xs"
  using assms
proof (induction xs arbitrary: i)
  case (Cons x xs)
  then have "g i x = f i x" by (auto simp: and_then_eq_Panic)
  with Cons show ?case by (cases "f i x") auto
qed simp

lemma validate_schema_mono:
  "validate_schema depth n v domain path \<noteq> Panic \<Longrightarrow> depth \<le> depth' \<Longrightarrow>
     validate_schema depth' n v domain path = validate_schema depth n v domain path"
proof (induction depth n v domain path arbitrary: depth' rule: validate_schema.induct)
  case (5 depth item v domain path)
  show ?case
  proof (cases "as_array v")
    case (Some vs)
    have IH: "w \<in> set vs \<Longrightarrow> validate_schema depth item w domain (path @ ''['' @ show_nat k @ '']'') \<noteq> Panic \<Longrightarrow>
        validate_schema depth' item w domain (path @ ''['' @ show_nat k @ '']'') =
        validate_schema depth item w domain (path @ ''['' @ show_nat k @ '']'')" for k w
      by (rule 5(1) [of vs]) (use Some 5(3) in simp_all)
    from 5(2) Some show ?thesis
      by (simp only: validate_schema.simps ok_or_simps and_then_simps) (rule each_mono, assumption, rule IH)
  qed simp
next
  case (6 depth items v domain path)
  show ?case
  proof (cases "as_array v")
    case (Some vs)
    show ?thesis
    proof (cases "length vs = length items")
      case True
      have IH: "p \<in> set (zip items vs) \<Longrightarrow>
          validate_schema depth (fst p) (snd p) domain (path @ ''['' @ show_nat k @ '']'') \<noteq> Panic \<Longrightarrow>
          validate_schema depth' (fst p) (snd p) domain (path @ ''['' @ show_nat k @ '']'') =
          validate_schema depth (fst p) (snd p) domain (path @ ''['' @ show_nat k @ '']'')" for k p
        by (rule 6(1) [of vs]) (use Some True 6(3) in simp_all)
      from 6(2) Some True show ?thesis
        by (simp only: validate_schema.simps ok_or_simps and_then_simps if_False not_True_eq_False simp_thms)
          (rule each_mono, assumption, rule IH)
    qed (use Some in simp)
  qed simp
next
  case (7 depth item v domain path)
  show ?case
  proof (cases "v = JNull")
    case False
    have "validate_schema depth' item v domain path = validate_schema depth item v domain path"
      by (rule 7(1)) (use False 7(2,3) in simp_all)
    with False show ?thesis by simp
  qed simp
next
  case (8 depth fs v domain path)
  show ?case
  proof (cases "object v path")
    case (Ok m)
    have step: "(case map_of m (fst p) of
            Some w \<Rightarrow> validate_schema depth' (snd p) w domain (path @ ''.'' @ fst p)
          | None \<Rightarrow> if is_optional (snd p) then Ok () else Err (path @ ''.'' @ fst p @ '' is missing'')) =
        (case map_of m (fst p) of
            Some w \<Rightarrow> validate_schema depth (snd p) w domain (path @ ''.'' @ fst p)
          | None \<Rightarrow> if is_optional (snd p) then Ok () else Err (path @ ''.'' @ fst p @ '' is missing''))"
      if "\<not> list_ex (\<lambda>field. field \<notin> set (map fst fs)) (map fst m)" "p \<in> set fs"
        "(case map_of m (fst p) of
            Some w \<Rightarrow> validate_schema depth (snd p) w domain (path @ ''.'' @ fst p)
          | None \<Rightarrow> if is_optional (snd p) then Ok () else Err (path @ ''.'' @ fst p @ '' is missing'')) \<noteq> Panic" for p
      using 8(1) [OF Ok that(1,2) _ _ \<open>depth \<le> depth'\<close>] that(3) by (cases "map_of m (fst p)") auto
    show ?thesis
    proof (cases "list_ex (\<lambda>field. field \<notin> set (map fst fs)) (map fst m)")
      case False
      from 8(2) Ok False show ?thesis
        by (simp only: validate_schema.simps and_then_simps if_False) (rule each_mono, assumption, rule step [OF False])
    qed (use Ok in simp)
  qed simp_all
next
  case (9 depth d k v domain path)
  show ?case
  proof (cases "d = DOMAIN_DEPENDENCY \<and> map_of domain k \<noteq> None")
    case True
    then obtain n where n: "map_of domain k = Some n" by blast
    with True 9(2) obtain e where e: "depth = Suc e" by (cases depth) auto
    with 9(3) obtain e' where e': "depth' = Suc e'" "e \<le> e'" by (cases depth') auto
    have "validate_schema e' n v domain path = validate_schema e n v domain path"
      by (rule 9(1)) (use True n e e' 9(2) in simp_all)
    with True n e e' show ?thesis by simp
  qed auto
qed simp_all

text \<open>
  The references of a node, and a ranking of the domain's contracts in which each refers to lower
  ones only. A stack that holds as many references as the highest rank is never exhausted.
\<close>

fun node_refs :: "contract_node \<Rightarrow> string set" where
  "node_refs (NExternalRef d k) = {k}"
| "node_refs (NArray n) = node_refs n"
| "node_refs (NOptional n) = node_refs n"
| "node_refs (NTuple ns) = (\<Union>n \<in> set ns. node_refs n)"
| "node_refs (NObject fs) = (\<Union>p \<in> set fs. node_refs (snd p))"
| "node_refs _ = {}"

definition ranked_domain :: "(string \<Rightarrow> nat) \<Rightarrow> domain \<Rightarrow> bool" where
  "ranked_domain rank domain \<longleftrightarrow> (\<forall>(k, n) \<in> set domain. \<forall>r \<in> node_refs n. rank r < rank k)"

lemma validate_schema_no_overflow:
  "ranked_domain rank domain \<Longrightarrow> \<forall>r \<in> node_refs n. rank r < depth \<Longrightarrow> validate_schema depth n v domain path \<noteq> Panic"
proof (induction depth n v domain path rule: validate_schema.induct)
  case (6 depth items v domain path)
  have IH: "validate_schema depth (fst p) (snd p) domain (path @ ''['' @ show_nat k @ '']'') \<noteq> Panic"
    if "as_array v = Some vs" "length vs = length items" "p \<in> set (zip items vs)" for vs k p
  proof (rule 6(1))
    have "fst p \<in> set items" using set_zip_leftD [of "fst p" "snd p"] that(3) by simp
    then show "\<forall>r \<in> node_refs (fst p). rank r < depth" using 6(3) by auto
  qed (use that 6(2) in simp_all)
  then show ?case by (auto simp: and_then_eq_Panic intro!: each_not_Panic)
next
  case (8 depth fs v domain path)
  have IH: "validate_schema depth (snd p) w domain (path @ ''.'' @ fst p) \<noteq> Panic"
    if "v = JObject m" "\<not> list_ex (\<lambda>field. field \<notin> set (map fst fs)) (map fst m)" "p \<in> set fs" "map_of m (fst p) = Some w" for m p w
    by (rule 8(1)) (use that 8(2,3) in auto)
  then show ?case
    by (auto simp: and_then_eq_Panic simp del: set_map intro!: each_not_Panic split: option.splits if_splits)
next
  case (9 depth d k v domain path)
  then obtain d' where d': "depth = Suc d'" by (cases depth) auto
  have "\<forall>r \<in> node_refs n. rank r < d'" if "map_of domain k = Some n" for n
    using 9(2,3) map_of_SomeD [OF that] unfolding ranked_domain_def d' by fastforce
  with 9 d' show ?case by (auto simp: and_then_eq_Panic)
qed (auto simp: and_then_eq_Panic intro!: each_not_Panic)

lemma each_all_Ok:
  "each f i xs \<noteq> Panic \<Longrightarrow> (\<And>k x. x \<in> set xs \<Longrightarrow> f k x \<noteq> Panic \<Longrightarrow> f k x = Ok ()) \<Longrightarrow> each f i xs = Ok ()"
proof (induction xs arbitrary: i)
  case (Cons x xs)
  then have "f i x = Ok ()" by (auto simp: and_then_eq_Panic)
  with Cons show ?case by auto
qed simp

lemma validate_schema_complete:
  "conforms domain n v \<Longrightarrow> validate_schema depth n v domain path \<noteq> Panic \<Longrightarrow>
     validate_schema depth n v domain path = Ok ()"
proof (induction n v arbitrary: depth path rule: conforms.induct)
  case (array vs item)
  then show ?case by (auto intro!: each_all_Ok)
next
  case (tuple items vs)
  then have len: "length vs = length items" by (auto dest: list_all2_lengthD)
  have "conforms domain (fst p) (snd p) \<and> (\<forall>depth path. validate_schema depth (fst p) (snd p) domain path \<noteq> Panic \<longrightarrow>
      validate_schema depth (fst p) (snd p) domain path = Ok ())" if "p \<in> set (zip items vs)" for p
    using tuple(1) that by (auto simp: list_all2_iff)
  with tuple(2) len show ?case by (auto intro!: each_all_Ok)
next
  case (obj m fs)
  have known: "\<not> list_ex (\<lambda>field. field \<notin> set (map fst fs)) (map fst m)"
    using obj(1) by (auto simp: list_ex_iff)
  have "(case map_of m (fst p) of
        Some w \<Rightarrow> validate_schema depth (snd p) w domain (path @ ''.'' @ fst p)
      | None \<Rightarrow> if is_optional (snd p) then Ok () else Err (path @ ''.'' @ fst p @ '' is missing'')) = Ok ()"
    if "p \<in> set fs" "(case map_of m (fst p) of
        Some w \<Rightarrow> validate_schema depth (snd p) w domain (path @ ''.'' @ fst p)
      | None \<Rightarrow> if is_optional (snd p) then Ok () else Err (path @ ''.'' @ fst p @ '' is missing'')) \<noteq> Panic" for p
    using obj(2) [of "fst p" "snd p"] that by auto
  with obj(3) known show ?case
    by (simp only: validate_schema.simps object_simps and_then_simps if_False) (rule each_all_Ok)
next
  case (ref k n v)
  then show ?case by (cases depth) auto
qed (auto simp: is_json_string_def as_bool_def list_ex_iff)

text \<open>C16: With enough stack for the references of a ranked domain, validation always ends, and it accepts
  exactly the values that conform to the node.\<close>
theorem schema_validation_decides_conformance:
  assumes "ranked_domain rank domain" "\<forall>r \<in> node_refs n. rank r < depth"
  shows "validate_schema depth n v domain path \<noteq> Panic \<and>
    (validate_schema depth n v domain path = Ok () \<longleftrightarrow> conforms domain n v)"
  using validate_schema_no_overflow [OF assms] validate_schema_sound validate_schema_complete by blast

section \<open>The schemas the parser reads\<close>

text \<open>Literals are nonempty lists of scalars and tuples are nonempty.\<close>

fun wf_node :: "contract_node \<Rightarrow> bool" where
  "wf_node (NLiteral vs) = (vs \<noteq> [] \<and> list_all is_json_scalar vs)"
| "wf_node (NArray n) = wf_node n"
| "wf_node (NOptional n) = wf_node n"
| "wf_node (NTuple ns) = (ns \<noteq> [] \<and> list_all wf_node ns)"
| "wf_node (NObject fs) = list_all (\<lambda>p. wf_node (snd p)) fs"
| "wf_node _ = True"

lemma traverse_from_map:
  "(\<And>k x. x \<in> set xs \<Longrightarrow> f k (g x) = Ok x) \<Longrightarrow> traverse_from f i (map g xs) = Ok xs"
  by (induction xs arbitrary: i) auto

lemma traverse_map_Ok: "(\<And>x. x \<in> set xs \<Longrightarrow> f (g x) = Ok x) \<Longrightarrow> traverse f (map g xs) = Ok xs"
  by (induction xs) auto

lemma parse_rendered_node: "wf_node n \<Longrightarrow> parse_contract_node (contract_node_json n) label = Ok n"
proof (induction n arbitrary: label)
  case (NLiteral vs)
  then show ?case
    by (subst parse_contract_node.simps) (auto simp: str_field_def list_ex_iff list_all_iff)
next
  case (NTuple ns)
  then show ?case
    by (subst parse_contract_node.simps)
      (auto simp: str_field_def list_all_iff intro!: traverse_from_map)
next
  case (NObject fs)
  have "traverse (\<lambda>p. and_then (parse_contract_node (snd p) (label @ ''.'' @ fst p)) (\<lambda>n. Ok (fst p, n)))
      (map (\<lambda>p. (fst p, contract_node_json (snd p))) fs) = Ok fs"
    using NObject by (intro traverse_map_Ok) (auto simp: list_all_iff snds.simps)
  then show ?case by (subst parse_contract_node.simps) (auto simp: str_field_def)
qed (subst parse_contract_node.simps, auto simp: str_field_def)+

text \<open>The entries of an ordered object are known from its keys.\<close>

lemma ordered_entries:
  assumes "sorted_wrt (<) (map fst m)" "fst ` set m = set ks" "sorted_wrt (<) ks"
  shows "m = map (\<lambda>k. (k, the (map_of m k))) (ks :: string list)"
proof -
  have d: "distinct (map fst m)" "distinct ks" using assms(1,3) by (simp_all add: strict_sorted_iff)
  then have ks: "map fst m = ks"
    using assms by (intro sorted_distinct_set_unique) (auto simp: strict_sorted_iff)
  have "map (\<lambda>k. (k, the (map_of m k))) (map fst m) = m"
    using d(1) by (auto intro!: map_idI)
  then show ?thesis by (simp add: ks)
qed

lemma key_order:
  "sorted_wrt (<) [''kind'', ''values'']" "sorted_wrt (<) [''items'', ''kind'']" "sorted_wrt (<) [''kind'', ''value'']"
  "sorted_wrt (<) [''fields'', ''kind'']" "sorted_wrt (<) [''dependency'', ''kind'', ''referenceKind'']"
  "sorted_wrt (<) [''kind'']"
  by code_simp+

lemma traverse_entries:
  "traverse (\<lambda>p. and_then (f p) (\<lambda>n. Ok (fst p, n))) ps = Ok ks \<Longrightarrow>
     (\<And>p n. p \<in> set ps \<Longrightarrow> f p = Ok n \<Longrightarrow> snd p = g n \<and> P n) \<Longrightarrow>
     ps = map (\<lambda>q. (fst q, g (snd q))) ks \<and> list_all (\<lambda>q. P (snd q)) ks"
proof (induction ps arbitrary: ks)
  case (Cons p ps)
  then obtain n ks' where n: "f p = Ok n" "ks = (fst p, n) # ks'"
    "traverse (\<lambda>p. and_then (f p) (\<lambda>n. Ok (fst p, n))) ps = Ok ks'" by auto
  from Cons.prems(2) [OF _ n(1)] Cons.IH [OF n(3)] Cons.prems(2) n(2) show ?case by (cases p) auto
qed simp

lemma parse_contract_node_Ok:
  "json_wf v \<Longrightarrow> parse_contract_node v label = Ok n \<Longrightarrow> v = contract_node_json n \<and> wf_node n"
proof (induction "size v" arbitrary: v label n rule: less_induct)
  case less
  note parsed = less.prems(2) [unfolded parse_contract_node.simps [of v]]
  from parsed obtain m kind where v: "v = JObject m" and kind: "map_of m ''kind'' = Some (JString kind)"
    by (auto simp: str_field_def bind_eq_Some_conv)
  from less.prems(1) have wf: "sorted_wrt (<) (map fst m)" "\<And>p. p \<in> set m \<Longrightarrow> json_wf (snd p)"
    by (auto simp: v list_all_iff)
  note entries = ordered_entries [OF wf(1)]
  have IH: "w = contract_node_json k \<and> wf_node k" if "parse_contract_node w l = Ok k" "json_wf w" "size w < size v" for w l k
    using less.hyps [OF that(3,2,1)] .
  have part: "json_wf w \<and> size w < size v" if "map_of m k = Some w" for k w
    using wf(2) [OF map_of_SomeD [OF that]] size_map_of [OF that] by (simp add: v)
  consider "kind \<in> {''string'', ''number'', ''boolean''}" | "kind = ''literal''" | "kind = ''array''" | "kind = ''tuple''"
    | "kind = ''optional''" | "kind = ''object''" | "kind = ''externalRef''"
    using parsed kind by (auto simp: v str_field_def split: if_splits)
  then show ?case
  proof cases
    case 1
    with parsed kind have keys: "fst ` set m = {''kind''}"
      and n: "contract_node_json n = JObject [(''kind'', JString kind)]" "wf_node n"
      by (elim insertE; simp add: v str_field_def; blast)+
    with entries [of "[''kind'']"] key_order(6) kind show ?thesis by (simp add: v)
  next
    case 2
    with parsed kind obtain vs where vs: "fst ` set m = set [''kind'', ''values'']" "map_of m ''values'' = Some (JArray vs)"
      "n = NLiteral vs" "wf_node n" by (auto simp: v str_field_def bind_eq_Some_conv list_ex_iff list_all_iff split: if_splits)
    with 2 entries [OF vs(1) key_order(1)] kind show ?thesis by (simp add: v)
  next
    case 3
    with parsed kind obtain w k where w: "fst ` set m = set [''items'', ''kind'']" "map_of m ''items'' = Some w"
      "parse_contract_node w (label @ ''.items'') = Ok k" "n = NArray k" by (auto simp: v str_field_def)
    with 3 entries [OF w(1) key_order(2)] kind IH [OF w(3)] part [OF w(2)] show ?thesis by (simp add: v)
  next
    case 4
    with parsed kind obtain ws ks where w: "fst ` set m = set [''items'', ''kind'']" "map_of m ''items'' = Some (JArray ws)"
      "traverse_from (\<lambda>index item. parse_contract_node item (label @ ''.items['' @ show_nat index @ '']'')) 0 ws = Ok ks"
      "n = NTuple ks" "ws \<noteq> []" by (auto simp: v str_field_def bind_eq_Some_conv split: if_splits)
    have "ws ! i = contract_node_json (ks ! i) \<and> wf_node (ks ! i)" if "i < length ws" for i
      using w(3) that part [OF w(2)] size_elem [of "ws ! i" ws]
      by (intro IH) (auto simp: traverse_from_Ok list_all_iff)
    then have "ws = map contract_node_json ks" "list_all wf_node ks" "ks \<noteq> []"
      using w(3,5) by (auto simp: traverse_from_Ok list_all_length intro: nth_equalityI)
    with 4 w(4) entries [OF w(1) key_order(2)] kind w(2) show ?thesis by (simp add: v)
  next
    case 5
    with parsed kind obtain w k where w: "fst ` set m = set [''kind'', ''value'']" "map_of m ''value'' = Some w"
      "parse_contract_node w (label @ ''.value'') = Ok k" "n = NOptional k" by (auto simp: v str_field_def)
    with 5 entries [OF w(1) key_order(3)] kind IH [OF w(3)] part [OF w(2)] show ?thesis by (simp add: v)
  next
    case 6
    with parsed kind obtain ps ks where w: "fst ` set m = set [''fields'', ''kind'']" "map_of m ''fields'' = Some (JObject ps)"
      "traverse (\<lambda>p. and_then (parse_contract_node (snd p) (label @ ''.'' @ fst p)) (\<lambda>n. Ok (fst p, n))) ps = Ok ks"
      "n = NObject ks" by (auto simp: v str_field_def)
    have "snd p = contract_node_json k \<and> wf_node k" if "p \<in> set ps" "parse_contract_node (snd p) l = Ok k" for p l k
      using that part [OF w(2)] size_entry [OF that(1)] by (intro IH) (auto simp: list_all_iff)
    from traverse_entries [OF w(3) this]
    have "ps = map (\<lambda>p. (fst p, contract_node_json (snd p))) ks \<and> list_all (\<lambda>p. wf_node (snd p)) ks" .
    with 6 w(4) entries [OF w(1) key_order(4)] kind w(2) show ?thesis by (simp add: v)
  next
    case 7
    with parsed kind obtain d k where w: "fst ` set m = set [''dependency'', ''kind'', ''referenceKind'']"
      "map_of m ''dependency'' = Some (JString d)" "map_of m ''referenceKind'' = Some (JString k)" "n = NExternalRef d k"
      by (auto simp: v str_field_def bind_eq_Some_conv)
    with 7 entries [OF w(1) key_order(5)] kind show ?thesis by (simp add: v)
  qed
qed

text \<open>C36: The schema parser reads exactly the renderings of well-formed nodes: each is read back as its
  node, and every value read is one.\<close>
theorem schema_parse_roundtrip:
  assumes "json_wf v"
  shows "parse_contract_node v label = Ok n \<longleftrightarrow> v = contract_node_json n \<and> wf_node n"
  using parse_contract_node_Ok [OF assms] parse_rendered_node by blast

text \<open>Reading a schema never panics: the fields it takes for granted are there.\<close>

lemma map_of_key: "k \<in> fst ` set m \<Longrightarrow> map_of m k \<noteq> None"
  by (auto simp: map_of_eq_None_iff)

lemma parse_contract_node_not_Panic: "parse_contract_node v label \<noteq> Panic"
proof (induction "size v" arbitrary: v label rule: less_induct)
  case less
  have kept: "fst ` set m = set ks \<Longrightarrow> k \<in> set ks \<Longrightarrow> map_of m k \<noteq> None" for m ks k
    using map_of_key [of k m] by simp
  show ?case
  proof
    assume panic: "parse_contract_node v label = Panic"
    then obtain m kind where m: "v = JObject m" "str_field m ''kind'' = Some kind"
      by (subst (asm) parse_contract_node.simps) (auto simp: and_then_eq_Panic)
    note panic = panic [unfolded m(1) parse_contract_node.simps [of "JObject m"] object_simps and_then_simps m(2) ok_or_simps]
    have IH: "parse_contract_node w l \<noteq> Panic" if "map_of m k = Some w" for k w l
      using less.hyps size_map_of [OF that] by (simp add: m(1))
    have IHa: "parse_contract_node x l \<noteq> Panic" if "map_of m k = Some (JArray ws)" "x \<in> set ws" for k ws x l
      using less.hyps size_map_of [OF that(1)] size_elem [OF that(2)] by (simp add: m(1))
    have IHo: "parse_contract_node (snd p) l \<noteq> Panic" if "map_of m k = Some (JObject ps)" "p \<in> set ps" for k ps p l
      using less.hyps size_map_of [OF that(1)] size_entry [OF that(2)] by (simp add: m(1))
    consider "kind = ''array''" | "kind = ''tuple''" | "kind = ''optional''" | "kind = ''object''"
      using panic by (auto simp: and_then_eq_Panic split: if_splits)
    then show False
    proof cases
      case 1
      with panic kept [of m "[''kind'', ''items'']" "''items''"] IH show ?thesis by (auto simp: and_then_eq_Panic)
    next
      case 2
      with panic obtain ws where ws: "map_of m ''items'' = Some (JArray ws)"
        "traverse_from (\<lambda>index item. parse_contract_node item (label @ ''.items['' @ show_nat index @ '']'')) 0 ws = Panic"
        by (auto simp: and_then_eq_Panic bind_eq_Some_conv split: if_splits)
      then show ?thesis by (simp add: traverse_from_not_Panic IHa [OF ws(1)])
    next
      case 3
      with panic kept [of m "[''kind'', ''value'']" "''value''"] IH show ?thesis by (auto simp: and_then_eq_Panic)
    next
      case 4
      with panic have "fst ` set m = {''kind'', ''fields''}" by (cases "exact_keys m [''kind'', ''fields''] label") simp_all
      then obtain fv where fv: "map_of m ''fields'' = Some fv" using map_of_key [of "''fields''" m] by auto
      with 4 panic obtain ps where "fv = JObject ps"
        "traverse (\<lambda>p. and_then (parse_contract_node (snd p) (label @ ''.'' @ fst p)) (\<lambda>n. Ok (fst p, n))) ps = Panic"
        by (simp add: and_then_eq_Panic) blast
      note ps = fv [unfolded this(1)] this(2)
      show ?thesis using ps(2) by (simp add: traverse_not_Panic and_then_eq_Panic IHo [OF ps(1)])
    qed
  qed
qed

end
