(* ===== verification/Json_Pointer_Correct.thy ===== *)
theory Json_Pointer_Correct
  imports Json_Pointer
begin

text \<open>
  The accepted pointers are exactly the renderings of segment lists; a validated pointer never panics
  when it is followed; and the value a patch puts at a pointer is the value the pointer then names.
\<close>

section \<open>Rendering\<close>

definition escape_char :: "char \<Rightarrow> string" where
  "escape_char c = (if c = CHR ''~'' then ''~0'' else if c = CHR ''/'' then ''~1'' else [c])"

definition escape_segment :: "string \<Rightarrow> string" where
  "escape_segment s = concat (map escape_char s)"

definition pointer_of :: "string list \<Rightarrow> string" where
  "pointer_of segments = concat (map (\<lambda>s. CHR ''/'' # escape_segment s) segments)"

lemma escape_segment_simps [simp]:
  "escape_segment [] = []" "escape_segment (c # s) = escape_char c @ escape_segment s"
  by (simp_all add: escape_segment_def)

lemma decode_escape [simp]: "json_pointer_segment (escape_segment s) = Ok s"
  by (induction s) (auto simp: escape_char_def)

lemma no_slash_escape [simp]: "CHR ''/'' \<notin> set (escape_segment s)"
  by (induction s) (auto simp: escape_char_def)

lemma escape_decode:
  "json_pointer_segment r = Ok s \<Longrightarrow> CHR ''/'' \<notin> set r \<Longrightarrow> r = escape_segment s"
proof (induction r arbitrary: s rule: json_pointer_segment.induct)
  case (2 c r)
  show ?case
  proof (cases "c = CHR ''~''")
    case True
    with 2(4) obtain d r' where r: "r = d # r'" by (cases r) auto
    with True 2(4) obtain t where "d = CHR ''0'' \<and> s = CHR ''~'' # t \<or> d = CHR ''1'' \<and> s = CHR ''/'' # t"
      "json_pointer_segment r' = Ok t" by (auto split: if_splits)
    with True r 2(1,2) [OF True r] 2(5) show ?thesis by (auto simp: escape_char_def)
  next
    case False
    with 2(3) [OF False] 2(4,5) show ?thesis by (auto simp: escape_char_def)
  qed
qed simp

lemma decode_segments:
  "traverse json_pointer_segment rs = Ok ss \<Longrightarrow> \<forall>r \<in> set rs. CHR ''/'' \<notin> set r \<Longrightarrow> rs = map escape_segment ss"
  by (induction rs arbitrary: ss) (auto dest: escape_decode)

lemma traverse_total: "\<forall>x \<in> set xs. \<exists>y. f x = Ok y \<Longrightarrow> \<exists>ys. traverse f xs = Ok ys"
  by (induction xs) fastforce+

lemma json_pointer_segment_not_Panic [simp]: "json_pointer_segment r \<noteq> Panic"
  by (induction r rule: json_pointer_segment.induct) (auto simp: and_then_eq_Panic split: list.splits)

lemma valid_escapes_iff: "valid_escapes r \<longleftrightarrow> (\<exists>s. json_pointer_segment r = Ok s)"
  by (induction r rule: valid_escapes.induct) (auto split: list.splits)

lemma split_char_no_sep: "x \<in> set (split_char c s) \<Longrightarrow> c \<notin> set x"
  by (induction s arbitrary: x) (auto split: if_splits list.splits)

lemma split_char_not_Nil [simp]: "split_char c s \<noteq> []"
  by (induction s) (auto split: list.splits)

lemma split_char_join: "concat (map ((#) c) (split_char c s)) = c # s"
  by (induction s) (auto split: list.splits)

lemma split_pointer_of: "split_char CHR ''/'' (tl (pointer_of (s # ss))) = map escape_segment (s # ss)"
proof (induction ss arbitrary: s)
  case Nil
  show ?case by (simp add: pointer_of_def split_char_none)
next
  case (Cons t ss)
  have "tl (pointer_of (s # t # ss)) = escape_segment s @ CHR ''/'' # tl (pointer_of (t # ss))"
    by (simp add: pointer_of_def)
  then show ?case using Cons by (simp add: split_char_first)
qed

lemma validate_pointer_of: "validate_json_pointer (pointer_of segments) label = Ok ()"
proof (cases segments)
  case (Cons s ss)
  have valid: "valid_escapes (escape_segment t)" for t by (simp add: valid_escapes_iff)
  have start: "pointer_of segments = CHR ''/'' # tl (pointer_of segments)" by (simp add: Cons pointer_of_def)
  show ?thesis
    unfolding validate_json_pointer_def Cons split_pointer_of
    by (subst start [unfolded Cons]) (auto simp: each_Ok valid pointer_of_def simp del: split_char.simps)
qed (simp add: pointer_of_def validate_json_pointer_def)

lemma validated_pointer:
  assumes "validate_json_pointer path label = Ok ()"
  obtains segments where "path = pointer_of segments"
proof (cases path)
  case Nil
  then show ?thesis using that [of "[]"] by (simp add: pointer_of_def)
next
  case (Cons c rest)
  with assms have c: "c = CHR ''/''" and ok: "\<forall>r \<in> set (split_char CHR ''/'' rest). valid_escapes r"
    by (auto simp: validate_json_pointer_def each_Ok_iff [where P = valid_escapes] split: if_splits)
  obtain segments where "traverse json_pointer_segment (split_char CHR ''/'' rest) = Ok segments"
    using traverse_total ok by (metis valid_escapes_iff)
  then have "split_char CHR ''/'' rest = map escape_segment segments"
    by (rule decode_segments) (auto dest: split_char_no_sep)
  then have "pointer_of segments = path"
    using split_char_join [of "CHR ''/''" rest] Cons c by (simp add: pointer_of_def comp_def map_map [symmetric])
  with that show ?thesis by metis
qed

text \<open>The pointers accepted are exactly the renderings of lists of segments, \<^verbatim>\<open>~\<close> and \<^verbatim>\<open>/\<close> escaped,
  and splitting and decoding a rendering gives the segments back.\<close>
theorem json_pointer_roundtrip:
  "(validate_json_pointer path label = Ok () \<longleftrightarrow> (\<exists>segments. path = pointer_of segments)) \<and>
   traverse json_pointer_segment (split_char CHR ''/'' (tl (pointer_of (s # ss)))) = Ok (s # ss)"
proof
  show "validate_json_pointer path label = Ok () \<longleftrightarrow> (\<exists>segments. path = pointer_of segments)"
    by (metis validate_pointer_of validated_pointer)
  have "traverse json_pointer_segment (map escape_segment ts) = Ok ts" for ts by (induction ts) auto
  then show "traverse json_pointer_segment (split_char CHR ''/'' (tl (pointer_of (s # ss)))) = Ok (s # ss)"
    by (simp only: split_pointer_of)
qed

section \<open>Following a pointer\<close>

definition wildcard_free :: "string list \<Rightarrow> bool" where
  "wildcard_free segments \<longleftrightarrow> ''*'' \<notin> set segments"

lemma escape_star [simp]: "escape_segment s = ''*'' \<longleftrightarrow> s = ''*''"
proof
  assume "escape_segment s = ''*''"
  then have "json_pointer_segment ''*'' = Ok s" by (metis decode_escape)
  then show "s = ''*''" by (simp add: escape_char_def)
qed (simp add: escape_char_def)

text \<open>The values selected from a nonempty list by a path without wildcards.\<close>

lemma select_values_one:
  "select_values segment v = Ok ws \<Longrightarrow> segment \<noteq> ''*'' \<Longrightarrow> \<exists>w. ws = [w]"
  by (auto simp: select_values_def split: json.splits)

lemma select_path_length:
  "select_path (map escape_segment segments) vs = Ok ws \<Longrightarrow> wildcard_free segments \<Longrightarrow> length ws = length vs"
proof (induction segments arbitrary: vs)
  case (Cons s segments)
  then obtain parts where parts: "traverse (select_values s) vs = Ok parts"
    "select_path (map escape_segment segments) (concat parts) = Ok ws" by (auto split: if_splits)
  have "traverse (select_values s) us = Ok ps \<Longrightarrow> length (concat ps) = length us" for us ps
    using Cons.prems(2) by (induction us arbitrary: ps) (auto simp: wildcard_free_def dest: select_values_one)
  with Cons.IH [OF parts(2)] Cons.prems(2) parts(1) show ?case by (simp add: wildcard_free_def)
qed simp

lemma select_values_not_Panic: "select_values s v \<noteq> Panic"
  by (auto simp: select_values_def and_then_eq_Panic split: json.splits)

lemma select_path_not_Panic: "select_path rs vs \<noteq> Panic"
proof (induction rs arbitrary: vs)
  case (Cons r rs)
  have "traverse (select_values s) vs \<noteq> Panic" for s by (rule traverse_not_Panic) (rule select_values_not_Panic)
  with Cons show ?case by (auto simp: and_then_eq_Panic)
qed simp

lemma slice_pointer_of: "slice_from_1 (pointer_of (s # ss)) = Ok (tl (pointer_of (s # ss)))"
  by (simp add: slice_from_1_def pointer_of_def less_char_def)

lemma pointer_values_of:
  "pointer_values root (pointer_of (s # ss)) = select_path (map escape_segment (s # ss)) [root]"
proof -
  have "pointer_of (s # ss) \<noteq> []" by (simp add: pointer_of_def)
  then show ?thesis by (simp only: pointer_values_def slice_pointer_of and_then_simps split_pointer_of if_False)
qed

lemma wildcard_in_pointer:
  "list_ex (\<lambda>segment. segment = ''*'') (split_char CHR ''/'' (pointer_of segments)) \<longleftrightarrow> \<not> wildcard_free segments"
proof (cases segments)
  case (Cons s ss)
  have "pointer_of segments = CHR ''/'' # tl (pointer_of (s # ss))" by (simp add: Cons pointer_of_def)
  also have "split_char CHR ''/'' \<dots> = [] # map escape_segment segments"
    using split_pointer_of [of s ss] Cons by simp
  finally have "split_char CHR ''/'' (pointer_of segments) = [] # map escape_segment segments" .
  then have "list_ex (\<lambda>segment. segment = ''*'') (split_char CHR ''/'' (pointer_of segments)) \<longleftrightarrow>
      (\<exists>x \<in> set segments. escape_segment x = ''*'')" by (simp add: list_ex_iff image_iff eq_commute [of "''*''"] del: escape_star)
  then show ?thesis by (auto simp: wildcard_free_def)
qed (simp add: pointer_of_def wildcard_free_def)

lemma pointer_value_not_Panic:
  assumes "validate_json_pointer path label = Ok ()"
  shows "pointer_value root path \<noteq> Panic"
proof -
  obtain segments where path: "path = pointer_of segments" using validated_pointer [OF assms] .
  show ?thesis
  proof (cases segments)
    case Nil
    then show ?thesis by (simp add: path pointer_of_def pointer_value_def pointer_values_def)
  next
    case (Cons s ss)
    have "vs \<noteq> []" if "pointer_values root path = Ok vs" "wildcard_free segments" for vs
      using that select_path_length [of segments "[root]" vs] Cons by (auto simp: path pointer_values_of simp del: list.map)
    then show ?thesis using select_path_not_Panic
      by (auto simp: path Cons pointer_value_def and_then_eq_Panic pointer_values_of wildcard_in_pointer
          simp del: list.map select_path.simps split: list.splits)
  qed
qed

section \<open>Replacing the value a pointer names\<close>

lemma map_of_set_entry: "k \<in> fst ` set m \<Longrightarrow> map_of (set_entry k v m) k = Some v"
  by (induction k v m rule: set_entry.induct) auto

lemma canonical_index_Ok:
  "canonical_index segment vs = Ok index \<Longrightarrow> parse_usize segment = Some index \<and> index < length vs"
  by (auto simp: canonical_index_def split: if_splits)

lemma select_path_step:
  "s \<noteq> ''*'' \<Longrightarrow> select_values s v = Ok [w] \<Longrightarrow> select_path (escape_segment s # rs) [v] = select_path rs [w]"
  by simp

lemma select_entry: "s \<noteq> ''*'' \<Longrightarrow> map_of m s = Some u \<Longrightarrow> select_values s (JObject (set_entry s w m)) = Ok [w]"
  by (auto simp: select_values_def map_of_set_entry rev_image_eqI dest!: map_of_SomeD)

lemma select_element:
  "s \<noteq> ''*'' \<Longrightarrow> canonical_index s vs = Ok i \<Longrightarrow> select_values s (JArray (vs[i := w])) = Ok [w]"
  using canonical_index_Ok [of s vs i] by (simp add: select_values_def get_at_def)

lemma replace_then_select:
  "replace_at parents final w target = Ok target' \<Longrightarrow> wildcard_free (parents @ [final]) \<Longrightarrow>
     select_path (map escape_segment (parents @ [final])) [target'] = Ok [w]"
proof (induction parents final w target arbitrary: target' rule: replace_at.induct)
  case (1 final w target)
  then have "select_values final target' = Ok [w]" "final \<noteq> ''*''"
    by (auto simp: wildcard_free_def select_entry select_element split: json.splits)
  then show ?case using select_path_step [of final target' w "[]"] by simp
next
  case (2 segment parents final w target)
  have star: "segment \<noteq> ''*''" "wildcard_free (parents @ [final])" using 2(4) by (auto simp: wildcard_free_def)
  have "\<exists>child. select_values segment target' = Ok [child] \<and> select_path (map escape_segment (parents @ [final])) [child] = Ok [w]"
  proof (cases target)
    case (JArray vs)
    with 2(3) obtain i child where "canonical_index segment vs = Ok i" "replace_at parents final w (vs ! i) = Ok child"
      "target' = JArray (vs[i := child])" by auto
    with 2(1) [OF JArray] star show ?thesis by (auto simp: select_element)
  next
    case (JObject m)
    with 2(3) obtain u child where "map_of m segment = Some u" "replace_at parents final w u = Ok child"
      "target' = JObject (set_entry segment child m)" by auto
    with 2(2) [OF JObject] star show ?thesis by (auto simp: select_entry)
  qed (use 2(3) in auto)
  then obtain child where "select_values segment target' = Ok [child]"
    "select_path (map escape_segment (parents @ [final])) [child] = Ok [w]" by blast
  with select_path_step [OF star(1) this(1)] show ?case by simp
qed

text \<open>When a patch replaces the value at a pointer without wildcards, the pointer then names exactly
  the replacement.\<close>
theorem replaced_value_is_named:
  assumes "replace_json_pointer root (pointer_of segments) w = Ok root'" "wildcard_free segments"
  shows "pointer_values root' (pointer_of segments) = Ok [w]"
proof (cases segments)
  case Nil
  with assms(1) show ?thesis by (simp add: replace_json_pointer_def pointer_of_def pointer_values_def)
next
  case (Cons s ss)
  have decoded: "traverse json_pointer_segment (map escape_segment ts) = Ok ts" for ts by (induction ts) auto
  from assms(1) have "replace_at (butlast segments) (last segments) w root = Ok root'"
    by (simp add: replace_json_pointer_def Cons validate_pointer_of slice_pointer_of split_pointer_of decoded
        pointer_of_def [of "[]"] del: list.map split: if_splits) (simp add: pointer_of_def)
  then have "select_path (map escape_segment (butlast segments @ [last segments])) [root'] = Ok [w]"
    by (rule replace_then_select) (use assms(2) append_butlast_last_id [of segments] Cons in simp)
  moreover have "butlast segments @ [last segments] = s # ss" using Cons by simp
  ultimately show ?thesis unfolding Cons pointer_values_of by (simp only: Cons)
qed

theorem replaced_value_is_named_witness:
  "\<exists>root'. replace_json_pointer (JObject [(''a'', JArray [JNull, JBool True])]) ''/a/1'' (JBool False) = Ok root' \<and>
     pointer_values root' ''/a/1'' = Ok [JBool False]"
proof -
  have path: "''/a/1'' = pointer_of [''a'', ''1'']" by (simp add: pointer_of_def escape_char_def)
  have "replace_json_pointer (JObject [(''a'', JArray [JNull, JBool True])]) ''/a/1'' (JBool False) =
      Ok (JObject [(''a'', JArray [JNull, JBool False])])" by code_simp
  moreover have "wildcard_free [''a'', ''1'']" by (simp add: wildcard_free_def)
  ultimately show ?thesis using replaced_value_is_named unfolding path by blast
qed

end
