(* ===== verification/Contract_Pointers_Correct.thy ===== *)
theory Contract_Pointers_Correct
  imports Contract_Pointers Contract_Schema_Correct Json_Pointer_Correct
begin

text \<open>
  The contract found for a pointer is the type of the values the pointer selects: followed in a value
  that conforms to the root contract, it selects values that conform to the contract found, or it fails
  because an optional field or an array element is missing.
\<close>

section \<open>Equality of values and of nodes\<close>

lemma f64_den_pos [simp]: "0 < f64_den e"
  by (simp add: f64_den_def)

lemma f64_eq_trans: "f64_eq x y \<Longrightarrow> f64_eq y z \<Longrightarrow> f64_eq x z"
proof (cases "(x, y, z)" rule: prod_cases3)
  case (fields a b c)
  assume eq: "f64_eq x y" "f64_eq y z"
  show ?thesis
  proof (cases b)
    case (F64_Fin t n f)
    with eq fields obtain s m e u p g where fin: "x = F64_Fin s m e" "y = F64_Fin t n f" "z = F64_Fin u p g"
      "f64_num s m e * f64_den f = f64_num t n f * f64_den e" "f64_num t n f * f64_den g = f64_num u p g * f64_den f"
      by (cases a; cases c) (auto simp: f64_eq_def)
    then have "f64_den f * (f64_num s m e * f64_den g) = f64_den f * (f64_num u p g * f64_den e)"
      by (metis (no_types) mult.assoc mult.commute)
    then have "f64_num s m e * f64_den g = f64_num u p g * f64_den e" using f64_den_pos [of f] by simp
    with fin(1,3) show ?thesis by (simp add: f64_eq_def)
  qed (use eq fields in \<open>cases a; cases c; auto simp: f64_eq_def\<close>)+
qed

lemma number_eq_sym: "number_eq a b \<longleftrightarrow> number_eq b a"
  by (cases a; cases b) (auto simp: f64_eq_sym)

lemma number_eq_trans: "number_eq a b \<Longrightarrow> number_eq b c \<Longrightarrow> number_eq a c"
  by (cases a; cases b; cases c) (auto intro: f64_eq_trans)

lemma json_eq_sym:
  "json_eq v w \<Longrightarrow> json_eq w v" "jsons_eq vs ws \<Longrightarrow> jsons_eq ws vs" "entries_eq m n \<Longrightarrow> entries_eq n m"
  by (induction v w and vs ws and m n rule: json_eq_jsons_eq_entries_eq.induct) (auto simp: number_eq_sym)

lemma jsons_eq_all2: "jsons_eq vs ws \<longleftrightarrow> list_all2 json_eq vs ws"
proof (induction vs arbitrary: ws)
  case Nil
  show ?case by (cases ws) auto
next
  case (Cons v vs)
  then show ?case by (cases ws) auto
qed

lemma entries_eq_all2: "entries_eq m n \<longleftrightarrow> list_all2 (\<lambda>p q. fst p = fst q \<and> json_eq (snd p) (snd q)) m n"
proof (induction m arbitrary: n)
  case Nil
  show ?case by (cases n) auto
next
  case (Cons p m)
  show ?case
  proof (cases n)
    case (Cons q n')
    with Cons.IH [of n'] show ?thesis by (cases p; cases q) simp
  qed (cases p, simp)
qed

lemma json_eq_shape:
  "json_eq JNull v \<longleftrightarrow> v = JNull" "json_eq (JBool b) v \<longleftrightarrow> v = JBool b" "json_eq (JString s) v \<longleftrightarrow> v = JString s"
  "json_eq (JNumber a) v \<longleftrightarrow> (\<exists>c. v = JNumber c \<and> number_eq a c)"
  "json_eq (JArray xs) v \<longleftrightarrow> (\<exists>ys. v = JArray ys \<and> list_all2 json_eq xs ys)"
  "json_eq (JObject m) v \<longleftrightarrow>
     (\<exists>n. v = JObject n \<and> list_all2 (\<lambda>p q. fst p = fst q \<and> json_eq (snd p) (snd q)) m n)"
  by (cases v; auto simp: jsons_eq_all2 entries_eq_all2)+

lemma json_eq_trans: "json_eq u v \<Longrightarrow> json_eq v w \<Longrightarrow> json_eq u w"
proof (induction u arbitrary: v w)
  case (JNumber a)
  then obtain b c where "number_eq a b" "number_eq b c" "w = JNumber c" by (auto simp: json_eq_shape)
  then show ?case using number_eq_trans [of a b c] by simp
next
  case (JArray xs)
  from JArray(2,3) obtain ys zs where "list_all2 json_eq xs ys" "list_all2 json_eq ys zs" "w = JArray zs"
    by (auto simp: json_eq_shape)
  with JArray(1) show ?case by (fastforce simp: json_eq_shape list_all2_conv_all_nth)
next
  case (JObject m)
  from JObject(2,3) obtain n l where "list_all2 (\<lambda>p q. fst p = fst q \<and> json_eq (snd p) (snd q)) m n"
    "list_all2 (\<lambda>p q. fst p = fst q \<and> json_eq (snd p) (snd q)) n l" "w = JObject l"
    by (auto simp: json_eq_shape)
  moreover have "json_eq (snd (m ! i)) v' \<Longrightarrow> json_eq v' w' \<Longrightarrow> json_eq (snd (m ! i)) w'" if "i < length m" for i v' w'
    using JObject(1) [of "m ! i" "snd (m ! i)" v' w'] that by (auto simp: snds.simps)
  ultimately show ?case by (fastforce simp: json_eq_shape list_all2_conv_all_nth)
qed (simp_all add: json_eq_shape)

lemma jsons_eq_member: "jsons_eq vs ws \<Longrightarrow> v \<in> set vs \<Longrightarrow> \<exists>w \<in> set ws. json_eq v w"
  by (metis jsons_eq_all2 list_all2_conv_all_nth in_set_conv_nth)

lemma all2_member: "list_all2 P xs ys \<Longrightarrow> y \<in> set ys \<Longrightarrow> \<exists>x \<in> set xs. P x y"
  by (metis in_set_conv_nth list_all2_conv_all_nth)

lemma map_of_all: "map_of m k = Some v \<Longrightarrow> list_all P m \<Longrightarrow> P (k, v)"
  by (auto simp: list_all_iff dest: map_of_SomeD)

lemma nodes_eq_all2: "nodes_eq ms ns \<longleftrightarrow> list_all2 node_eq ms ns"
proof (induction ms arbitrary: ns)
  case (Cons m ms)
  then show ?case by (cases ns) auto
qed auto

lemma fields_eq_all2: "fields_eq fs gs \<longleftrightarrow> list_all2 (\<lambda>p q. fst p = fst q \<and> node_eq (snd p) (snd q)) fs gs"
proof (induction fs arbitrary: gs)
  case (Cons p fs)
  show ?case
  proof (cases gs)
    case (Cons q gs')
    with Cons.IH [of gs'] show ?thesis by (cases p; cases q) simp
  qed (cases p, simp)
qed auto

lemma node_eq_optional: "node_eq m n \<Longrightarrow> is_optional m \<longleftrightarrow> is_optional n"
  by (cases m; cases n) (auto simp: is_optional_def)

text \<open>Equal nodes accept the same values.\<close>

lemma node_eq_conforms: "conforms domain m v \<Longrightarrow> node_eq m n \<Longrightarrow> conforms domain n v"
proof (induction m v arbitrary: n rule: conforms.induct)
  case (literal w ws v)
  then obtain ys where n: "n = NLiteral ys" "jsons_eq ws ys" by (cases n) auto
  then obtain y where "y \<in> set ys" "json_eq w y" using jsons_eq_member literal(1) by blast
  with literal(2) show ?case unfolding n by (metis conforms.literal json_eq_sym(1) json_eq_trans)
next
  case (array vs item)
  then show ?case by (cases n) (auto intro: conforms.array)
next
  case (tuple items vs)
  then obtain ns where n: "n = NTuple ns" "list_all2 node_eq items ns" by (cases n) (auto simp: nodes_eq_all2)
  with tuple(1) have "list_all2 (conforms domain) ns vs" by (auto simp: list_all2_conv_all_nth)
  then show ?case unfolding n by (rule conforms.tuple)
next
  case (optional v item)
  then show ?case by (cases n) (auto intro: conforms.optional)
next
  case (obj m fs)
  then obtain gs where n: "n = NObject gs" and gs: "list_all2 (\<lambda>p q. fst p = fst q \<and> node_eq (snd p) (snd q)) fs gs"
    by (cases n) (auto simp: fields_eq_all2)
  have "map fst fs = map fst gs" using gs by (auto simp: list_all2_conv_all_nth intro!: nth_equalityI)
  then have keys: "fst ` set m \<subseteq> fst ` set gs" using obj(1) by (metis list.set_map)
  have "(\<exists>v. map_of m k = Some v \<and> conforms domain c v) \<or> (map_of m k = None \<and> is_optional c)"
    if "(k, c) \<in> set gs" for k c
  proof -
    from all2_member [OF gs that] obtain c' where "(k, c') \<in> set fs" "node_eq c' c" by force
    with obj(2) [OF this(1)] node_eq_optional show ?thesis by blast
  qed
  then show ?case unfolding n by (rule conforms.obj [OF keys])
qed (auto intro: conforms.intros)

section \<open>Looking through references and optional nodes\<close>

lemma unwrap_conforms:
  "unwrap_structural_node depth node domain = Ok n \<Longrightarrow> conforms domain node v \<Longrightarrow> conforms domain n v"
proof (induction depth node domain arbitrary: n rule: unwrap_structural_node.induct)
  case (2 depth d k domain)
  then show ?case by (cases depth) (auto elim: conforms_cases)
qed (auto elim: conforms_cases)

text \<open>No object of the contract has a field named \<^verbatim>\<open>*\<close>, which a pointer cannot tell from the wildcard.\<close>

fun no_star :: "contract_node \<Rightarrow> bool" where
  "no_star (NArray n) = no_star n"
| "no_star (NOptional n) = no_star n"
| "no_star (NTuple ns) = list_all no_star ns"
| "no_star (NObject fs) = list_all (\<lambda>p. fst p \<noteq> ''*'' \<and> no_star (snd p)) fs"
| "no_star _ = True"

definition no_star_domain :: "domain \<Rightarrow> bool" where
  "no_star_domain domain \<longleftrightarrow> list_all (\<lambda>p. no_star (snd p)) domain"

lemma unwrap_no_star:
  "unwrap_structural_node depth node domain = Ok n \<Longrightarrow> no_star_domain domain \<Longrightarrow> no_star node \<Longrightarrow> no_star n"
proof (induction depth node domain arbitrary: n rule: unwrap_structural_node.induct)
  case (2 depth d k domain)
  from "2.prems"(1) obtain e c where e: "depth = Suc e" "map_of domain k = Some c" "unwrap_structural_node e c domain = Ok n"
    by (cases depth) auto
  have "no_star c" using map_of_all [OF e(2) "2.prems"(2) [unfolded no_star_domain_def]] by simp
  with "2.IH" [of c e n] e "2.prems"(2) show ?case by simp
qed auto

section \<open>One segment\<close>

lemma structural_child_no_star:
  assumes "structural_child debug depth node segment domain = Ok child" "no_star_domain domain" "no_star node"
  shows "no_star child"
proof -
  obtain n where n: "unwrap_structural_node depth node domain = Ok n" using assms(1) by (auto simp: structural_child_def)
  with unwrap_no_star assms(2,3) have "no_star n" by blast
  with n assms(1) show ?thesis
    by (auto simp: structural_child_def get_at_def list_all_length split: contract_node.splits if_splits list.splits
        dest: map_of_all)
qed

definition missing_part :: "string \<Rightarrow> string \<Rightarrow> bool" where
  "missing_part segment message \<longleftrightarrow>
     message = ''JSON pointer field '' @ segment @ '' is missing'' \<or>
     message = ''JSON pointer array index is missing'' \<or>
     message = ''JSON pointer array index is invalid'' \<and> parse_usize segment = None"

lemma select_child:
  assumes "structural_child debug depth node segment domain = Ok child" "conforms domain node v"
    "no_star_domain domain" "no_star node"
  shows "case select_values segment v of
      Ok ws \<Rightarrow> \<forall>w \<in> set ws. conforms domain child w | Err e \<Rightarrow> missing_part segment e | Panic \<Rightarrow> False"
proof -
  obtain n where n: "unwrap_structural_node depth node domain = Ok n" using assms(1) by (auto simp: structural_child_def)
  have c: "conforms domain n v" "no_star n" using unwrap_conforms [OF n] unwrap_no_star [OF n] assms by auto
  note child = assms(1) [unfolded structural_child_def n and_then_simps]
  show ?thesis
  proof (cases n)
    case (NArray item)
    with c child show ?thesis
      by (auto simp: select_values_def get_at_def ok_or_def missing_part_def elim!: conforms_cases split: option.splits if_splits)
  next
    case (NTuple items)
    with c(1) obtain vs where v: "v = JArray vs" "list_all2 (conforms domain) items vs" by (auto elim: conforms_cases)
    show ?thesis
    proof (cases "segment = ''*''")
      case True
      with child NTuple have "\<forall>item \<in> set items. item = child \<or> node_eq item child"
        by (auto simp: list_ex_iff split: list.splits if_splits)
      then have "\<forall>w \<in> set vs. conforms domain child w"
        using v(2) node_eq_conforms by (fastforce simp: list_all2_conv_all_nth in_set_conv_nth)
      with True v(1) show ?thesis by (simp add: select_values_def)
    next
      case False
      with child NTuple obtain i where "parse_usize segment = Some i" "i < length items" "child = items ! i"
        by (auto simp: get_at_def split: if_splits)
      with False v show ?thesis by (auto simp: select_values_def get_at_def list_all2_conv_all_nth)
    qed
  next
    case (NObject fs)
    with child have k: "map_of fs segment = Some child" by simp
    with c(2) NObject have "segment \<noteq> ''*''" by (auto dest: map_of_all)
    moreover from c(1) [unfolded NObject conforms_simps] map_of_SomeD [OF k] obtain m where m: "v = JObject m"
      "(\<exists>w. map_of m segment = Some w \<and> conforms domain child w) \<or> map_of m segment = None"
      by blast
    ultimately show ?thesis by (auto simp: select_values_def missing_part_def)
  qed (use child in simp_all)
qed

section \<open>Paths\<close>

lemma traverse_typed:
  "\<forall>v \<in> set vs. (case f v of Ok ws \<Rightarrow> \<forall>w \<in> set ws. P w | Err e \<Rightarrow> Q e | Panic \<Rightarrow> False) \<Longrightarrow>
     (case traverse f vs of Ok ps \<Rightarrow> \<forall>w \<in> set (concat ps). P w | Err e \<Rightarrow> Q e | Panic \<Rightarrow> False)"
proof (induction vs)
  case (Cons v vs)
  then show ?case by (cases "f v"; cases "traverse f vs") auto
qed simp

definition missing_on :: "string list \<Rightarrow> string \<Rightarrow> bool" where
  "missing_on segments message \<longleftrightarrow> (\<exists>segment \<in> set segments. missing_part segment message)"

lemma select_path_typed:
  assumes "structural_walk debug depth (map escape_segment segments) node domain = Ok n"
    "\<forall>v \<in> set vs. conforms domain node v" "no_star_domain domain" "no_star node"
  shows "case select_path (map escape_segment segments) vs of
      Ok ws \<Rightarrow> \<forall>w \<in> set ws. conforms domain n w | Err e \<Rightarrow> missing_on segments e | Panic \<Rightarrow> False"
  using assms
proof (induction segments arbitrary: node vs)
  case (Cons s segments)
  then obtain child where child: "structural_child debug depth node s domain = Ok child"
    "structural_walk debug depth (map escape_segment segments) child domain = Ok n" by auto
  have "case traverse (select_values s) vs of
      Ok ps \<Rightarrow> \<forall>w \<in> set (concat ps). conforms domain child w | Err e \<Rightarrow> missing_part s e | Panic \<Rightarrow> False"
    by (rule traverse_typed) (use select_child [OF child(1) _ Cons.prems(3,4)] Cons.prems(2) in blast)
  then show ?case
  proof (cases "traverse (select_values s) vs")
    case (Ok ps)
    have "concat ps \<noteq> []" if "vs \<noteq> []" "s \<noteq> ''*''"
      using that Ok by (cases vs) (auto dest: select_values_one)
    moreover have "\<forall>w \<in> set (concat ps). conforms domain child w"
      using \<open>case traverse _ _ of Ok ps \<Rightarrow> _ ps | _ \<Rightarrow> _\<close> Ok by simp
    from Cons.IH [OF child(2) this Cons.prems(3) structural_child_no_star [OF child(1) Cons.prems(3,4)]]
    have "case select_path (map escape_segment segments) (concat ps) of
      Ok ws \<Rightarrow> \<forall>w \<in> set ws. conforms domain n w | Err e \<Rightarrow> missing_on (s # segments) e | Panic \<Rightarrow> False"
      by (auto simp: missing_on_def split: outcome.splits)
    ultimately show ?thesis using Ok by auto
  qed (auto simp: missing_on_def)
qed simp

text \<open>C17: Type soundness of pointers: if the contract of the root has a contract at a pointer, then in a
  value that conforms to the root the pointer selects only values that conform to that contract, and it
  can fail only because a field or an array element it names is missing; it never meets a scalar or
  an unsuitable wildcard.\<close>
theorem pointer_type_soundness:
  assumes "structural_contract_at debug depth root path domain = Ok n" "conforms domain root v"
    "no_star_domain domain" "no_star root" "path = pointer_of segments"
  shows "case pointer_values v path of
      Ok ws \<Rightarrow> \<forall>w \<in> set ws. conforms domain n w | Err e \<Rightarrow> missing_on segments e | Panic \<Rightarrow> False"
proof (cases segments)
  case Nil
  with assms show ?thesis by (simp add: structural_contract_at_def pointer_of_def pointer_values_def)
next
  case (Cons s ss)
  have "pointer_of (s # ss) \<noteq> []" by (simp add: pointer_of_def)
  with assms(1,5) Cons have "structural_walk debug depth (map escape_segment segments) root domain = Ok n"
    by (simp only: structural_contract_at_def validate_pointer_of slice_pointer_of split_pointer_of and_then_simps if_False)
  from select_path_typed [OF this _ assms(3,4), of "[v]"] assms(2) show ?thesis
    unfolding assms(5) Cons pointer_values_of by simp
qed

theorem pointer_type_soundness_witness:
  "case pointer_values (JObject [(''hits'', JArray [JObject [(''id'', JString ''a'')], JObject [(''id'', JString ''b'')]])])
      (pointer_of [''hits'', ''*'', ''id'']) of
     Ok ws \<Rightarrow> \<forall>w \<in> set ws. conforms [] NString w | Err e \<Rightarrow> missing_on [''hits'', ''*'', ''id''] e | Panic \<Rightarrow> False"
proof (rule pointer_type_soundness)
  show "structural_contract_at (\<lambda>_. []) 0 (NObject [(''hits'', NArray (NObject [(''id'', NString)]))])
      (pointer_of [''hits'', ''*'', ''id'']) [] = Ok NString" by code_simp
  show "conforms [] (NObject [(''hits'', NArray (NObject [(''id'', NString)]))])
      (JObject [(''hits'', JArray [JObject [(''id'', JString ''a'')], JObject [(''id'', JString ''b'')]])])"
    by (auto simp: conforms_simps)
qed (simp_all add: no_star_domain_def)

end
