(* ===== verification/Refinement_Eval_Correct.thy ===== *)
theory Refinement_Eval_Correct
  imports Refinement_Eval Contract_Pointers_Correct
begin

text \<open>
  What the checks on refinement expressions guarantee about their evaluation: an expression without a
  pointer into the result does not depend on the result, and a validated expression never panics.
\<close>

section \<open>Parts of a validated expression\<close>

text \<open>Not an object, hence no expression; or an expression whose shape has been validated.\<close>

definition ir_valid :: "nodes \<Rightarrow> json \<Rightarrow> bool" where
  "ir_valid ns e \<longleftrightarrow> as_object e = None \<or> (\<exists>role label. validate_ir_expression e role ns label = Ok ())"

lemma validate_ir_field_cases:
  assumes "validate_ir_field v marker ns label = Ok ()"
  shows "refinement_field_marker marker = Some M_Expression \<and> validate_ir_expression v ''expression'' ns label = Ok ()
    \<or> refinement_field_marker marker = Some M_ExpressionArrayNonempty \<and>
        (\<exists>vs. v = JArray vs \<and> (\<forall>w \<in> set vs. \<exists>l. validate_ir_expression w ''expression'' ns l = Ok ()))
    \<or> (\<exists>vs. v = JArray vs \<and> (\<forall>w \<in> set vs. is_json_string w))
    \<or> is_json_scalar v"
proof -
  have "is_json_scalar v" if "finite_number v \<or> is_json_string v \<or> json_str v \<noteq> None"
    using that by (cases v) (auto simp: is_json_scalar_def finite_number_def as_f64_def is_json_string_def json_str_def)
  moreover have "\<exists>l. validate_ir_expression w ''expression'' ns l = Ok ()"
    if "each (\<lambda>i w. validate_ir_expression w ''expression'' ns (label @ ''['' @ show_nat i @ '']'')) 0 vs = Ok ()" "w \<in> set vs" for vs w
    using each_OkD [OF that] by blast
  ultimately show ?thesis using assms
    by (subst (asm) validate_ir_field.simps)
      (auto simp: list_ex_iff is_json_string_iff split: option.splits field_marker.splits if_splits)
qed

lemma validated_expression:
  assumes "validate_ir_expression e role ns label = Ok ()"
  obtains m op spec handler where "e = JObject m" "map_of m ''op'' = Some (JString op)" "map_of ns op = Some spec"
    "refinement_handler op = Some handler" "fst ` set m = insert ''op'' (fst ` set (spec_fields spec))"
    "\<And>k marker. (k, marker) \<in> set (spec_fields spec) \<Longrightarrow>
       \<exists>w l. map_of m k = Some w \<and> validate_ir_field w marker ns l = Ok ()"
proof -
  from assms obtain m op spec handler where m: "e = JObject m" "map_of m ''op'' = Some (JString op)" "map_of ns op = Some spec"
    "refinement_handler op = Some handler" "fst ` set m = insert ''op'' (fst ` set (spec_fields spec))"
    "each (\<lambda>_ f. and_then (expect (map_of m (fst f))) (\<lambda>w. validate_ir_field w (snd f) ns (label @ ''.'' @ fst f)))
       0 (spec_fields spec) = Ok ()"
    by (subst (asm) validate_ir_expression.simps)
      (auto simp: str_or_def str_field_def bind_eq_Some_conv split: if_splits)
  have "\<exists>w l. map_of m k = Some w \<and> validate_ir_field w marker ns l = Ok ()" if "(k, marker) \<in> set (spec_fields spec)" for k marker
    using each_OkD [OF m(6) that] by auto
  with m(1-5) that show ?thesis by blast
qed

text \<open>A field of a validated expression: the opcode, an expression, an array of expressions or strings, or a scalar.\<close>

lemma validated_field:
  assumes "validate_ir_expression (JObject m) role ns label = Ok ()" "map_of m k = Some w"
  shows "is_json_scalar w \<or> (\<exists>vs. w = JArray vs \<and> (\<forall>x \<in> set vs. is_json_string x)) \<or>
    (\<exists>op spec marker. map_of m ''op'' = Some (JString op) \<and> map_of ns op = Some spec \<and> (k, marker) \<in> set (spec_fields spec) \<and>
       (refinement_field_marker marker = Some M_Expression \<and> (\<exists>l. validate_ir_expression w ''expression'' ns l = Ok ())
        \<or> refinement_field_marker marker = Some M_ExpressionArrayNonempty \<and>
          (\<exists>vs. w = JArray vs \<and> (\<forall>x \<in> set vs. \<exists>l. validate_ir_expression x ''expression'' ns l = Ok ()))))"
proof -
  obtain op spec where m: "map_of m ''op'' = Some (JString op)" "map_of ns op = Some spec"
    "fst ` set m = insert ''op'' (fst ` set (spec_fields spec))"
    "\<And>k marker. (k, marker) \<in> set (spec_fields spec) \<Longrightarrow> \<exists>w l. map_of m k = Some w \<and> validate_ir_field w marker ns l = Ok ()"
    using validated_expression [OF assms(1)] by (metis json.inject(5))
  have "k \<in> fst ` set m" using assms(2) by (auto dest!: map_of_SomeD intro: rev_image_eqI)
  then consider "k = ''op''" | marker where "(k, marker) \<in> set (spec_fields spec)" unfolding m(3) by auto
  then show ?thesis
  proof cases
    case 1
    with m(1) assms(2) show ?thesis by (auto simp: is_json_scalar_def)
  next
    case (2 marker)
    from m(4) [OF 2] assms(2) obtain l where "validate_ir_field w marker ns l = Ok ()" by auto
    from validate_ir_field_cases [OF this] m(1,2) 2 show ?thesis by blast
  qed
qed

lemma scalar_not_object: "is_json_scalar w \<Longrightarrow> as_object w = None" "is_json_string w \<Longrightarrow> as_object w = None"
  by (cases w; simp add: is_json_scalar_def as_object_def is_json_string_def json_str_def)+

lemma validated_array: "validate_ir_expression (JArray vs) role ns label \<noteq> Ok ()"
  using validated_expression by blast

lemma ir_valid_parts:
  assumes "validate_ir_expression (JObject m) role ns label = Ok ()" "x \<in> parts m"
  shows "ir_valid ns x"
proof -
  from assms(2) consider k where "map_of m k = Some x" | k vs where "map_of m k = Some (JArray vs)" "x \<in> set vs"
    by (auto simp: parts_def)
  then show ?thesis
  proof cases
    case (1 k)
    from validated_field [OF assms(1) 1] show ?thesis
      by (auto simp: ir_valid_def scalar_not_object)
  next
    case (2 k vs)
    from validated_field [OF assms(1) 2(1)] 2(2) show ?thesis
      by (auto simp: ir_valid_def scalar_not_object is_json_scalar_def validated_array)
  qed
qed

section \<open>Independence of the result\<close>

definition result_free :: "nodes \<Rightarrow> json \<Rightarrow> bool" where
  "result_free ns e \<longleftrightarrow> as_object e = None \<or>
     (\<exists>role label. validate_ir_expression e role ns label = Ok ()) \<and> contains_result_pointer e ns = Ok False"

lemma result_free_children:
  assumes "contains_result_pointer (JObject m) ns = Ok False" "map_of m ''op'' = Some (JString op)" "map_of ns op = Some spec"
    "f \<in> set (spec_fields spec)" "child_expressions m f = Ok cs" "c \<in> set cs"
  shows "contains_result_pointer c ns = Ok False"
proof -
  from assms(1) have "any_ok (\<lambda>f. and_then (child_expressions m f) (\<lambda>cs. any_ok (\<lambda>c. contains_result_pointer c ns) cs))
      (spec_fields spec) = Ok False"
    by (subst (asm) contains_result_pointer.simps) (auto simp: assms(2,3) str_or_def str_field_def split: if_splits)
  with assms(4,5,6) show ?thesis by (auto simp: any_ok_False)
qed

lemma result_free_parts:
  assumes "validate_ir_expression (JObject m) role ns label = Ok ()" "contains_result_pointer (JObject m) ns = Ok False"
    "x \<in> parts m"
  shows "result_free ns x"
proof -
  from assms(3) consider k where "map_of m k = Some x" | k vs where "map_of m k = Some (JArray vs)" "x \<in> set vs"
    by (auto simp: parts_def)
  then show ?thesis
  proof cases
    case (1 k)
    from validated_field [OF assms(1) 1] show ?thesis
    proof (elim disjE exE conjE)
      fix op spec marker l
      assume f: "map_of m ''op'' = Some (JString op)" "map_of ns op = Some spec" "(k, marker) \<in> set (spec_fields spec)"
        "refinement_field_marker marker = Some M_Expression" and v: "validate_ir_expression x ''expression'' ns l = Ok ()"
      have "child_expressions m (k, marker) = Ok [x]" using f(4) 1 by (simp add: child_expressions_def)
      from result_free_children [OF assms(2) f(1-3) this] v show ?thesis by (auto simp: result_free_def)
    qed (auto simp: result_free_def scalar_not_object)
  next
    case (2 k vs)
    from validated_field [OF assms(1) 2(1)] show ?thesis
    proof (elim disjE exE conjE)
      fix op spec marker vs'
      assume f: "map_of m ''op'' = Some (JString op)" "map_of ns op = Some spec" "(k, marker) \<in> set (spec_fields spec)"
        "refinement_field_marker marker = Some M_ExpressionArrayNonempty" and
        v: "JArray vs = JArray vs'" "\<forall>x \<in> set vs'. \<exists>l. validate_ir_expression x ''expression'' ns l = Ok ()"
      have "child_expressions m (k, marker) = Ok vs" using f(4) 2(1) by (simp add: child_expressions_def)
      from result_free_children [OF assms(2) f(1-3) this 2(2)] v 2(2) show ?thesis by (auto simp: result_free_def)
    qed (use 2(2) in \<open>auto simp: result_free_def scalar_not_object is_json_scalar_def validated_array\<close>)
  qed
qed

lemma handler_of_pointer: "refinement_handler op = Some H_Pointer \<Longrightarrow> op = ''pointer''"
  "refinement_handler op = Some H_IterationPointer \<Longrightarrow> op = ''iteration_pointer''"
  by (auto simp: refinement_handler_def handler_inventory_def split: if_splits)

lemma eval_result_free:
  "result_free ns e \<Longrightarrow> eval (ctx\<lparr>ctx_result := r\<rparr>) e cur = eval ctx e cur"
proof (induction "size e" arbitrary: e cur rule: less_induct)
  case less
  show ?case
  proof (cases "as_object e")
    case None
    then show ?thesis by (simp add: eval.simps [of _ e] object_def)
  next
    case (Some m)
    with less.prems obtain role label where e: "e = JObject m" and
      valid: "validate_ir_expression (JObject m) role ns label = Ok ()" "contains_result_pointer (JObject m) ns = Ok False"
      by (auto simp: result_free_def)
    have root: "str_field m ''root'' \<noteq> Some ''result''" if "map_of m ''op'' = Some (JString ''pointer'')"
      using valid(2) that by (subst (asm) contains_result_pointer.simps) (auto simp: str_or_def str_field_def split: if_splits)
    have "eval_handler (eval (ctx\<lparr>ctx_result := r\<rparr>)) (ctx\<lparr>ctx_result := r\<rparr>) h op m cur = eval_handler (eval ctx) ctx h op m cur"
      if "refinement_handler op = Some h" "map_of m ''op'' = Some (JString op)" for h op
    proof -
      have "eval_handler (eval (ctx\<lparr>ctx_result := r\<rparr>)) ctx' h op m cur = eval_handler (eval ctx) ctx' h op m cur" for ctx'
        using less.hyps result_free_parts [OF valid] parts_size [of _ m] by (intro eval_handler_cong) (auto simp: e)
      moreover have "eval_handler ev (ctx\<lparr>ctx_result := r\<rparr>) h op m cur = eval_handler ev ctx h op m cur" for ev
        using handler_of_pointer(1) [of op] root that
        by (cases h) (auto simp: eval_handler_def eval_pointer_def eval_normalize_ref_def expr_field_def str_field_def
            intro!: and_then_cong)
      ultimately show ?thesis by simp
    qed
    then show ?thesis unfolding e eval.simps [of _ "JObject m"] object_simps and_then_simps
      by (intro and_then_cong refl) (auto simp: str_or_def str_field_def bind_eq_Some_conv)
  qed
qed

section \<open>Absence of panics\<close>

text \<open>The paths of the two pointer nodes are declared as JSON pointers.\<close>

definition pointer_paths :: "nodes \<Rightarrow> bool" where
  "pointer_paths ns \<longleftrightarrow> list_all (\<lambda>op.
     (case map_of ns op of
        Some spec \<Rightarrow> (''path'', ''json_pointer'') \<in> set (spec_fields spec)
      | None \<Rightarrow> False)) [''pointer'', ''iteration_pointer'']"

lemma value_reads_not_Panic [simp]:
  "one v l \<noteq> Panic" "values_equal v w \<noteq> Panic" "bool_value v l \<noteq> Panic" "number_value v l \<noteq> Panic"
  "string_value v l \<noteq> Panic" "array_values v l \<noteq> Panic" "array_of v l e \<noteq> Panic" "scalar_number x l \<noteq> Panic"
  by (auto simp: one_def values_equal_def bool_value_def number_value_def string_value_def array_values_def array_of_def
      scalar_number_def and_then_eq_Panic split: eval_value.splits list.splits)

lemma field_reads_not_Panic [simp]:
  "expr_field op m k \<noteq> Panic" "expr_str op m k e \<noteq> Panic" "expr_array op m k e \<noteq> Panic" "expr_f64 op m k e \<noteq> Panic"
  by (simp_all add: expr_field_def expr_str_def expr_array_def expr_f64_def and_then_eq_Panic)

lemma loops_not_Panic:
  "\<forall>r \<in> set rs. r \<noteq> Panic \<Longrightarrow> all_any_loop b op acc rs \<noteq> Panic"
  "\<forall>r \<in> set rs. r \<noteq> Panic \<Longrightarrow> coalesce_loop rs \<noteq> Panic"
  "\<forall>r \<in> set rs. r \<noteq> Panic \<Longrightarrow> concat_loop s rs \<noteq> Panic"
  "\<forall>r \<in> set rs. r \<noteq> Panic \<Longrightarrow> max_loop x rs \<noteq> Panic"
  "lookup_loop key kf vf es \<noteq> Panic"
  "\<forall>i. f i \<noteq> Panic \<Longrightarrow> unique_loop f seen items \<noteq> Panic"
  "\<forall>i. f i \<noteq> Panic \<Longrightarrow> \<forall>i. g i \<noteq> Panic \<Longrightarrow> ordered_loop f g prev items \<noteq> Panic"
  "\<forall>i. f i \<noteq> Panic \<Longrightarrow> for_each_loop f items \<noteq> Panic"
  "\<forall>i. f i \<noteq> Panic \<Longrightarrow> rank_loop f n items \<noteq> Panic"
  subgoal by (induction rs arbitrary: acc) (auto simp: and_then_eq_Panic Let_def)
  subgoal by (induction rs) (auto simp: and_then_eq_Panic)
  subgoal by (induction rs arbitrary: s) (auto simp: and_then_eq_Panic)
  subgoal by (induction rs arbitrary: x) (auto simp: and_then_eq_Panic)
  subgoal by (induction es) (auto simp: and_then_eq_Panic split: option.splits)
  subgoal by (induction items arbitrary: seen) (auto simp: and_then_eq_Panic)
  subgoal by (induction items arbitrary: prev) (auto simp: and_then_eq_Panic)
  subgoal by (induction items) (auto simp: and_then_eq_Panic)
  subgoal by (induction items arbitrary: n) (auto simp: and_then_eq_Panic)
  done

lemma subs_not_Panic:
  assumes "\<And>x c. x \<in> parts m \<Longrightarrow> ev x c \<noteq> Panic"
  shows "sub_eval ev op m k cur \<noteq> Panic" "sub_evals ev op m k e cur \<noteq> Panic" "sub_scoped ev op m k sc \<noteq> Panic"
    "sub_evals ev op m k e cur = Ok rs \<Longrightarrow> \<forall>r \<in> set rs. r \<noteq> Panic"
    "sub_scoped ev op m k sc = Ok f \<Longrightarrow> \<forall>i. f i \<noteq> Panic"
proof -
  have "expr_field op m k = Ok x \<Longrightarrow> x \<in> parts m" for x by (auto simp: expr_field_def parts_def)
  with assms show "sub_eval ev op m k cur \<noteq> Panic" "sub_scoped ev op m k sc \<noteq> Panic"
    "sub_scoped ev op m k sc = Ok f \<Longrightarrow> \<forall>i. f i \<noteq> Panic"
    by (auto simp: sub_eval_def sub_scoped_def and_then_eq_Panic)
  have "expr_array op m k e = Ok xs \<Longrightarrow> x \<in> set xs \<Longrightarrow> x \<in> parts m" for xs x
    by (auto simp: expr_array_def expr_field_def parts_def)
  with assms show "sub_evals ev op m k e cur \<noteq> Panic" "sub_evals ev op m k e cur = Ok rs \<Longrightarrow> \<forall>r \<in> set rs. r \<noteq> Panic"
    by (auto simp: sub_evals_def and_then_eq_Panic) metis
qed

lemma eval_handler_not_Panic:
  assumes "\<And>x c. x \<in> parts m \<Longrightarrow> ev x c \<noteq> Panic"
    "h = H_Pointer \<or> h = H_IterationPointer \<Longrightarrow>
       (\<And>path. map_of m ''path'' = Some (JString path) \<Longrightarrow> \<exists>l. validate_json_pointer path l = Ok ())"
  shows "eval_handler ev ctx h op m cur \<noteq> Panic"
proof -
  note subs = subs_not_Panic [OF assms(1)]
  have path: "pointer_value root path \<noteq> Panic"
    if "expr_str op m ''path'' e = Ok path" "h = H_Pointer \<or> h = H_IterationPointer" for root path e
    using that assms(2) by (auto simp: expr_str_def expr_field_def dest: pointer_value_not_Panic)
  have contains: "any_ok (\<lambda>c. values_equal (Ref c) v) ws \<noteq> Panic" for v ws by (rule any_ok_not_Panic) simp
  note loops = loops_not_Panic(1) [OF subs(4)] loops_not_Panic(2) [OF subs(4)] loops_not_Panic(3) [OF subs(4)]
    loops_not_Panic(4) [OF subs(4)] loops_not_Panic(5) loops_not_Panic(6) [OF subs(5)]
    loops_not_Panic(7) [OF subs(5) subs(5)] loops_not_Panic(8) [OF subs(5)] loops_not_Panic(9) [OF subs(5)]
  show ?thesis
    by (cases h)
      (auto simp: eval_handler_def eval_defs eval_pointer_def eval_iteration_pointer_def current_pointer_def Let_def
        and_then_eq_Panic subs contains loops path split: eval_value.splits if_splits)
qed

text \<open>C18: Evaluating a validated refinement expression never panics, whatever the request, the result
  and the normalizer, provided the declared nodes mark the paths of pointers as JSON pointers.\<close>
theorem validated_expression_never_panics:
  assumes "pointer_paths ns" "validate_ir_expression e role ns label = Ok ()"
  shows "eval ctx e cur \<noteq> Panic"
proof -
  have "ir_valid ns e \<Longrightarrow> eval ctx e cur \<noteq> Panic" for e cur
  proof (induction "size e" arbitrary: e cur rule: less_induct)
    case less
    show ?case
    proof (cases "as_object e")
      case None
      then show ?thesis by (simp add: eval.simps [of _ e] object_def)
    next
      case (Some m)
      with less.prems obtain role label where e: "e = JObject m" and
        valid: "validate_ir_expression (JObject m) role ns label = Ok ()" by (auto simp: ir_valid_def)
      have parts: "eval ctx x c \<noteq> Panic" if "x \<in> parts m" for x c
        using less.hyps [of x] parts_size [OF that] ir_valid_parts [OF valid that] by (simp add: e)
      have path: "\<exists>l. validate_json_pointer path l = Ok ()"
        if "refinement_handler op = Some h" "map_of m ''op'' = Some (JString op)" "h = H_Pointer \<or> h = H_IterationPointer"
          "map_of m ''path'' = Some (JString path)" for h op path
      proof -
        have "op \<in> {''pointer'', ''iteration_pointer''}" using that handler_of_pointer by blast
        then obtain spec where spec: "map_of ns op = Some spec" "(''path'', ''json_pointer'') \<in> set (spec_fields spec)"
          using assms(1) by (auto simp: pointer_paths_def split: option.splits)
        obtain op' spec' where v: "map_of m ''op'' = Some (JString op')" "map_of ns op' = Some spec'"
          "\<And>k marker. (k, marker) \<in> set (spec_fields spec') \<Longrightarrow> \<exists>w l. map_of m k = Some w \<and> validate_ir_field w marker ns l = Ok ()"
          using validated_expression [OF valid] by (metis json.inject(5))
        with that(2) spec have "(''path'', ''json_pointer'') \<in> set (spec_fields spec')" by simp
        from v(3) [OF this] that(4) obtain l where "validate_ir_field (JString path) ''json_pointer'' ns l = Ok ()" by auto
        then show ?thesis
          by (subst (asm) validate_ir_field.simps) (auto simp: refinement_field_marker_def marker_inventory_def)
      qed
      show ?thesis unfolding e eval.simps [of _ "JObject m"] object_simps and_then_simps
        using eval_handler_not_Panic [OF parts] path
        by (auto simp: and_then_eq_Panic str_or_def str_field_def bind_eq_Some_conv)
    qed
  qed
  with assms(2) show ?thesis by (auto simp: ir_valid_def)
qed

end
