(* ===== verification/Producer_Contract_Correct.thy ===== *)
theory Producer_Contract_Correct
  imports Contract_Artifacts Refinement_Eval_Correct
begin

text \<open>
  What a parsed producer contract and a verified fixture guarantee, and the exact conditions under which
  requests and exchanges are accepted.
\<close>

section \<open>Operations of a parsed contract\<close>

lemma traverse_keys:
  "traverse f xs = Ok ys \<Longrightarrow> (\<And>x y. f x = Ok y \<Longrightarrow> fst y = x) \<Longrightarrow> map fst ys = xs"
  by (induction xs arbitrary: ys) auto

lemma traverse_member: "traverse f xs = Ok ys \<Longrightarrow> y \<in> set ys \<Longrightarrow> \<exists>x \<in> set xs. f x = Ok y"
  by (induction xs arbitrary: ys) auto

lemma parse_operation_fst: "parse_operation env ns domain ops method = Ok p \<Longrightarrow> fst p = method"
  unfolding parse_operation_def Let_def by (elim ok_elims) (drule Ok_inj, erule subst, rule fst_conv)

lemma parsed_contract:
  assumes "parse_producer_contract env bytes = Ok c"
  shows "map fst (pc_operations c) = BOUNDED_OPERATIONS"
    "parse_domain_contract env = Ok (pc_domain_contract c)"
    "(method, op) \<in> set (pc_operations c) \<Longrightarrow>
       \<exists>ops. parse_operation env (pc_refinement_nodes c) (pc_domain_contract c) ops method = Ok (method, op)"
proof -
  have "\<exists>ops. parse_domain_contract env = Ok (pc_domain_contract c) \<and>
    traverse (parse_operation env (pc_refinement_nodes c) (pc_domain_contract c) ops) BOUNDED_OPERATIONS = Ok (pc_operations c)"
    using assms unfolding parse_producer_contract_def
    by (elim ok_elims) (drule Ok_inj, hypsubst, simp only: producer_contract.select_convs, blast)
  then obtain ops where ops: "parse_domain_contract env = Ok (pc_domain_contract c)"
    "traverse (parse_operation env (pc_refinement_nodes c) (pc_domain_contract c) ops) BOUNDED_OPERATIONS = Ok (pc_operations c)"
    by blast
  show "map fst (pc_operations c) = BOUNDED_OPERATIONS"
    by (rule traverse_keys [OF ops(2)]) (rule parse_operation_fst)
  show "parse_domain_contract env = Ok (pc_domain_contract c)" by (rule ops(1))
  show "\<exists>ops. parse_operation env (pc_refinement_nodes c) (pc_domain_contract c) ops method = Ok (method, op)"
    if "(method, op) \<in> set (pc_operations c)"
    using traverse_member [OF ops(2) that] parse_operation_fst by fastforce
qed

lemma parse_assertions_Ok:
  assumes "parse_assertions v ns label = Ok as" "a \<in> set as"
  shows "\<exists>l. validate_ir_expression a ''assertion'' ns l = Ok ()"
  using assms by (auto simp: parse_assertions_def split: if_splits dest: each_OkD)

lemma assertion_pointers_Ok:
  assumes "validate_assertion_pointers debug depth as b request result domain ns label = Ok ()" "a \<in> set as"
  shows "contains_result_pointer a ns = Ok (\<not> b)"
  using each_OkD [OF assms(1) [unfolded validate_assertion_pointers_def] assms(2)]
  by (auto split: if_splits)

lemma parsed_operation:
  assumes "parse_operation env ns domain ops method = Ok (method, op)"
  shows "a \<in> set (oc_request_assertions op) \<Longrightarrow>
      (\<exists>l. validate_ir_expression a ''assertion'' ns l = Ok ()) \<and> contains_result_pointer a ns = Ok False"
    "a \<in> set (oc_exchange_assertions op) \<Longrightarrow>
      (\<exists>l. validate_ir_expression a ''assertion'' ns l = Ok ()) \<and> contains_result_pointer a ns = Ok True"
proof -
  have "\<exists>debug depth request result v w l1 l2 l3 l4 u u'.
    parse_assertions v ns l1 = Ok (oc_request_assertions op) \<and> parse_assertions w ns l2 = Ok (oc_exchange_assertions op) \<and>
    validate_assertion_pointers debug depth (oc_request_assertions op) True request result domain ns l3 = Ok u \<and>
    validate_assertion_pointers debug depth (oc_exchange_assertions op) False request result domain ns l4 = Ok u'"
    using assms unfolding parse_operation_def Let_def
    by (elim ok_elims) (drule Ok_inj, erule Pair_inject, hypsubst, simp only: operation_contract.select_convs, blast)
  then show "a \<in> set (oc_request_assertions op) \<Longrightarrow>
      (\<exists>l. validate_ir_expression a ''assertion'' ns l = Ok ()) \<and> contains_result_pointer a ns = Ok False"
    "a \<in> set (oc_exchange_assertions op) \<Longrightarrow>
      (\<exists>l. validate_ir_expression a ''assertion'' ns l = Ok ()) \<and> contains_result_pointer a ns = Ok True"
    by (auto dest: parse_assertions_Ok assertion_pointers_Ok)
qed

section \<open>Assertions\<close>

definition holds :: "eval_context \<Rightarrow> json \<Rightarrow> bool" where
  "holds ctx a \<longleftrightarrow> and_then (eval ctx a None) (\<lambda>v. bool_value v ''assertion'') = Ok True"

lemma failed_from_None: "failed_from ctx i as = Ok None \<longleftrightarrow> (\<forall>a \<in> set as. holds ctx a)"
  by (induction as arbitrary: i) (auto simp: holds_def split: if_splits)

lemma evaluate_assertions_iff:
  "evaluate_assertions as request r nrm = Ok () \<longleftrightarrow>
     (\<forall>a \<in> set as. holds \<lparr>ctx_request = request, ctx_result = r, ctx_normalizer = nrm\<rparr> a)"
  by (auto simp: evaluate_assertions_def first_failed_assertion_def failed_from_None [where i = 0, symmetric] split: option.splits)

lemma failed_from_cong:
  "(\<And>a. a \<in> set as \<Longrightarrow> eval ctx a None = eval ctx' a None) \<Longrightarrow> failed_from ctx i as = failed_from ctx' i as"
  by (induction as arbitrary: i) (auto intro!: and_then_cong)

text \<open>C34: In a parsed producer contract the request assertions of every operation are independent of the
  result: evaluated before there is a result they give what they give with any result.\<close>
theorem request_assertions_ignore_result:
  assumes "parse_producer_contract env bytes = Ok c" "(method, op) \<in> set (pc_operations c)"
  shows "first_failed_assertion (oc_request_assertions op) request None nrm =
         first_failed_assertion (oc_request_assertions op) request (Some result) nrm"
proof -
  obtain ops where "parse_operation env (pc_refinement_nodes c) (pc_domain_contract c) ops method = Ok (method, op)"
    using parsed_contract(3) [OF assms] by blast
  note ok = parsed_operation(1) [OF this]
  let ?ctx = "\<lparr>ctx_request = request, ctx_result = Some result, ctx_normalizer = nrm\<rparr>"
  have "eval (?ctx\<lparr>ctx_result := None\<rparr>) a None = eval ?ctx a None" if "a \<in> set (oc_request_assertions op)" for a
    using ok [OF that] by (intro eval_result_free [of "pc_refinement_nodes c"]) (auto simp: result_free_def)
  then show ?thesis unfolding first_failed_assertion_def by (intro failed_from_cong) simp
qed

section \<open>Requests and exchanges\<close>

text \<open>An exchange is accepted exactly if its request is accepted on its own, the result conforms to
  the result schema, and every exchange assertion evaluates to true.\<close>
theorem exchange_accepted_iff:
  "validate_semantic_exchange env method request result nrm = Ok () \<longleftrightarrow>
     validate_semantic_request_with_normalizer env method request nrm = Ok () \<and>
     (\<exists>c op. pinned_contract env = Ok c \<and> map_of (pc_operations c) method = Some op \<and>
        validate_schema (stack_refs env) (oc_result op) result (pc_domain_contract c) ''result'' = Ok () \<and>
        list_all (holds \<lparr>ctx_request = request, ctx_result = Some result, ctx_normalizer = nrm\<rparr>)
          (oc_exchange_assertions op))"
  by (auto simp: validate_semantic_exchange_def validate_semantic_request_with_normalizer_def evaluate_assertions_iff
      list_all_iff)

section \<open>The fixture\<close>

text \<open>
  A falsifiable assertion: some request (and, for an exchange assertion, result) of the right shape
  passes every assertion before it and fails this one.
\<close>

definition request_falsifiable :: "producer_contract \<Rightarrow> operation_contract \<Rightarrow> nat \<Rightarrow> bool" where
  "request_falsifiable c op i \<longleftrightarrow>
     (\<exists>request. conforms (pc_domain_contract c) (oc_request op) request \<and>
        first_failed_assertion (oc_request_assertions op) request None fixture_normalizer = Ok (Some i))"

definition exchange_falsifiable :: "producer_contract \<Rightarrow> operation_contract \<Rightarrow> nat \<Rightarrow> bool" where
  "exchange_falsifiable c op i \<longleftrightarrow>
     (\<exists>request result. conforms (pc_domain_contract c) (oc_request op) request \<and>
        conforms (pc_domain_contract c) (oc_result op) result \<and>
        first_failed_assertion (oc_request_assertions op) request None fixture_normalizer = Ok None \<and>
        first_failed_assertion (oc_exchange_assertions op) request (Some result) fixture_normalizer = Ok (Some i))"

lemma check_witness_request:
  assumes "check_witness env c fixture op baseline method PartRequest cursor i = Ok k"
  shows "request_falsifiable c op i"
proof -
  have "\<exists>request l u. validate_schema (stack_refs env) (oc_request op) request (pc_domain_contract c) l = Ok u \<and>
      first_failed_assertion (oc_request_assertions op) request None fixture_normalizer = Ok (Some i)"
    using assms unfolding check_witness_def assertion_partition.case
    by (elim ok_elims) (simp only: split_beta, elim ok_elims, simp only: not_not, blast)
  then show ?thesis unfolding request_falsifiable_def using validate_schema_sound by (metis (full_types) old.unit.exhaust)
qed

lemma check_witness_exchange:
  assumes "check_witness env c fixture op baseline method PartExchange cursor i = Ok k"
  shows "exchange_falsifiable c op i"
proof -
  have "\<exists>request result l l' u u'. validate_schema (stack_refs env) (oc_request op) request (pc_domain_contract c) l = Ok u \<and>
      validate_schema (stack_refs env) (oc_result op) result (pc_domain_contract c) l' = Ok u' \<and>
      first_failed_assertion (oc_request_assertions op) request None fixture_normalizer = Ok None \<and>
      first_failed_assertion (oc_exchange_assertions op) request (Some result) fixture_normalizer = Ok (Some i)"
    using assms unfolding check_witness_def assertion_partition.case
    by (elim ok_elims) (simp only: split_beta, elim ok_elims, simp only: not_not, blast)
  then show ?thesis unfolding exchange_falsifiable_def using validate_schema_sound by (metis (full_types) old.unit.exhaust)
qed

lemma check_witnesses_of_Ok:
  assumes "check_witnesses_of env c fixture cursor method = Ok k" "map_of (pc_operations c) method = Some op"
  shows "i < length (oc_request_assertions op) \<Longrightarrow> request_falsifiable c op i"
    "i < length (oc_exchange_assertions op) \<Longrightarrow> exchange_falsifiable c op i"
proof -
  obtain baseline where "fold_ok (\<lambda>cur pa.
        fold_ok (check_witness env c fixture op baseline method (fst pa)) cur [0..<length (snd pa)]) cursor
      [(PartRequest, oc_request_assertions op), (PartExchange, oc_exchange_assertions op)] = Ok k"
    using assms unfolding check_witnesses_of_def by (elim ok_elims) (simp del: fold_ok.simps)
  note loop = fold_ok_member [OF this]
  show "request_falsifiable c op i" if "i < length (oc_request_assertions op)"
  proof -
    obtain a b where "fold_ok (check_witness env c fixture op baseline method PartRequest) a
        [0..<length (oc_request_assertions op)] = Ok b"
      using loop [of "(PartRequest, oc_request_assertions op)"] by auto
    from fold_ok_member [OF this, of i] that show ?thesis by (auto dest: check_witness_request)
  qed
  show "exchange_falsifiable c op i" if "i < length (oc_exchange_assertions op)"
  proof -
    obtain a b where "fold_ok (check_witness env c fixture op baseline method PartExchange) a
        [0..<length (oc_exchange_assertions op)] = Ok b"
      using loop [of "(PartExchange, oc_exchange_assertions op)"] by auto
    from fold_ok_member [OF this, of i] that show ?thesis by (auto dest: check_witness_exchange)
  qed
qed

text \<open>C19: A verified fixture shows that no assertion of the contract is redundant: for every assertion of
  every operation there is an exchange that conforms to the schemas, passes all assertions before it and
  fails exactly this one.\<close>
theorem verified_fixture_falsifies_every_assertion:
  assumes "verify_fixture_bytes env bytes = Ok ()" "parse_producer_contract env (CONTRACT_BYTES env) = Ok c"
    "(method, op) \<in> set (pc_operations c)"
  shows "(\<forall>i < length (oc_request_assertions op). request_falsifiable c op i) \<and>
         (\<forall>i < length (oc_exchange_assertions op). exchange_falsifiable c op i)"
proof -
  have "\<exists>fixture k. fold_ok (check_witnesses_of env c fixture) 0 BOUNDED_OPERATIONS = Ok k"
    using assms(1) unfolding verify_fixture_bytes_def assms(2) Let_def by (elim ok_elims) blast
  then obtain fixture k where loop: "fold_ok (check_witnesses_of env c fixture) 0 BOUNDED_OPERATIONS = Ok k" by blast
  have keys: "map fst (pc_operations c) = BOUNDED_OPERATIONS" by (rule parsed_contract(1) [OF assms(2)])
  moreover have "distinct BOUNDED_OPERATIONS" by code_simp
  ultimately have "map_of (pc_operations c) method = Some op" using assms(3) by (metis map_of_is_SomeI)
  moreover have "method \<in> set BOUNDED_OPERATIONS" using assms(3) by (force simp flip: keys)
  from fold_ok_member [OF loop this] obtain a b where "check_witnesses_of env c fixture a method = Ok b" by blast
  ultimately show ?thesis using check_witnesses_of_Ok by blast
qed

end
