(* ===== verification/Contract_Sample.thy ===== *)
theory Contract_Sample
  imports Producer_Contract_Correct
begin

text \<open>
  A contract with the node declarations of the embedded one and three small operations, its fixture,
  and an environment that embeds them: concrete instances of the theorems on contracts and fixtures.
\<close>

section \<open>A contract\<close>

text \<open>The declarations of \<^verbatim>\<open>refinementNodes\<close> in the embedded contract: opcode, role and field markers.\<close>

definition declared_nodes :: "(string \<times> string \<times> (string \<times> string) list) list" where
  "declared_nodes =
     [(''all'', ''expression'', [(''values'', ''expression_array_nonempty'')]),
      (''any'', ''expression'', [(''values'', ''expression_array_nonempty'')]),
      (''array_at'', ''expression'', [(''array'', ''expression''), (''index'', ''expression'')]),
      (''array_length'', ''expression'', [(''value'', ''expression'')]),
      (''coalesce'', ''expression'', [(''values'', ''expression_array_nonempty'')]),
      (''concat'', ''expression'', [(''values'', ''expression_array_nonempty'')]),
      (''corpus_eq_ref'', ''assertion'', [(''corpus'', ''expression''), (''expected'', ''expression'')]),
      (''eq'', ''expression'', [(''left'', ''expression''), (''right'', ''expression'')]),
      (''field_eq_ref'', ''assertion'', [(''expected'', ''expression''), (''value'', ''expression'')]),
      (''finite_range'', ''assertion'', [(''maximum'', ''number''), (''minimum'', ''number''), (''value'', ''expression'')]),
      (''for_each'', ''assertion'', [(''collection'', ''expression''), (''predicate'', ''expression''), (''scope'', ''string'')]),
      (''iteration_pointer'', ''expression'', [(''path'', ''json_pointer''), (''scope'', ''string'')]),
      (''length_eq'', ''assertion'', [(''actual'', ''expression''), (''expected'', ''expression'')]),
      (''length_lte_ref'', ''assertion'', [(''actual'', ''expression''), (''limit'', ''expression'')]),
      (''literal'', ''expression'', [(''value'', ''scalar'')]),
      (''lt'', ''expression'', [(''left'', ''expression''), (''right'', ''expression'')]),
      (''lte'', ''expression'', [(''left'', ''expression''), (''right'', ''expression'')]),
      (''map_lookup'', ''expression'', [(''key'', ''expression''), (''keyField'', ''string''), (''map'', ''expression''), (''valueField'', ''string'')]),
      (''max'', ''expression'', [(''values'', ''expression_array_nonempty'')]),
      (''multiply'', ''expression'', [(''left'', ''expression''), (''right'', ''expression'')]),
      (''normalize_ref'', ''expression'', [(''dependency'', ''string''), (''value'', ''expression'')]),
      (''not'', ''expression'', [(''value'', ''expression'')]),
      (''ordered_score_desc_id_asc'', ''assertion'', [(''collection'', ''expression''), (''id'', ''expression''), (''idOrder'', ''id_order''), (''scope'', ''string''), (''score'', ''expression'')]),
      (''pointer'', ''expression'', [(''path'', ''json_pointer''), (''root'', ''root'')]),
      (''prefixed_identity'', ''assertion'', [(''identity'', ''expression''), (''prefix'', ''string''), (''value'', ''expression'')]),
      (''rank_is_index_plus_one'', ''assertion'', [(''collection'', ''expression''), (''rank'', ''expression''), (''scope'', ''string'')]),
      (''safe_integer_range'', ''assertion'', [(''maximum'', ''expression''), (''minimum'', ''number''), (''value'', ''expression'')]),
      (''set_contains'', ''expression'', [(''set'', ''expression''), (''value'', ''expression'')]),
      (''tuple_tags'', ''assertion'', [(''actual'', ''expression''), (''expected'', ''string_array''), (''field'', ''string'')]),
      (''unique_by'', ''assertion'', [(''collection'', ''expression''), (''key'', ''expression''), (''scope'', ''string'')])]"

definition sample_nodes :: nodes where
  "sample_nodes = map (\<lambda>(name, role, fs). (name, \<lparr>spec_role = role, spec_fields = fs\<rparr>)) declared_nodes"

definition sample_nodes_json :: json where
  "sample_nodes_json = JObject (map (\<lambda>(name, role, fs). (name,
     JObject [(''fields'', JObject (map (\<lambda>(f, marker). (f, JString marker)) fs)), (''role'', JString role)])) declared_nodes)"

definition sample_node :: contract_node where
  "sample_node = NObject [(''corpusId'', NString)]"

definition corpus_pointer :: "string \<Rightarrow> json" where
  "corpus_pointer root = JObject [(''op'', JString ''pointer''), (''path'', JString ''/corpusId''), (''root'', JString root)]"

definition corpus_named :: json where
  "corpus_named = JObject
     [(''expected'', JObject [(''op'', JString ''literal''), (''value'', JBool True)]),
      (''op'', JString ''field_eq_ref''),
      (''value'', JObject
         [(''op'', JString ''not''),
          (''value'', JObject
             [(''left'', corpus_pointer ''request''), (''op'', JString ''eq''),
              (''right'', JObject [(''op'', JString ''literal''), (''value'', JString '''')])])])]"

definition corpus_echoed :: json where
  "corpus_echoed = JObject
     [(''corpus'', corpus_pointer ''result''), (''expected'', corpus_pointer ''request''), (''op'', JString ''corpus_eq_ref'')]"

definition sample_operation_json :: json where
  "sample_operation_json = JObject
     [(''refinement'', JObject
         [(''exchangeAssertions'', JArray [corpus_echoed]), (''requestAssertions'', JArray [corpus_named]),
          (''version'', JString REFINEMENT_IR_VERSION)]),
      (''request'', contract_node_json sample_node), (''result'', contract_node_json sample_node)]"

definition sample_contract_json :: json where
  "sample_contract_json = JObject
     [(''contractVersion'', JString CONTRACT_VERSION),
      (''operations'', JObject (map (\<lambda>m. (m, sample_operation_json)) BOUNDED_OPERATIONS)),
      (''refinementIrVersion'', JString REFINEMENT_IR_VERSION), (''refinementNodes'', sample_nodes_json)]"

definition sample_operation :: operation_contract where
  "sample_operation = \<lparr>oc_request = sample_node, oc_result = sample_node, oc_request_assertions = [corpus_named],
     oc_exchange_assertions = [corpus_echoed]\<rparr>"

definition sample_contract :: producer_contract where
  "sample_contract = \<lparr>pc_contract_version = CONTRACT_VERSION, pc_refinement_ir_version = REFINEMENT_IR_VERSION,
     pc_operations = map (\<lambda>m. (m, sample_operation)) BOUNDED_OPERATIONS, pc_refinement_nodes = sample_nodes,
     pc_domain_contract = []\<rparr>"

section \<open>Its fixture and an environment\<close>

definition sample_exchange :: fixture_exchange where
  "sample_exchange = \<lparr>fx_request = JObject [(''corpusId'', JString ''c'')], fx_result = JObject [(''corpusId'', JString ''c'')]\<rparr>"

definition sample_fixture :: retrieval_fixture where
  "sample_fixture =
     \<lparr>rf_fixture_version = EXPECTED_FIXTURE_VERSION, rf_witness_version = EXPECTED_WITNESS_VERSION,
      rf_exchanges = map (\<lambda>m. (m, sample_exchange)) BOUNDED_OPERATIONS,
      rf_witnesses = concat (map (\<lambda>m.
        [\<lparr>aw_operation = m, aw_partition = PartRequest, aw_assertion_index = 0, aw_patch =
           \<lparr>patch_root = RootRequest, patch_path = ''/corpusId'', patch_value = JString ''''\<rparr>\<rparr>,
         \<lparr>aw_operation = m, aw_partition = PartExchange, aw_assertion_index = 0, aw_patch =
           \<lparr>patch_root = RootResult, patch_path = ''/corpusId'', patch_value = JString ''d''\<rparr>\<rparr>]) BOUNDED_OPERATIONS)\<rparr>"

text \<open>The embedded files are told apart by their first character; the digest names the pinned one.\<close>

definition sample_env :: contract_env where
  "sample_env =
     \<lparr>from_slice_value = (\<lambda>s. if take 1 s = ''c'' then Ok sample_contract_json
        else Ok (JObject [(''contractVersion'', JString ''aira-synapse-domain-contract@1''), (''contracts'', JObject [])])),
      from_slice_pin = (\<lambda>_. Ok expected_pin), from_slice_manifest = (\<lambda>_. Err ''absent''),
      from_slice_fixture = (\<lambda>_. Ok sample_fixture),
      sha256_hex = (\<lambda>s. if take 1 s = ''d'' then ''2d05969a93037c6c22f46b77e068d5d5d2fa5f85988eb923e7f7d7d78ab46ef1''
        else ''b50a00b5a87f91305b41d97b6f91cd19741e4bbc8ea1b4e4e976c83f40b4e821''),
      json_to_vec = (\<lambda>_. ''''), debug_node = (\<lambda>_. ''''), stack_refs = 0,
      PIN_BYTES = ''p'', CONTRACT_BYTES = ''c'', FIXTURE_BYTES = ''f'', MANIFEST_BYTES = ''m'',
      DOMAIN_BYTES = replicate 6211 CHR ''d'', DOMAIN_MANIFEST_BYTES = replicate 455 CHR ''e''\<rparr>"

section \<open>Evaluation\<close>

text \<open>Evaluation from the outside in: the rest of a computation is left alone until its value is known.\<close>

lemma lazy_congs:
  "x = x' \<Longrightarrow> and_then x f = and_then x' f" "xs = ys \<Longrightarrow> each b i xs = each b i ys"
  "xs = ys \<Longrightarrow> traverse g xs = traverse g ys" "xs = ys \<Longrightarrow> any_ok t xs = any_ok t ys"
  "ps = qs \<Longrightarrow> fold_ok h acc ps = fold_ok h acc qs"
  by simp_all

lemmas sample_defs = corpus_pointer_def corpus_named_def corpus_echoed_def sample_node_def

lemmas json_defs = object_def as_object_def exact_keys_def str_or_def str_field_def json_str_def ok_or_def is_json_scalar_def

lemma sample_map_of: "map_of sample_nodes k = map_option (\<lambda>(role, fs). \<lparr>spec_role = role, spec_fields = fs\<rparr>) (map_of declared_nodes k)"
proof -
  have "map_of (map (\<lambda>(name, role, fs). (name, \<lparr>spec_role = role, spec_fields = fs\<rparr>)) xs) k =
      map_option (\<lambda>(role, fs). \<lparr>spec_role = role, spec_fields = fs\<rparr>) (map_of xs k)" for xs :: "(string \<times> string \<times> (string \<times> string) list) list"
    by (induction xs) auto
  then show ?thesis by (simp add: sample_nodes_def)
qed

lemmas sample_lookup = sample_map_of declared_nodes_def refinement_handler_def handler_inventory_def
  refinement_field_marker_def marker_inventory_def

lemma sample_domain: "parse_domain_contract sample_env = Ok []"
  by (simp add: parse_domain_contract_def sample_env_def len_u64_def parse_json_def json_defs insert_commute)

lemma sample_nodes_parsed: "parse_refinement_nodes sample_nodes_json = Ok sample_nodes"
  by code_simp

lemma sample_validated:
  "validate_ir_expression corpus_named ''assertion'' sample_nodes label = Ok ()"
  "validate_ir_expression corpus_echoed ''assertion'' sample_nodes label = Ok ()"
  by (simp_all add: sample_defs validate_ir_expression.simps validate_ir_field.simps json_defs sample_lookup insert_commute
      validate_json_pointer_def cong: lazy_congs)

lemma sample_result_pointers:
  "contains_result_pointer corpus_named sample_nodes = Ok False" "contains_result_pointer corpus_echoed sample_nodes = Ok True"
  by (simp_all add: sample_defs contains_result_pointer.simps child_expressions_def json_defs sample_lookup cong: lazy_congs)

lemma corpus_structural: "structural_contract_at debug depth sample_node ''/corpusId'' [] = Ok NString"
  by (simp add: structural_contract_at_def validate_json_pointer_def slice_from_1_def less_char_def structural_child_def
      sample_node_def cong: lazy_congs)

lemma sample_pointers:
  "validate_assertion_pointer debug depth corpus_named sample_node sample_node [] sample_nodes = Ok ()"
  "validate_assertion_pointer debug depth corpus_echoed sample_node sample_node [] sample_nodes = Ok ()"
  by (simp_all add: corpus_pointer_def corpus_named_def corpus_echoed_def validate_assertion_pointer_def
      walk_refinement_expression.simps expression_contract.simps assertion_scopes_def child_expressions_def json_defs
      sample_lookup corpus_structural cong: lazy_congs)

lemma sample_operation_parsed:
  "m \<in> set BOUNDED_OPERATIONS \<Longrightarrow>
     parse_operation env sample_nodes [] (map (\<lambda>m. (m, sample_operation_json)) BOUNDED_OPERATIONS) m = Ok (m, sample_operation)"
proof -
  assume "m \<in> set BOUNDED_OPERATIONS"
  then have "map_of (map (\<lambda>m. (m, sample_operation_json)) BOUNDED_OPERATIONS) m = Some sample_operation_json"
    by (auto simp: BOUNDED_OPERATIONS_def)
  moreover have "parse_contract_node (contract_node_json sample_node) label = Ok sample_node" for label
    by (rule parse_rendered_node) (simp add: sample_node_def)
  moreover have "validate_external_dependencies sample_node [] = Ok ()" by (simp add: sample_node_def)
  ultimately show ?thesis
    by (simp add: parse_operation_def Let_def sample_operation_json_def json_defs parse_assertions_def sample_validated
        validate_assertion_pointers_def sample_result_pointers sample_pointers sample_operation_def insert_commute
        map_err_def cong: lazy_congs)
qed

lemma sample_eval:
  "ctx_request ctx = JObject [(''corpusId'', JString a)] \<Longrightarrow> eval ctx corpus_named None = Ok (owned_bool (a \<noteq> ''''))"
  "ctx_request ctx = JObject [(''corpusId'', JString a)] \<Longrightarrow> ctx_result ctx = Some (JObject [(''corpusId'', JString b)]) \<Longrightarrow>
     eval ctx corpus_echoed None = Ok (owned_bool (b = a))"
  by (simp_all add: corpus_pointer_def corpus_named_def corpus_echoed_def eval.simps eval_handler_def eval_defs
      eval_pointer_def sub_eval_def expr_field_def expr_str_def json_defs refinement_handler_def handler_inventory_def
      pointer_value_def pointer_values_def slice_from_1_def less_char_def select_values_def values_equal_def bool_value_def
      one_def as_bool_def cong: lazy_congs)

lemma sample_contract_parsed: "parse_producer_contract sample_env ''c'' = Ok sample_contract"
proof -
  have "from_slice_value sample_env ''c'' = Ok sample_contract_json" by (simp add: sample_env_def)
  moreover have "traverse (parse_operation sample_env sample_nodes [] (map (\<lambda>m. (m, sample_operation_json)) BOUNDED_OPERATIONS))
      BOUNDED_OPERATIONS = Ok (map (\<lambda>m. (m, sample_operation)) BOUNDED_OPERATIONS)"
    using sample_operation_parsed by (simp add: BOUNDED_OPERATIONS_def)
  ultimately show ?thesis
    by (simp add: parse_producer_contract_def parse_json_def sample_contract_json_def str_or_def str_field_def json_str_def
        sample_nodes_parsed sample_domain ok_or_def sample_contract_def image_image insert_commute)
qed

lemma sample_assertions:
  "first_failed_assertion [corpus_named] (JObject [(''corpusId'', JString a)]) r nrm = Ok (if a = '''' then Some 0 else None)"
  "first_failed_assertion [corpus_echoed] (JObject [(''corpusId'', JString a)]) (Some (JObject [(''corpusId'', JString b)])) nrm =
     Ok (if a = b then None else Some 0)"
  by (auto simp: first_failed_assertion_def sample_eval bool_value_def one_def as_bool_def ok_or_def)

lemma sample_schema: "validate_schema depth sample_node (JObject [(''corpusId'', JString a)]) [] path = Ok ()"
  by (simp add: sample_node_def is_json_string_def)

lemma sample_operations: "m \<in> set BOUNDED_OPERATIONS \<Longrightarrow> map_of (pc_operations sample_contract) m = Some sample_operation"
  "m \<in> set BOUNDED_OPERATIONS \<Longrightarrow> map_of (rf_exchanges sample_fixture) m = Some sample_exchange"
  by (auto simp: sample_contract_def sample_fixture_def BOUNDED_OPERATIONS_def)

lemma sample_parts:
  "oc_request sample_operation = sample_node" "oc_result sample_operation = sample_node"
  "oc_request_assertions sample_operation = [corpus_named]" "oc_exchange_assertions sample_operation = [corpus_echoed]"
  "pc_domain_contract sample_contract = []" "fx_request sample_exchange = JObject [(''corpusId'', JString ''c'')]"
  "fx_result sample_exchange = JObject [(''corpusId'', JString ''c'')]"
  by (simp_all add: sample_operation_def sample_contract_def sample_exchange_def)

lemma sample_replaced:
  "replace_json_pointer (JObject [(''corpusId'', JString a)]) ''/corpusId'' (JString b) = Ok (JObject [(''corpusId'', JString b)])"
  by code_simp

lemma sample_baseline: "m \<in> set BOUNDED_OPERATIONS \<Longrightarrow> check_baseline sample_env sample_contract sample_fixture m = Ok ()"
  by (simp add: check_baseline_def sample_operations ok_or_def sample_parts sample_schema sample_assertions cong: lazy_congs)

lemma sample_baselines: "each (\<lambda>_ m. check_baseline sample_env sample_contract sample_fixture m) 0 BOUNDED_OPERATIONS = Ok ()"
  using sample_baseline by (simp add: BOUNDED_OPERATIONS_def)

lemma sample_witness:
  "get_at (rf_witnesses sample_fixture) k = Some \<lparr>aw_operation = m, aw_partition = PartRequest, aw_assertion_index = 0, aw_patch =
       \<lparr>patch_root = RootRequest, patch_path = ''/corpusId'', patch_value = JString ''''\<rparr>\<rparr> \<Longrightarrow>
     check_witness sample_env sample_contract sample_fixture sample_operation sample_exchange m PartRequest k 0 = Ok (Suc k)"
  "get_at (rf_witnesses sample_fixture) k = Some \<lparr>aw_operation = m, aw_partition = PartExchange, aw_assertion_index = 0, aw_patch =
       \<lparr>patch_root = RootResult, patch_path = ''/corpusId'', patch_value = JString ''d''\<rparr>\<rparr> \<Longrightarrow>
     check_witness sample_env sample_contract sample_fixture sample_operation sample_exchange m PartExchange k 0 = Ok (Suc k)"
  by (simp_all add: check_witness_def ok_or_def sample_parts sample_replaced
      sample_schema sample_assertions cong: lazy_congs)

lemma sample_witnesses: "fold_ok (check_witnesses_of sample_env sample_contract sample_fixture) 0 BOUNDED_OPERATIONS = Ok 6"
proof -
  let ?q = "\<lambda>m. \<lparr>aw_operation = m, aw_partition = PartRequest, aw_assertion_index = 0, aw_patch =
       \<lparr>patch_root = RootRequest, patch_path = ''/corpusId'', patch_value = JString ''''\<rparr>\<rparr>"
  let ?x = "\<lambda>m. \<lparr>aw_operation = m, aw_partition = PartExchange, aw_assertion_index = 0, aw_patch =
       \<lparr>patch_root = RootResult, patch_path = ''/corpusId'', patch_value = JString ''d''\<rparr>\<rparr>"
  have step: "check_witnesses_of sample_env sample_contract sample_fixture k m = Ok (Suc (Suc k))"
    if "m \<in> set BOUNDED_OPERATIONS" "get_at (rf_witnesses sample_fixture) k = Some (?q m)"
      "get_at (rf_witnesses sample_fixture) (Suc k) = Some (?x m)" for k m
    using sample_witness(1) [OF that(2)] sample_witness(2) [OF that(3)] that(1)
    by (simp add: check_witnesses_of_def sample_operations sample_parts ok_or_def)
  have "get_at (rf_witnesses sample_fixture) 0 = Some (?q CANDIDATE_SEARCH)"
    "get_at (rf_witnesses sample_fixture) 1 = Some (?x CANDIDATE_SEARCH)"
    "get_at (rf_witnesses sample_fixture) 2 = Some (?q FACT_EXPAND)" "get_at (rf_witnesses sample_fixture) 3 = Some (?x FACT_EXPAND)"
    "get_at (rf_witnesses sample_fixture) 4 = Some (?q PPR_MATERIALIZE)"
    "get_at (rf_witnesses sample_fixture) 5 = Some (?x PPR_MATERIALIZE)"
    by (simp_all add: sample_fixture_def get_at_def BOUNDED_OPERATIONS_def)
  then show ?thesis
    using step [of CANDIDATE_SEARCH 0] step [of FACT_EXPAND 2] step [of PPR_MATERIALIZE 4]
    by (simp add: BOUNDED_OPERATIONS_def numeral_eq_Suc)
qed

lemma sample_fixture_verified: "verify_fixture_bytes sample_env ''f'' = Ok ()"
proof -
  have "from_slice_fixture sample_env ''f'' = Ok sample_fixture" "CONTRACT_BYTES sample_env = ''c''"
    by (simp_all add: sample_env_def)
  moreover have "rf_fixture_version sample_fixture = EXPECTED_FIXTURE_VERSION"
      "rf_witness_version sample_fixture = EXPECTED_WITNESS_VERSION"
      "set (map fst (rf_exchanges sample_fixture)) = set BOUNDED_OPERATIONS" "length (rf_witnesses sample_fixture) = 6"
    by (simp_all add: sample_fixture_def BOUNDED_OPERATIONS_def)
  moreover have "sum_list (map (\<lambda>p. length (oc_request_assertions (snd p)) + length (oc_exchange_assertions (snd p)))
      (pc_operations sample_contract)) = 6" by (simp add: sample_contract_def sample_operation_def BOUNDED_OPERATIONS_def)
  ultimately show ?thesis
    by (simp add: verify_fixture_bytes_def parse_json_def sample_contract_parsed sample_baselines sample_witnesses Let_def)
qed

section \<open>Instances\<close>

theorem schema_validation_decides_conformance_witness:
  "conforms [(''passage'', sample_node)] (NArray (NExternalRef DOMAIN_DEPENDENCY ''passage''))
     (JArray [JObject [(''corpusId'', JString ''c'')]])"
proof -
  have "ranked_domain (\<lambda>_. 0) [(''passage'', sample_node)]" by (simp add: ranked_domain_def sample_node_def)
  from schema_validation_decides_conformance [OF this, of "NArray (NExternalRef DOMAIN_DEPENDENCY ''passage'')" 1
      "JArray [JObject [(''corpusId'', JString ''c'')]]" "''request''"]
  show ?thesis by (simp add: sample_node_def is_json_string_def)
qed

theorem schema_parse_roundtrip_witness:
  "parse_contract_node (JObject [(''items'', JObject [(''kind'', JString ''string'')]), (''kind'', JString ''array'')]) ''x'' =
     Ok (NArray NString)"
proof -
  have "json_wf (JObject [(''items'', JObject [(''kind'', JString ''string'')]), (''kind'', JString ''array'')])"
    by (simp add: less_char_def)
  from schema_parse_roundtrip [OF this] show ?thesis by simp
qed

theorem validated_expression_never_panics_witness:
  "eval \<lparr>ctx_request = JNull, ctx_result = None, ctx_normalizer = (\<lambda>_ _. None)\<rparr> corpus_named None \<noteq> Panic"
proof (rule validated_expression_never_panics)
  show "pointer_paths sample_nodes" by code_simp
  show "validate_ir_expression corpus_named ''assertion'' sample_nodes ''a'' = Ok ()" by (rule sample_validated)
qed

theorem request_assertions_ignore_result_witness:
  "first_failed_assertion [corpus_named] (JObject [(''corpusId'', JString '''')]) None (\<lambda>_ _. None) =
   first_failed_assertion [corpus_named] (JObject [(''corpusId'', JString '''')]) (Some JNull) (\<lambda>_ _. None)"
  using request_assertions_ignore_result [OF sample_contract_parsed, of CANDIDATE_SEARCH sample_operation]
  by (simp add: sample_contract_def sample_operation_def BOUNDED_OPERATIONS_def)

theorem verified_fixture_falsifies_every_assertion_witness:
  "request_falsifiable sample_contract sample_operation 0 \<and> exchange_falsifiable sample_contract sample_operation 0"
proof -
  have "CONTRACT_BYTES sample_env = ''c''" by (simp add: sample_env_def)
  with verified_fixture_falsifies_every_assertion [OF sample_fixture_verified, of sample_contract CANDIDATE_SEARCH sample_operation]
  show ?thesis using sample_contract_parsed by (simp add: sample_contract_def sample_operation_def BOUNDED_OPERATIONS_def)
qed

end
