(* ===== verification/Refinement_Assertions.thy ===== *)
theory Refinement_Assertions
  imports Refinement_Eval_Correct Retrieval_Ranking_Correct
begin

text \<open>
  What the assertions over collections say, and that the order in which the bounded retrieval runtime
  returns its hits is the order the contract asserts.
\<close>

section \<open>Scores\<close>

text \<open>A finite score as arithmetic produces it, other than negative zero.\<close>

definition plain_score :: "f64 \<Rightarrow> bool" where
  "plain_score x = (case x of F64_Fin neg m e \<Rightarrow> -1074 \<le> e \<and> \<not> (neg \<and> m = 0) | _ \<Rightarrow> False)"

definition scaled :: "bool \<Rightarrow> nat \<Rightarrow> int \<Rightarrow> int" where
  "scaled neg m e = (if neg then -1 else 1) * (int m * 2 ^ nat (e + 1074))"

lemma scaled_num: "-1074 \<le> e \<Longrightarrow> scaled neg m e * f64_den e = f64_num neg m e * 2 ^ 1074"
proof (cases "0 \<le> e")
  case True
  then have "nat (e + 1074) = nat e + 1074" "nat (- e) = 0" by auto
  then show ?thesis by (simp add: scaled_def f64_num_def f64_den_def power_add)
next
  case False
  assume "-1074 \<le> e"
  with False have "nat (e + 1074) + nat (- e) = 1074" "nat e = 0" by auto
  then have "(2 :: int) ^ nat (e + 1074) * 2 ^ nat (- e) = 2 ^ 1074" by (metis power_add)
  with \<open>nat e = 0\<close> show ?thesis by (simp add: scaled_def f64_num_def f64_den_def mult.assoc)
qed

lemma f64_le_scaled:
  assumes "-1074 \<le> e" "-1074 \<le> f"
  shows "f64_le (F64_Fin s m e) (F64_Fin t n f) \<longleftrightarrow> scaled s m e \<le> scaled t n f"
proof -
  define P :: int where "P = 2 ^ 1074"
  have P: "0 < P" by (simp add: P_def)
  have "scaled s m e \<le> scaled t n f \<longleftrightarrow>
      scaled s m e * (f64_den e * f64_den f) \<le> scaled t n f * (f64_den e * f64_den f)"
    using mult_le_cancel_right_pos [of "f64_den e * f64_den f"] by simp
  also have "scaled s m e * (f64_den e * f64_den f) = (scaled s m e * f64_den e) * f64_den f" by simp
  also have "scaled t n f * (f64_den e * f64_den f) = (scaled t n f * f64_den f) * f64_den e" by simp
  also have "(scaled s m e * f64_den e) * f64_den f = P * (f64_num s m e * f64_den f)"
    unfolding scaled_num [OF assms(1)] P_def by (simp only: ac_simps)
  also have "(scaled t n f * f64_den f) * f64_den e = P * (f64_num t n f * f64_den e)"
    unfolding scaled_num [OF assms(2)] P_def by (simp only: ac_simps)
  finally show ?thesis using P by (simp add: mult_le_cancel_left_pos)
qed

lemma total_key_scaled: "total_key (F64_Fin neg m e) = (if neg then scaled neg m e - 1 else scaled neg m e)"
  by (simp add: total_key_def scaled_def Let_def)

lemma scaled_sign: "\<not> (neg \<and> m = 0) \<Longrightarrow> if neg then scaled neg m e < 0 else 0 \<le> scaled neg m e"
  by (simp add: scaled_def)

text \<open>On plain scores the comparisons of \<^verbatim>\<open>f64\<close> agree with \<^verbatim>\<open>total_cmp\<close>.\<close>

lemma plain_le: "plain_score x \<Longrightarrow> plain_score y \<Longrightarrow> f64_le x y \<longleftrightarrow> total_key x \<le> total_key y"
proof -
  assume "plain_score x" "plain_score y"
  then obtain s m e t n f where xy: "x = F64_Fin s m e" "y = F64_Fin t n f" "-1074 \<le> e" "-1074 \<le> f"
    "\<not> (s \<and> m = 0)" "\<not> (t \<and> n = 0)" by (auto simp: plain_score_def split: f64.splits)
  show ?thesis unfolding xy(1,2) f64_le_scaled [OF xy(3,4)] total_key_scaled
    using scaled_sign [OF xy(5), of e] scaled_sign [OF xy(6), of f] by (cases s; cases t) auto
qed

lemma plain_cmp:
  assumes "plain_score x" "plain_score y"
  shows "f64_lt x y \<longleftrightarrow> total_key x < total_key y" "f64_eq x y \<longleftrightarrow> total_key x = total_key y"
  using plain_le [OF assms] plain_le [OF assms(2,1)] by (auto simp: f64_lt_def f64_eq_def)

section \<open>The order of hits\<close>

text \<open>The score and the identifier the assertion reads from an item are those of the ranked item.\<close>

definition reads_rank ::
  "(json \<Rightarrow> evaluated) \<Rightarrow> (json \<Rightarrow> evaluated) \<Rightarrow> ('a ranked_item \<Rightarrow> json) \<Rightarrow> 'a ranked_item \<Rightarrow> bool" where
  "reads_rank score_of id_of enc x \<longleftrightarrow>
     and_then (score_of (enc x)) (\<lambda>v. number_value v ''ordered score'') = Ok (ri_score x) \<and>
     and_then (id_of (enc x)) (\<lambda>v. string_value v ''ordered id'') = Ok (ri_id x)"

lemma ordered_loop_step:
  assumes "reads_rank score_of id_of enc x"
  shows "ordered_loop score_of id_of prev (enc x # items) =
    (if (case prev of None \<Rightarrow> False | Some (s, i) \<Rightarrow> f64_lt s (ri_score x) \<or>
           (f64_eq (ri_score x) s \<and> encode_utf16 (ri_id x) < encode_utf16 i))
     then Ok (owned_bool False) else ordered_loop score_of id_of (Some (ri_score x, ri_id x)) items)"
  using assms by (auto simp: reads_rank_def split: option.splits)

lemma ordered_loop_from:
  "list_all (\<lambda>x. reads_rank score_of id_of enc x \<and> plain_score (ri_score x)) (y # items) \<Longrightarrow>
     ordered_loop score_of id_of (Some (ri_score y, ri_id y)) (map enc items) =
       Ok (owned_bool (sorted (map rank_key (y # items))))"
proof (induction items arbitrary: y)
  case (Cons x items)
  have step: "(f64_lt (ri_score y) (ri_score x) \<or> (f64_eq (ri_score x) (ri_score y) \<and>
      encode_utf16 (ri_id x) < encode_utf16 (ri_id y))) \<longleftrightarrow> rank_key x < rank_key y"
    using Cons.prems by (simp only: list.pred_inject plain_cmp rank_key_def less_prod_simp) linarith
  show ?case
  proof (cases "rank_key x < rank_key y")
    case True
    then have "\<not> sorted (map rank_key (y # x # items))" by (auto simp: not_le)
    moreover have "reads_rank score_of id_of enc x" using Cons.prems by simp
    ultimately show ?thesis using True step
      by (simp only: list.map ordered_loop_step option.case prod.case if_True)
  next
    case False
    have "sorted (map rank_key (y # x # items)) \<longleftrightarrow> sorted (map rank_key (x # items))"
      using False by (auto simp: not_less intro: order.trans)
    moreover have "reads_rank score_of id_of enc x" using Cons.prems by simp
    moreover have "ordered_loop score_of id_of (Some (ri_score x, ri_id x)) (map enc items) =
        Ok (owned_bool (sorted (map rank_key (x # items))))" using Cons.IH [of x] Cons.prems by simp
    ultimately show ?thesis using False step
      by (simp only: list.map(2) [of enc] ordered_loop_step option.case prod.case if_False)
  qed
qed simp

lemma ordered_loop_is_sorted:
  assumes "list_all (\<lambda>x. reads_rank score_of id_of enc x \<and> plain_score (ri_score x)) items"
  shows "ordered_loop score_of id_of None (map enc items) = Ok (owned_bool (sorted (map rank_key items)))"
proof (cases items)
  case (Cons y rest)
  with assms have "reads_rank score_of id_of enc y" by simp
  then have "ordered_loop score_of id_of None (map enc items) = ordered_loop score_of id_of (Some (ri_score y, ri_id y)) (map enc rest)"
    by (simp only: Cons list.map ordered_loop_step option.case if_False)
  also have "\<dots> = Ok (owned_bool (sorted (map rank_key items)))"
    using ordered_loop_from assms unfolding Cons by blast
  finally show ?thesis .
qed simp

text \<open>C35: The hits that bounded ranking returns pass the contract's order assertion, whatever heap with the
  laws of \<^verbatim>\<open>BinaryHeap\<close> is used, if no score is negative zero; conversely the assertion holds of a
  list of such hits only if it is in the rank order.\<close>
theorem ranked_hits_pass_order_assertion:
  assumes "rank_heap H" "retain_all H limit items (heap_new H) = Ok h"
    "\<forall>x \<in> set items. reads_rank score_of id_of enc x \<and> plain_score (ri_score x)"
  shows "ordered_loop score_of id_of None (map enc (finish_bounded_ranking H h)) = Ok (owned_bool True) \<and>
    ordered_loop score_of id_of None (map enc items) = Ok (owned_bool (sorted (map rank_key items)))"
proof
  from rank_heap.finish_ranking [OF assms(1), of limit items] assms(2)
  have h: "map rank_key (finish_bounded_ranking H h) = take limit (sort (map rank_key items))"
    "mset (finish_bounded_ranking H h) \<subseteq># mset items" by auto
  have "set (finish_bounded_ranking H h) \<subseteq> set items" using set_mset_mono [OF h(2)] by simp
  with assms(3) have "list_all (\<lambda>x. reads_rank score_of id_of enc x \<and> plain_score (ri_score x)) (finish_bounded_ranking H h)"
    by (auto simp: list_all_iff)
  from ordered_loop_is_sorted [OF this]
  show "ordered_loop score_of id_of None (map enc (finish_bounded_ranking H h)) = Ok (owned_bool True)"
    by (simp add: h(1) sorted_wrt_take)
  show "ordered_loop score_of id_of None (map enc items) = Ok (owned_bool (sorted (map rank_key items)))"
    by (rule ordered_loop_is_sorted) (use assms(3) in \<open>simp add: list_all_iff\<close>)
qed

text \<open>A hit as the runtime encodes it, and the pointers with which the contract reads it.\<close>

definition sample_hit :: "unit ranked_item \<Rightarrow> json" where
  "sample_hit x = JObject [(''id'', JString (ri_id x)), (''score'', JNumber (Float (ri_score x)))]"

theorem ranked_hits_pass_order_assertion_witness:
  "\<exists>h. retain_all list_heap 2 sample_items (heap_new list_heap) = Ok h \<and>
     ordered_loop (\<lambda>v. pointer_value v ''/score'') (\<lambda>v. pointer_value v ''/id'') None
       (map sample_hit (finish_bounded_ranking list_heap h)) = Ok (owned_bool True)"
proof -
  obtain h where h: "retain_all list_heap 2 sample_items (heap_new list_heap) = Ok h"
    using rank_heap.finish_ranking [OF list_heap.rank_heap_axioms, of 2 sample_items] by blast
  have "reads_rank (\<lambda>v. pointer_value v ''/score'') (\<lambda>v. pointer_value v ''/id'') sample_hit x \<and> plain_score (ri_score x)"
    if "x \<in> set sample_items" for x
    using that by (auto simp: sample_items_def reads_rank_def sample_hit_def plain_score_def pointer_value_def pointer_values_def
        slice_from_1_def less_char_def select_values_def number_value_def string_value_def one_def as_f64_def f64_is_finite_def)
  with ranked_hits_pass_order_assertion [OF list_heap.rank_heap_axioms h] h show ?thesis by blast
qed

text \<open>With a negative zero the two orders differ: ranked after zero whatever its identifier, it is taken
  for equal by the assertion, which then wants the identifiers in order.\<close>

lemma negative_zero_breaks_the_order:
  assumes "reads_rank score_of id_of enc x" "reads_rank score_of id_of enc y"
    "ri_score x = f64_zero False" "ri_score y = f64_zero True" "encode_utf16 (ri_id y) < encode_utf16 (ri_id x)"
  shows "sorted (map rank_key [x, y])"
    "ordered_loop score_of id_of None (map enc [x, y]) = Ok (owned_bool False)"
proof -
  show "sorted (map rank_key [x, y])" using assms(3,4) by (simp add: rank_key_def total_key_def)
  have "f64_lt (ri_score x) (ri_score y) = False" "f64_eq (ri_score y) (ri_score x)"
    by (simp_all add: assms(3,4) f64_lt_def f64_eq_def f64_num_def)
  with assms(5) show "ordered_loop score_of id_of None (map enc [x, y]) = Ok (owned_bool False)"
    by (simp only: list.map ordered_loop_step [OF assms(1)] ordered_loop_step [OF assms(2)] option.case prod.case if_False
        if_True simp_thms)
qed

section \<open>Unique keys\<close>

text \<open>A value that stands for one JSON value, borrowed or owned.\<close>

definition value_is :: "eval_value \<Rightarrow> json \<Rightarrow> bool" where
  "value_is v k \<longleftrightarrow> v = Ref k \<or> v = Owned k"

lemma values_equal_exact: "value_is s k \<Longrightarrow> value_is v w \<Longrightarrow> values_equal s v = Ok True \<longleftrightarrow> json_eq k w"
  by (auto simp: value_is_def values_equal_def dest: json_eq_sym(1))

lemma seen_exact:
  "list_all2 value_is seen ks \<Longrightarrow> value_is v w \<Longrightarrow>
     list_ex (\<lambda>s. values_equal s v = Ok True) seen \<longleftrightarrow> (\<exists>k \<in> set ks. json_eq k w)"
  by (induction rule: list_all2_induct) (simp_all add: values_equal_exact)

lemma unique_loop_seen:
  "list_all2 value_is seen ks \<Longrightarrow> \<forall>i \<in> set items. \<exists>v. key_of (enc i) = Ok v \<and> value_is v (key i) \<Longrightarrow>
    unique_loop key_of seen (map enc items) =
      Ok (owned_bool (sorted_wrt (\<lambda>a b. \<not> json_eq a b) (map key items) \<and>
        (\<forall>k \<in> set ks. \<forall>i \<in> set items. \<not> json_eq k (key i))))"
proof (induction items arbitrary: seen ks)
  case (Cons i items)
  obtain v where v: "key_of (enc i) = Ok v" "value_is v (key i)" using Cons.prems(2) by auto
  note ex = seen_exact [OF Cons.prems(1) v(2)]
  show ?case
  proof (cases "\<exists>k \<in> set ks. json_eq k (key i)")
    case True
    then have "unique_loop key_of seen (map enc (i # items)) = Ok (owned_bool False)" using v(1) ex by simp
    moreover from True have "\<not> (\<forall>k \<in> set ks. \<forall>j \<in> set (i # items). \<not> json_eq k (key j))" by auto
    ultimately show ?thesis by (simp only: simp_thms)
  next
    case False
    then have "unique_loop key_of seen (map enc (i # items)) = unique_loop key_of (seen @ [v]) (map enc items)"
      using v(1) ex by simp
    also have "\<dots> = Ok (owned_bool (sorted_wrt (\<lambda>a b. \<not> json_eq a b) (map key items) \<and>
        (\<forall>k \<in> set (ks @ [key i]). \<forall>i \<in> set items. \<not> json_eq k (key i))))"
      using Cons.prems v(2) by (intro Cons.IH) (auto intro: list_all2_appendI)
    finally show ?thesis using False by (auto simp: ball_Un)
  qed
qed simp

text \<open>The uniqueness assertion over a collection whose keys are single values holds exactly if the keys
  are pairwise different as JSON values.\<close>
theorem unique_assertion_exact:
  assumes "\<forall>i \<in> set items. \<exists>v. key_of (enc i) = Ok v \<and> value_is v (key i)"
  shows "unique_loop key_of [] (map enc items) =
    Ok (owned_bool (\<forall>j < length items. \<forall>i < j. \<not> json_eq (key (items ! i)) (key (items ! j))))"
proof -
  have "sorted_wrt (\<lambda>a b. \<not> json_eq a b) (map key items) \<longleftrightarrow>
      (\<forall>j < length items. \<forall>i < j. \<not> json_eq (key (items ! i)) (key (items ! j)))"
    by (auto simp: sorted_wrt_iff_nth_less)
  then show ?thesis using unique_loop_seen [OF list_all2_Nil [THEN iffD2] assms] by simp
qed

theorem unique_assertion_exact_witness:
  "unique_loop (\<lambda>v. pointer_value v '''') [] (map id [JNull, JBool True, JNull]) = Ok (owned_bool False)"
proof -
  let ?items = "[JNull, JBool True, JNull]"
  have "\<forall>i \<in> set ?items. \<exists>v. pointer_value (id i) '''' = Ok v \<and> value_is v (id i)"
    by (simp add: pointer_value_def pointer_values_def value_is_def)
  note exact = unique_assertion_exact [where items = ?items and key_of = "\<lambda>v. pointer_value v ''''" and enc = id and key = id, OF this]
  have "\<exists>j < length ?items. \<exists>i < j. json_eq (id (?items ! i)) (id (?items ! j))"
    by (intro exI [of _ 2] conjI exI [of _ 0]) simp_all
  then have "(\<forall>j < length ?items. \<forall>i < j. \<not> json_eq (id (?items ! i)) (id (?items ! j))) = False" by blast
  with exact show ?thesis by (simp only:)
qed

end
