(* ===== verification/Native_State.thy ===== *)
theory Native_State
  imports Retrieval_Ranking Native_Persistence Json
begin

text \<open>
  The canonical state of the native process (\<^verbatim>\<open>State\<close> in \<^verbatim>\<open>bin/aira-graphdb-native.rs\<close>). A hash map is the
  list of its entries in the order in which it is iterated, with distinct keys.
\<close>

record native_node =
  gn_node_id :: string
  gn_corpus_id :: string
  gn_layer :: string
  gn_ref :: json
  gn_label :: string

record vector_blob_ref =
  vb_offset :: u64
  vb_len :: "32 word"
  vb_generation :: "u64 option"

record vector_blob_descriptor =
  vd_basename :: string
  vd_size :: u64
  vd_sha256 :: string
  vd_format :: "16 word"

record stored_commit_evidence =
  se_schema :: string
  se_transaction_nonce :: string
  se_base_generation :: u64
  se_generation :: u64
  se_wal_sha256 :: string
  se_wal_bytes :: u64
  se_wal_record_count :: u64

record vector_record =
  vr_id :: string
  vr_corpus_id :: string
  vr_namespace :: string
  vr_values :: "f64 list"
  vr_blob_ref :: "vector_blob_ref option"
  vr_metadata :: json

record native_passage =
  np_passage_id :: string
  np_corpus_id :: string
  np_document_id :: string
  np_text :: string

record native_state =
  ns_nodes :: "(string \<times> native_node) list"
  ns_edges :: "(string \<times> graph_edge) list"
  ns_vectors :: "(string \<times> vector_record) list"
  ns_passages :: "(string \<times> native_passage) list"
  ns_snapshots :: "(string \<times> json) list"
  ns_checkpoints :: "(string \<times> json) list"
  ns_generation :: u64
  ns_vector_blob :: "vector_blob_descriptor option"
  ns_commit_evidence :: "stored_commit_evidence option"

section \<open>Keys\<close>

definition native_key :: "string \<Rightarrow> string \<Rightarrow> string" where
  "native_key corpus_id item_id = corpus_id @ '':'' @ item_id"

definition node_key :: "string \<Rightarrow> string \<Rightarrow> string" where
  "node_key corpus_id node_id = corpus_id @ '':'' @ node_id"

definition corpus_namespace_key :: "string \<Rightarrow> string \<Rightarrow> string" where
  "corpus_namespace_key corpus_id namespace = corpus_id @ '':'' @ namespace"

end
