(* ===== verification/F64_Math.thy ===== *)
theory F64_Math
  imports F64
begin

text \<open>
  More of Rust's \<^verbatim>\<open>f64\<close>: subtraction, \<^verbatim>\<open>abs\<close>, \<^verbatim>\<open>clamp\<close>, conversion from unsigned integers, and the
  correctly rounded square root of IEEE 754.
\<close>

definition f64_neg :: "f64 \<Rightarrow> f64" where
  "f64_neg x = (case x of F64_NaN \<Rightarrow> F64_NaN | F64_Inf s \<Rightarrow> F64_Inf (\<not> s) | F64_Fin s m e \<Rightarrow> F64_Fin (\<not> s) m e)"

definition f64_sub :: "f64 \<Rightarrow> f64 \<Rightarrow> f64" where
  "f64_sub x y = f64_add x (f64_neg y)"

definition f64_abs :: "f64 \<Rightarrow> f64" where
  "f64_abs x = (case x of F64_NaN \<Rightarrow> F64_NaN | F64_Inf _ \<Rightarrow> F64_Inf False | F64_Fin _ m e \<Rightarrow> F64_Fin False m e)"

definition f64_of_nat :: "nat \<Rightarrow> f64" where
  "f64_of_nat n = f64_round False n 1"

text \<open>\<^verbatim>\<open>f64::clamp\<close> keeps a NaN.\<close>

definition f64_clamp :: "f64 \<Rightarrow> f64 \<Rightarrow> f64 \<Rightarrow> f64" where
  "f64_clamp x lo hi = (let y = (if f64_lt x lo then lo else x) in if f64_lt hi y then hi else y)"

section \<open>Square root\<close>

fun isqrt :: "nat \<Rightarrow> nat" where
  "isqrt n = (if n = 0 then 0 else let r = 2 * isqrt (n div 4) in if (r + 1) * (r + 1) \<le> n then r + 1 else r)"

declare isqrt.simps [simp del]

lemma isqrt_bounds: "isqrt n * isqrt n \<le> n \<and> n < (isqrt n + 1) * (isqrt n + 1)"
proof (induction n rule: isqrt.induct)
  case (1 n)
  show ?case
  proof (cases "n = 0")
    case True
    then show ?thesis by (simp add: isqrt.simps)
  next
    case False
    define q where "q = isqrt (n div 4)"
    have IH: "q * q \<le> n div 4" "n div 4 < (q + 1) * (q + 1)" using 1 [OF False] by (simp_all add: q_def)
    then have "2 * q * (2 * q) \<le> n" "n < (2 * q + 2) * (2 * q + 2)"
      by (simp_all add: algebra_simps)
    moreover have "isqrt n = (if (2 * q + 1) * (2 * q + 1) \<le> n then 2 * q + 1 else 2 * q)"
      using False by (simp add: isqrt.simps [of n] Let_def q_def)
    ultimately show ?thesis by (auto simp: not_le)
  qed
qed

text \<open>
  The root of \<open>m * 2 ^ e\<close> has 53 digits before the point when scaled by \<open>4 ^ t\<close>; it is never halfway
  between two of them, so rounding compares with the midpoint.
\<close>

definition f64_sqrt :: "f64 \<Rightarrow> f64" where
  "f64_sqrt x =
     (case x of
        F64_NaN \<Rightarrow> F64_NaN
      | F64_Inf neg \<Rightarrow> if neg then F64_NaN else F64_Inf False
      | F64_Fin neg m e \<Rightarrow>
          if m = 0 then x
          else if neg then F64_NaN
          else
            let num = m * 2 ^ nat e; den = 2 ^ nat (- e);
                t = floor_log2 num den div 2 - 52;
                (n, d) = scale 4 num den t;
                s = isqrt (n div d);
                r = (if d * (4 * s * s + 4 * s + 1) < 4 * n then Suc s else s)
            in if r = 2 ^ 53 then F64_Fin False (2 ^ 52) (t + 1) else F64_Fin False r t)"

section \<open>Evaluation on numerals\<close>

lemma bit_length_numeral:
  "bit_length 0 = 0" "bit_length 1 = 1" "bit_length (Suc 0) = 1"
  "bit_length (numeral (Num.Bit0 n)) = bit_length (numeral n) + 1" "bit_length (numeral (Num.Bit1 n)) = bit_length (numeral n) + 1"
  by (simp_all add: bit_length.simps [of 0]
    bit_length.simps [of "Suc 0"]
      bit_length.simps [of "numeral (Num.Bit0 n)"] bit_length.simps [of "numeral (Num.Bit1 n)"])

lemma isqrt_eq: "r * r \<le> n \<Longrightarrow> n < (r + 1) * (r + 1) \<Longrightarrow> isqrt n = r"
proof -
  assume r: "r * r \<le> n" "n < (r + 1) * (r + 1)"
  note b = isqrt_bounds [of n]
  have "\<not> isqrt n < r" using b r by (metis Suc_eq_plus1 Suc_leI leD mult_le_mono order_less_le_trans)
  moreover have "\<not> r < isqrt n" using b r by (metis Suc_eq_plus1 Suc_leI leD mult_le_mono order_less_le_trans)
  ultimately show ?thesis by simp
qed

lemmas f64_eval = f64_round_def floor_log2_def bit_length_numeral scale_def round_half_even_def f64_num_def f64_den_def Let_def

end
