(* ===== verification/Stateful_Loops.thy ===== *)
theory Stateful_Loops
  imports Stateful
begin

text \<open>
  Loops of fallible code with state, and a small logic for them: \<open>post m Q\<close> says that \<open>m\<close> never panics
  and that the values it returns satisfy \<open>Q\<close>, whatever the state.
\<close>

section \<open>Loops\<close>

definition st_lift :: "('a, 'e) outcome \<Rightarrow> ('s, 'a, 'e) stateful" where
  "st_lift r s = (s, r)"

text \<open>\<^verbatim>\<open>for x in xs { body?; }\<close>, with the results collected, and with a variable that is carried along.\<close>

fun st_each :: "('a \<Rightarrow> ('s, unit, 'e) stateful) \<Rightarrow> 'a list \<Rightarrow> ('s, unit, 'e) stateful" where
  "st_each f [] = st_ret ()"
| "st_each f (x # xs) = st_then (f x) (\<lambda>_. st_each f xs)"

fun st_traverse :: "('a \<Rightarrow> ('s, 'b, 'e) stateful) \<Rightarrow> 'a list \<Rightarrow> ('s, 'b list, 'e) stateful" where
  "st_traverse f [] = st_ret []"
| "st_traverse f (x # xs) = st_then (f x) (\<lambda>y. st_then (st_traverse f xs) (\<lambda>ys. st_ret (y # ys)))"

fun st_fold :: "('b \<Rightarrow> 'a \<Rightarrow> ('s, 'b, 'e) stateful) \<Rightarrow> 'b \<Rightarrow> 'a list \<Rightarrow> ('s, 'b, 'e) stateful" where
  "st_fold f acc [] = st_ret acc"
| "st_fold f acc (x # xs) = st_then (f acc x) (\<lambda>acc'. st_fold f acc' xs)"

section \<open>What is returned\<close>

definition post :: "('s, 'a, 'e) stateful \<Rightarrow> ('a \<Rightarrow> bool) \<Rightarrow> bool" where
  "post m Q \<longleftrightarrow> (\<forall>s. case snd (m s) of Ok x \<Rightarrow> Q x | Err _ \<Rightarrow> True | Panic \<Rightarrow> False)"

lemma post_not_Panic: "post m Q \<Longrightarrow> snd (m s) \<noteq> Panic"
  unfolding post_def by (drule spec [of _ s]) (auto split: outcome.splits)

lemma post_Ok: "post m Q \<Longrightarrow> m s = (s', Ok x) \<Longrightarrow> Q x"
  unfolding post_def by (drule spec [of _ s]) simp

lemma postI:
  assumes "\<And>s. snd (m s) \<noteq> Panic" "\<And>s s' x. m s = (s', Ok x) \<Longrightarrow> Q x"
  shows "post m Q"
  unfolding post_def
proof
  fix s
  show "case snd (m s) of Ok x \<Rightarrow> Q x | Err _ \<Rightarrow> True | Panic \<Rightarrow> False"
    using assms(1) [of s] assms(2) [of s "fst (m s)"] by (cases "m s") (auto split: outcome.splits)
qed

lemma post_ret [simp]: "post (st_ret x) Q \<longleftrightarrow> Q x"
  by (simp add: post_def st_ret_def)

lemma post_fail [simp]: "post (st_fail e) Q"
  by (simp add: post_def st_fail_def)

lemma post_lift: "r \<noteq> Panic \<Longrightarrow> (\<And>x. r = Ok x \<Longrightarrow> Q x) \<Longrightarrow> post (st_lift r) Q"
  by (cases r) (simp_all add: post_def st_lift_def)

lemma post_mono: "post m P \<Longrightarrow> (\<And>x. P x \<Longrightarrow> Q x) \<Longrightarrow> post m Q"
  by (rule postI) (auto dest: post_not_Panic post_Ok)

lemma post_then:
  assumes "post m P" "\<And>x. P x \<Longrightarrow> post (f x) Q"
  shows "post (st_then m f) Q"
proof (rule postI)
  fix s
  obtain s' r where m: "m s = (s', r)" by fastforce
  show "snd (st_then m f s) \<noteq> Panic"
  proof (cases r)
    case (Ok x)
    then have "st_then m f s = f x s'" using m by (simp add: st_then_def)
    moreover have "P x" using post_Ok [OF assms(1)] m Ok by simp
    ultimately show ?thesis using assms(2) post_not_Panic by metis
  next
    case Panic
    then show ?thesis using post_not_Panic [OF assms(1), of s] m by simp
  qed (use m in \<open>simp add: st_then_def\<close>)
next
  fix s s' y
  assume "st_then m f s = (s', Ok y)"
  then obtain x s1 where "m s = (s1, Ok x)" "f x s1 = (s', Ok y)" by (auto simp: st_then_Ok)
  with assms show "Q y" using post_Ok by metis
qed

text \<open>When the intermediate value does not matter.\<close>

lemma post_seq: "post m (\<lambda>_. True) \<Longrightarrow> (\<And>x. post (f x) Q) \<Longrightarrow> post (st_then m f) Q"
  by (rule post_then) auto

lemma post_fold:
  assumes "I 0 acc" "\<And>i a. i < length xs \<Longrightarrow> I i a \<Longrightarrow> post (f a (xs ! i)) (I (Suc i))"
  shows "post (st_fold f acc xs) (I (length xs))"
proof -
  have "post (st_fold f a (drop i xs)) (I (length xs))" if "i \<le> length xs" "I i a" for i a
    using that
  proof (induction "length xs - i" arbitrary: i a)
    case (Suc n)
    then have d: "drop i xs = xs ! i # drop (Suc i) xs" by (simp add: Cons_nth_drop_Suc)
    show ?case unfolding d st_fold.simps
      by (rule post_then [OF assms(2)]) (use Suc in auto)
  qed simp
  from this [of 0 acc] assms(1) show ?thesis by simp
qed

lemma post_each: "(\<And>x. x \<in> set xs \<Longrightarrow> post (f x) (\<lambda>_. True)) \<Longrightarrow> post (st_each f xs) (\<lambda>_. True)"
  by (induction xs) (auto intro: post_seq)

lemma post_traverse:
  "(\<And>x. x \<in> set xs \<Longrightarrow> post (f x) (Q x)) \<Longrightarrow> post (st_traverse f xs) (list_all2 Q xs)"
proof (induction xs)
  case (Cons x xs)
  then show ?case by (auto intro!: post_then [of _ "Q x"] post_then [of _ "list_all2 Q xs"])
qed simp

end
