(* ===== verification/Bounded_Server.thy ===== *)
theory Bounded_Server
  imports Retrieval_Objects Contract_Artifacts Native_State F64_Math Le_Bytes Stateful_Loops
begin

text \<open>
  The descriptor reader of the native process (\<^verbatim>\<open>Server\<close> in \<^verbatim>\<open>bin/aira-graphdb-native.rs\<close>, as far as
  bounded retrieval reads it): the reader state, the deadline of a session, the catalog of stored objects and
  its lookups, and the cosine of vectors. A hash map that is only read is the list of its entries in the
  order in which it is iterated, with distinct keys. SHA-256 and the allocator are parameters.
\<close>

section \<open>State\<close>

record descriptor_read_handshake =
  dh_canonical_sha256 :: string
  dh_vector_blob_sha256 :: string
  dh_vector_blob_size :: u64
  dh_legacy_generation0 :: bool
  dh_legacy_binding_sha256 :: "string option"
  dh_method_inventory_sha256 :: string

datatype access_mode = NormalMode | DescriptorReadOnly descriptor_read_handshake

text \<open>An \<^verbatim>\<open>Instant\<close> is its distance from the epoch of the clock in nanoseconds.\<close>

type_synonym instant = nat

record bounded_server =
  bs_state :: native_state
  bs_vector_values :: "string \<rightharpoonup> f64 list"
  bs_snapshot_indices :: "string \<rightharpoonup> nat"
  bs_edge_counts :: "string \<rightharpoonup> u64"
  bs_endpoint_counts :: "string \<rightharpoonup> u64"
  bs_catalog_ready :: bool
  bs_session_deadline :: "instant option"
  bs_session_owner_remaining_ms :: "u64 option"
  bs_access_mode :: access_mode

definition bounded_index_key :: "(string \<Rightarrow> string) \<Rightarrow> string \<Rightarrow> string \<Rightarrow> string \<Rightarrow> string" where
  "bounded_index_key sha256 corpus_id section item_id =
     sha256 (concat (map (\<lambda>component. to_le 8 (int (length component)) @ component) [corpus_id, section, item_id]))"

section \<open>The deadline of a session\<close>

record session_deadline_candidate =
  sc_owner_remaining_ms :: u64
  sc_absolute_deadline :: instant
  sc_native_remaining_ms :: u64

text \<open>\<open>instant_end\<close> is the end of the range of \<^verbatim>\<open>Instant\<close>.\<close>

definition preview_bounded_session_deadline ::
  "instant \<Rightarrow> bounded_server \<Rightarrow> u64 \<Rightarrow> instant \<Rightarrow> (session_deadline_candidate, execution_failure) outcome" where
  "preview_bounded_session_deadline instant_end sv owner_remaining_ms now =
     (if (case bs_session_owner_remaining_ms sv of Some previous \<Rightarrow> previous < owner_remaining_ms | None \<Rightarrow> False)
      then Err (client_failure work_default)
      else
        let proposed = now + unat (min owner_remaining_ms MAX_OPERATION_DEADLINE_MS) * 1000000 in
        if instant_end \<le> proposed then Err (client_failure work_default)
        else
          let deadline = (case bs_session_deadline sv of Some existing \<Rightarrow> min existing proposed | None \<Rightarrow> proposed);
              remaining = (deadline - now) div 1000000
          in if 2 ^ 64 \<le> remaining then Err (client_failure work_default)
             else Ok \<lparr>sc_owner_remaining_ms = owner_remaining_ms, sc_absolute_deadline = deadline,
                      sc_native_remaining_ms = word_of_nat remaining\<rparr>)"

definition commit_bounded_session_deadline :: "session_deadline_candidate \<Rightarrow> bounded_server \<Rightarrow> bounded_server" where
  "commit_bounded_session_deadline candidate sv =
     sv\<lparr>bs_session_owner_remaining_ms := Some (sc_owner_remaining_ms candidate),
        bs_session_deadline := Some (sc_absolute_deadline candidate)\<rparr>"

section \<open>The catalog\<close>

definition SECTIONS :: "(string \<times> string) list" where
  "SECTIONS = [(''passages'', ''passageId''), (''facts'', ''factId''), (''schemas'', ''schemaId'')]"

definition str_at :: "string \<Rightarrow> json \<Rightarrow> string option" where
  "str_at name v = Option.bind (json_get name v) json_str"

definition count_snapshot_items :: "json list \<Rightarrow> (nat, execution_failure) outcome" where
  "count_snapshot_items snapshots =
     fold_ok (\<lambda>total snapshot.
       fold_ok (\<lambda>subtotal section.
         and_then (stored_snapshot_section_or_empty snapshot section) (\<lambda>items.
         if subtotal + length items < 2 ^ 64 then Ok (subtotal + length items) else Err (resource_failure work_default)))
       total (map fst SECTIONS)) 0 snapshots"

definition index_item ::
  "(string \<Rightarrow> string) \<Rightarrow> string \<Rightarrow> string \<Rightarrow> string \<Rightarrow> nat \<times> json \<Rightarrow> (string \<rightharpoonup> nat, unit, execution_failure) stateful" where
  "index_item sha256 corpus_id section id_field p =
     st_then (st_lift (ok_or (str_at id_field (snd p)) (integrity_failure work_default))) (\<lambda>item_id.
     st_then (st_lift (bounded_stored_domain_id item_id work_default)) (\<lambda>item_id.
     if str_at ''corpusId'' (snd p) \<noteq> Some corpus_id then st_fail (integrity_failure work_default)
     else (\<lambda>indices.
       let key = bounded_index_key sha256 corpus_id section item_id in
       (indices(key \<mapsto> fst p), if indices key \<noteq> None then Err (integrity_failure work_default) else Ok ()))))"

definition index_section ::
  "(string \<Rightarrow> string) \<Rightarrow> string \<times> json \<Rightarrow> string \<times> string \<Rightarrow> (string \<rightharpoonup> nat, unit, execution_failure) stateful" where
  "index_section sha256 entry section =
     st_then (st_lift (stored_snapshot_section_or_empty (snd entry) (fst section))) (\<lambda>items.
     st_each (index_item sha256 (fst entry) (fst section) (snd section)) (zip [0..<length items] items))"

definition index_snapshot ::
  "(string \<Rightarrow> string) \<Rightarrow> string \<times> json \<Rightarrow> (string \<rightharpoonup> nat, unit, execution_failure) stateful" where
  "index_snapshot sha256 entry =
     (if str_at ''corpusId'' (snd entry) \<noteq> Some (fst entry) then st_fail (integrity_failure work_default)
      else st_each (index_section sha256 entry) SECTIONS)"

text \<open>The counts of edges and endpoints by corpus, and the keys of the endpoints met so far.\<close>

record catalog_counts =
  cc_endpoint_ids :: "string set"
  cc_endpoints :: "string \<rightharpoonup> u64"
  cc_edges :: "string \<rightharpoonup> u64"

definition entry_or_default :: "(string \<rightharpoonup> u64) \<Rightarrow> string \<Rightarrow> u64" where
  "entry_or_default m k = (case m k of Some n \<Rightarrow> n | None \<Rightarrow> 0)"

definition count_endpoint ::
  "(string \<Rightarrow> string) \<Rightarrow> native_state \<Rightarrow> string \<Rightarrow> string \<Rightarrow> (catalog_counts, unit, execution_failure) stateful" where
  "count_endpoint sha256 state corpus_id endpoint =
     st_then (st_lift (bounded_stored_domain_id endpoint work_default)) (\<lambda>node_id.
     st_then (st_lift (ok_or (map_of (ns_nodes state) (node_key corpus_id node_id)) (integrity_failure work_default))) (\<lambda>node.
     if gn_corpus_id node \<noteq> corpus_id \<or> gn_node_id node \<noteq> node_id then st_fail (integrity_failure work_default)
     else (\<lambda>c.
       let key = bounded_index_key sha256 corpus_id ''nodes'' node_id in
       if key \<in> cc_endpoint_ids c then (c, Ok ())
       else
         let c' = c\<lparr>cc_endpoint_ids := insert key (cc_endpoint_ids c)\<rparr>; n = entry_or_default (cc_endpoints c) corpus_id in
         (case checked_add n 1 of
            None \<Rightarrow> (c'\<lparr>cc_endpoints := (cc_endpoints c)(corpus_id \<mapsto> n)\<rparr>, Err (resource_failure work_default))
          | Some n' \<Rightarrow>
              (c'\<lparr>cc_endpoints := (cc_endpoints c)(corpus_id \<mapsto> n')\<rparr>,
               if MAX_GRAPH_NODES < n' then Err (resource_failure work_default) else Ok ())))))"

definition count_edge ::
  "(string \<Rightarrow> string) \<Rightarrow> native_state \<Rightarrow> graph_edge \<Rightarrow> (catalog_counts, unit, execution_failure) stateful" where
  "count_edge sha256 state edge =
     st_then (st_each (count_endpoint sha256 state (ge_corpus_id edge)) [source_node_id edge, target_node_id edge]) (\<lambda>_. \<lambda>c.
     let n = entry_or_default (cc_edges c) (ge_corpus_id edge) in
     (case checked_add n 1 of
        None \<Rightarrow> (c\<lparr>cc_edges := (cc_edges c)(ge_corpus_id edge \<mapsto> n)\<rparr>, Err (resource_failure work_default))
      | Some n' \<Rightarrow> (c\<lparr>cc_edges := (cc_edges c)(ge_corpus_id edge \<mapsto> n')\<rparr>, Ok ())))"

text \<open>Code on a part of the server.\<close>

definition on_indices :: "(string \<rightharpoonup> nat, 'a, execution_failure) stateful \<Rightarrow> (bounded_server, 'a, execution_failure) stateful" where
  "on_indices m sv = (case m (bs_snapshot_indices sv) of (i, r) \<Rightarrow> (sv\<lparr>bs_snapshot_indices := i\<rparr>, r))"

definition on_counts :: "(catalog_counts, 'a, execution_failure) stateful \<Rightarrow> (bounded_server, 'a, execution_failure) stateful" where
  "on_counts m sv =
     (case m \<lparr>cc_endpoint_ids = {}, cc_endpoints = bs_endpoint_counts sv, cc_edges = bs_edge_counts sv\<rparr> of
        (c, r) \<Rightarrow> (sv\<lparr>bs_endpoint_counts := cc_endpoints c, bs_edge_counts := cc_edges c\<rparr>, r))"

definition ensure_bounded_catalog ::
  "(string \<Rightarrow> string) \<Rightarrow> (nat \<Rightarrow> bool) \<Rightarrow> (bounded_server, unit, execution_failure) stateful" where
  "ensure_bounded_catalog sha256 can_alloc sv =
     (if bs_catalog_ready sv then (sv, Ok ())
      else
        let cleared = sv\<lparr>bs_snapshot_indices := Map.empty, bs_edge_counts := Map.empty, bs_endpoint_counts := Map.empty\<rparr>;
            state = bs_state sv
        in
        st_then (st_lift (count_snapshot_items (map snd (ns_snapshots state)))) (\<lambda>snapshot_item_count.
        if \<not> can_alloc snapshot_item_count then st_fail (resource_failure work_default)
        else
          st_then (on_indices (st_each (index_snapshot sha256) (ns_snapshots state))) (\<lambda>_.
          if MAX_GRAPH_EDGES < len_u64 (ns_edges state) then st_fail (resource_failure work_default)
          else if 2 ^ 64 \<le> length (ns_edges state) * 2 then st_fail (resource_failure work_default)
          else if \<not> can_alloc (length (ns_edges state) * 2) then st_fail (resource_failure work_default)
          else
            st_then (on_counts (st_each (count_edge sha256 state) (map snd (ns_edges state)))) (\<lambda>_. \<lambda>sv'.
            (sv'\<lparr>bs_catalog_ready := True\<rparr>, Ok ())))) cleared)"

definition initialize_bounded_catalog ::
  "(string \<Rightarrow> string) \<Rightarrow> (nat \<Rightarrow> bool) \<Rightarrow> (bounded_server, unit, string) stateful" where
  "initialize_bounded_catalog sha256 can_alloc sv =
     (case ensure_bounded_catalog sha256 can_alloc sv of (sv', r) \<Rightarrow>
        (sv', map_err (\<lambda>failure. ''descriptor bounded catalog initialization failed: '' @ ef_reason failure) r))"

section \<open>Lookups\<close>

definition bounded_snapshot_items :: "bounded_server \<Rightarrow> string \<Rightarrow> string \<Rightarrow> (json list, execution_failure) outcome" where
  "bounded_snapshot_items sv corpus_id section =
     and_then (ok_or (map_of (ns_snapshots (bs_state sv)) corpus_id) (integrity_failure work_default)) (\<lambda>snapshot.
     stored_snapshot_section_or_empty snapshot section)"

definition bounded_snapshot_item ::
  "(string \<Rightarrow> string) \<Rightarrow> bounded_server \<Rightarrow> string \<Rightarrow> string \<Rightarrow> string \<Rightarrow> (json, execution_failure) outcome" where
  "bounded_snapshot_item sha256 sv corpus_id section item_id =
     and_then (ok_or (bs_snapshot_indices sv (bounded_index_key sha256 corpus_id section item_id))
         (integrity_failure work_default)) (\<lambda>i.
     and_then (bounded_snapshot_items sv corpus_id section) (\<lambda>items.
     and_then (ok_or (get_at items i) (integrity_failure work_default)) (\<lambda>item.
     and_then (ok_or (map_of SECTIONS section) (integrity_failure work_default)) (\<lambda>id_field.
     if str_at ''corpusId'' item \<noteq> Some corpus_id \<or> str_at id_field item \<noteq> Some item_id
     then Err (integrity_failure work_default) else Ok item))))"

section \<open>Cosine\<close>

abbreviation f64_one :: f64 where
  "f64_one \<equiv> f64_of_nat 1"

definition max_abs :: "f64 list \<Rightarrow> f64" where
  "max_abs vs = foldl f64_max (f64_zero False) (map f64_abs vs)"

definition stable_cosine :: "f64 list \<Rightarrow> f64 list \<Rightarrow> f64" where
  "stable_cosine a b =
     (let scale_a = max_abs a; scale_b = max_abs b in
      if f64_eq scale_a (f64_zero False) \<or> f64_eq scale_b (f64_zero False) then f64_zero False
      else
        let (dot, norm_a, norm_b) =
              foldl (\<lambda>(dot, norm_a, norm_b) (a_value, b_value).
                let scaled_a = f64_div a_value scale_a; scaled_b = f64_div b_value scale_b in
                (f64_add dot (f64_mul scaled_a scaled_b), f64_add norm_a (f64_mul scaled_a scaled_a),
                 f64_add norm_b (f64_mul scaled_b scaled_b)))
                (f64_zero False, f64_zero False, f64_zero False) (zip a b);
            denominator = f64_mul (f64_sqrt norm_a) (f64_sqrt norm_b)
        in if f64_eq denominator (f64_zero False) \<or> \<not> f64_is_finite denominator then f64_zero False
           else let score = f64_div dot denominator in if f64_is_finite score then score else f64_zero False)"

definition cosine_with_query_norm :: "f64 list \<Rightarrow> f64 \<Rightarrow> f64 list \<Rightarrow> f64" where
  "cosine_with_query_norm query query_norm vector =
     (if query = [] \<or> vector = [] \<or> length query \<noteq> length vector \<or> f64_eq query_norm (f64_zero False) \<or>
         list_ex (\<lambda>v. \<not> f64_is_finite v) vector then f64_zero False
      else if \<not> f64_is_finite query_norm then stable_cosine query vector
      else
        let (dot, norm_b) =
              foldl (\<lambda>(dot, norm_b) (query_value, vector_value).
                (f64_add dot (f64_mul query_value vector_value), f64_add norm_b (f64_mul vector_value vector_value)))
                (f64_zero False, f64_zero False) (zip query vector);
            denominator = f64_mul query_norm (f64_sqrt norm_b);
            score = f64_div dot denominator
        in if f64_is_finite dot \<and> f64_is_finite norm_b \<and> f64_is_finite denominator \<and>
              \<not> f64_eq denominator (f64_zero False) \<and> f64_is_finite score
           then score else stable_cosine query vector)"

definition bounded_cosine_with_query_norm :: "f64 list \<Rightarrow> f64 \<Rightarrow> f64 list \<Rightarrow> f64" where
  "bounded_cosine_with_query_norm query query_norm vector =
     f64_clamp (cosine_with_query_norm query query_norm vector) (f64_neg f64_one) f64_one"

definition bounded_query_norm :: "f64 list \<Rightarrow> f64 option" where
  "bounded_query_norm vs =
     (if list_ex (\<lambda>v. \<not> f64_is_finite v) vs then None
      else
        let scale = max_abs vs in
        if f64_eq scale (f64_zero False) then Some (f64_zero False)
        else Some (f64_mul (f64_sqrt (f64_sum (map (\<lambda>v. let scaled = f64_div v scale in f64_mul scaled scaled) vs))) scale))"

end
