(* ===== verification/Bounded_Search.thy ===== *)
theory Bounded_Search
  imports Bounded_Server
begin

text \<open>
  Candidate search and fact expansion of the bounded retrieval runtime (\<^verbatim>\<open>bounded_retrieval_runtime.rs\<close>).
  The state of an operation is its work and its deadline. The ranking heap, SHA-256, the serializer
  with the allocator, and \<^verbatim>\<open>f64::log2\<close>, whose precision Rust leaves open, are the parameter
  \<open>retrieval_env\<close>.
\<close>

section \<open>Parameters and steps\<close>

record ('h, 'g) retrieval_env =
  re_sha256 :: "string \<Rightarrow> string"
  re_codec :: frame_codec
  re_heap :: "('h, unit ranked_item) heap_ops"
  re_fact_heap :: "('g, json ranked_item) heap_ops"
  re_log2 :: "f64 \<Rightarrow> f64"

abbreviation re_alloc :: "('h, 'g) retrieval_env \<Rightarrow> nat \<Rightarrow> bool" where
  "re_alloc env \<equiv> can_reserve (re_codec env)"

text \<open>Failures with the work done so far.\<close>

definition work_fail :: "(work_counts \<Rightarrow> execution_failure) \<Rightarrow> 'a counted" where
  "work_fail f s = st_fail (f (fst s)) s"

definition work_ok_or :: "'a option \<Rightarrow> (work_counts \<Rightarrow> execution_failure) \<Rightarrow> 'a counted" where
  "work_ok_or x f = (case x of Some v \<Rightarrow> st_ret v | None \<Rightarrow> work_fail f)"

definition with_work :: "(work_counts \<Rightarrow> 'a counted) \<Rightarrow> 'a counted" where
  "with_work m s = m (fst s) s"

text \<open>\<^verbatim>\<open>work.field = work.field.checked_add(1).ok_or_else(..)?; deadline.advance(1, work)?;\<close>\<close>

definition bump ::
  "(work_counts \<Rightarrow> u64) \<Rightarrow> (u64 \<Rightarrow> work_counts \<Rightarrow> work_counts) \<Rightarrow> (work_counts \<Rightarrow> execution_failure) \<Rightarrow> unit counted" where
  "bump get set_to f = (\<lambda>(w, d).
     case checked_add (get w) 1 of None \<Rightarrow> ((w, d), Err (f w)) | Some n \<Rightarrow> ((set_to n w, d), Ok ()))"

definition check_work :: "unit counted" where
  "check_work = with_work (\<lambda>w.
     case work_check w of Ok _ \<Rightarrow> st_ret () | Err _ \<Rightarrow> st_fail (resource_failure w) | Panic \<Rightarrow> st_panic)"

text \<open>\<^verbatim>\<open>retain_bounded_ranked\<close> cannot fail with an error.\<close>

definition retain :: "('h, 'a ranked_item) heap_ops \<Rightarrow> nat \<Rightarrow> 'a ranked_item \<Rightarrow> 'h \<Rightarrow> 'h counted" where
  "retain H limit x h = (case retain_bounded_ranked H limit x h of Ok h' \<Rightarrow> st_ret h' | _ \<Rightarrow> st_panic)"

text \<open>\<^verbatim>\<open>json!\<close> of a number that may not be finite.\<close>

definition json_f64 :: "f64 \<Rightarrow> json" where
  "json_f64 x = (if f64_is_finite x then JNumber (Float x) else JNull)"

definition finite_f64 :: "json \<Rightarrow> f64 option" where
  "finite_f64 v = Option.bind (as_f64 v) (\<lambda>x. if f64_is_finite x then Some x else None)"

section \<open>Candidate search\<close>

definition NAMESPACES :: "(string \<times> string \<times> string) list" where
  "NAMESPACES =
     [(''passage'', ''passages'', ''passage:''), (''fact'', ''facts'', ''fact:''), (''schema'', ''schemas'', ''schema:'')]"

fun search_vectors ::
  "('h, 'g) retrieval_env \<Rightarrow> bounded_server \<Rightarrow> string \<Rightarrow> string \<Rightarrow> f64 list \<Rightarrow> f64 \<Rightarrow> f64 \<Rightarrow> nat \<Rightarrow>
   (string \<times> vector_record) list \<Rightarrow> 'h \<Rightarrow> 'h counted"
where
  "search_vectors env sv corpus_id namespace query query_norm threshold limit [] retained = st_ret retained"
| "search_vectors env sv corpus_id namespace query query_norm threshold limit ((key, vrec) # vectors) retained =
     st_then (bump wc_vector_comparisons (\<lambda>n w. w\<lparr>wc_vector_comparisons := n\<rparr>) client_failure) (\<lambda>_.
     st_then (timed (advance 1)) (\<lambda>_.
     if vr_corpus_id vrec \<noteq> corpus_id \<or> vr_namespace vrec \<noteq> namespace
     then search_vectors env sv corpus_id namespace query query_norm threshold limit vectors retained
     else
       st_then (with_work (\<lambda>w. st_lift (bounded_stored_domain_id (vr_id vrec) w))) (\<lambda>record_id.
       st_then (work_ok_or (bs_vector_values sv key) integrity_failure) (\<lambda>vector.
       if length vector \<noteq> length query \<or> list_ex (\<lambda>v. \<not> f64_is_finite v) vector then work_fail integrity_failure
       else
         let score = bounded_cosine_with_query_norm query query_norm vector in
         st_then (if f64_le threshold score
                  then retain (re_heap env) limit \<lparr>ri_id = record_id, ri_score = score, ri_payload = ()\<rparr> retained
                  else st_ret retained) (\<lambda>retained'.
         search_vectors env sv corpus_id namespace query query_norm threshold limit vectors retained')))))"

definition search_hit ::
  "('h, 'g) retrieval_env \<Rightarrow> bounded_server \<Rightarrow> string \<Rightarrow> string \<Rightarrow> string \<Rightarrow> unit ranked_item \<Rightarrow> json counted" where
  "search_hit env sv corpus_id section prefix r =
     st_then (work_ok_or (strip_prefix (ri_id r) prefix) integrity_failure) (\<lambda>item_id.
     st_then (st_lift (bounded_snapshot_item (re_sha256 env) sv corpus_id section item_id)) (\<lambda>item.
     st_then (materialize_domain_object (re_codec env) item) (\<lambda>item.
     st_ret (JObject [(''id'', JString (ri_id r)), (''item'', item), (''score'', json_f64 (ri_score r))]))))"

definition search_slot :: "('h, 'g) retrieval_env \<Rightarrow> bounded_server \<Rightarrow> string \<Rightarrow> json \<Rightarrow> json counted" where
  "search_slot env sv corpus_id slot =
     st_then (st_lift (required_str slot ''slotId'')) (\<lambda>slot_id.
     st_then (st_lift (required_str slot ''namespace'')) (\<lambda>namespace.
     st_then (st_lift (required_f64 slot ''threshold'')) (\<lambda>threshold.
     st_then (st_lift (required_u64 slot ''limit'')) (\<lambda>limit.
     st_then (work_ok_or (Option.bind (Option.bind (json_get ''queryVector'' slot) as_array)
         (\<lambda>vs. those (map finite_f64 vs))) client_failure) (\<lambda>query.
     st_then (work_ok_or (bounded_query_norm query) client_failure) (\<lambda>query_norm.
     st_then (timed (bounded_rank_heap (re_alloc env) (re_heap env) (unat limit))) (\<lambda>heap.
     st_then (search_vectors env sv corpus_id namespace query query_norm threshold (unat limit)
         (ns_vectors (bs_state sv)) heap) (\<lambda>retained.
     st_then (work_ok_or (map_of NAMESPACES namespace) client_failure) (\<lambda>(section, prefix).
     st_then (st_traverse (search_hit env sv corpus_id section prefix)
         (finish_bounded_ranking (re_heap env) retained)) (\<lambda>hits.
     st_ret (JObject [(''hits'', JArray hits), (''namespace'', JString namespace), (''slotId'', JString slot_id)])))))))))))"

definition result_capacity :: "json list \<Rightarrow> (u64, execution_failure) outcome" where
  "result_capacity slots =
     fold_ok (\<lambda>total slot.
       and_then (required_u64 slot ''limit'') (\<lambda>limit. ok_or (checked_add total limit) (client_failure work_default))) 0 slots"

definition no_allocation :: allocation_input where
  "no_allocation = \<lparr>vector_values = 0, seed_entries = 0, result_entries = 0, ppr_score_entries = 0, ppr_node_entries = 0,
     ppr_edge_entries = 0, heap_entries = 0, retained_object_entries = 0, scratch_bytes = 0, response_buffer_bytes = 0\<rparr>"

text \<open>\<^verbatim>\<open>check().map_err(|_| ExecutionFailure::resource(Default::default()))\<close>.\<close>

definition or_resource :: "'a contract_result \<Rightarrow> 'a counted" where
  "or_resource r = st_lift (map_err (\<lambda>_. resource_failure work_default) r)"

definition execute_candidate_search :: "('h, 'g) retrieval_env \<Rightarrow> bounded_server \<Rightarrow> json \<Rightarrow> json counted" where
  "execute_candidate_search env sv params =
     st_then (st_lift (required_str params ''corpusId'')) (\<lambda>corpus_id.
     st_then (st_lift (ok_or (Option.bind (json_get ''slots'' params) as_array) (client_failure work_default))) (\<lambda>slots.
     st_then (st_lift (ok_or (checked_mul (len_u64 (ns_vectors (bs_state sv))) (len_u64 slots)) (client_failure work_default)))
       (\<lambda>comparisons.
     st_then (or_resource (usage_for_request CANDIDATE_SEARCH params)) (\<lambda>usage0.
     let usage = usage0\<lparr>vector_comparisons := comparisons\<rparr> in
     st_then (or_resource (usage_check usage)) (\<lambda>_.
     st_then (st_lift (result_capacity slots)) (\<lambda>capacity.
     st_then (st_lift (ok_or (checked_mul (vector_dimensions usage) (search_slots usage)) (client_failure work_default)))
       (\<lambda>vectors.
     st_then (or_resource (allocation_check (no_allocation\<lparr>vector_values := vectors, result_entries := capacity,
         heap_entries := capacity, retained_object_entries := capacity,
         response_buffer_bytes := MAX_RESPONSE_FRAME_BYTES\<rparr>))) (\<lambda>_.
     st_then (timed execution_before_allocation) (\<lambda>_.
     st_then (st_traverse (search_slot env sv corpus_id) slots) (\<lambda>result_slots.
     st_then check_work (\<lambda>_.
     st_ret (JObject [(''slots'', JArray result_slots)]))))))))))))"

section \<open>Fact expansion\<close>

definition seed_entity :: "json \<Rightarrow> (string \<times> f64, execution_failure) outcome" where
  "seed_entity seed =
     and_then (required_str seed ''key'') (\<lambda>key. and_then (required_f64 seed ''score'') (\<lambda>score. Ok (key, score)))"

text \<open>The map of the seeds; a later entry for a key replaces an earlier one.\<close>

definition seed_map :: "(string \<times> f64) list \<Rightarrow> string \<rightharpoonup> f64" where
  "seed_map entries = map_of (rev entries)"

fun expand_facts ::
  "('h, 'g) retrieval_env \<Rightarrow> (string \<rightharpoonup> f64) \<Rightarrow> string set \<Rightarrow> f64 \<Rightarrow> nat \<Rightarrow> json list \<Rightarrow> 'g \<Rightarrow> 'g counted"
where
  "expand_facts env seed_scores excluded attenuation limit [] retained = st_ret retained"
| "expand_facts env seed_scores excluded attenuation limit (stored # rest) retained =
     st_then (bump wc_facts_inspected (\<lambda>n w. w\<lparr>wc_facts_inspected := n\<rparr>) client_failure) (\<lambda>_.
     st_then (timed (advance 1)) (\<lambda>_.
     st_then (with_work (\<lambda>w. st_lift (stored_str stored ''factId'' w))) (\<lambda>fact_id.
     if fact_id \<in> excluded then expand_facts env seed_scores excluded attenuation limit rest retained
     else
       st_then (with_work (\<lambda>w. st_lift (stored_str stored ''headEntity'' w))) (\<lambda>head_entity.
       st_then (timed (normalize_fact_entity (re_alloc env) head_entity)) (\<lambda>head.
       st_then (with_work (\<lambda>w. st_lift (stored_str stored ''tailEntity'' w))) (\<lambda>tail_entity.
       st_then (timed (normalize_fact_entity (re_alloc env) tail_entity)) (\<lambda>tail.
       if seed_scores head = None \<and> seed_scores tail = None
       then expand_facts env seed_scores excluded attenuation limit rest retained
       else
         let or_zero = (\<lambda>x. case x of Some s \<Rightarrow> s | None \<Rightarrow> f64_zero False);
             score = f64_mul (f64_max (or_zero (seed_scores head)) (or_zero (seed_scores tail))) attenuation
         in
         if \<not> f64_is_finite score then work_fail integrity_failure
         else
           st_then (retain (re_fact_heap env) limit \<lparr>ri_id = fact_id, ri_score = score, ri_payload = stored\<rparr> retained) (\<lambda>retained'.
           expand_facts env seed_scores excluded attenuation limit rest retained'))))))))"

definition expanded_fact :: "('h, 'g) retrieval_env \<Rightarrow> json ranked_item \<Rightarrow> json counted" where
  "expanded_fact env r =
     st_then (materialize_domain_object (re_codec env) (ri_payload r)) (\<lambda>fact.
     st_ret (JObject [(''fact'', fact), (''factId'', JString (ri_id r)), (''score'', json_f64 (ri_score r))]))"

definition execute_fact_expand :: "('h, 'g) retrieval_env \<Rightarrow> bounded_server \<Rightarrow> json \<Rightarrow> json counted" where
  "execute_fact_expand env sv params =
     st_then (st_lift (required_str params ''corpusId'')) (\<lambda>corpus_id.
     st_then (st_lift (ok_or (json_get ''plan'' params) (client_failure work_default))) (\<lambda>plan.
     st_then (st_lift (bounded_snapshot_items sv corpus_id ''facts'')) (\<lambda>facts.
     st_then (or_resource (usage_for_request FACT_EXPAND params)) (\<lambda>usage0.
     let usage = usage0\<lparr>facts_inspected := len_u64 facts\<rparr> in
     st_then (or_resource (usage_check usage)) (\<lambda>_.
     st_then (st_lift (required_u64 plan ''limit'')) (\<lambda>limit.
     st_then (or_resource (allocation_check (no_allocation\<lparr>seed_entries := seeds usage, result_entries := limit,
         heap_entries := limit, retained_object_entries := limit, response_buffer_bytes := MAX_RESPONSE_FRAME_BYTES,
         scratch_bytes := MAX_OBJECT_BYTES * 6\<rparr>))) (\<lambda>_.
     st_then (timed execution_before_allocation) (\<lambda>_.
     st_then (st_lift (required_f64 plan ''attenuation'')) (\<lambda>attenuation.
     st_then (st_lift (ok_or (Option.bind (json_get ''seedEntities'' plan) as_array) (client_failure work_default))) (\<lambda>entities.
     st_then (st_lift (traverse seed_entity entities)) (\<lambda>seed_list.
     st_then (st_lift (ok_or (Option.bind (json_get ''excludedSeedFactIds'' plan) as_array) (client_failure work_default)))
       (\<lambda>ids.
     st_then (st_lift (ok_or (those (map json_str ids)) (client_failure work_default))) (\<lambda>excluded.
     st_then (timed (bounded_rank_heap (re_alloc env) (re_fact_heap env) (unat limit))) (\<lambda>heap.
     st_then (expand_facts env (seed_map seed_list) (set excluded) attenuation (unat limit) facts heap) (\<lambda>retained.
     st_then (st_traverse (expanded_fact env) (finish_bounded_ranking (re_fact_heap env) retained)) (\<lambda>expanded.
     st_ret (JObject [(''facts'', JArray expanded)])))))))))))))))))"

end
