(* ===== verification/Bounded_Ppr.thy ===== *)
theory Bounded_Ppr
  imports Bounded_Search
begin

text \<open>
  Personalized page rank in the bounded retrieval runtime (\<^verbatim>\<open>execute_ppr\<close> of \<^verbatim>\<open>bounded_retrieval_runtime.rs\<close>):
  the graph of a corpus is rebuilt from its edges in canonical order, as sorted node identifiers and the
  outgoing edges of each node in one array; then the scores are iterated and ranked. Indexing is
  checked (\<open>index\<close>, \<open>assign\<close>), every step is charged.
\<close>

section \<open>Edges and nodes\<close>

fun corpus_edges :: "string \<Rightarrow> graph_edge list \<Rightarrow> graph_edge list \<Rightarrow> graph_edge list counted" where
  "corpus_edges corpus_id [] edges = st_ret edges"
| "corpus_edges corpus_id (edge # rest) edges =
     st_then account_graph_scan_unit (\<lambda>_.
     corpus_edges corpus_id rest (if ge_corpus_id edge = corpus_id then edges @ [edge] else edges))"

definition add_endpoint :: "string \<Rightarrow> string set \<times> string list \<Rightarrow> (string set \<times> string list) counted" where
  "add_endpoint node_id = (\<lambda>(endpoint_ids, node_ids).
     if node_id \<in> endpoint_ids then st_ret (endpoint_ids, node_ids)
     else
       st_then (bump nodes_initialized (\<lambda>n w. w\<lparr>nodes_initialized := n\<rparr>) resource_failure) (\<lambda>_.
       st_then account_graph_scan_unit (\<lambda>_.
       st_ret (insert node_id endpoint_ids, node_ids @ [node_id]))))"

fun collect_endpoints :: "graph_edge list \<Rightarrow> string set \<times> string list \<Rightarrow> (string set \<times> string list) counted" where
  "collect_endpoints [] s = st_ret s"
| "collect_endpoints (edge # edges) s =
     st_then (add_endpoint (source_node_id edge) s) (\<lambda>s.
     st_then (add_endpoint (target_node_id edge) s) (\<lambda>s.
     st_then (bump edges_visited (\<lambda>n w. w\<lparr>edges_visited := n\<rparr>) resource_failure) (\<lambda>_.
     st_then account_graph_scan_unit (\<lambda>_.
     collect_endpoints edges s))))"

fun index_nodes :: "nat \<Rightarrow> string list \<Rightarrow> (string \<rightharpoonup> nat) \<Rightarrow> (string \<rightharpoonup> nat) counted" where
  "index_nodes i [] m = st_ret m"
| "index_nodes i (node_id # node_ids) m =
     (if m node_id \<noteq> None then work_fail integrity_failure
      else st_then account_graph_scan_unit (\<lambda>_. index_nodes (Suc i) node_ids (m(node_id \<mapsto> i))))"

section \<open>Degrees and adjacency\<close>

record degrees =
  dg_out :: "nat list"
  dg_in :: "u64 list"
  dg_sums :: "f64 list"

definition count_degree :: "(string \<rightharpoonup> nat) \<Rightarrow> graph_edge \<Rightarrow> degrees \<Rightarrow> degrees counted" where
  "count_degree m edge dg =
     (if \<not> f64_is_finite (ge_weight edge) \<or> f64_lt (ge_weight edge) (f64_zero False) then work_fail integrity_failure
      else
        st_then (work_ok_or (m (source_node_id edge)) integrity_failure) (\<lambda>source.
        st_then (work_ok_or (m (target_node_id edge)) integrity_failure) (\<lambda>target.
        st_then (index (dg_out dg) source) (\<lambda>o_n.
        st_then (work_ok_or (if Suc o_n < 2 ^ 64 then Some (Suc o_n) else None) resource_failure) (\<lambda>o_n'.
        st_then (assign (dg_out dg) source o_n') (\<lambda>outs.
        st_then (index (dg_sums dg) source) (\<lambda>sum.
        st_then (assign (dg_sums dg) source (f64_add sum (ge_weight edge))) (\<lambda>sums.
        if \<not> f64_is_finite (f64_add sum (ge_weight edge)) then work_fail integrity_failure
        else
          st_then (index (dg_in dg) target) (\<lambda>i_n.
          st_then (work_ok_or (checked_add i_n 1) integrity_failure) (\<lambda>i_n'.
          st_then (assign (dg_in dg) target i_n') (\<lambda>ins.
          st_then account_graph_scan_unit (\<lambda>_.
          st_ret \<lparr>dg_out = outs, dg_in = ins, dg_sums = sums\<rparr>))))))))))))"

text \<open>
  The closure that builds the offsets keeps a running sum, saturating at the end of \<^verbatim>\<open>usize\<close>; it is called
  for \<open>0, 1, ..\<close> in this order.
\<close>

definition running_offset :: "nat list \<Rightarrow> nat \<Rightarrow> nat" where
  "running_offset out_degree i = foldl (\<lambda>a b. min (a + b) (2 ^ 64 - 1)) 0 (take i out_degree)"

definition place_edge ::
  "(string \<rightharpoonup> nat) \<Rightarrow> (nat \<times> f64) list \<times> nat list \<Rightarrow> graph_edge \<Rightarrow> ((nat \<times> f64) list \<times> nat list) counted" where
  "place_edge m = (\<lambda>(adjacency, cursors) edge.
     st_then (work_ok_or (m (source_node_id edge)) integrity_failure) (\<lambda>source.
     st_then (work_ok_or (m (target_node_id edge)) integrity_failure) (\<lambda>target.
     st_then (index cursors source) (\<lambda>position.
     if \<not> position < length adjacency then work_fail integrity_failure
     else
       st_then (work_ok_or (if Suc position < 2 ^ 64 then Some (Suc position) else None) resource_failure) (\<lambda>position'.
       st_then (assign cursors source position') (\<lambda>cursors'.
       st_then account_graph_scan_unit (\<lambda>_.
       st_ret (adjacency[position := (target, ge_weight edge)], cursors'))))))))"

definition check_cursor :: "nat list \<Rightarrow> nat \<times> nat \<Rightarrow> unit counted" where
  "check_cursor offsets p =
     st_then (index offsets (Suc (fst p))) (\<lambda>offset.
     if snd p \<noteq> offset then work_fail integrity_failure else account_graph_scan_unit)"

definition sat_add :: "u64 \<Rightarrow> u64 \<Rightarrow> u64" where
  "sat_add a b = (case checked_add a b of Some c \<Rightarrow> c | None \<Rightarrow> - 1)"

definition hub_factor :: "(f64 \<Rightarrow> f64) \<Rightarrow> u64 \<Rightarrow> string \<Rightarrow> u64 \<Rightarrow> f64" where
  "hub_factor lg hub_threshold node_id degree =
     (if starts_with node_id ''schema:'' \<and> hub_threshold < degree
      then f64_div f64_one (lg (f64_of_nat (unat (degree + 2)))) else f64_one)"

record ppr_graph =
  pg_node_ids :: "string list"
  pg_index :: "string \<rightharpoonup> nat"
  pg_sums :: "f64 list"
  pg_offsets :: "nat list"
  pg_adjacency :: "(nat \<times> f64) list"
  pg_hub :: "f64 list"

text \<open>The nodes and edges of the graph, with the checks against the counts of the catalog.\<close>

definition reconstruct_nodes ::
  "('h, 'g) retrieval_env \<Rightarrow> bounded_server \<Rightarrow> string \<Rightarrow> u64 \<Rightarrow> u64 \<Rightarrow> (graph_edge list \<times> string list) counted" where
  "reconstruct_nodes env sv corpus_id nodes_n edges_n =
     st_then (timed execution_before_allocation) (\<lambda>_.
     if \<not> re_alloc env (unat nodes_n) then work_fail resource_failure
     else
     st_then (timed execution_before_allocation) (\<lambda>_.
     st_then (timed execution_before_allocation) (\<lambda>_.
     if \<not> re_alloc env (unat nodes_n) then work_fail resource_failure
     else
     st_then (timed execution_before_allocation) (\<lambda>_.
     st_then (timed execution_before_allocation) (\<lambda>_.
     if \<not> re_alloc env (unat edges_n) then work_fail resource_failure
     else
     st_then (timed execution_before_allocation) (\<lambda>_.
     st_then (corpus_edges corpus_id (map snd (ns_edges (bs_state sv))) []) (\<lambda>edges.
     if len_u64 edges \<noteq> edges_n then work_fail integrity_failure
     else
     st_then (canonical_sort_edges (re_alloc env) edges) (\<lambda>edges.
     st_then (collect_endpoints edges ({}, [])) (\<lambda>(_, ids).
     st_then (canonical_sort_ids (re_alloc env) ids) (\<lambda>node_ids.
     with_work (\<lambda>w.
       if len_u64 node_ids \<noteq> nodes_n then work_fail integrity_failure
       else if nodes_initialized w \<noteq> nodes_n \<or> edges_visited w \<noteq> edges_n then work_fail integrity_failure
       else st_ret (edges, node_ids))))))))))))"

definition reconstruct_degrees ::
  "('h, 'g) retrieval_env \<Rightarrow> graph_edge list \<Rightarrow> string list \<Rightarrow> ((string \<rightharpoonup> nat) \<times> degrees) counted" where
  "reconstruct_degrees env edges node_ids =
     st_then (timed execution_before_allocation) (\<lambda>_.
     if \<not> re_alloc env (length node_ids) then work_fail resource_failure
     else
     st_then (timed execution_before_allocation) (\<lambda>_.
     st_then (index_nodes 0 node_ids Map.empty) (\<lambda>m.
     st_then (build_counted_graph_vec (re_alloc env) (length node_ids) (\<lambda>_. st_ret 0)) (\<lambda>outs.
     st_then (build_counted_graph_vec (re_alloc env) (length node_ids) (\<lambda>_. st_ret 0)) (\<lambda>ins.
     st_then (build_counted_graph_vec (re_alloc env) (length node_ids) (\<lambda>_. st_ret (f64_zero False))) (\<lambda>sums.
     st_then (st_fold (\<lambda>dg edge. count_degree m edge dg) \<lparr>dg_out = outs, dg_in = ins, dg_sums = sums\<rparr> edges) (\<lambda>dg.
     st_ret (m, dg))))))))"

definition reconstruct_adjacency ::
  "('h, 'g) retrieval_env \<Rightarrow> graph_edge list \<Rightarrow> string list \<Rightarrow> (string \<rightharpoonup> nat) \<Rightarrow> nat list \<Rightarrow>
   (nat list \<times> (nat \<times> f64) list) counted" where
  "reconstruct_adjacency env edges node_ids m out_degree =
     st_then (build_counted_graph_vec (re_alloc env) (Suc (length node_ids)) (\<lambda>i. st_ret (running_offset out_degree i))) (\<lambda>offsets0.
     if running_offset out_degree (length node_ids) \<noteq> length edges then work_fail integrity_failure
     else
     st_then (assign offsets0 (length node_ids) (running_offset out_degree (length node_ids))) (\<lambda>offsets.
     st_then (build_counted_graph_vec (re_alloc env) (length node_ids) (index offsets)) (\<lambda>cursors0.
     st_then (build_counted_graph_vec (re_alloc env) (length edges) (\<lambda>_. st_ret (0, f64_zero False))) (\<lambda>adjacency0.
     st_then (st_fold (place_edge m) (adjacency0, cursors0) edges) (\<lambda>(adjacency, cursors).
     st_then (st_each (check_cursor offsets) (zip [0..<length cursors] cursors)) (\<lambda>_.
     st_ret (offsets, adjacency)))))))"

definition reconstruct_graph ::
  "('h, 'g) retrieval_env \<Rightarrow> bounded_server \<Rightarrow> string \<Rightarrow> u64 \<Rightarrow> u64 \<Rightarrow> json \<Rightarrow> ppr_graph counted" where
  "reconstruct_graph env sv corpus_id nodes_n edges_n plan =
     st_then (reconstruct_nodes env sv corpus_id nodes_n edges_n) (\<lambda>(edges, node_ids).
     st_then (reconstruct_degrees env edges node_ids) (\<lambda>(m, dg).
     st_then (reconstruct_adjacency env edges node_ids m (dg_out dg)) (\<lambda>(offsets, adjacency).
     st_then (st_lift (required_u64 plan ''hubDegreeThreshold'')) (\<lambda>hub_threshold.
     st_then (build_counted_graph_vec (re_alloc env) (length node_ids) (\<lambda>i.
         st_then (index (dg_out dg) i) (\<lambda>o_n.
         st_then (index (dg_in dg) i) (\<lambda>i_n.
         st_then (index node_ids i) (\<lambda>node_id.
         st_ret (hub_factor (re_log2 env) hub_threshold node_id (sat_add (word_of_nat o_n) i_n))))))) (\<lambda>hub.
     st_ret \<lparr>pg_node_ids = node_ids, pg_index = m, pg_sums = dg_sums dg, pg_offsets = offsets, pg_adjacency = adjacency,
       pg_hub = hub\<rparr>)))))"

section \<open>The teleport vector\<close>

definition ppr_seed :: "json \<Rightarrow> (string \<times> f64, execution_failure) outcome" where
  "ppr_seed seed =
     and_then (required_str seed ''nodeId'') (\<lambda>node_id. and_then (required_f64 seed ''score'') (\<lambda>score. Ok (node_id, score)))"

definition apply_seed :: "(string \<rightharpoonup> nat) \<Rightarrow> f64 list \<times> f64 \<Rightarrow> string \<times> f64 \<Rightarrow> (f64 list \<times> f64) counted" where
  "apply_seed m = (\<lambda>(teleport, teleport_sum) (node_id, score).
     case m node_id of
       None \<Rightarrow> st_ret (teleport, teleport_sum)
     | Some i \<Rightarrow> st_then (assign teleport i score) (\<lambda>teleport'. st_ret (teleport', f64_add teleport_sum score)))"

definition ppr_teleport :: "('h, 'g) retrieval_env \<Rightarrow> json \<Rightarrow> ppr_graph \<Rightarrow> f64 list counted" where
  "ppr_teleport env plan g =
     st_then (build_counted_graph_vec (re_alloc env) (length (pg_node_ids g)) (\<lambda>_. st_ret (f64_zero False))) (\<lambda>zeros.
     st_then (work_ok_or (Option.bind (json_get ''seeds'' plan) as_array) client_failure) (\<lambda>entries.
     st_then (st_lift (traverse ppr_seed entries)) (\<lambda>seed_list.
     st_then (st_fold (apply_seed (pg_index g)) (zeros, f64_zero False) (sort_by (\<lambda>l r. utf16_cmp (fst l) (fst r)) seed_list))
       (\<lambda>(teleport, teleport_sum).
     if f64_lt (f64_zero False) teleport_sum
     then st_traverse (\<lambda>v. st_then account_graph_scan_unit (\<lambda>_. st_ret (f64_div v teleport_sum))) teleport
     else
       let uniform = f64_div f64_one (f64_of_nat (length (pg_node_ids g))) in
       st_traverse (\<lambda>v. st_then account_graph_scan_unit (\<lambda>_. st_ret uniform)) teleport))))"

section \<open>Iteration\<close>

definition spread_edge ::
  "ppr_graph \<Rightarrow> f64 \<Rightarrow> f64 list \<Rightarrow> nat \<Rightarrow> f64 \<Rightarrow> f64 list \<Rightarrow> nat \<times> f64 \<Rightarrow> f64 list counted" where
  "spread_edge g teleport_probability scores source total_weight nxt = (\<lambda>(target, weight).
     st_then (index nxt target) (\<lambda>v.
     st_then (index scores source) (\<lambda>score.
     st_then (index (pg_hub g) target) (\<lambda>hub.
     st_then (assign nxt target (f64_add v (f64_mul (f64_mul (f64_mul (f64_sub f64_one teleport_probability) score)
         (f64_div weight total_weight)) hub))) (\<lambda>nxt'.
     st_then account_graph_scan_unit (\<lambda>_. st_ret nxt'))))))"

text \<open>A slice panics unless its bounds are in order and in range.\<close>

definition slice_range :: "'a list \<Rightarrow> nat \<Rightarrow> nat \<Rightarrow> 'a list counted" where
  "slice_range xs lo hi = (if lo \<le> hi \<and> hi \<le> length xs then st_ret (take (hi - lo) (drop lo xs)) else st_panic)"

definition spread_source :: "ppr_graph \<Rightarrow> f64 \<Rightarrow> f64 list \<Rightarrow> f64 list \<Rightarrow> nat \<Rightarrow> f64 list counted" where
  "spread_source g teleport_probability scores nxt source =
     st_then account_graph_scan_unit (\<lambda>_.
     st_then (index (pg_offsets g) source) (\<lambda>lo.
     st_then (index (pg_offsets g) (Suc source)) (\<lambda>hi.
     st_then (slice_range (pg_adjacency g) lo hi) (\<lambda>outgoing.
     if outgoing = [] then st_ret nxt
     else
       st_then (index (pg_sums g) source) (\<lambda>total_weight.
       if \<not> f64_is_finite total_weight \<or> f64_le total_weight (f64_zero False) then work_fail integrity_failure
       else st_fold (spread_edge g teleport_probability scores source total_weight) nxt outgoing)))))"

fun mix_teleport :: "f64 \<Rightarrow> f64 list \<Rightarrow> f64 list \<Rightarrow> f64 list counted" where
  "mix_teleport tp (v # vs) (t # ts) =
     st_then account_graph_scan_unit (\<lambda>_. st_then (mix_teleport tp vs ts) (\<lambda>r. st_ret (f64_add v (f64_mul tp t) # r)))"
| "mix_teleport tp vs ts = st_ret vs"

definition add_delta :: "f64 \<Rightarrow> f64 \<times> f64 \<Rightarrow> f64 counted" where
  "add_delta l1_delta = (\<lambda>(next_value, previous).
     if \<not> f64_is_finite next_value then work_fail integrity_failure
     else st_then account_graph_scan_unit (\<lambda>_. st_ret (f64_add l1_delta (f64_abs (f64_sub next_value previous)))))"

definition ppr_step ::
  "('h, 'g) retrieval_env \<Rightarrow> ppr_graph \<Rightarrow> f64 \<Rightarrow> f64 list \<Rightarrow> f64 list \<Rightarrow> (f64 list \<times> f64) counted" where
  "ppr_step env g teleport_probability teleport scores =
     st_then (build_counted_graph_vec (re_alloc env) (length (pg_node_ids g)) (\<lambda>_. st_ret (f64_zero False))) (\<lambda>zeros.
     st_then (st_fold (spread_source g teleport_probability scores) zeros [0..<length (pg_node_ids g)]) (\<lambda>nxt.
     st_then (mix_teleport teleport_probability nxt teleport) (\<lambda>nxt.
     st_then (st_fold add_delta (f64_zero False) (zip nxt scores)) (\<lambda>l1_delta.
     if \<not> f64_is_finite l1_delta then work_fail integrity_failure else st_ret (nxt, l1_delta)))))"

record ppr_outcome =
  po_scores :: "f64 list"
  po_iterations :: nat
  po_converged :: bool
  po_l1_delta :: f64

text \<open>\<open>n\<close> iterations are left.\<close>

fun ppr_iterate ::
  "('h, 'g) retrieval_env \<Rightarrow> ppr_graph \<Rightarrow> f64 \<Rightarrow> f64 \<Rightarrow> f64 list \<Rightarrow> nat \<Rightarrow> ppr_outcome \<Rightarrow> ppr_outcome counted"
where
  "ppr_iterate env g tp epsilon teleport 0 st = st_ret st"
| "ppr_iterate env g tp epsilon teleport (Suc n) st =
     st_then (ppr_step env g tp teleport (po_scores st)) (\<lambda>(nxt, l1_delta).
     let st' = \<lparr>po_scores = nxt, po_iterations = Suc (po_iterations st), po_converged = f64_lt l1_delta epsilon,
                po_l1_delta = l1_delta\<rparr> in
     st_then (\<lambda>(w, d). ((w\<lparr>wc_iterations := word_of_nat (po_iterations st')\<rparr>, d), Ok ())) (\<lambda>_.
     if po_converged st' then st_ret st' else ppr_iterate env g tp epsilon teleport n st'))"

section \<open>Ranking\<close>

definition rank_node ::
  "('h, 'g) retrieval_env \<Rightarrow> nat \<Rightarrow> nat \<Rightarrow> 'h \<times> 'h \<Rightarrow> string \<times> f64 \<Rightarrow> ('h \<times> 'h) counted" where
  "rank_node env passage_limit fact_limit = (\<lambda>(passages, facts) (node_id, score).
     st_then
       (if starts_with node_id ''passage:'' then
          st_then (retain (re_heap env) passage_limit \<lparr>ri_id = node_id, ri_score = score, ri_payload = ()\<rparr> passages)
            (\<lambda>passages'. st_ret (passages', facts))
        else if starts_with node_id ''fact:'' then
          st_then (retain (re_heap env) fact_limit \<lparr>ri_id = node_id, ri_score = score, ri_payload = ()\<rparr> facts)
            (\<lambda>facts'. st_ret (passages, facts'))
        else st_ret (passages, facts)) (\<lambda>r.
     st_then account_graph_scan_unit (\<lambda>_. st_ret r)))"

definition ranked_node ::
  "('h, 'g) retrieval_env \<Rightarrow> bounded_server \<Rightarrow> string \<Rightarrow> string \<Rightarrow> string \<Rightarrow> nat \<times> unit ranked_item \<Rightarrow> (json \<times> json \<times> json \<times> json) counted" where
  "ranked_node env sv corpus_id section prefix = (\<lambda>(rank, r).
     st_then (work_ok_or (strip_prefix (ri_id r) prefix) integrity_failure) (\<lambda>item_id.
     st_then (st_lift (bounded_snapshot_item (re_sha256 env) sv corpus_id section item_id)) (\<lambda>item.
     st_then (materialize_domain_object (re_codec env) item) (\<lambda>item.
     st_ret (item, JString (ri_id r), JNumber (PosInt (word_of_nat (rank + 1))), json_f64 (ri_score r))))))"

definition ppr_rank ::
  "('h, 'g) retrieval_env \<Rightarrow> bounded_server \<Rightarrow> string \<Rightarrow> json \<Rightarrow> string list \<Rightarrow> f64 list \<Rightarrow> (json list \<times> json list) counted" where
  "ppr_rank env sv corpus_id plan node_ids scores =
     st_then (st_lift (required_u64 plan ''passageLimit'')) (\<lambda>passage_limit.
     st_then (st_lift (required_u64 plan ''entityLimit'')) (\<lambda>fact_limit.
     st_then (timed (bounded_rank_heap (re_alloc env) (re_heap env) (unat passage_limit))) (\<lambda>passages0.
     st_then (timed (bounded_rank_heap (re_alloc env) (re_heap env) (unat fact_limit))) (\<lambda>facts0.
     st_then (st_fold (rank_node env (unat passage_limit) (unat fact_limit)) (passages0, facts0) (zip node_ids scores))
       (\<lambda>(passages, facts).
     let ranked = finish_bounded_ranking (re_heap env) passages in
     st_then (st_traverse (ranked_node env sv corpus_id ''passages'' ''passage:'') (zip [0..<length ranked] ranked)) (\<lambda>ps.
     let ranked = finish_bounded_ranking (re_heap env) facts in
     st_then (st_traverse (ranked_node env sv corpus_id ''facts'' ''fact:'') (zip [0..<length ranked] ranked)) (\<lambda>fs.
     st_ret
       (map (\<lambda>(item, node_id, rank, score).
          JObject [(''nodeId'', node_id), (''passage'', item), (''rank'', rank), (''score'', score)]) ps,
        map (\<lambda>(item, node_id, rank, score).
          JObject [(''fact'', item), (''nodeId'', node_id), (''rank'', rank), (''score'', score)]) fs))))))))"

section \<open>The operation\<close>

definition ppr_result :: "json list \<Rightarrow> json list \<Rightarrow> nat \<Rightarrow> bool \<Rightarrow> f64 \<Rightarrow> json" where
  "ppr_result ranked_passages ranked_facts iters converged l1_delta =
     JObject [(''converged'', JBool converged), (''iterations'', JNumber (PosInt (word_of_nat iters))),
       (''l1Delta'', json_f64 l1_delta), (''rankedFacts'', JArray ranked_facts), (''rankedPassages'', JArray ranked_passages)]"

definition ppr_admission ::
  "bounded_server \<Rightarrow> json \<Rightarrow> (string \<times> json \<times> u64 \<times> u64) counted" where
  "ppr_admission sv params =
     st_then (st_lift (required_str params ''corpusId'')) (\<lambda>corpus_id.
     st_then (st_lift (ok_or (json_get ''plan'' params) (client_failure work_default))) (\<lambda>plan.
     let nodes_n = entry_or_default (bs_endpoint_counts sv) corpus_id;
         edges_n = entry_or_default (bs_edge_counts sv) corpus_id
     in
     st_then (or_resource (usage_for_request PPR_MATERIALIZE params)) (\<lambda>usage0.
     let usage = usage0\<lparr>graph_nodes := nodes_n, graph_edges := edges_n\<rparr> in
     st_then (or_resource (usage_check usage)) (\<lambda>_.
     st_then (st_lift (ok_or (checked_add (returned_passages usage) (returned_facts usage)) (client_failure work_default)))
       (\<lambda>combined_limit.
     st_then (or_resource (allocation_check (no_allocation\<lparr>seed_entries := seeds usage, result_entries := combined_limit,
         ppr_score_entries := nodes_n, ppr_node_entries := nodes_n, ppr_edge_entries := edges_n,
         heap_entries := combined_limit, retained_object_entries := combined_limit,
         response_buffer_bytes := MAX_RESPONSE_FRAME_BYTES\<rparr>))) (\<lambda>_.
     st_then (timed execution_before_allocation) (\<lambda>_.
     st_ret (corpus_id, plan, nodes_n, edges_n))))))))"

definition execute_ppr :: "('h, 'g) retrieval_env \<Rightarrow> bounded_server \<Rightarrow> json \<Rightarrow> json counted" where
  "execute_ppr env sv params =
     st_then (ppr_admission sv params) (\<lambda>(corpus_id, plan, nodes_n, edges_n).
     if nodes_n = 0 then st_ret (ppr_result [] [] 0 True (f64_zero False))
     else
       st_then (reconstruct_graph env sv corpus_id nodes_n edges_n plan) (\<lambda>g.
       st_then (ppr_teleport env plan g) (\<lambda>teleport.
       st_then (st_lift (required_f64 plan ''teleportProbability'')) (\<lambda>tp.
       st_then (st_lift (required_f64 plan ''convergenceEpsilon'')) (\<lambda>epsilon.
       st_then (st_lift (required_u64 plan ''maxIterations'')) (\<lambda>max_iterations.
       st_then (build_counted_graph_vec (re_alloc env) (length teleport) (index teleport)) (\<lambda>scores.
       st_then (ppr_iterate env g tp epsilon teleport (unat max_iterations)
           \<lparr>po_scores = scores, po_iterations = 0, po_converged = False, po_l1_delta = f64_zero False\<rparr>) (\<lambda>st.
       st_then (ppr_rank env sv corpus_id plan (pg_node_ids g) (po_scores st)) (\<lambda>(ranked_passages, ranked_facts).
       st_then check_work (\<lambda>_.
       st_ret (ppr_result ranked_passages ranked_facts (po_iterations st) (po_converged st) (po_l1_delta st))))))))))))"

end
