(* ===== verification/Bounded_Steps.thy ===== *)
theory Bounded_Steps
  imports Bounded_Ppr Retrieval_Objects_Correct
begin

text \<open>What the shared steps of the bounded operations return; none of them panics.\<close>

section \<open>Time and work\<close>

lemma yields_post:
  assumes "yields P m x"
  shows "post m (\<lambda>y. y = x)"
  unfolding post_def
proof
  fix d
  have "(\<exists>d'. m d = (d', Ok x)) \<or> (\<exists>d' e. m d = (d', Err e))" using assms unfolding yields_def by blast
  then show "case snd (m d) of Ok y \<Rightarrow> y = x | Err _ \<Rightarrow> True | Panic \<Rightarrow> False" by auto
qed

lemma post_timed: "(\<And>w. post (f w) Q) \<Longrightarrow> post (timed f) Q"
proof (rule postI)
  fix s s' x
  assume *: "\<And>w. post (f w) Q"
  show "snd (timed f s) \<noteq> Panic"
    using post_not_Panic [OF *, of "fst s" "snd s"] by (auto simp: timed_def split: prod.splits)
  show "timed f s = (s', Ok x) \<Longrightarrow> Q x"
    using post_Ok [OF *, of "fst s" "snd s"] by (auto simp: timed_def split: prod.splits)
qed

lemma post_before [simp]:
  "post (execution_before_allocation w) (\<lambda>_. True)" "post (execution_before_materialization w) (\<lambda>_. True)"
  "post (execution_checkpoint w) (\<lambda>_. True)"
  by (rule post_mono [OF yields_post [OF yields_before(1)]], simp)
    (rule post_mono [OF yields_post [OF yields_before(2)]], simp,
     rule post_mono [OF yields_post [OF yields_checkpoint]], simp)

lemma post_advance [simp]: "post (advance n w) (\<lambda>_. True)"
proof (rule postI)
  fix d
  show "snd (advance n w d) \<noteq> Panic"
    using post_not_Panic [OF post_before(3)] by (auto simp: advance_def Let_def split: option.splits)
qed simp

lemma post_timed_before [simp]:
  "post (timed execution_before_allocation) (\<lambda>_. True)" "post (timed execution_before_materialization) (\<lambda>_. True)"
  "post (timed (advance n)) (\<lambda>_. True)"
  by (rule post_timed, simp)+

lemma post_account [simp]: "post account_graph_scan_unit (\<lambda>_. True)"
proof (rule postI)
  fix s :: "work_counts \<times> execution_deadline"
  show "snd (account_graph_scan_unit s) \<noteq> Panic"
    using post_not_Panic [OF post_timed_before(3)] by (cases s) (auto simp: account_graph_scan_unit_def split: option.splits)
qed simp

lemma post_work_fail [simp]: "post (work_fail f) Q"
  by (simp add: post_def work_fail_def st_fail_def)

lemma work_fail_then [simp]: "st_then (work_fail f) g = work_fail f"
  by (simp add: fun_eq_iff st_then_def work_fail_def st_fail_def)

lemma post_work_ok_or: "(\<And>v. x = Some v \<Longrightarrow> Q v) \<Longrightarrow> post (work_ok_or x f) Q"
  by (simp add: work_ok_or_def split: option.splits)

lemma post_with_work: "(\<And>w. post (m w) Q) \<Longrightarrow> post (with_work m) Q"
  by (rule postI) (auto simp: with_work_def dest: post_not_Panic post_Ok)

lemma post_bump [simp]: "post (bump get set_to f) (\<lambda>_. True)"
  by (auto simp: post_def bump_def split: option.splits)

lemma work_check_not_Panic: "work_check w \<noteq> Panic"
  by (simp add: work_check_def checked_work_units_def)

lemma post_check_work [simp]: "post check_work (\<lambda>_. True)"
  unfolding check_work_def
  by (rule post_with_work) (use work_check_not_Panic in \<open>auto split: outcome.splits\<close>)

lemma post_or_resource: "r \<noteq> Panic \<Longrightarrow> (\<And>x. r = Ok x \<Longrightarrow> Q x) \<Longrightarrow> post (or_resource r) Q"
  unfolding or_resource_def by (rule post_lift) (cases r; simp)+

lemma post_guard: "(\<not> b \<Longrightarrow> post m Q) \<Longrightarrow> post (if b then work_fail f else m) Q"
  by simp

text \<open>Steps in front of the rest of an operation.\<close>

lemma post_lift_then: "r \<noteq> Panic \<Longrightarrow> (\<And>x. r = Ok x \<Longrightarrow> post (f x) Q) \<Longrightarrow> post (st_then (st_lift r) f) Q"
  by (rule post_then [OF post_lift])

lemma post_ok_or_then: "(\<And>v. x = Some v \<Longrightarrow> post (f v) Q) \<Longrightarrow> post (st_then (st_lift (ok_or x e)) f) Q"
  by (cases x) (auto intro!: post_lift_then)

lemma post_work_then: "(\<And>v. x = Some v \<Longrightarrow> post (f v) Q) \<Longrightarrow> post (st_then (work_ok_or x g) f) Q"
  by (rule post_then [OF post_work_ok_or])

lemma post_resource_then: "r \<noteq> Panic \<Longrightarrow> (\<And>x. r = Ok x \<Longrightarrow> post (f x) Q) \<Longrightarrow> post (st_then (or_resource r) f) Q"
  by (rule post_then [OF post_or_resource])

lemmas post_branches = post_ok_or_then post_lift_then post_work_then post_resource_then

text \<open>Steps whose value does not matter.\<close>

lemmas post_steps =
  post_seq [OF post_timed_before(1)] post_seq [OF post_timed_before(2)] post_seq [OF post_timed_before(3)]
  post_seq [OF post_account] post_seq [OF post_bump] post_seq [OF post_check_work] post_guard

section \<open>Vectors\<close>

lemma index_in_range: "i < length xs \<Longrightarrow> index xs i = st_ret (xs ! i)"
  by (simp add: index_def)

lemma assign_in_range: "i < length xs \<Longrightarrow> assign xs i v = st_ret (xs[i := v])"
  by (simp add: assign_def)

lemmas in_range = index_in_range assign_in_range

lemma post_push_built:
  "(\<And>j. i \<le> j \<Longrightarrow> j < i + n \<Longrightarrow> post (build j) (Q j)) \<Longrightarrow>
     post (push_built build i n vs) (\<lambda>r. \<exists>us. r = vs @ us \<and> length us = n \<and> (\<forall>j < n. Q (i + j) (us ! j)))"
proof (induction n arbitrary: i vs)
  case (Suc n)
  show ?case unfolding push_built.simps
  proof (rule post_then [OF Suc.prems [of i]])
    fix v assume v: "Q i v"
    have "post (push_built build (Suc i) n (vs @ [v])) (\<lambda>r. \<exists>us. r = (vs @ [v]) @ us \<and> length us = n \<and> (\<forall>j < n. Q (Suc i + j) (us ! j)))"
      by (rule Suc.IH) (use Suc.prems in auto)
    then have "post (push_built build (Suc i) n (vs @ [v])) (\<lambda>r. \<exists>us. r = vs @ us \<and> length us = Suc n \<and> (\<forall>j < Suc n. Q (i + j) (us ! j)))"
    proof (rule post_mono)
      fix r assume "\<exists>us. r = (vs @ [v]) @ us \<and> length us = n \<and> (\<forall>j < n. Q (Suc i + j) (us ! j))"
      then obtain us where us: "r = vs @ v # us" "length us = n" "\<forall>j < n. Q (Suc i + j) (us ! j)" by auto
      have "\<forall>j < Suc n. Q (i + j) ((v # us) ! j)"
      proof (intro allI impI)
        fix j assume "j < Suc n"
        then show "Q (i + j) ((v # us) ! j)" using v us(3) by (cases j) auto
      qed
      with us show "\<exists>us. r = vs @ us \<and> length us = Suc n \<and> (\<forall>j < Suc n. Q (i + j) (us ! j))"
        by (intro exI [of _ "v # us"]) simp
    qed
    then show "post (st_then account_graph_scan_unit (\<lambda>_. push_built build (Suc i) n (vs @ [v])))
        (\<lambda>r. \<exists>us. r = vs @ us \<and> length us = Suc n \<and> (\<forall>j < Suc n. Q (i + j) (us ! j)))"
      by (intro post_seq) simp_all
  qed simp_all
qed simp

lemma post_build:
  assumes "\<And>i. i < n \<Longrightarrow> post (build i) (\<lambda>v. v = f i)"
  shows "post (build_counted_graph_vec ca n build) (\<lambda>vs. vs = map f [0..<n])"
proof -
  have "post (push_built build 0 n []) (\<lambda>vs. vs = map f [0..<n])"
    by (rule post_mono [OF post_push_built [of 0 n build "\<lambda>i v. v = f i" "[]"]])
      (use assms in \<open>auto intro: nth_equalityI\<close>)
  moreover have "post (\<lambda>s. if \<not> ca n then st_fail (resource_failure (fst s)) s
      else st_then (timed execution_before_allocation) (\<lambda>_. m) s) Q" if "post m Q" for m and Q :: "'a list \<Rightarrow> bool"
  proof -
    have "post (st_then (timed execution_before_allocation) (\<lambda>_. m)) Q" using that by (intro post_seq) simp_all
    then show ?thesis by (auto simp: post_def st_fail_def)
  qed
  ultimately show ?thesis unfolding build_counted_graph_vec_def by (intro post_seq) simp_all
qed

lemma post_build_const: "post (build_counted_graph_vec ca n (\<lambda>_. st_ret c)) (\<lambda>vs. vs = replicate n c)"
  using post_build [of n "\<lambda>_. st_ret c" "\<lambda>_. c" ca] by (simp add: map_replicate_const)

lemma post_charge [simp]: "post (charge n) (\<lambda>_. True)"
  by (induction n) (auto intro: post_seq)

lemma post_counted_sort:
  assumes "by_key c f" "length xs < 2 ^ 63"
  shows "post (canonical_counted_sort ca c xs) (\<lambda>r. r = sort_key f xs)"
proof -
  have "xs = sort_key f xs" if "length xs < 2"
    using that by (cases xs; cases "tl xs") auto
  moreover have "post (\<lambda>s. if \<not> ca (length xs) then st_fail (resource_failure (fst s)) s
      else st_then (timed execution_before_allocation) (\<lambda>_. st_then (charge k) (\<lambda>_. st_ret r)) s) (\<lambda>r'. r' = r)" for k and r :: "'a list"
  proof -
    have "post (st_then (timed execution_before_allocation) (\<lambda>_. st_then (charge k) (\<lambda>_. st_ret r))) (\<lambda>r'. r' = r)"
      by (intro post_seq) simp_all
    then show ?thesis by (auto simp: post_def st_fail_def)
  qed
  ultimately show ?thesis
    using counted_sort_eq [of c f xs ca] assms unfolding by_key_def by (auto intro!: post_seq)
qed

section \<open>Ranking\<close>

lemma post_rank_heap: "post (timed (bounded_rank_heap ca H limit)) (\<lambda>h. h = heap_new H)"
  unfolding bounded_rank_heap_def
  by (rule post_timed, rule post_seq) (auto intro: post_seq)

text \<open>The best entries among those offered so far.\<close>

definition retains :: "('h, 'a ranked_item) heap_ops \<Rightarrow> nat \<Rightarrow> 'a ranked_item list \<Rightarrow> 'h \<Rightarrow> bool" where
  "retains H limit items h \<longleftrightarrow> retain_all H limit items (heap_new H) = Ok h"

lemma retain_all_append:
  "retain_all H limit (items @ [x]) h = and_then (retain_all H limit items h) (retain_bounded_ranked H limit x)"
  by (induction items arbitrary: h) (auto simp: and_then_def split: outcome.splits)

lemma retains_new: "retains H limit [] (heap_new H)"
  by (simp add: retains_def)

lemma post_retain:
  assumes "rank_heap H" "retains H limit items h"
  shows "post (retain H limit x h) (retains H limit (items @ [x]))"
proof -
  obtain h' where h': "retain_all H limit (items @ [x]) (heap_new H) = Ok h'"
    using rank_heap.finish_ranking [OF assms(1)] by blast
  then have "retain_bounded_ranked H limit x h = Ok h'" using assms(2) by (simp add: retain_all_append retains_def)
  then show ?thesis using h' by (simp add: retain_def retains_def)
qed

lemma retains_ranking:
  assumes "rank_heap H" "retains H limit items h"
  shows "map rank_key (finish_bounded_ranking H h) = take limit (sort (map rank_key items))"
    "mset (finish_bounded_ranking H h) \<subseteq># mset items"
  using rank_heap.finish_ranking [OF assms(1), of limit items] assms(2) by (auto simp: retains_def)

section \<open>Copies\<close>

lemma post_clone_string [simp]: "post (try_clone_json_string ca s w) (\<lambda>_. True)"
  by (rule post_mono [OF yields_post [OF yields_clone_string]]) simp

lemma post_clone:
  "post (try_clone_json_value ca w v) (\<lambda>_. True)" "post (clone_items ca w vs cloned) (\<lambda>_. True)"
  "post (clone_entries ca w es ecloned) (\<lambda>_. True)"
  by (induction ca w v and ca w vs cloned and ca w es ecloned
      rule: try_clone_json_value_clone_items_clone_entries.induct) (auto intro!: post_seq)

lemma encode_object_not_Panic: "encode_object fc v \<noteq> Panic"
proof -
  have "write_chunks limit b chunks \<noteq> Panic" for limit b chunks
    by (induction chunks arbitrary: b) (auto simp: limited_write_def and_then_eq_Panic split: if_splits)
  then show ?thesis by (auto simp: encode_object_def serialize_limited_def split: outcome.splits)
qed

lemma post_materialize:
  "post (materialize_domain_object fc v) (\<lambda>v'. json_wf v \<longrightarrow> v' = v)"
proof (rule postI)
  fix s :: "work_counts \<times> execution_deadline" and s' v'
  obtain w d where s: "s = (w, d)" by fastforce
  have clone: "post (try_clone_json_value (can_reserve fc) w v) (\<lambda>v'. json_wf v \<longrightarrow> v' = v)" for w
    by (cases "json_wf v") (auto intro: post_mono [OF post_clone(1)] post_mono [OF yields_post [OF yields_clone(1)]])
  let ?m = "\<lambda>w'. st_then (timed execution_before_materialization) (\<lambda>_.
      case encode_object fc v of
        Ok _ \<Rightarrow> timed (\<lambda>w. try_clone_json_value (can_reserve fc) w v)
      | Err _ \<Rightarrow> st_fail (resource_failure w')
      | Panic \<Rightarrow> st_panic)"
  have m: "post (?m w') (\<lambda>v'. json_wf v \<longrightarrow> v' = v)" for w'
    by (rule post_seq, simp) (use encode_object_not_Panic [of fc v] clone in \<open>auto split: outcome.splits intro: post_timed\<close>)
  show "snd (materialize_domain_object fc v s) \<noteq> Panic"
    using post_not_Panic [OF m] work_check_not_Panic
    by (auto simp: materialize_domain_object_def s Let_def split: option.splits outcome.splits)
  assume "materialize_domain_object fc v s = (s', Ok v')"
  then obtain w' where "?m w' (w', d) = (s', Ok v')"
    by (auto simp: materialize_domain_object_def s Let_def split: option.splits outcome.splits)
  then show "json_wf v \<longrightarrow> v' = v" by (rule post_Ok [OF m])
qed

end
