(* ===== verification/Ppr_Correct.thy ===== *)
theory Ppr_Correct
  imports Bounded_Steps
begin

text \<open>
  The graph that page rank rebuilds is its sorted edge list: the array of outgoing edges is the list of
  edges itself, and iterating over the array is folding over the edges. No index is out of range.
\<close>

section \<open>Arcs\<close>

text \<open>An arc is an edge with the indices of its ends.\<close>

type_synonym arc = "nat \<times> nat \<times> f64"

definition from_below :: "nat \<Rightarrow> arc list \<Rightarrow> arc list" where
  "from_below i arcs = filter (\<lambda>a. fst a < i) arcs"

definition from_node :: "nat \<Rightarrow> arc list \<Rightarrow> arc list" where
  "from_node i arcs = filter (\<lambda>a. fst a = i) arcs"

lemma from_below_Suc: "sorted (map fst arcs) \<Longrightarrow> from_below (Suc i) arcs = from_below i arcs @ from_node i arcs"
proof (induction arcs)
  case (Cons a arcs)
  show ?case
  proof (cases "fst a < i")
    case True
    with Cons show ?thesis by (simp add: from_below_def from_node_def)
  next
    case False
    then have "from_below i arcs = []" using Cons.prems by (auto simp: from_below_def filter_empty_conv)
    with Cons False show ?thesis by (auto simp: from_below_def from_node_def)
  qed
qed (simp add: from_below_def from_node_def)

lemma from_below_0 [simp]: "from_below 0 arcs = []"
  by (simp add: from_below_def)

lemma from_below_all: "\<forall>a \<in> set arcs. fst a < n \<Longrightarrow> from_below n arcs = arcs"
  by (simp add: from_below_def)

lemma from_below_prefix: "sorted (map fst arcs) \<Longrightarrow> take (length (from_below i arcs)) arcs = from_below i arcs"
proof (induction arcs)
  case (Cons a arcs)
  show ?case
  proof (cases "fst a < i")
    case False
    then have "from_below i (a # arcs) = []" using Cons.prems by (auto simp: from_below_def filter_empty_conv)
    then show ?thesis by simp
  qed (use Cons in \<open>auto simp: from_below_def\<close>)
qed (simp add: from_below_def)

lemma slice_from_node:
  assumes "sorted (map fst arcs)"
  shows "take (length (from_below (Suc i) arcs) - length (from_below i arcs)) (drop (length (from_below i arcs)) arcs)
    = from_node i arcs"
proof -
  have "take (length (from_below (Suc i) arcs)) arcs = from_below i arcs @ from_node i arcs"
    using from_below_prefix [OF assms, of "Suc i"] from_below_Suc [OF assms] by simp
  then have "drop (length (from_below i arcs)) (take (length (from_below (Suc i) arcs)) arcs) = from_node i arcs" by simp
  then show ?thesis by (simp add: drop_take)
qed

lemma length_from_below: "length (from_below i arcs) \<le> length arcs"
  by (simp add: from_below_def)

text \<open>The position of an arc counts the arcs of smaller sources and the earlier ones of its own.\<close>

lemma position_of_arc:
  assumes "sorted (map fst arcs)" "k < length arcs" "fst (arcs ! k) = i"
  shows "k = length (from_below i arcs) + length (from_node i (take k arcs))"
proof -
  have s: "sorted (map fst (take k arcs))" using assms(1) by (metis sorted_wrt_take take_map)
  have "fst a \<le> i" if "a \<in> set (take k arcs)" for a
  proof -
    obtain j where "j < k" "a = arcs ! j" using \<open>a \<in> set (take k arcs)\<close> assms(2) by (auto simp: in_set_conv_nth)
    then show ?thesis using assms sorted_nth_mono [OF assms(1), of j k] by simp
  qed
  then have "take k arcs = from_below (Suc i) (take k arcs)" by (simp add: from_below_def less_Suc_eq_le)
  then have 1: "take k arcs = from_below i (take k arcs) @ from_node i (take k arcs)" using from_below_Suc [OF s] by metis
  have "fst a \<ge> i" if "a \<in> set (drop k arcs)" for a
  proof -
    obtain j where "j < length arcs - k" "a = arcs ! (k + j)" using \<open>a \<in> set (drop k arcs)\<close> by (auto simp: in_set_conv_nth)
    then show ?thesis using assms sorted_nth_mono [OF assms(1), of k "k + j"] by simp
  qed
  then have "from_below i (drop k arcs) = []" by (force simp: from_below_def filter_empty_conv)
  then have "from_below i arcs = from_below i (take k arcs)"
    unfolding from_below_def by (metis append_Nil2 append_take_drop_id filter_append)
  with 1 have "length (take k arcs) = length (from_below i arcs) + length (from_node i (take k arcs))"
    by (metis length_append)
  then show ?thesis using assms(2) by simp
qed

section \<open>The meaning of the arrays\<close>

definition weight_sum :: "nat \<Rightarrow> arc list \<Rightarrow> f64" where
  "weight_sum i arcs = foldl f64_add (f64_zero False) (map (snd \<circ> snd) (from_node i arcs))"

definition csr :: "ppr_graph \<Rightarrow> arc list \<Rightarrow> bool" where
  "csr g arcs \<longleftrightarrow>
     length (pg_sums g) = length (pg_node_ids g) \<and> length (pg_hub g) = length (pg_node_ids g) \<and>
     length (pg_offsets g) = Suc (length (pg_node_ids g)) \<and>
     (\<forall>a \<in> set arcs. fst a < length (pg_node_ids g) \<and> fst (snd a) < length (pg_node_ids g)) \<and>
     sorted (map fst arcs) \<and> pg_adjacency g = map snd arcs \<and>
     (\<forall>i \<le> length (pg_node_ids g). pg_offsets g ! i = length (from_below i arcs)) \<and>
     (\<forall>i < length (pg_node_ids g). pg_sums g ! i = weight_sum i arcs)"

text \<open>One arc adds its share of the score of its source to its target.\<close>

definition add_share :: "ppr_graph \<Rightarrow> f64 \<Rightarrow> f64 list \<Rightarrow> f64 list \<Rightarrow> arc \<Rightarrow> f64 list" where
  "add_share g tp scores nxt = (\<lambda>(s, t, w).
     nxt[t := f64_add (nxt ! t) (f64_mul (f64_mul (f64_mul (f64_sub f64_one tp) (scores ! s)) (f64_div w (pg_sums g ! s)))
       (pg_hub g ! t))])"

lemma length_add_share [simp]: "length (add_share g tp scores nxt a) = length nxt"
  by (simp add: add_share_def split: prod.splits)

lemma length_shares [simp]: "length (foldl (add_share g tp scores) nxt arcs) = length nxt"
  by (induction arcs arbitrary: nxt) simp_all

lemma post_spread_edges:
  assumes "i < length scores" "length (pg_hub g) = n"
  shows "length nxt = n \<Longrightarrow> \<forall>a \<in> set arcs. fst a = i \<and> fst (snd a) < n \<Longrightarrow>
    post (st_fold (spread_edge g tp scores i (pg_sums g ! i)) nxt (map snd arcs)) (\<lambda>r. r = foldl (add_share g tp scores) nxt arcs)"
proof (induction arcs arbitrary: nxt)
  case (Cons a arcs)
  obtain t w where a: "a = (i, t, w)" "t < n" using Cons.prems(2) by (cases a) auto
  have "post (spread_edge g tp scores i (pg_sums g ! i) nxt (t, w)) (\<lambda>r. r = add_share g tp scores nxt a)"
    unfolding spread_edge_def prod.case using assms a Cons.prems(1)
    by (auto simp: add_share_def in_range intro!: post_seq)
  then show ?case using Cons by (auto simp: a intro!: post_then)
qed simp

lemma post_spread:
  assumes "csr g arcs" "length scores = length (pg_node_ids g)" "length zeros = length (pg_node_ids g)"
  shows "post (st_fold (spread_source g tp scores) zeros [0..<length (pg_node_ids g)])
    (\<lambda>nxt. nxt = foldl (add_share g tp scores) zeros arcs)"
proof -
  let ?n = "length (pg_node_ids g)"
  note c = assms(1) [unfolded csr_def]
  have srt: "sorted (map fst arcs)" using c by blast
  define I where "I i nxt \<longleftrightarrow> nxt = foldl (add_share g tp scores) zeros (from_below i arcs)" for i nxt
  have "post (st_fold (spread_source g tp scores) zeros [0..<?n]) (I (length [0..<?n]))"
  proof (rule post_fold)
    show "I 0 zeros" by (simp add: I_def)
    fix i nxt
    assume "i < length [0..<?n]" and nxt: "I i nxt"
    then have i: "i < ?n" by simp
    have len: "length nxt = ?n" using nxt assms(3) by (simp add: I_def)
    have off: "pg_offsets g ! i = length (from_below i arcs)" "pg_offsets g ! Suc i = length (from_below (Suc i) arcs)"
      using c i by auto
    have le: "length (from_below i arcs) \<le> length (from_below (Suc i) arcs)" by (simp add: from_below_Suc [OF srt])
    have slice: "slice_range (pg_adjacency g) (pg_offsets g ! i) (pg_offsets g ! Suc i) = st_ret (map snd (from_node i arcs))"
      using c le length_from_below [of "Suc i" arcs] slice_from_node [OF srt, of i]
      unfolding slice_range_def off by (simp add: take_map drop_map)
    have next_I: "foldl (add_share g tp scores) nxt (from_node i arcs) = foldl (add_share g tp scores) zeros (from_below (Suc i) arcs)"
      using nxt by (simp add: I_def from_below_Suc [OF srt])
    have edges: "post (st_fold (spread_edge g tp scores i (pg_sums g ! i)) nxt (map snd (from_node i arcs))) (I (Suc i))"
      by (rule post_mono [OF post_spread_edges [where n = ?n]])
        (use c i len next_I assms(2) in \<open>auto simp: I_def from_node_def\<close>)
    have "I (Suc i) nxt" if "from_node i arcs = []" using nxt that by (simp add: I_def from_below_Suc [OF srt])
    then show "post (spread_source g tp scores nxt ([0..<?n] ! i)) (I (Suc i))"
      unfolding spread_source_def using i c edges slice
      by (auto simp: in_range intro!: post_seq)
  qed
  then show ?thesis by (rule post_mono) (use c in \<open>auto simp: I_def from_below_all\<close>)
qed

section \<open>Iteration\<close>

definition reference_next :: "ppr_graph \<Rightarrow> arc list \<Rightarrow> f64 \<Rightarrow> f64 list \<Rightarrow> f64 list \<Rightarrow> f64 list" where
  "reference_next g arcs tp teleport scores =
     map2 (\<lambda>v t. f64_add v (f64_mul tp t))
       (foldl (add_share g tp scores) (replicate (length (pg_node_ids g)) (f64_zero False)) arcs) teleport"

definition reference_delta :: "f64 list \<Rightarrow> f64 list \<Rightarrow> f64" where
  "reference_delta nxt scores =
     foldl (\<lambda>d (a, b). f64_add d (f64_abs (f64_sub a b))) (f64_zero False) (zip nxt scores)"

fun reference_iterate :: "ppr_graph \<Rightarrow> arc list \<Rightarrow> f64 \<Rightarrow> f64 \<Rightarrow> f64 list \<Rightarrow> nat \<Rightarrow> ppr_outcome \<Rightarrow> ppr_outcome" where
  "reference_iterate g arcs tp epsilon teleport 0 st = st"
| "reference_iterate g arcs tp epsilon teleport (Suc n) st =
     (let nxt = reference_next g arcs tp teleport (po_scores st); d = reference_delta nxt (po_scores st);
          st' = \<lparr>po_scores = nxt, po_iterations = Suc (po_iterations st), po_converged = f64_lt d epsilon, po_l1_delta = d\<rparr>
      in if po_converged st' then st' else reference_iterate g arcs tp epsilon teleport n st')"

lemma post_mix: "length vs = length ts \<Longrightarrow> post (mix_teleport tp vs ts) (\<lambda>r. r = map2 (\<lambda>v t. f64_add v (f64_mul tp t)) vs ts)"
proof (induction vs ts rule: list_induct2)
  case (Cons v vs t ts)
  show ?case unfolding mix_teleport.simps by (rule post_seq, simp, rule post_then [OF Cons.IH]) simp
qed simp

lemma post_delta:
  "post (st_fold add_delta d ps) (\<lambda>r. r = foldl (\<lambda>d (a, b). f64_add d (f64_abs (f64_sub a b))) d ps)"
proof (induction ps arbitrary: d)
  case (Cons p ps)
  have "post (add_delta d p) (\<lambda>r. r = (case p of (a, b) \<Rightarrow> f64_add d (f64_abs (f64_sub a b))))"
    by (cases p) (auto simp: add_delta_def intro!: post_seq)
  then show ?case using Cons by (auto intro!: post_then)
qed simp

lemma post_step:
  assumes "csr g arcs" "length scores = length (pg_node_ids g)" "length teleport = length (pg_node_ids g)"
  shows "post (ppr_step env g tp teleport scores) (\<lambda>(nxt, d).
    nxt = reference_next g arcs tp teleport scores \<and> d = reference_delta nxt scores \<and> length nxt = length (pg_node_ids g))"
  unfolding ppr_step_def
proof (rule post_then [OF post_build_const])
  let ?n = "length (pg_node_ids g)"
  fix zeros assume z: "zeros = replicate ?n (f64_zero False)"
  show "post (st_then (st_fold (spread_source g tp scores) zeros [0..<?n]) (\<lambda>nxt.
      st_then (mix_teleport tp nxt teleport) (\<lambda>nxt.
      st_then (st_fold add_delta (f64_zero False) (zip nxt scores)) (\<lambda>l1_delta.
      if \<not> f64_is_finite l1_delta then work_fail integrity_failure else st_ret (nxt, l1_delta))))) (\<lambda>(nxt, d).
    nxt = reference_next g arcs tp teleport scores \<and> d = reference_delta nxt scores \<and> length nxt = ?n)"
    using assms(3)
    by (intro post_then [OF post_spread [OF assms(1,2)]] post_then [OF post_mix] post_then [OF post_delta])
      (auto simp: z reference_next_def reference_delta_def)
qed

lemma post_iterate:
  assumes "csr g arcs" "length teleport = length (pg_node_ids g)"
  shows "length (po_scores st) = length (pg_node_ids g) \<Longrightarrow>
    post (ppr_iterate env g tp epsilon teleport n st) (\<lambda>st'. st' = reference_iterate g arcs tp epsilon teleport n st \<and>
      length (po_scores st') = length (pg_node_ids g))"
proof (induction n arbitrary: st)
  case (Suc n)
  have "post (\<lambda>(w, d). ((w\<lparr>wc_iterations := k\<rparr>, d), Ok ())) (\<lambda>_. True)" for k
    by (auto simp: post_def)
  with Suc show ?case unfolding ppr_iterate.simps
    by (intro post_then [OF post_step [OF assms(1) Suc.prems assms(2)]]) (auto simp: Let_def intro!: post_seq)
qed simp

section \<open>The edges and the nodes\<close>

definition edge_key :: "graph_edge \<Rightarrow> (nat list \<times> nat list) \<times> int" where
  "edge_key e = ((encode_utf16 (source_node_id e), encode_utf16 (target_node_id e)), total_key (ge_weight e))"

lemma edge_cmp_key: "by_key edge_cmp edge_key"
  by (auto simp: by_key_def edge_cmp_def edge_key_def utf16_cmp_def total_cmp_def then_with_def cmp_def)

definition ends :: "graph_edge list \<Rightarrow> string set" where
  "ends es = (\<Union>e \<in> set es. {source_node_id e, target_node_id e})"

lemma post_corpus_edges: "post (corpus_edges c es acc) (\<lambda>r. r = acc @ filter (\<lambda>e. ge_corpus_id e = c) es)"
proof (induction es arbitrary: acc)
  case (Cons e es)
  show ?case using Cons [of "acc @ [e]"] Cons [of acc] by (auto intro!: post_steps)
qed simp

definition listed :: "string set \<times> string list \<Rightarrow> string set \<Rightarrow> nat \<Rightarrow> bool" where
  "listed s ids k \<longleftrightarrow> fst s = ids \<and> set (snd s) = ids \<and> distinct (snd s) \<and> length (snd s) \<le> k"

lemma post_add_endpoint: "listed s ids k \<Longrightarrow> post (add_endpoint x s) (\<lambda>s'. listed s' (insert x ids) (Suc k))"
  by (cases s) (auto simp: add_endpoint_def listed_def insert_absorb intro!: post_seq)

lemma post_collect: "listed s ids k \<Longrightarrow> post (collect_endpoints es s) (\<lambda>s'. listed s' (ids \<union> ends es) (k + 2 * length es))"
proof (induction es arbitrary: s ids k)
  case (Cons e es)
  have ids: "insert (target_node_id e) (insert (source_node_id e) ids) \<union> ends es = ids \<union> ends (e # es)"
    by (auto simp: ends_def)
  have "post (collect_endpoints es s'') (\<lambda>s'. listed s' (ids \<union> ends (e # es)) (k + 2 * length (e # es)))"
    if "listed s'' (insert (target_node_id e) (insert (source_node_id e) ids)) (Suc (Suc k))" for s''
    using Cons.IH [OF that] by (simp only: ids) simp
  then show ?case unfolding collect_endpoints.simps
    by (intro post_then [OF post_add_endpoint [OF Cons.prems]] post_then [OF post_add_endpoint] post_steps)
qed (simp add: ends_def)

lemma sort_by_utf16: "by_key utf16_cmp encode_utf16"
  by (simp add: by_key_def utf16_cmp_def)

definition corpus_graph :: "bounded_server \<Rightarrow> string \<Rightarrow> graph_edge list" where
  "corpus_graph sv corpus_id = sort_key edge_key (filter (\<lambda>e. ge_corpus_id e = corpus_id) (map snd (ns_edges (bs_state sv))))"

definition canonical_nodes :: "graph_edge list \<Rightarrow> string list \<Rightarrow> bool" where
  "canonical_nodes es ids \<longleftrightarrow> distinct ids \<and> set ids = ends es \<and> sorted (map encode_utf16 ids)"

lemma post_reconstruct_nodes:
  assumes "length (ns_edges (bs_state sv)) < 2 ^ 62"
  shows "post (reconstruct_nodes env sv corpus_id n k) (\<lambda>(es, ids). es = corpus_graph sv corpus_id \<and> canonical_nodes es ids)"
proof -
  let ?es = "filter (\<lambda>e. ge_corpus_id e = corpus_id) (map snd (ns_edges (bs_state sv)))"
  have len: "length ?es < 2 ^ 62" using assms length_filter_le [of _ "map snd (ns_edges (bs_state sv))"] by (metis length_map order.strict_trans1)
  have edges: "post (corpus_edges corpus_id (map snd (ns_edges (bs_state sv))) []) (\<lambda>es. es = ?es)"
    using post_corpus_edges [of corpus_id _ "[]"] by simp
  have sorted: "post (canonical_sort_edges (re_alloc env) ?es) (\<lambda>es. es = corpus_graph sv corpus_id)"
    unfolding canonical_sort_edges_def corpus_graph_def by (rule post_counted_sort [OF edge_cmp_key]) (use len in simp)
  have collected: "post (collect_endpoints (corpus_graph sv corpus_id) ({}, []))
      (\<lambda>s. listed s (ends (corpus_graph sv corpus_id)) (2 * length (corpus_graph sv corpus_id)))"
    using post_collect [of "({}, [])" "{}" 0] by (simp add: listed_def)
  have ids: "post (canonical_sort_ids (re_alloc env) ids) (\<lambda>r. canonical_nodes (corpus_graph sv corpus_id) r)"
    if "listed s (ends (corpus_graph sv corpus_id)) (2 * length (corpus_graph sv corpus_id))" "snd s = ids" for s ids
    unfolding canonical_sort_ids_def
    by (rule post_mono [OF post_counted_sort [OF sort_by_utf16]])
      (use that len in \<open>auto simp: listed_def canonical_nodes_def corpus_graph_def\<close>)
  show ?thesis unfolding reconstruct_nodes_def
    by (intro post_steps post_then [OF edges]) (auto intro!: post_steps post_then [OF sorted] post_then [OF collected]
        post_then [OF ids] post_with_work)
qed

section \<open>Degrees\<close>

definition indexes :: "(string \<rightharpoonup> nat) \<Rightarrow> string list \<Rightarrow> bool" where
  "indexes m ids \<longleftrightarrow> (\<forall>x i. m x = Some i \<longleftrightarrow> i < length ids \<and> ids ! i = x)"

lemma post_index_nodes:
  "indexes m ids \<Longrightarrow> distinct (ids @ rest) \<Longrightarrow> post (index_nodes (length ids) rest m) (\<lambda>m'. indexes m' (ids @ rest))"
proof (induction rest arbitrary: ids m)
  case (Cons x rest)
  have "m x = None" by (cases "m x") (use Cons.prems in \<open>auto simp: indexes_def in_set_conv_nth\<close>)
  moreover have "indexes (m(x \<mapsto> length ids)) (ids @ [x])"
    using Cons.prems by (auto simp: indexes_def nth_append less_Suc_eq in_set_conv_nth)
  from Cons.IH [OF this] Cons.prems(2)
  have "post (index_nodes (Suc (length ids)) rest (m(x \<mapsto> length ids))) (\<lambda>m'. indexes m' (ids @ x # rest))"
    by (simp del: fun_upd_apply)
  ultimately show ?case by (auto intro!: post_steps)
qed simp

lemma indexed_ends:
  assumes "canonical_nodes es ids" "indexes m ids"
  shows "\<forall>e \<in> set es. \<exists>s t. m (source_node_id e) = Some s \<and> m (target_node_id e) = Some t \<and> s < length ids \<and> t < length ids"
proof -
  have "\<exists>i. m x = Some i \<and> i < length ids" if "x \<in> set ids" for x
    using assms(2) that by (auto simp: indexes_def in_set_conv_nth)
  moreover have "source_node_id e \<in> set ids \<and> target_node_id e \<in> set ids" if "e \<in> set es" for e
    using assms(1) that by (auto simp: canonical_nodes_def ends_def)
  ultimately show ?thesis by blast
qed

definition arc_of :: "(string \<rightharpoonup> nat) \<Rightarrow> graph_edge \<Rightarrow> arc" where
  "arc_of m e = (the (m (source_node_id e)), the (m (target_node_id e)), ge_weight e)"

lemma from_node_snoc: "from_node i (arcs @ [a]) = from_node i arcs @ (if fst a = i then [a] else [])"
  by (simp add: from_node_def)

definition into_node :: "nat \<Rightarrow> arc list \<Rightarrow> arc list" where
  "into_node i arcs = filter (\<lambda>a. fst (snd a) = i) arcs"

lemma into_node_snoc: "into_node i (arcs @ [a]) = into_node i arcs @ (if fst (snd a) = i then [a] else [])"
  by (simp add: into_node_def)

lemma weight_sum_snoc:
  "weight_sum i (arcs @ [a]) = (if fst a = i then f64_add (weight_sum i arcs) (snd (snd a)) else weight_sum i arcs)"
  by (simp add: weight_sum_def from_node_snoc)

definition degrees_of :: "nat \<Rightarrow> arc list \<Rightarrow> degrees \<Rightarrow> bool" where
  "degrees_of n arcs dg \<longleftrightarrow>
     length (dg_out dg) = n \<and> length (dg_in dg) = n \<and> length (dg_sums dg) = n \<and>
     (\<forall>i < n. dg_out dg ! i = length (from_node i arcs) \<and> dg_in dg ! i = word_of_nat (length (into_node i arcs)) \<and>
        dg_sums dg ! i = weight_sum i arcs)"

lemma post_count_degree:
  assumes "degrees_of n arcs dg" "m (source_node_id e) = Some s" "m (target_node_id e) = Some t" "s < n" "t < n"
  shows "post (count_degree m e dg) (degrees_of n (arcs @ [arc_of m e]))"
proof -
  have "degrees_of n (arcs @ [arc_of m e]) \<lparr>dg_out = (dg_out dg)[s := Suc (dg_out dg ! s)], dg_in = (dg_in dg)[t := k],
      dg_sums = (dg_sums dg)[s := f64_add (dg_sums dg ! s) (ge_weight e)]\<rparr>" if "checked_add (dg_in dg ! t) 1 = Some k" for k
    using assms that
    by (auto simp: degrees_of_def arc_of_def from_node_snoc into_node_snoc weight_sum_snoc nth_list_update checked_add_def
        add.commute split: if_splits)
  then show ?thesis unfolding count_degree_def using assms
    by (auto simp: degrees_of_def in_range work_ok_or_def intro!: post_steps split: option.splits)
qed

lemma post_count_degrees:
  assumes "degrees_of n [] dg" "\<forall>e \<in> set es. \<exists>s t. m (source_node_id e) = Some s \<and> m (target_node_id e) = Some t \<and> s < n \<and> t < n"
  shows "post (st_fold (\<lambda>dg edge. count_degree m edge dg) dg es) (degrees_of n (map (arc_of m) es))"
proof -
  have "post (st_fold (\<lambda>dg edge. count_degree m edge dg) dg es) (\<lambda>dg. degrees_of n (map (arc_of m) (take (length es) es)) dg)"
  proof (rule post_fold [where I = "\<lambda>k. degrees_of n (map (arc_of m) (take k es))"])
    fix k dg assume k: "k < length es" and dg: "degrees_of n (map (arc_of m) (take k es)) dg"
    obtain s t where "m (source_node_id (es ! k)) = Some s" "m (target_node_id (es ! k)) = Some t" "s < n" "t < n"
      using assms(2) nth_mem [OF k] by blast
    from post_count_degree [OF dg this] show "post (count_degree m (es ! k) dg) (degrees_of n (map (arc_of m) (take (Suc k) es)))"
      using k by (simp add: take_Suc_conv_app_nth)
  qed (use assms(1) in simp)
  then show ?thesis by simp
qed

lemma post_reconstruct_degrees:
  assumes "canonical_nodes es ids"
  shows "post (reconstruct_degrees env es ids) (\<lambda>(m, dg). indexes m ids \<and> degrees_of (length ids) (map (arc_of m) es) dg)"
proof -
  have ix: "post (index_nodes 0 ids Map.empty) (\<lambda>m. indexes m ids)"
    using post_index_nodes [of Map.empty "[]" ids] assms by (simp add: indexes_def canonical_nodes_def)
  have dg: "post (st_fold (\<lambda>dg edge. count_degree m edge dg) \<lparr>dg_out = outs, dg_in = ins, dg_sums = sums\<rparr> es)
      (degrees_of (length ids) (map (arc_of m) es))"
    if "indexes m ids" "outs = replicate (length ids) 0" "ins = replicate (length ids) 0"
      "sums = replicate (length ids) (f64_zero False)" for m outs ins sums
  proof (rule post_count_degrees)
    show "degrees_of (length ids) [] \<lparr>dg_out = outs, dg_in = ins, dg_sums = sums\<rparr>"
      using that by (simp add: degrees_of_def from_node_def into_node_def weight_sum_def)
    show "\<forall>e \<in> set es. \<exists>s t. m (source_node_id e) = Some s \<and> m (target_node_id e) = Some t \<and>
        s < length ids \<and> t < length ids" by (rule indexed_ends [OF assms \<open>indexes m ids\<close>])
  qed
  show ?thesis unfolding reconstruct_degrees_def
    by (intro post_steps post_then [OF ix] post_then [OF post_build_const] post_then [OF dg]) (assumption | simp)+
qed

section \<open>Adjacency\<close>

lemma running_offset_eq:
  assumes "sorted (map fst arcs)" "length arcs < 2 ^ 64" "\<And>i. i < length outs \<Longrightarrow> outs ! i = length (from_node i arcs)"
  shows "i \<le> length outs \<Longrightarrow> running_offset outs i = length (from_below i arcs)"
proof (induction i)
  case (Suc i)
  then have "running_offset outs (Suc i) = min (length (from_below i arcs) + length (from_node i arcs)) (2 ^ 64 - 1)"
    using assms(3) [of i] by (simp add: running_offset_def take_Suc_conv_app_nth)
  also have "length (from_below i arcs) + length (from_node i arcs) = length (from_below (Suc i) arcs)"
    by (simp add: from_below_Suc [OF assms(1)])
  finally show ?case using length_from_below [of "Suc i" arcs] assms(2) by simp
qed (simp add: running_offset_def)

definition placed :: "nat \<Rightarrow> arc list \<Rightarrow> nat \<Rightarrow> (nat \<times> f64) list \<times> nat list \<Rightarrow> bool" where
  "placed n arcs k = (\<lambda>(adjacency, cursors).
     adjacency = map snd (take k arcs) @ replicate (length arcs - k) (0, f64_zero False) \<and> length cursors = n \<and>
     (\<forall>i < n. cursors ! i = length (from_below i arcs) + length (from_node i (take k arcs))))"

lemma post_place_edge:
  assumes "sorted (map fst arcs)" "length arcs < 2 ^ 62" "k < length arcs" "placed n arcs k st" "arcs ! k = arc_of m e"
    "m (source_node_id e) = Some s" "m (target_node_id e) = Some t" "s < n"
  shows "post (place_edge m st e) (placed n arcs (Suc k))"
proof -
  obtain adjacency cursors where st: "st = (adjacency, cursors)" by fastforce
  have arc: "arcs ! k = (s, t, ge_weight e)" using assms(5-7) by (simp add: arc_of_def)
  have "k = length (from_below s arcs) + length (from_node s (take k arcs))"
    using position_of_arc [OF assms(1,3)] arc by simp
  then have pos: "cursors ! s = k" using assms(4,8) by (simp add: placed_def st)
  have "adjacency[k := (t, ge_weight e)] = map snd (take (Suc k) arcs) @ replicate (length arcs - Suc k) (0, f64_zero False)"
  proof -
    have "replicate (length arcs - k) (0 :: nat, f64_zero False) = (0, f64_zero False) # replicate (length arcs - Suc k) (0, f64_zero False)"
      using assms(3) by (metis Suc_diff_Suc replicate_Suc)
    then show ?thesis using assms(3,4) arc
      by (simp add: placed_def st take_Suc_conv_app_nth list_update_append)
  qed
  moreover have "cursors[s := Suc k] ! i = length (from_below i arcs) + length (from_node i (take (Suc k) arcs))" if "i < n" for i
    using assms(3,4,8) that arc pos by (auto simp: placed_def st take_Suc_conv_app_nth from_node_snoc nth_list_update)
  ultimately have "placed n arcs (Suc k) (adjacency[k := (t, ge_weight e)], cursors[s := Suc k])"
    using assms(4) by (simp add: placed_def st)
  then show ?thesis using assms pos
    by (auto simp: place_edge_def st work_ok_or_def in_range placed_def intro!: post_steps)
qed

lemma post_place_edges:
  assumes "sorted (map fst (map (arc_of m) es))" "length es < 2 ^ 62" "placed n (map (arc_of m) es) 0 st"
    "\<forall>e \<in> set es. \<exists>s t. m (source_node_id e) = Some s \<and> m (target_node_id e) = Some t \<and> s < n"
  shows "post (st_fold (place_edge m) st es) (placed n (map (arc_of m) es) (length es))"
proof (rule post_fold [where I = "placed n (map (arc_of m) es)"])
  fix k st assume k: "k < length es" "placed n (map (arc_of m) es) k st"
  obtain s t where "m (source_node_id (es ! k)) = Some s" "m (target_node_id (es ! k)) = Some t" "s < n"
    using assms(4) nth_mem [OF k(1)] by blast
  with assms(1,2) k show "post (place_edge m st (es ! k)) (placed n (map (arc_of m) es) (Suc k))"
    by (intro post_place_edge) auto
qed (rule assms(3))

lemma post_check_cursors:
  assumes "length offsets = Suc (length cursors)"
  shows "post (st_each (check_cursor offsets) (zip [0..<length cursors] cursors)) (\<lambda>_. True)"
proof (rule post_each)
  fix p assume "p \<in> set (zip [0..<length cursors] cursors)"
  then have "fst p < length cursors" by (auto simp: set_zip)
  then show "post (check_cursor offsets p) (\<lambda>_. True)" using assms by (simp add: check_cursor_def in_range)
qed

lemma post_reconstruct_adjacency:
  assumes "canonical_nodes es ids" "indexes m ids" "degrees_of (length ids) (map (arc_of m) es) dg"
    "sorted (map fst (map (arc_of m) es))" "length es < 2 ^ 62"
  shows "post (reconstruct_adjacency env es ids m (dg_out dg)) (\<lambda>(offsets, adjacency).
    adjacency = map snd (map (arc_of m) es) \<and> length offsets = Suc (length ids) \<and>
    (\<forall>i \<le> length ids. offsets ! i = length (from_below i (map (arc_of m) es))))"
proof -
  let ?arcs = "map (arc_of m) es" and ?n = "length ids"
  let ?offsets = "map (\<lambda>i. length (from_below i ?arcs)) [0..<Suc ?n]"
  have run: "running_offset (dg_out dg) i = length (from_below i ?arcs)" if "i \<le> ?n" for i
    by (rule running_offset_eq) (use assms(3-5) that in \<open>auto simp: degrees_of_def\<close>)
  have off: "post (build_counted_graph_vec ca (Suc ?n) (\<lambda>i. st_ret (running_offset (dg_out dg) i))) (\<lambda>r. r = ?offsets)" for ca
    by (rule post_build) (simp add: run)
  have same: "?offsets[?n := running_offset (dg_out dg) ?n] = ?offsets"
    by (rule nth_equalityI) (auto simp: run nth_list_update simp del: upt_Suc)
  have cur: "post (build_counted_graph_vec ca ?n (index ?offsets)) (\<lambda>r. r = map (\<lambda>i. length (from_below i ?arcs)) [0..<?n])" for ca
    by (rule post_build) (simp add: index_def del: upt_Suc)
  have ends: "\<forall>e \<in> set es. \<exists>s t. m (source_node_id e) = Some s \<and> m (target_node_id e) = Some t \<and> s < ?n"
    using indexed_ends [OF assms(1,2)] by blast
  have placed: "post (st_fold (place_edge m) (replicate (length es) (0, f64_zero False), map (\<lambda>i. length (from_below i ?arcs)) [0..<?n]) es)
      (placed ?n ?arcs (length es))"
    by (rule post_place_edges [OF assms(4,5) _ ends]) (simp add: placed_def from_node_def)
  have fin: "post (st_then (st_each (check_cursor ?offsets) (zip [0..<length cursors] cursors)) (\<lambda>_. st_ret (?offsets, adjacency)))
      (\<lambda>(offsets, adjacency). adjacency = map snd ?arcs \<and> length offsets = Suc ?n \<and> (\<forall>i \<le> ?n. offsets ! i = length (from_below i ?arcs)))"
    if "placed ?n ?arcs (length es) (adjacency, cursors)" for adjacency cursors
    by (rule post_seq [OF post_check_cursors]) (use that in \<open>auto simp: placed_def simp del: upt_Suc\<close>)
  show ?thesis unfolding reconstruct_adjacency_def
  proof (rule post_then [OF off], rule post_guard, goal_cases)
    case (1 offsets0)
    then have "assign offsets0 ?n (running_offset (dg_out dg) ?n) = st_ret ?offsets"
      using same by (simp add: assign_in_range del: upt_Suc)
    then show ?case unfolding st_then_simps
      by (auto simp del: upt_Suc map_map intro!: post_then [OF cur] post_then [OF post_build_const] post_then [OF placed] fin)
  qed
qed

section \<open>The graph\<close>

lemma sources_sorted:
  assumes "canonical_nodes es ids" "indexes m ids" "sorted (map edge_key es)" "\<forall>x \<in> set ids. utf8_error 0 x = None"
  shows "sorted (map fst (map (arc_of m) es))"
proof -
  have le: "the (m x) \<le> the (m y)" if "x \<in> set ids" "y \<in> set ids" "encode_utf16 x \<le> encode_utf16 y" for x y
  proof (rule ccontr)
    assume "\<not> the (m x) \<le> the (m y)"
    moreover obtain i j where ij: "i < length ids" "ids ! i = x" "j < length ids" "ids ! j = y"
      using \<open>x \<in> set ids\<close> \<open>y \<in> set ids\<close> unfolding in_set_conv_nth by blast
    moreover from ij have "m x = Some i" "m y = Some j" using assms(2) by (auto simp: indexes_def)
    ultimately have "j < i" by simp
    then have "encode_utf16 y \<le> encode_utf16 x"
      using assms(1) ij sorted_nth_mono [of "map encode_utf16 ids" j i] by (auto simp: canonical_nodes_def)
    moreover have "utf8_error 0 x = None" "utf8_error 0 y = None" using that assms(4) by auto
    ultimately have "x = y" using that(3) encode_utf16_inject by force
    with \<open>\<not> the (m x) \<le> the (m y)\<close> show False by simp
  qed
  have "encode_utf16 (source_node_id a) \<le> encode_utf16 (source_node_id b)" if "edge_key a \<le> edge_key b" for a b
    using that by (auto simp: edge_key_def less_eq_prod_def)
  moreover have "source_node_id e \<in> set ids" if "e \<in> set es" for e
    using assms(1) that by (auto simp: canonical_nodes_def ends_def)
  ultimately have "sorted_wrt (\<lambda>a b. the (m (source_node_id a)) \<le> the (m (source_node_id b))) es"
    using assms(3) le by (auto simp: sorted_map intro: sorted_wrt_mono_rel [of es "\<lambda>a b. edge_key a \<le> edge_key b"])
  then show ?thesis by (simp add: sorted_map arc_of_def)
qed

text \<open>The rebuilt graph: the nodes are the ends of the sorted edges, in canonical order, and the arrays
  are those of the edge list.\<close>

definition hub_damping :: "(f64 \<Rightarrow> f64) \<Rightarrow> u64 \<Rightarrow> string list \<Rightarrow> arc list \<Rightarrow> f64 list" where
  "hub_damping lg hub_threshold ids arcs =
     map (\<lambda>i. hub_factor lg hub_threshold (ids ! i)
       (sat_add (word_of_nat (length (from_node i arcs))) (word_of_nat (length (into_node i arcs))))) [0..<length ids]"

definition rebuilt :: "('h, 'g) retrieval_env \<Rightarrow> bounded_server \<Rightarrow> string \<Rightarrow> json \<Rightarrow> ppr_graph \<Rightarrow> bool" where
  "rebuilt env sv corpus_id plan g \<longleftrightarrow>
     (\<exists>hub_threshold. required_u64 plan ''hubDegreeThreshold'' = Ok hub_threshold \<and>
        pg_hub g = hub_damping (re_log2 env) hub_threshold (pg_node_ids g) (map (arc_of (pg_index g)) (corpus_graph sv corpus_id))) \<and>
     canonical_nodes (corpus_graph sv corpus_id) (pg_node_ids g) \<and> indexes (pg_index g) (pg_node_ids g) \<and>
     csr g (map (arc_of (pg_index g)) (corpus_graph sv corpus_id))"

definition well_formed_edges :: "bounded_server \<Rightarrow> bool" where
  "well_formed_edges sv \<longleftrightarrow>
     length (ns_edges (bs_state sv)) < 2 ^ 62 \<and>
     (\<forall>e \<in> snd ` set (ns_edges (bs_state sv)). utf8_error 0 (source_node_id e) = None \<and> utf8_error 0 (target_node_id e) = None)"

lemma post_reconstruct_graph:
  assumes "well_formed_edges sv"
  shows "post (reconstruct_graph env sv corpus_id n k plan) (rebuilt env sv corpus_id plan)"
proof -
  let ?es = "corpus_graph sv corpus_id"
  have len: "length ?es < 2 ^ 62" "length (ns_edges (bs_state sv)) < 2 ^ 62"
    using assms length_filter_le [of "\<lambda>e. ge_corpus_id e = corpus_id" "map snd (ns_edges (bs_state sv))"]
    by (auto simp: well_formed_edges_def corpus_graph_def simp del: length_filter_le)
  have utf8: "\<forall>x \<in> set ids. utf8_error 0 x = None" if "canonical_nodes ?es ids" for ids
    using that assms by (auto simp: canonical_nodes_def ends_def corpus_graph_def well_formed_edges_def)
  have key: "sorted (map edge_key ?es)" by (simp add: corpus_graph_def)
  note adj = post_reconstruct_adjacency [OF _ _ _ _ len(1)]
  have hub: "post (build_counted_graph_vec ca (length ids) (\<lambda>i.
         st_then (index (dg_out dg) i) (\<lambda>o_n.
         st_then (index (dg_in dg) i) (\<lambda>i_n.
         st_then (index ids i) (\<lambda>node_id.
         st_ret (hub_factor lg th node_id (sat_add (word_of_nat o_n) i_n)))))))
       (\<lambda>r. r = hub_damping lg th ids arcs)"
    if "degrees_of (length ids) arcs dg" for ca lg th ids dg arcs
    unfolding hub_damping_def by (rule post_build) (use that in \<open>simp add: degrees_of_def in_range\<close>)
  have reb: "rebuilt env sv corpus_id plan \<lparr>pg_node_ids = ids, pg_index = m, pg_sums = dg_sums dg, pg_offsets = offsets,
      pg_adjacency = adjacency, pg_hub = hub_damping (re_log2 env) th ids (map (arc_of m) ?es)\<rparr>"
    if "canonical_nodes ?es ids" "indexes m ids" "degrees_of (length ids) (map (arc_of m) ?es) dg"
      "adjacency = map snd (map (arc_of m) ?es)" "length offsets = Suc (length ids)"
      "\<forall>i \<le> length ids. offsets ! i = length (from_below i (map (arc_of m) ?es))"
      "required_u64 plan ''hubDegreeThreshold'' = Ok th" for ids m dg offsets adjacency th
    using that sources_sorted [OF that(1,2) key utf8 [OF that(1)]] indexed_ends [OF that(1,2)]
    by (fastforce simp: rebuilt_def csr_def degrees_of_def arc_of_def hub_damping_def)
  show ?thesis unfolding reconstruct_graph_def
  proof (rule post_then [OF post_reconstruct_nodes [OF len(2)]], goal_cases)
    case (1 p)
    then obtain ids where p: "p = (?es, ids)" "canonical_nodes ?es ids" by auto
    show ?case unfolding p(1) prod.case
    proof (rule post_then [OF post_reconstruct_degrees [OF p(2)]], goal_cases)
      case (1 q)
      then obtain m dg where q: "q = (m, dg)" "indexes m ids" "degrees_of (length ids) (map (arc_of m) ?es) dg" by auto
      have lift: "post (st_lift (required_u64 plan name)) (\<lambda>v. required_u64 plan name = Ok v)" for name
        by (rule post_lift) (simp_all add: required_u64_def)
      show ?case unfolding q(1) prod.case
        by (rule post_then [OF adj [OF p(2) q(2,3) sources_sorted [OF p(2) q(2) key utf8 [OF p(2)]]]])
          (auto intro!: post_then [OF lift] post_then [OF hub [OF q(3)]] reb [OF p(2) q(2,3)] simp del: map_map)
    qed
  qed
qed

section \<open>The teleport vector\<close>

definition reference_seed :: "(string \<rightharpoonup> nat) \<Rightarrow> f64 list \<times> f64 \<Rightarrow> string \<times> f64 \<Rightarrow> f64 list \<times> f64" where
  "reference_seed m = (\<lambda>(teleport, total_score) (node_id, score).
     case m node_id of None \<Rightarrow> (teleport, total_score) | Some i \<Rightarrow> (teleport[i := score], f64_add total_score score))"

text \<open>The seeds of the graph in canonical order, divided by their sum, or the uniform vector.\<close>

definition reference_teleport :: "ppr_graph \<Rightarrow> (string \<times> f64) list \<Rightarrow> f64 list" where
  "reference_teleport g seed_list =
     (let n = length (pg_node_ids g);
          (teleport, total_score) = foldl (reference_seed (pg_index g)) (replicate n (f64_zero False), f64_zero False)
            (sort_by (\<lambda>l r. utf16_cmp (fst l) (fst r)) seed_list)
      in if f64_lt (f64_zero False) total_score then map (\<lambda>v. f64_div v total_score) teleport
         else replicate n (f64_div f64_one (f64_of_nat n)))"

lemma post_seeds:
  assumes "indexes m ids"
  shows "length (fst ts) = length ids \<Longrightarrow>
    post (st_fold (apply_seed m) ts ss) (\<lambda>r. r = foldl (reference_seed m) ts ss \<and> length (fst r) = length ids)"
proof (induction ss arbitrary: ts)
  case (Cons x ss)
  obtain t k node_id score where p: "ts = (t, k)" "x = (node_id, score)" by (cases ts; cases x) auto
  have "post (apply_seed m ts x) (\<lambda>r. r = reference_seed m ts x \<and> length (fst r) = length ids)"
  proof (cases "m node_id")
    case (Some i)
    then have "i < length ids" using assms by (auto simp: indexes_def)
    then show ?thesis using Some Cons.prems by (auto simp: apply_seed_def reference_seed_def p in_range intro!: post_steps)
  qed (use Cons.prems in \<open>auto simp: apply_seed_def reference_seed_def p intro!: post_steps\<close>)
  then show ?case unfolding st_fold.simps foldl_Cons by (rule post_then) (rule post_mono, rule Cons.IH, simp_all)
qed simp

lemma post_scaled: "post (st_traverse (\<lambda>v. st_then account_graph_scan_unit (\<lambda>_. st_ret (f v))) xs) (\<lambda>r. r = map f xs)"
proof -
  have "post (st_traverse (\<lambda>v. st_then account_graph_scan_unit (\<lambda>_. st_ret (f v))) xs) (list_all2 (\<lambda>v r. r = f v) xs)"
    by (rule post_traverse) (auto intro!: post_steps)
  then show ?thesis by (rule post_mono) (auto simp: list_all2_conv_all_nth intro: nth_equalityI)
qed

lemma required_not_Panic [simp]:
  "required_str v name \<noteq> Panic" "required_u64 v name \<noteq> Panic" "required_f64 v name \<noteq> Panic"
  by (simp_all add: required_str_def required_u64_def required_f64_def)

lemma post_teleport:
  assumes "indexes (pg_index g) (pg_node_ids g)"
  shows "post (ppr_teleport env plan g) (\<lambda>r. length r = length (pg_node_ids g) \<and>
    (\<exists>entries seed_list. Option.bind (json_get ''seeds'' plan) as_array = Some entries \<and> traverse ppr_seed entries = Ok seed_list \<and>
      r = reference_teleport g seed_list))"
proof -
  have seeds_ok: "post (st_lift (traverse ppr_seed entries)) (\<lambda>seed_list. traverse ppr_seed entries = Ok seed_list)" for entries
    by (rule post_lift) (auto intro!: traverse_not_Panic simp: ppr_seed_def and_then_eq_Panic)
  have entries: "post (work_ok_or x f) (\<lambda>v. x = Some v)" for x :: "'x option" and f
    by (rule post_work_ok_or)
  have fin: "post (case ts of (t, k) \<Rightarrow> if f64_lt (f64_zero False) k
        then st_traverse (\<lambda>v. st_then account_graph_scan_unit (\<lambda>_. st_ret (f64_div v k))) t
        else let uniform = f64_div f64_one (f64_of_nat n) in
          st_traverse (\<lambda>v. st_then account_graph_scan_unit (\<lambda>_. st_ret uniform)) t)
      (\<lambda>r. length r = n \<and> r = (case ts of (t, k) \<Rightarrow> if f64_lt (f64_zero False) k then map (\<lambda>v. f64_div v k) t
        else replicate n (f64_div f64_one (f64_of_nat n))))" if "length (fst ts) = n" for ts n
    using that by (auto simp: Let_def map_replicate_const split: prod.split intro!: post_mono [OF post_scaled])
  show ?thesis unfolding ppr_teleport_def
    by (rule post_then [OF post_build_const], rule post_then [OF entries], rule post_then [OF seeds_ok],
        rule post_then [OF post_seeds [OF assms]], simp, elim conjE, rule post_mono [OF fin], simp)
      (auto simp: reference_teleport_def Let_def split: prod.splits)
qed

section \<open>Ranked nodes\<close>

definition nodes_with :: "string \<Rightarrow> (string \<times> f64) list \<Rightarrow> unit ranked_item list" where
  "nodes_with prefix ns = map (\<lambda>(i, s). \<lparr>ri_id = i, ri_score = s, ri_payload = ()\<rparr>) (filter (\<lambda>(i, _). starts_with i prefix) ns)"

lemma nodes_with_simps [simp]: "nodes_with prefix [] = []"
  "nodes_with prefix (ns @ [(i, s)]) =
    nodes_with prefix ns @ (if starts_with i prefix then [\<lparr>ri_id = i, ri_score = s, ri_payload = ()\<rparr>] else [])"
  by (simp_all add: nodes_with_def)

lemma prefixes_differ: "starts_with i ''passage:'' \<Longrightarrow> \<not> starts_with i ''fact:''"
  by (auto simp: starts_with_iff)

definition ranked_heaps :: "('h, 'g) retrieval_env \<Rightarrow> nat \<Rightarrow> nat \<Rightarrow> (string \<times> f64) list \<Rightarrow> 'h \<times> 'h \<Rightarrow> bool" where
  "ranked_heaps env pl fl ns hs \<longleftrightarrow>
     retains (re_heap env) pl (nodes_with ''passage:'' ns) (fst hs) \<and> retains (re_heap env) fl (nodes_with ''fact:'' ns) (snd hs)"

lemma post_rank_nodes:
  assumes "rank_heap (re_heap env)"
  shows "ranked_heaps env pl fl done hs \<Longrightarrow>
    post (st_fold (rank_node env pl fl) hs ns) (ranked_heaps env pl fl (done @ ns))"
proof (induction ns arbitrary: hs "done")
  case (Cons x ns)
  obtain i s p f where x: "x = (i, s)" "hs = (p, f)" by (cases x; cases hs) auto
  have heaps: "retains (re_heap env) pl (nodes_with ''passage:'' done) p" "retains (re_heap env) fl (nodes_with ''fact:'' done) f"
    using Cons.prems by (auto simp: ranked_heaps_def x)
  have "post (rank_node env pl fl hs x) (ranked_heaps env pl fl (done @ [x]))"
    using heaps unfolding rank_node_def x prod.case
    by (auto simp: ranked_heaps_def dest: prefixes_differ
        intro!: post_then [OF post_retain [OF assms heaps(1)]] post_then [OF post_retain [OF assms heaps(2)]] post_steps)
  moreover have "post (st_fold (rank_node env pl fl) hs' ns) (ranked_heaps env pl fl (done @ x # ns))"
    if "ranked_heaps env pl fl (done @ [x]) hs'" for hs' using Cons.IH [OF that] by simp
  ultimately show ?case by (auto intro: post_then)
qed simp

end
