(* ===== verification/Retrieval_Runs.thy ===== *)
theory Retrieval_Runs
  imports Ppr_Correct
begin

text \<open>
  Whole runs of the bounded operations: candidate search answers every slot with the best stored vectors,
  and the graph operation answers with the best nodes of the reference iteration. Neither panics.
\<close>

section \<open>Ranked answers\<close>

text \<open>The best entries of \<open>items\<close>, at most \<open>limit\<close>, best first.\<close>

definition best :: "nat \<Rightarrow> 'a ranked_item list \<Rightarrow> 'a ranked_item list \<Rightarrow> bool" where
  "best limit items ranked \<longleftrightarrow>
     map rank_key ranked = take limit (sort (map rank_key items)) \<and> mset ranked \<subseteq># mset items"

lemma best_ranking: "rank_heap H \<Longrightarrow> retains H limit items h \<Longrightarrow> best limit items (finish_bounded_ranking H h)"
  by (simp add: best_def retains_ranking)

lemma best_length: "best limit items ranked \<Longrightarrow> length ranked = min limit (length items)"
  unfolding best_def by (metis length_map length_sort length_take min.commute)

text \<open>The object that the catalog has for the node or vector \<open>node_id\<close>.\<close>

definition catalogued ::
  "('h, 'g) retrieval_env \<Rightarrow> bounded_server \<Rightarrow> string \<Rightarrow> string \<Rightarrow> string \<Rightarrow> string \<Rightarrow> json \<Rightarrow> bool" where
  "catalogued env sv corpus_id section prefix node_id item \<longleftrightarrow>
     (\<exists>item_id stored. node_id = prefix @ item_id \<and>
        bounded_snapshot_item (re_sha256 env) sv corpus_id section item_id = Ok stored \<and>
        (json_wf stored \<longrightarrow> item = stored))"

lemma snapshot_items_not_Panic [simp]: "bounded_snapshot_items sv corpus_id section \<noteq> Panic"
  by (auto simp: bounded_snapshot_items_def stored_snapshot_section_or_empty_def and_then_eq_Panic
      split: option.splits json.splits)

lemma snapshot_item_not_Panic [simp]: "bounded_snapshot_item sha256 sv corpus_id section item_id \<noteq> Panic"
  by (auto simp: bounded_snapshot_item_def and_then_eq_Panic)

lemma post_catalogued:
  assumes "\<And>item. catalogued env sv corpus_id section prefix node_id item \<Longrightarrow> post (f item) Q"
  shows "post (st_then (work_ok_or (strip_prefix node_id prefix) integrity_failure) (\<lambda>item_id.
     st_then (st_lift (bounded_snapshot_item (re_sha256 env) sv corpus_id section item_id)) (\<lambda>item.
     st_then (materialize_domain_object (re_codec env) item) f))) Q"
  by (intro post_branches post_then [OF post_materialize] assms) (auto simp: catalogued_def)

section \<open>Candidate search\<close>

text \<open>The stored vectors of the corpus and namespace whose similarity reaches the threshold, as the scan meets them.\<close>

fun candidates ::
  "bounded_server \<Rightarrow> string \<Rightarrow> string \<Rightarrow> f64 list \<Rightarrow> f64 \<Rightarrow> f64 \<Rightarrow> (string \<times> vector_record) list \<Rightarrow> unit ranked_item list"
where
  "candidates sv corpus_id namespace query query_norm threshold [] = []"
| "candidates sv corpus_id namespace query query_norm threshold ((key, vrec) # vectors) =
     (let score = bounded_cosine_with_query_norm query query_norm (the (bs_vector_values sv key)) in
      (if vr_corpus_id vrec = corpus_id \<and> vr_namespace vrec = namespace \<and> f64_le threshold score
       then [\<lparr>ri_id = vr_id vrec, ri_score = score, ri_payload = ()\<rparr>] else []) @
      candidates sv corpus_id namespace query query_norm threshold vectors)"

lemma post_search_vectors:
  assumes "rank_heap (re_heap env)"
  shows "retains (re_heap env) limit items h \<Longrightarrow>
    post (search_vectors env sv corpus_id namespace query query_norm threshold limit vectors h)
      (retains (re_heap env) limit (items @ candidates sv corpus_id namespace query query_norm threshold vectors))"
proof (induction vectors arbitrary: items h)
  case (Cons v vectors)
  obtain key vrec where v: "v = (key, vrec)" by fastforce
  let ?scan = "search_vectors env sv corpus_id namespace query query_norm threshold limit vectors"
  let ?kept = "retains (re_heap env) limit (items @ candidates sv corpus_id namespace query query_norm threshold (v # vectors))"
  have dom_id: "post (with_work (\<lambda>w. st_lift (bounded_stored_domain_id (vr_id vrec) w))) (\<lambda>i. i = vr_id vrec)"
    by (rule post_with_work, rule post_lift) (auto simp: bounded_stored_domain_id_def split: if_splits)
  have offered: "post (st_then (if f64_le threshold score then retain (re_heap env) limit x h else st_ret h) ?scan)
      (retains (re_heap env) limit (items @ (if f64_le threshold score then [x] else []) @
        candidates sv corpus_id namespace query query_norm threshold vectors))" for score x
    using Cons.IH [of "items @ [x]"] Cons.IH [of items h] Cons.prems
    by (auto intro: post_then [OF post_retain [OF assms Cons.prems]])
  show ?case
  proof (cases "vr_corpus_id vrec \<noteq> corpus_id \<or> vr_namespace vrec \<noteq> namespace")
    case True
    with Cons have "post (?scan h) ?kept" by (auto simp: v Let_def)
    with True show ?thesis unfolding v search_vectors.simps by (intro post_steps) (simp add: v)
  next
    case False
    have "post (st_then (work_ok_or (bs_vector_values sv key) integrity_failure) (\<lambda>vector.
        if length vector \<noteq> length query \<or> list_ex (\<lambda>v. \<not> f64_is_finite v) vector then work_fail integrity_failure
        else st_then (if f64_le threshold (bounded_cosine_with_query_norm query query_norm vector)
               then retain (re_heap env) limit \<lparr>ri_id = vr_id vrec, ri_score = bounded_cosine_with_query_norm query query_norm vector,
                 ri_payload = ()\<rparr> h
               else st_ret h) ?scan)) ?kept"
      by (intro post_work_then post_guard post_mono [OF offered]) (use False in \<open>auto simp: v Let_def\<close>)
    then show ?thesis using False unfolding v search_vectors.simps Let_def
      by (intro post_seq [OF post_bump] post_seq [OF post_timed_before(3)]) (auto intro: post_then [OF dom_id])
  qed
qed simp

definition hit_of :: "('h, 'g) retrieval_env \<Rightarrow> bounded_server \<Rightarrow> string \<Rightarrow> string \<Rightarrow> string \<Rightarrow> unit ranked_item \<Rightarrow> json \<Rightarrow> bool" where
  "hit_of env sv corpus_id section prefix r hit \<longleftrightarrow>
     (\<exists>item. catalogued env sv corpus_id section prefix (ri_id r) item \<and>
        hit = JObject [(''id'', JString (ri_id r)), (''item'', item), (''score'', json_f64 (ri_score r))])"

lemma post_search_hit: "post (search_hit env sv corpus_id section prefix r) (hit_of env sv corpus_id section prefix r)"
  unfolding search_hit_def by (rule post_catalogued) (auto simp: hit_of_def)

text \<open>The answer to a slot: the best candidates with their objects, best first.\<close>

definition slot_answer :: "('h, 'g) retrieval_env \<Rightarrow> bounded_server \<Rightarrow> string \<Rightarrow> json \<Rightarrow> json \<Rightarrow> bool" where
  "slot_answer env sv corpus_id slot answer \<longleftrightarrow>
     (\<exists>slot_id namespace threshold limit query query_norm section prefix ranked hits.
        required_str slot ''slotId'' = Ok slot_id \<and> required_str slot ''namespace'' = Ok namespace \<and>
        required_f64 slot ''threshold'' = Ok threshold \<and> required_u64 slot ''limit'' = Ok limit \<and>
        Option.bind (Option.bind (json_get ''queryVector'' slot) as_array) (\<lambda>vs. those (map finite_f64 vs)) = Some query \<and>
        bounded_query_norm query = Some query_norm \<and> map_of NAMESPACES namespace = Some (section, prefix) \<and>
        best (unat limit) (candidates sv corpus_id namespace query query_norm threshold (ns_vectors (bs_state sv))) ranked \<and>
        list_all2 (hit_of env sv corpus_id section prefix) ranked hits \<and>
        answer = JObject [(''hits'', JArray hits), (''namespace'', JString namespace), (''slotId'', JString slot_id)])"

lemma post_search_slot:
  assumes "rank_heap (re_heap env)"
  shows "post (search_slot env sv corpus_id slot) (slot_answer env sv corpus_id slot)"
proof -
  have hits: "post (st_traverse (search_hit env sv corpus_id sect prefix) ranked)
      (list_all2 (hit_of env sv corpus_id sect prefix) ranked)" for sect prefix ranked
    by (rule post_traverse [OF post_search_hit])
  note scan = post_search_vectors [OF assms retains_new, simplified]
  show ?thesis unfolding search_slot_def
    by (intro post_branches required_not_Panic post_then [OF post_rank_heap], hypsubst, intro post_then [OF scan] post_branches,
        clarify, intro post_then [OF hits])
      (use best_ranking [OF assms] in \<open>fastforce simp: slot_answer_def\<close>)
qed

lemma limits_not_Panic: "check_limits ls \<noteq> Panic"
  by (induction ls rule: check_limits.induct) auto

lemma sum_limits_not_Panic: "sum_limits t slots \<noteq> Panic"
  by (induction slots arbitrary: t) (auto simp: and_then_eq_Panic slot_limit_def)

lemmas plan_parts = get_plan_def plan_array_def plan_u64_def slot_dimensions_def slot_limit_def

lemma usage_not_Panic [simp]:
  "usage_check u \<noteq> Panic" "allocation_check a \<noteq> Panic" "usage_for_request method params \<noteq> Panic"
proof -
  show u: "usage_check u \<noteq> Panic" for u by (simp add: usage_check_def limits_not_Panic)
  show "allocation_check a \<noteq> Panic"
    by (auto simp: allocation_check_def checked_capacity_bytes_def and_then_eq_Panic)
  show "usage_for_request method params \<noteq> Panic"
    by (auto simp: usage_for_request_def and_then_eq_Panic u usage_candidate_def usage_fact_expand_def usage_ppr_def
        sum_limits_not_Panic plan_parts intro!: traverse_not_Panic split: if_splits)
qed

lemma result_capacity_not_Panic: "result_capacity slots \<noteq> Panic"
proof -
  have "fold_ok (\<lambda>t slot. and_then (required_u64 slot ''limit'') (\<lambda>limit. ok_or (checked_add t limit) (client_failure work_default)))
      t slots \<noteq> Panic" for t
    by (induction slots arbitrary: t) (auto simp: and_then_eq_Panic)
  then show ?thesis by (simp add: result_capacity_def)
qed

text \<open>C15: 
  Candidate search never panics. A result has one answer per slot of the request, in the order of the
  slots: the stored vectors of the corpus and namespace that reach the threshold, the best first, at most
  as many as the limit, each with its catalogued object and its score.
\<close>

theorem candidate_search_returns_best:
  assumes "rank_heap (re_heap env)"
  shows "post (execute_candidate_search env sv params) (\<lambda>result.
    \<exists>corpus_id slots answers. required_str params ''corpusId'' = Ok corpus_id \<and>
      Option.bind (json_get ''slots'' params) as_array = Some slots \<and>
      list_all2 (slot_answer env sv corpus_id) slots answers \<and> result = JObject [(''slots'', JArray answers)])"
proof -
  have slots: "post (st_traverse (search_slot env sv corpus_id) slots) (list_all2 (slot_answer env sv corpus_id) slots)"
    for corpus_id slots by (rule post_traverse [OF post_search_slot [OF assms]])
  show ?thesis unfolding execute_candidate_search_def Let_def
    by (intro post_branches required_not_Panic usage_not_Panic result_capacity_not_Panic post_steps post_then [OF slots]) auto
qed

section \<open>The graph operation\<close>

text \<open>A row of the answer: the object of a ranked node, its rank from one, and its score.\<close>

definition row_of ::
  "('h, 'g) retrieval_env \<Rightarrow> bounded_server \<Rightarrow> string \<Rightarrow> string \<Rightarrow> string \<Rightarrow> string \<Rightarrow> nat \<times> unit ranked_item \<Rightarrow> json \<Rightarrow> bool" where
  "row_of env sv corpus_id section prefix name = (\<lambda>(rank, r) row.
     (\<exists>item. catalogued env sv corpus_id section prefix (ri_id r) item \<and> json_get name row = Some item) \<and>
     json_get ''nodeId'' row = Some (JString (ri_id r)) \<and>
     json_get ''rank'' row = Some (JNumber (PosInt (word_of_nat (Suc rank)))) \<and>
     json_get ''score'' row = Some (json_f64 (ri_score r)))"

definition ranked_rows ::
  "('h, 'g) retrieval_env \<Rightarrow> bounded_server \<Rightarrow> string \<Rightarrow> string \<Rightarrow> string \<Rightarrow> string \<Rightarrow> nat \<Rightarrow> (string \<times> f64) list \<Rightarrow> json list \<Rightarrow> bool" where
  "ranked_rows env sv corpus_id section prefix name limit scored rows \<longleftrightarrow>
     (\<exists>ranked. best limit (nodes_with prefix scored) ranked \<and>
        list_all2 (row_of env sv corpus_id section prefix name) (zip [0..<length ranked] ranked) rows)"

definition ranked_entry ::
  "('h, 'g) retrieval_env \<Rightarrow> bounded_server \<Rightarrow> string \<Rightarrow> string \<Rightarrow> string \<Rightarrow> nat \<times> unit ranked_item \<Rightarrow> json \<times> json \<times> json \<times> json \<Rightarrow> bool" where
  "ranked_entry env sv corpus_id section prefix = (\<lambda>(rank, r) (item, node_id, k, score).
     catalogued env sv corpus_id section prefix (ri_id r) item \<and> node_id = JString (ri_id r) \<and>
     k = JNumber (PosInt (word_of_nat (Suc rank))) \<and> score = json_f64 (ri_score r))"

lemma post_ranked_node: "post (ranked_node env sv corpus_id section prefix p) (ranked_entry env sv corpus_id section prefix p)"
  unfolding ranked_node_def by (cases p) (auto simp: ranked_entry_def simp del: of_nat_Suc intro!: post_catalogued)

lemma rows_of_entries:
  assumes "list_all2 (ranked_entry env sv corpus_id section prefix) ps es"
    and "\<And>p e. ranked_entry env sv corpus_id section prefix p e \<Longrightarrow> row_of env sv corpus_id section prefix name p (f e)"
  shows "list_all2 (row_of env sv corpus_id section prefix name) ps (map f es)"
  using assms by (auto simp: list_all2_map2 elim: list_all2_mono)

lemma entry_rows:
  "ranked_entry env sv corpus_id section prefix p e \<Longrightarrow> row_of env sv corpus_id section prefix ''passage'' p
    (case e of (item, node_id, rank, score) \<Rightarrow>
      JObject [(''nodeId'', node_id), (''passage'', item), (''rank'', rank), (''score'', score)])"
  "ranked_entry env sv corpus_id section prefix p e \<Longrightarrow> row_of env sv corpus_id section prefix ''fact'' p
    (case e of (item, node_id, rank, score) \<Rightarrow>
      JObject [(''fact'', item), (''nodeId'', node_id), (''rank'', rank), (''score'', score)])"
  by (auto simp: ranked_entry_def row_of_def json_get_def simp del: of_nat_Suc split: prod.splits)

lemma post_ppr_rank:
  assumes "rank_heap (re_heap env)"
  shows "post (ppr_rank env sv corpus_id plan ids scores) (\<lambda>(ps, fs). \<exists>pl fl.
    required_u64 plan ''passageLimit'' = Ok pl \<and> required_u64 plan ''entityLimit'' = Ok fl \<and>
    ranked_rows env sv corpus_id ''passages'' ''passage:'' ''passage'' (unat pl) (zip ids scores) ps \<and>
    ranked_rows env sv corpus_id ''facts'' ''fact:'' ''fact'' (unat fl) (zip ids scores) fs)"
proof -
  have nodes: "post (st_fold (rank_node env pl fl) (heap_new (re_heap env), heap_new (re_heap env)) ns) (ranked_heaps env pl fl ns)"
    for pl fl ns using post_rank_nodes [OF assms, of pl fl "[]"] by (simp add: ranked_heaps_def retains_new)
  have rows: "post (st_traverse (ranked_node env sv corpus_id sect prefix) ps)
      (list_all2 (ranked_entry env sv corpus_id sect prefix) ps)" for sect prefix ps
    by (rule post_traverse [OF post_ranked_node])
  have ranked: "ranked_rows env sv corpus_id sect prefix name limit ns (map f es)"
    if "retains (re_heap env) limit (nodes_with prefix ns) h"
      "list_all2 (ranked_entry env sv corpus_id sect prefix)
        (zip [0..<length (finish_bounded_ranking (re_heap env) h)] (finish_bounded_ranking (re_heap env) h)) es"
      "\<And>p e. ranked_entry env sv corpus_id sect prefix p e \<Longrightarrow> row_of env sv corpus_id sect prefix name p (f e)"
    for sect prefix name limit ns f es h
    using best_ranking [OF assms that(1)] rows_of_entries [OF that(2,3)] by (auto simp: ranked_rows_def)
  show ?thesis unfolding ppr_rank_def Let_def
    by (intro post_branches required_not_Panic post_then [OF post_rank_heap], hypsubst, intro post_then [OF nodes],
        clarify, intro post_then [OF rows])
      (auto simp: ranked_heaps_def intro!: ranked [OF _ _ entry_rows(1)] ranked [OF _ _ entry_rows(2)])
qed

text \<open>
  The answer of the graph operation: no rows for a corpus without endpoints, otherwise the best passage
  and fact nodes by the scores of the reference iteration over the sorted edges of the corpus.
\<close>

definition ppr_answer :: "('h, 'g) retrieval_env \<Rightarrow> bounded_server \<Rightarrow> string \<Rightarrow> json \<Rightarrow> json \<Rightarrow> bool" where
  "ppr_answer env sv corpus_id plan result \<longleftrightarrow>
     (\<exists>g entries seed_list tp epsilon max_iterations pl fl out ps fs.
        rebuilt env sv corpus_id plan g \<and>
        Option.bind (json_get ''seeds'' plan) as_array = Some entries \<and> traverse ppr_seed entries = Ok seed_list \<and>
        required_f64 plan ''teleportProbability'' = Ok tp \<and> required_f64 plan ''convergenceEpsilon'' = Ok epsilon \<and>
        required_u64 plan ''maxIterations'' = Ok max_iterations \<and>
        required_u64 plan ''passageLimit'' = Ok pl \<and> required_u64 plan ''entityLimit'' = Ok fl \<and>
        out = reference_iterate g (map (arc_of (pg_index g)) (corpus_graph sv corpus_id)) tp epsilon (reference_teleport g seed_list)
          (unat max_iterations) \<lparr>po_scores = reference_teleport g seed_list, po_iterations = 0, po_converged = False,
            po_l1_delta = f64_zero False\<rparr> \<and>
        ranked_rows env sv corpus_id ''passages'' ''passage:'' ''passage'' (unat pl) (zip (pg_node_ids g) (po_scores out)) ps \<and>
        ranked_rows env sv corpus_id ''facts'' ''fact:'' ''fact'' (unat fl) (zip (pg_node_ids g) (po_scores out)) fs \<and>
        result = ppr_result ps fs (po_iterations out) (po_converged out) (po_l1_delta out))"

lemma post_ppr_run:
  assumes "rank_heap (re_heap env)" "rebuilt env sv corpus_id plan g"
  shows "post (st_then (ppr_teleport env plan g) (\<lambda>teleport.
       st_then (st_lift (required_f64 plan ''teleportProbability'')) (\<lambda>tp.
       st_then (st_lift (required_f64 plan ''convergenceEpsilon'')) (\<lambda>epsilon.
       st_then (st_lift (required_u64 plan ''maxIterations'')) (\<lambda>max_iterations.
       st_then (build_counted_graph_vec (re_alloc env) (length teleport) (index teleport)) (\<lambda>scores.
       st_then (ppr_iterate env g tp epsilon teleport (unat max_iterations)
           \<lparr>po_scores = scores, po_iterations = 0, po_converged = False, po_l1_delta = f64_zero False\<rparr>) (\<lambda>st.
       st_then (ppr_rank env sv corpus_id plan (pg_node_ids g) (po_scores st)) (\<lambda>(ranked_passages, ranked_facts).
       st_then check_work (\<lambda>_.
       st_ret (ppr_result ranked_passages ranked_facts (po_iterations st) (po_converged st) (po_l1_delta st))))))))))) (ppr_answer env sv corpus_id plan)"
proof -
  let ?arcs = "map (arc_of (pg_index g)) (corpus_graph sv corpus_id)"
  have g: "indexes (pg_index g) (pg_node_ids g)" "csr g ?arcs" using assms(2) by (auto simp: rebuilt_def)
  have copy: "post (build_counted_graph_vec ca (length vs) (index vs)) (\<lambda>r. r = vs)" for ca and vs :: "f64 list"
    by (rule post_mono [OF post_build [of _ _ "\<lambda>i. vs ! i"]]) (simp_all add: in_range map_nth)
  show ?thesis
    by (rule post_then [OF post_teleport [OF g(1)]], elim conjE exE, intro post_branches required_not_Panic post_then [OF copy],
        hypsubst, rule post_then [OF post_iterate [OF g(2)]], simp, simp, elim conjE, rule post_then [OF post_ppr_rank [OF assms(1)]],
        clarify, intro post_steps) (use assms(2) in \<open>auto simp: ppr_answer_def\<close>)
qed

text \<open>C11: 
  The graph operation never panics, and its result is the answer of the reference iteration, whatever the
  budget, the clock and the allocator do.
\<close>

theorem ppr_is_reference:
  assumes "rank_heap (re_heap env)" "well_formed_edges sv"
  shows "post (execute_ppr env sv params) (\<lambda>result. \<exists>corpus_id plan.
    required_str params ''corpusId'' = Ok corpus_id \<and> json_get ''plan'' params = Some plan \<and>
    (if entry_or_default (bs_endpoint_counts sv) corpus_id = 0 then result = ppr_result [] [] 0 True (f64_zero False)
     else ppr_answer env sv corpus_id plan result))"
proof -
  have adm: "post (ppr_admission sv params) (\<lambda>(corpus_id, plan, nodes_n, edges_n).
      required_str params ''corpusId'' = Ok corpus_id \<and> json_get ''plan'' params = Some plan \<and>
      nodes_n = entry_or_default (bs_endpoint_counts sv) corpus_id)"
    unfolding ppr_admission_def Let_def
    by (intro post_branches required_not_Panic usage_not_Panic post_steps) auto
  show ?thesis unfolding execute_ppr_def
    by (rule post_then [OF adm], clarify)
      (auto intro!: post_then [OF post_reconstruct_graph [OF assms(2)]] intro: post_mono [OF post_ppr_run [OF assms(1)]])
qed

end
