(* ===== verification/Retrieval_Sample.thy ===== *)
theory Retrieval_Sample
  imports Retrieval_Runs
begin

text \<open>
  A small store, and what the bounded operations answer on it: one passage with one vector, one fact, and an
  edge between the two. The runs are evaluated by the simplifier, with a table of the sums and products
  that occur.
\<close>

section \<open>The store and the requests\<close>

definition run_env :: "(unit ranked_item list, json ranked_item list) retrieval_env" where
  "run_env = \<lparr>re_sha256 = (\<lambda>s. s),
     re_codec = \<lparr>success_chunks = (\<lambda>_. []), error_chunks = (\<lambda>_. []), value_chunks = (\<lambda>_. [''object'']), can_reserve = (\<lambda>_. True)\<rparr>,
     re_heap = list_heap, re_fact_heap = list_heap, re_log2 = (\<lambda>x. x)\<rparr>"

definition run_passage :: json where
  "run_passage = JObject [(''corpusId'', JString ''c''), (''passageId'', JString ''p'')]"

definition run_fact :: json where
  "run_fact = JObject [(''corpusId'', JString ''c''), (''factId'', JString ''f'')]"

definition run_server :: bounded_server where
  "run_server = \<lparr>bs_state = \<lparr>ns_nodes = [], ns_edges = [(''c:e'', \<lparr>ge_edge_id = ''e'', ge_corpus_id = ''c'', source_node_id = ''passage:p'',
        target_node_id = ''fact:f'', ge_relation = ''r'', ge_weight = f64_one, bridge_kind = None\<rparr>)],
      ns_vectors = [(''c:v'', \<lparr>vr_id = ''passage:p'', vr_corpus_id = ''c'', vr_namespace = ''passage'', vr_values = [], vr_blob_ref = None,
        vr_metadata = JNull\<rparr>)],
      ns_passages = [], ns_snapshots = [(''c'', JObject [(''facts'', JArray [run_fact]), (''passages'', JArray [run_passage])])],
      ns_checkpoints = [], ns_generation = 0, ns_vector_blob = None, ns_commit_evidence = None\<rparr>,
    bs_vector_values = [''c:v'' \<mapsto> [f64_one]],
    bs_snapshot_indices = [bounded_index_key (\<lambda>s. s) ''c'' ''passages'' ''p'' \<mapsto> 0, bounded_index_key (\<lambda>s. s) ''c'' ''facts'' ''f'' \<mapsto> 0],
    bs_edge_counts = [''c'' \<mapsto> 1], bs_endpoint_counts = [''c'' \<mapsto> 2], bs_catalog_ready = True, bs_session_deadline = None,
    bs_session_owner_remaining_ms = None, bs_access_mode = NormalMode\<rparr>"

definition run_start :: "work_counts \<times> execution_deadline" where
  "run_start = (work_default, \<lparr>ed_clock = (\<lambda>_. 0), ed_reads = 0,
     ed_deadline = \<lparr>md_deadline_ms = 1000, last_now_ms = 0, md_completed_units = 0\<rparr>, ed_completed_units = 0, last_checkpoint_units = 0\<rparr>)"

definition run_search :: json where
  "run_search = JObject [(''corpusId'', JString ''c''), (''slots'', JArray [JObject [(''limit'', JNumber (PosInt 1)),
     (''namespace'', JString ''passage''), (''queryVector'', JArray [JNumber (PosInt 1)]), (''slotId'', JString ''s''),
     (''threshold'', JNumber (PosInt 0))]])]"

definition run_ppr :: json where
  "run_ppr = JObject [(''corpusId'', JString ''c''), (''plan'', JObject [(''convergenceEpsilon'', JNumber (PosInt 0)),
     (''entityLimit'', JNumber (PosInt 1)), (''hubDegreeThreshold'', JNumber (PosInt 1)), (''maxIterations'', JNumber (PosInt 1)),
     (''passageLimit'', JNumber (PosInt 1)), (''seeds'', JArray [JObject [(''nodeId'', JString ''passage:p''), (''score'', JNumber (PosInt 1))]]),
     (''teleportProbability'', JNumber (Float (F64_Fin False 4503599627370496 (- 53))))])]"

section \<open>Numbers and texts that occur\<close>

abbreviation one64 :: f64 where
  "one64 \<equiv> F64_Fin False 4503599627370496 (- 52)"

abbreviation half64 :: f64 where
  "half64 \<equiv> F64_Fin False 4503599627370496 (- 53)"

abbreviation zero64 :: f64 where
  "zero64 \<equiv> F64_Fin False 0 (- 1074)"

lemma sample_numbers:
  "f64_of_nat 1 = one64" "f64_of_nat (Suc 0) = one64" "f64_of_int 1 = one64" "f64_of_int 0 = zero64" "f64_sqrt one64 = one64"
  "f64_add (F64_Fin True 0 (- 1074)) one64 = one64" "\<not> f64_le one64 (F64_Fin True 4503599627370496 (- 52))"
  by (simp_all add: f64_of_nat_def f64_of_int_def f64_eval f64_sqrt_def isqrt_eq [of 4503599627370496])

lemma sample_sums_zero:
  "f64_add zero64 zero64 = zero64" "f64_add zero64 one64 = one64" "f64_add zero64 half64 = half64"
  by (simp_all add: f64_eval)

lemma sample_sums_half:
  "f64_add half64 zero64 = half64" "f64_add half64 half64 = one64" "f64_add half64 (F64_Fin True 0 (- 1074)) = half64"
  by (simp_all add: f64_eval)

lemma sample_differences:
  "f64_add one64 (F64_Fin True 4503599627370496 (- 53)) = half64"
  "f64_add half64 (F64_Fin True 4503599627370496 (- 52)) = F64_Fin True 4503599627370496 (- 53)"
  by (simp_all add: f64_eval)

lemma sample_products:
  "f64_mul one64 one64 = one64" "f64_mul half64 one64 = half64" "f64_mul half64 zero64 = zero64"
  "f64_div one64 one64 = one64" "f64_div zero64 one64 = zero64"
  by (simp_all add: f64_eval)

lemma sample_order:
  "f64_le zero64 zero64" "f64_le one64 one64" "f64_le zero64 one64" "\<not> f64_le one64 zero64"
  by (simp_all add: f64_eval)

lemmas sample_arithmetic = sample_sums_zero sample_sums_half sample_differences sample_products sample_order

lemma sample_ids:
  "encode_utf16 ''fact:f'' < encode_utf16 ''passage:p'' = True" "encode_utf16 ''passage:p'' < encode_utf16 ''fact:f'' = False"
  "encode_utf16 ''passage:p'' = encode_utf16 ''fact:f'' = False"
  by (simp_all add: encode_utf16_def str_chars.simps utf16_units_def scalar_of_def lead_bits_def utf8_width_def in_range_def less_char_def)

lemmas sample_f64 = f64_is_finite_def f64_eq_def f64_lt_def f64_clamp_def f64_neg_def f64_abs_def f64_max_def f64_min_def
  f64_sum_def f64_sub_def sample_numbers sample_arithmetic max_abs_def Let_def

lemma sample_norm: "bounded_query_norm [one64] = Some one64"
  by (simp add: bounded_query_norm_def sample_f64 del: f64_add.simps f64_mul.simps f64_div.simps f64_le.simps)

lemma sample_cosine: "bounded_cosine_with_query_norm [one64] one64 [one64] = one64"
  by (simp add: bounded_cosine_with_query_norm_def cosine_with_query_norm_def sample_f64
      del: f64_add.simps f64_mul.simps f64_div.simps f64_le.simps)

lemma sample_interval: "\<not> (1024 :: u64) \<le> 1"
  by (simp add: word_le_nat_alt)

section \<open>The runs\<close>

text \<open>Evaluation goes from the first step to the last: what follows a step is left alone until the step is done.\<close>

lemma step_congs: "m = m' \<Longrightarrow> st_then m f = st_then m' f" "r = r' \<Longrightarrow> and_then r g = and_then r' g"
  by simp_all

lemmas sample_defs = run_env_def run_server_def run_search_def run_ppr_def run_start_def run_passage_def run_fact_def list_heap_def

lemmas eval_basics =
  checked_add_def checked_mul_def len_u64_def st_ret_def st_fail_def st_panic_def st_then_def st_lift_def json_get_def
  as_array_def as_object_def json_str_def as_u64_def as_f64_def get_at_def ok_or_def map_err_def strip_prefix_def

lemmas eval_limits =
  CANDIDATE_SEARCH_def FACT_EXPAND_def PPR_MATERIALIZE_def MAX_VECTOR_DIMENSIONS_def MAX_VECTOR_COMPARISONS_def
  MAX_SEARCH_SLOTS_def MAX_FACTS_INSPECTED_def MAX_GRAPH_NODES_def MAX_GRAPH_EDGES_def MAX_ITERATIONS_def
  MAX_GRAPH_SCAN_UNITS_def MAX_SEARCH_RESULT_LIMIT_def MAX_EXPANSION_RESULTS_def MAX_SEEDS_def
  MAX_RETURNED_PASSAGES_def MAX_RETURNED_FACTS_def MAX_COMBINED_OBJECTS_def MAX_OBJECT_BYTES_def
  MAX_RESPONSE_FRAME_BYTES_def MAX_TRANSIENT_BYTES_def DEADLINE_CHECK_INTERVAL_UNITS_def usage_default_def
  usage_limits_def usage_check_def max_or_zero_def slot_dimensions_def slot_limit_def usage_candidate_def
  plan_array_def plan_u64_def get_plan_def usage_fact_expand_def usage_ppr_def usage_for_request_def work_default_def
  checked_work_units_def work_check_def VECTOR_VALUE_BYTES_def SEED_ENTRY_BYTES_def RESULT_ENTRY_BYTES_def
  SCORE_VALUE_BYTES_def PPR_SCORE_ARRAYS_def PPR_NODE_ENTRY_BYTES_def PPR_EDGE_ENTRY_BYTES_def HEAP_ENTRY_BYTES_def
  checked_capacity_bytes_def allocation_check_def observe_clock_def checkpoint_def before_allocation_def
  before_materialization_def limited_write_def serialize_limited_def encode_object_def

lemmas eval_operations =
  FAILURE_CLIENT_def FAILURE_INTEGRITY_def FAILURE_DEADLINE_def FAILURE_RESOURCE_def REASON_VALIDATION_def
  REASON_INTEGRITY_def REASON_DEADLINE_def REASON_RESOURCE_def client_failure_def integrity_failure_def
  deadline_failure_def resource_failure_def now_ms_def pass_deadline_def execution_checkpoint_def
  execution_before_allocation_def before_materialization_at_def execution_before_materialization_def advance_def
  utf16_cmp_def total_key_def total_cmp_def ranked_cmp_def item_cmp_def bounded_rank_heap_def
  retain_bounded_ranked_def sort_by_def finish_bounded_ranking_def timed_def required_str_def required_u64_def
  required_f64_def MAX_INDEXING_DOMAIN_ID_BYTES_def bounded_stored_domain_id_def stored_snapshot_section_or_empty_def
  try_clone_json_string_def materialize_domain_object_def bounded_index_key_def SECTIONS_def str_at_def
  bounded_snapshot_items_def bounded_snapshot_item_def work_fail_def work_ok_or_def with_work_def bump_def
  check_work_def retain_def json_f64_def finite_f64_def NAMESPACES_def search_hit_def search_slot_def
  result_capacity_def no_allocation_def or_resource_def execute_candidate_search_def

lemmas eval_graph =
  account_graph_scan_unit_def build_counted_graph_vec_def index_def assign_def canonical_counted_sort_def
  canonical_sort_ids_def edge_cmp_def canonical_sort_edges_def entry_or_default_def add_endpoint_def count_degree_def
  running_offset_def place_edge_def check_cursor_def sat_add_def hub_factor_def reconstruct_nodes_def
  reconstruct_degrees_def reconstruct_adjacency_def reconstruct_graph_def ppr_seed_def apply_seed_def ppr_teleport_def
  spread_edge_def slice_range_def spread_source_def add_delta_def ppr_step_def rank_node_def ranked_node_def
  ppr_rank_def ppr_result_def ppr_admission_def execute_ppr_def

lemma search_run:
  "snd (execute_candidate_search run_env run_server run_search run_start) =
    Ok (JObject [(''slots'', JArray [JObject [(''hits'', JArray [JObject [(''id'', JString ''passage:p''), (''item'', run_passage),
      (''score'', JNumber (Float one64))]]), (''namespace'', JString ''passage''), (''slotId'', JString ''s'')]])])"
  by (simp cong: step_congs add: sample_defs eval_basics eval_limits eval_operations sample_f64 sample_norm sample_cosine
      sample_interval del: and_then_eq_Ok f64_add.simps f64_mul.simps f64_div.simps f64_le.simps)

text \<open>The state of the run of the graph operation between its parts.\<close>

definition run_at :: "u64 \<Rightarrow> u64 \<Rightarrow> u64 \<Rightarrow> u64 \<Rightarrow> u64 \<Rightarrow> nat \<Rightarrow> u64 \<Rightarrow> u64 \<Rightarrow> work_counts \<times> execution_deadline" where
  "run_at nodes_n edges_n scans its objs reads checked units =
     (work_default\<lparr>wc_iterations := its, nodes_initialized := nodes_n, edges_visited := edges_n, graph_scan_units := scans,
        objects_considered_for_encoding := objs\<rparr>,
      \<lparr>ed_clock = (\<lambda>_. 0), ed_reads = reads, ed_deadline = \<lparr>md_deadline_ms = 1000, last_now_ms = 0, md_completed_units = checked\<rparr>,
       ed_completed_units = units, last_checkpoint_units = checked\<rparr>)"

definition run_plan :: json where
  "run_plan = (case json_get ''plan'' run_ppr of Some plan \<Rightarrow> plan | None \<Rightarrow> JNull)"

definition run_graph :: ppr_graph where
  "run_graph = \<lparr>pg_node_ids = [''fact:f'', ''passage:p''], pg_index = [''fact:f'' \<mapsto> 0, ''passage:p'' \<mapsto> 1], pg_sums = [zero64, one64],
     pg_offsets = [0, 0, 1], pg_adjacency = [(0, one64)], pg_hub = [one64, one64]\<rparr>"

lemma run_admission: "ppr_admission run_server run_ppr run_start = (run_at 0 0 0 0 0 1 0 0, Ok (''c'', run_plan, 2, 1))"
  by (simp cong: step_congs add: sample_defs run_at_def eval_basics eval_limits eval_operations eval_graph sample_f64 sample_ids
      sample_interval run_plan_def
      del: and_then_eq_Ok f64_add.simps f64_mul.simps f64_div.simps f64_le.simps)

lemma run_nodes:
  "reconstruct_nodes run_env run_server ''c'' 2 1 (run_at 0 0 0 0 0 1 0 0) =
    (run_at 2 1 12 0 0 9 4 12, Ok (map snd (ns_edges (bs_state run_server)), [''fact:f'', ''passage:p'']))"
  by (simp cong: step_congs add: sample_defs run_at_def eval_basics eval_limits eval_operations eval_graph sample_f64 sample_ids
      sample_interval
      del: and_then_eq_Ok f64_add.simps f64_mul.simps f64_div.simps f64_le.simps)

lemma run_degrees:
  "reconstruct_degrees run_env (map snd (ns_edges (bs_state run_server))) [''fact:f'', ''passage:p''] (run_at 2 1 12 0 0 9 4 12) =
    (run_at 2 1 21 0 0 17 18 21, Ok ([''fact:f'' \<mapsto> 0, ''passage:p'' \<mapsto> 1],
      \<lparr>dg_out = [0, 1], dg_in = [1, 0], dg_sums = [zero64, one64]\<rparr>))"
  by (simp cong: step_congs add: sample_defs run_at_def eval_basics eval_limits eval_operations eval_graph sample_f64 sample_ids
      sample_interval
      del: and_then_eq_Ok f64_add.simps f64_mul.simps f64_div.simps f64_le.simps)

lemma run_graph_built:
  "reconstruct_graph run_env run_server ''c'' 2 1 run_plan (run_at 0 0 0 0 0 1 0 0) = (run_at 2 1 32 0 0 25 30 32, Ok run_graph)"
  unfolding reconstruct_graph_def st_then_def [of "reconstruct_nodes _ _ _ _ _"] run_nodes
  by (simp cong: step_congs add: sample_defs run_at_def eval_basics eval_limits eval_operations eval_graph sample_f64 sample_ids
      sample_interval run_degrees run_graph_def run_plan_def
      del: and_then_eq_Ok f64_add.simps f64_mul.simps f64_div.simps f64_le.simps)

lemma run_teleport: "ppr_teleport run_env run_plan run_graph (run_at 2 1 32 0 0 25 30 32) = (run_at 2 1 36 0 0 27 32 36, Ok [zero64, one64])"
  by (simp cong: step_congs add: sample_defs run_at_def eval_basics eval_limits eval_operations eval_graph sample_f64 sample_ids
      sample_interval run_graph_def run_plan_def
      del: and_then_eq_Ok f64_add.simps f64_mul.simps f64_div.simps f64_le.simps)

lemma run_step:
  "ppr_step run_env run_graph half64 [zero64, one64] [zero64, one64] (run_at 2 1 38 0 0 29 36 38) = (run_at 2 1 47 0 0 31 38 47, Ok ([half64, half64], one64))"
  by (simp cong: step_congs add: sample_defs run_at_def eval_basics eval_limits eval_operations eval_graph sample_f64 sample_ids
      sample_interval run_graph_def
      del: and_then_eq_Ok f64_add.simps f64_mul.simps f64_div.simps f64_le.simps)

lemma run_copy:
  "build_counted_graph_vec (re_alloc run_env) (length [zero64, one64]) (index [zero64, one64]) (run_at 2 1 36 0 0 27 32 36) =
    (run_at 2 1 38 0 0 29 36 38, Ok [zero64, one64])"
  by (simp cong: step_congs add: sample_defs run_at_def eval_basics eval_limits eval_operations eval_graph sample_f64 sample_ids
      sample_interval
      del: and_then_eq_Ok f64_add.simps f64_mul.simps f64_div.simps f64_le.simps)

definition run_outcome :: ppr_outcome where
  "run_outcome = \<lparr>po_scores = [half64, half64], po_iterations = 1, po_converged = False, po_l1_delta = one64\<rparr>"

lemma run_iterate:
  "ppr_iterate run_env run_graph half64 zero64 [zero64, one64] 1
     \<lparr>po_scores = [zero64, one64], po_iterations = 0, po_converged = False, po_l1_delta = f64_zero False\<rparr> (run_at 2 1 38 0 0 29 36 38) =
    (run_at 2 1 47 1 0 31 38 47, Ok run_outcome)"
  unfolding One_nat_def ppr_iterate.simps st_then_def [of "ppr_step _ _ _ _ _"] ppr_outcome.simps run_step
  by (simp add: run_at_def st_then_def st_ret_def sample_f64 run_outcome_def del: f64_le.simps)

definition run_passages :: "json list" where
  "run_passages = [JObject [(''nodeId'', JString ''passage:p''), (''passage'', run_passage), (''rank'', JNumber (PosInt 1)),
     (''score'', JNumber (Float half64))]]"

definition run_facts :: "json list" where
  "run_facts = [JObject [(''fact'', run_fact), (''nodeId'', JString ''fact:f''), (''rank'', JNumber (PosInt 1)),
     (''score'', JNumber (Float half64))]]"

lemma run_rank:
  "ppr_rank run_env run_server ''c'' run_plan [''fact:f'', ''passage:p''] [half64, half64] (run_at 2 1 47 1 0 31 38 47) =
    (run_at 2 1 49 1 2 55 49 49, Ok (run_passages, run_facts))"
  by (simp cong: step_congs add: sample_defs run_at_def eval_basics eval_limits eval_operations eval_graph sample_f64 sample_ids
      sample_interval run_plan_def run_passages_def run_facts_def
      del: and_then_eq_Ok f64_add.simps f64_mul.simps f64_div.simps f64_le.simps)

lemma run_fields:
  "required_f64 run_plan ''teleportProbability'' = Ok half64" "required_f64 run_plan ''convergenceEpsilon'' = Ok zero64"
  "required_u64 run_plan ''maxIterations'' = Ok 1"
  by (simp_all add: run_plan_def run_ppr_def required_f64_def required_u64_def json_get_def as_f64_def as_u64_def ok_or_def
      f64_is_finite_def sample_numbers)

lemma run_work: "check_work (run_at 2 1 49 1 2 55 49 49) = (run_at 2 1 49 1 2 55 49 49, Ok ())"
  by (simp cong: step_congs add: sample_defs run_at_def eval_basics eval_limits eval_operations eval_graph sample_f64 sample_ids
      sample_interval
      del: and_then_eq_Ok f64_add.simps f64_mul.simps f64_div.simps f64_le.simps)

lemma run_node_ids: "pg_node_ids run_graph = [''fact:f'', ''passage:p'']"
  by (simp add: run_graph_def)

lemma run_outcome_fields:
  "po_scores run_outcome = [half64, half64]" "po_iterations run_outcome = 1" "po_converged run_outcome = False" "po_l1_delta run_outcome = one64"
  by (simp_all add: run_outcome_def)

lemma ppr_run: "snd (execute_ppr run_env run_server run_ppr run_start) = Ok (ppr_result run_passages run_facts 1 False one64)"
  by (simp add: execute_ppr_def st_then_def st_lift_def st_ret_def run_admission run_graph_built run_teleport run_fields
      run_copy [simplified] run_iterate run_node_ids run_outcome_fields run_rank run_work del: One_nat_def)

lemma returned: "post m Q \<Longrightarrow> snd (m s) = Ok x \<Longrightarrow> Q x"
  by (cases "m s") (auto dest: post_Ok)

lemma run_heap: "rank_heap (re_heap run_env)"
  by (simp add: run_env_def list_heap.rank_heap_axioms)

lemma run_edges: "well_formed_edges run_server"
  by (simp add: well_formed_edges_def run_server_def utf8_error_ascii less_char_def)

text \<open>The search returns the passage with its score, and that is the answer the property describes.\<close>

theorem candidate_search_returns_best_witness:
  "\<exists>result corpus_id slots answers. snd (execute_candidate_search run_env run_server run_search run_start) = Ok result \<and>
    required_str run_search ''corpusId'' = Ok corpus_id \<and> Option.bind (json_get ''slots'' run_search) as_array = Some slots \<and>
    list_all2 (slot_answer run_env run_server corpus_id) slots answers \<and> result = JObject [(''slots'', JArray answers)]"
  using search_run returned [OF candidate_search_returns_best [OF run_heap] search_run] by blast

text \<open>The graph operation returns both nodes, and that is the answer of the reference iteration.\<close>

theorem ppr_is_reference_witness:
  "\<exists>result corpus_id plan. snd (execute_ppr run_env run_server run_ppr run_start) = Ok result \<and>
    required_str run_ppr ''corpusId'' = Ok corpus_id \<and> json_get ''plan'' run_ppr = Some plan \<and>
    (if entry_or_default (bs_endpoint_counts run_server) corpus_id = 0 then result = ppr_result [] [] 0 True (f64_zero False)
     else ppr_answer run_env run_server corpus_id plan result)"
  using ppr_run returned [OF ppr_is_reference [OF run_heap run_edges] ppr_run] by blast

end
