(* ===== verification/F64_Bits.thy ===== *)
theory F64_Bits
  imports F64 Le_Bytes
begin

text \<open>
  The bit patterns of \<^verbatim>\<open>f64\<close> (\<^verbatim>\<open>to_bits\<close>, \<^verbatim>\<open>from_bits\<close>) and their little-endian bytes. The one NaN of the
  model is the quiet NaN that Rust computes; every NaN pattern is read as it.
\<close>

definition f64_to_bits :: "f64 \<Rightarrow> int" where
  "f64_to_bits x =
     (case x of
        F64_NaN \<Rightarrow> 2047 * 2 ^ 52 + 2 ^ 51
      | F64_Inf neg \<Rightarrow> (if neg then 2 ^ 63 else 0) + 2047 * 2 ^ 52
      | F64_Fin neg m e \<Rightarrow>
          (if neg then 2 ^ 63 else 0) + (if m < 2 ^ 52 then int m else (e + 1075) * 2 ^ 52 + (int m - 2 ^ 52)))"

definition f64_from_bits :: "int \<Rightarrow> f64" where
  "f64_from_bits b =
     (let neg = (2 ^ 63 \<le> b); rest = b mod 2 ^ 63; exponent = rest div 2 ^ 52; mantissa = nat (rest mod 2 ^ 52) in
      if exponent = 2047 then (if mantissa = 0 then F64_Inf neg else F64_NaN)
      else if exponent = 0 then F64_Fin neg mantissa (-1074)
      else F64_Fin neg (mantissa + 2 ^ 52) (exponent - 1075))"

definition f64_to_le :: "f64 \<Rightarrow> string" where
  "f64_to_le x = to_le 8 (f64_to_bits x)"

definition f64_from_le :: "string \<Rightarrow> f64" where
  "f64_from_le bytes = f64_from_bits (from_le bytes)"

text \<open>The numbers as \<open>f64_round\<close> gives them: the mantissa of a normal number has its leading bit.\<close>

fun f64_normal :: "f64 \<Rightarrow> bool" where
  "f64_normal F64_NaN = True"
| "f64_normal (F64_Inf _) = True"
| "f64_normal (F64_Fin _ m e) = (m < 2 ^ 53 \<and> -1074 \<le> e \<and> e \<le> 971 \<and> (m < 2 ^ 52 \<longrightarrow> e = -1074))"

lemma length_f64_to_le [simp]: "length (f64_to_le x) = 8"
  by (simp add: f64_to_le_def)

lemma split_bits:
  fixes k :: int
  assumes "0 \<le> x" "x < 2 ^ 52" "0 \<le> k"
  shows "(k * 2 ^ 52 + x) div 2 ^ 52 = k" "(k * 2 ^ 52 + x) mod 2 ^ 52 = x"
  using assms by simp_all

lemma sign_bit:
  fixes r :: int
  assumes "0 \<le> r" "r < 2 ^ 63"
  shows "2 ^ 63 \<le> (if neg then 2 ^ 63 else 0) + r \<longleftrightarrow> neg" "((if neg then 2 ^ 63 else 0) + r) mod 2 ^ 63 = r"
  using assms by auto

lemma magnitude_bits:
  assumes "f64_normal (F64_Fin neg m e)" "2 ^ 52 \<le> m"
  shows "0 \<le> (e + 1075) * 2 ^ 52 + (int m - 2 ^ 52)" "(e + 1075) * 2 ^ 52 + (int m - 2 ^ 52) < 2 ^ 63"
proof -
  have "(e + 1075) * 2 ^ 52 \<le> 2046 * 2 ^ 52" "0 \<le> (e + 1075) * 2 ^ 52" using assms(1) by auto
  then show "0 \<le> (e + 1075) * 2 ^ 52 + (int m - 2 ^ 52)" "(e + 1075) * 2 ^ 52 + (int m - 2 ^ 52) < 2 ^ 63"
    using assms by auto
qed

lemma f64_bits_range: "f64_normal x \<Longrightarrow> 0 \<le> f64_to_bits x \<and> f64_to_bits x < 2 ^ 64"
proof (cases x)
  case (F64_Fin neg m e)
  assume "f64_normal x"
  then show ?thesis using magnitude_bits [of neg m e] by (cases "m < 2 ^ 52") (auto simp: f64_to_bits_def F64_Fin)
qed (auto simp: f64_to_bits_def)

lemma f64_from_to_bits: "f64_normal x \<Longrightarrow> f64_from_bits (f64_to_bits x) = x"
proof (cases x)
  case (F64_Inf neg)
  show ?thesis using sign_bit [of "2047 * 2 ^ 52" neg] by (simp add: f64_to_bits_def f64_from_bits_def F64_Inf)
next
  case (F64_Fin neg m e)
  assume x: "f64_normal x"
  show ?thesis
  proof (cases "m < 2 ^ 52")
    case True
    have "int m < 2 ^ 52" using True by simp
    then show ?thesis using True x sign_bit [of "int m" neg] by (simp add: f64_to_bits_def f64_from_bits_def F64_Fin)
  next
    case False
    have m: "0 \<le> int m - 2 ^ 52" "int m - 2 ^ 52 < 2 ^ 52" "0 \<le> e + 1075" "e + 1075 \<noteq> 2047" "e + 1075 \<noteq> 0"
      "nat (int m - 2 ^ 52) + 2 ^ 52 = m"
      using False x by (auto simp: F64_Fin)
    have s: "2 ^ 63 \<le> f64_to_bits x \<longleftrightarrow> neg" "f64_to_bits x mod 2 ^ 63 = (e + 1075) * 2 ^ 52 + (int m - 2 ^ 52)"
      using sign_bit [OF magnitude_bits, of neg m e neg] x False by (auto simp: f64_to_bits_def F64_Fin)
    show ?thesis unfolding f64_from_bits_def Let_def s split_bits [OF m(1,2,3)] using m(4,5,6) by (simp add: F64_Fin)
  qed
qed (simp add: f64_to_bits_def f64_from_bits_def)

lemma f64_le_roundtrip [simp]: "f64_normal x \<Longrightarrow> f64_from_le (f64_to_le x) = x"
  using f64_bits_range [of x] f64_from_to_bits [of x] by (simp add: f64_from_le_def f64_to_le_def from_le_to_le)

end
