(* ===== verification/Vector_Blob.thy ===== *)
theory Vector_Blob
  imports Native_State Contract_Artifacts F64_Bits Iteration
begin

text \<open>
  Vector blobs of the native process (\<^verbatim>\<open>bin/aira-graphdb-native.rs\<close>): the header of a segment, its payload
  of little-endian numbers, loading the lineage of segments that a committed descriptor names, and
  planning the segment of the next generation. SHA-256 is a parameter, and so is the directory of the
  blob files: for a basename the error of opening it, or the length and the content of the file.
\<close>

type_synonym 'a io = "('a, string) outcome"
type_synonym blob_dir = "string \<Rightarrow> (u64 \<times> string io) io"

section \<open>Constants\<close>

definition VECTOR_BLOB_MAGIC :: string where "VECTOR_BLOB_MAGIC = ''AGVB''"
definition VECTOR_BLOB_VERSION :: "16 word" where "VECTOR_BLOB_VERSION = 2"
definition VECTOR_BLOB_VERSION_BASE :: "16 word" where "VECTOR_BLOB_VERSION_BASE = 1"
definition MAX_VECTOR_BLOB_LINEAGE :: nat where "MAX_VECTOR_BLOB_LINEAGE = 4096"
definition MAX_VECTOR_BLOB_LINEAGE_BYTES :: u64 where "MAX_VECTOR_BLOB_LINEAGE_BYTES = 16 * 1024 * 1024 * 1024"
definition COMPACT_AT_LINEAGE_SEGMENTS :: nat where "COMPACT_AT_LINEAGE_SEGMENTS = 256"
definition COMPACT_AT_LINEAGE_BYTES :: u64 where "COMPACT_AT_LINEAGE_BYTES = 12 * 1024 * 1024 * 1024"

definition compaction_reason :: "nat \<Rightarrow> u64 \<Rightarrow> u64 \<Rightarrow> u64 \<Rightarrow> string option" where
  "compaction_reason segments lineage_bytes live_bytes compact_at_bytes =
     (if COMPACT_AT_LINEAGE_SEGMENTS \<le> segments then Some ''segments''
      else
        let reclaimable = saturating_sub lineage_bytes live_bytes in
        if compact_at_bytes \<le> lineage_bytes \<and> live_bytes div 8 \<le> reclaimable then Some ''bytes'' else None)"

section \<open>Names and digests\<close>

definition validate_blob_basename :: "string \<Rightarrow> unit io" where
  "validate_blob_basename basename =
     (if basename = [] \<or> starts_with basename ''/'' \<or> CHR ''/'' \<in> set basename \<or> CHR 0x5C \<in> set basename \<or>
         basename = ''.'' \<or> basename = ''..'' \<or> length (path_components basename) \<noteq> 1
      then Err ''vector blob basename is not a safe basename'' else Ok ())"

definition is_ascii_hexdigit :: "char \<Rightarrow> bool" where
  "is_ascii_hexdigit c \<longleftrightarrow> is_digit c \<or> (CHR ''a'' \<le> c \<and> c \<le> CHR ''f'') \<or> (CHR ''A'' \<le> c \<and> c \<le> CHR ''F'')"

definition is_ascii_uppercase :: "char \<Rightarrow> bool" where
  "is_ascii_uppercase c \<longleftrightarrow> CHR ''A'' \<le> c \<and> c \<le> CHR ''Z''"

definition validate_sha256 :: "string \<Rightarrow> string \<Rightarrow> unit io" where
  "validate_sha256 v field =
     (if length v \<noteq> 64 \<or> \<not> list_all is_ascii_hexdigit v then Err (field @ '' must be a lowercase SHA-256 hex digest'')
      else if list_ex is_ascii_uppercase v then Err (field @ '' must be a lowercase SHA-256 hex digest'')
      else Ok ())"

text \<open>\<^verbatim>\<open>format!("{byte:02x}")\<close>.\<close>

definition hex_digit :: "nat \<Rightarrow> char" where
  "hex_digit n = char_of (if n < 10 then 48 + n else 87 + n)"

definition hex_byte :: "char \<Rightarrow> string" where
  "hex_byte c = [hex_digit (of_char c div 16), hex_digit (of_char c mod 16)]"

definition hex_value :: "char \<Rightarrow> nat" where
  "hex_value c = (if is_digit c then of_char c - 48 else of_char c - 87)"

text \<open>\<^verbatim>\<open>u8::from_str_radix(pair, 16).expect(..)\<close> on the two digits of a validated digest.\<close>

fun hex_pairs :: "string \<Rightarrow> string io" where
  "hex_pairs [] = Ok []"
| "hex_pairs [a] = Panic"
| "hex_pairs (a # b # r) =
     (if is_lower_hex a \<and> is_lower_hex b
      then and_then (hex_pairs r) (\<lambda>bytes. Ok (char_of (16 * hex_value a + hex_value b) # bytes)) else Panic)"

section \<open>The header of a segment\<close>

record vector_blob_header =
  vh_version :: "16 word"
  vh_generation :: "u64 option"
  vh_parent :: "vector_blob_descriptor option"
  vh_payload_offset :: nat

definition header_field :: "string \<Rightarrow> nat \<Rightarrow> nat \<Rightarrow> (string \<times> nat) io" where
  "header_field raw cursor len =
     (if 2 ^ 64 \<le> cursor + len then Err ''vector blob header overflow''
      else if length raw < cursor + len then Err ''vector blob header is truncated''
      else Ok (take len (drop cursor raw), cursor + len))"

definition parse_parent :: "string \<Rightarrow> nat \<Rightarrow> nat \<Rightarrow> (vector_blob_descriptor \<times> nat) io" where
  "parse_parent raw cursor parent_len =
     and_then (header_field raw cursor parent_len) (\<lambda>(name, cursor).
     and_then (map_err (\<lambda>_. ''vector blob parent basename is not UTF-8'') (from_utf8 name)) (\<lambda>basename.
     and_then (validate_blob_basename basename) (\<lambda>_.
     and_then (header_field raw cursor 8) (\<lambda>(sz, cursor).
     and_then (header_field raw cursor 32) (\<lambda>(digest, cursor).
     and_then (header_field raw cursor 2) (\<lambda>(fmt, cursor).
     let format = word_of_int (from_le fmt) in
     if format \<noteq> VECTOR_BLOB_VERSION \<and> format \<noteq> VECTOR_BLOB_VERSION_BASE
     then Err ''vector blob parent link names an unsupported format''
     else Ok (\<lparr>vd_basename = basename, vd_size = word_of_int (from_le sz), vd_sha256 = concat (map hex_byte digest),
                vd_format = format\<rparr>, cursor)))))))"

definition parse_blob_header :: "string \<Rightarrow> vector_blob_header io" where
  "parse_blob_header raw =
     (let magic_len = length VECTOR_BLOB_MAGIC; version_end = magic_len + 2 in
      if length raw < version_end then Err ''vector blob file is truncated''
      else if take magic_len raw \<noteq> VECTOR_BLOB_MAGIC then Err ''vector blob magic mismatch''
      else
        let version = word_of_int (from_le (take 2 (drop magic_len raw))) in
        if version = VECTOR_BLOB_VERSION_BASE
        then Ok \<lparr>vh_version = version, vh_generation = None, vh_parent = None, vh_payload_offset = version_end\<rparr>
        else if version \<noteq> VECTOR_BLOB_VERSION
        then Err (''vector blob version mismatch: expected '' @ show_nat (unat VECTOR_BLOB_VERSION_BASE) @ '' or '' @
               show_nat (unat VECTOR_BLOB_VERSION) @ '', got '' @ show_nat (unat version))
        else
          and_then (header_field raw version_end 8) (\<lambda>(gen_bytes, cursor).
          let gen = word_of_int (from_le gen_bytes) in
          if gen = 0 then Err ''vector blob segment generation must be positive''
          else
            and_then (header_field raw cursor 2) (\<lambda>(len_bytes, cursor).
            let parent_len = nat (from_le len_bytes) in
            and_then (if parent_len = 0 then Ok (None, cursor)
                      else map_ok (\<lambda>(parent, cursor). (Some parent, cursor)) (parse_parent raw cursor parent_len))
              (\<lambda>(parent, cursor).
            Ok \<lparr>vh_version = version, vh_generation = Some gen, vh_parent = parent, vh_payload_offset = cursor\<rparr>))))"

definition encode_parent :: "vector_blob_descriptor \<Rightarrow> string io" where
  "encode_parent parent =
     and_then (validate_blob_basename (vd_basename parent)) (\<lambda>_.
     and_then (validate_sha256 (vd_sha256 parent) ''parent vectorBlob.sha256'') (\<lambda>_.
     if 2 ^ 16 \<le> length (vd_basename parent) then Err ''parent blob basename exceeds u16 length''
     else
       and_then (hex_pairs (vd_sha256 parent)) (\<lambda>digest.
       Ok (to_le 2 (int (length (vd_basename parent))) @ vd_basename parent @ to_le 8 (uint (vd_size parent)) @ digest @
           to_le 2 (uint (vd_format parent))))))"

definition encode_blob_header :: "u64 \<Rightarrow> vector_blob_descriptor option \<Rightarrow> string io" where
  "encode_blob_header gen parent =
     (if gen = 0 then Err ''vector blob segment generation must be positive''
      else
        and_then (case parent of None \<Rightarrow> Ok (to_le 2 0) | Some p \<Rightarrow> encode_parent p) (\<lambda>link.
        Ok (VECTOR_BLOB_MAGIC @ to_le 2 (uint VECTOR_BLOB_VERSION) @ to_le 8 (uint gen) @ link)))"

section \<open>Reading a segment\<close>

definition open_validated_blob ::
  "(string \<Rightarrow> string) \<Rightarrow> blob_dir \<Rightarrow> string \<Rightarrow> vector_blob_descriptor option \<Rightarrow> string io" where
  "open_validated_blob sha dir name descriptor =
     and_then (map_err (\<lambda>e. ''open vector blob failed: '' @ e) (dir name)) (\<lambda>(len, content).
     if (case descriptor of Some d \<Rightarrow> len \<noteq> vd_size d | None \<Rightarrow> False) then Err ''vector blob size does not match descriptor''
     else
       and_then content (\<lambda>raw.
       and_then (parse_blob_header raw) (\<lambda>header.
       case descriptor of
         None \<Rightarrow> Ok raw
       | Some d \<Rightarrow>
           if vd_format d \<noteq> vh_version header then Err ''vector blob descriptor format mismatch''
           else if vd_size d \<noteq> len_u64 raw then Err ''vector blob size does not match descriptor''
           else if vd_sha256 d \<noteq> sha raw then Err ''vector blob hash does not match descriptor''
           else Ok raw)))"

definition read_validated_blob ::
  "(string \<Rightarrow> string) \<Rightarrow> blob_dir \<Rightarrow> string \<Rightarrow> vector_blob_descriptor option \<Rightarrow> string io" where
  "read_validated_blob sha dir name descriptor = open_validated_blob sha dir name descriptor"

record loaded_vector_segment =
  ls_generation :: "u64 option"
  ls_payload_offset :: nat
  ls_raw :: string

type_synonym vector_values = "string \<rightharpoonup> f64 list"
type_synonym pending_refs = "(u64 option \<times> string list) list"

text \<open>\<^verbatim>\<open>pending.entry(generation).or_default().push(key)\<close>.\<close>

fun entry_push :: "'k \<Rightarrow> 'v \<Rightarrow> ('k \<times> 'v list) list \<Rightarrow> ('k \<times> 'v list) list" where
  "entry_push k v [] = [(k, [v])]"
| "entry_push k v ((k', vs) # r) = (if k' = k then (k', vs @ [v]) # r else (k', vs) # entry_push k v r)"

fun pending_vector_refs :: "(string \<times> vector_record) list \<Rightarrow> vector_values \<Rightarrow> pending_refs \<Rightarrow> vector_values \<times> pending_refs" where
  "pending_vector_refs [] vs pending = (vs, pending)"
| "pending_vector_refs ((key, vrec) # r) vs pending =
     (if vr_values vrec \<noteq> [] then pending_vector_refs r (vs(key \<mapsto> vr_values vrec)) pending
      else (case vr_blob_ref vrec of
              Some blob_ref \<Rightarrow> pending_vector_refs r vs (entry_push (vb_generation blob_ref) key pending)
            | None \<Rightarrow> pending_vector_refs r vs pending))"

text \<open>\<^verbatim>\<open>slice.chunks_exact(8)\<close>: a shorter rest is dropped.\<close>

function chunks_exact8 :: "string \<Rightarrow> string list" where
  "chunks_exact8 bs = (if length bs < 8 then [] else take 8 bs # chunks_exact8 (drop 8 bs))"
  by pat_completeness auto
termination
  by (relation "measure length") auto

declare chunks_exact8.simps [simp del]

definition decode_ref :: "loaded_vector_segment \<Rightarrow> vector_blob_ref \<Rightarrow> f64 list io" where
  "decode_ref segment blob_ref =
     (let start = ls_payload_offset segment + unat (vb_offset blob_ref) in
      if 2 ^ 64 \<le> start then Err ''vector blob offset overflow''
      else
        let byte_len = unat (vb_len blob_ref) * 8 in
        if 2 ^ 64 \<le> byte_len then Err ''vector blob length overflow''
        else
          let stop = start + byte_len in
          if 2 ^ 64 \<le> stop then Err ''vector blob offset overflow''
          else if length (ls_raw segment) < stop then Err ''vector blob reference out of bounds''
          else Ok (map f64_from_le (chunks_exact8 (take byte_len (drop start (ls_raw segment))))))"

text \<open>A key outside the map and a pending vector without a reference panic.\<close>

fun decode_keys ::
  "(string \<times> vector_record) list \<Rightarrow> loaded_vector_segment \<Rightarrow> string list \<Rightarrow> vector_values \<Rightarrow> vector_values io"
where
  "decode_keys vectors segment [] vs = Ok vs"
| "decode_keys vectors segment (key # keys) vs =
     and_then (expect (map_of vectors key)) (\<lambda>vrec.
     and_then (expect (vr_blob_ref vrec)) (\<lambda>blob_ref.
     and_then (decode_ref segment blob_ref) (\<lambda>out.
     decode_keys vectors segment keys (vs(key \<mapsto> out)))))"

definition apply_vector_segment ::
  "(string \<times> vector_record) list \<Rightarrow> loaded_vector_segment \<Rightarrow> vector_values \<times> pending_refs \<Rightarrow> (vector_values \<times> pending_refs) io"
where
  "apply_vector_segment vectors segment = (\<lambda>(vs, pending).
     let keys = (case map_of pending (ls_generation segment) of Some ks \<Rightarrow> ks | None \<Rightarrow> []) in
     map_ok (\<lambda>vs'. (vs', filter (\<lambda>(g, _). g \<noteq> ls_generation segment) pending)) (decode_keys vectors segment keys vs))"

text \<open>The order of \<^verbatim>\<open>Option\<close>: \<^verbatim>\<open>None\<close> first.\<close>

definition option_min :: "u64 option list \<Rightarrow> u64 option" where
  "option_min gs = (if None \<in> set gs then None else Some (Min (the ` set gs)))"

definition unresolved_vector_refs_error :: "pending_refs \<Rightarrow> unit io" where
  "unresolved_vector_refs_error pending =
     (if pending = [] then Ok ()
      else (case option_min (map fst pending) of
              None \<Rightarrow> Err ''vector metadata references the base blob but the lineage has no base''
            | Some g \<Rightarrow> Err (''vector metadata references segment generation '' @ show_u64 g @ '' outside the lineage'')))"

section \<open>Loading a lineage\<close>

record lineage_walk =
  lw_lineage :: "vector_blob_descriptor list"
  lw_seen :: "string set"
  lw_total_bytes :: u64
  lw_child_generation :: "u64 option"
  lw_loaded :: "vector_values \<times> pending_refs"

definition check_generation :: "u64 \<Rightarrow> u64 option \<Rightarrow> u64 option \<Rightarrow> unit io" where
  "check_generation current gen child =
     (case gen of
        None \<Rightarrow> Ok ()
      | Some g \<Rightarrow>
          (case child of
             None \<Rightarrow> if g \<noteq> current
                     then Err ''vector blob segment generation does not match the canonical generation'' else Ok ()
           | Some c \<Rightarrow> if c \<le> g then Err ''vector blob parent generation is not below its child'' else Ok ()))"

text \<open>The body of the loop for one descriptor.\<close>

definition visit_segment ::
  "(string \<Rightarrow> string) \<Rightarrow> blob_dir \<Rightarrow> u64 \<Rightarrow> native_state \<Rightarrow> vector_blob_descriptor \<Rightarrow> lineage_walk \<Rightarrow>
   (vector_blob_descriptor option \<times> lineage_walk) io"
where
  "visit_segment sha dir max_bytes state descriptor w =
     (let exceeds = ''vector blob lineage exceeds '' @ show_u64 max_bytes @ '' bytes'' in
      and_then (ok_or (checked_add (lw_total_bytes w) (vd_size descriptor)) exceeds) (\<lambda>t.
      if max_bytes < t then Err exceeds
      else
        and_then (validate_blob_basename (vd_basename descriptor)) (\<lambda>_.
        if vd_basename descriptor \<in> lw_seen w then Err ''vector blob lineage references the same segment twice''
        else
          and_then (read_validated_blob sha dir (vd_basename descriptor) (Some descriptor)) (\<lambda>raw.
          and_then (parse_blob_header raw) (\<lambda>header.
          and_then (check_generation (ns_generation state) (vh_generation header) (lw_child_generation w)) (\<lambda>_.
          and_then (apply_vector_segment (ns_vectors state)
              \<lparr>ls_generation = vh_generation header, ls_payload_offset = vh_payload_offset header, ls_raw = raw\<rparr>
              (lw_loaded w)) (\<lambda>loaded.
          Ok (vh_parent header,
              \<lparr>lw_lineage = lw_lineage w @ [descriptor], lw_seen = insert (vd_basename descriptor) (lw_seen w),
               lw_total_bytes = t,
               lw_child_generation = (if vh_generation header \<noteq> None then vh_generation header else lw_child_generation w),
               lw_loaded = loaded\<rparr>))))))))"

text \<open>\<open>room\<close> more segments fit below the bound.\<close>

fun walk_lineage ::
  "(string \<Rightarrow> string) \<Rightarrow> blob_dir \<Rightarrow> u64 \<Rightarrow> native_state \<Rightarrow> nat \<Rightarrow> vector_blob_descriptor option \<Rightarrow> lineage_walk \<Rightarrow> lineage_walk io"
where
  "walk_lineage sha dir max_bytes state room None w = Ok w"
| "walk_lineage sha dir max_bytes state 0 (Some descriptor) w =
     Err (''vector blob lineage exceeds '' @ show_nat MAX_VECTOR_BLOB_LINEAGE @ '' segments'')"
| "walk_lineage sha dir max_bytes state (Suc room) (Some descriptor) w =
     and_then (visit_segment sha dir max_bytes state descriptor w) (\<lambda>(next, w').
     walk_lineage sha dir max_bytes state room next w')"

definition load_vector_lineage ::
  "(string \<Rightarrow> string) \<Rightarrow> blob_dir \<Rightarrow> u64 \<Rightarrow> native_state \<Rightarrow> (vector_blob_descriptor list \<times> vector_values) io" where
  "load_vector_lineage sha dir max_bytes state =
     and_then (ok_or (ns_vector_blob state) ''committed generation is missing its vector blob descriptor'') (\<lambda>head.
     and_then (walk_lineage sha dir max_bytes state MAX_VECTOR_BLOB_LINEAGE (Some head)
         \<lparr>lw_lineage = [], lw_seen = {}, lw_total_bytes = 0, lw_child_generation = None,
          lw_loaded = pending_vector_refs (ns_vectors state) Map.empty []\<rparr>) (\<lambda>w.
     and_then (unresolved_vector_refs_error (snd (lw_loaded w))) (\<lambda>_.
     Ok (lw_lineage w, fst (lw_loaded w)))))"

fun decode_segments ::
  "(string \<times> vector_record) list \<Rightarrow> u64 option set \<Rightarrow> loaded_vector_segment list \<Rightarrow> vector_values \<times> pending_refs \<Rightarrow>
   (vector_values \<times> pending_refs) io"
where
  "decode_segments vectors seen [] loaded = Ok loaded"
| "decode_segments vectors seen (segment # segments) loaded =
     (if ls_generation segment \<in> seen then Err ''vector blob lineage contains duplicate segment generations''
      else and_then (apply_vector_segment vectors segment loaded)
        (decode_segments vectors (insert (ls_generation segment) seen) segments))"

definition decode_vector_values :: "native_state \<Rightarrow> loaded_vector_segment list \<Rightarrow> vector_values io" where
  "decode_vector_values state segments =
     and_then (decode_segments (ns_vectors state) {} segments (pending_vector_refs (ns_vectors state) Map.empty []))
       (\<lambda>(vs, pending). and_then (unresolved_vector_refs_error pending) (\<lambda>_. Ok vs))"

text \<open>\<open>legacy\<close> is the adjacent blob of a store without generations, if that file exists.\<close>

definition load_vector_values ::
  "(string \<Rightarrow> string) \<Rightarrow> blob_dir \<Rightarrow> u64 \<Rightarrow> native_state \<Rightarrow> string \<Rightarrow> bool io \<Rightarrow>
   (vector_values \<times> vector_blob_descriptor list) io"
where
  "load_vector_values sha dir max_bytes state legacy legacy_exists =
     (if ns_generation state = 0 \<and> ns_vector_blob state \<noteq> None
      then Err ''legacy generation zero must not contain a vector blob descriptor''
      else if 0 < ns_generation state \<and> ns_vector_blob state = None
      then Err ''committed generation is missing its vector blob descriptor''
      else if ns_vector_blob state \<noteq> None
      then map_ok (\<lambda>(lineage, vs). (vs, lineage)) (load_vector_lineage sha dir max_bytes state)
      else
        and_then legacy_exists (\<lambda>present.
        and_then
          (if present then
             and_then (read_validated_blob sha dir legacy None) (\<lambda>raw.
             and_then (parse_blob_header raw) (\<lambda>header.
             if vh_version header \<noteq> VECTOR_BLOB_VERSION_BASE
             then Err ''legacy adjacent vector blob must use the base layout''
             else Ok [\<lparr>ls_generation = None, ls_payload_offset = vh_payload_offset header, ls_raw = raw\<rparr>]))
           else Ok []) (\<lambda>segments.
        map_ok (\<lambda>vs. (vs, [])) (decode_vector_values state segments))))"

section \<open>Enumerating a lineage\<close>

text \<open>\<^verbatim>\<open>s.rsplit_once(p)\<close> around the last place of the pattern.\<close>

fun rsplit_once :: "string \<Rightarrow> string \<Rightarrow> (string \<times> string) option" where
  "rsplit_once p [] = (if p = [] then Some ([], []) else None)"
| "rsplit_once p (c # s) =
     (case rsplit_once p s of
        Some (l, r) \<Rightarrow> Some (c # l, r)
      | None \<Rightarrow> if starts_with (c # s) p then Some ([], drop (length p) (c # s)) else None)"

definition published_blob_sha256 :: "string \<Rightarrow> string option" where
  "published_blob_sha256 basename =
     Option.bind (strip_suffix basename ''.vblob'') (\<lambda>stem.
     Option.bind (rsplit_once ''.'' stem) (\<lambda>(rest, digest).
     Option.bind (rsplit_once ''.g'' rest) (\<lambda>(_, gen).
     if length gen \<noteq> 20 \<or> \<not> list_all is_digit gen then None
     else if length digest \<noteq> 64 \<or> \<not> list_all (\<lambda>b. is_ascii_hexdigit b \<and> \<not> is_ascii_uppercase b) digest then None
     else Some digest)))"

definition VECTOR_BLOB_HEADER_MAX_BYTES :: nat where
  "VECTOR_BLOB_HEADER_MAX_BYTES = 4 + 2 + 8 + 2 + 65535 + 8 + 32 + 2"

definition read_blob_header_prefix :: "blob_dir \<Rightarrow> string \<Rightarrow> (u64 \<times> vector_blob_header) io" where
  "read_blob_header_prefix dir name =
     and_then (map_err (\<lambda>e. ''open vector blob failed: '' @ e) (dir name)) (\<lambda>(len, content).
     and_then content (\<lambda>raw.
     and_then (parse_blob_header (take VECTOR_BLOB_HEADER_MAX_BYTES raw)) (\<lambda>header. Ok (len, header))))"

fun enumerate_parents ::
  "blob_dir \<Rightarrow> nat \<Rightarrow> vector_blob_descriptor option \<Rightarrow> string set \<Rightarrow> u64 option \<Rightarrow> vector_blob_descriptor list \<Rightarrow>
   vector_blob_descriptor list io"
where
  "enumerate_parents dir room None seen child lineage = Ok lineage"
| "enumerate_parents dir 0 (Some parent) seen child lineage =
     Err (''vector blob lineage exceeds '' @ show_nat MAX_VECTOR_BLOB_LINEAGE @ '' segments'')"
| "enumerate_parents dir (Suc room) (Some parent) seen child lineage =
     and_then (validate_blob_basename (vd_basename parent)) (\<lambda>_.
     if vd_basename parent \<in> seen then Err ''vector blob lineage references the same segment twice''
     else
       and_then (read_blob_header_prefix dir (vd_basename parent)) (\<lambda>(parent_len, header).
       if parent_len \<noteq> vd_size parent \<or> vh_version header \<noteq> vd_format parent
       then Err ''vector blob parent header does not match the link that named it''
       else if (case (vh_generation header, child) of (Some g, Some c) \<Rightarrow> c \<le> g | _ \<Rightarrow> False)
       then Err ''vector blob parent generation is not below its child''
       else
         enumerate_parents dir room (vh_parent header) (insert (vd_basename parent) seen)
           (if vh_generation header \<noteq> None then vh_generation header else child) (lineage @ [parent])))"

definition enumerate_blob_lineage :: "blob_dir \<Rightarrow> string \<Rightarrow> vector_blob_descriptor list io" where
  "enumerate_blob_lineage dir basename =
     and_then (validate_blob_basename basename) (\<lambda>_.
     and_then (ok_or (published_blob_sha256 basename) ''blob_lineage requires a published blob basename'') (\<lambda>head_sha256.
     and_then (read_blob_header_prefix dir basename) (\<lambda>(head_len, header).
     enumerate_parents dir (MAX_VECTOR_BLOB_LINEAGE - 1) (vh_parent header) {basename} (vh_generation header)
       [\<lparr>vd_basename = basename, vd_size = head_len, vd_sha256 = head_sha256, vd_format = vh_version header\<rparr>])))"

section \<open>The segment of the next generation\<close>

text \<open>The references into the new segment, and the offset behind it.\<close>

fun segment_refs :: "u64 \<Rightarrow> u64 \<Rightarrow> (string \<times> f64 list) list \<Rightarrow> ((string \<times> vector_blob_ref) list \<times> u64) io" where
  "segment_refs gen offset [] = Ok ([], offset)"
| "segment_refs gen offset ((key, vs) # r) =
     (if 2 ^ 32 \<le> length vs then Err ''vector dimensions exceed u32''
      else
        and_then (ok_or (checked_add offset (len_u64 vs * 8)) ''vector blob offset overflow'') (\<lambda>offset'.
        and_then (segment_refs gen offset' r) (\<lambda>(refs, stop).
        Ok ((key, \<lparr>vb_offset = offset, vb_len = word_of_nat (length vs), vb_generation = Some gen\<rparr>) # refs, stop))))"

definition segment_payload :: "(string \<times> f64 list) list \<Rightarrow> string" where
  "segment_payload publish = concat (map (\<lambda>(_, vs). concat (map f64_to_le vs)) publish)"

text \<open>The bytes of the segment and the references into it.\<close>

definition stream_vector_blob ::
  "u64 \<Rightarrow> string \<Rightarrow> (string \<times> f64 list) list \<Rightarrow> u64 \<Rightarrow> (string \<times> (string \<times> vector_blob_ref) list) io" where
  "stream_vector_blob gen header publish expected_bytes =
     and_then (segment_refs gen 0 publish) (\<lambda>(refs, offset).
     and_then (ok_or (checked_add (len_u64 header) offset) ''vector blob size overflow'') (\<lambda>total_bytes.
     if total_bytes \<noteq> expected_bytes then Err ''vector segment size does not match the validated publish set''
     else
       let bytes = header @ segment_payload publish in
       if len_u64 bytes \<noteq> total_bytes then Err ''vector segment bytes written diverged from the validated size''
       else Ok (bytes, refs)))"

definition sum_bytes :: "string \<Rightarrow> u64 list \<Rightarrow> u64 io" where
  "sum_bytes msg ns = fold_ok (\<lambda>t n. ok_or (checked_add t n) msg) 0 ns"

definition live_len :: "vector_values \<Rightarrow> string \<times> vector_record \<Rightarrow> u64" where
  "live_len vv = (\<lambda>(key, vrec).
     case vr_blob_ref vrec of
       Some blob_ref \<Rightarrow> word_of_nat (unat (vb_len blob_ref))
     | None \<Rightarrow> (case vv key of Some vs \<Rightarrow> len_u64 vs | None \<Rightarrow> len_u64 (vr_values vrec)))"

definition publish_values :: "vector_values \<Rightarrow> string \<Rightarrow> vector_record \<Rightarrow> f64 list io" where
  "publish_values vv key vrec =
     (case (vv key, vr_blob_ref vrec) of
        (Some vs, Some blob_ref) \<Rightarrow>
          if len_u64 vs \<noteq> word_of_nat (unat (vb_len blob_ref))
          then Err (''compaction cannot prove equivalence: vector '' @ key @ '' has '' @ show_nat (length vs) @
                 '' live values but its reference promises '' @ show_nat (unat (vb_len blob_ref)))
          else Ok vs
      | (None, Some _) \<Rightarrow> Err (''compaction cannot prove equivalence: vector '' @ key @ '' has no live values'')
      | (Some vs, None) \<Rightarrow> Ok vs
      | (None, None) \<Rightarrow> if vr_values vrec \<noteq> [] then Ok (vr_values vrec)
                        else Err (''vector '' @ key @ '' has no values to publish''))"

fun publish_set ::
  "vector_values \<Rightarrow> (string \<times> vector_record) list \<Rightarrow> string list \<Rightarrow> u64 \<Rightarrow> ((string \<times> f64 list) list \<times> u64) io"
where
  "publish_set vv vectors [] publish_bytes = Ok ([], publish_bytes)"
| "publish_set vv vectors (key # keys) publish_bytes =
     and_then (expect (map_of vectors key)) (\<lambda>vrec.
     and_then (publish_values vv key vrec) (\<lambda>vs.
     and_then (ok_or (checked_add publish_bytes (len_u64 vs * 8)) ''vector segment byte total overflow'') (\<lambda>publish_bytes'.
     and_then (publish_set vv vectors keys publish_bytes') (\<lambda>(publish, t).
     Ok ((key, vs) # publish, t)))))"

record segment_plan =
  sp_compaction :: "string option"
  sp_parent :: "vector_blob_descriptor option"
  sp_publish :: "(string \<times> f64 list) list"
  sp_header :: string
  sp_bytes :: u64

text \<open>The part of the server that publication reads.\<close>

record blob_owner =
  bo_state :: native_state
  bo_values :: vector_values
  bo_lineage :: "vector_blob_descriptor list"

text \<open>The bytes of the lineage, the live bytes, and the reason to compact.\<close>

definition decide_compaction :: "u64 \<Rightarrow> blob_owner \<Rightarrow> (u64 \<times> u64 \<times> string option) io" where
  "decide_compaction compact_at bo =
     and_then (sum_bytes ''vector blob lineage byte total overflow'' (map vd_size (bo_lineage bo))) (\<lambda>lineage_bytes.
     if ns_vector_blob (bo_state bo) \<noteq> None \<and>
        (bo_lineage bo = [] \<or> Some (hd (bo_lineage bo)) \<noteq> ns_vector_blob (bo_state bo))
     then Err ''vector blob lineage does not start at the committed descriptor''
     else
       and_then (sum_bytes ''live vector byte total overflow''
           (map (\<lambda>e. live_len (bo_values bo) e * 8) (ns_vectors (bo_state bo)))) (\<lambda>live_bytes.
       Ok (lineage_bytes, live_bytes,
           if ns_vector_blob (bo_state bo) \<noteq> None
           then compaction_reason (length (bo_lineage bo)) lineage_bytes live_bytes compact_at else None)))"

text \<open>The lineage that the next open walks must stay below its ceiling.\<close>

definition check_projected :: "u64 \<Rightarrow> bool \<Rightarrow> u64 \<Rightarrow> u64 \<Rightarrow> unit io" where
  "check_projected max_bytes compacting lineage_bytes segment_bytes =
     and_then (if compacting then Ok segment_bytes
               else ok_or (checked_add lineage_bytes segment_bytes) ''vector blob lineage byte total overflow'') (\<lambda>projected.
     if max_bytes < projected
     then Err (''publishing this generation would leave a '' @ show_u64 projected @ ''-byte lineage above the '' @
            show_u64 max_bytes @ ''-byte load ceiling'')
     else Ok ())"

definition plan_segment :: "u64 \<Rightarrow> u64 \<Rightarrow> blob_owner \<Rightarrow> u64 \<Rightarrow> segment_plan io" where
  "plan_segment compact_at max_bytes bo next_generation =
     and_then (decide_compaction compact_at bo) (\<lambda>(lineage_bytes, live_bytes, reason).
     let vectors = ns_vectors (bo_state bo);
         compacting = (reason \<noteq> None);
         parent = (if compacting then None else ns_vector_blob (bo_state bo))
     in
     if parent \<noteq> None \<and> MAX_VECTOR_BLOB_LINEAGE \<le> length (bo_lineage bo)
     then Err (''vector blob lineage is exhausted at '' @ show_nat MAX_VECTOR_BLOB_LINEAGE @
            '' segments; compaction is required before another generation can be published'')
     else
       let keys = sort (map fst (filter (\<lambda>(_, vrec). compacting \<or> vr_blob_ref vrec = None) vectors)) in
       and_then (publish_set (bo_values bo) vectors keys 0) (\<lambda>(publish, publish_bytes).
       if compacting \<and> (length publish \<noteq> length vectors \<or> publish_bytes \<noteq> live_bytes)
       then Err ''compaction cannot prove equivalence: publish set does not match the live set''
       else
         and_then (encode_blob_header next_generation parent) (\<lambda>header.
         and_then (ok_or (checked_add (len_u64 header) publish_bytes) ''vector segment size overflow'') (\<lambda>segment_bytes.
         and_then (check_projected max_bytes compacting lineage_bytes segment_bytes) (\<lambda>_.
         Ok \<lparr>sp_compaction = reason, sp_parent = parent, sp_publish = publish, sp_header = header,
              sp_bytes = segment_bytes\<rparr>)))))"

fun prepared_refs ::
  "(string \<times> vector_blob_ref) list \<Rightarrow> (string \<times> vector_record) list \<Rightarrow> (string \<times> vector_blob_ref) list io" where
  "prepared_refs delta [] = Ok []"
| "prepared_refs delta ((key, vrec) # r) =
     and_then (case map_of delta key of
                 Some blob_ref \<Rightarrow> Ok blob_ref
               | None \<Rightarrow> ok_or (vr_blob_ref vrec) ''vector outside the delta has no blob reference'') (\<lambda>blob_ref.
     and_then (prepared_refs delta r) (\<lambda>refs. Ok ((key, blob_ref) # refs)))"

text \<open>\<^verbatim>\<open>format!("{stem}.g{generation:020}.{sha256}.vblob")\<close>.\<close>

definition blob_basename :: "string \<Rightarrow> u64 \<Rightarrow> string \<Rightarrow> string" where
  "blob_basename stem gen sha256 =
     (let digits = show_u64 gen in
      stem @ ''.g'' @ replicate (20 - length digits) CHR ''0'' @ digits @ ''.'' @ sha256 @ ''.vblob'')"

record published_blob =
  pb_plan :: segment_plan
  pb_bytes :: string
  pb_descriptor :: vector_blob_descriptor
  pb_refs :: "(string \<times> vector_blob_ref) list"

definition prepare_blob :: "(string \<Rightarrow> string) \<Rightarrow> string \<Rightarrow> u64 \<Rightarrow> u64 \<Rightarrow> blob_owner \<Rightarrow> u64 \<Rightarrow> published_blob io" where
  "prepare_blob sha stem compact_at max_bytes bo next_generation =
     and_then (plan_segment compact_at max_bytes bo next_generation) (\<lambda>p.
     and_then (stream_vector_blob next_generation (sp_header p) (sp_publish p) (sp_bytes p)) (\<lambda>(bytes, delta).
     and_then (prepared_refs delta (ns_vectors (bo_state bo))) (\<lambda>refs.
     Ok \<lparr>pb_plan = p, pb_bytes = bytes,
          pb_descriptor = \<lparr>vd_basename = blob_basename stem next_generation (sha bytes), vd_size = len_u64 bytes,
            vd_sha256 = sha bytes, vd_format = VECTOR_BLOB_VERSION\<rparr>,
          pb_refs = refs\<rparr>)))"

text \<open>The new file, and the owner once the generation is durable.\<close>

definition publish_file :: "published_blob \<Rightarrow> blob_dir \<Rightarrow> blob_dir" where
  "publish_file pb dir = dir(vd_basename (pb_descriptor pb) := Ok (len_u64 (pb_bytes pb), Ok (pb_bytes pb)))"

definition install_generation :: "published_blob \<Rightarrow> u64 \<Rightarrow> stored_commit_evidence \<Rightarrow> blob_owner \<Rightarrow> blob_owner" where
  "install_generation pb next_generation evidence bo =
     bo\<lparr>bo_state := (bo_state bo)\<lparr>
          ns_generation := next_generation, ns_vector_blob := Some (pb_descriptor pb), ns_commit_evidence := Some evidence,
          ns_vectors := map (\<lambda>(key, vrec). (key, case map_of (pb_refs pb) key of
              Some blob_ref \<Rightarrow> vrec\<lparr>vr_values := [], vr_blob_ref := Some blob_ref\<rparr> | None \<Rightarrow> vrec)) (ns_vectors (bo_state bo))\<rparr>,
        bo_lineage := pb_descriptor pb # (if sp_compaction (pb_plan pb) \<noteq> None then [] else bo_lineage bo)\<rparr>"

end
