(* ===== verification/Vector_Codec_Correct.thy ===== *)
theory Vector_Codec_Correct
  imports Vector_Blob
begin

text \<open>
  A segment that was written is read back: its header with the link to the parent, and every vector
  through its reference.
\<close>

section \<open>Digests\<close>

lemma lower_hex_value: "is_lower_hex c \<Longrightarrow> hex_value c < 16 \<and> hex_digit (hex_value c) = c"
proof -
  assume c: "is_lower_hex c"
  define n :: nat where "n = of_char c"
  have n: "c = char_of n" by (simp add: n_def)
  have "(48 \<le> n \<and> n \<le> 57) \<or> (97 \<le> n \<and> n \<le> 102)"
    using c by (auto simp: is_lower_hex_def is_digit_def less_eq_char_def n_def)
  then show ?thesis by (auto simp: hex_value_def hex_digit_def is_digit_def less_eq_char_def n)
qed

lemma hex_byte_pair:
  assumes "is_lower_hex a" "is_lower_hex b"
  shows "hex_byte (char_of (16 * hex_value a + hex_value b)) = [a, b]"
proof -
  have v: "hex_value a < 16" "hex_value b < 16" "hex_digit (hex_value a) = a" "hex_digit (hex_value b) = b"
    using lower_hex_value assms by auto
  then have "(16 * hex_value a + hex_value b) mod 256 = 16 * hex_value a + hex_value b" by simp
  then show ?thesis using v by (simp add: hex_byte_def)
qed

lemma hex_pairs_inverse: "hex_pairs s = Ok bytes \<Longrightarrow> concat (map hex_byte bytes) = s \<and> length s = 2 * length bytes"
  by (induction s arbitrary: bytes rule: hex_pairs.induct) (auto simp: hex_byte_pair split: if_splits)

lemma hex_pairs_lower: "list_all is_lower_hex s \<Longrightarrow> even (length s) \<Longrightarrow> \<exists>bytes. hex_pairs s = Ok bytes"
  by (induction s rule: hex_pairs.induct) auto

lemma validate_sha256_lower: "validate_sha256 v name = Ok () \<longleftrightarrow> length v = 64 \<and> list_all is_lower_hex v"
proof -
  have "is_lower_hex c \<longleftrightarrow> is_ascii_hexdigit c \<and> \<not> is_ascii_uppercase c" for c
    by (auto simp: is_lower_hex_def is_ascii_hexdigit_def is_ascii_uppercase_def is_digit_def less_eq_char_def)
  then show ?thesis by (auto simp: validate_sha256_def list_all_iff list_ex_iff)
qed

section \<open>The header\<close>

lemma field_word:
  "word_of_int (from_le (to_le 8 (uint (w :: u64)))) = w" "word_of_int (from_le (to_le 2 (uint (v :: 16 word)))) = v"
  using uint_lt2p [of w] uint_lt2p [of v] by (simp_all add: from_le_to_le)

lemma header_field_at:
  assumes "raw = pre @ field @ rest" "length raw < 2 ^ 64" "cursor = length pre" "n = length field"
  shows "header_field raw cursor n = Ok (field, cursor + n)"
  using assms by (simp add: header_field_def)

definition parent_ok :: "vector_blob_descriptor \<Rightarrow> bool" where
  "parent_ok p \<longleftrightarrow> utf8_error 0 (vd_basename p) = None \<and>
     (vd_format p = VECTOR_BLOB_VERSION \<or> vd_format p = VECTOR_BLOB_VERSION_BASE)"

lemma parse_encoded_parent:
  assumes "encode_parent p = Ok link" "parent_ok p" "raw = pre @ link @ rest" "length raw < 2 ^ 64"
  shows "parse_parent raw (length pre + 2) (length (vd_basename p)) = Ok (p, length pre + length link)"
proof -
  from assms(1) obtain digest where link:
    "link = to_le 2 (int (length (vd_basename p))) @ vd_basename p @ to_le 8 (uint (vd_size p)) @ digest @ to_le 2 (uint (vd_format p))"
    and p: "validate_blob_basename (vd_basename p) = Ok ()" "validate_sha256 (vd_sha256 p) ''parent vectorBlob.sha256'' = Ok ()"
      "hex_pairs (vd_sha256 p) = Ok digest"
    by (auto simp: encode_parent_def split: if_splits)
  have digest: "concat (map hex_byte digest) = vd_sha256 p" "length digest = 32"
    using hex_pairs_inverse [OF p(3)] p(2) by (auto simp: validate_sha256_lower)
  note at = header_field_at [OF _ assms(4)]
  let ?n = "length pre + 2" and ?b = "vd_basename p"
  have "header_field raw ?n (length ?b) = Ok (?b, ?n + length ?b)"
    by (rule at [where pre = "pre @ to_le 2 (int (length ?b))"]) (simp_all add: assms(3) link)
  moreover have "header_field raw (?n + length ?b) 8 = Ok (to_le 8 (uint (vd_size p)), ?n + length ?b + 8)"
    by (rule at [where pre = "pre @ to_le 2 (int (length ?b)) @ ?b"]) (simp_all add: assms(3) link)
  moreover have "header_field raw (?n + length ?b + 8) 32 = Ok (digest, ?n + length ?b + 8 + 32)"
    by (rule at [where pre = "pre @ to_le 2 (int (length ?b)) @ ?b @ to_le 8 (uint (vd_size p))"])
      (simp_all add: assms(3) link digest)
  moreover have "header_field raw (?n + length ?b + 8 + 32) 2 = Ok (to_le 2 (uint (vd_format p)), ?n + length ?b + 8 + 32 + 2)"
    by (rule at [where pre = "pre @ to_le 2 (int (length ?b)) @ ?b @ to_le 8 (uint (vd_size p)) @ digest"])
      (simp_all add: assms(3) link digest)
  ultimately show ?thesis
    using assms(2) p(1) by (auto simp: parse_parent_def from_utf8_def parent_ok_def field_word digest Let_def link simp del: to_le.simps)
qed

lemma basename_not_empty: "validate_blob_basename b = Ok () \<Longrightarrow> b \<noteq> []"
  by (auto simp: validate_blob_basename_def split: if_splits)

text \<open>The header of a segment, followed by any payload, is read back with the offset of the payload.\<close>

theorem blob_header_roundtrip:
  assumes "encode_blob_header gen parent = Ok header" "\<forall>p. parent = Some p \<longrightarrow> parent_ok p"
    and "length (header @ payload) < 2 ^ 64"
  shows "parse_blob_header (header @ payload) =
    Ok \<lparr>vh_version = VECTOR_BLOB_VERSION, vh_generation = Some gen, vh_parent = parent, vh_payload_offset = length header\<rparr>"
proof -
  define raw where "raw = header @ payload"
  have len: "length raw < 2 ^ 64" using assms(3) by (simp add: raw_def)
  from assms(1) obtain link where gen: "gen \<noteq> 0"
    and link: "(case parent of None \<Rightarrow> Ok (to_le 2 0) | Some p \<Rightarrow> encode_parent p) = Ok link"
    and h: "header = VECTOR_BLOB_MAGIC @ to_le 2 (uint VECTOR_BLOB_VERSION) @ to_le 8 (uint gen) @ link"
    by (auto simp: encode_blob_header_def split: if_splits)
  let ?pre = "VECTOR_BLOB_MAGIC @ to_le 2 (uint VECTOR_BLOB_VERSION) @ to_le 8 (uint gen)"
  have pre: "length ?pre = 14" "length VECTOR_BLOB_MAGIC = 4" by (simp_all add: VECTOR_BLOB_MAGIC_def)
  have magic: "take 4 raw = VECTOR_BLOB_MAGIC" "take 2 (drop 4 raw) = to_le 2 (uint VECTOR_BLOB_VERSION)"
    "\<not> length raw < 6" by (simp_all add: raw_def h VECTOR_BLOB_MAGIC_def)
  have version: "VECTOR_BLOB_VERSION \<noteq> VECTOR_BLOB_VERSION_BASE"
    by (simp add: VECTOR_BLOB_VERSION_def VECTOR_BLOB_VERSION_BASE_def)
  have f1: "header_field raw 6 8 = Ok (to_le 8 (uint gen), 14)"
    by (rule header_field_at [OF _ len, where pre = "VECTOR_BLOB_MAGIC @ to_le 2 (uint VECTOR_BLOB_VERSION)", THEN trans])
      (simp_all add: raw_def h pre)
  obtain n where n: "take 2 link = to_le 2 (int n)" "2 \<le> length link" "n < 2 ^ 16"
    "(if n = 0 then Ok (None, 16) else map_ok (\<lambda>(parent, cursor). (Some parent, cursor)) (parse_parent raw 16 n)) =
      Ok (parent, length header)"
  proof (cases parent)
    case None
    then have "link = to_le 2 (int 0)" using link by simp
    moreover have "length header = 16" using calculation by (simp add: h pre)
    ultimately show ?thesis using that [of 0] None by simp
  next
    case (Some p)
    then have p: "encode_parent p = Ok link" "parent_ok p" using link assms(2) by auto
    have "vd_basename p \<noteq> []" "length (vd_basename p) < 2 ^ 16" "take 2 link = to_le 2 (int (length (vd_basename p)))" "2 \<le> length link"
      using p(1) basename_not_empty by (auto simp: encode_parent_def split: if_splits)
    moreover have "parse_parent raw 16 (length (vd_basename p)) = Ok (p, length header)"
      using parse_encoded_parent [OF p, of raw ?pre payload] len pre by (simp add: raw_def h)
    ultimately show ?thesis using that [of "length (vd_basename p)"] Some by (auto simp: map_ok_def)
  qed
  have f2: "header_field raw 14 2 = Ok (to_le 2 (int n), 16)"
    by (rule header_field_at [OF _ len, where pre = ?pre and rest = "drop 2 link @ payload", THEN trans])
      (use n pre append_take_drop_id [of 2 link] in \<open>simp_all add: raw_def h\<close>)
  have n_eq: "nat (from_le (to_le 2 (int n))) = n" using n(3) by (simp add: from_le_to_le)
  have "parse_blob_header raw =
    Ok \<lparr>vh_version = VECTOR_BLOB_VERSION, vh_generation = Some gen, vh_parent = parent, vh_payload_offset = length header\<rparr>"
    unfolding parse_blob_header_def Let_def pre(2)
    using n(4) by (auto simp: magic version f1 f2 field_word gen n_eq split: if_splits simp del: nat_eq_iff nat_eq_iff2 nat_le_0 nat_0_iff)
  then show ?thesis by (simp add: raw_def)
qed

section \<open>The payload\<close>

lemma chunks_of_numbers: "chunks_exact8 (concat (map f64_to_le vs)) = map f64_to_le vs"
  by (induction vs) (simp_all add: chunks_exact8.simps [of "[]"] chunks_exact8.simps [of "f64_to_le _ @ _"])

lemma length_numbers: "length (concat (map f64_to_le vs)) = 8 * length vs"
  by (induction vs) auto

lemma decode_written:
  assumes "ls_raw seg = pre @ concat (map f64_to_le vs) @ rest" "length (ls_raw seg) < 2 ^ 64"
    and "length pre = ls_payload_offset seg + unat (vb_offset r)" "unat (vb_len r) = length vs" "list_all f64_normal vs"
  shows "decode_ref seg r = Ok vs"
proof -
  let ?start = "ls_payload_offset seg + unat (vb_offset r)"
  have vs: "map (f64_from_le \<circ> f64_to_le) vs = vs" using assms(5) by (induction vs) auto
  have bytes: "take (length vs * 8) (drop ?start (ls_raw seg)) = concat (map f64_to_le vs)"
    unfolding assms(1) assms(3) [symmetric] by (simp add: length_numbers mult.commute)
  have fits: "?start + length vs * 8 \<le> length (ls_raw seg)"
    unfolding assms(1) assms(3) [symmetric] by (simp add: length_numbers)
  have "\<not> 2 ^ 64 \<le> ?start" "\<not> 2 ^ 64 \<le> length vs * 8" "\<not> 2 ^ 64 \<le> ?start + length vs * 8"
    using fits assms(2) by linarith+
  then show ?thesis using fits
    unfolding decode_ref_def Let_def assms(4) bytes chunks_of_numbers by (simp add: vs del: One_nat_def)
qed

text \<open>Every published vector is read back through its reference.\<close>

lemma segment_refs_decode:
  assumes "ls_generation seg = Some gen" "length (ls_raw seg) < 2 ^ 64"
  shows "segment_refs gen offset publish = Ok (links, stop) \<Longrightarrow>
    ls_raw seg = pre @ segment_payload publish \<Longrightarrow> length pre = ls_payload_offset seg + unat offset \<Longrightarrow>
    list_all (\<lambda>(_, vs). list_all f64_normal vs) publish \<Longrightarrow>
    list_all2 (\<lambda>(key, vs) (key', r). key' = key \<and> vb_generation r = Some gen \<and> unat (vb_len r) = length vs \<and>
      decode_ref seg r = Ok vs) publish links"
proof (induction publish arbitrary: offset links pre)
  case (Cons p publish)
  obtain key vs where p: "p = (key, vs)" by fastforce
  from Cons.prems(1) obtain offset' links' where
    len: "length vs < 2 ^ 32" and off: "checked_add offset (len_u64 vs * 8) = Some offset'"
    and rest: "segment_refs gen offset' publish = Ok (links', stop)"
    and links: "links = (key, \<lparr>vb_offset = offset, vb_len = word_of_nat (length vs), vb_generation = Some gen\<rparr>) # links'"
    by (auto simp: p split: if_splits)
  have n: "unat (len_u64 vs * 8) = 8 * length vs"
    using len by (simp add: len_u64_def unat_word_ariths unat_of_nat take_bit_nat_eq_self_iff)
  have raw: "ls_raw seg = (pre @ concat (map f64_to_le vs)) @ segment_payload publish"
    using Cons.prems(2) by (simp add: p segment_payload_def)
  have "decode_ref seg \<lparr>vb_offset = offset, vb_len = word_of_nat (length vs), vb_generation = Some gen\<rparr> = Ok vs"
    by (rule decode_written [OF _ assms(2)])
      (use raw Cons.prems len in \<open>simp_all add: p unat_of_nat\<close>)
  moreover have "length (pre @ concat (map f64_to_le vs)) = ls_payload_offset seg + unat offset'"
    using Cons.prems(3) off n by (simp add: length_numbers checked_add_Some)
  ultimately show ?case
    using Cons.IH [OF rest raw] Cons.prems(4) len by (simp add: p links unat_of_nat)
qed (auto simp: segment_payload_def)

lemma segment_refs_length:
  "segment_refs gen offset publish = Ok (links, stop) \<Longrightarrow> unat stop = unat offset + length (segment_payload publish)"
proof (induction publish arbitrary: offset links)
  case (Cons p publish)
  obtain key vs where p: "p = (key, vs)" by fastforce
  from Cons.prems obtain offset' links' where
    len: "length vs < 2 ^ 32" and off: "checked_add offset (len_u64 vs * 8) = Some offset'"
    and rest: "segment_refs gen offset' publish = Ok (links', stop)"
    by (auto simp: p split: if_splits)
  have n: "unat (len_u64 vs * 8) = 8 * length vs"
    using len by (simp add: len_u64_def unat_word_ariths unat_of_nat take_bit_nat_eq_self_iff)
  show ?case using Cons.IH [OF rest] off n by (simp add: p segment_payload_def length_numbers checked_add_Some)
qed (simp add: segment_payload_def)

end
