(* ===== verification/Vector_Lineage.thy ===== *)
theory Vector_Lineage
  imports Vector_Codec_Correct
begin

text \<open>
  What loading a lineage accepts and what it returns: the segments are a chain of validated files with
  decreasing generations, and each vector is decoded from the segment its reference names.
\<close>

section \<open>Chains of segments\<close>

definition segment_of ::
  "(string \<Rightarrow> string) \<Rightarrow> blob_dir \<Rightarrow> vector_blob_descriptor \<Rightarrow> (loaded_vector_segment \<times> vector_blob_descriptor option) io" where
  "segment_of sha dir d =
     and_then (read_validated_blob sha dir (vd_basename d) (Some d)) (\<lambda>raw.
     and_then (parse_blob_header raw) (\<lambda>header.
     Ok (\<lparr>ls_generation = vh_generation header, ls_payload_offset = vh_payload_offset header, ls_raw = raw\<rparr>, vh_parent header)))"

inductive chain ::
  "(string \<Rightarrow> string) \<Rightarrow> blob_dir \<Rightarrow> u64 \<Rightarrow> u64 option \<Rightarrow> vector_blob_descriptor option \<Rightarrow> vector_blob_descriptor list \<Rightarrow>
   loaded_vector_segment list \<Rightarrow> bool"
  for sha dir current
where
  chain_end: "chain sha dir current child None [] []"
| chain_step:
    "validate_blob_basename (vd_basename d) = Ok () \<Longrightarrow> segment_of sha dir d = Ok (seg, parent) \<Longrightarrow>
     check_generation current (ls_generation seg) child = Ok () \<Longrightarrow>
     chain sha dir current (if ls_generation seg \<noteq> None then ls_generation seg else child) parent ds segs \<Longrightarrow>
     chain sha dir current child (Some d) (d # ds) (seg # segs)"

inductive_cases chain_NoneE: "chain sha dir current child None ds segs"
inductive_cases chain_SomeE: "chain sha dir current child (Some d) ds segs"

definition total_size :: "vector_blob_descriptor list \<Rightarrow> nat" where
  "total_size ds = sum_list (map (unat \<circ> vd_size) ds)"

lemma total_size_simps [simp]: "total_size [] = 0" "total_size (d # ds) = unat (vd_size d) + total_size ds"
  by (simp_all add: total_size_def)

abbreviation apply_segments ::
  "(string \<times> vector_record) list \<Rightarrow> vector_values \<times> pending_refs \<Rightarrow> loaded_vector_segment list \<Rightarrow> (vector_values \<times> pending_refs) io" where
  "apply_segments vectors \<equiv> fold_ok (\<lambda>loaded seg. apply_vector_segment vectors seg loaded)"

lemma segment_of_Ok:
  "segment_of sha dir d = Ok (seg, parent) \<longleftrightarrow>
     (\<exists>raw header. read_validated_blob sha dir (vd_basename d) (Some d) = Ok raw \<and> parse_blob_header raw = Ok header \<and>
        parent = vh_parent header \<and>
        seg = \<lparr>ls_generation = vh_generation header, ls_payload_offset = vh_payload_offset header, ls_raw = raw\<rparr>)"
  by (auto simp: segment_of_def)

lemma visit_segment_eq:
  "visit_segment sha dir max_bytes state d w =
     (let exceeds = ''vector blob lineage exceeds '' @ show_u64 max_bytes @ '' bytes'' in
      and_then (ok_or (checked_add (lw_total_bytes w) (vd_size d)) exceeds) (\<lambda>t.
      if max_bytes < t then Err exceeds
      else
        and_then (validate_blob_basename (vd_basename d)) (\<lambda>_.
        if vd_basename d \<in> lw_seen w then Err ''vector blob lineage references the same segment twice''
        else
          and_then (segment_of sha dir d) (\<lambda>(seg, parent).
          and_then (check_generation (ns_generation state) (ls_generation seg) (lw_child_generation w)) (\<lambda>_.
          and_then (apply_vector_segment (ns_vectors state) seg (lw_loaded w)) (\<lambda>loaded.
          Ok (parent, \<lparr>lw_lineage = lw_lineage w @ [d], lw_seen = insert (vd_basename d) (lw_seen w), lw_total_bytes = t,
            lw_child_generation = (if ls_generation seg \<noteq> None then ls_generation seg else lw_child_generation w), lw_loaded = loaded\<rparr>)))))))"
proof -
  have assoc: "and_then (and_then m (\<lambda>x. and_then (f x) (\<lambda>y. Ok (g x y, h y)))) k = and_then m (\<lambda>x. and_then (f x) (\<lambda>y. k (g x y, h y)))"
    for m :: "'a io" and f :: "'a \<Rightarrow> 'b io" and g :: "'a \<Rightarrow> 'b \<Rightarrow> 'c" and h :: "'b \<Rightarrow> 'd" and k :: "'c \<times> 'd \<Rightarrow> 'e io"
    by (cases m) (auto simp: and_then_def split: outcome.splits)
  show ?thesis unfolding visit_segment_def segment_of_def assoc Let_def prod.case loaded_vector_segment.select_convs by (rule refl)
qed

lemma visit_segment_Ok:
  "visit_segment sha dir max_bytes state d w = Ok (nxt, w') \<longleftrightarrow>
     (\<exists>t seg loaded. checked_add (lw_total_bytes w) (vd_size d) = Some t \<and> \<not> max_bytes < t \<and>
        validate_blob_basename (vd_basename d) = Ok () \<and> vd_basename d \<notin> lw_seen w \<and> segment_of sha dir d = Ok (seg, nxt) \<and>
        check_generation (ns_generation state) (ls_generation seg) (lw_child_generation w) = Ok () \<and>
        apply_vector_segment (ns_vectors state) seg (lw_loaded w) = Ok loaded \<and>
        w' = \<lparr>lw_lineage = lw_lineage w @ [d], lw_seen = insert (vd_basename d) (lw_seen w), lw_total_bytes = t,
          lw_child_generation = (if ls_generation seg \<noteq> None then ls_generation seg else lw_child_generation w), lw_loaded = loaded\<rparr>)"
  unfolding visit_segment_eq Let_def
  by (cases "checked_add (lw_total_bytes w) (vd_size d)"; cases "segment_of sha dir d") (auto split: if_split_asm split del: if_split)

lemma walk_complete:
  assumes "chain sha dir (ns_generation state) child nxt ds segs"
  shows "child = lw_child_generation w \<Longrightarrow> length ds \<le> room \<Longrightarrow> distinct (map vd_basename ds) \<Longrightarrow>
    set (map vd_basename ds) \<inter> lw_seen w = {} \<Longrightarrow> unat (lw_total_bytes w) + total_size ds \<le> unat max_bytes \<Longrightarrow>
    apply_segments (ns_vectors state) (lw_loaded w) segs = Ok loaded \<Longrightarrow>
    \<exists>w'. walk_lineage sha dir max_bytes state room nxt w = Ok w' \<and> lw_lineage w' = lw_lineage w @ ds \<and> lw_loaded w' = loaded"
  using assms
proof (induction arbitrary: w room rule: chain.induct)
  case (chain_step d seg parent child ds segs)
  from chain_step.prems(2) obtain room' where room: "room = Suc room'" by (cases room) auto
  have fits: "unat (lw_total_bytes w) + unat (vd_size d) \<le> unat max_bytes" using chain_step.prems(5) by simp
  then have add: "unat (lw_total_bytes w) + unat (vd_size d) < 2 ^ 64" using unat_bound [of max_bytes] by simp
  define t where "t = lw_total_bytes w + vd_size d"
  have t: "unat t = unat (lw_total_bytes w) + unat (vd_size d)" using add by (simp add: t_def unat_word_ariths)
  from chain_step.prems(6) obtain loaded' where l: "apply_vector_segment (ns_vectors state) seg (lw_loaded w) = Ok loaded'"
    "apply_segments (ns_vectors state) loaded' segs = Ok loaded" by auto
  let ?w = "\<lparr>lw_lineage = lw_lineage w @ [d], lw_seen = insert (vd_basename d) (lw_seen w), lw_total_bytes = t,
          lw_child_generation = (if ls_generation seg \<noteq> None then ls_generation seg else lw_child_generation w), lw_loaded = loaded'\<rparr>"
  have "visit_segment sha dir max_bytes state d w = Ok (parent, ?w)"
    unfolding visit_segment_Ok using chain_step add fits l(1) t
    by (intro exI [of _ t] exI [of _ seg] exI [of _ loaded']) (auto simp: checked_add_def t_def word_less_nat_alt)
  moreover have "\<exists>w'. walk_lineage sha dir max_bytes state room' parent ?w = Ok w' \<and> lw_lineage w' = lw_lineage ?w @ ds \<and> lw_loaded w' = loaded"
    by (rule chain_step.IH) (use chain_step.prems l(2) t room in auto)
  ultimately show ?case by (auto simp: room)
qed simp

lemma walk_sound:
  "walk_lineage sha dir max_bytes state room nxt w = Ok w' \<Longrightarrow> unat (lw_total_bytes w) \<le> unat max_bytes \<Longrightarrow>
    \<exists>ds segs. chain sha dir (ns_generation state) (lw_child_generation w) nxt ds segs \<and> length ds \<le> room \<and>
      distinct (map vd_basename ds) \<and> set (map vd_basename ds) \<inter> lw_seen w = {} \<and>
      unat (lw_total_bytes w) + total_size ds \<le> unat max_bytes \<and>
      apply_segments (ns_vectors state) (lw_loaded w) segs = Ok (lw_loaded w') \<and> lw_lineage w' = lw_lineage w @ ds"
proof (induction room arbitrary: nxt w)
  case 0
  then show ?case by (cases nxt) (auto intro: chain.intros)
next
  case (Suc room)
  show ?case
  proof (cases nxt)
    case None
    with Suc.prems show ?thesis by (auto intro: chain.intros)
  next
    case (Some d)
    with Suc.prems obtain parent w1 where v: "visit_segment sha dir max_bytes state d w = Ok (parent, w1)"
      and walk: "walk_lineage sha dir max_bytes state room parent w1 = Ok w'" by auto
    from v obtain t seg loaded where
      t: "checked_add (lw_total_bytes w) (vd_size d) = Some t" "\<not> max_bytes < t"
      and d: "validate_blob_basename (vd_basename d) = Ok ()" "vd_basename d \<notin> lw_seen w" "segment_of sha dir d = Ok (seg, parent)"
        "check_generation (ns_generation state) (ls_generation seg) (lw_child_generation w) = Ok ()"
        "apply_vector_segment (ns_vectors state) seg (lw_loaded w) = Ok loaded"
      and w1: "w1 = \<lparr>lw_lineage = lw_lineage w @ [d], lw_seen = insert (vd_basename d) (lw_seen w), lw_total_bytes = t,
          lw_child_generation = (if ls_generation seg \<noteq> None then ls_generation seg else lw_child_generation w), lw_loaded = loaded\<rparr>"
      unfolding visit_segment_Ok by blast
    have "unat (lw_total_bytes w1) \<le> unat max_bytes" using t(2) by (simp add: w1 word_less_nat_alt)
    from Suc.IH [OF walk this] obtain ds segs where
      c: "chain sha dir (ns_generation state) (lw_child_generation w1) parent ds segs" "length ds \<le> room"
        "distinct (map vd_basename ds)" "set (map vd_basename ds) \<inter> lw_seen w1 = {}"
        "unat (lw_total_bytes w1) + total_size ds \<le> unat max_bytes"
        "apply_segments (ns_vectors state) (lw_loaded w1) segs = Ok (lw_loaded w')" "lw_lineage w' = lw_lineage w1 @ ds" by blast
    have "chain sha dir (ns_generation state) (lw_child_generation w) (Some d) (d # ds) (seg # segs)"
      by (rule chain_step [OF d(1,3,4)]) (use c(1) w1 in simp)
    with c d(2,5) t(1) show ?thesis unfolding Some
      by (intro exI [of _ "d # ds"] exI [of _ "seg # segs"]) (auto simp: w1 checked_add_Some)
  qed
qed

section \<open>Decoding the vectors\<close>

abbreviation keys_for :: "u64 option \<Rightarrow> pending_refs \<Rightarrow> string list" where
  "keys_for g p \<equiv> (case map_of p g of Some ks \<Rightarrow> ks | None \<Rightarrow> [])"

lemma keys_for_push: "keys_for g (entry_push h key p) = keys_for g p @ (if g = h then [key] else [])"
  by (induction h key p rule: entry_push.induct) auto

lemma generations_push: "fst ` set (entry_push h key p) = insert h (fst ` set p)"
  by (induction h key p rule: entry_push.induct) auto

lemma keys_for_filter: "keys_for g (filter (\<lambda>(g', _). g' \<noteq> h) p) = (if g = h then [] else keys_for g p)"
  by (induction p) auto

definition referring :: "(string \<times> vector_record) list \<Rightarrow> u64 option \<Rightarrow> string list" where
  "referring vectors g = map fst (filter (\<lambda>(_, v). \<exists>r. vr_blob_ref v = Some r \<and> vb_generation r = g) vectors)"

lemma in_referring:
  "key \<in> set (referring vectors g) \<longleftrightarrow> (\<exists>v r. (key, v) \<in> set vectors \<and> vr_blob_ref v = Some r \<and> vb_generation r = g)"
  by (force simp: referring_def)

lemma pending_refs_spec:
  "pending_vector_refs vectors vs p = (vs', p') \<Longrightarrow> \<forall>(_, v) \<in> set vectors. vr_values v = [] \<Longrightarrow>
     vs' = vs \<and> keys_for g p' = keys_for g p @ referring vectors g \<and>
     fst ` set p' = fst ` set p \<union> {vb_generation r |r v key. (key, v) \<in> set vectors \<and> vr_blob_ref v = Some r}"
proof (induction vectors vs p rule: pending_vector_refs.induct)
  case (2 key v r vs p)
  show ?case
  proof (cases "vr_blob_ref v")
    case None
    with 2 show ?thesis by (auto simp: referring_def)
  next
    case (Some b)
    with "2.prems" have "pending_vector_refs r vs (entry_push (vb_generation b) key p) = (vs', p')" by auto
    from "2.IH"(3) [OF _ Some this] "2.prems" Some show ?thesis
      by (auto simp: keys_for_push generations_push referring_def)
  qed
qed (auto simp: referring_def)

definition decodes :: "(string \<times> vector_record) list \<Rightarrow> vector_values \<Rightarrow> loaded_vector_segment \<Rightarrow> string \<Rightarrow> bool" where
  "decodes vectors vv seg key \<longleftrightarrow> (\<exists>v r vs. map_of vectors key = Some v \<and> vr_blob_ref v = Some r \<and>
     vv key = Some vs \<and> decode_ref seg r = Ok vs)"

lemma decode_keys_ok:
  "\<forall>key \<in> set keys. decodes vectors vv seg key \<Longrightarrow>
     decode_keys vectors seg keys vs = Ok (\<lambda>k. if k \<in> set keys then vv k else vs k)"
proof (induction keys arbitrary: vs)
  case (Cons key keys)
  from Cons.prems obtain v r out where "map_of vectors key = Some v" "vr_blob_ref v = Some r" "vv key = Some out"
    "decode_ref seg r = Ok out" by (auto simp: decodes_def)
  with Cons show ?case by (auto simp: expect_def fun_eq_iff)
qed simp

lemma apply_segments_ok:
  "\<forall>seg \<in> set segs. \<forall>key \<in> set (keys_for (ls_generation seg) p). decodes vectors vv seg key \<Longrightarrow>
     apply_segments vectors (vs, p) segs =
       Ok (\<lambda>k. if \<exists>seg \<in> set segs. k \<in> set (keys_for (ls_generation seg) p) then vv k else vs k,
           filter (\<lambda>(g, _). g \<notin> ls_generation ` set segs) p)"
proof (induction segs arbitrary: vs p)
  case (Cons seg segs)
  let ?p = "filter (\<lambda>(g, _). g \<noteq> ls_generation seg) p"
  let ?vs = "\<lambda>k. if k \<in> set (keys_for (ls_generation seg) p) then vv k else vs k"
  have ap: "apply_vector_segment vectors seg (vs, p) = Ok (?vs, ?p)"
    using decode_keys_ok [of "keys_for (ls_generation seg) p"] Cons.prems by (simp add: apply_vector_segment_def map_ok_def)
  have "\<forall>s \<in> set segs. \<forall>key \<in> set (keys_for (ls_generation s) ?p). decodes vectors vv s key"
    using Cons.prems by (auto simp: keys_for_filter)
  from Cons.IH [OF this, of ?vs] show ?case
    by (simp add: ap keys_for_filter) (auto simp: fun_eq_iff intro!: filter_cong)
qed simp

text \<open>Every reference names a segment of the chain and decodes to the value.\<close>

definition resolved :: "(string \<times> vector_record) list \<Rightarrow> vector_values \<Rightarrow> loaded_vector_segment list \<Rightarrow> bool" where
  "resolved vectors vv segs \<longleftrightarrow>
     (\<forall>(key, v) \<in> set vectors. \<forall>r. vr_blob_ref v = Some r \<longrightarrow> vb_generation r \<in> ls_generation ` set segs \<and>
        (\<exists>vs. vv key = Some vs \<and> (\<forall>seg \<in> set segs. ls_generation seg = vb_generation r \<longrightarrow> decode_ref seg r = Ok vs)))"

lemma resolvedD:
  assumes "resolved vectors vv segs" "(key, v) \<in> set vectors" "vr_blob_ref v = Some r"
  shows "\<exists>seg \<in> set segs. ls_generation seg = vb_generation r"
    "\<exists>vs. vv key = Some vs \<and> (\<forall>seg \<in> set segs. ls_generation seg = vb_generation r \<longrightarrow> decode_ref seg r = Ok vs)"
  using assms unfolding resolved_def by fastforce+

definition lineage_ok ::
  "(string \<Rightarrow> string) \<Rightarrow> blob_dir \<Rightarrow> u64 \<Rightarrow> native_state \<Rightarrow> vector_blob_descriptor list \<Rightarrow> loaded_vector_segment list \<Rightarrow> bool" where
  "lineage_ok sha dir max_bytes state ds segs \<longleftrightarrow>
     chain sha dir (ns_generation state) None (ns_vector_blob state) ds segs \<and> distinct (map vd_basename ds) \<and>
     length ds \<le> MAX_VECTOR_BLOB_LINEAGE \<and> total_size ds \<le> unat max_bytes"

definition stored_vectors :: "native_state \<Rightarrow> bool" where
  "stored_vectors state \<longleftrightarrow> distinct (map fst (ns_vectors state)) \<and> (\<forall>(_, v) \<in> set (ns_vectors state). vr_values v = [])"

lemma unresolved_Ok [simp]: "unresolved_vector_refs_error p = Ok u \<longleftrightarrow> p = []"
  by (auto simp: unresolved_vector_refs_error_def split: option.splits)

lemma load_complete:
  assumes "stored_vectors state" "ns_vector_blob state \<noteq> None" "lineage_ok sha dir max_bytes state ds segs"
    and "resolved (ns_vectors state) vv segs"
  shows "load_vector_lineage sha dir max_bytes state =
    Ok (ds, \<lambda>k. if \<exists>v. (k, v) \<in> set (ns_vectors state) \<and> vr_blob_ref v \<noteq> None then vv k else None)"
proof -
  let ?vectors = "ns_vectors state"
  obtain vs p where p: "pending_vector_refs ?vectors Map.empty [] = (vs, p)" by fastforce
  have vals: "\<forall>(_, v) \<in> set ?vectors. vr_values v = []" using assms(1) by (simp add: stored_vectors_def)
  note spec = pending_refs_spec [OF p vals]
  then have vs: "vs = Map.empty" and keys: "\<And>g. keys_for g p = referring ?vectors g"
    and gens: "fst ` set p = {vb_generation r |r v key. (key, v) \<in> set ?vectors \<and> vr_blob_ref v = Some r}" by simp_all
  have look: "map_of ?vectors key = Some v" if "(key, v) \<in> set ?vectors" for key v
    using assms(1) that by (simp add: stored_vectors_def)
  have dec: "\<forall>seg \<in> set segs. \<forall>key \<in> set (keys_for (ls_generation seg) p). decodes ?vectors vv seg key"
  proof (intro ballI)
    fix seg key assume seg: "seg \<in> set segs" and key: "key \<in> set (keys_for (ls_generation seg) p)"
    from key [unfolded keys in_referring] obtain v r where
      r: "(key, v) \<in> set ?vectors" "vr_blob_ref v = Some r" "vb_generation r = ls_generation seg" by blast
    from resolvedD(2) [OF assms(4) r(1,2)] seg r(3) obtain vs where "vv key = Some vs" "decode_ref seg r = Ok vs" by auto
    then show "decodes ?vectors vv seg key" using look [OF r(1)] r(2) by (auto simp: decodes_def)
  qed
  have none: "filter (\<lambda>(g, _). g \<notin> ls_generation ` set segs) p = []"
  proof -
    have "fst e \<in> ls_generation ` set segs" if "e \<in> set p" for e
    proof -
      have "fst e \<in> {vb_generation r |r v key. (key, v) \<in> set ?vectors \<and> vr_blob_ref v = Some r}" using gens that by blast
      then obtain r v key where e: "fst e = vb_generation r" "(key, v) \<in> set ?vectors" "vr_blob_ref v = Some r" by blast
      from resolvedD(1) [OF assms(4) e(2,3)] show ?thesis using e(1) by (metis image_eqI)
    qed
    then show ?thesis by (auto simp: filter_empty_conv)
  qed
  have dom: "(\<exists>seg \<in> set segs. k \<in> set (keys_for (ls_generation seg) p)) \<longleftrightarrow> (\<exists>v. (k, v) \<in> set ?vectors \<and> vr_blob_ref v \<noteq> None)" for k
    unfolding keys in_referring using resolvedD(1) [OF assms(4)] by (metis not_None_eq)
  have ap: "apply_segments ?vectors (vs, p) segs =
      Ok (\<lambda>k. if \<exists>v. (k, v) \<in> set ?vectors \<and> vr_blob_ref v \<noteq> None then vv k else None, [])"
    unfolding apply_segments_ok [OF dec] none dom vs by simp
  obtain head where head: "ns_vector_blob state = Some head" using assms(2) by blast
  let ?w = "\<lparr>lw_lineage = [], lw_seen = {}, lw_total_bytes = 0, lw_child_generation = None, lw_loaded = (vs, p)\<rparr>"
  have "\<exists>w'. walk_lineage sha dir max_bytes state MAX_VECTOR_BLOB_LINEAGE (Some head) ?w = Ok w' \<and>
      lw_lineage w' = lw_lineage ?w @ ds \<and>
      lw_loaded w' = (\<lambda>k. if \<exists>v. (k, v) \<in> set ?vectors \<and> vr_blob_ref v \<noteq> None then vv k else None, [])"
    by (rule walk_complete) (use assms(3) head ap in \<open>auto simp: lineage_ok_def\<close>)
  then show ?thesis by (auto simp: load_vector_lineage_def head p unresolved_vector_refs_error_def)
qed

end
