(* ===== verification/Vector_Publish.thy ===== *)
theory Vector_Publish
  imports Vector_Lineage
begin

text \<open>Publishing a generation keeps every live vector loadable.\<close>

section \<open>Chains under publication\<close>

lemma chain_generations:
  "chain sha dir current child nxt ds segs \<Longrightarrow> seg \<in> set segs \<Longrightarrow> ls_generation seg = Some g \<Longrightarrow>
     (case child of None \<Rightarrow> g \<le> current | Some c \<Rightarrow> g < c)"
proof (induction rule: chain.induct)
  case (chain_step d s parent child ds segs)
  show ?case
  proof (cases "seg = s")
    case True
    with chain_step show ?thesis by (auto simp: check_generation_def split: option.splits if_splits)
  next
    case False
    with chain_step have "case (if ls_generation s \<noteq> None then ls_generation s else child) of None \<Rightarrow> g \<le> current | Some c \<Rightarrow> g < c"
      by auto
    then show ?thesis using chain_step.hyps(3) by (auto simp: check_generation_def split: option.splits if_splits)
  qed
qed simp

text \<open>An old chain is the rest of a chain with a later head, in a directory that keeps its files.\<close>

lemma chain_rebase:
  assumes "chain sha dir current child nxt ds segs" "current < later" "\<forall>d \<in> set ds. dir' (vd_basename d) = dir (vd_basename d)"
  shows "chain sha dir' later (if child = None then Some later else child) nxt ds segs"
  using assms(1,3)
proof (induction rule: chain.induct)
  case (chain_step d seg parent child ds segs)
  have "segment_of sha dir' d = segment_of sha dir d"
    using chain_step.prems by (simp add: segment_of_def read_validated_blob_def open_validated_blob_def)
  moreover have "check_generation later (ls_generation seg) (if child = None then Some later else child) = Ok ()"
    using chain_step.hyps(3) assms(2) by (auto simp: check_generation_def split: option.splits if_splits)
  ultimately show ?case
    using chain_step.hyps(1,2) chain_step.IH chain_step.prems
    by (intro chain.chain_step) (auto split: if_splits)
qed (auto intro: chain.intros)

lemma chain_files: "chain sha dir current child nxt ds segs \<Longrightarrow> d \<in> set ds \<Longrightarrow> \<exists>file. dir (vd_basename d) = Ok file"
  by (induction rule: chain.induct)
    (auto simp: segment_of_def read_validated_blob_def open_validated_blob_def map_err_def split: outcome.splits)

lemma parsed_version:
  "parse_blob_header raw = Ok header \<Longrightarrow> vh_version header = VECTOR_BLOB_VERSION \<or> vh_version header = VECTOR_BLOB_VERSION_BASE"
  by (auto simp: parse_blob_header_def Let_def split: if_splits prod.splits)

lemma chain_head:
  assumes "chain sha dir current child (Some d) ds segs"
  shows "\<exists>ds'. ds = d # ds'" "vd_format d = VECTOR_BLOB_VERSION \<or> vd_format d = VECTOR_BLOB_VERSION_BASE"
proof -
  from assms obtain ds' seg parent where d: "ds = d # ds'" "segment_of sha dir d = Ok (seg, parent)"
    by (elim chain_SomeE) auto
  then show "\<exists>ds'. ds = d # ds'" by blast
  from d(2) obtain raw header where "read_validated_blob sha dir (vd_basename d) (Some d) = Ok raw" "parse_blob_header raw = Ok header"
    by (auto simp: segment_of_Ok)
  then have "vd_format d = vh_version header"
    by (auto simp: read_validated_blob_def open_validated_blob_def split: if_splits)
  then show "vd_format d = VECTOR_BLOB_VERSION \<or> vd_format d = VECTOR_BLOB_VERSION_BASE"
    using parsed_version [OF \<open>parse_blob_header raw = Ok header\<close>] by simp
qed

section \<open>The plan\<close>

lemma sum_bytes_Ok: "sum_bytes msg ns = Ok t \<Longrightarrow> unat t = sum_list (map unat ns)"
proof -
  have "fold_ok (\<lambda>t n. ok_or (checked_add t n) msg) a ns = Ok t \<Longrightarrow> unat t = unat a + sum_list (map unat ns)" for a
    by (induction ns arbitrary: a) (auto simp: checked_add_Some)
  from this [of 0] show "sum_bytes msg ns = Ok t \<Longrightarrow> unat t = sum_list (map unat ns)" by (simp add: sum_bytes_def)
qed

lemma publish_set_Ok:
  "publish_set vv vectors keys b = Ok (publish, t) \<Longrightarrow> map fst publish = keys \<and>
     (\<forall>(key, vs) \<in> set publish. \<exists>v. map_of vectors key = Some v \<and> publish_values vv key v = Ok vs)"
proof (induction keys arbitrary: b publish)
  case (Cons key keys)
  from Cons.prems obtain v vs b' publish' where
    "map_of vectors key = Some v" "publish_values vv key v = Ok vs" "publish_set vv vectors keys b' = Ok (publish', t)"
    "publish = (key, vs) # publish'"
    by (auto simp: expect_def split: option.splits)
  with Cons.IH show ?case by auto
qed simp

lemma prepared_refs_Ok:
  "prepared_refs delta vectors = Ok links \<Longrightarrow> distinct (map fst vectors) \<Longrightarrow> (key, v) \<in> set vectors \<Longrightarrow>
     (case map_of delta key of Some r \<Rightarrow> map_of links key = Some r
      | None \<Rightarrow> map_of links key = vr_blob_ref v \<and> vr_blob_ref v \<noteq> None)"
proof (induction delta vectors arbitrary: links rule: prepared_refs.induct)
  case (2 delta key' v' r)
  from "2.prems"(1) obtain b links' where
    b: "(case map_of delta key' of Some blob_ref \<Rightarrow> Ok blob_ref
         | None \<Rightarrow> ok_or (vr_blob_ref v') ''vector outside the delta has no blob reference'') = Ok b"
    and links: "prepared_refs delta r = Ok links'" "links = (key', b) # links'" by auto
  show ?case
  proof (cases "key = key'")
    case True
    then have "v = v'" using "2.prems"(2,3) by force
    with True b links(2) show ?thesis by (auto split: option.splits)
  next
    case False
    with "2.IH" [OF b links(1)] "2.prems" links(2) show ?thesis by (auto split: option.splits)
  qed
qed simp

lemma encoded_header_length: "encode_blob_header gen parent = Ok header \<Longrightarrow> length header < 2 ^ 17"
proof -
  have "length link < 2 ^ 16 + 64" if "encode_parent p = Ok link" for p link
    using that hex_pairs_inverse [of "vd_sha256 p"] by (auto simp: encode_parent_def validate_sha256_lower split: if_splits)
  then have "length link < 2 ^ 16 + 64" if "(case parent of None \<Rightarrow> Ok (to_le 2 0) | Some p \<Rightarrow> encode_parent p) = Ok link" for link
    using that by (cases parent) auto
  then show "encode_blob_header gen parent = Ok header \<Longrightarrow> length header < 2 ^ 17"
    by (fastforce simp: encode_blob_header_def VECTOR_BLOB_MAGIC_def split: if_splits)
qed

lemma stream_Ok:
  assumes "stream_vector_blob gen header publish expected = Ok (bytes, links)" "length header < 2 ^ 17"
  shows "bytes = header @ segment_payload publish" "length bytes = unat expected"
    "\<exists>stop. segment_refs gen 0 publish = Ok (links, stop)"
proof -
  from assms(1) obtain stop t where s: "segment_refs gen 0 publish = Ok (links, stop)" "checked_add (len_u64 header) stop = Some t"
    "t = expected" "bytes = header @ segment_payload publish"
    by (auto simp: stream_vector_blob_def Let_def split: if_splits)
  have "unat (len_u64 header) = length header" using assms(2) by (simp add: len_u64_def unat_of_nat)
  then show "length bytes = unat expected" using s segment_refs_length [OF s(1)] by (simp add: checked_add_Some)
  show "bytes = header @ segment_payload publish" "\<exists>stop. segment_refs gen 0 publish = Ok (links, stop)" using s by auto
qed

lemma plan_Ok:
  assumes "plan_segment compact_at max_bytes bo gen = Ok p"
  shows "sp_parent p = (if sp_compaction p \<noteq> None then None else ns_vector_blob (bo_state bo))"
    "sp_parent p \<noteq> None \<Longrightarrow> length (bo_lineage bo) < MAX_VECTOR_BLOB_LINEAGE"
    "map fst (sp_publish p) =
      sort (map fst (filter (\<lambda>(_, v). sp_compaction p \<noteq> None \<or> vr_blob_ref v = None) (ns_vectors (bo_state bo))))"
    "(key, vs) \<in> set (sp_publish p) \<Longrightarrow> \<exists>v. map_of (ns_vectors (bo_state bo)) key = Some v \<and> publish_values (bo_values bo) key v = Ok vs"
    "encode_blob_header gen (sp_parent p) = Ok (sp_header p)"
    "unat (sp_bytes p) + (if sp_compaction p \<noteq> None then 0 else total_size (bo_lineage bo)) \<le> unat max_bytes"
proof -
  from assms obtain lb live reason publish pb header sb where
    decide: "decide_compaction compact_at bo = Ok (lb, live, reason)"
    and room: "\<not> ((if reason \<noteq> None then None else ns_vector_blob (bo_state bo)) \<noteq> None \<and>
      MAX_VECTOR_BLOB_LINEAGE \<le> length (bo_lineage bo))"
    and publish: "publish_set (bo_values bo) (ns_vectors (bo_state bo))
      (sort (map fst (filter (\<lambda>(_, v). reason \<noteq> None \<or> vr_blob_ref v = None) (ns_vectors (bo_state bo))))) 0 = Ok (publish, pb)"
    and header: "encode_blob_header gen (if reason \<noteq> None then None else ns_vector_blob (bo_state bo)) = Ok header"
    and proj: "check_projected max_bytes (reason \<noteq> None) lb sb = Ok ()"
    and p: "p = \<lparr>sp_compaction = reason, sp_parent = (if reason \<noteq> None then None else ns_vector_blob (bo_state bo)),
      sp_publish = publish, sp_header = header, sp_bytes = sb\<rparr>"
    unfolding plan_segment_def Let_def by (auto split: if_split_asm split del: if_split)
  have lb: "sum_bytes ''vector blob lineage byte total overflow'' (map vd_size (bo_lineage bo)) = Ok lb"
    using decide by (auto simp: decide_compaction_def split: if_split_asm)
  obtain projected where "(if reason \<noteq> None then Ok sb else ok_or (checked_add lb sb) ''vector blob lineage byte total overflow'') = Ok projected"
    "\<not> max_bytes < projected" using proj by (auto simp: check_projected_def split: if_split_asm split del: if_split)
  note proj = this(1) and fits = this(2)
  have "unat sb + (if reason \<noteq> None then 0 else total_size (bo_lineage bo)) = unat projected"
    using proj sum_bytes_Ok [OF lb] by (auto simp: checked_add_Some total_size_def split: if_splits)
  with fits show "unat (sp_bytes p) + (if sp_compaction p \<noteq> None then 0 else total_size (bo_lineage bo)) \<le> unat max_bytes"
    by (simp add: p word_less_nat_alt)
  show "sp_parent p = (if sp_compaction p \<noteq> None then None else ns_vector_blob (bo_state bo))" "encode_blob_header gen (sp_parent p) = Ok (sp_header p)"
    using header by (simp_all add: p)
  show "sp_parent p \<noteq> None \<Longrightarrow> length (bo_lineage bo) < MAX_VECTOR_BLOB_LINEAGE" using room by (auto simp: p split: if_splits)
  show "map fst (sp_publish p) =
      sort (map fst (filter (\<lambda>(_, v). sp_compaction p \<noteq> None \<or> vr_blob_ref v = None) (ns_vectors (bo_state bo))))"
    using publish_set_Ok [OF publish] by (simp add: p)
  show "(key, vs) \<in> set (sp_publish p) \<Longrightarrow> \<exists>v. map_of (ns_vectors (bo_state bo)) key = Some v \<and> publish_values (bo_values bo) key v = Ok vs"
    using publish_set_Ok [OF publish] by (auto simp: p)
qed

section \<open>The invariant\<close>

text \<open>
  The lineage of the owner can be loaded, and it holds every vector that has a reference. The values of
  the model are floating point numbers in their normal form, and the names are Rust strings.
\<close>

definition blob_inv :: "(string \<Rightarrow> string) \<Rightarrow> blob_dir \<Rightarrow> u64 \<Rightarrow> blob_owner \<Rightarrow> bool" where
  "blob_inv sha dir max_bytes bo \<longleftrightarrow>
     stored_vectors (bo_state bo) \<and>
     (\<forall>key \<in> fst ` set (ns_vectors (bo_state bo)). \<exists>vs. bo_values bo key = Some vs \<and> list_all f64_normal vs) \<and>
     (\<forall>d \<in> set (bo_lineage bo). utf8_error 0 (vd_basename d) = None) \<and>
     (\<exists>segs. lineage_ok sha dir max_bytes (bo_state bo) (bo_lineage bo) segs \<and>
        resolved (ns_vectors (bo_state bo)) (bo_values bo) segs)"

lemma published_segment:
  assumes "encode_blob_header gen parent = Ok header" "\<forall>p. parent = Some p \<longrightarrow> parent_ok p"
    and "bytes = header @ payload" "length bytes < 2 ^ 64" "dir (vd_basename d) = Ok (len_u64 bytes, Ok bytes)"
    and "vd_size d = len_u64 bytes" "vd_sha256 d = sha bytes" "vd_format d = VECTOR_BLOB_VERSION"
  shows "segment_of sha dir d = Ok (\<lparr>ls_generation = Some gen, ls_payload_offset = length header, ls_raw = bytes\<rparr>, parent)"
  using blob_header_roundtrip [OF assms(1,2)] assms(3-8)
  by (simp add: segment_of_def read_validated_blob_def open_validated_blob_def)

lemma published_links:
  assumes "segment_refs gen 0 publish = Ok (links, stop)" "length bytes < 2 ^ 64" "bytes = header @ segment_payload publish"
    and "list_all (\<lambda>(_, vs). list_all f64_normal vs) publish"
  shows "map fst links = map fst publish"
    "map_of links key = Some r \<Longrightarrow> \<exists>vs. (key, vs) \<in> set publish \<and> vb_generation r = Some gen \<and>
      decode_ref \<lparr>ls_generation = Some gen, ls_payload_offset = length header, ls_raw = bytes\<rparr> r = Ok vs"
proof -
  let ?seg = "\<lparr>ls_generation = Some gen, ls_payload_offset = length header, ls_raw = bytes\<rparr>"
  have l: "list_all2 (\<lambda>(key, vs) (key', r). key' = key \<and> vb_generation r = Some gen \<and> unat (vb_len r) = length vs \<and>
      decode_ref ?seg r = Ok vs) publish links"
    by (rule segment_refs_decode [OF _ _ assms(1), where pre = header]) (use assms in simp_all)
  then show "map fst links = map fst publish" by (induction rule: list_all2_induct) auto
  assume "map_of links key = Some r"
  then have "(key, r) \<in> set links" by (rule map_of_SomeD)
  then obtain i where i: "i < length links" "links ! i = (key, r)" by (auto simp: in_set_conv_nth)
  obtain key' vs where q: "publish ! i = (key', vs)" by fastforce
  have "length publish = length links" using l by (rule list_all2_lengthD)
  with i q have "(key', vs) \<in> set publish" by (metis nth_mem)
  moreover have "key' = key" "vb_generation r = Some gen" "decode_ref ?seg r = Ok vs"
    using list_all2_nthD2 [OF l i(1)] i(2) q by auto
  ultimately show "\<exists>vs. (key, vs) \<in> set publish \<and> vb_generation r = Some gen \<and> decode_ref ?seg r = Ok vs" by blast
qed

text \<open>A published value is the live value.\<close>

lemma publish_values_live: "publish_values vv key v = Ok vs \<Longrightarrow> vv key = Some live \<Longrightarrow> vs = live"
  by (auto simp: publish_values_def split: option.splits if_splits)

lemma published_chain:
  assumes "lineage_ok sha dir max_bytes (bo_state bo) (bo_lineage bo) segs" "ns_generation (bo_state bo) < gen"
    and "segment_of sha dir' d = Ok (seg, if compacting then None else ns_vector_blob (bo_state bo))"
    and "ls_generation seg = Some gen" "validate_blob_basename (vd_basename d) = Ok ()"
    and "\<forall>c \<in> set (bo_lineage bo). dir' (vd_basename c) = dir (vd_basename c)"
  shows "chain sha dir' gen None (Some d) (d # (if compacting then [] else bo_lineage bo)) (seg # (if compacting then [] else segs))"
proof -
  have "chain sha dir (ns_generation (bo_state bo)) None (ns_vector_blob (bo_state bo)) (bo_lineage bo) segs"
    using assms(1) by (simp add: lineage_ok_def)
  from chain_rebase [OF this assms(2,6)]
  have "chain sha dir' gen (Some gen) (if compacting then None else ns_vector_blob (bo_state bo))
      (if compacting then [] else bo_lineage bo) (if compacting then [] else segs)"
    by (auto intro: chain.intros)
  then show ?thesis by (intro chain_step [OF assms(5,3)]) (simp_all add: assms(4) check_generation_def)
qed

lemma installed_vectors:
  assumes "stored_vectors (bo_state bo)" "prepared_refs delta (ns_vectors (bo_state bo)) = Ok links" "pb_refs pb = links"
    and "(key, v') \<in> set (ns_vectors (bo_state (install_generation pb gen evidence bo)))"
  shows "\<exists>v r. (key, v) \<in> set (ns_vectors (bo_state bo)) \<and> vr_blob_ref v' = Some r \<and> vr_values v' = [] \<and>
    (map_of delta key = Some r \<or> map_of delta key = None \<and> vr_blob_ref v = Some r)"
proof -
  from assms(4) obtain v where v: "(key, v) \<in> set (ns_vectors (bo_state bo))"
    and v': "v' = (case map_of links key of Some r \<Rightarrow> v\<lparr>vr_values := [], vr_blob_ref := Some r\<rparr> | None \<Rightarrow> v)"
    by (auto simp: install_generation_def assms(3))
  have "distinct (map fst (ns_vectors (bo_state bo)))" using assms(1) by (simp add: stored_vectors_def)
  from prepared_refs_Ok [OF assms(2) this v] v v' show ?thesis by (auto split: option.splits)
qed

lemma published_refs_resolved:
  assumes "stored_vectors (bo_state bo)" "resolved (ns_vectors (bo_state bo)) (bo_values bo) segs"
    and "\<forall>key \<in> fst ` set (ns_vectors (bo_state bo)). bo_values bo key \<noteq> None"
    and "\<forall>s \<in> set segs. ls_generation s \<noteq> Some gen" "ls_generation seg = Some gen"
    and "plan_segment compact_at max_bytes bo gen = Ok p" "prepared_refs delta (ns_vectors (bo_state bo)) = Ok (pb_refs pb)"
    and "map fst delta = map fst (sp_publish p)"
    and "\<And>key r. map_of delta key = Some r \<Longrightarrow> \<exists>vs. (key, vs) \<in> set (sp_publish p) \<and> vb_generation r = Some gen \<and> decode_ref seg r = Ok vs"
  shows "resolved (ns_vectors (bo_state (install_generation pb gen evidence bo))) (bo_values bo)
    (seg # (if sp_compaction p \<noteq> None then [] else segs))"
  unfolding resolved_def
proof (intro ballI, clarify)
  let ?st = "bo_state bo" and ?segs = "if sp_compaction p \<noteq> None then [] else segs"
  fix key v' r
  assume "(key, v') \<in> set (ns_vectors (bo_state (install_generation pb gen evidence bo)))" "vr_blob_ref v' = Some r"
  with installed_vectors [OF assms(1,7) refl] obtain v where v: "(key, v) \<in> set (ns_vectors ?st)"
    and r: "map_of delta key = Some r \<or> map_of delta key = None \<and> vr_blob_ref v = Some r" by fastforce
  have look: "map_of (ns_vectors ?st) key = Some v" using assms(1) v by (simp add: stored_vectors_def)
  from r show "vb_generation r \<in> ls_generation ` set (seg # ?segs) \<and>
      (\<exists>vs. bo_values bo key = Some vs \<and> (\<forall>s \<in> set (seg # ?segs). ls_generation s = vb_generation r \<longrightarrow> decode_ref s r = Ok vs))"
  proof
    assume "map_of delta key = Some r"
    from assms(9) [OF this] obtain vs where vs: "(key, vs) \<in> set (sp_publish p)" "vb_generation r = Some gen" "decode_ref seg r = Ok vs"
      by blast
    from plan_Ok(4) [OF assms(6) vs(1)] look have "publish_values (bo_values bo) key v = Ok vs" by auto
    moreover obtain live where "bo_values bo key = Some live" using assms(3) v by force
    ultimately have "bo_values bo key = Some vs" using publish_values_live by blast
    with vs assms(4,5) show ?thesis by auto
  next
    assume r: "map_of delta key = None \<and> vr_blob_ref v = Some r"
    then have "key \<notin> set (map fst (sp_publish p))" using assms(8) by (metis list.set_map map_of_eq_None_iff)
    with v plan_Ok(3) [OF assms(6)] have "sp_compaction p = None" by force
    moreover from resolvedD [OF assms(2) v] r obtain s vs where "s \<in> set segs" "ls_generation s = vb_generation r"
      "bo_values bo key = Some vs" "\<forall>s \<in> set segs. ls_generation s = vb_generation r \<longrightarrow> decode_ref s r = Ok vs" by blast
    ultimately show ?thesis using assms(4,5) by (auto intro: image_eqI [of _ _ s])
  qed
qed

lemma installed_stored:
  assumes "stored_vectors (bo_state bo)" "prepared_refs delta (ns_vectors (bo_state bo)) = Ok (pb_refs pb)"
  shows "stored_vectors (bo_state (install_generation pb gen evidence bo))"
    "fst ` set (ns_vectors (bo_state (install_generation pb gen evidence bo))) = fst ` set (ns_vectors (bo_state bo))"
proof -
  let ?new = "ns_vectors (bo_state (install_generation pb gen evidence bo))"
  have keys: "map fst ?new = map fst (ns_vectors (bo_state bo))" by (auto simp: install_generation_def)
  then show "fst ` set ?new = fst ` set (ns_vectors (bo_state bo))" by (metis list.set_map)
  have "vr_values v = []" if "(key, v) \<in> set ?new" for key v using installed_vectors [OF assms refl that] by blast
  then show "stored_vectors (bo_state (install_generation pb gen evidence bo))"
    using assms(1) keys by (auto simp: stored_vectors_def)
qed

lemma published_normal:
  assumes "plan_segment compact_at max_bytes bo gen = Ok p"
    and "\<forall>key \<in> fst ` set (ns_vectors (bo_state bo)). \<exists>vs. bo_values bo key = Some vs \<and> list_all f64_normal vs"
  shows "list_all (\<lambda>(_, vs). list_all f64_normal vs) (sp_publish p)"
proof -
  have "list_all f64_normal vs" if "(key, vs) \<in> set (sp_publish p)" for key vs
  proof -
    from plan_Ok(4) [OF assms(1) that] obtain v where
      v: "map_of (ns_vectors (bo_state bo)) key = Some v" "publish_values (bo_values bo) key v = Ok vs" by blast
    then have "key \<in> fst ` set (ns_vectors (bo_state bo))" by (metis map_of_eq_None_iff option.distinct(1))
    with assms(2) v(2) publish_values_live show ?thesis by blast
  qed
  then show ?thesis by (auto simp: list_all_iff)
qed

lemma parent_link_ok:
  assumes "plan_segment compact_at max_bytes bo gen = Ok p" "\<forall>d \<in> set (bo_lineage bo). utf8_error 0 (vd_basename d) = None"
    and "chain sha dir current None (ns_vector_blob (bo_state bo)) (bo_lineage bo) segs"
  shows "\<forall>q. sp_parent p = Some q \<longrightarrow> parent_ok q"
proof (intro allI impI)
  fix q assume "sp_parent p = Some q"
  then have "chain sha dir current None (Some q) (bo_lineage bo) segs"
    using plan_Ok(1) [OF assms(1)] assms(3) by (auto split: if_splits)
  from chain_head [OF this] assms(2) show "parent_ok q" by (auto simp: parent_ok_def)
qed

lemma room_for_segment:
  assumes "plan_segment compact_at max_bytes bo gen = Ok p"
    and "chain sha dir current None (ns_vector_blob (bo_state bo)) (bo_lineage bo) segs"
  shows "length (bo_lineage bo) < MAX_VECTOR_BLOB_LINEAGE \<or> sp_compaction p \<noteq> None"
proof (cases "ns_vector_blob (bo_state bo)")
  case None
  then have "bo_lineage bo = []" using assms(2) by (auto elim: chain_NoneE)
  then show ?thesis by (simp add: MAX_VECTOR_BLOB_LINEAGE_def)
qed (use plan_Ok(1,2) [OF assms(1)] in auto)

text \<open>
  Publishing a generation keeps the invariant: the new segment and, unless it compacts, the chain below it
  hold every live vector.
\<close>

lemma publish_keeps_vectors_loadable:
  assumes "blob_inv sha dir max_bytes bo" "checked_add (ns_generation (bo_state bo)) 1 = Some gen"
    and "prepare_blob sha stem compact_at max_bytes bo gen = Ok pb"
    and "dir (vd_basename (pb_descriptor pb)) = Err e"
    and "validate_blob_basename (vd_basename (pb_descriptor pb)) = Ok ()" "utf8_error 0 (vd_basename (pb_descriptor pb)) = None"
  shows "blob_inv sha (publish_file pb dir) max_bytes (install_generation pb gen evidence bo)"
proof -
  let ?st = "bo_state bo" and ?dir = "publish_file pb dir" and ?bo = "install_generation pb gen evidence bo"
  let ?d = "pb_descriptor pb"
  from assms(1) obtain segs where stored: "stored_vectors ?st"
    and live: "\<forall>key \<in> fst ` set (ns_vectors ?st). \<exists>vs. bo_values bo key = Some vs \<and> list_all f64_normal vs"
    and names: "\<forall>d \<in> set (bo_lineage bo). utf8_error 0 (vd_basename d) = None"
    and ok: "lineage_ok sha dir max_bytes ?st (bo_lineage bo) segs" and res: "resolved (ns_vectors ?st) (bo_values bo) segs"
    unfolding blob_inv_def by blast
  from assms(3) obtain p bytes delta links where plan: "plan_segment compact_at max_bytes bo gen = Ok p"
    and stream: "stream_vector_blob gen (sp_header p) (sp_publish p) (sp_bytes p) = Ok (bytes, delta)"
    and links: "prepared_refs delta (ns_vectors ?st) = Ok links"
    and pb: "pb = \<lparr>pb_plan = p, pb_bytes = bytes,
          pb_descriptor = \<lparr>vd_basename = blob_basename stem gen (sha bytes), vd_size = len_u64 bytes,
            vd_sha256 = sha bytes, vd_format = VECTOR_BLOB_VERSION\<rparr>, pb_refs = links\<rparr>"
    by (auto simp: prepare_blob_def)
  note P = plan_Ok [OF plan] and S = stream_Ok [OF stream encoded_header_length [OF plan_Ok(5) [OF plan]]]
  let ?c = "sp_compaction p \<noteq> None"
  have old: "chain sha dir (ns_generation ?st) None (ns_vector_blob ?st) (bo_lineage bo) segs"
    using ok by (simp add: lineage_ok_def)
  have len: "length bytes < 2 ^ 64" using S(2) unat_bound [of "sp_bytes p"] by simp
  have lt: "ns_generation ?st < gen" using assms(2) by (simp add: checked_add_Some word_less_nat_alt)
  note parent = parent_link_ok [OF plan names old]
  obtain stop where refs: "segment_refs gen 0 (sp_publish p) = Ok (delta, stop)" using S(3) by blast
  note L = published_links [OF refs len S(1) published_normal [OF plan live]]
  define seg where "seg = \<lparr>ls_generation = Some gen, ls_payload_offset = length (sp_header p), ls_raw = bytes\<rparr>"
  have seg: "segment_of sha ?dir ?d = Ok (seg, sp_parent p)" unfolding seg_def
    by (rule published_segment [OF P(5) parent S(1) len]) (simp_all add: pb publish_file_def)
  have fresh: "vd_basename c \<noteq> vd_basename ?d" if "c \<in> set (bo_lineage bo)" for c
    using chain_files [OF old that] assms(4) by auto
  have ch: "chain sha ?dir gen None (Some ?d) (?d # (if ?c then [] else bo_lineage bo)) (seg # (if ?c then [] else segs))"
    by (rule published_chain [OF ok lt _ _ assms(5)]) (use seg P(1) fresh in \<open>auto simp: seg_def publish_file_def\<close>)
  note room_for_segment [OF plan old]
  moreover have "unat (vd_size ?d) = unat (sp_bytes p)" using S(2) len by (simp add: pb len_u64_def unat_of_nat)
  moreover have "vd_basename ?d \<notin> vd_basename ` set (bo_lineage bo)" using fresh by (metis imageE)
  ultimately have ok': "lineage_ok sha ?dir max_bytes (bo_state ?bo) (bo_lineage ?bo) (seg # (if ?c then [] else segs))"
    using ch P(6) ok by (auto simp: lineage_ok_def install_generation_def pb MAX_VECTOR_BLOB_LINEAGE_def split: if_splits)
  have gens: "ls_generation s \<noteq> Some gen" if "s \<in> set segs" for s
    using chain_generations [OF old that] lt by (cases "ls_generation s") auto
  have "resolved (ns_vectors (bo_state ?bo)) (bo_values bo) (seg # (if ?c then [] else segs))"
    by (rule published_refs_resolved [OF stored res _ _ _ plan, where delta = delta])
      (use live gens links L in \<open>auto simp: seg_def pb\<close>)
  moreover have "prepared_refs delta (ns_vectors ?st) = Ok (pb_refs pb)" using links by (simp add: pb)
  note installed_stored [OF stored this, of gen evidence]
  ultimately show ?thesis
    unfolding blob_inv_def using live names ok' assms(6) by (auto simp: install_generation_def pb split: if_splits)
qed

end
