(* ===== verification/Vector_Properties.thy ===== *)
theory Vector_Properties
  imports Vector_Publish
begin

text \<open>
  Properties of the vector blobs: a published generation loads back exactly the live vectors, whatever
  loads is a validated chain, and the first commit of a store with an adjacent legacy blob loses it.
\<close>

section \<open>Published generations\<close>

lemma published_loads:
  assumes "blob_inv sha dir max_bytes bo" "checked_add (ns_generation (bo_state bo)) 1 = Some gen"
    and "prepare_blob sha stem compact_at max_bytes bo gen = Ok pb"
    and "dir (vd_basename (pb_descriptor pb)) = Err e"
    and "validate_blob_basename (vd_basename (pb_descriptor pb)) = Ok ()" "utf8_error 0 (vd_basename (pb_descriptor pb)) = None"
  shows "load_vector_lineage sha (publish_file pb dir) max_bytes (bo_state (install_generation pb gen evidence bo)) =
    Ok (bo_lineage (install_generation pb gen evidence bo), bo_values bo |` (fst ` set (ns_vectors (bo_state bo))))"
proof -
  let ?bo = "install_generation pb gen evidence bo"
  from publish_keeps_vectors_loadable [OF assms] obtain segs where inv: "stored_vectors (bo_state ?bo)"
    "lineage_ok sha (publish_file pb dir) max_bytes (bo_state ?bo) (bo_lineage ?bo) segs"
    "resolved (ns_vectors (bo_state ?bo)) (bo_values ?bo) segs"
    unfolding blob_inv_def by blast
  obtain delta where stored: "stored_vectors (bo_state bo)" and links: "prepared_refs delta (ns_vectors (bo_state bo)) = Ok (pb_refs pb)"
    using assms(1,3) by (auto simp: blob_inv_def prepare_blob_def)
  have "(\<exists>v. (k, v) \<in> set (ns_vectors (bo_state ?bo)) \<and> vr_blob_ref v \<noteq> None) \<longleftrightarrow> k \<in> fst ` set (ns_vectors (bo_state bo))" for k
  proof -
    have "vr_blob_ref v \<noteq> None" if "(k, v) \<in> set (ns_vectors (bo_state ?bo))" for v
      using installed_vectors [OF stored links refl that] by auto
    then show ?thesis using installed_stored(2) [OF stored links, of gen evidence] by force
  qed
  moreover have "bo_values ?bo = bo_values bo" "ns_vector_blob (bo_state ?bo) \<noteq> None" by (simp_all add: install_generation_def)
  ultimately show ?thesis using load_complete [OF inv(1) _ inv(2,3)] by (auto simp: restrict_map_def fun_eq_iff)
qed

text \<open>
  A commit publishes a segment whose name is new in the directory. Loading the new generation from that
  directory returns the new lineage and exactly the values of the live vectors, whether the segment
  extends the chain or compacts it.
\<close>

theorem published_generation_loads_live_vectors:
  assumes "blob_inv sha dir max_bytes bo" "checked_add (ns_generation (bo_state bo)) 1 = Some gen"
    and "prepare_blob sha stem compact_at max_bytes bo gen = Ok pb"
    and "dir (vd_basename (pb_descriptor pb)) = Err e"
    and "validate_blob_basename (vd_basename (pb_descriptor pb)) = Ok ()" "utf8_error 0 (vd_basename (pb_descriptor pb)) = None"
  shows "load_vector_lineage sha (publish_file pb dir) max_bytes (bo_state (install_generation pb gen evidence bo)) =
    Ok (bo_lineage (install_generation pb gen evidence bo), bo_values bo |` (fst ` set (ns_vectors (bo_state bo))))"
  using assms by (rule published_loads)

section \<open>Loaded lineages\<close>

lemma chain_sorted:
  "chain sha dir current child nxt ds segs \<Longrightarrow>
     sorted_wrt (\<lambda>s t. \<forall>g h. ls_generation s = Some g \<longrightarrow> ls_generation t = Some h \<longrightarrow> h < g) segs"
proof (induction rule: chain.induct)
  case (chain_step d seg parent child ds segs)
  have "h < g" if "ls_generation seg = Some g" "t \<in> set segs" "ls_generation t = Some h" for t g h
    using chain_generations [OF chain_step.hyps(4) that(2,3)] that(1) by simp
  with chain_step.IH show ?case by simp
qed simp

text \<open>The files of a chain with their parsed headers: each is named by the descriptor that leads to it, and its parent
  is the next one.\<close>

definition valid_file ::
  "(string \<Rightarrow> string) \<Rightarrow> blob_dir \<Rightarrow> vector_blob_descriptor \<Rightarrow> string \<times> vector_blob_header \<Rightarrow> bool" where
  "valid_file sha dir d = (\<lambda>(raw, header).
     dir (vd_basename d) = Ok (vd_size d, Ok raw) \<and> len_u64 raw = vd_size d \<and> sha raw = vd_sha256 d \<and>
     validate_blob_basename (vd_basename d) = Ok () \<and> parse_blob_header raw = Ok header)"

lemma chain_headers:
  "chain sha dir current child nxt ds segs \<Longrightarrow> \<exists>hs. list_all2 (valid_file sha dir) ds hs \<and>
     map (vh_generation \<circ> snd) hs = map ls_generation segs \<and> nxt # map (vh_parent \<circ> snd) hs = map Some ds @ [None]"
proof (induction rule: chain.induct)
  case (chain_step d seg parent child ds segs)
  from chain_step.IH obtain hs where hs: "list_all2 (valid_file sha dir) ds hs"
    "map (vh_generation \<circ> snd) hs = map ls_generation segs" "parent # map (vh_parent \<circ> snd) hs = map Some ds @ [None]" by blast
  from chain_step.hyps(2) obtain raw header where h: "read_validated_blob sha dir (vd_basename d) (Some d) = Ok raw"
    "parse_blob_header raw = Ok header" "parent = vh_parent header" "ls_generation seg = vh_generation header"
    by (auto simp: segment_of_Ok)
  have "valid_file sha dir d (raw, header)"
    using h chain_step.hyps(1)
    by (auto simp: valid_file_def read_validated_blob_def open_validated_blob_def map_err_def split: if_splits outcome.splits)
  with hs h show ?case by (intro exI [of _ "(raw, header) # hs"]) (simp add: comp_def)
qed simp

text \<open>C25: 
  Whatever loads is a chain of files that match the descriptors naming them in size and SHA-256, with safe
  and distinct names. It starts at the committed descriptor, the header of every file names the next one as its parent and
  that of the last names none, the generations in the headers decrease strictly from the committed
  generation, and there are at most 4096 files with no more bytes than the ceiling.
\<close>

theorem loaded_lineage_is_validated:
  assumes "load_vector_lineage sha dir max_bytes state = Ok (ds, vs)"
  shows "\<exists>hs. list_all2 (valid_file sha dir) ds hs \<and> distinct (map vd_basename ds) \<and>
    ns_vector_blob state # map (vh_parent \<circ> snd) hs = map Some ds @ [None] \<and>
    vh_generation (snd (hd hs)) \<in> {None, Some (ns_generation state)} \<and>
    sorted_wrt (\<lambda>s t. \<forall>g h. s = Some g \<longrightarrow> t = Some h \<longrightarrow> h < g) (map (vh_generation \<circ> snd) hs) \<and>
    ds \<noteq> [] \<and> length ds \<le> MAX_VECTOR_BLOB_LINEAGE \<and> total_size ds \<le> unat max_bytes"
proof -
  let ?w = "\<lparr>lw_lineage = [], lw_seen = {}, lw_total_bytes = 0, lw_child_generation = None,
      lw_loaded = pending_vector_refs (ns_vectors state) Map.empty []\<rparr>"
  from assms obtain head w' where head: "ns_vector_blob state = Some head"
    and walk: "walk_lineage sha dir max_bytes state MAX_VECTOR_BLOB_LINEAGE (Some head) ?w = Ok w'" "lw_lineage w' = ds"
    by (auto simp: load_vector_lineage_def)
  from walk_sound [OF walk(1)] walk(2) obtain segs where
    c: "chain sha dir (ns_generation state) None (Some head) ds segs" "length ds \<le> MAX_VECTOR_BLOB_LINEAGE"
      "distinct (map vd_basename ds)" "total_size ds \<le> unat max_bytes" by auto
  from chain_headers [OF c(1)] obtain hs where hs: "list_all2 (valid_file sha dir) ds hs"
    "map (vh_generation \<circ> snd) hs = map ls_generation segs" "Some head # map (vh_parent \<circ> snd) hs = map Some ds @ [None]" by blast
  have "sorted_wrt (\<lambda>s t. \<forall>g h. s = Some g \<longrightarrow> t = Some h \<longrightarrow> h < g) (map (vh_generation \<circ> snd) hs)"
    unfolding hs(2) sorted_wrt_map by (rule chain_sorted [OF c(1)])
  moreover obtain seg segs' where "segs = seg # segs'" "check_generation (ns_generation state) (ls_generation seg) None = Ok ()"
    using c(1) by (elim chain_SomeE) auto
  then have "vh_generation (snd (hd hs)) \<in> {None, Some (ns_generation state)}"
    using hs(2) by (cases hs) (auto simp: check_generation_def split: option.splits if_splits)
  moreover have "ds \<noteq> []" using chain_head(1) [OF c(1)] by auto
  ultimately show ?thesis using hs(1,3) c(2-4) head by auto
qed

section \<open>A sample store\<close>

definition sample_sha :: "string \<Rightarrow> string" where
  "sample_sha _ = replicate 64 CHR ''a''"

definition sample_vector :: "vector_blob_ref option \<Rightarrow> vector_record" where
  "sample_vector r = \<lparr>vr_id = ''v'', vr_corpus_id = ''c'', vr_namespace = ''n'', vr_values = [], vr_blob_ref = r, vr_metadata = JNull\<rparr>"

definition sample_store :: "vector_blob_ref option \<Rightarrow> blob_owner" where
  "sample_store r =
     \<lparr>bo_state = \<lparr>ns_nodes = [], ns_edges = [], ns_vectors = [(''c:v'', sample_vector r)], ns_passages = [], ns_snapshots = [],
        ns_checkpoints = [], ns_generation = 0, ns_vector_blob = None, ns_commit_evidence = None\<rparr>,
      bo_values = [''c:v'' \<mapsto> [f64_zero False]], bo_lineage = []\<rparr>"

definition sample_stored_evidence :: stored_commit_evidence where
  "sample_stored_evidence = \<lparr>se_schema = [], se_transaction_nonce = [], se_base_generation = 0, se_generation = 1,
     se_wal_sha256 = [], se_wal_bytes = 1, se_wal_record_count = 1\<rparr>"

definition sample_blob :: "blob_owner \<Rightarrow> published_blob" where
  "sample_blob bo =
     (case prepare_blob sample_sha ''db'' COMPACT_AT_LINEAGE_BYTES MAX_VECTOR_BLOB_LINEAGE_BYTES bo 1 of Ok pb \<Rightarrow> pb | _ \<Rightarrow> undefined)"

lemma sample_show_1: "show_u64 1 = ''1''"
  by (simp add: show_u64_def show_nat.simps digit_char_def char_of_eq)

lemma sample_prepared:
  "prepare_blob sample_sha ''db'' COMPACT_AT_LINEAGE_BYTES MAX_VECTOR_BLOB_LINEAGE_BYTES (sample_store None) 1 = Ok (sample_blob (sample_store None)) \<and>
   vd_basename (pb_descriptor (sample_blob (sample_store None))) = blob_basename ''db'' 1 (sample_sha [])"
proof -
  have "\<exists>pb. prepare_blob sample_sha ''db'' COMPACT_AT_LINEAGE_BYTES MAX_VECTOR_BLOB_LINEAGE_BYTES (sample_store None) 1 = Ok pb \<and>
      vd_basename (pb_descriptor pb) = blob_basename ''db'' 1 (sample_sha [])"
    by (simp add: prepare_blob_def plan_segment_def decide_compaction_def sum_bytes_def sample_store_def sample_vector_def
        live_len_def check_projected_def publish_values_def encode_blob_header_def stream_vector_blob_def segment_payload_def
        checked_add_def len_u64_def expect_def Let_def VECTOR_BLOB_MAGIC_def MAX_VECTOR_BLOB_LINEAGE_BYTES_def sample_sha_def)
  then show ?thesis by (auto simp: sample_blob_def)
qed

lemma sample_name:
  "validate_blob_basename (blob_basename ''db'' 1 (sample_sha [])) = Ok ()" "utf8_error 0 (blob_basename ''db'' 1 (sample_sha [])) = None"
proof -
  let ?name = "blob_basename ''db'' 1 (sample_sha [])"
  have name: "?name = ''db.g00000000000000000001.aaaaaaaaaaaaaaaaaaaaaaaaaaaaaaaaaaaaaaaaaaaaaaaaaaaaaaaaaaaaaaaa.vblob''"
    by (simp add: blob_basename_def sample_show_1 sample_sha_def Let_def numeral_eq_Suc)
  show "validate_blob_basename ?name = Ok ()"
    unfolding name by (simp add: validate_blob_basename_def path_components_def part_components_def starts_with_iff)
  show "utf8_error 0 ?name = None" unfolding name by (rule utf8_error_ascii) (simp add: less_char_def)
qed

lemma sample_inv: "blob_inv sample_sha (\<lambda>_. Err ''no such file'') MAX_VECTOR_BLOB_LINEAGE_BYTES (sample_store None)"
  by (auto simp: blob_inv_def stored_vectors_def sample_store_def sample_vector_def lineage_ok_def resolved_def intro!: exI [of _ "[]"] chain_end)

theorem published_generation_loads_live_vectors_witness:
  "load_vector_lineage sample_sha (publish_file (sample_blob (sample_store None)) (\<lambda>_. Err ''no such file'')) MAX_VECTOR_BLOB_LINEAGE_BYTES
     (bo_state (install_generation (sample_blob (sample_store None)) 1 sample_stored_evidence (sample_store None))) =
   Ok (bo_lineage (install_generation (sample_blob (sample_store None)) 1 sample_stored_evidence (sample_store None)),
       [''c:v'' \<mapsto> [f64_zero False]] |` {''c:v''})"
proof -
  have "checked_add (ns_generation (bo_state (sample_store None))) 1 = Some 1" by (simp add: sample_store_def checked_add_def)
  from published_generation_loads_live_vectors [OF sample_inv this, of "''db''" COMPACT_AT_LINEAGE_BYTES _ "''no such file''"] sample_prepared sample_name
  show ?thesis by (simp add: sample_store_def)
qed

section \<open>Legacy stores\<close>

lemma segment_refs_keys: "segment_refs gen offset publish = Ok (links, stop) \<Longrightarrow> map fst links = map fst publish"
  by (induction gen offset publish arbitrary: links rule: segment_refs.induct) (auto split: if_splits)

lemma first_commit_keeps_reference:
  assumes "ns_vector_blob (bo_state bo) = None" "stored_vectors (bo_state bo)"
    and "(key, v) \<in> set (ns_vectors (bo_state bo))" "vr_blob_ref v = Some r"
    and "prepare_blob sha stem compact_at max_bytes bo gen = Ok pb"
  shows "\<exists>v'. (key, v') \<in> set (ns_vectors (bo_state (install_generation pb gen evidence bo))) \<and> vr_blob_ref v' = Some r"
    "segment_of sha (publish_file pb dir) (pb_descriptor pb) =
      Ok (\<lparr>ls_generation = Some gen, ls_payload_offset = length (sp_header (pb_plan pb)), ls_raw = pb_bytes pb\<rparr>, None)"
proof -
  from assms(5) obtain p bytes delta links where plan: "plan_segment compact_at max_bytes bo gen = Ok p"
    and stream: "stream_vector_blob gen (sp_header p) (sp_publish p) (sp_bytes p) = Ok (bytes, delta)"
    and links: "prepared_refs delta (ns_vectors (bo_state bo)) = Ok links"
    and pb: "pb = \<lparr>pb_plan = p, pb_bytes = bytes,
          pb_descriptor = \<lparr>vd_basename = blob_basename stem gen (sha bytes), vd_size = len_u64 bytes,
            vd_sha256 = sha bytes, vd_format = VECTOR_BLOB_VERSION\<rparr>, pb_refs = links\<rparr>"
    by (auto simp: prepare_blob_def)
  note S = stream_Ok [OF stream encoded_header_length [OF plan_Ok(5) [OF plan]]]
  have none: "sp_compaction p = None" "sp_parent p = None"
    using plan assms(1) by (auto simp: plan_segment_def decide_compaction_def Let_def split: if_splits)
  have len: "length bytes < 2 ^ 64" using S(2) unat_bound [of "sp_bytes p"] by simp
  show "segment_of sha (publish_file pb dir) (pb_descriptor pb) =
      Ok (\<lparr>ls_generation = Some gen, ls_payload_offset = length (sp_header (pb_plan pb)), ls_raw = pb_bytes pb\<rparr>, None)"
    using published_segment [OF plan_Ok(5) [OF plan, unfolded none(2)] _ S(1) len, of "publish_file pb dir" "pb_descriptor pb" sha]
    by (simp add: pb publish_file_def)
  from S(3) obtain stop where "segment_refs gen 0 (sp_publish p) = Ok (delta, stop)" by blast
  from segment_refs_keys [OF this] plan_Ok(3) [OF plan]
  have keys: "fst ` set delta = fst ` {(k, u) \<in> set (ns_vectors (bo_state bo)). vr_blob_ref u = None}"
    by (simp add: none(1) flip: list.set_map) auto
  have "key \<notin> fst ` set delta"
  proof
    assume "key \<in> fst ` set delta"
    then obtain u where "(key, u) \<in> set (ns_vectors (bo_state bo))" "vr_blob_ref u = None" unfolding keys by auto
    then show False using assms(2-4) by (metis eq_key_imp_eq_value option.distinct(1) stored_vectors_def)
  qed
  then have "map_of delta key = None" by (simp add: map_of_eq_None_iff)
  with prepared_refs_Ok [OF links _ assms(3)] assms(2,4) have "map_of links key = Some r" by (simp add: stored_vectors_def)
  with assms(3) show "\<exists>v'. (key, v') \<in> set (ns_vectors (bo_state (install_generation pb gen evidence bo))) \<and> vr_blob_ref v' = Some r"
    by (force simp: install_generation_def pb)
qed

text \<open>C28: 
  A store of generation zero may keep vectors in an adjacent blob without a generation. Its first commit
  carries their references forward, but the segment it publishes has no parent, so the committed store
  can never be loaded again.
\<close>

theorem first_commit_loses_legacy_blob:
  assumes "ns_vector_blob (bo_state bo) = None" "stored_vectors (bo_state bo)"
    and "(key, v) \<in> set (ns_vectors (bo_state bo))" "vr_blob_ref v = Some r" "vb_generation r = None"
    and "prepare_blob sha stem compact_at max_bytes bo gen = Ok pb"
  shows "load_vector_lineage sha (publish_file pb dir) max_bytes (bo_state (install_generation pb gen evidence bo)) \<noteq> Ok result"
proof
  let ?bo = "install_generation pb gen evidence bo"
  let ?st = "bo_state ?bo"
  assume load: "load_vector_lineage sha (publish_file pb dir) max_bytes ?st = Ok result"
  obtain vs p where p: "pending_vector_refs (ns_vectors ?st) Map.empty [] = (vs, p)" by fastforce
  let ?w = "\<lparr>lw_lineage = [], lw_seen = {}, lw_total_bytes = 0, lw_child_generation = None, lw_loaded = (vs, p)\<rparr>"
  have blob: "ns_vector_blob ?st = Some (pb_descriptor pb)" by (simp add: install_generation_def)
  from load obtain w' where walk: "walk_lineage sha (publish_file pb dir) max_bytes ?st MAX_VECTOR_BLOB_LINEAGE (Some (pb_descriptor pb)) ?w = Ok w'"
    and pend: "snd (lw_loaded w') = []"
    using blob by (auto simp: load_vector_lineage_def p)
  from walk_sound [OF walk] obtain ds segs where
    c: "chain sha (publish_file pb dir) (ns_generation ?st) None (Some (pb_descriptor pb)) ds segs"
    and ap: "apply_segments (ns_vectors ?st) (vs, p) segs = Ok (lw_loaded w')" by auto
  from c have "\<exists>seg. segs = [seg] \<and> ls_generation seg = Some gen"
    using first_commit_keeps_reference(2) [OF assms(1-4,6), of dir] by (auto elim!: chain_SomeE chain_NoneE)
  then obtain seg where seg: "segs = [seg]" "ls_generation seg = Some gen" by blast
  obtain delta where "prepared_refs delta (ns_vectors (bo_state bo)) = Ok (pb_refs pb)" using assms(6) by (auto simp: prepare_blob_def)
  from installed_stored(1) [OF assms(2) this] have "\<forall>(_, v) \<in> set (ns_vectors ?st). vr_values v = []" by (simp add: stored_vectors_def)
  note spec = pending_refs_spec [OF p this]
  from first_commit_keeps_reference(1) [OF assms(1-4,6)] obtain v' where
    "(key, v') \<in> set (ns_vectors ?st)" "vr_blob_ref v' = Some r" by blast
  then have "vb_generation r \<in> fst ` set p" using spec by blast
  then have "None \<in> fst ` set p" by (simp only: assms(5))
  then obtain ks where "(None, ks) \<in> set p" by auto
  moreover have "filter (\<lambda>(g, _). g \<noteq> Some gen) p = []"
    using ap pend seg by (cases "lw_loaded w'") (auto simp: apply_vector_segment_def)
  ultimately show False by (auto simp: filter_empty_conv)
qed

definition legacy_ref :: vector_blob_ref where
  "legacy_ref = \<lparr>vb_offset = 0, vb_len = 1, vb_generation = None\<rparr>"

definition legacy_dir :: blob_dir where
  "legacy_dir = (\<lambda>_. Err ''no such file'')(''db.vblob'' := Ok (14, Ok (''AGVB'' @ to_le 2 1 @ f64_to_le (f64_zero False))))"

lemma legacy_header:
  "parse_blob_header (''AGVB'' @ to_le 2 1 @ f64_to_le (f64_zero False)) =
     Ok \<lparr>vh_version = 1, vh_generation = None, vh_parent = None, vh_payload_offset = 6\<rparr>"
  using field_word(2) [of 1] by (simp add: parse_blob_header_def Let_def VECTOR_BLOB_MAGIC_def VECTOR_BLOB_VERSION_BASE_def del: to_le.simps)

lemma legacy_store_loads:
  "load_vector_values sample_sha legacy_dir MAX_VECTOR_BLOB_LINEAGE_BYTES (bo_state (sample_store (Some legacy_ref))) ''db.vblob'' (Ok True) =
     Ok ([''c:v'' \<mapsto> [f64_zero False]], [])"
proof -
  let ?raw = "''AGVB'' @ to_le 2 1 @ f64_to_le (f64_zero False)"
  have read: "read_validated_blob sample_sha legacy_dir ''db.vblob'' None = Ok ?raw"
    by (simp add: read_validated_blob_def open_validated_blob_def legacy_dir_def legacy_header [simplified] del: to_le.simps)
  have dec: "decode_ref \<lparr>ls_generation = None, ls_payload_offset = 6, ls_raw = ?raw\<rparr> legacy_ref = Ok [f64_zero False]"
    by (rule decode_written [where pre = "''AGVB'' @ to_le 2 1" and rest = "[]"]) (simp_all add: legacy_ref_def del: to_le.simps)
  show ?thesis
    unfolding load_vector_values_def read legacy_header and_then_simps
    using dec by (simp add: sample_store_def sample_vector_def decode_vector_values_def apply_vector_segment_def
        legacy_ref_def expect_def map_ok_def VECTOR_BLOB_VERSION_BASE_def del: to_le.simps)
qed

lemma legacy_prepared:
  "\<exists>pb. prepare_blob sample_sha ''db'' COMPACT_AT_LINEAGE_BYTES MAX_VECTOR_BLOB_LINEAGE_BYTES (sample_store (Some legacy_ref)) 1 = Ok pb"
  by (simp add: prepare_blob_def plan_segment_def decide_compaction_def sum_bytes_def sample_store_def sample_vector_def
      live_len_def check_projected_def publish_values_def encode_blob_header_def stream_vector_blob_def segment_payload_def
      checked_add_def len_u64_def expect_def Let_def VECTOR_BLOB_MAGIC_def MAX_VECTOR_BLOB_LINEAGE_BYTES_def sample_sha_def
      legacy_ref_def)

text \<open>The store loads before the commit, the commit succeeds, and the store does not load afterwards.\<close>

theorem first_commit_loses_legacy_blob_witness:
  "load_vector_values sample_sha legacy_dir MAX_VECTOR_BLOB_LINEAGE_BYTES (bo_state (sample_store (Some legacy_ref))) ''db.vblob'' (Ok True) =
     Ok ([''c:v'' \<mapsto> [f64_zero False]], []) \<and>
   (\<exists>pb. prepare_blob sample_sha ''db'' COMPACT_AT_LINEAGE_BYTES MAX_VECTOR_BLOB_LINEAGE_BYTES (sample_store (Some legacy_ref)) 1 = Ok pb \<and>
     (\<forall>result. load_vector_lineage sample_sha (publish_file pb legacy_dir) MAX_VECTOR_BLOB_LINEAGE_BYTES
        (bo_state (install_generation pb 1 sample_stored_evidence (sample_store (Some legacy_ref)))) \<noteq> Ok result))"
proof -
  obtain pb where pb: "prepare_blob sample_sha ''db'' COMPACT_AT_LINEAGE_BYTES MAX_VECTOR_BLOB_LINEAGE_BYTES (sample_store (Some legacy_ref)) 1 = Ok pb"
    using legacy_prepared by blast
  have "load_vector_lineage sample_sha (publish_file pb legacy_dir) MAX_VECTOR_BLOB_LINEAGE_BYTES
      (bo_state (install_generation pb 1 sample_stored_evidence (sample_store (Some legacy_ref)))) \<noteq> Ok result" for result
    by (rule first_commit_loses_legacy_blob [OF _ _ _ _ _ pb, where key = "''c:v''" and v = "sample_vector (Some legacy_ref)" and r = legacy_ref])
      (simp_all add: sample_store_def sample_vector_def stored_vectors_def legacy_ref_def)
  with pb legacy_store_loads show ?thesis by blast
qed

section \<open>A lineage of two segments\<close>

definition one_header :: string where
  "one_header = VECTOR_BLOB_MAGIC @ to_le 2 (uint VECTOR_BLOB_VERSION) @ to_le 8 (uint (1 :: u64)) @ to_le 2 0"

definition one_descriptor :: vector_blob_descriptor where
  "one_descriptor = \<lparr>vd_basename = ''s'', vd_size = len_u64 one_header, vd_sha256 = sample_sha [], vd_format = VECTOR_BLOB_VERSION\<rparr>"

definition two_header :: string where
  "two_header = (case encode_blob_header 2 (Some one_descriptor) of Ok header \<Rightarrow> header | _ \<Rightarrow> [])"

definition two_descriptor :: vector_blob_descriptor where
  "two_descriptor = \<lparr>vd_basename = ''t'', vd_size = len_u64 two_header, vd_sha256 = sample_sha [], vd_format = VECTOR_BLOB_VERSION\<rparr>"

definition two_dir :: blob_dir where
  "two_dir = (\<lambda>_. Err ''no such file'')(''s'' := Ok (len_u64 one_header, Ok one_header), ''t'' := Ok (len_u64 two_header, Ok two_header))"

definition two_state :: native_state where
  "two_state = (bo_state (sample_store None))\<lparr>ns_vectors := [], ns_generation := 2, ns_vector_blob := Some two_descriptor\<rparr>"

lemma two_headers: "encode_blob_header 1 None = Ok one_header" "encode_blob_header 2 (Some one_descriptor) = Ok two_header"
proof -
  show "encode_blob_header 1 None = Ok one_header" by (simp add: encode_blob_header_def one_header_def)
  have "validate_blob_basename ''s'' = Ok ()"
    by (simp add: validate_blob_basename_def path_components_def part_components_def starts_with_iff)
  moreover have "\<exists>digest. hex_pairs (sample_sha []) = Ok digest" by (simp add: sample_sha_def numeral_eq_Suc hex_value_def is_lower_hex_def less_eq_char_def)
  moreover have "validate_sha256 (sample_sha []) label = Ok ()" for label
    by (simp add: validate_sha256_def sample_sha_def list_all_iff list_ex_iff is_ascii_uppercase_def is_ascii_hexdigit_def
        is_digit_def less_char_def less_eq_char_def)
  ultimately show "encode_blob_header 2 (Some one_descriptor) = Ok two_header"
    by (auto simp: two_header_def encode_blob_header_def encode_parent_def one_descriptor_def)
qed

lemma two_loads: "load_vector_lineage sample_sha two_dir MAX_VECTOR_BLOB_LINEAGE_BYTES two_state = Ok ([two_descriptor, one_descriptor], Map.empty)"
proof -
  note len = encoded_header_length [OF two_headers(1)] encoded_header_length [OF two_headers(2)]
  let ?one = "\<lparr>ls_generation = Some 1, ls_payload_offset = length one_header, ls_raw = one_header\<rparr>"
  let ?two = "\<lparr>ls_generation = Some 2, ls_payload_offset = length two_header, ls_raw = two_header\<rparr>"
  have one: "segment_of sample_sha two_dir one_descriptor = Ok (?one, None)"
    by (rule published_segment [OF two_headers(1), where payload = "[]"])
      (use len(1) in \<open>simp_all add: two_dir_def one_descriptor_def sample_sha_def\<close>)
  have "parent_ok one_descriptor" by (simp add: parent_ok_def one_descriptor_def utf8_error_ascii less_char_def)
  then have two: "segment_of sample_sha two_dir two_descriptor = Ok (?two, Some one_descriptor)"
    by (intro published_segment [OF two_headers(2), where payload = "[]"])
      (use len(2) in \<open>simp_all add: two_dir_def two_descriptor_def sample_sha_def\<close>)
  have names: "validate_blob_basename (vd_basename one_descriptor) = Ok ()" "validate_blob_basename (vd_basename two_descriptor) = Ok ()"
    by (simp_all add: one_descriptor_def two_descriptor_def validate_blob_basename_def path_components_def part_components_def starts_with_iff)
  have "chain sample_sha two_dir 2 None (Some two_descriptor) [two_descriptor, one_descriptor] [?two, ?one]"
    by (intro chain_step [OF names(2) two] chain_step [OF names(1) one] chain_end) (simp_all add: check_generation_def word_le_nat_alt)
  moreover have "total_size [two_descriptor, one_descriptor] \<le> unat MAX_VECTOR_BLOB_LINEAGE_BYTES"
    using len by (simp add: total_size_def one_descriptor_def two_descriptor_def len_u64_def unat_of_nat MAX_VECTOR_BLOB_LINEAGE_BYTES_def)
  moreover have "vd_basename one_descriptor \<noteq> vd_basename two_descriptor" by (simp add: one_descriptor_def two_descriptor_def)
  ultimately show ?thesis
    using load_complete [of two_state sample_sha two_dir MAX_VECTOR_BLOB_LINEAGE_BYTES "[two_descriptor, one_descriptor]" _ Map.empty]
    by (simp add: lineage_ok_def resolved_def stored_vectors_def two_state_def MAX_VECTOR_BLOB_LINEAGE_def)
qed

theorem loaded_lineage_is_validated_witness:
  "load_vector_lineage sample_sha two_dir MAX_VECTOR_BLOB_LINEAGE_BYTES two_state = Ok ([two_descriptor, one_descriptor], Map.empty) \<and>
   (\<exists>raw2 raw1 h2 h1. two_dir ''t'' = Ok (len_u64 raw2, Ok raw2) \<and> two_dir ''s'' = Ok (len_u64 raw1, Ok raw1) \<and>
      parse_blob_header raw2 = Ok h2 \<and> parse_blob_header raw1 = Ok h1 \<and> vh_parent h2 = Some one_descriptor \<and> vh_parent h1 = None)"
proof -
  from loaded_lineage_is_validated [OF two_loads] obtain hs where hs: "list_all2 (valid_file sample_sha two_dir) [two_descriptor, one_descriptor] hs"
    "ns_vector_blob two_state # map (vh_parent \<circ> snd) hs = map Some [two_descriptor, one_descriptor] @ [None]" by blast
  from hs(1) obtain raw2 h2 raw1 h1 where "hs = [(raw2, h2), (raw1, h1)]" "valid_file sample_sha two_dir two_descriptor (raw2, h2)"
    "valid_file sample_sha two_dir one_descriptor (raw1, h1)"
    by (auto simp: list_all2_Cons1)
  with hs(2) two_loads show ?thesis
    by (auto simp: valid_file_def) (auto simp: one_descriptor_def two_descriptor_def)
qed

end
