(* ===== verification/Native_Store.thy ===== *)
theory Native_Store
  imports Bounded_Search Vector_Blob
begin

text \<open>
  The graph, vector and passage requests of the native process (\<^verbatim>\<open>bin/aira-graphdb-native.rs\<close>), each on the
  state of the server. Serde's conversions between JSON and the records are the parameter \<open>native_serde\<close>. A hash
  map is the list of its entries in the order of its iteration; an insertion may rearrange them, as the parameter
  \<open>ro\<close> does with the keys.
\<close>

section \<open>Errors and parameters of requests\<close>

record app_error =
  ae_code :: string
  ae_message :: string
  ae_failure_class :: "string option"

definition execution_client_error :: "string \<Rightarrow> app_error" where
  "execution_client_error msg = \<lparr>ae_code = ''REQUEST_EXECUTION_FAILED'', ae_message = msg, ae_failure_class = Some ''CLIENT_INPUT''\<rparr>"

definition execution_io_error :: "string \<Rightarrow> app_error" where
  "execution_io_error msg = \<lparr>ae_code = ''REQUEST_EXECUTION_FAILED'', ae_message = msg, ae_failure_class = Some ''IO_FAILURE''\<rparr>"

text \<open>\<^verbatim>\<open>req.params.get(name).and_then(Value::as_str).unwrap_or_default()\<close>, and the same for arrays.\<close>

definition str_param :: "json \<Rightarrow> string \<Rightarrow> string" where
  "str_param params name = (case Option.bind (json_get name params) json_str of Some s \<Rightarrow> s | None \<Rightarrow> [])"

definition array_param :: "json \<Rightarrow> string \<Rightarrow> json list" where
  "array_param params name = (case Option.bind (json_get name params) as_array of Some xs \<Rightarrow> xs | None \<Rightarrow> [])"

record native_serde =
  sd_node :: "json \<Rightarrow> (native_node, string) outcome"
  sd_edge :: "json \<Rightarrow> (graph_edge, string) outcome"
  sd_vector :: "json \<Rightarrow> (vector_record, string) outcome"
  sd_node_json :: "native_node \<Rightarrow> json"
  sd_edge_json :: "graph_edge \<Rightarrow> json"

section \<open>Hash maps\<close>

definition hash_insert :: "(string list \<Rightarrow> string list) \<Rightarrow> string \<Rightarrow> 'v \<Rightarrow> (string \<times> 'v) list \<Rightarrow> (string \<times> 'v) list" where
  "hash_insert ro k v m = (let m' = AList.update k v m in map (\<lambda>k. (k, the (map_of m' k))) (ro (map fst m')))"

definition hash_remove :: "string \<Rightarrow> (string \<times> 'v) list \<Rightarrow> (string \<times> 'v) list" where
  "hash_remove k m = filter (\<lambda>(k', _). k' \<noteq> k) m"

definition retain_values :: "('v \<Rightarrow> bool) \<Rightarrow> (string \<times> 'v) list \<Rightarrow> (string \<times> 'v) list" where
  "retain_values keep m = filter (\<lambda>(_, v). keep v) m"

text \<open>\<^verbatim>\<open>entry(k).or_default().push(v)\<close>.\<close>

definition push_key :: "string \<Rightarrow> string \<Rightarrow> (string \<rightharpoonup> string list) \<Rightarrow> string \<rightharpoonup> string list" where
  "push_key k v m = m(k \<mapsto> (case m k of None \<Rightarrow> [v] | Some vs \<Rightarrow> vs @ [v]))"

section \<open>The server and its caches\<close>

record native_server = bounded_server +
  nc_dirty :: bool
  nc_node_keys :: "string \<rightharpoonup> string list"
  nc_edge_keys :: "string \<rightharpoonup> string list"
  nc_projection_order :: "string \<rightharpoonup> 32 word list"
  nc_adjacent :: "string \<rightharpoonup> string list"
  nc_vector_keys :: "string \<rightharpoonup> string list"
  nc_passage_keys :: "string \<rightharpoonup> string list"

type_synonym 'a app = "(native_server, 'a, app_error) stateful"

definition mark_cache_dirty :: "native_server \<Rightarrow> native_server" where
  "mark_cache_dirty sv = sv\<lparr>nc_dirty := True, bs_catalog_ready := False, bs_snapshot_indices := Map.empty,
     bs_edge_counts := Map.empty, bs_endpoint_counts := Map.empty\<rparr>"

definition index_by :: "('v \<Rightarrow> string) \<Rightarrow> (string \<times> 'v) list \<Rightarrow> string \<rightharpoonup> string list" where
  "index_by f m = fold (\<lambda>(key, v). push_key (f v) key) m Map.empty"

definition index_edge :: "string \<times> graph_edge \<Rightarrow> (string \<rightharpoonup> string list) \<Rightarrow> string \<rightharpoonup> string list" where
  "index_edge = (\<lambda>(key, edge) m.
     let m = push_key (node_key (ge_corpus_id edge) (source_node_id edge)) key m in
     if source_node_id edge \<noteq> target_node_id edge then push_key (node_key (ge_corpus_id edge) (target_node_id edge)) key m
     else m)"

definition ensure_cache :: "native_server \<Rightarrow> native_server" where
  "ensure_cache sv =
     (if \<not> nc_dirty sv then sv
      else
        let st = bs_state sv in
        sv\<lparr>nc_node_keys := index_by gn_corpus_id (ns_nodes st),
           nc_edge_keys := index_by ge_corpus_id (ns_edges st),
           nc_projection_order := Map.empty,
           nc_adjacent := fold index_edge (ns_edges st) Map.empty,
           nc_vector_keys := index_by (\<lambda>v. corpus_namespace_key (vr_corpus_id v) (vr_namespace v)) (ns_vectors st),
           nc_passage_keys := index_by np_corpus_id (ns_passages st),
           nc_dirty := False\<rparr>)"

text \<open>\<^verbatim>\<open>cache.get(k).into_iter().flat_map(|keys| keys.iter()).filter_map(|key| map.get(key))\<close>.\<close>

definition cached :: "(string \<rightharpoonup> string list) \<Rightarrow> string \<Rightarrow> (string \<times> 'v) list \<Rightarrow> 'v list" where
  "cached idx k m = List.map_filter (map_of m) (case idx k of None \<Rightarrow> [] | Some keys \<Rightarrow> keys)"

definition with_state :: "(native_state \<Rightarrow> native_state) \<Rightarrow> native_server \<Rightarrow> native_server" where
  "with_state f sv = sv\<lparr>bs_state := f (bs_state sv)\<rparr>"

text \<open>A change of the server that cannot fail.\<close>

definition st_modify :: "(native_server \<Rightarrow> native_server) \<Rightarrow> unit app" where
  "st_modify f sv = (f sv, Ok ())"

definition st_read :: "(native_server \<Rightarrow> 'a) \<Rightarrow> 'a app" where
  "st_read f sv = (sv, Ok (f sv))"

section \<open>Stored snapshots\<close>

definition validate_embedded_corpus :: "(string \<times> json) list \<Rightarrow> string \<Rightarrow> string \<Rightarrow> (unit, app_error) outcome" where
  "validate_embedded_corpus item corpus_id label =
     (case map_of item ''corpusId'' of
        None \<Rightarrow> Ok ()
      | Some (JString embedded) \<Rightarrow>
          if embedded = corpus_id then Ok ()
          else Err (execution_client_error (label @ ''.corpusId does not match corpusId''))
      | Some _ \<Rightarrow> Err (execution_client_error (label @ ''.corpusId must be a string'')))"

definition stored_snapshot_section ::
  "native_state \<Rightarrow> string \<Rightarrow> string \<Rightarrow> (json list option, app_error) outcome" where
  "stored_snapshot_section st corpus_id section =
     (case map_of (ns_snapshots st) corpus_id of
        None \<Rightarrow> Ok None
      | Some snapshot \<Rightarrow>
          and_then (ok_or (as_object snapshot) (execution_client_error ''stored memory snapshot must be an object'')) (\<lambda>object.
          case map_of object ''corpusId'' of
            Some (JString stored) \<Rightarrow>
              if stored \<noteq> corpus_id then Err (execution_client_error ''stored memory snapshot corpusId does not match its key'')
              else
                (case map_of object section of
                   None \<Rightarrow> Ok None
                 | Some (JArray items) \<Rightarrow> Ok (Some items)
                 | Some _ \<Rightarrow> Err (execution_client_error (''stored '' @ section @ '' must be an array'')))
          | _ \<Rightarrow> Err (execution_client_error ''stored memory snapshot has no string corpusId'')))"

definition validate_stored_section_item :: "json \<Rightarrow> string \<Rightarrow> string \<Rightarrow> string \<Rightarrow> (unit, app_error) outcome" where
  "validate_stored_section_item item corpus_id section id_key =
     and_then (ok_or (as_object item) (execution_client_error (''stored '' @ section @ '' must contain only objects''))) (\<lambda>object.
     and_then (validate_embedded_corpus object corpus_id (''stored '' @ section)) (\<lambda>_.
     case Option.bind (map_of object id_key) json_str of
       Some i \<Rightarrow>
         if i \<noteq> [] \<and> length i \<le> MAX_INDEXING_DOMAIN_ID_BYTES then Ok ()
         else Err (execution_client_error (''stored '' @ section @ '' has no bounded string '' @ id_key))
     | None \<Rightarrow> Err (execution_client_error (''stored '' @ section @ '' has no bounded string '' @ id_key))))"

fun find_schema :: "string \<Rightarrow> string \<Rightarrow> json list \<Rightarrow> json option \<Rightarrow> (json option, app_error) outcome" where
  "find_schema corpus_id schema_id [] found = Ok found"
| "find_schema corpus_id schema_id (schema # schemas) found =
     and_then (validate_stored_section_item schema corpus_id ''schemas'' ''schemaId'') (\<lambda>_.
     if Option.bind (json_get ''schemaId'' schema) json_str \<noteq> Some schema_id then find_schema corpus_id schema_id schemas found
     else if found \<noteq> None then Err (execution_client_error ''stored schemas contain a duplicate hydration target'')
     else find_schema corpus_id schema_id schemas (Some schema))"

definition schema_for_hydration :: "native_state \<Rightarrow> string \<Rightarrow> string \<Rightarrow> (json, app_error) outcome" where
  "schema_for_hydration st corpus_id schema_id =
     and_then (stored_snapshot_section st corpus_id ''schemas'') (\<lambda>section.
     and_then (find_schema corpus_id schema_id (case section of None \<Rightarrow> [] | Some items \<Rightarrow> items) None) (\<lambda>found.
     ok_or found (execution_client_error ''schema hydration target is absent'')))"

text \<open>\<^verbatim>\<open>marker[name].as_str().expect(..)\<close> panics if the field is missing or not a string.\<close>

definition marker_str :: "(string \<times> json) list \<Rightarrow> string \<Rightarrow> (string, app_error) outcome" where
  "marker_str marker name = expect (Option.bind (map_of marker name) json_str)"

definition hydrate_marker :: "native_state \<Rightarrow> json \<Rightarrow> (native_node, app_error) outcome" where
  "hydrate_marker st marker =
     and_then (expect (as_object marker)) (\<lambda>marker.
     and_then (marker_str marker ''corpusId'') (\<lambda>corpus_id.
     and_then (marker_str marker ''schemaId'') (\<lambda>schema_id.
     and_then (marker_str marker ''nodeId'') (\<lambda>node_id.
     case schema_for_hydration st corpus_id schema_id of
       Ok schema \<Rightarrow>
         and_then (marker_str marker ''label'') (\<lambda>label.
         Ok \<lparr>gn_node_id = node_id, gn_corpus_id = corpus_id, gn_layer = ''ontology'', gn_ref = schema, gn_label = label\<rparr>)
     | _ \<Rightarrow> Panic))))"

definition hydrated_schema_nodes :: "native_state \<Rightarrow> json \<Rightarrow> (native_node list, app_error) outcome" where
  "hydrated_schema_nodes st params =
     (case Option.bind (json_get ''schemaNodeRefs'' params) as_array of
        None \<Rightarrow> Ok []
      | Some markers \<Rightarrow> traverse (hydrate_marker st) markers)"

section \<open>Nodes and edges\<close>

definition insert_node :: "(string list \<Rightarrow> string list) \<Rightarrow> native_node \<Rightarrow> native_server \<Rightarrow> native_server" where
  "insert_node ro node = with_state (\<lambda>st. st\<lparr>ns_nodes := hash_insert ro (native_key (gn_corpus_id node) (gn_node_id node)) node (ns_nodes st)\<rparr>)"

definition insert_edge :: "(string list \<Rightarrow> string list) \<Rightarrow> graph_edge \<Rightarrow> native_server \<Rightarrow> native_server" where
  "insert_edge ro edge = with_state (\<lambda>st. st\<lparr>ns_edges := hash_insert ro (native_key (ge_corpus_id edge) (ge_edge_id edge)) edge (ns_edges st)\<rparr>)"

definition parsed :: "string \<Rightarrow> ('a, string) outcome \<Rightarrow> 'a app" where
  "parsed what r = st_lift (map_err (\<lambda>err. execution_client_error (''invalid '' @ what @ '': '' @ err)) r)"

definition upsert_nodes :: "(string list \<Rightarrow> string list) \<Rightarrow> native_serde \<Rightarrow> json \<Rightarrow> json app" where
  "upsert_nodes ro sd params =
     st_then (st_lift (expect (as_object params))) (\<lambda>_.
     st_then (\<lambda>sv. (sv, hydrated_schema_nodes (bs_state sv) params)) (\<lambda>hydrated.
     st_then (st_each (\<lambda>v. st_then (parsed ''node'' (sd_node sd v)) (\<lambda>node. st_modify (insert_node ro node)))
       (array_param params ''nodes'')) (\<lambda>_.
     st_then (st_each (\<lambda>node. st_modify (insert_node ro node)) hydrated) (\<lambda>_.
     st_then (st_modify mark_cache_dirty) (\<lambda>_. st_ret JNull)))))"

definition upsert_edges :: "(string list \<Rightarrow> string list) \<Rightarrow> native_serde \<Rightarrow> json \<Rightarrow> json app" where
  "upsert_edges ro sd params =
     st_then (st_each (\<lambda>v. st_then (parsed ''edge'' (sd_edge sd v)) (\<lambda>edge. st_modify (insert_edge ro edge)))
       (array_param params ''edges'')) (\<lambda>_.
     st_then (st_modify mark_cache_dirty) (\<lambda>_. st_ret JNull))"

definition get_node :: "native_serde \<Rightarrow> json \<Rightarrow> json app" where
  "get_node sd params =
     st_read (\<lambda>sv. case map_of (ns_nodes (bs_state sv)) (native_key (str_param params ''corpusId'') (str_param params ''nodeId'')) of
       None \<Rightarrow> JNull | Some node \<Rightarrow> sd_node_json sd node)"

definition get_nodes :: "native_serde \<Rightarrow> json \<Rightarrow> json app" where
  "get_nodes sd params =
     st_then (st_modify ensure_cache) (\<lambda>_.
     st_read (\<lambda>sv.
       let layer = Option.bind (json_get ''layer'' params) json_str;
           out = filter (\<lambda>n. layer = None \<or> Some (gn_layer n) = layer)
             (cached (nc_node_keys sv) (str_param params ''corpusId'') (ns_nodes (bs_state sv)))
       in JArray (map (sd_node_json sd) (sort_by (\<lambda>a b. cmp (gn_node_id a) (gn_node_id b)) out))))"

definition get_edges :: "native_serde \<Rightarrow> json \<Rightarrow> json app" where
  "get_edges sd params =
     st_then (st_modify ensure_cache) (\<lambda>_.
     st_read (\<lambda>sv.
       let source = Option.bind (json_get ''sourceNodeId'' params) json_str;
           out = filter (\<lambda>e. source = None \<or> Some (source_node_id e) = source)
             (cached (nc_edge_keys sv) (str_param params ''corpusId'') (ns_edges (bs_state sv)))
       in JArray (map (sd_edge_json sd) (sort_by (\<lambda>a b. cmp (ge_edge_id a) (ge_edge_id b)) out))))"

definition get_adjacent :: "native_serde \<Rightarrow> json \<Rightarrow> json app" where
  "get_adjacent sd params =
     st_then (st_modify ensure_cache) (\<lambda>_.
     st_read (\<lambda>sv.
       let out = cached (nc_adjacent sv) (node_key (str_param params ''corpusId'') (str_param params ''nodeId''))
             (ns_edges (bs_state sv))
       in JArray (map (sd_edge_json sd) (sort_by (\<lambda>a b. cmp (ge_edge_id a) (ge_edge_id b)) out))))"

text \<open>\<^verbatim>\<open>json!(count)\<close> of a count that is not negative.\<close>

definition json_count :: "nat \<Rightarrow> json" where
  "json_count n = JNumber (PosInt (word_of_nat n))"

definition touches :: "string \<Rightarrow> string set \<Rightarrow> graph_edge \<Rightarrow> bool" where
  "touches corpus_id ids edge \<longleftrightarrow> ge_corpus_id edge = corpus_id \<and> (source_node_id edge \<in> ids \<or> target_node_id edge \<in> ids)"

definition delete_node :: "string \<Rightarrow> string \<Rightarrow> nat \<Rightarrow> nat app" where
  "delete_node corpus_id node_id deleted sv =
     (let st = bs_state sv; key = native_key corpus_id node_id;
          deleted' = (if map_of (ns_nodes st) key \<noteq> None then deleted + 1 else deleted)
      in (with_state (\<lambda>st. st\<lparr>ns_nodes := hash_remove key (ns_nodes st),
            ns_edges := retain_values (\<lambda>e. \<not> touches corpus_id {node_id} e) (ns_edges st)\<rparr>) sv, Ok deleted'))"

definition delete_nodes :: "json \<Rightarrow> json app" where
  "delete_nodes params =
     st_then (st_fold (\<lambda>deleted node_id. delete_node (str_param params ''corpusId'') node_id deleted) 0
       (List.map_filter json_str (array_param params ''nodeIds''))) (\<lambda>deleted.
     st_then (st_modify mark_cache_dirty) (\<lambda>_. st_ret (json_count deleted)))"

definition delete_edge :: "string \<Rightarrow> string \<Rightarrow> nat \<Rightarrow> nat app" where
  "delete_edge corpus_id edge_id deleted sv =
     (let key = native_key corpus_id edge_id;
          deleted' = (if map_of (ns_edges (bs_state sv)) key \<noteq> None then deleted + 1 else deleted)
      in (with_state (\<lambda>st. st\<lparr>ns_edges := hash_remove key (ns_edges st)\<rparr>) sv, Ok deleted'))"

definition delete_edges :: "json \<Rightarrow> json app" where
  "delete_edges params =
     st_then (st_fold (\<lambda>deleted edge_id. delete_edge (str_param params ''corpusId'') edge_id deleted) 0
       (List.map_filter json_str (array_param params ''edgeIds''))) (\<lambda>deleted.
     st_then (st_modify mark_cache_dirty) (\<lambda>_. st_ret (json_count deleted)))"

section \<open>Vectors\<close>

text \<open>\<^verbatim>\<open>vectors.retain(..)\<close> and the removal of the values of what went.\<close>

definition retain_vectors :: "(vector_record \<Rightarrow> bool) \<Rightarrow> native_server \<Rightarrow> native_server" where
  "retain_vectors keep sv =
     (let removed = map fst (filter (\<lambda>(_, v). \<not> keep v) (ns_vectors (bs_state sv))) in
      (with_state (\<lambda>st. st\<lparr>ns_vectors := retain_values keep (ns_vectors st)\<rparr>) sv)
        \<lparr>bs_vector_values := bs_vector_values sv |` (- set removed)\<rparr>)"

definition vector_document :: "vector_record \<Rightarrow> string" where
  "vector_document v = str_param (vr_metadata v) ''documentId''"

definition vector_delete_by_document :: "json \<Rightarrow> json app" where
  "vector_delete_by_document params =
     (let corpus_id = str_param params ''corpusId''; document_id = str_param params ''documentId'' in
      st_then (st_modify (retain_vectors (\<lambda>v. vr_corpus_id v \<noteq> corpus_id \<or> vector_document v \<noteq> document_id))) (\<lambda>_.
      st_then (st_modify mark_cache_dirty) (\<lambda>_. st_ret JNull)))"

definition insert_vector :: "(string list \<Rightarrow> string list) \<Rightarrow> vector_record \<Rightarrow> native_server \<Rightarrow> native_server" where
  "insert_vector ro v sv =
     (let key = native_key (vr_corpus_id v) (vr_id v) in
      (with_state (\<lambda>st. st\<lparr>ns_vectors := hash_insert ro key (v\<lparr>vr_values := [], vr_blob_ref := None\<rparr>) (ns_vectors st)\<rparr>) sv)
        \<lparr>bs_vector_values := (bs_vector_values sv)(key \<mapsto> vr_values v)\<rparr>)"

definition vector_upsert :: "(string list \<Rightarrow> string list) \<Rightarrow> native_serde \<Rightarrow> json \<Rightarrow> json app" where
  "vector_upsert ro sd params =
     st_then (st_each (\<lambda>r. st_then (parsed ''vector record'' (sd_vector sd r)) (\<lambda>v. st_modify (insert_vector ro v)))
       (array_param params ''records'')) (\<lambda>_.
     st_then (st_modify mark_cache_dirty) (\<lambda>_. st_ret JNull))"

section \<open>Documents and corpora\<close>

definition doc_ids_from_ref :: "json \<Rightarrow> string list" where
  "doc_ids_from_ref v =
     (case Option.bind (json_get ''sourceDocumentIds'' v) as_array of
        Some ids \<Rightarrow> List.map_filter json_str ids
      | None \<Rightarrow>
          (case Option.bind (Option.bind (json_get ''metadata'' v) (json_get ''documentId'')) json_str of
             Some document_id \<Rightarrow> [document_id]
           | None \<Rightarrow> []))"

definition deletion_counts :: "native_state \<Rightarrow> native_state \<Rightarrow> json" where
  "deletion_counts before after = JObject
     [(''deletedEdges'', json_count (length (ns_edges before) - length (ns_edges after))),
      (''deletedNodes'', json_count (length (ns_nodes before) - length (ns_nodes after)))]"

definition drop_document_nodes :: "string \<Rightarrow> string \<Rightarrow> native_state \<Rightarrow> native_state" where
  "drop_document_nodes corpus_id document_id st =
     (let goes = (\<lambda>n. gn_corpus_id n = corpus_id \<and> document_id \<in> set (doc_ids_from_ref (gn_ref n)));
          removed = gn_node_id ` snd ` set (filter (\<lambda>(_, n). goes n) (ns_nodes st))
      in st\<lparr>ns_nodes := retain_values (\<lambda>n. \<not> goes n) (ns_nodes st),
            ns_edges := retain_values (\<lambda>e. \<not> touches corpus_id removed e) (ns_edges st)\<rparr>)"

definition drop_passages :: "string \<Rightarrow> string \<Rightarrow> native_state \<Rightarrow> native_state" where
  "drop_passages corpus_id document_id st =
     st\<lparr>ns_passages := retain_values (\<lambda>p. \<not> (np_corpus_id p = corpus_id \<and> np_document_id p = document_id)) (ns_passages st)\<rparr>"

definition delete_by_document :: "json \<Rightarrow> json app" where
  "delete_by_document params =
     (let corpus_id = str_param params ''corpusId''; document_id = str_param params ''documentId'' in
      st_then (st_read bs_state) (\<lambda>before.
      st_then (st_modify (with_state (drop_document_nodes corpus_id document_id))) (\<lambda>_.
      st_then (st_modify (retain_vectors (\<lambda>v. vr_corpus_id v \<noteq> corpus_id \<or> vector_document v \<noteq> document_id))) (\<lambda>_.
      st_then (st_modify (with_state (drop_passages corpus_id document_id))) (\<lambda>_.
      st_then (st_modify mark_cache_dirty) (\<lambda>_. st_read (\<lambda>sv. deletion_counts before (bs_state sv))))))))"

definition delete_by_corpus :: "json \<Rightarrow> json app" where
  "delete_by_corpus params =
     (let corpus_id = str_param params ''corpusId'' in
      st_then (st_read bs_state) (\<lambda>before.
      st_then (st_modify (with_state (\<lambda>st. st\<lparr>ns_nodes := retain_values (\<lambda>n. gn_corpus_id n \<noteq> corpus_id) (ns_nodes st),
          ns_edges := retain_values (\<lambda>e. ge_corpus_id e \<noteq> corpus_id) (ns_edges st)\<rparr>))) (\<lambda>_.
      st_then (st_modify (retain_vectors (\<lambda>v. vr_corpus_id v \<noteq> corpus_id))) (\<lambda>_.
      st_then (st_modify (with_state (\<lambda>st. st\<lparr>ns_passages := retain_values (\<lambda>p. np_corpus_id p \<noteq> corpus_id) (ns_passages st),
          ns_snapshots := hash_remove corpus_id (ns_snapshots st)\<rparr>))) (\<lambda>_.
      st_then (st_modify mark_cache_dirty) (\<lambda>_. st_read (\<lambda>sv. deletion_counts before (bs_state sv))))))))"

section \<open>Passages\<close>

definition index_passage :: "(string list \<Rightarrow> string list) \<Rightarrow> string \<Rightarrow> json \<Rightarrow> unit app" where
  "index_passage ro corpus_id passage =
     st_then (st_lift (ok_or (Option.bind (json_get ''passageId'' passage) json_str) (execution_client_error ''missing passageId''))) (\<lambda>passage_id.
     st_then (st_lift (ok_or (Option.bind (Option.bind (json_get ''metadata'' passage) (json_get ''documentId'')) json_str)
         (execution_client_error ''missing metadata.documentId''))) (\<lambda>document_id.
     st_modify (with_state (\<lambda>st. st\<lparr>ns_passages := hash_insert ro (native_key corpus_id passage_id)
       \<lparr>np_passage_id = passage_id, np_corpus_id = corpus_id, np_document_id = document_id, np_text = str_param passage ''text''\<rparr>
       (ns_passages st)\<rparr>))))"

definition lexical_index_passages :: "(string list \<Rightarrow> string list) \<Rightarrow> json \<Rightarrow> json app" where
  "lexical_index_passages ro params =
     st_then (st_each (index_passage ro (str_param params ''corpusId'')) (array_param params ''passages'')) (\<lambda>_.
     st_then (st_modify mark_cache_dirty) (\<lambda>_. st_ret JNull))"

definition lexical_delete_by_document :: "json \<Rightarrow> json app" where
  "lexical_delete_by_document params =
     st_then (st_modify (with_state (drop_passages (str_param params ''corpusId'') (str_param params ''documentId'')))) (\<lambda>_.
     st_then (st_modify mark_cache_dirty) (\<lambda>_. st_ret JNull))"

section \<open>Projections\<close>

definition transition_json :: "graph_edge \<Rightarrow> json" where
  "transition_json e = JObject [(''sourceNodeId'', JString (source_node_id e)), (''targetNodeId'', JString (target_node_id e)),
     (''weight'', json_f64 (ge_weight e))]"

definition projection_get_transitions :: "json \<Rightarrow> json app" where
  "projection_get_transitions params =
     st_then (st_modify ensure_cache) (\<lambda>_.
     st_read (\<lambda>sv. JArray (sort_by (\<lambda>a b. cmp (str_param a ''sourceNodeId'') (str_param b ''sourceNodeId''))
       (map transition_json (cached (nc_edge_keys sv) (str_param params ''corpusId'') (ns_edges (bs_state sv)))))))"

definition projection_get_dangling_nodes :: "json \<Rightarrow> json app" where
  "projection_get_dangling_nodes params =
     st_then (st_modify ensure_cache) (\<lambda>_.
     st_read (\<lambda>sv.
       let corpus_id = str_param params ''corpusId'';
           outgoing = source_node_id ` set (cached (nc_edge_keys sv) corpus_id (ns_edges (bs_state sv)));
           nodes = filter (\<lambda>n. gn_node_id n \<notin> outgoing) (cached (nc_node_keys sv) corpus_id (ns_nodes (bs_state sv)))
       in JArray (map JString (sort (map gn_node_id nodes)))))"

definition projection_get_node_count :: "json \<Rightarrow> json app" where
  "projection_get_node_count params =
     st_then (st_modify ensure_cache) (\<lambda>_.
     st_read (\<lambda>sv. json_count (case nc_node_keys sv (str_param params ''corpusId'') of None \<Rightarrow> 0 | Some keys \<Rightarrow> length keys)))"

section \<open>The requests by name\<close>

definition store_handlers :: "(string list \<Rightarrow> string list) \<Rightarrow> native_serde \<Rightarrow> (string \<times> (json \<Rightarrow> json app)) list" where
  "store_handlers ro sd =
     [(''upsert_nodes'', upsert_nodes ro sd), (''upsert_edges'', upsert_edges ro sd), (''get_node'', get_node sd),
      (''get_nodes'', get_nodes sd), (''get_edges'', get_edges sd), (''get_adjacent'', get_adjacent sd),
      (''delete_nodes'', delete_nodes), (''delete_edges'', delete_edges), (''delete_by_document'', delete_by_document),
      (''delete_by_corpus'', delete_by_corpus), (''vector_upsert'', vector_upsert ro sd),
      (''vector_delete_by_document'', vector_delete_by_document),
      (''projection_get_transitions'', projection_get_transitions),
      (''projection_get_dangling_nodes'', projection_get_dangling_nodes),
      (''projection_get_node_count'', projection_get_node_count),
      (''lexical_index_passages'', lexical_index_passages ro), (''lexical_delete_by_document'', lexical_delete_by_document)]"

end
