(* ===== verification/Native_Store_Correct.thy ===== *)
theory Native_Store_Correct
  imports Native_Store Vector_Publish
begin

text \<open>
  What the store requests of the native process keep: the locale \<open>store_contract\<close> lists the elementary changes they
  make, and shows that every request keeps what these keep. It is interpreted by the keys of the stored maps
  with the caches, and by what publication needs of the vectors.
\<close>

section \<open>Hash maps\<close>

lemma hash_insert:
  assumes "iteration_order ro" "distinct (map fst m)"
  shows "map_of (hash_insert ro k v m) = (map_of m)(k \<mapsto> v)" "distinct (map fst (hash_insert ro k v m))"
    "set (hash_insert ro k v m) = insert (k, v) {(k', v') \<in> set m. k' \<noteq> k}"
proof -
  let ?m = "AList.update k v m" and ?h = "hash_insert ro k v m"
  have d: "distinct (map fst ?m)" using assms(2) by (rule distinct_update)
  have keys: "map fst ?h = ro (map fst ?m)" by (simp add: hash_insert_def Let_def comp_def)
  have "distinct (ro (map fst ?m))" using assms(1) d unfolding iteration_order_def by (metis mset_eq_imp_distinct_iff)
  then show dh: "distinct (map fst ?h)" by (simp only: keys)
  have "set ?h = (\<lambda>k. (k, the (map_of ?m k))) ` fst ` set ?m"
    using iteration_order_set [OF assms(1), of "map fst ?m"] by (simp add: hash_insert_def Let_def del: fun_upd_apply)
  also have "\<dots> = set ?m"
  proof -
    have "(fst e, the (map_of ?m (fst e))) = e" if "e \<in> set ?m" for e
      using that map_of_is_SomeI [OF d, of "fst e" "snd e"] by simp
    then show ?thesis by (force simp: image_image)
  qed
  finally have s: "set ?h = set ?m" .
  then have mo: "map_of ?h = map_of ?m" using map_of_inject_set [OF dh d] by blast
  then show m: "map_of ?h = (map_of m)(k \<mapsto> v)" by (simp add: update_conv' fun_eq_iff)
  have "e \<in> set ?h \<longleftrightarrow> map_of ?h (fst e) = Some (snd e)" for e using dh by (cases e) simp
  moreover have "e \<in> set m \<longleftrightarrow> map_of m (fst e) = Some (snd e)" for e using assms(2) by (cases e) simp
  ultimately show "set ?h = insert (k, v) {(k', v') \<in> set m. k' \<noteq> k}" unfolding m by (auto split: if_splits)
qed

section \<open>The caches\<close>

lemma index_by_keys:
  "index_by f m c = (case map fst (filter (\<lambda>(_, v). f v = c) m) of [] \<Rightarrow> None | keys \<Rightarrow> Some keys)"
proof -
  have "fold (\<lambda>(key, v). push_key (f v) key) m idx c =
      (case map fst (filter (\<lambda>(_, v). f v = c) m) of [] \<Rightarrow> idx c
       | keys \<Rightarrow> Some ((case idx c of None \<Rightarrow> [] | Some ks \<Rightarrow> ks) @ keys))" for idx
    by (induction m arbitrary: idx) (auto simp: push_key_def split: list.splits option.splits prod.splits)
  then show ?thesis by (auto simp: index_by_def split: list.splits)
qed

lemma index_by_list: "(case index_by f m c of None \<Rightarrow> [] | Some keys \<Rightarrow> keys) = map fst (filter (\<lambda>(_, v). f v = c) m)"
  by (auto simp: index_by_keys split: list.splits)

text \<open>The entries of an indexed map are those of the map with that index.\<close>

lemma cached_index: "distinct (map fst m) \<Longrightarrow> cached (index_by f m) c m = map snd (filter (\<lambda>(_, v). f v = c) m)"
proof -
  assume d: "distinct (map fst m)"
  have "List.map_filter (map_of m) (map fst xs) = map snd xs" if "set xs \<subseteq> set m" for xs
    using that d by (induction xs) (auto simp: List.map_filter_simps)
  from this [of "filter (\<lambda>(_, v). f v = c) m"] show ?thesis by (simp add: cached_def index_by_list)
qed

lemma index_edges_keys:
  "fold index_edge m Map.empty c = (case map fst (filter (\<lambda>(_, e). c \<in> {node_key (ge_corpus_id e) (source_node_id e),
      node_key (ge_corpus_id e) (target_node_id e)}) m) of [] \<Rightarrow> None | keys \<Rightarrow> Some keys)"
proof -
  have "fold index_edge m idx c =
      (case map fst (filter (\<lambda>(_, e). c \<in> {node_key (ge_corpus_id e) (source_node_id e), node_key (ge_corpus_id e) (target_node_id e)}) m)
       of [] \<Rightarrow> idx c | keys \<Rightarrow> Some ((case idx c of None \<Rightarrow> [] | Some ks \<Rightarrow> ks) @ keys))" for idx
  proof (induction m arbitrary: idx)
    case (Cons e m)
    obtain k v where e: "e = (k, v)" by fastforce
    show ?case unfolding fold_simps comp_def Cons.IH
      by (auto simp: e index_edge_def push_key_def node_key_def Let_def split: list.splits option.splits)
  qed simp
  then show ?thesis by (auto split: list.splits)
qed

text \<open>A server whose caches are clean has the caches of its state.\<close>

definition caches_ok :: "native_server \<Rightarrow> bool" where
  "caches_ok sv \<longleftrightarrow> nc_dirty sv \<or>
     (let st = bs_state sv in
      nc_node_keys sv = index_by gn_corpus_id (ns_nodes st) \<and> nc_edge_keys sv = index_by ge_corpus_id (ns_edges st) \<and>
      nc_adjacent sv = fold index_edge (ns_edges st) Map.empty \<and>
      nc_vector_keys sv = index_by (\<lambda>v. corpus_namespace_key (vr_corpus_id v) (vr_namespace v)) (ns_vectors st) \<and>
      nc_passage_keys sv = index_by np_corpus_id (ns_passages st))"

lemma ensured:
  assumes "caches_ok sv"
  shows "bs_state (ensure_cache sv) = bs_state sv" "bs_vector_values (ensure_cache sv) = bs_vector_values sv"
    "nc_node_keys (ensure_cache sv) = index_by gn_corpus_id (ns_nodes (bs_state sv))"
    "nc_edge_keys (ensure_cache sv) = index_by ge_corpus_id (ns_edges (bs_state sv))"
    "nc_adjacent (ensure_cache sv) = fold index_edge (ns_edges (bs_state sv)) Map.empty"
    "nc_vector_keys (ensure_cache sv) = index_by (\<lambda>v. corpus_namespace_key (vr_corpus_id v) (vr_namespace v)) (ns_vectors (bs_state sv))"
    "nc_passage_keys (ensure_cache sv) = index_by np_corpus_id (ns_passages (bs_state sv))"
  using assms by (auto simp: caches_ok_def ensure_cache_def Let_def)

lemma ensured_ok: "caches_ok sv \<Longrightarrow> caches_ok (ensure_cache sv)"
  unfolding caches_ok_def [of "ensure_cache sv"] Let_def by (intro disjI2) (simp only: ensured simp_thms)

lemma dirty_ok: "caches_ok (mark_cache_dirty sv)"
  by (simp add: caches_ok_def mark_cache_dirty_def)

section \<open>What a request keeps\<close>

text \<open>\<open>m\<close> keeps \<open>P\<close>, also if it fails or panics half way.\<close>

definition keeps :: "('s \<Rightarrow> bool) \<Rightarrow> ('s, 'a, 'e) stateful \<Rightarrow> bool" where
  "keeps P m \<longleftrightarrow> (\<forall>s. P s \<longrightarrow> P (fst (m s)))"

named_theorems keeps_rules

lemma keeps_simple [keeps_rules]: "keeps P (st_ret x)" "keeps P (st_fail e)" "keeps P (st_lift r)"
  by (simp_all add: keeps_def st_ret_def st_fail_def st_lift_def)

lemma keeps_read [keeps_rules]: "keeps P (st_read f)"
  by (simp add: keeps_def st_read_def)

lemma keeps_then [keeps_rules]: "keeps P m \<Longrightarrow> (\<And>x. keeps P (f x)) \<Longrightarrow> keeps P (st_then m f)"
  unfolding keeps_def st_then_def by (fastforce split: prod.splits outcome.splits)

lemma keeps_each [keeps_rules]: "(\<And>x. keeps P (f x)) \<Longrightarrow> keeps P (st_each f xs)"
  by (induction xs) (simp_all add: keeps_simple keeps_then)

lemma keeps_fold [keeps_rules]: "(\<And>acc x. keeps P (f acc x)) \<Longrightarrow> keeps P (st_fold f acc xs)"
  by (induction xs arbitrary: acc) (simp_all add: keeps_simple keeps_then)

lemma keeps_modify: "(\<And>s. P s \<Longrightarrow> P (f s)) \<Longrightarrow> keeps P (st_modify f)"
  by (simp add: keeps_def st_modify_def)

locale store_contract =
  fixes P :: "native_server \<Rightarrow> bool" and ro :: "string list \<Rightarrow> string list" and ok :: "vector_record \<Rightarrow> bool"
  assumes node: "P sv \<Longrightarrow> P (insert_node ro n sv)"
    and edge: "P sv \<Longrightarrow> P (insert_edge ro e sv)"
    and vector: "P sv \<Longrightarrow> ok v \<Longrightarrow> P (insert_vector ro v sv)"
    and passage: "P sv \<Longrightarrow> P (with_state (\<lambda>st. st\<lparr>ns_passages := hash_insert ro (native_key (np_corpus_id p) (np_passage_id p)) p (ns_passages st)\<rparr>) sv)"
    and drop_graph: "P sv \<Longrightarrow> P (with_state (\<lambda>st. st\<lparr>ns_nodes := filter f (ns_nodes st), ns_edges := filter g (ns_edges st)\<rparr>) sv)"
    and drop_vectors: "P sv \<Longrightarrow> P (retain_vectors keep sv)"
    and drop_texts: "P sv \<Longrightarrow> P (with_state (\<lambda>st. st\<lparr>ns_passages := filter h (ns_passages st), ns_snapshots := ss\<rparr>) sv)"
    and checkpoint: "P sv \<Longrightarrow> P (with_state (\<lambda>st. st\<lparr>ns_checkpoints := cs\<rparr>) sv)"
    and dirty: "P sv \<Longrightarrow> P (mark_cache_dirty sv)"
    and cache: "P sv \<Longrightarrow> P (ensure_cache sv)"
begin

lemma drop_edges: "P sv \<Longrightarrow> P (with_state (\<lambda>st. st\<lparr>ns_edges := filter g (ns_edges st)\<rparr>) sv)"
  using drop_graph [where f = "\<lambda>_. True" and g = g] by (simp add: with_state_def)

lemma drop_only_passages: "P sv \<Longrightarrow> P (with_state (drop_passages c d) sv)"
  using drop_texts [of sv "ns_snapshots (bs_state sv)" "\<lambda>(_, p). \<not> (np_corpus_id p = c \<and> np_document_id p = d)"]
  by (simp add: with_state_def drop_passages_def retain_values_def)

lemma drop_corpus_texts:
  "P sv \<Longrightarrow> P (with_state (\<lambda>st. st\<lparr>ns_passages := filter h (ns_passages st), ns_snapshots := filter g (ns_snapshots st)\<rparr>) sv)"
  using drop_texts [of sv "filter g (ns_snapshots (bs_state sv))" h] by (simp add: with_state_def)

lemma snapshots: "P sv \<Longrightarrow> P (with_state (\<lambda>st. st\<lparr>ns_snapshots := f (ns_snapshots st)\<rparr>) sv)"
  using drop_texts [of sv "f (ns_snapshots (bs_state sv))" "\<lambda>_. True"] by (simp add: with_state_def)

lemma drop_document: "P sv \<Longrightarrow> P (with_state (drop_document_nodes c d) sv)"
proof -
  assume "P sv"
  from drop_graph [OF this] show ?thesis
    by (simp add: with_state_def drop_document_nodes_def Let_def retain_values_def)
qed

lemma keeps_delete: "keeps P (delete_node c i n)" "keeps P (delete_edge c i n)"
  by (simp_all add: keeps_def delete_node_def delete_edge_def Let_def hash_remove_def retain_values_def drop_graph drop_edges)

lemma keeps_index: "keeps P (index_passage ro c p)"
  unfolding index_passage_def
  by (intro keeps_rules keeps_modify)
    (drule passage [where p = "\<lparr>np_passage_id = _, np_corpus_id = c, np_document_id = _, np_text = _\<rparr>"], simp)

lemma keeps_hydrate: "keeps P (\<lambda>sv. (sv, hydrated_schema_nodes (bs_state sv) params))"
  by (simp add: keeps_def)

lemmas keeps_parts = keeps_rules keeps_delete keeps_index keeps_hydrate keeps_modify

lemma keeps_vector_upsert:
  assumes "\<And>r v. sd_vector sd r = Ok v \<Longrightarrow> ok v"
  shows "keeps P (vector_upsert ro sd params)"
proof -
  have "keeps P (st_then (parsed what (sd_vector sd r)) (\<lambda>v. st_modify (insert_vector ro v)))" for what r
    using assms [of r] vector
    by (auto simp: keeps_def st_then_def parsed_def st_lift_def map_err_def st_modify_def split: outcome.splits)
  then have "keeps P (st_each (\<lambda>r. st_then (parsed what (sd_vector sd r)) (\<lambda>v. st_modify (insert_vector ro v))) rs)" for what rs
    by (rule keeps_each)
  then show ?thesis unfolding vector_upsert_def by (rule keeps_then) (intro keeps_rules keeps_modify dirty)
qed

lemma handler_keeps:
  assumes "(name, handler) \<in> set (store_handlers ro sd)" "\<And>r v. sd_vector sd r = Ok v \<Longrightarrow> ok v"
  shows "keeps P (handler params)"
proof -
  note changes = node edge drop_vectors dirty cache drop_only_passages drop_document
  note defs = upsert_nodes_def upsert_edges_def get_node_def get_nodes_def get_edges_def get_adjacent_def delete_nodes_def
    delete_edges_def delete_by_document_def delete_by_corpus_def vector_delete_by_document_def
    projection_get_transitions_def projection_get_dangling_nodes_def projection_get_node_count_def
    lexical_index_passages_def lexical_delete_by_document_def
  show ?thesis using assms(1) unfolding store_handlers_def
    by (auto simp: defs parsed_def Let_def retain_values_def hash_remove_def
        intro!: keeps_parts changes drop_graph drop_corpus_texts keeps_vector_upsert assms(2))
qed

end

section \<open>The keys of the stored records\<close>

text \<open>Every record is stored once, under the key that its corpus and its identifier give.\<close>

definition keyed :: "('v \<Rightarrow> string) \<Rightarrow> (string \<times> 'v) list \<Rightarrow> bool" where
  "keyed f m \<longleftrightarrow> distinct (map fst m) \<and> (\<forall>(k, v) \<in> set m. k = f v)"

definition store_keys :: "native_state \<Rightarrow> bool" where
  "store_keys st \<longleftrightarrow>
     keyed (\<lambda>n. native_key (gn_corpus_id n) (gn_node_id n)) (ns_nodes st) \<and>
     keyed (\<lambda>e. native_key (ge_corpus_id e) (ge_edge_id e)) (ns_edges st) \<and>
     keyed (\<lambda>v. native_key (vr_corpus_id v) (vr_id v)) (ns_vectors st) \<and>
     keyed (\<lambda>p. native_key (np_corpus_id p) (np_passage_id p)) (ns_passages st)"

lemma keyed_insert: "iteration_order ro \<Longrightarrow> keyed f m \<Longrightarrow> k = f v \<Longrightarrow> keyed f (hash_insert ro k v m)"
  unfolding keyed_def using hash_insert(2,3) [of ro m k v] by auto

lemma keyed_filter: "keyed f m \<Longrightarrow> keyed f (filter g m)"
  by (auto simp: keyed_def distinct_map_filter)

lemmas server_changes = insert_node_def insert_edge_def insert_vector_def retain_vectors_def retain_values_def
  with_state_def mark_cache_dirty_def ensure_cache_def Let_def

interpretation keyed_store: store_contract "\<lambda>sv. iteration_order ro \<and> store_keys (bs_state sv)" ro "\<lambda>_. True" for ro
  by unfold_locales (auto simp: server_changes store_keys_def intro!: keyed_insert keyed_filter)

section \<open>What publication needs\<close>

definition owner :: "vector_blob_descriptor list \<Rightarrow> native_server \<Rightarrow> blob_owner" where
  "owner lineage sv = \<lparr>bo_state = bs_state sv, bo_values = bs_vector_values sv, bo_lineage = lineage\<rparr>"

lemma blob_inv_cong:
  "ns_vectors (bo_state bo') = ns_vectors (bo_state bo) \<Longrightarrow> ns_generation (bo_state bo') = ns_generation (bo_state bo) \<Longrightarrow>
   ns_vector_blob (bo_state bo') = ns_vector_blob (bo_state bo) \<Longrightarrow> bo_values bo' = bo_values bo \<Longrightarrow> bo_lineage bo' = bo_lineage bo \<Longrightarrow>
   blob_inv sha dir max_bytes bo \<Longrightarrow> blob_inv sha dir max_bytes bo'"
  by (simp add: blob_inv_def lineage_ok_def stored_vectors_def)

lemma blob_inv_insert:
  assumes "iteration_order ro" "list_all f64_normal (vr_values v)" "blob_inv sha dir max_bytes (owner ds sv)"
  shows "blob_inv sha dir max_bytes (owner ds (insert_vector ro v sv))"
proof -
  let ?m = "ns_vectors (bs_state sv)" and ?k = "native_key (vr_corpus_id v) (vr_id v)"
  from assms(3) obtain segs where inv: "distinct (map fst ?m)" "\<forall>(_, v) \<in> set ?m. vr_values v = []"
    "\<forall>key \<in> fst ` set ?m. \<exists>vs. bs_vector_values sv key = Some vs \<and> list_all f64_normal vs"
    "\<forall>d \<in> set ds. utf8_error 0 (vd_basename d) = None"
    "lineage_ok sha dir max_bytes (bs_state sv) ds segs" "resolved ?m (bs_vector_values sv) segs"
    by (auto simp: blob_inv_def owner_def stored_vectors_def)
  let ?sv = "insert_vector ro v sv"
  have m: "set (ns_vectors (bs_state ?sv)) = insert (?k, v\<lparr>vr_values := [], vr_blob_ref := None\<rparr>) {(k', v') \<in> set ?m. k' \<noteq> ?k}"
    and d: "distinct (map fst (ns_vectors (bs_state ?sv)))"
    using hash_insert(2,3) [OF assms(1) inv(1)] by (simp_all add: server_changes)
  have vv: "bs_vector_values ?sv = (bs_vector_values sv)(?k \<mapsto> vr_values v)" by (simp add: server_changes)
  have "lineage_ok sha dir max_bytes (bs_state ?sv) ds segs" using inv(5) by (simp add: lineage_ok_def server_changes)
  moreover have "resolved (ns_vectors (bs_state ?sv)) (bs_vector_values ?sv) segs"
    using inv(6) unfolding resolved_def m vv by auto
  ultimately show ?thesis unfolding blob_inv_def owner_def stored_vectors_def
    using inv(2-4) assms(2) d by (auto simp: m vv)
qed

lemma blob_inv_retain:
  assumes "blob_inv sha dir max_bytes (owner ds sv)"
  shows "blob_inv sha dir max_bytes (owner ds (retain_vectors keep sv))"
proof -
  let ?m = "ns_vectors (bs_state sv)" and ?sv = "retain_vectors keep sv"
  from assms obtain segs where inv: "distinct (map fst ?m)" "\<forall>(_, v) \<in> set ?m. vr_values v = []"
    "\<forall>key \<in> fst ` set ?m. \<exists>vs. bs_vector_values sv key = Some vs \<and> list_all f64_normal vs"
    "\<forall>d \<in> set ds. utf8_error 0 (vd_basename d) = None"
    "lineage_ok sha dir max_bytes (bs_state sv) ds segs" "resolved ?m (bs_vector_values sv) segs"
    by (auto simp: blob_inv_def owner_def stored_vectors_def)
  have m: "ns_vectors (bs_state ?sv) = retain_values keep ?m" by (simp add: server_changes)
  have same: "bs_vector_values ?sv key = bs_vector_values sv key" if "(key, v) \<in> set (retain_values keep ?m)" for key v
  proof -
    have "key \<notin> fst ` set (filter (\<lambda>(_, v). \<not> keep v) ?m)"
      using that eq_key_imp_eq_value [OF inv(1)] by (fastforce simp: retain_values_def)
    then show ?thesis by (simp add: retain_vectors_def Let_def)
  qed
  have "lineage_ok sha dir max_bytes (bs_state ?sv) ds segs" using inv(5) by (simp add: lineage_ok_def server_changes)
  moreover have "resolved (retain_values keep ?m) (bs_vector_values ?sv) segs"
    unfolding resolved_def
  proof (intro ballI, clarify)
    fix key v r assume v: "(key, v) \<in> set (retain_values keep ?m)" "vr_blob_ref v = Some r"
    then have "(key, v) \<in> set ?m" by (simp add: retain_values_def)
    with inv(6) v(2) show "vb_generation r \<in> ls_generation ` set segs \<and>
        (\<exists>vs. bs_vector_values ?sv key = Some vs \<and> (\<forall>seg \<in> set segs. ls_generation seg = vb_generation r \<longrightarrow> decode_ref seg r = Ok vs))"
      unfolding same [OF v(1)] resolved_def by blast
  qed
  moreover have "\<exists>vs. bs_vector_values ?sv key = Some vs \<and> list_all f64_normal vs" if "(key, v) \<in> set (retain_values keep ?m)" for key v
    using inv(3) that unfolding same [OF that] by (force simp: retain_values_def)
  moreover have "distinct (map fst (retain_values keep ?m))" "\<forall>(_, v) \<in> set (retain_values keep ?m). vr_values v = []"
    using inv(1,2) by (auto simp: retain_values_def distinct_map_filter)
  ultimately show ?thesis unfolding blob_inv_def owner_def stored_vectors_def blob_owner.select_convs m
    using inv(4) by (intro conjI ballI) auto
qed

interpretation published_store: store_contract
  "\<lambda>sv. iteration_order ro \<and> blob_inv sha dir max_bytes (owner lineage sv)" ro "\<lambda>v. list_all f64_normal (vr_values v)"
  for ro sha dir max_bytes lineage
  by (unfold_locales; (simp add: blob_inv_insert blob_inv_retain; fail)?;
    clarsimp simp: owner_def insert_node_def insert_edge_def with_state_def mark_cache_dirty_def ensure_cache_def Let_def;
    erule blob_inv_cong [rotated -1]; simp)

section \<open>Reads\<close>

lemma by_key_cmp: "by_key (\<lambda>a b. cmp (f a) (f b)) f"
  by (auto simp: by_key_def cmp_def)

lemma store_distinct:
  assumes "store_keys st"
  shows "distinct (map fst (ns_nodes st))" "distinct (map fst (ns_edges st))" "distinct (map fst (ns_vectors st))"
    "distinct (map fst (ns_passages st))"
  using assms by (simp_all add: store_keys_def keyed_def)

lemmas app_defs = st_then_def st_modify_def st_read_def st_ret_def st_lift_def

text \<open>The nodes of a corpus by identifier.\<close>

lemma get_nodes_reads:
  assumes "store_keys (bs_state sv)" "caches_ok sv"
  shows "get_nodes sd params sv = (ensure_cache sv, Ok (JArray (map (sd_node_json sd) (sort_key gn_node_id
    (filter (\<lambda>n. Option.bind (json_get ''layer'' params) json_str = None \<or> Some (gn_layer n) = Option.bind (json_get ''layer'' params) json_str)
      (filter (\<lambda>n. gn_corpus_id n = str_param params ''corpusId'') (map snd (ns_nodes (bs_state sv)))))))))"
proof -
  have "cached (nc_node_keys (ensure_cache sv)) c (ns_nodes (bs_state sv)) = filter (\<lambda>n. gn_corpus_id n = c) (map snd (ns_nodes (bs_state sv)))" for c
    using assms by (simp add: ensured cached_index store_distinct filter_map comp_def case_prod_unfold)
  then show ?thesis using assms(2)
    by (simp add: get_nodes_def app_defs ensured sort_by_key [OF by_key_cmp] Let_def)
qed

text \<open>The edges at a node by identifier, when no corpus has a colon in its name.\<close>

lemma node_key_eq: "CHR '':'' \<notin> set c \<Longrightarrow> CHR '':'' \<notin> set c' \<Longrightarrow> node_key c n = node_key c' n' \<longleftrightarrow> c = c' \<and> n = n'"
proof -
  assume c: "CHR '':'' \<notin> set c" "CHR '':'' \<notin> set c'"
  have "takeWhile (\<lambda>x. x \<noteq> CHR '':'') (xs @ CHR '':'' # ys) = xs" if "CHR '':'' \<notin> set xs" for xs ys
    using that by (subst takeWhile_append2) auto
  from this [OF c(1), of n] this [OF c(2), of n'] show ?thesis by (auto simp: node_key_def)
qed

lemma get_adjacent_reads:
  assumes "store_keys (bs_state sv)" "caches_ok sv"
    and "\<forall>e \<in> snd ` set (ns_edges (bs_state sv)). CHR '':'' \<notin> set (ge_corpus_id e)" "CHR '':'' \<notin> set (str_param params ''corpusId'')"
  shows "get_adjacent sd params sv = (ensure_cache sv, Ok (JArray (map (sd_edge_json sd) (sort_key ge_edge_id
    (filter (touches (str_param params ''corpusId'') {str_param params ''nodeId''}) (map snd (ns_edges (bs_state sv))))))))"
proof -
  let ?m = "ns_edges (bs_state sv)" and ?c = "str_param params ''corpusId''" and ?n = "str_param params ''nodeId''"
  let ?at = "\<lambda>e. node_key ?c ?n \<in> {node_key (ge_corpus_id e) (source_node_id e), node_key (ge_corpus_id e) (target_node_id e)}"
  have d: "distinct (map fst ?m)" using assms(1) by (simp add: store_distinct)
  have "cached (fold index_edge ?m Map.empty) (node_key ?c ?n) ?m = cached (index_by (\<lambda>e. if ?at e then [] else ''-'') ?m) [] ?m"
    unfolding cached_def index_edges_keys index_by_list
    by (auto intro!: arg_cong [where f = "List.map_filter (map_of ?m)"] split: list.splits)
  also have "\<dots> = map snd (filter (\<lambda>(_, e). ?at e) ?m)"
    unfolding cached_index [OF d] by (auto intro!: arg_cong [where f = "map snd"] filter_cong split: if_splits)
  also have "\<dots> = filter ?at (map snd ?m)" by (simp add: filter_map comp_def case_prod_unfold)
  also have "\<dots> = filter (touches ?c {?n}) (map snd ?m)"
    using assms(3,4) by (intro filter_cong) (auto simp: touches_def node_key_eq)
  finally show ?thesis using assms(2)
    by (simp add: get_adjacent_def app_defs ensured sort_by_key [OF by_key_cmp] Let_def)
qed

end
