(* ===== verification/Vector_Search.thy ===== *)
theory Vector_Search
  imports Native_Store_Correct Retrieval_Ranking_Correct
begin

text \<open>
  Exact vector search of the native process (\<^verbatim>\<open>bin/aira-graphdb-native.rs\<close>): the keys of a namespace are cut into
  chunks, each chunk is scanned by a thread with a heap of its own, and the heaps are merged. The threads share
  no state, so a search is a function of the number of threads. The heap is a parameter.
\<close>

section \<open>Scores\<close>

record scored_vector =
  sc_key :: string
  sc_score :: f64

definition scored_cmp :: "scored_vector \<Rightarrow> scored_vector \<Rightarrow> ordering" where
  "scored_cmp a b = then_with (total_cmp (sc_score b) (sc_score a)) (cmp (sc_key a) (sc_key b))"

definition safe_norm :: "f64 list \<Rightarrow> f64 option" where
  "safe_norm vs =
     (if list_ex (\<lambda>v. \<not> f64_is_finite v) vs then None
      else
        let norm_squared = f64_sum (map (\<lambda>v. f64_mul v v) vs) in
        if f64_is_finite norm_squared then Some (f64_sqrt norm_squared)
        else
          let scale = max_abs vs in
          if f64_eq scale (f64_zero False) then Some (f64_zero False)
          else Some (f64_mul (f64_sqrt (f64_sum (map (\<lambda>v. let scaled = f64_div v scale in f64_mul scaled scaled) vs))) scale))"

section \<open>The search\<close>

definition MAX_VECTOR_SEARCH_WORKERS :: nat where "MAX_VECTOR_SEARCH_WORKERS = 8"
definition MAX_QUERY_DIMENSIONS :: nat where "MAX_QUERY_DIMENSIONS = 4096"
definition MAX_VECTOR_SEARCH_TOP_K :: nat where "MAX_VECTOR_SEARCH_TOP_K = 10000"

definition is_better :: "scored_vector \<Rightarrow> scored_vector \<Rightarrow> bool" where
  "is_better candidate worst =
     (case total_cmp (sc_score candidate) (sc_score worst) of
        Greater \<Rightarrow> True | Less \<Rightarrow> False | Equal \<Rightarrow> sc_key candidate < sc_key worst)"

definition retain_top_k :: "('h, scored_vector) heap_ops \<Rightarrow> nat \<Rightarrow> scored_vector \<Rightarrow> 'h \<Rightarrow> 'h" where
  "retain_top_k H top_k candidate heap =
     (if top_k = 0 then heap
      else if heap_len H heap < top_k then heap_push H candidate heap
      else
        (case heap_peek H heap of
           None \<Rightarrow> heap
         | Some worst \<Rightarrow> if is_better candidate worst then heap_push H candidate (heap_pop H heap) else heap))"

record vector_query =
  vq_vectors :: "(string \<times> vector_record) list"
  vq_values :: vector_values
  vq_query :: "f64 list"
  vq_norm :: f64
  vq_threshold :: "f64 option"

text \<open>The candidate that a key gives, if there is a record and its score reaches the threshold.\<close>

definition score_key :: "vector_query \<Rightarrow> string \<Rightarrow> scored_vector option" where
  "score_key q key =
     (case map_of (vq_vectors q) key of
        None \<Rightarrow> None
      | Some vrec \<Rightarrow>
          let score = (case vq_values q (native_key (vr_corpus_id vrec) (vr_id vrec)) of
                None \<Rightarrow> f64_zero False
              | Some vector \<Rightarrow> cosine_with_query_norm (vq_query q) (vq_norm q) vector)
          in if (case vq_threshold q of None \<Rightarrow> True | Some minimum \<Rightarrow> f64_le minimum score)
             then Some \<lparr>sc_key = key, sc_score = score\<rparr> else None)"

definition scan_vector_chunk :: "('h, scored_vector) heap_ops \<Rightarrow> vector_query \<Rightarrow> nat \<Rightarrow> string list \<Rightarrow> 'h" where
  "scan_vector_chunk H q top_k keys =
     fold (\<lambda>key heap. case score_key q key of None \<Rightarrow> heap | Some c \<Rightarrow> retain_top_k H top_k c heap) keys (heap_new H)"

text \<open>\<^verbatim>\<open>chunks(n)\<close> of a slice; \<^verbatim>\<open>chunks(0)\<close> panics and does not occur.\<close>

function chunks :: "nat \<Rightarrow> 'a list \<Rightarrow> 'a list list" where
  "chunks n xs = (if n = 0 \<or> xs = [] then [] else take n xs # chunks n (drop n xs))"
  by pat_completeness auto
termination
  by (relation "measure (\<lambda>(_, xs). length xs)") auto

declare chunks.simps [simp del]

definition div_ceil :: "nat \<Rightarrow> nat \<Rightarrow> nat" where
  "div_ceil a b = (a + b - 1) div b"

definition vector_search_candidates ::
  "('h, scored_vector) heap_ops \<Rightarrow> nat \<Rightarrow> (string \<times> vector_record) list \<Rightarrow> vector_values \<Rightarrow> f64 list \<Rightarrow> f64 option \<Rightarrow> nat \<Rightarrow>
   string list \<Rightarrow> scored_vector list"
where
  "vector_search_candidates H available vectors vv query threshold top_k keys =
     (if keys = [] \<or> top_k = 0 then []
      else
        let query_norm = (case safe_norm query of Some n \<Rightarrow> n | None \<Rightarrow> f64_zero False);
            worker_count = min (length keys) (min available MAX_VECTOR_SEARCH_WORKERS);
            chunk_size = div_ceil (length keys) worker_count;
            q = \<lparr>vq_vectors = vectors, vq_values = vv, vq_query = query, vq_norm = query_norm, vq_threshold = threshold\<rparr>;
            partials = map (scan_vector_chunk H q top_k) (chunks chunk_size keys);
            heap = fold (\<lambda>partial heap. fold (retain_top_k H top_k) (into_vec H partial) heap) partials (heap_new H)
        in sort_by (\<lambda>l r. then_with (total_cmp (sc_score r) (sc_score l)) (cmp (sc_key l) (sc_key r))) (into_vec H heap))"

section \<open>The request\<close>

definition search_top_k :: "json \<Rightarrow> (nat, app_error) outcome" where
  "search_top_k params =
     and_then (case json_get ''topK'' params of
                 None \<Rightarrow> Ok 10
               | Some v \<Rightarrow> ok_or (as_u64 v) (execution_client_error ''topK must be a positive integer'')) (\<lambda>top_k.
     if top_k = 0 \<or> unat top_k > MAX_VECTOR_SEARCH_TOP_K
     then Err (execution_client_error (''topK must be in [1, '' @ show_nat MAX_VECTOR_SEARCH_TOP_K @ '']''))
     else Ok (unat top_k))"

definition search_query :: "json \<Rightarrow> (f64 list, app_error) outcome" where
  "search_query params =
     and_then (ok_or (Option.bind (json_get ''queryVector'' params) as_array)
         (execution_client_error ''queryVector must be an array'')) (\<lambda>query_values.
     if query_values = [] \<or> length query_values > MAX_QUERY_DIMENSIONS
     then Err (execution_client_error (''queryVector dimensions must be in [1, '' @ show_nat MAX_QUERY_DIMENSIONS @ '']''))
     else traverse (\<lambda>v. ok_or (finite_f64 v) (execution_client_error ''queryVector must contain only finite numbers'')) query_values)"

definition hit_json :: "(string \<times> vector_record) list \<Rightarrow> scored_vector \<Rightarrow> json option" where
  "hit_json vectors hit = map_option (\<lambda>v. JObject [(''id'', JString (vr_id v)), (''metadata'', vr_metadata v), (''score'', json_f64 (sc_score hit))])
     (map_of vectors (sc_key hit))"

definition vector_search :: "('h, scored_vector) heap_ops \<Rightarrow> nat \<Rightarrow> json \<Rightarrow> json app" where
  "vector_search H available params =
     (let corpus_id = str_param params ''corpusId''; namespace = str_param params ''namespace'' in
      st_then (st_lift (search_top_k params)) (\<lambda>top_k.
      let threshold = Option.bind (json_get ''threshold'' params) as_f64 in
      st_then (st_lift (search_query params)) (\<lambda>query.
      st_then (st_modify ensure_cache) (\<lambda>_.
      st_read (\<lambda>sv.
        let keys = (case nc_vector_keys sv (corpus_namespace_key corpus_id namespace) of None \<Rightarrow> [] | Some keys \<Rightarrow> keys);
            vectors = ns_vectors (bs_state sv);
            hits = vector_search_candidates H available vectors (bs_vector_values sv) query threshold top_k keys
        in JArray (List.map_filter (hit_json vectors) hits))))))"

section \<open>The heap\<close>

definition scored_rank :: "scored_vector \<Rightarrow> int \<times> string" where
  "scored_rank c = (- total_key (sc_score c), sc_key c)"

lemma scored_cmp_key: "by_key scored_cmp scored_rank"
  by (auto simp: by_key_def scored_cmp_def scored_rank_def total_cmp_def then_with_def cmp_def less_prod_def
      split: ordering.splits if_splits)

lemma is_better_rank: "is_better c w \<longleftrightarrow> scored_rank c < scored_rank w"
  by (auto simp: is_better_def scored_rank_def total_cmp_def cmp_def less_prod_def)

text \<open>The heap holds the best \<open>k\<close> of the candidates \<open>cs\<close>.\<close>

definition holds :: "('h, scored_vector) heap_ops \<Rightarrow> nat \<Rightarrow> scored_vector list \<Rightarrow> 'h \<Rightarrow> bool" where
  "holds H k cs h \<longleftrightarrow> sort (map scored_rank (into_vec H h)) = take k (sort (map scored_rank cs)) \<and> mset (into_vec H h) \<subseteq># mset cs"

lemma insort_butlast:
  fixes xs :: "'k::linorder list"
  assumes "sorted xs" "xs \<noteq> []" "x < last xs"
  shows "insort x xs = insort x (butlast xs) @ [last xs]"
proof -
  obtain ys l where xs: "xs = ys @ [l]" using assms(2) by (cases xs rule: rev_cases) auto
  have "sort (x # xs) = insort x ys @ [l]"
    using assms by (intro properties_for_sort) (auto simp: xs sorted_append sorted_insort set_insort_key)
  with assms(1) show ?thesis by (simp add: sorted_sort_id xs)
qed

text \<open>Only the first \<open>k\<close> of a part can be among the first \<open>k\<close> of the whole.\<close>

lemma take_sort_append:
  fixes xs ys :: "'k::linorder list"
  shows "take k (sort (xs @ take k (sort ys))) = take k (sort (xs @ ys))"
proof -
  have ins: "foldl (\<lambda>ks x. insort x ks) ks xs = sort (ks @ xs)" if "sorted ks" for ks
    using foldl_insort [OF that, of "\<lambda>x. x" xs] by simp
  have swap: "sort (us @ vs) = sort (vs @ us)" for us vs :: "'k list"
    by (rule properties_for_sort) simp_all
  have "take k (sort (take k (sort ys) @ xs)) = take k (sort (sort ys @ xs))"
    using take_foldl_insort [of k "\<lambda>x. x" "sort ys" xs] by (simp add: ins)
  moreover have "sort (sort ys @ xs) = sort (ys @ xs)" by (rule properties_for_sort) simp_all
  ultimately show ?thesis by (simp only: swap [of xs])
qed

lemma map_filter_append: "List.map_filter f (xs @ ys) = List.map_filter f xs @ List.map_filter f ys"
  by (simp add: List.map_filter_def)

text \<open>What \<^verbatim>\<open>BinaryHeap<ScoredVector>\<close> promises.\<close>

locale scored_heap =
  fixes H :: "('h, scored_vector) heap_ops"
  assumes new: "into_vec H (heap_new H) = []"
    and len: "heap_len H h = length (into_vec H h)"
    and push: "mset (into_vec H (heap_push H x h)) = add_mset x (mset (into_vec H h))"
    and peek: "into_vec H h \<noteq> [] \<Longrightarrow> \<exists>x. heap_peek H h = Some x \<and> x \<in> set (into_vec H h) \<and>
          (\<forall>y \<in> set (into_vec H h). scored_cmp y x \<noteq> Greater)"
    and pop: "heap_peek H h = Some x \<Longrightarrow> into_vec H h \<noteq> [] \<Longrightarrow>
          mset (into_vec H (heap_pop H h)) = mset (into_vec H h) - {#x#}"
begin

lemma holds_new: "holds H k [] (heap_new H)"
  by (simp add: holds_def new)

lemma holds_cong: "mset cs = mset ds \<Longrightarrow> holds H k cs h \<longleftrightarrow> holds H k ds h"
  unfolding holds_def by (metis mset_map properties_for_sort sorted_sort mset_sort)

lemma worst_is_last:
  assumes "into_vec H h \<noteq> []"
  shows "\<exists>x. heap_peek H h = Some x \<and> x \<in> set (into_vec H h) \<and> scored_rank x = last (sort (map scored_rank (into_vec H h)))"
proof -
  let ?ks = "sort (map scored_rank (into_vec H h))"
  from peek [OF assms] obtain x where x: "heap_peek H h = Some x" "x \<in> set (into_vec H h)"
    and le: "\<forall>y \<in> set (into_vec H h). scored_cmp y x \<noteq> Greater" by blast
  have x3: "scored_rank y \<le> scored_rank x" if "y \<in> set (into_vec H h)" for y
    using bspec [OF le that] scored_cmp_key [unfolded by_key_def, rule_format, of y x] by (simp add: not_less)
  have "last ?ks \<in> set ?ks" using assms by (intro last_in_set) (simp flip: length_greater_0_conv)
  then have "last ?ks \<le> scored_rank x" using x3 by auto
  moreover have "scored_rank x \<le> last ?ks" using x(2) by (intro sorted_last) simp_all
  ultimately show ?thesis using x by auto
qed

lemma holds_retain:
  assumes "holds H k cs h"
  shows "holds H k (cs @ [c]) (retain_top_k H k c h)"
proof -
  let ?ks = "sort (map scored_rank cs)" and ?hs = "sort (map scored_rank (into_vec H h))"
  have ins: "sort (map scored_rank (cs @ [c])) = insort (scored_rank c) ?ks"
    by (rule sort_map_insort) simp
  have ne: "?hs \<noteq> []" if "into_vec H h \<noteq> []" using that by (metis length_0_conv length_map length_sort)
  have hs: "?hs = take k ?ks" and sub: "mset (into_vec H h) \<subseteq># mset cs" using assms by (simp_all add: holds_def)
  have n: "length (into_vec H h) = min k (length cs)" using hs by (metis length_map length_sort length_take min.commute)
  have goal: "holds H k (cs @ [c]) h'" if "sort (map scored_rank (into_vec H h')) = take k (insort (scored_rank c) ?hs)"
    "mset (into_vec H h') \<subseteq># add_mset c (mset (into_vec H h))" for h'
    using that sub unfolding holds_def ins hs take_insort
    by (auto intro: subset_mset.order_trans)
  show ?thesis
  proof (cases "k = 0")
    case True
    with goal [of h] show ?thesis by (simp add: retain_top_k_def hs)
  next
    case k: False
    show ?thesis
    proof (cases "length (into_vec H h) < k")
      case True
      have "sort (map scored_rank (into_vec H (heap_push H c h))) = insort (scored_rank c) ?hs"
        by (rule sort_map_insort) (simp add: push)
      with True k show ?thesis
        by (intro goal) (simp_all add: retain_top_k_def len push)
    next
      case False
      then have full: "length (into_vec H h) = k" "into_vec H h \<noteq> []" using n k by auto
      from worst_is_last [OF full(2)] obtain w where w: "heap_peek H h = Some w" "w \<in> set (into_vec H h)"
        "scored_rank w = last ?hs" by blast
      have len_hs: "length ?hs = k" using full by simp
      show ?thesis
      proof (cases "is_better c w")
        case True
        let ?h' = "heap_push H c (heap_pop H h)"
        have m: "mset (into_vec H ?h') = add_mset c (mset (into_vec H h) - {#w#})" by (simp add: push pop [OF w(1) full(2)])
        have "sort (map scored_rank (into_vec H (heap_pop H h))) = butlast ?hs"
          using pop [OF w(1) full(2)] w(2,3) full(2)
          by (intro sort_remove_last) (simp_all add: image_mset_Diff flip: length_greater_0_conv)
        then have "sort (map scored_rank (into_vec H ?h')) = insort (scored_rank c) (butlast ?hs)"
          using sort_map_insort [of scored_rank "into_vec H ?h'" c "into_vec H (heap_pop H h)"] by (simp add: push)
        also have "\<dots> = take k (insort (scored_rank c) ?hs)"
        proof -
          have lt: "scored_rank c < last ?hs" using True w(3) by (simp add: is_better_rank)
          have "insort (scored_rank c) ?hs = insort (scored_rank c) (butlast ?hs) @ [last ?hs]"
            using lt ne [OF full(2)] by (intro insort_butlast) simp_all
          then show ?thesis using len_hs k by simp
        qed
        finally show ?thesis using True k False w(1) m
          by (intro goal) (auto simp: retain_top_k_def len intro: subset_mset.order_trans [OF _ diff_subset_eq_self])
      next
        case worse: False
        then have "last ?hs \<le> scored_rank c" using w(3) by (simp add: is_better_rank not_less)
        then have "take k (insort (scored_rank c) ?hs) = ?hs" using len_hs ne [OF full(2)] by (intro take_insort_last) simp_all
        with worse k False w(1) show ?thesis by (intro goal) (simp_all add: retain_top_k_def len)
      qed
    qed
  qed
qed

lemma holds_fold: "holds H k cs h \<Longrightarrow> holds H k (cs @ ds) (fold (retain_top_k H k) ds h)"
proof (induction ds arbitrary: cs h)
  case (Cons d ds)
  from Cons.IH [OF holds_retain [OF Cons.prems]] show ?case by simp
qed simp

lemma holds_scan: "holds H k (List.map_filter (score_key q) keys) (scan_vector_chunk H q k keys)"
proof -
  have "fold (\<lambda>key heap. case score_key q key of None \<Rightarrow> heap | Some c \<Rightarrow> retain_top_k H k c heap) keys h =
      fold (retain_top_k H k) (List.map_filter (score_key q) keys) h" for h
    by (induction keys arbitrary: h) (auto simp: List.map_filter_simps split: option.splits)
  then show ?thesis using holds_fold [OF holds_new, of k "List.map_filter (score_key q) keys"]
    by (simp add: scan_vector_chunk_def)
qed

text \<open>Merging a heap with the best of some candidates is as good as offering all of them.\<close>

lemma holds_merge:
  assumes "holds H k cs h" "holds H k ds p"
  shows "holds H k (cs @ ds) (fold (retain_top_k H k) (into_vec H p) h)"
proof -
  from holds_fold [OF assms(1), of "into_vec H p"]
  have m: "sort (map scored_rank (into_vec H (fold (retain_top_k H k) (into_vec H p) h))) =
      take k (sort (map scored_rank cs @ map scored_rank (into_vec H p)))"
    "mset (into_vec H (fold (retain_top_k H k) (into_vec H p) h)) \<subseteq># mset cs + mset (into_vec H p)"
    by (simp_all add: holds_def)
  have "take k (sort (map scored_rank cs @ map scored_rank (into_vec H p))) =
      take k (sort (map scored_rank cs @ sort (map scored_rank (into_vec H p))))"
    by (rule arg_cong [of _ _ "take k"], rule properties_for_sort) simp_all
  also have "\<dots> = take k (sort (map scored_rank cs @ map scored_rank ds))"
    using assms(2) by (simp add: holds_def take_sort_append)
  finally have "take k (sort (map scored_rank cs @ map scored_rank (into_vec H p))) = take k (sort (map scored_rank (cs @ ds)))"
    by simp
  moreover have "mset (into_vec H p) \<subseteq># mset ds" using assms(2) by (simp add: holds_def)
  ultimately show ?thesis using m by (auto simp: holds_def intro: subset_mset.order_trans)
qed

lemma holds_partials:
  "holds H k cs h \<Longrightarrow> holds H k (cs @ List.map_filter (score_key q) (concat kss))
     (fold (\<lambda>partial heap. fold (retain_top_k H k) (into_vec H partial) heap) (map (scan_vector_chunk H q k) kss) h)"
proof (induction kss arbitrary: cs h)
  case (Cons p kss)
  from Cons.IH [OF holds_merge [OF Cons.prems holds_scan]] show ?case by (simp add: map_filter_append)
qed (simp add: List.map_filter_simps)

end

section \<open>The best candidates\<close>

lemma concat_chunks: "0 < n \<Longrightarrow> concat (chunks n xs) = xs"
proof (induction n xs rule: chunks.induct)
  case (1 n xs)
  then show ?case by (subst chunks.simps) simp
qed

lemma div_ceil_pos: "0 < a \<Longrightarrow> 0 < b \<Longrightarrow> 0 < div_ceil a b"
  by (simp add: div_ceil_def div_greater_zero_iff)

lemma score_key_key: "score_key q key = Some c \<Longrightarrow> sc_key c = key"
  by (auto simp: score_key_def Let_def split: option.splits if_splits)

lemma candidates_distinct: "distinct keys \<Longrightarrow> distinct (map sc_key (List.map_filter (score_key q) keys))"
proof (induction keys)
  case (Cons k keys)
  have "sc_key ` set (List.map_filter (score_key q) keys) \<subseteq> set keys"
    by (auto simp: List.map_filter_def dest: score_key_key)
  with Cons show ?case by (auto simp: List.map_filter_simps dest: score_key_key split: option.splits)
qed (simp add: List.map_filter_simps)

definition search_reference :: "(string \<times> vector_record) list \<Rightarrow> vector_values \<Rightarrow> f64 list \<Rightarrow> f64 option \<Rightarrow> nat \<Rightarrow> string list \<Rightarrow> scored_vector list"
where
  "search_reference vectors vv query threshold top_k keys =
     (let q = \<lparr>vq_vectors = vectors, vq_values = vv, vq_query = query,
            vq_norm = (case safe_norm query of Some n \<Rightarrow> n | None \<Rightarrow> f64_zero False), vq_threshold = threshold\<rparr>
      in take top_k (sort_key scored_rank (List.map_filter (score_key q) keys)))"

lemma held_sorted:
  assumes "holds H k cs h" "distinct (map sc_key cs)"
  shows "sort_key scored_rank (into_vec H h) = take k (sort_key scored_rank cs)"
proof (rule map_inj_on)
  show "map scored_rank (sort_key scored_rank (into_vec H h)) = map scored_rank (take k (sort_key scored_rank cs))"
    using assms(1) by (simp add: holds_def map_sort_key flip: take_map)
  have "set (into_vec H h) \<subseteq> set cs" using assms(1) unfolding holds_def by (metis set_mset_mono set_mset_mset)
  then have "set (sort_key scored_rank (into_vec H h)) \<union> set (take k (sort_key scored_rank cs)) \<subseteq> set cs"
    using set_take_subset [of k "sort_key scored_rank cs"] by auto
  moreover have "inj_on scored_rank (set cs)"
    using assms(2) by (auto simp: inj_on_def scored_rank_def distinct_map)
  ultimately show "inj_on scored_rank (set (sort_key scored_rank (into_vec H h)) \<union> set (take k (sort_key scored_rank cs)))"
    by (rule inj_on_subset [rotated])
qed

text \<open>The parallel search returns the best candidates in order, however many threads there are and whatever heap is used.\<close>

lemma parallel_search:
  assumes "scored_heap H" "0 < available" "distinct keys"
  shows "vector_search_candidates H available vectors vv query threshold top_k keys =
    search_reference vectors vv query threshold top_k keys"
proof (cases "keys = [] \<or> top_k = 0")
  case True
  then show ?thesis by (auto simp: vector_search_candidates_def search_reference_def List.map_filter_simps Let_def)
next
  case False
  let ?q = "\<lparr>vq_vectors = vectors, vq_values = vv, vq_query = query,
      vq_norm = (case safe_norm query of Some n \<Rightarrow> n | None \<Rightarrow> f64_zero False), vq_threshold = threshold\<rparr>"
  let ?n = "div_ceil (length keys) (min (length keys) (min available MAX_VECTOR_SEARCH_WORKERS))"
  have "0 < ?n" using False assms(2) by (intro div_ceil_pos) (auto simp: MAX_VECTOR_SEARCH_WORKERS_def)
  with scored_heap.holds_partials [OF assms(1) scored_heap.holds_new [OF assms(1)], of top_k ?q "chunks ?n keys"]
  have "holds H top_k (List.map_filter (score_key ?q) keys)
      (fold (\<lambda>partial heap. fold (retain_top_k H top_k) (into_vec H partial) heap)
        (map (scan_vector_chunk H ?q top_k) (chunks ?n keys)) (heap_new H))"
    by (simp add: concat_chunks)
  from held_sorted [OF this candidates_distinct [OF assms(3)]] show ?thesis
    using False by (simp add: vector_search_candidates_def search_reference_def Let_def
        sort_by_key [OF scored_cmp_key, unfolded scored_cmp_def])
qed

section \<open>A heap\<close>

fun worst_of :: "scored_vector \<Rightarrow> scored_vector list \<Rightarrow> scored_vector" where
  "worst_of x [] = x"
| "worst_of x (y # ys) = worst_of (if scored_cmp x y = Less then y else x) ys"

definition scan_heap :: "(scored_vector list, scored_vector) heap_ops" where
  "scan_heap = \<lparr>heap_new = [], heap_push = (#), heap_pop = (\<lambda>h. case h of [] \<Rightarrow> [] | x # xs \<Rightarrow> remove1 (worst_of x xs) h),
     heap_peek = (\<lambda>h. case h of [] \<Rightarrow> None | x # xs \<Rightarrow> Some (worst_of x xs)), heap_len = length, into_vec = (\<lambda>h. h)\<rparr>"

lemma worst_of_max: "worst_of x ys \<in> set (x # ys) \<and> (\<forall>y \<in> set (x # ys). scored_rank y \<le> scored_rank (worst_of x ys))"
proof (induction ys arbitrary: x)
  case (Cons y ys)
  have "scored_cmp x y = Less \<longleftrightarrow> scored_rank x < scored_rank y"
    using scored_cmp_key [unfolded by_key_def, rule_format, of x y] by simp
  with Cons.IH [of "if scored_cmp x y = Less then y else x"] show ?case
    by (auto split: if_splits dest: less_imp_le intro: order_trans)
qed simp

interpretation scan_heap: scored_heap scan_heap
proof
  fix h :: "scored_vector list"
  assume "into_vec scan_heap h \<noteq> []"
  then obtain y ys where h: "h = y # ys" by (cases h) (auto simp: scan_heap_def)
  have "scored_cmp z (worst_of y ys) \<noteq> Greater" if "z \<in> set (y # ys)" for z
    using worst_of_max [of y ys] that scored_cmp_key [unfolded by_key_def, rule_format, of z "worst_of y ys"]
    by (auto simp: not_less)
  then show "\<exists>x. heap_peek scan_heap h = Some x \<and> x \<in> set (into_vec scan_heap h) \<and>
      (\<forall>y \<in> set (into_vec scan_heap h). scored_cmp y x \<noteq> Greater)"
    using worst_of_max [of y ys] by (auto simp: h scan_heap_def)
qed (auto simp: scan_heap_def split: list.splits)

section \<open>Requests\<close>

definition namespace_keys :: "(string \<times> vector_record) list \<Rightarrow> string \<Rightarrow> string list" where
  "namespace_keys vectors key = map fst (filter (\<lambda>(_, v). corpus_namespace_key (vr_corpus_id v) (vr_namespace v) = key) vectors)"

lemma vector_search_exact:
  assumes "scored_heap H" "0 < available" "store_keys (bs_state sv)" "caches_ok sv"
    and "search_top_k params = Ok top_k" "search_query params = Ok query"
  shows "vector_search H available params sv =
    (ensure_cache sv, Ok (JArray (List.map_filter (hit_json (ns_vectors (bs_state sv)))
      (search_reference (ns_vectors (bs_state sv)) (bs_vector_values sv) query (Option.bind (json_get ''threshold'' params) as_f64) top_k
        (namespace_keys (ns_vectors (bs_state sv)) (corpus_namespace_key (str_param params ''corpusId'') (str_param params ''namespace'')))))))"
proof -
  have "distinct (namespace_keys (ns_vectors (bs_state sv)) key)" for key
    using store_distinct(3) [OF assms(3)] by (simp add: namespace_keys_def distinct_map_filter)
  note exact = parallel_search [OF assms(1,2) this]
  show ?thesis using assms(4-6)
    by (simp add: vector_search_def app_defs ensured index_by_list exact Let_def flip: namespace_keys_def)
qed

text \<open>C13:
  A vector search returns the best \<open>topK\<close> of the vectors of the namespace that reach the threshold, by decreasing
  score and then by key, as a sequential scan and a sort find them. The number of threads and
  the heap do not matter, and the search changes nothing but the caches.
\<close>

theorem vector_search_returns_best:
  assumes "scored_heap H" "0 < available" "store_keys (bs_state sv)" "caches_ok sv"
    and "search_top_k params = Ok top_k" "search_query params = Ok query"
  shows "vector_search H available params sv =
    (ensure_cache sv, Ok (JArray (List.map_filter (hit_json (ns_vectors (bs_state sv)))
      (search_reference (ns_vectors (bs_state sv)) (bs_vector_values sv) query (Option.bind (json_get ''threshold'' params) as_f64) top_k
        (namespace_keys (ns_vectors (bs_state sv)) (corpus_namespace_key (str_param params ''corpusId'') (str_param params ''namespace'')))))))"
  using assms by (rule vector_search_exact)

end
