(* ===== verification/Native_Properties.thy ===== *)
theory Native_Properties
  imports Vector_Search Vector_Properties Retrieval_Sample
begin

text \<open>
  Properties of the store requests of the native process: searches, deletions, and what a commit publishes after any
  requests; with small stores on which they are evaluated.
\<close>

section \<open>A fresh server\<close>

definition fresh_server :: "native_state \<Rightarrow> vector_values \<Rightarrow> native_server" where
  "fresh_server st vv =
     \<lparr>bs_state = st, bs_vector_values = vv, bs_snapshot_indices = Map.empty, bs_edge_counts = Map.empty,
      bs_endpoint_counts = Map.empty, bs_catalog_ready = False, bs_session_deadline = None, bs_session_owner_remaining_ms = None,
      bs_access_mode = NormalMode, nc_dirty = True, nc_node_keys = Map.empty, nc_edge_keys = Map.empty,
      nc_projection_order = Map.empty, nc_adjacent = Map.empty, nc_vector_keys = Map.empty, nc_passage_keys = Map.empty\<rparr>"

definition vector_state :: "(string \<times> vector_record) list \<Rightarrow> native_state" where
  "vector_state vectors = \<lparr>ns_nodes = [], ns_edges = [], ns_vectors = vectors, ns_passages = [], ns_snapshots = [],
     ns_checkpoints = [], ns_generation = 0, ns_vector_blob = None, ns_commit_evidence = None\<rparr>"

lemma fresh_caches: "caches_ok (fresh_server st vv)"
  by (simp add: caches_ok_def fresh_server_def)

section \<open>A vector search\<close>

text \<open>A store with one vector, of corpus \<open>a:b\<close> and namespace \<open>c\<close>.\<close>

definition other_vector :: vector_record where
  "other_vector = \<lparr>vr_id = ''w'', vr_corpus_id = ''a:b'', vr_namespace = ''c'', vr_values = [], vr_blob_ref = None, vr_metadata = JNull\<rparr>"

definition other_server :: native_server where
  "other_server = fresh_server (vector_state [(''a:b:w'', other_vector)]) [''a:b:w'' \<mapsto> [one64]]"

definition search_params :: json where
  "search_params = JObject [(''corpusId'', JString ''a''), (''namespace'', JString ''b:c''),
     (''queryVector'', JArray [JNumber (Float one64)])]"

lemma other_keys: "store_keys (bs_state other_server)" "caches_ok other_server"
  by (simp_all add: other_server_def fresh_caches) (simp add: fresh_server_def store_keys_def keyed_def vector_state_def other_vector_def native_key_def)

lemma search_params_ok: "search_top_k search_params = Ok 10" "search_query search_params = Ok [one64]"
  by (simp_all add: search_top_k_def search_query_def search_params_def json_get_def as_array_def as_f64_def finite_f64_def ok_or_def
      f64_is_finite_def MAX_VECTOR_SEARCH_TOP_K_def MAX_QUERY_DIMENSIONS_def)

lemma other_cosine: "safe_norm [one64] = Some one64" "cosine_with_query_norm [one64] one64 [one64] = one64"
  by (simp_all add: safe_norm_def cosine_with_query_norm_def sample_f64 del: f64_add.simps f64_mul.simps f64_div.simps f64_le.simps)

lemma other_hits:
  "search_reference (ns_vectors (bs_state other_server)) (bs_vector_values other_server) [one64]
      (Option.bind (json_get ''threshold'' search_params) as_f64) 10
      (namespace_keys (ns_vectors (bs_state other_server))
        (corpus_namespace_key (str_param search_params ''corpusId'') (str_param search_params ''namespace''))) =
    [\<lparr>sc_key = ''a:b:w'', sc_score = one64\<rparr>]"
  by (simp add: search_reference_def namespace_keys_def other_server_def fresh_server_def vector_state_def other_vector_def
      search_params_def str_param_def json_get_def json_str_def corpus_namespace_key_def native_key_def List.map_filter_simps score_key_def
      other_cosine Let_def)

theorem vector_search_returns_best_witness:
  "snd (vector_search scan_heap 4 search_params other_server) = Ok (JArray [JObject [(''id'', JString ''w''), (''metadata'', JNull),
     (''score'', json_f64 one64)]])"
  using vector_search_returns_best [OF scan_heap.scored_heap_axioms _ other_keys search_params_ok, of 4]
  by (simp add: other_hits List.map_filter_simps hit_json_def)
    (simp add: other_server_def fresh_server_def vector_state_def other_vector_def)

text \<open>C27:
  The key of a namespace joins the corpus and the namespace with a colon, and names may contain colons. A
  search in one corpus can return a vector of another one.
\<close>

theorem vector_search_crosses_corpora:
  "\<exists>sv params. store_keys (bs_state sv) \<and> caches_ok sv \<and> str_param params ''corpusId'' = ''a'' \<and>
     list_all (\<lambda>(_, v). vr_corpus_id v = ''a:b'') (ns_vectors (bs_state sv)) \<and>
     snd (vector_search scan_heap 1 params sv) =
       Ok (JArray [JObject [(''id'', JString ''w''), (''metadata'', JNull), (''score'', json_f64 one64)]])"
proof (intro exI conjI)
  show "store_keys (bs_state other_server)" "caches_ok other_server" by (fact other_keys)+
  show "str_param search_params ''corpusId'' = ''a''" by (simp add: search_params_def str_param_def json_get_def json_str_def)
  show "list_all (\<lambda>(_, v). vr_corpus_id v = ''a:b'') (ns_vectors (bs_state other_server))"
    by (simp add: other_server_def fresh_server_def vector_state_def other_vector_def)
  show "snd (vector_search scan_heap 1 search_params other_server) =
      Ok (JArray [JObject [(''id'', JString ''w''), (''metadata'', JNull), (''score'', json_f64 one64)]])"
    using vector_search_exact [OF scan_heap.scored_heap_axioms _ other_keys search_params_ok, of 1]
    by (simp add: other_hits List.map_filter_simps hit_json_def)
      (simp add: other_server_def fresh_server_def vector_state_def other_vector_def)
qed

section \<open>Deleting nodes\<close>

lemma touches_insert: "touches c (insert i ids) e \<longleftrightarrow> touches c {i} e \<or> touches c ids e"
  by (auto simp: touches_def)

lemma delete_each_node:
  "distinct (map fst (ns_nodes (bs_state sv))) \<Longrightarrow>
   st_fold (\<lambda>deleted node_id. delete_node c node_id deleted) n ids sv =
     (with_state (\<lambda>st. st\<lparr>ns_nodes := filter (\<lambda>(k, _). k \<notin> native_key c ` set ids) (ns_nodes st),
        ns_edges := retain_values (\<lambda>e. \<not> touches c (set ids) e) (ns_edges st)\<rparr>) sv,
      Ok (n + card (native_key c ` set ids \<inter> fst ` set (ns_nodes (bs_state sv)))))"
proof (induction ids arbitrary: n sv)
  case Nil
  then show ?case by (simp add: st_ret_def with_state_def retain_values_def touches_def case_prod_unfold)
next
  case (Cons i ids)
  let ?m = "ns_nodes (bs_state sv)" and ?k = "native_key c i"
  let ?n = "if map_of ?m ?k \<noteq> None then n + 1 else n"
  obtain sv' where step: "delete_node c i n sv = (sv', Ok ?n)"
    and sv': "sv' = with_state (\<lambda>st. st\<lparr>ns_nodes := hash_remove ?k (ns_nodes st),
      ns_edges := retain_values (\<lambda>e. \<not> touches c {i} e) (ns_edges st)\<rparr>) sv"
    by (simp add: delete_node_def Let_def)
  have nodes: "ns_nodes (bs_state sv') = filter (\<lambda>(k, _). k \<noteq> ?k) ?m" by (simp add: sv' with_state_def hash_remove_def)
  then have d: "distinct (map fst (ns_nodes (bs_state sv')))" using Cons.prems by (simp add: distinct_map_filter)
  have keys: "fst ` set (ns_nodes (bs_state sv')) = fst ` set ?m - {?k}" unfolding nodes by force
  let ?A = "native_key c ` set ids \<inter> (fst ` set ?m - {?k})"
  have "native_key c ` set (i # ids) \<inter> fst ` set ?m = (if ?k \<in> fst ` set ?m then insert ?k ?A else ?A)" by auto
  then have "?n + card ?A = n + card (native_key c ` set (i # ids) \<inter> fst ` set ?m)"
    by (simp add: map_of_eq_None_iff)
  moreover have "filter (\<lambda>(k, _). k \<notin> native_key c ` set ids) (hash_remove ?k m) =
      filter (\<lambda>(k, _). k \<notin> native_key c ` set (i # ids)) m" for m :: "(string \<times> native_node) list"
    by (auto simp: hash_remove_def intro: filter_cong)
  moreover have "retain_values (\<lambda>e. \<not> touches c (set ids) e) (retain_values (\<lambda>e. \<not> touches c {i} e) m) =
      retain_values (\<lambda>e. \<not> touches c (set (i # ids)) e) m" for m
    unfolding list.set touches_insert [of c i "set ids"] by (auto simp: retain_values_def intro: filter_cong)
  ultimately show ?case using Cons.IH [OF d, of ?n] unfolding keys
    by (simp add: st_then_def step sv' with_state_def)
qed

text \<open>C26:
  Deleting nodes removes exactly the named nodes of the corpus and exactly the edges of the corpus that touch
  one of them, so that no edge is left hanging; the count is that of the nodes that were there, also if a
  node is named twice.
\<close>

theorem delete_nodes_leaves_no_edge:
  assumes "store_keys (bs_state sv)"
  shows "let c = str_param params ''corpusId''; ids = set (List.map_filter json_str (array_param params ''nodeIds''));
      st = bs_state sv; sv' = fst (delete_nodes params sv)
    in snd (delete_nodes params sv) = Ok (json_count (card (native_key c ` ids \<inter> fst ` set (ns_nodes st)))) \<and>
      bs_state sv' = st\<lparr>ns_nodes := filter (\<lambda>(k, _). k \<notin> native_key c ` ids) (ns_nodes st),
        ns_edges := filter (\<lambda>(_, e). \<not> touches c ids e) (ns_edges st)\<rparr> \<and> caches_ok sv'"
  using store_distinct(1) [OF assms]
  by (simp add: delete_nodes_def st_then_def delete_each_node st_modify_def st_ret_def Let_def dirty_ok)
    (simp add: mark_cache_dirty_def with_state_def retain_values_def)

section \<open>Requests and commits\<close>

type_synonym stored = "native_server \<times> blob_dir \<times> vector_blob_descriptor list"

text \<open>
  A commit publishes the segment of the next generation under a name that is new and passes the name check (an
  odd file stem of the database may fail it, which the code does not test), and installs its references. The
  handlers of the store may run before it in any order, also with errors.
\<close>

inductive commits :: "(string \<Rightarrow> string) \<Rightarrow> string \<Rightarrow> u64 \<Rightarrow> u64 \<Rightarrow> stored \<Rightarrow> stored \<Rightarrow> bool"
  for sha stem compact_at max_bytes where
  "checked_add (ns_generation (bs_state sv)) 1 = Some gen \<Longrightarrow>
   prepare_blob sha stem compact_at max_bytes (owner ds sv) gen = Ok pb \<Longrightarrow>
   dir (vd_basename (pb_descriptor pb)) = Err e \<Longrightarrow>
   validate_blob_basename (vd_basename (pb_descriptor pb)) = Ok () \<Longrightarrow> utf8_error 0 (vd_basename (pb_descriptor pb)) = None \<Longrightarrow>
   bo = install_generation pb gen evidence (owner ds sv) \<Longrightarrow>
   commits sha stem compact_at max_bytes (sv, dir, ds) (sv\<lparr>bs_state := bo_state bo\<rparr>, publish_file pb dir, bo_lineage bo)"

inductive store_step ::
  "(string list \<Rightarrow> string list) \<Rightarrow> native_serde \<Rightarrow> (string \<Rightarrow> string) \<Rightarrow> string \<Rightarrow> u64 \<Rightarrow> u64 \<Rightarrow> stored \<Rightarrow> stored \<Rightarrow> bool"
  for ro sd sha stem compact_at max_bytes where
  request: "(name, handler) \<in> set (store_handlers ro sd) \<Longrightarrow>
    store_step ro sd sha stem compact_at max_bytes (sv, dir, ds) (fst (handler params sv), dir, ds)"
| commit: "commits sha stem compact_at max_bytes s s' \<Longrightarrow> store_step ro sd sha stem compact_at max_bytes s s'"

definition stored_inv :: "(string \<Rightarrow> string) \<Rightarrow> u64 \<Rightarrow> stored \<Rightarrow> bool" where
  "stored_inv sha max_bytes = (\<lambda>(sv, dir, ds). store_keys (bs_state sv) \<and> blob_inv sha dir max_bytes (owner ds sv))"

lemma owner_fields [simp]: "bo_state (owner ds sv) = bs_state sv" "bo_values (owner ds sv) = bs_vector_values sv" "bo_lineage (owner ds sv) = ds"
  by (simp_all add: owner_def)

lemma installed_owner:
  "bo = install_generation pb gen evidence (owner ds sv) \<Longrightarrow> owner (bo_lineage bo) (sv\<lparr>bs_state := bo_state bo\<rparr>) = bo"
  by (simp add: owner_def install_generation_def)

lemma installed_keys: "store_keys (bs_state sv) \<Longrightarrow> store_keys (bo_state (install_generation pb gen evidence (owner ds sv)))"
  by (auto simp: store_keys_def keyed_def install_generation_def comp_def case_prod_unfold split: option.splits)

lemma commit_keeps:
  assumes "commits sha stem compact_at max_bytes s s'" "stored_inv sha max_bytes s"
  shows "stored_inv sha max_bytes s'"
  using assms
proof (cases rule: commits.cases)
  case (1 sv gen ds pb dir e bo evidence)
  have "blob_inv sha dir max_bytes (owner ds sv)" using assms(2) 1 by (simp add: stored_inv_def)
  from publish_keeps_vectors_loadable [OF this _ 1(4-7), of evidence] 1(3)
  have "blob_inv sha (publish_file pb dir) max_bytes bo" by (simp add: 1(8))
  then show ?thesis using assms(2) 1(1,2) installed_owner [OF 1(8)] installed_keys [of sv pb gen evidence ds]
    by (simp add: stored_inv_def 1(8))
qed

lemma step_keeps:
  assumes "store_step ro sd sha stem compact_at max_bytes s s'" "stored_inv sha max_bytes s" "iteration_order ro"
    and "\<And>r v. sd_vector sd r = Ok v \<Longrightarrow> list_all f64_normal (vr_values v)"
  shows "stored_inv sha max_bytes s'"
  using assms(1)
proof cases
  case (request name handler sv dir ds params)
  from keyed_store.handler_keeps [OF request(3), of params] published_store.handler_keeps
      [OF request(3) assms(4), where sha = sha and dir = dir and max_bytes = max_bytes and lineage = ds and params = params]
  show ?thesis using assms(2,3) by (auto simp: stored_inv_def keeps_def request)
qed (use assms(2) commit_keeps in blast)

text \<open>C12:
  Take a store whose committed generation can be loaded. After any of the requests of \<open>store_handlers\<close>, failing ones included, and any
  commits, the next such commit publishes a generation that loads back exactly the values of the vectors that the
  server holds.
\<close>

theorem every_commit_publishes_the_live_vectors:
  assumes "iteration_order ro" "\<forall>r v. sd_vector sd r = Ok v \<longrightarrow> list_all f64_normal (vr_values v)"
    and "stored_inv sha max_bytes start" "(store_step ro sd sha stem compact_at max_bytes)\<^sup>*\<^sup>* start s"
    and "commits sha stem compact_at max_bytes s (sv', dir', ds')"
  shows "load_vector_lineage sha dir' max_bytes (bs_state sv') =
    Ok (ds', bs_vector_values sv' |` (fst ` set (ns_vectors (bs_state sv'))))"
proof -
  have inv: "stored_inv sha max_bytes s"
    using assms(4) by induction (use assms(1-3) step_keeps in blast)+
  from assms(5) show ?thesis
  proof (cases rule: commits.cases)
    case (1 sv gen ds pb dir e bo evidence)
    have inv: "blob_inv sha dir max_bytes (owner ds sv)" using inv 1 by (simp add: stored_inv_def)
    from published_loads [OF this _ 1(6-9), of evidence] 1(5)
    show ?thesis by (auto simp: 1 install_generation_def image_image case_prod_unfold)
  qed
qed

section \<open>A run\<close>

definition graph_server :: native_server where
  "graph_server = fresh_server ((vector_state [])\<lparr>
     ns_nodes := map (\<lambda>i. (native_key ''c'' i, \<lparr>gn_node_id = i, gn_corpus_id = ''c'', gn_layer = [], gn_ref = JNull, gn_label = []\<rparr>)) [''x'', ''y''],
     ns_edges := [(''c:e'', \<lparr>ge_edge_id = ''e'', ge_corpus_id = ''c'', source_node_id = ''x'', target_node_id = ''y'', ge_relation = ''r'',
        ge_weight = one64, bridge_kind = None\<rparr>)]\<rparr>) Map.empty"

definition delete_x :: json where
  "delete_x = JObject [(''corpusId'', JString ''c''), (''nodeIds'', JArray [JString ''x'', JString ''x''])]"

theorem delete_nodes_leaves_no_edge_witness:
  "snd (delete_nodes delete_x graph_server) = Ok (json_count 1) \<and> ns_edges (bs_state (fst (delete_nodes delete_x graph_server))) = [] \<and>
   map fst (ns_nodes (bs_state (fst (delete_nodes delete_x graph_server)))) = [''c:y'']"
proof -
  have keys: "store_keys (bs_state graph_server)"
    by (simp add: graph_server_def fresh_server_def vector_state_def store_keys_def keyed_def native_key_def)
  have params: "str_param delete_x ''corpusId'' = ''c''" "List.map_filter json_str (array_param delete_x ''nodeIds'') = [''x'', ''x'']"
    by (simp_all add: delete_x_def str_param_def array_param_def json_get_def json_str_def as_array_def List.map_filter_simps)
  show ?thesis using delete_nodes_leaves_no_edge [OF keys, of delete_x] unfolding params Let_def
    by (simp add: graph_server_def fresh_server_def vector_state_def native_key_def touches_def)
qed

definition run_serde :: native_serde where
  "run_serde = \<lparr>sd_node = (\<lambda>_. Err ''node''), sd_edge = (\<lambda>_. Err ''edge''), sd_vector = (\<lambda>_. Err ''vector''),
     sd_node_json = (\<lambda>n. JString (gn_node_id n)), sd_edge_json = (\<lambda>e. JString (ge_edge_id e))\<rparr>"

definition vector_server :: native_server where
  "vector_server = fresh_server (bo_state (sample_store None)) (bo_values (sample_store None))"

definition committed_run :: stored where
  "committed_run =
     (let bo = install_generation (sample_blob (sample_store None)) 1 sample_stored_evidence (sample_store None) in
      ((mark_cache_dirty vector_server)\<lparr>bs_state := bo_state bo\<rparr>, publish_file (sample_blob (sample_store None)) (\<lambda>_. Err ''no such file''),
       bo_lineage bo))"

lemma vector_server_owner: "owner [] vector_server = sample_store None" "owner [] (mark_cache_dirty vector_server) = sample_store None"
  by (simp_all add: owner_def vector_server_def fresh_server_def mark_cache_dirty_def sample_store_def)

lemma vector_server_commits:
  "commits sample_sha ''db'' COMPACT_AT_LINEAGE_BYTES MAX_VECTOR_BLOB_LINEAGE_BYTES (mark_cache_dirty vector_server, \<lambda>_. Err ''no such file'', [])
     committed_run"
proof -
  have "checked_add (ns_generation (bs_state (mark_cache_dirty vector_server))) 1 = Some 1"
    by (simp add: vector_server_def fresh_server_def mark_cache_dirty_def sample_store_def checked_add_def)
  from commits.intros [OF this, where ds = "[]", unfolded vector_server_owner, OF conjunct1 [OF sample_prepared]] sample_prepared sample_name
  show ?thesis by (simp add: committed_run_def Let_def)
qed

lemma vector_server_request:
  "store_step (\<lambda>ks. ks) run_serde sample_sha ''db'' COMPACT_AT_LINEAGE_BYTES MAX_VECTOR_BLOB_LINEAGE_BYTES
     (vector_server, \<lambda>_. Err ''no such file'', []) (mark_cache_dirty vector_server, \<lambda>_. Err ''no such file'', [])"
proof -
  have "(''delete_nodes'', delete_nodes) \<in> set (store_handlers (\<lambda>ks. ks) run_serde)" by (simp add: store_handlers_def)
  moreover have "fst (delete_nodes (JObject []) vector_server) = mark_cache_dirty vector_server"
    by (simp add: delete_nodes_def app_defs array_param_def json_get_def List.map_filter_simps)
  ultimately show ?thesis using store_step.request [where params = "JObject []" and handler = delete_nodes and name = "''delete_nodes''"] by metis
qed

theorem every_commit_publishes_the_live_vectors_witness:
  "load_vector_lineage sample_sha (fst (snd committed_run)) MAX_VECTOR_BLOB_LINEAGE_BYTES (bs_state (fst committed_run)) =
    Ok (snd (snd committed_run), [''c:v'' \<mapsto> [f64_zero False]] |` {''c:v''})"
proof -
  have keys: "store_keys (bs_state vector_server)"
    by (simp add: vector_server_def fresh_server_def sample_store_def sample_vector_def store_keys_def keyed_def native_key_def)
  have inv: "stored_inv sample_sha MAX_VECTOR_BLOB_LINEAGE_BYTES (vector_server, \<lambda>_. Err ''no such file'', [])"
    using sample_inv keys by (simp add: stored_inv_def vector_server_owner)
  have serde: "\<forall>r v. sd_vector run_serde r = Ok v \<longrightarrow> list_all f64_normal (vr_values v)" by (simp add: run_serde_def)
  obtain sv dir ds where c: "committed_run = (sv, dir, ds)" by (cases committed_run)
  note run = r_into_rtranclp [where r = "store_step (\<lambda>ks. ks) run_serde sample_sha ''db'' COMPACT_AT_LINEAGE_BYTES MAX_VECTOR_BLOB_LINEAGE_BYTES",
      OF vector_server_request]
  from every_commit_publishes_the_live_vectors [OF iteration_order_id serde inv run vector_server_commits [unfolded c]]
  show ?thesis using c
    by (simp add: committed_run_def Let_def install_generation_def vector_server_def fresh_server_def mark_cache_dirty_def sample_store_def)
      (auto simp: sample_store_def)
qed

end
