(* ===== verification/Spec2Isabelle.thy ===== *)
theory Spec2Isabelle
  imports Query_Properties Server_Properties Native_Audit Native_Persistence Retrieval_Objects_Correct
    Contract_Sample Refinement_Assertions Retrieval_Sample Vector_Properties Native_Properties
begin

text \<open>
  A verification library for the graph database aira-graphdb (Rust, \<^verbatim>\<open>src/src\<close>).

  \<^bold>\<open>The program.\<close> The database keeps a property graph in memory (\<^verbatim>\<open>graph.rs\<close>), evaluates a subset of
  Cypher on it (\<^verbatim>\<open>query.rs\<close>), writes a snapshot and a write-ahead log per commit (\<^verbatim>\<open>storage.rs\<close>), runs
  optimistic transactions on private copies of the graph (\<^verbatim>\<open>tx.rs\<close>), excludes other processes with
  a lock file (\<^verbatim>\<open>lock.rs\<close>), opens a database embedded or as a server (\<^verbatim>\<open>runtime.rs\<close>) and serves JSON
  lines over TCP to authenticated clients (\<^verbatim>\<open>server.rs\<close>, \<^verbatim>\<open>protocol.rs\<close>, \<^verbatim>\<open>auth.rs\<close>). Errors and their
  registry are in \<^verbatim>\<open>errors.rs\<close>, the shipped contract documents in \<^verbatim>\<open>contracts.rs\<close>. Beside the server there is a
  native process (\<^verbatim>\<open>bin/\<close>): its audit records are in \<^verbatim>\<open>audit.rs\<close>, the evidence and progress frames of its
  commits in \<^verbatim>\<open>native_persistence_contract.rs\<close>, and its bounded retrieval, which accounts for every unit
  of work, time and memory, in \<^verbatim>\<open>bounded_retrieval_contract.rs\<close>, \<^verbatim>\<open>bounded_retrieval_runtime.rs\<close> and
  \<^verbatim>\<open>unicode16_lowercase.rs\<close>.

  \<^bold>\<open>Theories and sources.\<close>

  \<^item> \<open>Prelude\<close>, \<open>Rust_Str\<close>, \<open>Str_Facts\<close>, \<open>F64\<close>: results with panics, the string functions of the Rust
    library on bytes, IEEE doubles as bit patterns, and the lemmas about them.
  \<^item> \<open>Contracts\<close>, \<open>Errors\<close>, \<open>Graph\<close>: \<^verbatim>\<open>contracts.rs\<close>, \<^verbatim>\<open>errors.rs\<close>, \<^verbatim>\<open>graph.rs\<close>. The store is a record of
    finite maps with 64-bit counters; the locale \<open>graph_contract\<close> states what the operations of the
    store keep of an invariant, and is interpreted by consistency and by the absence of new edges.
  \<^item> \<open>Query_Syntax\<close>, \<open>Query_Exec\<close>, \<open>Query\<close>: \<^verbatim>\<open>query.rs\<close>, in the order of the source; the evaluator is a
    mutual recursion on the length of the query. The iteration order of hash maps is a parameter.
    \<open>Query_Correct\<close>, \<open>Query_Clauses\<close> and \<open>Query_Properties\<close> hold its lemmas and properties.
  \<^item> \<open>Files\<close>: the file system as a finite map, with a list of faults that decides for each call
    whether and after how many bytes it fails; the clock; paths; UTF-8.
  \<^item> \<open>Storage\<close>, \<open>Storage_Correct\<close>, \<open>Storage_Properties\<close>: \<^verbatim>\<open>storage.rs\<close>. \<open>bincode\<close> and \<open>serde_json\<close> are the
    parameter \<open>codec\<close>; \<open>codec_ok\<close> names what is used of them (deserializing undoes serializing, no
    JSON document starts with A, an event is one line of UTF-8 in braces). The locale \<open>durable_store\<close>
    is the contract with the transaction manager.
  \<^item> \<open>Tx\<close>, \<open>Tx_Properties\<close>: \<^verbatim>\<open>tx.rs\<close>, its operations and their interleavings as the step relation
    \<open>tx_step\<close>, and with commits that fail in storage or panic as \<open>tx_exec\<close>; the locale \<open>disk_view\<close> transports a view of the disk along executions, and is
    interpreted by what recovery reads, what opening reads, and by files of others.
  \<^item> \<open>Lock\<close>, \<open>Protocol\<close>, \<open>Auth\<close>, \<open>Runtime\<close>, \<open>Native_Audit\<close>: \<^verbatim>\<open>lock.rs\<close>, \<^verbatim>\<open>protocol.rs\<close>, \<^verbatim>\<open>auth.rs\<close>, \<^verbatim>\<open>runtime.rs\<close>,
    \<^verbatim>\<open>audit.rs\<close>.
  \<^item> \<open>Server\<close>, \<open>Server_Correct\<close>, \<open>Server_Properties\<close>: \<^verbatim>\<open>server.rs\<close>. A handler locks the mutex of the
    runtime at most once, so connections interleave at whole requests (\<open>server_step\<close>). The relation
    \<open>effect\<close> is the abstract specification of a request, which every handler is proved to meet.

  \<^item> \<open>U64\<close>, \<open>Json\<close>, \<open>Stateful\<close>, \<open>Ordering\<close>, \<open>Utf8\<close>: checked 64-bit arithmetic, JSON values, fallible code with
    state, comparison and binary search, and the characters of a string with their encodings.
  \<^item> \<open>Native_Persistence\<close>: \<^verbatim>\<open>native_persistence_contract.rs\<close>; JSON, base64 and SHA-256 are the parameter
    \<open>persistence_codec\<close>.
  \<^item> \<open>Bounded_Limits\<close>, \<open>Bounded_Limits_Correct\<close>: of \<^verbatim>\<open>bounded_retrieval_contract.rs\<close> the caps, the accounts, the
    deadline and the encoders; the serializer is the parameter \<open>frame_codec\<close>.
  \<^item> \<open>Iteration\<close>: loops that may return early, with the congruence rules for recursion through them.
  \<^item> \<open>Contract_Schema\<close>, \<open>Json_Pointer\<close>, \<open>Contract_Pointers\<close>, \<open>Refinement_IR\<close>, \<open>Refinement_Eval\<close>: of
    \<^verbatim>\<open>bounded_retrieval_contract.rs\<close> the schema language and its validator, JSON pointers on values and on
    schemas, the refinement expressions with their static checks, and their evaluator, a handler at a time.
    A reference of a schema is followed by recursion; \<open>depth\<close> is the number of references the stack holds,
    and running out of it is a panic. \<open>conforms\<close> is the declarative meaning of a schema.
  \<^item> \<open>Producer_Contract\<close>, \<open>Contract_Artifacts\<close>: the pins, the parsing of the contract, the verification of its
    fixture, manifest and files, the validation and admission of requests, and the protocol description.
    JSON decoding, SHA-256, the serializer, the file system view, the embedded bytes and the size of the
    stack are the parameters \<open>contract_env\<close> and \<open>dir_view\<close>.
  \<^item> The \<open>_Correct\<close> theories of these, \<open>Refinement_Assertions\<close> and \<open>Contract_Sample\<close> hold the lemmas, the
    properties, and a contract with the node declarations of the embedded one as instance.
  \<^item> \<open>Retrieval_Ranking\<close>, \<open>Retrieval_Objects\<close> and their \<open>_Correct\<close> theories: of \<^verbatim>\<open>bounded_retrieval_runtime.rs\<close>
    the support code, that is failures, the deadline of an execution, the ranking heap, the counted
    merge sort, normalization and copies. The locale \<open>rank_heap\<close> is what is used of \<^verbatim>\<open>BinaryHeap\<close>. The clock
    is the sequence of its readings.
  \<^item> \<open>Unicode16_Table\<close>, \<open>Unicode16\<close>, \<open>Unicode16_Table_Facts\<close>, \<open>Unicode16_Correct\<close>: \<^verbatim>\<open>unicode16_lowercase.rs\<close> and its
    generated table, row by row.
  \<^item> \<open>F64_Math\<close>, \<open>F64_Bits\<close>, \<open>Le_Bytes\<close>, \<open>Stateful_Loops\<close>: square root and rounding, the bytes of a double, little-endian
    integers, and loops of fallible code with the logic \<open>post\<close>: never a panic, and what is returned satisfies a property.
  \<^item> \<open>Native_State\<close>, \<open>Bounded_Server\<close>, \<open>Bounded_Search\<close>, \<open>Bounded_Ppr\<close>: the canonical state of the native process, and of
    \<^verbatim>\<open>bounded_retrieval_runtime.rs\<close> session deadlines, the catalog, candidate search, fact expansion and the graph
    operation. A hash map is the list of its entries in the order of its iteration. \<^verbatim>\<open>f64::log2\<close>, whose precision Rust
    leaves open, is a field of the parameter \<open>retrieval_env\<close>. \<open>Bounded_Steps\<close>, \<open>Ppr_Correct\<close>, \<open>Retrieval_Runs\<close> and
    \<open>Retrieval_Sample\<close> hold their lemmas, the properties, and runs on a small store.
  \<^item> \<open>Vector_Blob\<close>: of \<^verbatim>\<open>aira-graphdb-native.rs\<close> the files that hold the vectors: headers with parent links, segments,
    the walk along a lineage, the decision to compact and the publication of a generation. SHA-256 and the directory
    are parameters; the directory gives the size and the content of a name, or an error.
    \<open>Vector_Codec_Correct\<close>, \<open>Vector_Lineage\<close>, \<open>Vector_Publish\<close> and \<open>Vector_Properties\<close> hold the lemmas and properties.
  \<^item> \<open>Native_Store\<close>, \<open>Vector_Search\<close>: of \<^verbatim>\<open>aira-graphdb-native.rs\<close> the caches of the server, the requests on nodes, edges, vectors,
    passages and projections, and the exact vector search, whose threads share no state. The conversions of serde are
    the parameter \<open>native_serde\<close>, the order of a hash map after an insertion and the number of threads are parameters too. The
    locale \<open>store_contract\<close> lists the elementary changes that requests make; it is interpreted by the keys of the
    stored records and by what publication needs of the vectors. The locale \<open>scored_heap\<close> is what is used of the heap of
    a search. \<open>Native_Store_Correct\<close> and \<open>Native_Properties\<close> hold the lemmas, the properties and small stores.

  \<^bold>\<open>What is shown.\<close> Queries keep the graph consistent, do what the clauses promise and do not panic
  on ASCII text without CASE and WITH; commits are durable and safe against crashes at any byte;
  interleaved transactions are serializable with the first committer winning; the lock excludes
  other processes and is released; a server answers only authenticated sessions, refines the
  transaction manager and hands its committed graph to the next process. The counted sort
  is the stable sort and stays within its budget, the bounded heap keeps the best entries, responses
  state their own length, deadlines are enforced, lowercasing follows the table, and the canonical
  bytes of commit evidence identify it. The schema validator decides conformance, a pointer checked
  against a schema finds a value of the stated schema in every conforming value, validated expressions
  never panic, a parsed contract keeps requests independent of results, a verified fixture shows that no
  assertion is redundant, and ranked hits satisfy the order the contract asserts. Candidate search
  returns the best stored vectors, the graph operation returns what a reference iteration gives, and neither
  panics. After any store requests and commits of the native process the next published generation of
  vectors loads back exactly, and whatever loads is a validated chain of files; the parallel vector search is the
  sequential one, and deleted nodes leave no edges behind. Some properties record
  behaviour that departs from the documentation; they are listed as findings of the manifest.

  \<^bold>\<open>Bounds.\<close> Counters are 64-bit words; theorems that need them not to wrap say so. There is no fuel:
  every loop is a terminating function.

  \<^bold>\<open>Not modelled.\<close> Sockets and threads are the inputs of \<open>connection_turn\<close> and the interleavings of
  \<open>server_step\<close>; \<^verbatim>\<open>accept\<close> errors end the server and are left out. Of the bounded retrieval the dispatch of
  frames (\<^verbatim>\<open>handle_bounded_frame\<close>, \<^verbatim>\<open>execute_bounded\<close>) is not modelled: it passes a normalizer with state of its own
  to the contract. Of the native process the validation before dispatch, the write-ahead log, the memory operations
  (with \<^verbatim>\<open>memory_delete_document.rs\<close>), lexical search (it needs the lowercase table of the Rust library), Cypher requests,
  projection pages, the canonical JSON file and the descriptor mode are not modelled; neither are
  progress reports and temporary files of a commit, the conformance runner (\<^verbatim>\<open>conformance.rs\<close>), the benchmarks
  and the watchdog (\<^verbatim>\<open>bench.rs\<close>, \<^verbatim>\<open>native_bench.rs\<close>, \<^verbatim>\<open>watchdog.rs\<close>) and the SDK.
\<close>

section \<open>The server from start to restart\<close>




end
